(* ===== verification/Prelude.thy ===== *)
theory Prelude
  imports Main "HOL-Library.List_Lexorder" "HOL-Library.Char_ord" "HOL-Library.AList"
    "HOL-Library.Multiset"
begin

text \<open>
  Shared vocabulary of the development.  A function of the source that may throw returns
  a value of the sum type \<open>'e + 'a\<close>: \<open>Inl e\<close> is the thrown error,
  \<open>Inr x\<close> the value returned.  This theory holds the sequencing operators for such results,
  the list and map operations the components share (first match by index, JavaScript string
  trimming, insertion-ordered maps), their lemmas, and the locale of a reducer that folds
  a list of inputs over a state.
\<close>

section \<open>Lemma collections\<close>

named_theorems result_simps \<open>inversion of sequenced computations\<close>
named_theorems guard_simps \<open>inversion of guards and finite checks\<close>

section \<open>Results\<close>

type_synonym ident = string

text \<open>Sequencing: the second computation runs only when the first one returned.\<close>

definition and_then :: "'e + 'a \<Rightarrow> ('a \<Rightarrow> 'e + 'b) \<Rightarrow> 'e + 'b" where
  "and_then r f = (case r of Inl e \<Rightarrow> Inl e | Inr x \<Rightarrow> f x)"

text \<open>A guard \<open>if (!c) throw e\<close>.\<close>

definition require :: "bool \<Rightarrow> 'e \<Rightarrow> 'e + unit" where
  "require c e = (if c then Inr () else Inl e)"

definition is_ok :: "'e + 'a \<Rightarrow> bool" where
  "is_ok r = (case r of Inl _ \<Rightarrow> False | Inr _ \<Rightarrow> True)"

text \<open>An exception handler that maps the error.\<close>

definition map_error :: "('e \<Rightarrow> 'f) \<Rightarrow> 'e + 'a \<Rightarrow> 'f + 'a" where
  "map_error f r = (case r of Inl e \<Rightarrow> Inl (f e) | Inr x \<Rightarrow> Inr x)"

lemma and_then_simps [simp]:
  "and_then (Inl e) f = Inl e"
  "and_then (Inr x) f = f x"
  by (simp_all add: and_then_def)

lemma and_then_Inr_iff [result_simps]:
  "and_then r f = Inr y \<longleftrightarrow> (\<exists>x. r = Inr x \<and> f x = Inr y)"
  by (cases r) auto

lemma and_then_Inl_iff [result_simps]:
  "and_then r f = Inl e \<longleftrightarrow> r = Inl e \<or> (\<exists>x. r = Inr x \<and> f x = Inl e)"
  by (cases r) auto

lemma and_thenE: "and_then r f = Inr y \<Longrightarrow> (\<And>x. r = Inr x \<Longrightarrow> f x = Inr y \<Longrightarrow> P) \<Longrightarrow> P"
  by (cases r) auto

lemma and_then_assoc: "and_then (and_then r f) g = and_then r (\<lambda>x. and_then (f x) g)"
  by (cases r) auto

lemma and_then_cong [fundef_cong]:
  "r = r' \<Longrightarrow> (\<And>x. r' = Inr x \<Longrightarrow> f x = f' x) \<Longrightarrow> and_then r f = and_then r' f'"
  by (cases r') auto

lemma require_simps [simp]:
  "require True e = Inr ()"
  "require False e = Inl e"
  by (simp_all add: require_def)

lemma require_Inr_iff [result_simps]: "require c e = Inr u \<longleftrightarrow> c"
  by (simp add: require_def)

lemma require_Inl_iff [result_simps]: "require c e = Inl e' \<longleftrightarrow> \<not> c \<and> e' = e"
  by (auto simp: require_def)

lemma is_ok_simps [simp]: "is_ok (Inr x)" "\<not> is_ok (Inl e)"
  by (simp_all add: is_ok_def)

lemma is_ok_iff [result_simps]: "is_ok r \<longleftrightarrow> (\<exists>x. r = Inr x)"
  by (cases r) auto

lemma map_error_simps [simp]:
  "map_error f (Inl e) = Inl (f e)"
  "map_error f (Inr x) = Inr x"
  by (simp_all add: map_error_def)

lemma map_error_Inr_iff [result_simps]: "map_error f r = Inr x \<longleftrightarrow> r = Inr x"
  by (cases r) auto

section \<open>Loops over lists that may throw\<close>

text \<open>A \<open>for\<close> loop whose body updates a state and may throw.\<close>

fun fold_res :: "('s \<Rightarrow> 'x \<Rightarrow> 'e + 's) \<Rightarrow> 's \<Rightarrow> 'x list \<Rightarrow> 'e + 's" where
  "fold_res f s [] = Inr s"
| "fold_res f s (x # xs) = and_then (f s x) (\<lambda>s'. fold_res f s' xs)"

text \<open>A \<open>map\<close> whose callback may throw.\<close>

fun map_res :: "('x \<Rightarrow> 'e + 'y) \<Rightarrow> 'x list \<Rightarrow> 'e + 'y list" where
  "map_res f [] = Inr []"
| "map_res f (x # xs) = and_then (f x) (\<lambda>y. and_then (map_res f xs) (\<lambda>ys. Inr (y # ys)))"

text \<open>A \<open>for\<close> loop that only checks.\<close>

fun check_all :: "('x \<Rightarrow> 'e + unit) \<Rightarrow> 'x list \<Rightarrow> 'e + unit" where
  "check_all f [] = Inr ()"
| "check_all f (x # xs) = and_then (f x) (\<lambda>_. check_all f xs)"

lemma fold_res_append:
  "fold_res f s (xs @ ys) = and_then (fold_res f s xs) (\<lambda>s'. fold_res f s' ys)"
  by (induction xs arbitrary: s) (simp_all add: and_then_assoc)

lemma and_then_Inr [simp]: "and_then r Inr = r"
  by (cases r) auto

lemma fold_res_snoc: "fold_res f s (xs @ [x]) = and_then (fold_res f s xs) (\<lambda>s'. f s' x)"
  by (simp add: fold_res_append)

lemma fold_res_invariant:
  assumes "fold_res f s xs = Inr t" and "P s"
    and "\<And>s x s'. x \<in> set xs \<Longrightarrow> f s x = Inr s' \<Longrightarrow> P s \<Longrightarrow> P s'"
  shows "P t"
  using assms by (induction xs arbitrary: s) (auto simp: result_simps)

lemma fold_res_cong [fundef_cong]:
  "s = s' \<Longrightarrow> xs = ys \<Longrightarrow> (\<And>t x. x \<in> set ys \<Longrightarrow> f t x = g t x)
   \<Longrightarrow> fold_res f s xs = fold_res g s' ys"
proof (induction ys arbitrary: s s' xs)
  case (Cons y ys)
  then show ?case by (auto intro: and_then_cong)
qed simp

lemma map_res_Inr_iff [result_simps]:
  "map_res f xs = Inr ys \<longleftrightarrow> list_all2 (\<lambda>x y. f x = Inr y) xs ys"
  by (induction xs arbitrary: ys) (auto simp: result_simps list_all2_Cons1)

lemma check_all_Inr_iff [result_simps]: "check_all f xs = Inr u \<longleftrightarrow> (\<forall>x\<in>set xs. f x = Inr ())"
  by (induction xs) (auto simp: result_simps)

section \<open>First match by index\<close>

text \<open>
  \<open>xs.find(P)\<close> on an array of mutable objects yields a reference into the array; the model
  keeps the reference as the index of the first match, so that a later write through
  the reference is a list update at that index.
\<close>

fun find_index :: "('a \<Rightarrow> bool) \<Rightarrow> 'a list \<Rightarrow> nat option" where
  "find_index P [] = None"
| "find_index P (x # xs) = (if P x then Some 0 else map_option Suc (find_index P xs))"

definition modify_at :: "nat \<Rightarrow> ('a \<Rightarrow> 'a) \<Rightarrow> 'a list \<Rightarrow> 'a list" where
  "modify_at i f xs = xs[i := f (xs ! i)]"

lemma find_index_SomeD:
  "find_index P xs = Some i \<Longrightarrow> i < length xs \<and> P (xs ! i)"
  by (induction xs arbitrary: i) (auto split: if_splits)

lemma find_index_None_iff: "find_index P xs = None \<longleftrightarrow> (\<forall>x\<in>set xs. \<not> P x)"
  by (induction xs) auto

lemma find_index_Some_mem: "find_index P xs = Some i \<Longrightarrow> xs ! i \<in> set xs"
  using find_index_SomeD nth_mem by blast

lemma length_modify_at [simp]: "length (modify_at i f xs) = length xs"
  by (simp add: modify_at_def)

lemma map_modify_at:
  "(\<And>x. g (f x) = g x) \<Longrightarrow> map g (modify_at i f xs) = map g xs"
  by (cases "i < length xs") (auto simp: modify_at_def map_update intro: nth_equalityI
      simp: nth_list_update)

lemma nth_modify_at:
  "j < length xs \<Longrightarrow> modify_at i f xs ! j = (if i = j then f (xs ! j) else xs ! j)"
  by (simp add: modify_at_def nth_list_update)

section \<open>JavaScript strings and truthiness\<close>

text \<open>
  Strings are lists of 8-bit code units.  \<open>js_space\<close> lists the white space that
  \<open>String.prototype.trim\<close> removes within that range.
\<close>

definition js_space :: "char \<Rightarrow> bool" where
  "js_space c \<longleftrightarrow> (of_char c :: nat) \<in> {9, 10, 11, 12, 13, 32, 160}"

definition trim :: "string \<Rightarrow> string" where
  "trim s = rev (dropWhile js_space (rev (dropWhile js_space s)))"

text \<open>\<open>toLowerCase\<close>: within 8 bits, the capitals of ASCII and Latin-1 are 32 below their small letters.\<close>

definition lower_char :: "char \<Rightarrow> char" where
  "lower_char c =
     (let n = of_char c :: nat in
      if (65 \<le> n \<and> n \<le> 90) \<or> (192 \<le> n \<and> n \<le> 222 \<and> n \<noteq> 215) then char_of (n + 32) else c)"

definition to_lower :: "string \<Rightarrow> string" where
  "to_lower s = map lower_char s"

text \<open>An optional string is truthy when it is defined and not empty.\<close>

definition truthy :: "string option \<Rightarrow> bool" where
  "truthy x = (case x of None \<Rightarrow> False | Some s \<Rightarrow> s \<noteq> [])"

lemma dropWhile_rev_dropWhile:
  "dropWhile P (rev (dropWhile P (rev (dropWhile P xs)))) = rev (dropWhile P (rev (dropWhile P xs)))"
proof (cases "dropWhile P xs")
  case (Cons y ys)
  then have "\<not> P y" by (metis hd_dropWhile list.distinct(1) list.sel(1))
  with Cons show ?thesis
    by (simp add: dropWhile_append)
next
  case Nil
  then show ?thesis by (simp only: rev.simps dropWhile.simps)
qed

lemma trim_idem [simp]: "trim (trim s) = trim s"
  by (simp add: trim_def dropWhile_rev_dropWhile)

lemma truthy_simps [simp]:
  "\<not> truthy None" "truthy (Some s) \<longleftrightarrow> s \<noteq> []"
  by (simp_all add: truthy_def)

text \<open>\<open>Number.isSafeInteger\<close>\<close>

definition max_safe_integer :: int where
  "max_safe_integer = 9007199254740991"

definition safe_int :: "int \<Rightarrow> bool" where
  "safe_int n \<longleftrightarrow> - max_safe_integer \<le> n \<and> n \<le> max_safe_integer"

section \<open>Mapped filters\<close>

lemma map_filter_Nil [simp]: "List.map_filter f [] = []"
  by (simp add: List.map_filter_def)

lemma map_filter_Cons [simp]:
  "List.map_filter f (x # xs) =
     (case f x of None \<Rightarrow> List.map_filter f xs | Some y \<Rightarrow> y # List.map_filter f xs)"
  by (auto simp: List.map_filter_def split: option.splits)

lemma map_filter_append [simp]:
  "List.map_filter f (xs @ ys) = List.map_filter f xs @ List.map_filter f ys"
  by (simp add: List.map_filter_def)

lemma set_map_filter: "y \<in> set (List.map_filter f xs) \<longleftrightarrow> (\<exists>x\<in>set xs. f x = Some y)"
  by (auto simp: List.map_filter_def image_iff)

lemma distinct_map_filterD:
  assumes "distinct (List.map_filter f xs)" and "x \<in> set xs" "y \<in> set xs" and "f x = Some z" "f y = Some z"
    and "distinct xs"
  shows "x = y"
  using assms by (induction xs) (auto simp: set_map_filter split: option.splits)

lemma distinct_map_filterI:
  "distinct xs \<Longrightarrow> (\<And>x y z. x \<in> set xs \<Longrightarrow> y \<in> set xs \<Longrightarrow> f x = Some z \<Longrightarrow> f y = Some z \<Longrightarrow> x = y)
   \<Longrightarrow> distinct (List.map_filter f xs)"
proof (induction xs)
  case (Cons a xs)
  then have "distinct (List.map_filter f xs)" by (meson distinct.simps(2) list.set_intros(2))
  moreover have "\<And>y. f a = Some y \<Longrightarrow> y \<notin> set (List.map_filter f xs)"
    using Cons.prems by (fastforce simp: set_map_filter)
  ultimately show ?case by (auto split: option.splits)
qed simp

lemma map_filter_all_Some:
  "(\<And>x. x \<in> set xs \<Longrightarrow> f x \<noteq> None) \<Longrightarrow> List.map_filter f xs = map (\<lambda>x. the (f x)) xs"
proof (induction xs)
  case (Cons a xs)
  obtain y where "f a = Some y" using Cons.prems [of a] by auto
  moreover have "List.map_filter f xs = map (\<lambda>x. the (f x)) xs"
    by (rule Cons.IH) (simp add: Cons.prems)
  ultimately show ?case by simp
qed simp

lemma find_Some_distinct_key:
  assumes "distinct (map k xs)" and "x \<in> set xs"
  shows "find (\<lambda>y. k y = k x) xs = Some x"
  using assms by (induction xs) (auto simp: rev_image_eqI)

lemma distinct_key_eqD:
  "distinct (map f xs) \<Longrightarrow> x \<in> set xs \<Longrightarrow> y \<in> set xs \<Longrightarrow> f x = f y \<Longrightarrow> x = y"
  by (simp add: distinct_map inj_on_def)

section \<open>Permuted lists\<close>

lemma mset_map_filter: "mset xs = mset ys \<Longrightarrow> mset (List.map_filter f xs) = mset (List.map_filter f ys)"
  by (simp add: List.map_filter_def mset_filter)

lemma find_unique_mset:
  assumes "mset xs = mset ys" and "distinct (map k xs)"
  shows "find (\<lambda>x. k x = a) xs = find (\<lambda>x. k x = a) ys"
proof (cases "\<exists>x\<in>set xs. k x = a")
  case True
  then obtain x where x: "x \<in> set xs" "k x = a" by blast
  moreover have "x \<in> set ys" using x assms(1) by (metis mset_eq_setD)
  moreover have "distinct (map k ys)"
    using assms by (metis mset_eq_imp_distinct_iff mset_map)
  ultimately show ?thesis
    using assms(2) find_Some_distinct_key [of k xs x] find_Some_distinct_key [of k ys x] by auto
next
  case False
  then have "find (\<lambda>x. k x = a) xs = None" "find (\<lambda>x. k x = a) ys = None"
    using mset_eq_setD [OF assms(1)] by (auto simp: find_None_iff)
  then show ?thesis by simp
qed

section \<open>First occurrences\<close>

text \<open>\<open>[...new Set(xs)]\<close>: the members in the order of their first occurrence.\<close>

definition js_unique :: "'a list \<Rightarrow> 'a list" where
  "js_unique xs = rev (remdups (rev xs))"

lemma set_js_unique [simp]: "set (js_unique xs) = set xs"
  by (simp add: js_unique_def)

lemma distinct_js_unique [simp]: "distinct (js_unique xs)"
  by (simp add: js_unique_def)

text \<open>\<open>new Map(xs.map(x => [key x, x])).get(a)\<close>: the last entry of a key wins.\<close>

definition js_map_of :: "('a \<Rightarrow> 'k) \<Rightarrow> 'a list \<Rightarrow> 'k \<Rightarrow> 'a option" where
  "js_map_of key xs a = find (\<lambda>x. key x = a) (rev xs)"

lemma js_map_of_SomeD: "js_map_of key xs a = Some x \<Longrightarrow> x \<in> set xs \<and> key x = a"
  by (auto simp: js_map_of_def find_Some_iff) (metis nth_mem set_rev length_rev)

lemma js_map_of_distinct: "distinct (map key xs) \<Longrightarrow> js_map_of key xs a = find (\<lambda>x. key x = a) xs"
  unfolding js_map_of_def by (rule find_unique_mset [of "rev xs" xs key a]) (simp_all add: rev_map [symmetric])

lemma js_map_of_Some_iff:
  "distinct (map key xs) \<Longrightarrow> js_map_of key xs a = Some x \<longleftrightarrow> x \<in> set xs \<and> key x = a"
  using js_map_of_SomeD [of key xs a x] find_Some_distinct_key [of key xs x] by (auto simp: js_map_of_distinct)

section \<open>Reducers\<close>

text \<open>
  A reducer folds inputs over a state and may reject an input.  \<open>admissible\<close> is what a client
  guarantees about the inputs it sends in a state; the contract of a reducer is that every
  accepted admissible input keeps the invariant.
\<close>

inductive run_to :: "('s \<Rightarrow> 'i \<Rightarrow> 'e + 's) \<Rightarrow> ('s \<Rightarrow> 'i \<Rightarrow> bool) \<Rightarrow> 's \<Rightarrow> 's \<Rightarrow> bool"
  for step admissible where
  run_start: "run_to step admissible s s"
| run_step: "run_to step admissible s t \<Longrightarrow> admissible t i \<Longrightarrow> step t i = Inr u
     \<Longrightarrow> run_to step admissible s u"

inductive_cases run_toE: "run_to step admissible s t"

locale reducer =
  fixes step :: "'s \<Rightarrow> 'i \<Rightarrow> 'e + 's"
    and admissible :: "'s \<Rightarrow> 'i \<Rightarrow> bool"
    and inv :: "'s \<Rightarrow> bool"
  assumes step_inv: "inv s \<Longrightarrow> admissible s i \<Longrightarrow> step s i = Inr t \<Longrightarrow> inv t"
begin

lemma run_inv: "run_to step admissible s t \<Longrightarrow> inv s \<Longrightarrow> inv t"
  by (induction rule: run_to.induct) (auto intro: step_inv)

lemma fold_inv:
  assumes "fold_res step s is = Inr t" and "inv s" and "\<And>s i. i \<in> set is \<Longrightarrow> admissible s i"
  shows "inv t"
  using assms(1,2) by (rule fold_res_invariant [of step s "is" t inv]) (auto intro: step_inv assms(3))

end

lemma run_to_fold:
  assumes "fold_res step s is = Inr t" and "\<And>s i. i \<in> set is \<Longrightarrow> admissible s i"
  shows "run_to step admissible s t"
  using assms(1) run_start
  by (rule fold_res_invariant [of step s "is" t "run_to step admissible s"])
    (auto intro: run_step assms(2))

lemma run_to_trans:
  assumes "run_to step ok s t" and "run_to step ok t u"
  shows "run_to step ok s u"
  using assms(2,1) by (induction rule: run_to.induct) (auto intro: run_step)

lemma list_all2_forth: "list_all2 P xs ys \<Longrightarrow> x \<in> set xs \<Longrightarrow> \<exists>y\<in>set ys. P x y"
  by (induction xs ys rule: list_all2_induct) auto

lemma find_append: "find P (xs @ ys) = (case find P xs of None \<Rightarrow> find P ys | Some x \<Rightarrow> Some x)"
  by (induction xs) auto

lemma list_all2_back: "list_all2 P xs ys \<Longrightarrow> y \<in> set ys \<Longrightarrow> \<exists>x\<in>set xs. P x y"
  by (induction rule: list_all2_induct) auto

end
