(* ===== verification/Game_Events.thy ===== *)
theory Game_Events
  imports Prelude
begin

text \<open>
  The event vocabulary of \<open>src/domain/events/game-events.ts\<close>: the accepted event envelope,
  the event bodies with their payloads, the accepted setup, the replayed game state and the
  error codes, and the parser that validates a body and an envelope.

  A body of this theory has the shape the schema asks for (its record fields and enum
  members); what is not expressed by the shape (trimming, string bounds, integer ranges and
  every \<open>superRefine\<close>) is a definition.  Input that has not even the shape is a value of
  \<open>raw_body\<close>.  Numbers are integers; \<open>z.int()\<close> bounds them by the safe integers.
\<close>

section \<open>Enumerations\<close>

datatype game_side = HOME | AWAY

datatype position = PITCHER | CATCHER | FIRST_BASE | SECOND_BASE | THIRD_BASE | SHORTSTOP
  | LEFT_FIELD | CENTER_FIELD | RIGHT_FIELD | DESIGNATED_HITTER | EXTRA_HITTER

datatype base = FIRST | SECOND | THIRD

datatype runner_origin = BATTER | From_base base

datatype runner_destination = To_base base | To_HOME | To_OUT

datatype earned_run = EARNED | UNEARNED | PENDING

datatype movement_cause = Cause_HIT | Cause_FORCED_ADVANCE | Cause_OPTIONAL_ADVANCE
  | Cause_BATTER_RESULT | Cause_FIELDERS_CHOICE | Cause_ERROR | Cause_SACRIFICE
  | Cause_STOLEN_BASE | Cause_CAUGHT_STEALING | Cause_PICKOFF | Cause_RUNNER_OUT
  | Cause_WILD_PITCH | Cause_PASSED_BALL | Cause_AWARD | Cause_CORRECTION

datatype game_ending = REGULATION | WALK_OFF | MERCY_RULE | TIME_LIMIT | FORFEIT

datatype plate_outcome = WALK | INTENTIONAL_WALK | HIT_BY_PITCH | STRIKEOUT_SWINGING
  | STRIKEOUT_LOOKING | SINGLE | DOUBLE | TRIPLE | HOME_RUN | BATTER_OUT | FIELDER_CHOICE
  | REACHED_ON_ERROR | SACRIFICE_BUNT | SACRIFICE_FLY | INTERFERENCE

datatype batted_ball = GROUND_BALL | FLY_BALL | LINE_DRIVE | POP_UP | BUNT

datatype fielding_credit_kind = PUTOUT | ASSIST | ERROR

datatype runner_out_cause = Out_CAUGHT_STEALING | Out_PICKOFF | Out_RUNNER_OUT
  | Out_FIELDERS_CHOICE | Out_OTHER

datatype steal_target = Steal_SECOND | Steal_THIRD | Steal_HOME

datatype steal_result = Result_STOLEN_BASE | Result_CAUGHT_STEALING

datatype play_type = Play_OPTIONAL_ADVANCE | Play_ERROR | Play_STOLEN_BASE
  | Play_CAUGHT_STEALING | Play_PICKOFF | Play_RUNNER_OUT | Play_WILD_PITCH | Play_PASSED_BALL

datatype correction_policy = REPLACE_PLAY | REPLACE_EVENT_RANGE | REPLACE_JUDGMENT
  | REVERSE_EVENTS

datatype actor_kind = USER | SERVICE | SYSTEM

section \<open>Payloads\<close>

record out_detail =
  out_outNumber :: int
  out_force :: bool
  out_fielders :: "ident list"

record runner_movement =
  mv_runnerId :: ident
  mv_from :: runner_origin
  mv_to :: runner_destination
  mv_cause :: movement_cause
  mv_forced :: bool
  mv_responsiblePitcherId :: ident
  mv_runCounts :: "bool option"
  mv_rbiEligible :: "bool option"
  mv_earnedRun :: "earned_run option"
  mv_out :: "out_detail option"

record fielding_credit =
  fc_fielderId :: ident
  fc_credit :: fielding_credit_kind
  fc_errorType :: "ident option"

record plate_appearance =
  pa_batterId :: ident
  pa_pitcherId :: ident
  pa_outcome :: plate_outcome
  pa_battedBall :: "batted_ball option"
  pa_movements :: "runner_movement list"
  pa_fieldingCredits :: "fielding_credit list"

record runner_out =
  ro_runnerId :: ident
  ro_from :: base
  ro_responsiblePitcherId :: ident
  ro_cause :: runner_out_cause
  ro_outNumber :: int
  ro_force :: bool
  ro_fielders :: "ident list"

record stolen_base_attempt =
  sb_runnerId :: ident
  sb_from :: base
  sb_to :: steal_target
  sb_result :: steal_result
  sb_responsiblePitcherId :: ident
  sb_fielders :: "ident list"
  sb_earnedRun :: "earned_run option"

record runner_play =
  rp_playType :: play_type
  rp_movements :: "runner_movement list"
  rp_fieldingCredits :: "fielding_credit list"
  rp_responsibleFielderId :: "ident option"

record defensive_substitution =
  ds_side :: game_side
  ds_outgoingPlayerId :: ident
  ds_incomingPlayerId :: ident
  ds_position :: position

record alignment_assignment =
  as_playerId :: ident
  as_position :: position

record defensive_alignment =
  da_side :: game_side
  da_assignments :: "alignment_assignment list"
  da_reasonCode :: ident

record pitching_change =
  pc_side :: game_side
  pc_outgoingPitcherId :: ident
  pc_incomingPitcherId :: ident
  pc_inheritedRunnerIds :: "ident list"

text \<open>The eight bodies a correction may replace (\<open>replaceableEventBodySchema\<close>).\<close>

datatype play_body =
    PlateAppearanceRecorded plate_appearance
  | RunnerAdvanceRecorded runner_movement
  | RunnerOutRecorded runner_out
  | StolenBaseAttemptRecorded stolen_base_attempt
  | RunnerPlayRecorded runner_play
  | DefensiveSubstitutionMade defensive_substitution
  | DefensiveAlignmentChanged defensive_alignment
  | PitchingChangeMade pitching_change

record replacement =
  rep_id :: ident
  rep_order :: int
  rep_targetEventId :: ident
  rep_body :: play_body

record correction =
  co_policy :: correction_policy
  co_targetEventIds :: "ident list"
  co_replacements :: "replacement list"
  co_reasonCode :: ident

datatype event_body =
    GameStarted
  | GameSuspended ident
  | GameResumed
  | GameCompleted ident game_ending
  | GameVerified
  | GameReopened ident
  | GameAbandoned ident
  | GameCancelled ident
  | Play play_body
  | CorrectionApplied correction

text \<open>A value handed to the parser before its shape is known.\<close>

datatype raw_body = Shaped event_body | Unknown_event_type | Malformed

section \<open>Envelope, setup and state\<close>

record event_actor =
  ac_kind :: actor_kind
  ac_id :: ident
  ac_userId :: "ident option"

record 'b event_envelope =
  ev_id :: ident
  ev_accountId :: ident
  ev_gameId :: ident
  ev_setupSnapshotId :: ident
  ev_setupRevision :: int
  ev_sequence :: int
  ev_schemaVersion :: int
  ev_rulesetVersionId :: ident
  ev_playTransactionId :: "ident option"
  ev_componentOrder :: "int option"
  ev_clientSubmissionId :: ident
  ev_expectedRevision :: int
  ev_acceptedRevision :: int
  ev_actor :: event_actor
  ev_recordedAt :: string
  ev_acceptedAt :: string
  ev_body :: 'b
  ev_preStateHash :: string
  ev_postStateHash :: string

type_synonym accepted_event = "event_body event_envelope"

record lineup_entry =
  le_playerId :: ident
  le_battingOrder :: "int option"
  le_position :: "position option"
  le_active :: bool

record setup_side =
  ss_lineup :: "lineup_entry list"
  ss_startingPitcherId :: ident

record accepted_setup =
  su_id :: ident
  su_accountId :: ident
  su_gameId :: ident
  su_setupRevision :: int
  su_rulesetVersionId :: ident
  su_scheduledInnings :: int
  su_status :: string
  su_sides :: "game_side \<Rightarrow> setup_side"

datatype game_status = READY | IN_PROGRESS | SUSPENDED | COMPLETED | VERIFIED | CORRECTED
  | ABANDONED | CANCELLED

datatype half_inning = TOP | BOTTOM

text \<open>
  \<open>Record<GameSide, T>\<close> and \<open>Record<Base, T>\<close> have exactly the members of the key type and
  are functions; \<open>Partial<Record<...>>\<close> and \<open>Record<string, string>\<close> are partial maps.
\<close>

record game_state =
  gs_accountId :: ident
  gs_gameId :: ident
  gs_setupSnapshotId :: ident
  gs_setupRevision :: int
  gs_rulesetVersionId :: ident
  gs_scheduledInnings :: int
  gs_status :: game_status
  gs_inning :: "int option"
  gs_half :: "half_inning option"
  gs_outs :: int
  gs_score :: "game_side \<Rightarrow> int"
  gs_bases :: "base \<Rightarrow> ident option"
  gs_battingOrderIndex :: "game_side \<Rightarrow> nat"
  gs_lineups :: "game_side \<Rightarrow> lineup_entry list"
  gs_participatedPlayers :: "game_side \<Rightarrow> ident list"
  gs_defense :: "game_side \<Rightarrow> position \<Rightarrow> ident option"
  gs_activePitcher :: "game_side \<Rightarrow> ident"
  gs_runnerPitcherResponsibility :: "ident \<Rightarrow> ident option"
  gs_sourceRevision :: int
  gs_lastSequence :: int

section \<open>Errors\<close>

text \<open>
  The codes of \<open>GameEventError\<close> that the domain code throws, and \<open>JS_TYPE_ERROR\<close> for the
  run-time error of reading a property of \<open>undefined\<close> (a non-null assertion that fails).
\<close>

datatype event_error = INVALID_PAYLOAD | UNSUPPORTED_EVENT_TYPE | UNSUPPORTED_SCHEMA_VERSION
  | SETUP_NOT_READY | INVALID_LIFECYCLE_TRANSITION | INVALID_BASEBALL_TRANSITION
  | INVALID_LINEUP | INVALID_RUNNER_MOVEMENT | INVALID_PITCHER | STALE_SOURCE_REVISION
  | SEQUENCE_CONFLICT | DUPLICATE_IDEMPOTENCY_KEY | DUPLICATE_ACCEPTED_EVENT
  | CORRECTION_TARGET_MISSING | CORRECTION_GRAPH_INVALID | ACCOUNT_MISMATCH | GAME_MISMATCH
  | IMMUTABLE_HISTORY_VIOLATION | PERSISTENCE_CONFLICT | INTERNAL_INVARIANT_FAILURE
  | JS_TYPE_ERROR

section \<open>Normalisation: the transforms of the schema\<close>

text \<open>\<open>z.string().trim().min(1).max(128)\<close>: the bounds apply to the trimmed string.\<close>

definition id_ok :: "ident \<Rightarrow> bool" where
  "id_ok s \<longleftrightarrow> 1 \<le> length s \<and> length s \<le> 128"

definition trim_out :: "out_detail \<Rightarrow> out_detail" where
  "trim_out o' = o'\<lparr>out_fielders := map trim (out_fielders o')\<rparr>"

definition trim_movement :: "runner_movement \<Rightarrow> runner_movement" where
  "trim_movement m = m\<lparr>mv_runnerId := trim (mv_runnerId m),
     mv_responsiblePitcherId := trim (mv_responsiblePitcherId m),
     mv_out := map_option trim_out (mv_out m)\<rparr>"

definition trim_credit :: "fielding_credit \<Rightarrow> fielding_credit" where
  "trim_credit c = c\<lparr>fc_fielderId := trim (fc_fielderId c),
     fc_errorType := map_option trim (fc_errorType c)\<rparr>"

fun trim_play :: "play_body \<Rightarrow> play_body" where
  "trim_play (PlateAppearanceRecorded p) = PlateAppearanceRecorded
     (p\<lparr>pa_batterId := trim (pa_batterId p), pa_pitcherId := trim (pa_pitcherId p),
        pa_movements := map trim_movement (pa_movements p),
        pa_fieldingCredits := map trim_credit (pa_fieldingCredits p)\<rparr>)"
| "trim_play (RunnerAdvanceRecorded m) = RunnerAdvanceRecorded (trim_movement m)"
| "trim_play (RunnerOutRecorded p) = RunnerOutRecorded
     (p\<lparr>ro_runnerId := trim (ro_runnerId p),
        ro_responsiblePitcherId := trim (ro_responsiblePitcherId p),
        ro_fielders := map trim (ro_fielders p)\<rparr>)"
| "trim_play (StolenBaseAttemptRecorded p) = StolenBaseAttemptRecorded
     (p\<lparr>sb_runnerId := trim (sb_runnerId p),
        sb_responsiblePitcherId := trim (sb_responsiblePitcherId p),
        sb_fielders := map trim (sb_fielders p)\<rparr>)"
| "trim_play (RunnerPlayRecorded p) = RunnerPlayRecorded
     (p\<lparr>rp_movements := map trim_movement (rp_movements p),
        rp_fieldingCredits := map trim_credit (rp_fieldingCredits p),
        rp_responsibleFielderId := map_option trim (rp_responsibleFielderId p)\<rparr>)"
| "trim_play (DefensiveSubstitutionMade p) = DefensiveSubstitutionMade
     (p\<lparr>ds_outgoingPlayerId := trim (ds_outgoingPlayerId p),
        ds_incomingPlayerId := trim (ds_incomingPlayerId p)\<rparr>)"
| "trim_play (DefensiveAlignmentChanged p) = DefensiveAlignmentChanged
     (p\<lparr>da_assignments := map (\<lambda>a. a\<lparr>as_playerId := trim (as_playerId a)\<rparr>) (da_assignments p),
        da_reasonCode := trim (da_reasonCode p)\<rparr>)"
| "trim_play (PitchingChangeMade p) = PitchingChangeMade
     (p\<lparr>pc_outgoingPitcherId := trim (pc_outgoingPitcherId p),
        pc_incomingPitcherId := trim (pc_incomingPitcherId p),
        pc_inheritedRunnerIds := map trim (pc_inheritedRunnerIds p)\<rparr>)"

definition trim_replacement :: "replacement \<Rightarrow> replacement" where
  "trim_replacement r = r\<lparr>rep_id := trim (rep_id r),
     rep_targetEventId := trim (rep_targetEventId r), rep_body := trim_play (rep_body r)\<rparr>"

definition trim_correction :: "correction \<Rightarrow> correction" where
  "trim_correction c = c\<lparr>co_targetEventIds := map trim (co_targetEventIds c),
     co_replacements := map trim_replacement (co_replacements c),
     co_reasonCode := trim (co_reasonCode c)\<rparr>"

fun trim_body :: "event_body \<Rightarrow> event_body" where
  "trim_body GameStarted = GameStarted"
| "trim_body (GameSuspended r) = GameSuspended (trim r)"
| "trim_body GameResumed = GameResumed"
| "trim_body (GameCompleted r e) = GameCompleted (trim r) e"
| "trim_body GameVerified = GameVerified"
| "trim_body (GameReopened r) = GameReopened (trim r)"
| "trim_body (GameAbandoned r) = GameAbandoned (trim r)"
| "trim_body (GameCancelled r) = GameCancelled (trim r)"
| "trim_body (Play p) = Play (trim_play p)"
| "trim_body (CorrectionApplied c) = CorrectionApplied (trim_correction c)"

section \<open>Refinements of the schema\<close>

definition out_ok :: "out_detail \<Rightarrow> bool" where
  "out_ok o' \<longleftrightarrow> 1 \<le> out_outNumber o' \<and> out_outNumber o' \<le> 3 \<and> list_all id_ok (out_fielders o')"

definition movement_shape_ok :: "runner_movement \<Rightarrow> bool" where
  "movement_shape_ok m \<longleftrightarrow> id_ok (mv_runnerId m) \<and> id_ok (mv_responsiblePitcherId m) \<and>
     (case mv_out m of None \<Rightarrow> True | Some o' \<Rightarrow> out_ok o')"

text \<open>The \<open>superRefine\<close> of \<open>runnerMovement\<close>, by destination.\<close>

definition movement_judgments_ok :: "runner_movement \<Rightarrow> bool" where
  "movement_judgments_ok m \<longleftrightarrow>
     (case mv_to m of
        To_HOME \<Rightarrow> mv_runCounts m \<noteq> None \<and> mv_rbiEligible m \<noteq> None \<and> mv_out m = None \<and>
          \<not> (mv_runCounts m = Some False \<and> mv_earnedRun m \<noteq> None)
      | To_OUT \<Rightarrow> mv_out m \<noteq> None \<and> mv_runCounts m = None \<and> mv_rbiEligible m = None \<and>
          mv_earnedRun m = None
      | To_base _ \<Rightarrow> mv_out m = None \<and> mv_runCounts m = None \<and> mv_rbiEligible m = None \<and>
          mv_earnedRun m = None)"

definition movement_ok :: "runner_movement \<Rightarrow> bool" where
  "movement_ok m \<longleftrightarrow> movement_shape_ok m \<and> movement_judgments_ok m"

definition credit_ok :: "fielding_credit \<Rightarrow> bool" where
  "credit_ok c \<longleftrightarrow> id_ok (fc_fielderId c) \<and>
     (case fc_errorType c of None \<Rightarrow> True | Some t \<Rightarrow> id_ok t)"

definition error_credits :: "fielding_credit list \<Rightarrow> fielding_credit list" where
  "error_credits cs = filter (\<lambda>c. fc_credit c = ERROR) cs"

text \<open>An error type appears on error credits, and only there.\<close>

definition error_types_ok :: "fielding_credit list \<Rightarrow> bool" where
  "error_types_ok cs \<longleftrightarrow> list_all (\<lambda>c. fc_errorType c \<noteq> None) (error_credits cs) \<and>
     list_all (\<lambda>c. \<not> (fc_credit c \<noteq> ERROR \<and> fc_errorType c \<noteq> None)) cs"

definition plate_appearance_ok :: "plate_appearance \<Rightarrow> bool" where
  "plate_appearance_ok p \<longleftrightarrow> id_ok (pa_batterId p) \<and> id_ok (pa_pitcherId p) \<and>
     pa_movements p \<noteq> [] \<and> list_all movement_ok (pa_movements p) \<and>
     list_all credit_ok (pa_fieldingCredits p) \<and>
     \<not> (pa_outcome p = REACHED_ON_ERROR \<and> error_credits (pa_fieldingCredits p) = []) \<and>
     error_types_ok (pa_fieldingCredits p)"

definition runner_out_ok :: "runner_out \<Rightarrow> bool" where
  "runner_out_ok p \<longleftrightarrow> id_ok (ro_runnerId p) \<and> id_ok (ro_responsiblePitcherId p) \<and>
     1 \<le> ro_outNumber p \<and> ro_outNumber p \<le> 3 \<and> list_all id_ok (ro_fielders p)"

definition stolen_base_ok :: "stolen_base_attempt \<Rightarrow> bool" where
  "stolen_base_ok p \<longleftrightarrow> id_ok (sb_runnerId p) \<and> id_ok (sb_responsiblePitcherId p) \<and>
     list_all id_ok (sb_fielders p) \<and>
     \<not> (\<not> (sb_result p = Result_STOLEN_BASE \<and> sb_to p = Steal_HOME) \<and> sb_earnedRun p \<noteq> None)"

fun expected_cause :: "play_type \<Rightarrow> movement_cause" where
  "expected_cause Play_OPTIONAL_ADVANCE = Cause_OPTIONAL_ADVANCE"
| "expected_cause Play_ERROR = Cause_ERROR"
| "expected_cause Play_STOLEN_BASE = Cause_STOLEN_BASE"
| "expected_cause Play_CAUGHT_STEALING = Cause_CAUGHT_STEALING"
| "expected_cause Play_PICKOFF = Cause_PICKOFF"
| "expected_cause Play_RUNNER_OUT = Cause_RUNNER_OUT"
| "expected_cause Play_WILD_PITCH = Cause_WILD_PITCH"
| "expected_cause Play_PASSED_BALL = Cause_PASSED_BALL"

definition out_movements :: "runner_movement list \<Rightarrow> runner_movement list" where
  "out_movements ms = filter (\<lambda>m. mv_to m = To_OUT) ms"

definition runner_play_ok :: "runner_play \<Rightarrow> bool" where
  "runner_play_ok p \<longleftrightarrow>
     (let outs = length (out_movements (rp_movements p));
          errors = error_credits (rp_fieldingCredits p)
      in 1 \<le> length (rp_movements p) \<and> length (rp_movements p) \<le> 4 \<and>
         list_all movement_ok (rp_movements p) \<and> list_all credit_ok (rp_fieldingCredits p) \<and>
         (case rp_responsibleFielderId p of None \<Rightarrow> True | Some f \<Rightarrow> id_ok f) \<and>
         list_all (\<lambda>m. \<not> (mv_from m = BATTER \<or> mv_cause m \<noteq> expected_cause (rp_playType p)))
           (rp_movements p) \<and>
         \<not> (rp_playType p \<in> {Play_CAUGHT_STEALING, Play_PICKOFF} \<and> outs \<noteq> 1) \<and>
         \<not> (rp_playType p = Play_RUNNER_OUT \<and> outs = 0) \<and>
         \<not> (rp_playType p \<notin> {Play_CAUGHT_STEALING, Play_PICKOFF, Play_RUNNER_OUT} \<and> outs > 0) \<and>
         \<not> (rp_playType p = Play_ERROR \<and> errors = []) \<and>
         \<not> (rp_playType p \<noteq> Play_ERROR \<and> errors \<noteq> []) \<and>
         error_types_ok (rp_fieldingCredits p) \<and>
         \<not> (rp_playType p = Play_PASSED_BALL \<and> rp_responsibleFielderId p = None) \<and>
         \<not> (rp_playType p \<noteq> Play_PASSED_BALL \<and> rp_responsibleFielderId p \<noteq> None))"

definition alignment_ok :: "defensive_alignment \<Rightarrow> bool" where
  "alignment_ok p \<longleftrightarrow> da_assignments p \<noteq> [] \<and>
     list_all (\<lambda>a. id_ok (as_playerId a)) (da_assignments p) \<and> id_ok (da_reasonCode p)"

fun play_ok :: "play_body \<Rightarrow> bool" where
  "play_ok (PlateAppearanceRecorded p) = plate_appearance_ok p"
| "play_ok (RunnerAdvanceRecorded m) = (movement_ok m \<and> mv_to m \<noteq> To_OUT)"
| "play_ok (RunnerOutRecorded p) = runner_out_ok p"
| "play_ok (StolenBaseAttemptRecorded p) = stolen_base_ok p"
| "play_ok (RunnerPlayRecorded p) = runner_play_ok p"
| "play_ok (DefensiveSubstitutionMade p) =
     (id_ok (ds_outgoingPlayerId p) \<and> id_ok (ds_incomingPlayerId p))"
| "play_ok (DefensiveAlignmentChanged p) = alignment_ok p"
| "play_ok (PitchingChangeMade p) = (id_ok (pc_outgoingPitcherId p) \<and>
     id_ok (pc_incomingPitcherId p) \<and> list_all id_ok (pc_inheritedRunnerIds p))"

definition replacement_ok :: "replacement \<Rightarrow> bool" where
  "replacement_ok r \<longleftrightarrow> id_ok (rep_id r) \<and> 0 \<le> rep_order r \<and> safe_int (rep_order r) \<and>
     id_ok (rep_targetEventId r) \<and> play_ok (rep_body r)"

definition correction_ok :: "correction \<Rightarrow> bool" where
  "correction_ok c \<longleftrightarrow>
     (let ids = map rep_id (co_replacements c);
          orders = map rep_order (co_replacements c)
      in co_targetEventIds c \<noteq> [] \<and> list_all id_ok (co_targetEventIds c) \<and>
         list_all replacement_ok (co_replacements c) \<and> id_ok (co_reasonCode c) \<and>
         distinct (co_targetEventIds c) \<and> distinct ids \<and> distinct orders \<and>
         sort orders = map int [0..<length orders] \<and>
         (if co_policy c = REVERSE_EVENTS then co_replacements c = []
          else map rep_targetEventId (co_replacements c) = co_targetEventIds c))"

fun body_ok :: "event_body \<Rightarrow> bool" where
  "body_ok GameStarted = True"
| "body_ok (GameSuspended r) = id_ok r"
| "body_ok GameResumed = True"
| "body_ok (GameCompleted r e) = id_ok r"
| "body_ok GameVerified = True"
| "body_ok (GameReopened r) = id_ok r"
| "body_ok (GameAbandoned r) = id_ok r"
| "body_ok (GameCancelled r) = id_ok r"
| "body_ok (Play p) = play_ok p"
| "body_ok (CorrectionApplied c) = correction_ok c"

section \<open>Parsing a body\<close>

fun play_scoring_movements :: "play_body \<Rightarrow> runner_movement list" where
  "play_scoring_movements (PlateAppearanceRecorded p) = pa_movements p"
| "play_scoring_movements (RunnerAdvanceRecorded m) = [m]"
| "play_scoring_movements (RunnerPlayRecorded p) = rp_movements p"
| "play_scoring_movements _ = []"

fun scoring_movements :: "event_body \<Rightarrow> runner_movement list" where
  "scoring_movements (Play p) = play_scoring_movements p"
| "scoring_movements (CorrectionApplied c) =
     concat (map (\<lambda>r. play_scoring_movements (rep_body r)) (co_replacements c))"
| "scoring_movements _ = []"

text \<open>The earned-run judgments the version rule looks at, one per counting run.\<close>

fun steal_classification :: "event_body \<Rightarrow> earned_run option list" where
  "steal_classification (Play (StolenBaseAttemptRecorded p)) =
     (if sb_result p = Result_STOLEN_BASE \<and> sb_to p = Steal_HOME then [sb_earnedRun p] else [])"
| "steal_classification _ = []"

definition run_classifications :: "event_body \<Rightarrow> earned_run option list" where
  "run_classifications b =
     map mv_earnedRun
       (filter (\<lambda>m. mv_to m = To_HOME \<and> mv_runCounts m = Some True) (scoring_movements b)) @
     steal_classification b"

definition validateVersionedRunClassifications :: "event_body \<Rightarrow> int \<Rightarrow> event_error + unit" where
  "validateVersionedRunClassifications b v =
     require (\<not> ((v \<ge> 2 \<and> list_ex (\<lambda>c. c = None) (run_classifications b)) \<or>
                (v = 1 \<and> list_ex (\<lambda>c. c \<noteq> None) (run_classifications b))))
       INVALID_PAYLOAD"

fun is_runner_play :: "play_body \<Rightarrow> bool" where
  "is_runner_play (RunnerPlayRecorded _) = True"
| "is_runner_play _ = False"

fun uses_runner_play :: "event_body \<Rightarrow> bool" where
  "uses_runner_play (Play p) = is_runner_play p"
| "uses_runner_play (CorrectionApplied c) = list_ex (\<lambda>r. is_runner_play (rep_body r)) (co_replacements c)"
| "uses_runner_play _ = False"

definition event_schema_version :: int where
  "event_schema_version = 3"

definition supported_versions :: "int list" where
  "supported_versions = [1, 2, event_schema_version]"

fun parseEventBody :: "raw_body \<Rightarrow> int \<Rightarrow> event_error + event_body" where
  "parseEventBody (Shaped b) v =
     (let b' = trim_body b in
      and_then (require (body_ok b') INVALID_PAYLOAD) (\<lambda>_.
      and_then (require (\<not> (v < event_schema_version \<and> uses_runner_play b')) INVALID_PAYLOAD) (\<lambda>_.
      and_then (validateVersionedRunClassifications b' v) (\<lambda>_. Inr b'))))"
| "parseEventBody Unknown_event_type v = Inl UNSUPPORTED_EVENT_TYPE"
| "parseEventBody Malformed v = Inl INVALID_PAYLOAD"

section \<open>Parsing an envelope\<close>

definition trim_actor :: "event_actor \<Rightarrow> event_actor" where
  "trim_actor a = a\<lparr>ac_id := trim (ac_id a), ac_userId := map_option trim (ac_userId a)\<rparr>"

definition trim_envelope :: "'b event_envelope \<Rightarrow> 'b event_envelope" where
  "trim_envelope e = e\<lparr>ev_id := trim (ev_id e), ev_accountId := trim (ev_accountId e),
     ev_gameId := trim (ev_gameId e), ev_setupSnapshotId := trim (ev_setupSnapshotId e),
     ev_rulesetVersionId := trim (ev_rulesetVersionId e),
     ev_playTransactionId := map_option trim (ev_playTransactionId e),
     ev_clientSubmissionId := trim (ev_clientSubmissionId e),
     ev_actor := trim_actor (ev_actor e)\<rparr>"

text \<open>\<open>/^sha256:v1:[a-f0-9]{64}$/\<close>\<close>

definition hex_digit :: "char \<Rightarrow> bool" where
  "hex_digit c \<longleftrightarrow> c \<in> set ''abcdef0123456789''"

definition hash_format_ok :: "string \<Rightarrow> bool" where
  "hash_format_ok h \<longleftrightarrow> take 10 h = ''sha256:v1:'' \<and> length h = 74 \<and> list_all hex_digit (drop 10 h)"

definition opt_id_ok :: "ident option \<Rightarrow> bool" where
  "opt_id_ok x = (case x of None \<Rightarrow> True | Some s \<Rightarrow> id_ok s)"

text \<open>
  \<open>eventEnvelopeSchema\<close> on the trimmed envelope.  \<open>iso_datetime\<close> stands for the ISO date check
  of the schema library.
\<close>

definition envelope_ok :: "(string \<Rightarrow> bool) \<Rightarrow> raw_body event_envelope \<Rightarrow> bool" where
  "envelope_ok iso_datetime e \<longleftrightarrow>
     id_ok (ev_id e) \<and> id_ok (ev_accountId e) \<and> id_ok (ev_gameId e) \<and>
     id_ok (ev_setupSnapshotId e) \<and> 0 < ev_setupRevision e \<and> safe_int (ev_setupRevision e) \<and>
     0 < ev_sequence e \<and> safe_int (ev_sequence e) \<and>
     ev_schemaVersion e \<in> set supported_versions \<and> id_ok (ev_rulesetVersionId e) \<and>
     opt_id_ok (ev_playTransactionId e) \<and>
     (case ev_componentOrder e of None \<Rightarrow> True | Some n \<Rightarrow> 0 \<le> n \<and> safe_int n) \<and>
     id_ok (ev_clientSubmissionId e) \<and>
     0 \<le> ev_expectedRevision e \<and> safe_int (ev_expectedRevision e) \<and>
     0 < ev_acceptedRevision e \<and> safe_int (ev_acceptedRevision e) \<and>
     id_ok (ac_id (ev_actor e)) \<and> opt_id_ok (ac_userId (ev_actor e)) \<and>
     iso_datetime (ev_recordedAt e) \<and> iso_datetime (ev_acceptedAt e) \<and>
     hash_format_ok (ev_preStateHash e) \<and> hash_format_ok (ev_postStateHash e) \<and>
     ev_acceptedRevision e = ev_expectedRevision e + 1 \<and>
     (ev_playTransactionId e = None \<longleftrightarrow> ev_componentOrder e = None) \<and>
     is_ok (parseEventBody (ev_body e) (ev_schemaVersion e))"

definition with_body :: "'a event_envelope \<Rightarrow> 'b \<Rightarrow> 'b event_envelope" where
  "with_body e b = \<lparr>ev_id = ev_id e, ev_accountId = ev_accountId e, ev_gameId = ev_gameId e,
     ev_setupSnapshotId = ev_setupSnapshotId e, ev_setupRevision = ev_setupRevision e,
     ev_sequence = ev_sequence e, ev_schemaVersion = ev_schemaVersion e,
     ev_rulesetVersionId = ev_rulesetVersionId e,
     ev_playTransactionId = ev_playTransactionId e, ev_componentOrder = ev_componentOrder e,
     ev_clientSubmissionId = ev_clientSubmissionId e,
     ev_expectedRevision = ev_expectedRevision e, ev_acceptedRevision = ev_acceptedRevision e,
     ev_actor = ev_actor e, ev_recordedAt = ev_recordedAt e, ev_acceptedAt = ev_acceptedAt e,
     ev_body = b, ev_preStateHash = ev_preStateHash e, ev_postStateHash = ev_postStateHash e\<rparr>"

text \<open>
  The parsed envelope keeps the payload as it was submitted (the schema declares it
  \<open>z.unknown()\<close>); consumers parse the body again.
\<close>

definition parseEvent ::
    "(string \<Rightarrow> bool) \<Rightarrow> raw_body event_envelope \<Rightarrow> event_error + accepted_event" where
  "parseEvent iso_datetime raw =
     (if ev_schemaVersion raw \<notin> set supported_versions then Inl UNSUPPORTED_SCHEMA_VERSION
      else let e = trim_envelope raw in
        case (envelope_ok iso_datetime e, ev_body e) of
          (True, Shaped b) \<Rightarrow> Inr (with_body e b)
        | _ \<Rightarrow> and_then (parseEventBody (ev_body raw) (ev_schemaVersion raw))
                 (\<lambda>_. Inl INVALID_PAYLOAD))"

section \<open>Parsing twice\<close>

lemma trim_out_idem [simp]: "trim_out (trim_out x) = trim_out x"
  by (cases x) (simp add: trim_out_def comp_def)

lemma trim_movement_idem [simp]: "trim_movement (trim_movement m) = trim_movement m"
  by (cases m) (simp add: trim_movement_def option.map_comp comp_def)

lemma trim_credit_idem [simp]: "trim_credit (trim_credit c) = trim_credit c"
  by (cases c) (simp add: trim_credit_def option.map_comp comp_def)

lemma trim_play_idem [simp]: "trim_play (trim_play p) = trim_play p"
  by (cases p) (simp_all add: option.map_comp comp_def)

lemma trim_replacement_idem [simp]: "trim_replacement (trim_replacement r) = trim_replacement r"
  by (cases r) (simp add: trim_replacement_def)

lemma trim_correction_idem [simp]: "trim_correction (trim_correction c) = trim_correction c"
  by (cases c) (simp add: trim_correction_def comp_def)

lemma trim_body_idem [simp]: "trim_body (trim_body b) = trim_body b"
  by (cases b) simp_all

lemma parseEventBody_Shaped_Inr_iff:
  "parseEventBody (Shaped b0) v = Inr b \<longleftrightarrow> b = trim_body b0 \<and> body_ok b \<and>
     \<not> (v < event_schema_version \<and> uses_runner_play b) \<and> validateVersionedRunClassifications b v = Inr ()"
  by (auto simp: Let_def and_then_Inr_iff require_Inr_iff)

lemma parse_twice: "parseEventBody raw v = Inr b \<Longrightarrow> parseEventBody (Shaped b) v = Inr b"
  by (cases raw) (auto simp: parseEventBody_Shaped_Inr_iff simp del: parseEventBody.simps(1))

text \<open>What version 2 accepts, the current version accepts unchanged.\<close>

lemma parse_version_2_3: "parseEventBody raw 2 = Inr b \<Longrightarrow> parseEventBody raw event_schema_version = Inr b"
  by (cases raw)
    (auto simp: parseEventBody_Shaped_Inr_iff validateVersionedRunClassifications_def require_Inr_iff event_schema_version_def
      simp del: parseEventBody.simps(1))

text \<open>Version 1 carries no earned-run judgment of a counting run, later versions carry all of them.\<close>

lemma parse_classifications:
  assumes "parseEventBody raw v = Inr b" and "v \<in> set supported_versions"
  shows "list_all (\<lambda>c. (c = None) = (v = 1)) (run_classifications b)"
  using assms
  by (cases raw) (auto simp: parseEventBody_Shaped_Inr_iff validateVersionedRunClassifications_def require_Inr_iff list_all_iff
      list_ex_iff supported_versions_def event_schema_version_def simp del: parseEventBody.simps(1))

end
