(* ===== verification/Game_Engine.thy ===== *)
theory Game_Engine
  imports Game_Events
begin

text \<open>
  The reducer of \<open>src/domain/events/game-engine.ts\<close>: the initial state of a setup, the
  movement of runners, one definition per kind of event body, the envelope checks and
  \<open>applyEvent\<close>.  The source mutates a clone of the state and throws; the model returns the new
  state or the error, so a failed event leaves no partial effect, as the discarded clone does.
\<close>

section \<open>Initial state\<close>

definition active_entries :: "lineup_entry list \<Rightarrow> lineup_entry list" where
  "active_entries l = filter le_active l"

definition batters_in_order :: "lineup_entry list \<Rightarrow> lineup_entry list" where
  "batters_in_order l = sort_key (\<lambda>e. the (le_battingOrder e))
     (filter (\<lambda>e. le_active e \<and> le_battingOrder e \<noteq> None) l)"

definition setup_lineup_ok :: "lineup_entry list \<Rightarrow> ident \<Rightarrow> bool" where
  "setup_lineup_ok l pitcher \<longleftrightarrow>
     active_entries l \<noteq> [] \<and>
     distinct (map le_playerId l) \<and>
     distinct (List.map_filter le_position (active_entries l)) \<and>
     map (\<lambda>e. the (le_battingOrder e)) (batters_in_order l)
       = map (\<lambda>i. int i + 1) [0..<length (batters_in_order l)] \<and>
     list_ex (\<lambda>e. le_playerId e = pitcher \<and> le_position e = Some PITCHER) (active_entries l)"

definition validateSetupSide :: "accepted_setup \<Rightarrow> game_side \<Rightarrow> event_error + lineup_entry list" where
  "validateSetupSide setup sd =
     (let l = ss_lineup (su_sides setup sd) in
      if setup_lineup_ok l (ss_startingPitcherId (su_sides setup sd)) then Inr l
      else Inl INVALID_LINEUP)"

text \<open>\<open>Object.fromEntries\<close>: a later entry for the same position wins.\<close>

definition defense_for :: "lineup_entry list \<Rightarrow> position \<Rightarrow> ident option" where
  "defense_for l = fold (\<lambda>e d. case le_position e of None \<Rightarrow> d | Some p \<Rightarrow> d(p \<mapsto> le_playerId e))
     (active_entries l) Map.empty"

definition by_side :: "'a \<Rightarrow> 'a \<Rightarrow> game_side \<Rightarrow> 'a" where
  "by_side h a sd = (case sd of HOME \<Rightarrow> h | AWAY \<Rightarrow> a)"

definition createInitialState :: "accepted_setup \<Rightarrow> event_error + game_state" where
  "createInitialState setup =
     and_then (require (su_status setup = ''READY'' \<and> 1 \<le> su_setupRevision setup \<and>
                        1 \<le> su_scheduledInnings setup) SETUP_NOT_READY) (\<lambda>_.
     and_then (validateSetupSide setup HOME) (\<lambda>home.
     and_then (validateSetupSide setup AWAY) (\<lambda>away.
     and_then (require (distinct (map le_playerId (home @ away))) INVALID_LINEUP) (\<lambda>_.
       Inr \<lparr>gs_accountId = su_accountId setup, gs_gameId = su_gameId setup,
            gs_setupSnapshotId = su_id setup, gs_setupRevision = su_setupRevision setup,
            gs_rulesetVersionId = su_rulesetVersionId setup,
            gs_scheduledInnings = su_scheduledInnings setup,
            gs_status = READY, gs_inning = None, gs_half = None, gs_outs = 0,
            gs_score = (\<lambda>_. 0), gs_bases = (\<lambda>_. None), gs_battingOrderIndex = (\<lambda>_. 0),
            gs_lineups = by_side home away,
            gs_participatedPlayers = by_side (map le_playerId (active_entries home))
                                             (map le_playerId (active_entries away)),
            gs_defense = by_side (defense_for home) (defense_for away),
            gs_activePitcher = (\<lambda>sd. ss_startingPitcherId (su_sides setup sd)),
            gs_runnerPitcherResponsibility = Map.empty,
            gs_sourceRevision = 0, gs_lastSequence = 0\<rparr>))))"

section \<open>Sides, batters, outs\<close>

definition battingSide :: "game_state \<Rightarrow> game_side" where
  "battingSide s = (if gs_half s = Some TOP then AWAY else HOME)"

definition fieldingSide :: "game_state \<Rightarrow> game_side" where
  "fieldingSide s = (if battingSide s = HOME then AWAY else HOME)"

definition activeBatters :: "game_state \<Rightarrow> game_side \<Rightarrow> lineup_entry list" where
  "activeBatters s sd = batters_in_order (gs_lineups s sd)"

definition currentBatter :: "game_state \<Rightarrow> event_error + ident" where
  "currentBatter s =
     (let sd = battingSide s; l = activeBatters s sd in
      if l = [] then Inl INTERNAL_INVARIANT_FAILURE
      else Inr (le_playerId (l ! (gs_battingOrderIndex s sd mod length l))))"

definition requireLive :: "game_state \<Rightarrow> event_error + unit" where
  "requireLive s = require (gs_status s = IN_PROGRESS) INVALID_LIFECYCLE_TRANSITION"

definition finishOuts :: "game_state \<Rightarrow> int \<Rightarrow> event_error + game_state" where
  "finishOuts s outs =
     (if outs < 0 \<or> gs_outs s + outs > 3 then Inl INVALID_BASEBALL_TRANSITION
      else if gs_outs s + outs = 3 then
        Inr (s\<lparr>gs_outs := 0, gs_bases := (\<lambda>_. None), gs_runnerPitcherResponsibility := Map.empty,
               gs_half := (if gs_half s = Some TOP then Some BOTTOM else Some TOP),
               gs_inning := (if gs_half s = Some TOP then gs_inning s
                             else Some ((case gs_inning s of None \<Rightarrow> 0 | Some i \<Rightarrow> i) + 1))\<rparr>)
      else Inr (s\<lparr>gs_outs := gs_outs s + outs\<rparr>))"

section \<open>Runner movement\<close>

definition all_bases :: "base list" where
  "all_bases = [FIRST, SECOND, THIRD]"

definition all_positions :: "position list" where
  "all_positions = [PITCHER, CATCHER, FIRST_BASE, SECOND_BASE, THIRD_BASE, SHORTSTOP,
     LEFT_FIELD, CENTER_FIELD, RIGHT_FIELD, DESIGNATED_HITTER, EXTRA_HITTER]"

text \<open>\<open>Object.values\<close> of a side's defense; only membership and repetition are ever asked.\<close>

definition defense_values :: "(position \<Rightarrow> ident option) \<Rightarrow> ident list" where
  "defense_values d = List.map_filter d all_positions"

definition occupied_runners :: "(base \<Rightarrow> ident option) \<Rightarrow> ident list" where
  "occupied_runners bs = List.map_filter bs all_bases"

fun base_rank :: "base \<Rightarrow> nat" where
  "base_rank FIRST = 1"
| "base_rank SECOND = 2"
| "base_rank THIRD = 3"

fun origin_rank :: "runner_origin \<Rightarrow> nat" where
  "origin_rank BATTER = 0"
| "origin_rank (From_base b) = base_rank b"

text \<open>The rank of a safe destination; an out has none.\<close>

fun destination_rank :: "runner_destination \<Rightarrow> nat option" where
  "destination_rank (To_base b) = Some (base_rank b)"
| "destination_rank To_HOME = Some 4"
| "destination_rank To_OUT = None"

fun origin_base :: "runner_movement \<Rightarrow> base option" where
  "origin_base m = (case mv_from m of BATTER \<Rightarrow> None | From_base b \<Rightarrow> Some b)"

fun destination_base :: "runner_movement \<Rightarrow> base option" where
  "destination_base m = (case mv_to m of To_base b \<Rightarrow> Some b | _ \<Rightarrow> None)"

definition movement_origins :: "runner_movement list \<Rightarrow> base list" where
  "movement_origins ms = List.map_filter origin_base ms"

definition movement_destinations :: "runner_movement list \<Rightarrow> base list" where
  "movement_destinations ms = List.map_filter destination_base ms"

definition movements_unique :: "runner_movement list \<Rightarrow> bool" where
  "movements_unique ms \<longleftrightarrow> distinct (map mv_runnerId ms) \<and> distinct (movement_origins ms) \<and>
     distinct (movement_destinations ms)"

definition forcedSafeMovement ::
    "runner_movement list \<Rightarrow> runner_origin \<Rightarrow> runner_destination \<Rightarrow> bool" where
  "forcedSafeMovement ms frm dst \<longleftrightarrow>
     list_ex (\<lambda>m. mv_from m = frm \<and> mv_to m = dst \<and> mv_forced m \<and> mv_to m \<noteq> To_OUT) ms"

definition validForcedAdvance :: "runner_movement list \<Rightarrow> runner_movement \<Rightarrow> bool" where
  "validForcedAdvance ms m \<longleftrightarrow> \<not> mv_forced m \<or>
     (mv_from m = BATTER \<and> mv_to m = To_base FIRST) \<or>
     (mv_from m = From_base FIRST \<and> mv_to m = To_base SECOND \<and>
        forcedSafeMovement ms BATTER (To_base FIRST)) \<or>
     (mv_from m = From_base SECOND \<and> mv_to m = To_base THIRD \<and>
        forcedSafeMovement ms (From_base FIRST) (To_base SECOND)) \<or>
     (mv_from m = From_base THIRD \<and> mv_to m = To_HOME \<and>
        forcedSafeMovement ms (From_base SECOND) (To_base THIRD))"

definition check_forced :: "runner_movement list \<Rightarrow> runner_movement \<Rightarrow> event_error + unit" where
  "check_forced ms m =
     (if mv_to m = To_OUT then Inr ()
      else require (validForcedAdvance ms m \<and> \<not> (mv_cause m = Cause_FORCED_ADVANCE \<and> \<not> mv_forced m))
             INVALID_RUNNER_MOVEMENT)"

text \<open>The loop that compares every movement with the bases before the play.\<close>

definition check_movement :: "game_state \<Rightarrow> runner_movement \<Rightarrow> event_error + unit" where
  "check_movement s m =
     and_then (require (case destination_rank (mv_to m) of None \<Rightarrow> True
                        | Some r \<Rightarrow> origin_rank (mv_from m) < r) INVALID_RUNNER_MOVEMENT) (\<lambda>_.
     and_then (case mv_from m of
         BATTER \<Rightarrow> require (mv_responsiblePitcherId m = gs_activePitcher s (fieldingSide s)) INVALID_PITCHER
       | From_base b \<Rightarrow>
           require (gs_bases s b = Some (mv_runnerId m) \<and>
                    gs_runnerPitcherResponsibility s (mv_runnerId m) = Some (mv_responsiblePitcherId m))
             INVALID_RUNNER_MOVEMENT) (\<lambda>_.
       if mv_to m \<noteq> To_OUT then Inr ()
       else (case mv_out m of
           None \<Rightarrow> Inl JS_TYPE_ERROR
         | Some o' \<Rightarrow>
             require (list_all (\<lambda>f. f \<in> set (defense_values (gs_defense s (fieldingSide s))))
                       (out_fielders o')) INVALID_LINEUP)))"

definition out_details :: "runner_movement list \<Rightarrow> out_detail list" where
  "out_details ms = List.map_filter mv_out (out_movements ms)"

definition expected_out_numbers :: "game_state \<Rightarrow> runner_movement list \<Rightarrow> int list" where
  "expected_out_numbers s ms = map (\<lambda>i. gs_outs s + int i + 1) [0..<length (out_movements ms)]"

definition inning_ending_force :: "runner_movement list \<Rightarrow> bool" where
  "inning_ending_force ms =
     (case find (\<lambda>o'. out_outNumber o' = 3) (out_details ms) of None \<Rightarrow> False | Some o' \<Rightarrow> out_force o')"

definition counting_run :: "runner_movement \<Rightarrow> bool" where
  "counting_run m \<longleftrightarrow> mv_to m = To_HOME \<and> mv_runCounts m = Some True"

definition free_origins :: "runner_movement list \<Rightarrow> (base \<Rightarrow> ident option) \<Rightarrow> base \<Rightarrow> ident option" where
  "free_origins ms bs = (\<lambda>b. if b \<in> set (movement_origins ms) then None else bs b)"

text \<open>The effect of one movement once the origins are free.\<close>

definition place_runner :: "runner_movement \<Rightarrow> game_state \<Rightarrow> game_state" where
  "place_runner m s =
     (case mv_to m of
        To_HOME \<Rightarrow>
          s\<lparr>gs_score := (if mv_runCounts m = Some True
                then (gs_score s)(battingSide s := gs_score s (battingSide s) + 1) else gs_score s),
            gs_runnerPitcherResponsibility := (gs_runnerPitcherResponsibility s)(mv_runnerId m := None)\<rparr>
      | To_OUT \<Rightarrow>
          s\<lparr>gs_runnerPitcherResponsibility := (gs_runnerPitcherResponsibility s)(mv_runnerId m := None)\<rparr>
      | To_base b \<Rightarrow>
          s\<lparr>gs_bases := (gs_bases s)(b \<mapsto> mv_runnerId m),
            gs_runnerPitcherResponsibility :=
              (gs_runnerPitcherResponsibility s)(mv_runnerId m \<mapsto> mv_responsiblePitcherId m)\<rparr>)"

definition base_ranks :: "(base \<Rightarrow> ident option) \<Rightarrow> ident \<Rightarrow> nat option" where
  "base_ranks bs = fold (\<lambda>b r. case bs b of None \<Rightarrow> r | Some x \<Rightarrow> r(x \<mapsto> base_rank b)) all_bases Map.empty"

definition original_ranks :: "(base \<Rightarrow> ident option) \<Rightarrow> runner_movement list \<Rightarrow> ident \<Rightarrow> nat option" where
  "original_ranks bs ms =
     fold (\<lambda>m r. if mv_from m = BATTER then r(mv_runnerId m \<mapsto> 0) else r) ms (base_ranks bs)"

definition ranked_runners :: "(base \<Rightarrow> ident option) \<Rightarrow> runner_movement list \<Rightarrow> ident list" where
  "ranked_runners bs ms =
     occupied_runners bs @ map mv_runnerId (filter (\<lambda>m. mv_from m = BATTER) ms)"

text \<open>No trailing runner ends level with or ahead of a runner that started ahead of it.\<close>

definition passes :: "(ident \<Rightarrow> nat option) \<Rightarrow> (ident \<Rightarrow> nat option) \<Rightarrow> ident \<Rightarrow> ident \<Rightarrow> bool" where
  "passes orig final t l =
     (case (orig t, orig l, final t, final l) of
        (Some ot, Some ol, Some ft, Some fl) \<Rightarrow> ot < ol \<and> ft \<ge> fl
      | _ \<Rightarrow> False)"

definition no_passing ::
    "(base \<Rightarrow> ident option) \<Rightarrow> runner_movement list \<Rightarrow> (base \<Rightarrow> ident option) \<Rightarrow> bool" where
  "no_passing before ms after =
     (let orig = original_ranks before ms; final = base_ranks after; rs = ranked_runners before ms
      in list_all (\<lambda>t. list_all (\<lambda>l. \<not> passes orig final t l) rs) rs)"

definition move_runners :: "runner_movement list \<Rightarrow> game_state \<Rightarrow> game_state" where
  "move_runners ms s = fold place_runner ms (s\<lparr>gs_bases := free_origins ms (gs_bases s)\<rparr>)"

definition applyMovements ::
    "game_state \<Rightarrow> runner_movement list \<Rightarrow> event_error + (game_state \<times> int)" where
  "applyMovements s ms =
     and_then (require (movements_unique ms) INVALID_RUNNER_MOVEMENT) (\<lambda>_.
     and_then (check_all (check_forced ms) ms) (\<lambda>_.
     and_then (check_all (check_movement s) ms) (\<lambda>_.
     and_then (require (list_all (\<lambda>b. gs_bases s b = None \<or> b \<in> set (movement_origins ms))
                         (movement_destinations ms)) INVALID_RUNNER_MOVEMENT) (\<lambda>_.
     and_then (require (sort (map out_outNumber (out_details ms)) = expected_out_numbers s ms)
                INVALID_BASEBALL_TRANSITION) (\<lambda>_.
     and_then (require (\<not> (inning_ending_force ms \<and> list_ex counting_run ms))
                INVALID_BASEBALL_TRANSITION) (\<lambda>_.
     (let s' = move_runners ms s in
      and_then (require (no_passing (gs_bases s) ms (gs_bases s')) INVALID_RUNNER_MOVEMENT) (\<lambda>_.
        Inr (s', int (length (out_movements ms)))))))))))"

text \<open>\<open>finishOuts(state, applyMovements(state, ms))\<close>\<close>

definition move_and_finish :: "game_state \<Rightarrow> runner_movement list \<Rightarrow> event_error + game_state" where
  "move_and_finish s ms = and_then (applyMovements s ms) (\<lambda>(s', outs). finishOuts s' outs)"

section \<open>Plays\<close>

fun expected_destination :: "plate_outcome \<Rightarrow> runner_destination" where
  "expected_destination WALK = To_base FIRST"
| "expected_destination INTENTIONAL_WALK = To_base FIRST"
| "expected_destination HIT_BY_PITCH = To_base FIRST"
| "expected_destination STRIKEOUT_SWINGING = To_OUT"
| "expected_destination STRIKEOUT_LOOKING = To_OUT"
| "expected_destination SINGLE = To_base FIRST"
| "expected_destination DOUBLE = To_base SECOND"
| "expected_destination TRIPLE = To_base THIRD"
| "expected_destination HOME_RUN = To_HOME"
| "expected_destination BATTER_OUT = To_OUT"
| "expected_destination FIELDER_CHOICE = To_base FIRST"
| "expected_destination REACHED_ON_ERROR = To_base FIRST"
| "expected_destination SACRIFICE_BUNT = To_OUT"
| "expected_destination SACRIFICE_FLY = To_OUT"
| "expected_destination INTERFERENCE = To_base FIRST"

definition validateBatterResolution :: "plate_outcome \<Rightarrow> runner_destination \<Rightarrow> event_error + unit" where
  "validateBatterResolution outcome dst =
     require (dst = expected_destination outcome) INVALID_RUNNER_MOVEMENT"

text \<open>
  Fielding credits name active defenders, at most one credit of a kind each.  The source
  compares strings \<open>fielderId + NUL + credit\<close>; no credit name contains NUL, so the string
  determines the pair.
\<close>

definition credits_valid :: "game_state \<Rightarrow> fielding_credit list \<Rightarrow> bool" where
  "credits_valid s cs \<longleftrightarrow>
     list_all (\<lambda>c. fc_fielderId c \<in> set (defense_values (gs_defense s (fieldingSide s)))) cs \<and>
     distinct (map (\<lambda>c. (fc_fielderId c, fc_credit c)) cs)"

definition sacrifice_contradiction :: "game_state \<Rightarrow> plate_appearance \<Rightarrow> bool" where
  "sacrifice_contradiction s p \<longleftrightarrow>
     (pa_outcome p = SACRIFICE_BUNT \<and> pa_battedBall p \<noteq> Some BUNT) \<or>
     (pa_outcome p = SACRIFICE_FLY \<and> pa_battedBall p \<noteq> Some FLY_BALL) \<or>
     (pa_outcome p \<in> {SACRIFICE_BUNT, SACRIFICE_FLY} \<and> gs_outs s = 2)"

definition batter_movements :: "runner_movement list \<Rightarrow> runner_movement list" where
  "batter_movements ms = filter (\<lambda>m. mv_from m = BATTER) ms"

definition advance_batting_order :: "game_state \<Rightarrow> game_state" where
  "advance_batting_order s = s\<lparr>gs_battingOrderIndex := (gs_battingOrderIndex s)
     (battingSide s := gs_battingOrderIndex s (battingSide s) + 1)\<rparr>"

definition apply_plate_appearance :: "game_state \<Rightarrow> plate_appearance \<Rightarrow> event_error + game_state" where
  "apply_plate_appearance s p =
     and_then (requireLive s) (\<lambda>_.
     and_then (currentBatter s) (\<lambda>batter.
     and_then (require (pa_batterId p = batter) INVALID_LINEUP) (\<lambda>_.
     and_then (require (pa_pitcherId p = gs_activePitcher s (fieldingSide s)) INVALID_PITCHER) (\<lambda>_.
     and_then (require (credits_valid s (pa_fieldingCredits p)) INVALID_LINEUP) (\<lambda>_.
     and_then (require (\<not> sacrifice_contradiction s p) INVALID_BASEBALL_TRANSITION) (\<lambda>_.
       (case batter_movements (pa_movements p) of
          [bm] \<Rightarrow>
            and_then (require (mv_runnerId bm = pa_batterId p) INVALID_RUNNER_MOVEMENT) (\<lambda>_.
            and_then (validateBatterResolution (pa_outcome p) (mv_to bm)) (\<lambda>_.
            and_then (applyMovements s (pa_movements p)) (\<lambda>(s', outs).
              finishOuts (advance_batting_order s') outs)))
        | _ \<Rightarrow> Inl INVALID_RUNNER_MOVEMENT)))))))"

definition apply_runner_advance :: "game_state \<Rightarrow> runner_movement \<Rightarrow> event_error + game_state" where
  "apply_runner_advance s m =
     and_then (requireLive s) (\<lambda>_.
     and_then (require (mv_from m \<noteq> BATTER) INVALID_RUNNER_MOVEMENT) (\<lambda>_.
       move_and_finish s [m]))"

definition runner_out_movement :: "runner_out \<Rightarrow> runner_movement" where
  "runner_out_movement p = \<lparr>mv_runnerId = ro_runnerId p, mv_from = From_base (ro_from p), mv_to = To_OUT,
     mv_cause = (case ro_cause p of Out_CAUGHT_STEALING \<Rightarrow> Cause_CAUGHT_STEALING
                 | Out_PICKOFF \<Rightarrow> Cause_PICKOFF | _ \<Rightarrow> Cause_FIELDERS_CHOICE),
     mv_forced = ro_force p, mv_responsiblePitcherId = ro_responsiblePitcherId p,
     mv_runCounts = None, mv_rbiEligible = None, mv_earnedRun = None,
     mv_out = Some \<lparr>out_outNumber = ro_outNumber p, out_force = ro_force p,
                    out_fielders = ro_fielders p\<rparr>\<rparr>"

definition apply_runner_out :: "game_state \<Rightarrow> runner_out \<Rightarrow> event_error + game_state" where
  "apply_runner_out s p =
     and_then (requireLive s) (\<lambda>_. move_and_finish s [runner_out_movement p])"

fun steal_destination :: "steal_target \<Rightarrow> runner_destination" where
  "steal_destination Steal_SECOND = To_base SECOND"
| "steal_destination Steal_THIRD = To_base THIRD"
| "steal_destination Steal_HOME = To_HOME"

definition steal_movement :: "game_state \<Rightarrow> stolen_base_attempt \<Rightarrow> runner_movement" where
  "steal_movement s p =
     (if sb_result p = Result_CAUGHT_STEALING then
        \<lparr>mv_runnerId = sb_runnerId p, mv_from = From_base (sb_from p), mv_to = To_OUT,
         mv_cause = Cause_CAUGHT_STEALING, mv_forced = False,
         mv_responsiblePitcherId = sb_responsiblePitcherId p,
         mv_runCounts = None, mv_rbiEligible = None, mv_earnedRun = None,
         mv_out = Some \<lparr>out_outNumber = gs_outs s + 1, out_force = False,
                        out_fielders = sb_fielders p\<rparr>\<rparr>
      else
        \<lparr>mv_runnerId = sb_runnerId p, mv_from = From_base (sb_from p),
         mv_to = steal_destination (sb_to p),
         mv_cause = Cause_STOLEN_BASE, mv_forced = False,
         mv_responsiblePitcherId = sb_responsiblePitcherId p,
         mv_runCounts = (if sb_to p = Steal_HOME then Some True else None),
         mv_rbiEligible = (if sb_to p = Steal_HOME then Some False else None),
         mv_earnedRun = (if sb_to p = Steal_HOME then sb_earnedRun p else None),
         mv_out = None\<rparr>)"

definition apply_stolen_base :: "game_state \<Rightarrow> stolen_base_attempt \<Rightarrow> event_error + game_state" where
  "apply_stolen_base s p =
     and_then (requireLive s) (\<lambda>_. move_and_finish s [steal_movement s p])"

definition apply_runner_play :: "game_state \<Rightarrow> runner_play \<Rightarrow> event_error + game_state" where
  "apply_runner_play s p =
     and_then (requireLive s) (\<lambda>_.
     and_then (require (credits_valid s (rp_fieldingCredits p)) INVALID_LINEUP) (\<lambda>_.
     and_then (require (\<not> (rp_playType p = Play_PASSED_BALL \<and>
                           rp_responsibleFielderId p \<noteq> gs_defense s (fieldingSide s) CATCHER))
                INVALID_LINEUP) (\<lambda>_.
       move_and_finish s (rp_movements p))))"

section \<open>Lineup changes\<close>

definition removeDefensivePlayer ::
    "ident \<Rightarrow> (position \<Rightarrow> ident option) \<Rightarrow> position \<Rightarrow> ident option" where
  "removeDefensivePlayer x d = (\<lambda>p. if d p = Some x then None else d p)"

definition substitution_allowed ::
    "game_state \<Rightarrow> defensive_substitution \<Rightarrow> lineup_entry \<Rightarrow> lineup_entry \<Rightarrow> bool" where
  "substitution_allowed s p out inc \<longleftrightarrow>
     \<not> le_active inc \<and> le_playerId out \<noteq> gs_activePitcher s (ds_side p) \<and>
     ds_position p \<noteq> PITCHER \<and>
     le_playerId inc \<notin> set (gs_participatedPlayers s (ds_side p)) \<and>
     gs_defense s (ds_side p) (ds_position p) \<in> {None, Some (le_playerId out)}"

text \<open>A substituted runner hands base and pitcher responsibility over to the incoming player.\<close>

definition hand_over_runner ::
    "ident \<Rightarrow> ident \<Rightarrow> base option \<Rightarrow> ident option \<Rightarrow> game_state \<Rightarrow> game_state" where
  "hand_over_runner out inc occupied resp s =
     (case occupied of None \<Rightarrow> s
      | Some b \<Rightarrow> s\<lparr>gs_bases := (gs_bases s)(b \<mapsto> inc),
          gs_runnerPitcherResponsibility :=
            (let r = (gs_runnerPitcherResponsibility s)(out := None)
             in case resp of None \<Rightarrow> r | Some x \<Rightarrow> r(inc \<mapsto> x))\<rparr>)"

definition substitute_entries ::
    "nat \<Rightarrow> nat \<Rightarrow> position \<Rightarrow> lineup_entry list \<Rightarrow> lineup_entry list" where
  "substitute_entries i j pos l =
     (let l' = modify_at i (\<lambda>e. e\<lparr>le_active := False, le_position := None\<rparr>) l
      in modify_at j (\<lambda>e. e\<lparr>le_active := True, le_battingOrder := le_battingOrder (l' ! i),
                           le_position := Some pos\<rparr>) l')"

definition substitution_effect ::
    "game_state \<Rightarrow> defensive_substitution \<Rightarrow> nat \<Rightarrow> nat \<Rightarrow> game_state" where
  "substitution_effect s p i j =
     (let sd = ds_side p; l = gs_lineups s sd;
          out = le_playerId (l ! i); inc = le_playerId (l ! j);
          occupied = find (\<lambda>b. gs_bases s b = Some out) all_bases;
          resp = (if occupied = None then None else gs_runnerPitcherResponsibility s out)
      in hand_over_runner out inc occupied resp
           (s\<lparr>gs_lineups := (gs_lineups s)(sd := substitute_entries i j (ds_position p) l),
              gs_participatedPlayers := (gs_participatedPlayers s)
                (sd := gs_participatedPlayers s sd @ [inc]),
              gs_defense := (gs_defense s)
                (sd := (removeDefensivePlayer out (gs_defense s sd))(ds_position p \<mapsto> inc))\<rparr>))"

definition apply_substitution :: "game_state \<Rightarrow> defensive_substitution \<Rightarrow> event_error + game_state" where
  "apply_substitution s p =
     and_then (requireLive s) (\<lambda>_.
       (let l = gs_lineups s (ds_side p) in
        case (find_index (\<lambda>e. le_active e \<and> le_playerId e = ds_outgoingPlayerId p) l,
              find_index (\<lambda>e. le_playerId e = ds_incomingPlayerId p) l) of
          (Some i, Some j) \<Rightarrow>
            and_then (require (substitution_allowed s p (l ! i) (l ! j)) INVALID_LINEUP) (\<lambda>_.
            and_then (require (\<not> (find (\<lambda>b. gs_bases s b = Some (le_playerId (l ! i))) all_bases \<noteq> None \<and>
                         \<not> truthy (gs_runnerPitcherResponsibility s (le_playerId (l ! i)))))
                       INVALID_PITCHER) (\<lambda>_.
              Inr (substitution_effect s p i j)))
        | _ \<Rightarrow> Inl INVALID_LINEUP))"

definition clear_players :: "ident list \<Rightarrow> (position \<Rightarrow> ident option) \<Rightarrow> position \<Rightarrow> ident option" where
  "clear_players ps d = fold removeDefensivePlayer ps d"

definition assign_position ::
    "(position \<Rightarrow> ident option) \<Rightarrow> alignment_assignment \<Rightarrow> event_error + (position \<Rightarrow> ident option)" where
  "assign_position d a =
     (if truthy (d (as_position a)) then Inl INVALID_LINEUP
      else Inr (d(as_position a \<mapsto> as_playerId a)))"

definition align_entry :: "lineup_entry list \<Rightarrow> alignment_assignment \<Rightarrow> event_error + lineup_entry list" where
  "align_entry l a =
     (case find_index (\<lambda>e. le_playerId e = as_playerId a) l of
        None \<Rightarrow> Inl JS_TYPE_ERROR
      | Some i \<Rightarrow> Inr (modify_at i (\<lambda>e. e\<lparr>le_position := Some (as_position a)\<rparr>) l))"

definition apply_alignment :: "game_state \<Rightarrow> defensive_alignment \<Rightarrow> event_error + game_state" where
  "apply_alignment s p =
     (let sd = da_side p; players = map as_playerId (da_assignments p);
          positions = map as_position (da_assignments p); l = gs_lineups s sd
      in and_then (requireLive s) (\<lambda>_.
         and_then (require (sd = fieldingSide s) INVALID_LINEUP) (\<lambda>_.
         and_then (require (distinct players \<and> distinct positions \<and>
                     list_all (\<lambda>x. list_ex (\<lambda>e. le_active e \<and> le_playerId e = x) l) players)
                    INVALID_LINEUP) (\<lambda>_.
         and_then (fold_res assign_position (clear_players players (gs_defense s sd)) (da_assignments p)) (\<lambda>d.
         and_then (require (distinct (defense_values d) \<and> d PITCHER = Some (gs_activePitcher s sd))
                    INVALID_LINEUP) (\<lambda>_.
         and_then (fold_res align_entry l (da_assignments p)) (\<lambda>l'.
           Inr (s\<lparr>gs_defense := (gs_defense s)(sd := d),
                  gs_lineups := (gs_lineups s)(sd := l')\<rparr>))))))))"

text \<open>\<open>xs.join("\0")\<close>\<close>

fun join_nul :: "string list \<Rightarrow> string" where
  "join_nul [] = []"
| "join_nul [x] = x"
| "join_nul (x # y # ys) = x @ CHR 0x00 # join_nul (y # ys)"

definition pitching_change_allowed ::
    "game_state \<Rightarrow> pitching_change \<Rightarrow> lineup_entry \<Rightarrow> lineup_entry \<Rightarrow> bool" where
  "pitching_change_allowed s p out inc \<longleftrightarrow>
     pc_side p = fieldingSide s \<and>
     gs_activePitcher s (pc_side p) = pc_outgoingPitcherId p \<and>
     le_active out \<and> le_playerId inc \<noteq> le_playerId out \<and>
     \<not> (\<not> le_active inc \<and> le_playerId inc \<in> set (gs_participatedPlayers s (pc_side p))) \<and>
     \<not> (le_active inc \<and> le_position inc = None \<and>
        le_battingOrder out \<noteq> None \<and> le_battingOrder inc \<noteq> None) \<and>
     join_nul (sort (pc_inheritedRunnerIds p)) = join_nul (sort (occupied_runners (gs_bases s)))"

text \<open>
  An active incoming pitcher trades positions with the outgoing one; otherwise the outgoing
  pitcher leaves the game and an inactive incoming player takes over the batting slot.
\<close>

definition pitching_entries :: "nat \<Rightarrow> nat \<Rightarrow> lineup_entry list \<Rightarrow> lineup_entry list" where
  "pitching_entries i j l =
     (let out = l ! i; inc = l ! j;
          trade = le_active inc \<and> le_position inc \<noteq> None;
          l1 = modify_at i (\<lambda>e. if trade then e\<lparr>le_position := le_position inc\<rparr>
                               else e\<lparr>le_active := False, le_position := None\<rparr>) l;
          l2 = (if le_active inc then l1
                else modify_at j (\<lambda>e. e\<lparr>le_active := True, le_battingOrder := le_battingOrder out\<rparr>) l1)
      in modify_at j (\<lambda>e. e\<lparr>le_position := Some PITCHER\<rparr>) l2)"

definition pitching_effect :: "game_state \<Rightarrow> pitching_change \<Rightarrow> nat \<Rightarrow> nat \<Rightarrow> game_state" where
  "pitching_effect s p i j =
     (let sd = pc_side p; l = gs_lineups s sd; out = l ! i; inc = l ! j;
          d0 = removeDefensivePlayer (pc_incomingPitcherId p)
                 (removeDefensivePlayer (pc_outgoingPitcherId p) (gs_defense s sd));
          d1 = (case (le_active inc, le_position inc) of
                  (True, Some pos) \<Rightarrow> d0(pos \<mapsto> le_playerId out)
                | _ \<Rightarrow> d0)
      in s\<lparr>gs_lineups := (gs_lineups s)(sd := pitching_entries i j l),
           gs_participatedPlayers := (if le_active inc then gs_participatedPlayers s
             else (gs_participatedPlayers s)(sd := gs_participatedPlayers s sd @ [le_playerId inc])),
           gs_activePitcher := (gs_activePitcher s)(sd := pc_incomingPitcherId p),
           gs_defense := (gs_defense s)(sd := d1(PITCHER \<mapsto> pc_incomingPitcherId p))\<rparr>)"

definition apply_pitching_change :: "game_state \<Rightarrow> pitching_change \<Rightarrow> event_error + game_state" where
  "apply_pitching_change s p =
     and_then (requireLive s) (\<lambda>_.
       (let l = gs_lineups s (pc_side p) in
        case (find_index (\<lambda>e. le_playerId e = pc_outgoingPitcherId p) l,
              find_index (\<lambda>e. le_playerId e = pc_incomingPitcherId p) l) of
          (Some i, Some j) \<Rightarrow>
            and_then (require (pitching_change_allowed s p (l ! i) (l ! j)) INVALID_PITCHER) (\<lambda>_.
              Inr (pitching_effect s p i j))
        | _ \<Rightarrow> Inl INVALID_PITCHER))"

section \<open>Bodies\<close>

fun apply_play :: "game_state \<Rightarrow> play_body \<Rightarrow> event_error + game_state" where
  "apply_play s (PlateAppearanceRecorded p) = apply_plate_appearance s p"
| "apply_play s (RunnerAdvanceRecorded m) = apply_runner_advance s m"
| "apply_play s (RunnerOutRecorded p) = apply_runner_out s p"
| "apply_play s (StolenBaseAttemptRecorded p) = apply_stolen_base s p"
| "apply_play s (RunnerPlayRecorded p) = apply_runner_play s p"
| "apply_play s (DefensiveSubstitutionMade p) = apply_substitution s p"
| "apply_play s (DefensiveAlignmentChanged p) = apply_alignment s p"
| "apply_play s (PitchingChangeMade p) = apply_pitching_change s p"

definition inning_number :: "game_state \<Rightarrow> int" where
  "inning_number s = (case gs_inning s of None \<Rightarrow> 0 | Some i \<Rightarrow> i)"

definition regulation_ending :: "game_state \<Rightarrow> bool" where
  "regulation_ending s \<longleftrightarrow> gs_score s HOME \<noteq> gs_score s AWAY \<and>
     ((inning_number s > gs_scheduledInnings s \<and> gs_half s = Some TOP) \<or>
      (inning_number s \<ge> gs_scheduledInnings s \<and> gs_half s = Some BOTTOM \<and>
       gs_score s HOME > gs_score s AWAY))"

definition walk_off_ending :: "game_state \<Rightarrow> bool" where
  "walk_off_ending s \<longleftrightarrow> \<not> (inning_number s < gs_scheduledInnings s \<or> gs_half s \<noteq> Some BOTTOM \<or>
     gs_score s HOME \<le> gs_score s AWAY)"

definition set_status_if ::
    "game_state \<Rightarrow> game_status list \<Rightarrow> game_status \<Rightarrow> event_error + game_state" where
  "set_status_if s allowed st =
     (if gs_status s \<in> set allowed then Inr (s\<lparr>gs_status := st\<rparr>)
      else Inl INVALID_LIFECYCLE_TRANSITION)"

definition apply_completion :: "game_state \<Rightarrow> game_ending \<Rightarrow> event_error + game_state" where
  "apply_completion s ending =
     and_then (requireLive s) (\<lambda>_.
     and_then (require (\<not> ((ending = REGULATION \<and> \<not> regulation_ending s) \<or>
                           (ending = WALK_OFF \<and> \<not> walk_off_ending s))) INVALID_BASEBALL_TRANSITION) (\<lambda>_.
       Inr (s\<lparr>gs_status := COMPLETED\<rparr>)))"

fun applyBody :: "game_state \<Rightarrow> event_body \<Rightarrow> event_error + game_state" where
  "applyBody s GameStarted =
     and_then (set_status_if s [READY] IN_PROGRESS)
       (\<lambda>s'. Inr (s'\<lparr>gs_inning := Some 1, gs_half := Some TOP\<rparr>))"
| "applyBody s (GameSuspended _) = and_then (requireLive s) (\<lambda>_. Inr (s\<lparr>gs_status := SUSPENDED\<rparr>))"
| "applyBody s GameResumed = set_status_if s [SUSPENDED] IN_PROGRESS"
| "applyBody s (GameCompleted _ ending) = apply_completion s ending"
| "applyBody s GameVerified = set_status_if s [COMPLETED, CORRECTED] VERIFIED"
| "applyBody s (GameReopened _) = set_status_if s [VERIFIED] CORRECTED"
| "applyBody s (GameAbandoned _) = set_status_if s [IN_PROGRESS, SUSPENDED, COMPLETED, CORRECTED] ABANDONED"
| "applyBody s (GameCancelled _) = set_status_if s [READY] CANCELLED"
| "applyBody s (Play p) = apply_play s p"
| "applyBody s (CorrectionApplied _) =
     (if gs_status s \<notin> {IN_PROGRESS, COMPLETED, CORRECTED} then Inl INVALID_LIFECYCLE_TRANSITION
      else Inr (if gs_status s \<noteq> IN_PROGRESS then s\<lparr>gs_status := CORRECTED\<rparr> else s))"

section \<open>Events\<close>

definition validateEventIdentity :: "game_state \<Rightarrow> accepted_event \<Rightarrow> event_error + unit" where
  "validateEventIdentity s e =
     and_then (require (ev_schemaVersion e \<in> set supported_versions) UNSUPPORTED_SCHEMA_VERSION) (\<lambda>_.
     and_then (require (ev_accountId e = gs_accountId s) ACCOUNT_MISMATCH) (\<lambda>_.
     and_then (require (ev_gameId e = gs_gameId s) GAME_MISMATCH) (\<lambda>_.
     and_then (require (ev_setupSnapshotId e = gs_setupSnapshotId s \<and>
                        ev_setupRevision e = gs_setupRevision s) SETUP_NOT_READY) (\<lambda>_.
       require (ev_rulesetVersionId e = gs_rulesetVersionId s) INVALID_BASEBALL_TRANSITION))))"

definition validateNextEnvelope :: "game_state \<Rightarrow> accepted_event \<Rightarrow> event_error + unit" where
  "validateNextEnvelope s e =
     and_then (validateEventIdentity s e) (\<lambda>_.
     and_then (require (ev_expectedRevision e = gs_sourceRevision s \<and>
                        ev_acceptedRevision e = gs_sourceRevision s + 1) STALE_SOURCE_REVISION) (\<lambda>_.
       require (ev_sequence e = gs_lastSequence s + 1) SEQUENCE_CONFLICT))"

definition advance_revision :: "accepted_event \<Rightarrow> game_state \<Rightarrow> game_state" where
  "advance_revision e s = s\<lparr>gs_sourceRevision := ev_acceptedRevision e, gs_lastSequence := ev_sequence e\<rparr>"

fun is_correction :: "event_body \<Rightarrow> bool" where
  "is_correction (CorrectionApplied _) = True"
| "is_correction _ = False"

text \<open>\<open>state_hash\<close> stands for the SHA-256 digest of the canonical JSON of a state.\<close>

definition applyEvent ::
    "(game_state \<Rightarrow> string) \<Rightarrow> bool \<Rightarrow> game_state \<Rightarrow> accepted_event \<Rightarrow> event_error + game_state" where
  "applyEvent state_hash verifyEvidence current e =
     and_then (validateNextEnvelope current e) (\<lambda>_.
     and_then (require (\<not> is_correction (ev_body e)) CORRECTION_GRAPH_INVALID) (\<lambda>_.
     and_then (require (\<not> (verifyEvidence \<and> ev_preStateHash e \<noteq> state_hash current))
                IMMUTABLE_HISTORY_VIOLATION) (\<lambda>_.
     and_then (parseEventBody (Shaped (ev_body e)) (ev_schemaVersion e)) (\<lambda>body.
     and_then (applyBody current body) (\<lambda>applied.
     (let nxt = advance_revision e applied in
      and_then (require (\<not> (verifyEvidence \<and> ev_postStateHash e \<noteq> state_hash nxt))
                 IMMUTABLE_HISTORY_VIOLATION) (\<lambda>_. Inr nxt)))))))"

definition previewEventBody :: "game_state \<Rightarrow> raw_body \<Rightarrow> event_error + game_state" where
  "previewEventBody current bodyInput =
     and_then (parseEventBody bodyInput event_schema_version) (applyBody current)"

end
