(* ===== verification/Runner_Motion.thy ===== *)
theory Runner_Motion
  imports Game_Engine
begin

text \<open>
  What a play does to the bases.  The source moves the runners one after the other; this
  theory gives the effect in closed form (who stands on a base after the play, which pitcher
  is responsible for a runner, how the score grows) and derives from it that the order of
  the movements in the payload is irrelevant and that no runner is lost or duplicated.
\<close>

section \<open>Closed form of a play\<close>

lemma fold_place_bases:
  "distinct (movement_destinations ms) \<Longrightarrow>
   gs_bases (fold place_runner ms s) b =
     (case find (\<lambda>m. mv_to m = To_base b) ms of None \<Rightarrow> gs_bases s b | Some m \<Rightarrow> Some (mv_runnerId m))"
proof (induction ms arbitrary: s)
  case (Cons m ms)
  have "mv_to m = To_base b \<Longrightarrow> find (\<lambda>m. mv_to m = To_base b) ms = None"
    using Cons.prems
    by (auto simp: movement_destinations_def set_map_filter find_None_iff)
  with Cons show ?case
    by (auto simp: place_runner_def movement_destinations_def
        split: runner_destination.splits option.splits)
qed simp

lemma fold_place_responsibility:
  "distinct (map mv_runnerId ms) \<Longrightarrow>
   gs_runnerPitcherResponsibility (fold place_runner ms s) x =
     (case find (\<lambda>m. mv_runnerId m = x) ms of None \<Rightarrow> gs_runnerPitcherResponsibility s x
      | Some m \<Rightarrow> (case mv_to m of To_base _ \<Rightarrow> Some (mv_responsiblePitcherId m) | _ \<Rightarrow> None))"
proof (induction ms arbitrary: s)
  case (Cons m ms)
  have "mv_runnerId m = x \<Longrightarrow> find (\<lambda>m. mv_runnerId m = x) ms = None"
    using Cons.prems by (auto simp: find_None_iff rev_image_eqI)
  with Cons show ?case
    by (auto simp: place_runner_def split: runner_destination.splits option.splits)
qed simp

lemma battingSide_place_runner [simp]: "battingSide (place_runner m s) = battingSide s"
  by (auto simp: place_runner_def battingSide_def split: runner_destination.splits)

lemma fold_place_score:
  "gs_score (fold place_runner ms s) =
     (gs_score s)(battingSide s := gs_score s (battingSide s) + int (length (filter counting_run ms)))"
proof (induction ms arbitrary: s)
  case (Cons m ms)
  show ?case
    by (simp add: Cons) (auto simp: place_runner_def counting_run_def split: runner_destination.splits)
qed simp

text \<open>The parts of the state that a play does not touch.\<close>

lemma place_runner_frame [simp]:
  "gs_accountId (place_runner m s) = gs_accountId s"
  "gs_gameId (place_runner m s) = gs_gameId s"
  "gs_setupSnapshotId (place_runner m s) = gs_setupSnapshotId s"
  "gs_setupRevision (place_runner m s) = gs_setupRevision s"
  "gs_rulesetVersionId (place_runner m s) = gs_rulesetVersionId s"
  "gs_scheduledInnings (place_runner m s) = gs_scheduledInnings s"
  "gs_status (place_runner m s) = gs_status s"
  "gs_inning (place_runner m s) = gs_inning s"
  "gs_half (place_runner m s) = gs_half s"
  "gs_outs (place_runner m s) = gs_outs s"
  "gs_battingOrderIndex (place_runner m s) = gs_battingOrderIndex s"
  "gs_lineups (place_runner m s) = gs_lineups s"
  "gs_participatedPlayers (place_runner m s) = gs_participatedPlayers s"
  "gs_defense (place_runner m s) = gs_defense s"
  "gs_activePitcher (place_runner m s) = gs_activePitcher s"
  "gs_sourceRevision (place_runner m s) = gs_sourceRevision s"
  "gs_lastSequence (place_runner m s) = gs_lastSequence s"
  by (simp_all add: place_runner_def split: runner_destination.splits)

lemma fold_place_frame [simp]:
  "gs_accountId (fold place_runner ms s) = gs_accountId s"
  "gs_gameId (fold place_runner ms s) = gs_gameId s"
  "gs_setupSnapshotId (fold place_runner ms s) = gs_setupSnapshotId s"
  "gs_setupRevision (fold place_runner ms s) = gs_setupRevision s"
  "gs_rulesetVersionId (fold place_runner ms s) = gs_rulesetVersionId s"
  "gs_scheduledInnings (fold place_runner ms s) = gs_scheduledInnings s"
  "gs_status (fold place_runner ms s) = gs_status s"
  "gs_inning (fold place_runner ms s) = gs_inning s"
  "gs_half (fold place_runner ms s) = gs_half s"
  "gs_outs (fold place_runner ms s) = gs_outs s"
  "gs_battingOrderIndex (fold place_runner ms s) = gs_battingOrderIndex s"
  "gs_lineups (fold place_runner ms s) = gs_lineups s"
  "gs_participatedPlayers (fold place_runner ms s) = gs_participatedPlayers s"
  "gs_defense (fold place_runner ms s) = gs_defense s"
  "gs_activePitcher (fold place_runner ms s) = gs_activePitcher s"
  "gs_sourceRevision (fold place_runner ms s) = gs_sourceRevision s"
  "gs_lastSequence (fold place_runner ms s) = gs_lastSequence s"
  by (induction ms arbitrary: s) simp_all

lemma move_runners_frame [simp]:
  "gs_accountId (move_runners ms s) = gs_accountId s"
  "gs_gameId (move_runners ms s) = gs_gameId s"
  "gs_setupSnapshotId (move_runners ms s) = gs_setupSnapshotId s"
  "gs_setupRevision (move_runners ms s) = gs_setupRevision s"
  "gs_rulesetVersionId (move_runners ms s) = gs_rulesetVersionId s"
  "gs_scheduledInnings (move_runners ms s) = gs_scheduledInnings s"
  "gs_status (move_runners ms s) = gs_status s"
  "gs_inning (move_runners ms s) = gs_inning s"
  "gs_half (move_runners ms s) = gs_half s"
  "gs_outs (move_runners ms s) = gs_outs s"
  "gs_battingOrderIndex (move_runners ms s) = gs_battingOrderIndex s"
  "gs_lineups (move_runners ms s) = gs_lineups s"
  "gs_participatedPlayers (move_runners ms s) = gs_participatedPlayers s"
  "gs_defense (move_runners ms s) = gs_defense s"
  "gs_activePitcher (move_runners ms s) = gs_activePitcher s"
  "gs_sourceRevision (move_runners ms s) = gs_sourceRevision s"
  "gs_lastSequence (move_runners ms s) = gs_lastSequence s"
  by (simp_all add: move_runners_def)

lemma sides_move_runners [simp]:
  "battingSide (move_runners ms s) = battingSide s"
  "fieldingSide (move_runners ms s) = fieldingSide s"
  by (simp_all add: battingSide_def fieldingSide_def)

text \<open>The bases after a play: the runner sent there, else nobody if vacated, else as before.\<close>

definition sent_to :: "runner_movement list \<Rightarrow> base \<Rightarrow> ident option" where
  "sent_to ms b = map_option mv_runnerId (find (\<lambda>m. mv_to m = To_base b) ms)"

lemma move_runners_bases:
  assumes "movements_unique ms"
  shows "gs_bases (move_runners ms s) b =
     (case sent_to ms b of Some x \<Rightarrow> Some x
      | None \<Rightarrow> if b \<in> set (movement_origins ms) then None else gs_bases s b)"
  using assms
  by (simp add: move_runners_def movements_unique_def fold_place_bases free_origins_def sent_to_def
      split: option.splits)

lemma move_runners_responsibility:
  assumes "movements_unique ms"
  shows "gs_runnerPitcherResponsibility (move_runners ms s) x =
     (case find (\<lambda>m. mv_runnerId m = x) ms of None \<Rightarrow> gs_runnerPitcherResponsibility s x
      | Some m \<Rightarrow> (case mv_to m of To_base _ \<Rightarrow> Some (mv_responsiblePitcherId m) | _ \<Rightarrow> None))"
  using assms
  by (simp add: move_runners_def movements_unique_def fold_place_responsibility split: option.splits)

lemma move_runners_score:
  "gs_score (move_runners ms s) =
     (gs_score s)(battingSide s := gs_score s (battingSide s) + int (length (filter counting_run ms)))"
  by (simp add: move_runners_def fold_place_score battingSide_def)

section \<open>Inversion of an accepted play\<close>

definition play_accepted :: "game_state \<Rightarrow> runner_movement list \<Rightarrow> bool" where
  "play_accepted s ms \<longleftrightarrow> movements_unique ms \<and>
     (\<forall>m\<in>set ms. check_forced ms m = Inr ()) \<and> (\<forall>m\<in>set ms. check_movement s m = Inr ()) \<and>
     (\<forall>b\<in>set (movement_destinations ms). gs_bases s b = None \<or> b \<in> set (movement_origins ms)) \<and>
     sort (map out_outNumber (out_details ms)) = expected_out_numbers s ms \<and>
     \<not> (inning_ending_force ms \<and> list_ex counting_run ms) \<and>
     no_passing (gs_bases s) ms (gs_bases (move_runners ms s))"

lemma applyMovements_Inr_iff [result_simps]:
  "applyMovements s ms = Inr r \<longleftrightarrow>
     play_accepted s ms \<and> r = (move_runners ms s, int (length (out_movements ms)))"
  unfolding applyMovements_def play_accepted_def Let_def
  by (auto simp: result_simps list_all_iff)

lemma check_movement_forward:
  assumes "check_movement s m = Inr ()" and "destination_rank (mv_to m) = Some r"
  shows "origin_rank (mv_from m) < r"
  using assms by (auto simp: check_movement_def result_simps)

lemma check_movement_origin:
  assumes "check_movement s m = Inr ()" and "mv_from m = From_base b"
  shows "gs_bases s b = Some (mv_runnerId m)"
    and "gs_runnerPitcherResponsibility s (mv_runnerId m) = Some (mv_responsiblePitcherId m)"
  using assms by (auto simp: check_movement_def result_simps)

lemma check_movement_batter:
  assumes "check_movement s m = Inr ()" and "mv_from m = BATTER"
  shows "mv_responsiblePitcherId m = gs_activePitcher s (fieldingSide s)"
  using assms by (auto simp: check_movement_def result_simps)

lemma check_movement_out:
  assumes "check_movement s m = Inr ()" and "mv_to m = To_OUT"
  obtains o' where "mv_out m = Some o'"
    "\<forall>f\<in>set (out_fielders o'). f \<in> set (defense_values (gs_defense s (fieldingSide s)))"
  using assms by (auto simp: check_movement_def result_simps list_all_iff split: option.splits)

section \<open>The order of the movements is irrelevant\<close>

lemma place_runner_commute:
  assumes "mv_runnerId m \<noteq> mv_runnerId m'" and "\<And>b. mv_to m = To_base b \<Longrightarrow> mv_to m' \<noteq> To_base b"
  shows "place_runner m (place_runner m' s) = place_runner m' (place_runner m s)"
  using assms
  by (cases "mv_to m"; cases "mv_to m'") (auto simp: place_runner_def fun_upd_twist battingSide_def)

lemma movements_unique_mset:
  assumes "mset ms = mset ms'" shows "movements_unique ms \<longleftrightarrow> movements_unique ms'"
  unfolding movements_unique_def movement_origins_def movement_destinations_def
  using assms by (intro conj_cong mset_eq_imp_distinct_iff mset_map_filter) simp_all

lemma movement_sets_mset:
  assumes "mset ms = mset ms'"
  shows "set (movement_origins ms) = set (movement_origins ms')"
    and "set (movement_destinations ms) = set (movement_destinations ms')"
  using assms [THEN mset_eq_setD] by (auto simp: movement_origins_def movement_destinations_def set_map_filter)

lemma move_runners_mset:
  assumes eq: "mset ms = mset ms'" and u: "movements_unique ms"
  shows "move_runners ms s = move_runners ms' s"
proof -
  have commute: "place_runner m \<circ> place_runner m' = place_runner m' \<circ> place_runner m"
    if "m \<in> set ms" "m' \<in> set ms" for m m'
  proof (cases "m = m'")
    case False
    from u have "mv_runnerId m \<noteq> mv_runnerId m'"
      using False that by (auto simp: movements_unique_def distinct_map inj_on_def)
    moreover have "mv_to m' \<noteq> To_base b" if to: "mv_to m = To_base b" for b
    proof
      assume "mv_to m' = To_base b"
      with to u that \<open>m \<in> set ms\<close> \<open>m' \<in> set ms\<close> have "m = m'"
        by (intro distinct_map_filterD [of destination_base ms m m' b])
          (auto simp: movements_unique_def movement_destinations_def distinct_map)
      with False show False ..
    qed
    ultimately show ?thesis by (auto simp: fun_eq_iff intro: place_runner_commute)
  qed simp
  have "free_origins ms (gs_bases s) = free_origins ms' (gs_bases s)"
    using movement_sets_mset(1) [OF eq] by (simp add: free_origins_def)
  moreover have "fold place_runner ms = fold place_runner ms'"
    using commute eq by (intro fold_multiset_equiv) auto
  ultimately show ?thesis by (simp add: move_runners_def)
qed

lemma check_forced_mset: "mset ms = mset ms' \<Longrightarrow> check_forced ms = check_forced ms'"
  by (drule mset_eq_setD) (auto simp: fun_eq_iff check_forced_def validForcedAdvance_def forcedSafeMovement_def list_ex_iff)

lemma out_details_mset: "mset ms = mset ms' \<Longrightarrow> mset (out_details ms) = mset (out_details ms')"
  by (simp add: out_details_def out_movements_def List.map_filter_def mset_filter)

lemma length_out_movements_mset: "mset ms = mset ms' \<Longrightarrow> length (out_movements ms) = length (out_movements ms')"
  by (metis out_movements_def mset_filter size_mset)

lemma expected_out_numbers_distinct: "distinct (expected_out_numbers s ms)"
  by (auto simp: expected_out_numbers_def distinct_map inj_on_def)

lemma inning_ending_force_mset:
  assumes "mset ms = mset ms'" and "sort (map out_outNumber (out_details ms)) = expected_out_numbers s ms"
  shows "inning_ending_force ms = inning_ending_force ms'"
proof -
  have "distinct (map out_outNumber (out_details ms))"
    using assms(2) expected_out_numbers_distinct by (metis distinct_sort)
  then show ?thesis
    unfolding inning_ending_force_def
    by (subst find_unique_mset [OF out_details_mset [OF assms(1)]]) simp_all
qed

lemma original_ranks_mset:
  assumes "mset ms = mset ms'"
  shows "original_ranks bs ms = original_ranks bs ms'"
proof -
  have "fold (\<lambda>m r. if mv_from m = BATTER then r(mv_runnerId m \<mapsto> (0::nat)) else r) ms =
        fold (\<lambda>m r. if mv_from m = BATTER then r(mv_runnerId m \<mapsto> 0) else r) ms'"
    using assms by (intro fold_multiset_equiv) (auto simp: fun_eq_iff)
  then show ?thesis by (simp add: original_ranks_def)
qed

lemma no_passing_mset:
  assumes "mset ms = mset ms'"
  shows "no_passing bs ms bs' = no_passing bs ms' bs'"
proof -
  have "set (ranked_runners bs ms) = set (ranked_runners bs ms')"
    using mset_eq_setD [OF assms] by (auto simp: ranked_runners_def)
  then show ?thesis
    using original_ranks_mset [OF assms] by (simp add: no_passing_def Let_def list_all_iff)
qed

lemma play_accepted_mset:
  assumes eq: "mset ms = mset ms'" and acc: "play_accepted s ms"
  shows "play_accepted s ms'"
proof -
  have u: "movements_unique ms" and sorted: "sort (map out_outNumber (out_details ms)) = expected_out_numbers s ms"
    using acc by (simp_all add: play_accepted_def)
  have "sort (map out_outNumber (out_details ms')) = expected_out_numbers s ms'"
    using sorted out_details_mset [OF eq] length_out_movements_mset [OF eq]
    by (metis expected_out_numbers_def mset_map properties_for_sort sorted_sort mset_sort)
  moreover have "list_ex counting_run ms = list_ex counting_run ms'"
    using mset_eq_setD [OF eq] by (simp add: list_ex_iff)
  ultimately show ?thesis
    using acc mset_eq_setD [OF eq] movement_sets_mset [OF eq] movements_unique_mset [OF eq] check_forced_mset [OF eq]
      inning_ending_force_mset [OF eq sorted] no_passing_mset [OF eq] move_runners_mset [OF eq u]
    by (simp add: play_accepted_def)
qed

lemma applyMovements_order_irrelevant:
  assumes "mset ms = mset ms'" and "applyMovements s ms = Inr r"
  shows "applyMovements s ms' = Inr r"
  using assms play_accepted_mset [OF assms(1)] move_runners_mset [OF assms(1)] length_out_movements_mset [OF assms(1)]
  by (auto simp: applyMovements_Inr_iff play_accepted_def)

section \<open>Conservation of runners\<close>

lemma base_cases_list: "b \<in> set all_bases"
  by (cases b) (simp_all add: all_bases_def)

lemma finite_base_set [simp]: "finite (B :: base set)"
  by (rule finite_subset [of _ "set all_bases"]) (auto simp: base_cases_list)

lemma length_occupied_runners: "length (occupied_runners bs) = card (dom bs)"
proof -
  have "length (occupied_runners bs) = length (filter (\<lambda>b. bs b \<noteq> None) all_bases)"
    by (simp add: occupied_runners_def List.map_filter_def)
  also have "\<dots> = card (set (filter (\<lambda>b. bs b \<noteq> None) all_bases))"
    by (rule distinct_card [symmetric]) (simp add: all_bases_def)
  also have "set (filter (\<lambda>b. bs b \<noteq> None) all_bases) = dom bs"
    by (auto simp: dom_def base_cases_list)
  finally show ?thesis .
qed

lemma occupied_runners_iff: "x \<in> set (occupied_runners bs) \<longleftrightarrow> (\<exists>b. bs b = Some x)"
  by (auto simp: occupied_runners_def set_map_filter base_cases_list)

lemma origin_base_iff: "origin_base m = Some b \<longleftrightarrow> mv_from m = From_base b"
  by (cases "mv_from m") simp_all

lemma destination_base_iff: "destination_base m = Some b \<longleftrightarrow> mv_to m = To_base b"
  by (cases "mv_to m") simp_all

lemma origin_iff: "b \<in> set (movement_origins ms) \<longleftrightarrow> (\<exists>m\<in>set ms. mv_from m = From_base b)"
  by (auto simp: movement_origins_def set_map_filter origin_base_iff simp del: origin_base.simps)

lemma destination_iff: "b \<in> set (movement_destinations ms) \<longleftrightarrow> (\<exists>m\<in>set ms. mv_to m = To_base b)"
  by (auto simp: movement_destinations_def set_map_filter destination_base_iff simp del: destination_base.simps)

lemma sent_to_None_iff: "sent_to ms b = None \<longleftrightarrow> b \<notin> set (movement_destinations ms)"
  by (auto simp: sent_to_def find_None_iff destination_iff)

lemma sent_to_SomeD:
  "sent_to ms b = Some x \<Longrightarrow> \<exists>m\<in>set ms. mv_to m = To_base b \<and> mv_runnerId m = x"
  by (auto simp: sent_to_def find_Some_iff)

lemma movement_count_by_origin:
  "length ms = length (movement_origins ms) + length (batter_movements ms)"
  by (induction ms) (auto simp: movement_origins_def batter_movements_def split: runner_origin.splits)

definition home_movements :: "runner_movement list \<Rightarrow> runner_movement list" where
  "home_movements ms = filter (\<lambda>m. mv_to m = To_HOME) ms"

lemma movement_count_by_destination:
  "length ms = length (movement_destinations ms) + length (out_movements ms) + length (home_movements ms)"
  by (induction ms) (auto simp: movement_destinations_def out_movements_def home_movements_def
      split: runner_destination.splits)

lemma play_accepted_origin:
  "play_accepted s ms \<Longrightarrow> m \<in> set ms \<Longrightarrow> mv_from m = From_base b \<Longrightarrow> gs_bases s b = Some (mv_runnerId m)"
  by (auto simp: play_accepted_def dest: check_movement_origin)

lemma bases_after_None_iff:
  "movements_unique ms \<Longrightarrow> gs_bases (move_runners ms s) b = None \<longleftrightarrow>
     b \<notin> set (movement_destinations ms) \<and> (b \<in> set (movement_origins ms) \<or> gs_bases s b = None)"
  using sent_to_None_iff [of ms b] by (auto simp: move_runners_bases split: option.splits)

lemma bases_after_Some_cases:
  assumes "movements_unique ms" and "gs_bases (move_runners ms s) b = Some x"
  obtains (moved) m where "m \<in> set ms" "mv_to m = To_base b" "mv_runnerId m = x"
    | (stayed) "b \<notin> set (movement_origins ms)" "gs_bases s b = Some x"
  using assms sent_to_SomeD [of ms b x]
  by (auto simp: move_runners_bases split: option.splits if_splits)

lemma dom_bases_after:
  assumes "play_accepted s ms"
  shows "dom (gs_bases (move_runners ms s)) =
     (dom (gs_bases s) - set (movement_origins ms)) \<union> set (movement_destinations ms)"
  using assms bases_after_None_iff [of ms s] by (auto simp: play_accepted_def dom_def)

lemma runner_conservation:
  assumes "applyMovements s ms = Inr (s', outs)"
  shows "int (length (occupied_runners (gs_bases s))) + int (length (batter_movements ms)) =
    int (length (occupied_runners (gs_bases s'))) + outs + int (length (home_movements ms))"
proof -
  have acc: "play_accepted s ms" and s': "s' = move_runners ms s"
    and outs: "outs = int (length (out_movements ms))"
    using assms by (auto simp: applyMovements_Inr_iff)
  let ?O = "set (movement_origins ms)" and ?D = "set (movement_destinations ms)" and ?B = "dom (gs_bases s)"
  have O: "card ?O = length (movement_origins ms)" and D: "card ?D = length (movement_destinations ms)"
    using acc by (auto simp: play_accepted_def movements_unique_def distinct_card)
  have sub: "?O \<subseteq> ?B"
    using play_accepted_origin [OF acc] by (auto simp: origin_iff)
  have "card (dom (gs_bases s')) = card (?B - ?O) + card ?D"
    unfolding s' dom_bases_after [OF acc]
    by (rule card_Un_disjoint) (use acc in \<open>auto simp: play_accepted_def\<close>)
  also have "card (?B - ?O) = card ?B - card ?O"
    by (rule card_Diff_subset) (use sub in auto)
  finally have "card (dom (gs_bases s')) + card ?O = card ?B + card ?D"
    using card_mono [OF finite_base_set sub] by simp
  then show ?thesis
    using movement_count_by_origin [of ms] movement_count_by_destination [of ms] O D outs
    by (simp add: length_occupied_runners)
qed

section \<open>Runners stay identified\<close>

definition bases_unique :: "game_state \<Rightarrow> bool" where
  "bases_unique s \<longleftrightarrow> (\<forall>b b' x. gs_bases s b = Some x \<longrightarrow> gs_bases s b' = Some x \<longrightarrow> b = b')"

definition responsibility_agrees :: "game_state \<Rightarrow> bool" where
  "responsibility_agrees s \<longleftrightarrow>
     (\<forall>x. gs_runnerPitcherResponsibility s x \<noteq> None \<longleftrightarrow> (\<exists>b. gs_bases s b = Some x))"

definition batter_not_on_base :: "game_state \<Rightarrow> runner_movement list \<Rightarrow> bool" where
  "batter_not_on_base s ms \<longleftrightarrow>
     (\<forall>m\<in>set ms. mv_from m = BATTER \<longrightarrow> mv_runnerId m \<notin> set (occupied_runners (gs_bases s)))"

lemma moved_runner_origin:
  assumes "play_accepted s ms" "batter_not_on_base s ms" "bases_unique s"
    and "m \<in> set ms" "gs_bases s b = Some (mv_runnerId m)"
  shows "b \<in> set (movement_origins ms)"
proof (cases "mv_from m")
  case BATTER
  with assms show ?thesis by (auto simp: batter_not_on_base_def occupied_runners_iff)
next
  case (From_base c)
  then have "gs_bases s c = Some (mv_runnerId m)" using assms play_accepted_origin by blast
  with assms(3,5) have "c = b" by (auto simp: bases_unique_def)
  with From_base assms(4) show ?thesis by (auto simp: origin_iff)
qed

lemma same_runner_same_movement:
  "movements_unique ms \<Longrightarrow> m \<in> set ms \<Longrightarrow> m' \<in> set ms \<Longrightarrow> mv_runnerId m = mv_runnerId m' \<Longrightarrow> m = m'"
  by (auto simp: movements_unique_def distinct_map inj_on_def)

lemma bases_unique_move:
  assumes acc: "play_accepted s ms" and free: "batter_not_on_base s ms" and uniq: "bases_unique s"
  shows "bases_unique (move_runners ms s)"
  unfolding bases_unique_def
proof (intro allI impI)
  fix b b' x
  have u: "movements_unique ms" using acc by (simp add: play_accepted_def)
  assume *: "gs_bases (move_runners ms s) b = Some x" "gs_bases (move_runners ms s) b' = Some x"
  have cases: "(\<exists>m\<in>set ms. mv_to m = To_base c \<and> mv_runnerId m = x) \<or>
      (c \<notin> set (movement_origins ms) \<and> gs_bases s c = Some x)"
    if "gs_bases (move_runners ms s) c = Some x" for c
    using that by (blast elim: bases_after_Some_cases [OF u])
  from cases [OF *(1)] cases [OF *(2)] show "b = b'"
    using same_runner_same_movement [OF u] moved_runner_origin [OF acc free uniq] uniq
    by (metis bases_unique_def runner_destination.inject)
qed

lemma base_of_moved_runner:
  assumes acc: "play_accepted s ms" and m: "m \<in> set ms" and b: "mv_to m = To_base b"
  shows "gs_bases (move_runners ms s) b = Some (mv_runnerId m)"
proof -
  have u: "movements_unique ms" using acc by (simp add: play_accepted_def)
  obtain y where y: "sent_to ms b = Some y"
    using b m sent_to_None_iff [of ms b] by (auto simp: destination_iff)
  then obtain m' where m': "m' \<in> set ms" "mv_to m' = To_base b" "mv_runnerId m' = y"
    by (auto dest: sent_to_SomeD)
  with b m u have "m' = m"
    by (intro distinct_map_filterD [of destination_base ms m' m b])
      (auto simp: movements_unique_def movement_destinations_def distinct_map)
  with y m' show ?thesis by (auto simp: move_runners_bases [OF u])
qed

lemma base_of_unmoved_runner:
  assumes acc: "play_accepted s ms" and x: "\<forall>m\<in>set ms. mv_runnerId m \<noteq> x" and b: "gs_bases s b = Some x"
  shows "gs_bases (move_runners ms s) b = Some x"
proof -
  have u: "movements_unique ms" using acc by (simp add: play_accepted_def)
  have "b \<notin> set (movement_origins ms)"
    using x b play_accepted_origin [OF acc] by (auto simp: origin_iff)
  moreover from this b acc have "b \<notin> set (movement_destinations ms)"
    by (auto simp: play_accepted_def)
  ultimately show ?thesis
    using b by (auto simp: move_runners_bases [OF u] sent_to_None_iff [symmetric])
qed

lemma base_after_play:
  assumes acc: "play_accepted s ms" and free: "batter_not_on_base s ms" and uniq: "bases_unique s"
  shows "gs_bases (move_runners ms s) b = Some x \<longleftrightarrow>
     (\<exists>m\<in>set ms. mv_runnerId m = x \<and> mv_to m = To_base b) \<or> (gs_bases s b = Some x \<and> (\<forall>m\<in>set ms. mv_runnerId m \<noteq> x))"
    (is "?L \<longleftrightarrow> ?M \<or> ?S")
proof
  have u: "movements_unique ms" using acc by (simp add: play_accepted_def)
  assume ?L
  from bases_after_Some_cases [OF u this] show "?M \<or> ?S"
    using moved_runner_origin [OF acc free uniq] by metis
next
  assume "?M \<or> ?S"
  then show ?L using base_of_moved_runner [OF acc] base_of_unmoved_runner [OF acc] by blast
qed

lemma runner_after_moved:
  assumes acc: "play_accepted s ms" and free: "batter_not_on_base s ms" and uniq: "bases_unique s"
    and m: "m \<in> set ms"
  shows "(\<exists>b. gs_bases (move_runners ms s) b = Some (mv_runnerId m)) \<longleftrightarrow> (\<exists>b. mv_to m = To_base b)"
proof -
  have u: "movements_unique ms" using acc by (simp add: play_accepted_def)
  show ?thesis using base_after_play [OF acc free uniq] same_runner_same_movement [OF u m] m by metis
qed

lemma runner_after_unmoved:
  assumes acc: "play_accepted s ms" and x: "\<forall>m\<in>set ms. mv_runnerId m \<noteq> x"
  shows "(\<exists>b. gs_bases (move_runners ms s) b = Some x) \<longleftrightarrow> (\<exists>b. gs_bases s b = Some x)"
proof -
  have u: "movements_unique ms" using acc by (simp add: play_accepted_def)
  show ?thesis using base_of_unmoved_runner [OF acc x] x by (blast elim: bases_after_Some_cases [OF u])
qed

lemma responsibility_agrees_move:
  assumes acc: "play_accepted s ms" and free: "batter_not_on_base s ms" and uniq: "bases_unique s"
    and resp: "responsibility_agrees s"
  shows "responsibility_agrees (move_runners ms s)"
  unfolding responsibility_agrees_def
proof
  fix x
  have u: "movements_unique ms" using acc by (simp add: play_accepted_def)
  show "gs_runnerPitcherResponsibility (move_runners ms s) x \<noteq> None \<longleftrightarrow>
      (\<exists>b. gs_bases (move_runners ms s) b = Some x)"
  proof (cases "\<exists>m\<in>set ms. mv_runnerId m = x")
    case True
    then obtain m where m: "m \<in> set ms" "mv_runnerId m = x" by blast
    have "find (\<lambda>m. mv_runnerId m = x) ms = Some m"
      using find_Some_distinct_key [of mv_runnerId ms m] u m by (simp add: movements_unique_def)
    then show ?thesis
      using runner_after_moved [OF acc free uniq m(1)] m(2)
      by (auto simp: move_runners_responsibility [OF u] split: runner_destination.splits)
  next
    case False
    then have "find (\<lambda>m. mv_runnerId m = x) ms = None" by (auto simp: find_None_iff)
    then show ?thesis
      using resp runner_after_unmoved [OF acc, of x] False
      by (simp add: move_runners_responsibility [OF u] responsibility_agrees_def)
  qed
qed

end
