(* ===== verification/Game_Invariants.thy ===== *)
theory Game_Invariants
  imports Runner_Motion
begin

text \<open>
  Invariants of the game reducer: what every accepted body keeps true of the counts (outs,
  innings, score), of the lineups (defense, active pitcher, participation) and of the bases,
  and the lifecycle automaton the reducer implements.  Each is a contract of the locale
  \<open>reducer\<close>, interpreted on \<open>applyBody\<close>.
\<close>

section \<open>Inversion of the bodies\<close>

fun play_movements :: "game_state \<Rightarrow> play_body \<Rightarrow> runner_movement list option" where
  "play_movements s (PlateAppearanceRecorded p) = Some (pa_movements p)"
| "play_movements s (RunnerAdvanceRecorded m) = Some [m]"
| "play_movements s (RunnerOutRecorded p) = Some [runner_out_movement p]"
| "play_movements s (StolenBaseAttemptRecorded p) = Some [steal_movement s p]"
| "play_movements s (RunnerPlayRecorded p) = Some (rp_movements p)"
| "play_movements s _ = None"

fun after_batter :: "play_body \<Rightarrow> game_state \<Rightarrow> game_state" where
  "after_batter (PlateAppearanceRecorded p) s = advance_batting_order s"
| "after_batter _ s = s"

definition play_outs :: "runner_movement list \<Rightarrow> int" where
  "play_outs ms = int (length (out_movements ms))"

lemma play_outs_nonneg [simp]: "0 \<le> play_outs ms"
  by (simp add: play_outs_def)

lemma move_and_finish_Inr_iff [result_simps]:
  "move_and_finish s ms = Inr t \<longleftrightarrow>
     play_accepted s ms \<and> finishOuts (move_runners ms s) (play_outs ms) = Inr t"
  by (auto simp: move_and_finish_def result_simps play_outs_def)

lemma requireLive_Inr_iff [result_simps]: "requireLive s = Inr u \<longleftrightarrow> gs_status s = IN_PROGRESS"
  by (simp add: requireLive_def result_simps)

lemma plate_appearance_inversion:
  assumes "apply_plate_appearance s p = Inr t"
  shows "gs_status s = IN_PROGRESS" and "currentBatter s = Inr (pa_batterId p)"
    and "pa_pitcherId p = gs_activePitcher s (fieldingSide s)"
    and "\<exists>bm. batter_movements (pa_movements p) = [bm] \<and> mv_runnerId bm = pa_batterId p \<and>
           mv_to bm = expected_destination (pa_outcome p)"
    and "play_accepted s (pa_movements p)"
    and "finishOuts (advance_batting_order (move_runners (pa_movements p) s)) (play_outs (pa_movements p)) = Inr t"
  using assms
  by (auto simp: apply_plate_appearance_def validateBatterResolution_def result_simps play_outs_def
      split: list.splits)

lemma motion_inversion:
  assumes "apply_play s p = Inr t" and "play_movements s p = Some ms"
  shows "gs_status s = IN_PROGRESS" and "play_accepted s ms"
    and "finishOuts (after_batter p (move_runners ms s)) (play_outs ms) = Inr t"
proof -
  have "gs_status s = IN_PROGRESS \<and> play_accepted s ms \<and>
      finishOuts (after_batter p (move_runners ms s)) (play_outs ms) = Inr t"
  proof (cases p)
    case (PlateAppearanceRecorded q)
    with assms plate_appearance_inversion [of s q t] show ?thesis by simp
  qed (use assms in \<open>auto simp: apply_runner_advance_def apply_runner_out_def apply_stolen_base_def
      apply_runner_play_def result_simps\<close>)
  then show "gs_status s = IN_PROGRESS" "play_accepted s ms"
    "finishOuts (after_batter p (move_runners ms s)) (play_outs ms) = Inr t" by simp_all
qed

lemma motion_cases:
  obtains (motion) ms where "play_movements s p = Some ms"
    | (substitution) q where "p = DefensiveSubstitutionMade q"
    | (alignment) q where "p = DefensiveAlignmentChanged q"
    | (pitching) q where "p = PitchingChangeMade q"
  by (cases p) auto

lemma finishOuts_cases:
  assumes "finishOuts s outs = Inr t"
  obtains (continues) "0 \<le> outs" "gs_outs s + outs < 3" "t = s\<lparr>gs_outs := gs_outs s + outs\<rparr>"
    | (third_out) "0 \<le> outs" "gs_outs s + outs = 3"
        "t = s\<lparr>gs_outs := 0, gs_bases := (\<lambda>_. None), gs_runnerPitcherResponsibility := Map.empty,
               gs_half := (if gs_half s = Some TOP then Some BOTTOM else Some TOP),
               gs_inning := (if gs_half s = Some TOP then gs_inning s
                             else Some ((case gs_inning s of None \<Rightarrow> 0 | Some i \<Rightarrow> i) + 1))\<rparr>"
  using assms by (auto simp: finishOuts_def split: if_splits)

lemma after_batter_frame [simp]:
  "gs_outs (after_batter p s) = gs_outs s" "gs_half (after_batter p s) = gs_half s"
  "gs_inning (after_batter p s) = gs_inning s" "gs_score (after_batter p s) = gs_score s"
  "gs_bases (after_batter p s) = gs_bases s" "gs_status (after_batter p s) = gs_status s"
  "gs_lineups (after_batter p s) = gs_lineups s" "gs_defense (after_batter p s) = gs_defense s"
  "gs_activePitcher (after_batter p s) = gs_activePitcher s"
  "gs_participatedPlayers (after_batter p s) = gs_participatedPlayers s"
  "gs_runnerPitcherResponsibility (after_batter p s) = gs_runnerPitcherResponsibility s"
  "gs_scheduledInnings (after_batter p s) = gs_scheduledInnings s"
  "gs_sourceRevision (after_batter p s) = gs_sourceRevision s"
  "gs_lastSequence (after_batter p s) = gs_lastSequence s"
  by (cases p; simp add: advance_batting_order_def)+

lemma finishOuts_frame:
  assumes "finishOuts s outs = Inr t"
  shows "gs_status t = gs_status s" "gs_score t = gs_score s" "gs_lineups t = gs_lineups s"
    "gs_defense t = gs_defense s" "gs_activePitcher t = gs_activePitcher s"
    "gs_participatedPlayers t = gs_participatedPlayers s"
    "gs_scheduledInnings t = gs_scheduledInnings s"
    "gs_sourceRevision t = gs_sourceRevision s" "gs_lastSequence t = gs_lastSequence s"
  using assms by (auto elim!: finishOuts_cases)

lemma substitution_inversion:
  assumes "apply_substitution s p = Inr t"
  obtains i j where "gs_status s = IN_PROGRESS"
    "find_index (\<lambda>e. le_active e \<and> le_playerId e = ds_outgoingPlayerId p) (gs_lineups s (ds_side p)) = Some i"
    "find_index (\<lambda>e. le_playerId e = ds_incomingPlayerId p) (gs_lineups s (ds_side p)) = Some j"
    "substitution_allowed s p (gs_lineups s (ds_side p) ! i) (gs_lineups s (ds_side p) ! j)"
    "t = substitution_effect s p i j"
  using assms by (auto simp: apply_substitution_def result_simps Let_def split: option.splits)

lemma hand_over_runner_frame [simp]:
  "gs_status (hand_over_runner x y oc r s) = gs_status s"
  "gs_score (hand_over_runner x y oc r s) = gs_score s"
  "gs_outs (hand_over_runner x y oc r s) = gs_outs s"
  "gs_half (hand_over_runner x y oc r s) = gs_half s"
  "gs_inning (hand_over_runner x y oc r s) = gs_inning s"
  "gs_lineups (hand_over_runner x y oc r s) = gs_lineups s"
  "gs_defense (hand_over_runner x y oc r s) = gs_defense s"
  "gs_activePitcher (hand_over_runner x y oc r s) = gs_activePitcher s"
  "gs_participatedPlayers (hand_over_runner x y oc r s) = gs_participatedPlayers s"
  "gs_scheduledInnings (hand_over_runner x y oc r s) = gs_scheduledInnings s"
  by (simp_all add: hand_over_runner_def split: option.splits)

lemma substitution_effect_frame [simp]:
  "gs_status (substitution_effect s p i j) = gs_status s"
  "gs_score (substitution_effect s p i j) = gs_score s"
  "gs_outs (substitution_effect s p i j) = gs_outs s"
  "gs_half (substitution_effect s p i j) = gs_half s"
  "gs_inning (substitution_effect s p i j) = gs_inning s"
  "gs_activePitcher (substitution_effect s p i j) = gs_activePitcher s"
  "gs_scheduledInnings (substitution_effect s p i j) = gs_scheduledInnings s"
  by (simp_all add: substitution_effect_def Let_def)

lemma alignment_inversion:
  assumes "apply_alignment s p = Inr t"
  obtains d l where "gs_status s = IN_PROGRESS" "da_side p = fieldingSide s"
    "distinct (map as_playerId (da_assignments p))" "distinct (map as_position (da_assignments p))"
    "\<forall>x\<in>set (map as_playerId (da_assignments p)).
       \<exists>e\<in>set (gs_lineups s (da_side p)). le_active e \<and> le_playerId e = x"
    "fold_res assign_position (clear_players (map as_playerId (da_assignments p)) (gs_defense s (da_side p)))
       (da_assignments p) = Inr d"
    "distinct (defense_values d)" "d PITCHER = Some (gs_activePitcher s (da_side p))"
    "fold_res align_entry (gs_lineups s (da_side p)) (da_assignments p) = Inr l"
    "t = s\<lparr>gs_defense := (gs_defense s)(da_side p := d), gs_lineups := (gs_lineups s)(da_side p := l)\<rparr>"
  using assms by (auto simp: apply_alignment_def result_simps Let_def list_all_iff list_ex_iff)

lemma pitching_inversion:
  assumes "apply_pitching_change s p = Inr t"
  obtains i j where "gs_status s = IN_PROGRESS"
    "find_index (\<lambda>e. le_playerId e = pc_outgoingPitcherId p) (gs_lineups s (pc_side p)) = Some i"
    "find_index (\<lambda>e. le_playerId e = pc_incomingPitcherId p) (gs_lineups s (pc_side p)) = Some j"
    "pitching_change_allowed s p (gs_lineups s (pc_side p) ! i) (gs_lineups s (pc_side p) ! j)"
    "t = pitching_effect s p i j"
  using assms by (auto simp: apply_pitching_change_def result_simps Let_def split: option.splits)

lemma pitching_effect_frame [simp]:
  "gs_status (pitching_effect s p i j) = gs_status s"
  "gs_score (pitching_effect s p i j) = gs_score s"
  "gs_outs (pitching_effect s p i j) = gs_outs s"
  "gs_half (pitching_effect s p i j) = gs_half s"
  "gs_inning (pitching_effect s p i j) = gs_inning s"
  "gs_bases (pitching_effect s p i j) = gs_bases s"
  "gs_runnerPitcherResponsibility (pitching_effect s p i j) = gs_runnerPitcherResponsibility s"
  "gs_scheduledInnings (pitching_effect s p i j) = gs_scheduledInnings s"
  by (simp_all add: pitching_effect_def Let_def)

lemma play_requires_live: "apply_play s p = Inr t \<Longrightarrow> gs_status s = IN_PROGRESS"
  by (cases s p rule: motion_cases)
    (auto dest: motion_inversion elim: substitution_inversion alignment_inversion pitching_inversion)

section \<open>Counts\<close>

definition counts_wf :: "game_state \<Rightarrow> bool" where
  "counts_wf s \<longleftrightarrow> 0 \<le> gs_outs s \<and> gs_outs s \<le> 2 \<and> (\<forall>sd. 0 \<le> gs_score s sd) \<and>
     (case gs_inning s of
        None \<Rightarrow> gs_half s = None \<and> gs_status s \<in> {READY, CANCELLED}
      | Some i \<Rightarrow> 1 \<le> i \<and> gs_half s \<noteq> None \<and> gs_status s \<notin> {READY, CANCELLED})"

lemma motion_score:
  assumes "apply_play s p = Inr t" and "play_movements s p = Some ms"
  shows "gs_score t = (gs_score s)(battingSide s :=
           gs_score s (battingSide s) + int (length (filter counting_run ms)))"
  using finishOuts_frame(2) [OF motion_inversion(3) [OF assms]] by (simp add: move_runners_score)

lemma roster_change_frame:
  assumes "apply_play s p = Inr t" and "play_movements s p = None"
  shows "gs_score t = gs_score s" "gs_outs t = gs_outs s" "gs_half t = gs_half s"
    "gs_inning t = gs_inning s" "gs_status t = gs_status s"
    "gs_scheduledInnings t = gs_scheduledInnings s"
  using assms
  by (cases p; auto elim!: substitution_inversion alignment_inversion pitching_inversion)+

lemma play_counts_wf:
  assumes "apply_play s p = Inr t" and "counts_wf s"
  shows "counts_wf t"
proof (cases "play_movements s p")
  case None
  with assms show ?thesis unfolding counts_wf_def roster_change_frame [OF assms(1) None] by simp
next
  case (Some ms)
  note inv = motion_inversion [OF assms(1) Some]
  have score: "\<forall>sd. 0 \<le> gs_score t sd"
    using assms(2) motion_score [OF assms(1) Some] by (auto simp: counts_wf_def add_nonneg_nonneg)
  from inv(3) show ?thesis
    by (rule finishOuts_cases)
      (use assms(2) inv(1) score in \<open>auto simp: counts_wf_def split: option.splits\<close>)
qed

lemma body_counts_wf:
  assumes "applyBody s b = Inr t" and "counts_wf s"
  shows "counts_wf t"
proof (cases b)
  case (Play p)
  with assms play_counts_wf show ?thesis by simp
qed (use assms in \<open>auto simp: counts_wf_def set_status_if_def apply_completion_def result_simps
      split: if_splits option.splits\<close>)

interpretation counts: reducer applyBody "\<lambda>_ _. True" counts_wf
  by unfold_locales (rule body_counts_wf)

lemma initial_counts_wf: "createInitialState setup = Inr s \<Longrightarrow> counts_wf s"
  by (auto simp: createInitialState_def result_simps counts_wf_def)

text \<open>The number of half innings begun before the current one.\<close>

definition half_inning_clock :: "game_state \<Rightarrow> int" where
  "half_inning_clock s = (case gs_inning s of None \<Rightarrow> 0
     | Some i \<Rightarrow> 2 * i - (if gs_half s = Some BOTTOM then 0 else 1))"

lemma finishOuts_clock:
  assumes "finishOuts s outs = Inr t" and "gs_half s \<noteq> None" "gs_inning s \<noteq> None"
  shows "half_inning_clock t = half_inning_clock s + (if gs_outs s + outs = 3 then 1 else 0)"
  using assms(1)
proof (cases rule: finishOuts_cases)
  case continues
  then show ?thesis by (simp add: half_inning_clock_def)
next
  case third_out
  with assms(2,3) show ?thesis
    by (cases "the (gs_half s)") (auto simp: half_inning_clock_def)
qed

lemma play_clock:
  assumes "apply_play s p = Inr t" and "counts_wf s"
  shows "half_inning_clock t \<in> {half_inning_clock s, half_inning_clock s + 1}"
proof (cases "play_movements s p")
  case None
  then show ?thesis by (simp add: half_inning_clock_def roster_change_frame [OF assms(1)])
next
  case (Some ms)
  note inv = motion_inversion [OF assms(1) Some]
  have "gs_half s \<noteq> None" "gs_inning s \<noteq> None"
    using assms(2) inv(1) by (auto simp: counts_wf_def split: option.splits)
  then have "half_inning_clock t = half_inning_clock (after_batter p (move_runners ms s)) +
      (if gs_outs s + play_outs ms = 3 then 1 else 0)"
    using finishOuts_clock [OF inv(3)] by simp
  then show ?thesis by (simp add: half_inning_clock_def)
qed

lemma body_score_and_clock:
  assumes "applyBody s b = Inr t" and "counts_wf s"
  shows "gs_score s sd \<le> gs_score t sd"
    and "half_inning_clock s \<le> half_inning_clock t" "half_inning_clock t \<le> half_inning_clock s + 1"
proof -
  have "gs_score s sd \<le> gs_score t sd \<and> half_inning_clock s \<le> half_inning_clock t \<and>
      half_inning_clock t \<le> half_inning_clock s + 1"
  proof (cases b)
    case (Play p)
    with assms have p: "apply_play s p = Inr t" by simp
    have "gs_score s sd \<le> gs_score t sd"
      by (cases "play_movements s p") (use motion_score [OF p] roster_change_frame [OF p] in auto)
    with play_clock [OF p assms(2)] show ?thesis by auto
  qed (use assms in \<open>auto simp: half_inning_clock_def counts_wf_def set_status_if_def
        apply_completion_def result_simps split: if_splits option.splits\<close>)
  then show "gs_score s sd \<le> gs_score t sd" "half_inning_clock s \<le> half_inning_clock t"
    "half_inning_clock t \<le> half_inning_clock s + 1" by auto
qed

section \<open>Lineups\<close>

definition fields :: "lineup_entry list \<Rightarrow> position \<Rightarrow> ident \<Rightarrow> bool" where
  "fields l p x \<longleftrightarrow> (\<exists>k<length l. le_active (l ! k) \<and> le_position (l ! k) = Some p \<and> le_playerId (l ! k) = x)"

lemma fields_mem: "fields l p x \<Longrightarrow> x \<in> set (map le_playerId l)"
  unfolding fields_def by (metis length_map nth_map nth_mem)

text \<open>
  One side: identities are distinct and not empty, the defense is exactly the positions of the
  active entries, the active pitcher pitches, and every active player has taken part.
\<close>

definition lineup_wf ::
    "lineup_entry list \<Rightarrow> (position \<Rightarrow> ident option) \<Rightarrow> ident \<Rightarrow> ident list \<Rightarrow> bool" where
  "lineup_wf l d pitcher part \<longleftrightarrow>
     distinct (map le_playerId l) \<and> '''' \<notin> set (map le_playerId l) \<and>
     (\<forall>p x. d p = Some x \<longleftrightarrow> fields l p x) \<and> d PITCHER = Some pitcher \<and>
     distinct part \<and> set part \<subseteq> set (map le_playerId l) \<and>
     (\<forall>k<length l. le_active (l ! k) \<longrightarrow> le_playerId (l ! k) \<in> set part)"

lemma lineup_wfI:
  assumes "lineup_wf l d pit part" and "map le_playerId l' = map le_playerId l"
    and "\<And>p x. d' p = Some x \<longleftrightarrow> fields l' p x" and "d' PITCHER = Some pit'"
    and "distinct part'" and "set part' \<subseteq> set (map le_playerId l)"
    and "\<And>k. k < length l \<Longrightarrow> le_active (l' ! k) \<Longrightarrow> le_playerId (l ! k) \<in> set part'"
  shows "lineup_wf l' d' pit' part'"
proof -
  have len: "length l' = length l" using assms(2) map_eq_imp_length_eq by blast
  then have "\<And>k. k < length l \<Longrightarrow> le_playerId (l' ! k) = le_playerId (l ! k)"
    using assms(2) by (metis nth_map)
  with assms len show ?thesis by (simp add: lineup_wf_def)
qed

lemma lineup_wf_same_player:
  assumes "distinct (map le_playerId l)" "k < length l" "k' < length l" "le_playerId (l ! k) = le_playerId (l ! k')"
  shows "k = k'"
  using assms by (metis length_map nth_eq_iff_index_eq nth_map)

lemma substitute_entries_nth:
  assumes "i < length l" "j < length l" "i \<noteq> j" "k < length l"
  shows "substitute_entries i j pos l ! k =
    (if k = i then (l ! i)\<lparr>le_active := False, le_position := None\<rparr>
     else if k = j then (l ! j)\<lparr>le_active := True, le_battingOrder := le_battingOrder (l ! i),
                                le_position := Some pos\<rparr>
     else l ! k)"
  using assms by (simp add: substitute_entries_def Let_def modify_at_def nth_list_update)

lemma substitute_entries_ids [simp]: "map le_playerId (substitute_entries i j pos l) = map le_playerId l"
  by (simp add: substitute_entries_def Let_def map_modify_at)

lemma length_substitute_entries [simp]: "length (substitute_entries i j pos l) = length l"
  by (simp add: substitute_entries_def Let_def)

lemma lineup_wf_substitute:
  assumes wf: "lineup_wf l d pit part" and i: "i < length l" "le_active (l ! i)" "le_playerId (l ! i) \<noteq> pit"
    and j: "j < length l" "\<not> le_active (l ! j)" "le_playerId (l ! j) \<notin> set part"
    and pos: "pos \<noteq> PITCHER" "d pos \<in> {None, Some (le_playerId (l ! i))}"
  shows "lineup_wf (substitute_entries i j pos l)
     ((removeDefensivePlayer (le_playerId (l ! i)) d)(pos \<mapsto> le_playerId (l ! j))) pit (part @ [le_playerId (l ! j)])"
proof -
  have ij: "i \<noteq> j" using i j by auto
  have dist: "distinct (map le_playerId l)" and agree: "\<And>p x. d p = Some x \<longleftrightarrow> fields l p x"
    and pit: "d PITCHER = Some pit"
    using wf by (simp_all add: lineup_wf_def)
  have ne: "le_playerId (l ! k) \<noteq> le_playerId (l ! i)" if "k < length l" "k \<noteq> i" for k
    using lineup_wf_same_player [OF dist that(1) i(1)] that(2) by blast
  have old: "fields (substitute_entries i j pos l) p x \<longleftrightarrow>
      (p = pos \<and> x = le_playerId (l ! j)) \<or> (fields l p x \<and> x \<noteq> le_playerId (l ! i))" (is "?L \<longleftrightarrow> ?R") for p x
  proof
    assume ?L
    then show ?R
      using ij i j ne by (auto simp: fields_def substitute_entries_nth split: if_splits)
  next
    assume ?R
    then consider "p = pos" "x = le_playerId (l ! j)" | k where "k < length l" "le_active (l ! k)" "le_position (l ! k) = Some p" "le_playerId (l ! k) = x"
      "k \<noteq> i" "k \<noteq> j"
      using j by (auto simp: fields_def)
    then show ?L
    proof cases
      case 1
      then show ?thesis using ij i j by (auto simp: fields_def substitute_entries_nth intro!: exI [of _ j])
    next
      case 2
      then show ?thesis using ij i j by (auto simp: fields_def substitute_entries_nth intro!: exI [of _ k])
    qed
  qed
  show ?thesis
  proof (rule lineup_wfI [OF wf])
    show "((removeDefensivePlayer (le_playerId (l ! i)) d)(pos \<mapsto> le_playerId (l ! j))) p = Some x \<longleftrightarrow>
        fields (substitute_entries i j pos l) p x" for p x
      using pos(2) agree [of p x] agree [of pos x] unfolding old
      by (auto simp: removeDefensivePlayer_def split: if_splits)
    show "((removeDefensivePlayer (le_playerId (l ! i)) d)(pos \<mapsto> le_playerId (l ! j))) PITCHER = Some pit"
      using pit pos(1) i(3) by (simp add: removeDefensivePlayer_def)
  qed (use wf i j ij in \<open>auto simp: lineup_wf_def substitute_entries_nth split: if_splits\<close>)
qed

lemma pitching_entries_nth:
  assumes "i < length l" "j < length l" "i \<noteq> j" "k < length l"
  shows "pitching_entries i j l ! k =
    (if k = i then (if le_active (l ! j) \<and> le_position (l ! j) \<noteq> None
        then (l ! i)\<lparr>le_position := le_position (l ! j)\<rparr>
        else (l ! i)\<lparr>le_active := False, le_position := None\<rparr>)
     else if k = j then (if le_active (l ! j) then (l ! j)\<lparr>le_position := Some PITCHER\<rparr>
        else (l ! j)\<lparr>le_active := True, le_battingOrder := le_battingOrder (l ! i),
                    le_position := Some PITCHER\<rparr>)
     else l ! k)"
  using assms by (simp add: pitching_entries_def Let_def modify_at_def nth_list_update)

lemma pitching_entries_ids [simp]: "map le_playerId (pitching_entries i j l) = map le_playerId l"
  by (simp add: pitching_entries_def Let_def map_modify_at)

lemma length_pitching_entries [simp]: "length (pitching_entries i j l) = length l"
  by (simp add: pitching_entries_def Let_def)

lemma fields_pitching:
  assumes dist: "distinct (map le_playerId l)" and agree: "\<And>p x. d p = Some x \<longleftrightarrow> fields l p x"
    and pit: "d PITCHER = Some (le_playerId (l ! i))"
    and i: "i < length l" "le_active (l ! i)" and j: "j < length l" and ij: "i \<noteq> j"
  shows "fields (pitching_entries i j l) p x \<longleftrightarrow>
     (p = PITCHER \<and> x = le_playerId (l ! j)) \<or>
     (le_active (l ! j) \<and> le_position (l ! j) = Some p \<and> x = le_playerId (l ! i)) \<or>
     (fields l p x \<and> x \<noteq> le_playerId (l ! i) \<and> x \<noteq> le_playerId (l ! j))" (is "?L \<longleftrightarrow> ?R")
proof -
  have ne: "le_playerId (l ! k) \<noteq> le_playerId (l ! m)" if "k < length l" "m < length l" "k \<noteq> m" for k m
    using lineup_wf_same_player [OF dist that(1,2)] that(3) by blast
  show ?thesis
  proof
    assume ?L
    then obtain k where "k < length l" "le_active (pitching_entries i j l ! k)"
      "le_position (pitching_entries i j l ! k) = Some p" "le_playerId (pitching_entries i j l ! k) = x"
      by (auto simp: fields_def)
    then show ?R
      using i j ij ne by (auto simp: fields_def pitching_entries_nth split: if_splits)
  next
    assume ?R
    then consider "p = PITCHER" "x = le_playerId (l ! j)"
      | "le_active (l ! j)" "le_position (l ! j) = Some p" "x = le_playerId (l ! i)"
      | k where "k < length l" "le_active (l ! k)" "le_position (l ! k) = Some p" "le_playerId (l ! k) = x"
        "k \<noteq> i" "k \<noteq> j"
      by (auto simp: fields_def)
    then show ?L
    proof cases
      case 1
      then show ?thesis using i j ij by (auto simp: fields_def pitching_entries_nth intro!: exI [of _ j])
    next
      case 2
      then show ?thesis using i j ij by (auto simp: fields_def pitching_entries_nth intro!: exI [of _ i])
    next
      case 3
      then show ?thesis using i j ij by (auto simp: fields_def pitching_entries_nth intro!: exI [of _ k])
    qed
  qed
qed

lemma lineup_wf_pitching:
  assumes wf: "lineup_wf l d (le_playerId (l ! i)) part"
    and i: "i < length l" "le_active (l ! i)" and j: "j < length l"
    and ne: "le_playerId (l ! j) \<noteq> le_playerId (l ! i)"
    and part: "\<not> le_active (l ! j) \<Longrightarrow> le_playerId (l ! j) \<notin> set part"
  defines "d0 \<equiv> removeDefensivePlayer (le_playerId (l ! j)) (removeDefensivePlayer (le_playerId (l ! i)) d)"
  defines "d1 \<equiv> (case (le_active (l ! j), le_position (l ! j)) of
                    (True, Some pos) \<Rightarrow> d0(pos \<mapsto> le_playerId (l ! i)) | _ \<Rightarrow> d0)"
  shows "lineup_wf (pitching_entries i j l) (d1(PITCHER \<mapsto> le_playerId (l ! j))) (le_playerId (l ! j))
     (if le_active (l ! j) then part else part @ [le_playerId (l ! j)])"
proof -
  have ij: "i \<noteq> j" using ne by auto
  have dist: "distinct (map le_playerId l)" and agree: "\<And>p x. d p = Some x \<longleftrightarrow> fields l p x"
    and pit: "d PITCHER = Some (le_playerId (l ! i))"
    using wf by (simp_all add: lineup_wf_def)
  have inc: "d pos = Some (le_playerId (l ! j))" if "le_active (l ! j)" "le_position (l ! j) = Some pos" for pos
    using that j unfolding agree fields_def by blast
  show ?thesis
  proof (rule lineup_wfI [OF wf])
    show "(d1(PITCHER \<mapsto> le_playerId (l ! j))) p = Some x \<longleftrightarrow> fields (pitching_entries i j l) p x" for p x
      using pit inc agree [of p x] ne unfolding fields_pitching [OF dist agree pit i j ij]
      by (cases "le_active (l ! j)"; cases "le_position (l ! j)")
        (auto simp: d1_def d0_def removeDefensivePlayer_def split: if_splits)
  qed (use wf i j ij part in \<open>auto simp: lineup_wf_def pitching_entries_nth split: if_splits\<close>)
qed

lemma clear_players_eq:
  "clear_players ps d p = (case d p of None \<Rightarrow> None | Some x \<Rightarrow> if x \<in> set ps then None else Some x)"
  unfolding clear_players_def
  by (induction ps arbitrary: d) (auto simp: removeDefensivePlayer_def split: option.splits)

lemma assign_position_Inr_iff [result_simps]:
  "assign_position d a = Inr d' \<longleftrightarrow> \<not> truthy (d (as_position a)) \<and> d' = d(as_position a \<mapsto> as_playerId a)"
  by (auto simp: assign_position_def)

lemma assign_positions:
  assumes "fold_res assign_position d0 as = Inr d" and "distinct (map as_position as)"
  shows "d p = (case find (\<lambda>a. as_position a = p) as of None \<Rightarrow> d0 p | Some a \<Rightarrow> Some (as_playerId a))"
    and "a \<in> set as \<Longrightarrow> \<not> truthy (d0 (as_position a))"
proof -
  have "d p = (case find (\<lambda>a. as_position a = p) as of None \<Rightarrow> d0 p | Some a \<Rightarrow> Some (as_playerId a)) \<and>
      (\<forall>a\<in>set as. \<not> truthy (d0 (as_position a)))"
    using assms
  proof (induction as arbitrary: d0)
    case (Cons a as)
    let ?d1 = "d0(as_position a \<mapsto> as_playerId a)"
    have free: "\<not> truthy (d0 (as_position a))" and rest: "fold_res assign_position ?d1 as = Inr d"
      using Cons.prems(1) by (auto simp: result_simps)
    have none: "as_position a = p \<Longrightarrow> find (\<lambda>a. as_position a = p) as = None"
      and other: "\<And>b. b \<in> set as \<Longrightarrow> as_position b \<noteq> as_position a"
      using Cons.prems(2) by (auto simp: find_None_iff rev_image_eqI)
    have IH: "d p = (case find (\<lambda>a. as_position a = p) as of None \<Rightarrow> ?d1 p | Some a \<Rightarrow> Some (as_playerId a))"
      "\<forall>b\<in>set as. \<not> truthy (?d1 (as_position b))"
      using Cons.IH [OF rest] Cons.prems(2) by auto
    show ?case using IH free none other by (auto split: option.splits)
  qed simp
  then show "d p = (case find (\<lambda>a. as_position a = p) as of None \<Rightarrow> d0 p | Some a \<Rightarrow> Some (as_playerId a))"
    "a \<in> set as \<Longrightarrow> \<not> truthy (d0 (as_position a))" by simp_all
qed

lemma align_entry_ids: "align_entry l a = Inr l' \<Longrightarrow> map le_playerId l' = map le_playerId l"
  by (auto simp: align_entry_def map_modify_at split: option.splits)

lemma align_entry_nth:
  assumes "align_entry l a = Inr l'" and "distinct (map le_playerId l)" and "k < length l"
  shows "l' ! k = (if le_playerId (l ! k) = as_playerId a then (l ! k)\<lparr>le_position := Some (as_position a)\<rparr> else l ! k)"
proof -
  obtain i where i: "find_index (\<lambda>e. le_playerId e = as_playerId a) l = Some i"
    and l': "l' = modify_at i (\<lambda>e. e\<lparr>le_position := Some (as_position a)\<rparr>) l"
    using assms(1) by (auto simp: align_entry_def split: option.splits)
  have "i < length l" "le_playerId (l ! i) = as_playerId a"
    using find_index_SomeD [OF i] by auto
  then have "le_playerId (l ! k) = as_playerId a \<longleftrightarrow> k = i"
    using lineup_wf_same_player [OF assms(2,3)] by auto
  with assms(3) l' show ?thesis by (auto simp: nth_modify_at)
qed

lemma align_entries:
  assumes "fold_res align_entry l as = Inr l'" and "distinct (map le_playerId l)"
    and "distinct (map as_playerId as)"
  shows "map le_playerId l' = map le_playerId l"
    and "k < length l \<Longrightarrow> l' ! k =
      (case find (\<lambda>a. as_playerId a = le_playerId (l ! k)) as of None \<Rightarrow> l ! k
       | Some a \<Rightarrow> (l ! k)\<lparr>le_position := Some (as_position a)\<rparr>)"
proof -
  have "map le_playerId l' = map le_playerId l \<and> (\<forall>k<length l. l' ! k =
      (case find (\<lambda>a. as_playerId a = le_playerId (l ! k)) as of None \<Rightarrow> l ! k
       | Some a \<Rightarrow> (l ! k)\<lparr>le_position := Some (as_position a)\<rparr>))"
    using assms
  proof (induction as arbitrary: l)
    case (Cons a as)
    then obtain l1 where l1: "align_entry l a = Inr l1" "fold_res align_entry l1 as = Inr l'"
      by (auto simp: result_simps)
    have ids: "map le_playerId l1 = map le_playerId l" using align_entry_ids [OF l1(1)] .
    then have len: "length l1 = length l" using map_eq_imp_length_eq by blast
    have "find (\<lambda>b. as_playerId b = as_playerId a) as = None"
      using Cons.prems(3) by (auto simp: find_None_iff rev_image_eqI)
    moreover have "le_playerId (l1 ! k) = le_playerId (l ! k)" if "k < length l" for k
      using ids len that by (metis nth_map)
    ultimately show ?case
      using Cons.IH [OF l1(2)] Cons.prems ids len align_entry_nth [OF l1(1) Cons.prems(2)]
      by (auto split: option.splits)
  qed simp
  then show "map le_playerId l' = map le_playerId l"
    "k < length l \<Longrightarrow> l' ! k =
      (case find (\<lambda>a. as_playerId a = le_playerId (l ! k)) as of None \<Rightarrow> l ! k
       | Some a \<Rightarrow> (l ! k)\<lparr>le_position := Some (as_position a)\<rparr>)" by simp_all
qed

lemma fields_align:
  assumes dist: "distinct (map le_playerId l)" and players: "distinct (map as_playerId as)"
    and active: "\<forall>x\<in>set (map as_playerId as). \<exists>e\<in>set l. le_active e \<and> le_playerId e = x"
    and l': "fold_res align_entry l as = Inr l'"
  shows "fields l' p x \<longleftrightarrow>
    (\<exists>a\<in>set as. as_position a = p \<and> as_playerId a = x) \<or> (x \<notin> as_playerId ` set as \<and> fields l p x)"
    (is "?L \<longleftrightarrow> ?R")
proof -
  note ids = align_entries(1) [OF l' dist players]
  have len: "length l' = length l" using ids map_eq_imp_length_eq by blast
  have same: "le_playerId (l' ! k) = le_playerId (l ! k)" if "k < length l" for k
    using ids len that by (metis nth_map)
  have at: "l' ! k = (l ! k)\<lparr>le_position := Some (as_position a)\<rparr>"
    if "k < length l" "a \<in> set as" "as_playerId a = le_playerId (l ! k)" for k a
    using align_entries(2) [OF l' dist players that(1)] find_Some_distinct_key [OF players that(2)] that(3)
    by simp
  have rest: "l' ! k = l ! k" if "k < length l" "le_playerId (l ! k) \<notin> as_playerId ` set as" for k
  proof -
    have "find (\<lambda>a. as_playerId a = le_playerId (l ! k)) as = None"
      using that(2) by (force simp: find_None_iff)
    then show ?thesis using align_entries(2) [OF l' dist players that(1)] by simp
  qed
  show ?thesis
  proof
    assume ?L
    then obtain k where k: "k < length l" "le_active (l' ! k)" "le_position (l' ! k) = Some p" "le_playerId (l ! k) = x"
      using len same by (auto simp: fields_def)
    show ?R
    proof (cases "x \<in> as_playerId ` set as")
      case True
      then obtain a where "a \<in> set as" "as_playerId a = le_playerId (l ! k)" using k(4) by auto
      with at [OF k(1) this] k show ?thesis by auto
    next
      case False
      with rest [OF k(1)] k show ?thesis by (auto simp: fields_def)
    qed
  next
    assume ?R
    then show ?L
    proof
      assume "\<exists>a\<in>set as. as_position a = p \<and> as_playerId a = x"
      then obtain a where a: "a \<in> set as" "as_position a = p" "as_playerId a = x" by blast
      with active obtain e where "e \<in> set l" "le_active e" "le_playerId e = x" by auto
      then obtain k where "k < length l" "le_active (l ! k)" "le_playerId (l ! k) = x"
        by (metis in_set_conv_nth)
      with a at [of k a] len show ?L by (auto simp: fields_def intro!: exI [of _ k])
    next
      assume "x \<notin> as_playerId ` set as \<and> fields l p x"
      with rest len show ?L by (auto simp: fields_def)
    qed
  qed
qed

lemma lineup_wf_align:
  assumes wf: "lineup_wf l d pit part" and players: "distinct (map as_playerId as)"
    and positions: "distinct (map as_position as)"
    and active: "\<forall>x\<in>set (map as_playerId as). \<exists>e\<in>set l. le_active e \<and> le_playerId e = x"
    and d': "fold_res assign_position (clear_players (map as_playerId as) d) as = Inr d'"
    and pit: "d' PITCHER = Some pit" and l': "fold_res align_entry l as = Inr l'"
  shows "lineup_wf l' d' pit part"
proof (rule lineup_wfI [OF wf])
  have dist: "distinct (map le_playerId l)" and agree: "\<And>p x. d p = Some x \<longleftrightarrow> fields l p x"
    and named: "'''' \<notin> set (map le_playerId l)"
    using wf by (simp_all add: lineup_wf_def)
  note fields' = fields_align [OF dist players active l']
  show "d' p = Some x \<longleftrightarrow> fields l' p x" for p x
  proof (cases "find (\<lambda>a. as_position a = p) as")
    case None
    then have "\<not> (\<exists>a\<in>set as. as_position a = p)" by (auto simp: find_None_iff)
    then show ?thesis
      using assign_positions(1) [OF d' positions, of p] None agree [of p x]
      unfolding fields' by (auto simp: clear_players_eq split: option.splits)
  next
    case (Some a)
    then have a: "a \<in> set as" "as_position a = p" by (auto simp: find_Some_iff)
    then have only: "b = a" if "b \<in> set as" "as_position b = p" for b
      using positions that by (auto simp: distinct_map inj_on_def)
    have "\<not> (x \<notin> as_playerId ` set as \<and> fields l p x)"
    proof
      assume x: "x \<notin> as_playerId ` set as \<and> fields l p x"
      then have "x \<noteq> ''''" using named fields_mem by blast
      moreover have "clear_players (map as_playerId as) d p = Some x"
        using x agree [of p x] by (auto simp: clear_players_eq)
      ultimately show False using assign_positions(2) [OF d' positions a(1)] a(2) by auto
    qed
    moreover have "(\<exists>b\<in>set as. as_position b = p \<and> as_playerId b = x) \<longleftrightarrow> x = as_playerId a"
      using a only by metis
    ultimately have "fields l' p x \<longleftrightarrow> x = as_playerId a"
      unfolding fields' by argo
    moreover have "d' p = Some (as_playerId a)"
      using assign_positions(1) [OF d' positions, of p] Some by simp
    ultimately show ?thesis by auto
  qed
  show ids: "map le_playerId l' = map le_playerId l" by (rule align_entries(1) [OF l' dist players])
  show "le_playerId (l ! k) \<in> set part" if "k < length l" "le_active (l' ! k)" for k
    using align_entries(2) [OF l' dist players that(1)] that wf
    by (auto simp: lineup_wf_def split: option.splits)
qed (use pit wf in \<open>auto simp: lineup_wf_def\<close>)

text \<open>Both sides, and no player on both of them.\<close>

definition lineups_wf :: "game_state \<Rightarrow> bool" where
  "lineups_wf s \<longleftrightarrow>
     (\<forall>sd. lineup_wf (gs_lineups s sd) (gs_defense s sd) (gs_activePitcher s sd) (gs_participatedPlayers s sd)) \<and>
     set (map le_playerId (gs_lineups s HOME)) \<inter> set (map le_playerId (gs_lineups s AWAY)) = {}"

lemma lineups_wf_update:
  assumes "lineups_wf s"
    and "\<And>sd'. sd' \<noteq> sd \<Longrightarrow> gs_lineups t sd' = gs_lineups s sd' \<and> gs_defense t sd' = gs_defense s sd' \<and>
        gs_activePitcher t sd' = gs_activePitcher s sd' \<and>
        gs_participatedPlayers t sd' = gs_participatedPlayers s sd'"
    and "map le_playerId (gs_lineups t sd) = map le_playerId (gs_lineups s sd)"
    and "lineup_wf (gs_lineups t sd) (gs_defense t sd) (gs_activePitcher t sd) (gs_participatedPlayers t sd)"
  shows "lineups_wf t"
proof -
  have ids: "map le_playerId (gs_lineups t sd') = map le_playerId (gs_lineups s sd')" for sd'
    using assms(2,3) by (cases "sd' = sd") auto
  have "lineup_wf (gs_lineups t sd') (gs_defense t sd') (gs_activePitcher t sd') (gs_participatedPlayers t sd')" for sd'
    using assms by (cases "sd' = sd") (auto simp: lineups_wf_def)
  then show ?thesis using assms(1) by (simp add: lineups_wf_def ids)
qed

lemma lineups_wf_frame:
  assumes "lineups_wf s" and "gs_lineups t = gs_lineups s" "gs_defense t = gs_defense s"
    "gs_activePitcher t = gs_activePitcher s" "gs_participatedPlayers t = gs_participatedPlayers s"
  shows "lineups_wf t"
  using assms by (simp add: lineups_wf_def)

lemma substitution_lineups_wf:
  assumes "apply_substitution s p = Inr t" and wf: "lineups_wf s"
  shows "lineups_wf t"
  using assms(1)
proof (rule substitution_inversion)
  fix i j
  let ?sd = "ds_side p"
  let ?l = "gs_lineups s ?sd"
  assume find: "find_index (\<lambda>e. le_active e \<and> le_playerId e = ds_outgoingPlayerId p) ?l = Some i"
    "find_index (\<lambda>e. le_playerId e = ds_incomingPlayerId p) ?l = Some j"
    and ok: "substitution_allowed s p (?l ! i) (?l ! j)" and t: "t = substitution_effect s p i j"
  note i = find_index_SomeD [OF find(1)] and j = find_index_SomeD [OF find(2)]
  have "lineup_wf (substitute_entries i j (ds_position p) ?l)
     ((removeDefensivePlayer (le_playerId (?l ! i)) (gs_defense s ?sd))(ds_position p \<mapsto> le_playerId (?l ! j)))
     (gs_activePitcher s ?sd) (gs_participatedPlayers s ?sd @ [le_playerId (?l ! j)])"
    by (rule lineup_wf_substitute) (use wf i j ok in \<open>auto simp: lineups_wf_def substitution_allowed_def\<close>)
  then show ?thesis
    unfolding t by (intro lineups_wf_update [OF wf, of ?sd]) (simp_all add: substitution_effect_def Let_def)
qed

lemma pitching_lineups_wf:
  assumes "apply_pitching_change s p = Inr t" and wf: "lineups_wf s"
  shows "lineups_wf t"
  using assms(1)
proof (rule pitching_inversion)
  fix i j
  let ?sd = "pc_side p"
  let ?l = "gs_lineups s ?sd"
  assume find: "find_index (\<lambda>e. le_playerId e = pc_outgoingPitcherId p) ?l = Some i"
    "find_index (\<lambda>e. le_playerId e = pc_incomingPitcherId p) ?l = Some j"
    and ok: "pitching_change_allowed s p (?l ! i) (?l ! j)" and t: "t = pitching_effect s p i j"
  note i = find_index_SomeD [OF find(1)] and j = find_index_SomeD [OF find(2)]
  have pit: "le_playerId (?l ! i) = gs_activePitcher s ?sd"
    using i ok by (auto simp: pitching_change_allowed_def)
  have side: "lineup_wf ?l (gs_defense s ?sd) (le_playerId (?l ! i)) (gs_participatedPlayers s ?sd)"
    using wf pit by (simp add: lineups_wf_def)
  have "lineup_wf (gs_lineups t ?sd) (gs_defense t ?sd) (gs_activePitcher t ?sd) (gs_participatedPlayers t ?sd)"
    using lineup_wf_pitching [OF side, of j] i j ok
    by (cases "le_active (?l ! j)"; cases "le_position (?l ! j)")
      (auto simp: t pitching_effect_def Let_def pitching_change_allowed_def)
  then show ?thesis
    by (intro lineups_wf_update [OF wf, of ?sd]) (simp_all add: t pitching_effect_def Let_def)
qed

lemma alignment_lineups_wf:
  assumes "apply_alignment s p = Inr t" and wf: "lineups_wf s"
  shows "lineups_wf t"
  using assms(1)
proof (rule alignment_inversion)
  fix d l
  let ?sd = "da_side p"
  assume *: "distinct (map as_playerId (da_assignments p))" "distinct (map as_position (da_assignments p))"
    "\<forall>x\<in>set (map as_playerId (da_assignments p)). \<exists>e\<in>set (gs_lineups s ?sd). le_active e \<and> le_playerId e = x"
    "fold_res assign_position (clear_players (map as_playerId (da_assignments p)) (gs_defense s ?sd))
       (da_assignments p) = Inr d"
    "d PITCHER = Some (gs_activePitcher s ?sd)"
    "fold_res align_entry (gs_lineups s ?sd) (da_assignments p) = Inr l"
    and t: "t = s\<lparr>gs_defense := (gs_defense s)(?sd := d), gs_lineups := (gs_lineups s)(?sd := l)\<rparr>"
  have side: "lineup_wf (gs_lineups s ?sd) (gs_defense s ?sd) (gs_activePitcher s ?sd) (gs_participatedPlayers s ?sd)"
    using wf by (simp add: lineups_wf_def)
  have "map le_playerId l = map le_playerId (gs_lineups s ?sd)"
    using align_entries(1) [OF *(6) _ *(1)] side by (simp add: lineup_wf_def)
  with lineup_wf_align [OF side *] show ?thesis
    unfolding t by (intro lineups_wf_update [OF wf, of ?sd]) simp_all
qed

lemma play_lineups_wf:
  assumes "apply_play s p = Inr t" and "lineups_wf s"
  shows "lineups_wf t"
proof (cases s p rule: motion_cases)
  case (motion ms)
  from finishOuts_frame [OF motion_inversion(3) [OF assms(1) motion]] assms(2) show ?thesis
    by (auto intro: lineups_wf_frame)
qed (use assms substitution_lineups_wf pitching_lineups_wf alignment_lineups_wf in auto)

lemma lifecycle_body_frame:
  assumes "applyBody s b = Inr t" and "\<nexists>p. b = Play p"
  shows "gs_lineups t = gs_lineups s" "gs_defense t = gs_defense s"
    "gs_activePitcher t = gs_activePitcher s" "gs_participatedPlayers t = gs_participatedPlayers s"
    "gs_bases t = gs_bases s" "gs_runnerPitcherResponsibility t = gs_runnerPitcherResponsibility s"
    "gs_score t = gs_score s" "gs_outs t = gs_outs s"
  using assms
  by (cases b; auto simp: set_status_if_def apply_completion_def result_simps split: if_splits)+

lemma body_lineups_wf:
  assumes "applyBody s b = Inr t" and "lineups_wf s"
  shows "lineups_wf t"
proof (cases "\<exists>p. b = Play p")
  case True
  with assms play_lineups_wf show ?thesis by auto
next
  case False
  then show ?thesis using lineups_wf_frame [OF assms(2)] lifecycle_body_frame [OF assms(1)] by blast
qed

interpretation lineups: reducer applyBody "\<lambda>_ _. True" lineups_wf
  by unfold_locales (rule body_lineups_wf)

lemma defense_for_fold:
  assumes "distinct (List.map_filter le_position es)"
  shows "fold (\<lambda>e d. case le_position e of None \<Rightarrow> d | Some p \<Rightarrow> d(p \<mapsto> le_playerId e)) es d p =
    (case find (\<lambda>e. le_position e = Some p) es of None \<Rightarrow> d p | Some e \<Rightarrow> Some (le_playerId e))"
  using assms
proof (induction es arbitrary: d)
  case (Cons e es)
  have "le_position e = Some p \<Longrightarrow> find (\<lambda>e. le_position e = Some p) es = None"
    using Cons.prems by (auto simp: find_None_iff set_map_filter)
  with Cons show ?case by (auto split: option.splits)
qed simp

lemma fields_iff: "fields l p x \<longleftrightarrow> (\<exists>e\<in>set l. le_active e \<and> le_position e = Some p \<and> le_playerId e = x)"
  unfolding fields_def by (metis in_set_conv_nth)

lemma defense_for_iff:
  assumes "distinct (List.map_filter le_position (active_entries l))" and "distinct (map le_playerId l)"
  shows "defense_for l p = Some x \<longleftrightarrow> fields l p x"
proof -
  have one: "e = e'" if "e \<in> set (active_entries l)" "e' \<in> set (active_entries l)"
    "le_position e = Some p" "le_position e' = Some p" for e e'
    using distinct_map_filterD [OF assms(1) that] assms(2)
    by (simp add: active_entries_def distinct_map)
  show ?thesis
  proof (cases "find (\<lambda>e. le_position e = Some p) (active_entries l)")
    case None
    then have "\<not> fields l p x" by (auto simp: fields_iff find_None_iff active_entries_def)
    moreover have "defense_for l p = None"
      unfolding defense_for_def defense_for_fold [OF assms(1)] None by simp
    ultimately show ?thesis by simp
  next
    case (Some e)
    then have "e \<in> set (active_entries l)" "le_position e = Some p"
      by (auto simp: find_Some_iff)
    then have "fields l p x \<longleftrightarrow> le_playerId e = x"
      using one by (auto simp: fields_iff active_entries_def)
    then show ?thesis
      by (auto simp: defense_for_def defense_for_fold [OF assms(1)] Some)
  qed
qed

definition setup_named :: "accepted_setup \<Rightarrow> bool" where
  "setup_named setup \<longleftrightarrow> (\<forall>sd. '''' \<notin> set (map le_playerId (ss_lineup (su_sides setup sd))))"

lemma initial_side_wf:
  assumes "setup_lineup_ok l pit" and "'''' \<notin> set (map le_playerId l)"
  shows "lineup_wf l (defense_for l) pit (map le_playerId (active_entries l))"
proof -
  have ok: "distinct (map le_playerId l)" "distinct (List.map_filter le_position (active_entries l))"
    "\<exists>e\<in>set l. le_active e \<and> le_position e = Some PITCHER \<and> le_playerId e = pit"
    using assms(1) by (auto simp: setup_lineup_ok_def list_ex_iff active_entries_def)
  then have "defense_for l PITCHER = Some pit"
    by (simp add: defense_for_iff fields_iff)
  moreover have "distinct (map le_playerId (active_entries l))"
    using ok(1) by (simp add: active_entries_def distinct_map_filter)
  ultimately show ?thesis
    using assms(2) ok(1) defense_for_iff [OF ok(2,1)] by (auto simp: lineup_wf_def active_entries_def)
qed

lemma by_side_eta [simp]: "by_side (f HOME) (f AWAY) = f"
  by (rule ext) (simp add: by_side_def split: game_side.splits)

lemma initial_state_inversion:
  assumes "createInitialState setup = Inr s"
  shows "\<forall>sd. setup_lineup_ok (gs_lineups s sd) (gs_activePitcher s sd)"
    and "gs_lineups s = (\<lambda>sd. ss_lineup (su_sides setup sd))"
    and "gs_defense s = (\<lambda>sd. defense_for (gs_lineups s sd))"
    and "gs_participatedPlayers s = (\<lambda>sd. map le_playerId (active_entries (gs_lineups s sd)))"
    and "distinct (map le_playerId (gs_lineups s HOME @ gs_lineups s AWAY))"
    and "gs_bases s = (\<lambda>_. None)" "gs_runnerPitcherResponsibility s = Map.empty" "gs_half s = None"
proof -
  let ?l = "\<lambda>sd. ss_lineup (su_sides setup sd)"
  have ok: "setup_lineup_ok (?l sd) (ss_startingPitcherId (su_sides setup sd))" for sd
    using assms
    by (cases sd) (auto simp: createInitialState_def validateSetupSide_def Let_def result_simps split: if_splits)
  have dist: "distinct (map le_playerId (?l HOME @ ?l AWAY))"
    using assms by (auto simp: createInitialState_def validateSetupSide_def Let_def result_simps simp del: distinct_append map_append split: if_splits)
  have "gs_lineups s = by_side (?l HOME) (?l AWAY) \<and>
      gs_defense s = by_side (defense_for (?l HOME)) (defense_for (?l AWAY)) \<and>
      gs_participatedPlayers s = by_side (map le_playerId (active_entries (?l HOME)))
        (map le_playerId (active_entries (?l AWAY))) \<and>
      gs_activePitcher s = (\<lambda>sd. ss_startingPitcherId (su_sides setup sd)) \<and>
      gs_bases s = (\<lambda>_. None) \<and> gs_runnerPitcherResponsibility s = Map.empty \<and> gs_half s = None"
    using assms
    by (auto simp: createInitialState_def validateSetupSide_def Let_def result_simps split: if_splits)
  moreover have "by_side (?l HOME) (?l AWAY) = ?l"
    "by_side (defense_for (?l HOME)) (defense_for (?l AWAY)) = (\<lambda>sd. defense_for (?l sd))"
    "by_side (map le_playerId (active_entries (?l HOME))) (map le_playerId (active_entries (?l AWAY))) =
       (\<lambda>sd. map le_playerId (active_entries (?l sd)))"
    by (rule by_side_eta [of "\<lambda>sd. ss_lineup (su_sides setup sd)"],
        rule by_side_eta [of "\<lambda>sd. defense_for (ss_lineup (su_sides setup sd))"],
        rule by_side_eta [of "\<lambda>sd. map le_playerId (active_entries (ss_lineup (su_sides setup sd)))"])
  ultimately show "\<forall>sd. setup_lineup_ok (gs_lineups s sd) (gs_activePitcher s sd)"
    "gs_lineups s = ?l" "gs_defense s = (\<lambda>sd. defense_for (gs_lineups s sd))"
    "gs_participatedPlayers s = (\<lambda>sd. map le_playerId (active_entries (gs_lineups s sd)))"
    "distinct (map le_playerId (gs_lineups s HOME @ gs_lineups s AWAY))"
    "gs_bases s = (\<lambda>_. None)" "gs_runnerPitcherResponsibility s = Map.empty" "gs_half s = None"
    using ok dist by simp_all
qed

lemma initial_lineups_wf:
  assumes "createInitialState setup = Inr s" and "setup_named setup"
  shows "lineups_wf s"
proof -
  note inv = initial_state_inversion [OF assms(1)]
  have "lineup_wf (gs_lineups s sd) (gs_defense s sd) (gs_activePitcher s sd) (gs_participatedPlayers s sd)" for sd
    unfolding inv(3,4) by (rule initial_side_wf) (use inv(1,2) assms(2) in \<open>auto simp: setup_named_def\<close>)
  with inv(5) show ?thesis by (simp add: lineups_wf_def)
qed

section \<open>Runners\<close>

definition active_player :: "lineup_entry list \<Rightarrow> ident \<Rightarrow> bool" where
  "active_player l x \<longleftrightarrow> (\<exists>e\<in>set l. le_active e \<and> le_playerId e = x)"

text \<open>
  A player stands on one base at most, responsibility is recorded exactly for the runners, and
  every runner is an active player of the side at bat.
\<close>

definition runners_wf :: "game_state \<Rightarrow> bool" where
  "runners_wf s \<longleftrightarrow> bases_unique s \<and> responsibility_agrees s \<and>
     (\<forall>b x. gs_bases s b = Some x \<longrightarrow> active_player (gs_lineups s (battingSide s)) x) \<and>
     (gs_status s = READY \<longrightarrow> gs_bases s = (\<lambda>_. None))"

definition game_wf :: "game_state \<Rightarrow> bool" where
  "game_wf s \<longleftrightarrow> counts_wf s \<and> lineups_wf s \<and> runners_wf s"

text \<open>
  What the reducer does not check itself: the schema holds of the body, and a batter does not
  come up while still on base.
\<close>

fun batter_free :: "game_state \<Rightarrow> event_body \<Rightarrow> bool" where
  "batter_free s (Play (PlateAppearanceRecorded p)) \<longleftrightarrow> pa_batterId p \<notin> set (occupied_runners (gs_bases s))"
| "batter_free s _ \<longleftrightarrow> True"

definition body_admissible :: "game_state \<Rightarrow> event_body \<Rightarrow> bool" where
  "body_admissible s b \<longleftrightarrow> body_ok b \<and> batter_free s b"

lemma set_batters_in_order: "e \<in> set (batters_in_order l) \<longleftrightarrow> e \<in> set l \<and> le_active e \<and> le_battingOrder e \<noteq> None"
  by (simp add: batters_in_order_def)

lemma currentBatter_active:
  assumes "currentBatter s = Inr x"
  shows "active_player (gs_lineups s (battingSide s)) x"
proof -
  let ?l = "activeBatters s (battingSide s)"
  have l: "?l \<noteq> []" and x: "x = le_playerId (?l ! (gs_battingOrderIndex s (battingSide s) mod length ?l))"
    using assms by (auto simp: currentBatter_def Let_def split: if_splits)
  then have "?l ! (gs_battingOrderIndex s (battingSide s) mod length ?l) \<in> set ?l" by simp
  with x show ?thesis
    by (auto simp: active_player_def activeBatters_def set_batters_in_order)
qed

lemma steal_movement_origin [simp]: "mv_from (steal_movement s p) = From_base (sb_from p)"
  by (simp add: steal_movement_def)

lemma runner_out_movement_origin [simp]: "mv_from (runner_out_movement p) = From_base (ro_from p)"
  by (simp add: runner_out_movement_def)

text \<open>Only a plate appearance moves somebody from the plate, and then the current batter.\<close>

lemma motion_batter:
  assumes "apply_play s p = Inr t" and "play_movements s p = Some ms" and "play_ok p"
    and "m \<in> set ms" and "mv_from m = BATTER"
  shows "\<exists>q. p = PlateAppearanceRecorded q \<and> mv_runnerId m = pa_batterId q \<and> currentBatter s = Inr (pa_batterId q)"
proof (cases p)
  case (PlateAppearanceRecorded q)
  with assms have inv: "apply_plate_appearance s q = Inr t" and ms: "ms = pa_movements q" by auto
  have "m \<in> set (batter_movements ms)" using assms(4,5) by (simp add: batter_movements_def)
  with plate_appearance_inversion(2,4) [OF inv] PlateAppearanceRecorded ms show ?thesis by auto
next
  case (RunnerAdvanceRecorded m')
  with assms show ?thesis by (auto simp: apply_runner_advance_def result_simps)
next
  case (RunnerPlayRecorded q)
  with assms show ?thesis by (auto simp: runner_play_ok_def Let_def list_all_iff)
qed (use assms in auto)

lemma motion_batter_not_on_base:
  assumes "apply_play s p = Inr t" and "play_movements s p = Some ms" and "body_admissible s (Play p)"
  shows "batter_not_on_base s ms"
  unfolding batter_not_on_base_def
proof (intro ballI impI)
  fix m assume "m \<in> set ms" "mv_from m = BATTER"
  then have "\<exists>q. p = PlateAppearanceRecorded q \<and> mv_runnerId m = pa_batterId q"
    using motion_batter [OF assms(1,2)] assms(3) by (auto simp: body_admissible_def)
  with assms(3) show "mv_runnerId m \<notin> set (occupied_runners (gs_bases s))"
    by (auto simp: body_admissible_def)
qed

lemma runners_after_motion:
  assumes p: "apply_play s p = Inr t" and ms: "play_movements s p = Some ms" and ok: "body_admissible s (Play p)"
    and wf: "runners_wf s" and on: "gs_bases (move_runners ms s) b = Some x"
  shows "active_player (gs_lineups s (battingSide s)) x"
proof -
  have acc: "play_accepted s ms" by (rule motion_inversion(2) [OF p ms])
  then have u: "movements_unique ms" by (simp add: play_accepted_def)
  from u on show ?thesis
  proof (cases rule: bases_after_Some_cases)
    case (moved m)
    show ?thesis
    proof (cases "mv_from m")
      case BATTER
      with motion_batter [OF p ms _ moved(1)] ok moved(3) currentBatter_active show ?thesis
        by (auto simp: body_admissible_def)
    next
      case (From_base c)
      with play_accepted_origin [OF acc moved(1)] moved(3) wf show ?thesis by (auto simp: runners_wf_def)
    qed
  next
    case stayed
    with wf show ?thesis by (auto simp: runners_wf_def)
  qed
qed

lemma battingSide_cong: "gs_half s = gs_half t \<Longrightarrow> battingSide s = battingSide t"
  by (simp add: battingSide_def)

lemma motion_runners_wf:
  assumes p: "apply_play s p = Inr t" and ms: "play_movements s p = Some ms" and ok: "body_admissible s (Play p)"
    and wf: "runners_wf s"
  shows "runners_wf t"
proof -
  note inv = motion_inversion [OF p ms]
  have free: "batter_not_on_base s ms" by (rule motion_batter_not_on_base [OF p ms ok])
  have uniq: "bases_unique s" and resp: "responsibility_agrees s" using wf by (auto simp: runners_wf_def)
  from inv(3) show ?thesis
  proof (cases rule: finishOuts_cases)
    case continues
    have t: "gs_bases t = gs_bases (move_runners ms s)" "gs_half t = gs_half s" "gs_lineups t = gs_lineups s"
      "gs_runnerPitcherResponsibility t = gs_runnerPitcherResponsibility (move_runners ms s)" "gs_status t = gs_status s"
      by (simp_all add: continues(3))
    show ?thesis
      using bases_unique_move [OF inv(2) free uniq] responsibility_agrees_move [OF inv(2) free uniq resp]
        runners_after_motion [OF p ms ok wf] inv(1) battingSide_cong [OF t(2)]
      by (simp add: runners_wf_def bases_unique_def responsibility_agrees_def t)
  next
    case third_out
    then show ?thesis using inv(1) by (simp add: runners_wf_def bases_unique_def responsibility_agrees_def)
  qed
qed

lemma active_player_substitute:
  assumes "distinct (map le_playerId l)" "i < length l" "j < length l" "i \<noteq> j"
    and "active_player l x" "x \<noteq> le_playerId (l ! i)"
  shows "active_player (substitute_entries i j pos l) x"
proof -
  obtain k where k: "k < length l" "le_active (l ! k)" "le_playerId (l ! k) = x"
    using assms(5) by (auto simp: active_player_def in_set_conv_nth)
  with assms have "le_active (substitute_entries i j pos l ! k) \<and> le_playerId (substitute_entries i j pos l ! k) = x"
    by (auto simp: substitute_entries_nth)
  moreover have "substitute_entries i j pos l ! k \<in> set (substitute_entries i j pos l)"
    using k(1) by simp
  ultimately show ?thesis unfolding active_player_def by blast
qed

lemma active_player_incoming:
  assumes "i < length l" "j < length l" "i \<noteq> j"
  shows "active_player (substitute_entries i j pos l) (le_playerId (l ! j))"
proof -
  have "substitute_entries i j pos l ! j \<in> set (substitute_entries i j pos l)" using assms by simp
  moreover have "le_active (substitute_entries i j pos l ! j) \<and> le_playerId (substitute_entries i j pos l ! j) = le_playerId (l ! j)"
    using assms by (simp add: substitute_entries_nth)
  ultimately show ?thesis unfolding active_player_def by blast
qed

lemma active_player_mem: "active_player l x \<Longrightarrow> x \<in> set (map le_playerId l)"
  by (auto simp: active_player_def)

lemma find_SomeD: "find P xs = Some x \<Longrightarrow> P x"
  by (auto simp: find_Some_iff)

lemma hand_over_runner_bases:
  assumes "bases_unique s" and "occupied = find (\<lambda>b. gs_bases s b = Some out) all_bases"
  shows "gs_bases (hand_over_runner out inc occupied resp s) b =
    (if gs_bases s b = Some out then Some inc else gs_bases s b)"
proof (cases occupied)
  case None
  then have "\<forall>b. gs_bases s b \<noteq> Some out"
    using assms(2) base_cases_list by (auto simp: find_None_iff)
  with None show ?thesis by (simp add: hand_over_runner_def)
next
  case (Some c)
  then have "gs_bases s c = Some out" using assms(2) find_SomeD [of _ all_bases c] by simp
  with Some assms(1) show ?thesis
    by (auto simp: hand_over_runner_def bases_unique_def)
qed

lemma hand_over_runner_responsibility:
  assumes "responsibility_agrees s" and "occupied = find (\<lambda>b. gs_bases s b = Some out) all_bases"
    and "\<forall>b. gs_bases s b \<noteq> Some inc" and "occupied \<noteq> None \<Longrightarrow> resp = gs_runnerPitcherResponsibility s out"
  shows "gs_runnerPitcherResponsibility (hand_over_runner out inc occupied resp s) x \<noteq> None \<longleftrightarrow>
    (x = inc \<and> (\<exists>b. gs_bases s b = Some out)) \<or> (x \<noteq> out \<and> (\<exists>b. gs_bases s b = Some x))"
proof (cases occupied)
  case None
  then have "\<forall>b. gs_bases s b \<noteq> Some out"
    using assms(2) base_cases_list by (auto simp: find_None_iff)
  with None assms show ?thesis by (auto simp: hand_over_runner_def responsibility_agrees_def)
next
  case (Some c)
  then have c: "gs_bases s c = Some out" using assms(2) find_SomeD [of _ all_bases c] by simp
  then have "gs_runnerPitcherResponsibility s out \<noteq> None"
    using assms(1) by (auto simp: responsibility_agrees_def)
  then obtain z where "resp = Some z" using assms(4) Some by auto
  with Some c assms(1) show ?thesis
    by (auto simp: hand_over_runner_def responsibility_agrees_def Let_def)
qed

lemma substitution_runners_wf:
  assumes p: "apply_substitution s p = Inr t" and lw: "lineups_wf s" and wf: "runners_wf s"
  shows "runners_wf t"
  using p
proof (rule substitution_inversion)
  fix i j
  let ?sd = "ds_side p"
  let ?l = "gs_lineups s ?sd"
  let ?out = "le_playerId (?l ! i)" and ?inc = "le_playerId (?l ! j)"
  let ?occ = "find (\<lambda>b. gs_bases s b = Some ?out) all_bases"
  assume live: "gs_status s = IN_PROGRESS"
    and find: "find_index (\<lambda>e. le_active e \<and> le_playerId e = ds_outgoingPlayerId p) ?l = Some i"
    "find_index (\<lambda>e. le_playerId e = ds_incomingPlayerId p) ?l = Some j"
    and ok: "substitution_allowed s p (?l ! i) (?l ! j)" and t: "t = substitution_effect s p i j"
  note i = find_index_SomeD [OF find(1)] and j = find_index_SomeD [OF find(2)]
  have ij: "i \<noteq> j" using i ok by (auto simp: substitution_allowed_def)
  have dist: "distinct (map le_playerId (gs_lineups s sd))" for sd
    using lw by (auto simp: lineups_wf_def lineup_wf_def)
  have apart: "set (map le_playerId (gs_lineups s sd)) \<inter> set (map le_playerId (gs_lineups s sd')) = {}" if "sd \<noteq> sd'" for sd sd'
    using lw that by (cases sd; cases sd') (auto simp: lineups_wf_def)
  have uniq: "bases_unique s" and resp: "responsibility_agrees s"
    and act: "\<And>b x. gs_bases s b = Some x \<Longrightarrow> active_player (gs_lineups s (battingSide s)) x"
    using wf by (auto simp: runners_wf_def)
  have off: "gs_bases s b \<noteq> Some ?inc" for b
  proof
    assume "gs_bases s b = Some ?inc"
    then have a: "active_player (gs_lineups s (battingSide s)) ?inc" by (rule act)
    moreover have "?inc \<in> set (map le_playerId ?l)" using j by (metis length_map nth_map nth_mem)
    ultimately have "battingSide s = ?sd" using apart active_player_mem by fastforce
    with a obtain k where "k < length ?l" "le_active (?l ! k)" "le_playerId (?l ! k) = ?inc"
      by (auto simp: active_player_def in_set_conv_nth)
    then have "le_active (?l ! j)" using lineup_wf_same_player [OF dist] j by metis
    with ok show False by (simp add: substitution_allowed_def)
  qed
  have bases: "gs_bases t b = (if gs_bases s b = Some ?out then Some ?inc else gs_bases s b)" for b
    unfolding t substitution_effect_def Let_def
    by (subst hand_over_runner_bases) (use uniq in \<open>auto simp: bases_unique_def\<close>)
  have resp': "gs_runnerPitcherResponsibility t x \<noteq> None \<longleftrightarrow>
      (x = ?inc \<and> (\<exists>b. gs_bases s b = Some ?out)) \<or> (x \<noteq> ?out \<and> (\<exists>b. gs_bases s b = Some x))" for x
    unfolding t substitution_effect_def Let_def
    by (subst hand_over_runner_responsibility) (use resp off in \<open>auto simp: responsibility_agrees_def\<close>)
  have ne: "?inc \<noteq> ?out" using lineup_wf_same_player [OF dist, of i ?sd j] i j ij by auto
  have "bases_unique t" using uniq off by (auto simp: bases_unique_def bases split: if_splits)
  moreover have "responsibility_agrees t"
    unfolding responsibility_agrees_def resp'
  proof
    fix x
    have "(\<exists>b. gs_bases t b = Some x) \<longleftrightarrow> (\<exists>b. gs_bases s b = Some ?out \<and> x = ?inc \<or> gs_bases s b = Some x \<and> x \<noteq> ?out)"
      unfolding bases by (metis option.inject)
    then show "(x = ?inc \<and> (\<exists>b. gs_bases s b = Some ?out)) \<or> (x \<noteq> ?out \<and> (\<exists>b. gs_bases s b = Some x)) \<longleftrightarrow>
        (\<exists>b. gs_bases t b = Some x)" by blast
  qed
  moreover have "battingSide t = battingSide s" by (simp add: t battingSide_def)
  moreover have "active_player (gs_lineups t (battingSide s)) x" if "gs_bases t b = Some x" for b x
  proof (cases "battingSide s = ?sd")
    case True
    have l: "gs_lineups t ?sd = substitute_entries i j (ds_position p) ?l"
      by (simp add: t substitution_effect_def Let_def)
    from that show ?thesis
      using True act active_player_substitute [OF dist, of i ?sd j] active_player_incoming [of i ?l j] i j ij
      by (auto simp: bases l split: if_splits)
  next
    case False
    then have "gs_lineups t (battingSide s) = gs_lineups s (battingSide s)"
      by (simp add: t substitution_effect_def Let_def)
    moreover have "gs_bases s b \<noteq> Some ?out"
    proof
      assume "gs_bases s b = Some ?out"
      then have "?out \<in> set (map le_playerId (gs_lineups s (battingSide s)))"
        using act active_player_mem by blast
      moreover have "?out \<in> set (map le_playerId ?l)" using i by (metis length_map nth_map nth_mem)
      ultimately show False using apart [OF False] by blast
    qed
    ultimately show ?thesis using that act by (auto simp: bases split: if_splits)
  qed
  ultimately show ?thesis using live by (simp add: runners_wf_def t)
qed

lemma fieldingSide_neq: "fieldingSide s \<noteq> battingSide s"
  by (simp add: fieldingSide_def)

lemma runners_wf_frame:
  assumes "runners_wf s" and "gs_bases t = gs_bases s" "gs_half t = gs_half s"
    "gs_runnerPitcherResponsibility t = gs_runnerPitcherResponsibility s"
    "gs_lineups t (battingSide s) = gs_lineups s (battingSide s)" "gs_status t = READY \<Longrightarrow> gs_status s = READY"
  shows "runners_wf t"
proof -
  have "battingSide t = battingSide s" using assms(3) by (rule battingSide_cong)
  with assms show ?thesis
    by (auto simp: runners_wf_def bases_unique_def responsibility_agrees_def)
qed

lemma runners_wf_status: "runners_wf s \<Longrightarrow> st \<noteq> READY \<Longrightarrow> runners_wf (s\<lparr>gs_status := st\<rparr>)"
  by (rule runners_wf_frame) simp_all

lemma play_runners_wf:
  assumes p: "apply_play s p = Inr t" and ok: "body_admissible s (Play p)" and lw: "lineups_wf s" and wf: "runners_wf s"
  shows "runners_wf t"
proof (cases s p rule: motion_cases)
  case (motion ms)
  show ?thesis by (rule motion_runners_wf [OF p motion ok wf])
next
  case (substitution q)
  with p lw wf show ?thesis by (auto intro: substitution_runners_wf)
next
  case (alignment q)
  then have "apply_alignment s q = Inr t" using p by simp
  then show ?thesis
    by (rule alignment_inversion) (rule runners_wf_frame [OF wf], auto simp: fieldingSide_neq [symmetric])
next
  case (pitching q)
  then have "apply_pitching_change s q = Inr t" using p by simp
  then show ?thesis
    by (rule pitching_inversion)
      (rule runners_wf_frame [OF wf], auto simp: fieldingSide_neq [symmetric] pitching_change_allowed_def pitching_effect_def Let_def)
qed

lemma body_runners_wf:
  assumes b: "applyBody s b = Inr t" and ok: "body_admissible s b" and wf: "game_wf s"
  shows "runners_wf t"
proof (cases b)
  case (Play p)
  with assms show ?thesis by (auto simp: game_wf_def intro: play_runners_wf)
next
  case GameStarted
  with assms show ?thesis
    by (auto simp: game_wf_def runners_wf_def set_status_if_def result_simps bases_unique_def
        responsibility_agrees_def split: if_splits)
qed (use assms in \<open>auto simp: game_wf_def set_status_if_def apply_completion_def result_simps
      split: if_splits intro: runners_wf_status\<close>)

lemma body_game_wf:
  assumes "game_wf s" and "body_admissible s b" and "applyBody s b = Inr t"
  shows "game_wf t"
  using assms body_counts_wf body_lineups_wf body_runners_wf by (auto simp: game_wf_def)

interpretation game: reducer applyBody body_admissible game_wf
  by unfold_locales (rule body_game_wf)

lemma initial_game_wf:
  assumes "createInitialState setup = Inr s" and "setup_named setup"
  shows "game_wf s"
  using initial_counts_wf [OF assms(1)] initial_lineups_wf [OF assms] initial_state_inversion [OF assms(1)]
  by (simp add: game_wf_def runners_wf_def bases_unique_def responsibility_agrees_def)

section \<open>Lifecycle\<close>

text \<open>The status automaton the reducer is meant to implement.\<close>

inductive lifecycle :: "game_status \<Rightarrow> game_status \<Rightarrow> bool" where
  lc_start: "lifecycle READY IN_PROGRESS"
| lc_cancel: "lifecycle READY CANCELLED"
| lc_continue: "lifecycle IN_PROGRESS IN_PROGRESS"
| lc_suspend: "lifecycle IN_PROGRESS SUSPENDED"
| lc_resume: "lifecycle SUSPENDED IN_PROGRESS"
| lc_complete: "lifecycle IN_PROGRESS COMPLETED"
| lc_verify: "st \<in> {COMPLETED, CORRECTED} \<Longrightarrow> lifecycle st VERIFIED"
| lc_reopen: "lifecycle VERIFIED CORRECTED"
| lc_correct: "st \<in> {COMPLETED, CORRECTED} \<Longrightarrow> lifecycle st CORRECTED"
| lc_abandon: "st \<in> {IN_PROGRESS, SUSPENDED, COMPLETED, CORRECTED} \<Longrightarrow> lifecycle st ABANDONED"

code_pred lifecycle .

inductive_simps lifecycle_from [simp]:
  "lifecycle READY st" "lifecycle IN_PROGRESS st" "lifecycle SUSPENDED st" "lifecycle COMPLETED st"
  "lifecycle VERIFIED st" "lifecycle CORRECTED st" "lifecycle ABANDONED st" "lifecycle CANCELLED st"

lemma play_status:
  assumes "apply_play s p = Inr t"
  shows "gs_status s = IN_PROGRESS" and "gs_status t = IN_PROGRESS"
proof -
  show live: "gs_status s = IN_PROGRESS" by (rule play_requires_live [OF assms])
  show "gs_status t = IN_PROGRESS"
  proof (cases "play_movements s p")
    case None
    from roster_change_frame(5) [OF assms None] live show ?thesis by simp
  next
    case (Some ms)
    from finishOuts_frame(1) [OF motion_inversion(3) [OF assms Some]] live show ?thesis by simp
  qed
qed

lemma body_lifecycle: "applyBody s b = Inr t \<Longrightarrow> lifecycle (gs_status s) (gs_status t)"
  by (cases b) (auto simp: play_status set_status_if_def apply_completion_def result_simps
      intro: lifecycle.intros split: if_splits)

definition accepted_with :: "game_state \<Rightarrow> event_body \<Rightarrow> game_status \<Rightarrow> bool" where
  "accepted_with s b st \<longleftrightarrow> (case applyBody s b of Inl _ \<Rightarrow> False | Inr t \<Rightarrow> gs_status t = st)"

lemma accepted_withI: "applyBody s b = Inr t \<Longrightarrow> gs_status t = st \<Longrightarrow> accepted_with s b st"
  by (simp add: accepted_with_def)

lemma accepted_withE: "accepted_with s b st \<Longrightarrow> \<exists>t. applyBody s b = Inr t \<and> gs_status t = st"
  by (auto simp: accepted_with_def split: sum.splits)

text \<open>A body that takes each edge of the automaton.\<close>

fun lifecycle_body :: "game_status \<Rightarrow> game_status \<Rightarrow> event_body" where
  "lifecycle_body READY IN_PROGRESS = GameStarted"
| "lifecycle_body SUSPENDED IN_PROGRESS = GameResumed"
| "lifecycle_body _ CANCELLED = GameCancelled ''RAIN''"
| "lifecycle_body _ SUSPENDED = GameSuspended ''RAIN''"
| "lifecycle_body _ COMPLETED = GameCompleted ''MERCY'' MERCY_RULE"
| "lifecycle_body _ VERIFIED = GameVerified"
| "lifecycle_body VERIFIED CORRECTED = GameReopened ''APPEAL''"
| "lifecycle_body _ ABANDONED = GameAbandoned ''RAIN''"
| "lifecycle_body _ _ = CorrectionApplied \<lparr>co_policy = REVERSE_EVENTS, co_targetEventIds = [''e1''],
     co_replacements = [], co_reasonCode = ''SCORER_ERROR''\<rparr>"

lemma lifecycle_body_accepted: "lifecycle (gs_status s) st \<Longrightarrow> accepted_with s (lifecycle_body (gs_status s) st) st"
  by (cases "gs_status s") (auto simp: accepted_with_def set_status_if_def apply_completion_def requireLive_def)

lemma lifecycle_body_ok: "lifecycle st st' \<Longrightarrow> body_ok (lifecycle_body st st')"
  by (cases st) (auto simp: id_ok_def correction_ok_def Let_def)

section \<open>No player returns\<close>

definition retired :: "game_side \<Rightarrow> ident \<Rightarrow> game_state \<Rightarrow> bool" where
  "retired sd x s \<longleftrightarrow> x \<in> set (gs_participatedPlayers s sd) \<and> \<not> active_player (gs_lineups s sd) x"

lemma active_player_nth: "active_player l x \<longleftrightarrow> (\<exists>k<length l. le_active (l ! k) \<and> le_playerId (l ! k) = x)"
  unfolding active_player_def by (metis in_set_conv_nth)

lemma active_after_substitution:
  assumes "i < length l" "j < length l" "i \<noteq> j" and "active_player (substitute_entries i j pos l) x"
  shows "active_player l x \<or> x = le_playerId (l ! j)"
  using assms by (auto simp: active_player_nth substitute_entries_nth split: if_splits)

lemma active_after_pitching:
  assumes "i < length l" "j < length l" "i \<noteq> j" "le_active (l ! i)" and "active_player (pitching_entries i j l) x"
  shows "active_player l x \<or> (x = le_playerId (l ! j) \<and> \<not> le_active (l ! j))"
  using assms by (auto simp: active_player_nth pitching_entries_nth split: if_splits)

lemma active_after_alignment:
  assumes "fold_res align_entry l as = Inr l'" and "distinct (map le_playerId l)" "distinct (map as_playerId as)"
  shows "active_player l' x \<longleftrightarrow> active_player l x"
proof -
  note ids = align_entries(1) [OF assms]
  have len: "length l' = length l" using ids map_eq_imp_length_eq by blast
  have "le_active (l' ! k) = le_active (l ! k) \<and> le_playerId (l' ! k) = le_playerId (l ! k)" if "k < length l" for k
    using align_entries(2) [OF assms that] by (auto split: option.splits)
  with len show ?thesis by (auto simp: active_player_nth)
qed

lemma play_newly_active:
  assumes p: "apply_play s p = Inr t" and wf: "lineups_wf s"
  shows "set (gs_participatedPlayers s sd) \<subseteq> set (gs_participatedPlayers t sd)"
    and "active_player (gs_lineups t sd) x \<Longrightarrow>
      active_player (gs_lineups s sd) x \<or> x \<notin> set (gs_participatedPlayers s sd)"
proof -
  have dist: "distinct (map le_playerId (gs_lineups s sd))" for sd
    using wf by (auto simp: lineups_wf_def lineup_wf_def)
  have "set (gs_participatedPlayers s sd) \<subseteq> set (gs_participatedPlayers t sd) \<and>
    (active_player (gs_lineups t sd) x \<longrightarrow>
      active_player (gs_lineups s sd) x \<or> x \<notin> set (gs_participatedPlayers s sd))"
  proof (cases s p rule: motion_cases)
    case (motion ms)
    from finishOuts_frame [OF motion_inversion(3) [OF p motion]] show ?thesis by simp
  next
    case (substitution q)
    then have "apply_substitution s q = Inr t" using p by simp
    then show ?thesis
    proof (rule substitution_inversion)
      fix i j
      let ?l = "gs_lineups s (ds_side q)"
      assume find: "find_index (\<lambda>e. le_active e \<and> le_playerId e = ds_outgoingPlayerId q) ?l = Some i"
        "find_index (\<lambda>e. le_playerId e = ds_incomingPlayerId q) ?l = Some j"
        and ok: "substitution_allowed s q (?l ! i) (?l ! j)" and t: "t = substitution_effect s q i j"
      note i = find_index_SomeD [OF find(1)] and j = find_index_SomeD [OF find(2)]
      have "i \<noteq> j" using i ok by (auto simp: substitution_allowed_def)
      with i j ok t show ?thesis
        using active_after_substitution [of i ?l j]
        by (auto simp: substitution_effect_def Let_def substitution_allowed_def)
    qed
  next
    case (alignment q)
    then have "apply_alignment s q = Inr t" using p by simp
    then show ?thesis
      by (rule alignment_inversion) (auto simp: active_after_alignment [OF _ dist])
  next
    case (pitching q)
    then have "apply_pitching_change s q = Inr t" using p by simp
    then show ?thesis
    proof (rule pitching_inversion)
      fix i j
      let ?l = "gs_lineups s (pc_side q)"
      assume find: "find_index (\<lambda>e. le_playerId e = pc_outgoingPitcherId q) ?l = Some i"
        "find_index (\<lambda>e. le_playerId e = pc_incomingPitcherId q) ?l = Some j"
        and ok: "pitching_change_allowed s q (?l ! i) (?l ! j)" and t: "t = pitching_effect s q i j"
      note i = find_index_SomeD [OF find(1)] and j = find_index_SomeD [OF find(2)]
      have "i \<noteq> j" using i j ok by (auto simp: pitching_change_allowed_def)
      with i j ok t show ?thesis
        using active_after_pitching [of i ?l j]
        by (auto simp: pitching_effect_def Let_def pitching_change_allowed_def split: if_splits)
    qed
  qed
  then show "set (gs_participatedPlayers s sd) \<subseteq> set (gs_participatedPlayers t sd)"
    "active_player (gs_lineups t sd) x \<Longrightarrow>
      active_player (gs_lineups s sd) x \<or> x \<notin> set (gs_participatedPlayers s sd)" by blast+
qed

lemma body_retired:
  assumes "lineups_wf s \<and> retired sd x s" and "applyBody s b = Inr t"
  shows "lineups_wf t \<and> retired sd x t"
proof (cases "\<exists>p. b = Play p")
  case True
  then obtain p where p: "apply_play s p = Inr t" using assms(2) by auto
  from play_newly_active [OF p, of sd] assms body_lineups_wf [OF assms(2)] show ?thesis
    by (auto simp: retired_def)
next
  case False
  with lifecycle_body_frame [OF assms(2)] assms body_lineups_wf [OF assms(2)] show ?thesis
    by (auto simp: retired_def)
qed

interpretation retirement: reducer applyBody "\<lambda>_ _. True" "\<lambda>s. lineups_wf s \<and> retired sd x s" for sd x
  by unfold_locales (rule body_retired)

section \<open>Runs on a third out\<close>

lemma forced_third_out_scoreless:
  assumes "play_accepted s ms" and "m \<in> set ms" "mv_to m = To_OUT" "mv_out m = Some o'"
    and "out_outNumber o' = 3" "out_force o'"
  shows "filter counting_run ms = []"
proof -
  have mem: "o' \<in> set (out_details ms)"
    using assms(2-4) by (auto simp: out_details_def set_map_filter out_movements_def)
  have "distinct (map out_outNumber (out_details ms))"
    using assms(1) expected_out_numbers_distinct by (metis distinct_sort play_accepted_def)
  then have "find (\<lambda>y. out_outNumber y = out_outNumber o') (out_details ms) = Some o'"
    using mem by (rule find_Some_distinct_key)
  then have "inning_ending_force ms" using assms(5,6) by (simp add: inning_ending_force_def)
  with assms(1) show ?thesis
    by (auto simp: play_accepted_def list_ex_iff filter_empty_conv)
qed

section \<open>Force chains\<close>

lemma forced_from_third:
  assumes "play_accepted s ms" and "m \<in> set ms" "mv_forced m" "mv_from m = From_base b" "mv_to m \<noteq> To_OUT"
  shows "\<forall>r<base_rank b. \<exists>m'\<in>set ms. mv_forced m' \<and> origin_rank (mv_from m') = r \<and> destination_rank (mv_to m') = Some (Suc r)"
    and "destination_rank (mv_to m) = Some (Suc (base_rank b))"
proof -
  have valid: "validForcedAdvance ms m'" if "m' \<in> set ms" "mv_to m' \<noteq> To_OUT" for m'
    using assms(1) that by (auto simp: play_accepted_def check_forced_def result_simps split: if_splits)
  have batter: "\<exists>m'\<in>set ms. mv_forced m' \<and> mv_from m' = BATTER \<and> mv_to m' = To_base FIRST"
    if "forcedSafeMovement ms BATTER (To_base FIRST)" using that by (auto simp: forcedSafeMovement_def list_ex_iff)
  have first: "\<exists>m'\<in>set ms. mv_forced m' \<and> mv_from m' = From_base FIRST \<and> mv_to m' = To_base SECOND"
     "forcedSafeMovement ms BATTER (To_base FIRST)"
    if "forcedSafeMovement ms (From_base FIRST) (To_base SECOND)"
    using that valid by (fastforce simp: forcedSafeMovement_def list_ex_iff validForcedAdvance_def)+
  have second: "\<exists>m'\<in>set ms. mv_forced m' \<and> mv_from m' = From_base SECOND \<and> mv_to m' = To_base THIRD"
     "forcedSafeMovement ms (From_base FIRST) (To_base SECOND)"
    if "forcedSafeMovement ms (From_base SECOND) (To_base THIRD)"
    using that valid by (fastforce simp: forcedSafeMovement_def list_ex_iff validForcedAdvance_def)+
  have m: "validForcedAdvance ms m" using valid assms(2,5) .
  let ?link = "\<lambda>r. \<exists>m'\<in>set ms. mv_forced m' \<and> origin_rank (mv_from m') = r \<and> destination_rank (mv_to m') = Some (Suc r)"
  have link0: "?link 0" if "forcedSafeMovement ms BATTER (To_base FIRST)"
    using batter [OF that] by fastforce
  have link1: "?link 1 \<and> ?link 0" if "forcedSafeMovement ms (From_base FIRST) (To_base SECOND)"
    using first(1) [OF that] link0 [OF first(2) [OF that]] by fastforce
  have link2: "?link 2 \<and> ?link 1 \<and> ?link 0" if "forcedSafeMovement ms (From_base SECOND) (To_base THIRD)"
    using second(1) [OF that] link1 [OF second(2) [OF that]] by fastforce
  have less: "(\<forall>r<1. P r) \<longleftrightarrow> P 0" "(\<forall>r<2. P r) \<longleftrightarrow> P 0 \<and> P 1" "(\<forall>r<3. P r) \<longleftrightarrow> P 0 \<and> P 1 \<and> P (2::nat)" for P
    by (auto simp: less_Suc_eq numeral_2_eq_2 numeral_3_eq_3)
  show "destination_rank (mv_to m) = Some (Suc (base_rank b))"
    using m assms(3,4) by (auto simp: validForcedAdvance_def)
  show "\<forall>r<base_rank b. ?link r"
    using m assms(3,4) link0 link1 link2 by (cases b) (auto simp: validForcedAdvance_def less)
qed

section \<open>Runners keep their order\<close>

lemma base_ranks_eq: "base_ranks bs x =
   (if bs THIRD = Some x then Some 3 else if bs SECOND = Some x then Some 2
    else if bs FIRST = Some x then Some 1 else None)"
  by (auto simp: base_ranks_def all_bases_def split: option.splits)

lemma base_ranks_unique:
  assumes "bases_unique s" and "gs_bases s b = Some x"
  shows "base_ranks (gs_bases s) x = Some (base_rank b)"
proof -
  have "gs_bases s c = Some x \<longleftrightarrow> c = b" for c using assms by (auto simp: bases_unique_def)
  then show ?thesis by (cases b) (simp_all add: base_ranks_eq)
qed

lemma original_ranks_eq: "original_ranks bs ms x =
   (if \<exists>m\<in>set ms. mv_from m = BATTER \<and> mv_runnerId m = x then Some 0 else base_ranks bs x)"
proof -
  have "fold (\<lambda>m r. if mv_from m = BATTER then r(mv_runnerId m \<mapsto> (0::nat)) else r) ms r x =
    (if \<exists>m\<in>set ms. mv_from m = BATTER \<and> mv_runnerId m = x then Some 0 else r x)" for r
    by (induction ms arbitrary: r) auto
  then show ?thesis by (simp add: original_ranks_def)
qed

lemma no_passing_order:
  assumes "no_passing bs ms bs'" and "x \<in> set (ranked_runners bs ms)" "y \<in> set (ranked_runners bs ms)"
    and "original_ranks bs ms x = Some i" "original_ranks bs ms y = Some j" "i < j"
    and "base_ranks bs' x = Some i'" "base_ranks bs' y = Some j'"
  shows "i' < j'"
  using assms by (fastforce simp: no_passing_def Let_def list_all_iff passes_def)

lemma runners_keep_order:
  assumes acc: "play_accepted s ms" and free: "batter_not_on_base s ms" and uniq: "bases_unique s"
    and behind: "gs_bases s b = Some x" and ahead: "gs_bases s b' = Some y" and lt: "base_rank b < base_rank b'"
    and after: "gs_bases (move_runners ms s) c = Some x" "gs_bases (move_runners ms s) c' = Some y"
  shows "base_rank c < base_rank c'"
proof -
  note u = uniq and u' = bases_unique_move [OF acc free uniq]
  have not_batter: "\<not> (\<exists>m\<in>set ms. mv_from m = BATTER \<and> mv_runnerId m = z)" if "gs_bases s d = Some z" for d z
    using free that by (auto simp: batter_not_on_base_def occupied_runners_iff)
  show ?thesis
  proof (rule no_passing_order)
    show "no_passing (gs_bases s) ms (gs_bases (move_runners ms s))" using acc by (simp add: play_accepted_def)
    show "x \<in> set (ranked_runners (gs_bases s) ms)" "y \<in> set (ranked_runners (gs_bases s) ms)"
      using behind ahead by (auto simp: ranked_runners_def occupied_runners_iff)
    show "original_ranks (gs_bases s) ms x = Some (base_rank b)" "original_ranks (gs_bases s) ms y = Some (base_rank b')"
      using base_ranks_unique [OF u behind] base_ranks_unique [OF u ahead] not_batter [OF behind] not_batter [OF ahead]
      by (auto simp: original_ranks_eq)
    show "base_ranks (gs_bases (move_runners ms s)) x = Some (base_rank c)"
      "base_ranks (gs_bases (move_runners ms s)) y = Some (base_rank c')"
      using base_ranks_unique [OF u' after(1)] base_ranks_unique [OF u' after(2)] by simp_all
  qed (rule lt)
qed

lemma batter_stays_behind:
  assumes acc: "play_accepted s ms" and free: "batter_not_on_base s ms" and uniq: "bases_unique s"
    and m: "m \<in> set ms" "mv_from m = BATTER" and ahead: "gs_bases s b' = Some y"
    and after: "gs_bases (move_runners ms s) c = Some (mv_runnerId m)" "gs_bases (move_runners ms s) c' = Some y"
  shows "base_rank c < base_rank c'"
proof -
  note u = uniq and u' = bases_unique_move [OF acc free uniq]
  have not_batter: "\<not> (\<exists>m\<in>set ms. mv_from m = BATTER \<and> mv_runnerId m = y)"
    using free ahead by (auto simp: batter_not_on_base_def occupied_runners_iff)
  show ?thesis
  proof (rule no_passing_order)
    show "no_passing (gs_bases s) ms (gs_bases (move_runners ms s))" using acc by (simp add: play_accepted_def)
    show "mv_runnerId m \<in> set (ranked_runners (gs_bases s) ms)" "y \<in> set (ranked_runners (gs_bases s) ms)"
      using m ahead by (auto simp: ranked_runners_def occupied_runners_iff)
    show "original_ranks (gs_bases s) ms (mv_runnerId m) = Some 0"
      using m by (auto simp: original_ranks_eq)
    show "original_ranks (gs_bases s) ms y = Some (base_rank b')"
      using base_ranks_unique [OF u ahead] not_batter by (auto simp: original_ranks_eq)
    show "base_ranks (gs_bases (move_runners ms s)) (mv_runnerId m) = Some (base_rank c)"
      "base_ranks (gs_bases (move_runners ms s)) y = Some (base_rank c')"
      using base_ranks_unique [OF u' after(1)] base_ranks_unique [OF u' after(2)] by simp_all
  qed (cases b'; simp)
qed

section \<open>Errors of a schema-valid body\<close>

text \<open>
  The non-null assertions of the source never fail on a body that passed the schema, and the
  only internal failure is a side at bat without batters.
\<close>

lemma check_all_InlD: "check_all f xs = Inl e \<Longrightarrow> \<exists>x\<in>set xs. f x = Inl e"
  by (induction xs) (auto simp: result_simps)

lemma applyMovements_errors:
  assumes "applyMovements s ms = Inl e" and "\<forall>m\<in>set ms. mv_to m = To_OUT \<longrightarrow> mv_out m \<noteq> None"
  shows "e \<in> {INVALID_RUNNER_MOVEMENT, INVALID_BASEBALL_TRANSITION, INVALID_PITCHER, INVALID_LINEUP}"
proof -
  have m: "check_movement s m = Inl e \<Longrightarrow> m \<in> set ms \<Longrightarrow> e \<in> {INVALID_RUNNER_MOVEMENT, INVALID_PITCHER, INVALID_LINEUP}" for m
    using assms(2) by (auto simp: check_movement_def result_simps split: if_splits option.splits runner_origin.splits)
  have f: "check_forced ms m = Inl e \<Longrightarrow> e = INVALID_RUNNER_MOVEMENT" for m
    by (auto simp: check_forced_def result_simps split: if_splits)
  from assms(1) show ?thesis
    unfolding applyMovements_def Let_def by (auto simp: result_simps dest!: check_all_InlD f m)
qed

lemma move_and_finish_errors:
  assumes "move_and_finish s ms = Inl e" and "\<forall>m\<in>set ms. mv_to m = To_OUT \<longrightarrow> mv_out m \<noteq> None"
  shows "e \<in> {INVALID_RUNNER_MOVEMENT, INVALID_BASEBALL_TRANSITION, INVALID_PITCHER, INVALID_LINEUP}"
proof -
  have "finishOuts s' outs = Inl e \<Longrightarrow> e = INVALID_BASEBALL_TRANSITION" for s' outs
    by (auto simp: finishOuts_def split: if_splits)
  with assms applyMovements_errors [of s ms e] show ?thesis
    by (auto simp: move_and_finish_def result_simps)
qed

lemma movement_ok_out: "movement_ok m \<Longrightarrow> mv_to m = To_OUT \<longrightarrow> mv_out m \<noteq> None"
  by (auto simp: movement_ok_def movement_judgments_ok_def)

lemma alignment_errors:
  assumes "apply_alignment s p = Inl e"
  shows "e \<in> {INVALID_LIFECYCLE_TRANSITION, INVALID_LINEUP}"
proof -
  have pos: "fold_res assign_position d as = Inl e \<Longrightarrow> e = INVALID_LINEUP" for d as
    by (induction as arbitrary: d) (auto simp: result_simps assign_position_def split: if_splits)
  have ent: "fold_res align_entry l as \<noteq> Inl e" if "\<forall>a\<in>set as. as_playerId a \<in> set (map le_playerId l)" for l as
    using that
  proof (induction as arbitrary: l)
    case (Cons a as)
    then obtain i where "find_index (\<lambda>e. le_playerId e = as_playerId a) l = Some i"
      by (cases "find_index (\<lambda>e. le_playerId e = as_playerId a) l") (auto simp: find_index_None_iff)
    then obtain l1 where l1: "align_entry l a = Inr l1"
      by (simp add: align_entry_def)
    have "set (map le_playerId l1) = set (map le_playerId l)" using align_entry_ids [OF l1] by simp
    with Cons l1 show ?case by simp
  qed simp
  have "fold_res align_entry (gs_lineups s (da_side p)) (da_assignments p) \<noteq> Inl e"
    if "\<forall>a\<in>set (da_assignments p). \<exists>e\<in>set (gs_lineups s (da_side p)). le_active e \<and> le_playerId e = as_playerId a"
    by (rule ent) (use that in force)
  with assms pos show ?thesis
    by (auto simp: apply_alignment_def requireLive_def Let_def result_simps list_all_iff list_ex_iff)
qed

definition play_errors :: "event_error set" where
  "play_errors = {INVALID_LIFECYCLE_TRANSITION, INVALID_BASEBALL_TRANSITION, INVALID_LINEUP,
     INVALID_RUNNER_MOVEMENT, INVALID_PITCHER}"

lemma plate_appearance_errors:
  assumes "apply_plate_appearance s p = Inl e" and "plate_appearance_ok p"
  shows "e \<in> play_errors \<or> (e = INTERNAL_INVARIANT_FAILURE \<and> activeBatters s (battingSide s) = [])"
proof -
  have "finishOuts s' outs = Inl e \<Longrightarrow> e = INVALID_BASEBALL_TRANSITION" for s' outs
    by (auto simp: finishOuts_def split: if_splits)
  moreover have "applyMovements s (pa_movements p) = Inl e \<Longrightarrow> e \<in> play_errors"
    using assms(2) applyMovements_errors [of s "pa_movements p" e] movement_ok_out
    by (auto simp: plate_appearance_ok_def list_all_iff play_errors_def)
  moreover have "currentBatter s = Inl e \<Longrightarrow> e = INTERNAL_INVARIANT_FAILURE \<and> activeBatters s (battingSide s) = []"
    by (auto simp: currentBatter_def Let_def split: if_splits)
  ultimately show ?thesis
    using assms(1)
    by (auto simp: apply_plate_appearance_def validateBatterResolution_def requireLive_def result_simps play_errors_def
        split: list.splits)
qed

lemma play_errors_of_body:
  assumes "apply_play s p = Inl e" and "play_ok p"
  shows "e \<in> play_errors \<or> (e = INTERNAL_INVARIANT_FAILURE \<and> activeBatters s (battingSide s) = [])"
proof (cases p)
  case (PlateAppearanceRecorded q)
  with assms plate_appearance_errors show ?thesis by auto
next
  case (RunnerAdvanceRecorded m)
  with assms move_and_finish_errors [of s "[m]" e] movement_ok_out show ?thesis
    by (auto simp: apply_runner_advance_def requireLive_def result_simps play_errors_def)
next
  case (RunnerOutRecorded q)
  with assms move_and_finish_errors [of s "[runner_out_movement q]" e] show ?thesis
    by (auto simp: apply_runner_out_def requireLive_def result_simps play_errors_def runner_out_movement_def)
next
  case (StolenBaseAttemptRecorded q)
  moreover have "mv_to (steal_movement s q) = To_OUT \<longrightarrow> mv_out (steal_movement s q) \<noteq> None"
    by (cases "sb_to q") (simp_all add: steal_movement_def)
  ultimately show ?thesis
    using assms move_and_finish_errors [of s "[steal_movement s q]" e]
    by (auto simp: apply_stolen_base_def requireLive_def result_simps play_errors_def)
next
  case (RunnerPlayRecorded q)
  with assms move_and_finish_errors [of s "rp_movements q" e] movement_ok_out show ?thesis
    by (auto simp: apply_runner_play_def requireLive_def result_simps play_errors_def runner_play_ok_def
        Let_def list_all_iff)
next
  case (DefensiveSubstitutionMade q)
  with assms show ?thesis
    by (auto simp: apply_substitution_def requireLive_def result_simps play_errors_def Let_def split: option.splits)
next
  case (DefensiveAlignmentChanged q)
  with assms alignment_errors [of s q e] show ?thesis by (auto simp: play_errors_def)
next
  case (PitchingChangeMade q)
  with assms show ?thesis
    by (auto simp: apply_pitching_change_def requireLive_def result_simps play_errors_def Let_def split: option.splits)
qed

lemma body_errors:
  assumes "applyBody s b = Inl e" and "body_ok b"
  shows "e \<in> play_errors \<or> (e = INTERNAL_INVARIANT_FAILURE \<and> activeBatters s (battingSide s) = [])"
  using assms play_errors_of_body
  by (cases b) (auto simp: set_status_if_def apply_completion_def requireLive_def result_simps play_errors_def
      split: if_splits)

section \<open>Accepted events\<close>

lemma parseEventBody_Inr:
  assumes "parseEventBody raw v = Inr b"
  shows "body_ok b" and "\<exists>b0. raw = Shaped b0 \<and> b = trim_body b0"
  using assms by (cases raw; auto simp: result_simps Let_def)+

lemma applyEvent_Inr_iff [result_simps]:
  "applyEvent h v s e = Inr t \<longleftrightarrow>
     validateNextEnvelope s e = Inr () \<and> \<not> is_correction (ev_body e) \<and>
     (v \<longrightarrow> ev_preStateHash e = h s \<and> ev_postStateHash e = h t) \<and>
     (\<exists>b u. parseEventBody (Shaped (ev_body e)) (ev_schemaVersion e) = Inr b \<and> applyBody s b = Inr u \<and>
        t = advance_revision e u)"
  by (auto simp: applyEvent_def result_simps Let_def)

lemma validateNextEnvelope_iff [result_simps]:
  "validateNextEnvelope s e = Inr u \<longleftrightarrow>
     ev_schemaVersion e \<in> set supported_versions \<and> ev_accountId e = gs_accountId s \<and>
     ev_gameId e = gs_gameId s \<and> ev_setupSnapshotId e = gs_setupSnapshotId s \<and>
     ev_setupRevision e = gs_setupRevision s \<and> ev_rulesetVersionId e = gs_rulesetVersionId s \<and>
     ev_expectedRevision e = gs_sourceRevision s \<and> ev_acceptedRevision e = gs_sourceRevision s + 1 \<and>
     ev_sequence e = gs_lastSequence s + 1"
  by (auto simp: validateNextEnvelope_def validateEventIdentity_def result_simps)

end
