(* ===== verification/Game_Replay.thy ===== *)
theory Game_Replay
  imports Game_Invariants
begin

text \<open>
  Replay of a game's accepted events (the second half of
  \<open>src/domain/events/game-engine.ts\<close>) and \<open>summarizeEventLog\<close> of \<open>event-log.ts\<close>:
  corrections are resolved from the last event to the first, the effective bodies are applied
  in sequence order, and the timeline records the state before every effective step.
\<close>

section \<open>Corrections\<close>

record replacement_set =
  rs_correctionEventId :: ident
  rs_schemaVersion :: int
  rs_replacements :: "replacement list"

text \<open>The collections \<open>resolveCorrections\<close> fills: two of them are its result.\<close>

record resolution =
  rn_suppressed :: "ident set"
  rn_targetOwner :: "ident \<Rightarrow> ident option"
  rn_replacementsByTarget :: "ident \<Rightarrow> replacement_set option"
  rn_replacementIds :: "ident set"

definition empty_resolution :: resolution where
  "empty_resolution = \<lparr>rn_suppressed = {}, rn_targetOwner = Map.empty,
     rn_replacementsByTarget = Map.empty, rn_replacementIds = {}\<rparr>"

definition by_sequence :: "accepted_event list \<Rightarrow> accepted_event list" where
  "by_sequence es = sort_key ev_sequence es"

definition by_id :: "accepted_event list \<Rightarrow> ident \<Rightarrow> accepted_event option" where
  "by_id es i = find (\<lambda>e. ev_id e = i) es"

text \<open>\<open>replaceableEventTypes\<close>\<close>

fun replaceable :: "event_body \<Rightarrow> bool" where
  "replaceable (Play _) = True"
| "replaceable _ = False"

definition claim_target ::
    "accepted_event list \<Rightarrow> accepted_event \<Rightarrow> correction_policy \<Rightarrow> resolution \<Rightarrow> ident
     \<Rightarrow> event_error + resolution" where
  "claim_target es e policy r i =
     (case by_id es i of
        None \<Rightarrow> Inl CORRECTION_TARGET_MISSING
      | Some target \<Rightarrow>
          and_then (require (\<not> (ev_sequence target \<ge> ev_sequence e \<or> ev_accountId target \<noteq> ev_accountId e \<or>
                      ev_gameId target \<noteq> ev_gameId e)) CORRECTION_GRAPH_INVALID) (\<lambda>_.
          and_then (require (\<not> (is_correction (ev_body target) \<and> policy \<noteq> REVERSE_EVENTS))
                     CORRECTION_GRAPH_INVALID) (\<lambda>_.
          and_then (require (\<not> (policy \<noteq> REVERSE_EVENTS \<and> \<not> replaceable (ev_body target)))
                     CORRECTION_GRAPH_INVALID) (\<lambda>_.
          and_then (require (\<not> truthy (rn_targetOwner r i)) CORRECTION_GRAPH_INVALID) (\<lambda>_.
            Inr (r\<lparr>rn_targetOwner := (rn_targetOwner r)(i \<mapsto> ev_id e),
                   rn_suppressed := insert i (rn_suppressed r)\<rparr>))))))"

definition claim_replacement_id ::
    "accepted_event list \<Rightarrow> resolution \<Rightarrow> replacement \<Rightarrow> event_error + resolution" where
  "claim_replacement_id es r p =
     and_then (require (\<not> (by_id es (rep_id p) \<noteq> None \<or> rep_id p \<in> rn_replacementIds r))
                CORRECTION_GRAPH_INVALID) (\<lambda>_.
       Inr (r\<lparr>rn_replacementIds := insert (rep_id p) (rn_replacementIds r)\<rparr>))"

definition place_replacements ::
    "accepted_event list \<Rightarrow> accepted_event \<Rightarrow> correction \<Rightarrow> resolution \<Rightarrow> event_error + resolution" where
  "place_replacements es e c r =
     (if co_replacements c = [] then Inr r
      else case sort_key ev_sequence (List.map_filter (by_id es) (co_targetEventIds c)) of
          [] \<Rightarrow> Inl JS_TYPE_ERROR
        | target # _ \<Rightarrow>
            and_then (fold_res (claim_replacement_id es) r (co_replacements c)) (\<lambda>r'.
              Inr (r'\<lparr>rn_replacementsByTarget := (rn_replacementsByTarget r')(ev_id target \<mapsto>
                \<lparr>rs_correctionEventId = ev_id e, rs_schemaVersion = ev_schemaVersion e,
                 rs_replacements = sort_key rep_order (co_replacements c)\<rparr>)\<rparr>)))"

definition resolve_event ::
    "accepted_event list \<Rightarrow> resolution \<Rightarrow> accepted_event \<Rightarrow> event_error + resolution" where
  "resolve_event es r e =
     (if \<not> is_correction (ev_body e) \<or> ev_id e \<in> rn_suppressed r then Inr r
      else and_then (parseEventBody (Shaped (ev_body e)) (ev_schemaVersion e)) (\<lambda>body.
        case body of
          CorrectionApplied c \<Rightarrow>
            and_then (fold_res (claim_target es e (co_policy c)) r (co_targetEventIds c))
              (place_replacements es e c)
        | _ \<Rightarrow> Inr r))"

definition resolveCorrections :: "accepted_event list \<Rightarrow> event_error + resolution" where
  "resolveCorrections events =
     (let es = by_sequence events in
      and_then (require (distinct (map ev_id es)) CORRECTION_GRAPH_INVALID) (\<lambda>_.
        fold_res (resolve_event es) empty_resolution (rev es)))"

definition resolveEffectiveEvents :: "accepted_event list \<Rightarrow> event_error + accepted_event list" where
  "resolveEffectiveEvents events =
     and_then (resolveCorrections events) (\<lambda>r.
       Inr (filter (\<lambda>e. ev_id e \<notin> rn_suppressed r) (by_sequence events)))"

section \<open>Replay\<close>

record effective_step =
  es_effectiveEventId :: ident
  es_sourceEventId :: ident
  es_targetEventId :: "ident option"
  es_sequence :: int
  es_schemaVersion :: int
  es_body :: event_body
  es_before :: game_state

type_synonym replay_state = "game_state \<times> effective_step list"

definition replay_step :: "replay_state \<Rightarrow> (game_state \<Rightarrow> effective_step) \<Rightarrow> event_error + replay_state" where
  "replay_step rs mk =
     (let step = mk (fst rs) in
      and_then (applyBody (fst rs) (es_body step)) (\<lambda>s. Inr (s, snd rs @ [step])))"

definition replacement_step ::
    "accepted_event \<Rightarrow> replacement_set \<Rightarrow> replacement \<Rightarrow> game_state \<Rightarrow> effective_step" where
  "replacement_step e rset p s =
     \<lparr>es_effectiveEventId = rep_id p, es_sourceEventId = rs_correctionEventId rset,
      es_targetEventId = Some (rep_targetEventId p), es_sequence = ev_sequence e,
      es_schemaVersion = rs_schemaVersion rset, es_body = Play (rep_body p), es_before = s\<rparr>"

definition event_step :: "accepted_event \<Rightarrow> event_body \<Rightarrow> game_state \<Rightarrow> effective_step" where
  "event_step e b s =
     \<lparr>es_effectiveEventId = ev_id e, es_sourceEventId = ev_id e, es_targetEventId = None,
      es_sequence = ev_sequence e, es_schemaVersion = ev_schemaVersion e, es_body = b, es_before = s\<rparr>"

definition replay_replacements ::
    "resolution \<Rightarrow> accepted_event \<Rightarrow> replay_state \<Rightarrow> event_error + replay_state" where
  "replay_replacements r e rs =
     (case rn_replacementsByTarget r (ev_id e) of
        None \<Rightarrow> Inr rs
      | Some rset \<Rightarrow>
          fold_res (\<lambda>rs p. replay_step rs (replacement_step e rset p)) rs (rs_replacements rset))"

definition replay_own_body ::
    "resolution \<Rightarrow> accepted_event \<Rightarrow> replay_state \<Rightarrow> event_error + replay_state" where
  "replay_own_body r e rs =
     (if ev_id e \<in> rn_suppressed r then Inr rs
      else and_then (parseEventBody (Shaped (ev_body e)) (ev_schemaVersion e))
             (\<lambda>b. replay_step rs (event_step e b)))"

definition replay_event :: "resolution \<Rightarrow> replay_state \<Rightarrow> accepted_event \<Rightarrow> event_error + replay_state" where
  "replay_event r rs e =
     and_then (validateNextEnvelope (fst rs) e) (\<lambda>_.
     and_then (replay_replacements r e rs) (\<lambda>rs1.
     and_then (replay_own_body r e rs1) (\<lambda>rs2.
       Inr (advance_revision e (fst rs2), snd rs2))))"

definition replayEffectiveWithTimeline ::
    "accepted_setup \<Rightarrow> accepted_event list \<Rightarrow> event_error + replay_state" where
  "replayEffectiveWithTimeline setup events =
     (let es = by_sequence events in
      and_then (resolveCorrections es) (\<lambda>r.
      and_then (createInitialState setup) (\<lambda>s.
        fold_res (replay_event r) (s, []) es)))"

definition replayEffective :: "accepted_setup \<Rightarrow> accepted_event list \<Rightarrow> event_error + game_state" where
  "replayEffective setup events = and_then (replayEffectiveWithTimeline setup events) (\<lambda>rs. Inr (fst rs))"

definition deriveEventStates ::
    "accepted_setup \<Rightarrow> accepted_event list \<Rightarrow> accepted_event \<Rightarrow> event_error + (game_state \<times> game_state)" where
  "deriveEventStates setup history proposed =
     and_then (replayEffective setup history) (\<lambda>before.
     and_then (validateNextEnvelope before proposed) (\<lambda>_.
     and_then (replayEffective setup (history @ [proposed])) (\<lambda>after. Inr (before, after))))"

section \<open>Verified replay\<close>

record replay_metadata =
  rm_accountId :: ident
  rm_gameId :: ident
  rm_setupSnapshotId :: ident
  rm_setupRevision :: int
  rm_finalSourceRevision :: int
  rm_eventCount :: nat
  rm_effectiveEventCount :: nat
  rm_correctionCount :: nat
  rm_rulesetVersionId :: ident
  rm_reducerVersion :: int
  rm_verified :: bool

definition reducer_version :: int where
  "reducer_version = 4"

text \<open>The evidence loop: every event's stored hashes match the states derived around it.\<close>

definition check_evidence ::
    "(game_state \<Rightarrow> string) \<Rightarrow> accepted_setup \<Rightarrow> accepted_event list \<Rightarrow> nat \<Rightarrow> event_error + unit" where
  "check_evidence state_hash setup es i =
     and_then (deriveEventStates setup (take i es) (es ! i)) (\<lambda>(before, after).
       require (\<not> (ev_preStateHash (es ! i) \<noteq> state_hash before \<or> ev_postStateHash (es ! i) \<noteq> state_hash after))
         IMMUTABLE_HISTORY_VIOLATION)"

definition replayGame ::
    "(game_state \<Rightarrow> string) \<Rightarrow> bool \<Rightarrow> accepted_setup \<Rightarrow> accepted_event list
     \<Rightarrow> event_error + (game_state \<times> replay_metadata)" where
  "replayGame state_hash verifyEvidence setup events =
     (let es = by_sequence events in
      and_then (if verifyEvidence then check_all (check_evidence state_hash setup es) [0..<length es] else Inr ()) (\<lambda>_.
      and_then (replayEffective setup es) (\<lambda>s.
      and_then (resolveEffectiveEvents events) (\<lambda>effective.
        Inr (s, \<lparr>rm_accountId = su_accountId setup, rm_gameId = su_gameId setup,
                 rm_setupSnapshotId = su_id setup, rm_setupRevision = su_setupRevision setup,
                 rm_finalSourceRevision = gs_sourceRevision s, rm_eventCount = length events,
                 rm_effectiveEventCount = length effective,
                 rm_correctionCount = length (filter (\<lambda>e. is_correction (ev_body e)) events),
                 rm_rulesetVersionId = su_rulesetVersionId setup,
                 rm_reducerVersion = reducer_version, rm_verified = (gs_status s = VERIFIED)\<rparr>)))))"

section \<open>Summary of an event log\<close>

fun play_type_name :: "play_body \<Rightarrow> string" where
  "play_type_name (PlateAppearanceRecorded _) = ''PlateAppearanceRecorded''"
| "play_type_name (RunnerAdvanceRecorded _) = ''RunnerAdvanceRecorded''"
| "play_type_name (RunnerOutRecorded _) = ''RunnerOutRecorded''"
| "play_type_name (StolenBaseAttemptRecorded _) = ''StolenBaseAttemptRecorded''"
| "play_type_name (RunnerPlayRecorded _) = ''RunnerPlayRecorded''"
| "play_type_name (DefensiveSubstitutionMade _) = ''DefensiveSubstitutionMade''"
| "play_type_name (DefensiveAlignmentChanged _) = ''DefensiveAlignmentChanged''"
| "play_type_name (PitchingChangeMade _) = ''PitchingChangeMade''"

fun event_type_name :: "event_body \<Rightarrow> string" where
  "event_type_name GameStarted = ''GameStarted''"
| "event_type_name (GameSuspended _) = ''GameSuspended''"
| "event_type_name GameResumed = ''GameResumed''"
| "event_type_name (GameCompleted _ _) = ''GameCompleted''"
| "event_type_name GameVerified = ''GameVerified''"
| "event_type_name (GameReopened _) = ''GameReopened''"
| "event_type_name (GameAbandoned _) = ''GameAbandoned''"
| "event_type_name (GameCancelled _) = ''GameCancelled''"
| "event_type_name (Play p) = play_type_name p"
| "event_type_name (CorrectionApplied _) = ''CorrectionApplied''"

record log_summary =
  ls_accountId :: ident
  ls_gameId :: ident
  ls_eventCount :: nat
  ls_firstSequence :: "int option"
  ls_lastSequence :: "int option"
  ls_eventTypes :: "string list"

text \<open>None is the thrown error.\<close>

definition summarizeEventLog :: "accepted_event list \<Rightarrow> log_summary option" where
  "summarizeEventLog events =
     (case by_sequence events of
        [] \<Rightarrow> Some \<lparr>ls_accountId = ''unassigned'', ls_gameId = ''unassigned'', ls_eventCount = 0,
                ls_firstSequence = None, ls_lastSequence = None, ls_eventTypes = []\<rparr>
      | e # es \<Rightarrow>
          if list_ex (\<lambda>x. ev_gameId x \<noteq> ev_gameId e \<or> ev_accountId x \<noteq> ev_accountId e) (e # es) then None
          else Some \<lparr>ls_accountId = ev_accountId e, ls_gameId = ev_gameId e,
                 ls_eventCount = length (e # es), ls_firstSequence = Some (ev_sequence e),
                 ls_lastSequence = Some (ev_sequence (last (e # es))),
                 ls_eventTypes = js_unique (map (\<lambda>x. event_type_name (ev_body x)) (e # es))\<rparr>)"

section \<open>Sorting by sequence\<close>

lemma set_by_sequence [simp]: "set (by_sequence es) = set es"
  by (simp add: by_sequence_def)

lemma mset_by_sequence [simp]: "mset (by_sequence es) = mset es"
  by (simp add: by_sequence_def)

lemma length_by_sequence [simp]: "length (by_sequence es) = length es"
  by (simp add: by_sequence_def)

lemma sorted_by_sequence: "sorted (map ev_sequence (by_sequence es))"
  by (simp add: by_sequence_def)

lemma by_sequence_idem [simp]: "by_sequence (by_sequence es) = by_sequence es"
  by (simp add: by_sequence_def sort_key_eq_sort_key sorted_sort_id sort_key_id_if_sorted)

lemma by_sequence_snoc:
  assumes "\<And>x. x \<in> set es \<Longrightarrow> ev_sequence x \<le> ev_sequence e"
  shows "by_sequence (es @ [e]) = by_sequence es @ [e]"
  unfolding by_sequence_def
proof (rule properties_for_sort_key)
  show "filter (\<lambda>x. ev_sequence k = ev_sequence x) (sort_key ev_sequence es @ [e]) =
      filter (\<lambda>x. ev_sequence k = ev_sequence x) (es @ [e])" for k
    using sort_key_stable [of ev_sequence "ev_sequence k" es] by (simp add: eq_commute)
qed (use assms in \<open>auto simp: sorted_append\<close>)

lemma by_sequence_mset:
  assumes "mset es = mset es'" and "distinct (map ev_sequence es)"
  shows "by_sequence es = by_sequence es'"
  unfolding by_sequence_def
  by (rule sort_key_eq_sort_key) (use assms in \<open>auto simp: distinct_map\<close>)

section \<open>What a resolution contains\<close>

definition correction_of :: "accepted_event \<Rightarrow> correction option" where
  "correction_of e = (case parseEventBody (Shaped (ev_body e)) (ev_schemaVersion e) of
     Inr (CorrectionApplied c) \<Rightarrow> Some c | _ \<Rightarrow> None)"

definition targets_of :: "accepted_event \<Rightarrow> ident list" where
  "targets_of e = (case correction_of e of None \<Rightarrow> [] | Some c \<Rightarrow> co_targetEventIds c)"

lemma is_correction_trim [simp]: "is_correction (trim_body b) = is_correction b"
  by (cases b) simp_all

lemma by_id_mem:
  assumes "distinct (map ev_id es)" and "e \<in> set es"
  shows "by_id es (ev_id e) = Some e"
  unfolding by_id_def by (rule find_Some_distinct_key [OF assms])

lemma by_id_SomeD: "by_id es i = Some e \<Longrightarrow> e \<in> set es \<and> ev_id e = i"
  by (auto simp: by_id_def find_Some_iff)

lemma by_id_None_iff: "by_id es i = None \<longleftrightarrow> i \<notin> ev_id ` set es"
  by (auto simp: by_id_def find_None_iff)

text \<open>A target names an earlier event of the same game.\<close>

definition prior_target :: "accepted_event list \<Rightarrow> accepted_event \<Rightarrow> ident \<Rightarrow> bool" where
  "prior_target es c i \<longleftrightarrow> (\<exists>x. by_id es i = Some x \<and> ev_sequence x < ev_sequence c \<and>
     ev_accountId x = ev_accountId c \<and> ev_gameId x = ev_gameId c)"

lemma claim_target_Inr:
  assumes "claim_target es e policy r i = Inr r'"
  shows "r' = r\<lparr>rn_targetOwner := (rn_targetOwner r)(i \<mapsto> ev_id e), rn_suppressed := insert i (rn_suppressed r)\<rparr>"
    and "prior_target es e i" and "\<not> truthy (rn_targetOwner r i)"
    and "policy \<noteq> REVERSE_EVENTS \<Longrightarrow> \<exists>x. by_id es i = Some x \<and> replaceable (ev_body x)"
  using assms by (auto simp: claim_target_def prior_target_def result_simps split: option.splits)

lemma claim_targets_Inr:
  assumes "fold_res (claim_target es e policy) r is = Inr r'"
  shows "rn_suppressed r' = rn_suppressed r \<union> set is"
    and "rn_replacementsByTarget r' = rn_replacementsByTarget r" "rn_replacementIds r' = rn_replacementIds r"
    and "\<forall>i\<in>set is. prior_target es e i"
    and "\<forall>i. rn_targetOwner r' i = (if i \<in> set is then Some (ev_id e) else rn_targetOwner r i)"
    and "\<forall>i\<in>set is. \<not> truthy (rn_targetOwner r i)"
proof -
  have "rn_suppressed r' = rn_suppressed r \<union> set is \<and>
    rn_replacementsByTarget r' = rn_replacementsByTarget r \<and> rn_replacementIds r' = rn_replacementIds r \<and>
    (\<forall>i\<in>set is. prior_target es e i) \<and>
    (\<forall>i. rn_targetOwner r' i = (if i \<in> set is then Some (ev_id e) else rn_targetOwner r i)) \<and>
    (\<forall>i\<in>set is. \<not> truthy (rn_targetOwner r i) \<or> (truthy (rn_targetOwner r i) \<and> False))"
    using assms
  proof (induction "is" arbitrary: r)
    case (Cons i "is")
    then obtain r1 where r1: "claim_target es e policy r i = Inr r1"
      and rest: "fold_res (claim_target es e policy) r1 is = Inr r'" by (auto simp: result_simps)
    note step = claim_target_Inr [OF r1]
    from Cons.IH [OF rest] step show ?case
      by (auto split: if_splits)
  qed simp
  then show "rn_suppressed r' = rn_suppressed r \<union> set is"
    "rn_replacementsByTarget r' = rn_replacementsByTarget r" "rn_replacementIds r' = rn_replacementIds r"
    "\<forall>i\<in>set is. prior_target es e i"
    "\<forall>i. rn_targetOwner r' i = (if i \<in> set is then Some (ev_id e) else rn_targetOwner r i)"
    "\<forall>i\<in>set is. \<not> truthy (rn_targetOwner r i)" by blast+
qed

lemma claim_replacement_ids_Inr:
  assumes "fold_res (claim_replacement_id es) r ps = Inr r'"
  shows "r' = r\<lparr>rn_replacementIds := rn_replacementIds r \<union> rep_id ` set ps\<rparr>"
    and "\<forall>p\<in>set ps. by_id es (rep_id p) = None \<and> rep_id p \<notin> rn_replacementIds r" and "distinct (map rep_id ps)"
proof -
  have "r' = r\<lparr>rn_replacementIds := rn_replacementIds r \<union> rep_id ` set ps\<rparr> \<and>
    (\<forall>p\<in>set ps. by_id es (rep_id p) = None \<and> rep_id p \<notin> rn_replacementIds r) \<and> distinct (map rep_id ps)"
    using assms
  proof (induction ps arbitrary: r)
    case (Cons p ps)
    then obtain r1 where r1: "claim_replacement_id es r p = Inr r1" "fold_res (claim_replacement_id es) r1 ps = Inr r'"
      by (auto simp: result_simps)
    from Cons.IH [OF r1(2)] r1(1) show ?case
      by (auto simp: claim_replacement_id_def result_simps)
  qed simp
  then show "r' = r\<lparr>rn_replacementIds := rn_replacementIds r \<union> rep_id ` set ps\<rparr>"
    "\<forall>p\<in>set ps. by_id es (rep_id p) = None \<and> rep_id p \<notin> rn_replacementIds r" "distinct (map rep_id ps)" by blast+
qed

lemma place_replacements_Inr:
  assumes "place_replacements es e c r = Inr r'"
  shows "rn_suppressed r' = rn_suppressed r" "rn_targetOwner r' = rn_targetOwner r"
  using assms by (auto simp: place_replacements_def result_simps dest!: claim_replacement_ids_Inr(1)
      split: if_splits list.splits)

lemma resolve_event_cases:
  assumes "resolve_event es r e = Inr r'"
  obtains (skip) "\<not> is_correction (ev_body e) \<or> ev_id e \<in> rn_suppressed r" "r' = r"
    | (claim) c r1 where "is_correction (ev_body e)" "ev_id e \<notin> rn_suppressed r" "correction_of e = Some c"
        "fold_res (claim_target es e (co_policy c)) r (co_targetEventIds c) = Inr r1"
        "place_replacements es e c r1 = Inr r'"
proof (cases "\<not> is_correction (ev_body e) \<or> ev_id e \<in> rn_suppressed r")
  case True
  with assms show ?thesis by (intro skip) (auto simp: resolve_event_def)
next
  case False
  with assms obtain body where body: "parseEventBody (Shaped (ev_body e)) (ev_schemaVersion e) = Inr body"
    by (auto simp: resolve_event_def result_simps)
  then have "is_correction body" using parseEventBody_Inr(2) [OF body] False by auto
  then obtain c where c: "body = CorrectionApplied c" by (cases body) auto
  with False assms body obtain r1 where
    "fold_res (claim_target es e (co_policy c)) r (co_targetEventIds c) = Inr r1"
    "place_replacements es e c r1 = Inr r'"
    by (auto simp: resolve_event_def result_simps)
  with False body c show ?thesis by (intro claim) (auto simp: correction_of_def)
qed

lemma resolve_event_effect:
  assumes "resolve_event es r e = Inr r'"
  shows "rn_suppressed r' = rn_suppressed r \<union>
      (if is_correction (ev_body e) \<and> ev_id e \<notin> rn_suppressed r then set (targets_of e) else {})"
    and "is_correction (ev_body e) \<Longrightarrow> ev_id e \<notin> rn_suppressed r \<Longrightarrow> \<forall>i\<in>set (targets_of e). prior_target es e i"
proof -
  have "rn_suppressed r' = rn_suppressed r \<union>
      (if is_correction (ev_body e) \<and> ev_id e \<notin> rn_suppressed r then set (targets_of e) else {}) \<and>
    (is_correction (ev_body e) \<longrightarrow> ev_id e \<notin> rn_suppressed r \<longrightarrow> (\<forall>i\<in>set (targets_of e). prior_target es e i))"
    using assms
  proof (cases rule: resolve_event_cases)
    case (claim c r1)
    from claim(1-3) claim_targets_Inr(1,4) [OF claim(4)] place_replacements_Inr(1) [OF claim(5)]
    show ?thesis by (simp add: targets_of_def)
  qed auto
  then show "rn_suppressed r' = rn_suppressed r \<union>
      (if is_correction (ev_body e) \<and> ev_id e \<notin> rn_suppressed r then set (targets_of e) else {})"
    "is_correction (ev_body e) \<Longrightarrow> ev_id e \<notin> rn_suppressed r \<Longrightarrow> \<forall>i\<in>set (targets_of e). prior_target es e i"
    by blast+
qed

section \<open>The suppressed events as a kernel\<close>

text \<open>
  An event is suppressed exactly when a correction that is not itself suppressed targets it.
  This characterises the set without the order in which the source visits the events.
\<close>

definition kernel :: "accepted_event list \<Rightarrow> ident set \<Rightarrow> bool" where
  "kernel es S \<longleftrightarrow> (\<forall>i. i \<in> S \<longleftrightarrow>
     (\<exists>c\<in>set es. is_correction (ev_body c) \<and> ev_id c \<notin> S \<and> i \<in> set (targets_of c)))"

lemma kernelD:
  "kernel es S \<Longrightarrow> i \<in> S \<longleftrightarrow> (\<exists>c\<in>set es. is_correction (ev_body c) \<and> ev_id c \<notin> S \<and> i \<in> set (targets_of c))"
  unfolding kernel_def by (erule allE)

definition prior_only :: "accepted_event list \<Rightarrow> ident set \<Rightarrow> bool" where
  "prior_only es S \<longleftrightarrow> (\<forall>c\<in>set es. is_correction (ev_body c) \<longrightarrow> ev_id c \<notin> S \<longrightarrow>
     (\<forall>i\<in>set (targets_of c). prior_target es c i))"

lemma resolve_fold_kernel:
  assumes "fold_res (resolve_event es) empty_resolution ds = Inr r"
    and "distinct (map ev_id es)" and "set ds \<subseteq> set es"
    and "sorted (map ev_sequence (rev ds))"
  shows "kernel ds (rn_suppressed r) \<and>
    (\<forall>c\<in>set ds. is_correction (ev_body c) \<longrightarrow> ev_id c \<notin> rn_suppressed r \<longrightarrow> (\<forall>i\<in>set (targets_of c). prior_target es c i))"
  using assms
proof (induction ds arbitrary: r rule: rev_induct)
  case Nil
  then have "r = empty_resolution" by simp
  then show ?case by (simp add: kernel_def empty_resolution_def)
next
  case (snoc e ds)
  then obtain r0 where r0: "fold_res (resolve_event es) empty_resolution ds = Inr r0"
    and step: "resolve_event es r0 e = Inr r"
    by (auto simp: fold_res_snoc result_simps)
  let ?S = "rn_suppressed r0" and ?T = "rn_suppressed r"
  have IH: "kernel ds ?S" "\<forall>c\<in>set ds. is_correction (ev_body c) \<longrightarrow> ev_id c \<notin> ?S \<longrightarrow> (\<forall>i\<in>set (targets_of c). prior_target es c i)"
    using snoc.IH [OF r0 snoc.prems(2)] snoc.prems(3,4) by auto
  have later: "ev_sequence e \<le> ev_sequence c" if "c \<in> set ds" for c
    using snoc.prems(4) that by simp
  have untouched: "ev_id c \<notin> set (targets_of e)"
    if "is_correction (ev_body e)" "ev_id e \<notin> ?S" "c \<in> set (ds @ [e])" for c
  proof
    assume "ev_id c \<in> set (targets_of e)"
    with resolve_event_effect(2) [OF step that(1,2)] have "prior_target es e (ev_id c)" by blast
    moreover have "by_id es (ev_id c) = Some c"
      using that(3) snoc.prems(2,3) by (auto intro: by_id_mem)
    ultimately show False using later that(3) by (fastforce simp: prior_target_def)
  qed
  have same: "ev_id c \<in> ?T \<longleftrightarrow> ev_id c \<in> ?S" if "c \<in> set (ds @ [e])" for c
    using resolve_event_effect(1) [OF step] untouched that by auto
  have "kernel (ds @ [e]) ?T"
    unfolding kernel_def
  proof
    fix i
    have "(\<exists>c\<in>set (ds @ [e]). is_correction (ev_body c) \<and> ev_id c \<notin> ?T \<and> i \<in> set (targets_of c)) \<longleftrightarrow>
        (\<exists>c\<in>set (ds @ [e]). is_correction (ev_body c) \<and> ev_id c \<notin> ?S \<and> i \<in> set (targets_of c))"
      using same by blast
    also have "\<dots> \<longleftrightarrow> i \<in> ?S \<or> (is_correction (ev_body e) \<and> ev_id e \<notin> ?S \<and> i \<in> set (targets_of e))"
      using kernelD [OF IH(1), of i] by auto
    also have "\<dots> \<longleftrightarrow> i \<in> ?T"
      using resolve_event_effect(1) [OF step] by auto
    finally show "i \<in> ?T \<longleftrightarrow> (\<exists>c\<in>set (ds @ [e]). is_correction (ev_body c) \<and> ev_id c \<notin> ?T \<and> i \<in> set (targets_of c))" ..
  qed
  moreover have "\<forall>c\<in>set (ds @ [e]). is_correction (ev_body c) \<longrightarrow> ev_id c \<notin> ?T \<longrightarrow> (\<forall>i\<in>set (targets_of c). prior_target es c i)"
    using IH(2) same resolve_event_effect(2) [OF step] by simp
  ultimately show ?case ..
qed

lemma kernel_set: "set es = set es' \<Longrightarrow> kernel es S = kernel es' S"
  by (simp add: kernel_def)

lemma distinct_ids_by_sequence [simp]: "distinct (map ev_id (by_sequence es)) \<longleftrightarrow> distinct (map ev_id es)"
  by (metis mset_by_sequence mset_eq_imp_distinct_iff mset_map)

lemma by_id_by_sequence:
  assumes "distinct (map ev_id es)"
  shows "by_id (by_sequence es) = by_id es"
  unfolding by_id_def by (rule ext, rule find_unique_mset) (use assms in simp_all)

lemma resolution_ids: "resolveCorrections es = Inr r \<Longrightarrow> distinct (map ev_id es)"
  by (simp add: resolveCorrections_def Let_def result_simps)

lemma resolution_kernel:
  assumes "resolveCorrections es = Inr r"
  shows "kernel es (rn_suppressed r)" and "prior_only es (rn_suppressed r)"
proof -
  note ids = resolution_ids [OF assms]
  have "fold_res (resolve_event (by_sequence es)) empty_resolution (rev (by_sequence es)) = Inr r"
    using assms by (simp add: resolveCorrections_def Let_def result_simps)
  from resolve_fold_kernel [OF this] have *: "kernel (rev (by_sequence es)) (rn_suppressed r)"
    "\<forall>c\<in>set es. is_correction (ev_body c) \<longrightarrow> ev_id c \<notin> rn_suppressed r \<longrightarrow>
      (\<forall>i\<in>set (targets_of c). prior_target (by_sequence es) c i)"
    using ids sorted_by_sequence by simp_all
  have "set (rev (by_sequence es)) = set es" by simp
  from *(1) kernel_set [OF this] show "kernel es (rn_suppressed r)" by simp
  from *(2) show "prior_only es (rn_suppressed r)"
    by (simp add: prior_only_def prior_target_def by_id_by_sequence [OF ids])
qed

text \<open>
  When every correction targets earlier events only, whether or not it is active, the kernel
  is unique.
\<close>

lemma kernel_unique:
  assumes "kernel es S" and "kernel es T" and "prior_only es {}" and ids: "distinct (map ev_id es)"
  shows "S = T"
proof -
  have agree: "c \<in> set es \<Longrightarrow> ev_id c \<in> S \<longleftrightarrow> ev_id c \<in> T" for c
  proof (induction "length (filter (\<lambda>x. ev_sequence c < ev_sequence x) es)" arbitrary: c rule: less_induct)
    case less
    have "ev_id d \<in> S \<longleftrightarrow> ev_id d \<in> T"
      if "d \<in> set es" "is_correction (ev_body d)" "ev_id c \<in> set (targets_of d)" for d
    proof (rule less.hyps [OF _ that(1)])
      have "prior_target es d (ev_id c)" using assms(3) that by (auto simp: prior_only_def)
      then have lt: "ev_sequence c < ev_sequence d"
        using by_id_mem [OF ids less.prems] by (auto simp: prior_target_def)
      have "filter (\<lambda>x. ev_sequence d < ev_sequence x) es =
          filter (\<lambda>x. ev_sequence d < ev_sequence x) (filter (\<lambda>x. ev_sequence c < ev_sequence x) es)"
        using lt unfolding filter_filter by (intro filter_cong) auto
      then have "length (filter (\<lambda>x. ev_sequence d < ev_sequence x) es) =
          length (filter (\<lambda>x. ev_sequence d < ev_sequence x) (filter (\<lambda>x. ev_sequence c < ev_sequence x) es))"
        by simp
      also have "\<dots> < length (filter (\<lambda>x. ev_sequence c < ev_sequence x) es)"
        by (rule length_filter_less [of d]) (use lt that(1) in simp_all)
      finally show "length (filter (\<lambda>x. ev_sequence d < ev_sequence x) es) <
          length (filter (\<lambda>x. ev_sequence c < ev_sequence x) es)" .
    qed
    then show ?case using assms(1,2) unfolding kernel_def by blast
  qed
  have "i \<in> S \<longleftrightarrow> i \<in> T" for i
    using assms(1,2) agree unfolding kernel_def by blast
  then show ?thesis by blast
qed

section \<open>Contiguous histories\<close>

text \<open>What identifies the game and its position in the history.\<close>

definition state_identity :: "game_state \<Rightarrow> (ident \<times> ident \<times> ident \<times> int \<times> ident) \<times> (int \<times> int)" where
  "state_identity s = ((gs_accountId s, gs_gameId s, gs_setupSnapshotId s, gs_setupRevision s, gs_rulesetVersionId s),
     (gs_sourceRevision s, gs_lastSequence s))"

lemma finishOuts_identity: "finishOuts s outs = Inr t \<Longrightarrow> state_identity t = state_identity s"
  by (auto simp: state_identity_def elim!: finishOuts_cases)

lemma after_batter_identity [simp]: "state_identity (after_batter p s) = state_identity s"
  by (cases p) (simp_all add: state_identity_def advance_batting_order_def)

lemma move_runners_identity [simp]: "state_identity (move_runners ms s) = state_identity s"
  by (simp add: state_identity_def)

lemma body_identity:
  assumes "applyBody s b = Inr t"
  shows "state_identity t = state_identity s"
proof (cases b)
  case (Play p)
  with assms have p: "apply_play s p = Inr t" by simp
  show ?thesis
  proof (cases s p rule: motion_cases)
    case (motion ms)
    from finishOuts_identity [OF motion_inversion(3) [OF p motion]] show ?thesis by simp
  qed (use p in \<open>auto elim!: substitution_inversion alignment_inversion pitching_inversion
        simp: state_identity_def substitution_effect_def hand_over_runner_def pitching_effect_def Let_def
        split: option.splits\<close>)
qed (use assms in \<open>auto simp: state_identity_def set_status_if_def apply_completion_def result_simps split: if_splits\<close>)

lemma replay_step_Inr_iff [result_simps]:
  "replay_step rs mk = Inr rs' \<longleftrightarrow>
     applyBody (fst rs) (es_body (mk (fst rs))) = Inr (fst rs') \<and> snd rs' = snd rs @ [mk (fst rs)]"
  by (cases rs') (auto simp: replay_step_def Let_def result_simps)

lemma replay_step_identity: "replay_step rs mk = Inr rs' \<Longrightarrow> state_identity (fst rs') = state_identity (fst rs)"
  by (auto simp: result_simps dest: body_identity)

lemma replay_replacements_identity:
  assumes "replay_replacements r e rs = Inr rs'"
  shows "state_identity (fst rs') = state_identity (fst rs)"
proof (cases "rn_replacementsByTarget r (ev_id e)")
  case (Some rset)
  with assms have *: "fold_res (\<lambda>rs p. replay_step rs (replacement_step e rset p)) rs (rs_replacements rset) = Inr rs'"
    by (simp add: replay_replacements_def)
  from * show ?thesis
    by (rule fold_res_invariant [where P = "\<lambda>x. state_identity (fst x) = state_identity (fst rs)"])
      (auto dest: replay_step_identity)
qed (use assms in \<open>simp add: replay_replacements_def\<close>)

lemma replay_own_body_identity:
  "replay_own_body r e rs = Inr rs' \<Longrightarrow> state_identity (fst rs') = state_identity (fst rs)"
  by (auto simp: replay_own_body_def result_simps dest: body_identity split: if_splits)

definition game_identity :: "game_state \<Rightarrow> ident \<times> ident \<times> ident \<times> int \<times> ident" where
  "game_identity s = fst (state_identity s)"

definition event_identity :: "accepted_event \<Rightarrow> ident \<times> ident \<times> ident \<times> int \<times> ident" where
  "event_identity e = (ev_accountId e, ev_gameId e, ev_setupSnapshotId e, ev_setupRevision e, ev_rulesetVersionId e)"

lemma replay_event_effect:
  assumes "replay_event r rs e = Inr rs'"
  shows "validateNextEnvelope (fst rs) e = Inr ()"
    and "event_identity e = game_identity (fst rs)" and "game_identity (fst rs') = game_identity (fst rs)"
    and "gs_sourceRevision (fst rs') = gs_sourceRevision (fst rs) + 1" "ev_acceptedRevision e = gs_sourceRevision (fst rs) + 1"
    and "gs_lastSequence (fst rs') = gs_lastSequence (fst rs) + 1" "ev_sequence e = gs_lastSequence (fst rs) + 1"
proof -
  obtain rs1 rs2 where v: "validateNextEnvelope (fst rs) e = Inr ()" and "replay_replacements r e rs = Inr rs1"
    "replay_own_body r e rs1 = Inr rs2" and rs': "rs' = (advance_revision e (fst rs2), snd rs2)"
    using assms by (auto simp: replay_event_def result_simps)
  then have "state_identity (fst rs2) = state_identity (fst rs)"
    using replay_own_body_identity replay_replacements_identity by metis
  with v rs' show "validateNextEnvelope (fst rs) e = Inr ()"
    "event_identity e = game_identity (fst rs)" "game_identity (fst rs') = game_identity (fst rs)"
    "gs_sourceRevision (fst rs') = gs_sourceRevision (fst rs) + 1" "ev_acceptedRevision e = gs_sourceRevision (fst rs) + 1"
    "gs_lastSequence (fst rs') = gs_lastSequence (fst rs) + 1" "ev_sequence e = gs_lastSequence (fst rs) + 1"
    by (auto simp: result_simps state_identity_def game_identity_def event_identity_def advance_revision_def)
qed

lemma replay_fold_contiguous:
  assumes "fold_res (replay_event r) rs es = Inr rs'"
  shows "gs_sourceRevision (fst rs') = gs_sourceRevision (fst rs) + int (length es) \<and>
    gs_lastSequence (fst rs') = gs_lastSequence (fst rs) + int (length es) \<and>
    game_identity (fst rs') = game_identity (fst rs) \<and>
    map ev_sequence es = map (\<lambda>i. gs_lastSequence (fst rs) + int i + 1) [0..<length es] \<and>
    map ev_acceptedRevision es = map (\<lambda>i. gs_sourceRevision (fst rs) + int i + 1) [0..<length es] \<and>
    (\<forall>e\<in>set es. event_identity e = game_identity (fst rs))"
  using assms
proof (induction es arbitrary: rs)
  case (Cons e es)
  then obtain rs1 where step: "replay_event r rs e = Inr rs1" and rest: "fold_res (replay_event r) rs1 es = Inr rs'"
    by (auto simp: result_simps)
  note eff = replay_event_effect [OF step]
  have shift: "map f [0..<length (e # es)] = f 0 # map (\<lambda>i. f (Suc i)) [0..<length es]" for f :: "nat \<Rightarrow> int"
    by (simp add: map_upt_Suc del: upt_Suc)
  from Cons.IH [OF rest] eff show ?case
    unfolding shift by (simp add: algebra_simps)
qed simp

lemma initial_position:
  assumes "createInitialState setup = Inr s"
  shows "gs_sourceRevision s = 0" "gs_lastSequence s = 0"
    and "game_identity s = (su_accountId setup, su_gameId setup, su_id setup, su_setupRevision setup, su_rulesetVersionId setup)"
  using assms by (auto simp: createInitialState_def result_simps game_identity_def state_identity_def)

lemma timeline_inversion:
  assumes "replayEffectiveWithTimeline setup es = Inr rs"
  obtains r s where "resolveCorrections (by_sequence es) = Inr r" "createInitialState setup = Inr s"
    "fold_res (replay_event r) (s, []) (by_sequence es) = Inr rs"
  using assms by (auto simp: replayEffectiveWithTimeline_def Let_def result_simps)

lemma replay_contiguous:
  assumes "replayEffectiveWithTimeline setup es = Inr rs"
  shows "map ev_sequence (by_sequence es) = map (\<lambda>i. int i + 1) [0..<length es]"
    and "map ev_acceptedRevision (by_sequence es) = map (\<lambda>i. int i + 1) [0..<length es]"
    and "gs_sourceRevision (fst rs) = int (length es)" "gs_lastSequence (fst rs) = int (length es)"
    and "\<forall>e\<in>set es. event_identity e =
      (su_accountId setup, su_gameId setup, su_id setup, su_setupRevision setup, su_rulesetVersionId setup)"
    and "distinct (map ev_sequence es)"
proof -
  obtain r s where s: "createInitialState setup = Inr s" and "fold_res (replay_event r) (s, []) (by_sequence es) = Inr rs"
    using timeline_inversion [OF assms] by metis
  from replay_fold_contiguous [OF this(2)] initial_position [OF s]
  show c: "map ev_sequence (by_sequence es) = map (\<lambda>i. int i + 1) [0..<length es]"
    and "map ev_acceptedRevision (by_sequence es) = map (\<lambda>i. int i + 1) [0..<length es]"
    and "gs_sourceRevision (fst rs) = int (length es)" "gs_lastSequence (fst rs) = int (length es)"
    and "\<forall>e\<in>set es. event_identity e =
      (su_accountId setup, su_gameId setup, su_id setup, su_setupRevision setup, su_rulesetVersionId setup)"
    by simp_all
  have "distinct (map ev_sequence (by_sequence es))" unfolding c by (simp add: distinct_map inj_on_def)
  moreover have "mset (map ev_sequence (by_sequence es)) = mset (map ev_sequence es)" by simp
  ultimately show "distinct (map ev_sequence es)" by (metis mset_eq_imp_distinct_iff)
qed

text \<open>The order in which the events are handed over does not matter.\<close>

lemma timeline_order_irrelevant:
  assumes "replayEffectiveWithTimeline setup es = Inr rs" and "mset es = mset es'"
  shows "replayEffectiveWithTimeline setup es' = Inr rs"
  using assms(1) by_sequence_mset [OF assms(2) replay_contiguous(6) [OF assms(1)]]
  by (simp add: replayEffectiveWithTimeline_def)

section \<open>Appending an event\<close>

text \<open>
  Events added after a history do not change how the history itself resolves; the corrections
  among them only shadow it: by the targets \<open>X\<close> they claim with owners \<open>Q\<close>, and by the replacements
  \<open>B\<close> with identifiers \<open>I\<close> they place there.
\<close>

definition shadow ::
    "ident set \<Rightarrow> (ident \<Rightarrow> ident option) \<Rightarrow> (ident \<Rightarrow> replacement_set option) \<Rightarrow> ident set \<Rightarrow> resolution \<Rightarrow> resolution" where
  "shadow X Q B I r = r\<lparr>rn_suppressed := rn_suppressed r \<union> X,
     rn_targetOwner := (\<lambda>i. if i \<in> X then Q i else rn_targetOwner r i),
     rn_replacementsByTarget := (\<lambda>i. if i \<in> X then B i else rn_replacementsByTarget r i),
     rn_replacementIds := rn_replacementIds r \<union> I\<rparr>"

lemma shadow_update [simp]:
  "shadow X Q B I (r\<lparr>rn_replacementIds := insert p (rn_replacementIds r)\<rparr>) =
     (shadow X Q B I r)\<lparr>rn_replacementIds := insert p (rn_replacementIds (shadow X Q B I r))\<rparr>"
  "i \<notin> X \<Longrightarrow> shadow X Q B I (r\<lparr>rn_replacementsByTarget := (rn_replacementsByTarget r)(i \<mapsto> b)\<rparr>) =
     (shadow X Q B I r)\<lparr>rn_replacementsByTarget := (rn_replacementsByTarget (shadow X Q B I r))(i \<mapsto> b)\<rparr>"
  "i \<notin> X \<Longrightarrow> shadow X Q B I (r\<lparr>rn_targetOwner := (rn_targetOwner r)(i \<mapsto> o'), rn_suppressed := insert i (rn_suppressed r)\<rparr>) =
     (shadow X Q B I r)\<lparr>rn_targetOwner := (rn_targetOwner (shadow X Q B I r))(i \<mapsto> o'),
       rn_suppressed := insert i (rn_suppressed (shadow X Q B I r))\<rparr>"
  by (cases r; auto simp: shadow_def fun_eq_iff)+

lemma shadow_fields [simp]:
  "rn_suppressed (shadow X Q B I r) = rn_suppressed r \<union> X"
  "rn_targetOwner (shadow X Q B I r) i = (if i \<in> X then Q i else rn_targetOwner r i)"
  "rn_replacementsByTarget (shadow X Q B I r) i = (if i \<in> X then B i else rn_replacementsByTarget r i)"
  "rn_replacementIds (shadow X Q B I r) = rn_replacementIds r \<union> I"
  by (simp_all add: shadow_def)

text \<open>The claimed events of the history are no corrections and have an owner.\<close>

definition extends :: "accepted_event list \<Rightarrow> accepted_event list \<Rightarrow> ident set \<Rightarrow> (ident \<Rightarrow> ident option) \<Rightarrow> bool" where
  "extends es fs X Q \<longleftrightarrow> distinct (map ev_id (es @ fs)) \<and>
     (\<forall>x\<in>set es. \<forall>y\<in>set fs. ev_sequence x < ev_sequence y) \<and>
     (\<forall>x\<in>set es. ev_id x \<in> X \<longrightarrow> \<not> is_correction (ev_body x) \<and> truthy (Q (ev_id x)))"

definition untouched :: "ident set \<Rightarrow> resolution \<Rightarrow> resolution \<Rightarrow> bool" where
  "untouched X r r' \<longleftrightarrow> rn_suppressed r' \<inter> X = rn_suppressed r \<inter> X \<and>
     (\<forall>i\<in>X. rn_replacementsByTarget r' i = rn_replacementsByTarget r i)"

lemma by_id_append: "by_id (es @ fs) i = (case by_id es i of None \<Rightarrow> by_id fs i | Some x \<Rightarrow> Some x)"
  by (induction es) (simp_all add: by_id_def)

lemma prior_target_shrink:
  assumes "extends es fs X Q" and "d \<in> set es" and "prior_target (es @ fs) d i"
  shows "prior_target es d i" and "by_id (es @ fs) i = by_id es i" and "i \<in> X \<Longrightarrow> truthy (Q i)"
proof -
  obtain x where x: "by_id (es @ fs) i = Some x" "ev_sequence x < ev_sequence d" "ev_accountId x = ev_accountId d"
    "ev_gameId x = ev_gameId d"
    using assms(3) by (auto simp: prior_target_def)
  have "x \<notin> set fs" using assms(1,2) x(2) by (fastforce simp: extends_def)
  then have es: "by_id es i = Some x"
    using x(1) by (auto simp: by_id_append dest: by_id_SomeD split: option.splits)
  with x show "prior_target es d i" "by_id (es @ fs) i = by_id es i" by (auto simp: prior_target_def)
  from by_id_SomeD [OF es] assms(1) show "i \<in> X \<Longrightarrow> truthy (Q i)" by (auto simp: extends_def)
qed

lemma claim_target_shadow:
  assumes ext: "extends es fs X Q" and d: "d \<in> set es"
    and "claim_target (es @ fs) d policy (shadow X Q B I r) i = Inr r1'"
  shows "\<exists>r1. claim_target es d policy r i = Inr r1 \<and> r1' = shadow X Q B I r1 \<and> i \<notin> X"
proof -
  note shrink = prior_target_shrink [OF ext d claim_target_Inr(2) [OF assms(3)]]
  have "i \<notin> X" using claim_target_Inr(3) [OF assms(3)] shrink(3) by auto
  with shrink show ?thesis
    using assms(3) by (auto simp: claim_target_def result_simps split: option.splits)
qed

lemma fold_claim_shadow:
  assumes ext: "extends es fs X Q" and d: "d \<in> set es"
    and "fold_res (claim_target (es @ fs) d policy) (shadow X Q B I r) is = Inr r1'"
  shows "\<exists>r1. fold_res (claim_target es d policy) r is = Inr r1 \<and> r1' = shadow X Q B I r1 \<and> set is \<inter> X = {}"
  using assms(3)
proof (induction "is" arbitrary: r)
  case (Cons i "is")
  then obtain r2' where "claim_target (es @ fs) d policy (shadow X Q B I r) i = Inr r2'"
    "fold_res (claim_target (es @ fs) d policy) r2' is = Inr r1'" by (auto simp: result_simps)
  moreover from this(1) obtain r2 where "claim_target es d policy r i = Inr r2" "r2' = shadow X Q B I r2" "i \<notin> X"
    using claim_target_shadow [OF ext d] by blast
  ultimately show ?case using Cons.IH by (auto simp: result_simps)
qed auto

lemma claim_replacement_shadow:
  assumes "fold_res (claim_replacement_id (es @ fs)) (shadow X Q B I r) ps = Inr r1'"
  shows "\<exists>r1. fold_res (claim_replacement_id es) r ps = Inr r1 \<and> r1' = shadow X Q B I r1"
  using assms
proof (induction ps arbitrary: r)
  case (Cons p ps)
  then obtain r2' where r2': "claim_replacement_id (es @ fs) (shadow X Q B I r) p = Inr r2'"
    "fold_res (claim_replacement_id (es @ fs)) r2' ps = Inr r1'" by (auto simp: result_simps)
  then have "claim_replacement_id es r p = Inr (r\<lparr>rn_replacementIds := insert (rep_id p) (rn_replacementIds r)\<rparr>)"
    "r2' = shadow X Q B I (r\<lparr>rn_replacementIds := insert (rep_id p) (rn_replacementIds r)\<rparr>)"
    by (auto simp: claim_replacement_id_def result_simps by_id_append split: option.splits)
  with Cons.IH r2'(2) show ?case by simp
qed auto

lemma place_replacements_shadow:
  assumes "place_replacements (es @ fs) d c (shadow X Q B I r) = Inr r1'"
    and same: "\<forall>i\<in>set (co_targetEventIds c). by_id (es @ fs) i = by_id es i" and free: "set (co_targetEventIds c) \<inter> X = {}"
  shows "\<exists>r1. place_replacements es d c r = Inr r1 \<and> r1' = shadow X Q B I r1 \<and>
     (\<forall>i\<in>X. rn_replacementsByTarget r1 i = rn_replacementsByTarget r i)"
proof (cases "co_replacements c = []")
  case False
  have "map (by_id (es @ fs)) (co_targetEventIds c) = map (by_id es) (co_targetEventIds c)"
    using same by simp
  then have targets: "List.map_filter (by_id (es @ fs)) (co_targetEventIds c) = List.map_filter (by_id es) (co_targetEventIds c)"
    using same by (auto simp: List.map_filter_def intro!: map_cong filter_cong)
  obtain target ts r2' where t: "sort_key ev_sequence (List.map_filter (by_id es) (co_targetEventIds c)) = target # ts"
    and r2': "fold_res (claim_replacement_id (es @ fs)) (shadow X Q B I r) (co_replacements c) = Inr r2'"
    and r1': "r1' = r2'\<lparr>rn_replacementsByTarget := (rn_replacementsByTarget r2')(ev_id target \<mapsto>
        \<lparr>rs_correctionEventId = ev_id d, rs_schemaVersion = ev_schemaVersion d,
         rs_replacements = sort_key rep_order (co_replacements c)\<rparr>)\<rparr>"
    using assms(1) False by (auto simp: place_replacements_def targets result_simps split: list.splits)
  from claim_replacement_shadow [OF r2'] obtain r2 where
    r2: "fold_res (claim_replacement_id es) r (co_replacements c) = Inr r2" "r2' = shadow X Q B I r2" by blast
  have "target \<in> set (List.map_filter (by_id es) (co_targetEventIds c))"
    by (metis list.set_intros(1) set_sort t)
  then have "ev_id target \<notin> X" using free by (auto simp: set_map_filter dest: by_id_SomeD)
  then have x: "ev_id target \<notin> X" .
  define rset where "rset = \<lparr>rs_correctionEventId = ev_id d, rs_schemaVersion = ev_schemaVersion d,
       rs_replacements = sort_key rep_order (co_replacements c)\<rparr>"
  let ?r1 = "r2\<lparr>rn_replacementsByTarget := (rn_replacementsByTarget r2)(ev_id target \<mapsto> rset)\<rparr>"
  have "place_replacements es d c r = Inr ?r1" using False t r2(1) by (simp add: place_replacements_def rset_def)
  moreover have "r1' = shadow X Q B I ?r1" unfolding r1' r2(2) rset_def by (rule shadow_update(2) [OF x, symmetric])
  moreover have "\<forall>i\<in>X. rn_replacementsByTarget ?r1 i = rn_replacementsByTarget r i"
    using x claim_replacement_ids_Inr(1) [OF r2(1)] by auto
  ultimately show ?thesis by blast
qed (use assms in \<open>auto simp: place_replacements_def\<close>)

lemma resolve_event_shadow:
  assumes ext: "extends es fs X Q" and d: "d \<in> set es"
    and step: "resolve_event (es @ fs) (shadow X Q B I r) d = Inr r1'"
  shows "\<exists>r1. resolve_event es r d = Inr r1 \<and> r1' = shadow X Q B I r1 \<and> untouched X r r1"
  using step
proof (cases rule: resolve_event_cases)
  case skip
  then show ?thesis using ext d by (auto simp: resolve_event_def extends_def untouched_def)
next
  case (claim c r2')
  from fold_claim_shadow [OF ext d claim(4)] obtain r2 where
    r2: "fold_res (claim_target es d (co_policy c)) r (co_targetEventIds c) = Inr r2" "r2' = shadow X Q B I r2"
      "set (co_targetEventIds c) \<inter> X = {}" by blast
  have "\<forall>i\<in>set (co_targetEventIds c). by_id (es @ fs) i = by_id es i"
    using claim_targets_Inr(4) [OF claim(4)] prior_target_shrink(2) [OF ext d] by blast
  with claim(5) r2(2,3) obtain r1 where r1: "place_replacements es d c r2 = Inr r1" "r1' = shadow X Q B I r1"
    "\<forall>i\<in>X. rn_replacementsByTarget r1 i = rn_replacementsByTarget r2 i"
    using place_replacements_shadow by blast
  have "parseEventBody (Shaped (ev_body d)) (ev_schemaVersion d) = Inr (CorrectionApplied c)"
    using claim(3) by (auto simp: correction_of_def split: sum.splits event_body.splits)
  moreover have "ev_id d \<notin> rn_suppressed r" using claim(2) by simp
  moreover have "untouched X r r1"
    using claim_targets_Inr(1,2) [OF r2(1)] place_replacements_Inr(1) [OF r1(1)] r1(3) r2(3)
    by (auto simp: untouched_def)
  ultimately show ?thesis using claim(1) r2(1) r1 by (auto simp: resolve_event_def)
qed

lemma fold_resolve_shadow:
  assumes ext: "extends es fs X Q" and "set ds \<subseteq> set es"
    and "fold_res (resolve_event (es @ fs)) (shadow X Q B I r) ds = Inr r1'"
  shows "\<exists>r1. fold_res (resolve_event es) r ds = Inr r1 \<and> r1' = shadow X Q B I r1 \<and> untouched X r r1"
  using assms(2,3)
proof (induction ds arbitrary: r)
  case (Cons d ds)
  then obtain r2' where "resolve_event (es @ fs) (shadow X Q B I r) d = Inr r2'"
    "fold_res (resolve_event (es @ fs)) r2' ds = Inr r1'" by (auto simp: result_simps)
  moreover from this(1) Cons.prems(1) obtain r2 where "resolve_event es r d = Inr r2" "r2' = shadow X Q B I r2" "untouched X r r2"
    using resolve_event_shadow [OF ext, of d B I r r2'] by auto
  ultimately show ?case using Cons.IH Cons.prems(1) by (fastforce simp: result_simps untouched_def)
qed (auto simp: untouched_def)

lemma shadow_empty [simp]: "shadow {} Q B {} r = r"
  by (cases r) (simp add: shadow_def)

text \<open>Replacements are only ever placed at earlier events of the history.\<close>

lemma place_replacements_dom:
  assumes "place_replacements es e c r = Inr r'"
  shows "dom (rn_replacementsByTarget r') \<subseteq> dom (rn_replacementsByTarget r) \<union> ev_id ` set es"
proof (cases "co_replacements c = []")
  case False
  then obtain target ts r2 where t: "sort_key ev_sequence (List.map_filter (by_id es) (co_targetEventIds c)) = target # ts"
    and r2: "fold_res (claim_replacement_id es) r (co_replacements c) = Inr r2"
    and r': "dom (rn_replacementsByTarget r') = insert (ev_id target) (dom (rn_replacementsByTarget r2))"
    using assms by (auto simp: place_replacements_def result_simps split: list.splits)
  have "target \<in> set (List.map_filter (by_id es) (co_targetEventIds c))"
    by (metis list.set_intros(1) set_sort t)
  then have "target \<in> set es" by (auto simp: set_map_filter dest: by_id_SomeD)
  with r' claim_replacement_ids_Inr(1) [OF r2] show ?thesis by auto
qed (use assms in \<open>auto simp: place_replacements_def\<close>)

lemma resolve_event_dom:
  assumes "resolve_event es r e = Inr r'"
  shows "dom (rn_replacementsByTarget r') \<subseteq> dom (rn_replacementsByTarget r) \<union> ev_id ` set es"
  using assms
proof (cases rule: resolve_event_cases)
  case (claim c r1)
  with place_replacements_dom [OF claim(5)] claim_targets_Inr(2) [OF claim(4)] show ?thesis by simp
qed auto

lemma resolution_dom:
  assumes "fold_res (resolve_event es) empty_resolution ds = Inr r"
  shows "dom (rn_replacementsByTarget r) \<subseteq> ev_id ` set es"
  using assms
  by (rule fold_res_invariant [where P = "\<lambda>r. dom (rn_replacementsByTarget r) \<subseteq> ev_id ` set es"])
    (use resolve_event_dom in \<open>auto simp: empty_resolution_def\<close>, blast)

section \<open>Incremental acceptance and reversal\<close>

lemma replay_event_cong:
  assumes "ev_id e \<in> rn_suppressed r \<longleftrightarrow> ev_id e \<in> rn_suppressed r'"
    and "rn_replacementsByTarget r (ev_id e) = rn_replacementsByTarget r' (ev_id e)"
  shows "replay_event r rs e = replay_event r' rs e"
  using assms by (simp add: replay_event_def replay_replacements_def replay_own_body_def)

lemma timeline_by_resolution:
  "replayEffectiveWithTimeline setup es = Inr rs \<longleftrightarrow>
    (\<exists>r s. distinct (map ev_id es) \<and>
      fold_res (resolve_event (by_sequence es)) empty_resolution (rev (by_sequence es)) = Inr r \<and>
      createInitialState setup = Inr s \<and> fold_res (replay_event r) (s, []) (by_sequence es) = Inr rs)"
  by (auto simp: replayEffectiveWithTimeline_def resolveCorrections_def Let_def result_simps)

lemma extends_by_sequence:
  assumes "distinct (map ev_id (es @ fs))" and "\<And>x y. x \<in> set es \<Longrightarrow> y \<in> set fs \<Longrightarrow> ev_sequence x < ev_sequence y"
    and "\<And>x. x \<in> set es \<Longrightarrow> ev_id x \<in> X \<Longrightarrow> \<not> is_correction (ev_body x) \<and> truthy (Q (ev_id x))"
  shows "extends (by_sequence es) fs X Q"
  unfolding extends_def
proof (intro conjI)
  show "distinct (map ev_id (by_sequence es @ fs))"
    using assms(1) distinct_ids_by_sequence [of es] by simp
qed (use assms(2,3) in auto)

text \<open>
  A new event that is no correction leaves the resolution alone: replaying the longer history
  is replaying the old one and applying the event.
\<close>

lemma timeline_snoc:
  assumes t: "replayEffectiveWithTimeline setup (es @ [e]) = Inr (t, steps)"
    and later: "\<And>x. x \<in> set es \<Longrightarrow> ev_sequence x < ev_sequence e" and plain: "\<not> is_correction (ev_body e)"
  shows "\<exists>s body. replayEffectiveWithTimeline setup es = Inr (s, butlast steps) \<and>
    parseEventBody (Shaped (ev_body e)) (ev_schemaVersion e) = Inr body \<and>
    last steps = event_step e body s \<and> applyEvent h False s e = Inr t"
proof -
  let ?es = "by_sequence es"
  have seq: "by_sequence (es @ [e]) = ?es @ [e]"
    using by_sequence_snoc [of es e] later by fastforce
  obtain r s0 where ids: "distinct (map ev_id (es @ [e]))"
    and r: "fold_res (resolve_event (?es @ [e])) empty_resolution (rev (?es @ [e])) = Inr r"
    and s0: "createInitialState setup = Inr s0" and run: "fold_res (replay_event r) (s0, []) (?es @ [e]) = Inr (t, steps)"
    using t by (auto simp: timeline_by_resolution seq)
  have ext: "extends ?es [e] {} Map.empty" by (rule extends_by_sequence) (use ids later in auto)
  have "resolve_event (?es @ [e]) empty_resolution e = Inr empty_resolution"
    using plain by (simp add: resolve_event_def)
  with r have "fold_res (resolve_event (?es @ [e])) (shadow {} Map.empty Map.empty {} empty_resolution) (rev ?es) = Inr r" by simp
  from fold_resolve_shadow [OF ext _ this] have res: "fold_res (resolve_event ?es) empty_resolution (rev ?es) = Inr r" by auto
  obtain rs where rs: "fold_res (replay_event r) (s0, []) ?es = Inr rs" and last: "replay_event r rs e = Inr (t, steps)"
    using run by (auto simp: fold_res_snoc result_simps)
  have old: "replayEffectiveWithTimeline setup es = Inr rs"
    using res rs s0 ids by (auto simp: timeline_by_resolution)
  have "resolveCorrections es = Inr r"
    using res ids by (simp add: resolveCorrections_def Let_def)
  note ker = resolution_kernel [OF this]
  have "ev_id e \<notin> rn_suppressed r"
  proof
    assume "ev_id e \<in> rn_suppressed r"
    then obtain c where "c \<in> set es" "is_correction (ev_body c)" "ev_id c \<notin> rn_suppressed r" "ev_id e \<in> set (targets_of c)"
      using kernelD [OF ker(1)] by blast
    with ker(2) have "prior_target es c (ev_id e)" by (auto simp: prior_only_def)
    then have "by_id es (ev_id e) \<noteq> None" by (auto simp: prior_target_def)
    with ids show False by (simp add: by_id_None_iff)
  qed
  moreover have "rn_replacementsByTarget r (ev_id e) = None"
    using resolution_dom [OF res] ids by (auto simp: dom_def)
  ultimately obtain body where v: "validateNextEnvelope (fst rs) e = Inr ()"
    and body: "parseEventBody (Shaped (ev_body e)) (ev_schemaVersion e) = Inr body"
    and rs2: "\<exists>u. applyBody (fst rs) body = Inr u \<and> t = advance_revision e u \<and> steps = snd rs @ [event_step e body (fst rs)]"
    using last by (auto simp: replay_event_def replay_replacements_def replay_own_body_def result_simps event_step_def)
  with plain have "applyEvent h False (fst rs) e = Inr t"
    by (auto simp: applyEvent_Inr_iff)
  with old body rs2 show ?thesis
    by (intro exI [of _ "fst rs"] exI [of _ body]) auto
qed

text \<open>
  A reversal of a correction that was accepted last: the history before the correction plays
  exactly as if the correction had never been made.
\<close>

definition reverses :: "accepted_event \<Rightarrow> accepted_event \<Rightarrow> bool" where
  "reverses c2 c1 \<longleftrightarrow> (\<exists>c. correction_of c2 = Some c \<and> co_targetEventIds c = [ev_id c1] \<and> co_replacements c = [])"

lemma timeline_reversal:
  assumes t: "replayEffectiveWithTimeline setup (es @ [c1, c2]) = Inr (t, steps)"
    and later: "\<And>x. x \<in> set es \<Longrightarrow> ev_sequence x < ev_sequence c1" "ev_sequence c1 < ev_sequence c2"
    and kinds: "is_correction (ev_body c1)" "is_correction (ev_body c2)" and rev: "reverses c2 c1"
  shows "\<exists>s body u. replayEffectiveWithTimeline setup es = Inr (s, butlast steps) \<and>
    parseEventBody (Shaped (ev_body c2)) (ev_schemaVersion c2) = Inr body \<and>
    last steps = event_step c2 body (advance_revision c1 s) \<and>
    applyBody (advance_revision c1 s) body = Inr u \<and> t = advance_revision c2 u"
proof -
  let ?es = "by_sequence es"
  have "\<And>x. x \<in> set es \<Longrightarrow> ev_sequence x < ev_sequence c2" using later less_trans by blast
  then have seq: "by_sequence (es @ [c1, c2]) = ?es @ [c1, c2]"
    using by_sequence_snoc [of "es @ [c1]" c2] by_sequence_snoc [of es c1] later by fastforce
  obtain r s0 where ids: "distinct (map ev_id (es @ [c1, c2]))"
    and r: "fold_res (resolve_event (?es @ [c1, c2])) empty_resolution (rev (?es @ [c1, c2])) = Inr r"
    and s0: "createInitialState setup = Inr s0"
    and run: "fold_res (replay_event r) (s0, []) (?es @ [c1, c2]) = Inr (t, steps)"
    using t by (auto simp: timeline_by_resolution seq)
  let ?X = "{ev_id c1}" and ?Q = "Map.empty (ev_id c1 \<mapsto> ev_id c2)"
  have ext: "extends ?es [c1, c2] ?X ?Q" by (rule extends_by_sequence) (use ids later in \<open>auto simp: image_iff intro: less_trans\<close>)
  obtain c r1 where c: "correction_of c2 = Some c" "co_targetEventIds c = [ev_id c1]" "co_replacements c = []"
    and c2: "resolve_event (?es @ [c1, c2]) empty_resolution c2 = Inr r1"
    using rev r by (auto simp: reverses_def result_simps)
  have r1: "r1 = shadow ?X ?Q Map.empty {} empty_resolution"
    using c2
  proof (cases rule: resolve_event_cases)
    case (claim c' r2)
    with c claim_target_Inr(1) [of "?es @ [c1, c2]" c2 "co_policy c" empty_resolution "ev_id c1" r2] show ?thesis
      by (auto simp: result_simps place_replacements_def empty_resolution_def shadow_def fun_eq_iff)
  qed (use kinds in \<open>simp add: empty_resolution_def\<close>)
  moreover have "resolve_event (?es @ [c1, c2]) r1 c1 = Inr r1"
    using r1 by (simp add: resolve_event_def)
  ultimately have "fold_res (resolve_event (?es @ [c1, c2])) (shadow ?X ?Q Map.empty {} empty_resolution) (rev ?es) = Inr r"
    using r c2 by (auto simp: result_simps)
  from fold_resolve_shadow [OF ext _ this] obtain r0 where
    res: "fold_res (resolve_event ?es) empty_resolution (rev ?es) = Inr r0" and r0: "r = shadow ?X ?Q Map.empty {} r0" by auto
  have fresh: "ev_id x \<noteq> ev_id c1" "ev_id x \<noteq> ev_id c2" if "x \<in> set es" for x
    using ids that by (auto simp: image_iff)
  have same: "replay_event r rs x = replay_event r0 rs x" if "x \<in> set ?es" for rs x
    using fresh that by (intro replay_event_cong) (auto simp: r0)
  obtain rs rs1 where rs: "fold_res (replay_event r) (s0, []) ?es = Inr rs" and
    e1: "replay_event r rs c1 = Inr rs1" and e2: "replay_event r rs1 c2 = Inr (t, steps)"
    using run by (auto simp: fold_res_append result_simps)
  have "fold_res (replay_event r) (s0, []) ?es = fold_res (replay_event r0) (s0, []) ?es"
    by (rule fold_res_cong) (use same in auto)
  with rs res s0 ids have old: "replayEffectiveWithTimeline setup es = Inr rs"
    by (auto simp: timeline_by_resolution)
  have "resolveCorrections es = Inr r0" using res ids by (simp add: resolveCorrections_def Let_def)
  note ker = resolution_kernel [OF this]
  have out: "ev_id c2 \<notin> rn_suppressed r0"
  proof
    assume "ev_id c2 \<in> rn_suppressed r0"
    then obtain d where "d \<in> set es" "is_correction (ev_body d)" "ev_id d \<notin> rn_suppressed r0" "ev_id c2 \<in> set (targets_of d)"
      using kernelD [OF ker(1)] by blast
    with ker(2) have "prior_target es d (ev_id c2)" by (auto simp: prior_only_def)
    then have "by_id es (ev_id c2) \<noteq> None" by (auto simp: prior_target_def)
    with ids show False by (simp add: by_id_None_iff)
  qed
  have none: "rn_replacementsByTarget r (ev_id x) = None" if "x \<in> {c1, c2}" for x
    using resolution_dom [OF res] ids that by (auto simp: r0 dom_def)
  have "rs1 = (advance_revision c1 (fst rs), snd rs)"
    using e1 none by (auto simp: replay_event_def replay_replacements_def replay_own_body_def result_simps r0)
  with e2 none out ids have "\<exists>body u. parseEventBody (Shaped (ev_body c2)) (ev_schemaVersion c2) = Inr body \<and>
    applyBody (advance_revision c1 (fst rs)) body = Inr u \<and> t = advance_revision c2 u \<and>
    steps = snd rs @ [event_step c2 body (advance_revision c1 (fst rs))]"
    by (auto simp: replay_event_def replay_replacements_def replay_own_body_def result_simps r0 event_step_def)
  then obtain body u where fin: "parseEventBody (Shaped (ev_body c2)) (ev_schemaVersion c2) = Inr body"
    "applyBody (advance_revision c1 (fst rs)) body = Inr u" "t = advance_revision c2 u"
    "steps = snd rs @ [event_step c2 body (advance_revision c1 (fst rs))]" by blast
  show ?thesis
    by (intro exI [of _ "fst rs"] exI [of _ body] exI [of _ u]) (use fin old in simp)
qed

section \<open>Replacing a body by one with the same effect\<close>

lemma replay_steps_state:
  assumes "fold_res (\<lambda>rs p. replay_step rs (f p)) rs ps = Inr a" and "fold_res (\<lambda>rs p. replay_step rs (f p)) rs' ps = Inr b"
    and "fst rs = fst rs'"
  shows "fst a = fst b"
  using assms
proof (induction ps arbitrary: rs rs')
  case (Cons p ps)
  obtain rs1 rs1' where 1: "replay_step rs (f p) = Inr rs1" "replay_step rs' (f p) = Inr rs1'"
    and 2: "fold_res (\<lambda>rs p. replay_step rs (f p)) rs1 ps = Inr a" "fold_res (\<lambda>rs p. replay_step rs (f p)) rs1' ps = Inr b"
    using Cons.prems by (auto simp: result_simps simp del: replay_step_Inr_iff)
  have "fst rs1 = fst rs1'" using 1 Cons.prems(3) by (auto simp: replay_step_def Let_def result_simps)
  with Cons.IH 2 show ?case by blast
qed simp

lemma replay_event_state:
  assumes "replay_event r rs e = Inr a" and "replay_event r rs' e = Inr b" and "fst rs = fst rs'"
  shows "fst a = fst b"
proof -
  obtain rs1 rs2 rs1' rs2' where 1: "replay_replacements r e rs = Inr rs1" "replay_replacements r e rs' = Inr rs1'"
    and 2: "replay_own_body r e rs1 = Inr rs2" "replay_own_body r e rs1' = Inr rs2'"
    and ab: "fst a = advance_revision e (fst rs2)" "fst b = advance_revision e (fst rs2')"
    using assms(1,2) by (auto simp: replay_event_def result_simps)
  have "fst rs1 = fst rs1'"
  proof (cases "rn_replacementsByTarget r (ev_id e)")
    case (Some rset)
    with 1 show ?thesis by (intro replay_steps_state [OF _ _ assms(3)]) (simp_all add: replay_replacements_def)
  qed (use 1 assms(3) in \<open>simp add: replay_replacements_def\<close>)
  with 2 have "fst rs2 = fst rs2'"
    by (auto simp: replay_own_body_def result_simps replay_step_def Let_def split: if_splits)
  with ab show ?thesis by simp
qed

lemma replay_fold_state:
  assumes "fold_res (replay_event r) rs es = Inr a" and "fold_res (replay_event r') rs' es = Inr b" and "fst rs = fst rs'"
    and "\<And>x rs rs' a b. x \<in> set es \<Longrightarrow> fst rs = fst rs' \<Longrightarrow> replay_event r rs x = Inr a \<Longrightarrow> replay_event r' rs' x = Inr b \<Longrightarrow>
      fst a = fst b"
  shows "fst a = fst b"
  using assms
proof (induction es arbitrary: rs rs')
  case (Cons x es)
  obtain rs1 rs1' where 1: "replay_event r rs x = Inr rs1" "replay_event r' rs' x = Inr rs1'"
    and 2: "fold_res (replay_event r) rs1 es = Inr a" "fold_res (replay_event r') rs1' es = Inr b"
    using Cons.prems(1,2) by (auto simp: result_simps)
  have "fst rs1 = fst rs1'" using Cons.prems(4) [OF _ Cons.prems(3) 1] by simp
  moreover have "\<And>y rs rs' a b. y \<in> set es \<Longrightarrow> fst rs = fst rs' \<Longrightarrow> replay_event r rs y = Inr a \<Longrightarrow>
      replay_event r' rs' y = Inr b \<Longrightarrow> fst a = fst b"
    using Cons.prems(4) by (meson list.set_intros(2))
  ultimately show ?case by (rule Cons.IH [OF 2])
qed simp

text \<open>The correction replaces the body of one event by one body.\<close>

definition rejudges :: "accepted_event \<Rightarrow> ident \<Rightarrow> replacement \<Rightarrow> bool" where
  "rejudges e i p \<longleftrightarrow> (\<exists>c. correction_of e = Some c \<and> co_targetEventIds c = [i] \<and> co_replacements c = [p])"

lemma resolve_rejudgment:
  assumes res: "resolve_event (es @ [e]) empty_resolution e = Inr r" and e: "is_correction (ev_body e)" "rejudges e i p"
    and x: "by_id es i = Some x"
  shows "r = shadow {i} [i \<mapsto> ev_id e] [i \<mapsto> \<lparr>rs_correctionEventId = ev_id e, rs_schemaVersion = ev_schemaVersion e,
     rs_replacements = [p]\<rparr>] {rep_id p} empty_resolution"
  using res
proof (cases rule: resolve_event_cases)
  case (claim c r1)
  with e(2) have c: "co_targetEventIds c = [i]" "co_replacements c = [p]" by (auto simp: rejudges_def)
  have r1: "r1 = empty_resolution\<lparr>rn_targetOwner := [i \<mapsto> ev_id e], rn_suppressed := {i}\<rparr>"
    using claim(4) c claim_target_Inr(1) [of "es @ [e]" e "co_policy c" empty_resolution i r1]
    by (simp add: result_simps empty_resolution_def)
  have "by_id (es @ [e]) i = Some x" "ev_id x = i" using x by_id_SomeD [OF x] by (simp_all add: by_id_append)
  with claim(5) c show ?thesis
    by (auto simp: place_replacements_def List.map_filter_def claim_replacement_id_def result_simps r1 empty_resolution_def
        shadow_def fun_eq_iff)
qed (use e(1) in \<open>simp add: empty_resolution_def\<close>)

lemma timeline_rejudgment:
  assumes t: "replayEffectiveWithTimeline setup (es @ [e]) = Inr (t, steps)"
    and old: "replayEffectiveWithTimeline setup es = Inr (s, steps0)"
    and later: "\<And>x. x \<in> set es \<Longrightarrow> ev_sequence x < ev_sequence e" and e: "is_correction (ev_body e)" "rejudges e i p" "ev_id e \<noteq> ''''"
    and x: "by_id es i = Some x" "\<not> is_correction (ev_body x)"
    and same: "\<And>s b u u'. parseEventBody (Shaped (ev_body x)) (ev_schemaVersion x) = Inr b \<Longrightarrow> applyBody s b = Inr u \<Longrightarrow>
      applyBody s (Play (rep_body p)) = Inr u' \<Longrightarrow> u = u'"
  shows "\<exists>c u. parseEventBody (Shaped (ev_body e)) (ev_schemaVersion e) = Inr (CorrectionApplied c) \<and>
    applyBody s (CorrectionApplied c) = Inr u \<and> t = advance_revision e u"
proof -
  let ?es = "by_sequence es" and ?X = "{i}" and ?Q = "[i \<mapsto> ev_id e]" and ?I = "{rep_id p}"
  let ?B = "[i \<mapsto> \<lparr>rs_correctionEventId = ev_id e, rs_schemaVersion = ev_schemaVersion e, rs_replacements = [p]\<rparr>]"
  have seq: "by_sequence (es @ [e]) = ?es @ [e]" using by_sequence_snoc [of es e] later by fastforce
  obtain r s0 where ids: "distinct (map ev_id (es @ [e]))"
    and r: "fold_res (resolve_event (?es @ [e])) empty_resolution (rev (?es @ [e])) = Inr r"
    and s0: "createInitialState setup = Inr s0" and run: "fold_res (replay_event r) (s0, []) (?es @ [e]) = Inr (t, steps)"
    using t by (auto simp: timeline_by_resolution seq)
  have xi: "by_id ?es i = Some x" "ev_id x = i" "x \<in> set es"
    using x(1) by_id_by_sequence [of es] ids by_id_SomeD [OF x(1)] by simp_all
  have only: "y = x" if "y \<in> set es" "ev_id y = i" for y
    using that xi ids by (auto simp: distinct_map inj_on_def)
  have ext: "extends ?es [e] ?X ?Q"
    by (rule extends_by_sequence) (use ids later only x(2) e(3) in auto)
  obtain r1 where e1: "resolve_event (?es @ [e]) empty_resolution e = Inr r1"
    and rest: "fold_res (resolve_event (?es @ [e])) r1 (rev ?es) = Inr r"
    using r by (auto simp: result_simps)
  have r1: "r1 = shadow ?X ?Q ?B ?I empty_resolution" by (rule resolve_rejudgment [OF e1 e(1,2) xi(1)])
  from fold_resolve_shadow [OF ext _ rest [unfolded r1]] obtain r0 where
    res: "fold_res (resolve_event ?es) empty_resolution (rev ?es) = Inr r0" and r0: "r = shadow ?X ?Q ?B ?I r0"
    and free: "untouched ?X empty_resolution r0" by auto
  have i: "i \<notin> rn_suppressed r0" "rn_replacementsByTarget r0 i = None"
    using free by (auto simp: untouched_def empty_resolution_def)
  obtain rs where rs: "fold_res (replay_event r) (s0, []) ?es = Inr rs" and last: "replay_event r rs e = Inr (t, steps)"
    using run by (auto simp: fold_res_snoc result_simps)
  have run0: "fold_res (replay_event r0) (s0, []) ?es = Inr (s, steps0)"
    using old res s0 by (auto simp: timeline_by_resolution)
  have state: "fst rs = s"
  proof -
    have "fst a = fst b" if "y \<in> set ?es" and eq: "fst qs = fst qs'" and new: "replay_event r qs y = Inr a" and was: "replay_event r0 qs' y = Inr b"
      for y qs qs' a b
    proof (cases "ev_id y = i")
      case False
      then have "replay_event r qs y = replay_event r0 qs y" by (intro replay_event_cong) (auto simp: r0)
      with new replay_event_state [OF _ was eq] show ?thesis by simp
    next
      case True
      then have y: "y = x" using only that(1) by simp
      obtain u where u: "applyBody (fst qs) (Play (rep_body p)) = Inr u" "fst a = advance_revision x u"
        using new xi(2) unfolding y
        by (auto simp: replay_event_def replay_replacements_def replay_own_body_def r0 result_simps replay_step_def Let_def
            replacement_step_def)
      obtain b' u' where u': "parseEventBody (Shaped (ev_body x)) (ev_schemaVersion x) = Inr b'" "applyBody (fst qs') b' = Inr u'"
        "fst b = advance_revision x u'"
        using was i xi(2) unfolding y
        by (auto simp: replay_event_def replay_replacements_def replay_own_body_def result_simps replay_step_def Let_def
            event_step_def)
      with u same [OF u'(1), of "fst qs" u' u] eq show ?thesis by simp
    qed
    from replay_fold_state [OF rs run0 _ this] show ?thesis by simp
  qed
  have "resolveCorrections es = Inr r0" using res ids by (simp add: resolveCorrections_def Let_def)
  note ker = resolution_kernel [OF this]
  have out: "ev_id e \<notin> rn_suppressed r0"
  proof
    assume "ev_id e \<in> rn_suppressed r0"
    then obtain d where "d \<in> set es" "is_correction (ev_body d)" "ev_id d \<notin> rn_suppressed r0" "ev_id e \<in> set (targets_of d)"
      using kernelD [OF ker(1)] by blast
    with ker(2) have "prior_target es d (ev_id e)" by (auto simp: prior_only_def)
    then have "by_id es (ev_id e) \<noteq> None" by (auto simp: prior_target_def)
    with ids show False by (simp add: by_id_None_iff)
  qed
  have "ev_id e \<noteq> i" using ids xi by auto
  moreover have "rn_replacementsByTarget r0 (ev_id e) = None" using resolution_dom [OF res] ids by (auto simp: dom_def)
  ultimately obtain body u where fin: "parseEventBody (Shaped (ev_body e)) (ev_schemaVersion e) = Inr body"
    "applyBody s body = Inr u" "t = advance_revision e u"
    using last out state
    by (auto simp: replay_event_def replay_replacements_def replay_own_body_def result_simps r0 replay_step_def Let_def event_step_def)
  moreover have "is_correction body" using parseEventBody_Inr(2) [OF fin(1)] e(1) by simp
  ultimately show ?thesis by (cases body) auto
qed

section \<open>Invariants of a replayed game\<close>

lemma advance_revision_inv [simp]:
  "counts_wf (advance_revision e s) = counts_wf s" "lineups_wf (advance_revision e s) = lineups_wf s"
  by (simp_all add: counts_wf_def lineups_wf_def advance_revision_def split: option.splits)

definition replay_inv :: "replay_state \<Rightarrow> bool" where
  "replay_inv rs \<longleftrightarrow> counts_wf (fst rs) \<and> lineups_wf (fst rs) \<and>
     (\<forall>st\<in>set (snd rs). counts_wf (es_before st) \<and> lineups_wf (es_before st))"

lemma replay_step_inv:
  assumes "replay_step rs mk = Inr rs'" and "replay_inv rs" and "\<And>s. es_before (mk s) = s"
  shows "replay_inv rs'"
  using assms by (auto simp: replay_inv_def result_simps dest: body_counts_wf body_lineups_wf)

lemma replay_event_inv:
  assumes "replay_inv rs" and "replay_event r rs e = Inr rs'"
  shows "replay_inv rs'"
proof -
  obtain rs1 rs2 where r1: "replay_replacements r e rs = Inr rs1" and r2: "replay_own_body r e rs1 = Inr rs2"
    and rs': "rs' = (advance_revision e (fst rs2), snd rs2)"
    using assms(2) by (auto simp: replay_event_def result_simps)
  have "replay_inv rs1"
  proof (cases "rn_replacementsByTarget r (ev_id e)")
    case None
    with r1 assms(1) show ?thesis by (simp add: replay_replacements_def)
  next
    case (Some rset)
    with r1 have *: "fold_res (\<lambda>rs p. replay_step rs (replacement_step e rset p)) rs (rs_replacements rset) = Inr rs1"
      by (simp add: replay_replacements_def)
    from * show ?thesis
      by (rule fold_res_invariant [where P = replay_inv])
        (use assms(1) replay_step_inv in \<open>auto simp: replacement_step_def\<close>)
  qed
  then have "replay_inv rs2"
    using r2 replay_step_inv [of rs1 "event_step e b" rs2 for b]
    by (auto simp: replay_own_body_def and_then_Inr_iff event_step_def simp del: replay_step_Inr_iff split: if_splits)
  then show ?thesis by (simp add: rs' replay_inv_def)
qed

interpretation replayed: reducer "replay_event r" "\<lambda>_ _. True" replay_inv for r
  by unfold_locales (rule replay_event_inv)

lemma timeline_inv:
  assumes "replayEffectiveWithTimeline setup es = Inr rs" and "setup_named setup"
  shows "replay_inv rs"
proof -
  obtain r s where "createInitialState setup = Inr s" and run: "fold_res (replay_event r) (s, []) (by_sequence es) = Inr rs"
    using timeline_inversion [OF assms(1)] by metis
  then have "replay_inv (s, [])"
    using initial_counts_wf initial_lineups_wf assms(2) by (simp add: replay_inv_def)
  with run show ?thesis by (rule replayed.fold_inv) simp
qed

section \<open>The evidence chain\<close>

lemma check_evidence_iff:
  assumes "i < length es"
  shows "check_evidence h setup es i = Inr () \<longleftrightarrow>
    (\<exists>before after. replayEffective setup (take i es) = Inr before \<and>
       validateNextEnvelope before (es ! i) = Inr () \<and> replayEffective setup (take (Suc i) es) = Inr after \<and>
       ev_preStateHash (es ! i) = h before \<and> ev_postStateHash (es ! i) = h after)"
  using take_Suc_conv_app_nth [OF assms]
  by (auto simp: check_evidence_def deriveEventStates_def result_simps)

lemma replayGame_inversion:
  assumes "replayGame h v setup es = Inr (s, m)"
  shows "replayEffective setup es = Inr s"
    and "v \<Longrightarrow> i < length es \<Longrightarrow> check_evidence h setup (by_sequence es) i = Inr ()"
    and "rm_finalSourceRevision m = gs_sourceRevision s" "rm_verified m \<longleftrightarrow> gs_status s = VERIFIED"
  using assms
  by (auto simp: replayGame_def Let_def result_simps replayEffective_def replayEffectiveWithTimeline_def split: if_splits)

lemma evidence_chain:
  assumes r: "replayGame h True setup es = Inr (s, m)"
  shows "Suc i < length es \<Longrightarrow> ev_postStateHash (by_sequence es ! i) = ev_preStateHash (by_sequence es ! Suc i)"
    and "es \<noteq> [] \<Longrightarrow> ev_postStateHash (last (by_sequence es)) = h s"
    and "es \<noteq> [] \<Longrightarrow> \<exists>s0. createInitialState setup = Inr s0 \<and> ev_preStateHash (hd (by_sequence es)) = h s0"
proof -
  let ?es = "by_sequence es"
  have step: "\<exists>before after. replayEffective setup (take i ?es) = Inr before \<and> replayEffective setup (take (Suc i) ?es) = Inr after \<and>
       ev_preStateHash (?es ! i) = h before \<and> ev_postStateHash (?es ! i) = h after" if "i < length es" for i
    using replayGame_inversion(2) [OF r _ that] check_evidence_iff [of i ?es h "setup"] that by auto
  show "ev_postStateHash (?es ! i) = ev_preStateHash (?es ! Suc i)" if "Suc i < length es"
    using step [of i] step [of "Suc i"] that by auto
  show "ev_postStateHash (last ?es) = h s" if "es \<noteq> []"
  proof -
    have "length es - 1 < length es" using that by (cases es) auto
    moreover have "take (Suc (length es - 1)) ?es = ?es" using that by simp
    moreover have "replayEffective setup ?es = Inr s"
      using replayGame_inversion(1) [OF r] by (simp add: replayEffective_def replayEffectiveWithTimeline_def)
    moreover have "last ?es = ?es ! (length es - 1)"
      using that by (metis last_conv_nth length_0_conv length_by_sequence)
    ultimately show ?thesis using step [of "length es - 1"] by auto
  qed
  show "\<exists>s0. createInitialState setup = Inr s0 \<and> ev_preStateHash (hd ?es) = h s0" if "es \<noteq> []"
  proof -
    have "replayEffective setup [] = createInitialState setup"
      by (cases "createInitialState setup") (simp_all add: replayEffective_def replayEffectiveWithTimeline_def resolveCorrections_def
          by_sequence_def Let_def)
    moreover have "hd ?es = ?es ! 0" using that by (metis hd_conv_nth length_0_conv length_by_sequence)
    ultimately show ?thesis using step [of 0] that by (cases es) auto
  qed
qed

end
