(* ===== verification/Statistic_Values.thy ===== *)
theory Statistic_Values
  imports Complex_Main Prelude
begin

text \<open>
  Exact rates and their rendering (\<open>src/domain/statistics/statistic-values.ts\<close>).  Numbers are
  integers; a sum or product that leaves the safe integers is an error in the source as in the
  model, so no rounding of a double is ever observed.  Rendering uses \<open>BigInt\<close>.
\<close>

datatype statistic_error = UNSUPPORTED_EVENT_TYPE_STAT | UNSUPPORTED_EVENT_VERSION | UNSUPPORTED_RULESET
  | INCOMPLETE_REPLAY_STATE | MISSING_ATTRIBUTION | IMPOSSIBLE_COUNTER_STATE | RECONCILIATION_FAILURE
  | ACCOUNT_MISMATCH_STAT | STALE_PROJECTION_WRITE | INVALID_CORRECTION_GRAPH
  | INTERNAL_INVARIANT_FAILURE_STAT | STAT_TYPE_ERROR

record exact_rate =
  xr_numerator :: int
  xr_denominator :: int

definition assertSafeNonnegativeInteger :: "int \<Rightarrow> statistic_error + unit" where
  "assertSafeNonnegativeInteger n = require (safe_int n \<and> 0 \<le> n) IMPOSSIBLE_COUNTER_STATE"

text \<open>The loop of Euclid's algorithm; it is only called on nonnegative numbers.\<close>

function greatestCommonDivisor :: "int \<Rightarrow> int \<Rightarrow> int" where
  "greatestCommonDivisor a b = (if b = 0 then a else greatestCommonDivisor b (a mod b))"
  by pat_completeness auto

termination
  by (relation "measure (\<lambda>(a, b). nat \<bar>b\<bar>)") (simp_all add: abs_mod_less nat_less_eq_zless)

declare greatestCommonDivisor.simps [simp del]

text \<open>One round of that loop on its two variables, which stand still once the second is zero.\<close>

definition euclid_step :: "int \<times> int \<Rightarrow> int \<times> int" where
  "euclid_step s = (if snd s = 0 then s else (snd s, fst s mod snd s))"

definition exactRate :: "int \<Rightarrow> int \<Rightarrow> statistic_error + exact_rate option" where
  "exactRate n d =
     and_then (assertSafeNonnegativeInteger n) (\<lambda>_.
     and_then (assertSafeNonnegativeInteger d) (\<lambda>_.
       if d = 0 then Inr None
       else let g = greatestCommonDivisor n d in
         Inr (Some \<lparr>xr_numerator = n div g, xr_denominator = d div g\<rparr>)))"

definition addExactRates ::
    "exact_rate option \<Rightarrow> exact_rate option \<Rightarrow> statistic_error + exact_rate option" where
  "addExactRates left right =
     (case (left, right) of
        (Some l, Some r) \<Rightarrow>
          (let n = xr_numerator l * xr_denominator r + xr_numerator r * xr_denominator l;
               d = xr_denominator l * xr_denominator r
           in and_then (require (safe_int n \<and> safe_int d) IMPOSSIBLE_COUNTER_STATE)
                (\<lambda>_. exactRate n d))
      | _ \<Rightarrow> Inr None)"

section \<open>Decimal strings\<close>

definition digit_char :: "nat \<Rightarrow> char" where
  "digit_char d = (if d < 10 then ''0123456789'' ! d else CHR ''0'')"

fun decimal :: "nat \<Rightarrow> string" where
  "decimal n = (if n < 10 then [digit_char n] else decimal (n div 10) @ [digit_char (n mod 10)])"

declare decimal.simps [simp del]

text \<open>\<open>String(n)\<close> of a whole number, and \<open>padStart(w, "0")\<close>.\<close>

definition string_of_int :: "int \<Rightarrow> string" where
  "string_of_int n = (if n < 0 then CHR ''-'' # decimal (nat (- n)) else decimal (nat n))"

definition pad_zero :: "nat \<Rightarrow> string \<Rightarrow> string" where
  "pad_zero w s = replicate (w - length s) (CHR ''0'') @ s"

definition rounded_scaled :: "exact_rate \<Rightarrow> nat \<Rightarrow> int" where
  "rounded_scaled r p = (xr_numerator r * 10 ^ p * 2 + xr_denominator r) div (xr_denominator r * 2)"

definition formatExactRate ::
    "exact_rate option \<Rightarrow> int option \<Rightarrow> bool option \<Rightarrow> statistic_error + string option" where
  "formatExactRate rate precision omitLeadingZero =
     (case rate of
        None \<Rightarrow> Inr None
      | Some r \<Rightarrow>
          (let p = (case precision of None \<Rightarrow> 3 | Some p \<Rightarrow> p) in
           and_then (require (\<not> (\<not> safe_int p \<or> p < 0 \<or> p > 6)) INTERNAL_INVARIANT_FAILURE_STAT) (\<lambda>_.
             let scale = 10 ^ nat p;
                 rounded = rounded_scaled r (nat p);
                 whole = rounded div scale;
                 fraction = pad_zero (nat p) (string_of_int (rounded mod scale));
                 rendered = (if p = 0 then string_of_int whole else string_of_int whole @ CHR ''.'' # fraction)
             in Inr (Some (if omitLeadingZero = Some True \<and> whole = 0 \<and> take 2 rendered = ''0.''
                           then drop 1 rendered else rendered)))))"

definition formatInningsPitched :: "int \<Rightarrow> statistic_error + string" where
  "formatInningsPitched outs =
     and_then (assertSafeNonnegativeInteger outs) (\<lambda>_.
       Inr (string_of_int (outs div 3) @ CHR ''.'' # string_of_int (outs mod 3)))"

section \<open>Rates are reduced fractions\<close>

lemma greatestCommonDivisor_gcd: "0 \<le> a \<Longrightarrow> 0 \<le> b \<Longrightarrow> greatestCommonDivisor a b = gcd a b"
proof (induction a b rule: greatestCommonDivisor.induct)
  case (1 a b)
  then show ?case
    by (subst greatestCommonDivisor.simps) (auto simp: gcd_red_int [of a b])
qed

text \<open>Two rounds halve the bound of the second variable, so a safe integer is used up after 106 rounds.\<close>

lemma greatestCommonDivisor_step: "greatestCommonDivisor a b = (case euclid_step (a, b) of (x, y) \<Rightarrow> greatestCommonDivisor x y)"
  using greatestCommonDivisor.simps [of a b] greatestCommonDivisor.simps [of a 0] by (simp add: euclid_step_def)

lemma euclid_steps: "greatestCommonDivisor a b = (case (euclid_step ^^ n) (a, b) of (x, y) \<Rightarrow> greatestCommonDivisor x y)"
proof (induction n arbitrary: a b)
  case (Suc n)
  obtain x y where xy: "euclid_step (a, b) = (x, y)" by fastforce
  show ?case using greatestCommonDivisor_step [of a b] Suc.IH [of x y] xy
    by (simp add: funpow_swap1 del: funpow.simps add: funpow.simps(2) comp_def)
qed simp

lemma euclid_halves:
  assumes "0 \<le> b" "b < 2 ^ Suc k"
  shows "0 \<le> snd ((euclid_step ^^ 2) (a, b)) \<and> snd ((euclid_step ^^ 2) (a, b)) < (2::int) ^ k"
proof (cases "b = 0 \<or> a mod b = 0")
  case True
  then show ?thesis by (auto simp: euclid_step_def numeral_2_eq_2)
next
  case False
  define c where "c = a mod b"
  have c: "0 < c" "c < b" using False assms(1) pos_mod_bound [of b a] pos_mod_sign [of b a] unfolding c_def by linarith+
  have e: "snd ((euclid_step ^^ 2) (a, b)) = b mod c" using False by (simp add: euclid_step_def numeral_2_eq_2 c_def)
  have "1 \<le> b div c" using c by (simp add: pos_imp_zdiv_pos_iff int_one_le_iff_zero_less)
  then have "c \<le> c * (b div c)" using c(1) by (metis mult_le_cancel_left_pos mult.right_neutral)
  moreover have "c * (b div c) + b mod c = b" "b mod c < c" using c by simp_all
  ultimately have "2 * (b mod c) < b" by linarith
  with assms c show ?thesis unfolding e by simp
qed

lemma euclid_ends: "0 \<le> b \<Longrightarrow> b < 2 ^ k \<Longrightarrow> snd ((euclid_step ^^ (2 * k)) (a, b)) = 0"
proof (induction k arbitrary: a b)
  case (Suc k)
  obtain x y where xy: "(euclid_step ^^ 2) (a, b) = (x, y)" by fastforce
  with euclid_halves [OF Suc.prems, of a] have y: "0 \<le> y" "y < 2 ^ k" by auto
  have "(euclid_step ^^ (2 * Suc k)) (a, b) = (euclid_step ^^ (2 * k)) ((euclid_step ^^ 2) (a, b))"
    by (metis funpow_add comp_apply mult_Suc_right add.commute)
  with Suc.IH [OF y] xy show ?case by simp
qed simp

lemma euclid_result:
  assumes "0 \<le> b" "b < 2 ^ k"
  shows "(euclid_step ^^ (2 * k)) (a, b) = (greatestCommonDivisor a b, 0)"
proof -
  obtain x y where xy: "(euclid_step ^^ (2 * k)) (a, b) = (x, y)" by fastforce
  with euclid_ends [OF assms, of a] euclid_steps [of a b "2 * k"] show ?thesis by (simp add: greatestCommonDivisor.simps)
qed

definition reduced :: "exact_rate \<Rightarrow> bool" where
  "reduced r \<longleftrightarrow> 0 \<le> xr_numerator r \<and> 0 < xr_denominator r \<and> coprime (xr_numerator r) (xr_denominator r)"

definition rate_value :: "exact_rate \<Rightarrow> rat" where
  "rate_value r = of_int (xr_numerator r) / of_int (xr_denominator r)"

lemma exactRate_Inr_iff [result_simps]:
  "exactRate n d = Inr r \<longleftrightarrow> safe_int n \<and> 0 \<le> n \<and> safe_int d \<and> 0 \<le> d \<and>
     r = (if d = 0 then None else Some \<lparr>xr_numerator = n div gcd n d, xr_denominator = d div gcd n d\<rparr>)"
  by (auto simp: exactRate_def assertSafeNonnegativeInteger_def result_simps greatestCommonDivisor_gcd Let_def)

lemma exactRate_Inl_iff:
  "exactRate n d = Inl e \<longleftrightarrow> e = IMPOSSIBLE_COUNTER_STATE \<and> \<not> (safe_int n \<and> 0 \<le> n \<and> safe_int d \<and> 0 \<le> d)"
  by (auto simp: exactRate_def assertSafeNonnegativeInteger_def result_simps Let_def split: if_splits)

lemma exactRate_reduced:
  assumes "exactRate n d = Inr (Some r)"
  shows "reduced r" and "xr_numerator r * d = n * xr_denominator r"
proof -
  have d: "0 \<le> n" "0 < d" and r: "r = \<lparr>xr_numerator = n div gcd n d, xr_denominator = d div gcd n d\<rparr>"
    using assms by (auto simp: result_simps split: if_splits)
  then show "reduced r"
    by (simp add: reduced_def div_gcd_coprime pos_imp_zdiv_nonneg_iff pos_imp_zdiv_pos_iff zdvd_imp_le)
  have "n div gcd n d * d = n * (d div gcd n d)"
    by (metis dvd_div_mult dvd_mult_div_cancel gcd_dvd1 gcd_dvd2 div_mult_swap mult.commute)
  then show "xr_numerator r * d = n * xr_denominator r" by (simp add: r)
qed

lemma reduced_unique:
  assumes "reduced r" "reduced r'" and "xr_numerator r * xr_denominator r' = xr_numerator r' * xr_denominator r"
  shows "r = r'"
proof -
  have "xr_numerator r = xr_numerator r' \<and> xr_denominator r = xr_denominator r'"
    using assms coprime_crossproduct_int [of "xr_numerator r" "xr_denominator r" "xr_numerator r'" "xr_denominator r'"]
    by (auto simp: reduced_def coprime_commute mult.commute)
  then show ?thesis by simp
qed

lemma rate_value_exact:
  assumes "exactRate n d = Inr (Some r)"
  shows "rate_value r = of_int n / of_int d"
proof -
  have "0 < d" "0 < xr_denominator r"
    using assms exactRate_reduced(1) [OF assms] by (auto simp: result_simps reduced_def split: if_splits)
  moreover have "(of_int (xr_numerator r * d) :: rat) = of_int (n * xr_denominator r)"
    using exactRate_reduced(2) [OF assms] by simp
  ultimately show ?thesis by (simp add: rate_value_def field_simps)
qed

lemma addExactRates_value:
  assumes "addExactRates (Some l) (Some r) = Inr x" and "reduced l" "reduced r"
  obtains s where "x = Some s" "reduced s" "rate_value s = rate_value l + rate_value r"
proof -
  let ?n = "xr_numerator l * xr_denominator r + xr_numerator r * xr_denominator l"
  let ?d = "xr_denominator l * xr_denominator r"
  have pos: "0 < xr_denominator l" "0 < xr_denominator r" using assms(2,3) by (auto simp: reduced_def)
  have e: "exactRate ?n ?d = Inr x"
    using assms(1) by (auto simp: addExactRates_def result_simps Let_def)
  with pos obtain s where s: "x = Some s" by (auto simp: result_simps)
  with e have es: "exactRate ?n ?d = Inr (Some s)" by simp
  have "rate_value s = rate_value l + rate_value r"
    unfolding rate_value_exact [OF es] using pos by (simp add: rate_value_def field_simps)
  with s exactRate_reduced(1) [OF es] show ?thesis by (intro that)
qed

section \<open>Rendering\<close>

fun digit_value :: "char \<Rightarrow> nat option" where
  "digit_value c = find_index (\<lambda>x. x = c) ''0123456789''"

text \<open>Reading a run of decimal digits back.\<close>

fun read_digits :: "nat \<Rightarrow> string \<Rightarrow> nat option" where
  "read_digits acc [] = Some acc"
| "read_digits acc (c # cs) = (case digit_value c of None \<Rightarrow> None | Some d \<Rightarrow> read_digits (10 * acc + d) cs)"

lemma read_digits_append:
  "read_digits acc (xs @ ys) = (case read_digits acc xs of None \<Rightarrow> None | Some a \<Rightarrow> read_digits a ys)"
  by (induction xs arbitrary: acc) (simp_all split: option.splits)

lemma nat_below_ten: "(d::nat) < 10 \<Longrightarrow> d \<in> {0,1,2,3,4,5,6,7,8,9}"
  by auto

lemma digit_value_digit_char: "d < 10 \<Longrightarrow> digit_value (digit_char d) = Some d"
  by (drule nat_below_ten) (auto simp: digit_char_def)

lemma read_decimal: "read_digits 0 (decimal n) = Some n"
proof (induction n rule: decimal.induct)
  case (1 n)
  then show ?case
    by (subst decimal.simps)
      (auto simp: read_digits_append digit_value_digit_char simp del: digit_value.simps)
qed

lemma decimal_nonempty [simp]: "decimal n \<noteq> []"
  by (subst decimal.simps) simp

lemma read_zeros: "read_digits 0 (replicate k (CHR ''0'') @ s) = read_digits 0 s"
  by (induction k) simp_all

lemma length_decimal: "n < 10 ^ Suc p \<Longrightarrow> length (decimal n) \<le> Suc p"
proof (induction p arbitrary: n)
  case 0
  then show ?case by (subst decimal.simps) simp
next
  case (Suc p)
  show ?case
  proof (cases "n < 10")
    case True
    then show ?thesis by (subst decimal.simps) simp
  next
    case False
    have "n div 10 < 10 ^ Suc p" using Suc.prems by (simp add: div_less_iff_less_mult mult.commute)
    with False Suc.IH [of "n div 10"] show ?thesis by (subst decimal.simps) simp
  qed
qed

lemma decimal_digits: "c \<in> set (decimal n) \<Longrightarrow> digit_value c \<noteq> None"
proof (induction n rule: decimal.induct)
  case (1 n)
  then show ?case
    using digit_value_digit_char [of n] digit_value_digit_char [of "n mod 10"]
    by (subst (asm) decimal.simps) (auto simp del: digit_value.simps split: if_splits)
qed

lemma padded_fraction:
  assumes "0 \<le> k" "k < 10 ^ p" "0 < p"
  shows "length (pad_zero p (string_of_int k)) = p" and "read_digits 0 (pad_zero p (string_of_int k)) = Some (nat k)"
proof -
  obtain q where q: "p = Suc q" using assms(3) by (cases p) auto
  have "nat k < 10 ^ Suc q" using assms(1,2) q by (simp add: nat_less_iff)
  then have "length (decimal (nat k)) \<le> p" using length_decimal q by blast
  then show "length (pad_zero p (string_of_int k)) = p"
    "read_digits 0 (pad_zero p (string_of_int k)) = Some (nat k)"
    using assms(1) by (simp_all add: pad_zero_def string_of_int_def read_zeros read_decimal)
qed

text \<open>Rounding is to the nearest multiple of \<open>10 ^ (- p)\<close>, halves upwards.\<close>

lemma rounded_scaled_nearest:
  assumes "reduced r"
  shows "2 * xr_numerator r * 10 ^ p - xr_denominator r < 2 * xr_denominator r * rounded_scaled r p"
    and "2 * xr_denominator r * rounded_scaled r p \<le> 2 * xr_numerator r * 10 ^ p + xr_denominator r"
    and "0 \<le> rounded_scaled r p"
proof -
  let ?d = "xr_denominator r" and ?a = "xr_numerator r * 10 ^ p * 2 + xr_denominator r"
  have d: "0 < ?d" "0 \<le> xr_numerator r" using assms by (auto simp: reduced_def)
  have "?a = (?d * 2) * (?a div (?d * 2)) + ?a mod (?d * 2)" by simp
  moreover have "0 \<le> ?a mod (?d * 2)" "?a mod (?d * 2) < ?d * 2" using d by simp_all
  ultimately show "2 * xr_numerator r * 10 ^ p - ?d < 2 * ?d * rounded_scaled r p"
    "2 * ?d * rounded_scaled r p \<le> 2 * xr_numerator r * 10 ^ p + ?d"
    unfolding rounded_scaled_def by (simp_all only: mult.commute mult.left_commute mult.assoc)
  show "0 \<le> rounded_scaled r p" using d by (simp add: rounded_scaled_def pos_imp_zdiv_nonneg_iff)
qed

text \<open>An innings count reads back to the number of outs.\<close>

fun split_dot :: "string \<Rightarrow> string \<times> string" where
  "split_dot [] = ([], [])"
| "split_dot (c # cs) = (if c = CHR ''.'' then ([], cs) else (case split_dot cs of (a, b) \<Rightarrow> (c # a, b)))"

lemma split_dot_append: "CHR ''.'' \<notin> set xs \<Longrightarrow> split_dot (xs @ CHR ''.'' # ys) = (xs, ys)"
  by (induction xs) auto

lemma dot_not_digit: "CHR ''.'' \<notin> set (decimal n)"
  using decimal_digits [of "CHR ''.''" n] by auto

definition outs_of_innings :: "string \<Rightarrow> nat option" where
  "outs_of_innings s = (case split_dot s of (a, b) \<Rightarrow>
     (case (read_digits 0 a, read_digits 0 b) of (Some i, Some j) \<Rightarrow> Some (3 * i + j) | _ \<Rightarrow> None))"

lemma outs_of_formatted:
  assumes "formatInningsPitched outs = Inr s"
  shows "outs_of_innings s = Some (nat outs)"
proof -
  have nonneg: "0 \<le> outs" and s: "s = string_of_int (outs div 3) @ CHR ''.'' # string_of_int (outs mod 3)"
    using assms by (auto simp: formatInningsPitched_def assertSafeNonnegativeInteger_def result_simps)
  moreover have "0 \<le> outs div 3" "0 \<le> outs mod 3" using nonneg by simp_all
  moreover have "3 * nat (outs div 3) + nat (outs mod 3) = nat outs"
    using nonneg by (simp add: nat_div_distrib nat_mod_distrib)
  ultimately show ?thesis
    by (simp add: outs_of_innings_def string_of_int_def split_dot_append dot_not_digit read_decimal)
qed

end
