(* ===== verification/Game_Statistics.thy ===== *)
theory Game_Statistics
  imports Game_Replay Statistic_Values
begin

text \<open>
  Box-score derivation (\<open>src/domain/statistics/game-statistics.ts\<close>): the effective steps of
  a replayed game are folded over tables of counters, the tables become player lines with
  their rates, the lines are summed per team and reconciled with the replayed score.

  The source treats a counters object as a \<open>Record<string, number>\<close> and loops over its keys; the
  model is a function on the datatype of the keys.  A \<open>Map\<close> is an association list in insertion
  order, and mutating the counters object obtained from it is an update of its entry.
\<close>

section \<open>Counters\<close>

datatype batting_key = B_plateAppearances | B_atBats | B_runs | B_hits | B_singles | B_doubles
  | B_triples | B_homeRuns | B_runsBattedIn | B_walks | B_intentionalWalks | B_hitByPitch
  | B_strikeouts | B_sacrificeFlies | B_sacrificeHits | B_reachedOnError | B_fieldersChoices
  | B_totalBases | B_stolenBases | B_caughtStealing

datatype pitching_key = P_appearances | P_gamesStarted | P_battersFaced | P_outsRecorded
  | P_hitsAllowed | P_runsAllowed | P_earnedRuns | P_walks | P_strikeouts | P_hitBatters
  | P_homeRunsAllowed | P_inheritedRunners | P_inheritedRunnersScored

datatype fielding_key = F_putouts | F_assists | F_errors | F_doublePlays | F_triplePlays

type_synonym 'k counters = "'k \<Rightarrow> int"
type_synonym 'k table = "(ident \<times> 'k counters) list"

text \<open>The keys in declaration order, as \<open>Object.keys\<close> lists them.\<close>

instantiation batting_key :: enum
begin

definition enum_batting_key :: "batting_key list" where
  "enum_batting_key = [B_plateAppearances, B_atBats, B_runs, B_hits, B_singles, B_doubles,
     B_triples, B_homeRuns, B_runsBattedIn, B_walks, B_intentionalWalks, B_hitByPitch,
     B_strikeouts, B_sacrificeFlies, B_sacrificeHits, B_reachedOnError, B_fieldersChoices,
     B_totalBases, B_stolenBases, B_caughtStealing]"

definition enum_all_batting_key :: "(batting_key \<Rightarrow> bool) \<Rightarrow> bool" where
  "enum_all_batting_key P = list_all P enum_class.enum"

definition enum_ex_batting_key :: "(batting_key \<Rightarrow> bool) \<Rightarrow> bool" where
  "enum_ex_batting_key P = list_ex P enum_class.enum"

instance
proof
  show univ: "(UNIV :: batting_key set) = set enum_class.enum"
    by (auto simp: enum_batting_key_def) (case_tac x, simp_all)
  show "distinct (enum_class.enum :: batting_key list)" by (simp add: enum_batting_key_def)
  show "enum_class.enum_all P = Ball UNIV P" "enum_class.enum_ex P = Bex UNIV P" for P :: "batting_key \<Rightarrow> bool"
    by (simp_all add: enum_all_batting_key_def enum_ex_batting_key_def univ list_all_iff list_ex_iff)
qed

end

instantiation pitching_key :: enum
begin

definition enum_pitching_key :: "pitching_key list" where
  "enum_pitching_key = [P_appearances, P_gamesStarted, P_battersFaced, P_outsRecorded,
     P_hitsAllowed, P_runsAllowed, P_earnedRuns, P_walks, P_strikeouts, P_hitBatters,
     P_homeRunsAllowed, P_inheritedRunners, P_inheritedRunnersScored]"

definition enum_all_pitching_key :: "(pitching_key \<Rightarrow> bool) \<Rightarrow> bool" where
  "enum_all_pitching_key P = list_all P enum_class.enum"

definition enum_ex_pitching_key :: "(pitching_key \<Rightarrow> bool) \<Rightarrow> bool" where
  "enum_ex_pitching_key P = list_ex P enum_class.enum"

instance
proof
  show univ: "(UNIV :: pitching_key set) = set enum_class.enum"
    by (auto simp: enum_pitching_key_def) (case_tac x, simp_all)
  show "distinct (enum_class.enum :: pitching_key list)" by (simp add: enum_pitching_key_def)
  show "enum_class.enum_all P = Ball UNIV P" "enum_class.enum_ex P = Bex UNIV P" for P :: "pitching_key \<Rightarrow> bool"
    by (simp_all add: enum_all_pitching_key_def enum_ex_pitching_key_def univ list_all_iff list_ex_iff)
qed

end

instantiation fielding_key :: enum
begin

definition enum_fielding_key :: "fielding_key list" where
  "enum_fielding_key = [F_putouts, F_assists, F_errors, F_doublePlays, F_triplePlays]"

definition enum_all_fielding_key :: "(fielding_key \<Rightarrow> bool) \<Rightarrow> bool" where
  "enum_all_fielding_key P = list_all P enum_class.enum"

definition enum_ex_fielding_key :: "(fielding_key \<Rightarrow> bool) \<Rightarrow> bool" where
  "enum_ex_fielding_key P = list_ex P enum_class.enum"

instance
proof
  show univ: "(UNIV :: fielding_key set) = set enum_class.enum"
    by (auto simp: enum_fielding_key_def) (case_tac x, simp_all)
  show "distinct (enum_class.enum :: fielding_key list)" by (simp add: enum_fielding_key_def)
  show "enum_class.enum_all P = Ball UNIV P" "enum_class.enum_ex P = Bex UNIV P" for P :: "fielding_key \<Rightarrow> bool"
    by (simp_all add: enum_all_fielding_key_def enum_ex_fielding_key_def univ list_all_iff list_ex_iff)
qed

end

text \<open>The visitors' half of an inning comes first.\<close>

instantiation game_side :: linorder
begin

definition less_eq_game_side :: "game_side \<Rightarrow> game_side \<Rightarrow> bool" where
  "less_eq_game_side a b \<longleftrightarrow> a = AWAY \<or> b = HOME"

definition less_game_side :: "game_side \<Rightarrow> game_side \<Rightarrow> bool" where
  "less_game_side a b \<longleftrightarrow> a = AWAY \<and> b = HOME"

instance
proof
  fix a b c :: game_side
  show "a < b \<longleftrightarrow> a \<le> b \<and> \<not> b \<le> a" "a \<le> a" "a \<le> b \<Longrightarrow> b \<le> c \<Longrightarrow> a \<le> c"
    "a \<le> b \<Longrightarrow> b \<le> a \<Longrightarrow> a = b" "a \<le> b \<or> b \<le> a"
    by (cases a; cases b; cases c; simp add: less_eq_game_side_def less_game_side_def)+
qed

end

definition zero_counters :: "'k counters" where
  "zero_counters = (\<lambda>_. 0)"

definition bump :: "'k \<Rightarrow> int \<Rightarrow> 'k counters \<Rightarrow> 'k counters" where
  "bump k n c = c(k := c k + n)"

definition counters_of :: "'k table \<Rightarrow> ident \<Rightarrow> 'k counters" where
  "counters_of t x = (case map_of t x of None \<Rightarrow> zero_counters | Some c \<Rightarrow> c)"

text \<open>Fetching a player's counters creates the entry when there is none.\<close>

definition with_counters :: "ident \<Rightarrow> ('k counters \<Rightarrow> 'k counters) \<Rightarrow> 'k table \<Rightarrow> 'k table" where
  "with_counters x f t = AList.update x (f (counters_of t x)) t"

definition validateCounters :: "('k::enum) counters \<Rightarrow> statistic_error + unit" where
  "validateCounters c = require (list_all (\<lambda>k. safe_int (c k) \<and> 0 \<le> c k) enum_class.enum) IMPOSSIBLE_COUNTER_STATE"

section \<open>Rates\<close>

record batting_rates =
  br_battingAverage :: "exact_rate option"
  br_onBasePercentage :: "exact_rate option"
  br_sluggingPercentage :: "exact_rate option"
  br_onBasePlusSlugging :: "exact_rate option"

record pitching_rates =
  pr_earnedRunAverage :: "exact_rate option"
  pr_walksAndHitsPerInningPitched :: "exact_rate option"

record fielding_rates =
  fr_chances :: int
  fr_fieldingPercentage :: "exact_rate option"

definition batting_invariant :: "batting_key counters \<Rightarrow> bool" where
  "batting_invariant c \<longleftrightarrow>
     c B_hits = c B_singles + c B_doubles + c B_triples + c B_homeRuns \<and>
     c B_totalBases = c B_singles + c B_doubles * 2 + c B_triples * 3 + c B_homeRuns * 4 \<and>
     c B_hits \<le> c B_atBats \<and> c B_intentionalWalks \<le> c B_walks \<and> c B_strikeouts \<le> c B_atBats \<and>
     c B_reachedOnError + c B_fieldersChoices \<le> c B_atBats \<and>
     c B_atBats + c B_walks + c B_hitByPitch + c B_sacrificeFlies + c B_sacrificeHits \<le> c B_plateAppearances"

definition deriveBattingRates :: "batting_key counters \<Rightarrow> statistic_error + batting_rates" where
  "deriveBattingRates c =
     and_then (validateCounters c) (\<lambda>_.
     and_then (require (batting_invariant c) IMPOSSIBLE_COUNTER_STATE) (\<lambda>_.
     and_then (exactRate (c B_hits + c B_walks + c B_hitByPitch)
                 (c B_atBats + c B_walks + c B_hitByPitch + c B_sacrificeFlies)) (\<lambda>obp.
     and_then (exactRate (c B_totalBases) (c B_atBats)) (\<lambda>slg.
     and_then (exactRate (c B_hits) (c B_atBats)) (\<lambda>avg.
     and_then (addExactRates obp slg) (\<lambda>ops.
       Inr \<lparr>br_battingAverage = avg, br_onBasePercentage = obp, br_sluggingPercentage = slg,
            br_onBasePlusSlugging = ops\<rparr>))))))"

definition pitching_invariant :: "pitching_key counters \<Rightarrow> bool" where
  "pitching_invariant c \<longleftrightarrow> c P_earnedRuns \<le> c P_runsAllowed \<and> c P_homeRunsAllowed \<le> c P_hitsAllowed \<and>
     c P_inheritedRunnersScored \<le> c P_inheritedRunners \<and> c P_gamesStarted \<le> c P_appearances"

definition derivePitchingRates :: "pitching_key counters \<Rightarrow> statistic_error + pitching_rates" where
  "derivePitchingRates c =
     and_then (validateCounters c) (\<lambda>_.
     and_then (require (pitching_invariant c) IMPOSSIBLE_COUNTER_STATE) (\<lambda>_.
     and_then (exactRate (c P_earnedRuns * 27) (c P_outsRecorded)) (\<lambda>era.
     and_then (exactRate ((c P_walks + c P_hitsAllowed) * 3) (c P_outsRecorded)) (\<lambda>whip.
       Inr \<lparr>pr_earnedRunAverage = era, pr_walksAndHitsPerInningPitched = whip\<rparr>))))"

definition deriveFieldingRates :: "fielding_key counters \<Rightarrow> statistic_error + fielding_rates" where
  "deriveFieldingRates c =
     and_then (validateCounters c) (\<lambda>_.
     (let chances = c F_putouts + c F_assists + c F_errors in
      and_then (exactRate (c F_putouts + c F_assists) chances) (\<lambda>p.
        Inr \<lparr>fr_chances = chances, fr_fieldingPercentage = p\<rparr>)))"

section \<open>Attribution\<close>

record stats =
  st_batting :: "batting_key table"
  st_pitching :: "pitching_key table"
  st_fielding :: "fielding_key table"
  st_innings :: "((int \<times> game_side) \<times> int) list"

definition empty_stats :: stats where
  "empty_stats = \<lparr>st_batting = [], st_pitching = [], st_fielding = [], st_innings = []\<rparr>"

type_synonym side_index = "(ident \<times> game_side) list"
type_synonym stat_update = "stats \<Rightarrow> statistic_error + stats"

fun opposite :: "game_side \<Rightarrow> game_side" where
  "opposite HOME = AWAY"
| "opposite AWAY = HOME"

definition step_battingSide :: "effective_step \<Rightarrow> statistic_error + game_side" where
  "step_battingSide step = (case gs_half (es_before step) of
     Some TOP \<Rightarrow> Inr AWAY | Some BOTTOM \<Rightarrow> Inr HOME | None \<Rightarrow> Inl INCOMPLETE_REPLAY_STATE)"

definition index_player :: "side_index \<Rightarrow> ident \<times> game_side \<Rightarrow> statistic_error + side_index" where
  "index_player ix p = (if map_of ix (fst p) \<noteq> None then Inl MISSING_ATTRIBUTION else Inr (ix @ [p]))"

definition side_players :: "accepted_setup \<Rightarrow> game_side \<Rightarrow> (ident \<times> game_side) list" where
  "side_players setup sd = map (\<lambda>e. (le_playerId e, sd)) (ss_lineup (su_sides setup sd))"

definition playerSideIndex :: "accepted_setup \<Rightarrow> statistic_error + side_index" where
  "playerSideIndex setup = fold_res index_player [] (side_players setup AWAY @ side_players setup HOME)"

definition requirePlayerSide :: "side_index \<Rightarrow> ident \<Rightarrow> game_side option \<Rightarrow> statistic_error + game_side" where
  "requirePlayerSide ix x expected =
     (case map_of ix x of
        None \<Rightarrow> Inl MISSING_ATTRIBUTION
      | Some sd \<Rightarrow> if expected \<noteq> None \<and> expected \<noteq> Some sd then Inl MISSING_ATTRIBUTION else Inr sd)"

definition battingFor ::
    "side_index \<Rightarrow> ident \<Rightarrow> game_side \<Rightarrow> (batting_key counters \<Rightarrow> batting_key counters) \<Rightarrow> stat_update" where
  "battingFor ix x sd f st = and_then (requirePlayerSide ix x (Some sd))
     (\<lambda>_. Inr (st\<lparr>st_batting := with_counters x f (st_batting st)\<rparr>))"

definition pitchingFor ::
    "side_index \<Rightarrow> ident \<Rightarrow> game_side \<Rightarrow> (pitching_key counters \<Rightarrow> pitching_key counters) \<Rightarrow> stat_update" where
  "pitchingFor ix x sd f st = and_then (requirePlayerSide ix x (Some sd))
     (\<lambda>_. Inr (st\<lparr>st_pitching := with_counters x f (st_pitching st)\<rparr>))"

definition fieldingFor ::
    "side_index \<Rightarrow> ident \<Rightarrow> game_side \<Rightarrow> (fielding_key counters \<Rightarrow> fielding_key counters) \<Rightarrow> stat_update" where
  "fieldingFor ix x sd f st = and_then (requirePlayerSide ix x (Some sd))
     (\<lambda>_. Inr (st\<lparr>st_fielding := with_counters x f (st_fielding st)\<rparr>))"

section \<open>The outcome of a plate appearance\<close>

fun outcome_bases :: "plate_outcome \<Rightarrow> int option" where
  "outcome_bases SINGLE = Some 1"
| "outcome_bases DOUBLE = Some 2"
| "outcome_bases TRIPLE = Some 3"
| "outcome_bases HOME_RUN = Some 4"
| "outcome_bases _ = None"

definition no_at_bat :: "plate_outcome \<Rightarrow> bool" where
  "no_at_bat x \<longleftrightarrow> x \<in> {WALK, INTENTIONAL_WALK, HIT_BY_PITCH, SACRIFICE_BUNT, SACRIFICE_FLY}"

definition bump_if :: "bool \<Rightarrow> 'k \<Rightarrow> int \<Rightarrow> 'k counters \<Rightarrow> 'k counters" where
  "bump_if b k n c = (if b then bump k n c else c)"

definition batter_outcome :: "plate_outcome \<Rightarrow> batting_key counters \<Rightarrow> batting_key counters" where
  "batter_outcome x c =
     bump_if (x = FIELDER_CHOICE) B_fieldersChoices 1
     (bump_if (x = REACHED_ON_ERROR) B_reachedOnError 1
     (bump_if (x = SACRIFICE_BUNT) B_sacrificeHits 1
     (bump_if (x = SACRIFICE_FLY) B_sacrificeFlies 1
     (bump_if (x \<in> {STRIKEOUT_SWINGING, STRIKEOUT_LOOKING}) B_strikeouts 1
     (bump_if (x = HIT_BY_PITCH) B_hitByPitch 1
     (bump_if (x = INTENTIONAL_WALK) B_intentionalWalks 1
     (bump_if (x \<in> {WALK, INTENTIONAL_WALK}) B_walks 1
     (bump_if (x = HOME_RUN) B_homeRuns 1
     (bump_if (x = TRIPLE) B_triples 1
     (bump_if (x = DOUBLE) B_doubles 1
     (bump_if (x = SINGLE) B_singles 1
     (bump_if (outcome_bases x \<noteq> None) B_totalBases (case outcome_bases x of None \<Rightarrow> 0 | Some n \<Rightarrow> n)
     (bump_if (outcome_bases x \<noteq> None) B_hits 1
     (bump_if (\<not> no_at_bat x) B_atBats 1
     (bump B_plateAppearances 1 c)))))))))))))))"

definition pitcher_outcome :: "plate_outcome \<Rightarrow> pitching_key counters \<Rightarrow> pitching_key counters" where
  "pitcher_outcome x c =
     bump_if (x \<in> {STRIKEOUT_SWINGING, STRIKEOUT_LOOKING}) P_strikeouts 1
     (bump_if (x = HIT_BY_PITCH) P_hitBatters 1
     (bump_if (x \<in> {WALK, INTENTIONAL_WALK}) P_walks 1
     (bump_if (x = HOME_RUN) P_homeRunsAllowed 1
     (bump_if (outcome_bases x \<noteq> None) P_hitsAllowed 1
     (bump P_battersFaced 1 c)))))"

text \<open>Both counters objects are fetched before the outcome is looked at.\<close>

definition applyPlateOutcome ::
    "side_index \<Rightarrow> plate_appearance \<Rightarrow> game_side \<Rightarrow> stat_update" where
  "applyPlateOutcome ix p sd st =
     and_then (battingFor ix (pa_batterId p) sd id st) (\<lambda>st.
     and_then (pitchingFor ix (pa_pitcherId p) (opposite sd) id st) (\<lambda>st.
     and_then (require (pa_outcome p \<noteq> INTERFERENCE) UNSUPPORTED_RULESET) (\<lambda>_.
     and_then (battingFor ix (pa_batterId p) sd (batter_outcome (pa_outcome p)) st)
       (pitchingFor ix (pa_pitcherId p) (opposite sd) (pitcher_outcome (pa_outcome p))))))"

section \<open>Runs, outs and fielding credits\<close>

definition assertEarnedRun :: "earned_run option \<Rightarrow> int \<Rightarrow> statistic_error + earned_run" where
  "assertEarnedRun x version =
     (case x of
        Some PENDING \<Rightarrow> Inl INCOMPLETE_REPLAY_STATE
      | Some c \<Rightarrow> Inr c
      | None \<Rightarrow> Inl (if version = 1 then UNSUPPORTED_EVENT_VERSION else MISSING_ATTRIBUTION))"

definition recordInning :: "effective_step \<Rightarrow> game_side \<Rightarrow> int \<Rightarrow> stat_update" where
  "recordInning step sd n st =
     (case gs_inning (es_before step) of
        None \<Rightarrow> Inl INCOMPLETE_REPLAY_STATE
      | Some i \<Rightarrow>
          (let old = (case map_of (st_innings st) (i, sd) of None \<Rightarrow> 0 | Some r \<Rightarrow> r)
           in Inr (st\<lparr>st_innings := AList.update (i, sd) (old + n) (st_innings st)\<rparr>)))"

definition applyCountingRun ::
    "side_index \<Rightarrow> effective_step \<Rightarrow> runner_movement \<Rightarrow> game_side \<Rightarrow> ident option \<Rightarrow> stat_update" where
  "applyCountingRun ix step m sd batterId st =
     (if \<not> counting_run m then Inr st
      else
        (let def = opposite sd; active = gs_activePitcher (es_before step) def in
         and_then (assertEarnedRun (mv_earnedRun m) (es_schemaVersion step)) (\<lambda>cls.
         and_then (battingFor ix (mv_runnerId m) sd (bump B_runs 1) st) (\<lambda>st.
         and_then (pitchingFor ix (mv_responsiblePitcherId m) def
                    (bump_if (cls = EARNED) P_earnedRuns 1 \<circ> bump P_runsAllowed 1) st) (\<lambda>st.
         and_then (if active \<noteq> mv_responsiblePitcherId m
                   then pitchingFor ix active def (bump P_inheritedRunnersScored 1) st else Inr st) (\<lambda>st.
         and_then (if mv_rbiEligible m = Some True then
                     (case batterId of None \<Rightarrow> Inl MISSING_ATTRIBUTION
                      | Some b \<Rightarrow> battingFor ix b sd (bump B_runsBattedIn 1) st)
                   else Inr st) (\<lambda>st.
           recordInning step sd 1 st)))))))"

definition credit_assist :: "side_index \<Rightarrow> game_side \<Rightarrow> ident \<Rightarrow> stats \<Rightarrow> ident \<Rightarrow> statistic_error + stats" where
  "credit_assist ix sd putout st x =
     (if x \<noteq> putout then fieldingFor ix x sd (bump F_assists 1) st else Inr st)"

text \<open>The last fielder of an out makes the putout, the others assist once each.\<close>

definition creditOutPath ::
    "side_index \<Rightarrow> ident list \<Rightarrow> game_side \<Rightarrow> stats \<Rightarrow> statistic_error + (stats \<times> ident list)" where
  "creditOutPath ix fielders sd st =
     and_then (require (fielders \<noteq> []) MISSING_ATTRIBUTION) (\<lambda>_.
     and_then (map_res (\<lambda>x. requirePlayerSide ix x (Some sd)) (js_unique fielders)) (\<lambda>_.
     and_then (fieldingFor ix (last fielders) sd (bump F_putouts 1) st) (\<lambda>st.
     and_then (fold_res (credit_assist ix sd (last fielders)) st (js_unique (butlast fielders))) (\<lambda>st.
       Inr (st, js_unique fielders)))))"

definition credit_key :: "fielding_credit_kind \<Rightarrow> fielding_key" where
  "credit_key k = (case k of PUTOUT \<Rightarrow> F_putouts | ASSIST \<Rightarrow> F_assists | ERROR \<Rightarrow> F_errors)"

definition apply_credit :: "side_index \<Rightarrow> game_side \<Rightarrow> stats \<Rightarrow> fielding_credit \<Rightarrow> statistic_error + stats" where
  "apply_credit ix sd st c = fieldingFor ix (fc_fielderId c) sd (bump (credit_key (fc_credit c)) 1) st"

definition movement_fielders :: "runner_movement \<Rightarrow> statistic_error + ident list" where
  "movement_fielders m = (case mv_out m of None \<Rightarrow> Inl STAT_TYPE_ERROR | Some o' \<Rightarrow> Inr (out_fielders o'))"

definition credit_out ::
    "side_index \<Rightarrow> game_side \<Rightarrow> stats \<times> ident list \<Rightarrow> runner_movement \<Rightarrow> statistic_error + (stats \<times> ident list)" where
  "credit_out ix sd acc m =
     and_then (movement_fielders m) (\<lambda>fs.
     and_then (creditOutPath ix fs sd (fst acc)) (\<lambda>(st, xs). Inr (st, snd acc @ xs)))"

text \<open>Explicit credits, or else the fielders of each out; the participants are those of the outs.\<close>

definition credit_play ::
    "side_index \<Rightarrow> game_side \<Rightarrow> fielding_credit list \<Rightarrow> runner_movement list \<Rightarrow> stats
     \<Rightarrow> statistic_error + (stats \<times> ident list)" where
  "credit_play ix sd credits outs st =
     (if credits \<noteq> [] then
        and_then (fold_res (apply_credit ix sd) st credits) (\<lambda>st.
          Inr (st, js_unique (map fc_fielderId (filter (\<lambda>c. fc_credit c \<noteq> ERROR) credits))))
      else
        and_then (fold_res (credit_out ix sd) (st, []) outs) (\<lambda>(st, xs). Inr (st, js_unique xs)))"

definition credit_multiple ::
    "side_index \<Rightarrow> game_side \<Rightarrow> nat \<Rightarrow> ident list \<Rightarrow> stat_update" where
  "credit_multiple ix sd n participants st =
     (if n = 2 \<or> n = 3 then
        fold_res (\<lambda>st x. fieldingFor ix x sd (bump (if n = 2 then F_doublePlays else F_triplePlays) 1) st)
          st participants
      else Inr st)"

section \<open>One effective step\<close>

definition stat_game_started :: "side_index \<Rightarrow> accepted_setup \<Rightarrow> stat_update" where
  "stat_game_started ix setup st =
     fold_res (\<lambda>st sd. pitchingFor ix (ss_startingPitcherId (su_sides setup sd)) sd
                (bump P_gamesStarted 1 \<circ> bump P_appearances 1) st) st [AWAY, HOME]"

definition stat_plate_appearance :: "side_index \<Rightarrow> effective_step \<Rightarrow> plate_appearance \<Rightarrow> stat_update" where
  "stat_plate_appearance ix step p st =
     and_then (step_battingSide step) (\<lambda>sd.
     and_then (recordInning step sd 0 st) (\<lambda>st.
     and_then (applyPlateOutcome ix p sd st) (\<lambda>st.
     and_then (fold_res (\<lambda>st m. applyCountingRun ix step m sd (Some (pa_batterId p)) st) st (pa_movements p)) (\<lambda>st.
     (let outs = out_movements (pa_movements p); n = length outs in
      and_then (pitchingFor ix (pa_pitcherId p) (opposite sd) (bump P_outsRecorded (int n)) st) (\<lambda>st.
      and_then (credit_play ix (opposite sd) (pa_fieldingCredits p) outs st) (\<lambda>(st, participants).
        credit_multiple ix (opposite sd) n participants st)))))))"

definition stat_runner_advance :: "side_index \<Rightarrow> effective_step \<Rightarrow> runner_movement \<Rightarrow> stat_update" where
  "stat_runner_advance ix step m st =
     and_then (step_battingSide step) (\<lambda>sd.
     and_then (recordInning step sd 0 st) (applyCountingRun ix step m sd None))"

definition stat_runner_out :: "side_index \<Rightarrow> effective_step \<Rightarrow> runner_out \<Rightarrow> stat_update" where
  "stat_runner_out ix step p st =
     and_then (step_battingSide step) (\<lambda>sd.
     and_then (recordInning step sd 0 st) (\<lambda>st.
     and_then (pitchingFor ix (gs_activePitcher (es_before step) (opposite sd)) (opposite sd) (bump P_outsRecorded 1) st) (\<lambda>st.
     and_then (creditOutPath ix (ro_fielders p) (opposite sd) st) (\<lambda>(st, _).
       if ro_cause p = Out_CAUGHT_STEALING then battingFor ix (ro_runnerId p) sd (bump B_caughtStealing 1) st
       else Inr st))))"

definition steal_home_movement :: "stolen_base_attempt \<Rightarrow> runner_movement" where
  "steal_home_movement p =
     \<lparr>mv_runnerId = sb_runnerId p, mv_from = From_base (sb_from p), mv_to = To_HOME,
      mv_cause = Cause_STOLEN_BASE, mv_forced = False, mv_responsiblePitcherId = sb_responsiblePitcherId p,
      mv_runCounts = Some True, mv_rbiEligible = Some False, mv_earnedRun = sb_earnedRun p, mv_out = None\<rparr>"

definition stat_stolen_base :: "side_index \<Rightarrow> effective_step \<Rightarrow> stolen_base_attempt \<Rightarrow> stat_update" where
  "stat_stolen_base ix step p st =
     and_then (step_battingSide step) (\<lambda>sd.
     and_then (recordInning step sd 0 st) (\<lambda>st.
       if sb_result p = Result_STOLEN_BASE then
         and_then (battingFor ix (sb_runnerId p) sd (bump B_stolenBases 1) st) (\<lambda>st.
           if sb_to p = Steal_HOME then applyCountingRun ix step (steal_home_movement p) sd None st else Inr st)
       else
         and_then (battingFor ix (sb_runnerId p) sd (bump B_caughtStealing 1) st) (\<lambda>st.
         and_then (pitchingFor ix (gs_activePitcher (es_before step) (opposite sd)) (opposite sd) (bump P_outsRecorded 1) st) (\<lambda>st.
         and_then (creditOutPath ix (sb_fielders p) (opposite sd) st) (\<lambda>(st, _). Inr st)))))"

definition stat_runner_play_movement ::
    "side_index \<Rightarrow> effective_step \<Rightarrow> play_type \<Rightarrow> game_side \<Rightarrow> stats \<Rightarrow> runner_movement \<Rightarrow> statistic_error + stats" where
  "stat_runner_play_movement ix step kind sd st m =
     and_then (applyCountingRun ix step m sd None st) (\<lambda>st.
     and_then (if kind = Play_STOLEN_BASE then battingFor ix (mv_runnerId m) sd (bump B_stolenBases 1) st else Inr st) (\<lambda>st.
       if kind = Play_CAUGHT_STEALING \<and> mv_to m = To_OUT
       then battingFor ix (mv_runnerId m) sd (bump B_caughtStealing 1) st else Inr st))"

definition stat_runner_play :: "side_index \<Rightarrow> effective_step \<Rightarrow> runner_play \<Rightarrow> stat_update" where
  "stat_runner_play ix step p st =
     and_then (step_battingSide step) (\<lambda>sd.
     and_then (recordInning step sd 0 st) (\<lambda>st.
     and_then (fold_res (stat_runner_play_movement ix step (rp_playType p) sd) st (rp_movements p)) (\<lambda>st.
     (let outs = out_movements (rp_movements p) in
      and_then (pitchingFor ix (gs_activePitcher (es_before step) (opposite sd)) (opposite sd)
                  (bump P_outsRecorded (int (length outs))) st) (\<lambda>st.
      and_then (credit_play ix (opposite sd) (rp_fieldingCredits p) outs st) (\<lambda>(st, _). Inr st))))))"

definition stat_pitching_change :: "side_index \<Rightarrow> pitching_change \<Rightarrow> stat_update" where
  "stat_pitching_change ix p st =
     pitchingFor ix (pc_incomingPitcherId p) (pc_side p)
       (bump P_inheritedRunners (int (length (pc_inheritedRunnerIds p))) \<circ> bump P_appearances 1) st"

fun stat_body :: "side_index \<Rightarrow> accepted_setup \<Rightarrow> effective_step \<Rightarrow> event_body \<Rightarrow> stat_update" where
  "stat_body ix setup step GameStarted st = stat_game_started ix setup st"
| "stat_body ix setup step (Play (PlateAppearanceRecorded p)) st = stat_plate_appearance ix step p st"
| "stat_body ix setup step (Play (RunnerAdvanceRecorded m)) st = stat_runner_advance ix step m st"
| "stat_body ix setup step (Play (RunnerOutRecorded p)) st = stat_runner_out ix step p st"
| "stat_body ix setup step (Play (StolenBaseAttemptRecorded p)) st = stat_stolen_base ix step p st"
| "stat_body ix setup step (Play (RunnerPlayRecorded p)) st = stat_runner_play ix step p st"
| "stat_body ix setup step (Play (PitchingChangeMade p)) st = stat_pitching_change ix p st"
| "stat_body ix setup step _ st = Inr st"

definition stat_step :: "side_index \<Rightarrow> accepted_setup \<Rightarrow> stats \<Rightarrow> effective_step \<Rightarrow> statistic_error + stats" where
  "stat_step ix setup st step = stat_body ix setup step (es_body step) st"

section \<open>Lines, teams and the projection\<close>

record ('k, 'r) player_line =
  pl_playerId :: ident
  pl_side :: game_side
  pl_counters :: "'k counters"
  pl_rates :: 'r

definition player_lines ::
    "side_index \<Rightarrow> ('k counters \<Rightarrow> statistic_error + 'r) \<Rightarrow> 'k table \<Rightarrow> statistic_error + ('k, 'r) player_line list" where
  "player_lines ix rates t =
     map_res (\<lambda>(x, c).
       and_then (requirePlayerSide ix x None) (\<lambda>sd.
       and_then (rates c) (\<lambda>r.
         Inr \<lparr>pl_playerId = x, pl_side = sd, pl_counters = c, pl_rates = r\<rparr>))) (sort_key fst t)"

definition sumCounters :: "'k counters list \<Rightarrow> 'k counters" where
  "sumCounters cs = fold (\<lambda>c t k. t k + c k) cs zero_counters"

definition side_counters :: "game_side \<Rightarrow> ('k, 'r) player_line list \<Rightarrow> 'k counters" where
  "side_counters sd ls = sumCounters (map pl_counters (filter (\<lambda>l. pl_side l = sd) ls))"

record team_statistics =
  ts_batting :: "batting_key counters"
  ts_battingRates :: batting_rates
  ts_pitching :: "pitching_key counters"
  ts_pitchingRates :: pitching_rates
  ts_fielding :: "fielding_key counters"
  ts_fieldingRates :: fielding_rates

type_synonym batting_line = "(batting_key, batting_rates) player_line"
type_synonym pitching_line = "(pitching_key, pitching_rates) player_line"
type_synonym fielding_line = "(fielding_key, fielding_rates) player_line"

definition team_statistics_of ::
    "batting_line list \<Rightarrow> pitching_line list \<Rightarrow> fielding_line list \<Rightarrow> game_side \<Rightarrow> statistic_error + team_statistics" where
  "team_statistics_of bl pl fl sd =
     (let b = side_counters sd bl; p = side_counters sd pl; f = side_counters sd fl in
      and_then (deriveBattingRates b) (\<lambda>br.
      and_then (derivePitchingRates p) (\<lambda>pr.
      and_then (deriveFieldingRates f) (\<lambda>fr.
        Inr \<lparr>ts_batting = b, ts_battingRates = br, ts_pitching = p, ts_pitchingRates = pr,
             ts_fielding = f, ts_fieldingRates = fr\<rparr>))))"

definition assertEqual :: "int \<Rightarrow> int \<Rightarrow> statistic_error + unit" where
  "assertEqual actual expected = require (actual = expected) RECONCILIATION_FAILURE"

definition inning_total :: "((int \<times> game_side) \<times> int) list \<Rightarrow> game_side \<Rightarrow> int" where
  "inning_total inn sd = sum_list (map snd (filter (\<lambda>x. snd (fst x) = sd) inn))"

definition reconcile_side ::
    "game_state \<Rightarrow> ((int \<times> game_side) \<times> int) list \<Rightarrow> fielding_line list \<Rightarrow> (game_side \<Rightarrow> team_statistics)
     \<Rightarrow> game_side \<Rightarrow> statistic_error + unit" where
  "reconcile_side s inn fl teams sd =
     (let b = ts_batting (teams sd); p = ts_pitching (teams (opposite sd)) in
      and_then (assertEqual (b B_runs) (gs_score s sd)) (\<lambda>_.
      and_then (assertEqual (b B_totalBases)
                 (b B_singles + b B_doubles * 2 + b B_triples * 3 + b B_homeRuns * 4)) (\<lambda>_.
      and_then (assertEqual (inning_total inn sd) (gs_score s sd)) (\<lambda>_.
      and_then (assertEqual (p P_outsRecorded)
                 (sum_list (map (\<lambda>l. pl_counters l F_putouts) (filter (\<lambda>l. pl_side l = opposite sd) fl)))) (\<lambda>_.
      and_then (assertEqual (p P_hitsAllowed) (b B_hits)) (\<lambda>_.
        assertEqual (p P_runsAllowed) (b B_runs)))))))"

datatype game_outcome = HOME_WIN | AWAY_WIN | TIE | UNDECIDED

definition scoringOutcome :: "game_status \<Rightarrow> (game_side \<Rightarrow> int) \<Rightarrow> game_outcome" where
  "scoringOutcome st score =
     (if st \<notin> {COMPLETED, VERIFIED, CORRECTED} then UNDECIDED
      else if score HOME = score AWAY then TIE
      else if score HOME > score AWAY then HOME_WIN else AWAY_WIN)"

record inning_line =
  il_inning :: int
  il_side :: game_side
  il_runs :: int

definition inning_lines :: "((int \<times> game_side) \<times> int) list \<Rightarrow> inning_line list" where
  "inning_lines inn =
     sort_key il_inning (sort_key il_side
       (map (\<lambda>((i, sd), r). \<lparr>il_inning = i, il_side = sd, il_runs = r\<rparr>) inn))"

record statistics_metadata =
  sm_accountId :: ident
  sm_gameId :: ident
  sm_setupSnapshotId :: ident
  sm_setupRevision :: int
  sm_sourceRevision :: int
  sm_privacyOverlayRevision :: int
  sm_rulesetVersionId :: ident
  sm_eventSchemaVersions :: "int list"
  sm_derivationVersion :: int
  sm_statisticRulesVersion :: int
  sm_lifecycleStatus :: game_status
  sm_verified :: bool

record game_projection =
  gp_metadata :: statistics_metadata
  gp_outcome :: game_outcome
  gp_finalScore :: "game_side \<Rightarrow> int"
  gp_inningLines :: "inning_line list"
  gp_teams :: "game_side \<Rightarrow> team_statistics"
  gp_batting :: "batting_line list"
  gp_pitching :: "pitching_line list"
  gp_fielding :: "fielding_line list"

definition statistic_derivation_version :: int where
  "statistic_derivation_version = 2"

definition statistic_rules_version :: int where
  "statistic_rules_version = 1"

fun replay_error :: "event_error \<Rightarrow> statistic_error" where
  "replay_error CORRECTION_TARGET_MISSING = INVALID_CORRECTION_GRAPH"
| "replay_error CORRECTION_GRAPH_INVALID = INVALID_CORRECTION_GRAPH"
| "replay_error ACCOUNT_MISMATCH = ACCOUNT_MISMATCH_STAT"
| "replay_error UNSUPPORTED_SCHEMA_VERSION = UNSUPPORTED_EVENT_VERSION"
| "replay_error UNSUPPORTED_EVENT_TYPE = UNSUPPORTED_EVENT_TYPE_STAT"
| "replay_error JS_TYPE_ERROR = STAT_TYPE_ERROR"
| "replay_error _ = INCOMPLETE_REPLAY_STATE"

definition project ::
    "accepted_setup \<Rightarrow> accepted_event list \<Rightarrow> int \<Rightarrow> game_state \<Rightarrow> side_index \<Rightarrow> stats \<Rightarrow> statistic_error + game_projection" where
  "project setup events privacy s ix st =
     and_then (player_lines ix deriveBattingRates (st_batting st)) (\<lambda>bl.
     and_then (player_lines ix derivePitchingRates (st_pitching st)) (\<lambda>pl.
     and_then (player_lines ix deriveFieldingRates (st_fielding st)) (\<lambda>fl.
     and_then (team_statistics_of bl pl fl AWAY) (\<lambda>away.
     and_then (team_statistics_of bl pl fl HOME) (\<lambda>home.
     (let teams = by_side home away in
      and_then (check_all (reconcile_side s (st_innings st) fl teams) [AWAY, HOME]) (\<lambda>_.
        Inr \<lparr>gp_metadata = \<lparr>sm_accountId = su_accountId setup, sm_gameId = su_gameId setup,
               sm_setupSnapshotId = su_id setup, sm_setupRevision = su_setupRevision setup,
               sm_sourceRevision = gs_sourceRevision s, sm_privacyOverlayRevision = privacy,
               sm_rulesetVersionId = su_rulesetVersionId setup,
               sm_eventSchemaVersions = sort (js_unique (map ev_schemaVersion events)),
               sm_derivationVersion = statistic_derivation_version,
               sm_statisticRulesVersion = statistic_rules_version,
               sm_lifecycleStatus = gs_status s, sm_verified = (gs_status s = VERIFIED)\<rparr>,
             gp_outcome = scoringOutcome (gs_status s) (gs_score s), gp_finalScore = gs_score s,
             gp_inningLines = inning_lines (st_innings st), gp_teams = teams,
             gp_batting = bl, gp_pitching = pl, gp_fielding = fl\<rparr>)))))))"

definition deriveGameStatistics ::
    "accepted_setup \<Rightarrow> accepted_event list \<Rightarrow> int option \<Rightarrow> int option \<Rightarrow> statistic_error + game_projection" where
  "deriveGameStatistics setup events privacyOverlayRevision statisticRulesVersion =
     (let rules = (case statisticRulesVersion of None \<Rightarrow> statistic_rules_version | Some v \<Rightarrow> v);
          privacy = (case privacyOverlayRevision of None \<Rightarrow> 0 | Some v \<Rightarrow> v)
      in and_then (require (rules = statistic_rules_version) UNSUPPORTED_RULESET) (\<lambda>_.
         and_then (require (safe_int privacy \<and> 0 \<le> privacy) IMPOSSIBLE_COUNTER_STATE) (\<lambda>_.
         and_then (map_error replay_error (replayEffectiveWithTimeline setup events)) (\<lambda>(s, steps).
         and_then (playerSideIndex setup) (\<lambda>ix.
         and_then (fold_res (stat_step ix setup) empty_stats steps) (project setup events privacy s ix))))))"

end
