(* ===== verification/Statistics_Ledger.thy ===== *)
theory Statistics_Ledger
  imports Game_Statistics
begin

text \<open>
  The books of a derived box score balance.  Every update of the counters is an addition, so
  the totals per side are linear in the steps; runs scored, runs allowed, inning runs and the
  replayed score are the same number, and so are hits and hits allowed.
\<close>

section \<open>Totals of a table\<close>

definition adds :: "('k counters \<Rightarrow> 'k counters) \<Rightarrow> 'k counters \<Rightarrow> bool" where
  "adds f d \<longleftrightarrow> (\<forall>c k. f c k = c k + d k)"

definition table_total :: "side_index \<Rightarrow> 'k table \<Rightarrow> game_side \<Rightarrow> 'k \<Rightarrow> int" where
  "table_total ix t sd k = sum_list (map (\<lambda>(x, c). if map_of ix x = Some sd then c k else 0) t)"

named_theorems additive \<open>updates of counters that add\<close>

lemma adds_id [additive]: "adds id (\<lambda>_. 0)"
  by (simp add: adds_def)

lemma adds_bump [additive]: "adds (bump k n) (\<lambda>k'. if k' = k then n else 0)"
  by (simp add: adds_def bump_def)

lemma adds_bump_if [additive]: "adds (bump_if b k n) (\<lambda>k'. if b \<and> k' = k then n else 0)"
  by (simp add: adds_def bump_def bump_if_def)

lemma adds_comp [additive]: "adds f d \<Longrightarrow> adds g e \<Longrightarrow> adds (f \<circ> g) (\<lambda>k. e k + d k)"
  by (simp add: adds_def)

lemma with_counters_Cons:
  "with_counters x f ((y, c) # t) = (if y = x then (x, f c) # t else (y, c) # with_counters x f t)"
  by (simp add: with_counters_def counters_of_def)

lemma with_counters_keys: "distinct (map fst t) \<Longrightarrow> distinct (map fst (with_counters x f t))"
  by (simp add: with_counters_def distinct_update)

lemma set_with_counters:
  "(y, c) \<in> set (with_counters x f t) \<Longrightarrow> (y, c) \<in> set t \<or> (y = x \<and> (c = f zero_counters \<or> (\<exists>c'. (x, c') \<in> set t \<and> c = f c')))"
proof (induction t)
  case Nil
  then show ?case by (simp add: with_counters_def counters_of_def)
next
  case (Cons p t)
  then show ?case by (cases p) (auto simp: with_counters_Cons split: if_splits)
qed

lemma table_total_with:
  assumes "adds f d"
  shows "table_total ix (with_counters x f t) sd k = table_total ix t sd k + (if map_of ix x = Some sd then d k else 0)"
proof -
  have f: "f c k = c k + d k" for c using assms by (simp add: adds_def)
  show ?thesis
  proof (induction t)
    case Nil
    then show ?case by (simp add: with_counters_def counters_of_def table_total_def f zero_counters_def)
  next
    case (Cons p t)
    then show ?case by (cases p) (simp add: with_counters_Cons table_total_def f)
  qed
qed

lemma inning_total_update:
  assumes "old = (case map_of inn (i, sd) of None \<Rightarrow> 0 | Some r \<Rightarrow> r)"
  shows "inning_total (AList.update (i, sd) (old + n) inn) sd' = inning_total inn sd' + (if sd' = sd then n else 0)"
  unfolding assms by (induction inn) (auto simp: inning_total_def)

section \<open>The ledger\<close>

definition bat_total :: "side_index \<Rightarrow> stats \<Rightarrow> game_side \<Rightarrow> batting_key \<Rightarrow> int" where
  "bat_total ix st = table_total ix (st_batting st)"

definition pit_total :: "side_index \<Rightarrow> stats \<Rightarrow> game_side \<Rightarrow> pitching_key \<Rightarrow> int" where
  "pit_total ix st = table_total ix (st_pitching st)"

lemma requirePlayerSide_Some [result_simps]:
  "requirePlayerSide ix x (Some sd) = Inr sd' \<longleftrightarrow> map_of ix x = Some sd \<and> sd' = sd"
  by (auto simp: requirePlayerSide_def split: option.splits if_splits)

lemma battingFor_effect:
  assumes "battingFor ix x sd f st = Inr st'" and "adds f d"
  shows "bat_total ix st' sd' k = bat_total ix st sd' k + (if sd' = sd then d k else 0)"
    and "pit_total ix st' = pit_total ix st" "st_innings st' = st_innings st"
  using assms by (auto simp: battingFor_def result_simps bat_total_def pit_total_def table_total_with)

lemma pitchingFor_effect:
  assumes "pitchingFor ix x sd f st = Inr st'" and "adds f d"
  shows "pit_total ix st' sd' k = pit_total ix st sd' k + (if sd' = sd then d k else 0)"
    and "bat_total ix st' = bat_total ix st" "st_innings st' = st_innings st"
  using assms by (auto simp: pitchingFor_def result_simps bat_total_def pit_total_def table_total_with)

lemma fieldingFor_effect:
  assumes "fieldingFor ix x sd f st = Inr st'"
  shows "pit_total ix st' = pit_total ix st" "bat_total ix st' = bat_total ix st" "st_innings st' = st_innings st"
  using assms by (auto simp: fieldingFor_def result_simps bat_total_def pit_total_def)

text \<open>Runs and hits as the two sides of the books see them.\<close>

record books =
  bk_runs :: int
  bk_allowed :: int
  bk_innings :: int
  bk_hits :: int
  bk_hitsAllowed :: int

definition books_of :: "side_index \<Rightarrow> stats \<Rightarrow> game_side \<Rightarrow> books" where
  "books_of ix st sd = \<lparr>bk_runs = bat_total ix st sd B_runs, bk_allowed = pit_total ix st (opposite sd) P_runsAllowed,
     bk_innings = inning_total (st_innings st) sd, bk_hits = bat_total ix st sd B_hits,
     bk_hitsAllowed = pit_total ix st (opposite sd) P_hitsAllowed\<rparr>"

definition entry :: "int \<Rightarrow> int \<Rightarrow> books \<Rightarrow> books" where
  "entry r h b = \<lparr>bk_runs = bk_runs b + r, bk_allowed = bk_allowed b + r, bk_innings = bk_innings b + r,
     bk_hits = bk_hits b + h, bk_hitsAllowed = bk_hitsAllowed b + h\<rparr>"

text \<open>Posting: the side at bat gains runs and hits, the other side nothing.\<close>

definition posts :: "side_index \<Rightarrow> game_side \<Rightarrow> int \<Rightarrow> int \<Rightarrow> stats \<Rightarrow> stats \<Rightarrow> bool" where
  "posts ix sd r h st st' \<longleftrightarrow> (\<forall>sd'. books_of ix st' sd' = entry (if sd' = sd then r else 0) (if sd' = sd then h else 0) (books_of ix st sd'))"

lemma entry_entry [simp]: "entry r h (entry r' h' b) = entry (r' + r) (h' + h) b"
  by (simp add: entry_def)

lemma posts_trans: "posts ix sd r h st st1 \<Longrightarrow> posts ix sd r' h' st1 st2 \<Longrightarrow> posts ix sd (r + r') (h + h') st st2"
  by (auto simp: posts_def entry_def)

lemma posts_zero [simp]: "posts ix sd 0 0 st st"
  by (simp add: posts_def entry_def)

lemma opposite_opposite [simp]: "opposite (opposite sd) = sd"
  by (cases sd) simp_all

lemma opposite_inject [simp]: "opposite sd = opposite sd' \<longleftrightarrow> sd = sd'"
  by (cases sd; cases sd') simp_all

lemma battingFor_posts:
  assumes "battingFor ix x sd f st = Inr st'" and "adds f d" and "d B_runs = 0" "d B_hits = 0"
  shows "posts ix sd0 0 0 st st'"
  using battingFor_effect [OF assms(1,2)] assms(3,4) by (simp add: posts_def entry_def books_of_def)

lemma pitchingFor_posts:
  assumes "pitchingFor ix x sd f st = Inr st'" and "adds f d" and "d P_runsAllowed = 0" "d P_hitsAllowed = 0"
  shows "posts ix sd0 0 0 st st'"
  using pitchingFor_effect [OF assms(1,2)] assms(3,4) by (simp add: posts_def entry_def books_of_def)

lemma fieldingFor_posts: "fieldingFor ix x sd f st = Inr st' \<Longrightarrow> posts ix sd0 0 0 st st'"
  using fieldingFor_effect [of ix x sd f st st'] by (simp add: posts_def entry_def books_of_def)

lemma posts_fold:
  assumes "fold_res f st xs = Inr st'" and "\<And>st x st'. x \<in> set xs \<Longrightarrow> f st x = Inr st' \<Longrightarrow> posts ix sd (n x) 0 st st'"
  shows "posts ix sd (sum_list (map n xs)) 0 st st'"
  using assms
proof (induction xs arbitrary: st)
  case (Cons x xs)
  then obtain st1 where st1: "f st x = Inr st1" and "fold_res f st1 xs = Inr st'" by (auto simp: result_simps)
  then have "posts ix sd (sum_list (map n xs)) 0 st1 st'" using Cons by simp
  with posts_trans [of ix sd "n x" 0 st st1 "sum_list (map n xs)" 0 st'] Cons.prems(2) st1 show ?case by simp
qed simp

lemma posts_fold_zero:
  assumes "fold_res f st xs = Inr st'" and "\<And>st x st'. x \<in> set xs \<Longrightarrow> f st x = Inr st' \<Longrightarrow> posts ix sd 0 0 st st'"
  shows "posts ix sd 0 0 st st'"
  using posts_fold [of f st xs st' ix sd "\<lambda>_. 0"] assms by simp

lemma recordInning_effect:
  assumes "recordInning step sd n st = Inr st'"
  shows "inning_total (st_innings st') sd' = inning_total (st_innings st) sd' + (if sd' = sd then n else 0)"
    and "bat_total ix st' = bat_total ix st" "pit_total ix st' = pit_total ix st"
proof -
  obtain i where "st_innings st' = AList.update (i, sd)
      ((case map_of (st_innings st) (i, sd) of None \<Rightarrow> 0 | Some r \<Rightarrow> r) + n) (st_innings st)"
    and frame: "st_batting st' = st_batting st" "st_pitching st' = st_pitching st"
    using assms by (cases "gs_inning (es_before step)") (auto simp: recordInning_def Let_def)
  then show "inning_total (st_innings st') sd' = inning_total (st_innings st) sd' + (if sd' = sd then n else 0)"
    by (simp only: inning_total_update [OF refl])
  show "bat_total ix st' = bat_total ix st" "pit_total ix st' = pit_total ix st"
    by (simp_all add: bat_total_def pit_total_def frame)
qed

lemma recordInning_zero_posts: "recordInning step sd 0 st = Inr st' \<Longrightarrow> posts ix sd0 0 0 st st'"
  using recordInning_effect [of step sd 0 st st'] by (simp add: posts_def entry_def books_of_def)

definition run_count :: "runner_movement list \<Rightarrow> int" where
  "run_count ms = int (length (filter counting_run ms))"

lemma applyCountingRun_posts:
  assumes "applyCountingRun ix step m sd batter st = Inr st'"
  shows "posts ix sd (run_count [m]) 0 st st'"
proof (cases "counting_run m")
  case False
  with assms show ?thesis by (simp add: applyCountingRun_def run_count_def)
next
  case True
  let ?act = "gs_activePitcher (es_before step) (opposite sd)"
  from True assms obtain cls s1 s2 s3 s4 where
    s1: "battingFor ix (mv_runnerId m) sd (bump B_runs 1) st = Inr s1" and
    s2: "pitchingFor ix (mv_responsiblePitcherId m) (opposite sd) (bump_if (cls = EARNED) P_earnedRuns 1 \<circ> bump P_runsAllowed 1) s1 = Inr s2" and
    s3: "(if ?act \<noteq> mv_responsiblePitcherId m then pitchingFor ix ?act (opposite sd) (bump P_inheritedRunnersScored 1) s2 else Inr s2) = Inr s3" and
    s4: "(if mv_rbiEligible m = Some True then (case batter of None \<Rightarrow> Inl MISSING_ATTRIBUTION
        | Some b \<Rightarrow> battingFor ix b sd (bump B_runsBattedIn 1) s3) else Inr s3) = Inr s4" and
    s5: "recordInning step sd 1 s4 = Inr st'"
    by (auto simp: applyCountingRun_def Let_def and_then_Inr_iff)
  have p3: "posts ix sd 0 0 s2 s3"
    using s3 pitchingFor_posts [OF _ adds_bump] by (auto split: if_splits)
  have p4: "posts ix sd 0 0 s3 s4"
    using s4 battingFor_posts [OF _ adds_bump] by (auto split: if_splits option.splits)
  note e1 = battingFor_effect [OF s1 adds_bump]
  note e2 = pitchingFor_effect [OF s2 adds_comp [OF adds_bump_if adds_bump]]
  note e5 = recordInning_effect [OF s5]
  have "posts ix sd 0 0 s2 s4" using posts_trans [OF p3 p4] by simp
  with True show ?thesis
    by (simp add: posts_def books_of_def entry_def e1 e2 e5 run_count_def)
qed

lemma run_count_Cons: "run_count (m # ms) = run_count [m] + run_count ms"
  by (simp add: run_count_def)

lemma run_count_sum: "run_count ms = sum_list (map (\<lambda>m. run_count [m]) ms)"
  by (induction ms) (simp_all add: run_count_Cons [of _ "_ # _"] run_count_def)

lemma counting_runs_posts:
  assumes "fold_res (\<lambda>st m. applyCountingRun ix step m sd batter st) st ms = Inr st'"
  shows "posts ix sd (run_count ms) 0 st st'"
  using posts_fold [OF assms, of ix sd "\<lambda>m. run_count [m]"] applyCountingRun_posts by (subst run_count_sum) blast

section \<open>Posting a step\<close>

lemma creditOutPath_posts: "creditOutPath ix fs sd st = Inr (st', xs) \<Longrightarrow> posts ix sd0 0 0 st st'"
proof -
  assume "creditOutPath ix fs sd st = Inr (st', xs)"
  then obtain s1 where s1: "fieldingFor ix (last fs) sd (bump F_putouts 1) st = Inr s1"
    and s2: "fold_res (credit_assist ix sd (last fs)) s1 (js_unique (butlast fs)) = Inr st'"
    by (auto simp: creditOutPath_def and_then_Inr_iff)
  have "posts ix sd0 0 0 s1 st'"
    using s2 by (rule posts_fold_zero) (auto simp: credit_assist_def intro: fieldingFor_posts split: if_splits)
  from posts_trans [OF fieldingFor_posts [OF s1] this] show ?thesis by simp
qed

lemma credit_play_posts:
  assumes "credit_play ix sd credits outs st = Inr (st', xs)"
  shows "posts ix sd0 0 0 st st'"
proof (cases "credits = []")
  case False
  with assms have "fold_res (apply_credit ix sd) st credits = Inr st'"
    by (auto simp: credit_play_def and_then_Inr_iff)
  then show ?thesis by (rule posts_fold_zero) (auto simp: apply_credit_def intro: fieldingFor_posts)
next
  case True
  with assms obtain ys where run: "fold_res (credit_out ix sd) (st, []) outs = Inr (st', ys)"
    by (auto simp: credit_play_def and_then_Inr_iff)
  have step: "posts ix sd0 0 0 (fst acc) (fst acc')" if "credit_out ix sd acc m = Inr acc'" for acc acc' m
    using that creditOutPath_posts by (auto simp: credit_out_def and_then_Inr_iff)
  from run have "posts ix sd0 0 0 st (fst (st', ys))"
    by (rule fold_res_invariant [where P = "\<lambda>acc. posts ix sd0 0 0 st (fst acc)"])
      (use posts_trans [of ix sd0 0 0 _ _ 0 0] step in fastforce)+
  then show ?thesis by simp
qed

lemma credit_multiple_posts: "credit_multiple ix sd n xs st = Inr st' \<Longrightarrow> posts ix sd0 0 0 st st'"
  by (auto simp: credit_multiple_def intro: posts_fold_zero fieldingFor_posts split: if_splits)

definition hit_count :: "plate_outcome \<Rightarrow> int" where
  "hit_count x = (if outcome_bases x \<noteq> None then 1 else 0)"

lemma adds_from_zero: "adds f d \<Longrightarrow> adds f (f zero_counters)"
  by (simp add: adds_def zero_counters_def)

lemma adds_bump_if_app: "adds f d \<Longrightarrow> adds (\<lambda>c. bump_if b k n (f c)) (\<lambda>k'. d k' + (if b \<and> k' = k then n else 0))"
  by (simp add: adds_def bump_def bump_if_def)

lemma batter_outcome_adds: "adds (batter_outcome x) (batter_outcome x zero_counters)"
proof -
  have "\<exists>d. adds (batter_outcome x) d"
    unfolding batter_outcome_def [abs_def] by (rule exI, (rule adds_bump_if_app)+, rule adds_bump)
  then show ?thesis using adds_from_zero by blast
qed

lemma pitcher_outcome_adds: "adds (pitcher_outcome x) (pitcher_outcome x zero_counters)"
proof -
  have "\<exists>d. adds (pitcher_outcome x) d"
    unfolding pitcher_outcome_def [abs_def] by (rule exI, (rule adds_bump_if_app)+, rule adds_bump)
  then show ?thesis using adds_from_zero by blast
qed

lemma outcome_deltas:
  "batter_outcome x zero_counters B_runs = 0" "batter_outcome x zero_counters B_hits = hit_count x"
  "pitcher_outcome x zero_counters P_runsAllowed = 0" "pitcher_outcome x zero_counters P_hitsAllowed = hit_count x"
  by (cases x; simp add: batter_outcome_def pitcher_outcome_def bump_def bump_if_def zero_counters_def hit_count_def)+

lemma applyPlateOutcome_posts:
  assumes "applyPlateOutcome ix p sd st = Inr st'"
  shows "posts ix sd 0 (hit_count (pa_outcome p)) st st'"
proof -
  from assms obtain s1 s2 s3 where s1: "battingFor ix (pa_batterId p) sd id st = Inr s1"
    and s2: "pitchingFor ix (pa_pitcherId p) (opposite sd) id s1 = Inr s2"
    and s3: "battingFor ix (pa_batterId p) sd (batter_outcome (pa_outcome p)) s2 = Inr s3"
    and s4: "pitchingFor ix (pa_pitcherId p) (opposite sd) (pitcher_outcome (pa_outcome p)) s3 = Inr st'"
    by (auto simp: applyPlateOutcome_def and_then_Inr_iff)
  note e = battingFor_effect [OF s1 adds_id] pitchingFor_effect [OF s2 adds_id]
    battingFor_effect [OF s3 batter_outcome_adds] pitchingFor_effect [OF s4 pitcher_outcome_adds]
  show ?thesis by (simp add: posts_def books_of_def entry_def e outcome_deltas)
qed

text \<open>What a body posts: the runs of its counting movements and the hit of its outcome.\<close>

fun body_runs :: "event_body \<Rightarrow> int" where
  "body_runs (Play (StolenBaseAttemptRecorded p)) =
     (if sb_result p = Result_STOLEN_BASE \<and> sb_to p = Steal_HOME then 1 else 0)"
| "body_runs (Play p) = run_count (play_scoring_movements p)"
| "body_runs _ = 0"

fun body_hits :: "event_body \<Rightarrow> int" where
  "body_hits (Play (PlateAppearanceRecorded p)) = hit_count (pa_outcome p)"
| "body_hits _ = 0"

lemma run_count_Nil [simp]: "run_count [] = 0"
  by (simp add: run_count_def)

lemma stat_plate_appearance_posts:
  assumes "stat_plate_appearance ix step p st = Inr st'" and "step_battingSide step = Inr sd"
  shows "posts ix sd (run_count (pa_movements p)) (hit_count (pa_outcome p)) st st'"
proof -
  let ?outs = "out_movements (pa_movements p)"
  from assms obtain s1 s2 s3 s4 s5 xs where s1: "recordInning step sd 0 st = Inr s1"
    and s2: "applyPlateOutcome ix p sd s1 = Inr s2"
    and s3: "fold_res (\<lambda>st m. applyCountingRun ix step m sd (Some (pa_batterId p)) st) s2 (pa_movements p) = Inr s3"
    and s4: "pitchingFor ix (pa_pitcherId p) (opposite sd) (bump P_outsRecorded (int (length ?outs))) s3 = Inr s4"
    and s5: "credit_play ix (opposite sd) (pa_fieldingCredits p) ?outs s4 = Inr (s5, xs)"
    and s6: "credit_multiple ix (opposite sd) (length ?outs) xs s5 = Inr st'"
    by (auto simp: stat_plate_appearance_def Let_def and_then_Inr_iff)
  have "posts ix sd 0 0 s3 s4" by (rule pitchingFor_posts [OF s4 adds_bump]) simp_all
  note tail = posts_trans [OF this posts_trans [OF credit_play_posts [OF s5] credit_multiple_posts [OF s6]]]
  note body = posts_trans [OF applyPlateOutcome_posts [OF s2] counting_runs_posts [OF s3]]
  from posts_trans [OF recordInning_zero_posts [OF s1] posts_trans [OF body tail]] show ?thesis by simp
qed

lemma stat_runner_out_posts:
  assumes "stat_runner_out ix step p st = Inr st'"
  shows "posts ix sd0 0 0 st st'"
proof -
  from assms obtain sd s1 s2 s3 xs where s1: "recordInning step sd 0 st = Inr s1"
    and s2: "pitchingFor ix (gs_activePitcher (es_before step) (opposite sd)) (opposite sd) (bump P_outsRecorded 1) s1 = Inr s2"
    and s3: "creditOutPath ix (ro_fielders p) (opposite sd) s2 = Inr (s3, xs)"
    and s4: "(if ro_cause p = Out_CAUGHT_STEALING then battingFor ix (ro_runnerId p) sd (bump B_caughtStealing 1) s3
       else Inr s3) = Inr st'"
    by (auto simp: stat_runner_out_def and_then_Inr_iff)
  have p2: "posts ix sd0 0 0 s1 s2" by (rule pitchingFor_posts [OF s2 adds_bump]) simp_all
  have p4: "posts ix sd0 0 0 s3 st'" using s4 battingFor_posts [OF _ adds_bump] by (auto split: if_splits)
  from posts_trans [OF recordInning_zero_posts [OF s1] posts_trans [OF p2 posts_trans [OF creditOutPath_posts [OF s3] p4]]]
  show ?thesis by simp
qed

lemma stat_stolen_base_posts:
  assumes "stat_stolen_base ix step p st = Inr st'" and "step_battingSide step = Inr sd"
  shows "posts ix sd (body_runs (Play (StolenBaseAttemptRecorded p))) 0 st st'"
proof -
  from assms obtain s1 where s1: "recordInning step sd 0 st = Inr s1"
    by (auto simp: stat_stolen_base_def and_then_Inr_iff)
  have "posts ix sd (body_runs (Play (StolenBaseAttemptRecorded p))) 0 s1 st'"
  proof (cases "sb_result p = Result_STOLEN_BASE")
    case True
    with assms s1 obtain s2 where s2: "battingFor ix (sb_runnerId p) sd (bump B_stolenBases 1) s1 = Inr s2"
      and s3: "(if sb_to p = Steal_HOME then applyCountingRun ix step (steal_home_movement p) sd None s2 else Inr s2) = Inr st'"
      by (auto simp: stat_stolen_base_def and_then_Inr_iff)
    have p2: "posts ix sd 0 0 s1 s2" by (rule battingFor_posts [OF s2 adds_bump]) simp_all
    have "posts ix sd (if sb_to p = Steal_HOME then 1 else 0) 0 s2 st'"
      using s3 applyCountingRun_posts [of ix step "steal_home_movement p" sd None s2 st']
      by (auto simp: run_count_def counting_run_def steal_home_movement_def split: if_splits)
    from posts_trans [OF p2 this] True show ?thesis by simp
  next
    case False
    with assms s1 obtain s2 s3 xs where s2: "battingFor ix (sb_runnerId p) sd (bump B_caughtStealing 1) s1 = Inr s2"
      and s3: "pitchingFor ix (gs_activePitcher (es_before step) (opposite sd)) (opposite sd) (bump P_outsRecorded 1) s2 = Inr s3"
      and s4: "creditOutPath ix (sb_fielders p) (opposite sd) s3 = Inr (st', xs)"
      by (auto simp: stat_stolen_base_def and_then_Inr_iff)
    have p2: "posts ix sd 0 0 s1 s2" by (rule battingFor_posts [OF s2 adds_bump]) simp_all
    have p3: "posts ix sd 0 0 s2 s3" by (rule pitchingFor_posts [OF s3 adds_bump]) simp_all
    from posts_trans [OF p2 posts_trans [OF p3 creditOutPath_posts [OF s4]]] False show ?thesis by simp
  qed
  from posts_trans [OF recordInning_zero_posts [OF s1] this] show ?thesis by simp
qed

lemma stat_runner_play_posts:
  assumes "stat_runner_play ix step p st = Inr st'" and "step_battingSide step = Inr sd"
  shows "posts ix sd (run_count (rp_movements p)) 0 st st'"
proof -
  let ?outs = "out_movements (rp_movements p)"
  from assms obtain s1 s2 s3 xs where s1: "recordInning step sd 0 st = Inr s1"
    and s2: "fold_res (stat_runner_play_movement ix step (rp_playType p) sd) s1 (rp_movements p) = Inr s2"
    and s3: "pitchingFor ix (gs_activePitcher (es_before step) (opposite sd)) (opposite sd) (bump P_outsRecorded (int (length ?outs))) s2 = Inr s3"
    and s4: "credit_play ix (opposite sd) (rp_fieldingCredits p) ?outs s3 = Inr (st', xs)"
    by (auto simp: stat_runner_play_def Let_def and_then_Inr_iff)
  have move: "posts ix sd (run_count [m]) 0 t t'"
    if move: "stat_runner_play_movement ix step (rp_playType p) sd t m = Inr t'" for t m t'
  proof -
    from move obtain t1 t2 where t1: "applyCountingRun ix step m sd None t = Inr t1"
      and t2: "(if rp_playType p = Play_STOLEN_BASE then battingFor ix (mv_runnerId m) sd (bump B_stolenBases 1) t1 else Inr t1) = Inr t2"
      and t3: "(if rp_playType p = Play_CAUGHT_STEALING \<and> mv_to m = To_OUT
          then battingFor ix (mv_runnerId m) sd (bump B_caughtStealing 1) t2 else Inr t2) = Inr t'"
      by (auto simp: stat_runner_play_movement_def and_then_Inr_iff)
    have p2: "posts ix sd 0 0 t1 t2" using t2 battingFor_posts [OF _ adds_bump] by (auto split: if_splits)
    have p3: "posts ix sd 0 0 t2 t'" using t3 battingFor_posts [OF _ adds_bump] by (auto split: if_splits)
    from posts_trans [OF applyCountingRun_posts [OF t1] posts_trans [OF p2 p3]] show ?thesis by simp
  qed
  have p2: "posts ix sd (run_count (rp_movements p)) 0 s1 s2"
    using posts_fold [OF s2, of ix sd "\<lambda>m. run_count [m]"] move by (subst run_count_sum) blast
  have p3: "posts ix sd 0 0 s2 s3" by (rule pitchingFor_posts [OF s3 adds_bump]) simp_all
  from posts_trans [OF recordInning_zero_posts [OF s1] posts_trans [OF p2 posts_trans [OF p3 credit_play_posts [OF s4]]]]
  show ?thesis by simp
qed

lemma stat_game_started_posts:
  assumes "stat_game_started ix setup st = Inr st'"
  shows "posts ix sd0 0 0 st st'"
  using assms unfolding stat_game_started_def
  by (rule posts_fold_zero) (rule pitchingFor_posts [OF _ adds_comp [OF adds_bump adds_bump]], assumption, simp_all)

lemma stat_pitching_change_posts:
  assumes "stat_pitching_change ix p st = Inr st'"
  shows "posts ix sd0 0 0 st st'"
  using assms unfolding stat_pitching_change_def
  by (rule pitchingFor_posts [OF _ adds_comp [OF adds_bump adds_bump]]) simp_all

text \<open>A step posts its runs and hit to the side at bat; without one it posts nothing.\<close>

definition posting_side :: "effective_step \<Rightarrow> game_side" where
  "posting_side step = battingSide (es_before step)"

lemma step_battingSide_eq: "step_battingSide step = Inr sd \<Longrightarrow> sd = posting_side step"
  by (auto simp: step_battingSide_def posting_side_def battingSide_def split: option.splits half_inning.splits)

lemma stat_step_posts:
  assumes "stat_step ix setup st step = Inr st'"
  shows "posts ix (posting_side step) (body_runs (es_body step)) (body_hits (es_body step)) st st'"
proof (cases "es_body step")
  case GameStarted
  with assms stat_game_started_posts show ?thesis by (simp add: stat_step_def)
next
  case (Play p)
  show ?thesis
  proof (cases p)
    case (PlateAppearanceRecorded q)
    with Play assms have s: "stat_plate_appearance ix step q st = Inr st'" by (simp add: stat_step_def)
    then obtain sd where "step_battingSide step = Inr sd" by (auto simp: stat_plate_appearance_def and_then_Inr_iff)
    with stat_plate_appearance_posts [OF s this] step_battingSide_eq [OF this] Play PlateAppearanceRecorded
    show ?thesis by simp
  next
    case (RunnerAdvanceRecorded m)
    with Play assms obtain sd s1 where sd: "step_battingSide step = Inr sd" and s1: "recordInning step sd 0 st = Inr s1"
      and s2: "applyCountingRun ix step m sd None s1 = Inr st'"
      by (auto simp: stat_step_def stat_runner_advance_def and_then_Inr_iff)
    from posts_trans [OF recordInning_zero_posts [OF s1] applyCountingRun_posts [OF s2]] step_battingSide_eq [OF sd]
      Play RunnerAdvanceRecorded show ?thesis by simp
  next
    case (RunnerOutRecorded q)
    with Play assms stat_runner_out_posts show ?thesis by (simp add: stat_step_def)
  next
    case (StolenBaseAttemptRecorded q)
    with Play assms have s: "stat_stolen_base ix step q st = Inr st'" by (simp add: stat_step_def)
    then obtain sd where "step_battingSide step = Inr sd" by (auto simp: stat_stolen_base_def and_then_Inr_iff)
    with stat_stolen_base_posts [OF s this] step_battingSide_eq [OF this] Play StolenBaseAttemptRecorded
    show ?thesis by simp
  next
    case (RunnerPlayRecorded q)
    with Play assms have s: "stat_runner_play ix step q st = Inr st'" by (simp add: stat_step_def)
    then obtain sd where "step_battingSide step = Inr sd" by (auto simp: stat_runner_play_def and_then_Inr_iff)
    with stat_runner_play_posts [OF s this] step_battingSide_eq [OF this] Play RunnerPlayRecorded
    show ?thesis by simp
  next
    case (PitchingChangeMade q)
    with Play assms stat_pitching_change_posts show ?thesis by (simp add: stat_step_def)
  qed (use assms Play in \<open>simp_all add: stat_step_def\<close>)
qed (use assms in \<open>simp_all add: stat_step_def\<close>)

section \<open>The replayed score\<close>

lemma body_score:
  assumes "applyBody s b = Inr t"
  shows "gs_score t sd = gs_score s sd + (if battingSide s = sd then body_runs b else 0)"
proof (cases b)
  case (Play p)
  with assms have p: "apply_play s p = Inr t" by simp
  show ?thesis
  proof (cases "play_movements s p")
    case None
    with roster_change_frame(1) [OF p None] Play show ?thesis by (cases p) auto
  next
    case (Some ms)
    have steal: "body_runs (Play (StolenBaseAttemptRecorded q)) = run_count [steal_movement s q]" for q
      by (cases "sb_result q"; cases "sb_to q") (simp_all add: run_count_def counting_run_def steal_movement_def)
    have "body_runs (Play p) = run_count ms"
      using Some steal by (cases p) (auto simp: run_count_def counting_run_def runner_out_movement_def)
    with motion_score [OF p Some] Play show ?thesis by (auto simp: run_count_def)
  qed
next
  case (CorrectionApplied c)
  with lifecycle_body_frame(7) [OF assms] show ?thesis by simp
qed (use lifecycle_body_frame(7) [OF assms] in simp_all)

definition step_runs :: "game_side \<Rightarrow> effective_step \<Rightarrow> int" where
  "step_runs sd step = (if posting_side step = sd then body_runs (es_body step) else 0)"

definition step_hits :: "game_side \<Rightarrow> effective_step \<Rightarrow> int" where
  "step_hits sd step = (if posting_side step = sd then body_hits (es_body step) else 0)"

definition score_matches :: "replay_state \<Rightarrow> bool" where
  "score_matches rs \<longleftrightarrow> (\<forall>sd. gs_score (fst rs) sd = sum_list (map (step_runs sd) (snd rs)))"

lemma replay_step_score:
  assumes "replay_step rs mk = Inr rs'" and "score_matches rs" and "\<And>s. es_before (mk s) = s"
  shows "score_matches rs'"
proof -
  have b: "applyBody (fst rs) (es_body (mk (fst rs))) = Inr (fst rs')" and steps: "snd rs' = snd rs @ [mk (fst rs)]"
    using assms(1) by (simp_all add: result_simps)
  show ?thesis
    using assms(2,3) body_score [OF b] by (simp add: score_matches_def steps step_runs_def posting_side_def)
qed

lemma replay_event_score:
  assumes "score_matches rs" and "replay_event r rs e = Inr rs'"
  shows "score_matches rs'"
proof -
  obtain rs1 rs2 where r1: "replay_replacements r e rs = Inr rs1" and r2: "replay_own_body r e rs1 = Inr rs2"
    and rs': "rs' = (advance_revision e (fst rs2), snd rs2)"
    using assms(2) by (auto simp: replay_event_def result_simps)
  have "score_matches rs1"
  proof (cases "rn_replacementsByTarget r (ev_id e)")
    case None
    with r1 assms(1) show ?thesis by (simp add: replay_replacements_def)
  next
    case (Some rset)
    with r1 have *: "fold_res (\<lambda>rs p. replay_step rs (replacement_step e rset p)) rs (rs_replacements rset) = Inr rs1"
      by (simp add: replay_replacements_def)
    from * show ?thesis
      by (rule fold_res_invariant [where P = score_matches])
        (use assms(1) replay_step_score in \<open>auto simp: replacement_step_def\<close>)
  qed
  then have "score_matches rs2"
    using r2 replay_step_score [of rs1 "event_step e b" rs2 for b]
    by (auto simp: replay_own_body_def and_then_Inr_iff event_step_def simp del: replay_step_Inr_iff split: if_splits)
  then show ?thesis by (simp add: rs' score_matches_def advance_revision_def)
qed

interpretation scored: reducer "replay_event r" "\<lambda>_ _. True" score_matches for r
  by unfold_locales (rule replay_event_score)

lemma timeline_score:
  assumes "replayEffectiveWithTimeline setup es = Inr (s, steps)"
  shows "gs_score s sd = sum_list (map (step_runs sd) steps)"
proof -
  obtain r s0 where "createInitialState setup = Inr s0" and run: "fold_res (replay_event r) (s0, []) (by_sequence es) = Inr (s, steps)"
    using timeline_inversion [OF assms] by metis
  then have "score_matches (s0, [])"
    by (auto simp: createInitialState_def result_simps score_matches_def)
  from scored.fold_inv [OF run this] show ?thesis by (simp add: score_matches_def)
qed

section \<open>The books of a game\<close>

lemma stat_fold_books:
  assumes "fold_res (stat_step ix setup) st steps = Inr st'"
  shows "books_of ix st' sd = entry (sum_list (map (step_runs sd) steps)) (sum_list (map (step_hits sd) steps)) (books_of ix st sd)"
  using assms
proof (induction steps arbitrary: st)
  case Nil
  then show ?case by (simp add: entry_def)
next
  case (Cons x xs)
  then obtain st1 where st1: "stat_step ix setup st x = Inr st1" and rest: "fold_res (stat_step ix setup) st1 xs = Inr st'"
    by (auto simp: result_simps)
  from Cons.IH [OF rest] stat_step_posts [OF st1] show ?case
    by (auto simp: posts_def step_runs_def step_hits_def)
qed

lemma books_balance:
  assumes "replayEffectiveWithTimeline setup es = Inr (s, steps)"
    and "fold_res (stat_step ix setup) empty_stats steps = Inr st"
  shows "bat_total ix st sd B_runs = gs_score s sd" and "pit_total ix st (opposite sd) P_runsAllowed = gs_score s sd"
    and "inning_total (st_innings st) sd = gs_score s sd"
    and "pit_total ix st (opposite sd) P_hitsAllowed = bat_total ix st sd B_hits"
  using stat_fold_books [OF assms(2), of sd] timeline_score [OF assms(1), of sd]
  by (simp_all add: books_of_def entry_def empty_stats_def bat_total_def pit_total_def table_total_def inning_total_def)

section \<open>Lines and totals\<close>

lemma player_lines_entries:
  assumes "player_lines ix rates t = Inr ls"
  shows "list_all2 (\<lambda>(x, c) l. map_of ix x = Some (pl_side l) \<and> pl_playerId l = x \<and> pl_counters l = c \<and> rates c = Inr (pl_rates l))
    (sort_key fst t) ls"
  using assms unfolding player_lines_def map_res_Inr_iff
  by (rule list_all2_mono) (auto simp: result_simps requirePlayerSide_def split: option.splits)

lemma sumCounters_eq: "sumCounters cs k = sum_list (map (\<lambda>c. c k) cs)"
proof -
  have "fold (\<lambda>c t k. t k + c k) cs t k = t k + sum_list (map (\<lambda>c. c k) cs)" for t
    by (induction cs arbitrary: t) simp_all
  then show ?thesis by (simp add: sumCounters_def zero_counters_def)
qed

lemma sum_list_mset: "mset xs = mset ys \<Longrightarrow> sum_list (map f xs) = (sum_list (map f ys) :: int)"
  by (metis mset_map sum_mset_sum_list)

lemma side_counters_total:
  assumes "player_lines ix rates t = Inr ls"
  shows "side_counters sd ls k = table_total ix t sd k"
proof -
  have "sum_list (map (\<lambda>c. c k) (map pl_counters (filter (\<lambda>l. pl_side l = sd) ls))) = table_total ix (sort_key fst t) sd k"
    using player_lines_entries [OF assms]
  proof (induction rule: list_all2_induct)
    case (Cons p ps l ls)
    then show ?case by (cases p) (auto simp: table_total_def)
  qed (simp add: table_total_def)
  also have "\<dots> = table_total ix t sd k"
    unfolding table_total_def by (rule sum_list_mset) simp
  finally show ?thesis by (simp add: side_counters_def sumCounters_eq)
qed

section \<open>Counters stay in their invariants\<close>

definition batting_updates :: "(batting_key counters \<Rightarrow> batting_key counters) set" where
  "batting_updates = insert id (range batter_outcome \<union>
     (\<lambda>k. bump k 1) ` {B_runs, B_runsBattedIn, B_stolenBases, B_caughtStealing})"

definition pitching_updates :: "(pitching_key counters \<Rightarrow> pitching_key counters) set" where
  "pitching_updates = {id, bump P_inheritedRunnersScored 1, bump P_gamesStarted 1 \<circ> bump P_appearances 1} \<union>
     range pitcher_outcome \<union> (\<lambda>n. bump P_outsRecorded (int n)) ` UNIV \<union>
     (\<lambda>b. bump_if b P_earnedRuns 1 \<circ> bump P_runsAllowed 1) ` UNIV \<union>
     (\<lambda>n. bump P_inheritedRunners (int n) \<circ> bump P_appearances 1) ` UNIV"

text \<open>A property of the tables that every elementary update of the source keeps.\<close>

locale stat_invariant =
  fixes ix :: side_index and inv :: "stats \<Rightarrow> bool"
  assumes bat: "inv st \<Longrightarrow> f \<in> batting_updates \<Longrightarrow> battingFor ix x sd f st = Inr st' \<Longrightarrow> inv st'"
    and pit: "inv st \<Longrightarrow> g \<in> pitching_updates \<Longrightarrow> pitchingFor ix x sd g st = Inr st' \<Longrightarrow> inv st'"
    and fie: "inv st \<Longrightarrow> fieldingFor ix x sd (bump k 1) st = Inr st' \<Longrightarrow> inv st'"
    and inn: "inv st \<Longrightarrow> 0 \<le> n \<Longrightarrow> recordInning step sd n st = Inr st' \<Longrightarrow> inv st'"
begin

lemma fold_keeps:
  "fold_res f st xs = Inr st' \<Longrightarrow> inv st \<Longrightarrow> (\<And>st x st'. inv st \<Longrightarrow> f st x = Inr st' \<Longrightarrow> inv st') \<Longrightarrow> inv st'"
  by (rule fold_res_invariant [where P = inv]) auto

lemma update_members:
  "id \<in> batting_updates" "batter_outcome x \<in> batting_updates" "bump B_runs 1 \<in> batting_updates"
  "bump B_runsBattedIn 1 \<in> batting_updates" "bump B_stolenBases 1 \<in> batting_updates"
  "bump B_caughtStealing 1 \<in> batting_updates"
  "id \<in> pitching_updates" "pitcher_outcome x \<in> pitching_updates" "bump P_inheritedRunnersScored 1 \<in> pitching_updates"
  "bump P_gamesStarted 1 \<circ> bump P_appearances 1 \<in> pitching_updates"
  "bump P_outsRecorded (int n) \<in> pitching_updates" "bump P_outsRecorded 1 \<in> pitching_updates"
  "bump_if b P_earnedRuns 1 \<circ> bump P_runsAllowed 1 \<in> pitching_updates"
  "bump P_inheritedRunners (int n) \<circ> bump P_appearances 1 \<in> pitching_updates"
  by (auto simp: batting_updates_def pitching_updates_def image_iff intro: exI [of _ 1])

lemma bat_or_skip:
  "inv st \<Longrightarrow> f \<in> batting_updates \<Longrightarrow> (if b then battingFor ix x sd f st else Inr st) = Inr st' \<Longrightarrow> inv st'"
  by (auto dest: bat split: if_splits)

lemma pit_or_skip:
  "inv st \<Longrightarrow> g \<in> pitching_updates \<Longrightarrow> (if b then pitchingFor ix x sd g st else Inr st) = Inr st' \<Longrightarrow> inv st'"
  by (auto dest: pit split: if_splits)

lemma run_keeps:
  assumes st: "inv st" and run: "applyCountingRun ix step m sd batter st = Inr st'"
  shows "inv st'"
proof (cases "counting_run m")
  case False
  with assms show ?thesis by (simp add: applyCountingRun_def)
next
  case True
  let ?act = "gs_activePitcher (es_before step) (opposite sd)"
  from True run obtain cls s1 s2 s3 s4 where
    s1: "battingFor ix (mv_runnerId m) sd (bump B_runs 1) st = Inr s1" and
    s2: "pitchingFor ix (mv_responsiblePitcherId m) (opposite sd) (bump_if (cls = EARNED) P_earnedRuns 1 \<circ> bump P_runsAllowed 1) s1 = Inr s2" and
    s3: "(if ?act \<noteq> mv_responsiblePitcherId m then pitchingFor ix ?act (opposite sd) (bump P_inheritedRunnersScored 1) s2 else Inr s2) = Inr s3" and
    s4: "(if mv_rbiEligible m = Some True then (case batter of None \<Rightarrow> Inl MISSING_ATTRIBUTION
        | Some b \<Rightarrow> battingFor ix b sd (bump B_runsBattedIn 1) s3) else Inr s3) = Inr s4" and
    s5: "recordInning step sd 1 s4 = Inr st'"
    by (auto simp: applyCountingRun_def Let_def and_then_Inr_iff)
  have "inv s3" using pit_or_skip [OF pit [OF bat [OF st update_members(3) s1] update_members(13) s2] update_members(9) s3] .
  then have "inv s4" using s4 bat [OF _ update_members(4)] by (auto split: if_splits option.splits)
  then show ?thesis using inn [OF _ _ s5] by simp
qed

lemma runs_keep:
  "inv st \<Longrightarrow> fold_res (\<lambda>st m. applyCountingRun ix step m sd b st) st ms = Inr st' \<Longrightarrow> inv st'"
  using fold_keeps run_keeps by blast

lemma out_path_keeps: "inv st \<Longrightarrow> creditOutPath ix fs sd st = Inr (st', xs) \<Longrightarrow> inv st'"
proof -
  assume st: "inv st" and "creditOutPath ix fs sd st = Inr (st', xs)"
  then obtain s1 where s1: "fieldingFor ix (last fs) sd (bump F_putouts 1) st = Inr s1"
    and s2: "fold_res (credit_assist ix sd (last fs)) s1 (js_unique (butlast fs)) = Inr st'"
    by (auto simp: creditOutPath_def and_then_Inr_iff)
  from s2 fie [OF st s1] show ?thesis
    by (rule fold_keeps) (auto simp: credit_assist_def intro: fie split: if_splits)
qed

lemma credit_keeps: "inv st \<Longrightarrow> credit_play ix sd credits outs st = Inr (st', xs) \<Longrightarrow> inv st'"
proof -
  assume st: "inv st" and c: "credit_play ix sd credits outs st = Inr (st', xs)"
  show ?thesis
  proof (cases "credits = []")
    case False
    with c have "fold_res (apply_credit ix sd) st credits = Inr st'"
      by (auto simp: credit_play_def and_then_Inr_iff)
    from this st show ?thesis by (rule fold_keeps) (auto simp: apply_credit_def intro: fie)
  next
    case True
    with c obtain ys where run: "fold_res (credit_out ix sd) (st, []) outs = Inr (st', ys)"
      by (auto simp: credit_play_def and_then_Inr_iff)
    from run have "inv (fst (st', ys))"
      by (rule fold_res_invariant [where P = "\<lambda>acc. inv (fst acc)"])
        (use st out_path_keeps in \<open>auto simp: credit_out_def and_then_Inr_iff\<close>)
    then show ?thesis by simp
  qed
qed

lemma multiple_keeps: "inv st \<Longrightarrow> credit_multiple ix sd n xs st = Inr st' \<Longrightarrow> inv st'"
  by (auto simp: credit_multiple_def intro: fie fold_keeps split: if_splits)

lemma outcome_keeps:
  assumes "inv st" and "applyPlateOutcome ix p sd st = Inr st'"
  shows "inv st'"
proof -
  from assms(2) obtain s1 s2 s3 where s: "battingFor ix (pa_batterId p) sd id st = Inr s1"
    "pitchingFor ix (pa_pitcherId p) (opposite sd) id s1 = Inr s2"
    "battingFor ix (pa_batterId p) sd (batter_outcome (pa_outcome p)) s2 = Inr s3"
    "pitchingFor ix (pa_pitcherId p) (opposite sd) (pitcher_outcome (pa_outcome p)) s3 = Inr st'"
    by (auto simp: applyPlateOutcome_def and_then_Inr_iff)
  show ?thesis
    by (rule pit [OF bat [OF pit [OF bat [OF assms(1) _ s(1)] _ s(2)] _ s(3)] _ s(4)]) (simp_all add: update_members)
qed

lemma play_movement_keeps:
  assumes "inv st" and "stat_runner_play_movement ix step kind sd st m = Inr st'"
  shows "inv st'"
proof -
  from assms(2) obtain t1 t2 where t: "applyCountingRun ix step m sd None st = Inr t1"
    "(if kind = Play_STOLEN_BASE then battingFor ix (mv_runnerId m) sd (bump B_stolenBases 1) t1 else Inr t1) = Inr t2"
    "(if kind = Play_CAUGHT_STEALING \<and> mv_to m = To_OUT
       then battingFor ix (mv_runnerId m) sd (bump B_caughtStealing 1) t2 else Inr t2) = Inr st'"
    by (auto simp: stat_runner_play_movement_def and_then_Inr_iff)
  show ?thesis
    by (rule bat_or_skip [OF bat_or_skip [OF run_keeps [OF assms(1) t(1)] _ t(2)] _ t(3)]) (simp_all add: update_members)
qed

lemma plate_appearance_keeps:
  assumes "inv st" and "stat_plate_appearance ix step p st = Inr st'"
  shows "inv st'"
proof -
  let ?outs = "out_movements (pa_movements p)"
  from assms(2) obtain sd s1 s2 s3 s4 s5 xs where s1: "recordInning step sd 0 st = Inr s1"
    and s2: "applyPlateOutcome ix p sd s1 = Inr s2"
    and s3: "fold_res (\<lambda>st m. applyCountingRun ix step m sd (Some (pa_batterId p)) st) s2 (pa_movements p) = Inr s3"
    and s4: "pitchingFor ix (pa_pitcherId p) (opposite sd) (bump P_outsRecorded (int (length ?outs))) s3 = Inr s4"
    and s5: "credit_play ix (opposite sd) (pa_fieldingCredits p) ?outs s4 = Inr (s5, xs)"
    and s6: "credit_multiple ix (opposite sd) (length ?outs) xs s5 = Inr st'"
    by (auto simp: stat_plate_appearance_def Let_def and_then_Inr_iff)
  have "inv s3" by (rule runs_keep [OF outcome_keeps [OF inn [OF assms(1) order_refl s1] s2] s3])
  from multiple_keeps [OF credit_keeps [OF pit [OF this update_members(11) s4] s5] s6] show ?thesis .
qed

lemma runner_out_keeps:
  assumes "inv st" and "stat_runner_out ix step p st = Inr st'"
  shows "inv st'"
proof -
  from assms(2) obtain sd s1 s2 s3 xs where s1: "recordInning step sd 0 st = Inr s1"
    and s2: "pitchingFor ix (gs_activePitcher (es_before step) (opposite sd)) (opposite sd) (bump P_outsRecorded 1) s1 = Inr s2"
    and s3: "creditOutPath ix (ro_fielders p) (opposite sd) s2 = Inr (s3, xs)"
    and s4: "(if ro_cause p = Out_CAUGHT_STEALING then battingFor ix (ro_runnerId p) sd (bump B_caughtStealing 1) s3
       else Inr s3) = Inr st'"
    by (auto simp: stat_runner_out_def and_then_Inr_iff)
  from bat_or_skip [OF out_path_keeps [OF pit [OF inn [OF assms(1) order_refl s1] update_members(12) s2] s3]
      update_members(6) s4] show ?thesis .
qed

lemma stolen_base_keeps:
  assumes "inv st" and "stat_stolen_base ix step p st = Inr st'"
  shows "inv st'"
proof -
  from assms(2) obtain sd s1 where s1: "recordInning step sd 0 st = Inr s1"
    and rest: "(if sb_result p = Result_STOLEN_BASE then
         and_then (battingFor ix (sb_runnerId p) sd (bump B_stolenBases 1) s1) (\<lambda>st.
           if sb_to p = Steal_HOME then applyCountingRun ix step (steal_home_movement p) sd None st else Inr st)
       else
         and_then (battingFor ix (sb_runnerId p) sd (bump B_caughtStealing 1) s1) (\<lambda>st.
         and_then (pitchingFor ix (gs_activePitcher (es_before step) (opposite sd)) (opposite sd) (bump P_outsRecorded 1) st) (\<lambda>st.
         and_then (creditOutPath ix (sb_fielders p) (opposite sd) st) (\<lambda>(st, _). Inr st)))) = Inr st'"
    by (auto simp: stat_stolen_base_def and_then_Inr_iff)
  note st1 = inn [OF assms(1) order_refl s1]
  show ?thesis
  proof (cases "sb_result p = Result_STOLEN_BASE")
    case True
    with rest obtain s2 where s2: "battingFor ix (sb_runnerId p) sd (bump B_stolenBases 1) s1 = Inr s2"
      and s3: "(if sb_to p = Steal_HOME then applyCountingRun ix step (steal_home_movement p) sd None s2 else Inr s2) = Inr st'"
      by (auto simp: and_then_Inr_iff)
    from bat [OF st1 update_members(5) s2] s3 run_keeps show ?thesis by (auto split: if_splits)
  next
    case False
    with rest obtain s2 s3 xs where s2: "battingFor ix (sb_runnerId p) sd (bump B_caughtStealing 1) s1 = Inr s2"
      and s3: "pitchingFor ix (gs_activePitcher (es_before step) (opposite sd)) (opposite sd) (bump P_outsRecorded 1) s2 = Inr s3"
      and s4: "creditOutPath ix (sb_fielders p) (opposite sd) s3 = Inr (st', xs)"
      by (auto simp: and_then_Inr_iff)
    from out_path_keeps [OF pit [OF bat [OF st1 update_members(6) s2] update_members(12) s3] s4] show ?thesis .
  qed
qed

lemma runner_play_keeps:
  assumes "inv st" and "stat_runner_play ix step q st = Inr st'"
  shows "inv st'"
proof -
  from assms(2) obtain sd s1 s2 s3 xs where s1: "recordInning step sd 0 st = Inr s1"
    and s2: "fold_res (stat_runner_play_movement ix step (rp_playType q) sd) s1 (rp_movements q) = Inr s2"
    and s3: "pitchingFor ix (gs_activePitcher (es_before step) (opposite sd)) (opposite sd)
        (bump P_outsRecorded (int (length (out_movements (rp_movements q))))) s2 = Inr s3"
    and s4: "credit_play ix (opposite sd) (rp_fieldingCredits q) (out_movements (rp_movements q)) s3 = Inr (st', xs)"
    by (auto simp: stat_runner_play_def Let_def and_then_Inr_iff)
  from s2 inn [OF assms(1) order_refl s1] have "inv s2" by (rule fold_keeps) (rule play_movement_keeps)
  from credit_keeps [OF pit [OF this update_members(11) s3] s4] show ?thesis .
qed

lemma step_keeps:
  assumes st: "inv st" and step: "stat_step ix setup st step = Inr st'"
  shows "inv st'"
proof (cases "es_body step")
  case GameStarted
  with step have "stat_game_started ix setup st = Inr st'" by (simp add: stat_step_def)
  from this [unfolded stat_game_started_def] st show ?thesis
    by (rule fold_keeps) (rule pit [OF _ update_members(10)])
next
  case (Play p)
  show ?thesis
  proof (cases p)
    case (RunnerAdvanceRecorded m)
    with Play step obtain sd s1 where s1: "recordInning step sd 0 st = Inr s1"
      and s2: "applyCountingRun ix step m sd None s1 = Inr st'"
      by (auto simp: stat_step_def stat_runner_advance_def and_then_Inr_iff)
    from run_keeps [OF inn [OF st order_refl s1] s2] show ?thesis .
  next
    case (PitchingChangeMade q)
    with Play step have "stat_pitching_change ix q st = Inr st'" by (simp add: stat_step_def)
    from pit [OF st update_members(14) this [unfolded stat_pitching_change_def]] show ?thesis .
  next
    case (PlateAppearanceRecorded q)
    with Play step plate_appearance_keeps [OF st] show ?thesis by (simp add: stat_step_def)
  next
    case (RunnerOutRecorded q)
    with Play step runner_out_keeps [OF st] show ?thesis by (simp add: stat_step_def)
  next
    case (StolenBaseAttemptRecorded q)
    with Play step stolen_base_keeps [OF st] show ?thesis by (simp add: stat_step_def)
  next
    case (RunnerPlayRecorded q)
    with Play step runner_play_keeps [OF st] show ?thesis by (simp add: stat_step_def)
  qed (use Play step st in \<open>simp_all add: stat_step_def\<close>)
qed (use step st in \<open>simp_all add: stat_step_def\<close>)

lemma steps_keep: "fold_res (stat_step ix setup) st steps = Inr st' \<Longrightarrow> inv st \<Longrightarrow> inv st'"
  using fold_keeps step_keeps by blast

end

text \<open>The invariants the rate functions check, apart from the inherited runners of a pitcher.\<close>

definition batting_wf :: "batting_key counters \<Rightarrow> bool" where
  "batting_wf c \<longleftrightarrow> batting_invariant c \<and> (\<forall>k. 0 \<le> c k)"

definition pitching_wf :: "pitching_key counters \<Rightarrow> bool" where
  "pitching_wf c \<longleftrightarrow> (\<forall>k. 0 \<le> c k) \<and> c P_earnedRuns \<le> c P_runsAllowed \<and>
     c P_homeRunsAllowed \<le> c P_hitsAllowed \<and> c P_gamesStarted \<le> c P_appearances"

definition nonneg :: "'k counters \<Rightarrow> bool" where
  "nonneg c \<longleftrightarrow> (\<forall>k. 0 \<le> c k)"

definition stats_wf :: "stats \<Rightarrow> bool" where
  "stats_wf st \<longleftrightarrow> (\<forall>(x, c)\<in>set (st_batting st). batting_wf c) \<and> (\<forall>(x, c)\<in>set (st_pitching st). pitching_wf c) \<and>
     (\<forall>(x, c)\<in>set (st_fielding st). nonneg c) \<and> (\<forall>(i, n)\<in>set (st_innings st). 0 \<le> n) \<and>
     distinct (map fst (st_batting st)) \<and> distinct (map fst (st_pitching st)) \<and> distinct (map fst (st_fielding st)) \<and>
     distinct (map fst (st_innings st))"

lemma bump_apply:
  "bump k n c k' = c k' + (if k' = k then n else 0)"
  "bump_if b k n c k' = c k' + (if b \<and> k' = k then n else 0)"
  by (simp_all add: bump_def bump_if_def)

lemma bump_nonneg: "0 \<le> n \<Longrightarrow> nonneg c \<Longrightarrow> nonneg (bump k n c)"
  by (simp add: nonneg_def bump_def)

lemma bump_if_nonneg: "0 \<le> n \<Longrightarrow> nonneg c \<Longrightarrow> nonneg (bump_if b k n c)"
  by (simp add: bump_if_def bump_nonneg)

lemma zero_nonneg: "nonneg zero_counters"
  by (simp add: nonneg_def zero_counters_def)

lemma batter_outcome_wf:
  assumes "batting_wf c"
  shows "batting_wf (batter_outcome x c)"
proof -
  have d: "batter_outcome x c k = c k + batter_outcome x zero_counters k" for k
    using batter_outcome_adds [of x] unfolding adds_def by blast
  have "nonneg (batter_outcome x zero_counters)"
    unfolding batter_outcome_def
    by (intro bump_if_nonneg bump_nonneg) (simp_all add: zero_nonneg split: option.splits, cases x, auto)
  moreover have "batting_invariant (batter_outcome x zero_counters)"
    by (cases x; simp add: batting_invariant_def batter_outcome_def bump_apply zero_counters_def no_at_bat_def)
  ultimately show ?thesis
    using assms unfolding batting_wf_def batting_invariant_def nonneg_def d by (auto simp: add_nonneg_nonneg)
qed

lemma pitcher_outcome_wf:
  assumes "pitching_wf c"
  shows "pitching_wf (pitcher_outcome x c)"
proof -
  have d: "pitcher_outcome x c k = c k + pitcher_outcome x zero_counters k" for k
    using pitcher_outcome_adds [of x] unfolding adds_def by blast
  have "nonneg (pitcher_outcome x zero_counters)"
    unfolding pitcher_outcome_def by (intro bump_if_nonneg bump_nonneg) (simp_all add: zero_nonneg)
  moreover have "pitcher_outcome x zero_counters P_earnedRuns \<le> pitcher_outcome x zero_counters P_runsAllowed"
    "pitcher_outcome x zero_counters P_homeRunsAllowed \<le> pitcher_outcome x zero_counters P_hitsAllowed"
    "pitcher_outcome x zero_counters P_gamesStarted \<le> pitcher_outcome x zero_counters P_appearances"
    by (cases x; simp add: pitcher_outcome_def bump_apply zero_counters_def)+
  ultimately show ?thesis
    using assms unfolding pitching_wf_def nonneg_def d by (auto simp: add_nonneg_nonneg add_mono)
qed

lemma bump_batting_wf:
  "batting_wf c \<Longrightarrow> k \<in> {B_runs, B_runsBattedIn, B_stolenBases, B_caughtStealing} \<Longrightarrow> batting_wf (bump k 1 c)"
  by (auto simp: batting_wf_def batting_invariant_def bump_apply)

lemma batting_update_wf: "f \<in> batting_updates \<Longrightarrow> batting_wf c \<Longrightarrow> batting_wf (f c)"
  by (auto simp: batting_updates_def bump_batting_wf batter_outcome_wf)

lemma pitching_update_wf: "g \<in> pitching_updates \<Longrightarrow> pitching_wf c \<Longrightarrow> pitching_wf (g c)"
  by (auto simp: pitching_updates_def pitcher_outcome_wf) (auto simp: pitching_wf_def bump_apply)

lemma with_counters_all:
  assumes "\<forall>(y, c)\<in>set t. P c" and "P zero_counters" and "\<And>c. P c \<Longrightarrow> P (f c)"
  shows "\<forall>(y, c)\<in>set (with_counters x f t). P c"
  using assms by (auto dest!: set_with_counters)

lemma zero_wf: "batting_wf zero_counters" "pitching_wf zero_counters"
  by (simp_all add: batting_wf_def batting_invariant_def pitching_wf_def zero_counters_def)

lemma innings_update_nonneg:
  "\<forall>(i, n)\<in>set inn. 0 \<le> n \<Longrightarrow> 0 \<le> (v :: int) \<Longrightarrow> \<forall>(i, n)\<in>set (AList.update k v inn). 0 \<le> n"
  by (induction inn) auto

lemma recordInning_wf:
  assumes "stats_wf st" and "0 \<le> n" and "recordInning step sd n st = Inr st'"
  shows "stats_wf st'"
proof -
  obtain i where st': "st_innings st' = AList.update (i, sd)
      ((case map_of (st_innings st) (i, sd) of None \<Rightarrow> 0 | Some r \<Rightarrow> r) + n) (st_innings st)"
    "st_batting st' = st_batting st" "st_pitching st' = st_pitching st" "st_fielding st' = st_fielding st"
    using assms(3) by (cases "gs_inning (es_before step)") (auto simp: recordInning_def Let_def)
  have "0 \<le> (case map_of (st_innings st) (i, sd) of None \<Rightarrow> 0 | Some r \<Rightarrow> r)"
    using assms(1) by (auto simp: stats_wf_def dest!: map_of_SomeD split: option.splits)
  then have "0 \<le> (case map_of (st_innings st) (i, sd) of None \<Rightarrow> 0 | Some r \<Rightarrow> r) + n" using assms(2) by simp
  then show ?thesis
    using assms(1) innings_update_nonneg [of "st_innings st"] unfolding stats_wf_def st'
    by (simp add: distinct_update)
qed

interpretation stats_ok: stat_invariant ix stats_wf for ix
proof
  show "stats_wf st'" if st: "stats_wf st" and f: "f \<in> batting_updates" and "battingFor ix x sd f st = Inr st'" for st f x sd st'
  proof -
    have "\<forall>(y, c)\<in>set (with_counters x f (st_batting st)). batting_wf c"
      by (rule with_counters_all) (use st batting_update_wf [OF f] zero_wf in \<open>auto simp: stats_wf_def\<close>)
    with that show ?thesis by (auto simp: battingFor_def and_then_Inr_iff stats_wf_def with_counters_keys)
  qed
  show "stats_wf st'" if st: "stats_wf st" and g: "g \<in> pitching_updates" and "pitchingFor ix x sd g st = Inr st'" for st g x sd st'
  proof -
    have "\<forall>(y, c)\<in>set (with_counters x g (st_pitching st)). pitching_wf c"
      by (rule with_counters_all) (use st pitching_update_wf [OF g] zero_wf in \<open>auto simp: stats_wf_def\<close>)
    with that show ?thesis by (auto simp: pitchingFor_def and_then_Inr_iff stats_wf_def with_counters_keys)
  qed
  show "stats_wf st'" if st: "stats_wf st" and "fieldingFor ix x sd (bump k 1) st = Inr st'" for st x sd k st'
  proof -
    have "\<forall>(y, c)\<in>set (with_counters x (bump k 1) (st_fielding st)). nonneg c"
      by (rule with_counters_all) (use st bump_nonneg [of 1] zero_nonneg in \<open>auto simp: stats_wf_def\<close>)
    with that show ?thesis by (auto simp: fieldingFor_def and_then_Inr_iff stats_wf_def with_counters_keys)
  qed
qed (rule recordInning_wf)

lemma empty_stats_wf: "stats_wf empty_stats"
  by (simp add: stats_wf_def empty_stats_def)

lemma steps_stats_wf: "fold_res (stat_step ix setup) empty_stats steps = Inr st \<Longrightarrow> stats_wf st"
  by (rule stats_ok.steps_keep [OF _ empty_stats_wf])

section \<open>When rates are defined\<close>

lemma validateCounters_Inr_iff [result_simps]:
  "validateCounters c = Inr u \<longleftrightarrow> (\<forall>k. safe_int (c k) \<and> 0 \<le> c k)"
  by (auto simp: validateCounters_def result_simps list_all_iff UNIV_enum [symmetric])

lemma exact_rate_bounds:
  assumes "exactRate n d = Inr (Some r)"
  shows "0 \<le> xr_numerator r" "xr_numerator r \<le> n" "0 < xr_denominator r" "xr_denominator r \<le> d"
proof -
  have d: "0 \<le> n" "0 < d" and r: "r = \<lparr>xr_numerator = n div gcd n d, xr_denominator = d div gcd n d\<rparr>"
    using assms by (auto simp: result_simps split: if_splits)
  have "1 \<le> gcd n d" using d(2) by (metis gcd_pos_int int_one_le_iff_zero_less less_irrefl)
  then have "n div gcd n d \<le> n" "d div gcd n d \<le> d" using d zdiv_mono2 [of n 1 "gcd n d"] zdiv_mono2 [of d 1 "gcd n d"] by simp_all
  with exactRate_reduced(1) [OF assms] show "0 \<le> xr_numerator r" "xr_numerator r \<le> n" "0 < xr_denominator r" "xr_denominator r \<le> d"
    by (simp_all add: r reduced_def)
qed

text \<open>Within ten million plate appearances the batting rates are always defined.\<close>

definition batting_limit :: int where
  "batting_limit = 10000000"

lemma exactRate_total:
  assumes "0 \<le> n" "n \<le> max_safe_integer" "0 \<le> d" "d \<le> max_safe_integer"
  obtains r where "exactRate n d = Inr r"
  using assms by (cases "exactRate n d") (auto simp: exactRate_Inl_iff safe_int_def max_safe_integer_def)

lemma addExactRates_total:
  assumes "\<And>x. l = Some x \<Longrightarrow> 0 \<le> xr_numerator x \<and> xr_numerator x \<le> 2 * batting_limit \<and> 0 < xr_denominator x \<and> xr_denominator x \<le> batting_limit"
    and "\<And>x. r = Some x \<Longrightarrow> 0 \<le> xr_numerator x \<and> xr_numerator x \<le> 4 * batting_limit \<and> 0 < xr_denominator x \<and> xr_denominator x \<le> batting_limit"
  obtains s where "addExactRates l r = Inr s"
proof (cases "\<exists>x y. l = Some x \<and> r = Some y")
  case True
  then obtain x y where xy: "l = Some x" "r = Some y" by blast
  let ?n = "xr_numerator x * xr_denominator y + xr_numerator y * xr_denominator x"
  let ?d = "xr_denominator x * xr_denominator y"
  note b = assms(1) [OF xy(1)] assms(2) [OF xy(2)]
  have "xr_numerator x * xr_denominator y \<le> 2 * batting_limit * batting_limit"
    "xr_numerator y * xr_denominator x \<le> 4 * batting_limit * batting_limit"
    "?d \<le> batting_limit * batting_limit"
    using b mult_mono [of "xr_numerator x" "2 * batting_limit" "xr_denominator y" batting_limit]
      mult_mono [of "xr_numerator y" "4 * batting_limit" "xr_denominator x" batting_limit]
      mult_mono [of "xr_denominator x" batting_limit "xr_denominator y" batting_limit] by linarith+
  moreover have "0 \<le> xr_numerator x * xr_denominator y" "0 \<le> xr_numerator y * xr_denominator x" "0 \<le> ?d"
    using b by simp_all
  ultimately have n: "0 \<le> ?n" "?n \<le> max_safe_integer" "0 \<le> ?d" "?d \<le> max_safe_integer"
    by (simp_all add: batting_limit_def max_safe_integer_def)
  then obtain s where "exactRate ?n ?d = Inr s" using exactRate_total by blast
  moreover have "safe_int ?n" "safe_int ?d"
    using n by (simp_all add: safe_int_def max_safe_integer_def)
  ultimately show ?thesis using xy by (intro that) (simp add: addExactRates_def Let_def)
next
  case False
  then show ?thesis by (intro that [of None]) (auto simp: addExactRates_def split: option.splits)
qed

lemma deriveBattingRates_defined:
  assumes wf: "batting_wf c" and small: "c B_plateAppearances \<le> batting_limit" and safe: "\<forall>k. c k \<le> max_safe_integer"
  shows "is_ok (deriveBattingRates c)"
proof -
  have nn: "0 \<le> c k" for k using wf by (simp add: batting_wf_def)
  have inv: "batting_invariant c" using wf by (simp add: batting_wf_def)
  note nn [of B_singles] nn [of B_doubles] nn [of B_triples] nn [of B_homeRuns] nn [of B_walks]
    nn [of B_hitByPitch] nn [of B_sacrificeFlies] nn [of B_sacrificeHits]
  with inv small have sizes: "c B_hits + c B_walks + c B_hitByPitch \<le> 2 * batting_limit"
    "c B_atBats + c B_walks + c B_hitByPitch + c B_sacrificeFlies \<le> batting_limit" "c B_atBats \<le> batting_limit"
    "c B_totalBases \<le> 4 * batting_limit" "c B_hits \<le> batting_limit"
    unfolding batting_invariant_def by linarith+
  have lim: "4 * batting_limit \<le> max_safe_integer" by (simp add: batting_limit_def max_safe_integer_def)
  have lim0: "0 \<le> batting_limit" by (simp add: batting_limit_def)
  have le: "x \<le> max_safe_integer" if "x \<le> 4 * batting_limit" for x using that lim by linarith
  have rate: "\<exists>r. exactRate n d = Inr r" if "0 \<le> n" "n \<le> 4 * batting_limit" "0 \<le> d" "d \<le> 4 * batting_limit" for n d
    using exactRate_total [OF that(1) le [OF that(2)] that(3) le [OF that(4)]] by blast
  obtain obp where obp: "exactRate (c B_hits + c B_walks + c B_hitByPitch)
      (c B_atBats + c B_walks + c B_hitByPitch + c B_sacrificeFlies) = Inr obp"
    using rate [of "c B_hits + c B_walks + c B_hitByPitch" "c B_atBats + c B_walks + c B_hitByPitch + c B_sacrificeFlies"]
      sizes nn [of B_hits] nn [of B_walks] nn [of B_hitByPitch] nn [of B_atBats] nn [of B_sacrificeFlies] lim0 by auto
  obtain slg where slg: "exactRate (c B_totalBases) (c B_atBats) = Inr slg"
    using rate [OF nn _ nn] sizes lim0 by fastforce
  obtain avg where avg: "exactRate (c B_hits) (c B_atBats) = Inr avg"
    using rate [OF nn _ nn] sizes lim0 by fastforce
  obtain ops where ops: "addExactRates obp slg = Inr ops"
  proof (rule addExactRates_total [of obp slg])
    show "0 \<le> xr_numerator x \<and> xr_numerator x \<le> 2 * batting_limit \<and> 0 < xr_denominator x \<and> xr_denominator x \<le> batting_limit"
      if "obp = Some x" for x
      using exact_rate_bounds [OF obp [unfolded that]] sizes by linarith
    show "0 \<le> xr_numerator x \<and> xr_numerator x \<le> 4 * batting_limit \<and> 0 < xr_denominator x \<and> xr_denominator x \<le> batting_limit"
      if "slg = Some x" for x
      using exact_rate_bounds [OF slg [unfolded that]] sizes by linarith
  qed
  have "validateCounters c = Inr ()"
    using nn safe by (auto simp: validateCounters_Inr_iff safe_int_def max_safe_integer_def intro: order_trans [of _ 0])
  then show ?thesis using inv obp slg avg ops by (simp add: deriveBattingRates_def)
qed

section \<open>Reconciliation\<close>

lemma deriveBattingRates_invariant: "deriveBattingRates c = Inr r \<Longrightarrow> batting_invariant c"
  by (auto simp: deriveBattingRates_def and_then_Inr_iff require_Inr_iff)

lemma team_statistics_inversion:
  assumes "team_statistics_of bl pl fl sd = Inr t"
  shows "ts_batting t = side_counters sd bl" "ts_pitching t = side_counters sd pl" "ts_fielding t = side_counters sd fl"
    "batting_invariant (ts_batting t)"
  using assms by (auto simp: team_statistics_of_def Let_def and_then_Inr_iff deriveBattingRates_invariant)

lemma rate_errors:
  "deriveBattingRates c = Inl e \<Longrightarrow> e = IMPOSSIBLE_COUNTER_STATE"
  "derivePitchingRates c' = Inl e \<Longrightarrow> e = IMPOSSIBLE_COUNTER_STATE"
  "deriveFieldingRates c'' = Inl e \<Longrightarrow> e = IMPOSSIBLE_COUNTER_STATE"
  by (auto simp: deriveBattingRates_def derivePitchingRates_def deriveFieldingRates_def validateCounters_def
      addExactRates_def exactRate_Inl_iff and_then_Inl_iff require_Inl_iff Let_def split: option.splits)

lemma map_res_InlD: "map_res f xs = Inl e \<Longrightarrow> \<exists>x\<in>set xs. f x = Inl e"
  by (induction xs) (auto simp: result_simps)

lemma player_lines_errors:
  assumes "player_lines ix rates t = Inl e" and "\<And>c. rates c = Inl e \<Longrightarrow> e = IMPOSSIBLE_COUNTER_STATE"
  shows "e \<in> {IMPOSSIBLE_COUNTER_STATE, MISSING_ATTRIBUTION}"
  using map_res_InlD [OF assms(1) [unfolded player_lines_def]] assms(2)
  by (auto simp: and_then_Inl_iff requirePlayerSide_def split: option.splits)

lemma team_statistics_errors: "team_statistics_of bl pl fl sd = Inl e \<Longrightarrow> e = IMPOSSIBLE_COUNTER_STATE"
  by (auto simp: team_statistics_of_def Let_def and_then_Inl_iff dest: rate_errors)

lemma putouts_sum:
  "sum_list (map (\<lambda>l. pl_counters l k) (filter (\<lambda>l. pl_side l = sd) ls)) = side_counters sd ls k"
  by (simp add: side_counters_def sumCounters_eq comp_def)

lemma reconcile_side_failure:
  assumes "reconcile_side s inn fl teams sd = Inl e"
    and "ts_batting (teams sd) B_runs = gs_score s sd" "batting_invariant (ts_batting (teams sd))"
    and "inning_total inn sd = gs_score s sd"
    and "ts_pitching (teams (opposite sd)) P_hitsAllowed = ts_batting (teams sd) B_hits"
    and "ts_pitching (teams (opposite sd)) P_runsAllowed = ts_batting (teams sd) B_runs"
  shows "ts_pitching (teams (opposite sd)) P_outsRecorded \<noteq> side_counters (opposite sd) fl F_putouts"
  using assms
  by (auto simp: reconcile_side_def Let_def assertEqual_def and_then_Inl_iff require_Inl_iff require_Inr_iff putouts_sum
      batting_invariant_def)

lemma project_reconciliation:
  assumes fail: "project setup es privacy s ix st = Inl RECONCILIATION_FAILURE"
    and runs: "\<And>sd. bat_total ix st sd B_runs = gs_score s sd"
    and allowed: "\<And>sd. pit_total ix st (opposite sd) P_runsAllowed = gs_score s sd"
    and innings: "\<And>sd. inning_total (st_innings st) sd = gs_score s sd"
    and hits: "\<And>sd. pit_total ix st (opposite sd) P_hitsAllowed = bat_total ix st sd B_hits"
  shows "\<exists>sd. pit_total ix st sd P_outsRecorded \<noteq> table_total ix (st_fielding st) sd F_putouts"
proof -
  obtain bl pl fl away home where bl: "player_lines ix deriveBattingRates (st_batting st) = Inr bl"
    and pl: "player_lines ix derivePitchingRates (st_pitching st) = Inr pl"
    and fl: "player_lines ix deriveFieldingRates (st_fielding st) = Inr fl"
    and away: "team_statistics_of bl pl fl AWAY = Inr away" and home: "team_statistics_of bl pl fl HOME = Inr home"
    and chk: "check_all (reconcile_side s (st_innings st) fl (by_side home away)) [AWAY, HOME] = Inl RECONCILIATION_FAILURE"
    using fail
    by (auto simp: project_def Let_def and_then_Inl_iff dest!: player_lines_errors team_statistics_errors dest: rate_errors)
  obtain sd where sd: "reconcile_side s (st_innings st) fl (by_side home away) sd = Inl RECONCILIATION_FAILURE"
    using check_all_InlD [OF chk] by blast
  have bat: "ts_batting (by_side home away sd') k = bat_total ix st sd' k" for sd' k
    using team_statistics_inversion(1) [OF away] team_statistics_inversion(1) [OF home] side_counters_total [OF bl]
    by (cases sd') (simp_all add: by_side_def bat_total_def)
  have pit: "ts_pitching (by_side home away sd') k = pit_total ix st sd' k" for sd' k
    using team_statistics_inversion(2) [OF away] team_statistics_inversion(2) [OF home] side_counters_total [OF pl]
    by (cases sd') (simp_all add: by_side_def pit_total_def)
  have inv: "batting_invariant (ts_batting (by_side home away sd'))" for sd'
    using team_statistics_inversion(4) [OF away] team_statistics_inversion(4) [OF home] by (cases sd') (simp_all add: by_side_def)
  have "ts_pitching (by_side home away (opposite sd)) P_outsRecorded \<noteq> side_counters (opposite sd) fl F_putouts"
    by (rule reconcile_side_failure [OF sd _ inv]) (simp_all add: bat pit runs allowed innings hits)
  then show ?thesis using side_counters_total [OF fl, of "opposite sd" F_putouts] by (auto simp: pit)
qed

text \<open>A step itself never reports a reconciliation failure.\<close>

definition step_errors :: "statistic_error set" where
  "step_errors = {INCOMPLETE_REPLAY_STATE, MISSING_ATTRIBUTION, UNSUPPORTED_RULESET, UNSUPPORTED_EVENT_VERSION, STAT_TYPE_ERROR}"

lemma fold_res_InlD:
  "fold_res f st xs = Inl e \<Longrightarrow> \<exists>st' x. x \<in> set xs \<and> f st' x = Inl e"
  by (induction xs arbitrary: st) (auto simp: result_simps, blast+)

lemma for_errors:
  "battingFor ix x sd f st = Inl e \<Longrightarrow> e \<in> step_errors" "pitchingFor ix x sd g st = Inl e \<Longrightarrow> e \<in> step_errors"
  "fieldingFor ix x sd h st = Inl e \<Longrightarrow> e \<in> step_errors" "recordInning step sd n st = Inl e \<Longrightarrow> e \<in> step_errors"
  "step_battingSide step = Inl e \<Longrightarrow> e \<in> step_errors"
  by (auto simp: battingFor_def pitchingFor_def fieldingFor_def recordInning_def step_battingSide_def requirePlayerSide_def
      and_then_Inl_iff Let_def step_errors_def split: option.splits half_inning.splits if_splits)

lemma run_errors: "applyCountingRun ix step m sd b st = Inl e \<Longrightarrow> e \<in> step_errors"
proof -
  have "assertEarnedRun x v = Inl e \<Longrightarrow> e \<in> step_errors" for x v
    by (cases "v = 1") (auto simp: assertEarnedRun_def step_errors_def split: option.splits earned_run.splits)
  moreover have "MISSING_ATTRIBUTION \<in> step_errors" by (simp add: step_errors_def)
  moreover assume "applyCountingRun ix step m sd b st = Inl e"
  ultimately show ?thesis
    by (auto simp: applyCountingRun_def Let_def and_then_Inl_iff dest: for_errors split: if_splits option.splits)
qed

lemma runs_errors: "fold_res (\<lambda>st m. applyCountingRun ix step m sd b st) st ms = Inl e \<Longrightarrow> e \<in> step_errors"
  by (drule fold_res_InlD) (auto dest: run_errors)

lemma out_path_errors:
  assumes "creditOutPath ix fs sd st = Inl e"
  shows "e \<in> step_errors"
proof -
  have req: "requirePlayerSide ix x y = Inl e \<Longrightarrow> e \<in> step_errors" for x y
    by (auto simp: requirePlayerSide_def step_errors_def split: option.splits if_splits)
  moreover have "MISSING_ATTRIBUTION \<in> step_errors" by (simp add: step_errors_def)
  moreover have "credit_assist ix sd p st x = Inl e \<Longrightarrow> e \<in> step_errors" for p st x
    by (auto simp: credit_assist_def dest: for_errors split: if_splits)
  ultimately show ?thesis
    using assms by (auto simp: creditOutPath_def and_then_Inl_iff require_Inl_iff dest!: map_res_InlD fold_res_InlD dest: for_errors)
qed

lemma credit_errors:
  assumes "credit_play ix sd credits outs st = Inl e"
  shows "e \<in> step_errors"
proof -
  have "apply_credit ix sd st c = Inl e \<Longrightarrow> e \<in> step_errors" for st c
    by (auto simp: apply_credit_def dest: for_errors)
  moreover have "credit_out ix sd acc m = Inl e \<Longrightarrow> e \<in> step_errors" for acc m
    by (auto simp: credit_out_def movement_fielders_def and_then_Inl_iff step_errors_def split: option.splits
        dest: out_path_errors [unfolded step_errors_def])
  ultimately show ?thesis
    using assms by (auto simp: credit_play_def and_then_Inl_iff dest!: fold_res_InlD split: if_splits)
qed

lemma multiple_errors: "credit_multiple ix sd n xs st = Inl e \<Longrightarrow> e \<in> step_errors"
  by (auto simp: credit_multiple_def dest!: fold_res_InlD dest: for_errors split: if_splits)

lemma outcome_errors: "applyPlateOutcome ix p sd st = Inl e \<Longrightarrow> e \<in> step_errors"
  by (auto simp: applyPlateOutcome_def and_then_Inl_iff require_Inl_iff dest: for_errors) (simp add: step_errors_def)

lemma play_movement_errors: "stat_runner_play_movement ix step kind sd st m = Inl e \<Longrightarrow> e \<in> step_errors"
  by (auto simp: stat_runner_play_movement_def and_then_Inl_iff dest: for_errors run_errors split: if_splits)

lemmas part_errors = for_errors run_errors runs_errors out_path_errors credit_errors multiple_errors outcome_errors

lemma stat_step_errors: "stat_step ix setup st step = Inl e \<Longrightarrow> e \<in> step_errors"
proof (cases "es_body step")
  case GameStarted
  assume "stat_step ix setup st step = Inl e"
  with GameStarted show ?thesis
    by (auto simp: stat_step_def stat_game_started_def simp del: fold_res.simps dest!: fold_res_InlD dest: for_errors)
next
  case (Play p)
  assume *: "stat_step ix setup st step = Inl e"
  show ?thesis
  proof (cases p)
    case (RunnerPlayRecorded q)
    have "fold_res (stat_runner_play_movement ix step (rp_playType q) sd) s (rp_movements q) = Inl e \<Longrightarrow> e \<in> step_errors" for sd s
      by (drule fold_res_InlD) (auto dest: play_movement_errors)
    with Play RunnerPlayRecorded * show ?thesis
      by (auto simp: stat_step_def stat_runner_play_def Let_def and_then_Inl_iff dest: part_errors)
  qed (use Play * in \<open>auto simp: stat_step_def stat_plate_appearance_def stat_runner_advance_def stat_runner_out_def
      stat_stolen_base_def stat_pitching_change_def Let_def and_then_Inl_iff dest: part_errors split: if_splits\<close>)
qed (auto simp: stat_step_def)

lemma stat_steps_error: "fold_res (stat_step ix setup) st steps \<noteq> Inl RECONCILIATION_FAILURE"
  by (auto dest!: fold_res_InlD stat_step_errors simp: step_errors_def)

lemma derived_reconciliation:
  assumes "deriveGameStatistics setup es privacy version = Inl RECONCILIATION_FAILURE"
  shows "\<exists>s steps ix st sd. replayEffectiveWithTimeline setup es = Inr (s, steps) \<and> playerSideIndex setup = Inr ix \<and>
    fold_res (stat_step ix setup) empty_stats steps = Inr st \<and>
    pit_total ix st sd P_outsRecorded \<noteq> table_total ix (st_fielding st) sd F_putouts"
proof -
  have no_replay: "replay_error e \<noteq> RECONCILIATION_FAILURE" for e by (cases e) simp_all
  have no_index: "playerSideIndex setup \<noteq> Inl RECONCILIATION_FAILURE"
  proof
    assume "playerSideIndex setup = Inl RECONCILIATION_FAILURE"
    moreover have "fold_res index_player ix ps = Inl e \<Longrightarrow> e = MISSING_ATTRIBUTION" for ix ps e
      by (induction ps arbitrary: ix) (auto simp: result_simps index_player_def split: if_splits)
    ultimately show False by (auto simp: playerSideIndex_def)
  qed
  obtain s steps ix where rep: "replayEffectiveWithTimeline setup es = Inr (s, steps)" and ix: "playerSideIndex setup = Inr ix"
    and rest: "and_then (fold_res (stat_step ix setup) empty_stats steps)
      (project setup es (case privacy of None \<Rightarrow> 0 | Some v \<Rightarrow> v) s ix) = Inl RECONCILIATION_FAILURE"
    using assms no_replay no_index
    by (cases "replayEffectiveWithTimeline setup es"; cases "playerSideIndex setup")
      (auto simp: deriveGameStatistics_def Let_def and_then_Inl_iff require_Inl_iff)
  show ?thesis
  proof (cases "fold_res (stat_step ix setup) empty_stats steps")
    case (Inr st)
    with rest have "project setup es (case privacy of None \<Rightarrow> 0 | Some v \<Rightarrow> v) s ix st = Inl RECONCILIATION_FAILURE" by simp
    from project_reconciliation [OF this] books_balance [OF rep Inr] rep ix Inr show ?thesis by metis
  next
    case (Inl e)
    with rest have "fold_res (stat_step ix setup) empty_stats steps = Inl RECONCILIATION_FAILURE" by simp
    then show ?thesis using stat_steps_error by blast
  qed
qed

end
