(* ===== verification/Season_Statistics.thy ===== *)
theory Season_Statistics
  imports Statistics_Ledger
begin

text \<open>
  Season aggregation (\<open>src/domain/statistics/season-statistics.ts\<close>): the selected side of
  every included game is summed per player and for the team.  The lemmas show that nothing is
  lost or counted twice: the team totals are the sums over the included games.
\<close>

section \<open>Aggregation\<close>

record season_selection =
  se_projection :: game_projection
  se_side :: game_side
  se_seasonId :: ident
  se_teamId :: ident

record ('k, 'r) season_line =
  sl_playerId :: ident
  sl_counters :: "'k counters"
  sl_rates :: 'r

record season_metadata =
  ssm_accountId :: ident
  ssm_seasonId :: ident
  ssm_teamId :: ident
  ssm_derivationVersion :: int
  ssm_statisticRulesVersion :: int
  ssm_includedGameIds :: "ident list"
  ssm_excludedUnverifiedGameIds :: "ident list"
  ssm_rulesetVersionIds :: "ident list"
  ssm_sourceRevisions :: "(ident \<times> int) list"

record season_projection =
  sp_metadata :: season_metadata
  sp_team :: team_statistics
  sp_batting :: "(batting_key, batting_rates) season_line list"
  sp_pitching :: "(pitching_key, pitching_rates) season_line list"
  sp_fielding :: "(fielding_key, fielding_rates) season_line list"

definition add_counters :: "'k counters \<Rightarrow> 'k counters \<Rightarrow> 'k counters" where
  "add_counters source target = (\<lambda>k. target k + source k)"

definition aggregate_table :: "('k, 'r) player_line list \<Rightarrow> 'k table" where
  "aggregate_table ls = fold (\<lambda>l. with_counters (pl_playerId l) (add_counters (pl_counters l))) ls []"

definition aggregatePlayers ::
    "('k counters \<Rightarrow> statistic_error + 'r) \<Rightarrow> ('k, 'r) player_line list \<Rightarrow> statistic_error + ('k, 'r) season_line list" where
  "aggregatePlayers rates ls =
     map_res (\<lambda>(x, c). and_then (rates c) (\<lambda>r. Inr \<lparr>sl_playerId = x, sl_counters = c, sl_rates = r\<rparr>))
       (sort_key fst (aggregate_table ls))"

definition game_id_of :: "season_selection \<Rightarrow> ident" where
  "game_id_of g = sm_gameId (gp_metadata (se_projection g))"

definition check_selection ::
    "ident \<Rightarrow> ident \<Rightarrow> ident \<Rightarrow> ident list \<Rightarrow> season_selection \<Rightarrow> statistic_error + ident list" where
  "check_selection accountId seasonId teamId seen g =
     (let m = gp_metadata (se_projection g) in
      and_then (require (sm_accountId m = accountId) ACCOUNT_MISMATCH_STAT) (\<lambda>_.
      and_then (require (\<not> (sm_derivationVersion m \<noteq> statistic_derivation_version \<or>
                             sm_statisticRulesVersion m \<noteq> statistic_rules_version)) UNSUPPORTED_RULESET) (\<lambda>_.
      and_then (require (\<not> (se_seasonId g \<noteq> seasonId \<or> se_teamId g \<noteq> teamId)) MISSING_ATTRIBUTION) (\<lambda>_.
      and_then (require (game_id_of g \<notin> set seen) RECONCILIATION_FAILURE) (\<lambda>_.
        Inr (game_id_of g # seen))))))"

definition is_included :: "bool option \<Rightarrow> season_selection \<Rightarrow> bool" where
  "is_included includeUnverified g \<longleftrightarrow>
     includeUnverified = Some True \<or> sm_verified (gp_metadata (se_projection g))"

text \<open>Game identifiers are distinct here, so the side never decides the order.\<close>

definition included_games :: "bool option \<Rightarrow> season_selection list \<Rightarrow> season_selection list" where
  "included_games inc gs = sort_key game_id_of (filter (is_included inc) gs)"

definition side_lines ::
    "(game_projection \<Rightarrow> ('k, 'r) player_line list) \<Rightarrow> season_selection list \<Rightarrow> ('k, 'r) player_line list" where
  "side_lines lines gs =
     concat (map (\<lambda>g. filter (\<lambda>l. pl_side l = se_side g) (lines (se_projection g))) gs)"

definition sum_lines :: "('k, 'r) season_line list \<Rightarrow> 'k counters" where
  "sum_lines ls = fold (\<lambda>l. add_counters (sl_counters l)) ls zero_counters"

definition deriveSeasonStatistics ::
    "ident \<Rightarrow> ident \<Rightarrow> ident \<Rightarrow> season_selection list \<Rightarrow> bool option \<Rightarrow> statistic_error + season_projection" where
  "deriveSeasonStatistics accountId seasonId teamId games inc =
     and_then (require (accountId \<noteq> [] \<and> seasonId \<noteq> [] \<and> teamId \<noteq> []) MISSING_ATTRIBUTION) (\<lambda>_.
     and_then (fold_res (check_selection accountId seasonId teamId) [] games) (\<lambda>_.
     (let gs = included_games inc games in
      and_then (aggregatePlayers deriveBattingRates (side_lines gp_batting gs)) (\<lambda>bl.
      and_then (aggregatePlayers derivePitchingRates (side_lines gp_pitching gs)) (\<lambda>pl.
      and_then (aggregatePlayers deriveFieldingRates (side_lines gp_fielding gs)) (\<lambda>fl.
      and_then (deriveBattingRates (sum_lines bl)) (\<lambda>br.
      and_then (derivePitchingRates (sum_lines pl)) (\<lambda>pr.
      and_then (deriveFieldingRates (sum_lines fl)) (\<lambda>fr.
        Inr \<lparr>sp_metadata = \<lparr>ssm_accountId = accountId, ssm_seasonId = seasonId, ssm_teamId = teamId,
               ssm_derivationVersion = statistic_derivation_version,
               ssm_statisticRulesVersion = statistic_rules_version,
               ssm_includedGameIds = map game_id_of gs,
               ssm_excludedUnverifiedGameIds = sort (map game_id_of (filter (\<lambda>g. \<not> is_included inc g) games)),
               ssm_rulesetVersionIds = sort (js_unique (map (\<lambda>g. sm_rulesetVersionId (gp_metadata (se_projection g))) gs)),
               ssm_sourceRevisions = map (\<lambda>g. (game_id_of g, sm_sourceRevision (gp_metadata (se_projection g)))) gs\<rparr>,
             sp_team = \<lparr>ts_batting = sum_lines bl, ts_battingRates = br, ts_pitching = sum_lines pl,
               ts_pitchingRates = pr, ts_fielding = sum_lines fl, ts_fieldingRates = fr\<rparr>,
             sp_batting = bl, sp_pitching = pl, sp_fielding = fl\<rparr>)))))))))"

section \<open>Nothing lost, nothing twice\<close>

lemma check_selection_Inr_iff [result_simps]:
  "check_selection a s t seen g = Inr seen' \<longleftrightarrow>
     sm_accountId (gp_metadata (se_projection g)) = a \<and>
     sm_derivationVersion (gp_metadata (se_projection g)) = statistic_derivation_version \<and>
     sm_statisticRulesVersion (gp_metadata (se_projection g)) = statistic_rules_version \<and>
     se_seasonId g = s \<and> se_teamId g = t \<and> game_id_of g \<notin> set seen \<and> seen' = game_id_of g # seen"
  by (auto simp: check_selection_def Let_def result_simps)

definition selection_ok :: "ident \<Rightarrow> ident \<Rightarrow> ident \<Rightarrow> season_selection \<Rightarrow> bool" where
  "selection_ok a s t g \<longleftrightarrow> is_ok (check_selection a s t [] g)"

lemma check_selections_Inr_iff:
  "fold_res (check_selection a s t) seen gs = Inr seen' \<longleftrightarrow>
     (\<forall>g\<in>set gs. selection_ok a s t g) \<and> distinct (map game_id_of gs) \<and>
     set seen \<inter> game_id_of ` set gs = {} \<and> seen' = rev (map game_id_of gs) @ seen"
  by (induction gs arbitrary: seen) (auto simp: result_simps selection_ok_def)

lemma adds_add_counters [additive]: "adds (add_counters c) c"
  by (simp add: adds_def add_counters_def)

definition total :: "'k table \<Rightarrow> 'k \<Rightarrow> int" where
  "total t k = sum_list (map (\<lambda>(x, c). c k) t)"

lemma total_with: "adds f d \<Longrightarrow> total (with_counters x f t) k = total t k + d k"
proof (induction t)
  case Nil
  then show ?case by (simp add: with_counters_def counters_of_def total_def adds_def zero_counters_def)
next
  case (Cons p t)
  then show ?case by (cases p) (simp add: with_counters_Cons total_def, simp add: adds_def)
qed

lemma aggregate_total: "total (aggregate_table ls) k = sum_list (map (\<lambda>l. pl_counters l k) ls)"
proof -
  have "total (fold (\<lambda>l. with_counters (pl_playerId l) (add_counters (pl_counters l))) ls t) k =
      total t k + sum_list (map (\<lambda>l. pl_counters l k) ls)" for t
    by (induction ls arbitrary: t) (simp_all add: total_with [OF adds_add_counters])
  then show ?thesis by (simp add: aggregate_table_def total_def)
qed

lemma sum_lines_eq: "sum_lines ls k = sum_list (map (\<lambda>l. sl_counters l k) ls)"
proof -
  have "fold (\<lambda>l. add_counters (sl_counters l)) ls c k = c k + sum_list (map (\<lambda>l. sl_counters l k) ls)" for c
    by (induction ls arbitrary: c) (simp_all add: add_counters_def)
  then show ?thesis by (simp add: sum_lines_def zero_counters_def)
qed

lemma aggregatePlayers_total:
  assumes "aggregatePlayers rates ls = Inr out"
  shows "sum_lines out k = sum_list (map (\<lambda>l. pl_counters l k) ls)"
proof -
  have "list_all2 (\<lambda>(x, c) l. sl_counters l = c) (sort_key fst (aggregate_table ls)) out"
    using assms unfolding aggregatePlayers_def map_res_Inr_iff
    by (rule list_all2_mono) (auto simp: and_then_Inr_iff)
  then have "sum_list (map (\<lambda>l. sl_counters l k) out) = total (sort_key fst (aggregate_table ls)) k"
    by (induction rule: list_all2_induct) (auto simp: total_def)
  also have "\<dots> = total (aggregate_table ls) k"
    unfolding total_def by (rule sum_list_mset) simp
  finally show ?thesis by (simp add: sum_lines_eq aggregate_total)
qed

lemma sum_side_lines:
  "sum_list (map (\<lambda>l. pl_counters l k) (side_lines lines gs)) =
     sum_list (map (\<lambda>g. side_counters (se_side g) (lines (se_projection g)) k) gs)"
  by (induction gs) (simp_all add: side_lines_def side_counters_def sumCounters_eq comp_def)

lemma season_inversion:
  assumes "deriveSeasonStatistics a s t games inc = Inr p"
  obtains bl pl fl where "\<forall>g\<in>set games. selection_ok a s t g" "distinct (map game_id_of games)"
    "aggregatePlayers deriveBattingRates (side_lines gp_batting (included_games inc games)) = Inr bl"
    "aggregatePlayers derivePitchingRates (side_lines gp_pitching (included_games inc games)) = Inr pl"
    "aggregatePlayers deriveFieldingRates (side_lines gp_fielding (included_games inc games)) = Inr fl"
    "ts_batting (sp_team p) = sum_lines bl" "ts_pitching (sp_team p) = sum_lines pl" "ts_fielding (sp_team p) = sum_lines fl"
    "ssm_includedGameIds (sp_metadata p) = map game_id_of (included_games inc games)"
    "ssm_excludedUnverifiedGameIds (sp_metadata p) = sort (map game_id_of (filter (\<lambda>g. \<not> is_included inc g) games))"
proof -
  from assms obtain bl pl fl where "fold_res (check_selection a s t) [] games = Inr (rev (map game_id_of games) @ [])"
    "aggregatePlayers deriveBattingRates (side_lines gp_batting (included_games inc games)) = Inr bl"
    "aggregatePlayers derivePitchingRates (side_lines gp_pitching (included_games inc games)) = Inr pl"
    "aggregatePlayers deriveFieldingRates (side_lines gp_fielding (included_games inc games)) = Inr fl"
    "ts_batting (sp_team p) = sum_lines bl" "ts_pitching (sp_team p) = sum_lines pl" "ts_fielding (sp_team p) = sum_lines fl"
    "ssm_includedGameIds (sp_metadata p) = map game_id_of (included_games inc games)"
    "ssm_excludedUnverifiedGameIds (sp_metadata p) = sort (map game_id_of (filter (\<lambda>g. \<not> is_included inc g) games))"
    by (auto simp: deriveSeasonStatistics_def Let_def and_then_Inr_iff check_selections_Inr_iff)
  then show ?thesis by (intro that) (simp_all add: check_selections_Inr_iff)
qed

lemma season_totals:
  assumes "deriveSeasonStatistics a s t games inc = Inr p"
  shows "ts_batting (sp_team p) k = sum_list (map (\<lambda>g. side_counters (se_side g) (gp_batting (se_projection g)) k) (filter (is_included inc) games))"
    and "ts_pitching (sp_team p) k' = sum_list (map (\<lambda>g. side_counters (se_side g) (gp_pitching (se_projection g)) k') (filter (is_included inc) games))"
    and "ts_fielding (sp_team p) k'' = sum_list (map (\<lambda>g. side_counters (se_side g) (gp_fielding (se_projection g)) k'') (filter (is_included inc) games))"
proof -
  have same: "sum_list (map f (included_games inc games)) = sum_list (map f (filter (is_included inc) games))" for f :: "season_selection \<Rightarrow> int"
    by (rule sum_list_mset) (simp add: included_games_def)
  from season_inversion [OF assms] obtain bl pl fl where
    "aggregatePlayers deriveBattingRates (side_lines gp_batting (included_games inc games)) = Inr bl"
    "aggregatePlayers derivePitchingRates (side_lines gp_pitching (included_games inc games)) = Inr pl"
    "aggregatePlayers deriveFieldingRates (side_lines gp_fielding (included_games inc games)) = Inr fl"
    "ts_batting (sp_team p) = sum_lines bl" "ts_pitching (sp_team p) = sum_lines pl" "ts_fielding (sp_team p) = sum_lines fl"
    by metis
  then show "ts_batting (sp_team p) k = sum_list (map (\<lambda>g. side_counters (se_side g) (gp_batting (se_projection g)) k) (filter (is_included inc) games))"
    "ts_pitching (sp_team p) k' = sum_list (map (\<lambda>g. side_counters (se_side g) (gp_pitching (se_projection g)) k') (filter (is_included inc) games))"
    "ts_fielding (sp_team p) k'' = sum_list (map (\<lambda>g. side_counters (se_side g) (gp_fielding (se_projection g)) k'') (filter (is_included inc) games))"
    by (simp_all add: aggregatePlayers_total sum_side_lines same)
qed

lemma season_order_irrelevant:
  assumes ok: "deriveSeasonStatistics a s t games inc = Inr p" and eq: "mset games = mset games'"
  shows "deriveSeasonStatistics a s t games' inc = Inr p"
proof -
  from season_inversion [OF ok] have sel: "\<forall>g\<in>set games. selection_ok a s t g" "distinct (map game_id_of games)" by metis+
  have "distinct (map game_id_of games')" using sel(2) eq by (metis mset_eq_imp_distinct_iff mset_map)
  with sel eq have checks: "fold_res (check_selection a s t) [] games' = Inr (rev (map game_id_of games') @ [])"
    by (simp add: check_selections_Inr_iff mset_eq_setD [OF eq])
  have inc: "included_games inc games' = included_games inc games"
    unfolding included_games_def
  proof (rule sort_key_eq_sort_key)
    show "mset (filter (is_included inc) games') = mset (filter (is_included inc) games)" using eq by (simp add: mset_filter)
    show "inj_on game_id_of (set (filter (is_included inc) games'))"
      using \<open>distinct (map game_id_of games')\<close> by (auto simp: distinct_map inj_on_def)
  qed
  have "mset (map game_id_of (filter (\<lambda>g. \<not> is_included inc g) games')) =
      mset (map game_id_of (filter (\<lambda>g. \<not> is_included inc g) games))"
    using eq by (simp add: mset_filter)
  then have exc: "sort (map game_id_of (filter (\<lambda>g. \<not> is_included inc g) games')) =
      sort (map game_id_of (filter (\<lambda>g. \<not> is_included inc g) games))"
    by (metis properties_for_sort mset_sort sorted_sort)
  have "fold_res (check_selection a s t) [] games = Inr (rev (map game_id_of games) @ [])"
    using sel by (simp add: check_selections_Inr_iff)
  with ok checks show ?thesis by (simp add: deriveSeasonStatistics_def inc exc)
qed

end
