(* ===== verification/Sample_Game.thy ===== *)
theory Sample_Game
  imports Season_Statistics
begin

text \<open>
  A small game on which the properties are exercised: three players and a substitute per side,
  two plays, a correction and its reversal; and the bundle of definitions with which the
  simplifier evaluates the model.  The weak congruence rules keep it from rewriting the
  continuation of a computation before the computation has returned.
\<close>

section \<open>Evaluation\<close>

lemma and_then_weak_cong: "r = r' \<Longrightarrow> and_then r f = and_then r' f"
  by simp

lemmas weak_congs = and_then_weak_cong option.case_cong_weak sum.case_cong_weak if_weak_cong

lemmas prelude_defs = js_space_def trim_def modify_at_def js_unique_def safe_int_def max_safe_integer_def

lemmas event_defs = id_ok_def trim_out_def trim_movement_def trim_credit_def trim_replacement_def trim_correction_def
  out_ok_def movement_shape_ok_def movement_judgments_ok_def movement_ok_def credit_ok_def error_credits_def
  error_types_ok_def plate_appearance_ok_def runner_out_ok_def stolen_base_ok_def out_movements_def runner_play_ok_def
  alignment_ok_def replacement_ok_def correction_ok_def run_classifications_def validateVersionedRunClassifications_def
  event_schema_version_def supported_versions_def

lemmas engine_defs = active_entries_def batters_in_order_def setup_lineup_ok_def validateSetupSide_def defense_for_def
  by_side_def createInitialState_def battingSide_def fieldingSide_def activeBatters_def currentBatter_def requireLive_def
  finishOuts_def all_bases_def all_positions_def defense_values_def occupied_runners_def movement_origins_def
  movement_destinations_def movements_unique_def forcedSafeMovement_def validForcedAdvance_def check_forced_def
  check_movement_def out_details_def expected_out_numbers_def inning_ending_force_def counting_run_def free_origins_def
  place_runner_def base_ranks_def original_ranks_def ranked_runners_def passes_def no_passing_def move_runners_def
  applyMovements_def move_and_finish_def validateBatterResolution_def credits_valid_def sacrifice_contradiction_def
  batter_movements_def advance_batting_order_def apply_plate_appearance_def apply_runner_advance_def
  runner_out_movement_def apply_runner_out_def steal_movement_def apply_stolen_base_def apply_runner_play_def
  removeDefensivePlayer_def substitution_allowed_def hand_over_runner_def substitute_entries_def substitution_effect_def
  apply_substitution_def clear_players_def assign_position_def align_entry_def apply_alignment_def
  pitching_change_allowed_def pitching_entries_def pitching_effect_def apply_pitching_change_def inning_number_def
  regulation_ending_def walk_off_ending_def set_status_if_def apply_completion_def validateEventIdentity_def
  validateNextEnvelope_def advance_revision_def applyEvent_def previewEventBody_def

lemmas replay_defs = empty_resolution_def by_sequence_def by_id_def claim_target_def claim_replacement_id_def
  place_replacements_def resolve_event_def resolveCorrections_def resolveEffectiveEvents_def replay_step_def
  replacement_step_def event_step_def replay_replacements_def replay_own_body_def replay_event_def
  replayEffectiveWithTimeline_def replayEffective_def deriveEventStates_def reducer_version_def check_evidence_def
  replayGame_def

lemmas statistic_defs = assertSafeNonnegativeInteger_def exactRate_def addExactRates_def enum_batting_key_def
  enum_pitching_key_def enum_fielding_key_def less_eq_game_side_def less_game_side_def zero_counters_def bump_def
  counters_of_def with_counters_def validateCounters_def batting_invariant_def deriveBattingRates_def
  pitching_invariant_def derivePitchingRates_def deriveFieldingRates_def empty_stats_def step_battingSide_def
  index_player_def side_players_def playerSideIndex_def requirePlayerSide_def battingFor_def pitchingFor_def
  fieldingFor_def no_at_bat_def bump_if_def batter_outcome_def pitcher_outcome_def applyPlateOutcome_def
  assertEarnedRun_def recordInning_def applyCountingRun_def credit_assist_def creditOutPath_def credit_key_def
  apply_credit_def movement_fielders_def credit_out_def credit_play_def credit_multiple_def stat_game_started_def
  stat_plate_appearance_def stat_runner_advance_def stat_runner_out_def steal_home_movement_def stat_stolen_base_def
  stat_runner_play_movement_def stat_runner_play_def stat_pitching_change_def stat_step_def player_lines_def
  sumCounters_def side_counters_def team_statistics_of_def assertEqual_def inning_total_def reconcile_side_def
  scoringOutcome_def inning_lines_def statistic_derivation_version_def statistic_rules_version_def project_def
  deriveGameStatistics_def greatestCommonDivisor.simps

section \<open>The game\<close>

definition sample_entry :: "ident \<Rightarrow> int option \<Rightarrow> position option \<Rightarrow> lineup_entry" where
  "sample_entry x bo pos = \<lparr>le_playerId = x, le_battingOrder = bo, le_position = pos, le_active = (pos \<noteq> None)\<rparr>"

definition sample_setup :: accepted_setup where
  "sample_setup = \<lparr>su_id = ''s'', su_accountId = ''a'', su_gameId = ''g'', su_setupRevision = 1,
     su_rulesetVersionId = ''r'', su_scheduledInnings = 9, su_status = ''READY'',
     su_sides = by_side
       \<lparr>ss_lineup = [sample_entry ''h1'' (Some 1) (Some PITCHER), sample_entry ''h2'' (Some 2) (Some CATCHER),
                     sample_entry ''h3'' (Some 3) (Some FIRST_BASE), sample_entry ''h4'' None None],
        ss_startingPitcherId = ''h1''\<rparr>
       \<lparr>ss_lineup = [sample_entry ''v1'' (Some 1) (Some PITCHER), sample_entry ''v2'' (Some 2) (Some CATCHER),
                     sample_entry ''v3'' (Some 3) (Some FIRST_BASE), sample_entry ''v4'' None None],
        ss_startingPitcherId = ''v1''\<rparr>\<rparr>"

definition sample_actor :: event_actor where
  "sample_actor = \<lparr>ac_kind = USER, ac_id = ''u'', ac_userId = Some ''u''\<rparr>"

text \<open>A stand-in for the digest of a state: as many marks as events were accepted.\<close>

definition sample_hash :: "game_state \<Rightarrow> string" where
  "sample_hash s = replicate (nat (gs_lastSequence s)) (CHR ''x'')"

definition sample_event :: "ident \<Rightarrow> nat \<Rightarrow> event_body \<Rightarrow> accepted_event" where
  "sample_event i n b = \<lparr>ev_id = i, ev_accountId = ''a'', ev_gameId = ''g'', ev_setupSnapshotId = ''s'',
     ev_setupRevision = 1, ev_sequence = int n, ev_schemaVersion = 3, ev_rulesetVersionId = ''r'',
     ev_playTransactionId = None, ev_componentOrder = None, ev_clientSubmissionId = i,
     ev_expectedRevision = int n - 1, ev_acceptedRevision = int n, ev_actor = sample_actor,
     ev_recordedAt = [], ev_acceptedAt = [], ev_body = b,
     ev_preStateHash = replicate (n - 1) (CHR ''x''), ev_postStateHash = replicate n (CHR ''x'')\<rparr>"

definition safe_move :: "ident \<Rightarrow> runner_origin \<Rightarrow> runner_destination \<Rightarrow> bool \<Rightarrow> ident \<Rightarrow> runner_movement" where
  "safe_move x frm dst forced p = \<lparr>mv_runnerId = x, mv_from = frm, mv_to = dst, mv_cause = Cause_HIT, mv_forced = forced,
     mv_responsiblePitcherId = p, mv_runCounts = (if dst = To_HOME then Some True else None),
     mv_rbiEligible = (if dst = To_HOME then Some True else None),
     mv_earnedRun = (if dst = To_HOME then Some EARNED else None), mv_out = None\<rparr>"

definition out_move :: "ident \<Rightarrow> runner_origin \<Rightarrow> int \<Rightarrow> bool \<Rightarrow> ident \<Rightarrow> runner_movement" where
  "out_move x frm n force p = \<lparr>mv_runnerId = x, mv_from = frm, mv_to = To_OUT, mv_cause = Cause_BATTER_RESULT,
     mv_forced = False, mv_responsiblePitcherId = p, mv_runCounts = None, mv_rbiEligible = None, mv_earnedRun = None,
     mv_out = Some \<lparr>out_outNumber = n, out_force = force, out_fielders = [''h3'']\<rparr>\<rparr>"

definition sample_pa :: "ident \<Rightarrow> plate_outcome \<Rightarrow> runner_movement list \<Rightarrow> plate_appearance" where
  "sample_pa x outcome ms = \<lparr>pa_batterId = x, pa_pitcherId = ''h1'', pa_outcome = outcome, pa_battedBall = None,
     pa_movements = ms, pa_fieldingCredits = []\<rparr>"

definition sample_play :: "ident \<Rightarrow> plate_outcome \<Rightarrow> runner_movement list \<Rightarrow> event_body" where
  "sample_play x outcome ms = Play (PlateAppearanceRecorded (sample_pa x outcome ms))"

definition single_move :: runner_movement where
  "single_move = safe_move ''v1'' BATTER (To_base FIRST) False ''h1''"

definition homer_moves :: "runner_movement list" where
  "homer_moves = [safe_move ''v2'' BATTER To_HOME False ''h1'', safe_move ''v1'' (From_base FIRST) To_HOME False ''h1'']"

definition sample_events :: "accepted_event list" where
  "sample_events =
     [sample_event ''e1'' 1 GameStarted, sample_event ''e2'' 2 (sample_play ''v1'' SINGLE [single_move]),
      sample_event ''e3'' 3 (sample_play ''v2'' HOME_RUN homer_moves)]"

definition sample_reversal :: "ident \<Rightarrow> correction" where
  "sample_reversal i = \<lparr>co_policy = REVERSE_EVENTS, co_targetEventIds = [i], co_replacements = [], co_reasonCode = ''ERROR''\<rparr>"

definition correction_event :: accepted_event where
  "correction_event = sample_event ''c1'' 3 (CorrectionApplied (sample_reversal ''e2''))"

definition reversal_event :: accepted_event where
  "reversal_event = sample_event ''c2'' 4 (CorrectionApplied (sample_reversal ''c1''))"

lemmas sample_defs = sample_setup_def sample_entry_def sample_actor_def sample_hash_def sample_event_def safe_move_def
  out_move_def sample_pa_def sample_play_def single_move_def homer_moves_def sample_events_def sample_reversal_def
  correction_event_def reversal_event_def

lemmas season_defs = check_selection_def game_id_of_def is_included_def included_games_def side_lines_def sum_lines_def
  add_counters_def aggregate_table_def aggregatePlayers_def deriveSeasonStatistics_def

lemmas evaluation = prelude_defs event_defs engine_defs replay_defs statistic_defs season_defs sample_defs Let_def

text \<open>States of the sample game, for the properties of single steps.\<close>

definition after_events :: "accepted_event list \<Rightarrow> game_state" where
  "after_events es = (case replayEffective sample_setup es of Inr s \<Rightarrow> s)"

definition sample_initial :: game_state where
  "sample_initial = (case createInitialState sample_setup of Inr s \<Rightarrow> s)"

definition runner_on_first :: game_state where
  "runner_on_first = after_events (take 2 sample_events)"

text \<open>After the first single with two out, and a fielder's choice that forces the runner for the third out.\<close>

definition two_outs :: game_state where
  "two_outs = runner_on_first\<lparr>gs_outs := 2\<rparr>"

definition force_out :: play_body where
  "force_out = PlateAppearanceRecorded (sample_pa ''v2'' FIELDER_CHOICE
     [safe_move ''v2'' BATTER (To_base FIRST) False ''h1'', out_move ''v1'' (From_base FIRST) 3 True ''h1''])"

text \<open>Two runners on.\<close>

definition first_and_second :: game_state where
  "first_and_second = runner_on_first\<lparr>gs_bases := [FIRST \<mapsto> ''v2'', SECOND \<mapsto> ''v1''],
     gs_runnerPitcherResponsibility := [''v1'' \<mapsto> ''h1'', ''v2'' \<mapsto> ''h1'']\<rparr>"

text \<open>A defensive substitution and the state after it.\<close>

definition pinch :: event_body where
  "pinch = Play (DefensiveSubstitutionMade \<lparr>ds_side = HOME, ds_outgoingPlayerId = ''h3'', ds_incomingPlayerId = ''h4'',
     ds_position = FIRST_BASE\<rparr>)"

definition substituted :: game_state where
  "substituted = (case applyBody runner_on_first pinch of Inr s \<Rightarrow> s)"

text \<open>A walk with a runner on first.\<close>

definition walk_moves :: "runner_movement list" where
  "walk_moves = [safe_move ''v2'' BATTER (To_base FIRST) True ''h1'', safe_move ''v1'' (From_base FIRST) (To_base SECOND) True ''h1'']"

text \<open>A visiting side with a single batter, whose double follows his own single.\<close>

definition short_order :: accepted_setup where
  "short_order = sample_setup\<lparr>su_sides := by_side (su_sides sample_setup HOME)
     \<lparr>ss_lineup = [sample_entry ''v1'' (Some 1) (Some PITCHER)], ss_startingPitcherId = ''v1''\<rparr>\<rparr>"

definition double_move :: runner_movement where
  "double_move = safe_move ''v1'' BATTER (To_base SECOND) False ''h1''"

text \<open>Statistics of the game, and a strikeout to which no putout is credited.\<close>

definition sample_index :: side_index where
  "sample_index = side_players sample_setup AWAY @ side_players sample_setup HOME"

definition uncredited_out :: "accepted_event list" where
  "uncredited_out = [sample_event ''e1'' 1 GameStarted,
     sample_event ''e2'' 2 (Play (PlateAppearanceRecorded ((sample_pa ''v1'' STRIKEOUT_SWINGING
       [out_move ''v1'' BATTER 1 False ''h1''])\<lparr>pa_fieldingCredits :=
         [\<lparr>fc_fielderId = ''h2'', fc_credit = ASSIST, fc_errorType = None\<rparr>]\<rparr>)))]"

definition sample_projection :: game_projection where
  "sample_projection = (case deriveGameStatistics sample_setup sample_events None None of Inr p \<Rightarrow> p)"

text \<open>A season of one and of two games.\<close>

definition sample_selection :: season_selection where
  "sample_selection = \<lparr>se_projection = sample_projection, se_side = AWAY, se_seasonId = ''y'', se_teamId = ''t''\<rparr>"

definition second_selection :: season_selection where
  "second_selection = sample_selection\<lparr>se_projection := sample_projection\<lparr>gp_metadata :=
     (gp_metadata sample_projection)\<lparr>sm_gameId := ''g2''\<rparr>\<rparr>\<rparr>"

lemmas eval = runner_on_first_def after_events_def sample_initial_def two_outs_def force_out_def first_and_second_def
  pinch_def substituted_def walk_moves_def short_order_def double_move_def sample_index_def uncredited_out_def
  sample_projection_def sample_selection_def second_selection_def evaluation

lemma sample_initial: "createInitialState sample_setup = Inr sample_initial"
  by (simp add: sample_initial_def evaluation cong: weak_congs)

lemma sample_named: "setup_named sample_setup"
  by (simp add: setup_named_def sample_defs by_side_def split: game_side.splits)

lemma replay_of_sample: "replayEffective sample_setup (take 2 sample_events) = Inr runner_on_first"
  by (simp add: runner_on_first_def after_events_def evaluation cong: weak_congs)

lemma replay_run:
  assumes "replayEffective setup es = Inr s" and "setup_named setup"
  shows "counts_wf s \<and> lineups_wf s"
proof -
  obtain steps where "replayEffectiveWithTimeline setup es = Inr (s, steps)"
    using assms(1) by (auto simp: replayEffective_def result_simps)
  from timeline_inv [OF this assms(2)] show ?thesis by (simp add: replay_inv_def)
qed

lemma all_batting: "(\<forall>k. P k) = list_all P (enum_class.enum :: batting_key list)"
  by (simp add: list_all_iff enum_UNIV)

end
