(* ===== verification/Timestamps.thy ===== *)
theory Timestamps
  imports Statistic_Values
begin

text \<open>
  The ISO 8601 part of JavaScript's \<open>Date\<close>, which the fantasy components use on their
  timestamps: \<open>Date.parse\<close> on the date-time format with an offset, and \<open>toISOString\<close>.  An
  instant is a number of milliseconds since 1970 in UTC.  \<open>None\<close> stands for \<open>NaN\<close>; strings of
  other formats are outside the model, and every caller has checked the format before.
\<close>

section \<open>The proleptic Gregorian calendar\<close>

definition days_from_civil :: "int \<Rightarrow> int \<Rightarrow> int \<Rightarrow> int" where
  "days_from_civil y m d =
     (let y' = (if m \<le> 2 then y - 1 else y);
          yoe = y' mod 400;
          doy = (153 * (if m > 2 then m - 3 else m + 9) + 2) div 5 + d - 1
      in (y' div 400) * 146097 + yoe * 365 + yoe div 4 - yoe div 100 + doy - 719468)"

definition civil_from_days :: "int \<Rightarrow> int \<times> int \<times> int" where
  "civil_from_days z =
     (let z' = z + 719468;
          doe = z' mod 146097;
          yoe = (doe - doe div 1460 + doe div 36524 - doe div 146096) div 365;
          doy = doe - (365 * yoe + yoe div 4 - yoe div 100);
          mp = (5 * doy + 2) div 153;
          d = doy - (153 * mp + 2) div 5 + 1;
          m = (if mp < 10 then mp + 3 else mp - 9)
      in (yoe + (z' div 146097) * 400 + (if m \<le> 2 then 1 else 0), m, d))"

definition max_time :: int where
  "max_time = 8640000000000000"

definition day_ms :: int where
  "day_ms = 86400000"

section \<open>Reading and printing\<close>

text \<open>The readers consume a prefix of the input.\<close>

definition read_fixed :: "nat \<Rightarrow> string \<Rightarrow> (int \<times> string) option" where
  "read_fixed n s =
     (if length s < n then None
      else map_option (\<lambda>k. (int k, drop n s)) (read_digits 0 (take n s)))"

fun read_char :: "char \<Rightarrow> string \<Rightarrow> string option" where
  "read_char c (x # xs) = (if x = c then Some xs else None)"
| "read_char c [] = None"

definition read_year :: "string \<Rightarrow> (int \<times> string) option" where
  "read_year s =
     (case s of
        [] \<Rightarrow> None
      | c # cs \<Rightarrow>
          if c = CHR ''+'' then read_fixed 6 cs
          else if c = CHR ''-'' then
            (case read_fixed 6 cs of Some (y, r) \<Rightarrow> if y = 0 then None else Some (- y, r) | None \<Rightarrow> None)
          else read_fixed 4 s)"

definition read_pair :: "char \<Rightarrow> string \<Rightarrow> (int \<times> string) option" where
  "read_pair c s = Option.bind (read_char c s) (read_fixed 2)"

definition read_seconds :: "string \<Rightarrow> (int \<times> string) option" where
  "read_seconds s = (if take 1 s = '':'' then read_pair (CHR '':'') s else Some (0, s))"

text \<open>A fraction counts with its first three digits.\<close>

definition read_millis :: "string \<Rightarrow> (int \<times> string) option" where
  "read_millis s =
     (if take 1 s \<noteq> ''.'' then Some (0, s)
      else (let digits = takeWhile (\<lambda>c. digit_value c \<noteq> None) (drop 1 s) in
        if digits = [] then None
        else map_option (\<lambda>k. (int k, drop (Suc (length digits)) s))
               (read_digits 0 (take 3 (digits @ ''00'')))))"

definition read_offset :: "string \<Rightarrow> int option" where
  "read_offset s =
     (if s = ''Z'' then Some 0
      else case s of
        [] \<Rightarrow> None
      | c # cs \<Rightarrow>
          if c \<noteq> CHR ''+'' \<and> c \<noteq> CHR ''-'' then None
          else Option.bind (read_fixed 2 cs) (\<lambda>(h, s).
               Option.bind (read_pair (CHR '':'') s) (\<lambda>(m, s).
                 if s \<noteq> [] \<or> h > 23 \<or> m > 59 then None
                 else Some ((if c = CHR ''-'' then - 1 else 1) * (h * 60 + m) * 60000))))"

definition time_of_day :: "int \<Rightarrow> int \<Rightarrow> int \<Rightarrow> int \<Rightarrow> int option" where
  "time_of_day h m s ms =
     (if (h \<le> 23 \<and> m \<le> 59 \<and> s \<le> 59) \<or> (h = 24 \<and> m = 0 \<and> s = 0 \<and> ms = 0)
      then Some (((h * 60 + m) * 60 + s) * 1000 + ms) else None)"

text \<open>
  \<open>Date.parse\<close>.  A day of the month up to 31 is accepted in every month and carries over, as the
  engine's parser does.
\<close>

definition date_parse :: "string \<Rightarrow> int option" where
  "date_parse str =
     Option.bind (read_year str) (\<lambda>(y, s).
     Option.bind (read_pair (CHR ''-'') s) (\<lambda>(mo, s).
     Option.bind (read_pair (CHR ''-'') s) (\<lambda>(d, s).
     Option.bind (read_pair (CHR ''T'') s) (\<lambda>(h, s).
     Option.bind (read_pair (CHR '':'') s) (\<lambda>(mi, s).
     Option.bind (read_seconds s) (\<lambda>(sec, s).
     Option.bind (read_millis s) (\<lambda>(ms, s).
     Option.bind (read_offset s) (\<lambda>off.
     Option.bind (time_of_day h mi sec ms) (\<lambda>t.
       let r = days_from_civil y mo d * day_ms + t - off in
       if 1 \<le> mo \<and> mo \<le> 12 \<and> 1 \<le> d \<and> d \<le> 31 \<and> - max_time \<le> r \<and> r \<le> max_time then Some r else None)))))))))"

definition print_fixed :: "nat \<Rightarrow> int \<Rightarrow> string" where
  "print_fixed w n = pad_zero w (string_of_int n)"

definition print_year :: "int \<Rightarrow> string" where
  "print_year y =
     (if 0 \<le> y \<and> y \<le> 9999 then print_fixed 4 y
      else if y < 0 then CHR ''-'' # print_fixed 6 (- y) else CHR ''+'' # print_fixed 6 y)"

text \<open>\<open>new Date(t).toISOString()\<close> for a \<open>t\<close> in range.\<close>

definition iso_string :: "int \<Rightarrow> string" where
  "iso_string t =
     (case civil_from_days (t div day_ms) of (y, m, d) \<Rightarrow>
        (let r = t mod day_ms in
         print_year y @ ''-'' @ print_fixed 2 m @ ''-'' @ print_fixed 2 d @ ''T'' @
         print_fixed 2 (r div 3600000) @ '':'' @ print_fixed 2 (r div 60000 mod 60) @ '':'' @
         print_fixed 2 (r div 1000 mod 60) @ ''.'' @ print_fixed 3 (r mod 1000) @ ''Z''))"

section \<open>Comparing timestamps\<close>

text \<open>A comparison with \<open>NaN\<close> is false.\<close>

definition time_le :: "string \<Rightarrow> string \<Rightarrow> bool" where
  "time_le a b = (case (date_parse a, date_parse b) of (Some x, Some y) \<Rightarrow> x \<le> y | _ \<Rightarrow> False)"

definition time_less :: "string \<Rightarrow> string \<Rightarrow> bool" where
  "time_less a b = (case (date_parse a, date_parse b) of (Some x, Some y) \<Rightarrow> x < y | _ \<Rightarrow> False)"

text \<open>\<open>new Date(Date.parse(s)).toISOString() === s\<close>\<close>

definition canonical_iso :: "string \<Rightarrow> bool" where
  "canonical_iso s = (case date_parse s of None \<Rightarrow> False | Some t \<Rightarrow> iso_string t = s)"

lemma canonical_isoE:
  assumes "canonical_iso s"
  obtains t where "date_parse s = Some t" and "iso_string t = s"
  using assms unfolding canonical_iso_def by (cases "date_parse s") simp_all

lemma canonical_iso_inject:
  "canonical_iso a \<Longrightarrow> canonical_iso b \<Longrightarrow> date_parse a = date_parse b \<longleftrightarrow> a = b"
  by (metis canonical_isoE option.inject)

lemma time_less_irrefl [simp]: "\<not> time_less a a"
  by (simp add: time_less_def split: option.splits)

lemma time_less_trans [trans]: "time_less a b \<Longrightarrow> time_less b c \<Longrightarrow> time_less a c"
  by (auto simp: time_less_def split: option.splits)

lemma time_less_asym: "time_less a b \<Longrightarrow> \<not> time_less b a"
  by (auto simp: time_less_def split: option.splits)

lemma time_less_le_trans: "time_less a b \<Longrightarrow> time_le b c \<Longrightarrow> time_less a c"
  by (auto simp: time_less_def time_le_def split: option.splits)

lemma time_le_less_trans: "time_le a b \<Longrightarrow> time_less b c \<Longrightarrow> time_less a c"
  by (auto simp: time_less_def time_le_def split: option.splits)

lemma time_less_imp_le: "time_less a b \<Longrightarrow> time_le a b"
  by (auto simp: time_less_def time_le_def split: option.splits)

lemma not_time_less_le: "canonical_iso a \<Longrightarrow> canonical_iso b \<Longrightarrow> \<not> time_less a b \<longleftrightarrow> time_le b a"
  by (elim canonical_isoE) (auto simp: time_less_def time_le_def)

end
