(* ===== verification/Fantasy_Rules.thy ===== *)
theory Fantasy_Rules
  imports Timestamps
begin

text \<open>
  Fantasy scoring models (\<open>src/domain/fantasy-rules.ts\<close>): their validation and content digest,
  their lifecycle, the score of a statistics snapshot and the eligibility of a player for a
  lineup slot.  The SHA-256 digest of the canonical JSON of a model is the parameter \<open>digest\<close>.
  Numbers are integers; where a sum or product would leave the safe integers the source throws, as
  the model does.  \<open>freezeModel\<close> copies and freezes, which a value of HOL needs no model of.
\<close>

datatype rules_error = INVALID_MODEL | INVALID_DIGEST | INVALID_TRANSITION_RULES | MODEL_NOT_SCORABLE
  | STATISTIC_REGISTRY_MISMATCH | STATISTIC_UNAVAILABLE | STATISTIC_INVALID | UNVERIFIED_STATISTICS
  | ACCOUNT_NOT_AUTHORIZED | NOT_ROSTERED_AT_LOCK | LINEUP_SLOT_UNKNOWN | POSITION_INELIGIBLE_RULES
  | RULES_TYPE_ERROR

section \<open>Models\<close>

datatype owner_kind = OWNER_PLATFORM | OWNER_ORGANIZATION | OWNER_LEAGUE | OWNER_ACCOUNT

record model_owner =
  mo_kind :: owner_kind
  mo_id :: "ident option"

datatype model_lifecycle = MODEL_DRAFT | MODEL_REVIEWED | MODEL_ACTIVE | MODEL_DEPRECATED | MODEL_RETIRED

datatype category_domain = DOMAIN_BATTING | DOMAIN_PITCHING | DOMAIN_FIELDING | DOMAIN_CUSTOM

record scoring_category =
  ca_id :: ident
  ca_domain :: category_domain
  ca_sourceStatistic :: string
  ca_label :: string
  ca_milliPointsPerUnit :: int

record position_rule =
  pr_positionCode :: string
  pr_minimumAppearances :: int
  pr_minimumPitchingOuts :: int

record eligibility_rules =
  el_rosterSource :: string
  el_unknownEligibility :: string
  el_positionRules :: "position_rule list"

record lineup_slot_rule =
  ls_id :: ident
  ls_count :: int
  ls_eligiblePositionCodes :: "string list"

record roster_rules =
  rr_maximumRosterSize :: int
  rr_benchSlots :: int
  rr_lineupSlots :: "lineup_slot_rule list"
  rr_lineupLock :: string
  rr_missingLineupBehavior :: string
  rr_benchScoring :: string

record cadence_rules =
  cd_periodKind :: string
  cd_boundarySource :: string
  cd_completionGraceHours :: int
  cd_correctionPolicy :: string
  cd_regularSeasonTie :: string
  cd_playoffTieBreaker :: string

text \<open>What the content digest covers; a model version adds its lifecycle and the digest itself.\<close>

record model_semantics =
  fm_modelId :: ident
  fm_modelVersionId :: ident
  fm_owner :: model_owner
  fm_version :: int
  fm_name :: string
  fm_format :: string
  fm_statisticRegistryVersion :: string
  fm_categories :: "scoring_category list"
  fm_eligibility :: eligibility_rules
  fm_roster :: roster_rules
  fm_cadence :: cadence_rules

record model_input = model_semantics +
  fm_lifecycle :: model_lifecycle

record scoring_model = model_input +
  fm_contractVersion :: int
  fm_contentDigest :: string

definition rules_contract_version :: int where
  "rules_contract_version = 1"

definition initial_fantasy_format :: string where
  "initial_fantasy_format = ''WEEKLY_HEAD_TO_HEAD_POINTS''"

section \<open>Validation\<close>

definition requireNonempty :: "string \<Rightarrow> rules_error + unit" where
  "requireNonempty s = require (s \<noteq> []) INVALID_MODEL"

definition requireNonnegativeInteger :: "int \<Rightarrow> rules_error + unit" where
  "requireNonnegativeInteger n = require (safe_int n \<and> 0 \<le> n) INVALID_MODEL"

definition check_owner :: "model_owner \<Rightarrow> rules_error + unit" where
  "check_owner ow =
     (if mo_kind ow = OWNER_PLATFORM then require (mo_id ow = None) INVALID_MODEL
      else case mo_id ow of None \<Rightarrow> Inl RULES_TYPE_ERROR | Some i \<Rightarrow> requireNonempty i)"

definition check_category :: "ident list \<Rightarrow> scoring_category \<Rightarrow> rules_error + ident list" where
  "check_category seen c =
     and_then (requireNonempty (ca_id c)) (\<lambda>_.
     and_then (requireNonempty (ca_label c)) (\<lambda>_.
     and_then (requireNonempty (ca_sourceStatistic c)) (\<lambda>_.
     and_then (require (ca_id c \<notin> set seen) INVALID_MODEL) (\<lambda>_.
     and_then (require (safe_int (ca_milliPointsPerUnit c) \<and> ca_milliPointsPerUnit c \<noteq> 0) INVALID_MODEL) (\<lambda>_.
       Inr (ca_id c # seen))))))"

definition check_position_rule :: "string list \<Rightarrow> position_rule \<Rightarrow> rules_error + string list" where
  "check_position_rule seen r =
     and_then (requireNonempty (pr_positionCode r)) (\<lambda>_.
     and_then (require (pr_positionCode r \<notin> set seen) INVALID_MODEL) (\<lambda>_.
     and_then (requireNonnegativeInteger (pr_minimumAppearances r)) (\<lambda>_.
     and_then (requireNonnegativeInteger (pr_minimumPitchingOuts r)) (\<lambda>_.
       Inr (pr_positionCode r # seen)))))"

definition check_slot_rule ::
    "string list \<Rightarrow> ident list \<times> int \<Rightarrow> lineup_slot_rule \<Rightarrow> rules_error + (ident list \<times> int)" where
  "check_slot_rule codes st r =
     and_then (requireNonempty (ls_id r)) (\<lambda>_.
     and_then (require (\<not> (ls_id r \<in> set (fst st) \<or> ls_eligiblePositionCodes r = [])) INVALID_MODEL) (\<lambda>_.
     and_then (require (distinct (ls_eligiblePositionCodes r)) INVALID_MODEL) (\<lambda>_.
     and_then (require (\<not> (\<not> safe_int (ls_count r) \<or> ls_count r < 1)) INVALID_MODEL) (\<lambda>_.
     and_then (check_all (\<lambda>p. require (p \<in> set codes) INVALID_MODEL) (ls_eligiblePositionCodes r)) (\<lambda>_.
       Inr (ls_id r # fst st, snd st + ls_count r))))))"

definition check_roster_rules :: "string list \<Rightarrow> roster_rules \<Rightarrow> rules_error + unit" where
  "check_roster_rules codes r =
     and_then (requireNonnegativeInteger (rr_maximumRosterSize r)) (\<lambda>_.
     and_then (requireNonnegativeInteger (rr_benchSlots r)) (\<lambda>_.
     and_then (require (rr_lineupLock r = ''WEEKLY_PERIOD_START'' \<and> rr_missingLineupBehavior r = ''ZERO_POINTS'' \<and>
                        rr_benchScoring r = ''EXCLUDED'') INVALID_MODEL) (\<lambda>_.
     and_then (require (\<not> (rr_maximumRosterSize r = 0 \<or> rr_lineupSlots r = [])) INVALID_MODEL) (\<lambda>_.
     and_then (fold_res (check_slot_rule codes) ([], 0) (rr_lineupSlots r)) (\<lambda>(_, activeSlots).
       require (\<not> (\<not> safe_int activeSlots \<or> activeSlots + rr_benchSlots r > rr_maximumRosterSize r))
         INVALID_MODEL)))))"

definition cadence_ok :: "cadence_rules \<Rightarrow> bool" where
  "cadence_ok c \<longleftrightarrow> cd_periodKind c = ''WEEKLY'' \<and> cd_boundarySource c = ''SEALED_UTC_INTERVALS'' \<and>
     cd_correctionPolicy c = ''BEFORE_FINALIZATION_ONLY'' \<and> cd_regularSeasonTie c = ''TIE'' \<and>
     cd_playoffTieBreaker c = ''HIGHER_PREDECLARED_SEED'' \<and> safe_int (cd_completionGraceHours c) \<and>
     0 \<le> cd_completionGraceHours c \<and> cd_completionGraceHours c \<le> 168"

definition validateModel :: "'a model_input_scheme \<Rightarrow> rules_error + unit" where
  "validateModel m =
     and_then (requireNonempty (fm_modelId m)) (\<lambda>_.
     and_then (requireNonempty (fm_modelVersionId m)) (\<lambda>_.
     and_then (requireNonempty (fm_name m)) (\<lambda>_.
     and_then (requireNonempty (fm_statisticRegistryVersion m)) (\<lambda>_.
     and_then (require (fm_format m = initial_fantasy_format) INVALID_MODEL) (\<lambda>_.
     and_then (check_owner (fm_owner m)) (\<lambda>_.
     and_then (require (\<not> (\<not> safe_int (fm_version m) \<or> fm_version m < 1)) INVALID_MODEL) (\<lambda>_.
     and_then (require (fm_categories m \<noteq> []) INVALID_MODEL) (\<lambda>_.
     and_then (fold_res check_category [] (fm_categories m)) (\<lambda>_.
     and_then (require (el_rosterSource (fm_eligibility m) = ''EXACT_ACCOUNT_ROSTER_AT_LOCK'' \<and>
                        el_unknownEligibility (fm_eligibility m) = ''INELIGIBLE'') INVALID_MODEL) (\<lambda>_.
     and_then (fold_res check_position_rule [] (el_positionRules (fm_eligibility m))) (\<lambda>codes.
     and_then (check_roster_rules codes (fm_roster m)) (\<lambda>_.
       require (cadence_ok (fm_cadence m)) INVALID_MODEL))))))))))))"

section \<open>Versions and their lifecycle\<close>

definition semanticEnvelope :: "'a model_semantics_scheme \<Rightarrow> model_semantics" where
  "semanticEnvelope m = model_semantics.truncate m"

definition createFantasyScoringModelVersion ::
    "(model_semantics \<Rightarrow> string) \<Rightarrow> model_input \<Rightarrow> rules_error + scoring_model" where
  "createFantasyScoringModelVersion digest m =
     and_then (require (fm_lifecycle m = MODEL_DRAFT) INVALID_TRANSITION_RULES) (\<lambda>_.
     and_then (validateModel m) (\<lambda>_.
       Inr (model_input.extend m \<lparr>fm_contractVersion = rules_contract_version,
              fm_contentDigest = digest (semanticEnvelope m)\<rparr>)))"

definition verifyFantasyScoringModel :: "(model_semantics \<Rightarrow> string) \<Rightarrow> scoring_model \<Rightarrow> rules_error + unit" where
  "verifyFantasyScoringModel digest m =
     and_then (validateModel m) (\<lambda>_.
     and_then (require (fm_contractVersion m = rules_contract_version) INVALID_MODEL) (\<lambda>_.
       require (fm_contentDigest m = digest (semanticEnvelope m)) INVALID_DIGEST))"

definition fantasyModelIsEditable :: "(model_semantics \<Rightarrow> string) \<Rightarrow> scoring_model \<Rightarrow> rules_error + bool" where
  "fantasyModelIsEditable digest m =
     and_then (verifyFantasyScoringModel digest m) (\<lambda>_. Inr (fm_lifecycle m = MODEL_DRAFT))"

fun model_transitions :: "model_lifecycle \<Rightarrow> model_lifecycle list" where
  "model_transitions MODEL_DRAFT = [MODEL_REVIEWED]"
| "model_transitions MODEL_REVIEWED = [MODEL_ACTIVE]"
| "model_transitions MODEL_ACTIVE = [MODEL_DEPRECATED]"
| "model_transitions MODEL_DEPRECATED = [MODEL_RETIRED]"
| "model_transitions MODEL_RETIRED = []"

definition transitionFantasyScoringModel ::
    "(model_semantics \<Rightarrow> string) \<Rightarrow> scoring_model \<Rightarrow> model_lifecycle \<Rightarrow> rules_error + scoring_model" where
  "transitionFantasyScoringModel digest m lc =
     and_then (verifyFantasyScoringModel digest m) (\<lambda>_.
     and_then (require (lc \<in> set (model_transitions (fm_lifecycle m))) INVALID_TRANSITION_RULES) (\<lambda>_.
       Inr (m\<lparr>fm_lifecycle := lc\<rparr>)))"

section \<open>Scores\<close>

record account_authority =
  aa_accountId :: ident
  aa_authorityReferenceIds :: "ident list"
  aa_authorizedAt :: string

definition accountAuthorityMatches :: "account_authority \<Rightarrow> ident \<Rightarrow> bool" where
  "accountAuthorityMatches a accountId \<longleftrightarrow>
     accountId \<noteq> [] \<and> aa_accountId a = accountId \<and> aa_authorityReferenceIds a \<noteq> [] \<and>
     distinct (aa_authorityReferenceIds a) \<and> list_all (\<lambda>i. i \<noteq> []) (aa_authorityReferenceIds a) \<and>
     canonical_iso (aa_authorizedAt a)"

datatype snapshot_lifecycle = SNAPSHOT_FINAL | SNAPSHOT_INCOMPLETE
datatype snapshot_verification = SNAPSHOT_VERIFIED | SNAPSHOT_UNVERIFIED

record statistic_lineage =
  sl_baseballRulesetVersionIds :: "ident list"
  sl_statisticDerivationVersion :: int
  sl_statisticRulesVersion :: int
  sl_sourceRevision :: int
  sl_correctionRevision :: int
  sl_fantasyStatisticRegistryVersion :: string
  sl_lifecycle :: snapshot_lifecycle
  sl_verification :: snapshot_verification

text \<open>The values of a snapshot are a dictionary from statistic codes to numbers.\<close>

record statistic_snapshot =
  ss_accountId :: ident
  ss_authority :: account_authority
  ss_values :: "string \<Rightarrow> int option"
  ss_lineage :: statistic_lineage

record category_score =
  cs_categoryId :: ident
  cs_sourceStatistic :: string
  cs_units :: int
  cs_milliPoints :: int

record score_lineage =
  sc_accountId :: ident
  sc_fantasyModelId :: ident
  sc_fantasyModelVersionId :: ident
  sc_fantasyModelVersion :: int
  sc_fantasyModelDigest :: string
  sc_baseballRulesetVersionIds :: "ident list"
  sc_statisticDerivationVersion :: int
  sc_statisticRulesVersion :: int
  sc_sourceRevision :: int
  sc_correctionRevision :: int

record fantasy_score =
  fs_totalMilliPoints :: int
  fs_categories :: "category_score list"
  fs_lineage :: score_lineage

definition lineage_complete :: "statistic_lineage \<Rightarrow> bool" where
  "lineage_complete l \<longleftrightarrow>
     sl_baseballRulesetVersionIds l \<noteq> [] \<and> distinct (sl_baseballRulesetVersionIds l) \<and>
     list_all (\<lambda>i. i \<noteq> []) (sl_baseballRulesetVersionIds l) \<and>
     safe_int (sl_statisticDerivationVersion l) \<and> 1 \<le> sl_statisticDerivationVersion l \<and>
     safe_int (sl_statisticRulesVersion l) \<and> 1 \<le> sl_statisticRulesVersion l \<and>
     safe_int (sl_sourceRevision l) \<and> 0 \<le> sl_sourceRevision l \<and>
     safe_int (sl_correctionRevision l) \<and> 0 \<le> sl_correctionRevision l"

text \<open>One category: its points, and the total so far.\<close>

definition score_category ::
    "(string \<Rightarrow> int option) \<Rightarrow> int \<times> category_score list \<Rightarrow> scoring_category
     \<Rightarrow> rules_error + (int \<times> category_score list)" where
  "score_category vals st c =
     (case vals (ca_sourceStatistic c) of
        None \<Rightarrow> Inl STATISTIC_UNAVAILABLE
      | Some units \<Rightarrow>
          and_then (require (\<not> (\<not> safe_int units \<or> units < 0)) STATISTIC_INVALID) (\<lambda>_.
          (let points = units * ca_milliPointsPerUnit c; total = fst st + points in
           and_then (require (safe_int points) STATISTIC_INVALID) (\<lambda>_.
           and_then (require (safe_int total) STATISTIC_INVALID) (\<lambda>_.
             Inr (total, snd st @ [\<lparr>cs_categoryId = ca_id c, cs_sourceStatistic = ca_sourceStatistic c,
                                     cs_units = units, cs_milliPoints = points\<rparr>]))))))"

definition score_lineage_of :: "scoring_model \<Rightarrow> statistic_snapshot \<Rightarrow> score_lineage" where
  "score_lineage_of m s =
     \<lparr>sc_accountId = ss_accountId s, sc_fantasyModelId = fm_modelId m,
      sc_fantasyModelVersionId = fm_modelVersionId m, sc_fantasyModelVersion = fm_version m,
      sc_fantasyModelDigest = fm_contentDigest m,
      sc_baseballRulesetVersionIds = sl_baseballRulesetVersionIds (ss_lineage s),
      sc_statisticDerivationVersion = sl_statisticDerivationVersion (ss_lineage s),
      sc_statisticRulesVersion = sl_statisticRulesVersion (ss_lineage s),
      sc_sourceRevision = sl_sourceRevision (ss_lineage s),
      sc_correctionRevision = sl_correctionRevision (ss_lineage s)\<rparr>"

definition scoreFantasyStatistics ::
    "(model_semantics \<Rightarrow> string) \<Rightarrow> scoring_model \<Rightarrow> statistic_snapshot \<Rightarrow> rules_error + fantasy_score" where
  "scoreFantasyStatistics digest m s =
     and_then (verifyFantasyScoringModel digest m) (\<lambda>_.
     and_then (require (fm_lifecycle m \<in> {MODEL_ACTIVE, MODEL_DEPRECATED, MODEL_RETIRED}) MODEL_NOT_SCORABLE) (\<lambda>_.
     and_then (require (\<not> (\<not> accountAuthorityMatches (ss_authority s) (ss_accountId s) \<or>
                (mo_kind (fm_owner m) = OWNER_ACCOUNT \<and> mo_id (fm_owner m) \<noteq> Some (ss_accountId s))))
                ACCOUNT_NOT_AUTHORIZED) (\<lambda>_.
     and_then (require (sl_verification (ss_lineage s) = SNAPSHOT_VERIFIED \<and>
                sl_lifecycle (ss_lineage s) = SNAPSHOT_FINAL) UNVERIFIED_STATISTICS) (\<lambda>_.
     and_then (require (lineage_complete (ss_lineage s)) STATISTIC_INVALID) (\<lambda>_.
     and_then (require (sl_fantasyStatisticRegistryVersion (ss_lineage s) = fm_statisticRegistryVersion m)
                STATISTIC_REGISTRY_MISMATCH) (\<lambda>_.
     and_then (fold_res (score_category (ss_values s)) (0, []) (fm_categories m)) (\<lambda>(total, scores).
       Inr \<lparr>fs_totalMilliPoints = total, fs_categories = scores, fs_lineage = score_lineage_of m s\<rparr>)))))))"

section \<open>Eligibility\<close>

record eligibility_facts =
  ef_accountId :: ident
  ef_rosterAccountId :: ident
  ef_authority :: account_authority
  ef_rosteredAtLock :: bool
  ef_requestedSlotId :: ident
  ef_verifiedPositionAppearances :: "string \<Rightarrow> int option"
  ef_pitchingOuts :: int

datatype eligibility_decision = Eligible ident "string list" | Ineligible rules_error

definition position_qualifies :: "eligibility_rules \<Rightarrow> eligibility_facts \<Rightarrow> string \<Rightarrow> bool" where
  "position_qualifies rules facts code =
     (case (js_map_of pr_positionCode (el_positionRules rules) code, ef_verifiedPositionAppearances facts code) of
        (Some r, Some n) \<Rightarrow> safe_int n \<and> n \<ge> pr_minimumAppearances r \<and> ef_pitchingOuts facts \<ge> pr_minimumPitchingOuts r
      | _ \<Rightarrow> False)"

definition evaluateFantasyEligibility ::
    "(model_semantics \<Rightarrow> string) \<Rightarrow> scoring_model \<Rightarrow> eligibility_facts \<Rightarrow> rules_error + eligibility_decision" where
  "evaluateFantasyEligibility digest m f =
     and_then (verifyFantasyScoringModel digest m) (\<lambda>_. Inr (
       if ef_accountId f \<noteq> ef_rosterAccountId f \<or> \<not> accountAuthorityMatches (ef_authority f) (ef_accountId f)
       then Ineligible ACCOUNT_NOT_AUTHORIZED
       else if \<not> ef_rosteredAtLock f then Ineligible NOT_ROSTERED_AT_LOCK
       else case find (\<lambda>r. ls_id r = ef_requestedSlotId f) (rr_lineupSlots (fm_roster m)) of
          None \<Rightarrow> Ineligible LINEUP_SLOT_UNKNOWN
        | Some slot \<Rightarrow>
            if \<not> safe_int (ef_pitchingOuts f) \<or> ef_pitchingOuts f < 0 then Ineligible POSITION_INELIGIBLE_RULES
            else (let ps = filter (position_qualifies (fm_eligibility m) f) (ls_eligiblePositionCodes slot) in
              if ps \<noteq> [] then Eligible (ls_id slot) ps else Ineligible POSITION_INELIGIBLE_RULES)))"

datatype rules_action = VIEW | EDIT_DRAFT | REVIEW | ACTIVATE | DEPRECATE | RETIRE

definition fantasyRulesCapability :: "rules_action \<Rightarrow> string" where
  "fantasyRulesCapability a = (if a = ACTIVATE then ''fantasy.rules.activate'' else ''fantasy.rules.manage'')"

section \<open>Validated models\<close>

lemma check_category_fold:
  assumes "fold_res check_category seen cs = Inr seen'"
  shows "seen' = rev (map ca_id cs) @ seen \<and> distinct (map ca_id cs) \<and> set (map ca_id cs) \<inter> set seen = {} \<and>
    list_all (\<lambda>c. safe_int (ca_milliPointsPerUnit c) \<and> ca_milliPointsPerUnit c \<noteq> 0) cs"
  using assms
  by (induction cs arbitrary: seen) (fastforce simp: check_category_def requireNonempty_def result_simps)+

lemma check_position_fold:
  assumes "fold_res check_position_rule seen rs = Inr seen'"
  shows "seen' = rev (map pr_positionCode rs) @ seen \<and> distinct (map pr_positionCode rs) \<and>
    set (map pr_positionCode rs) \<inter> set seen = {}"
  using assms
  by (induction rs arbitrary: seen)
    (fastforce simp: check_position_rule_def requireNonempty_def requireNonnegativeInteger_def result_simps)+

lemma check_slot_rule_Inr:
  "check_slot_rule codes st r = Inr st' \<longleftrightarrow> ls_id r \<noteq> [] \<and> ls_id r \<notin> set (fst st) \<and> ls_eligiblePositionCodes r \<noteq> [] \<and>
     distinct (ls_eligiblePositionCodes r) \<and> safe_int (ls_count r) \<and> 1 \<le> ls_count r \<and>
     set (ls_eligiblePositionCodes r) \<subseteq> set codes \<and> st' = (ls_id r # fst st, snd st + ls_count r)"
  by (auto simp: check_slot_rule_def requireNonempty_def result_simps not_less)

lemma check_slot_fold:
  assumes "fold_res (check_slot_rule codes) (seen, n) rs = Inr (seen', n')"
  shows "distinct (map ls_id rs) \<and> set (map ls_id rs) \<inter> set seen = {} \<and> n' = n + sum_list (map ls_count rs) \<and>
    list_all (\<lambda>r. 1 \<le> ls_count r \<and> ls_eligiblePositionCodes r \<noteq> [] \<and> set (ls_eligiblePositionCodes r) \<subseteq> set codes) rs"
  using assms
proof (induction rs arbitrary: seen n)
  case (Cons r rs)
  then have "fold_res (check_slot_rule codes) (ls_id r # seen, n + ls_count r) rs = Inr (seen', n')"
    "ls_id r \<notin> set seen" "1 \<le> ls_count r" "ls_eligiblePositionCodes r \<noteq> []" "set (ls_eligiblePositionCodes r) \<subseteq> set codes"
    by (auto simp: check_slot_rule_Inr result_simps)
  with Cons.IH [OF this(1)] show ?case by auto
qed simp

text \<open>What a validated model guarantees of its rules.\<close>

definition model_wf :: "'a model_semantics_scheme \<Rightarrow> bool" where
  "model_wf m \<longleftrightarrow> fm_categories m \<noteq> [] \<and> distinct (map ca_id (fm_categories m)) \<and>
     list_all (\<lambda>c. ca_milliPointsPerUnit c \<noteq> 0) (fm_categories m) \<and>
     distinct (map ls_id (rr_lineupSlots (fm_roster m))) \<and>
     list_all (\<lambda>r. 1 \<le> ls_count r \<and> ls_eligiblePositionCodes r \<noteq> [] \<and>
         set (ls_eligiblePositionCodes r) \<subseteq> set (map pr_positionCode (el_positionRules (fm_eligibility m))))
       (rr_lineupSlots (fm_roster m)) \<and>
     0 \<le> rr_benchSlots (fm_roster m) \<and>
     sum_list (map ls_count (rr_lineupSlots (fm_roster m))) + rr_benchSlots (fm_roster m) \<le> rr_maximumRosterSize (fm_roster m)"

lemma validateModel_wf:
  assumes "validateModel m = Inr u"
  shows "model_wf m"
proof -
  obtain seen codes where cats: "fold_res check_category [] (fm_categories m) = Inr seen"
    and codes: "fold_res check_position_rule [] (el_positionRules (fm_eligibility m)) = Inr codes"
    and roster: "check_roster_rules codes (fm_roster m) = Inr ()" and "fm_categories m \<noteq> []"
    using assms by (auto simp: validateModel_def result_simps)
  moreover obtain seen' n where slots: "fold_res (check_slot_rule codes) ([], 0) (rr_lineupSlots (fm_roster m)) = Inr (seen', n)"
    and "n + rr_benchSlots (fm_roster m) \<le> rr_maximumRosterSize (fm_roster m)" "0 \<le> rr_benchSlots (fm_roster m)"
    using roster by (auto simp: check_roster_rules_def requireNonnegativeInteger_def result_simps)
  ultimately show ?thesis
    using check_category_fold [OF cats] check_position_fold [OF codes] check_slot_fold [OF slots]
    by (auto simp: model_wf_def list_all_iff)
qed

lemma verified_model_wf: "verifyFantasyScoringModel digest m = Inr u \<Longrightarrow> model_wf m"
  by (auto simp: verifyFantasyScoringModel_def result_simps dest: validateModel_wf)

section \<open>Sealed content\<close>

lemma validateModel_lifecycle [simp]: "validateModel (m\<lparr>fm_lifecycle := lc\<rparr>) = validateModel m"
  by (simp add: validateModel_def)

lemma semanticEnvelope_lifecycle [simp]:
  "semanticEnvelope (m\<lparr>fm_lifecycle := lc\<rparr>) = semanticEnvelope m"
  "semanticEnvelope (m\<lparr>fm_contractVersion := v, fm_contentDigest := d\<rparr>) = semanticEnvelope m"
  by (simp_all add: semanticEnvelope_def model_semantics.defs)

lemma verify_lifecycle [simp]:
  "verifyFantasyScoringModel digest (m\<lparr>fm_lifecycle := lc\<rparr>) = verifyFantasyScoringModel digest m"
  by (simp add: verifyFantasyScoringModel_def)

lemma validateModel_extend [simp]: "validateModel (model_input.extend m x) = validateModel m"
  by (simp add: validateModel_def model_input.defs)

lemma created_model_verifies:
  assumes "createFantasyScoringModelVersion digest m = Inr v"
  shows "verifyFantasyScoringModel digest v = Inr ()" and "semanticEnvelope v = semanticEnvelope m" and "fm_lifecycle v = MODEL_DRAFT"
proof -
  have v: "validateModel m = Inr ()" "fm_lifecycle m = MODEL_DRAFT"
    "v = model_input.extend m \<lparr>fm_contractVersion = rules_contract_version, fm_contentDigest = digest (semanticEnvelope m)\<rparr>"
    using assms by (auto simp: createFantasyScoringModelVersion_def result_simps)
  then show env: "semanticEnvelope v = semanticEnvelope m"
    by (simp add: semanticEnvelope_def model_semantics.defs model_input.defs)
  from v env show "verifyFantasyScoringModel digest v = Inr ()" "fm_lifecycle v = MODEL_DRAFT"
    by (simp_all add: verifyFantasyScoringModel_def) (simp_all add: model_input.defs)
qed

fun model_rank :: "model_lifecycle \<Rightarrow> nat" where
  "model_rank MODEL_DRAFT = 0"
| "model_rank MODEL_REVIEWED = 1"
| "model_rank MODEL_ACTIVE = 2"
| "model_rank MODEL_DEPRECATED = 3"
| "model_rank MODEL_RETIRED = 4"

lemma model_transitions_rank: "lc \<in> set (model_transitions l) \<longleftrightarrow> model_rank lc = Suc (model_rank l)"
  by (cases l; cases lc) simp_all

lemma transition_sealed:
  assumes "transitionFantasyScoringModel digest m lc = Inr m'"
  shows "verifyFantasyScoringModel digest m' = Inr () \<and> semanticEnvelope m' = semanticEnvelope m \<and>
    fm_contentDigest m' = fm_contentDigest m \<and> model_rank (fm_lifecycle m') = Suc (model_rank (fm_lifecycle m))"
  using assms by (auto simp: transitionFantasyScoringModel_def model_transitions_rank result_simps)

text \<open>The versions that transitions lead to: the content never changes, the lifecycle only moves on.\<close>

definition same_version :: "(model_semantics \<Rightarrow> string) \<Rightarrow> scoring_model \<Rightarrow> scoring_model \<Rightarrow> bool" where
  "same_version digest v m \<longleftrightarrow> verifyFantasyScoringModel digest m = Inr () \<and> semanticEnvelope m = semanticEnvelope v \<and>
     fm_contentDigest m = fm_contentDigest v \<and> model_rank (fm_lifecycle v) \<le> model_rank (fm_lifecycle m)"

interpretation model_history: reducer "transitionFantasyScoringModel digest" "\<lambda>_ _. True" "same_version digest v" for digest v
  by unfold_locales (auto simp: same_version_def dest!: transition_sealed)

section \<open>Scores are weighted sums\<close>

lemma score_category_Inr:
  "score_category vals st c = Inr st' \<longleftrightarrow> (\<exists>k. vals (ca_sourceStatistic c) = Some k \<and> safe_int k \<and> 0 \<le> k \<and>
     safe_int (k * ca_milliPointsPerUnit c) \<and> safe_int (fst st + k * ca_milliPointsPerUnit c) \<and>
     st' = (fst st + k * ca_milliPointsPerUnit c, snd st @ [\<lparr>cs_categoryId = ca_id c,
       cs_sourceStatistic = ca_sourceStatistic c, cs_units = k, cs_milliPoints = k * ca_milliPointsPerUnit c\<rparr>]))"
  by (auto simp: score_category_def Let_def result_simps not_less split: option.splits)

lemma score_fold:
  assumes "fold_res (score_category vals) (n, xs) cs = Inr (tot, ys)" and "safe_int n"
  shows "tot = n + sum_list (map (\<lambda>c. the (vals (ca_sourceStatistic c)) * ca_milliPointsPerUnit c) cs) \<and>
    ys = xs @ map (\<lambda>c. \<lparr>cs_categoryId = ca_id c, cs_sourceStatistic = ca_sourceStatistic c,
      cs_units = the (vals (ca_sourceStatistic c)), cs_milliPoints = the (vals (ca_sourceStatistic c)) * ca_milliPointsPerUnit c\<rparr>) cs \<and>
    safe_int tot \<and> list_all (\<lambda>c. \<exists>k. vals (ca_sourceStatistic c) = Some k \<and> 0 \<le> k \<and> safe_int (k * ca_milliPointsPerUnit c)) cs"
  using assms
proof (induction cs arbitrary: n xs)
  case (Cons c cs)
  then obtain k where k: "vals (ca_sourceStatistic c) = Some k" "0 \<le> k" "safe_int (k * ca_milliPointsPerUnit c)"
      "safe_int (n + k * ca_milliPointsPerUnit c)"
    and rest: "fold_res (score_category vals) (n + k * ca_milliPointsPerUnit c, xs @ [\<lparr>cs_categoryId = ca_id c,
      cs_sourceStatistic = ca_sourceStatistic c, cs_units = k, cs_milliPoints = k * ca_milliPointsPerUnit c\<rparr>]) cs = Inr (tot, ys)"
    by (auto simp: score_category_Inr result_simps)
  from Cons.IH [OF rest k(4)] k show ?case by auto
qed simp

lemma score_inversion:
  assumes "scoreFantasyStatistics digest m s = Inr r"
  shows "fold_res (score_category (ss_values s)) (0, []) (fm_categories m) = Inr (fs_totalMilliPoints r, fs_categories r)"
    and "accountAuthorityMatches (ss_authority s) (ss_accountId s)" and "sl_verification (ss_lineage s) = SNAPSHOT_VERIFIED"
    and "sl_lifecycle (ss_lineage s) = SNAPSHOT_FINAL" and "fs_lineage r = score_lineage_of m s"
    and "verifyFantasyScoringModel digest m = Inr ()" and "2 \<le> model_rank (fm_lifecycle m)"
  using assms by (auto simp: scoreFantasyStatistics_def result_simps)

end
