(* ===== verification/League_Delegation.thy ===== *)
theory League_Delegation
  imports Timestamps
begin

text \<open>
  Delegated authority (\<open>src/domain/league-delegation.ts\<close>): whether an organization member may use
  a capability on a target, on the evidence of a membership, a grant, the delegation of an account
  and an approval.  A \<open>Date\<close> is its time in milliseconds, \<open>None\<close> an invalid one; an optional date
  is an option of that.
\<close>

type_synonym js_date = "int option"

datatype scope_kind = ORGANIZATION | LEAGUE | ACCOUNT | TEAM | SEASON | GAME

record delegation_scope =
  ds_kind :: scope_kind
  ds_organizationId :: ident
  ds_leagueId :: "ident option"
  ds_delegationId :: "ident option"
  ds_accountId :: "ident option"
  ds_teamId :: "ident option"
  ds_seasonId :: "ident option"
  ds_gameId :: "ident option"

record delegation_target =
  dt_kind :: scope_kind
  dt_organizationId :: ident
  dt_leagueId :: "ident option"
  dt_delegationId :: "ident option"
  dt_accountId :: "ident option"
  dt_teamIds :: "ident list"
  dt_seasonId :: "ident option"
  dt_gameId :: "ident option"

datatype organization_status = ORGANIZATION_ACTIVE | ORGANIZATION_SUSPENDED | ORGANIZATION_ARCHIVED
datatype membership_status = MEMBERSHIP_ACTIVE | MEMBERSHIP_SUSPENDED | MEMBERSHIP_REMOVED
datatype grant_status = GRANT_ACTIVE | GRANT_SUSPENDED | GRANT_IS_REVOKED
datatype approval_status = APPROVED | APPROVAL_REVOKED
datatype approver_kind = ACCOUNT_MEMBERSHIP | ORGANIZATION_MEMBERSHIP

record delegation_actor =
  da_authenticated :: bool
  da_appUserId :: ident

record organization =
  or_id :: ident
  or_status :: organization_status

record membership =
  me_id :: ident
  me_organizationId :: ident
  me_appUserId :: ident
  me_status :: membership_status

record delegation =
  de_id :: ident
  de_organizationId :: ident
  de_accountId :: ident
  de_status :: grant_status
  de_validFrom :: js_date
  de_expiresAt :: "js_date option"
  de_revokedAt :: "js_date option"
  de_approvedByAccountMembershipId :: ident

record grant =
  gr_id :: ident
  gr_organizationId :: ident
  gr_organizationMembershipId :: ident
  gr_delegationId :: "ident option"
  gr_accountId :: "ident option"
  gr_capability :: string
  gr_scope :: delegation_scope
  gr_status :: grant_status
  gr_validFrom :: js_date
  gr_expiresAt :: "js_date option"
  gr_revokedAt :: "js_date option"
  gr_approvedByAccountMembershipId :: "ident option"

record approval =
  ap_id :: ident
  ap_grantId :: ident
  ap_capability :: string
  ap_scope :: delegation_scope
  ap_status :: approval_status
  ap_validFrom :: js_date
  ap_expiresAt :: "js_date option"
  ap_revokedAt :: "js_date option"
  ap_approvedByKind :: approver_kind
  ap_approvedById :: ident

record evidence =
  dv_actor :: delegation_actor
  dv_organization :: organization
  dv_membership :: membership
  dv_delegation :: "delegation option"
  dv_grant :: "grant option"
  dv_approval :: "approval option"

datatype denial_code = AUTHENTICATION_REQUIRED | ORGANIZATION_INACTIVE | ORGANIZATION_MEMBERSHIP_INACTIVE
  | CAPABILITY_UNKNOWN | GRANT_REQUIRED | GRANT_MISMATCH | GRANT_REVOKED | GRANT_INACTIVE | GRANT_EXPIRED
  | DELEGATION_REQUIRED | DELEGATION_MISMATCH | DELEGATION_REVOKED | DELEGATION_INACTIVE | DELEGATION_EXPIRED
  | SCOPE_NOT_ALLOWED | SCOPE_MISMATCH_DELEGATION | APPROVAL_REQUIRED | APPROVAL_INVALID | APPROVAL_EXPIRED

record delegation_audit =
  au_actorId :: ident
  au_organizationId :: ident
  au_accountId :: "ident option"
  au_capability :: string
  au_scopeKind :: scope_kind
  au_organizationMembershipId :: ident
  au_delegationId :: "ident option"
  au_grantId :: "ident option"
  au_approvalId :: "ident option"
  au_evaluatedAt :: "string option"
  au_allowed :: bool
  au_reasonCode :: "denial_code option"

datatype delegation_decision =
  Allowed string delegation_target "ident list" delegation_audit
| Denied denial_code delegation_audit

section \<open>Policies\<close>

record capability_policy =
  cp_scopes :: "scope_kind list"
  cp_accountDelegated :: bool
  cp_approvalRequired :: bool

definition policy :: "scope_kind list \<Rightarrow> bool \<Rightarrow> bool \<Rightarrow> capability_policy" where
  "policy scopes delegated approval =
     \<lparr>cp_scopes = scopes, cp_accountDelegated = delegated, cp_approvalRequired = approval\<rparr>"

definition capabilityPolicies :: "(string \<times> capability_policy) list" where
  "capabilityPolicies =
     [(''organization.view'', policy [ORGANIZATION] False False),
      (''organization.members.manage'', policy [ORGANIZATION] False False),
      (''organization.ownership.transfer'', policy [ORGANIZATION] False True),
      (''organization.rulesets.manage'', policy [ORGANIZATION, LEAGUE] False True),
      (''organization.settings.manage'', policy [ORGANIZATION] False False),
      (''league.settings.manage'', policy [LEAGUE] False False),
      (''fantasy.rules.manage'', policy [ORGANIZATION, LEAGUE] False False),
      (''fantasy.rules.activate'', policy [ORGANIZATION, LEAGUE] False True),
      (''fantasy.league.manage'', policy [ACCOUNT] True False),
      (''fantasy.league.activate'', policy [ACCOUNT] True True),
      (''fantasy.team.manage'', policy [ACCOUNT] True False),
      (''fantasy.roster.manage'', policy [ACCOUNT] True False),
      (''fantasy.scoring.calculate'', policy [ACCOUNT] True False),
      (''team.view'', policy [TEAM] True False),
      (''competition.settings.manage'', policy [TEAM, SEASON] True False),
      (''shared_resources.manage'', policy [TEAM, SEASON] True False),
      (''report.minimum_field.view'', policy [TEAM, SEASON, GAME] True False),
      (''ruleset.activate'', policy [ACCOUNT, TEAM, SEASON] True True),
      (''data.import.review'', policy [ACCOUNT] True True),
      (''data.import.commit'', policy [ACCOUNT] True True),
      (''report.export'', policy [ACCOUNT, TEAM, SEASON, GAME] True True),
      (''game.correct'', policy [GAME] True True),
      (''game.verify'', policy [GAME] True True)]"

definition delegatedCapabilities :: "string list" where
  "delegatedCapabilities = map fst capabilityPolicies"

definition isDelegatedCapability :: "string \<Rightarrow> bool" where
  "isDelegatedCapability c \<longleftrightarrow> c \<in> set delegatedCapabilities"

section \<open>Time windows\<close>

text \<open>\<open>finiteTime\<close> reads a date; an invalid one has no time.\<close>

definition finiteTime :: "js_date \<Rightarrow> int option" where
  "finiteTime d = d"

definition time_passed :: "js_date \<Rightarrow> int \<Rightarrow> bool" where
  "time_passed d now \<longleftrightarrow> (case finiteTime d of None \<Rightarrow> True | Some t \<Rightarrow> t \<le> now)"

definition revoked :: "grant_status \<Rightarrow> js_date option \<Rightarrow> int \<Rightarrow> bool" where
  "revoked st when now \<longleftrightarrow>
     st = GRANT_IS_REVOKED \<or> (case when of None \<Rightarrow> False | Some d \<Rightarrow> time_passed d now)"

datatype window = WINDOW_ACTIVE | WINDOW_NOT_ACTIVE | WINDOW_EXPIRED

definition activeWindow :: "js_date \<Rightarrow> js_date option \<Rightarrow> int \<Rightarrow> window" where
  "activeWindow validFrom expiresAt now =
     (if (case finiteTime validFrom of None \<Rightarrow> True | Some t \<Rightarrow> t > now) then WINDOW_NOT_ACTIVE
      else if (case expiresAt of None \<Rightarrow> False | Some d \<Rightarrow> time_passed d now) then WINDOW_EXPIRED
      else WINDOW_ACTIVE)"

section \<open>Scopes\<close>

definition kind_name :: "scope_kind \<Rightarrow> string" where
  "kind_name k = (case k of ORGANIZATION \<Rightarrow> ''ORGANIZATION'' | LEAGUE \<Rightarrow> ''LEAGUE'' | ACCOUNT \<Rightarrow> ''ACCOUNT''
     | TEAM \<Rightarrow> ''TEAM'' | SEASON \<Rightarrow> ''SEASON'' | GAME \<Rightarrow> ''GAME'')"

text \<open>\<open>join(":")\<close>, where \<open>null\<close> counts as the empty string.\<close>

fun join_colon :: "string list \<Rightarrow> string" where
  "join_colon [] = []"
| "join_colon [x] = x"
| "join_colon (x # y # ys) = x @ CHR '':'' # join_colon (y # ys)"

definition or_empty :: "string option \<Rightarrow> string" where
  "or_empty x = (case x of None \<Rightarrow> [] | Some s \<Rightarrow> s)"

definition scope_fields :: "delegation_scope \<Rightarrow> string list" where
  "scope_fields s = [kind_name (ds_kind s), ds_organizationId s, or_empty (ds_leagueId s), or_empty (ds_delegationId s),
     or_empty (ds_accountId s), or_empty (ds_teamId s), or_empty (ds_seasonId s), or_empty (ds_gameId s)]"

definition scopeIdentity :: "delegation_scope \<Rightarrow> string" where
  "scopeIdentity s = join_colon (scope_fields s)"

definition scopeIsWellFormed :: "delegation_scope \<Rightarrow> bool" where
  "scopeIsWellFormed s \<longleftrightarrow> ds_organizationId s \<noteq> [] \<and>
     (case ds_kind s of
        ORGANIZATION \<Rightarrow> ds_leagueId s = None \<and> ds_delegationId s = None \<and> ds_accountId s = None \<and>
          ds_teamId s = None \<and> ds_seasonId s = None \<and> ds_gameId s = None
      | LEAGUE \<Rightarrow> truthy (ds_leagueId s) \<and> ds_delegationId s = None \<and> ds_accountId s = None \<and>
          ds_teamId s = None \<and> ds_seasonId s = None \<and> ds_gameId s = None
      | k \<Rightarrow> truthy (ds_delegationId s) \<and> truthy (ds_accountId s) \<and> ds_leagueId s = None \<and>
          (if k = ACCOUNT then ds_teamId s = None \<and> ds_seasonId s = None \<and> ds_gameId s = None
           else if k = TEAM then truthy (ds_teamId s) \<and> ds_seasonId s = None \<and> ds_gameId s = None
           else if k = SEASON then ds_teamId s = None \<and> truthy (ds_seasonId s) \<and> ds_gameId s = None
           else ds_teamId s = None \<and> ds_seasonId s = None \<and> truthy (ds_gameId s)))"

definition targetIsWellFormed :: "delegation_target \<Rightarrow> bool" where
  "targetIsWellFormed t \<longleftrightarrow> dt_organizationId t \<noteq> [] \<and>
     (case dt_kind t of
        ORGANIZATION \<Rightarrow> dt_leagueId t = None \<and> dt_delegationId t = None \<and> dt_accountId t = None \<and>
          dt_teamIds t = [] \<and> dt_seasonId t = None \<and> dt_gameId t = None
      | LEAGUE \<Rightarrow> truthy (dt_leagueId t) \<and> dt_delegationId t = None \<and> dt_accountId t = None \<and>
          dt_teamIds t = [] \<and> dt_seasonId t = None \<and> dt_gameId t = None
      | k \<Rightarrow> truthy (dt_delegationId t) \<and> truthy (dt_accountId t) \<and> dt_leagueId t = None \<and>
          (if k = ACCOUNT then dt_teamIds t = [] \<and> dt_seasonId t = None \<and> dt_gameId t = None
           else if k = TEAM then dt_teamIds t \<noteq> [] \<and> dt_seasonId t = None \<and> dt_gameId t = None
           else if k = SEASON then truthy (dt_seasonId t) \<and> dt_gameId t = None
           else truthy (dt_gameId t)))"

definition scopeMatches :: "delegation_scope \<Rightarrow> delegation_target \<Rightarrow> bool" where
  "scopeMatches s t \<longleftrightarrow> ds_organizationId s = dt_organizationId t \<and>
     (case ds_kind s of
        ORGANIZATION \<Rightarrow> dt_kind t = ORGANIZATION
      | LEAGUE \<Rightarrow> dt_kind t = LEAGUE \<and> ds_leagueId s = dt_leagueId t
      | k \<Rightarrow> ds_delegationId s \<noteq> None \<and> ds_delegationId s = dt_delegationId t \<and>
          ds_accountId s \<noteq> None \<and> ds_accountId s = dt_accountId t \<and>
          (if k = ACCOUNT then dt_accountId t \<noteq> None
           else if k = TEAM then (case ds_teamId s of None \<Rightarrow> False | Some x \<Rightarrow> x \<in> set (dt_teamIds t))
           else if k = SEASON then ds_seasonId s \<noteq> None \<and> ds_seasonId s = dt_seasonId t
           else ds_gameId s \<noteq> None \<and> ds_gameId s = dt_gameId t))"

section \<open>The decision\<close>

definition delegation_audit_of ::
    "evidence \<Rightarrow> string \<Rightarrow> delegation_target \<Rightarrow> bool \<Rightarrow> denial_code option \<Rightarrow> js_date \<Rightarrow> delegation_audit" where
  "delegation_audit_of e capability t ok reason now =
     (let pol = map_of capabilityPolicies capability in
      \<lparr>au_actorId = da_appUserId (dv_actor e), au_organizationId = dt_organizationId t, au_accountId = dt_accountId t,
       au_capability = capability, au_scopeKind = dt_kind t, au_organizationMembershipId = me_id (dv_membership e),
       au_delegationId = (case pol of Some p \<Rightarrow> if cp_accountDelegated p then map_option de_id (dv_delegation e) else None
                          | None \<Rightarrow> None),
       au_grantId = map_option gr_id (dv_grant e),
       au_approvalId = (case pol of Some p \<Rightarrow> if cp_approvalRequired p then map_option ap_id (dv_approval e) else None
                        | None \<Rightarrow> None),
       au_evaluatedAt = map_option iso_string (finiteTime now), au_allowed = ok, au_reasonCode = reason\<rparr>)"

definition check_actor :: "evidence \<Rightarrow> js_date \<Rightarrow> denial_code + int" where
  "check_actor e now =
     (case finiteTime now of
        None \<Rightarrow> Inl AUTHENTICATION_REQUIRED
      | Some t \<Rightarrow> and_then (require (da_authenticated (dv_actor e) \<and> da_appUserId (dv_actor e) \<noteq> [])
                            AUTHENTICATION_REQUIRED) (\<lambda>_. Inr t))"

definition check_membership :: "evidence \<Rightarrow> delegation_target \<Rightarrow> denial_code + unit" where
  "check_membership e t =
     and_then (require (or_status (dv_organization e) = ORGANIZATION_ACTIVE \<and>
                or_id (dv_organization e) = dt_organizationId t) ORGANIZATION_INACTIVE) (\<lambda>_.
       require (me_id (dv_membership e) \<noteq> [] \<and> me_status (dv_membership e) = MEMBERSHIP_ACTIVE \<and>
                me_organizationId (dv_membership e) = or_id (dv_organization e) \<and>
                me_appUserId (dv_membership e) = da_appUserId (dv_actor e)) ORGANIZATION_MEMBERSHIP_INACTIVE)"

definition check_window ::
    "grant_status \<Rightarrow> js_date \<Rightarrow> js_date option \<Rightarrow> js_date option \<Rightarrow> int
     \<Rightarrow> denial_code \<Rightarrow> denial_code \<Rightarrow> denial_code \<Rightarrow> denial_code + unit" where
  "check_window st validFrom expiresAt revokedAt now isRevoked isInactive isExpired =
     and_then (require (\<not> revoked st revokedAt now) isRevoked) (\<lambda>_.
     and_then (require (st = GRANT_ACTIVE) isInactive) (\<lambda>_.
     and_then (require (activeWindow validFrom expiresAt now \<noteq> WINDOW_NOT_ACTIVE) isInactive) (\<lambda>_.
       require (activeWindow validFrom expiresAt now \<noteq> WINDOW_EXPIRED) isExpired)))"

definition check_grant :: "evidence \<Rightarrow> string \<Rightarrow> int \<Rightarrow> denial_code + grant" where
  "check_grant e capability now =
     (case dv_grant e of
        None \<Rightarrow> Inl GRANT_REQUIRED
      | Some g \<Rightarrow>
          and_then (require (gr_id g \<noteq> [] \<and> gr_organizationId g = or_id (dv_organization e) \<and>
                     gr_organizationMembershipId g = me_id (dv_membership e) \<and> gr_capability g = capability)
                     GRANT_MISMATCH) (\<lambda>_.
          and_then (check_window (gr_status g) (gr_validFrom g) (gr_expiresAt g) (gr_revokedAt g) now
                     GRANT_REVOKED GRANT_INACTIVE GRANT_EXPIRED) (\<lambda>_. Inr g)))"

definition delegation_consistent :: "evidence \<Rightarrow> grant \<Rightarrow> delegation_target \<Rightarrow> delegation \<Rightarrow> bool" where
  "delegation_consistent e g t d \<longleftrightarrow>
     de_id d \<noteq> [] \<and> de_organizationId d = or_id (dv_organization e) \<and>
     Some (de_id d) = gr_delegationId g \<and> Some (de_id d) = dt_delegationId t \<and>
     Some (de_accountId d) = gr_accountId g \<and> Some (de_accountId d) = dt_accountId t \<and>
     de_approvedByAccountMembershipId d \<noteq> [] \<and>
     gr_approvedByAccountMembershipId g = Some (de_approvedByAccountMembershipId d)"

definition check_delegation ::
    "evidence \<Rightarrow> capability_policy \<Rightarrow> grant \<Rightarrow> delegation_target \<Rightarrow> int \<Rightarrow> denial_code + unit" where
  "check_delegation e pol g t now =
     (if cp_accountDelegated pol then
        (case dv_delegation e of
           None \<Rightarrow> Inl DELEGATION_REQUIRED
         | Some d \<Rightarrow>
             and_then (require (delegation_consistent e g t d) DELEGATION_MISMATCH) (\<lambda>_.
               check_window (de_status d) (de_validFrom d) (de_expiresAt d) (de_revokedAt d) now
                 DELEGATION_REVOKED DELEGATION_INACTIVE DELEGATION_EXPIRED))
      else require (gr_delegationId g = None \<and> gr_accountId g = None \<and> dt_accountId t = None)
             SCOPE_MISMATCH_DELEGATION)"

definition approval_valid ::
    "evidence \<Rightarrow> string \<Rightarrow> capability_policy \<Rightarrow> grant \<Rightarrow> int \<Rightarrow> approval \<Rightarrow> bool" where
  "approval_valid e capability pol g now a \<longleftrightarrow>
     ap_id a \<noteq> [] \<and> ap_status a = APPROVED \<and> ap_grantId a = gr_id g \<and> ap_capability a = capability \<and>
     ap_approvedByKind a = (if cp_accountDelegated pol then ACCOUNT_MEMBERSHIP else ORGANIZATION_MEMBERSHIP) \<and>
     ap_approvedById a \<noteq> [] \<and>
     \<not> (cp_accountDelegated pol \<and> Some (ap_approvedById a) \<noteq> gr_approvedByAccountMembershipId g) \<and>
     \<not> (capability = ''organization.ownership.transfer'' \<and> ap_approvedById a = me_id (dv_membership e)) \<and>
     scopeIdentity (ap_scope a) = scopeIdentity (gr_scope g) \<and>
     \<not> (case ap_revokedAt a of None \<Rightarrow> False | Some d \<Rightarrow> time_passed d now)"

definition check_approval ::
    "evidence \<Rightarrow> string \<Rightarrow> capability_policy \<Rightarrow> grant \<Rightarrow> int \<Rightarrow> denial_code + unit" where
  "check_approval e capability pol g now =
     (if \<not> cp_approvalRequired pol then Inr ()
      else case dv_approval e of
          None \<Rightarrow> Inl APPROVAL_REQUIRED
        | Some a \<Rightarrow>
            and_then (require (approval_valid e capability pol g now a) APPROVAL_INVALID) (\<lambda>_.
              require (activeWindow (ap_validFrom a) (ap_expiresAt a) now = WINDOW_ACTIVE) APPROVAL_EXPIRED))"

definition authorize ::
    "evidence \<Rightarrow> string \<Rightarrow> delegation_target \<Rightarrow> js_date \<Rightarrow> denial_code + ident list" where
  "authorize e capability t now =
     and_then (check_actor e now) (\<lambda>time.
     and_then (check_membership e t) (\<lambda>_.
     (case map_of capabilityPolicies capability of
        None \<Rightarrow> Inl CAPABILITY_UNKNOWN
      | Some pol \<Rightarrow>
          and_then (check_grant e capability time) (\<lambda>g.
          and_then (require (targetIsWellFormed t \<and> scopeIsWellFormed (gr_scope g) \<and>
                     ds_kind (gr_scope g) \<in> set (cp_scopes pol)) SCOPE_NOT_ALLOWED) (\<lambda>_.
          and_then (check_delegation e pol g t time) (\<lambda>_.
          and_then (require (scopeMatches (gr_scope g) t) SCOPE_MISMATCH_DELEGATION) (\<lambda>_.
          and_then (check_approval e capability pol g time) (\<lambda>_.
            Inr ([me_id (dv_membership e), gr_id g] @
              (case dv_delegation e of Some d \<Rightarrow> if cp_accountDelegated pol then [de_id d] else [] | None \<Rightarrow> []) @
              (case dv_approval e of Some a \<Rightarrow> if cp_approvalRequired pol then [ap_id a] else [] | None \<Rightarrow> []))))))))))"

definition evaluateLeagueDelegation ::
    "evidence \<Rightarrow> string \<Rightarrow> delegation_target \<Rightarrow> js_date \<Rightarrow> delegation_decision" where
  "evaluateLeagueDelegation e capability t now =
     (case authorize e capability t now of
        Inl code \<Rightarrow> Denied code (delegation_audit_of e capability t False (Some code) now)
      | Inr refs \<Rightarrow> Allowed capability t refs (delegation_audit_of e capability t True None now))"

section \<open>What an allowed decision rests on\<close>

lemma check_window_Inr:
  "check_window st from til rv now a b c = Inr u \<longleftrightarrow> st = GRANT_ACTIVE \<and> \<not> revoked st rv now \<and> activeWindow from til now = WINDOW_ACTIVE"
  by (cases "activeWindow from til now") (auto simp: check_window_def result_simps)

lemma activeWindow_iff:
  "activeWindow from til now = WINDOW_ACTIVE \<longleftrightarrow>
     (\<exists>t. from = Some t \<and> t \<le> now) \<and> (\<forall>d. til = Some d \<longrightarrow> (\<exists>t. d = Some t \<and> now < t))"
  by (auto simp: activeWindow_def time_passed_def finiteTime_def not_le not_less split: option.splits)

text \<open>A grant, delegation or approval in force at a time.\<close>

definition in_force :: "js_date \<Rightarrow> js_date option \<Rightarrow> js_date option \<Rightarrow> int \<Rightarrow> bool" where
  "in_force from til rv now \<longleftrightarrow> (\<exists>t. from = Some t \<and> t \<le> now) \<and>
     (\<forall>d. til = Some d \<longrightarrow> (\<exists>t. d = Some t \<and> now < t)) \<and> (\<forall>d. rv = Some d \<longrightarrow> (\<exists>t. d = Some t \<and> now < t))"

lemma check_window_in_force:
  "check_window st from til rv now a b c = Inr u \<Longrightarrow> in_force from til rv now"
  by (auto simp: check_window_Inr activeWindow_iff in_force_def revoked_def time_passed_def finiteTime_def not_le split: option.splits)

lemma evaluate_Allowed_iff:
  "evaluateLeagueDelegation e capability t now = Allowed capability' t' refs audit \<longleftrightarrow>
     authorize e capability t now = Inr refs \<and> capability' = capability \<and> t' = t \<and>
     audit = delegation_audit_of e capability t True None now"
  by (auto simp: evaluateLeagueDelegation_def split: sum.splits)

lemma authorizeE:
  assumes "authorize e capability t now = Inr refs"
  obtains time pol g where "now = Some time" and "map_of capabilityPolicies capability = Some pol"
    and "check_membership e t = Inr ()" and "check_grant e capability time = Inr g"
    and "targetIsWellFormed t" and "scopeIsWellFormed (gr_scope g)" and "ds_kind (gr_scope g) \<in> set (cp_scopes pol)"
    and "check_delegation e pol g t time = Inr ()" and "scopeMatches (gr_scope g) t" and "check_approval e capability pol g time = Inr ()"
    and "refs = [me_id (dv_membership e), gr_id g] @
      (case dv_delegation e of Some d \<Rightarrow> if cp_accountDelegated pol then [de_id d] else [] | None \<Rightarrow> []) @
      (case dv_approval e of Some a \<Rightarrow> if cp_approvalRequired pol then [ap_id a] else [] | None \<Rightarrow> [])"
    and "da_authenticated (dv_actor e)"
  using assms by (auto simp: authorize_def check_actor_def finiteTime_def result_simps split: option.splits)

lemma check_grantE:
  assumes "check_grant e capability time = Inr g"
  shows "dv_grant e = Some g" and "gr_capability g = capability" and "gr_organizationId g = or_id (dv_organization e)"
    and "gr_organizationMembershipId g = me_id (dv_membership e)"
    and "in_force (gr_validFrom g) (gr_expiresAt g) (gr_revokedAt g) time"
  using assms by (auto simp: check_grant_def result_simps split: option.splits dest: check_window_in_force)

lemma check_delegationE:
  assumes "check_delegation e pol g t time = Inr ()" and "cp_accountDelegated pol"
  obtains d where "dv_delegation e = Some d" and "delegation_consistent e g t d"
    and "in_force (de_validFrom d) (de_expiresAt d) (de_revokedAt d) time"
  using assms by (auto simp: check_delegation_def result_simps split: option.splits dest: check_window_in_force)

lemma check_approvalE:
  assumes "check_approval e capability pol g time = Inr ()" and "cp_approvalRequired pol"
  obtains a where "dv_approval e = Some a" and "approval_valid e capability pol g time a"
    and "in_force (ap_validFrom a) (ap_expiresAt a) (ap_revokedAt a) time"
proof -
  obtain a where a: "dv_approval e = Some a" "approval_valid e capability pol g time a"
      "activeWindow (ap_validFrom a) (ap_expiresAt a) time = WINDOW_ACTIVE"
    using assms by (auto simp: check_approval_def result_simps split: option.splits)
  then have "in_force (ap_validFrom a) (ap_expiresAt a) (ap_revokedAt a) time"
    by (auto simp: in_force_def activeWindow_iff approval_valid_def time_passed_def finiteTime_def not_le split: option.splits)
  with a that show ?thesis by blast
qed

section \<open>Accounts\<close>

lemma undelegated_target: "check_delegation e pol g t time = Inr () \<Longrightarrow> \<not> cp_accountDelegated pol \<Longrightarrow> dt_accountId t = None"
  by (simp add: check_delegation_def result_simps)

lemma account_authority:
  assumes "authorize e capability t now = Inr refs" and "dt_accountId t = Some a"
  obtains time g d where "now = Some time" and "dv_grant e = Some g" and "dv_delegation e = Some d"
    and "de_accountId d = a" and "gr_accountId g = Some a"
    and "gr_approvedByAccountMembershipId g = Some (de_approvedByAccountMembershipId d)"
    and "in_force (gr_validFrom g) (gr_expiresAt g) (gr_revokedAt g) time"
    and "in_force (de_validFrom d) (de_expiresAt d) (de_revokedAt d) time"
    and "scopeMatches (gr_scope g) t" and "{me_id (dv_membership e), gr_id g, de_id d} \<subseteq> set refs"
proof -
  from authorizeE [OF assms(1)] obtain time pol g where z: "now = Some time"
    "check_grant e capability time = Inr g" "check_delegation e pol g t time = Inr ()" "scopeMatches (gr_scope g) t"
    "refs = [me_id (dv_membership e), gr_id g] @
      (case dv_delegation e of Some d \<Rightarrow> if cp_accountDelegated pol then [de_id d] else [] | None \<Rightarrow> []) @
      (case dv_approval e of Some a \<Rightarrow> if cp_approvalRequired pol then [ap_id a] else [] | None \<Rightarrow> [])"
    by metis
  have pol: "cp_accountDelegated pol" using undelegated_target [OF z(3)] assms(2) by (cases "cp_accountDelegated pol") auto
  obtain d where d: "dv_delegation e = Some d" "delegation_consistent e g t d"
    "in_force (de_validFrom d) (de_expiresAt d) (de_revokedAt d) time"
    using check_delegationE [OF z(3) pol] by blast
  with z check_grantE [OF z(2)] pol assms(2) that [of time g d] show ?thesis
    by (auto simp: delegation_consistent_def)
qed

section \<open>Scope identities\<close>

lemma join_colon_Cons: "ys \<noteq> [] \<Longrightarrow> join_colon (x # ys) = x @ CHR '':'' # join_colon ys"
  by (cases ys) auto

lemma split_at_colon:
  "CHR '':'' \<notin> set x \<Longrightarrow> CHR '':'' \<notin> set y \<Longrightarrow> x @ CHR '':'' # r = y @ CHR '':'' # r' \<Longrightarrow> x = y \<and> r = r'"
proof (induction x arbitrary: y)
  case Nil
  then show ?case by (cases y) auto
next
  case (Cons c x)
  then show ?case by (cases y) auto
qed

lemma join_colon_inject:
  assumes "join_colon xs = join_colon ys" and "length xs = length ys"
    and "\<forall>x\<in>set xs \<union> set ys. CHR '':'' \<notin> set x"
  shows "xs = ys"
  using assms
proof (induction xs arbitrary: ys)
  case (Cons x xs)
  then obtain y ys' where ys: "ys = y # ys'" "length xs = length ys'" by (cases ys) auto
  show ?case
  proof (cases "xs = []")
    case False
    moreover from this have "ys' \<noteq> []" using ys(2) by auto
    ultimately have "x = y \<and> join_colon xs = join_colon ys'"
      using Cons.prems ys split_at_colon [of x y "join_colon xs" "join_colon ys'"] by (auto simp: join_colon_Cons)
    with Cons.IH [of ys'] Cons.prems(3) ys show ?thesis by auto
  qed (use Cons.prems ys in auto)
qed simp

definition colon_free :: "delegation_scope \<Rightarrow> bool" where
  "colon_free s \<longleftrightarrow> list_all (\<lambda>x. CHR '':'' \<notin> set x) (scope_fields s)"

lemma kind_name_inject: "kind_name k = kind_name k' \<longleftrightarrow> k = k'"
  by (cases k; cases k') (simp_all add: kind_name_def)

lemma scopeIdentity_fields:
  assumes "scopeIdentity s = scopeIdentity s'" and "colon_free s" and "colon_free s'"
  shows "scope_fields s = scope_fields s'"
  using assms join_colon_inject [of "scope_fields s" "scope_fields s'"]
  by (auto simp: scopeIdentity_def colon_free_def list_all_iff scope_fields_def)

lemma or_empty_truthy: "truthy x \<Longrightarrow> truthy y \<Longrightarrow> or_empty x = or_empty y \<longleftrightarrow> x = y"
  by (cases x; cases y) (auto simp: or_empty_def)

lemma scopeIdentity_inject:
  assumes "scopeIdentity s = scopeIdentity s'" and "colon_free s" and "colon_free s'"
    and "scopeIsWellFormed s" and "scopeIsWellFormed s'"
  shows "s = s'"
proof -
  have f: "scope_fields s = scope_fields s'" using assms(1-3) by (rule scopeIdentity_fields)
  then have "ds_kind s = ds_kind s'" by (simp add: scope_fields_def kind_name_inject)
  with f assms(4,5) show ?thesis
    by (cases s; cases s'; cases "ds_kind s")
      (auto simp: scopeIsWellFormed_def scope_fields_def or_empty_truthy)
qed

end
