(* ===== verification/Fantasy_Domain.thy ===== *)
theory Fantasy_Domain
  imports Game_Events Fantasy_Rules League_Delegation
begin

text \<open>
  Fantasy leagues, teams, player entries and roster snapshots (\<open>src/domain/fantasy-domain.ts\<close>), and
  the authority that every operation on them demands.  An input of unknown shape is an option:
  \<open>None\<close> stands for a value the schema rejects for its shape, \<open>Some\<close> for a value whose strings are
  then trimmed and checked as the schema does.  Two things are not code of the repository and are
  parameters, collected in the record \<open>fantasy_env\<close>: the ISO datetime check of the schema library
  and the digest of a scoring model.
\<close>

record fantasy_env =
  fe_instant :: "string \<Rightarrow> bool"
  fe_modelDigest :: "model_semantics \<Rightarrow> string"

datatype domain_error = FD_INVALID_INPUT | FD_AUTHORIZATION_REQUIRED | FD_ACCOUNT_MISMATCH | FD_SCOPE_MISMATCH
  | FD_RULES_MISMATCH | FD_INVALID_TRANSITION | FD_HISTORY_CONFLICT | FD_ROSTER_CONFLICT | FD_POSITION_INELIGIBLE

text \<open>What the operations throw: an error of their own or one of the scoring rules.\<close>

datatype domain_thrown = Domain domain_error | Rules rules_error

definition verify_model :: "fantasy_env \<Rightarrow> scoring_model \<Rightarrow> domain_thrown + unit" where
  "verify_model env m = map_error Rules (verifyFantasyScoringModel (fe_modelDigest env) m)"

section \<open>Data\<close>

datatype fantasy_capability = FANTASY_LEAGUE_MANAGE | FANTASY_LEAGUE_ACTIVATE | FANTASY_TEAM_MANAGE
  | FANTASY_ROSTER_MANAGE | FANTASY_SCORING_CALCULATE

fun capability_name :: "fantasy_capability \<Rightarrow> string" where
  "capability_name FANTASY_LEAGUE_MANAGE = ''fantasy.league.manage''"
| "capability_name FANTASY_LEAGUE_ACTIVATE = ''fantasy.league.activate''"
| "capability_name FANTASY_TEAM_MANAGE = ''fantasy.team.manage''"
| "capability_name FANTASY_ROSTER_MANAGE = ''fantasy.roster.manage''"
| "capability_name FANTASY_SCORING_CALCULATE = ''fantasy.scoring.calculate''"

datatype authority_scope = SCOPE_ACCOUNT | SCOPE_LEAGUE ident | SCOPE_TEAM ident ident

datatype authority_source = ACCOUNT_PERMISSION | LEAGUE_DELEGATION

record fantasy_authority =
  fa_accountId :: ident
  fa_actorId :: ident
  fa_source :: authority_source
  fa_capability :: fantasy_capability
  fa_scope :: authority_scope
  fa_authorityReferenceIds :: "ident list"
  fa_authorizedAt :: string

record administrative_scope =
  as_organizationId :: ident
  as_leagueId :: ident

record rules_binding =
  rb_modelId :: ident
  rb_modelVersionId :: ident
  rb_modelVersion :: int
  rb_modelDigest :: string
  rb_modelOwner :: model_owner
  rb_statisticRegistryVersion :: string

datatype league_lifecycle = LEAGUE_DRAFT | LEAGUE_ACTIVE | LEAGUE_COMPLETED | LEAGUE_ARCHIVED
datatype league_visibility = PRIVATE | LEAGUE_MEMBERS | PUBLIC_METADATA_ONLY

record fantasy_league =
  fl_contractVersion :: int
  fl_id :: ident
  fl_accountId :: ident
  fl_ownerAccountId :: ident
  fl_administrativeScope :: "administrative_scope option"
  fl_seasonId :: ident
  fl_name :: string
  fl_rules :: rules_binding
  fl_lifecycle :: league_lifecycle
  fl_visibility :: league_visibility
  fl_revision :: int
  fl_createdAt :: string
  fl_activatedAt :: "string option"
  fl_completedAt :: "string option"
  fl_archivedAt :: "string option"

datatype team_lifecycle = TEAM_DRAFT | TEAM_ACTIVE | TEAM_WITHDRAWN | TEAM_ARCHIVED

record fantasy_team =
  ft_contractVersion :: int
  ft_id :: ident
  ft_accountId :: ident
  ft_fantasyLeagueId :: ident
  ft_ownerAccountId :: ident
  ft_ownerAccountMembershipId :: ident
  ft_name :: string
  ft_lifecycle :: team_lifecycle
  ft_revision :: int
  ft_createdAt :: string
  ft_activatedAt :: "string option"
  ft_withdrawnAt :: "string option"
  ft_archivedAt :: "string option"

record eligibility_snapshot =
  eg_fantasyModelVersionId :: ident
  eg_fantasyModelDigest :: string
  eg_eligiblePositionCodes :: "string list"
  eg_sourceRosterRevision :: int
  eg_sourceStatisticsRevision :: int
  eg_evaluatedAt :: string

datatype ownership_state = AVAILABLE | ROSTERED | INACTIVE | RELEASED

record ownership_snapshot =
  ow_state :: ownership_state
  ow_fantasyTeamId :: "ident option"
  ow_revision :: int
  ow_effectiveAt :: string

record player_entry_input =
  pe_id :: ident
  pe_accountId :: ident
  pe_fantasyLeagueId :: ident
  pe_baseballPlayerId :: ident
  pe_eligibility :: eligibility_snapshot
  pe_ownership :: ownership_snapshot
  pe_createdAt :: string

record player_entry = player_entry_input +
  pe_contractVersion :: int

datatype slot_kind = SLOT_ACTIVE | SLOT_BENCH | SLOT_INACTIVE

record roster_slot =
  rs_id :: ident
  rs_kind :: slot_kind
  rs_lineupSlotRuleId :: "ident option"
  rs_playerEntryId :: "ident option"

record roster_input =
  ro_id :: ident
  ro_accountId :: ident
  ro_fantasyLeagueId :: ident
  ro_fantasyTeamId :: ident
  ro_revision :: int
  ro_previousSnapshotId :: "ident option"
  ro_effectiveAt :: string
  ro_slots :: "roster_slot list"

record roster_snapshot = roster_input +
  ro_contractVersion :: int
  ro_rules :: rules_binding

definition domain_contract_version :: int where
  "domain_contract_version = 1"

record create_league_input =
  cl_id :: ident
  cl_accountId :: ident
  cl_administrativeScope :: "administrative_scope option"
  cl_seasonId :: ident
  cl_name :: string
  cl_visibility :: league_visibility
  cl_createdAt :: string

record create_team_input =
  ct_id :: ident
  ct_accountId :: ident
  ct_fantasyLeagueId :: ident
  ct_ownerAccountMembershipId :: ident
  ct_name :: string
  ct_createdAt :: string

section \<open>Schemas\<close>

definition label_ok :: "string \<Rightarrow> bool" where
  "label_ok s \<longleftrightarrow> 1 \<le> length s \<and> length s \<le> 120"

definition unique_ids_ok :: "ident list \<Rightarrow> bool" where
  "unique_ids_ok ids \<longleftrightarrow> ids \<noteq> [] \<and> list_all id_ok ids \<and> distinct ids"

fun trim_scope :: "authority_scope \<Rightarrow> authority_scope" where
  "trim_scope SCOPE_ACCOUNT = SCOPE_ACCOUNT"
| "trim_scope (SCOPE_LEAGUE l) = SCOPE_LEAGUE (trim l)"
| "trim_scope (SCOPE_TEAM l t) = SCOPE_TEAM (trim l) (trim t)"

fun scope_ok :: "authority_scope \<Rightarrow> bool" where
  "scope_ok SCOPE_ACCOUNT = True"
| "scope_ok (SCOPE_LEAGUE l) = id_ok l"
| "scope_ok (SCOPE_TEAM l t) = (id_ok l \<and> id_ok t)"

definition trim_authority :: "fantasy_authority \<Rightarrow> fantasy_authority" where
  "trim_authority a = a\<lparr>fa_accountId := trim (fa_accountId a), fa_actorId := trim (fa_actorId a),
     fa_scope := trim_scope (fa_scope a), fa_authorityReferenceIds := map trim (fa_authorityReferenceIds a)\<rparr>"

definition authority_ok :: "fantasy_env \<Rightarrow> fantasy_authority \<Rightarrow> bool" where
  "authority_ok env a \<longleftrightarrow> id_ok (fa_accountId a) \<and> id_ok (fa_actorId a) \<and> scope_ok (fa_scope a) \<and>
     unique_ids_ok (fa_authorityReferenceIds a) \<and> fe_instant env (fa_authorizedAt a)"

text \<open>A schema as a trimming and a check on the trimmed value.\<close>

definition parsed :: "('a \<Rightarrow> 'a) \<Rightarrow> ('a \<Rightarrow> bool) \<Rightarrow> 'a option \<Rightarrow> domain_thrown + 'a" where
  "parsed trm ok inp =
     (case inp of None \<Rightarrow> Inl (Domain FD_INVALID_INPUT)
      | Some v \<Rightarrow> and_then (require (ok (trm v)) (Domain FD_INVALID_INPUT)) (\<lambda>_. Inr (trm v)))"

definition trim_league_input :: "create_league_input \<Rightarrow> create_league_input" where
  "trim_league_input i = i\<lparr>cl_id := trim (cl_id i), cl_accountId := trim (cl_accountId i),
     cl_administrativeScope := map_option (\<lambda>s. s\<lparr>as_organizationId := trim (as_organizationId s),
        as_leagueId := trim (as_leagueId s)\<rparr>) (cl_administrativeScope i),
     cl_seasonId := trim (cl_seasonId i), cl_name := trim (cl_name i)\<rparr>"

definition league_input_ok :: "fantasy_env \<Rightarrow> create_league_input \<Rightarrow> bool" where
  "league_input_ok env i \<longleftrightarrow> id_ok (cl_id i) \<and> id_ok (cl_accountId i) \<and>
     (case cl_administrativeScope i of None \<Rightarrow> True
      | Some s \<Rightarrow> id_ok (as_organizationId s) \<and> id_ok (as_leagueId s)) \<and>
     id_ok (cl_seasonId i) \<and> label_ok (cl_name i) \<and> fe_instant env (cl_createdAt i)"

definition trim_team_input :: "create_team_input \<Rightarrow> create_team_input" where
  "trim_team_input i = i\<lparr>ct_id := trim (ct_id i), ct_accountId := trim (ct_accountId i),
     ct_fantasyLeagueId := trim (ct_fantasyLeagueId i),
     ct_ownerAccountMembershipId := trim (ct_ownerAccountMembershipId i), ct_name := trim (ct_name i)\<rparr>"

definition team_input_ok :: "fantasy_env \<Rightarrow> create_team_input \<Rightarrow> bool" where
  "team_input_ok env i \<longleftrightarrow> id_ok (ct_id i) \<and> id_ok (ct_accountId i) \<and> id_ok (ct_fantasyLeagueId i) \<and>
     id_ok (ct_ownerAccountMembershipId i) \<and> label_ok (ct_name i) \<and> fe_instant env (ct_createdAt i)"

definition trim_eligibility :: "eligibility_snapshot \<Rightarrow> eligibility_snapshot" where
  "trim_eligibility e = e\<lparr>eg_fantasyModelVersionId := trim (eg_fantasyModelVersionId e),
     eg_fantasyModelDigest := trim (eg_fantasyModelDigest e),
     eg_eligiblePositionCodes := map trim (eg_eligiblePositionCodes e)\<rparr>"

definition eligibility_ok :: "fantasy_env \<Rightarrow> eligibility_snapshot \<Rightarrow> bool" where
  "eligibility_ok env e \<longleftrightarrow> id_ok (eg_fantasyModelVersionId e) \<and> id_ok (eg_fantasyModelDigest e) \<and>
     list_all id_ok (eg_eligiblePositionCodes e) \<and> distinct (eg_eligiblePositionCodes e) \<and>
     safe_int (eg_sourceRosterRevision e) \<and> 0 \<le> eg_sourceRosterRevision e \<and>
     safe_int (eg_sourceStatisticsRevision e) \<and> 0 \<le> eg_sourceStatisticsRevision e \<and>
     fe_instant env (eg_evaluatedAt e)"

definition owned_state :: "ownership_state \<Rightarrow> bool" where
  "owned_state st \<longleftrightarrow> st = ROSTERED \<or> st = INACTIVE"

definition trim_ownership :: "ownership_snapshot \<Rightarrow> ownership_snapshot" where
  "trim_ownership w = w\<lparr>ow_fantasyTeamId := map_option trim (ow_fantasyTeamId w)\<rparr>"

definition ownership_ok :: "fantasy_env \<Rightarrow> ownership_snapshot \<Rightarrow> bool" where
  "ownership_ok env w \<longleftrightarrow> (case ow_fantasyTeamId w of None \<Rightarrow> True | Some t \<Rightarrow> id_ok t) \<and>
     safe_int (ow_revision w) \<and> 0 \<le> ow_revision w \<and> fe_instant env (ow_effectiveAt w) \<and>
     owned_state (ow_state w) = (ow_fantasyTeamId w \<noteq> None)"

definition trim_entry_input :: "player_entry_input \<Rightarrow> player_entry_input" where
  "trim_entry_input i = i\<lparr>pe_id := trim (pe_id i), pe_accountId := trim (pe_accountId i),
     pe_fantasyLeagueId := trim (pe_fantasyLeagueId i), pe_baseballPlayerId := trim (pe_baseballPlayerId i),
     pe_eligibility := trim_eligibility (pe_eligibility i), pe_ownership := trim_ownership (pe_ownership i)\<rparr>"

definition entry_input_ok :: "fantasy_env \<Rightarrow> player_entry_input \<Rightarrow> bool" where
  "entry_input_ok env i \<longleftrightarrow> id_ok (pe_id i) \<and> id_ok (pe_accountId i) \<and> id_ok (pe_fantasyLeagueId i) \<and>
     id_ok (pe_baseballPlayerId i) \<and> eligibility_ok env (pe_eligibility i) \<and>
     ownership_ok env (pe_ownership i) \<and> fe_instant env (pe_createdAt i)"

definition opt_ok :: "ident option \<Rightarrow> bool" where
  "opt_ok x \<longleftrightarrow> (case x of None \<Rightarrow> True | Some i \<Rightarrow> id_ok i)"

definition trim_slot :: "roster_slot \<Rightarrow> roster_slot" where
  "trim_slot s = s\<lparr>rs_id := trim (rs_id s), rs_lineupSlotRuleId := map_option trim (rs_lineupSlotRuleId s),
     rs_playerEntryId := map_option trim (rs_playerEntryId s)\<rparr>"

definition slot_shape_ok :: "roster_slot \<Rightarrow> bool" where
  "slot_shape_ok s \<longleftrightarrow> id_ok (rs_id s) \<and> opt_ok (rs_lineupSlotRuleId s) \<and> opt_ok (rs_playerEntryId s)"

definition slot_ok :: "roster_slot \<Rightarrow> bool" where
  "slot_ok s \<longleftrightarrow> slot_shape_ok s \<and> (rs_kind s = SLOT_ACTIVE) = (rs_lineupSlotRuleId s \<noteq> None)"

definition trim_roster_input :: "roster_input \<Rightarrow> roster_input" where
  "trim_roster_input i = i\<lparr>ro_id := trim (ro_id i), ro_accountId := trim (ro_accountId i),
     ro_fantasyLeagueId := trim (ro_fantasyLeagueId i), ro_fantasyTeamId := trim (ro_fantasyTeamId i),
     ro_previousSnapshotId := map_option trim (ro_previousSnapshotId i), ro_slots := map trim_slot (ro_slots i)\<rparr>"

definition roster_input_ok :: "fantasy_env \<Rightarrow> roster_input \<Rightarrow> bool" where
  "roster_input_ok env i \<longleftrightarrow> id_ok (ro_id i) \<and> id_ok (ro_accountId i) \<and> id_ok (ro_fantasyLeagueId i) \<and>
     id_ok (ro_fantasyTeamId i) \<and> safe_int (ro_revision i) \<and> 0 \<le> ro_revision i \<and>
     opt_ok (ro_previousSnapshotId i) \<and> fe_instant env (ro_effectiveAt i) \<and> list_all slot_ok (ro_slots i)"

section \<open>Authority\<close>

definition scopeAllows :: "authority_scope \<Rightarrow> ident option \<Rightarrow> ident option \<Rightarrow> bool" where
  "scopeAllows scope league team =
     (case scope of
        SCOPE_ACCOUNT \<Rightarrow> True
      | SCOPE_LEAGUE l \<Rightarrow> truthy league \<and> Some l = league
      | SCOPE_TEAM l t \<Rightarrow> truthy league \<and> Some l = league \<and> team \<noteq> None \<and> Some t = team)"

definition assertFantasyAuthority ::
    "fantasy_env \<Rightarrow> fantasy_authority \<Rightarrow> ident \<Rightarrow> fantasy_capability \<Rightarrow> ident option \<Rightarrow> ident option
     \<Rightarrow> domain_thrown + unit" where
  "assertFantasyAuthority env authority account capability league team =
     and_then (parsed trim_authority (authority_ok env) (Some authority)) (\<lambda>a.
     and_then (require (fa_accountId a = account) (Domain FD_ACCOUNT_MISMATCH)) (\<lambda>_.
     and_then (require (fa_capability a = capability) (Domain FD_AUTHORIZATION_REQUIRED)) (\<lambda>_.
     and_then (require (scopeAllows (fa_scope a) league team) (Domain FD_SCOPE_MISMATCH)) (\<lambda>_.
     and_then (require (\<not> (fa_source a = LEAGUE_DELEGATION \<and> length (fa_authorityReferenceIds a) < 3))
                (Domain FD_AUTHORIZATION_REQUIRED)) (\<lambda>_.
       require (\<not> (capability = FANTASY_LEAGUE_ACTIVATE \<and> length (fa_authorityReferenceIds a) < 2))
         (Domain FD_AUTHORIZATION_REQUIRED))))))"

record delegated_request =
  dr_accountId :: ident
  dr_actorId :: ident
  dr_capability :: fantasy_capability
  dr_scope :: authority_scope
  dr_authorizedAt :: string

definition fantasyAuthorityFromDelegation ::
    "fantasy_env \<Rightarrow> delegation_decision \<Rightarrow> delegated_request \<Rightarrow> domain_thrown + fantasy_authority" where
  "fantasyAuthorityFromDelegation env decision r =
     (case decision of
        Denied _ _ \<Rightarrow> Inl (Domain FD_AUTHORIZATION_REQUIRED)
      | Allowed capability target refs audit \<Rightarrow>
          and_then (require (capability = capability_name (dr_capability r) \<and> dt_kind target = ACCOUNT \<and>
                     dt_accountId target = Some (dr_accountId r) \<and> au_actorId audit = dr_actorId r \<and>
                     au_evaluatedAt audit = Some (dr_authorizedAt r)) (Domain FD_AUTHORIZATION_REQUIRED)) (\<lambda>_.
            parsed trim_authority (authority_ok env)
              (Some \<lparr>fa_accountId = dr_accountId r, fa_actorId = dr_actorId r, fa_source = LEAGUE_DELEGATION,
                     fa_capability = dr_capability r, fa_scope = dr_scope r, fa_authorityReferenceIds = refs,
                     fa_authorizedAt = dr_authorizedAt r\<rparr>)))"

section \<open>Leagues\<close>

definition rulesBinding :: "fantasy_env \<Rightarrow> scoring_model \<Rightarrow> domain_thrown + rules_binding" where
  "rulesBinding env m =
     and_then (verify_model env m) (\<lambda>_. Inr \<lparr>rb_modelId = fm_modelId m, rb_modelVersionId = fm_modelVersionId m,
       rb_modelVersion = fm_version m, rb_modelDigest = fm_contentDigest m, rb_modelOwner = fm_owner m,
       rb_statisticRegistryVersion = fm_statisticRegistryVersion m\<rparr>)"

definition bindingMatchesModel :: "rules_binding \<Rightarrow> scoring_model \<Rightarrow> bool" where
  "bindingMatchesModel b m \<longleftrightarrow> rb_modelId b = fm_modelId m \<and> rb_modelVersionId b = fm_modelVersionId m \<and>
     rb_modelVersion b = fm_version m \<and> rb_modelDigest b = fm_contentDigest m \<and>
     rb_statisticRegistryVersion b = fm_statisticRegistryVersion m \<and>
     mo_kind (rb_modelOwner b) = mo_kind (fm_owner m) \<and> mo_id (rb_modelOwner b) = mo_id (fm_owner m)"

definition modelOwnerAllowed :: "ident \<Rightarrow> administrative_scope option \<Rightarrow> model_owner \<Rightarrow> bool" where
  "modelOwnerAllowed account scope ow =
     (case mo_kind ow of
        OWNER_PLATFORM \<Rightarrow> True
      | OWNER_ACCOUNT \<Rightarrow> mo_id ow = Some account
      | OWNER_ORGANIZATION \<Rightarrow> scope \<noteq> None \<and> map_option as_organizationId scope = mo_id ow
      | OWNER_LEAGUE \<Rightarrow> scope \<noteq> None \<and> map_option as_leagueId scope = mo_id ow)"

definition createFantasyLeague ::
    "fantasy_env \<Rightarrow> create_league_input option \<Rightarrow> scoring_model \<Rightarrow> fantasy_authority
     \<Rightarrow> domain_thrown + fantasy_league" where
  "createFantasyLeague env inputValue model authority =
     and_then (parsed trim_league_input (league_input_ok env) inputValue) (\<lambda>i.
     and_then (assertFantasyAuthority env authority (cl_accountId i) FANTASY_LEAGUE_MANAGE None None) (\<lambda>_.
     and_then (verify_model env model) (\<lambda>_.
     and_then (require (fm_lifecycle model \<in> {MODEL_REVIEWED, MODEL_ACTIVE}) (Domain FD_RULES_MISMATCH)) (\<lambda>_.
     and_then (require (modelOwnerAllowed (cl_accountId i) (cl_administrativeScope i) (fm_owner model))
                (Domain FD_RULES_MISMATCH)) (\<lambda>_.
     and_then (rulesBinding env model) (\<lambda>rules.
       Inr \<lparr>fl_contractVersion = domain_contract_version, fl_id = cl_id i, fl_accountId = cl_accountId i,
            fl_ownerAccountId = cl_accountId i, fl_administrativeScope = cl_administrativeScope i,
            fl_seasonId = cl_seasonId i, fl_name = cl_name i, fl_rules = rules, fl_lifecycle = LEAGUE_DRAFT,
            fl_visibility = cl_visibility i, fl_revision = 0, fl_createdAt = cl_createdAt i,
            fl_activatedAt = None, fl_completedAt = None, fl_archivedAt = None\<rparr>))))))"

fun league_transitions :: "league_lifecycle \<Rightarrow> league_lifecycle list" where
  "league_transitions LEAGUE_DRAFT = [LEAGUE_ACTIVE, LEAGUE_ARCHIVED]"
| "league_transitions LEAGUE_ACTIVE = [LEAGUE_COMPLETED]"
| "league_transitions LEAGUE_COMPLETED = [LEAGUE_ARCHIVED]"
| "league_transitions LEAGUE_ARCHIVED = []"

definition transitionFantasyLeague ::
    "fantasy_env \<Rightarrow> fantasy_league \<Rightarrow> league_lifecycle \<Rightarrow> string \<Rightarrow> fantasy_authority \<Rightarrow> scoring_model
     \<Rightarrow> domain_thrown + fantasy_league" where
  "transitionFantasyLeague env league lc at_time authority model =
     and_then (require (fe_instant env at_time) (Domain FD_INVALID_INPUT)) (\<lambda>_.
     and_then (assertFantasyAuthority env authority (fl_accountId league)
                (if fl_lifecycle league = LEAGUE_DRAFT \<and> lc = LEAGUE_ACTIVE then FANTASY_LEAGUE_ACTIVATE
                 else FANTASY_LEAGUE_MANAGE) (Some (fl_id league)) None) (\<lambda>_.
     and_then (require (lc \<in> set (league_transitions (fl_lifecycle league))) (Domain FD_INVALID_TRANSITION)) (\<lambda>_.
     and_then (require (time_le (fl_createdAt league) at_time) (Domain FD_HISTORY_CONFLICT)) (\<lambda>_.
     and_then (verify_model env model) (\<lambda>_.
     and_then (require (bindingMatchesModel (fl_rules league) model) (Domain FD_RULES_MISMATCH)) (\<lambda>_.
     and_then (require (\<not> (lc = LEAGUE_ACTIVE \<and> fm_lifecycle model \<noteq> MODEL_ACTIVE)) (Domain FD_RULES_MISMATCH)) (\<lambda>_.
       Inr (league\<lparr>fl_lifecycle := lc, fl_revision := fl_revision league + 1,
         fl_activatedAt := (if lc = LEAGUE_ACTIVE then Some at_time else fl_activatedAt league),
         fl_completedAt := (if lc = LEAGUE_COMPLETED then Some at_time else fl_completedAt league),
         fl_archivedAt := (if lc = LEAGUE_ARCHIVED then Some at_time else fl_archivedAt league)\<rparr>))))))))"

section \<open>Teams\<close>

definition createFantasyTeam ::
    "fantasy_env \<Rightarrow> create_team_input option \<Rightarrow> fantasy_league \<Rightarrow> fantasy_authority
     \<Rightarrow> domain_thrown + fantasy_team" where
  "createFantasyTeam env inputValue league authority =
     and_then (parsed trim_team_input (team_input_ok env) inputValue) (\<lambda>i.
     and_then (assertFantasyAuthority env authority (ct_accountId i) FANTASY_TEAM_MANAGE
                (Some (ct_fantasyLeagueId i)) None) (\<lambda>_.
     and_then (require (ct_accountId i = fl_accountId league \<and> ct_fantasyLeagueId i = fl_id league)
                (Domain FD_ACCOUNT_MISMATCH)) (\<lambda>_.
     and_then (require (fl_lifecycle league \<notin> {LEAGUE_COMPLETED, LEAGUE_ARCHIVED}) (Domain FD_HISTORY_CONFLICT)) (\<lambda>_.
     and_then (require (time_le (fl_createdAt league) (ct_createdAt i)) (Domain FD_HISTORY_CONFLICT)) (\<lambda>_.
       Inr \<lparr>ft_contractVersion = domain_contract_version, ft_id = ct_id i, ft_accountId = ct_accountId i,
            ft_fantasyLeagueId = ct_fantasyLeagueId i, ft_ownerAccountId = ct_accountId i,
            ft_ownerAccountMembershipId = ct_ownerAccountMembershipId i, ft_name = ct_name i,
            ft_lifecycle = TEAM_DRAFT, ft_revision = 0, ft_createdAt = ct_createdAt i,
            ft_activatedAt = None, ft_withdrawnAt = None, ft_archivedAt = None\<rparr>)))))"

fun team_transitions :: "team_lifecycle \<Rightarrow> team_lifecycle list" where
  "team_transitions TEAM_DRAFT = [TEAM_ACTIVE, TEAM_ARCHIVED]"
| "team_transitions TEAM_ACTIVE = [TEAM_WITHDRAWN]"
| "team_transitions TEAM_WITHDRAWN = [TEAM_ARCHIVED]"
| "team_transitions TEAM_ARCHIVED = []"

definition transitionFantasyTeam ::
    "fantasy_env \<Rightarrow> fantasy_team \<Rightarrow> fantasy_league \<Rightarrow> team_lifecycle \<Rightarrow> string \<Rightarrow> fantasy_authority
     \<Rightarrow> domain_thrown + fantasy_team" where
  "transitionFantasyTeam env team league lc at_time authority =
     and_then (require (fe_instant env at_time) (Domain FD_INVALID_INPUT)) (\<lambda>_.
     and_then (assertFantasyAuthority env authority (ft_accountId team) FANTASY_TEAM_MANAGE
                (Some (ft_fantasyLeagueId team)) (Some (ft_id team))) (\<lambda>_.
     and_then (require (ft_accountId team = fl_accountId league \<and> ft_fantasyLeagueId team = fl_id league)
                (Domain FD_ACCOUNT_MISMATCH)) (\<lambda>_.
     and_then (require (lc \<in> set (team_transitions (ft_lifecycle team))) (Domain FD_INVALID_TRANSITION)) (\<lambda>_.
     and_then (require (time_le (ft_createdAt team) at_time \<and>
                \<not> (lc = TEAM_ACTIVE \<and> fl_lifecycle league \<noteq> LEAGUE_ACTIVE)) (Domain FD_HISTORY_CONFLICT)) (\<lambda>_.
       Inr (team\<lparr>ft_lifecycle := lc, ft_revision := ft_revision team + 1,
         ft_activatedAt := (if lc = TEAM_ACTIVE then Some at_time else ft_activatedAt team),
         ft_withdrawnAt := (if lc = TEAM_WITHDRAWN then Some at_time else ft_withdrawnAt team),
         ft_archivedAt := (if lc = TEAM_ARCHIVED then Some at_time else ft_archivedAt team)\<rparr>))))))"

section \<open>Player entries\<close>

definition createFantasyPlayerEntry ::
    "fantasy_env \<Rightarrow> player_entry_input option \<Rightarrow> fantasy_league \<Rightarrow> fantasy_authority
     \<Rightarrow> domain_thrown + player_entry" where
  "createFantasyPlayerEntry env inputValue league authority =
     and_then (parsed trim_entry_input (entry_input_ok env) inputValue) (\<lambda>i.
     and_then (assertFantasyAuthority env authority (pe_accountId i) FANTASY_ROSTER_MANAGE
                (Some (pe_fantasyLeagueId i)) (ow_fantasyTeamId (pe_ownership i))) (\<lambda>_.
     and_then (require (pe_accountId i = fl_accountId league \<and> pe_fantasyLeagueId i = fl_id league)
                (Domain FD_ACCOUNT_MISMATCH)) (\<lambda>_.
     and_then (require (eg_fantasyModelVersionId (pe_eligibility i) = rb_modelVersionId (fl_rules league) \<and>
                eg_fantasyModelDigest (pe_eligibility i) = rb_modelDigest (fl_rules league))
                (Domain FD_RULES_MISMATCH)) (\<lambda>_.
     and_then (require (fl_lifecycle league \<notin> {LEAGUE_COMPLETED, LEAGUE_ARCHIVED}) (Domain FD_HISTORY_CONFLICT)) (\<lambda>_.
     and_then (require (time_le (fl_createdAt league) (pe_createdAt i)) (Domain FD_HISTORY_CONFLICT)) (\<lambda>_.
       Inr (player_entry_input.extend i \<lparr>pe_contractVersion = domain_contract_version\<rparr>)))))))"

section \<open>Roster snapshots\<close>

definition sameRules :: "rules_binding \<Rightarrow> rules_binding \<Rightarrow> bool" where
  "sameRules l r \<longleftrightarrow> rb_modelVersionId l = rb_modelVersionId r \<and> rb_modelDigest l = rb_modelDigest r"

text \<open>A first snapshot has revision 0; every other one follows the snapshot before it.\<close>

definition roster_succeeds :: "roster_input \<Rightarrow> fantasy_league \<Rightarrow> roster_snapshot option \<Rightarrow> bool" where
  "roster_succeeds i league previous =
     (case previous of
        None \<Rightarrow> ro_revision i = 0 \<and> ro_previousSnapshotId i = None
      | Some p \<Rightarrow> ro_accountId p = ro_accountId i \<and> ro_fantasyLeagueId p = ro_fantasyLeagueId i \<and>
          ro_fantasyTeamId p = ro_fantasyTeamId i \<and> ro_revision i = ro_revision p + 1 \<and>
          ro_previousSnapshotId i = Some (ro_id p) \<and> sameRules (ro_rules p) (fl_rules league) \<and>
          \<not> time_le (ro_effectiveAt i) (ro_effectiveAt p))"

text \<open>The sets and counters of the loop over the slots.\<close>

record roster_scan =
  sn_slotIds :: "ident set"
  sn_playerEntryIds :: "ident list"
  sn_baseballPlayerIds :: "ident set"
  sn_activeCounts :: "ident \<Rightarrow> int"
  sn_benchCount :: int

definition empty_scan :: roster_scan where
  "empty_scan = \<lparr>sn_slotIds = {}, sn_playerEntryIds = [], sn_baseballPlayerIds = {},
     sn_activeCounts = (\<lambda>_. 0), sn_benchCount = 0\<rparr>"

definition count_slot :: "scoring_model \<Rightarrow> roster_scan \<Rightarrow> roster_slot \<Rightarrow> domain_thrown + roster_scan" where
  "count_slot model sn s =
     and_then (require (rs_id s \<notin> sn_slotIds sn) (Domain FD_ROSTER_CONFLICT)) (\<lambda>_.
     (let sn' = sn\<lparr>sn_slotIds := insert (rs_id s) (sn_slotIds sn),
                   sn_benchCount := sn_benchCount sn + (if rs_kind s = SLOT_BENCH then 1 else 0)\<rparr> in
      case (if rs_kind s = SLOT_ACTIVE then rs_lineupSlotRuleId s else None) of
        None \<Rightarrow> Inr sn'
      | Some ruleId \<Rightarrow>
          (case js_map_of ls_id (rr_lineupSlots (fm_roster model)) ruleId of
             None \<Rightarrow> Inl (Domain FD_ROSTER_CONFLICT)
           | Some rule \<Rightarrow>
               (let n = sn_activeCounts sn (ls_id rule) + 1 in
                and_then (require (\<not> n > ls_count rule) (Domain FD_ROSTER_CONFLICT)) (\<lambda>_.
                  Inr (sn'\<lparr>sn_activeCounts := (sn_activeCounts sn)(ls_id rule := n)\<rparr>))))))"

definition entry_matches :: "roster_input \<Rightarrow> fantasy_league \<Rightarrow> player_entry \<Rightarrow> bool" where
  "entry_matches i league e \<longleftrightarrow>
     pe_accountId e = ro_accountId i \<and> pe_fantasyLeagueId e = ro_fantasyLeagueId i \<and>
     eg_fantasyModelVersionId (pe_eligibility e) = rb_modelVersionId (fl_rules league) \<and>
     eg_fantasyModelDigest (pe_eligibility e) = rb_modelDigest (fl_rules league) \<and>
     ow_fantasyTeamId (pe_ownership e) = Some (ro_fantasyTeamId i) \<and> owned_state (ow_state (pe_ownership e))"

definition position_eligible :: "scoring_model \<Rightarrow> roster_slot \<Rightarrow> player_entry \<Rightarrow> bool" where
  "position_eligible model s e \<longleftrightarrow>
     (case rs_lineupSlotRuleId s of
        None \<Rightarrow> False
      | Some ruleId \<Rightarrow>
          (case js_map_of ls_id (rr_lineupSlots (fm_roster model)) ruleId of
             None \<Rightarrow> False
           | Some rule \<Rightarrow> list_ex (\<lambda>p. p \<in> set (eg_eligiblePositionCodes (pe_eligibility e)))
               (ls_eligiblePositionCodes rule)))"

definition check_placement :: "scoring_model \<Rightarrow> roster_slot \<Rightarrow> player_entry \<Rightarrow> domain_thrown + unit" where
  "check_placement model s e =
     (let st = ow_state (pe_ownership e) in
      case rs_kind s of
        SLOT_ACTIVE \<Rightarrow> require (st = ROSTERED \<and> position_eligible model s e) (Domain FD_POSITION_INELIGIBLE)
      | SLOT_BENCH \<Rightarrow> require (st = ROSTERED) (Domain FD_ROSTER_CONFLICT)
      | SLOT_INACTIVE \<Rightarrow> require (st = INACTIVE) (Domain FD_ROSTER_CONFLICT))"

definition fill_slot ::
    "roster_input \<Rightarrow> fantasy_league \<Rightarrow> scoring_model \<Rightarrow> player_entry list \<Rightarrow> roster_slot \<Rightarrow> roster_scan
     \<Rightarrow> domain_thrown + roster_scan" where
  "fill_slot i league model entries s sn =
     (case rs_playerEntryId s of
        None \<Rightarrow> Inr sn
      | Some p \<Rightarrow>
          and_then (require (p \<notin> set (sn_playerEntryIds sn)) (Domain FD_ROSTER_CONFLICT)) (\<lambda>_.
          (case js_map_of pe_id entries p of
             None \<Rightarrow> Inl (Domain FD_ROSTER_CONFLICT)
           | Some e \<Rightarrow>
               and_then (require (entry_matches i league e) (Domain FD_ROSTER_CONFLICT)) (\<lambda>_.
               and_then (require (pe_baseballPlayerId e \<notin> sn_baseballPlayerIds sn) (Domain FD_ROSTER_CONFLICT)) (\<lambda>_.
               and_then (check_placement model s e) (\<lambda>_.
                 Inr (sn\<lparr>sn_playerEntryIds := p # sn_playerEntryIds sn,
                         sn_baseballPlayerIds := insert (pe_baseballPlayerId e) (sn_baseballPlayerIds sn)\<rparr>)))))))"

definition scan_slot ::
    "roster_input \<Rightarrow> fantasy_league \<Rightarrow> scoring_model \<Rightarrow> player_entry list \<Rightarrow> roster_scan \<Rightarrow> roster_slot
     \<Rightarrow> domain_thrown + roster_scan" where
  "scan_slot i league model entries sn s =
     and_then (count_slot model sn s) (fill_slot i league model entries s)"

definition createFantasyRosterSnapshot ::
    "fantasy_env \<Rightarrow> roster_input option \<Rightarrow> fantasy_league \<Rightarrow> fantasy_team \<Rightarrow> scoring_model \<Rightarrow> player_entry list
     \<Rightarrow> fantasy_authority \<Rightarrow> roster_snapshot option \<Rightarrow> domain_thrown + roster_snapshot" where
  "createFantasyRosterSnapshot env inputValue league team model entries authority previous =
     and_then (parsed trim_roster_input (roster_input_ok env) inputValue) (\<lambda>i.
     and_then (assertFantasyAuthority env authority (ro_accountId i) FANTASY_ROSTER_MANAGE
                (Some (ro_fantasyLeagueId i)) (Some (ro_fantasyTeamId i))) (\<lambda>_.
     and_then (require (ro_accountId i = fl_accountId league \<and> ro_accountId i = ft_accountId team \<and>
                ro_fantasyLeagueId i = fl_id league \<and> ro_fantasyLeagueId i = ft_fantasyLeagueId team \<and>
                ro_fantasyTeamId i = ft_id team) (Domain FD_ACCOUNT_MISMATCH)) (\<lambda>_.
     and_then (require (fl_lifecycle league = LEAGUE_ACTIVE \<and> ft_lifecycle team = TEAM_ACTIVE)
                (Domain FD_HISTORY_CONFLICT)) (\<lambda>_.
     and_then (verify_model env model) (\<lambda>_.
     and_then (require (bindingMatchesModel (fl_rules league) model) (Domain FD_RULES_MISMATCH)) (\<lambda>_.
     and_then (require (roster_succeeds i league previous) (Domain FD_HISTORY_CONFLICT)) (\<lambda>_.
     and_then (require (distinct (map pe_id entries)) (Domain FD_ROSTER_CONFLICT)) (\<lambda>_.
     and_then (fold_res (scan_slot i league model entries) empty_scan (ro_slots i)) (\<lambda>sn.
     and_then (require (\<not> (int (length (sn_playerEntryIds sn)) > rr_maximumRosterSize (fm_roster model) \<or>
                sn_benchCount sn > rr_benchSlots (fm_roster model))) (Domain FD_ROSTER_CONFLICT)) (\<lambda>_.
     and_then (rulesBinding env model) (\<lambda>rules.
       Inr (roster_input.extend i \<lparr>ro_contractVersion = domain_contract_version, ro_rules = rules\<rparr>))))))))))))"

section \<open>Well-formed snapshots\<close>

text \<open>The player entries a snapshot places, in the order of its slots.\<close>

definition slot_entries :: "'a roster_input_scheme \<Rightarrow> ident list" where
  "slot_entries r = List.map_filter rs_playerEntryId (ro_slots r)"

text \<open>The entry of a filled slot belongs to the team and may stand in that slot.\<close>

definition slot_sound ::
    "'a roster_input_scheme \<Rightarrow> fantasy_league \<Rightarrow> scoring_model \<Rightarrow> player_entry list \<Rightarrow> roster_slot \<Rightarrow> bool" where
  "slot_sound i league model entries s \<longleftrightarrow>
     (rs_kind s = SLOT_ACTIVE \<longrightarrow> (\<exists>ruleId rule. rs_lineupSlotRuleId s = Some ruleId \<and> ls_id rule = ruleId \<and>
        rule \<in> set (rr_lineupSlots (fm_roster model)))) \<and>
     (\<forall>p. rs_playerEntryId s = Some p \<longrightarrow> (\<exists>e. js_map_of pe_id entries p = Some e \<and>
        entry_matches (roster_input.truncate i) league e \<and> check_placement model s e = Inr ()))"

definition count_active :: "ident \<Rightarrow> roster_slot list \<Rightarrow> int" where
  "count_active ruleId slots = int (length (filter (\<lambda>s. rs_kind s = SLOT_ACTIVE \<and> rs_lineupSlotRuleId s = Some ruleId) slots))"

definition count_bench :: "roster_slot list \<Rightarrow> int" where
  "count_bench slots = int (length (filter (\<lambda>s. rs_kind s = SLOT_BENCH) slots))"

definition baseball_player :: "player_entry list \<Rightarrow> ident \<Rightarrow> ident option" where
  "baseball_player entries p = map_option pe_baseballPlayerId (js_map_of pe_id entries p)"

definition roster_wf ::
    "'a roster_input_scheme \<Rightarrow> fantasy_league \<Rightarrow> scoring_model \<Rightarrow> player_entry list \<Rightarrow> bool" where
  "roster_wf r league model entries \<longleftrightarrow>
     distinct (map rs_id (ro_slots r)) \<and> distinct (slot_entries r) \<and>
     distinct (map (baseball_player entries) (slot_entries r)) \<and>
     (\<forall>s\<in>set (ro_slots r). slot_sound r league model entries s) \<and>
     (\<forall>rule\<in>set (rr_lineupSlots (fm_roster model)). count_active (ls_id rule) (ro_slots r) \<le> ls_count rule) \<and>
     count_bench (ro_slots r) \<le> rr_benchSlots (fm_roster model) \<and>
     int (length (slot_entries r)) \<le> rr_maximumRosterSize (fm_roster model)"

text \<open>What the loop over the slots has established after a prefix of them.\<close>

definition scan_inv ::
    "roster_input \<Rightarrow> fantasy_league \<Rightarrow> scoring_model \<Rightarrow> player_entry list \<Rightarrow> roster_slot list \<Rightarrow> roster_scan \<Rightarrow> bool" where
  "scan_inv i league model entries ss sn \<longleftrightarrow>
     sn_slotIds sn = rs_id ` set ss \<and> distinct (map rs_id ss) \<and>
     sn_playerEntryIds sn = rev (List.map_filter rs_playerEntryId ss) \<and> distinct (sn_playerEntryIds sn) \<and>
     Some ` sn_baseballPlayerIds sn = baseball_player entries ` set (sn_playerEntryIds sn) \<and>
     distinct (map (baseball_player entries) (sn_playerEntryIds sn)) \<and>
     (\<forall>s\<in>set ss. slot_sound i league model entries s) \<and>
     (\<forall>ruleId. sn_activeCounts sn ruleId = count_active ruleId ss) \<and>
     (\<forall>rule\<in>set (rr_lineupSlots (fm_roster model)). count_active (ls_id rule) ss \<le> ls_count rule) \<and>
     sn_benchCount sn = count_bench ss"

lemma count_active_snoc [simp]:
  "count_active r (ss @ [s]) = count_active r ss + (if rs_kind s = SLOT_ACTIVE \<and> rs_lineupSlotRuleId s = Some r then 1 else 0)"
  by (simp add: count_active_def)

lemma count_bench_snoc [simp]: "count_bench (ss @ [s]) = count_bench ss + (if rs_kind s = SLOT_BENCH then 1 else 0)"
  by (simp add: count_bench_def)

lemma count_slot_Inr:
  assumes "count_slot model sn s = Inr sn'" and "\<forall>ruleId. sn_activeCounts sn ruleId = count_active ruleId ss"
    and "distinct (map ls_id (rr_lineupSlots (fm_roster model)))"
    and "\<forall>rule\<in>set (rr_lineupSlots (fm_roster model)). count_active (ls_id rule) ss \<le> ls_count rule"
    and "(rs_kind s = SLOT_ACTIVE) = (rs_lineupSlotRuleId s \<noteq> None)"
  shows "rs_id s \<notin> sn_slotIds sn \<and> sn_slotIds sn' = insert (rs_id s) (sn_slotIds sn) \<and>
    sn_playerEntryIds sn' = sn_playerEntryIds sn \<and> sn_baseballPlayerIds sn' = sn_baseballPlayerIds sn \<and>
    sn_benchCount sn' = sn_benchCount sn + (if rs_kind s = SLOT_BENCH then 1 else 0) \<and>
    (\<forall>ruleId. sn_activeCounts sn' ruleId = count_active ruleId (ss @ [s])) \<and>
    (\<forall>rule\<in>set (rr_lineupSlots (fm_roster model)). count_active (ls_id rule) (ss @ [s]) \<le> ls_count rule) \<and>
    (rs_kind s = SLOT_ACTIVE \<longrightarrow> (\<exists>ruleId rule. rs_lineupSlotRuleId s = Some ruleId \<and> ls_id rule = ruleId \<and>
        rule \<in> set (rr_lineupSlots (fm_roster model))))"
proof (cases "rs_kind s = SLOT_ACTIVE")
  case False
  with assms show ?thesis by (auto simp: count_slot_def Let_def result_simps)
next
  case True
  then obtain ruleId where ruleId: "rs_lineupSlotRuleId s = Some ruleId" using assms(5) by auto
  with assms(1) True obtain rule where rule: "js_map_of ls_id (rr_lineupSlots (fm_roster model)) ruleId = Some rule"
    and le: "sn_activeCounts sn (ls_id rule) + 1 \<le> ls_count rule" and fresh: "rs_id s \<notin> sn_slotIds sn"
    and sn': "sn' = sn\<lparr>sn_slotIds := insert (rs_id s) (sn_slotIds sn), sn_benchCount := sn_benchCount sn,
      sn_activeCounts := (sn_activeCounts sn)(ls_id rule := sn_activeCounts sn (ls_id rule) + 1)\<rparr>"
    by (auto simp: count_slot_def Let_def result_simps not_less split: option.splits)
  from js_map_of_SomeD [OF rule] have mem: "rule \<in> set (rr_lineupSlots (fm_roster model))" "ls_id rule = ruleId" by auto
  have uniq: "r = rule" if "r \<in> set (rr_lineupSlots (fm_roster model))" "ls_id r = ruleId" for r
    by (rule distinct_key_eqD [OF assms(3)]) (simp_all add: that mem)
  have counts: "sn_activeCounts sn' r = count_active r (ss @ [s])" for r
    using True ruleId sn' mem assms(2) by auto
  have caps: "count_active (ls_id r) (ss @ [s]) \<le> ls_count r" if "r \<in> set (rr_lineupSlots (fm_roster model))" for r
  proof (cases "ls_id r = ruleId")
    case True
    with uniq [OF that] le mem assms(2) ruleId show ?thesis by simp
  next
    case False
    with assms(4) that ruleId show ?thesis by simp
  qed
  show ?thesis
    using True fresh sn' counts caps mem ruleId by (auto intro!: exI [of _ rule])
qed

lemma fill_slot_Inr:
  assumes "fill_slot i league model entries s sn = Inr sn'"
  shows "sn_slotIds sn' = sn_slotIds sn \<and> sn_activeCounts sn' = sn_activeCounts sn \<and> sn_benchCount sn' = sn_benchCount sn \<and>
    (case rs_playerEntryId s of
       None \<Rightarrow> sn' = sn
     | Some p \<Rightarrow> p \<notin> set (sn_playerEntryIds sn) \<and> sn_playerEntryIds sn' = p # sn_playerEntryIds sn \<and>
        (\<exists>e. js_map_of pe_id entries p = Some e \<and> entry_matches i league e \<and> check_placement model s e = Inr () \<and>
           pe_baseballPlayerId e \<notin> sn_baseballPlayerIds sn \<and>
           sn_baseballPlayerIds sn' = insert (pe_baseballPlayerId e) (sn_baseballPlayerIds sn)))"
  using assms by (auto simp: fill_slot_def result_simps split: option.splits)

lemma truncate_roster_input [simp]: "roster_input.truncate (i :: roster_input) = i"
  by (cases i) (simp add: roster_input.defs)

lemma scan_slot_inv:
  assumes "scan_slot i league model entries sn s = Inr sn'" and "scan_inv i league model entries ss sn"
    and "distinct (map ls_id (rr_lineupSlots (fm_roster model)))"
    and "(rs_kind s = SLOT_ACTIVE) = (rs_lineupSlotRuleId s \<noteq> None)"
  shows "scan_inv i league model entries (ss @ [s]) sn'"
proof -
  from assms(1) obtain sn1 where c: "count_slot model sn s = Inr sn1" and f: "fill_slot i league model entries s sn1 = Inr sn'"
    by (auto simp: scan_slot_def result_simps)
  have counts: "\<forall>ruleId. sn_activeCounts sn ruleId = count_active ruleId ss"
    and caps: "\<forall>rule\<in>set (rr_lineupSlots (fm_roster model)). count_active (ls_id rule) ss \<le> ls_count rule"
    using assms(2) by (auto simp: scan_inv_def)
  note C = count_slot_Inr [OF c counts assms(3) caps assms(4)] and F = fill_slot_Inr [OF f]
  show ?thesis
  proof (cases "rs_playerEntryId s")
    case None
    with C F assms(2) show ?thesis by (auto simp: scan_inv_def slot_sound_def)
  next
    case (Some p)
    with F obtain e where e: "js_map_of pe_id entries p = Some e" "entry_matches i league e" "check_placement model s e = Inr ()"
      "pe_baseballPlayerId e \<notin> sn_baseballPlayerIds sn1" "sn_baseballPlayerIds sn' = insert (pe_baseballPlayerId e) (sn_baseballPlayerIds sn1)"
      and p: "p \<notin> set (sn_playerEntryIds sn1)" "sn_playerEntryIds sn' = p # sn_playerEntryIds sn1" by auto
    have b: "baseball_player entries p = Some (pe_baseballPlayerId e)" using e by (simp add: baseball_player_def)
    have img: "Some ` sn_baseballPlayerIds sn = baseball_player entries ` set (sn_playerEntryIds sn)"
      using assms(2) by (simp add: scan_inv_def)
    have new: "baseball_player entries p \<notin> baseball_player entries ` set (sn_playerEntryIds sn)"
      using e(4) C b by (auto simp flip: img)
    have sound: "slot_sound i league model entries s"
      using C e Some by (auto simp: slot_sound_def)
    show ?thesis
      using assms(2) C F Some e p b new sound img by (auto simp: scan_inv_def)
  qed
qed

lemma scan_slots_inv:
  assumes "fold_res (scan_slot i league model entries) sn ss = Inr sn'" and "scan_inv i league model entries done sn"
    and "distinct (map ls_id (rr_lineupSlots (fm_roster model)))" and "list_all slot_ok ss"
  shows "scan_inv i league model entries (done @ ss) sn'"
  using assms
proof (induction ss arbitrary: sn "done")
  case (Cons s ss)
  then obtain sn1 where "scan_slot i league model entries sn s = Inr sn1" "fold_res (scan_slot i league model entries) sn1 ss = Inr sn'"
    by (auto simp: result_simps)
  with Cons.IH [of sn1 "done @ [s]"] scan_slot_inv [of i league model entries sn s sn1 "done"] Cons.prems show ?case
    by (simp add: slot_ok_def)
qed simp

lemma scan_inv_empty: "model_wf model \<Longrightarrow> scan_inv i league model entries [] empty_scan"
  by (fastforce simp: scan_inv_def empty_scan_def count_active_def count_bench_def model_wf_def list_all_iff)

lemma parsed_Inr: "parsed trm ok inp = Inr v \<longleftrightarrow> (\<exists>x. inp = Some x \<and> ok (trm x) \<and> v = trm x)"
  by (auto simp: parsed_def result_simps split: option.splits)

text \<open>Everything a returned snapshot is known to satisfy.\<close>

lemma roster_snapshot_Inr:
  assumes "createFantasyRosterSnapshot env (Some inp) league team model entries authority previous = Inr r"
  shows "roster_input.truncate r = trim_roster_input inp \<and> roster_input_ok env (trim_roster_input inp) \<and>
    roster_succeeds (trim_roster_input inp) league previous \<and> roster_wf r league model entries \<and>
    distinct (map pe_id entries) \<and> ro_fantasyTeamId r = ft_id team \<and> ro_fantasyLeagueId r = fl_id league \<and>
    ro_accountId r = fl_accountId league \<and> fl_lifecycle league = LEAGUE_ACTIVE \<and> ft_lifecycle team = TEAM_ACTIVE \<and>
    assertFantasyAuthority env authority (fl_accountId league) FANTASY_ROSTER_MANAGE (Some (fl_id league)) (Some (ft_id team)) = Inr () \<and>
    bindingMatchesModel (fl_rules league) model \<and> verify_model env model = Inr () \<and> rulesBinding env model = Inr (ro_rules r)"
proof -
  let ?i = "trim_roster_input inp"
  from assms obtain sn rules where ok: "roster_input_ok env ?i"
    and auth: "assertFantasyAuthority env authority (ro_accountId ?i) FANTASY_ROSTER_MANAGE
                (Some (ro_fantasyLeagueId ?i)) (Some (ro_fantasyTeamId ?i)) = Inr ()"
    and ids: "ro_accountId ?i = fl_accountId league" "ro_fantasyLeagueId ?i = fl_id league" "ro_fantasyTeamId ?i = ft_id team"
    and act: "fl_lifecycle league = LEAGUE_ACTIVE" "ft_lifecycle team = TEAM_ACTIVE"
    and verified: "verify_model env model = Inr ()" and binding: "bindingMatchesModel (fl_rules league) model"
    and succ: "roster_succeeds ?i league previous" and dist: "distinct (map pe_id entries)"
    and scan: "fold_res (scan_slot ?i league model entries) empty_scan (ro_slots ?i) = Inr sn"
    and size: "int (length (sn_playerEntryIds sn)) \<le> rr_maximumRosterSize (fm_roster model)"
    and bench: "sn_benchCount sn \<le> rr_benchSlots (fm_roster model)"
    and rules: "rulesBinding env model = Inr rules"
    and r: "r = roster_input.extend ?i \<lparr>ro_contractVersion = domain_contract_version, ro_rules = rules\<rparr>"
    unfolding createFantasyRosterSnapshot_def by (auto simp: result_simps parsed_Inr not_less)
  have wf: "model_wf model"
    using verified verified_model_wf [of "fe_modelDigest env" model] by (auto simp: verify_model_def result_simps)
  then have rule_ids: "distinct (map ls_id (rr_lineupSlots (fm_roster model)))" by (simp add: model_wf_def)
  have slots: "list_all slot_ok (ro_slots ?i)" using ok by (simp add: roster_input_ok_def)
  have inv: "scan_inv ?i league model entries (ro_slots ?i) sn"
    using scan_slots_inv [OF scan scan_inv_empty [OF wf] rule_ids slots] by simp
  have fields: "ro_slots r = ro_slots ?i" "roster_input.truncate r = ?i" "ro_rules r = rules"
    by (simp_all add: r roster_input.defs)
  have sound: "slot_sound r league model entries s = slot_sound ?i league model entries s" for s
    by (simp add: slot_sound_def fields)
  have entries: "slot_entries r = rev (sn_playerEntryIds sn)"
    using inv by (simp add: slot_entries_def fields scan_inv_def)
  have "distinct (sn_playerEntryIds sn)" "distinct (map (baseball_player entries) (sn_playerEntryIds sn))"
    using inv unfolding scan_inv_def by blast+
  then have "distinct (slot_entries r)" "distinct (map (baseball_player entries) (slot_entries r))"
    by (simp_all add: entries rev_map [symmetric])
  moreover have "int (length (slot_entries r)) \<le> rr_maximumRosterSize (fm_roster model)"
    using size by (simp add: entries)
  ultimately have "roster_wf r league model entries"
    using inv bench by (simp add: roster_wf_def fields sound scan_inv_def)
  then show ?thesis using ok auth ids act verified binding succ dist rules fields
    by (auto simp: r roster_input.defs)
qed

section \<open>Authority from a delegation\<close>

lemma trim_scope_idem [simp]: "trim_scope (trim_scope s) = trim_scope s"
  by (cases s) simp_all

lemma trim_authority_idem [simp]: "trim_authority (trim_authority a) = trim_authority a"
  by (simp add: trim_authority_def comp_def)

lemma authorize_account_refs:
  assumes "authorize e capability t now = Inr refs" and "dt_accountId t = Some account"
  shows "3 \<le> length refs"
    and "capability = ''fantasy.league.activate'' \<Longrightarrow> \<exists>a. dv_approval e = Some a \<and> ap_id a \<in> set refs"
proof -
  obtain time pol g where pol: "map_of capabilityPolicies capability = Some pol"
    and d: "check_delegation e pol g t time = Inr ()" and a: "check_approval e capability pol g time = Inr ()"
    and refs: "refs = [me_id (dv_membership e), gr_id g] @
      (case dv_delegation e of Some d \<Rightarrow> if cp_accountDelegated pol then [de_id d] else [] | None \<Rightarrow> []) @
      (case dv_approval e of Some a \<Rightarrow> if cp_approvalRequired pol then [ap_id a] else [] | None \<Rightarrow> [])"
    using authorizeE [OF assms(1)] by metis
  have delegated: "cp_accountDelegated pol"
    using undelegated_target [OF d] assms(2) by (cases "cp_accountDelegated pol") auto
  then obtain d' where "dv_delegation e = Some d'" using check_delegationE [OF d] by blast
  with delegated refs show "3 \<le> length refs" by simp
  assume "capability = ''fantasy.league.activate''"
  with pol have "cp_approvalRequired pol" by (auto simp: capabilityPolicies_def policy_def)
  moreover from this obtain a' where "dv_approval e = Some a'" using check_approvalE [OF a] by blast
  ultimately show "\<exists>a. dv_approval e = Some a \<and> ap_id a \<in> set refs" by (simp add: refs)
qed

lemma delegation_authority_Inr:
  assumes "fantasyAuthorityFromDelegation env (evaluateLeagueDelegation e capability t now) r = Inr a"
  obtains refs where "authorize e capability t now = Inr refs" and "capability = capability_name (dr_capability r)"
    and "dt_accountId t = Some (dr_accountId r)" and "da_appUserId (dv_actor e) = dr_actorId r"
    and "a = trim_authority \<lparr>fa_accountId = dr_accountId r, fa_actorId = dr_actorId r, fa_source = LEAGUE_DELEGATION,
                     fa_capability = dr_capability r, fa_scope = dr_scope r, fa_authorityReferenceIds = refs,
                     fa_authorizedAt = dr_authorizedAt r\<rparr>"
    and "authority_ok env a"
  using assms
  by (auto simp: fantasyAuthorityFromDelegation_def evaluateLeagueDelegation_def delegation_audit_of_def Let_def
      parsed_Inr result_simps split: sum.splits)

lemma delegation_authority_accepted:
  assumes "fantasyAuthorityFromDelegation env (evaluateLeagueDelegation e capability t now) r = Inr a"
  shows "assertFantasyAuthority env a account c league team = Inr () \<longleftrightarrow>
    account = fa_accountId a \<and> c = fa_capability a \<and> scopeAllows (fa_scope a) league team"
proof -
  from delegation_authority_Inr [OF assms] obtain refs where refs: "authorize e capability t now = Inr refs"
    and acc: "dt_accountId t = Some (dr_accountId r)" and ok: "authority_ok env a"
    and a: "a = trim_authority \<lparr>fa_accountId = dr_accountId r, fa_actorId = dr_actorId r, fa_source = LEAGUE_DELEGATION,
                     fa_capability = dr_capability r, fa_scope = dr_scope r, fa_authorityReferenceIds = refs,
                     fa_authorizedAt = dr_authorizedAt r\<rparr>" .
  have "trim_authority a = a" by (simp only: a trim_authority_idem)
  moreover have "fa_authorityReferenceIds a = map trim refs" by (simp add: a trim_authority_def)
  ultimately show ?thesis
    using ok authorize_account_refs(1) [OF refs acc]
    by (auto simp: assertFantasyAuthority_def parsed_def result_simps)
qed

lemma assert_authority_Inr:
  "assertFantasyAuthority env authority account c league team = Inr u \<longleftrightarrow>
     authority_ok env (trim_authority authority) \<and> trim (fa_accountId authority) = account \<and> fa_capability authority = c \<and>
     scopeAllows (trim_scope (fa_scope authority)) league team \<and>
     (fa_source authority = LEAGUE_DELEGATION \<longrightarrow> 3 \<le> length (fa_authorityReferenceIds authority)) \<and>
     (c = FANTASY_LEAGUE_ACTIVATE \<longrightarrow> 2 \<le> length (fa_authorityReferenceIds authority))"
  by (auto simp: assertFantasyAuthority_def parsed_def result_simps trim_authority_def not_less)

end
