(* ===== verification/Fantasy_Transactions.thy ===== *)
theory Fantasy_Transactions
  imports Fantasy_Domain "HOL-Library.Product_Lexorder"
begin

text \<open>
  Fantasy transactions (\<open>src/domain/fantasy-transactions.ts\<close>): the state of a league (player entries,
  current rosters, waiver priority and claims, the records and audits of every command), the seven
  commands that change it, and \<open>applyFantasyTransaction\<close>, which validates, authorises and applies one
  command and records the outcome, a denial included.  The digests are parameters, collected in
  \<open>tx_env\<close>.  Freezing a value has no counterpart in HOL.  An input the schema refuses is an error
  \<open>TX_INVALID_INPUT\<close>; a timestamp that is no date at all, which makes the schema's own refinement
  throw, leaves the operation in the same way and is not told apart.
\<close>

datatype tx_error = TX_INVALID_INPUT | TX_AUTHORIZATION_REQUIRED | TX_ACCOUNT_MISMATCH | TX_LEAGUE_MISMATCH
  | TX_LEAGUE_INACTIVE | TX_STALE_REVISION | TX_IDEMPOTENCY_CONFLICT | TX_PLAYER_UNAVAILABLE
  | TX_OWNERSHIP_CONFLICT | TX_ROSTER_CONFLICT | TX_INITIAL_ASSIGNMENT_CLOSED | TX_LINEUP_LOCKED
  | TX_TRADE_ACCEPTANCE_REQUIRED | TX_TRADE_DEADLINE_PASSED | TX_PROCESSING_TIME_INVALID
  | TX_WAIVER_CLAIM_UNAVAILABLE

text \<open>What an operation throws: an error of its own or one of the layers below.\<close>

datatype tx_thrown = Tx tx_error | Lower domain_thrown

section \<open>Data\<close>

datatype assignment_method = ASSIGN_DRAFT | ASSIGN_COMMISSIONER

record lineup_lock =
  lk_id :: ident
  lk_startsAt :: string
  lk_endsAt :: string

record tx_policy =
  po_initialAssignmentMethod :: assignment_method
  po_initialAssignmentDeadline :: string
  po_acquisitionMethod :: string
  po_waiverProcessingInstants :: "string list"
  po_initialWaiverPriority :: "ident list"
  po_tradeProcessingInstants :: "string list"
  po_tradeDeadline :: string
  po_tradeAcceptance :: string
  po_commissionerVeto :: string
  po_lineupLocks :: "lineup_lock list"

datatype claim_status = CLAIM_PENDING | CLAIM_CANCELLED | CLAIM_APPLIED | CLAIM_REJECTED

record waiver_claim =
  wc_id :: ident
  wc_operationId :: ident
  wc_accountId :: ident
  wc_fantasyLeagueId :: ident
  wc_fantasyTeamId :: ident
  wc_playerEntryId :: ident
  wc_conditionalDropPlayerEntryId :: "ident option"
  wc_targetSlotId :: ident
  wc_rosterSnapshotId :: ident
  wc_processingAt :: string
  wc_submittedAt :: string
  wc_submittedByActorId :: ident
  wc_authorityReferenceIds :: "ident list"
  wc_status :: claim_status
  wc_resolvedAt :: "string option"
  wc_resultCode :: "tx_error option"

datatype tx_action = ACT_ADD_PLAYER | ACT_DROP_PLAYER | ACT_TRADE | ACT_LINEUP_CHANGE
  | ACT_SUBMIT_WAIVER_CLAIM | ACT_CANCEL_WAIVER_CLAIM | ACT_PROCESS_WAIVERS

datatype tx_status = APPLIED | QUEUED | CANCELLED | DENIED

record tx_record =
  tr_operationId :: ident
  tr_requestDigest :: string
  tr_accountId :: ident
  tr_fantasyLeagueId :: ident
  tr_action :: tx_action
  tr_affectedPlayerEntryIds :: "ident list"
  tr_submittedAt :: string
  tr_effectiveAt :: "string option"
  tr_status :: tx_status
  tr_resultCode :: "tx_error option"
  tr_beforeRevision :: int
  tr_afterRevision :: int
  tr_rosterSnapshotIds :: "ident list"

record tx_audit =
  ta_id :: ident
  ta_operationId :: ident
  ta_actorId :: ident
  ta_authoritySource :: authority_source
  ta_authorityReferenceIds :: "ident list"
  ta_accountId :: ident
  ta_fantasyLeagueId :: ident
  ta_action :: tx_action
  ta_affectedPlayerEntryIds :: "ident list"
  ta_acceptedAt :: string
  ta_result :: tx_status
  ta_reasonCode :: "tx_error option"
  ta_commissionerCorrectionReason :: "string option"
  ta_beforeRevision :: int
  ta_afterRevision :: int

record tx_state =
  ts_contractVersion :: int
  ts_accountId :: ident
  ts_fantasyLeagueId :: ident
  ts_revision :: int
  ts_policy :: tx_policy
  ts_playerEntries :: "player_entry list"
  ts_currentRosters :: "roster_snapshot list"
  ts_waiverPriority :: "ident list"
  ts_waiverClaims :: "waiver_claim list"
  ts_transactions :: "tx_record list"
  ts_audits :: "tx_audit list"

definition tx_contract_version :: int where
  "tx_contract_version = 1"

section \<open>Commands\<close>

record command_base =
  cb_operationId :: ident
  cb_auditId :: ident
  cb_accountId :: ident
  cb_fantasyLeagueId :: ident
  cb_expectedRevision :: int
  cb_submittedAt :: string
  cb_authority :: fantasy_authority

record add_player_command = command_base +
  ap_fantasyTeamId :: ident
  ap_playerEntryId :: ident
  ap_targetSlotId :: ident
  ap_rosterSnapshotId :: ident
  ap_assignmentMethod :: assignment_method

record drop_player_command = command_base +
  dp_fantasyTeamId :: ident
  dp_playerEntryId :: ident
  dp_rosterSnapshotId :: ident

record trade_acceptance =
  tc_fantasyTeamId :: ident
  tc_accountMembershipId :: ident
  tc_acceptedAt :: string
  tc_authorityReferenceIds :: "ident list"

record trade_command = command_base +
  td_firstTeamId :: ident
  td_secondTeamId :: ident
  td_firstPlayerEntryId :: ident
  td_secondPlayerEntryId :: ident
  td_firstTargetSlotId :: ident
  td_secondTargetSlotId :: ident
  td_firstRosterSnapshotId :: ident
  td_secondRosterSnapshotId :: ident
  td_processingAt :: string
  td_acceptances :: "trade_acceptance list"

record lineup_change_command = command_base +
  lc_fantasyTeamId :: ident
  lc_rosterSnapshotId :: ident
  lc_slots :: "roster_slot list"
  lc_commissionerCorrectionReason :: "string option"

record submit_claim_command = command_base +
  sw_claimId :: ident
  sw_fantasyTeamId :: ident
  sw_playerEntryId :: ident
  sw_conditionalDropPlayerEntryId :: "ident option"
  sw_targetSlotId :: ident
  sw_rosterSnapshotId :: ident
  sw_processingAt :: string

record cancel_claim_command = command_base +
  cw_claimId :: ident

record process_waivers_command = command_base +
  pw_processingAt :: string

datatype tx_command =
    ADD_PLAYER add_player_command
  | DROP_PLAYER drop_player_command
  | TRADE trade_command
  | LINEUP_CHANGE lineup_change_command
  | SUBMIT_WAIVER_CLAIM submit_claim_command
  | CANCEL_WAIVER_CLAIM cancel_claim_command
  | PROCESS_WAIVERS process_waivers_command

text \<open>The fields every command has.\<close>

fun base_of :: "tx_command \<Rightarrow> command_base" where
  "base_of (ADD_PLAYER c) = command_base.truncate c"
| "base_of (DROP_PLAYER c) = command_base.truncate c"
| "base_of (TRADE c) = command_base.truncate c"
| "base_of (LINEUP_CHANGE c) = command_base.truncate c"
| "base_of (SUBMIT_WAIVER_CLAIM c) = command_base.truncate c"
| "base_of (CANCEL_WAIVER_CLAIM c) = command_base.truncate c"
| "base_of (PROCESS_WAIVERS c) = command_base.truncate c"

fun action_of :: "tx_command \<Rightarrow> tx_action" where
  "action_of (ADD_PLAYER c) = ACT_ADD_PLAYER"
| "action_of (DROP_PLAYER c) = ACT_DROP_PLAYER"
| "action_of (TRADE c) = ACT_TRADE"
| "action_of (LINEUP_CHANGE c) = ACT_LINEUP_CHANGE"
| "action_of (SUBMIT_WAIVER_CLAIM c) = ACT_SUBMIT_WAIVER_CLAIM"
| "action_of (CANCEL_WAIVER_CLAIM c) = ACT_CANCEL_WAIVER_CLAIM"
| "action_of (PROCESS_WAIVERS c) = ACT_PROCESS_WAIVERS"

fun correction_reason :: "tx_command \<Rightarrow> string option" where
  "correction_reason (LINEUP_CHANGE c) = lc_commissionerCorrectionReason c"
| "correction_reason _ = None"

record tx_env =
  te_domain :: fantasy_env
  te_commandDigest :: "tx_command \<Rightarrow> string"
  te_shortDigest :: "string \<Rightarrow> string"

record tx_context =
  cx_league :: fantasy_league
  cx_teams :: "fantasy_team list"
  cx_model :: scoring_model

record tx_outcome =
  to_state :: tx_state
  to_record :: tx_record
  to_audit :: tx_audit
  to_duplicate :: bool

section \<open>Schemas\<close>

definition instant_ok :: "fantasy_env \<Rightarrow> string \<Rightarrow> bool" where
  "instant_ok env s \<longleftrightarrow> fe_instant env s \<and> canonical_iso s"

definition tx_authority_ok :: "fantasy_env \<Rightarrow> fantasy_authority \<Rightarrow> bool" where
  "tx_authority_ok env a \<longleftrightarrow> id_ok (fa_accountId a) \<and> id_ok (fa_actorId a) \<and>
     fa_capability a = FANTASY_ROSTER_MANAGE \<and> scope_ok (fa_scope a) \<and> fa_authorityReferenceIds a \<noteq> [] \<and>
     list_all id_ok (fa_authorityReferenceIds a) \<and> instant_ok env (fa_authorizedAt a)"

definition trim_base :: "'a command_base_scheme \<Rightarrow> 'a command_base_scheme" where
  "trim_base c = c\<lparr>cb_operationId := trim (cb_operationId c), cb_auditId := trim (cb_auditId c),
     cb_accountId := trim (cb_accountId c), cb_fantasyLeagueId := trim (cb_fantasyLeagueId c),
     cb_authority := trim_authority (cb_authority c)\<rparr>"

definition base_ok :: "fantasy_env \<Rightarrow> 'a command_base_scheme \<Rightarrow> bool" where
  "base_ok env c \<longleftrightarrow> id_ok (cb_operationId c) \<and> id_ok (cb_auditId c) \<and> id_ok (cb_accountId c) \<and>
     id_ok (cb_fantasyLeagueId c) \<and> safe_int (cb_expectedRevision c) \<and> 0 \<le> cb_expectedRevision c \<and>
     instant_ok env (cb_submittedAt c) \<and> tx_authority_ok env (cb_authority c)"

definition trim_acceptance :: "trade_acceptance \<Rightarrow> trade_acceptance" where
  "trim_acceptance a = a\<lparr>tc_fantasyTeamId := trim (tc_fantasyTeamId a),
     tc_accountMembershipId := trim (tc_accountMembershipId a),
     tc_authorityReferenceIds := map trim (tc_authorityReferenceIds a)\<rparr>"

definition acceptance_ok :: "fantasy_env \<Rightarrow> trade_acceptance \<Rightarrow> bool" where
  "acceptance_ok env a \<longleftrightarrow> id_ok (tc_fantasyTeamId a) \<and> id_ok (tc_accountMembershipId a) \<and>
     instant_ok env (tc_acceptedAt a) \<and> tc_authorityReferenceIds a \<noteq> [] \<and>
     list_all id_ok (tc_authorityReferenceIds a)"

definition reason_ok :: "string option \<Rightarrow> bool" where
  "reason_ok r \<longleftrightarrow> (case r of None \<Rightarrow> True | Some s \<Rightarrow> 1 \<le> length s \<and> length s \<le> 500)"

fun trim_command :: "tx_command \<Rightarrow> tx_command" where
  "trim_command (ADD_PLAYER c) = ADD_PLAYER ((trim_base c)\<lparr>ap_fantasyTeamId := trim (ap_fantasyTeamId c),
     ap_playerEntryId := trim (ap_playerEntryId c), ap_targetSlotId := trim (ap_targetSlotId c),
     ap_rosterSnapshotId := trim (ap_rosterSnapshotId c)\<rparr>)"
| "trim_command (DROP_PLAYER c) = DROP_PLAYER ((trim_base c)\<lparr>dp_fantasyTeamId := trim (dp_fantasyTeamId c),
     dp_playerEntryId := trim (dp_playerEntryId c), dp_rosterSnapshotId := trim (dp_rosterSnapshotId c)\<rparr>)"
| "trim_command (TRADE c) = TRADE ((trim_base c)\<lparr>td_firstTeamId := trim (td_firstTeamId c),
     td_secondTeamId := trim (td_secondTeamId c), td_firstPlayerEntryId := trim (td_firstPlayerEntryId c),
     td_secondPlayerEntryId := trim (td_secondPlayerEntryId c), td_firstTargetSlotId := trim (td_firstTargetSlotId c),
     td_secondTargetSlotId := trim (td_secondTargetSlotId c),
     td_firstRosterSnapshotId := trim (td_firstRosterSnapshotId c),
     td_secondRosterSnapshotId := trim (td_secondRosterSnapshotId c),
     td_acceptances := map trim_acceptance (td_acceptances c)\<rparr>)"
| "trim_command (LINEUP_CHANGE c) = LINEUP_CHANGE ((trim_base c)\<lparr>lc_fantasyTeamId := trim (lc_fantasyTeamId c),
     lc_rosterSnapshotId := trim (lc_rosterSnapshotId c), lc_slots := map trim_slot (lc_slots c),
     lc_commissionerCorrectionReason := map_option trim (lc_commissionerCorrectionReason c)\<rparr>)"
| "trim_command (SUBMIT_WAIVER_CLAIM c) = SUBMIT_WAIVER_CLAIM ((trim_base c)\<lparr>sw_claimId := trim (sw_claimId c),
     sw_fantasyTeamId := trim (sw_fantasyTeamId c), sw_playerEntryId := trim (sw_playerEntryId c),
     sw_conditionalDropPlayerEntryId := map_option trim (sw_conditionalDropPlayerEntryId c),
     sw_targetSlotId := trim (sw_targetSlotId c), sw_rosterSnapshotId := trim (sw_rosterSnapshotId c)\<rparr>)"
| "trim_command (CANCEL_WAIVER_CLAIM c) = CANCEL_WAIVER_CLAIM ((trim_base c)\<lparr>cw_claimId := trim (cw_claimId c)\<rparr>)"
| "trim_command (PROCESS_WAIVERS c) = PROCESS_WAIVERS (trim_base c)"

fun command_ok :: "fantasy_env \<Rightarrow> tx_command \<Rightarrow> bool" where
  "command_ok env (ADD_PLAYER c) = (base_ok env c \<and> id_ok (ap_fantasyTeamId c) \<and> id_ok (ap_playerEntryId c) \<and>
     id_ok (ap_targetSlotId c) \<and> id_ok (ap_rosterSnapshotId c))"
| "command_ok env (DROP_PLAYER c) = (base_ok env c \<and> id_ok (dp_fantasyTeamId c) \<and> id_ok (dp_playerEntryId c) \<and>
     id_ok (dp_rosterSnapshotId c))"
| "command_ok env (TRADE c) = (base_ok env c \<and> id_ok (td_firstTeamId c) \<and> id_ok (td_secondTeamId c) \<and>
     id_ok (td_firstPlayerEntryId c) \<and> id_ok (td_secondPlayerEntryId c) \<and> id_ok (td_firstTargetSlotId c) \<and>
     id_ok (td_secondTargetSlotId c) \<and> id_ok (td_firstRosterSnapshotId c) \<and> id_ok (td_secondRosterSnapshotId c) \<and>
     instant_ok env (td_processingAt c) \<and> list_all (acceptance_ok env) (td_acceptances c) \<and>
     length (td_acceptances c) \<le> 2)"
| "command_ok env (LINEUP_CHANGE c) = (base_ok env c \<and> id_ok (lc_fantasyTeamId c) \<and> id_ok (lc_rosterSnapshotId c) \<and>
     list_all slot_shape_ok (lc_slots c) \<and> reason_ok (lc_commissionerCorrectionReason c))"
| "command_ok env (SUBMIT_WAIVER_CLAIM c) = (base_ok env c \<and> id_ok (sw_claimId c) \<and> id_ok (sw_fantasyTeamId c) \<and>
     id_ok (sw_playerEntryId c) \<and> opt_ok (sw_conditionalDropPlayerEntryId c) \<and> id_ok (sw_targetSlotId c) \<and>
     id_ok (sw_rosterSnapshotId c) \<and> instant_ok env (sw_processingAt c))"
| "command_ok env (CANCEL_WAIVER_CLAIM c) = (base_ok env c \<and> id_ok (cw_claimId c))"
| "command_ok env (PROCESS_WAIVERS c) = (base_ok env c \<and> instant_ok env (pw_processingAt c))"

definition parseCommand :: "tx_env \<Rightarrow> tx_command option \<Rightarrow> tx_thrown + tx_command" where
  "parseCommand env raw =
     (case raw of None \<Rightarrow> Inl (Tx TX_INVALID_INPUT)
      | Some c \<Rightarrow> and_then (require (command_ok (te_domain env) (trim_command c)) (Tx TX_INVALID_INPUT))
          (\<lambda>_. Inr (trim_command c)))"

definition trim_lock :: "lineup_lock \<Rightarrow> lineup_lock" where
  "trim_lock l = l\<lparr>lk_id := trim (lk_id l)\<rparr>"

definition trim_policy :: "tx_policy \<Rightarrow> tx_policy" where
  "trim_policy p = p\<lparr>po_initialWaiverPriority := map trim (po_initialWaiverPriority p),
     po_lineupLocks := map trim_lock (po_lineupLocks p)\<rparr>"

definition policy_ok :: "fantasy_env \<Rightarrow> tx_policy \<Rightarrow> bool" where
  "policy_ok env p \<longleftrightarrow> instant_ok env (po_initialAssignmentDeadline p) \<and>
     po_acquisitionMethod p = ''DAILY_WAIVERS'' \<and> list_all (instant_ok env) (po_waiverProcessingInstants p) \<and>
     po_initialWaiverPriority p \<noteq> [] \<and> list_all id_ok (po_initialWaiverPriority p) \<and>
     list_all (instant_ok env) (po_tradeProcessingInstants p) \<and> instant_ok env (po_tradeDeadline p) \<and>
     po_tradeAcceptance p = ''ALL_PARTICIPATING_MANAGERS'' \<and> po_commissionerVeto p = ''NONE'' \<and>
     list_all (\<lambda>l. id_ok (lk_id l) \<and> instant_ok env (lk_startsAt l) \<and> instant_ok env (lk_endsAt l)) (po_lineupLocks p)"

section \<open>The ownership projection\<close>

definition requireUnique :: "'a list \<Rightarrow> tx_thrown + unit" where
  "requireUnique xs = require (distinct xs) (Tx TX_INVALID_INPUT)"

definition owned_entry :: "player_entry \<Rightarrow> bool" where
  "owned_entry e \<longleftrightarrow> owned_state (ow_state (pe_ownership e))"

definition check_rostered ::
    "player_entry list \<Rightarrow> roster_snapshot \<Rightarrow> roster_slot \<Rightarrow> tx_thrown + unit" where
  "check_rostered entries r s =
     (case rs_playerEntryId s of
        None \<Rightarrow> Inr ()
      | Some p \<Rightarrow>
          (case js_map_of pe_id entries p of
             None \<Rightarrow> Inl (Tx TX_OWNERSHIP_CONFLICT)
           | Some e \<Rightarrow> require (\<not> (ow_fantasyTeamId (pe_ownership e) \<noteq> Some (ro_fantasyTeamId r) \<or> \<not> owned_entry e))
               (Tx TX_OWNERSHIP_CONFLICT)))"

definition assertOwnershipProjection ::
    "player_entry list \<Rightarrow> roster_snapshot list \<Rightarrow> tx_thrown + unit" where
  "assertOwnershipProjection entries rosters =
     and_then (check_all (\<lambda>r. check_all (check_rostered entries r) (ro_slots r)) rosters) (\<lambda>_.
     and_then (requireUnique (concat (map slot_entries rosters))) (\<lambda>_.
       require (\<not> list_ex (\<lambda>e. owned_entry e \<noteq> (pe_id e \<in> set (concat (map slot_entries rosters)))) entries)
         (Tx TX_OWNERSHIP_CONFLICT)))"

section \<open>A new state\<close>

record create_state_input =
  cs_league :: fantasy_league
  cs_teams :: "fantasy_team list"
  cs_model :: scoring_model
  cs_policy :: tx_policy
  cs_playerEntries :: "player_entry list"
  cs_currentRosters :: "roster_snapshot list"

definition team_in_league :: "fantasy_league \<Rightarrow> fantasy_team \<Rightarrow> bool" where
  "team_in_league l t \<longleftrightarrow> ft_accountId t = fl_accountId l \<and> ft_fantasyLeagueId t = fl_id l \<and> ft_lifecycle t = TEAM_ACTIVE"

definition roster_in_league :: "fantasy_league \<Rightarrow> scoring_model \<Rightarrow> ident list \<Rightarrow> roster_snapshot \<Rightarrow> bool" where
  "roster_in_league l m teamIds r \<longleftrightarrow> ro_accountId r = fl_accountId l \<and> ro_fantasyLeagueId r = fl_id l \<and>
     ro_fantasyTeamId r \<in> set teamIds \<and> rb_modelVersionId (ro_rules r) = fm_modelVersionId m \<and>
     rb_modelDigest (ro_rules r) = fm_contentDigest m"

definition createFantasyTransactionState :: "tx_env \<Rightarrow> create_state_input \<Rightarrow> tx_thrown + tx_state" where
  "createFantasyTransactionState env i =
     (let policy = trim_policy (cs_policy i); teamIds = map ft_id (cs_teams i); league = cs_league i in
     and_then (map_error Lower (verify_model (te_domain env) (cs_model i))) (\<lambda>_.
     and_then (require (policy_ok (te_domain env) policy \<and> fl_lifecycle league = LEAGUE_ACTIVE) (Tx TX_INVALID_INPUT)) (\<lambda>_.
     and_then (requireUnique (po_waiverProcessingInstants policy)) (\<lambda>_.
     and_then (requireUnique (po_tradeProcessingInstants policy)) (\<lambda>_.
     and_then (requireUnique (po_initialWaiverPriority policy)) (\<lambda>_.
     and_then (requireUnique (map lk_id (po_lineupLocks policy))) (\<lambda>_.
     and_then (check_all (\<lambda>l. require (\<not> time_le (lk_endsAt l) (lk_startsAt l)) (Tx TX_INVALID_INPUT))
                (po_lineupLocks policy)) (\<lambda>_.
     and_then (requireUnique teamIds) (\<lambda>_.
     and_then (require (\<not> (list_ex (\<lambda>t. \<not> team_in_league league t) (cs_teams i) \<or>
                length (po_initialWaiverPriority policy) \<noteq> length teamIds \<or>
                list_ex (\<lambda>t. t \<notin> set teamIds) (po_initialWaiverPriority policy))) (Tx TX_LEAGUE_MISMATCH)) (\<lambda>_.
     and_then (requireUnique (map pe_id (cs_playerEntries i))) (\<lambda>_.
     and_then (requireUnique (map pe_baseballPlayerId (cs_playerEntries i))) (\<lambda>_.
     and_then (requireUnique (map ro_fantasyTeamId (cs_currentRosters i))) (\<lambda>_.
     and_then (require (\<not> (length (cs_currentRosters i) \<noteq> length (cs_teams i) \<or>
                list_ex (\<lambda>e. pe_accountId e \<noteq> fl_accountId league \<or> pe_fantasyLeagueId e \<noteq> fl_id league)
                  (cs_playerEntries i) \<or>
                list_ex (\<lambda>r. \<not> roster_in_league league (cs_model i) teamIds r) (cs_currentRosters i)))
                (Tx TX_LEAGUE_MISMATCH)) (\<lambda>_.
     and_then (require (\<not> (rb_modelVersionId (fl_rules league) \<noteq> fm_modelVersionId (cs_model i) \<or>
                rb_modelDigest (fl_rules league) \<noteq> fm_contentDigest (cs_model i))) (Tx TX_INVALID_INPUT)) (\<lambda>_.
     and_then (assertOwnershipProjection (cs_playerEntries i) (cs_currentRosters i)) (\<lambda>_.
       Inr \<lparr>ts_contractVersion = tx_contract_version, ts_accountId = fl_accountId league,
            ts_fantasyLeagueId = fl_id league, ts_revision = 0, ts_policy = policy,
            ts_playerEntries = cs_playerEntries i, ts_currentRosters = cs_currentRosters i,
            ts_waiverPriority = po_initialWaiverPriority policy, ts_waiverClaims = [],
            ts_transactions = [], ts_audits = []\<rparr>))))))))))))))))"

section \<open>Lookups and updates\<close>

definition claim_players :: "ident \<Rightarrow> ident option \<Rightarrow> ident list" where
  "claim_players p drp = p # (if truthy drp then [the drp] else [])"

definition players_of_claim :: "waiver_claim \<Rightarrow> ident list" where
  "players_of_claim w = claim_players (wc_playerEntryId w) (wc_conditionalDropPlayerEntryId w)"

definition due_at :: "string \<Rightarrow> waiver_claim \<Rightarrow> bool" where
  "due_at t w \<longleftrightarrow> wc_status w = CLAIM_PENDING \<and> wc_processingAt w = t"

fun affectedPlayers :: "tx_state \<Rightarrow> tx_command \<Rightarrow> ident list" where
  "affectedPlayers st (ADD_PLAYER c) = [ap_playerEntryId c]"
| "affectedPlayers st (DROP_PLAYER c) = [dp_playerEntryId c]"
| "affectedPlayers st (TRADE c) = [td_firstPlayerEntryId c, td_secondPlayerEntryId c]"
| "affectedPlayers st (LINEUP_CHANGE c) = List.map_filter rs_playerEntryId (lc_slots c)"
| "affectedPlayers st (SUBMIT_WAIVER_CLAIM c) = claim_players (sw_playerEntryId c) (sw_conditionalDropPlayerEntryId c)"
| "affectedPlayers st (CANCEL_WAIVER_CLAIM c) =
     (case find (\<lambda>w. wc_id w = cw_claimId c) (ts_waiverClaims st) of
        None \<Rightarrow> [] | Some w \<Rightarrow> players_of_claim w)"
| "affectedPlayers st (PROCESS_WAIVERS c) =
     concat (map players_of_claim (filter (due_at (pw_processingAt c)) (ts_waiverClaims st)))"

definition find_or :: "tx_error \<Rightarrow> ('a \<Rightarrow> bool) \<Rightarrow> 'a list \<Rightarrow> tx_thrown + 'a" where
  "find_or e P xs = (case find P xs of None \<Rightarrow> Inl (Tx e) | Some x \<Rightarrow> Inr x)"

definition teamFor :: "fantasy_team list \<Rightarrow> ident \<Rightarrow> tx_thrown + fantasy_team" where
  "teamFor teams t = find_or TX_LEAGUE_MISMATCH (\<lambda>c. ft_id c = t) teams"

definition entryFor :: "player_entry list \<Rightarrow> ident \<Rightarrow> tx_thrown + player_entry" where
  "entryFor entries p = find_or TX_PLAYER_UNAVAILABLE (\<lambda>e. pe_id e = p) entries"

definition rosterFor :: "roster_snapshot list \<Rightarrow> ident \<Rightarrow> tx_thrown + roster_snapshot" where
  "rosterFor rosters t = find_or TX_ROSTER_CONFLICT (\<lambda>r. ro_fantasyTeamId r = t) rosters"

definition replaceEntry :: "player_entry list \<Rightarrow> player_entry \<Rightarrow> player_entry list" where
  "replaceEntry entries u = map (\<lambda>e. if pe_id e = pe_id u then u else e) entries"

definition replaceRoster :: "roster_snapshot list \<Rightarrow> roster_snapshot \<Rightarrow> roster_snapshot list" where
  "replaceRoster rosters u = map (\<lambda>r. if ro_fantasyTeamId r = ro_fantasyTeamId u then u else r) rosters"

definition ownership :: "player_entry \<Rightarrow> ownership_state \<Rightarrow> ident option \<Rightarrow> string \<Rightarrow> player_entry" where
  "ownership e st team at_time = e\<lparr>pe_ownership := \<lparr>ow_state = st, ow_fantasyTeamId = team,
     ow_revision = ow_revision (pe_ownership e) + 1, ow_effectiveAt = at_time\<rparr>\<rparr>"

definition slotsWithAssignment :: "roster_slot list \<Rightarrow> ident \<Rightarrow> ident \<Rightarrow> tx_thrown + roster_slot list" where
  "slotsWithAssignment slots target p =
     and_then (map_res (\<lambda>s. if rs_id s \<noteq> target then Inr s
         else if rs_playerEntryId s \<noteq> None then Inl (Tx TX_ROSTER_CONFLICT)
         else Inr (s\<lparr>rs_playerEntryId := Some p\<rparr>)) slots) (\<lambda>slots'.
     and_then (require (list_ex (\<lambda>s. rs_id s = target) slots) (Tx TX_ROSTER_CONFLICT)) (\<lambda>_. Inr slots'))"

definition slotsWithoutPlayer :: "roster_slot list \<Rightarrow> ident \<Rightarrow> tx_thrown + roster_slot list" where
  "slotsWithoutPlayer slots p =
     and_then (require (list_ex (\<lambda>s. rs_playerEntryId s = Some p) slots) (Tx TX_OWNERSHIP_CONFLICT)) (\<lambda>_.
       Inr (map (\<lambda>s. if rs_playerEntryId s \<noteq> Some p then s else s\<lparr>rs_playerEntryId := None\<rparr>) slots))"

definition successorRoster ::
    "tx_env \<Rightarrow> ident \<Rightarrow> string \<Rightarrow> tx_context \<Rightarrow> fantasy_team \<Rightarrow> player_entry list \<Rightarrow> roster_snapshot
     \<Rightarrow> roster_slot list \<Rightarrow> fantasy_authority \<Rightarrow> tx_thrown + roster_snapshot" where
  "successorRoster env i effectiveAt cx team entries previous slots authority =
     map_error Lower (createFantasyRosterSnapshot (te_domain env)
       (Some \<lparr>ro_id = i, ro_accountId = fl_accountId (cx_league cx), ro_fantasyLeagueId = fl_id (cx_league cx),
              ro_fantasyTeamId = ft_id team, ro_revision = ro_revision previous + 1,
              ro_previousSnapshotId = Some (ro_id previous), ro_effectiveAt = effectiveAt, ro_slots = slots\<rparr>)
       (cx_league cx) team (cx_model cx) entries authority (Some previous))"

definition lineupIsLocked :: "tx_policy \<Rightarrow> string \<Rightarrow> bool" where
  "lineupIsLocked p t = list_ex (\<lambda>l. time_le (lk_startsAt l) t \<and> time_less t (lk_endsAt l)) (po_lineupLocks p)"

fun team_scoped :: "authority_scope \<Rightarrow> bool" where
  "team_scoped (SCOPE_TEAM _ _) = True"
| "team_scoped _ = False"

definition managerCorrectionAllowed :: "lineup_change_command \<Rightarrow> bool" where
  "managerCorrectionAllowed c \<longleftrightarrow> lc_commissionerCorrectionReason c \<noteq> None \<and> \<not> team_scoped (fa_scope (cb_authority c))"

definition acceptance_by :: "trade_command \<Rightarrow> fantasy_team \<Rightarrow> bool" where
  "acceptance_by c t =
     (case js_map_of tc_fantasyTeamId (td_acceptances c) (ft_id t) of
        None \<Rightarrow> False
      | Some a \<Rightarrow> tc_accountMembershipId a = ft_ownerAccountMembershipId t \<and> tc_authorityReferenceIds a \<noteq> [] \<and>
          time_le (tc_acceptedAt a) (td_processingAt c))"

definition acceptedTrade :: "trade_command \<Rightarrow> fantasy_team \<Rightarrow> fantasy_team \<Rightarrow> bool" where
  "acceptedTrade c t1 t2 \<longleftrightarrow> ft_id t1 \<noteq> ft_id t2 \<and>
     length (js_unique (map tc_fantasyTeamId (td_acceptances c))) = 2 \<and> acceptance_by c t1 \<and> acceptance_by c t2"

text \<open>The authority check of the handlers.\<close>

definition assert_roster_authority ::
    "tx_env \<Rightarrow> tx_state \<Rightarrow> fantasy_authority \<Rightarrow> ident option \<Rightarrow> tx_thrown + unit" where
  "assert_roster_authority env st authority team =
     map_error Lower (assertFantasyAuthority (te_domain env) authority (ts_accountId st) FANTASY_ROSTER_MANAGE
       (Some (ts_fantasyLeagueId st)) team)"

section \<open>The commands\<close>

text \<open>\<open>claims?\<close>, \<open>priority?\<close> and \<open>additionalAudits?\<close> are optional: \<open>None\<close> keeps the state's.\<close>

record mutation =
  mu_entries :: "player_entry list"
  mu_rosters :: "roster_snapshot list"
  mu_claims :: "waiver_claim list option"
  mu_priority :: "ident list option"
  mu_additionalAudits :: "tx_audit list option"
  mu_status :: tx_status
  mu_effectiveAt :: "string option"
  mu_rosterSnapshotIds :: "ident list"

definition addPlayer :: "tx_env \<Rightarrow> tx_state \<Rightarrow> add_player_command \<Rightarrow> tx_context \<Rightarrow> tx_thrown + mutation" where
  "addPlayer env st c cx =
     and_then (require (ap_assignmentMethod c = po_initialAssignmentMethod (ts_policy st)) (Tx TX_INVALID_INPUT)) (\<lambda>_.
     and_then (require (\<not> time_le (po_initialAssignmentDeadline (ts_policy st)) (cb_submittedAt c))
                (Tx TX_INITIAL_ASSIGNMENT_CLOSED)) (\<lambda>_.
     and_then (require (\<not> team_scoped (fa_scope (cb_authority c))) (Tx TX_AUTHORIZATION_REQUIRED)) (\<lambda>_.
     and_then (teamFor (cx_teams cx) (ap_fantasyTeamId c)) (\<lambda>team.
     and_then (assert_roster_authority env st (cb_authority c) (Some (ft_id team))) (\<lambda>_.
     and_then (entryFor (ts_playerEntries st) (ap_playerEntryId c)) (\<lambda>entry.
     and_then (require (\<not> owned_entry entry) (Tx TX_OWNERSHIP_CONFLICT)) (\<lambda>_.
     (let entries = replaceEntry (ts_playerEntries st) (ownership entry ROSTERED (Some (ft_id team)) (cb_submittedAt c)) in
     and_then (rosterFor (ts_currentRosters st) (ft_id team)) (\<lambda>previous.
     and_then (slotsWithAssignment (ro_slots previous) (ap_targetSlotId c) (pe_id entry)) (\<lambda>slots.
     and_then (successorRoster env (ap_rosterSnapshotId c) (cb_submittedAt c) cx team entries previous slots
                (cb_authority c)) (\<lambda>roster.
       Inr \<lparr>mu_entries = entries, mu_rosters = replaceRoster (ts_currentRosters st) roster, mu_claims = None,
            mu_priority = None, mu_additionalAudits = None, mu_status = APPLIED,
            mu_effectiveAt = Some (cb_submittedAt c), mu_rosterSnapshotIds = [ro_id roster]\<rparr>)))))))))))"

definition dropPlayer :: "tx_env \<Rightarrow> tx_state \<Rightarrow> drop_player_command \<Rightarrow> tx_context \<Rightarrow> tx_thrown + mutation" where
  "dropPlayer env st c cx =
     and_then (teamFor (cx_teams cx) (dp_fantasyTeamId c)) (\<lambda>team.
     and_then (assert_roster_authority env st (cb_authority c) (Some (ft_id team))) (\<lambda>_.
     and_then (entryFor (ts_playerEntries st) (dp_playerEntryId c)) (\<lambda>entry.
     and_then (require (ow_fantasyTeamId (pe_ownership entry) = Some (ft_id team)) (Tx TX_OWNERSHIP_CONFLICT)) (\<lambda>_.
     and_then (rosterFor (ts_currentRosters st) (ft_id team)) (\<lambda>previous.
     (let entries = replaceEntry (ts_playerEntries st) (ownership entry RELEASED None (cb_submittedAt c)) in
     and_then (slotsWithoutPlayer (ro_slots previous) (pe_id entry)) (\<lambda>slots.
     and_then (successorRoster env (dp_rosterSnapshotId c) (cb_submittedAt c) cx team entries previous slots
                (cb_authority c)) (\<lambda>roster.
       Inr \<lparr>mu_entries = entries, mu_rosters = replaceRoster (ts_currentRosters st) roster, mu_claims = None,
            mu_priority = None, mu_additionalAudits = None, mu_status = APPLIED,
            mu_effectiveAt = Some (cb_submittedAt c), mu_rosterSnapshotIds = [ro_id roster]\<rparr>))))))))"

definition tradePlayers :: "tx_env \<Rightarrow> tx_state \<Rightarrow> trade_command \<Rightarrow> tx_context \<Rightarrow> tx_thrown + mutation" where
  "tradePlayers env st c cx =
     and_then (require (\<not> (td_processingAt c \<notin> set (po_tradeProcessingInstants (ts_policy st)) \<or>
                cb_submittedAt c \<noteq> td_processingAt c)) (Tx TX_PROCESSING_TIME_INVALID)) (\<lambda>_.
     and_then (require (\<not> time_le (po_tradeDeadline (ts_policy st)) (td_processingAt c)) (Tx TX_TRADE_DEADLINE_PASSED)) (\<lambda>_.
     and_then (teamFor (cx_teams cx) (td_firstTeamId c)) (\<lambda>team1.
     and_then (teamFor (cx_teams cx) (td_secondTeamId c)) (\<lambda>team2.
     and_then (require (\<not> team_scoped (fa_scope (cb_authority c))) (Tx TX_AUTHORIZATION_REQUIRED)) (\<lambda>_.
     and_then (assert_roster_authority env st (cb_authority c) None) (\<lambda>_.
     and_then (require (acceptedTrade c team1 team2) (Tx TX_TRADE_ACCEPTANCE_REQUIRED)) (\<lambda>_.
     and_then (entryFor (ts_playerEntries st) (td_firstPlayerEntryId c)) (\<lambda>player1.
     and_then (entryFor (ts_playerEntries st) (td_secondPlayerEntryId c)) (\<lambda>player2.
     and_then (require (\<not> (ow_fantasyTeamId (pe_ownership player1) \<noteq> Some (ft_id team1) \<or>
                ow_fantasyTeamId (pe_ownership player2) \<noteq> Some (ft_id team2) \<or> pe_id player1 = pe_id player2))
                (Tx TX_OWNERSHIP_CONFLICT)) (\<lambda>_.
     (let updated1 = ownership player1 ROSTERED (Some (ft_id team2)) (td_processingAt c);
          updated2 = ownership player2 ROSTERED (Some (ft_id team1)) (td_processingAt c);
          entries = replaceEntry (replaceEntry (ts_playerEntries st) updated1) updated2 in
     and_then (rosterFor (ts_currentRosters st) (ft_id team1)) (\<lambda>previous1.
     and_then (rosterFor (ts_currentRosters st) (ft_id team2)) (\<lambda>previous2.
     and_then (slotsWithoutPlayer (ro_slots previous1) (pe_id player1)) (\<lambda>vacated1.
     and_then (slotsWithAssignment vacated1 (td_firstTargetSlotId c) (pe_id player2)) (\<lambda>slots1.
     and_then (slotsWithoutPlayer (ro_slots previous2) (pe_id player2)) (\<lambda>vacated2.
     and_then (slotsWithAssignment vacated2 (td_secondTargetSlotId c) (pe_id player1)) (\<lambda>slots2.
     and_then (successorRoster env (td_firstRosterSnapshotId c) (td_processingAt c) cx team1 entries previous1 slots1
                (cb_authority c)) (\<lambda>roster1.
     and_then (successorRoster env (td_secondRosterSnapshotId c) (td_processingAt c) cx team2 entries previous2 slots2
                (cb_authority c)) (\<lambda>roster2.
       Inr \<lparr>mu_entries = entries,
            mu_rosters = replaceRoster (replaceRoster (ts_currentRosters st) roster1) roster2,
            mu_claims = None, mu_priority = None, mu_additionalAudits = None, mu_status = APPLIED,
            mu_effectiveAt = Some (td_processingAt c), mu_rosterSnapshotIds = [ro_id roster1, ro_id roster2]\<rparr>)))))))))))))))))))"

definition changeLineup :: "tx_env \<Rightarrow> tx_state \<Rightarrow> lineup_change_command \<Rightarrow> tx_context \<Rightarrow> tx_thrown + mutation" where
  "changeLineup env st c cx =
     and_then (teamFor (cx_teams cx) (lc_fantasyTeamId c)) (\<lambda>team.
     and_then (assert_roster_authority env st (cb_authority c) (Some (ft_id team))) (\<lambda>_.
     and_then (require (\<not> (lineupIsLocked (ts_policy st) (cb_submittedAt c) \<and> \<not> managerCorrectionAllowed c))
                (Tx TX_LINEUP_LOCKED)) (\<lambda>_.
     and_then (rosterFor (ts_currentRosters st) (ft_id team)) (\<lambda>previous.
     and_then (successorRoster env (lc_rosterSnapshotId c) (cb_submittedAt c) cx team (ts_playerEntries st) previous
                (lc_slots c) (cb_authority c)) (\<lambda>roster.
       Inr \<lparr>mu_entries = ts_playerEntries st, mu_rosters = replaceRoster (ts_currentRosters st) roster,
            mu_claims = None, mu_priority = None, mu_additionalAudits = None, mu_status = APPLIED,
            mu_effectiveAt = Some (cb_submittedAt c), mu_rosterSnapshotIds = [ro_id roster]\<rparr>)))))"

section \<open>Waivers\<close>

definition submitted_claim :: "tx_state \<Rightarrow> submit_claim_command \<Rightarrow> fantasy_team \<Rightarrow> waiver_claim" where
  "submitted_claim st c team =
     \<lparr>wc_id = sw_claimId c, wc_operationId = cb_operationId c, wc_accountId = ts_accountId st,
      wc_fantasyLeagueId = ts_fantasyLeagueId st, wc_fantasyTeamId = ft_id team,
      wc_playerEntryId = sw_playerEntryId c,
      wc_conditionalDropPlayerEntryId = sw_conditionalDropPlayerEntryId c, wc_targetSlotId = sw_targetSlotId c,
      wc_rosterSnapshotId = sw_rosterSnapshotId c, wc_processingAt = sw_processingAt c,
      wc_submittedAt = cb_submittedAt c, wc_submittedByActorId = fa_actorId (cb_authority c),
      wc_authorityReferenceIds = fa_authorityReferenceIds (cb_authority c), wc_status = CLAIM_PENDING,
      wc_resolvedAt = None, wc_resultCode = None\<rparr>"

definition check_conditional_drop ::
    "player_entry list \<Rightarrow> fantasy_team \<Rightarrow> ident option \<Rightarrow> tx_thrown + unit" where
  "check_conditional_drop entries team drp =
     (case drp of None \<Rightarrow> Inr ()
      | Some d \<Rightarrow> and_then (entryFor entries d) (\<lambda>e.
          require (ow_fantasyTeamId (pe_ownership e) = Some (ft_id team)) (Tx TX_OWNERSHIP_CONFLICT)))"

definition submitWaiver ::
    "tx_env \<Rightarrow> tx_state \<Rightarrow> submit_claim_command \<Rightarrow> fantasy_team list \<Rightarrow> tx_thrown + mutation" where
  "submitWaiver env st c teams =
     and_then (teamFor teams (sw_fantasyTeamId c)) (\<lambda>team.
     and_then (assert_roster_authority env st (cb_authority c) (Some (ft_id team))) (\<lambda>_.
     and_then (require (\<not> (sw_processingAt c \<notin> set (po_waiverProcessingInstants (ts_policy st)) \<or>
                time_le (sw_processingAt c) (cb_submittedAt c))) (Tx TX_PROCESSING_TIME_INVALID)) (\<lambda>_.
     and_then (entryFor (ts_playerEntries st) (sw_playerEntryId c)) (\<lambda>entry.
     and_then (require (\<not> owned_entry entry) (Tx TX_OWNERSHIP_CONFLICT)) (\<lambda>_.
     and_then (check_conditional_drop (ts_playerEntries st) team (sw_conditionalDropPlayerEntryId c)) (\<lambda>_.
     and_then (require (\<not> list_ex (\<lambda>w. wc_id w = sw_claimId c) (ts_waiverClaims st))
                (Tx TX_WAIVER_CLAIM_UNAVAILABLE)) (\<lambda>_.
     and_then (require (\<not> list_ex (\<lambda>w. due_at (sw_processingAt c) w \<and> wc_fantasyTeamId w = sw_fantasyTeamId c \<and>
                wc_playerEntryId w = sw_playerEntryId c) (ts_waiverClaims st)) (Tx TX_WAIVER_CLAIM_UNAVAILABLE)) (\<lambda>_.
       Inr \<lparr>mu_entries = ts_playerEntries st, mu_rosters = ts_currentRosters st,
            mu_claims = Some (ts_waiverClaims st @ [submitted_claim st c team]), mu_priority = None,
            mu_additionalAudits = None, mu_status = QUEUED, mu_effectiveAt = Some (sw_processingAt c),
            mu_rosterSnapshotIds = []\<rparr>))))))))"

definition cancelWaiver ::
    "tx_env \<Rightarrow> tx_state \<Rightarrow> cancel_claim_command \<Rightarrow> fantasy_team list \<Rightarrow> tx_thrown + mutation" where
  "cancelWaiver env st c teams =
     (case find (\<lambda>w. wc_id w = cw_claimId c) (ts_waiverClaims st) of
        None \<Rightarrow> Inl (Tx TX_WAIVER_CLAIM_UNAVAILABLE)
      | Some claim \<Rightarrow>
          and_then (require (wc_status claim = CLAIM_PENDING) (Tx TX_WAIVER_CLAIM_UNAVAILABLE)) (\<lambda>_.
          and_then (teamFor teams (wc_fantasyTeamId claim)) (\<lambda>_.
          and_then (assert_roster_authority env st (cb_authority c) (Some (wc_fantasyTeamId claim))) (\<lambda>_.
            Inr \<lparr>mu_entries = ts_playerEntries st, mu_rosters = ts_currentRosters st,
                 mu_claims = Some (map (\<lambda>w. if wc_id w = wc_id claim
                    then w\<lparr>wc_status := CLAIM_CANCELLED, wc_resolvedAt := Some (cb_submittedAt c)\<rparr> else w) (ts_waiverClaims st)),
                 mu_priority = None, mu_additionalAudits = None, mu_status = CANCELLED, mu_effectiveAt = None,
                 mu_rosterSnapshotIds = []\<rparr>))))"

text \<open>
  The order of a batch: the team's place in the waiver priority, then the time of submission, then
  the claim's id.  JavaScript's sort is stable, as \<open>sort_key\<close> is.  Submission times are canonical
  instants, which always parse.
\<close>

definition priority_rank :: "ident list \<Rightarrow> ident \<Rightarrow> int" where
  "priority_rank priority t =
     (case js_map_of fst (zip priority [0..<length priority]) t of
        None \<Rightarrow> max_safe_integer | Some (_, n) \<Rightarrow> int n)"

definition submission_time :: "waiver_claim \<Rightarrow> int" where
  "submission_time w = (case date_parse (wc_submittedAt w) of None \<Rightarrow> 0 | Some t \<Rightarrow> t)"

definition claim_key :: "ident list \<Rightarrow> waiver_claim \<Rightarrow> int \<times> int \<times> ident" where
  "claim_key priority w = (priority_rank priority (wc_fantasyTeamId w), submission_time w, wc_id w)"

definition waiverClaimOrder :: "waiver_claim list \<Rightarrow> ident list \<Rightarrow> waiver_claim list" where
  "waiverClaimOrder claims priority = sort_key (claim_key priority) claims"

definition waiverResolutionAudit ::
    "tx_env \<Rightarrow> tx_state \<Rightarrow> process_waivers_command \<Rightarrow> waiver_claim \<Rightarrow> tx_status \<Rightarrow> tx_error option \<Rightarrow> tx_audit" where
  "waiverResolutionAudit env st c claim result reason =
     \<lparr>ta_id = ''waiver-resolution-'' @ te_shortDigest env (cb_auditId c @ '':'' @ wc_id claim),
      ta_operationId = cb_operationId c @ '':'' @ wc_id claim, ta_actorId = fa_actorId (cb_authority c),
      ta_authoritySource = fa_source (cb_authority c),
      ta_authorityReferenceIds = fa_authorityReferenceIds (cb_authority c), ta_accountId = ts_accountId st,
      ta_fantasyLeagueId = ts_fantasyLeagueId st, ta_action = ACT_PROCESS_WAIVERS,
      ta_affectedPlayerEntryIds = players_of_claim claim, ta_acceptedAt = pw_processingAt c, ta_result = result,
      ta_reasonCode = reason, ta_commissionerCorrectionReason = None, ta_beforeRevision = ts_revision st,
      ta_afterRevision = ts_revision st + 1\<rparr>"

text \<open>The variables of the loop over the due claims; \<open>wv_resolved\<close> is the map by claim id.\<close>

record waiver_loop =
  wv_entries :: "player_entry list"
  wv_rosters :: "roster_snapshot list"
  wv_priority :: "ident list"
  wv_resolved :: "ident \<Rightarrow> waiver_claim option"
  wv_snapshotIds :: "ident list"
  wv_audits :: "tx_audit list"

text \<open>The body of the \<open>try\<close> up to the new entries and roster of an award.\<close>

definition release_drop ::
    "player_entry list \<Rightarrow> fantasy_team \<Rightarrow> roster_snapshot \<Rightarrow> string \<Rightarrow> ident option
     \<Rightarrow> tx_thrown + (player_entry list \<times> roster_slot list)" where
  "release_drop entries team previous at_time drp =
     (case drp of
        None \<Rightarrow> Inr (entries, ro_slots previous)
      | Some d \<Rightarrow>
          and_then (entryFor entries d) (\<lambda>dropped.
          and_then (require (ow_fantasyTeamId (pe_ownership dropped) = Some (ft_id team)) (Tx TX_OWNERSHIP_CONFLICT)) (\<lambda>_.
          and_then (slotsWithoutPlayer (ro_slots previous) (pe_id dropped)) (\<lambda>slots.
            Inr (replaceEntry entries (ownership dropped RELEASED None at_time), slots)))))"

definition award_claim ::
    "tx_env \<Rightarrow> process_waivers_command \<Rightarrow> tx_context \<Rightarrow> waiver_loop \<Rightarrow> waiver_claim
     \<Rightarrow> tx_thrown + (ident \<times> player_entry list \<times> roster_snapshot)" where
  "award_claim env c cx v claim =
     and_then (teamFor (cx_teams cx) (wc_fantasyTeamId claim)) (\<lambda>team.
     and_then (entryFor (wv_entries v) (wc_playerEntryId claim)) (\<lambda>target.
     and_then (require (\<not> owned_entry target) (Tx TX_OWNERSHIP_CONFLICT)) (\<lambda>_.
     and_then (rosterFor (wv_rosters v) (ft_id team)) (\<lambda>previous.
     and_then (release_drop (wv_entries v) team previous (pw_processingAt c) (wc_conditionalDropPlayerEntryId claim))
       (\<lambda>(kept, vacated).
     (let entries = replaceEntry kept (ownership target ROSTERED (Some (ft_id team)) (pw_processingAt c)) in
     and_then (slotsWithAssignment vacated (wc_targetSlotId claim) (pe_id target)) (\<lambda>slots.
     and_then (successorRoster env (wc_rosterSnapshotId claim) (pw_processingAt c) cx team entries previous slots
                (cb_authority c)) (\<lambda>roster.
       Inr (ft_id team, entries, roster)))))))))"

definition claim_error :: "tx_thrown \<Rightarrow> tx_error" where
  "claim_error e = (case e of Tx code \<Rightarrow> code | Lower _ \<Rightarrow> TX_ROSTER_CONFLICT)"

definition process_claim ::
    "tx_env \<Rightarrow> tx_state \<Rightarrow> process_waivers_command \<Rightarrow> tx_context \<Rightarrow> waiver_loop \<Rightarrow> waiver_claim \<Rightarrow> waiver_loop" where
  "process_claim env st c cx v claim =
     (case award_claim env c cx v claim of
        Inr (team, entries, roster) \<Rightarrow>
          v\<lparr>wv_entries := entries, wv_rosters := replaceRoster (wv_rosters v) roster,
            wv_snapshotIds := wv_snapshotIds v @ [ro_id roster],
            wv_priority := filter (\<lambda>t. t \<noteq> team) (wv_priority v) @ [team],
            wv_resolved := (wv_resolved v)(wc_id claim \<mapsto> claim\<lparr>wc_status := CLAIM_APPLIED,
               wc_resolvedAt := Some (pw_processingAt c), wc_resultCode := None\<rparr>),
            wv_audits := wv_audits v @ [waiverResolutionAudit env st c claim APPLIED None]\<rparr>
      | Inl e \<Rightarrow>
          v\<lparr>wv_resolved := (wv_resolved v)(wc_id claim \<mapsto> claim\<lparr>wc_status := CLAIM_REJECTED,
               wc_resolvedAt := Some (pw_processingAt c), wc_resultCode := Some (claim_error e)\<rparr>),
            wv_audits := wv_audits v @ [waiverResolutionAudit env st c claim DENIED (Some (claim_error e))]\<rparr>)"

definition due_claims :: "tx_state \<Rightarrow> process_waivers_command \<Rightarrow> waiver_claim list" where
  "due_claims st c = waiverClaimOrder (filter (due_at (pw_processingAt c)) (ts_waiverClaims st)) (ts_waiverPriority st)"

definition start_loop :: "tx_state \<Rightarrow> waiver_loop" where
  "start_loop st = \<lparr>wv_entries = ts_playerEntries st, wv_rosters = ts_currentRosters st,
     wv_priority = ts_waiverPriority st, wv_resolved = (\<lambda>_. None), wv_snapshotIds = [], wv_audits = []\<rparr>"

definition processWaivers ::
    "tx_env \<Rightarrow> tx_state \<Rightarrow> process_waivers_command \<Rightarrow> tx_context \<Rightarrow> tx_thrown + mutation" where
  "processWaivers env st c cx =
     and_then (assert_roster_authority env st (cb_authority c) None) (\<lambda>_.
     and_then (require (\<not> (pw_processingAt c \<notin> set (po_waiverProcessingInstants (ts_policy st)) \<or>
                pw_processingAt c \<noteq> cb_submittedAt c)) (Tx TX_PROCESSING_TIME_INVALID)) (\<lambda>_.
     (let v = foldl (process_claim env st c cx) (start_loop st) (due_claims st c) in
       Inr \<lparr>mu_entries = wv_entries v, mu_rosters = wv_rosters v,
            mu_claims = Some (map (\<lambda>w. case wv_resolved v (wc_id w) of None \<Rightarrow> w | Some r \<Rightarrow> r) (ts_waiverClaims st)),
            mu_priority = Some (wv_priority v), mu_additionalAudits = Some (wv_audits v), mu_status = APPLIED,
            mu_effectiveAt = Some (pw_processingAt c), mu_rosterSnapshotIds = wv_snapshotIds v\<rparr>)))"

section \<open>Applying a transaction\<close>

fun mutate :: "tx_env \<Rightarrow> tx_state \<Rightarrow> tx_command \<Rightarrow> tx_context \<Rightarrow> tx_thrown + mutation" where
  "mutate env st (ADD_PLAYER c) cx = addPlayer env st c cx"
| "mutate env st (DROP_PLAYER c) cx = dropPlayer env st c cx"
| "mutate env st (TRADE c) cx = tradePlayers env st c cx"
| "mutate env st (LINEUP_CHANGE c) cx = changeLineup env st c cx"
| "mutate env st (SUBMIT_WAIVER_CLAIM c) cx = submitWaiver env st c (cx_teams cx)"
| "mutate env st (CANCEL_WAIVER_CLAIM c) cx = cancelWaiver env st c (cx_teams cx)"
| "mutate env st (PROCESS_WAIVERS c) cx = processWaivers env st c cx"

fun command_team :: "tx_state \<Rightarrow> tx_command \<Rightarrow> ident option" where
  "command_team st (ADD_PLAYER c) = Some (ap_fantasyTeamId c)"
| "command_team st (DROP_PLAYER c) = Some (dp_fantasyTeamId c)"
| "command_team st (LINEUP_CHANGE c) = Some (lc_fantasyTeamId c)"
| "command_team st (SUBMIT_WAIVER_CLAIM c) = Some (sw_fantasyTeamId c)"
| "command_team st (CANCEL_WAIVER_CLAIM c) =
     map_option wc_fantasyTeamId (find (\<lambda>w. wc_id w = cw_claimId c) (ts_waiverClaims st))"
| "command_team st _ = None"

definition authorizeCommand :: "tx_env \<Rightarrow> tx_state \<Rightarrow> tx_command \<Rightarrow> tx_thrown + unit" where
  "authorizeCommand env st c =
     and_then (assert_roster_authority env st (cb_authority (base_of c)) (command_team st c)) (\<lambda>_.
       require (\<not> (action_of c \<in> {ACT_TRADE, ACT_PROCESS_WAIVERS} \<and> team_scoped (fa_scope (cb_authority (base_of c)))))
         (Tx TX_AUTHORIZATION_REQUIRED))"

fun denialCode :: "tx_thrown \<Rightarrow> tx_error" where
  "denialCode (Tx code) = code"
| "denialCode (Lower (Domain FD_ACCOUNT_MISMATCH)) = TX_ACCOUNT_MISMATCH"
| "denialCode (Lower (Domain e)) =
     (if e \<in> {FD_SCOPE_MISMATCH, FD_AUTHORIZATION_REQUIRED} then TX_AUTHORIZATION_REQUIRED
      else if e \<in> {FD_ROSTER_CONFLICT, FD_POSITION_INELIGIBLE, FD_RULES_MISMATCH, FD_HISTORY_CONFLICT} then TX_ROSTER_CONFLICT
      else TX_INVALID_INPUT)"
| "denialCode (Lower (Rules e)) = (if e = POSITION_INELIGIBLE_RULES then TX_ROSTER_CONFLICT else TX_INVALID_INPUT)"

definition resultEvidence ::
    "tx_state \<Rightarrow> tx_command \<Rightarrow> string \<Rightarrow> tx_status \<Rightarrow> tx_error option \<Rightarrow> string option \<Rightarrow> ident list \<Rightarrow> int
     \<Rightarrow> tx_record \<times> tx_audit" where
  "resultEvidence st c digest status code effectiveAt snapshotIds afterRevision =
     (let b = base_of c; affected = js_unique (affectedPlayers st c) in
      (\<lparr>tr_operationId = cb_operationId b, tr_requestDigest = digest, tr_accountId = cb_accountId b,
        tr_fantasyLeagueId = cb_fantasyLeagueId b, tr_action = action_of c, tr_affectedPlayerEntryIds = affected,
        tr_submittedAt = cb_submittedAt b, tr_effectiveAt = effectiveAt, tr_status = status, tr_resultCode = code,
        tr_beforeRevision = ts_revision st, tr_afterRevision = afterRevision, tr_rosterSnapshotIds = snapshotIds\<rparr>,
       \<lparr>ta_id = cb_auditId b, ta_operationId = cb_operationId b, ta_actorId = fa_actorId (cb_authority b),
        ta_authoritySource = fa_source (cb_authority b),
        ta_authorityReferenceIds = fa_authorityReferenceIds (cb_authority b), ta_accountId = cb_accountId b,
        ta_fantasyLeagueId = cb_fantasyLeagueId b, ta_action = action_of c, ta_affectedPlayerEntryIds = affected,
        ta_acceptedAt = cb_submittedAt b, ta_result = status, ta_reasonCode = code,
        ta_commissionerCorrectionReason = correction_reason c, ta_beforeRevision = ts_revision st,
        ta_afterRevision = afterRevision\<rparr>))"

definition deniedOutcome :: "tx_state \<Rightarrow> tx_command \<Rightarrow> string \<Rightarrow> tx_error \<Rightarrow> tx_outcome" where
  "deniedOutcome st c digest code =
     (case resultEvidence st c digest DENIED (Some code) None [] (ts_revision st) of (record, audit) \<Rightarrow>
        \<lparr>to_state = st\<lparr>ts_transactions := (if code = TX_IDEMPOTENCY_CONFLICT then ts_transactions st
                                          else ts_transactions st @ [record]),
                      ts_audits := ts_audits st @ [audit]\<rparr>,
         to_record = record, to_audit = audit, to_duplicate = False\<rparr>)"

text \<open>A committed mutation.\<close>

definition commit_mutation :: "tx_state \<Rightarrow> tx_command \<Rightarrow> string \<Rightarrow> mutation \<Rightarrow> tx_outcome" where
  "commit_mutation st c digest m =
     (case resultEvidence st c digest (mu_status m) None (mu_effectiveAt m) (mu_rosterSnapshotIds m) (ts_revision st + 1) of
        (record, audit) \<Rightarrow>
          \<lparr>to_state = st\<lparr>ts_revision := ts_revision st + 1, ts_playerEntries := mu_entries m,
              ts_currentRosters := mu_rosters m,
              ts_waiverClaims := (case mu_claims m of None \<Rightarrow> ts_waiverClaims st | Some ws \<Rightarrow> ws),
              ts_waiverPriority := (case mu_priority m of None \<Rightarrow> ts_waiverPriority st | Some ps \<Rightarrow> ps),
              ts_transactions := ts_transactions st @ [record],
              ts_audits := ts_audits st @ audit # (case mu_additionalAudits m of None \<Rightarrow> [] | Some as \<Rightarrow> as)\<rparr>,
           to_record = record, to_audit = audit, to_duplicate = False\<rparr>)"

text \<open>The guards before the mutation, in the order of the code; the first failing one denies.\<close>

definition precheck :: "tx_env \<Rightarrow> tx_state \<Rightarrow> tx_command \<Rightarrow> tx_context \<Rightarrow> tx_error + unit" where
  "precheck env st c cx =
     (let b = base_of c in
     and_then (require (\<not> (cb_accountId b \<noteq> ts_accountId st \<or> cb_accountId b \<noteq> fl_accountId (cx_league cx)))
                TX_ACCOUNT_MISMATCH) (\<lambda>_.
     and_then (require (\<not> (cb_fantasyLeagueId b \<noteq> ts_fantasyLeagueId st \<or> cb_fantasyLeagueId b \<noteq> fl_id (cx_league cx) \<or>
                list_ex (\<lambda>t. ft_accountId t \<noteq> ts_accountId st \<or> ft_fantasyLeagueId t \<noteq> ts_fantasyLeagueId st) (cx_teams cx)))
                TX_LEAGUE_MISMATCH) (\<lambda>_.
     and_then (require (fl_lifecycle (cx_league cx) = LEAGUE_ACTIVE) TX_LEAGUE_INACTIVE) (\<lambda>_.
     and_then (require (\<not> time_less (cb_submittedAt b) (fa_authorizedAt (cb_authority b))) TX_AUTHORIZATION_REQUIRED) (\<lambda>_.
     and_then (map_error denialCode (authorizeCommand env st c)) (\<lambda>_.
       require (cb_expectedRevision b = ts_revision st) TX_STALE_REVISION))))))"

text \<open>The \<open>try\<close> around the mutation and its checks.\<close>

definition checked_mutation :: "tx_env \<Rightarrow> tx_state \<Rightarrow> tx_command \<Rightarrow> tx_context \<Rightarrow> tx_thrown + mutation" where
  "checked_mutation env st c cx =
     and_then (map_error Lower (verify_model (te_domain env) (cx_model cx))) (\<lambda>_.
     and_then (mutate env st c cx) (\<lambda>m.
     and_then (assertOwnershipProjection (mu_entries m) (mu_rosters m)) (\<lambda>_. Inr m)))"

definition fresh_outcome :: "tx_env \<Rightarrow> tx_state \<Rightarrow> tx_command \<Rightarrow> tx_context \<Rightarrow> tx_outcome" where
  "fresh_outcome env st c cx =
     (let digest = te_commandDigest env c in
      case and_then (precheck env st c cx) (\<lambda>_. map_error denialCode (checked_mutation env st c cx)) of
        Inl code \<Rightarrow> deniedOutcome st c digest code
      | Inr m \<Rightarrow> commit_mutation st c digest m)"

definition applyFantasyTransaction ::
    "tx_env \<Rightarrow> tx_state \<Rightarrow> tx_command option \<Rightarrow> tx_context \<Rightarrow> tx_thrown + tx_outcome" where
  "applyFantasyTransaction env st raw cx =
     and_then (parseCommand env raw) (\<lambda>c.
     (case find (\<lambda>r. tr_operationId r = cb_operationId (base_of c)) (ts_transactions st) of
        Some existing \<Rightarrow>
          if tr_requestDigest existing \<noteq> te_commandDigest env c
          then Inr (deniedOutcome st c (te_commandDigest env c) TX_IDEMPOTENCY_CONFLICT)
          else (case find (\<lambda>a. ta_operationId a = cb_operationId (base_of c)) (ts_audits st) of
                  None \<Rightarrow> Inl (Tx TX_INVALID_INPUT)
                | Some audit \<Rightarrow> Inr \<lparr>to_state = st, to_record = existing, to_audit = audit, to_duplicate = True\<rparr>)
      | None \<Rightarrow> Inr (fresh_outcome env st c cx)))"

end
