(* ===== verification/Transaction_Invariants.thy ===== *)
theory Transaction_Invariants
  imports Fantasy_Transactions
begin

text \<open>
  The state of the fantasy transactions is consistent: ownership of the player entries and the
  current rosters agree, and every command keeps it so.  On the abstract ledger that maps a player
  entry to its owner, a committed command is a sequence of legal moves.
\<close>

section \<open>Owners and places\<close>

text \<open>
  The abstract view of a state: the map from player entries to the team that owns them, and the
  relation that says on which team's roster an entry stands.
\<close>

definition owner_map :: "player_entry list \<Rightarrow> ident \<Rightarrow> ident option" where
  "owner_map entries p =
     (case find (\<lambda>e. pe_id e = p) entries of
        None \<Rightarrow> None | Some e \<Rightarrow> if owned_entry e then ow_fantasyTeamId (pe_ownership e) else None)"

definition placed :: "roster_snapshot list \<Rightarrow> ident \<Rightarrow> ident \<Rightarrow> bool" where
  "placed rosters p t \<longleftrightarrow> (\<exists>r\<in>set rosters. ro_fantasyTeamId r = t \<and> p \<in> set (slot_entries r))"

definition owners_known :: "player_entry list \<Rightarrow> bool" where
  "owners_known entries \<longleftrightarrow> (\<forall>e\<in>set entries. owned_entry e \<longrightarrow> ow_fantasyTeamId (pe_ownership e) \<noteq> None)"

definition projection :: "player_entry list \<Rightarrow> roster_snapshot list \<Rightarrow> bool" where
  "projection entries rosters \<longleftrightarrow> owners_known entries \<and>
     (\<forall>p t. owner_map entries p = Some t \<longleftrightarrow> placed rosters p t) \<and> (\<forall>r\<in>set rosters. distinct (slot_entries r))"

lemma find_keyD: "find (\<lambda>x. k x = a) xs = Some x \<Longrightarrow> x \<in> set xs \<and> k x = a"
  by (auto simp: find_Some_iff)

lemma owner_map_mem:
  assumes "distinct (map pe_id entries)" and "e \<in> set entries"
  shows "owner_map entries (pe_id e) = (if owned_entry e then ow_fantasyTeamId (pe_ownership e) else None)"
  using find_Some_distinct_key [OF assms] by (simp add: owner_map_def)

lemma owner_map_Some:
  assumes "distinct (map pe_id entries)"
  shows "owner_map entries p = Some t \<longleftrightarrow>
    (\<exists>e\<in>set entries. pe_id e = p \<and> owned_entry e \<and> ow_fantasyTeamId (pe_ownership e) = Some t)"
proof
  assume "owner_map entries p = Some t"
  then obtain e where "find (\<lambda>e. pe_id e = p) entries = Some e" "owned_entry e" "ow_fantasyTeamId (pe_ownership e) = Some t"
    by (auto simp: owner_map_def split: option.splits if_splits)
  then show "\<exists>e\<in>set entries. pe_id e = p \<and> owned_entry e \<and> ow_fantasyTeamId (pe_ownership e) = Some t"
    using find_keyD [of pe_id p entries e] by blast
next
  assume "\<exists>e\<in>set entries. pe_id e = p \<and> owned_entry e \<and> ow_fantasyTeamId (pe_ownership e) = Some t"
  then show "owner_map entries p = Some t" using owner_map_mem [OF assms] by auto
qed

lemma slot_entries_mem: "p \<in> set (slot_entries r) \<longleftrightarrow> (\<exists>s\<in>set (ro_slots r). rs_playerEntryId s = Some p)"
  by (simp add: slot_entries_def set_map_filter)

lemma check_rostered_Inr:
  assumes "distinct (map pe_id entries)"
  shows "check_rostered entries r s = Inr () \<longleftrightarrow>
    (\<forall>p. rs_playerEntryId s = Some p \<longrightarrow> owner_map entries p = Some (ro_fantasyTeamId r))"
proof (cases "rs_playerEntryId s")
  case (Some p)
  show ?thesis
  proof (cases "js_map_of pe_id entries p")
    case None
    then have "owner_map entries p = None" using assms by (simp add: js_map_of_distinct owner_map_def)
    with None Some show ?thesis by (simp add: check_rostered_def)
  next
    case (Some e)
    then have "owner_map entries p = (if owned_entry e then ow_fantasyTeamId (pe_ownership e) else None)"
      using assms by (simp add: js_map_of_distinct owner_map_def)
    with Some \<open>rs_playerEntryId s = Some p\<close> show ?thesis by (auto simp: check_rostered_def result_simps)
  qed
qed (simp add: check_rostered_def)

lemma distinct_concat_keys:
  assumes "distinct (map k xs)" and "\<And>x. x \<in> set xs \<Longrightarrow> distinct (f x)"
    and "\<And>x y p. x \<in> set xs \<Longrightarrow> y \<in> set xs \<Longrightarrow> p \<in> set (f x) \<Longrightarrow> p \<in> set (f y) \<Longrightarrow> k x = k y"
  shows "distinct (concat (map f xs))"
  using assms
proof (induction xs)
  case (Cons x xs)
  have "p \<notin> set (f y)" if "p \<in> set (f x)" "y \<in> set xs" for p y
    using Cons.prems(1) Cons.prems(3) [of x y p] that by auto
  moreover have "distinct (concat (map f xs))"
    by (rule Cons.IH) (use Cons.prems in \<open>auto\<close>)
  ultimately show ?case using Cons.prems(2) by auto
qed simp

lemma distinct_concat_each: "distinct (concat (map f xs)) \<Longrightarrow> x \<in> set xs \<Longrightarrow> distinct (f x)"
  by (induction xs) auto

lemma assertOwnershipProjection_iff:
  assumes ids: "distinct (map pe_id entries)" and teams: "distinct (map ro_fantasyTeamId rosters)"
  shows "assertOwnershipProjection entries rosters = Inr () \<longleftrightarrow> projection entries rosters"
proof -
  let ?all = "concat (map slot_entries rosters)"
  have checks: "check_all (\<lambda>r. check_all (check_rostered entries r) (ro_slots r)) rosters = Inr () \<longleftrightarrow>
      (\<forall>p t. placed rosters p t \<longrightarrow> owner_map entries p = Some t)"
    by (auto simp: check_all_Inr_iff check_rostered_Inr [OF ids] placed_def slot_entries_mem)
  have all: "p \<in> set ?all \<longleftrightarrow> (\<exists>t. placed rosters p t)" for p
    by (auto simp: placed_def)
  show ?thesis
  proof
    assume "assertOwnershipProjection entries rosters = Inr ()"
    then have sound: "\<forall>p t. placed rosters p t \<longrightarrow> owner_map entries p = Some t" and d: "distinct ?all"
      and complete: "\<forall>e\<in>set entries. owned_entry e = (pe_id e \<in> set ?all)"
      using checks by (auto simp: assertOwnershipProjection_def requireUnique_def result_simps list_ex_iff simp del: set_concat)
    have "owners_known entries"
      unfolding owners_known_def
    proof (intro ballI impI)
      fix e assume e: "e \<in> set entries" "owned_entry e"
      then have "pe_id e \<in> set ?all" using complete by blast
      then obtain t where "placed rosters (pe_id e) t" unfolding all by (rule exE)
      then have "owner_map entries (pe_id e) = Some t" using sound by blast
      with owner_map_mem [OF ids e(1)] e(2) show "ow_fantasyTeamId (pe_ownership e) \<noteq> None" by (metis option.distinct(1))
    qed
    moreover have "placed rosters p t" if own: "owner_map entries p = Some t" for p t
    proof -
      obtain e where e: "e \<in> set entries" "pe_id e = p" "owned_entry e"
        using owner_map_Some [OF ids, THEN iffD1, OF own] by blast
      then have "p \<in> set ?all" using complete by blast
      then obtain t' where "placed rosters p t'" unfolding all by (rule exE)
      with sound own show ?thesis by (metis option.inject)
    qed
    ultimately show "projection entries rosters"
      using sound distinct_concat_each [OF d] unfolding projection_def by blast
  next
    assume p: "projection entries rosters"
    have d: "distinct ?all"
    proof (rule distinct_concat_keys [OF teams])
      fix x y q assume "x \<in> set rosters" "y \<in> set rosters" "q \<in> set (slot_entries x)" "q \<in> set (slot_entries y)"
      then have "placed rosters q (ro_fantasyTeamId x)" "placed rosters q (ro_fantasyTeamId y)"
        by (auto simp: placed_def)
      then show "ro_fantasyTeamId x = ro_fantasyTeamId y" using p unfolding projection_def by (metis option.inject)
    qed (use p in \<open>simp add: projection_def\<close>)
    have "owned_entry e = (pe_id e \<in> set ?all)" if e: "e \<in> set entries" for e
    proof -
      have "owned_entry e = (\<exists>t. owner_map entries (pe_id e) = Some t)"
        using p e by (auto simp: owner_map_mem [OF ids e] projection_def owners_known_def)
      then show ?thesis using p by (simp only: all) (simp add: projection_def)
    qed
    with d p checks show "assertOwnershipProjection entries rosters = Inr ()"
      by (auto simp: assertOwnershipProjection_def requireUnique_def result_simps list_ex_iff projection_def simp del: set_concat)
  qed
qed

section \<open>Updates\<close>

lemma map_pe_id_replace [simp]: "map pe_id (replaceEntry entries u) = map pe_id entries"
  by (simp add: replaceEntry_def)

lemma map_team_replace [simp]: "map ro_fantasyTeamId (replaceRoster rosters u) = map ro_fantasyTeamId rosters"
  by (simp add: replaceRoster_def)

lemma pe_id_ownership [simp]: "pe_id (ownership e st t a) = pe_id e" "pe_baseballPlayerId (ownership e st t a) = pe_baseballPlayerId e"
  "owned_entry (ownership e st t a) = owned_state st" "ow_fantasyTeamId (pe_ownership (ownership e st t a)) = t"
  by (simp_all add: ownership_def owned_entry_def)

lemma map_baseball_replace:
  assumes "distinct (map pe_id entries)" and "e \<in> set entries" and "pe_id u = pe_id e" "pe_baseballPlayerId u = pe_baseballPlayerId e"
  shows "map pe_baseballPlayerId (replaceEntry entries u) = map pe_baseballPlayerId entries"
  using assms distinct_key_eqD [OF assms(1) _ assms(2)] by (auto simp: replaceEntry_def)

lemma owned_state_simps [simp]: "owned_state ROSTERED" "owned_state INACTIVE" "\<not> owned_state RELEASED" "\<not> owned_state AVAILABLE"
  by (simp_all add: owned_state_def)

lemma find_replace:
  "find (\<lambda>e. pe_id e = p) (replaceEntry entries u) =
     (if p = pe_id u then map_option (\<lambda>_. u) (find (\<lambda>e. pe_id e = p) entries) else find (\<lambda>e. pe_id e = p) entries)"
  by (induction entries) (auto simp: replaceEntry_def)

lemma owner_map_replace:
  assumes "find (\<lambda>e. pe_id e = pe_id u) entries = Some e"
  shows "owner_map (replaceEntry entries u) =
    (owner_map entries)(pe_id u := (if owned_entry u then ow_fantasyTeamId (pe_ownership u) else None))"
  by (rule ext) (use assms in \<open>auto simp: owner_map_def find_replace\<close>)

lemma owners_known_replace:
  "owners_known entries \<Longrightarrow> (owned_entry u \<Longrightarrow> ow_fantasyTeamId (pe_ownership u) \<noteq> None) \<Longrightarrow> owners_known (replaceEntry entries u)"
  by (auto simp: owners_known_def replaceEntry_def)

lemma set_replaceRoster:
  assumes "distinct (map ro_fantasyTeamId rosters)" and "r0 \<in> set rosters" and "ro_fantasyTeamId r = ro_fantasyTeamId r0"
  shows "set (replaceRoster rosters r) = insert r (set rosters - {r0})"
proof -
  have "x = r0" if "x \<in> set rosters" "ro_fantasyTeamId x = ro_fantasyTeamId r0" for x
    using distinct_key_eqD [OF assms(1) that(1) assms(2) that(2)] .
  with assms(2,3) show ?thesis by (auto simp: replaceRoster_def)
qed

lemma placed_replace:
  assumes "distinct (map ro_fantasyTeamId rosters)" and "r0 \<in> set rosters" and "ro_fantasyTeamId r = ro_fantasyTeamId r0"
  shows "placed (replaceRoster rosters r) p t \<longleftrightarrow>
    (if t = ro_fantasyTeamId r then p \<in> set (slot_entries r) else placed rosters p t)"
proof -
  have "x = r0" if "x \<in> set rosters" "ro_fantasyTeamId x = ro_fantasyTeamId r0" for x
    using distinct_key_eqD [OF assms(1) that(1) assms(2) that(2)] .
  with assms show ?thesis by (auto simp: placed_def set_replaceRoster [OF assms])
qed

lemma placed_at:
  assumes "distinct (map ro_fantasyTeamId rosters)" and "r \<in> set rosters"
  shows "placed rosters p (ro_fantasyTeamId r) \<longleftrightarrow> p \<in> set (slot_entries r)"
  using assms distinct_key_eqD [OF assms(1) _ assms(2)] by (auto simp: placed_def)

lemma find_or_Inr: "find_or e P xs = Inr x \<longleftrightarrow> find P xs = Some x"
  by (auto simp: find_or_def split: option.splits)

lemma entryFor_Inr: "entryFor entries p = Inr e \<longleftrightarrow> find (\<lambda>e. pe_id e = p) entries = Some e"
  by (simp add: entryFor_def find_or_Inr)

lemma entryForD: "entryFor entries p = Inr e \<Longrightarrow> e \<in> set entries \<and> pe_id e = p"
  by (auto simp: entryFor_Inr dest: find_keyD)

lemma rosterForD: "rosterFor rosters t = Inr r \<Longrightarrow> r \<in> set rosters \<and> ro_fantasyTeamId r = t"
  by (auto simp: rosterFor_def find_or_Inr dest: find_keyD)

lemma teamForD: "teamFor teams t = Inr x \<Longrightarrow> x \<in> set teams \<and> ft_id x = t"
  by (auto simp: teamFor_def find_or_Inr dest: find_keyD)

definition slots_trimmed :: "roster_slot list \<Rightarrow> bool" where
  "slots_trimmed ss \<longleftrightarrow> map trim_slot ss = ss"

lemma slots_trimmed_iff: "slots_trimmed ss \<longleftrightarrow> (\<forall>s\<in>set ss. trim_slot s = s)"
  unfolding slots_trimmed_def by (metis list.map_ident list.map_cong0 map_eq_conv)

lemma trim_slot_idem [simp]: "trim_slot (trim_slot s) = trim_slot s"
  by (simp add: trim_slot_def option.map_comp comp_def)

lemma trim_slot_fill:
  "trim_slot s = s \<Longrightarrow> map_option trim x = x \<Longrightarrow> trim_slot (s\<lparr>rs_playerEntryId := x\<rparr>) = s\<lparr>rs_playerEntryId := x\<rparr>"
  by (cases s) (simp add: trim_slot_def)

lemma slotsWithAssignment_Inr:
  assumes "slotsWithAssignment ss target p = Inr ss'"
  shows "set (List.map_filter rs_playerEntryId ss') = insert p (set (List.map_filter rs_playerEntryId ss)) \<and>
    (slots_trimmed ss \<longrightarrow> trim p = p \<longrightarrow> slots_trimmed ss')"
proof -
  from assms have rel: "list_all2 (\<lambda>s s'. (if rs_id s \<noteq> target then s' = s
        else rs_playerEntryId s = None \<and> s' = s\<lparr>rs_playerEntryId := Some p\<rparr>)) ss ss'"
    and ex: "list_ex (\<lambda>s. rs_id s = target) ss"
    by (auto simp: slotsWithAssignment_def result_simps elim!: list_all2_mono split: if_splits)
  have weak: "set (List.map_filter rs_playerEntryId ss') = (if list_ex (\<lambda>s. rs_id s = target) ss then {p} else {}) \<union> set (List.map_filter rs_playerEntryId ss)"
    using rel by (induction rule: list_all2_induct) (auto split: option.splits if_splits)
  have "trim_slot y = y" if "y \<in> set ss'" "slots_trimmed ss" "trim p = p" for y
    using rel that(1,2)
    by (induction rule: list_all2_induct) (use that(3) in \<open>auto simp: slots_trimmed_iff trim_slot_fill split: if_splits\<close>)
  with weak ex show ?thesis by (auto simp: slots_trimmed_iff)
qed

lemma slotsWithoutPlayer_Inr:
  assumes "slotsWithoutPlayer ss p = Inr ss'"
  shows "set (List.map_filter rs_playerEntryId ss') = set (List.map_filter rs_playerEntryId ss) - {p} \<and>
    p \<in> set (List.map_filter rs_playerEntryId ss) \<and> (slots_trimmed ss \<longrightarrow> slots_trimmed ss')"
proof -
  from assms have ex: "\<exists>s\<in>set ss. rs_playerEntryId s = Some p"
    and ss': "ss' = map (\<lambda>s. if rs_playerEntryId s \<noteq> Some p then s else s\<lparr>rs_playerEntryId := None\<rparr>) ss"
    by (auto simp: slotsWithoutPlayer_def result_simps list_ex_iff)
  have "set (List.map_filter rs_playerEntryId ss') = set (List.map_filter rs_playerEntryId ss) - {p}"
    unfolding ss' by (induction ss) (auto split: option.splits if_splits)
  moreover have "slots_trimmed ss \<longrightarrow> slots_trimmed ss'"
    unfolding slots_trimmed_iff ss' by (auto simp: trim_slot_fill)
  ultimately show ?thesis using ex by (auto simp: set_map_filter)
qed

section \<open>Boards\<close>

text \<open>The entries and rosters of a league, with the two projections of ownership in agreement.\<close>

definition board :: "player_entry list \<Rightarrow> roster_snapshot list \<Rightarrow> bool" where
  "board entries rosters \<longleftrightarrow> distinct (map pe_id entries) \<and> distinct (map pe_baseballPlayerId entries) \<and>
     distinct (map ro_fantasyTeamId rosters) \<and> (\<forall>r\<in>set rosters. slots_trimmed (ro_slots r)) \<and> projection entries rosters"

text \<open>What stays when a command changes a board.\<close>

definition same_players :: "player_entry list \<Rightarrow> roster_snapshot list \<Rightarrow> player_entry list \<Rightarrow> roster_snapshot list \<Rightarrow> bool" where
  "same_players entries rosters entries' rosters' \<longleftrightarrow> map pe_id entries' = map pe_id entries \<and>
     map pe_baseballPlayerId entries' = map pe_baseballPlayerId entries \<and>
     map ro_fantasyTeamId rosters' = map ro_fantasyTeamId rosters"

lemma same_players_refl [simp]: "same_players es rs es rs"
  by (simp add: same_players_def)

lemma same_players_trans:
  "same_players es rs es' rs' \<Longrightarrow> same_players es' rs' es'' rs'' \<Longrightarrow> same_players es rs es'' rs''"
  by (simp add: same_players_def)

lemma successorRoster_Inr:
  assumes "successorRoster env i a cx team entries previous slots authority = Inr r"
  shows "ro_slots r = map trim_slot slots" and "ro_fantasyTeamId r = ft_id team" and "distinct (slot_entries r)"
    and "slots_trimmed (ro_slots r)" and "roster_wf r (cx_league cx) (cx_model cx) entries" and "ro_effectiveAt r = a"
    and "time_less (ro_effectiveAt previous) a \<or> date_parse (ro_effectiveAt previous) = None \<or> date_parse a = None"
proof -
  let ?inp = "\<lparr>ro_id = i, ro_accountId = fl_accountId (cx_league cx), ro_fantasyLeagueId = fl_id (cx_league cx),
              ro_fantasyTeamId = ft_id team, ro_revision = ro_revision previous + 1,
              ro_previousSnapshotId = Some (ro_id previous), ro_effectiveAt = a, ro_slots = slots\<rparr>"
  from assms have c: "createFantasyRosterSnapshot (te_domain env) (Some ?inp) (cx_league cx) team (cx_model cx) entries
      authority (Some previous) = Inr r"
    by (simp add: successorRoster_def result_simps)
  note facts = roster_snapshot_Inr [OF c]
  have "ro_slots r = ro_slots (roster_input.truncate r)" by (cases r) (simp add: roster_input.defs)
  also have "\<dots> = map trim_slot slots" using facts by (simp add: trim_roster_input_def)
  finally show slots: "ro_slots r = map trim_slot slots" .
  have "ro_effectiveAt r = ro_effectiveAt (roster_input.truncate r)" by (cases r) (simp add: roster_input.defs)
  also have "\<dots> = a" using facts by (simp add: trim_roster_input_def)
  finally show "ro_effectiveAt r = a" .
  show "ro_fantasyTeamId r = ft_id team" "roster_wf r (cx_league cx) (cx_model cx) entries" using facts by auto
  then show "distinct (slot_entries r)" by (simp add: roster_wf_def)
  show "slots_trimmed (ro_slots r)" by (simp add: slots slots_trimmed_iff)
  show "time_less (ro_effectiveAt previous) a \<or> date_parse (ro_effectiveAt previous) = None \<or> date_parse a = None"
    using facts by (auto simp: roster_succeeds_def trim_roster_input_def time_le_def time_less_def split: option.splits)
qed

lemma slot_entries_trimmed:
  "ro_slots r = map trim_slot ss \<Longrightarrow> slots_trimmed ss \<Longrightarrow> slot_entries r = List.map_filter rs_playerEntryId ss"
  by (simp add: slot_entries_def slots_trimmed_def)

text \<open>The owners after an update agree with the places after the roster of one team was replaced.\<close>

lemma board_replace:
  assumes b: "board entries rosters" and r0: "r0 \<in> set rosters" and t: "ro_fantasyTeamId r = ro_fantasyTeamId r0"
    and r: "distinct (slot_entries r)" "slots_trimmed (ro_slots r)"
    and same: "map pe_id entries' = map pe_id entries" "map pe_baseballPlayerId entries' = map pe_baseballPlayerId entries"
    and known: "owners_known entries'"
    and own: "\<And>p u. owner_map entries' p = Some u \<longleftrightarrow>
      (if u = ro_fantasyTeamId r0 then p \<in> set (slot_entries r) else owner_map entries p = Some u)"
  shows "board entries' (replaceRoster rosters r)" and "same_players entries rosters entries' (replaceRoster rosters r)"
proof -
  have d: "distinct (map ro_fantasyTeamId rosters)" and p: "projection entries rosters" using b by (simp_all add: board_def)
  have "projection entries' (replaceRoster rosters r)"
    using known own r p by (auto simp: projection_def placed_replace [OF d r0 t] t set_replaceRoster [OF d r0 t])
  with b same r show "board entries' (replaceRoster rosters r)"
    by (auto simp: board_def set_replaceRoster [OF d r0 t])
  show "same_players entries rosters entries' (replaceRoster rosters r)"
    using same by (simp add: same_players_def)
qed

lemma board_owner:
  assumes "board entries rosters" and "r \<in> set rosters"
  shows "owner_map entries p = Some (ro_fantasyTeamId r) \<longleftrightarrow> p \<in> set (slot_entries r)"
  using assms placed_at [of rosters r p] by (simp add: board_def projection_def)

lemma board_unowned:
  assumes "board entries rosters" and "e \<in> set entries" and "\<not> owned_entry e"
  shows "owner_map entries (pe_id e) = None"
  using assms by (simp add: board_def owner_map_mem)

text \<open>An entry joins or leaves the roster of a team.\<close>

lemma board_join:
  fixes moment :: string
  assumes b: "board entries rosters" and e: "entryFor entries p = Inr e" "\<not> owned_entry e" and r0: "rosterFor rosters t = Inr r0"
    and "trim p = p" and slots: "slotsWithAssignment (ro_slots r0) target p = Inr slots"
    and r: "ro_slots r = map trim_slot slots" "ro_fantasyTeamId r = t" "distinct (slot_entries r)" "slots_trimmed (ro_slots r)"
  defines "u \<equiv> ownership e ROSTERED (Some t) moment"
  shows "board (replaceEntry entries u) (replaceRoster rosters r)"
    and "same_players entries rosters (replaceEntry entries u) (replaceRoster rosters r)"
    and "owner_map entries p = None" and "owner_map (replaceEntry entries u) = (owner_map entries)(p \<mapsto> t)"
proof -
  note e' = entryForD [OF e(1)] and r0' = rosterForD [OF r0]
  have trimmed: "slots_trimmed (ro_slots r0)" using b r0' by (simp add: board_def)
  have entries: "set (slot_entries r) = insert p (set (slot_entries r0))"
    using slotsWithAssignment_Inr [OF slots] trimmed \<open>trim p = p\<close> slot_entries_trimmed [OF r(1)] by (simp add: slot_entries_def)
  show none: "owner_map entries p = None" using board_unowned [OF b _ e(2)] e' by auto
  show own: "owner_map (replaceEntry entries u) = (owner_map entries)(p \<mapsto> t)"
    using owner_map_replace [of u entries e] e(1) e' by (simp add: u_def entryFor_Inr)
  have ids: "distinct (map pe_id entries)" "owners_known entries" using b by (simp_all add: board_def projection_def)
  have base: "map pe_baseballPlayerId (replaceEntry entries u) = map pe_baseballPlayerId entries"
    by (rule map_baseball_replace [OF ids(1), of e]) (use e' in \<open>simp_all add: u_def\<close>)
  have owners: "owner_map (replaceEntry entries u) q = Some v \<longleftrightarrow>
      (if v = ro_fantasyTeamId r0 then q \<in> set (slot_entries r) else owner_map entries q = Some v)" for q v
    using none r0' by (auto simp: own entries board_owner [OF b, of r0, symmetric])
  note rep = board_replace [OF b _ _ r(3,4) map_pe_id_replace base _ owners]
  show "board (replaceEntry entries u) (replaceRoster rosters r)"
    and "same_players entries rosters (replaceEntry entries u) (replaceRoster rosters r)"
    using rep r0' r(2) owners_known_replace [OF ids(2), of u] by (auto simp: u_def)
qed

lemma board_leave:
  fixes moment :: string
  assumes b: "board entries rosters" and e: "entryFor entries p = Inr e" and r0: "rosterFor rosters t = Inr r0"
    and slots: "slotsWithoutPlayer (ro_slots r0) p = Inr slots"
    and r: "ro_slots r = map trim_slot slots" "ro_fantasyTeamId r = t" "distinct (slot_entries r)" "slots_trimmed (ro_slots r)"
  defines "u \<equiv> ownership e RELEASED None moment"
  shows "board (replaceEntry entries u) (replaceRoster rosters r)"
    and "same_players entries rosters (replaceEntry entries u) (replaceRoster rosters r)"
    and "owner_map entries p = Some t" and "owner_map (replaceEntry entries u) = (owner_map entries)(p := None)"
proof -
  note e' = entryForD [OF e(1)] and r0' = rosterForD [OF r0]
  have trimmed: "slots_trimmed (ro_slots r0)" using b r0' by (simp add: board_def)
  have entries: "set (slot_entries r) = set (slot_entries r0) - {p}" and mem: "p \<in> set (slot_entries r0)"
    using slotsWithoutPlayer_Inr [OF slots] trimmed slot_entries_trimmed [OF r(1)] by (simp_all add: slot_entries_def)
  show some: "owner_map entries p = Some t" using board_owner [OF b, of r0 p] r0' mem by simp
  show own: "owner_map (replaceEntry entries u) = (owner_map entries)(p := None)"
    using owner_map_replace [of u entries e] e(1) e' by (simp add: u_def entryFor_Inr)
  have ids: "distinct (map pe_id entries)" "owners_known entries" using b by (simp_all add: board_def projection_def)
  have base: "map pe_baseballPlayerId (replaceEntry entries u) = map pe_baseballPlayerId entries"
    by (rule map_baseball_replace [OF ids(1), of e]) (use e' in \<open>simp_all add: u_def\<close>)
  have owners: "owner_map (replaceEntry entries u) q = Some v \<longleftrightarrow>
      (if v = ro_fantasyTeamId r0 then q \<in> set (slot_entries r) else owner_map entries q = Some v)" for q v
    using some r0' by (auto simp: own entries board_owner [OF b, of r0, symmetric])
  note rep = board_replace [OF b _ _ r(3,4) map_pe_id_replace base _ owners]
  show "board (replaceEntry entries u) (replaceRoster rosters r)"
    and "same_players entries rosters (replaceEntry entries u) (replaceRoster rosters r)"
    using rep r0' r(2) owners_known_replace [OF ids(2), of u] by (auto simp: u_def)
qed

text \<open>A trade exchanges the places of two owned entries.\<close>

lemma board_trade:
  fixes moment :: string
  assumes b: "board entries rosters" and e1: "entryFor entries p1 = Inr e1" and e2: "entryFor entries p2 = Inr e2"
    and r1: "rosterFor rosters t1 = Inr r1" and r2: "rosterFor rosters t2 = Inr r2"
    and ne: "p1 \<noteq> p2" "t1 \<noteq> t2" and trimmed: "trim p1 = p1" "trim p2 = p2"
    and s1: "slotsWithoutPlayer (ro_slots r1) p1 = Inr v1" "slotsWithAssignment v1 x1 p2 = Inr ss1"
    and s2: "slotsWithoutPlayer (ro_slots r2) p2 = Inr v2" "slotsWithAssignment v2 x2 p1 = Inr ss2"
    and n1: "ro_slots n1 = map trim_slot ss1" "ro_fantasyTeamId n1 = t1" "distinct (slot_entries n1)" "slots_trimmed (ro_slots n1)"
    and n2: "ro_slots n2 = map trim_slot ss2" "ro_fantasyTeamId n2 = t2" "distinct (slot_entries n2)" "slots_trimmed (ro_slots n2)"
  defines "entries' \<equiv> replaceEntry (replaceEntry entries (ownership e1 ROSTERED (Some t2) moment)) (ownership e2 ROSTERED (Some t1) moment)"
  shows "board entries' (replaceRoster (replaceRoster rosters n1) n2)"
    and "same_players entries rosters entries' (replaceRoster (replaceRoster rosters n1) n2)"
    and "owner_map entries p1 = Some t1" and "owner_map entries p2 = Some t2"
    and "owner_map entries' = (owner_map entries)(p1 \<mapsto> t2, p2 \<mapsto> t1)"
proof -
  let ?u1 = "ownership e1 ROSTERED (Some t2) moment" and ?u2 = "ownership e2 ROSTERED (Some t1) moment"
  note e1' = entryForD [OF e1] and e2' = entryForD [OF e2] and r1' = rosterForD [OF r1] and r2' = rosterForD [OF r2]
  have st: "slots_trimmed (ro_slots r1)" "slots_trimmed (ro_slots r2)" using b r1' r2' by (simp_all add: board_def)
  note w1 = slotsWithoutPlayer_Inr [OF s1(1)] and w2 = slotsWithoutPlayer_Inr [OF s2(1)]
    and a1 = slotsWithAssignment_Inr [OF s1(2)] and a2 = slotsWithAssignment_Inr [OF s2(2)]
  have m: "p1 \<in> set (slot_entries r1)" "p2 \<in> set (slot_entries r2)" using w1 w2 by (simp_all add: slot_entries_def)
  have se: "set (slot_entries n1) = insert p2 (set (slot_entries r1) - {p1})" "set (slot_entries n2) = insert p1 (set (slot_entries r2) - {p2})"
    using w1 w2 a1 a2 st trimmed slot_entries_trimmed [OF n1(1)] slot_entries_trimmed [OF n2(1)]
    by (simp_all add: slot_entries_def)
  show o1: "owner_map entries p1 = Some t1" and o2: "owner_map entries p2 = Some t2"
    using board_owner [OF b, of r1 p1] board_owner [OF b, of r2 p2] r1' r2' m by simp_all
  have ids: "distinct (map pe_id entries)" "owners_known entries" and teams: "distinct (map ro_fantasyTeamId rosters)"
    and old: "projection entries rosters"
    using b by (simp_all add: board_def projection_def)
  have f2: "find (\<lambda>e. pe_id e = pe_id ?u2) (replaceEntry entries ?u1) = Some e2"
    using e1' e2' e2 ne by (simp add: find_replace entryFor_Inr)
  show own: "owner_map entries' = (owner_map entries)(p1 \<mapsto> t2, p2 \<mapsto> t1)"
    using owner_map_replace [OF f2] owner_map_replace [of ?u1 entries e1] e1 e1' e2' by (simp add: entries'_def entryFor_Inr)
  have known: "owners_known entries'"
    unfolding entries'_def using ids(2) by (intro owners_known_replace) auto
  have base1: "map pe_baseballPlayerId (replaceEntry entries ?u1) = map pe_baseballPlayerId entries"
    by (rule map_baseball_replace [OF ids(1), of e1]) (use e1' in simp_all)
  have "map pe_baseballPlayerId entries' = map pe_baseballPlayerId (replaceEntry entries ?u1)"
    unfolding entries'_def
  proof (rule map_baseball_replace [of _ e2])
    show "distinct (map pe_id (replaceEntry entries ?u1))" using ids(1) by simp
    show "e2 \<in> set (replaceEntry entries ?u1)" using e1' e2' ne by (auto simp: replaceEntry_def)
  qed simp_all
  with base1 have base: "map pe_baseballPlayerId entries' = map pe_baseballPlayerId entries" by simp
  have set1: "set (replaceRoster rosters n1) = insert n1 (set rosters - {r1})"
    by (rule set_replaceRoster [OF teams]) (use r1' n1 in simp_all)
  have r2mem: "r2 \<in> set (replaceRoster rosters n1)" using set1 r1' r2' ne by auto
  have set2: "set (replaceRoster (replaceRoster rosters n1) n2) = insert n2 (insert n1 (set rosters - {r1}) - {r2})"
    using set_replaceRoster [of "replaceRoster rosters n1" r2 n2] r2mem r2' n2 teams set1 by simp
  have pl: "placed (replaceRoster (replaceRoster rosters n1) n2) p t \<longleftrightarrow>
      (if t = t2 then p \<in> set (slot_entries n2) else if t = t1 then p \<in> set (slot_entries n1) else placed rosters p t)" for p t
    using placed_replace [of "replaceRoster rosters n1" r2 n2 p t] placed_replace [OF teams, of r1 n1 p t] r2mem r1' r2' n1 n2 teams
    by simp
  have owners: "owner_map entries' p = Some t \<longleftrightarrow> placed (replaceRoster (replaceRoster rosters n1) n2) p t" for p t
  proof -
    have "placed rosters p t \<longleftrightarrow> owner_map entries p = Some t" using old by (simp add: projection_def)
    moreover have "p \<in> set (slot_entries r1) \<longleftrightarrow> owner_map entries p = Some t1" "p \<in> set (slot_entries r2) \<longleftrightarrow> owner_map entries p = Some t2"
      using board_owner [OF b, of r1 p] board_owner [OF b, of r2 p] r1' r2' by auto
    ultimately show ?thesis using o1 o2 ne by (auto simp: own pl se)
  qed
  have "projection entries' (replaceRoster (replaceRoster rosters n1) n2)"
    using known owners old n1 n2 by (auto simp: projection_def set2)
  with b base n1 n2 show "board entries' (replaceRoster (replaceRoster rosters n1) n2)"
    by (auto simp: board_def set2 entries'_def)
  show "same_players entries rosters entries' (replaceRoster (replaceRoster rosters n1) n2)"
    using base by (simp add: same_players_def entries'_def)
qed

text \<open>A waiver award first releases the conditional drop, then lets the claimed entry join.\<close>

lemma vacated_entries:
  "List.map_filter rs_playerEntryId (map (\<lambda>s. if rs_playerEntryId s \<noteq> Some p then s else s\<lparr>rs_playerEntryId := None\<rparr>) ss) =
     filter (\<lambda>q. q \<noteq> p) (List.map_filter rs_playerEntryId ss)"
  by (induction ss) (auto split: option.splits)

lemma slotsWithoutPlayer_distinct:
  assumes "slotsWithoutPlayer ss p = Inr ss'" and "distinct (List.map_filter rs_playerEntryId ss)"
  shows "distinct (List.map_filter rs_playerEntryId ss')"
proof -
  have "ss' = map (\<lambda>s. if rs_playerEntryId s \<noteq> Some p then s else s\<lparr>rs_playerEntryId := None\<rparr>) ss"
    using assms(1) by (auto simp: slotsWithoutPlayer_def result_simps)
  with assms(2) show ?thesis by (simp only: vacated_entries distinct_filter)
qed

lemma replaceRoster_twice:
  "ro_fantasyTeamId r' = ro_fantasyTeamId r \<Longrightarrow> replaceRoster (replaceRoster rosters r) r' = replaceRoster rosters r'"
  by (simp add: replaceRoster_def)

lemma rosterFor_replace:
  assumes "rosterFor rosters t = Inr r0" and "ro_fantasyTeamId r = t"
  shows "rosterFor (replaceRoster rosters r) t = Inr r"
proof -
  have "find (\<lambda>r. ro_fantasyTeamId r = t) (replaceRoster rosters r) = map_option (\<lambda>_. r) (find (\<lambda>r. ro_fantasyTeamId r = t) rosters)"
    using assms(2) by (induction rosters) (auto simp: replaceRoster_def)
  with assms show ?thesis by (simp add: rosterFor_def find_or_Inr)
qed

section \<open>The ownership ledger\<close>

text \<open>
  The specification: an entry without an owner may be taken, an owned one may be released or passed
  on by its owner.  A move that is not legal has no result.
\<close>

datatype ledger_move = Take ident ident | Release ident ident | Pass ident ident ident

fun ledger_step :: "(ident \<Rightarrow> ident option) \<Rightarrow> ledger_move \<Rightarrow> unit + (ident \<Rightarrow> ident option)" where
  "ledger_step w (Take p t) = and_then (require (w p = None) ()) (\<lambda>_. Inr (w(p \<mapsto> t)))"
| "ledger_step w (Release p t) = and_then (require (w p = Some t) ()) (\<lambda>_. Inr (w(p := None)))"
| "ledger_step w (Pass p t u) = and_then (require (w p = Some t) ()) (\<lambda>_. Inr (w(p \<mapsto> u)))"

definition ledger_run :: "(ident \<Rightarrow> ident option) \<Rightarrow> ledger_move list \<Rightarrow> unit + (ident \<Rightarrow> ident option)" where
  "ledger_run w moves = fold_res ledger_step w moves"

lemma ledger_run_Nil [simp]: "ledger_run w [] = Inr w"
  by (simp add: ledger_run_def)

lemma ledger_run_append: "ledger_run w (xs @ ys) = and_then (ledger_run w xs) (\<lambda>w'. ledger_run w' ys)"
  by (simp add: ledger_run_def fold_res_append)

definition claim_moves :: "waiver_claim \<Rightarrow> ledger_move list" where
  "claim_moves w =
     (case wc_conditionalDropPlayerEntryId w of None \<Rightarrow> [] | Some d \<Rightarrow> [Release d (wc_fantasyTeamId w)]) @
     [Take (wc_playerEntryId w) (wc_fantasyTeamId w)]"

section \<open>The waiver batch\<close>

lemma entryFor_replace:
  assumes "entryFor entries p = Inr e" and "p \<noteq> pe_id u"
  shows "entryFor (replaceEntry entries u) p = Inr e"
  using assms by (simp add: entryFor_Inr find_replace)

lemma board_award:
  assumes b: "board (wv_entries v) (wv_rosters v)" and "trim (wc_playerEntryId w) = wc_playerEntryId w"
    and a: "award_claim env c cx v w = Inr (t, entries, r)"
  shows "board entries (replaceRoster (wv_rosters v) r)"
    and "same_players (wv_entries v) (wv_rosters v) entries (replaceRoster (wv_rosters v) r)"
    and "ledger_run (owner_map (wv_entries v)) (claim_moves w) = Inr (owner_map entries)"
    and "t = wc_fantasyTeamId w" and "ro_fantasyTeamId r = t" and "ro_effectiveAt r = pw_processingAt c"
    and "\<exists>r0\<in>set (wv_rosters v). ro_fantasyTeamId r0 = t \<and> (time_less (ro_effectiveAt r0) (pw_processingAt c) \<or>
           date_parse (ro_effectiveAt r0) = None \<or> date_parse (pw_processingAt c) = None)"
proof -
  let ?p = "wc_playerEntryId w" and ?at = "pw_processingAt c" and ?E = "wv_entries v" and ?R = "wv_rosters v"
  from a obtain team target previous kept vacated slots where team: "teamFor (cx_teams cx) (wc_fantasyTeamId w) = Inr team"
    and target: "entryFor ?E ?p = Inr target" "\<not> owned_entry target" and prev: "rosterFor ?R (ft_id team) = Inr previous"
    and drp: "release_drop ?E team previous ?at (wc_conditionalDropPlayerEntryId w) = Inr (kept, vacated)"
    and slots: "slotsWithAssignment vacated (wc_targetSlotId w) ?p = Inr slots"
    and entries: "entries = replaceEntry kept (ownership target ROSTERED (Some t) ?at)" and t: "t = ft_id team"
    and r: "successorRoster env (wc_rosterSnapshotId w) ?at cx team entries previous slots (cb_authority c) = Inr r"
    by (fastforce simp: award_claim_def Let_def result_simps dest: entryForD)
  note succ = successorRoster_Inr [OF r]
  show tw: "t = wc_fantasyTeamId w" using t teamForD [OF team] by simp
  show rt: "ro_fantasyTeamId r = t" "ro_effectiveAt r = ?at" using succ t by simp_all
  show "\<exists>r0\<in>set ?R. ro_fantasyTeamId r0 = t \<and> (time_less (ro_effectiveAt r0) ?at \<or>
           date_parse (ro_effectiveAt r0) = None \<or> date_parse ?at = None)"
    using rosterForD [OF prev] t succ(7) by blast
  have "board entries (replaceRoster ?R r) \<and> same_players ?E ?R entries (replaceRoster ?R r) \<and>
    ledger_run (owner_map ?E) (claim_moves w) = Inr (owner_map entries)"
  proof (cases "wc_conditionalDropPlayerEntryId w")
    case None
    with drp have k: "kept = ?E" "vacated = ro_slots previous" by (simp_all add: release_drop_def)
    note j = board_join [OF b target prev assms(2) slots [unfolded k] succ(1,2,3,4)]
    show ?thesis
      using j by (simp add: entries k claim_moves_def None ledger_run_def tw [symmetric] t)
  next
    case (Some d)
    with drp obtain dropped where d: "entryFor ?E d = Inr dropped" "slotsWithoutPlayer (ro_slots previous) d = Inr vacated"
      and kept: "kept = replaceEntry ?E (ownership dropped RELEASED None ?at)"
      by (auto simp: release_drop_def result_simps dest: entryForD)
    let ?r = "previous\<lparr>ro_slots := vacated\<rparr>"
    note previous = rosterForD [OF prev]
    have tr: "slots_trimmed (ro_slots previous)" "distinct (slot_entries previous)"
      using b previous by (auto simp: board_def projection_def)
    have v: "slots_trimmed vacated" "distinct (slot_entries ?r)"
      using slotsWithoutPlayer_Inr [OF d(2)] slotsWithoutPlayer_distinct [OF d(2)] tr by (auto simp: slot_entries_def)
    have ms: "ro_slots ?r = map trim_slot vacated" "ro_fantasyTeamId ?r = ft_id team" "slots_trimmed (ro_slots ?r)"
      using v previous by (simp_all add: slots_trimmed_def)
    note leave = b d(1) prev d(2) ms(1,2) v(2) ms(3)
    have l: "board kept (replaceRoster ?R ?r)" "same_players ?E ?R kept (replaceRoster ?R ?r)"
      "owner_map ?E d = Some (ft_id team)" "owner_map kept = (owner_map ?E)(d := None)"
      unfolding kept by (rule board_leave [OF leave])+
    have ne: "?p \<noteq> d"
      using board_unowned [OF b _ target(2)] entryForD [OF target(1)] l(3) by auto
    then have t2: "entryFor kept ?p = Inr target"
      unfolding kept by (intro entryFor_replace [OF target(1)]) (use entryForD [OF d(1)] in simp)
    have p2: "rosterFor (replaceRoster ?R ?r) (ft_id team) = Inr ?r" by (rule rosterFor_replace [OF prev ms(2)])
    have s2: "slotsWithAssignment (ro_slots ?r) (wc_targetSlotId w) ?p = Inr slots" using slots by simp
    note j = board_join [OF l(1) t2 target(2) p2 assms(2) s2 succ(1,2,3,4)]
    have tw2: "replaceRoster (replaceRoster ?R ?r) r = replaceRoster ?R r"
      by (rule replaceRoster_twice) (use rt previous t in simp)
    show ?thesis
      using l(2-4) j same_players_trans [OF l(2) j(2)]
      by (simp add: entries t tw2 claim_moves_def Some ledger_run_def tw [symmetric])
  qed
  then show "board entries (replaceRoster ?R r)" "same_players ?E ?R entries (replaceRoster ?R r)"
    "ledger_run (owner_map ?E) (claim_moves w) = Inr (owner_map entries)" by auto
qed

definition awarded :: "(ident \<Rightarrow> waiver_claim option) \<Rightarrow> waiver_claim \<Rightarrow> bool" where
  "awarded res w = (case res (wc_id w) of None \<Rightarrow> False | Some x \<Rightarrow> wc_status x = CLAIM_APPLIED)"

text \<open>How a batch settles a claim: applied, or rejected with a reason; nothing else of it changes.\<close>

definition settles :: "string \<Rightarrow> waiver_claim \<Rightarrow> waiver_claim \<Rightarrow> bool" where
  "settles at_time w x \<longleftrightarrow>
     x = w\<lparr>wc_status := CLAIM_APPLIED, wc_resolvedAt := Some at_time, wc_resultCode := None\<rparr> \<or>
     (\<exists>code. x = w\<lparr>wc_status := CLAIM_REJECTED, wc_resolvedAt := Some at_time, wc_resultCode := Some code\<rparr>)"

definition rotate_priority :: "ident list \<Rightarrow> ident \<Rightarrow> ident list" where
  "rotate_priority ps t = filter (\<lambda>u. u \<noteq> t) ps @ [t]"

definition loop_inv :: "tx_state \<Rightarrow> process_waivers_command \<Rightarrow> waiver_claim list \<Rightarrow> waiver_loop \<Rightarrow> bool" where
  "loop_inv st c ws v \<longleftrightarrow> board (wv_entries v) (wv_rosters v) \<and>
     same_players (ts_playerEntries st) (ts_currentRosters st) (wv_entries v) (wv_rosters v) \<and>
     ledger_run (owner_map (ts_playerEntries st)) (concat (map claim_moves (filter (awarded (wv_resolved v)) ws)))
       = Inr (owner_map (wv_entries v)) \<and>
     wv_priority v = foldl rotate_priority (ts_waiverPriority st) (map wc_fantasyTeamId (filter (awarded (wv_resolved v)) ws)) \<and>
     (\<forall>i. wv_resolved v i = None \<longleftrightarrow> i \<notin> wc_id ` set ws) \<and>
     (\<forall>w\<in>set ws. \<exists>x. wv_resolved v (wc_id w) = Some x \<and> settles (pw_processingAt c) w x) \<and>
     map ta_operationId (wv_audits v) = map (\<lambda>w. cb_operationId c @ '':'' @ wc_id w) ws \<and>
     (\<forall>w\<in>set ws. awarded (wv_resolved v) w \<longrightarrow> wc_fantasyTeamId w \<in> ro_fantasyTeamId ` set (wv_rosters v) \<and>
        (\<forall>r\<in>set (wv_rosters v). ro_fantasyTeamId r = wc_fantasyTeamId w \<longrightarrow> ro_effectiveAt r = pw_processingAt c)) \<and>
     (date_parse (pw_processingAt c) \<noteq> None \<longrightarrow>
        distinct (map wc_fantasyTeamId (filter (awarded (wv_resolved v)) ws)))"

lemma awarded_update_other: "wc_id w \<noteq> i \<Longrightarrow> awarded (res(i := x)) w = awarded res w"
  by (simp add: awarded_def)

lemma filter_awarded_update:
  "i \<notin> wc_id ` set ws \<Longrightarrow> filter (awarded (res(i := x))) ws = filter (awarded res) ws"
  by (rule filter_cong) (auto simp: awarded_def)

lemma loop_inv_step:
  assumes inv: "loop_inv st c ws v" and fresh: "wc_id w \<notin> wc_id ` set ws" and "trim (wc_playerEntryId w) = wc_playerEntryId w"
  shows "loop_inv st c (ws @ [w]) (process_claim env st c cx v w)"
proof (cases "award_claim env c cx v w")
  case (Inl e)
  have flt: "filter (awarded ((wv_resolved v)(wc_id w \<mapsto> x))) (ws @ [w]) = filter (awarded (wv_resolved v)) ws"
    if "wc_status x = CLAIM_REJECTED" for x
    using that by (simp add: filter_awarded_update [OF fresh]) (simp add: awarded_def)
  have other: "awarded ((wv_resolved v)(wc_id w \<mapsto> x)) u = awarded (wv_resolved v) u" if "u \<in> set ws" for u x
    by (rule awarded_update_other) (metis that fresh image_eqI)
  show ?thesis
    using inv fresh
    by (auto simp: loop_inv_def process_claim_def Inl flt other settles_def waiverResolutionAudit_def image_iff
        simp del: filter_append) (auto simp: awarded_def)
next
  case (Inr z)
  obtain t entries r where z: "z = (t, entries, r)" by (cases z)
  have b: "board (wv_entries v) (wv_rosters v)" using inv by (simp add: loop_inv_def)
  note aw = board_award [OF b assms(3) Inr [unfolded z]]
  let ?x = "w\<lparr>wc_status := CLAIM_APPLIED, wc_resolvedAt := Some (pw_processingAt c), wc_resultCode := None\<rparr>"
  let ?v = "process_claim env st c cx v w"
  have v: "wv_entries ?v = entries" "wv_rosters ?v = replaceRoster (wv_rosters v) r"
    "wv_priority ?v = rotate_priority (wv_priority v) t" "wv_resolved ?v = (wv_resolved v)(wc_id w \<mapsto> ?x)"
    "wv_audits ?v = wv_audits v @ [waiverResolutionAudit env st c w APPLIED None]"
    by (simp_all add: process_claim_def Inr z rotate_priority_def)
  have flt: "filter (awarded (wv_resolved ?v)) (ws @ [w]) = filter (awarded (wv_resolved v)) ws @ [w]"
    by (simp add: v filter_awarded_update [OF fresh]) (simp add: awarded_def)
  have other: "awarded (wv_resolved ?v) u = awarded (wv_resolved v) u" if "u \<in> set ws" for u
    unfolding v by (rule awarded_update_other) (metis that fresh image_eqI)
  obtain r0 where r0: "r0 \<in> set (wv_rosters v)" "ro_fantasyTeamId r0 = t"
    and late: "time_less (ro_effectiveAt r0) (pw_processingAt c) \<or> date_parse (ro_effectiveAt r0) = None \<or> date_parse (pw_processingAt c) = None"
    using aw(7) by blast
  have new: "t \<notin> wc_fantasyTeamId ` set (filter (awarded (wv_resolved v)) ws)" if "date_parse (pw_processingAt c) \<noteq> None"
    using inv r0 late that by (auto simp: loop_inv_def)
  have rset: "set (wv_rosters ?v) = insert r (set (wv_rosters v) - {r0})"
    unfolding v by (rule set_replaceRoster) (use b r0 aw(5) in \<open>simp_all add: board_def\<close>)
  have once: "x = r0" if "x \<in> set (wv_rosters v)" "ro_fantasyTeamId x = t" for x
    using b distinct_key_eqD [of ro_fantasyTeamId "wv_rosters v" x r0] that r0 by (simp add: board_def)
  have teams: "ro_fantasyTeamId ` set (wv_rosters ?v) = ro_fantasyTeamId ` set (wv_rosters v)"
    unfolding v by (metis list.set_map map_team_replace)
  have eff: "\<forall>u\<in>set (ws @ [w]). awarded (wv_resolved ?v) u \<longrightarrow> wc_fantasyTeamId u \<in> ro_fantasyTeamId ` set (wv_rosters ?v) \<and>
        (\<forall>r\<in>set (wv_rosters ?v). ro_fantasyTeamId r = wc_fantasyTeamId u \<longrightarrow> ro_effectiveAt r = pw_processingAt c)"
  proof (intro ballI impI conjI)
    fix u assume u: "u \<in> set (ws @ [w])" "awarded (wv_resolved ?v) u"
    show "wc_fantasyTeamId u \<in> ro_fantasyTeamId ` set (wv_rosters ?v)"
      unfolding teams using u inv other aw(4) r0 image_eqI [of "wc_fantasyTeamId w" ro_fantasyTeamId r0]
      by (auto simp: loop_inv_def)
    fix q assume q: "q \<in> set (wv_rosters ?v)" "ro_fantasyTeamId q = wc_fantasyTeamId u"
    show "ro_effectiveAt q = pw_processingAt c"
    proof (cases "q = r")
      case True
      then show ?thesis using aw(6) by simp
    next
      case False
      with q rset have q': "q \<in> set (wv_rosters v)" "q \<noteq> r0" by auto
      with once [of q] q(2) aw(4) u(1) have "u \<in> set ws" by auto
      with other u(2) inv q' q(2) show ?thesis unfolding loop_inv_def by metis
    qed
  qed
  have settled: "\<forall>u\<in>set (ws @ [w]). \<exists>x. wv_resolved ?v (wc_id u) = Some x \<and> settles (pw_processingAt c) u x"
  proof
    fix u assume u: "u \<in> set (ws @ [w])"
    show "\<exists>x. wv_resolved ?v (wc_id u) = Some x \<and> settles (pw_processingAt c) u x"
    proof (cases "u = w")
      case False
      with u have "u \<in> set ws" by simp
      moreover from this have "wc_id u \<noteq> wc_id w" by (metis fresh image_eqI)
      ultimately show ?thesis using inv by (simp add: loop_inv_def v)
    qed (simp add: v settles_def)
  qed
  have "ledger_run (owner_map (ts_playerEntries st)) (concat (map claim_moves (filter (awarded (wv_resolved ?v)) (ws @ [w]))))
       = Inr (owner_map (wv_entries ?v))"
    using inv aw(3) by (simp only: flt) (simp add: loop_inv_def ledger_run_append v)
  moreover have "wv_priority ?v = foldl rotate_priority (ts_waiverPriority st)
      (map wc_fantasyTeamId (filter (awarded (wv_resolved ?v)) (ws @ [w])))"
    using inv aw(4) by (simp only: flt) (simp add: loop_inv_def v)
  moreover have "distinct (map wc_fantasyTeamId (filter (awarded (wv_resolved ?v)) (ws @ [w])))"
    if "date_parse (pw_processingAt c) \<noteq> None"
    using inv aw(4) new [OF that] that by (simp only: flt) (auto simp: loop_inv_def)
  moreover have "same_players (ts_playerEntries st) (ts_currentRosters st) (wv_entries ?v) (wv_rosters ?v)"
    using inv aw(2) same_players_trans unfolding loop_inv_def v by blast
  moreover have "map ta_operationId (wv_audits ?v) = map (\<lambda>w. cb_operationId c @ '':'' @ wc_id w) (ws @ [w])"
    using inv by (simp add: loop_inv_def v waiverResolutionAudit_def)
  moreover have "\<forall>i. wv_resolved ?v i = None \<longleftrightarrow> i \<notin> wc_id ` set (ws @ [w])"
    using inv by (auto simp: loop_inv_def v)
  ultimately show ?thesis
    using aw(1) eff settled unfolding loop_inv_def v by blast
qed

section \<open>Every command moves the ledger\<close>

definition claim_applied :: "waiver_claim list \<Rightarrow> waiver_claim \<Rightarrow> bool" where
  "claim_applied ws w = list_ex (\<lambda>x. wc_id x = wc_id w \<and> wc_status x = CLAIM_APPLIED) ws"

text \<open>The moves of a command; a batch moves for the claims that are applied after it.\<close>

fun command_moves :: "tx_state \<Rightarrow> waiver_claim list \<Rightarrow> tx_command \<Rightarrow> ledger_move list" where
  "command_moves st ws (ADD_PLAYER c) = [Take (ap_playerEntryId c) (ap_fantasyTeamId c)]"
| "command_moves st ws (DROP_PLAYER c) = [Release (dp_playerEntryId c) (dp_fantasyTeamId c)]"
| "command_moves st ws (TRADE c) = [Pass (td_firstPlayerEntryId c) (td_firstTeamId c) (td_secondTeamId c),
     Pass (td_secondPlayerEntryId c) (td_secondTeamId c) (td_firstTeamId c)]"
| "command_moves st ws (PROCESS_WAIVERS c) = concat (map claim_moves (filter (claim_applied ws) (due_claims st c)))"
| "command_moves st ws _ = []"

fun ids_trimmed :: "tx_command \<Rightarrow> bool" where
  "ids_trimmed (ADD_PLAYER c) = (trim (ap_playerEntryId c) = ap_playerEntryId c)"
| "ids_trimmed (TRADE c) = (trim (td_firstPlayerEntryId c) = td_firstPlayerEntryId c \<and>
     trim (td_secondPlayerEntryId c) = td_secondPlayerEntryId c)"
| "ids_trimmed (SUBMIT_WAIVER_CLAIM c) = (trim (sw_playerEntryId c) = sw_playerEntryId c)"
| "ids_trimmed _ = True"

lemma parseCommand_Inr: "parseCommand env raw = Inr c \<Longrightarrow> ids_trimmed c \<and> command_ok (te_domain env) c"
  by (cases raw; cases "the raw") (auto simp: parseCommand_def result_simps)

definition tx_claims_ok :: "waiver_claim list \<Rightarrow> bool" where
  "tx_claims_ok ws \<longleftrightarrow> distinct (map wc_id ws) \<and> (\<forall>w\<in>set ws. trim (wc_playerEntryId w) = wc_playerEntryId w)"

definition priority_covers :: "ident list \<Rightarrow> roster_snapshot list \<Rightarrow> bool" where
  "priority_covers ps rosters \<longleftrightarrow> distinct ps \<and> set ps = ro_fantasyTeamId ` set rosters"

lemma same_players_teams: "same_players es rs es' rs' \<Longrightarrow> ro_fantasyTeamId ` set rs' = ro_fantasyTeamId ` set rs"
  unfolding same_players_def by (metis list.set_map)

text \<open>What a mutation leaves, apart from the agreement that a change of lineup may break.\<close>

definition claims_after :: "tx_state \<Rightarrow> mutation \<Rightarrow> waiver_claim list" where
  "claims_after st m = (case mu_claims m of None \<Rightarrow> ts_waiverClaims st | Some ws \<Rightarrow> ws)"

definition priority_after :: "tx_state \<Rightarrow> mutation \<Rightarrow> ident list" where
  "priority_after st m = (case mu_priority m of None \<Rightarrow> ts_waiverPriority st | Some ps \<Rightarrow> ps)"

definition mutation_ok :: "tx_state \<Rightarrow> tx_command \<Rightarrow> mutation \<Rightarrow> bool" where
  "mutation_ok st c m \<longleftrightarrow> (action_of c \<noteq> ACT_LINEUP_CHANGE \<longrightarrow> board (mu_entries m) (mu_rosters m)) \<and>
     (\<forall>r\<in>set (mu_rosters m). slots_trimmed (ro_slots r)) \<and>
     same_players (ts_playerEntries st) (ts_currentRosters st) (mu_entries m) (mu_rosters m) \<and>
     ledger_run (owner_map (ts_playerEntries st)) (command_moves st (claims_after st m) c) = Inr (owner_map (mu_entries m)) \<and>
     tx_claims_ok (claims_after st m) \<and> priority_covers (priority_after st m) (mu_rosters m) \<and> mu_status m \<noteq> DENIED \<and>
     (\<forall>as a. mu_additionalAudits m = Some as \<longrightarrow> a \<in> set as \<longrightarrow> CHR '':'' \<in> set (ta_operationId a))"

definition tx_ready :: "tx_state \<Rightarrow> bool" where
  "tx_ready st \<longleftrightarrow> board (ts_playerEntries st) (ts_currentRosters st) \<and> tx_claims_ok (ts_waiverClaims st) \<and>
     priority_covers (ts_waiverPriority st) (ts_currentRosters st)"

lemma priority_covers_same:
  "priority_covers ps rs \<Longrightarrow> same_players es rs es' rs' \<Longrightarrow> priority_covers ps rs'"
  by (simp add: priority_covers_def same_players_teams)

lemma board_trimmed: "board es rs \<Longrightarrow> \<forall>r\<in>set rs. slots_trimmed (ro_slots r)"
  by (simp add: board_def)

lemma mutation_okI:
  assumes "tx_ready st" and "board es rs" and "same_players (ts_playerEntries st) (ts_currentRosters st) es rs"
    and "mu_entries m = es" "mu_rosters m = rs" "mu_claims m = None" "mu_priority m = None" "mu_additionalAudits m = None"
    and "mu_status m \<noteq> DENIED"
    and "ledger_run (owner_map (ts_playerEntries st)) (command_moves st (ts_waiverClaims st) c) = Inr (owner_map es)"
  shows "mutation_ok st c m"
  using assms priority_covers_same [of _ "ts_currentRosters st" _ es rs] board_trimmed
  by (auto simp: mutation_ok_def tx_ready_def claims_after_def priority_after_def)

lemma addPlayer_ok:
  assumes ready: "tx_ready st" and "ids_trimmed (ADD_PLAYER c)" and m: "addPlayer env st c cx = Inr m"
  shows "mutation_ok st (ADD_PLAYER c) m"
proof -
  from m obtain team entry previous slots roster where team: "teamFor (cx_teams cx) (ap_fantasyTeamId c) = Inr team"
    and entry: "entryFor (ts_playerEntries st) (ap_playerEntryId c) = Inr entry" "\<not> owned_entry entry"
    and prev: "rosterFor (ts_currentRosters st) (ft_id team) = Inr previous"
    and slots: "slotsWithAssignment (ro_slots previous) (ap_targetSlotId c) (pe_id entry) = Inr slots"
    and r: "successorRoster env (ap_rosterSnapshotId c) (cb_submittedAt c) cx team
       (replaceEntry (ts_playerEntries st) (ownership entry ROSTERED (Some (ft_id team)) (cb_submittedAt c))) previous slots (cb_authority c) = Inr roster"
    and meq: "mu_entries m = replaceEntry (ts_playerEntries st) (ownership entry ROSTERED (Some (ft_id team)) (cb_submittedAt c))"
      "mu_rosters m = replaceRoster (ts_currentRosters st) roster" "mu_claims m = None" "mu_priority m = None"
      "mu_additionalAudits m = None" "mu_status m = APPLIED"
    by (auto simp: addPlayer_def Let_def result_simps)
  have b: "board (ts_playerEntries st) (ts_currentRosters st)" using ready by (simp add: tx_ready_def)
  have "trim (ap_playerEntryId c) = ap_playerEntryId c" "pe_id entry = ap_playerEntryId c"
    using assms(2) entryForD [OF entry(1)] by simp_all
  note j = board_join [OF b entry prev this(1) slots [unfolded this(2)] successorRoster_Inr(1-4) [OF r]]
  show ?thesis
    by (rule mutation_okI [OF ready j(1,2) meq(1,2,3,4,5)]) (use j(3,4) teamForD [OF team] in \<open>simp_all add: meq ledger_run_def\<close>)
qed

lemma dropPlayer_ok:
  assumes ready: "tx_ready st" and m: "dropPlayer env st c cx = Inr m"
  shows "mutation_ok st (DROP_PLAYER c) m"
proof -
  from m obtain team entry previous slots roster where team: "teamFor (cx_teams cx) (dp_fantasyTeamId c) = Inr team"
    and entry: "entryFor (ts_playerEntries st) (dp_playerEntryId c) = Inr entry"
    and prev: "rosterFor (ts_currentRosters st) (ft_id team) = Inr previous"
    and slots: "slotsWithoutPlayer (ro_slots previous) (pe_id entry) = Inr slots"
    and r: "successorRoster env (dp_rosterSnapshotId c) (cb_submittedAt c) cx team
       (replaceEntry (ts_playerEntries st) (ownership entry RELEASED None (cb_submittedAt c))) previous slots (cb_authority c) = Inr roster"
    and meq: "mu_entries m = replaceEntry (ts_playerEntries st) (ownership entry RELEASED None (cb_submittedAt c))"
      "mu_rosters m = replaceRoster (ts_currentRosters st) roster" "mu_claims m = None" "mu_priority m = None"
      "mu_additionalAudits m = None" "mu_status m = APPLIED"
    by (auto simp: dropPlayer_def Let_def result_simps)
  have b: "board (ts_playerEntries st) (ts_currentRosters st)" using ready by (simp add: tx_ready_def)
  have id: "pe_id entry = dp_playerEntryId c" using entryForD [OF entry] by simp
  note l = board_leave [OF b entry prev slots [unfolded id] successorRoster_Inr(1-4) [OF r]]
  show ?thesis
    by (rule mutation_okI [OF ready l(1,2) meq(1,2,3,4,5)]) (use l(3,4) teamForD [OF team] in \<open>simp_all add: meq ledger_run_def\<close>)
qed

lemma tradePlayers_ok:
  assumes ready: "tx_ready st" and trimmed: "ids_trimmed (TRADE c)" and m: "tradePlayers env st c cx = Inr m"
  shows "mutation_ok st (TRADE c) m"
proof -
  let ?at = "td_processingAt c"
  from m obtain team1 team2 e1 e2 r1 r2 v1 v2 ss1 ss2 n1 n2 where team: "teamFor (cx_teams cx) (td_firstTeamId c) = Inr team1"
      "teamFor (cx_teams cx) (td_secondTeamId c) = Inr team2" and ne: "ft_id team1 \<noteq> ft_id team2" "pe_id e1 \<noteq> pe_id e2"
    and e: "entryFor (ts_playerEntries st) (td_firstPlayerEntryId c) = Inr e1"
      "entryFor (ts_playerEntries st) (td_secondPlayerEntryId c) = Inr e2"
    and r: "rosterFor (ts_currentRosters st) (ft_id team1) = Inr r1" "rosterFor (ts_currentRosters st) (ft_id team2) = Inr r2"
    and s: "slotsWithoutPlayer (ro_slots r1) (pe_id e1) = Inr v1" "slotsWithAssignment v1 (td_firstTargetSlotId c) (pe_id e2) = Inr ss1"
      "slotsWithoutPlayer (ro_slots r2) (pe_id e2) = Inr v2" "slotsWithAssignment v2 (td_secondTargetSlotId c) (pe_id e1) = Inr ss2"
    and n: "successorRoster env (td_firstRosterSnapshotId c) ?at cx team1 (mu_entries m) r1 ss1 (cb_authority c) = Inr n1"
      "successorRoster env (td_secondRosterSnapshotId c) ?at cx team2 (mu_entries m) r2 ss2 (cb_authority c) = Inr n2"
    and meq: "mu_entries m = replaceEntry (replaceEntry (ts_playerEntries st) (ownership e1 ROSTERED (Some (ft_id team2)) ?at))
        (ownership e2 ROSTERED (Some (ft_id team1)) ?at)"
      "mu_rosters m = replaceRoster (replaceRoster (ts_currentRosters st) n1) n2" "mu_claims m = None" "mu_priority m = None"
      "mu_additionalAudits m = None" "mu_status m = APPLIED"
    by (auto simp: tradePlayers_def acceptedTrade_def Let_def result_simps)
  have b: "board (ts_playerEntries st) (ts_currentRosters st)" using ready by (simp add: tx_ready_def)
  have id: "pe_id e1 = td_firstPlayerEntryId c" "pe_id e2 = td_secondPlayerEntryId c" using entryForD e by blast+
  note t = board_trade [OF b e r ne(2) [unfolded id] ne(1) _ _ s(1,2) [unfolded id] s(3,4) [unfolded id]
      successorRoster_Inr(1-4) [OF n(1)] successorRoster_Inr(1-4) [OF n(2)]]
  have tr: "trim (td_firstPlayerEntryId c) = td_firstPlayerEntryId c" "trim (td_secondPlayerEntryId c) = td_secondPlayerEntryId c"
    using trimmed by simp_all
  show ?thesis
    by (rule mutation_okI [OF ready t(1,2) [OF tr] meq(1,2,3,4,5)])
      (use t(3-5) [OF tr] teamForD [OF team(1)] teamForD [OF team(2)] ne id in \<open>simp_all add: meq ledger_run_def\<close>)
qed

lemma changeLineup_ok:
  assumes ready: "tx_ready st" and m: "changeLineup env st c cx = Inr m"
  shows "mutation_ok st (LINEUP_CHANGE c) m"
proof -
  from m obtain team previous roster where prev: "rosterFor (ts_currentRosters st) (ft_id team) = Inr previous"
    and r: "successorRoster env (lc_rosterSnapshotId c) (cb_submittedAt c) cx team (ts_playerEntries st) previous
       (lc_slots c) (cb_authority c) = Inr roster"
    and meq: "mu_entries m = ts_playerEntries st" "mu_rosters m = replaceRoster (ts_currentRosters st) roster"
      "mu_claims m = None" "mu_priority m = None" "mu_additionalAudits m = None" "mu_status m = APPLIED"
    by (auto simp: changeLineup_def result_simps)
  have same: "same_players (ts_playerEntries st) (ts_currentRosters st) (mu_entries m) (mu_rosters m)"
    by (simp add: meq same_players_def)
  have "\<forall>r\<in>set (mu_rosters m). slots_trimmed (ro_slots r)"
    using ready successorRoster_Inr(4) [OF r] by (auto simp: meq replaceRoster_def tx_ready_def board_def)
  with ready priority_covers_same [OF _ same] show ?thesis
    by (auto simp: mutation_ok_def tx_ready_def claims_after_def priority_after_def meq same_players_def)
qed

lemma submitWaiver_ok:
  assumes ready: "tx_ready st" and "ids_trimmed (SUBMIT_WAIVER_CLAIM c)" and m: "submitWaiver env st c teams = Inr m"
  shows "mutation_ok st (SUBMIT_WAIVER_CLAIM c) m"
proof -
  obtain team where meq: "mu_entries m = ts_playerEntries st" "mu_rosters m = ts_currentRosters st"
      "mu_claims m = Some (ts_waiverClaims st @ [submitted_claim st c team])"
      "mu_priority m = None" "mu_additionalAudits m = None" "mu_status m = QUEUED"
    and fresh: "\<not> list_ex (\<lambda>w. wc_id w = sw_claimId c) (ts_waiverClaims st)"
    using m by (auto simp: submitWaiver_def result_simps)
  from fresh have "sw_claimId c \<notin> wc_id ` set (ts_waiverClaims st)" by (auto simp: list_ex_iff)
  then have "tx_claims_ok (claims_after st m)"
    using ready assms(2) by (auto simp: claims_after_def meq tx_ready_def tx_claims_ok_def submitted_claim_def)
  then show ?thesis
    using ready board_trimmed [of "ts_playerEntries st" "ts_currentRosters st"]
    by (simp add: mutation_ok_def priority_after_def meq tx_ready_def)
qed

lemma tx_claims_ok_map:
  assumes "tx_claims_ok ws" and "\<And>w. w \<in> set ws \<Longrightarrow> wc_id (f w) = wc_id w \<and> wc_playerEntryId (f w) = wc_playerEntryId w"
  shows "tx_claims_ok (map f ws)"
proof -
  have "map wc_id (map f ws) = map wc_id ws" using assms(2) by simp
  moreover have "\<forall>w\<in>set (map f ws). trim (wc_playerEntryId w) = wc_playerEntryId w"
    using assms by (simp add: tx_claims_ok_def)
  ultimately show ?thesis using assms(1) unfolding tx_claims_ok_def by (simp only:)
qed

lemma cancelWaiver_ok:
  assumes ready: "tx_ready st" and m: "cancelWaiver env st c teams = Inr m"
  shows "mutation_ok st (CANCEL_WAIVER_CLAIM c) m"
proof -
  obtain claim where f: "find (\<lambda>w. wc_id w = cw_claimId c) (ts_waiverClaims st) = Some claim"
    using m by (cases "find (\<lambda>w. wc_id w = cw_claimId c) (ts_waiverClaims st)") (simp_all add: cancelWaiver_def)
  have meq: "mu_entries m = ts_playerEntries st" "mu_rosters m = ts_currentRosters st"
      "mu_claims m = Some (map (\<lambda>w. if wc_id w = wc_id claim
                    then w\<lparr>wc_status := CLAIM_CANCELLED, wc_resolvedAt := Some (cb_submittedAt c)\<rparr> else w) (ts_waiverClaims st))"
      "mu_priority m = None" "mu_additionalAudits m = None" "mu_status m = CANCELLED"
    using m unfolding cancelWaiver_def f by (auto simp: result_simps)
  have "tx_claims_ok (claims_after st m)"
    using ready by (simp add: claims_after_def meq tx_ready_def tx_claims_ok_map)
  then show ?thesis
    using ready board_trimmed [of "ts_playerEntries st" "ts_currentRosters st"]
    by (simp add: mutation_ok_def priority_after_def meq tx_ready_def)
qed

section \<open>Processing a waiver batch\<close>

lemma loop_inv_start:
  "tx_ready st \<Longrightarrow> loop_inv st c [] (start_loop st)"
  by (simp add: loop_inv_def start_loop_def tx_ready_def)

lemma loop_inv_foldl:
  assumes "loop_inv st c ws v" and "distinct (map wc_id (ws @ due))"
    and "\<forall>w\<in>set due. trim (wc_playerEntryId w) = wc_playerEntryId w"
  shows "loop_inv st c (ws @ due) (foldl (process_claim env st c cx) v due)"
  using assms
proof (induction due arbitrary: ws v)
  case (Cons w due)
  have "loop_inv st c (ws @ [w]) (process_claim env st c cx v w)"
    by (rule loop_inv_step [OF Cons.prems(1)]) (use Cons.prems in auto)
  from Cons.IH [OF this] Cons.prems show ?case by auto
qed simp

lemma set_due_claims [simp]:
  "set (due_claims st c) = {w \<in> set (ts_waiverClaims st). due_at (pw_processingAt c) w}"
  by (auto simp: due_claims_def waiverClaimOrder_def)

lemma distinct_due: "distinct (map wc_id (ts_waiverClaims st)) \<Longrightarrow> distinct (map wc_id (due_claims st c))"
proof -
  assume d: "distinct (map wc_id (ts_waiverClaims st))"
  have "mset (due_claims st c) = mset (filter (due_at (pw_processingAt c)) (ts_waiverClaims st))"
    by (simp add: due_claims_def waiverClaimOrder_def)
  then have "mset (map wc_id (due_claims st c)) = mset (map wc_id (filter (due_at (pw_processingAt c)) (ts_waiverClaims st)))"
    by (simp only: mset_map)
  moreover have "distinct (map wc_id (filter (due_at (pw_processingAt c)) (ts_waiverClaims st)))"
    using d by (simp add: distinct_map_filter)
  ultimately show ?thesis using mset_eq_imp_distinct_iff by blast
qed

lemma rotate_priority_covers:
  "priority_covers ps rosters \<Longrightarrow> t \<in> ro_fantasyTeamId ` set rosters \<Longrightarrow> priority_covers (rotate_priority ps t) rosters"
  by (auto simp: priority_covers_def rotate_priority_def)

lemma foldl_rotate_covers:
  "priority_covers ps rosters \<Longrightarrow> \<forall>t\<in>set ts. t \<in> ro_fantasyTeamId ` set rosters \<Longrightarrow> priority_covers (foldl rotate_priority ps ts) rosters"
  by (induction ts arbitrary: ps) (auto intro: rotate_priority_covers)

text \<open>A claim after the batch.\<close>

definition settled :: "waiver_loop \<Rightarrow> waiver_claim \<Rightarrow> waiver_claim" where
  "settled v w = (case wv_resolved v (wc_id w) of None \<Rightarrow> w | Some r \<Rightarrow> r)"

lemma settles_same: "settles a w x \<Longrightarrow> wc_id x = wc_id w \<and> wc_playerEntryId x = wc_playerEntryId w \<and> wc_status x \<noteq> CLAIM_PENDING"
  by (auto simp: settles_def)

text \<open>The loop over all due claims, from a consistent state.\<close>

lemma batch_loop_inv:
  assumes "tx_ready st"
  shows "loop_inv st c (due_claims st c) (foldl (process_claim env st c cx) (start_loop st) (due_claims st c))"
  using loop_inv_foldl [OF loop_inv_start [OF assms], where c = c and due = "due_claims st c"] assms distinct_due
  by (simp add: tx_ready_def tx_claims_ok_def)

lemma settled_claim:
  assumes ready: "tx_ready st" and inv: "loop_inv st c (due_claims st c) v" and w: "w \<in> set (ts_waiverClaims st)"
  shows "if due_at (pw_processingAt c) w then settles (pw_processingAt c) w (settled v w) else settled v w = w"
proof (cases "due_at (pw_processingAt c) w")
  case True
  then have "w \<in> set (due_claims st c)" using w by simp
  with inv obtain x where "wv_resolved v (wc_id w) = Some x" "settles (pw_processingAt c) w x"
    unfolding loop_inv_def by blast
  with True show ?thesis by (simp add: settled_def)
next
  case False
  have "distinct (map wc_id (ts_waiverClaims st))" using ready by (simp add: tx_ready_def tx_claims_ok_def)
  then have "wc_id w \<notin> wc_id ` set (due_claims st c)"
    using False w distinct_key_eqD [of wc_id "ts_waiverClaims st" w] by auto
  with inv have "wv_resolved v (wc_id w) = None" by (simp add: loop_inv_def)
  with False show ?thesis by (simp add: settled_def)
qed

lemma processWaivers_Inr:
  assumes "processWaivers env st c cx = Inr m"
  obtains v where "v = foldl (process_claim env st c cx) (start_loop st) (due_claims st c)"
    and "mu_entries m = wv_entries v" "mu_rosters m = wv_rosters v" "mu_claims m = Some (map (settled v) (ts_waiverClaims st))"
      "mu_priority m = Some (wv_priority v)" "mu_additionalAudits m = Some (wv_audits v)" "mu_status m = APPLIED"
      "mu_rosterSnapshotIds m = wv_snapshotIds v" "pw_processingAt c \<in> set (po_waiverProcessingInstants (ts_policy st))"
      "pw_processingAt c = cb_submittedAt c"
  using assms by (auto simp: processWaivers_def settled_def [abs_def] Let_def result_simps)

lemma claim_applied_settled:
  assumes ready: "tx_ready st" and inv: "loop_inv st c (due_claims st c) v" and w: "w \<in> set (due_claims st c)"
  shows "claim_applied (map (settled v) (ts_waiverClaims st)) w = awarded (wv_resolved v) w"
proof -
  have mem: "w \<in> set (ts_waiverClaims st)" using w by simp
  from inv w obtain x where x: "wv_resolved v (wc_id w) = Some x" "settles (pw_processingAt c) w x"
    unfolding loop_inv_def by blast
  have d: "distinct (map wc_id (ts_waiverClaims st))" using ready by (simp add: tx_ready_def tx_claims_ok_def)
  have same_id: "wc_id (settled v u) = wc_id u" if "u \<in> set (ts_waiverClaims st)" for u
    using settled_claim [OF ready inv that] settles_same by (auto split: if_splits)
  have "u = w" if "u \<in> set (ts_waiverClaims st)" "wc_id (settled v u) = wc_id w" for u
    using distinct_key_eqD [OF d that(1) mem] that same_id [OF that(1)] by simp
  moreover have "settled v w = x" "wc_id x = wc_id w" using x settles_same [OF x(2)] by (simp_all add: settled_def)
  ultimately show ?thesis
    using mem x by (auto simp: claim_applied_def list_ex_iff awarded_def)
qed

lemma processWaivers_ok:
  assumes ready: "tx_ready st" and m: "processWaivers env st c cx = Inr m"
  shows "mutation_ok st (PROCESS_WAIVERS c) m"
proof -
  from processWaivers_Inr [OF m] obtain v where v: "v = foldl (process_claim env st c cx) (start_loop st) (due_claims st c)"
    and meq: "mu_entries m = wv_entries v" "mu_rosters m = wv_rosters v" "mu_claims m = Some (map (settled v) (ts_waiverClaims st))"
      "mu_priority m = Some (wv_priority v)" "mu_additionalAudits m = Some (wv_audits v)" "mu_status m = APPLIED"
    by metis
  have inv: "loop_inv st c (due_claims st c) v" unfolding v by (rule batch_loop_inv [OF ready])
  have flt: "filter (claim_applied (map (settled v) (ts_waiverClaims st))) (due_claims st c) = filter (awarded (wv_resolved v)) (due_claims st c)"
    by (rule filter_cong [OF refl]) (rule claim_applied_settled [OF ready inv])
  have claims: "tx_claims_ok (claims_after st m)"
    unfolding claims_after_def meq option.case
  proof (rule tx_claims_ok_map)
    fix w assume "w \<in> set (ts_waiverClaims st)"
    from settled_claim [OF ready inv this] show "wc_id (settled v w) = wc_id w \<and> wc_playerEntryId (settled v w) = wc_playerEntryId w"
      using settles_same [of "pw_processingAt c" w "settled v w"] by (auto split: if_splits)
  qed (use ready in \<open>simp add: tx_ready_def\<close>)
  have b: "board (wv_entries v) (wv_rosters v)" and same: "same_players (ts_playerEntries st) (ts_currentRosters st) (wv_entries v) (wv_rosters v)"
    and run: "ledger_run (owner_map (ts_playerEntries st)) (concat (map claim_moves (filter (awarded (wv_resolved v)) (due_claims st c))))
       = Inr (owner_map (wv_entries v))"
    and prio: "wv_priority v = foldl rotate_priority (ts_waiverPriority st) (map wc_fantasyTeamId (filter (awarded (wv_resolved v)) (due_claims st c)))"
    and aud: "map ta_operationId (wv_audits v) = map (\<lambda>w. cb_operationId c @ '':'' @ wc_id w) (due_claims st c)"
    and teams: "\<forall>w\<in>set (due_claims st c). awarded (wv_resolved v) w \<longrightarrow> wc_fantasyTeamId w \<in> ro_fantasyTeamId ` set (wv_rosters v)"
    using inv unfolding loop_inv_def by blast+
  have "priority_covers (wv_priority v) (wv_rosters v)"
    unfolding prio
  proof (rule foldl_rotate_covers)
    show "priority_covers (ts_waiverPriority st) (wv_rosters v)"
      using ready by (intro priority_covers_same [OF _ same]) (simp add: tx_ready_def)
  qed (use teams in auto)
  moreover have "CHR '':'' \<in> set (ta_operationId a)" if "a \<in> set (wv_audits v)" for a
  proof -
    have "ta_operationId a \<in> set (map ta_operationId (wv_audits v))" using that by simp
    then show ?thesis unfolding aud by auto
  qed
  ultimately show ?thesis
    using b same run claims board_trimmed [OF b] by (simp add: mutation_ok_def priority_after_def meq flt claims_after_def)
qed

section \<open>All commands\<close>

lemma mutate_ok:
  assumes "tx_ready st" and "ids_trimmed c" and "mutate env st c cx = Inr m"
  shows "mutation_ok st c m"
  using assms
  by (cases c) (simp_all add: addPlayer_ok dropPlayer_ok tradePlayers_ok changeLineup_ok submitWaiver_ok cancelWaiver_ok processWaivers_ok)

lemma board_iff_projection:
  assumes ready: "tx_ready st" and ok: "mutation_ok st c m"
  shows "board (mu_entries m) (mu_rosters m) \<longleftrightarrow> assertOwnershipProjection (mu_entries m) (mu_rosters m) = Inr ()"
proof -
  have "distinct (map pe_id (mu_entries m))" "distinct (map pe_baseballPlayerId (mu_entries m))"
    "distinct (map ro_fantasyTeamId (mu_rosters m))"
    using assms by (simp_all add: mutation_ok_def same_players_def tx_ready_def board_def)
  with ok assertOwnershipProjection_iff show ?thesis by (auto simp: board_def mutation_ok_def)
qed

text \<open>Only a change of lineup can be stopped by the final check of the projections.\<close>

lemma final_check_redundant:
  assumes "tx_ready st" and "ids_trimmed c" and "mutate env st c cx = Inr m" and "action_of c \<noteq> ACT_LINEUP_CHANGE"
  shows "assertOwnershipProjection (mu_entries m) (mu_rosters m) = Inr ()"
  using mutate_ok [OF assms(1-3)] board_iff_projection [OF assms(1)] assms(4) by (auto simp: mutation_ok_def)

end
