(* ===== verification/Transaction_History.thy ===== *)
theory Transaction_History
  imports Transaction_Invariants
begin

text \<open>
  The history of a fantasy league: the records and audits that the commands leave, the states that
  sequences of commands reach, and what repeating a command, or denying it, does.
\<close>

section \<open>Histories\<close>

text \<open>
  Operation ids are unique among the records, every record has an audit, an audit belongs to a
  record or to the resolution of a claim (whose id holds a colon), and the revision counts the
  commands that were not denied.
\<close>

definition history_ok :: "tx_state \<Rightarrow> bool" where
  "history_ok st \<longleftrightarrow> distinct (map tr_operationId (ts_transactions st)) \<and>
     (\<forall>r\<in>set (ts_transactions st). \<exists>a\<in>set (ts_audits st). ta_operationId a = tr_operationId r) \<and>
     (\<forall>a\<in>set (ts_audits st). CHR '':'' \<in> set (ta_operationId a) \<or> ta_operationId a \<in> tr_operationId ` set (ts_transactions st)) \<and>
     ts_revision st = int (length (filter (\<lambda>r. tr_status r \<noteq> DENIED) (ts_transactions st)))"

definition tx_inv :: "tx_state \<Rightarrow> bool" where
  "tx_inv st \<longleftrightarrow> tx_ready st \<and> history_ok st"

text \<open>The four ways in which a parsed command ends.\<close>

definition known_record :: "tx_state \<Rightarrow> tx_command \<Rightarrow> tx_record option" where
  "known_record st c = find (\<lambda>r. tr_operationId r = cb_operationId (base_of c)) (ts_transactions st)"

lemma applyE [consumes 1, case_names duplicate conflict denied committed]:
  assumes "applyFantasyTransaction env st raw cx = Inr res"
  obtains c r a where "parseCommand env raw = Inr c" and "known_record st c = Some r" and "tr_requestDigest r = te_commandDigest env c"
      and "find (\<lambda>a. ta_operationId a = cb_operationId (base_of c)) (ts_audits st) = Some a"
      and "res = \<lparr>to_state = st, to_record = r, to_audit = a, to_duplicate = True\<rparr>"
  | c r where "parseCommand env raw = Inr c" and "known_record st c = Some r" and "tr_requestDigest r \<noteq> te_commandDigest env c"
      and "res = deniedOutcome st c (te_commandDigest env c) TX_IDEMPOTENCY_CONFLICT"
  | c code where "parseCommand env raw = Inr c" and "known_record st c = None"
      and "precheck env st c cx = Inl code \<or> (precheck env st c cx = Inr () \<and> (\<exists>e. checked_mutation env st c cx = Inl e \<and> code = denialCode e))"
      and "res = deniedOutcome st c (te_commandDigest env c) code"
  | c m where "parseCommand env raw = Inr c" and "known_record st c = None" and "precheck env st c cx = Inr ()"
      and "checked_mutation env st c cx = Inr m" and "res = commit_mutation st c (te_commandDigest env c) m"
proof -
  from assms obtain c where c: "parseCommand env raw = Inr c"
    and res: "(case known_record st c of
        Some existing \<Rightarrow>
          if tr_requestDigest existing \<noteq> te_commandDigest env c
          then Inr (deniedOutcome st c (te_commandDigest env c) TX_IDEMPOTENCY_CONFLICT)
          else (case find (\<lambda>a. ta_operationId a = cb_operationId (base_of c)) (ts_audits st) of
                  None \<Rightarrow> Inl (Tx TX_INVALID_INPUT)
                | Some audit \<Rightarrow> Inr \<lparr>to_state = st, to_record = existing, to_audit = audit, to_duplicate = True\<rparr>)
      | None \<Rightarrow> Inr (fresh_outcome env st c cx)) = Inr res"
    unfolding applyFantasyTransaction_def known_record_def by (auto simp: result_simps)
  show thesis
  proof (cases "known_record st c")
    case (Some r)
    with res c that(1) [of c r] that(2) [of c r] show ?thesis
      by (cases "find (\<lambda>a. ta_operationId a = cb_operationId (base_of c)) (ts_audits st)") (auto split: if_splits)
  next
    case None
    then have fresh: "res = fresh_outcome env st c cx" using res by simp
    show ?thesis
    proof (cases "precheck env st c cx")
      case (Inl code)
      with fresh that(3) [OF c None, of code] show ?thesis by (simp add: fresh_outcome_def Let_def)
    next
      case (Inr u)
      show ?thesis
      proof (cases "checked_mutation env st c cx")
        case (Inl e)
        with Inr fresh that(3) [OF c None, of "denialCode e"] show ?thesis by (simp add: fresh_outcome_def Let_def)
      next
        case (Inr m)
        with \<open>precheck env st c cx = Inr u\<close> fresh that(4) [OF c None, of m] show ?thesis
          by (simp add: fresh_outcome_def Let_def)
      qed
    qed
  qed
qed

lemma known_record_None: "known_record st c = None \<longleftrightarrow> cb_operationId (base_of c) \<notin> tr_operationId ` set (ts_transactions st)"
  by (auto simp: known_record_def find_None_iff image_iff)

lemma known_record_Some: "known_record st c = Some r \<Longrightarrow> r \<in> set (ts_transactions st) \<and> tr_operationId r = cb_operationId (base_of c)"
  unfolding known_record_def by (rule find_keyD)

text \<open>A denial touches the records and audits only.\<close>

lemma denied_state:
  "to_state (deniedOutcome st c d code) =
     st\<lparr>ts_transactions := (if code = TX_IDEMPOTENCY_CONFLICT then ts_transactions st
          else ts_transactions st @ [to_record (deniedOutcome st c d code)]),
        ts_audits := ts_audits st @ [to_audit (deniedOutcome st c d code)]\<rparr>"
  "tr_operationId (to_record (deniedOutcome st c d code)) = cb_operationId (base_of c)"
  "ta_operationId (to_audit (deniedOutcome st c d code)) = cb_operationId (base_of c)"
  "tr_status (to_record (deniedOutcome st c d code)) = DENIED"
  "tr_requestDigest (to_record (deniedOutcome st c d code)) = d"
  "tr_resultCode (to_record (deniedOutcome st c d code)) = Some code"
  by (simp_all add: deniedOutcome_def resultEvidence_def Let_def)

lemma denied_ready: "tx_ready (to_state (deniedOutcome st c d code)) = tx_ready st"
  by (simp add: denied_state(1) tx_ready_def)

lemma commit_state:
  "to_state (commit_mutation st c d m) = st\<lparr>ts_revision := ts_revision st + 1, ts_playerEntries := mu_entries m,
     ts_currentRosters := mu_rosters m, ts_waiverClaims := claims_after st m, ts_waiverPriority := priority_after st m,
     ts_transactions := ts_transactions st @ [to_record (commit_mutation st c d m)],
     ts_audits := ts_audits st @ to_audit (commit_mutation st c d m) #
       (case mu_additionalAudits m of None \<Rightarrow> [] | Some as \<Rightarrow> as)\<rparr>"
  "tr_operationId (to_record (commit_mutation st c d m)) = cb_operationId (base_of c)"
  "ta_operationId (to_audit (commit_mutation st c d m)) = cb_operationId (base_of c)"
  "tr_status (to_record (commit_mutation st c d m)) = mu_status m"
  "tr_requestDigest (to_record (commit_mutation st c d m)) = d"
  by (simp_all add: commit_mutation_def resultEvidence_def Let_def claims_after_def priority_after_def)

lemma history_denied_fresh:
  assumes "history_ok st" and "known_record st c = None"
  shows "history_ok (to_state (deniedOutcome st c d code)) \<or> code = TX_IDEMPOTENCY_CONFLICT"
  using assms by (auto simp: history_ok_def denied_state known_record_None)

lemma history_denied_conflict:
  assumes "history_ok st" and "known_record st c = Some r"
  shows "history_ok (to_state (deniedOutcome st c d TX_IDEMPOTENCY_CONFLICT))"
proof -
  have "cb_operationId (base_of c) \<in> tr_operationId ` set (ts_transactions st)"
    using known_record_Some [OF assms(2)] by (metis image_eqI)
  with assms(1) show ?thesis by (simp add: history_ok_def denied_state)
qed

lemma history_commit:
  assumes "history_ok st" and "known_record st c = None" and ok: "mutation_ok st c m"
  shows "history_ok (to_state (commit_mutation st c d m))"
proof -
  have extra: "CHR '':'' \<in> set (ta_operationId a)" if "a \<in> set (case mu_additionalAudits m of None \<Rightarrow> [] | Some as \<Rightarrow> as)" for a
    using ok that by (cases "mu_additionalAudits m") (simp_all add: mutation_ok_def)
  have "mu_status m \<noteq> DENIED" using ok by (simp add: mutation_ok_def)
  with assms(1,2) extra show ?thesis
    by (auto simp: history_ok_def commit_state known_record_None)
qed

section \<open>No command ends in a conflict of its own\<close>

definition no_conflict :: "tx_thrown + 'a \<Rightarrow> bool" where
  "no_conflict r \<longleftrightarrow> r \<noteq> Inl (Tx TX_IDEMPOTENCY_CONFLICT)"

named_theorems no_conflict_intros \<open>results that are no idempotency conflict\<close>

lemma no_conflict_Inr [no_conflict_intros]: "no_conflict (Inr x)"
  by (simp add: no_conflict_def)

lemma no_conflict_Lower [no_conflict_intros]: "no_conflict (map_error Lower r)"
  by (cases r) (simp_all add: no_conflict_def)

lemma no_conflict_Tx [no_conflict_intros]: "e \<noteq> TX_IDEMPOTENCY_CONFLICT \<Longrightarrow> no_conflict (Inl (Tx e))"
  by (simp add: no_conflict_def)

lemma no_conflict_require [no_conflict_intros]: "e \<noteq> TX_IDEMPOTENCY_CONFLICT \<Longrightarrow> no_conflict (require b (Tx e))"
  by (simp add: no_conflict_def require_def)

lemma no_conflict_and_then [no_conflict_intros]: "no_conflict r \<Longrightarrow> (\<And>x. no_conflict (f x)) \<Longrightarrow> no_conflict (and_then r f)"
  by (cases r) (simp_all add: no_conflict_def)

lemma no_conflict_option [no_conflict_intros]: "no_conflict a \<Longrightarrow> (\<And>x. no_conflict (f x)) \<Longrightarrow> no_conflict (case x of None \<Rightarrow> a | Some x \<Rightarrow> f x)"
  by (cases x) simp_all

lemma no_conflict_lookup [no_conflict_intros]:
  "no_conflict (teamFor ts t)" "no_conflict (entryFor es p)" "no_conflict (rosterFor rs t)"
  by (simp_all add: no_conflict_def teamFor_def entryFor_def rosterFor_def find_or_def split: option.splits)

lemma map_res_no_conflict: "(\<And>x. no_conflict (f x)) \<Longrightarrow> no_conflict (map_res f xs)"
  by (induction xs) (simp_all add: no_conflict_intros)

lemma check_all_no_conflict: "(\<And>x. no_conflict (f x)) \<Longrightarrow> no_conflict (check_all f xs)"
  by (induction xs) (simp_all add: no_conflict_intros)

lemma no_conflict_slots [no_conflict_intros]:
  "no_conflict (slotsWithAssignment ss i p)" "no_conflict (slotsWithoutPlayer ss p)"
  unfolding slotsWithAssignment_def slotsWithoutPlayer_def
  by (intro no_conflict_intros map_res_no_conflict; simp add: no_conflict_def)+

lemma no_conflict_successor [no_conflict_intros]:
  "no_conflict (successorRoster env i a cx team entries previous slots authority)"
  "no_conflict (assert_roster_authority env st authority t)"
  by (simp_all add: successorRoster_def assert_roster_authority_def no_conflict_intros)

lemma no_conflict_drop [no_conflict_intros]: "no_conflict (check_conditional_drop es t d)"
  unfolding check_conditional_drop_def by (intro no_conflict_intros) simp

lemma mutate_no_conflict: "no_conflict (mutate env st c cx)"
  by (cases c; simp add: addPlayer_def dropPlayer_def tradePlayers_def changeLineup_def submitWaiver_def
      cancelWaiver_def processWaivers_def Let_def; intro no_conflict_intros; simp)

lemma projection_no_conflict: "no_conflict (assertOwnershipProjection es rs)"
  unfolding assertOwnershipProjection_def requireUnique_def
  by (intro no_conflict_intros check_all_no_conflict; simp add: check_rostered_def no_conflict_intros)

lemma denialCode_conflict: "denialCode e = TX_IDEMPOTENCY_CONFLICT \<longleftrightarrow> e = Tx TX_IDEMPOTENCY_CONFLICT"
  by (cases e rule: denialCode.cases) auto

lemma fresh_no_conflict:
  assumes "precheck env st c cx = Inl code \<or> (precheck env st c cx = Inr () \<and> (\<exists>e. checked_mutation env st c cx = Inl e \<and> code = denialCode e))"
  shows "code \<noteq> TX_IDEMPOTENCY_CONFLICT"
proof -
  have "no_conflict (authorizeCommand env st c)"
    unfolding authorizeCommand_def by (intro no_conflict_intros) simp
  then have p: "precheck env st c cx \<noteq> Inl TX_IDEMPOTENCY_CONFLICT"
    by (auto simp: precheck_def Let_def result_simps no_conflict_def map_error_def denialCode_conflict split: sum.splits)
  have "no_conflict (checked_mutation env st c cx)"
    unfolding checked_mutation_def by (intro no_conflict_intros mutate_no_conflict projection_no_conflict)
  with assms p show ?thesis unfolding no_conflict_def using denialCode_conflict by metis
qed

section \<open>Reachable states\<close>

definition tx_step :: "tx_env \<Rightarrow> tx_state \<Rightarrow> tx_command option \<times> tx_context \<Rightarrow> tx_thrown + tx_state" where
  "tx_step env st i = and_then (applyFantasyTransaction env st (fst i) (snd i)) (\<lambda>res. Inr (to_state res))"

lemma checked_mutation_Inr:
  assumes "tx_ready st" and "parseCommand env raw = Inr c" and "checked_mutation env st c cx = Inr m"
  shows "mutation_ok st c m" and "board (mu_entries m) (mu_rosters m)"
proof -
  from assms(3) have m: "mutate env st c cx = Inr m" "assertOwnershipProjection (mu_entries m) (mu_rosters m) = Inr ()"
    by (auto simp: checked_mutation_def result_simps)
  show ok: "mutation_ok st c m" using mutate_ok [OF assms(1) _ m(1)] parseCommand_Inr [OF assms(2)] by simp
  show "board (mu_entries m) (mu_rosters m)" using board_iff_projection [OF assms(1) ok] m(2) by simp
qed

lemma commit_ready:
  assumes "mutation_ok st c m" and "board (mu_entries m) (mu_rosters m)"
  shows "tx_ready (to_state (commit_mutation st c d m))"
  using assms by (simp add: tx_ready_def commit_state(1) mutation_ok_def)

lemma apply_inv:
  assumes inv: "tx_inv st" and res: "applyFantasyTransaction env st raw cx = Inr res"
  shows "tx_inv (to_state res)"
  using res
proof (cases rule: applyE)
  case (duplicate c r a)
  then show ?thesis using inv by simp
next
  case (conflict c r)
  then show ?thesis using inv history_denied_conflict by (simp add: tx_inv_def denied_ready)
next
  case (denied c code)
  then show ?thesis
    using inv history_denied_fresh [of st c] fresh_no_conflict [OF denied(3)] by (auto simp: tx_inv_def denied_ready)
next
  case (committed c m)
  then show ?thesis
    using inv checked_mutation_Inr [of st env raw c cx m] commit_ready [of st c m] history_commit [of st c m]
    by (simp add: tx_inv_def)
qed

text \<open>The transactions are a reducer over commands with their contexts; every input is admissible.\<close>

interpretation transactions: reducer "tx_step env" "\<lambda>_ _. True" tx_inv for env
  by unfold_locales (auto simp: tx_step_def result_simps intro: apply_inv)

lemma create_state_inv:
  assumes "createFantasyTransactionState env i = Inr st" and "\<forall>r\<in>set (cs_currentRosters i). slots_trimmed (ro_slots r)"
  shows "tx_inv st"
proof -
  let ?ps = "po_initialWaiverPriority (trim_policy (cs_policy i))" and ?es = "cs_playerEntries i" and ?rs = "cs_currentRosters i"
  from assms(1) have d: "distinct ?ps" "length ?ps = length (map ft_id (cs_teams i))" "set ?ps \<subseteq> set (map ft_id (cs_teams i))"
      "distinct (map ft_id (cs_teams i))"
    and e: "distinct (map pe_id ?es)" "distinct (map pe_baseballPlayerId ?es)" "distinct (map ro_fantasyTeamId ?rs)"
    and r: "length ?rs = length (cs_teams i)" "set (map ro_fantasyTeamId ?rs) \<subseteq> set (map ft_id (cs_teams i))"
    and p: "assertOwnershipProjection ?es ?rs = Inr ()"
    and st: "ts_playerEntries st = ?es" "ts_currentRosters st = ?rs" "ts_waiverPriority st = ?ps" "ts_waiverClaims st = []"
      "ts_transactions st = []" "ts_audits st = []" "ts_revision st = 0"
    by (auto simp: createFantasyTransactionState_def Let_def requireUnique_def roster_in_league_def list_ex_iff result_simps)
  have "set ?ps = set (map ft_id (cs_teams i))"
    by (rule card_subset_eq) (use d distinct_card [OF d(1)] distinct_card [OF d(4)] in simp_all)
  moreover have "set (map ro_fantasyTeamId ?rs) = set (map ft_id (cs_teams i))"
    by (rule card_subset_eq) (use r(2) distinct_card [OF e(3)] distinct_card [OF d(4)] r(1) in simp_all)
  ultimately have "priority_covers ?ps ?rs" using d(1) by (auto simp: priority_covers_def)
  moreover have "board ?es ?rs"
    using e assms(2) p assertOwnershipProjection_iff [OF e(1,3)] by (simp add: board_def)
  ultimately show ?thesis by (simp add: tx_inv_def tx_ready_def history_ok_def tx_claims_ok_def st)
qed

section \<open>Repeating a command\<close>

text \<open>Later states keep what a state has recorded.\<close>

definition extends_history :: "tx_state \<Rightarrow> tx_state \<Rightarrow> bool" where
  "extends_history st st' \<longleftrightarrow> (\<exists>rs as. ts_transactions st' = ts_transactions st @ rs \<and> ts_audits st' = ts_audits st @ as)"

lemma extends_history_trans: "extends_history a b \<Longrightarrow> extends_history b c \<Longrightarrow> extends_history a c"
  by (auto simp: extends_history_def)

lemma apply_extends:
  assumes "applyFantasyTransaction env st raw cx = Inr res"
  shows "extends_history st (to_state res)"
  using assms by (cases rule: applyE) (auto simp: extends_history_def denied_state commit_state)

lemma run_extends: "run_to (tx_step env) (\<lambda>_ _. True) st st' \<Longrightarrow> extends_history st st'"
proof (induction rule: run_to.induct)
  case (run_start s)
  then show ?case by (simp add: extends_history_def)
next
  case (run_step s t i u)
  then obtain res where "applyFantasyTransaction env t (fst i) (snd i) = Inr res" "u = to_state res"
    by (auto simp: tx_step_def result_simps)
  with run_step.IH show ?case using apply_extends extends_history_trans by blast
qed

lemma find_append_Some: "find P xs = Some x \<Longrightarrow> find P (xs @ ys) = Some x"
  by (simp add: find_append)

lemma find_append_None: "find P xs = None \<Longrightarrow> find P (xs @ ys) = find P ys"
  by (simp add: find_append)

text \<open>A command that was recorded, by an id without a colon: its audit is the first with that id.\<close>

lemma fresh_recorded:
  assumes hist: "history_ok st" and none: "known_record st c = None" and colon: "CHR '':'' \<notin> set (cb_operationId (base_of c))"
    and txs: "ts_transactions st' = ts_transactions st @ r # rs" and auds: "ts_audits st' = ts_audits st @ a # as"
    and r: "tr_operationId r = cb_operationId (base_of c)" and a: "ta_operationId a = cb_operationId (base_of c)"
  shows "known_record st' c = Some r" and "find (\<lambda>x. ta_operationId x = cb_operationId (base_of c)) (ts_audits st') = Some a"
proof -
  show "known_record st' c = Some r"
    using none r unfolding known_record_def txs by (simp add: find_append_None)
  have "\<forall>x\<in>set (ts_audits st). ta_operationId x \<noteq> cb_operationId (base_of c)"
    using hist none colon unfolding history_ok_def known_record_None by metis
  then have "find (\<lambda>x. ta_operationId x = cb_operationId (base_of c)) (ts_audits st) = None"
    by (simp add: find_None_iff)
  with a show "find (\<lambda>x. ta_operationId x = cb_operationId (base_of c)) (ts_audits st') = Some a"
    unfolding auds by (simp add: find_append_None)
qed

lemma repeated_command:
  assumes inv: "tx_inv st" and res: "applyFantasyTransaction env st raw cx = Inr res" and fresh: "\<not> to_duplicate res"
    and kept: "tr_resultCode (to_record res) \<noteq> Some TX_IDEMPOTENCY_CONFLICT"
    and colon: "CHR '':'' \<notin> set (tr_operationId (to_record res))"
    and later: "run_to (tx_step env) (\<lambda>_ _. True) (to_state res) st'"
  shows "applyFantasyTransaction env st' raw cx' =
    Inr \<lparr>to_state = st', to_record = to_record res, to_audit = to_audit res, to_duplicate = True\<rparr>"
proof -
  obtain rs as where ext: "ts_transactions st' = ts_transactions (to_state res) @ rs" "ts_audits st' = ts_audits (to_state res) @ as"
    using run_extends [OF later] by (auto simp: extends_history_def)
  have hist: "history_ok st" using inv by (simp add: tx_inv_def)
  have again: "applyFantasyTransaction env st' raw cx' = Inr \<lparr>to_state = st', to_record = r, to_audit = a, to_duplicate = True\<rparr>"
    if "parseCommand env raw = Inr c" "known_record st' c = Some r" "tr_requestDigest r = te_commandDigest env c"
      "find (\<lambda>x. ta_operationId x = cb_operationId (base_of c)) (ts_audits st') = Some a" for c r a
    using that by (simp add: applyFantasyTransaction_def known_record_def)
  show ?thesis
    using res
  proof (cases rule: applyE)
    case (duplicate c r a)
    with fresh show ?thesis by simp
  next
    case (conflict c r)
    with kept show ?thesis by (simp add: denied_state)
  next
    case (denied c code)
    note ne = fresh_no_conflict [OF denied(3)]
    have "known_record st' c = Some (to_record res)"
      "find (\<lambda>x. ta_operationId x = cb_operationId (base_of c)) (ts_audits st') = Some (to_audit res)"
      by (rule fresh_recorded [OF hist denied(2), of st' "to_record res" rs "to_audit res" as];
          use ext colon ne denied in \<open>simp add: denied_state\<close>)+
    then show ?thesis by (intro again [OF denied(1)]) (simp_all add: denied denied_state)
  next
    case (committed c m)
    have "known_record st' c = Some (to_record res)"
      "find (\<lambda>x. ta_operationId x = cb_operationId (base_of c)) (ts_audits st') = Some (to_audit res)"
      by (rule fresh_recorded [OF hist committed(2), of st' "to_record res" rs "to_audit res" "_ @ as"];
          use ext colon committed in \<open>simp add: commit_state\<close>)+
    then show ?thesis by (intro again [OF committed(1)]) (simp_all add: committed commit_state)
  qed
qed

section \<open>The ledger of a committed command\<close>

lemma committed_moves:
  assumes inv: "tx_inv st" and res: "applyFantasyTransaction env st raw cx = Inr res"
    and committed: "\<not> to_duplicate res" "tr_status (to_record res) \<noteq> DENIED"
  obtains c where "parseCommand env raw = Inr c"
    and "ledger_run (owner_map (ts_playerEntries st)) (command_moves st (ts_waiverClaims (to_state res)) c) =
      Inr (owner_map (ts_playerEntries (to_state res)))"
  using res
proof (cases rule: applyE)
  case (committed c m)
  then have "mutation_ok st c m" using checked_mutation_Inr(1) inv by (simp add: tx_inv_def)
  then show ?thesis using that [of c] committed by (simp add: mutation_ok_def commit_state)
qed (use committed in \<open>simp_all add: denied_state\<close>)

section \<open>Settled batches\<close>

text \<open>The claims of a batch whose award came through, in the order of the batch.\<close>

definition awards :: "tx_state \<Rightarrow> process_waivers_command \<Rightarrow> tx_state \<Rightarrow> waiver_claim list" where
  "awards st c st' = filter (claim_applied (ts_waiverClaims st')) (due_claims st c)"

lemma batch_settled:
  assumes inv: "tx_inv st" and res: "applyFantasyTransaction env st (Some (PROCESS_WAIVERS c0)) cx = Inr res"
    and committed_it: "\<not> to_duplicate res" "tr_status (to_record res) \<noteq> DENIED"
  obtains c where "PROCESS_WAIVERS c = trim_command (PROCESS_WAIVERS c0)"
    and "list_all2 (\<lambda>w x. if due_at (pw_processingAt c) w then settles (pw_processingAt c) w x else x = w)
      (ts_waiverClaims st) (ts_waiverClaims (to_state res))"
    and "distinct (map wc_fantasyTeamId (awards st c (to_state res)))"
    and "ts_waiverPriority (to_state res) =
      foldl rotate_priority (ts_waiverPriority st) (map wc_fantasyTeamId (awards st c (to_state res)))"
  using res
proof (cases rule: applyE)
  case (committed c' m)
  obtain c where c: "c' = PROCESS_WAIVERS c" "PROCESS_WAIVERS c = trim_command (PROCESS_WAIVERS c0)"
    and ok: "command_ok (te_domain env) (PROCESS_WAIVERS c)"
    using committed(1) by (auto simp: parseCommand_def result_simps simp del: command_ok.simps)
  have ready: "tx_ready st" using inv by (simp add: tx_inv_def)
  have "mutate env st c' cx = Inr m" using committed(4) by (auto simp: checked_mutation_def result_simps)
  then have "processWaivers env st c cx = Inr m" by (simp add: c(1))
  from processWaivers_Inr [OF this] obtain v where v: "v = foldl (process_claim env st c cx) (start_loop st) (due_claims st c)"
    and meq: "mu_claims m = Some (map (settled v) (ts_waiverClaims st))" "mu_priority m = Some (wv_priority v)"
    by metis
  have loop: "loop_inv st c (due_claims st c) v" unfolding v by (rule batch_loop_inv [OF ready])
  have claims: "ts_waiverClaims (to_state res) = map (settled v) (ts_waiverClaims st)"
    and prio: "ts_waiverPriority (to_state res) = wv_priority v"
    using committed(5) meq by (simp_all add: commit_state claims_after_def priority_after_def)
  have aw: "awards st c (to_state res) = filter (awarded (wv_resolved v)) (due_claims st c)"
    unfolding awards_def claims by (rule filter_cong [OF refl]) (rule claim_applied_settled [OF ready loop])
  have time: "date_parse (pw_processingAt c) \<noteq> None"
    using ok by (auto simp: instant_ok_def elim!: canonical_isoE)
  have "list_all2 (\<lambda>w x. if due_at (pw_processingAt c) w then settles (pw_processingAt c) w x else x = w)
      (ts_waiverClaims st) (ts_waiverClaims (to_state res))"
    unfolding claims list_all2_map2 by (rule list.rel_refl_strong) (rule settled_claim [OF ready loop])
  with loop time prio that [OF c(2)] show ?thesis by (simp add: loop_inv_def aw)
qed (use committed_it in \<open>simp_all add: denied_state\<close>)

lemma settles_not_due: "settles a w x \<Longrightarrow> \<not> due_at a x"
  by (drule settles_same) (simp add: due_at_def)

section \<open>Denied commands\<close>

lemma denied_keeps:
  assumes "applyFantasyTransaction env st raw cx = Inr res" and "\<not> to_duplicate res" and "tx_inv st"
    and "tr_status (to_record res) = DENIED"
  shows "to_state res = st\<lparr>ts_transactions := ts_transactions (to_state res), ts_audits := ts_audits st @ [to_audit res]\<rparr> \<and>
    (\<exists>code. tr_resultCode (to_record res) = Some code \<and>
      ts_transactions (to_state res) = ts_transactions st @ (if code = TX_IDEMPOTENCY_CONFLICT then [] else [to_record res]))"
  using assms(1)
proof (cases rule: applyE)
  case (committed c m)
  then have "mu_status m \<noteq> DENIED"
    using checked_mutation_Inr(1) assms(3) by (auto simp: tx_inv_def mutation_ok_def)
  with committed assms(4) show ?thesis by (simp add: commit_state)
qed (use assms(2) in \<open>simp_all add: denied_state\<close>)

text \<open>
  The states of a league: the state of its creation, whose rosters are snapshots as the code of the
  rosters returns them, and those that commands in their contexts lead to.
\<close>

definition reachable_league :: "tx_env \<Rightarrow> tx_state \<Rightarrow> bool" where
  "reachable_league env st \<longleftrightarrow> (\<exists>i st0. createFantasyTransactionState env i = Inr st0 \<and>
     (\<forall>r\<in>set (cs_currentRosters i). slots_trimmed (ro_slots r)) \<and> run_to (tx_step env) (\<lambda>_ _. True) st0 st)"

lemma reachable_inv: "reachable_league env st \<Longrightarrow> tx_inv st"
  using transactions.run_inv create_state_inv unfolding reachable_league_def by blast

lemma reachable_created:
  "createFantasyTransactionState env i = Inr st \<Longrightarrow> \<forall>r\<in>set (cs_currentRosters i). slots_trimmed (ro_slots r) \<Longrightarrow> reachable_league env st"
  unfolding reachable_league_def by (blast intro: run_start)

lemma reachable_applied:
  assumes "reachable_league env st" and "applyFantasyTransaction env st raw cx = Inr res"
  shows "reachable_league env (to_state res)"
proof -
  have "tx_step env st (raw, cx) = Inr (to_state res)" using assms(2) by (simp add: tx_step_def)
  with assms(1) show ?thesis unfolding reachable_league_def by (blast intro: run_step)
qed

end
