(* ===== verification/Fantasy_Scoring.thy ===== *)
theory Fantasy_Scoring
  imports Fantasy_Domain "HOL-Library.Product_Lexorder"
begin

text \<open>
  Fantasy scoring (\<open>src/domain/fantasy-scoring.ts\<close>): the result of a team for a period from the
  statistics of its active lineup, the matchup of two team results, and the standings of a season's
  matchups.  Each result carries digests of its sources and of itself; the digest (SHA-256 of a
  canonical JSON text) of every kind of envelope is a parameter, collected in \<open>scoring_env\<close>.  Two
  periods are the same when their envelopes serialise alike, which for records of strings and
  integers is equality.
\<close>

datatype scoring_error = SC_INVALID_INPUT | SC_AUTHORIZATION_REQUIRED | SC_ACCOUNT_MISMATCH | SC_LEAGUE_MISMATCH
  | SC_RULES_MISMATCH | SC_ROSTER_MISMATCH | SC_PERIOD_INVALID | SC_SOURCE_CONFLICT | SC_RESULT_NOT_READY
  | SC_REVISION_CONFLICT | SC_MATCHUP_INVALID | SC_STANDINGS_INVALID | SC_UNSAFE_ARITHMETIC

datatype scoring_thrown = Scoring scoring_error | ScoringRules rules_error

section \<open>Data\<close>

text \<open>\<open>PHASE_OTHER\<close> stands for any other string a caller may pass as a phase.\<close>

datatype scoring_phase = REGULAR_SEASON | PLAYOFF | CHAMPIONSHIP | PHASE_OTHER string

record scoring_period =
  sp_id :: ident
  sp_accountId :: ident
  sp_fantasyLeagueId :: ident
  sp_sequence :: int
  sp_phase :: scoring_phase
  sp_startsAt :: string
  sp_endsAt :: string
  sp_finalizationDeadline :: string

datatype availability = FINAL_VERIFIED | CORRECTED_FINAL | INCOMPLETE_GAME | UNVERIFIED | INSUFFICIENT_SAMPLE

record period_statistics =
  ps_accountId :: ident
  ps_fantasyLeagueId :: ident
  ps_fantasyTeamId :: ident
  ps_periodId :: ident
  ps_rosterSnapshotId :: ident
  ps_rosterSlotId :: ident
  ps_fantasyPlayerEntryId :: ident
  ps_availability :: availability
  ps_expectedGames :: int
  ps_completedGames :: int
  ps_projectedCompletionAt :: "string option"
  ps_snapshot :: "statistic_snapshot option"

datatype uncertainty_code = EMPTY_LINEUP_SLOT | MISSING_STATISTICS | UNCERTAIN_INCOMPLETE_GAME
  | UNVERIFIED_STATISTICS_CODE | UNCERTAIN_INSUFFICIENT_SAMPLE

record uncertainty =
  un_code :: uncertainty_code
  un_rosterSlotId :: ident
  un_fantasyPlayerEntryId :: "ident option"
  un_expectedGames :: "int option"
  un_completedGames :: "int option"
  un_projectedCompletionAt :: "string option"

text \<open>A category total has the fields of a category's score.\<close>

type_synonym category_total = category_score

record scored_source =
  so_rosterSlotId :: ident
  so_fantasyPlayerEntryId :: ident
  so_availability :: availability
  so_expectedGames :: int
  so_completedGames :: int
  so_projectedCompletionAt :: "string option"
  so_score :: "fantasy_score option"
  so_statisticLineage :: "statistic_lineage option"

datatype audit_target = TEAM_PERIOD | MATCHUP | STANDINGS
datatype audit_action = CALCULATE | RECALCULATE | FINALIZE

record calculation_audit =
  cu_id :: ident
  cu_actorId :: ident
  cu_authoritySource :: authority_source
  cu_authorityReferenceIds :: "ident list"
  cu_capability :: string
  cu_accountId :: ident
  cu_fantasyLeagueId :: ident
  cu_targetKind :: audit_target
  cu_targetId :: ident
  cu_teamIds :: "ident list"
  cu_periodId :: "ident option"
  cu_action :: audit_action
  cu_acceptedAt :: string
  cu_revision :: int
  cu_previousResultId :: "ident option"
  cu_correctionReason :: "string option"

record result_lineage =
  rl_fantasyModelId :: ident
  rl_fantasyModelVersionId :: ident
  rl_fantasyModelVersion :: int
  rl_fantasyModelDigest :: string
  rl_baseballRulesetVersionIds :: "ident list"
  rl_statisticDerivationVersions :: "int list"
  rl_statisticRulesVersions :: "int list"
  rl_sourceRevisions :: "int list"
  rl_correctionRevisions :: "int list"

record result_correction =
  rc_reason :: string
  rc_previousResultId :: ident
  rc_previousResultDigest :: string

datatype result_status = IN_PROGRESS_RESULT | AWAITING_FINAL_DATA | READY_RESULT | FINAL_RESULT

text \<open>The fields that all three kinds of result have; each kind adds its own and the digest.\<close>

record result_base =
  rs_contractVersion :: int
  rs_calculationVersion :: int
  rs_resultId :: ident
  rs_accountId :: ident
  rs_fantasyLeagueId :: ident
  rs_status :: result_status
  rs_lineage :: result_lineage
  rs_calculatedAt :: string
  rs_revision :: int
  rs_previousResultId :: "ident option"
  rs_correction :: "result_correction option"
  rs_sourceDigest :: string
  rs_audit :: calculation_audit

record team_result_body = result_base +
  tp_fantasyTeamId :: ident
  tp_period :: scoring_period
  tp_rosterSnapshotId :: ident
  tp_rosterSnapshotRevision :: int
  tp_totalMilliPoints :: int
  tp_categoryTotals :: "category_total list"
  tp_expectedSourceCount :: int
  tp_completedSourceCount :: int
  tp_projectedCompletionAt :: "string option"
  tp_uncertainties :: "uncertainty list"
  tp_sources :: "scored_source list"
  tp_finalizedAt :: "string option"

record team_result = team_result_body +
  tp_resultDigest :: string

text \<open>What identifies a calculation; the inputs of the three calculations extend it.\<close>

record calculation_identity =
  ci_resultId :: ident
  ci_auditId :: ident
  ci_accountId :: ident
  ci_fantasyLeagueId :: ident
  ci_calculatedAt :: string
  ci_revision :: int
  ci_previousResultId :: "ident option"
  ci_correctionReason :: "string option"

record team_period_input = calculation_identity +
  ti_fantasyTeamId :: ident
  ti_period :: scoring_period
  ti_finalize :: bool
  ti_statistics :: "period_statistics list"

record team_total =
  tt_fantasyTeamId :: ident
  tt_totalMilliPoints :: int
  tt_categoryTotals :: "category_total list"
  tt_teamResultId :: ident
  tt_teamResultRevision :: int
  tt_teamResultDigest :: string

datatype matchup_outcome = UNRESOLVED | FIRST_WIN | SECOND_WIN | MATCHUP_TIE
datatype tie_break = NO_TIE_BREAK | HIGHER_PREDECLARED_SEED

record matchup_body = result_base +
  mt_period :: scoring_period
  mt_first :: team_total
  mt_second :: team_total
  mt_outcome :: matchup_outcome
  mt_winnerTeamId :: "ident option"
  mt_loserTeamId :: "ident option"
  mt_tieBreak :: tie_break
  mt_firstPredeclaredSeed :: int
  mt_secondPredeclaredSeed :: int

record matchup = matchup_body +
  mt_resultDigest :: string

record matchup_input = calculation_identity +
  mi_firstPredeclaredSeed :: int
  mi_secondPredeclaredSeed :: int

record standing_team =
  st_fantasyTeamId :: ident
  st_predeclaredSeed :: int

datatype playoff_qualification = QUALIFIED | CURRENT_CUTOFF | NOT_QUALIFIED

record standing_record =
  sr_rank :: int
  sr_fantasyTeamId :: ident
  sr_predeclaredSeed :: int
  sr_gamesPlayed :: int
  sr_wins :: int
  sr_losses :: int
  sr_ties :: int
  sr_standingPoints :: int
  sr_pointsForMilli :: int
  sr_pointsAgainstMilli :: int
  sr_pointsDifferentialMilli :: int
  sr_categoryTotals :: "category_total list"
  sr_currentStreak :: string
  sr_playoffQualification :: playoff_qualification

record source_reference =
  sf_id :: ident
  sf_revision :: int
  sf_digest :: string

record standings_body = result_base +
  sd_throughPeriodSequence :: int
  sd_playoffTeamCount :: int
  sd_completedMatchupCount :: int
  sd_pendingMatchupCount :: int
  sd_records :: "standing_record list"
  sd_sourceMatchups :: "source_reference list"

record standings_result = standings_body +
  sd_resultDigest :: string

record standings_input = calculation_identity +
  si_regularSeasonComplete :: bool
  si_playoffTeamCount :: int
  si_teams :: "standing_team list"

definition scoring_contract_version :: int where
  "scoring_contract_version = 1"

definition scoring_calculation_version :: int where
  "scoring_calculation_version = 1"

section \<open>Digested envelopes\<close>

record team_source_envelope =
  te_contractVersion :: int
  te_calculationVersion :: int
  te_accountId :: ident
  te_fantasyLeagueId :: ident
  te_fantasyTeamId :: ident
  te_period :: scoring_period
  te_rosterSnapshotId :: ident
  te_rosterSnapshotRevision :: int
  te_fantasyModelVersionId :: ident
  te_fantasyModelDigest :: string
  te_statistics :: "period_statistics list"

record matchup_source_envelope =
  me_first :: source_reference
  me_second :: source_reference
  me_firstPredeclaredSeed :: int
  me_secondPredeclaredSeed :: int

record standings_source_envelope =
  se_regularSeasonComplete :: bool
  se_playoffTeamCount :: int
  se_teams :: "standing_team list"
  se_sourceMatchups :: "source_reference list"

record scoring_env =
  sg_domain :: fantasy_env
  sg_teamSource :: "team_source_envelope \<Rightarrow> string"
  sg_teamResult :: "team_result_body \<Rightarrow> string"
  sg_matchupSource :: "matchup_source_envelope \<Rightarrow> string"
  sg_matchupResult :: "matchup_body \<Rightarrow> string"
  sg_standingsSource :: "standings_source_envelope \<Rightarrow> string"
  sg_standingsResult :: "standings_body \<Rightarrow> string"

section \<open>Checks\<close>

definition stable_id :: "string \<Rightarrow> scoring_thrown + unit" where
  "stable_id s = require (trim s = s \<and> id_ok s) (Scoring SC_INVALID_INPUT)"

definition canonicalInstant :: "string \<Rightarrow> scoring_thrown + int" where
  "canonicalInstant s =
     (case date_parse s of
        None \<Rightarrow> Inl (Scoring SC_INVALID_INPUT)
      | Some t \<Rightarrow> and_then (require (iso_string t = s) (Scoring SC_INVALID_INPUT)) (\<lambda>_. Inr t))"

definition nonnegativeInteger :: "int \<Rightarrow> scoring_thrown + unit" where
  "nonnegativeInteger n = require (\<not> (\<not> safe_int n \<or> n < 0)) (Scoring SC_INVALID_INPUT)"

definition positiveInteger :: "int \<Rightarrow> scoring_thrown + unit" where
  "positiveInteger n = require (\<not> (\<not> safe_int n \<or> n < 1)) (Scoring SC_INVALID_INPUT)"

definition safeAdd :: "int \<Rightarrow> int \<Rightarrow> scoring_thrown + int" where
  "safeAdd l r = and_then (require (safe_int (l + r)) (Scoring SC_UNSAFE_ARITHMETIC)) (\<lambda>_. Inr (l + r))"

definition safeDifference :: "int \<Rightarrow> int \<Rightarrow> scoring_thrown + int" where
  "safeDifference l r = and_then (require (safe_int (l - r)) (Scoring SC_UNSAFE_ARITHMETIC)) (\<lambda>_. Inr (l - r))"

definition validatePeriod :: "scoring_period \<Rightarrow> scoring_thrown + unit" where
  "validatePeriod p =
     and_then (stable_id (sp_id p)) (\<lambda>_.
     and_then (stable_id (sp_accountId p)) (\<lambda>_.
     and_then (stable_id (sp_fantasyLeagueId p)) (\<lambda>_.
     and_then (positiveInteger (sp_sequence p)) (\<lambda>_.
     and_then (require (sp_phase p \<in> {REGULAR_SEASON, PLAYOFF, CHAMPIONSHIP}) (Scoring SC_PERIOD_INVALID)) (\<lambda>_.
     and_then (canonicalInstant (sp_startsAt p)) (\<lambda>startsAt.
     and_then (canonicalInstant (sp_endsAt p)) (\<lambda>endsAt.
     and_then (canonicalInstant (sp_finalizationDeadline p)) (\<lambda>deadline.
       require (\<not> (startsAt \<ge> endsAt \<or> endsAt > deadline)) (Scoring SC_PERIOD_INVALID)))))))))"

definition samePeriod :: "scoring_period \<Rightarrow> scoring_period \<Rightarrow> bool" where
  "samePeriod l r \<longleftrightarrow> l = r"

definition rulesMatch :: "fantasy_league \<Rightarrow> roster_snapshot \<Rightarrow> scoring_model \<Rightarrow> bool" where
  "rulesMatch league roster m \<longleftrightarrow>
     rb_modelId (fl_rules league) = fm_modelId m \<and> rb_modelVersionId (fl_rules league) = fm_modelVersionId m \<and>
     rb_modelVersion (fl_rules league) = fm_version m \<and> rb_modelDigest (fl_rules league) = fm_contentDigest m \<and>
     rb_statisticRegistryVersion (fl_rules league) = fm_statisticRegistryVersion m \<and>
     rb_modelVersionId (ro_rules roster) = fm_modelVersionId m \<and> rb_modelDigest (ro_rules roster) = fm_contentDigest m"

definition validateScoringAuthority ::
    "scoring_env \<Rightarrow> fantasy_authority \<Rightarrow> ident \<Rightarrow> ident \<Rightarrow> scoring_thrown + unit" where
  "validateScoringAuthority env authority account league =
     map_error (\<lambda>_. Scoring SC_AUTHORIZATION_REQUIRED)
       (assertFantasyAuthority (sg_domain env) authority account FANTASY_SCORING_CALCULATE (Some league) None)"

section \<open>Lineages\<close>

definition uniqueSortedStrings :: "string list \<Rightarrow> string list" where
  "uniqueSortedStrings xs = sort (js_unique xs)"

definition uniqueSortedNumbers :: "int list \<Rightarrow> int list" where
  "uniqueSortedNumbers xs = sort (js_unique xs)"

definition sameFantasyModelLineage :: "result_lineage \<Rightarrow> result_lineage \<Rightarrow> bool" where
  "sameFantasyModelLineage l r \<longleftrightarrow> rl_fantasyModelId l = rl_fantasyModelId r \<and>
     rl_fantasyModelVersionId l = rl_fantasyModelVersionId r \<and>
     rl_fantasyModelVersion l = rl_fantasyModelVersion r \<and> rl_fantasyModelDigest l = rl_fantasyModelDigest r"

definition aggregateResultLineage :: "result_lineage list \<Rightarrow> scoring_error \<Rightarrow> scoring_thrown + result_lineage" where
  "aggregateResultLineage ls code =
     (case ls of
        [] \<Rightarrow> Inl (Scoring code)
      | l # _ \<Rightarrow>
          and_then (require (\<not> list_ex (\<lambda>x. \<not> sameFantasyModelLineage x l) ls) (Scoring code)) (\<lambda>_.
            Inr \<lparr>rl_fantasyModelId = rl_fantasyModelId l, rl_fantasyModelVersionId = rl_fantasyModelVersionId l,
                 rl_fantasyModelVersion = rl_fantasyModelVersion l, rl_fantasyModelDigest = rl_fantasyModelDigest l,
                 rl_baseballRulesetVersionIds = uniqueSortedStrings (concat (map rl_baseballRulesetVersionIds ls)),
                 rl_statisticDerivationVersions = uniqueSortedNumbers (concat (map rl_statisticDerivationVersions ls)),
                 rl_statisticRulesVersions = uniqueSortedNumbers (concat (map rl_statisticRulesVersions ls)),
                 rl_sourceRevisions = uniqueSortedNumbers (concat (map rl_sourceRevisions ls)),
                 rl_correctionRevisions = uniqueSortedNumbers (concat (map rl_correctionRevisions ls))\<rparr>))"

section \<open>Revisions\<close>

text \<open>What a revision looks at in the result before it.\<close>

record previous_view =
  pv_id :: ident
  pv_revision :: int
  pv_sourceDigest :: string
  pv_resultDigest :: string
  pv_calculatedAt :: string
  pv_status :: result_status

definition previous_of :: "'a result_base_scheme \<Rightarrow> string \<Rightarrow> previous_view" where
  "previous_of r digest = \<lparr>pv_id = rs_resultId r, pv_revision = rs_revision r, pv_sourceDigest = rs_sourceDigest r,
     pv_resultDigest = digest, pv_calculatedAt = rs_calculatedAt r, pv_status = rs_status r\<rparr>"

definition revise ::
    "'a calculation_identity_scheme \<Rightarrow> string \<Rightarrow> result_status \<Rightarrow> previous_view
     \<Rightarrow> scoring_thrown + (audit_action \<times> result_correction option)" where
  "revise i sourceDigest status p =
     (let sourceChanged = (sourceDigest \<noteq> pv_sourceDigest p);
          finalizing = (pv_status p \<noteq> FINAL_RESULT \<and> status = FINAL_RESULT);
          statusChanged = (pv_status p \<noteq> status);
          action = (if finalizing then FINALIZE else CALCULATE) in
      and_then (require (\<not> (\<not> sourceChanged \<and> \<not> statusChanged)) (Scoring SC_REVISION_CONFLICT)) (\<lambda>_.
        if sourceChanged \<and> pv_status p = FINAL_RESULT then
          (case ci_correctionReason i of
             None \<Rightarrow> Inl (Scoring SC_REVISION_CONFLICT)
           | Some reason \<Rightarrow>
               and_then (require (trim reason \<noteq> []) (Scoring SC_REVISION_CONFLICT)) (\<lambda>_.
                 Inr (RECALCULATE, Some \<lparr>rc_reason = trim reason, rc_previousResultId = pv_id p,
                        rc_previousResultDigest = pv_resultDigest p\<rparr>)))
        else and_then (require (ci_correctionReason i = None) (Scoring SC_REVISION_CONFLICT)) (\<lambda>_. Inr (action, None))))"

definition revisionDecision ::
    "'a calculation_identity_scheme \<Rightarrow> string \<Rightarrow> result_status \<Rightarrow> previous_view option
     \<Rightarrow> scoring_thrown + (audit_action \<times> result_correction option)" where
  "revisionDecision i sourceDigest status previous =
     and_then (stable_id (ci_resultId i)) (\<lambda>_.
     and_then (nonnegativeInteger (ci_revision i)) (\<lambda>_.
     and_then (canonicalInstant (ci_calculatedAt i)) (\<lambda>_.
     (case previous of
        None \<Rightarrow>
          and_then (require (\<not> (ci_revision i \<noteq> 0 \<or> ci_previousResultId i \<noteq> None \<or> ci_correctionReason i \<noteq> None))
                     (Scoring SC_REVISION_CONFLICT)) (\<lambda>_.
            Inr (if status = FINAL_RESULT then FINALIZE else CALCULATE, None))
      | Some p \<Rightarrow>
          and_then (require (\<not> (ci_resultId i = pv_id p \<or> ci_revision i \<noteq> pv_revision p + 1 \<or>
                     ci_previousResultId i \<noteq> Some (pv_id p) \<or> time_le (ci_calculatedAt i) (pv_calculatedAt p)))
                     (Scoring SC_REVISION_CONFLICT)) (\<lambda>_.
            revise i sourceDigest status p)))))"

definition calculationAudit ::
    "'a calculation_identity_scheme \<Rightarrow> fantasy_authority \<Rightarrow> audit_target \<Rightarrow> ident list \<Rightarrow> ident option
     \<Rightarrow> audit_action \<times> result_correction option \<Rightarrow> scoring_thrown + calculation_audit" where
  "calculationAudit i authority kind teamIds periodId revision =
     and_then (stable_id (ci_auditId i)) (\<lambda>_.
       Inr \<lparr>cu_id = ci_auditId i, cu_actorId = fa_actorId authority, cu_authoritySource = fa_source authority,
            cu_authorityReferenceIds = fa_authorityReferenceIds authority, cu_capability = ''fantasy.scoring.calculate'',
            cu_accountId = ci_accountId i, cu_fantasyLeagueId = ci_fantasyLeagueId i, cu_targetKind = kind,
            cu_targetId = ci_resultId i, cu_teamIds = teamIds, cu_periodId = periodId, cu_action = fst revision,
            cu_acceptedAt = ci_calculatedAt i, cu_revision = ci_revision i,
            cu_previousResultId = ci_previousResultId i, cu_correctionReason = map_option rc_reason (snd revision)\<rparr>)"

text \<open>The fields every result shares, from the identity and the revision decision.\<close>

definition result_base_of ::
    "'a calculation_identity_scheme \<Rightarrow> result_status \<Rightarrow> result_lineage \<Rightarrow> string
     \<Rightarrow> audit_action \<times> result_correction option \<Rightarrow> calculation_audit \<Rightarrow> result_base" where
  "result_base_of i status lineage sourceDigest revision audit =
     \<lparr>rs_contractVersion = scoring_contract_version, rs_calculationVersion = scoring_calculation_version,
      rs_resultId = ci_resultId i, rs_accountId = ci_accountId i, rs_fantasyLeagueId = ci_fantasyLeagueId i,
      rs_status = status, rs_lineage = lineage, rs_calculatedAt = ci_calculatedAt i, rs_revision = ci_revision i,
      rs_previousResultId = ci_previousResultId i, rs_correction = snd revision, rs_sourceDigest = sourceDigest,
      rs_audit = audit\<rparr>"

section \<open>The result of a team for a period\<close>

definition availabilityUncertainty :: "period_statistics \<Rightarrow> uncertainty_code option" where
  "availabilityUncertainty s =
     (case ps_availability s of
        INCOMPLETE_GAME \<Rightarrow> Some UNCERTAIN_INCOMPLETE_GAME
      | UNVERIFIED \<Rightarrow> Some UNVERIFIED_STATISTICS_CODE
      | INSUFFICIENT_SAMPLE \<Rightarrow> Some UNCERTAIN_INSUFFICIENT_SAMPLE
      | _ \<Rightarrow> None)"

definition active_slots :: "roster_snapshot \<Rightarrow> roster_slot list" where
  "active_slots roster = filter (\<lambda>s. rs_kind s = SLOT_ACTIVE) (ro_slots roster)"

definition final_availability :: "period_statistics \<Rightarrow> bool" where
  "final_availability s \<longleftrightarrow> ps_availability s \<in> {FINAL_VERIFIED, CORRECTED_FINAL}"

definition correction_revision_of :: "period_statistics \<Rightarrow> int" where
  "correction_revision_of s = (case ps_snapshot s of None \<Rightarrow> 0 | Some x \<Rightarrow> sl_correctionRevision (ss_lineage x))"

text \<open>One statistic source; \<open>seen\<close> is the list of the sources accepted so far.\<close>

definition check_source ::
    "team_period_input \<Rightarrow> roster_snapshot \<Rightarrow> period_statistics list \<Rightarrow> period_statistics
     \<Rightarrow> scoring_thrown + period_statistics list" where
  "check_source i roster seen s =
     and_then (stable_id (ps_rosterSlotId s)) (\<lambda>_.
     and_then (stable_id (ps_fantasyPlayerEntryId s)) (\<lambda>_.
     and_then (nonnegativeInteger (ps_expectedGames s)) (\<lambda>_.
     and_then (nonnegativeInteger (ps_completedGames s)) (\<lambda>_.
     and_then (require (\<not> ps_completedGames s > ps_expectedGames s) (Scoring SC_SOURCE_CONFLICT)) (\<lambda>_.
     and_then (case ps_projectedCompletionAt s of None \<Rightarrow> Inr 0 | Some t \<Rightarrow> canonicalInstant t) (\<lambda>_.
     and_then (require (\<not> (ps_accountId s \<noteq> ci_accountId i \<or> ps_fantasyLeagueId s \<noteq> ci_fantasyLeagueId i \<or>
                ps_fantasyTeamId s \<noteq> ti_fantasyTeamId i \<or> ps_periodId s \<noteq> sp_id (ti_period i) \<or>
                ps_rosterSnapshotId s \<noteq> ro_id roster \<or> ps_rosterSlotId s \<notin> set (map rs_id (active_slots roster)) \<or>
                ps_rosterSlotId s \<in> set (map ps_rosterSlotId seen))) (Scoring SC_SOURCE_CONFLICT)) (\<lambda>_.
     and_then (require (case find (\<lambda>x. rs_id x = ps_rosterSlotId s) (active_slots roster) of
                  None \<Rightarrow> False | Some x \<Rightarrow> rs_playerEntryId x = Some (ps_fantasyPlayerEntryId s))
                (Scoring SC_ROSTER_MISMATCH)) (\<lambda>_.
     and_then (require (final_availability s = (ps_snapshot s \<noteq> None)) (Scoring SC_SOURCE_CONFLICT)) (\<lambda>_.
     and_then (require (\<not> (ps_availability s = CORRECTED_FINAL \<and> correction_revision_of s < 1))
                (Scoring SC_SOURCE_CONFLICT)) (\<lambda>_.
     and_then (require (\<not> (final_availability s \<and> ps_completedGames s \<noteq> ps_expectedGames s))
                (Scoring SC_SOURCE_CONFLICT)) (\<lambda>_.
       Inr (seen @ [s]))))))))))))"

text \<open>The variables of the loop over the active slots.\<close>

record period_tally =
  pt_categoryTotals :: "category_total list"
  pt_uncertainties :: "uncertainty list"
  pt_sources :: "scored_source list"
  pt_totalMilliPoints :: int
  pt_completedSourceCount :: int

definition start_tally :: "scoring_model \<Rightarrow> period_tally" where
  "start_tally m =
     \<lparr>pt_categoryTotals = map (\<lambda>c. \<lparr>cs_categoryId = ca_id c, cs_sourceStatistic = ca_sourceStatistic c,
        cs_units = 0, cs_milliPoints = 0\<rparr>) (fm_categories m),
      pt_uncertainties = [], pt_sources = [], pt_totalMilliPoints = 0, pt_completedSourceCount = 0\<rparr>"

definition uncertain :: "uncertainty_code \<Rightarrow> ident \<Rightarrow> ident option \<Rightarrow> period_statistics option \<Rightarrow> uncertainty" where
  "uncertain code slotId entryId s =
     \<lparr>un_code = code, un_rosterSlotId = slotId, un_fantasyPlayerEntryId = entryId,
      un_expectedGames = map_option ps_expectedGames s, un_completedGames = map_option ps_completedGames s,
      un_projectedCompletionAt = Option.bind s ps_projectedCompletionAt\<rparr>"

text \<open>
  A scored category is added to the total of its id.  The ids of a verified model's categories are
  distinct, so the total that the lookup finds is the only one with the id.
\<close>

definition add_category ::
    "category_total list \<Rightarrow> category_score \<Rightarrow> scoring_thrown + category_total list" where
  "add_category totals c =
     (case js_map_of cs_categoryId totals (cs_categoryId c) of
        None \<Rightarrow> Inl (Scoring SC_SOURCE_CONFLICT)
      | Some g \<Rightarrow>
          and_then (require (cs_sourceStatistic g = cs_sourceStatistic c) (Scoring SC_SOURCE_CONFLICT)) (\<lambda>_.
          and_then (safeAdd (cs_units g) (cs_units c)) (\<lambda>units.
          and_then (safeAdd (cs_milliPoints g) (cs_milliPoints c)) (\<lambda>points.
            Inr (map (\<lambda>t. if cs_categoryId t = cs_categoryId c then t\<lparr>cs_units := units, cs_milliPoints := points\<rparr> else t)
                   totals)))))"

definition scored_of :: "roster_slot \<Rightarrow> period_statistics \<Rightarrow> fantasy_score option \<Rightarrow> scored_source" where
  "scored_of slot s score =
     \<lparr>so_rosterSlotId = rs_id slot, so_fantasyPlayerEntryId = ps_fantasyPlayerEntryId s,
      so_availability = ps_availability s, so_expectedGames = ps_expectedGames s,
      so_completedGames = ps_completedGames s, so_projectedCompletionAt = ps_projectedCompletionAt s,
      so_score = score, so_statisticLineage = map_option ss_lineage (ps_snapshot s)\<rparr>"

definition add_score :: "period_tally \<Rightarrow> fantasy_score \<Rightarrow> scoring_thrown + period_tally" where
  "add_score v score =
     and_then (safeAdd (pt_totalMilliPoints v) (fs_totalMilliPoints score)) (\<lambda>t.
     and_then (fold_res add_category (pt_categoryTotals v) (fs_categories score)) (\<lambda>cats.
       Inr (v\<lparr>pt_totalMilliPoints := t, pt_completedSourceCount := pt_completedSourceCount v + 1,
             pt_categoryTotals := cats\<rparr>)))"

text \<open>\<open>source.snapshot!\<close> is present for a final source, as \<open>check_source\<close> has required.\<close>

definition score_slot ::
    "scoring_env \<Rightarrow> scoring_model \<Rightarrow> period_statistics list \<Rightarrow> period_tally \<Rightarrow> roster_slot
     \<Rightarrow> scoring_thrown + period_tally" where
  "score_slot env m sources v slot =
     (case rs_playerEntryId slot of
        None \<Rightarrow> Inr (v\<lparr>pt_uncertainties := pt_uncertainties v @ [uncertain EMPTY_LINEUP_SLOT (rs_id slot) None None]\<rparr>)
      | Some p \<Rightarrow>
          (case find (\<lambda>s. ps_rosterSlotId s = rs_id slot) sources of
             None \<Rightarrow> Inr (v\<lparr>pt_uncertainties := pt_uncertainties v @ [uncertain MISSING_STATISTICS (rs_id slot) (Some p) None]\<rparr>)
           | Some s \<Rightarrow>
               (case availabilityUncertainty s of
                  Some code \<Rightarrow>
                    Inr (v\<lparr>pt_uncertainties := pt_uncertainties v @
                             [uncertain code (rs_id slot) (Some (ps_fantasyPlayerEntryId s)) (Some s)],
                           pt_sources := pt_sources v @ [scored_of slot s None]\<rparr>)
                | None \<Rightarrow>
                    (case ps_snapshot s of
                       None \<Rightarrow> Inl (ScoringRules RULES_TYPE_ERROR)
                     | Some snapshot \<Rightarrow>
                         and_then (map_error ScoringRules
                             (scoreFantasyStatistics (fe_modelDigest (sg_domain env)) m snapshot)) (\<lambda>score.
                         and_then (add_score v score) (\<lambda>v'.
                           Inr (v'\<lparr>pt_sources := pt_sources v' @ [scored_of slot s (Some score)]\<rparr>)))))))"

text \<open>The latest projected completion, when every uncertainty has one.\<close>

definition latest_projection :: "uncertainty list \<Rightarrow> string option" where
  "latest_projection us =
     (if us = [] \<or> list_ex (\<lambda>u. un_projectedCompletionAt u = None) us then None
      else (let times = List.map_filter (\<lambda>u. Option.bind (un_projectedCompletionAt u) date_parse) us in
        case times of [] \<Rightarrow> None | t # ts \<Rightarrow> Some (iso_string (fold max ts t))))"

definition all_resolved :: "uncertainty list \<Rightarrow> bool" where
  "all_resolved us \<longleftrightarrow> list_all (\<lambda>u. un_code u = EMPTY_LINEUP_SLOT) us"

text \<open>The status before and with finalisation; the instants were checked to be canonical.\<close>

definition period_status :: "team_period_input \<Rightarrow> bool \<Rightarrow> scoring_thrown + result_status" where
  "period_status i resolved =
     (let open_period = time_less (ci_calculatedAt i) (sp_endsAt (ti_period i));
          waiting = (\<not> resolved \<and> time_less (ci_calculatedAt i) (sp_finalizationDeadline (ti_period i))) in
      if ti_finalize i then
        and_then (require (\<not> (open_period \<or> waiting)) (Scoring SC_RESULT_NOT_READY)) (\<lambda>_. Inr FINAL_RESULT)
      else Inr (if open_period then IN_PROGRESS_RESULT else if waiting then AWAITING_FINAL_DATA else READY_RESULT))"

definition team_lineage :: "scoring_model \<Rightarrow> scored_source list \<Rightarrow> result_lineage" where
  "team_lineage m sources =
     (let ls = List.map_filter (\<lambda>s. map_option fs_lineage (so_score s)) sources in
      \<lparr>rl_fantasyModelId = fm_modelId m, rl_fantasyModelVersionId = fm_modelVersionId m,
       rl_fantasyModelVersion = fm_version m, rl_fantasyModelDigest = fm_contentDigest m,
       rl_baseballRulesetVersionIds = uniqueSortedStrings (concat (map sc_baseballRulesetVersionIds ls)),
       rl_statisticDerivationVersions = uniqueSortedNumbers (map sc_statisticDerivationVersion ls),
       rl_statisticRulesVersions = uniqueSortedNumbers (map sc_statisticRulesVersion ls),
       rl_sourceRevisions = uniqueSortedNumbers (map sc_sourceRevision ls),
       rl_correctionRevisions = uniqueSortedNumbers (map sc_correctionRevision ls)\<rparr>)"

definition team_sources ::
    "team_period_input \<Rightarrow> roster_snapshot \<Rightarrow> scoring_model \<Rightarrow> team_source_envelope" where
  "team_sources i roster m =
     \<lparr>te_contractVersion = scoring_contract_version, te_calculationVersion = scoring_calculation_version,
      te_accountId = ci_accountId i, te_fantasyLeagueId = ci_fantasyLeagueId i, te_fantasyTeamId = ti_fantasyTeamId i,
      te_period = ti_period i, te_rosterSnapshotId = ro_id roster, te_rosterSnapshotRevision = ro_revision roster,
      te_fantasyModelVersionId = fm_modelVersionId m, te_fantasyModelDigest = fm_contentDigest m,
      te_statistics = sort_key ps_rosterSlotId (ti_statistics i)\<rparr>"

text \<open>A revision keeps the identity of the result it follows, and never reopens a final one.\<close>

definition team_result_follows ::
    "team_period_input \<Rightarrow> roster_snapshot \<Rightarrow> scoring_model \<Rightarrow> result_status \<Rightarrow> team_result \<Rightarrow> bool" where
  "team_result_follows i roster m status p \<longleftrightarrow>
     rs_accountId p = ci_accountId i \<and> rs_fantasyLeagueId p = ci_fantasyLeagueId i \<and>
     tp_fantasyTeamId p = ti_fantasyTeamId i \<and> samePeriod (tp_period p) (ti_period i) \<and>
     tp_rosterSnapshotId p = ro_id roster \<and> rl_fantasyModelVersionId (rs_lineage p) = fm_modelVersionId m \<and>
     rl_fantasyModelDigest (rs_lineage p) = fm_contentDigest m \<and> \<not> (rs_status p = FINAL_RESULT \<and> status \<noteq> FINAL_RESULT)"

definition check_ancestry ::
    "team_period_input \<Rightarrow> fantasy_league \<Rightarrow> fantasy_team \<Rightarrow> roster_snapshot \<Rightarrow> scoring_model \<Rightarrow> scoring_thrown + unit" where
  "check_ancestry i league team roster m =
     and_then (require (\<not> (ci_accountId i \<noteq> fl_accountId league \<or> ci_accountId i \<noteq> ft_accountId team \<or>
                ci_accountId i \<noteq> ro_accountId roster \<or> ci_accountId i \<noteq> sp_accountId (ti_period i)))
                (Scoring SC_ACCOUNT_MISMATCH)) (\<lambda>_.
     and_then (require (\<not> (ci_fantasyLeagueId i \<noteq> fl_id league \<or> ci_fantasyLeagueId i \<noteq> ft_fantasyLeagueId team \<or>
                ci_fantasyLeagueId i \<noteq> ro_fantasyLeagueId roster \<or>
                ci_fantasyLeagueId i \<noteq> sp_fantasyLeagueId (ti_period i) \<or>
                ti_fantasyTeamId i \<noteq> ft_id team \<or> ti_fantasyTeamId i \<noteq> ro_fantasyTeamId roster))
                (Scoring SC_LEAGUE_MISMATCH)) (\<lambda>_.
     and_then (require (\<not> (fl_lifecycle league \<notin> {LEAGUE_ACTIVE, LEAGUE_COMPLETED} \<or>
                ft_lifecycle team \<notin> {TEAM_ACTIVE, TEAM_WITHDRAWN})) (Scoring SC_LEAGUE_MISMATCH)) (\<lambda>_.
       require (rulesMatch league roster m) (Scoring SC_RULES_MISMATCH))))"

definition team_result_body_of ::
    "team_period_input \<Rightarrow> roster_snapshot \<Rightarrow> period_tally \<Rightarrow> result_base \<Rightarrow> team_result_body" where
  "team_result_body_of i roster v b =
     result_base.extend b
      \<lparr>tp_fantasyTeamId = ti_fantasyTeamId i, tp_period = ti_period i, tp_rosterSnapshotId = ro_id roster,
       tp_rosterSnapshotRevision = ro_revision roster, tp_totalMilliPoints = pt_totalMilliPoints v,
       tp_categoryTotals = pt_categoryTotals v,
       tp_expectedSourceCount = int (length (filter (\<lambda>s. rs_playerEntryId s \<noteq> None) (active_slots roster))),
       tp_completedSourceCount = pt_completedSourceCount v,
       tp_projectedCompletionAt = latest_projection (pt_uncertainties v), tp_uncertainties = pt_uncertainties v,
       tp_sources = pt_sources v,
       tp_finalizedAt = (if rs_status b = FINAL_RESULT then Some (ci_calculatedAt i) else None)\<rparr>"

definition calculateFantasyTeamPeriodResult ::
    "scoring_env \<Rightarrow> team_period_input \<Rightarrow> fantasy_league \<Rightarrow> fantasy_team \<Rightarrow> roster_snapshot \<Rightarrow> scoring_model
     \<Rightarrow> fantasy_authority \<Rightarrow> team_result option \<Rightarrow> scoring_thrown + team_result" where
  "calculateFantasyTeamPeriodResult env i league team roster m authority previous =
     and_then (check_all stable_id [ci_resultId i, ci_accountId i, ci_fantasyLeagueId i, ti_fantasyTeamId i]) (\<lambda>_.
     and_then (validateScoringAuthority env authority (ci_accountId i) (ci_fantasyLeagueId i)) (\<lambda>_.
     and_then (validatePeriod (ti_period i)) (\<lambda>_.
     and_then (canonicalInstant (ci_calculatedAt i)) (\<lambda>_.
     and_then (map_error ScoringRules (verifyFantasyScoringModel (fe_modelDigest (sg_domain env)) m)) (\<lambda>_.
     and_then (check_ancestry i league team roster m) (\<lambda>_.
     and_then (fold_res (check_source i roster) [] (ti_statistics i)) (\<lambda>sources.
     and_then (fold_res (score_slot env m sources) (start_tally m) (active_slots roster)) (\<lambda>v.
     and_then (period_status i (all_resolved (pt_uncertainties v))) (\<lambda>status.
     (let sourceDigest = sg_teamSource env (team_sources i roster m) in
     and_then (require (case previous of None \<Rightarrow> True | Some p \<Rightarrow> team_result_follows i roster m status p)
                (Scoring SC_REVISION_CONFLICT)) (\<lambda>_.
     and_then (revisionDecision i sourceDigest status
                (map_option (\<lambda>p. previous_of p (tp_resultDigest p)) previous)) (\<lambda>revision.
     and_then (calculationAudit i authority TEAM_PERIOD [ti_fantasyTeamId i] (Some (sp_id (ti_period i))) revision) (\<lambda>audit.
     (let body = team_result_body_of i roster v
            (result_base_of i status (team_lineage m (pt_sources v)) sourceDigest revision audit) in
       Inr (team_result_body.extend body \<lparr>tp_resultDigest = sg_teamResult env body\<rparr>)))))))))))))))"

section \<open>Matchups\<close>

definition teamTotal :: "team_result \<Rightarrow> team_total" where
  "teamTotal r = \<lparr>tt_fantasyTeamId = tp_fantasyTeamId r, tt_totalMilliPoints = tp_totalMilliPoints r,
     tt_categoryTotals = tp_categoryTotals r, tt_teamResultId = rs_resultId r, tt_teamResultRevision = rs_revision r,
     tt_teamResultDigest = tp_resultDigest r\<rparr>"

record matchup_decision =
  md_outcome :: matchup_outcome
  md_winner :: "ident option"
  md_loser :: "ident option"
  md_tieBreak :: tie_break

definition decide_matchup :: "matchup_input \<Rightarrow> team_result \<Rightarrow> team_result \<Rightarrow> result_status \<Rightarrow> matchup_decision" where
  "decide_matchup i r1 r2 status =
     (let t1 = tp_fantasyTeamId r1; t2 = tp_fantasyTeamId r2;
          p1 = tp_totalMilliPoints r1; p2 = tp_totalMilliPoints r2;
          first = (\<lambda>b. \<lparr>md_outcome = FIRST_WIN, md_winner = Some t1, md_loser = Some t2, md_tieBreak = b\<rparr>);
          second = (\<lambda>b. \<lparr>md_outcome = SECOND_WIN, md_winner = Some t2, md_loser = Some t1, md_tieBreak = b\<rparr>) in
      if status \<noteq> FINAL_RESULT then
        \<lparr>md_outcome = UNRESOLVED, md_winner = None, md_loser = None, md_tieBreak = NO_TIE_BREAK\<rparr>
      else if p1 > p2 then first NO_TIE_BREAK
      else if p1 < p2 then second NO_TIE_BREAK
      else if sp_phase (tp_period r1) = REGULAR_SEASON then
        \<lparr>md_outcome = MATCHUP_TIE, md_winner = None, md_loser = None, md_tieBreak = NO_TIE_BREAK\<rparr>
      else if mi_firstPredeclaredSeed i < mi_secondPredeclaredSeed i then first HIGHER_PREDECLARED_SEED
      else second HIGHER_PREDECLARED_SEED)"

definition result_reference :: "team_result \<Rightarrow> source_reference" where
  "result_reference r = \<lparr>sf_id = rs_resultId r, sf_revision = rs_revision r, sf_digest = tp_resultDigest r\<rparr>"

definition matchup_follows ::
    "matchup_input \<Rightarrow> team_result \<Rightarrow> team_result \<Rightarrow> result_lineage \<Rightarrow> result_status \<Rightarrow> matchup \<Rightarrow> bool" where
  "matchup_follows i r1 r2 lineage status p \<longleftrightarrow>
     rs_accountId p = ci_accountId i \<and> rs_fantasyLeagueId p = ci_fantasyLeagueId i \<and>
     samePeriod (mt_period p) (tp_period r1) \<and> tt_fantasyTeamId (mt_first p) = tp_fantasyTeamId r1 \<and>
     tt_fantasyTeamId (mt_second p) = tp_fantasyTeamId r2 \<and> sameFantasyModelLineage (rs_lineage p) lineage \<and>
     \<not> (rs_status p = FINAL_RESULT \<and> status \<noteq> FINAL_RESULT)"

definition calculateFantasyMatchup ::
    "scoring_env \<Rightarrow> matchup_input \<Rightarrow> team_result \<Rightarrow> team_result \<Rightarrow> fantasy_authority \<Rightarrow> matchup option
     \<Rightarrow> scoring_thrown + matchup" where
  "calculateFantasyMatchup env i r1 r2 authority previous =
     and_then (stable_id (ci_resultId i)) (\<lambda>_.
     and_then (validateScoringAuthority env authority (ci_accountId i) (ci_fantasyLeagueId i)) (\<lambda>_.
     and_then (canonicalInstant (ci_calculatedAt i)) (\<lambda>_.
     and_then (positiveInteger (mi_firstPredeclaredSeed i)) (\<lambda>_.
     and_then (positiveInteger (mi_secondPredeclaredSeed i)) (\<lambda>_.
     and_then (require (\<not> (rs_accountId r1 \<noteq> ci_accountId i \<or> rs_accountId r2 \<noteq> ci_accountId i))
                (Scoring SC_ACCOUNT_MISMATCH)) (\<lambda>_.
     and_then (require (\<not> (rs_fantasyLeagueId r1 \<noteq> ci_fantasyLeagueId i \<or> rs_fantasyLeagueId r2 \<noteq> ci_fantasyLeagueId i \<or>
                tp_fantasyTeamId r1 = tp_fantasyTeamId r2 \<or> \<not> samePeriod (tp_period r1) (tp_period r2)))
                (Scoring SC_MATCHUP_INVALID)) (\<lambda>_.
     and_then (require (\<not> (mi_firstPredeclaredSeed i = mi_secondPredeclaredSeed i \<and>
                sp_phase (tp_period r1) \<noteq> REGULAR_SEASON)) (Scoring SC_MATCHUP_INVALID)) (\<lambda>_.
     (let status = (if rs_status r1 = FINAL_RESULT \<and> rs_status r2 = FINAL_RESULT then FINAL_RESULT else IN_PROGRESS_RESULT);
          d = decide_matchup i r1 r2 status in
     and_then (aggregateResultLineage [rs_lineage r1, rs_lineage r2] SC_MATCHUP_INVALID) (\<lambda>lineage.
     (let sourceDigest = sg_matchupSource env \<lparr>me_first = result_reference r1, me_second = result_reference r2,
            me_firstPredeclaredSeed = mi_firstPredeclaredSeed i, me_secondPredeclaredSeed = mi_secondPredeclaredSeed i\<rparr> in
     and_then (require (case previous of None \<Rightarrow> True | Some p \<Rightarrow> matchup_follows i r1 r2 lineage status p)
                (Scoring SC_REVISION_CONFLICT)) (\<lambda>_.
     and_then (revisionDecision i sourceDigest status
                (map_option (\<lambda>p. previous_of p (mt_resultDigest p)) previous)) (\<lambda>revision.
     and_then (calculationAudit i authority MATCHUP [tp_fantasyTeamId r1, tp_fantasyTeamId r2]
                (Some (sp_id (tp_period r1))) revision) (\<lambda>audit.
     (let body = result_base.extend (result_base_of i status lineage sourceDigest revision audit)
            \<lparr>mt_period = tp_period r1, mt_first = teamTotal r1, mt_second = teamTotal r2, mt_outcome = md_outcome d,
             mt_winnerTeamId = md_winner d, mt_loserTeamId = md_loser d, mt_tieBreak = md_tieBreak d,
             mt_firstPredeclaredSeed = mi_firstPredeclaredSeed i, mt_secondPredeclaredSeed = mi_secondPredeclaredSeed i\<rparr> in
       Inr (matchup_body.extend body \<lparr>mt_resultDigest = sg_matchupResult env body\<rparr>))))))))))))))))"

section \<open>Standings\<close>

datatype game_letter = LETTER_W | LETTER_L | LETTER_T

fun letter_char :: "game_letter \<Rightarrow> char" where
  "letter_char LETTER_W = CHR ''W''"
| "letter_char LETTER_L = CHR ''L''"
| "letter_char LETTER_T = CHR ''T''"

record standing = standing_team +
  sg_gamesPlayed :: int
  sg_wins :: int
  sg_losses :: int
  sg_ties :: int
  sg_pointsForMilli :: int
  sg_pointsAgainstMilli :: int
  sg_categoryTotals :: "(ident \<times> category_total) list"
  sg_outcomes :: "(int \<times> game_letter) list"

definition start_standing :: "standing_team \<Rightarrow> standing" where
  "start_standing t = standing_team.extend t
     \<lparr>sg_gamesPlayed = 0, sg_wins = 0, sg_losses = 0, sg_ties = 0, sg_pointsForMilli = 0,
      sg_pointsAgainstMilli = 0, sg_categoryTotals = [], sg_outcomes = []\<rparr>"

definition addCategory ::
    "(ident \<times> category_total) list \<Rightarrow> category_total \<Rightarrow> scoring_thrown + (ident \<times> category_total) list" where
  "addCategory totals c =
     (let cur = map_of totals (cs_categoryId c) in
      and_then (require (case cur of None \<Rightarrow> True | Some g \<Rightarrow> cs_sourceStatistic g = cs_sourceStatistic c)
                 (Scoring SC_STANDINGS_INVALID)) (\<lambda>_.
      and_then (safeAdd (case cur of None \<Rightarrow> 0 | Some g \<Rightarrow> cs_units g) (cs_units c)) (\<lambda>units.
      and_then (safeAdd (case cur of None \<Rightarrow> 0 | Some g \<Rightarrow> cs_milliPoints g) (cs_milliPoints c)) (\<lambda>points.
        Inr (AList.update (cs_categoryId c) \<lparr>cs_categoryId = cs_categoryId c, cs_sourceStatistic = cs_sourceStatistic c,
               cs_units = units, cs_milliPoints = points\<rparr> totals)))))"

definition addCategories ::
    "(ident \<times> category_total) list \<Rightarrow> category_total list \<Rightarrow> scoring_thrown + (ident \<times> category_total) list" where
  "addCategories totals cs = fold_res addCategory totals cs"

text \<open>The outcomes of one sequence keep their order, as a stable sort does.\<close>

definition streak :: "(int \<times> game_letter) list \<Rightarrow> string" where
  "streak values =
     (case rev (sort_key fst values) of
        [] \<Rightarrow> ''-''
      | x # xs \<Rightarrow> letter_char (snd x) #
          string_of_int (int (length (takeWhile (\<lambda>v. snd v = snd x) (x # xs)))))"

text \<open>The variables of the loop over the matchups; the standings are in the order of the input's teams.\<close>

record standings_loop =
  sl_standings :: "standing list"
  sl_seen :: "string list"
  sl_completed :: int
  sl_pending :: int

definition find_standing :: "standing list \<Rightarrow> ident \<Rightarrow> standing option" where
  "find_standing ss t = find (\<lambda>s. st_fantasyTeamId s = t) ss"

definition put_standing :: "standing list \<Rightarrow> standing \<Rightarrow> standing list" where
  "put_standing ss u = map (\<lambda>s. if st_fantasyTeamId s = st_fantasyTeamId u then u else s) ss"

definition mark_seen :: "matchup \<Rightarrow> string list \<Rightarrow> ident \<Rightarrow> scoring_thrown + string list" where
  "mark_seen m seen teamId =
     (let key = teamId @ '':'' @ string_of_int (sp_sequence (mt_period m)) in
      and_then (require (key \<notin> set seen) (Scoring SC_STANDINGS_INVALID)) (\<lambda>_. Inr (seen @ [key])))"

definition add_points :: "int \<Rightarrow> int \<Rightarrow> standing \<Rightarrow> scoring_thrown + standing" where
  "add_points own other s =
     and_then (safeAdd (sg_pointsForMilli s) own) (\<lambda>pf.
     and_then (safeAdd (sg_pointsAgainstMilli s) other) (\<lambda>pa.
       Inr (s\<lparr>sg_gamesPlayed := sg_gamesPlayed s + 1, sg_pointsForMilli := pf, sg_pointsAgainstMilli := pa\<rparr>)))"

definition add_totals :: "category_total list \<Rightarrow> standing \<Rightarrow> scoring_thrown + standing" where
  "add_totals cs s =
     and_then (addCategories (sg_categoryTotals s) cs) (\<lambda>totals. Inr (s\<lparr>sg_categoryTotals := totals\<rparr>))"

definition add_letter :: "int \<Rightarrow> game_letter \<Rightarrow> standing \<Rightarrow> standing" where
  "add_letter seq l s =
     s\<lparr>sg_wins := sg_wins s + (if l = LETTER_W then 1 else 0), sg_losses := sg_losses s + (if l = LETTER_L then 1 else 0),
       sg_ties := sg_ties s + (if l = LETTER_T then 1 else 0), sg_outcomes := sg_outcomes s @ [(seq, l)]\<rparr>"

definition letters_of :: "matchup \<Rightarrow> standing \<Rightarrow> standing \<Rightarrow> scoring_thrown + (game_letter \<times> game_letter)" where
  "letters_of m f s =
     (if mt_outcome m = MATCHUP_TIE then Inr (LETTER_T, LETTER_T)
      else if mt_winnerTeamId m = Some (st_fantasyTeamId f) then Inr (LETTER_W, LETTER_L)
      else if mt_winnerTeamId m = Some (st_fantasyTeamId s) then Inr (LETTER_L, LETTER_W)
      else Inl (Scoring SC_STANDINGS_INVALID))"

definition count_matchup :: "matchup \<Rightarrow> standing \<Rightarrow> standing \<Rightarrow> scoring_thrown + (standing \<times> standing)" where
  "count_matchup m f s =
     (let p1 = tt_totalMilliPoints (mt_first m); p2 = tt_totalMilliPoints (mt_second m); seq = sp_sequence (mt_period m) in
      and_then (add_points p1 p2 f) (\<lambda>f.
      and_then (add_points p2 p1 s) (\<lambda>s.
      and_then (add_totals (tt_categoryTotals (mt_first m)) f) (\<lambda>f.
      and_then (add_totals (tt_categoryTotals (mt_second m)) s) (\<lambda>s.
      and_then (letters_of m f s) (\<lambda>(lf, ls).
        Inr (add_letter seq lf f, add_letter seq ls s)))))))"

definition standings_step ::
    "standings_input \<Rightarrow> standings_loop \<Rightarrow> matchup \<Rightarrow> scoring_thrown + standings_loop" where
  "standings_step i v m =
     and_then (require (\<not> (rs_accountId m \<noteq> ci_accountId i \<or> rs_fantasyLeagueId m \<noteq> ci_fantasyLeagueId i))
                (Scoring SC_ACCOUNT_MISMATCH)) (\<lambda>_.
     and_then (require (sp_phase (mt_period m) = REGULAR_SEASON) (Scoring SC_STANDINGS_INVALID)) (\<lambda>_.
     (case (find_standing (sl_standings v) (tt_fantasyTeamId (mt_first m)),
            find_standing (sl_standings v) (tt_fantasyTeamId (mt_second m))) of
        (Some f, Some s) \<Rightarrow>
          and_then (fold_res (mark_seen m) (sl_seen v) [st_fantasyTeamId f, st_fantasyTeamId s]) (\<lambda>seen.
            if rs_status m \<noteq> FINAL_RESULT then Inr (v\<lparr>sl_seen := seen, sl_pending := sl_pending v + 1\<rparr>)
            else and_then (count_matchup m f s) (\<lambda>(f', s').
              Inr (v\<lparr>sl_seen := seen, sl_completed := sl_completed v + 1,
                    sl_standings := put_standing (put_standing (sl_standings v) f') s'\<rparr>)))
      | _ \<Rightarrow> Inl (Scoring SC_STANDINGS_INVALID))))"

definition standing_points :: "standing \<Rightarrow> int" where
  "standing_points s = sg_wins s * 2 + sg_ties s"

definition differential :: "standing \<Rightarrow> int" where
  "differential s = sg_pointsForMilli s - sg_pointsAgainstMilli s"

definition standing_key :: "standing \<Rightarrow> int \<times> int \<times> int \<times> int \<times> ident" where
  "standing_key s = (- standing_points s, - differential s, - sg_pointsForMilli s, st_predeclaredSeed s, st_fantasyTeamId s)"

text \<open>
  The comparison of two standings computes the differentials of both and throws when one leaves the
  safe integers.  There are at least two standings, so that every one of them is compared.
\<close>

definition order_standings :: "standing list \<Rightarrow> scoring_thrown + standing list" where
  "order_standings ss =
     and_then (check_all (\<lambda>s. and_then (safeDifference (sg_pointsForMilli s) (sg_pointsAgainstMilli s)) (\<lambda>_. Inr ())) ss) (\<lambda>_.
       Inr (sort_key standing_key ss))"

definition standing_record_of :: "int \<Rightarrow> result_status \<Rightarrow> nat \<Rightarrow> standing \<Rightarrow> standing_record" where
  "standing_record_of playoffTeamCount status index s =
     (let rank = int index + 1 in
      \<lparr>sr_rank = rank, sr_fantasyTeamId = st_fantasyTeamId s, sr_predeclaredSeed = st_predeclaredSeed s,
       sr_gamesPlayed = sg_gamesPlayed s, sr_wins = sg_wins s, sr_losses = sg_losses s, sr_ties = sg_ties s,
       sr_standingPoints = standing_points s, sr_pointsForMilli = sg_pointsForMilli s,
       sr_pointsAgainstMilli = sg_pointsAgainstMilli s, sr_pointsDifferentialMilli = differential s,
       sr_categoryTotals = sort_key cs_categoryId (map snd (sg_categoryTotals s)),
       sr_currentStreak = streak (sg_outcomes s),
       sr_playoffQualification = (if rank \<le> playoffTeamCount then (if status = FINAL_RESULT then QUALIFIED else CURRENT_CUTOFF)
                                  else NOT_QUALIFIED)\<rparr>)"

fun records_from :: "int \<Rightarrow> result_status \<Rightarrow> nat \<Rightarrow> standing list \<Rightarrow> standing_record list" where
  "records_from n status k [] = []"
| "records_from n status k (s # ss) = standing_record_of n status k s # records_from n status (Suc k) ss"

definition source_matchups :: "matchup list \<Rightarrow> source_reference list" where
  "source_matchups ms =
     map (\<lambda>m. \<lparr>sf_id = rs_resultId m, sf_revision = rs_revision m, sf_digest = mt_resultDigest m\<rparr>)
       (sort_key (\<lambda>m. (sp_sequence (mt_period m), rs_resultId m)) ms)"

definition standings_follow ::
    "standings_input \<Rightarrow> result_lineage \<Rightarrow> result_status \<Rightarrow> standings_result \<Rightarrow> bool" where
  "standings_follow i lineage status p \<longleftrightarrow>
     rs_accountId p = ci_accountId i \<and> rs_fantasyLeagueId p = ci_fantasyLeagueId i \<and>
     sameFantasyModelLineage (rs_lineage p) lineage \<and> \<not> (rs_status p = FINAL_RESULT \<and> status \<noteq> FINAL_RESULT)"

definition calculateFantasyStandings ::
    "scoring_env \<Rightarrow> standings_input \<Rightarrow> matchup list \<Rightarrow> fantasy_authority \<Rightarrow> standings_result option
     \<Rightarrow> scoring_thrown + standings_result" where
  "calculateFantasyStandings env i ms authority previous =
     and_then (stable_id (ci_resultId i)) (\<lambda>_.
     and_then (validateScoringAuthority env authority (ci_accountId i) (ci_fantasyLeagueId i)) (\<lambda>_.
     and_then (canonicalInstant (ci_calculatedAt i)) (\<lambda>_.
     and_then (nonnegativeInteger (si_playoffTeamCount i)) (\<lambda>_.
     and_then (require (\<not> (length (si_teams i) < 2 \<or> si_playoffTeamCount i > int (length (si_teams i)) \<or>
                \<not> distinct (map st_fantasyTeamId (si_teams i)) \<or> \<not> distinct (map st_predeclaredSeed (si_teams i))))
                (Scoring SC_STANDINGS_INVALID)) (\<lambda>_.
     and_then (aggregateResultLineage (map rs_lineage ms) SC_STANDINGS_INVALID) (\<lambda>lineage.
     and_then (check_all (\<lambda>t. and_then (stable_id (st_fantasyTeamId t)) (\<lambda>_. positiveInteger (st_predeclaredSeed t)))
                (si_teams i)) (\<lambda>_.
     and_then (fold_res (standings_step i) \<lparr>sl_standings = map start_standing (si_teams i), sl_seen = [],
                sl_completed = 0, sl_pending = 0\<rparr> ms) (\<lambda>v.
     and_then (order_standings (sl_standings v)) (\<lambda>ordered.
     (let status = (if si_regularSeasonComplete i \<and> sl_pending v = 0 then FINAL_RESULT else IN_PROGRESS_RESULT);
          records = records_from (si_playoffTeamCount i) status 0 ordered;
          sources = source_matchups ms;
          sourceDigest = sg_standingsSource env \<lparr>se_regularSeasonComplete = si_regularSeasonComplete i,
            se_playoffTeamCount = si_playoffTeamCount i, se_teams = sort_key st_fantasyTeamId (si_teams i),
            se_sourceMatchups = sources\<rparr> in
     and_then (require (case previous of None \<Rightarrow> True | Some p \<Rightarrow> standings_follow i lineage status p)
                (Scoring SC_REVISION_CONFLICT)) (\<lambda>_.
     and_then (revisionDecision i sourceDigest status
                (map_option (\<lambda>p. previous_of p (sd_resultDigest p)) previous)) (\<lambda>revision.
     and_then (calculationAudit i authority STANDINGS (map sr_fantasyTeamId records) None revision) (\<lambda>audit.
     (let body = result_base.extend (result_base_of i status lineage sourceDigest revision audit)
            \<lparr>sd_throughPeriodSequence = fold max (map (\<lambda>m. sp_sequence (mt_period m)) ms) 0,
             sd_playoffTeamCount = si_playoffTeamCount i, sd_completedMatchupCount = sl_completed v,
             sd_pendingMatchupCount = sl_pending v, sd_records = records, sd_sourceMatchups = sources\<rparr> in
       Inr (standings_body.extend body \<lparr>sd_resultDigest = sg_standingsResult env body\<rparr>)))))))))))))))"

section \<open>Totals of a team's period\<close>

lemma sum_map_key_update:
  fixes f :: "'a \<Rightarrow> int"
  assumes "distinct (map k xs)" and "g \<in> set xs" and "k g = a"
  shows "sum_list (map f (map (\<lambda>x. if k x = a then u x else x) xs)) = sum_list (map f xs) - f g + f (u g)"
  using assms(1,2)
proof (induction xs)
  case (Cons x xs)
  show ?case
  proof (cases "k x = a")
    case True
    then have "x = g" using Cons.prems distinct_key_eqD [OF Cons.prems(1), of x g] assms(3) by simp
    moreover have "map (\<lambda>x. if k x = a then u x else x) xs = xs"
    proof (rule map_idI)
      fix y assume "y \<in> set xs"
      then have "k y \<noteq> a" using Cons.prems(1) True by (metis distinct.simps(2) image_eqI list.set_map list.simps(9))
      then show "(if k y = a then u y else y) = y" by simp
    qed
    ultimately show ?thesis using True by simp
  next
    case False
    then have "g \<noteq> x" using assms(3) by auto
    with Cons show ?thesis using False by simp
  qed
qed simp

lemma safeAdd_Inr: "safeAdd l r = Inr n \<longleftrightarrow> safe_int (l + r) \<and> n = l + r"
  by (auto simp: safeAdd_def result_simps)

lemma add_category_Inr:
  assumes "add_category totals c = Inr totals'" and "distinct (map cs_categoryId totals)"
  shows "map cs_categoryId totals' = map cs_categoryId totals \<and>
    sum_list (map cs_milliPoints totals') = sum_list (map cs_milliPoints totals) + cs_milliPoints c \<and>
    sum_list (map cs_units totals') = sum_list (map cs_units totals) + cs_units c"
proof -
  from assms(1) obtain g where g: "js_map_of cs_categoryId totals (cs_categoryId c) = Some g"
    and t: "totals' = map (\<lambda>t. if cs_categoryId t = cs_categoryId c
      then t\<lparr>cs_units := cs_units g + cs_units c, cs_milliPoints := cs_milliPoints g + cs_milliPoints c\<rparr> else t) totals"
    by (auto simp: add_category_def result_simps safeAdd_Inr split: option.splits)
  note mem = js_map_of_SomeD [OF g]
  have "map cs_categoryId totals' = map cs_categoryId totals" by (simp add: t)
  moreover have "sum_list (map cs_milliPoints totals') = sum_list (map cs_milliPoints totals) + cs_milliPoints c"
    unfolding t by (subst sum_map_key_update [where g = g]) (use mem assms(2) in simp_all)
  moreover have "sum_list (map cs_units totals') = sum_list (map cs_units totals) + cs_units c"
    unfolding t by (subst sum_map_key_update [where g = g]) (use mem assms(2) in simp_all)
  ultimately show ?thesis by simp
qed

lemma add_categories_Inr:
  assumes "fold_res add_category totals cs = Inr totals'" and "distinct (map cs_categoryId totals)"
  shows "map cs_categoryId totals' = map cs_categoryId totals \<and>
    sum_list (map cs_milliPoints totals') = sum_list (map cs_milliPoints totals) + sum_list (map cs_milliPoints cs)"
  using assms
proof (induction cs arbitrary: totals)
  case (Cons c cs)
  then obtain t1 where t1: "add_category totals c = Inr t1" "fold_res add_category t1 cs = Inr totals'"
    by (auto simp: result_simps)
  note step = add_category_Inr [OF t1(1) Cons.prems(2)]
  with Cons.IH [OF t1(2)] Cons.prems(2) show ?case by simp
qed simp

lemma score_total_categories:
  assumes "scoreFantasyStatistics digest m s = Inr r"
  shows "fs_totalMilliPoints r = sum_list (map cs_milliPoints (fs_categories r))" and "safe_int (fs_totalMilliPoints r)"
  using score_fold [OF score_inversion(1) [OF assms]] by (simp_all add: comp_def safe_int_def max_safe_integer_def)

definition scored :: "scored_source \<Rightarrow> bool" where
  "scored s \<longleftrightarrow> so_score s \<noteq> None"

text \<open>What the loop over the active slots has established after a prefix of them.\<close>

definition tally_inv :: "scoring_model \<Rightarrow> roster_slot list \<Rightarrow> period_tally \<Rightarrow> bool" where
  "tally_inv m ss v \<longleftrightarrow> map cs_categoryId (pt_categoryTotals v) = map ca_id (fm_categories m) \<and>
     pt_totalMilliPoints v = sum_list (map cs_milliPoints (pt_categoryTotals v)) \<and>
     pt_totalMilliPoints v = sum_list (map fs_totalMilliPoints (List.map_filter so_score (pt_sources v))) \<and>
     safe_int (pt_totalMilliPoints v) \<and>
     pt_completedSourceCount v = int (length (filter scored (pt_sources v))) \<and>
     mset (map rs_id ss) = mset (map un_rosterSlotId (pt_uncertainties v)) + mset (map so_rosterSlotId (filter scored (pt_sources v)))"

lemma tally_start: "tally_inv m [] (start_tally m)"
  by (simp add: tally_inv_def start_tally_def safe_int_def max_safe_integer_def comp_def)

lemma tally_step:
  assumes "score_slot env m sources v s = Inr v'" and inv: "tally_inv m ss v" and d: "distinct (map ca_id (fm_categories m))"
  shows "tally_inv m (ss @ [s]) v'"
proof (cases "rs_playerEntryId s")
  case None
  with assms show ?thesis by (auto simp: score_slot_def tally_inv_def uncertain_def)
next
  case (Some p)
  show ?thesis
  proof (cases "find (\<lambda>x. ps_rosterSlotId x = rs_id s) sources")
    case None
    with assms Some show ?thesis by (auto simp: score_slot_def tally_inv_def uncertain_def)
  next
    case src: (Some x)
    show ?thesis
    proof (cases "availabilityUncertainty x")
      case (Some code)
      with assms \<open>rs_playerEntryId s = Some p\<close> src show ?thesis
        by (auto simp: score_slot_def tally_inv_def uncertain_def scored_of_def scored_def)
    next
      case None
      with assms(1) Some src obtain snapshot score v1 where
          score: "scoreFantasyStatistics (fe_modelDigest (sg_domain env)) m snapshot = Inr score"
        and v1: "add_score v score = Inr v1"
        and v': "v' = v1\<lparr>pt_sources := pt_sources v1 @ [scored_of s x (Some score)]\<rparr>"
        by (auto simp: score_slot_def result_simps split: option.splits)
      from v1 obtain cats where cats: "fold_res add_category (pt_categoryTotals v) (fs_categories score) = Inr cats"
        and sum: "safe_int (pt_totalMilliPoints v + fs_totalMilliPoints score)"
        and v1: "v1 = v\<lparr>pt_totalMilliPoints := pt_totalMilliPoints v + fs_totalMilliPoints score,
          pt_completedSourceCount := pt_completedSourceCount v + 1, pt_categoryTotals := cats\<rparr>"
        by (auto simp: add_score_def result_simps safeAdd_Inr)
      have "distinct (map cs_categoryId (pt_categoryTotals v))" using inv d by (simp add: tally_inv_def)
      note totals = add_categories_Inr [OF cats this] and total = score_total_categories(1) [OF score]
      show ?thesis
        using inv totals total sum by (simp add: tally_inv_def v' v1 scored_of_def scored_def)
    qed
  qed
qed

lemma tally_slots:
  assumes "fold_res (score_slot env m sources) v ss = Inr v'" and "tally_inv m done_slots v" and "distinct (map ca_id (fm_categories m))"
  shows "tally_inv m (done_slots @ ss) v'"
  using assms
proof (induction ss arbitrary: v done_slots)
  case (Cons s ss)
  then obtain v1 where "score_slot env m sources v s = Inr v1" "fold_res (score_slot env m sources) v1 ss = Inr v'"
    by (auto simp: result_simps)
  with Cons.IH [of v1 "done_slots @ [s]"] tally_step [of env m sources v s v1 done_slots] Cons.prems show ?case by simp
qed simp

lemma team_result_Inr:
  assumes "calculateFantasyTeamPeriodResult env i league team roster m authority previous = Inr r"
  obtains v sources status revision audit where "fold_res (check_source i roster) [] (ti_statistics i) = Inr sources"
    and "fold_res (score_slot env m sources) (start_tally m) (active_slots roster) = Inr v"
    and "period_status i (all_resolved (pt_uncertainties v)) = Inr status"
    and "case previous of None \<Rightarrow> True | Some p \<Rightarrow> team_result_follows i roster m status p"
    and "revisionDecision i (sg_teamSource env (team_sources i roster m)) status
           (map_option (\<lambda>p. previous_of p (tp_resultDigest p)) previous) = Inr revision"
    and "team_result_body.truncate r = team_result_body_of i roster v
      (result_base_of i status (team_lineage m (pt_sources v)) (sg_teamSource env (team_sources i roster m)) revision audit)"
    and "tp_resultDigest r = sg_teamResult env (team_result_body.truncate r)"
    and "model_wf m" and "rulesMatch league roster m" and "ci_accountId i = fl_accountId league"
    and "assertFantasyAuthority (sg_domain env) authority (ci_accountId i) FANTASY_SCORING_CALCULATE (Some (ci_fantasyLeagueId i)) None = Inr ()"
proof -
  have trunc: "team_result_body.truncate (team_result_body.extend b x) = b" for b x
    by (cases b) (simp add: team_result_body.defs)
  have digest: "tp_resultDigest (team_result_body.extend b \<lparr>tp_resultDigest = d\<rparr>) = d" for b d
    by (simp add: team_result_body.defs)
  show thesis
    using assms unfolding calculateFantasyTeamPeriodResult_def Let_def
  proof (elim and_thenE, goal_cases)
    case (1 u1 u2 u3 u4 u5 u6 sources v status u7 revision audit)
    have "rulesMatch league roster m" "ci_accountId i = fl_accountId league"
      using 1(6) by (auto simp: check_ancestry_def result_simps)
    with 1 show ?case
      by (intro that [of sources v status revision audit])
        (auto simp: trunc digest validateScoringAuthority_def require_Inr_iff map_error_Inr_iff dest: verified_model_wf)
  qed
qed

section \<open>Matchups\<close>

lemma sameFantasyModelLineage_refl [simp]: "sameFantasyModelLineage l l"
  by (simp add: sameFantasyModelLineage_def)

lemma sameFantasyModelLineage_sym: "sameFantasyModelLineage l r \<longleftrightarrow> sameFantasyModelLineage r l"
  by (auto simp: sameFantasyModelLineage_def)

lemma aggregate_two:
  "is_ok (aggregateResultLineage [l1, l2] code) \<longleftrightarrow> sameFantasyModelLineage l1 l2"
  by (auto simp: aggregateResultLineage_def sameFantasyModelLineage_sym require_def is_ok_def)

lemma matchup_Inr:
  assumes "calculateFantasyMatchup env i r1 r2 authority previous = Inr m"
  obtains lineage revision audit status where
      "status = (if rs_status r1 = FINAL_RESULT \<and> rs_status r2 = FINAL_RESULT then FINAL_RESULT else IN_PROGRESS_RESULT)"
    and "aggregateResultLineage [rs_lineage r1, rs_lineage r2] SC_MATCHUP_INVALID = Inr lineage"
    and "result_base.truncate m = result_base_of i status lineage (rs_sourceDigest m) revision audit"
    and "mt_period m = tp_period r1" "mt_first m = teamTotal r1" "mt_second m = teamTotal r2"
    and "mt_outcome m = md_outcome (decide_matchup i r1 r2 status)" "mt_winnerTeamId m = md_winner (decide_matchup i r1 r2 status)"
      "mt_loserTeamId m = md_loser (decide_matchup i r1 r2 status)" "mt_tieBreak m = md_tieBreak (decide_matchup i r1 r2 status)"
    and "tp_fantasyTeamId r1 \<noteq> tp_fantasyTeamId r2" "samePeriod (tp_period r1) (tp_period r2)"
    and "mi_firstPredeclaredSeed i = mi_secondPredeclaredSeed i \<Longrightarrow> sp_phase (tp_period r1) = REGULAR_SEASON"
    and "rs_status m = status"
proof -
  note defs = matchup_body.defs result_base.defs result_base_of_def
  show thesis
    using assms unfolding calculateFantasyMatchup_def Let_def
  proof (elim and_thenE, goal_cases)
    case (1 u1 u2 u3 u4 u5 u6 u7 u8 lineage u9 revision audit)
    then show ?case
      by (intro that [of "if rs_status r1 = FINAL_RESULT \<and> rs_status r2 = FINAL_RESULT then FINAL_RESULT else IN_PROGRESS_RESULT"
            lineage revision audit]) (auto simp: defs require_Inr_iff simp del: if_split)
  qed
qed

section \<open>Standings\<close>

lemma put_standing_sum:
  fixes f :: "standing \<Rightarrow> int"
  assumes "distinct (map st_fantasyTeamId ss)" and "g \<in> set ss" and "st_fantasyTeamId u = st_fantasyTeamId g"
  shows "sum_list (map f (put_standing ss u)) = sum_list (map f ss) - f g + f u"
  unfolding put_standing_def assms(3)
  by (rule sum_map_key_update [OF assms(1,2) refl])

lemma put_standing_ids: "map st_fantasyTeamId (put_standing ss u) = map st_fantasyTeamId ss"
  by (simp add: put_standing_def)

lemma put_standing_mem: "x \<in> set (put_standing ss u) \<Longrightarrow> x = u \<or> x \<in> set ss"
  by (auto simp: put_standing_def split: if_splits)

text \<open>The count of one standing adds up.\<close>

definition standing_ok :: "standing \<Rightarrow> bool" where
  "standing_ok s \<longleftrightarrow> sg_gamesPlayed s = sg_wins s + sg_losses s + sg_ties s \<and>
     0 \<le> sg_wins s \<and> 0 \<le> sg_losses s \<and> 0 \<le> sg_ties s \<and> int (length (sg_outcomes s)) = sg_gamesPlayed s \<and>
     safe_int (sg_pointsForMilli s) \<and> safe_int (sg_pointsAgainstMilli s)"

text \<open>What the loop over the matchups has established.\<close>

definition table_inv :: "standings_input \<Rightarrow> standings_loop \<Rightarrow> bool" where
  "table_inv i v \<longleftrightarrow> map (\<lambda>s. (st_fantasyTeamId s, st_predeclaredSeed s)) (sl_standings v) =
       map (\<lambda>t. (st_fantasyTeamId t, st_predeclaredSeed t)) (si_teams i) \<and>
     (\<forall>s\<in>set (sl_standings v). standing_ok s) \<and>
     sum_list (map sg_wins (sl_standings v)) = sum_list (map sg_losses (sl_standings v)) \<and>
     sum_list (map sg_gamesPlayed (sl_standings v)) = 2 * sl_completed v \<and>
     sum_list (map sg_pointsForMilli (sl_standings v)) = sum_list (map sg_pointsAgainstMilli (sl_standings v))"

lemma add_points_Inr:
  "add_points own other s = Inr s' \<longleftrightarrow> safe_int (sg_pointsForMilli s + own) \<and> safe_int (sg_pointsAgainstMilli s + other) \<and>
     s' = s\<lparr>sg_gamesPlayed := sg_gamesPlayed s + 1, sg_pointsForMilli := sg_pointsForMilli s + own,
            sg_pointsAgainstMilli := sg_pointsAgainstMilli s + other\<rparr>"
  by (auto simp: add_points_def result_simps safeAdd_Inr)

lemma add_totals_Inr: "add_totals cs s = Inr s' \<Longrightarrow> \<exists>totals. s' = s\<lparr>sg_categoryTotals := totals\<rparr>"
  by (auto simp: add_totals_def result_simps)

lemma letters_of_Inr:
  "letters_of m f s = Inr (lf, ls) \<Longrightarrow> (lf, ls) \<in> {(LETTER_T, LETTER_T), (LETTER_W, LETTER_L), (LETTER_L, LETTER_W)}"
  by (auto simp: letters_of_def split: if_splits)

text \<open>How a game changes a standing: its letter and its points.\<close>

definition played :: "int \<Rightarrow> game_letter \<Rightarrow> int \<Rightarrow> int \<Rightarrow> standing \<Rightarrow> standing \<Rightarrow> bool" where
  "played seq l own other s s' \<longleftrightarrow> (\<exists>totals. s' = add_letter seq l (s\<lparr>sg_gamesPlayed := sg_gamesPlayed s + 1,
       sg_pointsForMilli := sg_pointsForMilli s + own, sg_pointsAgainstMilli := sg_pointsAgainstMilli s + other,
       sg_categoryTotals := totals\<rparr>)) \<and>
     safe_int (sg_pointsForMilli s + own) \<and> safe_int (sg_pointsAgainstMilli s + other)"

lemma played_facts:
  assumes "played seq l own other s s'"
  shows "st_fantasyTeamId s' = st_fantasyTeamId s" and "st_predeclaredSeed s' = st_predeclaredSeed s"
    and "standing_ok s \<Longrightarrow> standing_ok s'" and "sg_gamesPlayed s' = sg_gamesPlayed s + 1"
    and "sg_wins s' = sg_wins s + (if l = LETTER_W then 1 else 0)" and "sg_losses s' = sg_losses s + (if l = LETTER_L then 1 else 0)"
    and "sg_pointsForMilli s' = sg_pointsForMilli s + own" and "sg_pointsAgainstMilli s' = sg_pointsAgainstMilli s + other"
  using assms by (cases l; auto simp: played_def add_letter_def standing_ok_def)+

lemma count_matchup_Inr:
  assumes "count_matchup m f s = Inr (f', s')"
  obtains lf ls where "(lf, ls) \<in> {(LETTER_T, LETTER_T), (LETTER_W, LETTER_L), (LETTER_L, LETTER_W)}"
    and "played (sp_sequence (mt_period m)) lf (tt_totalMilliPoints (mt_first m)) (tt_totalMilliPoints (mt_second m)) f f'"
    and "played (sp_sequence (mt_period m)) ls (tt_totalMilliPoints (mt_second m)) (tt_totalMilliPoints (mt_first m)) s s'"
proof -
  from assms obtain f1 s1 f2 s2 lf ls where p: "add_points (tt_totalMilliPoints (mt_first m)) (tt_totalMilliPoints (mt_second m)) f = Inr f1"
      "add_points (tt_totalMilliPoints (mt_second m)) (tt_totalMilliPoints (mt_first m)) s = Inr s1"
    and t: "add_totals (tt_categoryTotals (mt_first m)) f1 = Inr f2" "add_totals (tt_categoryTotals (mt_second m)) s1 = Inr s2"
    and l: "letters_of m f2 s2 = Inr (lf, ls)"
    and r: "f' = add_letter (sp_sequence (mt_period m)) lf f2" "s' = add_letter (sp_sequence (mt_period m)) ls s2"
    unfolding count_matchup_def Let_def by (elim and_thenE) auto
  from add_totals_Inr [OF t(1)] add_totals_Inr [OF t(2)] p
  show thesis by (intro that [OF letters_of_Inr [OF l]]) (auto simp: played_def r add_points_Inr)
qed

lemma standings_step_inv:
  assumes step: "standings_step i v m = Inr v'" and inv: "table_inv i v" and d: "distinct (map st_fantasyTeamId (si_teams i))"
  shows "table_inv i v'"
proof -
  from step obtain f s seen where f: "find_standing (sl_standings v) (tt_fantasyTeamId (mt_first m)) = Some f"
    and s: "find_standing (sl_standings v) (tt_fantasyTeamId (mt_second m)) = Some s"
    and seen: "fold_res (mark_seen m) (sl_seen v) [st_fantasyTeamId f, st_fantasyTeamId s] = Inr seen"
    and v': "(if rs_status m \<noteq> FINAL_RESULT then Inr (v\<lparr>sl_seen := seen, sl_pending := sl_pending v + 1\<rparr>)
            else and_then (count_matchup m f s) (\<lambda>(f', s').
              Inr (v\<lparr>sl_seen := seen, sl_completed := sl_completed v + 1,
                    sl_standings := put_standing (put_standing (sl_standings v) f') s'\<rparr>))) = (Inr v' :: scoring_thrown + standings_loop)"
    by (auto simp: standings_step_def result_simps split: option.splits simp del: fold_res.simps)
  have ids: "map st_fantasyTeamId (sl_standings v) = map st_fantasyTeamId (si_teams i)"
  proof -
    have "map fst (map (\<lambda>s. (st_fantasyTeamId s, st_predeclaredSeed s)) (sl_standings v)) =
      map fst (map (\<lambda>t. (st_fantasyTeamId t, st_predeclaredSeed t)) (si_teams i))"
      using inv by (simp only: table_inv_def)
    then show ?thesis by (simp add: comp_def)
  qed
  have mem: "f \<in> set (sl_standings v)" "s \<in> set (sl_standings v)"
    using f s unfolding find_standing_def by (auto simp: find_Some_iff)
  have ne: "st_fantasyTeamId f \<noteq> st_fantasyTeamId s"
    using seen by (auto simp: mark_seen_def Let_def result_simps)
  show ?thesis
  proof (cases "rs_status m = FINAL_RESULT")
    case False
    then have "v' = v\<lparr>sl_seen := seen, sl_pending := sl_pending v + 1\<rparr>" using v' by simp
    with inv show ?thesis by (simp add: table_inv_def)
  next
    case True
    with v' obtain f' s' where c: "count_matchup m f s = Inr (f', s')" and v'': "v' = v\<lparr>sl_seen := seen, sl_completed := sl_completed v + 1,
        sl_standings := put_standing (put_standing (sl_standings v) f') s'\<rparr>"
      by (auto simp: result_simps)
    obtain lf ls where letters: "(lf, ls) \<in> {(LETTER_T, LETTER_T), (LETTER_W, LETTER_L), (LETTER_L, LETTER_W)}"
      and pf: "played (sp_sequence (mt_period m)) lf (tt_totalMilliPoints (mt_first m)) (tt_totalMilliPoints (mt_second m)) f f'"
      and ps: "played (sp_sequence (mt_period m)) ls (tt_totalMilliPoints (mt_second m)) (tt_totalMilliPoints (mt_first m)) s s'"
      using count_matchup_Inr [OF c] by metis
    note C = played_facts [OF pf] played_facts [OF ps]
    have dv: "distinct (map st_fantasyTeamId (sl_standings v))" using d ids by simp
    have s_mem: "s \<in> set (put_standing (sl_standings v) f')" using mem ne C by (auto simp: put_standing_def)
    have sum: "sum_list (map h (sl_standings v')) = sum_list (map h (sl_standings v)) - h f + h f' - h s + h s'" for h :: "standing \<Rightarrow> int"
      using put_standing_sum [of "put_standing (sl_standings v) f'" s s' h] put_standing_sum [OF dv mem(1), of f' h] C s_mem dv
      by (simp add: v'' put_standing_ids)
    have keys: "map (\<lambda>s. (st_fantasyTeamId s, st_predeclaredSeed s)) (sl_standings v') = map (\<lambda>s. (st_fantasyTeamId s, st_predeclaredSeed s)) (sl_standings v)"
    proof -
      have "st_predeclaredSeed x = st_predeclaredSeed f" if "x \<in> set (sl_standings v)" "st_fantasyTeamId x = st_fantasyTeamId f" for x
        using distinct_key_eqD [OF dv that(1) mem(1) that(2)] by simp
      moreover have "st_predeclaredSeed x = st_predeclaredSeed s" if "x \<in> set (sl_standings v)" "st_fantasyTeamId x = st_fantasyTeamId s" for x
        using distinct_key_eqD [OF dv that(1) mem(2) that(2)] by simp
      ultimately show ?thesis using C ne by (auto simp: v'' put_standing_def)
    qed
    have ok: "standing_ok f" "standing_ok s" using inv mem by (simp_all add: table_inv_def)
    have "\<forall>x\<in>set (sl_standings v'). standing_ok x"
    proof -
      have "standing_ok f'" "standing_ok s'" using ok C by blast+
      moreover have "\<forall>x\<in>set (sl_standings v). standing_ok x" using inv by (simp add: table_inv_def)
      ultimately show ?thesis by (auto simp: v'' dest!: put_standing_mem)
    qed
    moreover have "sum_list (map sg_wins (sl_standings v')) = sum_list (map sg_losses (sl_standings v'))"
      using inv C letters sum [of sg_wins] sum [of sg_losses] by (auto simp: table_inv_def)
    moreover have "sum_list (map sg_gamesPlayed (sl_standings v')) = 2 * sl_completed v'"
      using inv C sum [of sg_gamesPlayed] by (simp add: table_inv_def v'')
    moreover have "sum_list (map sg_pointsForMilli (sl_standings v')) = sum_list (map sg_pointsAgainstMilli (sl_standings v'))"
      using inv C sum [of sg_pointsForMilli] sum [of sg_pointsAgainstMilli] by (simp add: table_inv_def)
    ultimately show ?thesis using inv keys by (simp add: table_inv_def)
  qed
qed

lemma start_standings_inv:
  "table_inv i \<lparr>sl_standings = map start_standing (si_teams i), sl_seen = [], sl_completed = 0, sl_pending = 0\<rparr>"
  by (auto simp: table_inv_def start_standing_def standing_team.defs standing_ok_def safe_int_def max_safe_integer_def comp_def)

lemma order_standings_Inr:
  "order_standings ss = Inr ss' \<longleftrightarrow> ss' = sort_key standing_key ss \<and> (\<forall>s\<in>set ss. safe_int (differential s))"
  by (auto simp: order_standings_def safeDifference_def differential_def result_simps)

lemma length_records_from [simp]: "length (records_from n status k ss) = length ss"
  by (induction ss arbitrary: k) simp_all

lemma nth_records_from:
  "j < length ss \<Longrightarrow> records_from n status k ss ! j = standing_record_of n status (k + j) (ss ! j)"
  by (induction ss arbitrary: k j) (auto simp: nth_Cons split: nat.splits)

lemma map_records_from:
  "(\<And>k s. g (standing_record_of n status k s) = h s) \<Longrightarrow> map g (records_from n status k ss) = map h ss"
  by (induction ss arbitrary: k) simp_all

lemma standings_Inr:
  assumes "calculateFantasyStandings env i ms authority previous = Inr r"
  obtains v where "fold_res (standings_step i) \<lparr>sl_standings = map start_standing (si_teams i), sl_seen = [],
                sl_completed = 0, sl_pending = 0\<rparr> ms = Inr v"
    and "table_inv i v" and "distinct (map st_fantasyTeamId (si_teams i))"
    and "sd_records r = records_from (si_playoffTeamCount i) (rs_status r) 0 (sort_key standing_key (sl_standings v))"
    and "\<forall>s\<in>set (sl_standings v). safe_int (differential s)"
    and "rs_status r = (if si_regularSeasonComplete i \<and> sl_pending v = 0 then FINAL_RESULT else IN_PROGRESS_RESULT)"
    and "sd_completedMatchupCount r = sl_completed v" and "sd_pendingMatchupCount r = sl_pending v"
    and "si_playoffTeamCount i \<le> int (length (si_teams i))"
proof -
  show thesis
    using assms unfolding calculateFantasyStandings_def Let_def
  proof (elim and_thenE, goal_cases)
    case (1 u1 u2 u3 u4 u5 lineage u6 v ordered u7 revision audit)
    have d: "distinct (map st_fantasyTeamId (si_teams i))" "si_playoffTeamCount i \<le> int (length (si_teams i))"
      using 1(5) by (auto simp: require_Inr_iff)
    have "table_inv i v"
      using 1(8) start_standings_inv
      by (rule fold_res_invariant) (rule standings_step_inv [OF _ _ d(1)])
    moreover have "ordered = sort_key standing_key (sl_standings v)" "\<forall>s\<in>set (sl_standings v). safe_int (differential s)"
      using 1(9) by (simp_all add: order_standings_Inr)
    ultimately show ?case
      using 1(8,13) d
      by (intro that [of v]) (auto simp: standings_body.defs result_base.defs result_base_of_def simp del: if_split)
  qed
qed

end
