(* ===== verification/Sample_League.thy ===== *)
theory Sample_League
  imports Transaction_History Fantasy_Scoring
begin

text \<open>
  A small fantasy league on which the properties of the fantasy components are exercised: two teams
  with a player each and a free player, the commands that draft or claim him, a scored week, a
  matchup and a table, and an organisation that acts on the account by delegation.
\<close>

section \<open>A league of two teams\<close>

definition sample_fantasy_env :: fantasy_env where
  "sample_fantasy_env = \<lparr>fe_instant = (\<lambda>_. True), fe_modelDigest = (\<lambda>m. ''digest-of-'' @ fm_modelVersionId m)\<rparr>"

definition sample_model :: scoring_model where
  "sample_model =
     \<lparr>fm_modelId = ''model'', fm_modelVersionId = ''model-1'', fm_owner = \<lparr>mo_kind = OWNER_PLATFORM, mo_id = None\<rparr>,
      fm_version = 1, fm_name = ''Weekly points'', fm_format = initial_fantasy_format, fm_statisticRegistryVersion = ''1'',
      fm_categories = [\<lparr>ca_id = ''hr'', ca_domain = DOMAIN_BATTING, ca_sourceStatistic = ''homeRuns'', ca_label = ''HR'',
          ca_milliPointsPerUnit = 4000\<rparr>, \<lparr>ca_id = ''so'', ca_domain = DOMAIN_BATTING, ca_sourceStatistic = ''strikeouts'',
          ca_label = ''SO'', ca_milliPointsPerUnit = -500\<rparr>],
      fm_eligibility = \<lparr>el_rosterSource = ''EXACT_ACCOUNT_ROSTER_AT_LOCK'', el_unknownEligibility = ''INELIGIBLE'',
          el_positionRules = [\<lparr>pr_positionCode = ''OF'', pr_minimumAppearances = 0, pr_minimumPitchingOuts = 0\<rparr>]\<rparr>,
      fm_roster = \<lparr>rr_maximumRosterSize = 2, rr_benchSlots = 1,
          rr_lineupSlots = [\<lparr>ls_id = ''util'', ls_count = 1, ls_eligiblePositionCodes = [''OF'']\<rparr>],
          rr_lineupLock = ''WEEKLY_PERIOD_START'', rr_missingLineupBehavior = ''ZERO_POINTS'', rr_benchScoring = ''EXCLUDED''\<rparr>,
      fm_cadence = \<lparr>cd_periodKind = ''WEEKLY'', cd_boundarySource = ''SEALED_UTC_INTERVALS'', cd_completionGraceHours = 24,
          cd_correctionPolicy = ''BEFORE_FINALIZATION_ONLY'', cd_regularSeasonTie = ''TIE'',
          cd_playoffTieBreaker = ''HIGHER_PREDECLARED_SEED''\<rparr>,
      fm_lifecycle = MODEL_ACTIVE, fm_contractVersion = 1, fm_contentDigest = ''digest-of-model-1''\<rparr>"

definition sample_rules :: rules_binding where
  "sample_rules = \<lparr>rb_modelId = ''model'', rb_modelVersionId = ''model-1'', rb_modelVersion = 1,
     rb_modelDigest = ''digest-of-model-1'', rb_modelOwner = \<lparr>mo_kind = OWNER_PLATFORM, mo_id = None\<rparr>,
     rb_statisticRegistryVersion = ''1''\<rparr>"

definition sample_league :: fantasy_league where
  "sample_league = \<lparr>fl_contractVersion = 1, fl_id = ''league'', fl_accountId = ''account'', fl_ownerAccountId = ''account'',
     fl_administrativeScope = None, fl_seasonId = ''season'', fl_name = ''League'', fl_rules = sample_rules,
     fl_lifecycle = LEAGUE_ACTIVE, fl_visibility = PRIVATE, fl_revision = 1, fl_createdAt = ''2026-03-01T00:00:00.000Z'',
     fl_activatedAt = Some ''2026-03-02T00:00:00.000Z'', fl_completedAt = None, fl_archivedAt = None\<rparr>"

definition sample_team :: "ident \<Rightarrow> fantasy_team" where
  "sample_team t = \<lparr>ft_contractVersion = 1, ft_id = t, ft_accountId = ''account'', ft_fantasyLeagueId = ''league'',
     ft_ownerAccountId = ''account'', ft_ownerAccountMembershipId = ''member-'' @ t, ft_name = t, ft_lifecycle = TEAM_ACTIVE,
     ft_revision = 1, ft_createdAt = ''2026-03-01T00:00:00.000Z'', ft_activatedAt = None, ft_withdrawnAt = None,
     ft_archivedAt = None\<rparr>"

definition sample_player :: "ident \<Rightarrow> ownership_state \<Rightarrow> ident option \<Rightarrow> player_entry" where
  "sample_player p st t = \<lparr>pe_id = p, pe_accountId = ''account'', pe_fantasyLeagueId = ''league'', pe_baseballPlayerId = ''player-'' @ p,
     pe_eligibility = \<lparr>eg_fantasyModelVersionId = ''model-1'', eg_fantasyModelDigest = ''digest-of-model-1'',
       eg_eligiblePositionCodes = [''OF''], eg_sourceRosterRevision = 0, eg_sourceStatisticsRevision = 0,
       eg_evaluatedAt = ''2026-03-01T00:00:00.000Z''\<rparr>,
     pe_ownership = \<lparr>ow_state = st, ow_fantasyTeamId = t, ow_revision = 0, ow_effectiveAt = ''2026-03-01T00:00:00.000Z''\<rparr>,
     pe_createdAt = ''2026-03-01T00:00:00.000Z'', pe_contractVersion = 1\<rparr>"

definition sample_slots :: "ident option \<Rightarrow> ident option \<Rightarrow> roster_slot list" where
  "sample_slots a b = [\<lparr>rs_id = ''a'', rs_kind = SLOT_ACTIVE, rs_lineupSlotRuleId = Some ''util'', rs_playerEntryId = a\<rparr>,
     \<lparr>rs_id = ''b'', rs_kind = SLOT_BENCH, rs_lineupSlotRuleId = None, rs_playerEntryId = b\<rparr>]"

definition sample_roster :: "ident \<Rightarrow> ident option \<Rightarrow> roster_snapshot" where
  "sample_roster t p = \<lparr>ro_id = ''roster-'' @ t, ro_accountId = ''account'', ro_fantasyLeagueId = ''league'', ro_fantasyTeamId = t,
     ro_revision = 0, ro_previousSnapshotId = None, ro_effectiveAt = ''2026-03-01T00:00:00.000Z'',
     ro_slots = sample_slots p None, ro_contractVersion = 1, ro_rules = sample_rules\<rparr>"

definition sample_authority :: "fantasy_capability \<Rightarrow> fantasy_authority" where
  "sample_authority c = \<lparr>fa_accountId = ''account'', fa_actorId = ''actor'', fa_source = ACCOUNT_PERMISSION, fa_capability = c,
     fa_scope = SCOPE_ACCOUNT, fa_authorityReferenceIds = [''ref-1'', ''ref-2''], fa_authorizedAt = ''2026-03-01T00:00:00.000Z''\<rparr>"

definition sample_policy :: tx_policy where
  "sample_policy = \<lparr>po_initialAssignmentMethod = ASSIGN_DRAFT, po_initialAssignmentDeadline = ''2026-04-01T00:00:00.000Z'',
     po_acquisitionMethod = ''DAILY_WAIVERS'', po_waiverProcessingInstants = [''2026-04-10T00:00:00.000Z''],
     po_initialWaiverPriority = [''t1'', ''t2''], po_tradeProcessingInstants = [''2026-04-05T00:00:00.000Z''],
     po_tradeDeadline = ''2026-08-01T00:00:00.000Z'', po_tradeAcceptance = ''ALL_PARTICIPATING_MANAGERS'',
     po_commissionerVeto = ''NONE'', po_lineupLocks = []\<rparr>"

definition sample_tx_env :: tx_env where
  "sample_tx_env = \<lparr>te_domain = sample_fantasy_env, te_commandDigest = (\<lambda>c. cb_operationId (base_of c)), te_shortDigest = id\<rparr>"

definition sample_context :: tx_context where
  "sample_context = \<lparr>cx_league = sample_league, cx_teams = [sample_team ''t1'', sample_team ''t2''], cx_model = sample_model\<rparr>"

definition sample_creation :: create_state_input where
  "sample_creation = \<lparr>cs_league = sample_league, cs_teams = [sample_team ''t1'', sample_team ''t2''], cs_model = sample_model,
     cs_policy = sample_policy,
     cs_playerEntries = [sample_player ''e1'' ROSTERED (Some ''t1''), sample_player ''e2'' ROSTERED (Some ''t2''),
       sample_player ''e3'' AVAILABLE None],
     cs_currentRosters = [sample_roster ''t1'' (Some ''e1''), sample_roster ''t2'' (Some ''e2'')]\<rparr>"

definition sample_state :: tx_state where
  "sample_state = \<lparr>ts_contractVersion = 1, ts_accountId = ''account'', ts_fantasyLeagueId = ''league'', ts_revision = 0,
     ts_policy = sample_policy, ts_playerEntries = cs_playerEntries sample_creation,
     ts_currentRosters = cs_currentRosters sample_creation, ts_waiverPriority = [''t1'', ''t2''], ts_waiverClaims = [],
     ts_transactions = [], ts_audits = []\<rparr>"

definition sample_add :: tx_command where
  "sample_add = ADD_PLAYER \<lparr>cb_operationId = ''op-1'', cb_auditId = ''audit-1'', cb_accountId = ''account'',
     cb_fantasyLeagueId = ''league'', cb_expectedRevision = 0, cb_submittedAt = ''2026-03-20T00:00:00.000Z'',
     cb_authority = sample_authority FANTASY_ROSTER_MANAGE, ap_fantasyTeamId = ''t1'', ap_playerEntryId = ''e3'', ap_targetSlotId = ''b'',
     ap_rosterSnapshotId = ''roster-t1-1'', ap_assignmentMethod = ASSIGN_DRAFT\<rparr>"

lemma create_sample: "createFantasyTransactionState sample_tx_env sample_creation = Inr sample_state"
  by code_simp

lemma add_sample_ok: "(case applyFantasyTransaction sample_tx_env sample_state (Some sample_add) sample_context of
    Inr r \<Rightarrow> \<not> to_duplicate r \<and> tr_status (to_record r) = APPLIED \<and> ts_revision (to_state r) = 1 | Inl _ \<Rightarrow> False)"
  by code_simp

definition sample_waiver :: tx_command where
  "sample_waiver = SUBMIT_WAIVER_CLAIM \<lparr>cb_operationId = ''op-2'', cb_auditId = ''audit-2'', cb_accountId = ''account'',
     cb_fantasyLeagueId = ''league'', cb_expectedRevision = 0, cb_submittedAt = ''2026-04-02T00:00:00.000Z'',
     cb_authority = sample_authority FANTASY_ROSTER_MANAGE, sw_claimId = ''claim'', sw_fantasyTeamId = ''t2'', sw_playerEntryId = ''e3'',
     sw_conditionalDropPlayerEntryId = Some ''e2'', sw_targetSlotId = ''a'', sw_rosterSnapshotId = ''roster-t2-1'',
     sw_processingAt = ''2026-04-10T00:00:00.000Z''\<rparr>"

definition sample_batch_command :: process_waivers_command where
  "sample_batch_command = \<lparr>cb_operationId = ''op-3'', cb_auditId = ''audit-3'', cb_accountId = ''account'',
     cb_fantasyLeagueId = ''league'', cb_expectedRevision = 1, cb_submittedAt = ''2026-04-10T00:00:00.000Z'',
     cb_authority = sample_authority FANTASY_ROSTER_MANAGE, pw_processingAt = ''2026-04-10T00:00:00.000Z''\<rparr>"

definition outcome_of :: "tx_thrown + tx_outcome \<Rightarrow> tx_outcome" where
  "outcome_of r = (case r of Inr x \<Rightarrow> x | Inl _ \<Rightarrow> undefined)"

lemma outcome_of: "is_ok r \<Longrightarrow> r = Inr (outcome_of r)"
  by (cases r) (simp_all add: outcome_of_def)

definition sample_claimed :: tx_outcome where
  "sample_claimed = outcome_of (applyFantasyTransaction sample_tx_env sample_state (Some sample_waiver) sample_context)"

lemma waiver_sample_ok: "(case applyFantasyTransaction sample_tx_env sample_state (Some sample_waiver) sample_context of
    Inr r \<Rightarrow> (case applyFantasyTransaction sample_tx_env (to_state r) (Some (PROCESS_WAIVERS sample_batch_command)) sample_context of
       Inr q \<Rightarrow> map wc_status (ts_waiverClaims (to_state q)) = [CLAIM_APPLIED] \<and> ts_waiverPriority (to_state q) = [''t1'', ''t2''] \<and>
         \<not> to_duplicate q \<and> tr_status (to_record q) = APPLIED | Inl _ \<Rightarrow> False) | Inl _ \<Rightarrow> False)"
  by code_simp


section \<open>A scored week\<close>

definition sample_scoring_env :: scoring_env where
  "sample_scoring_env = \<lparr>sg_domain = sample_fantasy_env, sg_teamSource = te_fantasyTeamId, sg_teamResult = tp_fantasyTeamId,
     sg_matchupSource = (\<lambda>e. sf_id (me_first e)), sg_matchupResult = rs_resultId,
     sg_standingsSource = (\<lambda>_. ''standings''), sg_standingsResult = rs_resultId\<rparr>"

definition sample_period :: scoring_period where
  "sample_period = \<lparr>sp_id = ''week-1'', sp_accountId = ''account'', sp_fantasyLeagueId = ''league'', sp_sequence = 1,
     sp_phase = REGULAR_SEASON, sp_startsAt = ''2026-04-06T00:00:00.000Z'', sp_endsAt = ''2026-04-13T00:00:00.000Z'',
     sp_finalizationDeadline = ''2026-04-14T00:00:00.000Z''\<rparr>"

definition sample_snapshot :: statistic_snapshot where
  "sample_snapshot = \<lparr>ss_accountId = ''account'',
     ss_authority = \<lparr>aa_accountId = ''account'', aa_authorityReferenceIds = [''ref''], aa_authorizedAt = ''2026-04-13T00:00:00.000Z''\<rparr>,
     ss_values = [''homeRuns'' \<mapsto> 2, ''strikeouts'' \<mapsto> 3],
     ss_lineage = \<lparr>sl_baseballRulesetVersionIds = [''ruleset''], sl_statisticDerivationVersion = 1, sl_statisticRulesVersion = 1,
       sl_sourceRevision = 4, sl_correctionRevision = 0, sl_fantasyStatisticRegistryVersion = ''1'',
       sl_lifecycle = SNAPSHOT_FINAL, sl_verification = SNAPSHOT_VERIFIED\<rparr>\<rparr>"

definition sample_statistics :: period_statistics where
  "sample_statistics = \<lparr>ps_accountId = ''account'', ps_fantasyLeagueId = ''league'', ps_fantasyTeamId = ''t1'', ps_periodId = ''week-1'',
     ps_rosterSnapshotId = ''roster-t1'', ps_rosterSlotId = ''a'', ps_fantasyPlayerEntryId = ''e1'', ps_availability = FINAL_VERIFIED,
     ps_expectedGames = 2, ps_completedGames = 2, ps_projectedCompletionAt = None, ps_snapshot = Some sample_snapshot\<rparr>"

definition sample_period_input :: "ident \<Rightarrow> period_statistics list \<Rightarrow> team_period_input" where
  "sample_period_input t statistics = \<lparr>ci_resultId = ''result-'' @ t, ci_auditId = ''audit-'' @ t, ci_accountId = ''account'',
     ci_fantasyLeagueId = ''league'', ci_calculatedAt = ''2026-04-14T12:00:00.000Z'', ci_revision = 0, ci_previousResultId = None,
     ci_correctionReason = None, ti_fantasyTeamId = t, ti_period = sample_period, ti_finalize = True, ti_statistics = statistics\<rparr>"

definition week_of :: "ident \<Rightarrow> period_statistics list \<Rightarrow> ident \<Rightarrow> scoring_thrown + team_result" where
  "week_of t statistics p = calculateFantasyTeamPeriodResult sample_scoring_env (sample_period_input t statistics) sample_league
     (sample_team t) (sample_roster t (Some p)) sample_model (sample_authority FANTASY_SCORING_CALCULATE) None"

definition result_of :: "scoring_thrown + 'a \<Rightarrow> 'a" where
  "result_of r = (case r of Inr x \<Rightarrow> x | Inl _ \<Rightarrow> undefined)"

lemma result_of: "is_ok r \<Longrightarrow> r = Inr (result_of r)"
  by (cases r) (simp_all add: result_of_def)

text \<open>Running a computation step by step, so that no continuation is rewritten before its argument is known.\<close>

lemma is_ok_and_then: "is_ok r \<Longrightarrow> is_ok (f (result_of r)) \<Longrightarrow> is_ok (and_then r f)"
  by (cases r) (simp_all add: result_of_def)

lemma week_ok: "is_ok (week_of ''t1'' [sample_statistics] ''e1'')"
  unfolding week_of_def calculateFantasyTeamPeriodResult_def Let_def
  by (intro is_ok_and_then is_ok_simps(1); code_simp)

definition sample_lineage :: result_lineage where
  "sample_lineage = \<lparr>rl_fantasyModelId = ''model'', rl_fantasyModelVersionId = ''model-1'', rl_fantasyModelVersion = 1,
     rl_fantasyModelDigest = ''digest-of-model-1'', rl_baseballRulesetVersionIds = [''ruleset''], rl_statisticDerivationVersions = [1],
     rl_statisticRulesVersions = [1], rl_sourceRevisions = [4], rl_correctionRevisions = [0]\<rparr>"

definition sample_calculation :: calculation_audit where
  "sample_calculation = \<lparr>cu_id = ''audit'', cu_actorId = ''actor'', cu_authoritySource = ACCOUNT_PERMISSION,
     cu_authorityReferenceIds = [''ref-1'', ''ref-2''], cu_capability = ''fantasy.scoring.calculate'', cu_accountId = ''account'',
     cu_fantasyLeagueId = ''league'', cu_targetKind = TEAM_PERIOD, cu_targetId = ''target'', cu_teamIds = [], cu_periodId = None,
     cu_action = FINALIZE, cu_acceptedAt = ''2026-04-14T12:00:00.000Z'', cu_revision = 0, cu_previousResultId = None,
     cu_correctionReason = None\<rparr>"

definition sample_result :: "ident \<Rightarrow> int \<Rightarrow> team_result" where
  "sample_result t points = \<lparr>rs_contractVersion = 1, rs_calculationVersion = 1, rs_resultId = ''result-'' @ t, rs_accountId = ''account'',
     rs_fantasyLeagueId = ''league'', rs_status = FINAL_RESULT, rs_lineage = sample_lineage,
     rs_calculatedAt = ''2026-04-14T12:00:00.000Z'', rs_revision = 0, rs_previousResultId = None, rs_correction = None,
     rs_sourceDigest = t, rs_audit = sample_calculation, tp_fantasyTeamId = t, tp_period = sample_period,
     tp_rosterSnapshotId = ''roster-'' @ t, tp_rosterSnapshotRevision = 0, tp_totalMilliPoints = points,
     tp_categoryTotals = [\<lparr>cs_categoryId = ''hr'', cs_sourceStatistic = ''homeRuns'', cs_units = 1, cs_milliPoints = points\<rparr>],
     tp_expectedSourceCount = 1, tp_completedSourceCount = 1, tp_projectedCompletionAt = None, tp_uncertainties = [],
     tp_sources = [], tp_finalizedAt = None, tp_resultDigest = t\<rparr>"

definition sample_matchup_input :: matchup_input where
  "sample_matchup_input = \<lparr>ci_resultId = ''matchup'', ci_auditId = ''audit-m'', ci_accountId = ''account'',
     ci_fantasyLeagueId = ''league'', ci_calculatedAt = ''2026-04-14T13:00:00.000Z'', ci_revision = 0, ci_previousResultId = None,
     ci_correctionReason = None, mi_firstPredeclaredSeed = 1, mi_secondPredeclaredSeed = 2\<rparr>"

lemma matchup_ok: "is_ok (calculateFantasyMatchup sample_scoring_env sample_matchup_input (sample_result ''t1'' 4000)
    (sample_result ''t2'' 3000) (sample_authority FANTASY_SCORING_CALCULATE) None)"
  unfolding calculateFantasyMatchup_def Let_def
  by (intro is_ok_and_then is_ok_simps(1); code_simp)

definition sample_matchup :: matchup where
  "sample_matchup = \<lparr>rs_contractVersion = 1, rs_calculationVersion = 1, rs_resultId = ''matchup'', rs_accountId = ''account'',
     rs_fantasyLeagueId = ''league'', rs_status = FINAL_RESULT, rs_lineage = sample_lineage,
     rs_calculatedAt = ''2026-04-14T13:00:00.000Z'', rs_revision = 0, rs_previousResultId = None, rs_correction = None,
     rs_sourceDigest = [], rs_audit = sample_calculation, mt_period = sample_period,
     mt_first = teamTotal (sample_result ''t1'' 4000), mt_second = teamTotal (sample_result ''t2'' 3000), mt_outcome = FIRST_WIN,
     mt_winnerTeamId = Some ''t1'', mt_loserTeamId = Some ''t2'', mt_tieBreak = NO_TIE_BREAK, mt_firstPredeclaredSeed = 1,
     mt_secondPredeclaredSeed = 2, mt_resultDigest = ''m''\<rparr>"

definition sample_standings_input :: standings_input where
  "sample_standings_input = \<lparr>ci_resultId = ''standings'', ci_auditId = ''audit-s'', ci_accountId = ''account'',
     ci_fantasyLeagueId = ''league'', ci_calculatedAt = ''2026-04-14T14:00:00.000Z'', ci_revision = 0, ci_previousResultId = None,
     ci_correctionReason = None, si_regularSeasonComplete = True, si_playoffTeamCount = 1,
     si_teams = [\<lparr>st_fantasyTeamId = ''t1'', st_predeclaredSeed = 2\<rparr>, \<lparr>st_fantasyTeamId = ''t2'', st_predeclaredSeed = 1\<rparr>]\<rparr>"

lemma standings_ok: "is_ok (calculateFantasyStandings sample_scoring_env sample_standings_input [sample_matchup]
    (sample_authority FANTASY_SCORING_CALCULATE) None)"
  unfolding calculateFantasyStandings_def Let_def
  by (intro is_ok_and_then is_ok_simps(1); code_simp)

section \<open>A delegation\<close>

definition sample_scope :: delegation_scope where
  "sample_scope = \<lparr>ds_kind = ACCOUNT, ds_organizationId = ''org'', ds_leagueId = None, ds_delegationId = Some ''delegation'',
     ds_accountId = Some ''account'', ds_teamId = None, ds_seasonId = None, ds_gameId = None\<rparr>"

definition sample_target :: delegation_target where
  "sample_target = \<lparr>dt_kind = ACCOUNT, dt_organizationId = ''org'', dt_leagueId = None, dt_delegationId = Some ''delegation'',
     dt_accountId = Some ''account'', dt_teamIds = [], dt_seasonId = None, dt_gameId = None\<rparr>"

definition sample_evidence :: evidence where
  "sample_evidence = \<lparr>dv_actor = \<lparr>da_authenticated = True, da_appUserId = ''actor''\<rparr>,
     dv_organization = \<lparr>or_id = ''org'', or_status = ORGANIZATION_ACTIVE\<rparr>,
     dv_membership = \<lparr>me_id = ''membership'', me_organizationId = ''org'', me_appUserId = ''actor'', me_status = MEMBERSHIP_ACTIVE\<rparr>,
     dv_delegation = Some \<lparr>de_id = ''delegation'', de_organizationId = ''org'', de_accountId = ''account'', de_status = GRANT_ACTIVE,
       de_validFrom = Some 0, de_expiresAt = None, de_revokedAt = None, de_approvedByAccountMembershipId = ''owner''\<rparr>,
     dv_grant = Some \<lparr>gr_id = ''grant'', gr_organizationId = ''org'', gr_organizationMembershipId = ''membership'',
       gr_delegationId = Some ''delegation'', gr_accountId = Some ''account'', gr_capability = ''fantasy.roster.manage'',
       gr_scope = sample_scope, gr_status = GRANT_ACTIVE, gr_validFrom = Some 0, gr_expiresAt = None, gr_revokedAt = None,
       gr_approvedByAccountMembershipId = Some ''owner''\<rparr>,
     dv_approval = None\<rparr>"

definition sample_request :: delegated_request where
  "sample_request = \<lparr>dr_accountId = ''account'', dr_actorId = ''actor'', dr_capability = FANTASY_ROSTER_MANAGE, dr_scope = SCOPE_LEAGUE ''league'',
     dr_authorizedAt = ''1970-01-02T00:00:00.000Z''\<rparr>"

lemma delegated_sample: "case fantasyAuthorityFromDelegation sample_fantasy_env
    (evaluateLeagueDelegation sample_evidence ''fantasy.roster.manage'' sample_target (Some 86400000)) sample_request of
    Inr a \<Rightarrow> is_ok (assertFantasyAuthority sample_fantasy_env a ''account'' FANTASY_ROSTER_MANAGE (Some ''league'') (Some ''t1''))
  | Inl _ \<Rightarrow> False"
  by code_simp

text \<open>A first roster snapshot for a team.\<close>

definition sample_roster_input :: roster_input where
  "sample_roster_input = \<lparr>ro_id = ''roster-t1'', ro_accountId = ''account'', ro_fantasyLeagueId = ''league'', ro_fantasyTeamId = ''t1'',
     ro_revision = 0, ro_previousSnapshotId = None, ro_effectiveAt = ''2026-03-01T00:00:00.000Z'', ro_slots = sample_slots (Some ''e1'') None\<rparr>"

lemma roster_sample: "is_ok (createFantasyRosterSnapshot sample_fantasy_env (Some sample_roster_input) sample_league (sample_team ''t1'')
    sample_model [sample_player ''e1'' ROSTERED (Some ''t1'')] (sample_authority FANTASY_ROSTER_MANAGE) None)"
  by code_simp

lemma sample_reachable: "reachable_league sample_tx_env sample_state"
  by (rule reachable_created [OF create_sample]) code_simp

text \<open>The outcomes of the sample commands.\<close>

definition sample_added :: tx_outcome where
  "sample_added = outcome_of (applyFantasyTransaction sample_tx_env sample_state (Some sample_add) sample_context)"

lemma added_outcome:
  "applyFantasyTransaction sample_tx_env sample_state (Some sample_add) sample_context = Inr sample_added"
  "\<not> to_duplicate sample_added" "tr_status (to_record sample_added) = APPLIED" "tr_resultCode (to_record sample_added) = None"
  "tr_operationId (to_record sample_added) = ''op-1''"
proof -
  have "case applyFantasyTransaction sample_tx_env sample_state (Some sample_add) sample_context of
    Inr r \<Rightarrow> \<not> to_duplicate r \<and> tr_status (to_record r) = APPLIED \<and> tr_resultCode (to_record r) = None \<and>
      tr_operationId (to_record r) = ''op-1'' | Inl _ \<Rightarrow> False"
    by code_simp
  then show "applyFantasyTransaction sample_tx_env sample_state (Some sample_add) sample_context = Inr sample_added"
    "\<not> to_duplicate sample_added" "tr_status (to_record sample_added) = APPLIED" "tr_resultCode (to_record sample_added) = None"
    "tr_operationId (to_record sample_added) = ''op-1''"
    by (auto simp: sample_added_def outcome_of_def split: sum.splits)
qed

definition sample_denied :: tx_outcome where
  "sample_denied = outcome_of (applyFantasyTransaction sample_tx_env sample_state (Some (PROCESS_WAIVERS sample_batch_command)) sample_context)"

lemma denied_outcome:
  "applyFantasyTransaction sample_tx_env sample_state (Some (PROCESS_WAIVERS sample_batch_command)) sample_context = Inr sample_denied"
  "\<not> to_duplicate sample_denied" "tr_status (to_record sample_denied) = DENIED"
proof -
  have "case applyFantasyTransaction sample_tx_env sample_state (Some (PROCESS_WAIVERS sample_batch_command)) sample_context of
    Inr r \<Rightarrow> \<not> to_duplicate r \<and> tr_status (to_record r) = DENIED | Inl _ \<Rightarrow> False"
    by code_simp
  then show "applyFantasyTransaction sample_tx_env sample_state (Some (PROCESS_WAIVERS sample_batch_command)) sample_context = Inr sample_denied"
    "\<not> to_duplicate sample_denied" "tr_status (to_record sample_denied) = DENIED"
    by (auto simp: sample_denied_def outcome_of_def split: sum.splits)
qed

definition sample_batched :: tx_outcome where
  "sample_batched = outcome_of (applyFantasyTransaction sample_tx_env (to_state sample_claimed)
     (Some (PROCESS_WAIVERS sample_batch_command)) sample_context)"

lemma claimed_outcome:
  "applyFantasyTransaction sample_tx_env sample_state (Some sample_waiver) sample_context = Inr sample_claimed"
  using waiver_sample_ok by (auto simp: sample_claimed_def outcome_of_def split: sum.splits)

lemma claimed_reachable: "reachable_league sample_tx_env (to_state sample_claimed)"
  by (rule reachable_applied [OF sample_reachable claimed_outcome])

lemma batched_outcome:
  "applyFantasyTransaction sample_tx_env (to_state sample_claimed) (Some (PROCESS_WAIVERS sample_batch_command)) sample_context = Inr sample_batched"
  "\<not> to_duplicate sample_batched" "tr_status (to_record sample_batched) \<noteq> DENIED"
  using waiver_sample_ok unfolding claimed_outcome by (auto simp: sample_batched_def outcome_of_def split: sum.splits)

definition domain_result :: "domain_thrown + 'a \<Rightarrow> 'a" where
  "domain_result r = (case r of Inr x \<Rightarrow> x | Inl _ \<Rightarrow> undefined)"

lemma domain_result: "is_ok r \<Longrightarrow> r = Inr (domain_result r)"
  by (cases r) (simp_all add: domain_result_def)

definition sample_delegated_authority :: fantasy_authority where
  "sample_delegated_authority = domain_result (fantasyAuthorityFromDelegation sample_fantasy_env
     (evaluateLeagueDelegation sample_evidence ''fantasy.roster.manage'' sample_target (Some 86400000)) sample_request)"

lemma sample_delegated:
  "fantasyAuthorityFromDelegation sample_fantasy_env
     (evaluateLeagueDelegation sample_evidence ''fantasy.roster.manage'' sample_target (Some 86400000)) sample_request =
     Inr sample_delegated_authority"
  "assertFantasyAuthority sample_fantasy_env sample_delegated_authority ''account'' FANTASY_ROSTER_MANAGE (Some ''league'') (Some ''t1'') = Inr ()"
  using delegated_sample by (auto simp: sample_delegated_authority_def domain_result_def is_ok_def split: sum.splits)

end
