(* ===== verification/Scoring_Preview.thy ===== *)
theory Scoring_Preview
  imports Game_Invariants Statistic_Values
begin

text \<open>
  The scoring desk (\<open>src/features/scoring/plate-appearance.ts\<close>, \<open>runner-interactions.ts\<close> and
  \<open>live-lineup-changes.ts\<close>): what the scorer chooses is a draft; the desk checks it against the current
  game state and previews the event it would submit, the bases, outs and runs after it, and the errors that
  forbid it.  A message is a constructor with the values it shows.
  \<open>Preview_Refinement\<close> compares the previews with the engine.
\<close>

section \<open>Drafts\<close>

text \<open>\<open>"REMAINS"\<close> or a destination.\<close>

datatype runner_outcome = REMAINS | Moves runner_destination

record plate_draft =
  pd_outcome :: plate_outcome
  pd_outcomes :: "base \<Rightarrow> runner_outcome option"
  pd_earnedRuns :: "runner_origin \<Rightarrow> earned_run option"
  pd_rbiEligible :: "runner_origin \<Rightarrow> bool option"
  pd_forceOuts :: "runner_origin \<Rightarrow> bool option"
  pd_putoutFielderId :: "ident option"
  pd_errorFielderId :: "ident option"
  pd_battedBall :: "batted_ball option"

record runner_draft =
  rd_playType :: play_type
  rd_outcomes :: "base \<Rightarrow> runner_outcome option"
  rd_earnedRuns :: "base \<Rightarrow> earned_run option"
  rd_outFielderIds :: "ident list"
  rd_errorFielderId :: "ident option"

datatype preview_error = NO_RUNNER base | NOT_FORWARD ident base | TWO_RUNNERS base | NO_RESPONSIBILITY ident
  | BATTER_COLLISION base | NO_ACTIVE_BATTER | FOURTH_OUT | NO_PUTOUT_FIELDER | NO_ERROR_FIELDER | NO_RUNNER_OUT
  | SACRIFICE_MISMATCH | SACRIFICE_TWO_OUTS | BASE_OCCUPIED base | RUN_ON_FORCE_OUT | RUNNER_PASSED
  | OUT_NOT_ALLOWED | NO_CHANGE | ONE_OUT_REQUIRED | OUT_REQUIRED | NO_OUT_FIELDER

datatype announcement = IS_OUT ident | SCORED ident | NOW_ON ident base | INNING_ENDED | NEXT_BATTER ident | OUTS int

record preview =
  vw_body :: "play_body option"
  vw_bases :: "base \<Rightarrow> ident option"
  vw_outs :: int
  vw_runs :: int
  vw_inningEnded :: bool
  vw_errors :: "preview_error list"
  vw_announcements :: "announcement list"

text \<open>The table of outcomes with their keys, and the outcome a key stands for.\<close>

definition PLATE_OUTCOMES :: "(plate_outcome \<times> string \<times> bool) list" where
  "PLATE_OUTCOMES =
     [(BATTER_OUT, ''o'', True), (STRIKEOUT_SWINGING, ''k'', True), (WALK, ''w'', True), (HIT_BY_PITCH, ''h'', True),
      (SINGLE, ''1'', True), (DOUBLE, ''2'', True), (TRIPLE, ''3'', True), (HOME_RUN, ''4'', True),
      (REACHED_ON_ERROR, ''e'', True), (FIELDER_CHOICE, ''f'', True), (INTENTIONAL_WALK, ''i'', False),
      (STRIKEOUT_LOOKING, ''l'', False), (SACRIFICE_BUNT, ''b'', False), (SACRIFICE_FLY, ''y'', False),
      (INTERFERENCE, ''n'', False)]"

definition plateOutcomeForShortcut :: "string \<Rightarrow> plate_outcome option" where
  "plateOutcomeForShortcut key =
     map_option fst (find (\<lambda>(_, k, _). k = to_lower (trim key)) PLATE_OUTCOMES)"

section \<open>Batters and default drafts\<close>

definition batter_at :: "game_state \<Rightarrow> nat \<Rightarrow> ident" where
  "batter_at s i =
     (let l = activeBatters s (battingSide s); k = i mod max (length l) 1 in
      if k < length l then le_playerId (l ! k) else '''')"

definition currentBatterId :: "game_state \<Rightarrow> ident" where
  "currentBatterId s = batter_at s (gs_battingOrderIndex s (battingSide s))"

definition nextBatterId :: "game_state \<Rightarrow> ident" where
  "nextBatterId s = batter_at s (gs_battingOrderIndex s (battingSide s) + 1)"

definition walk_outcomes :: "plate_outcome set" where
  "walk_outcomes = {WALK, INTENTIONAL_WALK, HIT_BY_PITCH}"

definition hit_outcomes :: "plate_outcome set" where
  "hit_outcomes = {SINGLE, DOUBLE, TRIPLE, HOME_RUN}"

definition defaultBattedBall :: "plate_outcome \<Rightarrow> batted_ball option" where
  "defaultBattedBall o' =
     (if o' = SACRIFICE_BUNT then Some BUNT
      else if o' \<in> {SACRIFICE_FLY, HOME_RUN} then Some FLY_BALL
      else if o' \<in> {BATTER_OUT, FIELDER_CHOICE, REACHED_ON_ERROR} then Some GROUND_BALL
      else if o' \<in> {SINGLE, DOUBLE, TRIPLE} then Some LINE_DRIVE
      else None)"

definition on_base :: "game_state \<Rightarrow> base \<Rightarrow> bool" where
  "on_base s b \<longleftrightarrow> truthy (gs_bases s b)"

definition send_runner ::
    "game_state \<Rightarrow> base \<Rightarrow> runner_destination \<Rightarrow> (base \<Rightarrow> runner_outcome option) \<Rightarrow> base \<Rightarrow> runner_outcome option" where
  "send_runner s b d r = (if on_base s b then r(b \<mapsto> Moves d) else r)"

definition defaultRunnerOutcomes :: "game_state \<Rightarrow> plate_outcome \<Rightarrow> base \<Rightarrow> runner_outcome option" where
  "defaultRunnerOutcomes s o' =
     (let stay = (\<lambda>b. if on_base s b then Some REMAINS else None) in
      if o' \<in> walk_outcomes then
        (if \<not> on_base s FIRST then stay
         else let r1 = stay(FIRST \<mapsto> Moves (To_base SECOND)) in
           if \<not> on_base s SECOND then r1
           else send_runner s THIRD To_HOME (r1(SECOND \<mapsto> Moves (To_base THIRD))))
      else if o' \<in> {SINGLE, REACHED_ON_ERROR, SACRIFICE_BUNT} then
        send_runner s THIRD To_HOME (send_runner s SECOND (To_base THIRD) (send_runner s FIRST (To_base SECOND) stay))
      else if o' = FIELDER_CHOICE then send_runner s FIRST To_OUT stay
      else if o' = DOUBLE then
        send_runner s THIRD To_HOME (send_runner s SECOND To_HOME (send_runner s FIRST (To_base THIRD) stay))
      else if o' \<in> {TRIPLE, HOME_RUN} then fold (\<lambda>b. send_runner s b To_HOME) all_bases stay
      else if o' = SACRIFICE_FLY then send_runner s THIRD To_HOME stay
      else stay)"

definition createPlateAppearanceDraft :: "game_state \<Rightarrow> plate_outcome \<Rightarrow> plate_draft" where
  "createPlateAppearanceDraft s o' =
     (let outcomes = defaultRunnerOutcomes s o';
          scoring = filter (\<lambda>b. outcomes b = Some (Moves To_HOME)) all_bases in
      \<lparr>pd_outcome = o', pd_outcomes = outcomes,
       pd_earnedRuns = (\<lambda>x. if x \<in> From_base ` set scoring then Some PENDING else None),
       pd_rbiEligible = (\<lambda>x. if x \<in> From_base ` set scoring then Some (o' \<notin> {REACHED_ON_ERROR, FIELDER_CHOICE}) else None),
       pd_forceOuts = (if o' = FIELDER_CHOICE \<and> on_base s FIRST then [From_base FIRST \<mapsto> True] else Map.empty),
       pd_putoutFielderId = None, pd_errorFielderId = None, pd_battedBall = defaultBattedBall o'\<rparr>)"

definition batterDestination :: "plate_outcome \<Rightarrow> runner_destination" where
  "batterDestination o' =
     (if o' \<in> {WALK, INTENTIONAL_WALK, HIT_BY_PITCH, SINGLE, FIELDER_CHOICE, REACHED_ON_ERROR, INTERFERENCE}
      then To_base FIRST
      else if o' = DOUBLE then To_base SECOND
      else if o' = TRIPLE then To_base THIRD
      else if o' = HOME_RUN then To_HOME
      else To_OUT)"

section \<open>The loop over the runners\<close>

text \<open>
  Both previews walk over the bases and turn every runner that moves into a movement.  They differ
  in the runners they refuse and in the movement they make.
\<close>

record preview_loop =
  lp_errors :: "preview_error list"
  lp_movements :: "runner_movement list"
  lp_destinations :: "base list"
  lp_outs :: int

definition empty_loop :: preview_loop where
  "empty_loop = \<lparr>lp_errors = [], lp_movements = [], lp_destinations = [], lp_outs = 0\<rparr>"

definition add_error :: "preview_error \<Rightarrow> preview_loop \<Rightarrow> preview_loop" where
  "add_error e v = v\<lparr>lp_errors := lp_errors v @ [e]\<rparr>"

definition add_destination :: "(base \<Rightarrow> preview_error) \<Rightarrow> runner_destination \<Rightarrow> preview_loop \<Rightarrow> preview_loop" where
  "add_destination err d v =
     (case d of
        To_base b \<Rightarrow>
          if b \<in> set (lp_destinations v) then add_error (err b) v
          else v\<lparr>lp_destinations := lp_destinations v @ [b]\<rparr>
      | _ \<Rightarrow> v)"

definition outcome_at :: "(base \<Rightarrow> runner_outcome option) \<Rightarrow> base \<Rightarrow> runner_outcome" where
  "outcome_at outcomes b = (case outcomes b of None \<Rightarrow> REMAINS | Some o' \<Rightarrow> o')"

definition moves_back :: "runner_destination \<Rightarrow> base \<Rightarrow> bool" where
  "moves_back d b \<longleftrightarrow> (case destination_rank d of None \<Rightarrow> False | Some r \<Rightarrow> r \<le> base_rank b)"

definition preview_runner ::
    "game_state \<Rightarrow> (base \<Rightarrow> runner_outcome option) \<Rightarrow> (runner_destination \<Rightarrow> bool)
     \<Rightarrow> (ident \<Rightarrow> base \<Rightarrow> runner_destination \<Rightarrow> ident \<Rightarrow> int \<Rightarrow> runner_movement)
     \<Rightarrow> base \<Rightarrow> preview_loop \<Rightarrow> preview_loop" where
  "preview_runner s outcomes refused movement b v =
     (if \<not> on_base s b then
        (if outcome_at outcomes b \<noteq> REMAINS then add_error (NO_RUNNER b) v else v)
      else
        (let runner = the (gs_bases s b) in
         case outcome_at outcomes b of
           REMAINS \<Rightarrow> v
         | Moves d \<Rightarrow>
             if moves_back d b then add_error (NOT_FORWARD runner b) v
             else if refused d then add_error OUT_NOT_ALLOWED v
             else
               (let v' = add_destination TWO_RUNNERS d v; pitcher = gs_runnerPitcherResponsibility s runner in
                if \<not> truthy pitcher then add_error (NO_RESPONSIBILITY runner) v'
                else
                  (let outs = lp_outs v' + (if d = To_OUT then 1 else 0) in
                   v'\<lparr>lp_outs := outs, lp_movements := lp_movements v' @ [movement runner b d (the pitcher) outs]\<rparr>))))"

section \<open>What both previews compute from the movements\<close>

definition stationary_collisions :: "(base \<Rightarrow> bool) \<Rightarrow> base list \<Rightarrow> runner_movement list \<Rightarrow> preview_error list" where
  "stationary_collisions occupied dests ms =
     map BASE_OCCUPIED (filter (\<lambda>b. occupied b \<and> b \<notin> set (movement_origins ms)) dests)"

definition vacate :: "runner_movement list \<Rightarrow> (base \<Rightarrow> ident option) \<Rightarrow> base \<Rightarrow> ident option" where
  "vacate ms bs = fold (\<lambda>m c. case mv_from m of BATTER \<Rightarrow> c | From_base b \<Rightarrow> c(b := None)) ms bs"

definition occupy :: "runner_movement list \<Rightarrow> (base \<Rightarrow> ident option) \<Rightarrow> base \<Rightarrow> ident option" where
  "occupy ms bs = fold (\<lambda>m c. case mv_to m of To_base b \<Rightarrow> c(b \<mapsto> mv_runnerId m) | _ \<Rightarrow> c) ms bs"

definition after_bases :: "game_state \<Rightarrow> runner_movement list \<Rightarrow> base \<Rightarrow> ident option" where
  "after_bases s ms = occupy ms (vacate ms (gs_bases s))"

definition announce :: "runner_movement \<Rightarrow> announcement" where
  "announce m = (case mv_to m of To_OUT \<Rightarrow> IS_OUT (mv_runnerId m) | To_HOME \<Rightarrow> SCORED (mv_runnerId m)
     | To_base b \<Rightarrow> NOW_ON (mv_runnerId m) b)"

definition finish_preview ::
    "game_state \<Rightarrow> int \<Rightarrow> runner_movement list \<Rightarrow> preview_error list \<Rightarrow> announcement list \<Rightarrow> play_body \<Rightarrow> preview" where
  "finish_preview s outs ms errors closing body =
     (let ended = (gs_outs s + outs = 3) in
      \<lparr>vw_body = (if errors = [] then Some body else None),
       vw_bases = (if ended then (\<lambda>_. None) else after_bases s ms),
       vw_outs = (if ended then 0 else gs_outs s + outs),
       vw_runs = int (length (filter counting_run ms)),
       vw_inningEnded = ended, vw_errors = js_unique errors, vw_announcements = map announce ms @ closing\<rparr>)"

definition error_credit :: "ident option \<Rightarrow> fielding_credit list" where
  "error_credit f = (if truthy f
     then [\<lparr>fc_fielderId = the f, fc_credit = ERROR, fc_errorType = Some ''FIELDING''\<rparr>] else [])"

section \<open>Plate appearances\<close>

definition isForcedAdvance :: "plate_draft \<Rightarrow> base \<Rightarrow> runner_destination \<Rightarrow> bool" where
  "isForcedAdvance d b dst \<longleftrightarrow> pd_outcome d \<in> walk_outcomes \<and>
     (case b of
        FIRST \<Rightarrow> dst = To_base SECOND
      | SECOND \<Rightarrow> dst = To_base THIRD \<and> pd_outcomes d FIRST = Some (Moves (To_base SECOND))
      | THIRD \<Rightarrow> dst = To_HOME \<and> pd_outcomes d SECOND = Some (Moves (To_base THIRD)))"

definition runnerCause :: "plate_outcome \<Rightarrow> bool \<Rightarrow> movement_cause" where
  "runnerCause o' forced =
     (if forced then Cause_FORCED_ADVANCE
      else if o' \<in> hit_outcomes then Cause_OPTIONAL_ADVANCE
      else if o' = REACHED_ON_ERROR then Cause_ERROR
      else if o' = FIELDER_CHOICE then Cause_FIELDERS_CHOICE
      else if o' \<in> {SACRIFICE_BUNT, SACRIFICE_FLY} then Cause_SACRIFICE
      else Cause_OPTIONAL_ADVANCE)"

definition putout_fielders :: "plate_draft \<Rightarrow> ident list" where
  "putout_fielders d = (if truthy (pd_putoutFielderId d) then [the (pd_putoutFielderId d)] else [])"

definition or_default :: "'a option \<Rightarrow> 'a \<Rightarrow> 'a" where
  "or_default x y = (case x of None \<Rightarrow> y | Some v \<Rightarrow> v)"

definition plate_movement ::
    "game_state \<Rightarrow> plate_draft \<Rightarrow> ident \<Rightarrow> base \<Rightarrow> runner_destination \<Rightarrow> ident \<Rightarrow> int \<Rightarrow> runner_movement" where
  "plate_movement s d runner b dst pitcher outs =
     (let forced = isForcedAdvance d b dst; home = (dst = To_HOME) in
      \<lparr>mv_runnerId = runner, mv_from = From_base b, mv_to = dst, mv_cause = runnerCause (pd_outcome d) forced,
       mv_forced = forced, mv_responsiblePitcherId = pitcher,
       mv_runCounts = (if home then Some True else None),
       mv_rbiEligible = (if home
          then Some (or_default (pd_rbiEligible d (From_base b)) (pd_outcome d \<notin> {REACHED_ON_ERROR, FIELDER_CHOICE})) else None),
       mv_earnedRun = (if home then Some (or_default (pd_earnedRuns d (From_base b)) PENDING) else None),
       mv_out = (if dst = To_OUT
          then Some \<lparr>out_outNumber = gs_outs s + outs, out_force = or_default (pd_forceOuts d (From_base b)) False,
                     out_fielders = putout_fielders d\<rparr> else None)\<rparr>)"

definition batter_forced :: "plate_draft \<Rightarrow> bool" where
  "batter_forced d \<longleftrightarrow> batterDestination (pd_outcome d) = To_base FIRST \<and> pd_outcome d \<in> walk_outcomes"

definition batter_cause :: "plate_draft \<Rightarrow> movement_cause" where
  "batter_cause d =
     (if pd_outcome d \<in> hit_outcomes then Cause_HIT
      else if pd_outcome d = REACHED_ON_ERROR then Cause_ERROR
      else if pd_outcome d = FIELDER_CHOICE then Cause_FIELDERS_CHOICE
      else if batter_forced d then Cause_FORCED_ADVANCE
      else if pd_outcome d \<in> {SACRIFICE_BUNT, SACRIFICE_FLY} then Cause_SACRIFICE
      else Cause_BATTER_RESULT)"

definition batter_force_out :: "plate_draft \<Rightarrow> bool" where
  "batter_force_out d = or_default (pd_forceOuts d BATTER)
     ((pd_outcome d = BATTER_OUT \<and> pd_battedBall d = Some GROUND_BALL) \<or> pd_outcome d = SACRIFICE_BUNT)"

definition batter_movement :: "game_state \<Rightarrow> plate_draft \<Rightarrow> int \<Rightarrow> runner_movement" where
  "batter_movement s d outs =
     (let dst = batterDestination (pd_outcome d); home = (dst = To_HOME) in
      \<lparr>mv_runnerId = currentBatterId s, mv_from = BATTER, mv_to = dst, mv_cause = batter_cause d,
       mv_forced = batter_forced d, mv_responsiblePitcherId = gs_activePitcher s (fieldingSide s),
       mv_runCounts = (if home then Some True else None),
       mv_rbiEligible = (if home then Some (or_default (pd_rbiEligible d BATTER) True) else None),
       mv_earnedRun = (if home then Some (or_default (pd_earnedRuns d BATTER) EARNED) else None),
       mv_out = (if dst = To_OUT
          then Some \<lparr>out_outNumber = gs_outs s + outs, out_force = batter_force_out d, out_fielders = putout_fielders d\<rparr>
          else None)\<rparr>)"

definition plate_runners :: "game_state \<Rightarrow> plate_draft \<Rightarrow> preview_loop" where
  "plate_runners s d =
     fold (preview_runner s (pd_outcomes d) (\<lambda>_. False) (plate_movement s d)) all_bases empty_loop"

text \<open>The batter's movement joins those of the runners.\<close>

definition plate_loop :: "game_state \<Rightarrow> plate_draft \<Rightarrow> preview_loop" where
  "plate_loop s d =
     (let v = plate_runners s d; dst = batterDestination (pd_outcome d);
          outs = lp_outs v + (if dst = To_OUT then 1 else 0) in
      add_destination BATTER_COLLISION dst
        (v\<lparr>lp_outs := outs, lp_movements := lp_movements v @ [batter_movement s d outs]\<rparr>))"

definition when_error :: "bool \<Rightarrow> preview_error \<Rightarrow> preview_error list" where
  "when_error b e = (if b then [e] else [])"

definition desk_ranks :: "(base \<Rightarrow> ident option) \<Rightarrow> (ident \<Rightarrow> nat option) \<Rightarrow> ident \<Rightarrow> nat option" where
  "desk_ranks bs start =
     fold (\<lambda>b r. if truthy (bs b) then r(the (bs b) \<mapsto> base_rank b) else r) all_bases start"

definition runner_passed :: "game_state \<Rightarrow> ident \<Rightarrow> runner_movement list \<Rightarrow> bool" where
  "runner_passed s batter ms =
     (let orig = desk_ranks (gs_bases s) [batter \<mapsto> 0]; final = desk_ranks (after_bases s ms) Map.empty;
          rs = batter # occupied_runners (gs_bases s) in
      list_ex (\<lambda>t. list_ex (\<lambda>l. passes orig final t l) rs) rs)"

definition plate_errors :: "game_state \<Rightarrow> plate_draft \<Rightarrow> preview_loop \<Rightarrow> preview_error list" where
  "plate_errors s d v =
     lp_errors v @
     when_error (currentBatterId s = '''' \<or> gs_status s \<noteq> IN_PROGRESS) NO_ACTIVE_BATTER @
     when_error (gs_outs s + lp_outs v > 3) FOURTH_OUT @
     when_error (lp_outs v > 0 \<and> \<not> truthy (pd_putoutFielderId d)) NO_PUTOUT_FIELDER @
     when_error (pd_outcome d = REACHED_ON_ERROR \<and> \<not> truthy (pd_errorFielderId d)) NO_ERROR_FIELDER @
     when_error (pd_outcome d = FIELDER_CHOICE \<and>
       \<not> list_ex (\<lambda>m. mv_from m \<noteq> BATTER \<and> mv_to m = To_OUT) (lp_movements v)) NO_RUNNER_OUT @
     when_error ((pd_outcome d = SACRIFICE_BUNT \<and> pd_battedBall d \<noteq> Some BUNT) \<or>
       (pd_outcome d = SACRIFICE_FLY \<and> pd_battedBall d \<noteq> Some FLY_BALL)) SACRIFICE_MISMATCH @
     when_error (gs_outs s = 2 \<and> pd_outcome d \<in> {SACRIFICE_BUNT, SACRIFICE_FLY}) SACRIFICE_TWO_OUTS @
     stationary_collisions (on_base s) (lp_destinations v) (lp_movements v) @
     when_error (inning_ending_force (lp_movements v) \<and> list_ex counting_run (lp_movements v)) RUN_ON_FORCE_OUT @
     when_error (runner_passed s (currentBatterId s) (lp_movements v)) RUNNER_PASSED"

definition plate_body :: "game_state \<Rightarrow> plate_draft \<Rightarrow> runner_movement list \<Rightarrow> plate_appearance" where
  "plate_body s d ms =
     \<lparr>pa_batterId = currentBatterId s, pa_pitcherId = gs_activePitcher s (fieldingSide s), pa_outcome = pd_outcome d,
      pa_battedBall = pd_battedBall d, pa_movements = ms,
      pa_fieldingCredits = (if pd_outcome d = REACHED_ON_ERROR then error_credit (pd_errorFielderId d) else [])\<rparr>"

definition previewPlateAppearance :: "game_state \<Rightarrow> plate_draft \<Rightarrow> preview" where
  "previewPlateAppearance s d =
     (let v = plate_loop s d; ended = (gs_outs s + lp_outs v = 3) in
      finish_preview s (lp_outs v) (lp_movements v) (plate_errors s d v)
        [if ended then INNING_ENDED else NEXT_BATTER (nextBatterId s)]
        (PlateAppearanceRecorded (plate_body s d (lp_movements v))))"

section \<open>Plays of the runners\<close>

fun causeFor :: "play_type \<Rightarrow> movement_cause" where
  "causeFor Play_OPTIONAL_ADVANCE = Cause_OPTIONAL_ADVANCE"
| "causeFor Play_ERROR = Cause_ERROR"
| "causeFor Play_STOLEN_BASE = Cause_STOLEN_BASE"
| "causeFor Play_CAUGHT_STEALING = Cause_CAUGHT_STEALING"
| "causeFor Play_PICKOFF = Cause_PICKOFF"
| "causeFor Play_RUNNER_OUT = Cause_RUNNER_OUT"
| "causeFor Play_WILD_PITCH = Cause_WILD_PITCH"
| "causeFor Play_PASSED_BALL = Cause_PASSED_BALL"

definition out_plays :: "play_type set" where
  "out_plays = {Play_CAUGHT_STEALING, Play_PICKOFF, Play_RUNNER_OUT}"

definition runner_play_movement ::
    "game_state \<Rightarrow> runner_draft \<Rightarrow> ident \<Rightarrow> base \<Rightarrow> runner_destination \<Rightarrow> ident \<Rightarrow> int \<Rightarrow> runner_movement" where
  "runner_play_movement s d runner b dst pitcher outs =
     (let home = (dst = To_HOME) in
      \<lparr>mv_runnerId = runner, mv_from = From_base b, mv_to = dst, mv_cause = causeFor (rd_playType d), mv_forced = False,
       mv_responsiblePitcherId = pitcher, mv_runCounts = (if home then Some True else None),
       mv_rbiEligible = (if home then Some False else None),
       mv_earnedRun = (if home then Some (or_default (rd_earnedRuns d b) PENDING) else None),
       mv_out = (if dst = To_OUT
          then Some \<lparr>out_outNumber = gs_outs s + outs, out_force = False, out_fielders = rd_outFielderIds d\<rparr> else None)\<rparr>)"

definition runner_loop :: "game_state \<Rightarrow> runner_draft \<Rightarrow> preview_loop" where
  "runner_loop s d =
     fold (preview_runner s (rd_outcomes d) (\<lambda>dst. dst = To_OUT \<and> rd_playType d \<notin> out_plays) (runner_play_movement s d))
       all_bases empty_loop"

definition runner_errors :: "game_state \<Rightarrow> runner_draft \<Rightarrow> preview_loop \<Rightarrow> preview_error list" where
  "runner_errors s d v =
     lp_errors v @
     when_error (lp_movements v = []) NO_CHANGE @
     when_error (gs_outs s + lp_outs v > 3) FOURTH_OUT @
     when_error (rd_playType d \<in> {Play_CAUGHT_STEALING, Play_PICKOFF} \<and> lp_outs v \<noteq> 1) ONE_OUT_REQUIRED @
     when_error (rd_playType d = Play_RUNNER_OUT \<and> lp_outs v = 0) OUT_REQUIRED @
     when_error (lp_outs v > 0 \<and> rd_outFielderIds d = []) NO_OUT_FIELDER @
     when_error (rd_playType d = Play_ERROR \<and> \<not> truthy (rd_errorFielderId d)) NO_ERROR_FIELDER @
     stationary_collisions (\<lambda>b. gs_bases s b \<noteq> None) (lp_destinations v) (lp_movements v)"

definition runner_body :: "game_state \<Rightarrow> runner_draft \<Rightarrow> runner_movement list \<Rightarrow> runner_play" where
  "runner_body s d ms =
     \<lparr>rp_playType = rd_playType d, rp_movements = ms,
      rp_fieldingCredits = (if rd_playType d = Play_ERROR then error_credit (rd_errorFielderId d) else []),
      rp_responsibleFielderId = (if rd_playType d = Play_PASSED_BALL then gs_defense s (fieldingSide s) CATCHER else None)\<rparr>"

definition previewRunnerPlay :: "game_state \<Rightarrow> runner_draft \<Rightarrow> preview" where
  "previewRunnerPlay s d =
     (let v = runner_loop s d; outs = gs_outs s + lp_outs v in
      finish_preview s (lp_outs v) (lp_movements v) (runner_errors s d v)
        (if lp_outs v > 0 then [if outs = 3 then INNING_ENDED else OUTS outs] else [])
        (RunnerPlayRecorded (runner_body s d (lp_movements v))))"

section \<open>Changes of the lineup\<close>

text \<open>A message of the engine, or the general one for everything that is not an error of the engine.\<close>

datatype lineup_error = ENGINE_MESSAGE event_error | INVALID_CHANGE

record lineup_preview =
  cp_body :: "play_body option"
  cp_nextState :: "game_state option"
  cp_errors :: "lineup_error list"
  cp_warnings :: "string list"
  cp_label :: string

definition rejected :: "lineup_error \<Rightarrow> string list \<Rightarrow> lineup_preview" where
  "rejected e warnings =
     \<lparr>cp_body = None, cp_nextState = None, cp_errors = [e], cp_warnings = warnings, cp_label = ''Invalid lineup change''\<rparr>"

definition lineup_error_of :: "event_error \<Rightarrow> lineup_error" where
  "lineup_error_of e = (if e = JS_TYPE_ERROR then INVALID_CHANGE else ENGINE_MESSAGE e)"

text \<open>The \<open>try\<close> around \<open>previewEventBody\<close> that the three previews end with.\<close>

definition engine_preview ::
    "game_state \<Rightarrow> play_body \<Rightarrow> string list \<Rightarrow> string list \<Rightarrow> string \<Rightarrow> lineup_preview" where
  "engine_preview s body warnings failed label =
     (case previewEventBody s (Shaped (Play body)) of
        Inr t \<Rightarrow> \<lparr>cp_body = Some body, cp_nextState = Some t, cp_errors = [], cp_warnings = warnings, cp_label = label\<rparr>
      | Inl e \<Rightarrow> rejected (lineup_error_of e) failed)"

definition substitutionRole :: "game_state \<Rightarrow> game_side \<Rightarrow> ident \<Rightarrow> string" where
  "substitutionRole s sd outgoing =
     (let l = activeBatters s sd; k = gs_battingOrderIndex s sd mod max (length l) 1;
          batter = (if sd = battingSide s \<and> k < length l then Some (le_playerId (l ! k)) else None) in
      if list_ex (\<lambda>b. gs_bases s b = Some outgoing) all_bases then ''Pinch runner''
      else if batter = Some outgoing then ''Pinch hitter''
      else if sd = fieldingSide s then ''Defensive replacement''
      else ''Batting substitution'')"

definition previewSubstitution :: "game_state \<Rightarrow> defensive_substitution \<Rightarrow> lineup_preview" where
  "previewSubstitution s i =
     (let role = substitutionRole s (ds_side i) (ds_outgoingPlayerId i);
          warnings = [role @ '' is permanent under the current no-reentry ruleset.''] in
      engine_preview s (DefensiveSubstitutionMade i) warnings warnings role)"

definition active_defender :: "lineup_entry \<Rightarrow> bool" where
  "active_defender e \<longleftrightarrow> le_active e \<and> le_position e \<noteq> None"

definition previewAlignmentSwap :: "game_state \<Rightarrow> game_side \<Rightarrow> ident \<Rightarrow> ident \<Rightarrow> lineup_preview" where
  "previewAlignmentSwap s sd x y =
     (case (find (\<lambda>e. le_playerId e = x) (gs_lineups s sd), find (\<lambda>e. le_playerId e = y) (gs_lineups s sd)) of
        (Some e, Some f) \<Rightarrow>
          if active_defender e \<and> active_defender f \<and> le_playerId e \<noteq> le_playerId f then
            engine_preview s (DefensiveAlignmentChanged \<lparr>da_side = sd,
                da_assignments = [\<lparr>as_playerId = le_playerId e, as_position = the (le_position f)\<rparr>,
                                  \<lparr>as_playerId = le_playerId f, as_position = the (le_position e)\<rparr>],
                da_reasonCode = ''POSITION_SWAP''\<rparr>)
              [''This changes defensive positions only; batting order is unchanged.''] [] ''Position swap''
          else rejected INVALID_CHANGE []
      | _ \<Rightarrow> rejected INVALID_CHANGE [])"

definition pitching_warning :: "nat \<Rightarrow> string" where
  "pitching_warning n =
     (if n > 0 then string_of_int (int n) @ '' inherited runner'' @ (if n = 1 then [] else ''s'') @
        '' remain charged to the outgoing pitcher.''
      else ''The new pitching appearance begins with no inherited runners.'')"

definition previewPitchingChange :: "game_state \<Rightarrow> ident \<Rightarrow> lineup_preview" where
  "previewPitchingChange s incoming =
     (let runners = occupied_runners (gs_bases s); warnings = [pitching_warning (length runners)] in
      engine_preview s (PitchingChangeMade \<lparr>pc_side = fieldingSide s, pc_outgoingPitcherId = gs_activePitcher s (fieldingSide s),
          pc_incomingPitcherId = incoming, pc_inheritedRunnerIds = runners\<rparr>) warnings warnings ''Pitching change'')"

end
