(* ===== verification/Preview_Refinement.thy ===== *)
theory Preview_Refinement
  imports Scoring_Preview
begin

text \<open>
  The desk against the engine.  The loop over the runners is described once, in the locale \<open>desk\<close>: what it
  leaves when it reports no error.  Both previews interpret it, and for both an errorless preview is a play
  the engine accepts, with the bases, outs and runs that were shown.  What the desk does not check is a
  hypothesis: the whole chain of forced runners, and overtaking in the plays of the runners.
\<close>

section \<open>The loop without errors\<close>

text \<open>Where the runner on a base is sent, if he is.\<close>

definition sent :: "game_state \<Rightarrow> (base \<Rightarrow> runner_outcome option) \<Rightarrow> base \<Rightarrow> runner_destination option" where
  "sent s outcomes b =
     (if on_base s b then (case outcome_at outcomes b of REMAINS \<Rightarrow> None | Moves d \<Rightarrow> Some d) else None)"

text \<open>A movement that agrees with the state before the play.\<close>

definition moves_from :: "game_state \<Rightarrow> base \<Rightarrow> runner_destination \<Rightarrow> runner_movement \<Rightarrow> bool" where
  "moves_from s b d m \<longleftrightarrow> mv_from m = From_base b \<and> mv_to m = d \<and> on_base s b \<and> gs_bases s b = Some (mv_runnerId m) \<and>
     gs_runnerPitcherResponsibility s (mv_runnerId m) = Some (mv_responsiblePitcherId m) \<and> \<not> moves_back d b"

definition numbered_outs :: "game_state \<Rightarrow> runner_movement list \<Rightarrow> bool" where
  "numbered_outs s ms \<longleftrightarrow> map out_outNumber (out_details ms) = expected_out_numbers s ms \<and>
     list_all (\<lambda>m. (mv_to m = To_OUT) = (mv_out m \<noteq> None)) ms"

definition made ::
    "(ident \<Rightarrow> base \<Rightarrow> runner_destination \<Rightarrow> ident \<Rightarrow> int \<Rightarrow> runner_movement) \<Rightarrow> base \<Rightarrow> runner_destination
     \<Rightarrow> runner_movement \<Rightarrow> bool" where
  "made movement b d m \<longleftrightarrow> (\<exists>x p n. m = movement x b d p n)"

text \<open>What an errorless loop leaves, when it has walked over the bases \<open>bs\<close>.\<close>

definition loop_clean ::
    "game_state \<Rightarrow> (base \<Rightarrow> runner_outcome option) \<Rightarrow> (runner_destination \<Rightarrow> bool)
     \<Rightarrow> (ident \<Rightarrow> base \<Rightarrow> runner_destination \<Rightarrow> ident \<Rightarrow> int \<Rightarrow> runner_movement) \<Rightarrow> base list \<Rightarrow> preview_loop \<Rightarrow> bool" where
  "loop_clean s outcomes refused movement bs v \<longleftrightarrow>
     (\<forall>b\<in>set bs. \<not> on_base s b \<longrightarrow> outcome_at outcomes b = REMAINS) \<and>
     (\<forall>b\<in>set bs. \<forall>d. sent s outcomes b = Some d \<longrightarrow> \<not> refused d \<and>
        (\<exists>m\<in>set (lp_movements v). made movement b d m \<and> moves_from s b d m)) \<and>
     (\<forall>m\<in>set (lp_movements v). \<exists>b\<in>set bs. \<exists>d. sent s outcomes b = Some d \<and> made movement b d m \<and> moves_from s b d m) \<and>
     distinct (movement_origins (lp_movements v)) \<and> set (movement_origins (lp_movements v)) \<subseteq> set bs \<and>
     lp_destinations v = movement_destinations (lp_movements v) \<and> distinct (lp_destinations v) \<and>
     lp_outs v = int (length (out_movements (lp_movements v))) \<and> numbered_outs s (lp_movements v)"

locale desk =
  fixes s :: game_state and outcomes :: "base \<Rightarrow> runner_outcome option" and refused :: "runner_destination \<Rightarrow> bool"
    and movement :: "ident \<Rightarrow> base \<Rightarrow> runner_destination \<Rightarrow> ident \<Rightarrow> int \<Rightarrow> runner_movement"
  assumes runner: "\<And>x b d p n. mv_runnerId (movement x b d p n) = x" and origin: "\<And>x b d p n. mv_from (movement x b d p n) = From_base b"
    and dest: "\<And>x b d p n. mv_to (movement x b d p n) = d" and pitcher: "\<And>x b d p n. mv_responsiblePitcherId (movement x b d p n) = p"
    and out_number: "\<And>x b d p n. map_option out_outNumber (mv_out (movement x b d p n)) = (if d = To_OUT then Some (gs_outs s + n) else None)"
begin

lemma step_errors:
  "lp_errors (preview_runner s outcomes refused movement b v) = [] \<Longrightarrow> lp_errors v = []"
  by (auto simp: preview_runner_def Let_def add_error_def add_destination_def split: if_splits runner_outcome.splits runner_destination.splits)

lemma out_detail: "mv_out (movement x b d p n) = None \<longleftrightarrow> d \<noteq> To_OUT"
  "d = To_OUT \<Longrightarrow> \<exists>o'. mv_out (movement x b d p n) = Some o' \<and> out_outNumber o' = gs_outs s + n"
  using out_number [where x = x and b = b and d = d and p = p and n = n] by (auto split: if_splits)

lemma step_clean:
  assumes "loop_clean s outcomes refused movement bs v" and "b \<notin> set bs"
    and err: "lp_errors (preview_runner s outcomes refused movement b v) = []"
  shows "loop_clean s outcomes refused movement (bs @ [b]) (preview_runner s outcomes refused movement b v)"
proof (cases "sent s outcomes b")
  case None
  then have "preview_runner s outcomes refused movement b v = v" and "\<not> on_base s b \<Longrightarrow> outcome_at outcomes b = REMAINS"
    using err by (auto simp: preview_runner_def sent_def add_error_def split: if_splits runner_outcome.splits)
  with assms(1) None show ?thesis by (auto simp: loop_clean_def)
next
  case (Some d)
  then have on: "on_base s b" "outcome_at outcomes b = Moves d" by (auto simp: sent_def split: if_splits runner_outcome.splits)
  obtain x where x: "gs_bases s b = Some x" using on(1) by (cases "gs_bases s b") (simp_all add: on_base_def)
  have step: "\<not> moves_back d b" "\<not> refused d" "truthy (gs_runnerPitcherResponsibility s x)"
    "\<And>b'. d = To_base b' \<Longrightarrow> b' \<notin> set (lp_destinations v)"
    using err on x by (auto simp: preview_runner_def Let_def add_error_def add_destination_def split: if_splits runner_destination.splits)
  then obtain p where p: "gs_runnerPitcherResponsibility s x = Some p"
    by (cases "gs_runnerPitcherResponsibility s x") simp_all
  define n where "n = lp_outs v + (if d = To_OUT then 1 else 0)"
  define m where "m = movement x b d p n"
  have eq: "preview_runner s outcomes refused movement b v =
      v\<lparr>lp_outs := n, lp_movements := lp_movements v @ [m], lp_destinations := lp_destinations v @ movement_destinations [m]\<rparr>"
    using on x p step by (auto simp: preview_runner_def Let_def add_destination_def n_def m_def movement_destinations_def dest
        split: runner_destination.splits)
  have m: "mv_runnerId m = x" "mv_from m = From_base b" "mv_to m = d" "mv_responsiblePitcherId m = p"
    by (simp_all add: m_def runner origin dest pitcher)
  have out: "mv_out m = None \<longleftrightarrow> d \<noteq> To_OUT" "d = To_OUT \<Longrightarrow> \<exists>o'. mv_out m = Some o' \<and> out_outNumber o' = gs_outs s + n"
    unfolding m_def by (rule out_detail(1), rule out_detail(2))
  have prev: "numbered_outs s (lp_movements v)" "lp_outs v = int (length (out_movements (lp_movements v)))"
    using assms(1) by (simp_all add: loop_clean_def)
  have num: "numbered_outs s (lp_movements v @ [m]) \<and> n = int (length (out_movements (lp_movements v @ [m])))"
  proof (cases "d = To_OUT")
    case True
    with out(2) obtain o' where "mv_out m = Some o'" "out_outNumber o' = gs_outs s + n" by blast
    with True prev m show ?thesis
      by (simp add: numbered_outs_def out_details_def out_movements_def expected_out_numbers_def n_def)
  next
    case False
    with out(1) prev m show ?thesis
      by (simp add: numbered_outs_def out_details_def out_movements_def expected_out_numbers_def n_def)
  qed
  have "made movement b d m" unfolding made_def m_def by blast
  moreover have "moves_from s b d m" using m x p on step(1) by (simp add: moves_from_def)
  ultimately have mine: "made movement b d m" "moves_from s b d m" .
  let ?v = "preview_runner s outcomes refused movement b v"
  have v: "lp_movements ?v = lp_movements v @ [m]" "lp_outs ?v = n"
    "lp_destinations ?v = lp_destinations v @ movement_destinations [m]"
    by (simp_all add: eq)
  have origins: "movement_origins (lp_movements v @ [m]) = movement_origins (lp_movements v) @ [b]"
    using m by (simp add: movement_origins_def)
  have dests: "movement_destinations (ms @ [m]) = movement_destinations ms @ movement_destinations [m]" for ms
    by (simp add: movement_destinations_def)
  note old = assms(1) [unfolded loop_clean_def]
  show ?thesis
    unfolding loop_clean_def v origins
  proof (intro conjI)
    show "\<forall>b'\<in>set (bs @ [b]). \<not> on_base s b' \<longrightarrow> outcome_at outcomes b' = REMAINS" using old on(1) by simp
    show "\<forall>b'\<in>set (bs @ [b]). \<forall>d. sent s outcomes b' = Some d \<longrightarrow> \<not> refused d \<and>
        (\<exists>m'\<in>set (lp_movements v @ [m]). made movement b' d m' \<and> moves_from s b' d m')"
      using old Some step(2) mine by simp
    show "\<forall>m'\<in>set (lp_movements v @ [m]). \<exists>b'\<in>set (bs @ [b]). \<exists>d. sent s outcomes b' = Some d \<and>
        made movement b' d m' \<and> moves_from s b' d m'"
      using old Some mine by simp
    show "distinct (movement_origins (lp_movements v) @ [b])" "set (movement_origins (lp_movements v) @ [b]) \<subseteq> set (bs @ [b])"
      using old assms(2) by auto
    show "lp_destinations v @ movement_destinations [m] = movement_destinations (lp_movements v @ [m])"
      using old by (simp add: dests)
    show "distinct (lp_destinations v @ movement_destinations [m])"
      using old step(4) m(3) by (auto simp: movement_destinations_def split: runner_destination.splits)
  qed (use num in simp_all)
qed

end

context desk
begin

lemma loop_errors:
  "lp_errors (fold (preview_runner s outcomes refused movement) bs v) = [] \<Longrightarrow> lp_errors v = []"
  by (induction bs arbitrary: v) (auto dest: step_errors)

lemma loop_clean_fold:
  assumes "loop_clean s outcomes refused movement past v" and "distinct (past @ bs)"
    and "lp_errors (fold (preview_runner s outcomes refused movement) bs v) = []"
  shows "loop_clean s outcomes refused movement (past @ bs) (fold (preview_runner s outcomes refused movement) bs v)"
  using assms
proof (induction bs arbitrary: past v)
  case (Cons b bs)
  have "lp_errors (preview_runner s outcomes refused movement b v) = []"
    using Cons.prems(3) by (auto dest: loop_errors)
  then have "loop_clean s outcomes refused movement (past @ [b]) (preview_runner s outcomes refused movement b v)"
    using Cons.prems by (intro step_clean) auto
  from Cons.IH [OF this] Cons.prems show ?case by simp
qed simp

lemma loop_clean_all:
  assumes "lp_errors (fold (preview_runner s outcomes refused movement) all_bases empty_loop) = []"
  shows "loop_clean s outcomes refused movement all_bases
     (fold (preview_runner s outcomes refused movement) all_bases empty_loop)"
proof -
  have "loop_clean s outcomes refused movement [] empty_loop"
    by (simp add: loop_clean_def empty_loop_def numbered_outs_def movement_origins_def movement_destinations_def
        out_movements_def out_details_def expected_out_numbers_def)
  from loop_clean_fold [OF this _ assms] show ?thesis by (simp add: all_bases_def)
qed

end

text \<open>The facts of an errorless loop over all bases, one by one.\<close>

lemma loop_cleanD:
  assumes "loop_clean s outcomes refused movement all_bases v"
  shows "\<And>m. m \<in> set (lp_movements v) \<Longrightarrow> \<exists>b d. sent s outcomes b = Some d \<and> made movement b d m \<and> moves_from s b d m"
    and "\<And>b d. sent s outcomes b = Some d \<Longrightarrow> \<not> refused d \<and> (\<exists>m\<in>set (lp_movements v). made movement b d m \<and> moves_from s b d m)"
    and "\<And>b. outcome_at outcomes b \<noteq> REMAINS \<Longrightarrow> on_base s b"
    and "distinct (movement_origins (lp_movements v))" "lp_destinations v = movement_destinations (lp_movements v)"
    and "distinct (movement_destinations (lp_movements v))" "lp_outs v = int (length (out_movements (lp_movements v)))"
    and "numbered_outs s (lp_movements v)"
  using assms base_cases_list by (fastforce simp: loop_clean_def)+

section \<open>The desk and the engine compute the same\<close>

lemma js_unique_Nil_iff [simp]: "js_unique xs = [] \<longleftrightarrow> xs = []"
  by (metis set_empty set_js_unique)

lemma vacate_eq: "vacate ms bs = free_origins ms bs"
proof (rule ext)
  fix b
  show "vacate ms bs b = free_origins ms bs b"
    by (induction ms arbitrary: bs)
      (auto simp: vacate_def free_origins_def movement_origins_def split: runner_origin.splits)
qed

lemma occupy_eq: "gs_bases (fold place_runner ms s) = occupy ms (gs_bases s)"
proof (induction ms arbitrary: s)
  case (Cons m ms)
  then show ?case by (simp add: occupy_def) (simp add: place_runner_def split: runner_destination.splits)
qed (simp add: occupy_def)

lemma after_bases_eq: "after_bases s ms = gs_bases (move_runners ms s)"
  by (simp add: after_bases_def move_runners_def occupy_eq vacate_eq)

lemma desk_ranks_eq:
  assumes "\<And>b x. bs b = Some x \<Longrightarrow> x \<noteq> ''''"
  shows "desk_ranks bs start x = (case base_ranks bs x of None \<Rightarrow> start x | Some r \<Rightarrow> Some r)"
proof -
  have "truthy (bs b) \<longleftrightarrow> bs b \<noteq> None" for b using assms by (cases "bs b") auto
  then show ?thesis
    by (cases "bs FIRST"; cases "bs SECOND"; cases "bs THIRD") (simp_all add: desk_ranks_def base_ranks_eq all_bases_def)
qed

lemma runner_named:
  assumes "game_wf s" "gs_bases s b = Some x" shows "x \<noteq> ''''"
proof -
  have "active_player (gs_lineups s (battingSide s)) x" using assms by (simp add: game_wf_def runners_wf_def)
  moreover have "'''' \<notin> set (map le_playerId (gs_lineups s (battingSide s)))"
    using assms(1) by (simp add: game_wf_def lineups_wf_def lineup_wf_def)
  ultimately show ?thesis by (auto simp: active_player_def image_iff)
qed

lemma on_base_iff: "game_wf s \<Longrightarrow> on_base s b \<longleftrightarrow> gs_bases s b \<noteq> None"
  using runner_named [of s b] by (cases "gs_bases s b") (auto simp: on_base_def)

lemma movement_named:
  assumes "game_wf s" and "bt \<noteq> ''''" and "\<forall>m\<in>set ms. mv_runnerId m = bt \<or> (\<exists>b. gs_bases s b = Some (mv_runnerId m))"
    and "gs_bases (move_runners ms s) b = Some x"
  shows "x \<noteq> ''''"
proof -
  have "gs_bases (fold place_runner ms s') c = Some y \<Longrightarrow> y \<in> mv_runnerId ` set ms \<or> gs_bases s' c = Some y" for s' c y
  proof (induction ms arbitrary: s')
    case (Cons m ms)
    have "y \<in> mv_runnerId ` set ms \<or> gs_bases (place_runner m s') c = Some y" using Cons by simp
    moreover have "gs_bases (place_runner m s') c = Some y \<Longrightarrow> y = mv_runnerId m \<or> gs_bases s' c = Some y"
      by (auto simp: place_runner_def split: runner_destination.splits if_splits)
    ultimately show ?case by auto
  qed simp
  from this [OF assms(4) [unfolded move_runners_def]]
  have "(\<exists>m\<in>set ms. x = mv_runnerId m) \<or> gs_bases s b = Some x" by (auto simp: free_origins_def split: if_splits)
  then show ?thesis using assms(2,3) runner_named [OF assms(1)] by metis
qed

lemma passing_agrees:
  assumes wf: "game_wf s" and bm: "batter_movements ms = [m]" "mv_runnerId m = bt" and bt: "bt \<noteq> ''''" "\<And>b. gs_bases s b \<noteq> Some bt"
    and rs: "\<forall>m\<in>set ms. mv_runnerId m = bt \<or> (\<exists>b. gs_bases s b = Some (mv_runnerId m))"
  shows "runner_passed s bt ms \<longleftrightarrow> \<not> no_passing (gs_bases s) ms (gs_bases (move_runners ms s))"
proof -
  have only: "(\<exists>m'\<in>set ms. mv_from m' = BATTER \<and> mv_runnerId m' = x) \<longleftrightarrow> x = bt" for x
  proof -
    have "m' \<in> set ms \<and> mv_from m' = BATTER \<longleftrightarrow> m' = m" for m'
      using arg_cong [OF bm(1), of set] by (auto simp: batter_movements_def)
    then show ?thesis using bm(2) by metis
  qed
  have none: "base_ranks (gs_bases s) bt = None" using bt(2) by (simp add: base_ranks_eq)
  have orig: "desk_ranks (gs_bases s) [bt \<mapsto> 0] = original_ranks (gs_bases s) ms"
    using runner_named [OF wf] none by (auto simp: fun_eq_iff desk_ranks_eq original_ranks_eq only split: option.splits)
  have final: "desk_ranks (after_bases s ms) Map.empty = base_ranks (gs_bases (move_runners ms s))"
    using movement_named [OF wf bt(1) rs] by (auto simp: fun_eq_iff after_bases_eq desk_ranks_eq split: option.splits)
  have runners: "set (ranked_runners (gs_bases s) ms) = set (bt # occupied_runners (gs_bases s))"
    using arg_cong [OF bm(1), of "map mv_runnerId"] bm(2) by (simp add: ranked_runners_def batter_movements_def)
  show ?thesis
    unfolding runner_passed_def no_passing_def Let_def orig final using runners by (auto simp: list_ex_iff list_all_iff)
qed

lemma stationary_agrees:
  assumes "\<And>b. occupied b \<longleftrightarrow> gs_bases s b \<noteq> None"
  shows "stationary_collisions occupied dests ms = [] \<longleftrightarrow>
     (\<forall>b\<in>set dests. gs_bases s b = None \<or> b \<in> set (movement_origins ms))"
  by (auto simp: stationary_collisions_def filter_empty_conv assms)

text \<open>Runners that start from different bases are different.\<close>

lemma base_runners_distinct:
  assumes "bases_unique s" and "\<forall>m\<in>set rs. \<exists>b. mv_from m = From_base b \<and> gs_bases s b = Some (mv_runnerId m)"
    and "distinct (movement_origins rs)"
  shows "distinct (map mv_runnerId rs)"
proof -
  have eq: "map Some (map mv_runnerId rs) = map (gs_bases s) (movement_origins rs)"
    using assms(2) by (induction rs) (auto simp: movement_origins_def)
  have "gs_bases s b \<noteq> None" if "b \<in> set (movement_origins rs)" for b
    using that assms(2) by (auto simp: origin_iff)
  then have "inj_on (gs_bases s) (set (movement_origins rs))"
    using assms(1) by (fastforce simp: inj_on_def bases_unique_def)
  then have "distinct (map Some (map mv_runnerId rs))" using assms(3) eq by (simp add: distinct_map)
  then show ?thesis by (simp add: distinct_map inj_on_def)
qed

text \<open>A list of movements the engine accepts: the runners that moved, and perhaps the batter.\<close>

lemma play_acceptedI:
  assumes wf: "bases_unique s"
    and ms: "ms = rs @ bms" "bms = [] \<or> (\<exists>m. bms = [m] \<and> mv_from m = BATTER \<and>
      mv_responsiblePitcherId m = gs_activePitcher s (fieldingSide s) \<and> (\<forall>b. gs_bases s b \<noteq> Some (mv_runnerId m)))"
    and rs: "\<And>m. m \<in> set rs \<Longrightarrow> \<exists>b. moves_from s b (mv_to m) m"
    and distinct: "distinct (movement_origins rs)" "distinct (movement_destinations ms)"
    and outs: "numbered_outs s ms"
    and fielders: "\<And>m o' f. m \<in> set ms \<Longrightarrow> mv_out m = Some o' \<Longrightarrow> f \<in> set (out_fielders o') \<Longrightarrow>
      f \<in> set (defense_values (gs_defense s (fieldingSide s)))"
    and forced: "\<And>m. m \<in> set ms \<Longrightarrow> mv_to m \<noteq> To_OUT \<Longrightarrow> check_forced ms m = Inr ()"
    and free: "\<forall>b\<in>set (movement_destinations ms). gs_bases s b = None \<or> b \<in> set (movement_origins ms)"
    and late: "\<not> (inning_ending_force ms \<and> list_ex counting_run ms)"
    and pass: "no_passing (gs_bases s) ms (gs_bases (move_runners ms s))"
  shows "play_accepted s ms"
proof -
  have origins: "movement_origins ms = movement_origins rs"
    using ms by (auto simp: movement_origins_def)
  have from_base: "\<forall>m\<in>set rs. \<exists>b. mv_from m = From_base b \<and> gs_bases s b = Some (mv_runnerId m)"
    using rs by (fastforce simp: moves_from_def)
  then have others: "mv_runnerId m' \<noteq> x" if "\<forall>b. gs_bases s b \<noteq> Some x" "m' \<in> set rs" for m' x
    using that by metis
  have "distinct (map mv_runnerId ms)"
    using base_runners_distinct [OF wf from_base distinct(1)] ms others by (auto simp: distinct_map)
  then have unique: "movements_unique ms" using distinct by (simp add: movements_unique_def origins)
  have out_iff: "mv_to m = To_OUT \<longleftrightarrow> mv_out m \<noteq> None" if "m \<in> set ms" for m
    using outs that by (simp add: numbered_outs_def list_all_iff)
  have mv: "check_movement s m = Inr ()" if "m \<in> set ms" for m
  proof -
    have out: "(if mv_to m \<noteq> To_OUT then Inr () else (case mv_out m of None \<Rightarrow> Inl JS_TYPE_ERROR
         | Some o' \<Rightarrow> require (list_all (\<lambda>f. f \<in> set (defense_values (gs_defense s (fieldingSide s)))) (out_fielders o'))
             INVALID_LINEUP)) = Inr ()"
      using out_iff [OF that] fielders [OF that] by (auto simp: list_all_iff result_simps split: option.splits)
    from that ms(1) consider "m \<in> set rs" | "m \<in> set bms" by auto
    then show ?thesis
    proof cases
      case 1
      from rs [OF this] obtain b where "moves_from s b (mv_to m) m" by blast
      then show ?thesis unfolding check_movement_def
        by (simp only: out) (auto simp: moves_from_def moves_back_def result_simps not_le split: option.splits)
    next
      case 2
      with ms(2) have "mv_from m = BATTER" "mv_responsiblePitcherId m = gs_activePitcher s (fieldingSide s)" by auto
      moreover have "0 < r" if "destination_rank d = Some r" for d r
        using that by (cases d; simp) (metis base_rank.elims zero_less_numeral zero_less_one)
      ultimately show ?thesis unfolding check_movement_def
        by (simp only: out) (auto simp: result_simps split: option.splits)
    qed
  qed
  have "sort (map out_outNumber (out_details ms)) = expected_out_numbers s ms"
    using outs by (simp add: numbered_outs_def expected_out_numbers_def sorted_map sort_key_id_if_sorted sorted_wrt_iff_nth_less)
  moreover have "check_forced ms m = Inr ()" if "m \<in> set ms" for m
    using forced [OF that] by (cases "mv_to m = To_OUT") (simp_all add: check_forced_def)
  ultimately show ?thesis using unique mv free late pass by (simp add: play_accepted_def)
qed

section \<open>Plate appearances\<close>

interpretation plate: desk s "pd_outcomes d" "\<lambda>_. False" "plate_movement s d" for s d
  by unfold_locales (simp_all add: plate_movement_def Let_def)

definition defends :: "game_state \<Rightarrow> ident option \<Rightarrow> bool" where
  "defends s f \<longleftrightarrow> (case f of None \<Rightarrow> True | Some x \<Rightarrow> x \<in> set (defense_values (gs_defense s (fieldingSide s))))"

text \<open>
  On a walk the runner on third is forced home only when the runner on first is forced too.  The
  desk looks at the runner on second alone.
\<close>

definition force_chain :: "plate_draft \<Rightarrow> bool" where
  "force_chain d \<longleftrightarrow> \<not> (pd_outcome d \<in> walk_outcomes \<and> pd_outcomes d THIRD = Some (Moves To_HOME) \<and>
     pd_outcomes d SECOND = Some (Moves (To_base THIRD)) \<and> pd_outcomes d FIRST \<noteq> Some (Moves (To_base SECOND)))"

lemma batterDestination_eq: "batterDestination o' = expected_destination o'"
  by (cases o') (simp_all add: batterDestination_def)

lemma currentBatter_desk:
  assumes "currentBatterId s \<noteq> ''''" shows "currentBatter s = Inr (currentBatterId s)"
proof -
  let ?l = "activeBatters s (battingSide s)"
  have "?l \<noteq> []" using assms by (auto simp: currentBatterId_def batter_at_def Let_def)
  moreover from this have "max (length ?l) 1 = length ?l" by (cases ?l) simp_all
  ultimately show ?thesis by (simp add: currentBatter_def currentBatterId_def batter_at_def Let_def)
qed

lemma batter_movement_sel [simp]:
  "mv_runnerId (batter_movement s d n) = currentBatterId s" "mv_from (batter_movement s d n) = BATTER"
  "mv_to (batter_movement s d n) = expected_destination (pd_outcome d)"
  "mv_responsiblePitcherId (batter_movement s d n) = gs_activePitcher s (fieldingSide s)"
  "mv_forced (batter_movement s d n) = batter_forced d" "mv_cause (batter_movement s d n) = batter_cause d"
  by (simp_all add: batter_movement_def Let_def batterDestination_eq)

lemma plate_movement_sel [simp]:
  "mv_runnerId (plate_movement s d x b dst p n) = x" "mv_from (plate_movement s d x b dst p n) = From_base b"
  "mv_to (plate_movement s d x b dst p n) = dst" "mv_forced (plate_movement s d x b dst p n) = isForcedAdvance d b dst"
  "mv_cause (plate_movement s d x b dst p n) = runnerCause (pd_outcome d) (isForcedAdvance d b dst)"
  by (simp_all add: plate_movement_def Let_def)

text \<open>What the batter adds to the loop over the runners.\<close>

lemma plate_loop_facts:
  assumes "lp_errors (plate_loop s d) = []"
  defines "v \<equiv> plate_runners s d" and "w \<equiv> plate_loop s d"
  shows "loop_clean s (pd_outcomes d) (\<lambda>_. False) (plate_movement s d) all_bases v"
    and "\<exists>n. lp_movements w = lp_movements v @ [batter_movement s d n] \<and> lp_outs w = n \<and> numbered_outs s (lp_movements w)"
    and "lp_outs w = int (length (out_movements (lp_movements w)))"
    and "lp_destinations w = movement_destinations (lp_movements w)" "distinct (lp_destinations w)"
proof -
  define n where "n = lp_outs v + (if expected_destination (pd_outcome d) = To_OUT then 1 else 0)"
  have "lp_errors v = []" and new: "\<And>b. expected_destination (pd_outcome d) = To_base b \<Longrightarrow> b \<notin> set (lp_destinations v)"
    using assms(1) by (auto simp: plate_loop_def v_def Let_def add_destination_def add_error_def batterDestination_eq
        split: runner_destination.splits if_splits)
  then show clean: "loop_clean s (pd_outcomes d) (\<lambda>_. False) (plate_movement s d) all_bases v"
    unfolding v_def plate_runners_def by (intro plate.loop_clean_all)
  note facts = loop_cleanD [OF clean]
  have w: "lp_movements w = lp_movements v @ [batter_movement s d n]" "lp_outs w = n"
    "lp_destinations w = lp_destinations v @ movement_destinations [batter_movement s d n]"
    using new by (auto simp: w_def v_def n_def plate_loop_def Let_def add_destination_def batterDestination_eq
        movement_destinations_def add_error_def split: runner_destination.splits)
  have out: "map_option out_outNumber (mv_out (batter_movement s d n)) =
      (if expected_destination (pd_outcome d) = To_OUT then Some (gs_outs s + n) else None)"
    by (simp add: batter_movement_def Let_def batterDestination_eq)
  show "\<exists>n. lp_movements w = lp_movements v @ [batter_movement s d n] \<and> lp_outs w = n \<and> numbered_outs s (lp_movements w)"
  proof (intro exI conjI)
    show "numbered_outs s (lp_movements w)"
    proof (cases "expected_destination (pd_outcome d) = To_OUT")
      case True
      with out obtain o' where "mv_out (batter_movement s d n) = Some o'" "out_outNumber o' = gs_outs s + n" by auto
      with True facts(7,8) show ?thesis
        by (simp add: w numbered_outs_def out_details_def out_movements_def expected_out_numbers_def n_def)
    next
      case False
      with out facts(7,8) show ?thesis
        by (simp add: w numbered_outs_def out_details_def out_movements_def expected_out_numbers_def n_def)
    qed
  qed (rule w)+
  show "lp_outs w = int (length (out_movements (lp_movements w)))"
    using facts(7) by (simp add: w n_def out_movements_def)
  show "lp_destinations w = movement_destinations (lp_movements w)"
    using facts(5) by (simp add: w movement_destinations_def)
  show "distinct (lp_destinations w)"
    using facts(5,6) new by (auto simp: w movement_destinations_def split: runner_destination.splits)
qed

lemma plate_errors_Nil:
  assumes "plate_errors s d v = []"
  shows "lp_errors v = []" "currentBatterId s \<noteq> ''''" "gs_status s = IN_PROGRESS" "gs_outs s + lp_outs v \<le> 3"
    "\<not> (pd_outcome d = SACRIFICE_BUNT \<and> pd_battedBall d \<noteq> Some BUNT)"
    "\<not> (pd_outcome d = SACRIFICE_FLY \<and> pd_battedBall d \<noteq> Some FLY_BALL)"
    "\<not> (gs_outs s = 2 \<and> pd_outcome d \<in> {SACRIFICE_BUNT, SACRIFICE_FLY})"
    "stationary_collisions (on_base s) (lp_destinations v) (lp_movements v) = []"
    "\<not> (inning_ending_force (lp_movements v) \<and> list_ex counting_run (lp_movements v))"
    "\<not> runner_passed s (currentBatterId s) (lp_movements v)"
    "lp_outs v > 0 \<Longrightarrow> truthy (pd_putoutFielderId d)" "pd_outcome d = REACHED_ON_ERROR \<Longrightarrow> truthy (pd_errorFielderId d)"
  using assms by (auto simp: plate_errors_def when_error_def split: if_splits)

lemma forced_runner_moves:
  assumes clean: "loop_clean s (pd_outcomes d) (\<lambda>_. False) (plate_movement s d) all_bases v"
    and "pd_outcomes d b = Some (Moves dst)" "isForcedAdvance d b dst" "dst \<noteq> To_OUT"
  shows "forcedSafeMovement (lp_movements v @ ms) (From_base b) dst"
proof -
  have "on_base s b" using loop_cleanD(3) [OF clean, of b] assms(2) by (simp add: outcome_at_def)
  with assms(2) have "sent s (pd_outcomes d) b = Some dst" by (simp add: sent_def outcome_at_def)
  from loop_cleanD(2) [OF clean this] obtain m where "m \<in> set (lp_movements v)" "made (plate_movement s d) b dst m" by blast
  with assms(3,4) show ?thesis by (auto simp: forcedSafeMovement_def list_ex_iff made_def intro!: bexI [of _ m])
qed

lemma plate_forced:
  assumes clean: "loop_clean s (pd_outcomes d) (\<lambda>_. False) (plate_movement s d) all_bases v" and chain: "force_chain d"
    and m: "m \<in> set (lp_movements v @ [batter_movement s d n])" and safe: "mv_to m \<noteq> To_OUT"
  shows "check_forced (lp_movements v @ [batter_movement s d n]) m = Inr ()"
proof -
  let ?ms = "lp_movements v @ [batter_movement s d n]"
  have batter: "forcedSafeMovement ?ms BATTER (To_base FIRST)" if "pd_outcome d \<in> walk_outcomes"
    using that by (auto simp: forcedSafeMovement_def list_ex_iff batter_forced_def batterDestination_eq walk_outcomes_def)
  from m consider b dst where "sent s (pd_outcomes d) b = Some dst" "made (plate_movement s d) b dst m"
    | "m = batter_movement s d n"
    using loop_cleanD(1) [OF clean, of m] by fastforce
  then show ?thesis
  proof cases
    case 1
    from 1(1) have o': "pd_outcomes d b = Some (Moves dst)"
      by (auto simp: sent_def outcome_at_def split: if_splits option.splits runner_outcome.splits)
    from 1(2) have mm: "mv_from m = From_base b" "mv_to m = dst" "mv_forced m = isForcedAdvance d b dst"
      "mv_cause m = runnerCause (pd_outcome d) (isForcedAdvance d b dst)" by (auto simp: made_def)
    have "validForcedAdvance ?ms m"
    proof (cases "isForcedAdvance d b dst")
      case True
      then have w: "pd_outcome d \<in> walk_outcomes" by (simp add: isForcedAdvance_def)
      have second: "pd_outcomes d FIRST = Some (Moves (To_base SECOND)) \<Longrightarrow> forcedSafeMovement ?ms (From_base FIRST) (To_base SECOND)"
        using w by (intro forced_runner_moves [OF clean]) (simp_all add: isForcedAdvance_def)
      have third: "pd_outcomes d FIRST = Some (Moves (To_base SECOND)) \<Longrightarrow> pd_outcomes d SECOND = Some (Moves (To_base THIRD)) \<Longrightarrow>
          forcedSafeMovement ?ms (From_base SECOND) (To_base THIRD)"
        using w by (intro forced_runner_moves [OF clean]) (simp_all add: isForcedAdvance_def)
      have home: "b = THIRD \<Longrightarrow> pd_outcomes d FIRST = Some (Moves (To_base SECOND))"
        using chain w o' True by (auto simp: force_chain_def isForcedAdvance_def)
      show ?thesis
        using True w batter second third home mm by (cases b) (auto simp: validForcedAdvance_def isForcedAdvance_def)
    qed (simp add: validForcedAdvance_def mm)
    moreover have "mv_cause m = Cause_FORCED_ADVANCE \<Longrightarrow> mv_forced m" using mm by (auto simp: runnerCause_def split: if_splits)
    ultimately show ?thesis by (auto simp: check_forced_def result_simps)
  next
    case 2
    have "validForcedAdvance ?ms m"
      using 2 by (auto simp: validForcedAdvance_def batter_forced_def batterDestination_eq)
    moreover have "mv_cause m = Cause_FORCED_ADVANCE \<Longrightarrow> mv_forced m"
      using 2 by (auto simp: batter_cause_def split: if_splits)
    ultimately show ?thesis by (auto simp: check_forced_def result_simps)
  qed
qed

lemma fielders_of:
  assumes clean: "loop_clean s (pd_outcomes d) (\<lambda>_. False) (plate_movement s d) all_bases v"
    and "m \<in> set (lp_movements v @ [batter_movement s d n])" "mv_out m = Some o'"
  shows "out_fielders o' = putout_fielders d"
  using assms(2,3) loop_cleanD(1) [OF clean]
  by (fastforce simp: made_def plate_movement_def batter_movement_def Let_def split: if_splits)

text \<open>An errorless plate appearance is a play the engine accepts.\<close>

lemma plate_accepted:
  assumes wf: "game_wf s" and err: "plate_errors s d (plate_loop s d) = []"
    and free: "currentBatterId s \<notin> set (occupied_runners (gs_bases s))"
    and putout: "defends s (pd_putoutFielderId d)" and chain: "force_chain d"
  shows "play_accepted s (lp_movements (plate_loop s d))"
proof -
  note e = plate_errors_Nil [OF err]
  obtain n where w: "lp_movements (plate_loop s d) = lp_movements (plate_runners s d) @ [batter_movement s d n]"
    "numbered_outs s (lp_movements (plate_loop s d))" using plate_loop_facts(2) [OF e(1)] by blast
  note clean = plate_loop_facts(1) [OF e(1)] and dests = plate_loop_facts(4,5) [OF e(1)]
  let ?ms = "lp_movements (plate_loop s d)" and ?rs = "lp_movements (plate_runners s d)" and ?m = "batter_movement s d n"
  have u: "bases_unique s" using wf by (simp add: game_wf_def runners_wf_def)
  have nobody: "\<forall>b. gs_bases s b \<noteq> Some (currentBatterId s)" using free by (simp add: occupied_runners_iff)
  have moves: "\<exists>b. moves_from s b (mv_to m) m" if "m \<in> set ?rs" for m
    using loop_cleanD(1) [OF clean that] by (auto simp: moves_from_def)
  have from_base: "\<exists>b. mv_from m = From_base b \<and> gs_bases s b = Some (mv_runnerId m)" if "m \<in> set ?rs" for m
    using moves [OF that] by (auto simp: moves_from_def)
  show ?thesis
  proof (rule play_acceptedI [OF u w(1)])
    show "[?m] = [] \<or> (\<exists>m. [?m] = [m] \<and> mv_from m = BATTER \<and> mv_responsiblePitcherId m = gs_activePitcher s (fieldingSide s)
        \<and> (\<forall>b. gs_bases s b \<noteq> Some (mv_runnerId m)))"
      using nobody by simp
    show "distinct (movement_origins ?rs)" "distinct (movement_destinations ?ms)"
      using loop_cleanD(4) [OF clean] dests by simp_all
    show "f \<in> set (defense_values (gs_defense s (fieldingSide s)))"
      if "m \<in> set ?ms" "mv_out m = Some o'" "f \<in> set (out_fielders o')" for m o' f
    proof -
      have "out_fielders o' = putout_fielders d" using fielders_of [OF clean] that(1,2) unfolding w(1) by blast
      with that(3) putout show ?thesis by (auto simp: putout_fielders_def defends_def split: if_splits option.splits)
    qed
    show "check_forced ?ms m = Inr ()" if "m \<in> set ?ms" "mv_to m \<noteq> To_OUT" for m
      using plate_forced [OF clean chain] that unfolding w(1) by blast
    show "\<forall>b\<in>set (movement_destinations ?ms). gs_bases s b = None \<or> b \<in> set (movement_origins ?ms)"
      using e(8) stationary_agrees [OF on_base_iff [OF wf]] dests(1) by simp
    show "no_passing (gs_bases s) ?ms (gs_bases (move_runners ?ms s))"
    proof -
      have "filter (\<lambda>m. mv_from m = BATTER) ?rs = []" using from_base by (fastforce simp: filter_empty_conv)
      then have "batter_movements ?ms = [?m]" by (simp add: batter_movements_def w(1))
      moreover have "\<forall>m\<in>set ?ms. mv_runnerId m = currentBatterId s \<or> (\<exists>b. gs_bases s b = Some (mv_runnerId m))"
        using from_base by (fastforce simp: w(1))
      ultimately show ?thesis using passing_agrees [OF wf, of ?ms ?m "currentBatterId s"] e(2,10) nobody by auto
    qed
  qed (use moves w(2) e(9) in auto)
qed

definition shown :: "game_state \<Rightarrow> preview \<Rightarrow> game_state \<Rightarrow> bool" where
  "shown s v t \<longleftrightarrow> gs_bases t = vw_bases v \<and> gs_outs t = vw_outs v \<and>
     gs_score t = (gs_score s)(battingSide s := gs_score s (battingSide s) + vw_runs v) \<and>
     gs_half t = (if \<not> vw_inningEnded v then gs_half s else if gs_half s = Some TOP then Some BOTTOM else Some TOP)"

text \<open>What the engine makes of an accepted play is what the desk showed.\<close>

lemma finish_shown:
  assumes "play_accepted s ms" and "n = int (length (out_movements ms))" and "gs_outs s + n \<le> 3" and "0 \<le> gs_outs s"
    and "gs_bases s' = gs_bases (move_runners ms s)" "gs_outs s' = gs_outs s" "gs_score s' = gs_score (move_runners ms s)"
      "gs_half s' = gs_half s"
  shows "\<exists>t. finishOuts s' n = Inr t \<and> shown s (finish_preview s n ms errors closing body) t"
proof -
  have "0 \<le> n" using assms(2) by simp
  with assms show ?thesis
    by (auto simp: finishOuts_def shown_def finish_preview_def Let_def after_bases_eq move_runners_score)
qed

lemma credits_defended:
  "truthy f \<Longrightarrow> defends s f \<Longrightarrow> credits_valid s (error_credit f)"
  by (auto simp: credits_valid_def error_credit_def defends_def split: option.splits)

lemma plate_preview_shown:
  assumes wf: "game_wf s" and err: "vw_errors (previewPlateAppearance s d) = []"
    and free: "currentBatterId s \<notin> set (occupied_runners (gs_bases s))"
    and fielders: "defends s (pd_putoutFielderId d)" "defends s (pd_errorFielderId d)" and chain: "force_chain d"
  shows "\<exists>body t. vw_body (previewPlateAppearance s d) = Some body \<and> applyBody s (Play body) = Inr t \<and>
     shown s (previewPlateAppearance s d) t"
proof -
  let ?v = "plate_loop s d"
  have errs: "plate_errors s d ?v = []"
    using err by (simp add: previewPlateAppearance_def finish_preview_def Let_def)
  note e = plate_errors_Nil [OF errs]
  have acc: "play_accepted s (lp_movements ?v)" by (rule plate_accepted [OF wf errs free fielders(1) chain])
  obtain n where w: "lp_movements ?v = lp_movements (plate_runners s d) @ [batter_movement s d n]"
    using plate_loop_facts(2) [OF e(1)] by blast
  have "filter (\<lambda>m. mv_from m = BATTER) (lp_movements (plate_runners s d)) = []"
    using loop_cleanD(1) [OF plate_loop_facts(1) [OF e(1)]] by (fastforce simp: filter_empty_conv moves_from_def)
  then have bm: "batter_movements (lp_movements ?v) = [batter_movement s d n]" by (simp add: batter_movements_def w)
  have outs: "lp_outs ?v = int (length (out_movements (lp_movements ?v)))" by (rule plate_loop_facts(3) [OF e(1)])
  have nonneg: "0 \<le> gs_outs s" using wf by (simp add: game_wf_def counts_wf_def)
  have credits: "credits_valid s (if pd_outcome d = REACHED_ON_ERROR then error_credit (pd_errorFielderId d) else [])"
    using credits_defended [OF e(12) fielders(2)] by (simp add: credits_valid_def)
  let ?body = "PlateAppearanceRecorded (plate_body s d (lp_movements ?v))"
  obtain t where t: "finishOuts (advance_batting_order (move_runners (lp_movements ?v) s)) (lp_outs ?v) = Inr t"
    "shown s (previewPlateAppearance s d) t"
    using finish_shown [OF acc outs e(4) nonneg, of "advance_batting_order (move_runners (lp_movements ?v) s)"
        "plate_errors s d ?v" "[if gs_outs s + lp_outs ?v = 3 then INNING_ENDED else NEXT_BATTER (nextBatterId s)]"
        "PlateAppearanceRecorded (plate_body s d (lp_movements ?v))"]
    by (auto simp: advance_batting_order_def previewPlateAppearance_def Let_def)
  have "apply_plate_appearance s (plate_body s d (lp_movements ?v)) = Inr t"
    unfolding apply_plate_appearance_def using e(3,5,6,7) credits acc t(1) bm outs
    by (auto simp: result_simps requireLive_def plate_body_def currentBatter_desk [OF e(2)] sacrifice_contradiction_def
        validateBatterResolution_def)
  moreover have "vw_body (previewPlateAppearance s d) = Some ?body"
    by (simp add: previewPlateAppearance_def finish_preview_def Let_def errs)
  ultimately show ?thesis using t(2) by auto
qed

section \<open>Plays of the runners\<close>

definition refused_out :: "runner_draft \<Rightarrow> runner_destination \<Rightarrow> bool" where
  "refused_out d dst \<longleftrightarrow> dst = To_OUT \<and> rd_playType d \<notin> out_plays"

interpretation play: desk s "rd_outcomes d" "refused_out d" "runner_play_movement s d" for s d
  by unfold_locales (simp_all add: runner_play_movement_def Let_def)

lemma runner_play_movement_sel [simp]:
  "mv_from (runner_play_movement s d x b dst p n) = From_base b" "mv_forced (runner_play_movement s d x b dst p n) = False"
  "mv_cause (runner_play_movement s d x b dst p n) = causeFor (rd_playType d)"
  by (simp_all add: runner_play_movement_def Let_def)

lemma runner_loop_alt: "runner_loop s d = fold (preview_runner s (rd_outcomes d) (refused_out d) (runner_play_movement s d)) all_bases empty_loop"
proof -
  have "refused_out d = (\<lambda>dst. dst = To_OUT \<and> rd_playType d \<notin> out_plays)" by (simp add: refused_out_def fun_eq_iff)
  then show ?thesis by (simp add: runner_loop_def)
qed

lemma runner_errors_Nil:
  assumes "runner_errors s d v = []"
  shows "lp_errors v = []" "gs_outs s + lp_outs v \<le> 3" "rd_playType d = Play_ERROR \<Longrightarrow> truthy (rd_errorFielderId d)"
    "stationary_collisions (\<lambda>b. gs_bases s b \<noteq> None) (lp_destinations v) (lp_movements v) = []"
    "lp_outs v > 0 \<Longrightarrow> rd_outFielderIds d \<noteq> []"
  using assms by (auto simp: runner_errors_def when_error_def split: if_splits)

text \<open>Nobody overtakes a runner: the desk does not look at it.\<close>

definition keeps_order :: "game_state \<Rightarrow> runner_draft \<Rightarrow> bool" where
  "keeps_order s d \<longleftrightarrow> (let ms = lp_movements (runner_loop s d) in no_passing (gs_bases s) ms (after_bases s ms))"

lemma runner_play_accepted:
  assumes wf: "game_wf s" and err: "runner_errors s d (runner_loop s d) = []"
    and fielders: "list_all (\<lambda>f. defends s (Some f)) (rd_outFielderIds d)" and order: "keeps_order s d"
  shows "play_accepted s (lp_movements (runner_loop s d))"
proof -
  note e = runner_errors_Nil [OF err]
  have clean: "loop_clean s (rd_outcomes d) (refused_out d) (runner_play_movement s d) all_bases (runner_loop s d)"
    using e(1) unfolding runner_loop_alt by (rule play.loop_clean_all)
  note facts = loop_cleanD [OF clean]
  let ?ms = "lp_movements (runner_loop s d)"
  have u: "bases_unique s" using wf by (simp add: game_wf_def runners_wf_def)
  have made: "\<exists>x b dst p n. m = runner_play_movement s d x b dst p n" if "m \<in> set ?ms" for m
    using facts(1) [OF that] unfolding made_def by blast
  have unforced: "out_force o' = False \<and> out_fielders o' = rd_outFielderIds d" if "m \<in> set ?ms" "mv_out m = Some o'" for m o'
    using made [OF that(1)] that(2) by (auto simp: runner_play_movement_def Let_def split: if_splits)
  have "\<not> inning_ending_force ?ms"
  proof -
    have "\<not> out_force o'" if "o' \<in> set (out_details ?ms)" for o'
      using that unforced by (auto simp: out_details_def out_movements_def set_map_filter)
    then show ?thesis by (auto simp: inning_ending_force_def find_Some_iff split: option.splits)
  qed
  moreover have "check_forced ?ms m = Inr ()" if "m \<in> set ?ms" for m
    using made [OF that] by (cases "rd_playType d") (auto simp: check_forced_def validForcedAdvance_def result_simps)
  moreover have "\<exists>b. moves_from s b (mv_to m) m" if "m \<in> set ?ms" for m
    using facts(1) [OF that] by (auto simp: moves_from_def)
  moreover have "no_passing (gs_bases s) ?ms (gs_bases (move_runners ?ms s))"
    using order by (simp add: keeps_order_def Let_def after_bases_eq)
  moreover have "\<forall>b\<in>set (movement_destinations ?ms). gs_bases s b = None \<or> b \<in> set (movement_origins ?ms)"
    using e(4) stationary_agrees [of "\<lambda>b. gs_bases s b \<noteq> None" s] facts(5) by simp
  moreover have "f \<in> set (defense_values (gs_defense s (fieldingSide s)))"
    if "m \<in> set ?ms" "mv_out m = Some o'" "f \<in> set (out_fielders o')" for m o' f
    using unforced [OF that(1,2)] that(3) fielders by (simp add: defends_def list_all_iff)
  ultimately show ?thesis
    using facts(4,5,6,8) by (intro play_acceptedI [OF u, of ?ms ?ms "[]"]) simp_all
qed

lemma runner_preview_shown:
  assumes wf: "game_wf s" and live: "gs_status s = IN_PROGRESS" and err: "vw_errors (previewRunnerPlay s d) = []"
    and fielders: "list_all (\<lambda>f. defends s (Some f)) (rd_outFielderIds d)" "defends s (rd_errorFielderId d)"
    and order: "keeps_order s d"
  shows "\<exists>body t. vw_body (previewRunnerPlay s d) = Some body \<and> applyBody s (Play body) = Inr t \<and>
     shown s (previewRunnerPlay s d) t"
proof -
  let ?v = "runner_loop s d"
  have errs: "runner_errors s d ?v = []"
    using err by (simp add: previewRunnerPlay_def finish_preview_def Let_def)
  note e = runner_errors_Nil [OF errs]
  have clean: "loop_clean s (rd_outcomes d) (refused_out d) (runner_play_movement s d) all_bases ?v"
    using e(1) unfolding runner_loop_alt by (rule play.loop_clean_all)
  have acc: "play_accepted s (lp_movements ?v)" by (rule runner_play_accepted [OF wf errs fielders(1) order])
  have nonneg: "0 \<le> gs_outs s" using wf by (simp add: game_wf_def counts_wf_def)
  have credits: "credits_valid s (if rd_playType d = Play_ERROR then error_credit (rd_errorFielderId d) else [])"
    using credits_defended [OF e(3) fielders(2)] by (simp add: credits_valid_def)
  let ?outs = "gs_outs s + lp_outs ?v"
  obtain t where t: "finishOuts (move_runners (lp_movements ?v) s) (lp_outs ?v) = Inr t"
    "shown s (previewRunnerPlay s d) t"
    using finish_shown [OF acc loop_cleanD(7) [OF clean] e(2) nonneg, of "move_runners (lp_movements ?v) s"
        "runner_errors s d ?v" "if lp_outs ?v > 0 then [if ?outs = 3 then INNING_ENDED else OUTS ?outs] else []"
        "RunnerPlayRecorded (runner_body s d (lp_movements ?v))"]
    by (auto simp: previewRunnerPlay_def Let_def)
  have "apply_runner_play s (runner_body s d (lp_movements ?v)) = Inr t"
    using live credits acc t(1) loop_cleanD(7) [OF clean]
    by (auto simp: apply_runner_play_def result_simps runner_body_def play_outs_def)
  moreover have "vw_body (previewRunnerPlay s d) = Some (RunnerPlayRecorded (runner_body s d (lp_movements ?v)))"
    by (simp add: previewRunnerPlay_def finish_preview_def Let_def errs)
  ultimately show ?thesis using t(2) by auto
qed

section \<open>The drafts the desk starts with\<close>

definition pitchers_named :: "game_state \<Rightarrow> bool" where
  "pitchers_named s \<longleftrightarrow> (\<forall>x. gs_runnerPitcherResponsibility s x \<noteq> Some '''')"

lemma runner_charged:
  assumes "game_wf s" "pitchers_named s" "gs_bases s b = Some x"
  shows "\<exists>p. gs_runnerPitcherResponsibility s x = Some p \<and> p \<noteq> ''''"
proof -
  have "gs_runnerPitcherResponsibility s x \<noteq> None"
    using assms(1,3) by (auto simp: game_wf_def runners_wf_def responsibility_agrees_def)
  with assms(2) show ?thesis by (auto simp: pitchers_named_def)
qed

lemma default_force_chain: "force_chain (createPlateAppearanceDraft s o')"
  by (auto simp: force_chain_def createPlateAppearanceDraft_def Let_def defaultRunnerOutcomes_def send_runner_def walk_outcomes_def split: if_splits)

text \<open>Walks and hits need no further choice.\<close>

definition safe_outcomes :: "plate_outcome list" where
  "safe_outcomes = [WALK, INTENTIONAL_WALK, HIT_BY_PITCH, SINGLE, DOUBLE, TRIPLE, HOME_RUN]"

lemmas desk_eval = plate_errors_def plate_loop_def plate_runners_def preview_runner_def Let_def
  defaultRunnerOutcomes_def send_runner_def walk_outcomes_def all_bases_def empty_loop_def outcome_at_def moves_back_def
  add_destination_def batterDestination_eq when_error_def stationary_collisions_def movement_origins_def movement_destinations_def
  on_base_def inning_ending_force_def out_details_def out_movements_def runner_passed_def desk_ranks_def after_bases_def
  vacate_def occupy_def occupied_runners_def passes_def

lemma default_errors_of:
  assumes "gs_status s = IN_PROGRESS" "gs_outs s \<le> 2" "currentBatterId s = bt" "bt \<noteq> ''''"
    and d: "pd_outcome d = o'" "pd_outcomes d = defaultRunnerOutcomes s o'"
    and "\<And>x. gs_bases s FIRST = Some x \<Longrightarrow> truthy (gs_runnerPitcherResponsibility s x)"
    and "\<And>x. gs_bases s SECOND = Some x \<Longrightarrow> truthy (gs_runnerPitcherResponsibility s x)"
    and "\<And>x. gs_bases s THIRD = Some x \<Longrightarrow> truthy (gs_runnerPitcherResponsibility s x)"
    and "gs_bases s FIRST \<noteq> Some ''''" "gs_bases s SECOND \<noteq> Some ''''" "gs_bases s THIRD \<noteq> Some ''''"
    and "gs_bases s FIRST \<noteq> Some bt" "gs_bases s SECOND \<noteq> Some bt" "gs_bases s THIRD \<noteq> Some bt"
    and "\<And>x. gs_bases s FIRST = Some x \<Longrightarrow> gs_bases s SECOND \<noteq> Some x"
    and "\<And>x. gs_bases s FIRST = Some x \<Longrightarrow> gs_bases s THIRD \<noteq> Some x"
    and "\<And>x. gs_bases s SECOND = Some x \<Longrightarrow> gs_bases s THIRD \<noteq> Some x"
    and o': "o' \<in> set safe_outcomes"
  shows "plate_errors s d (plate_loop s d) = []"
proof -
  from o' consider "o' = WALK" | "o' = INTENTIONAL_WALK" | "o' = HIT_BY_PITCH" | "o' = SINGLE" | "o' = DOUBLE" | "o' = TRIPLE"
    | "o' = HOME_RUN" by (auto simp: safe_outcomes_def)
  then show ?thesis
    by cases (use assms in \<open>(cases "gs_bases s FIRST"; cases "gs_bases s SECOND"; cases "gs_bases s THIRD";
      simp add: desk_eval)\<close>)+
qed

lemma default_accepted:
  assumes wf: "game_wf s" and live: "gs_status s = IN_PROGRESS" and named: "pitchers_named s"
    and batter: "currentBatterId s \<noteq> ''''" "currentBatterId s \<notin> set (occupied_runners (gs_bases s))" and o': "o' \<in> set safe_outcomes"
  shows "\<exists>body t. vw_body (previewPlateAppearance s (createPlateAppearanceDraft s o')) = Some body \<and>
     applyBody s (Play body) = Inr t \<and> shown s (previewPlateAppearance s (createPlateAppearanceDraft s o')) t"
proof -
  let ?d = "createPlateAppearanceDraft s o'"
  have outs: "gs_outs s \<le> 2" and u: "bases_unique s"
    using wf by (simp_all add: game_wf_def counts_wf_def runners_wf_def)
  have nb: "gs_bases s b \<noteq> Some (currentBatterId s)" for b using batter(2) by (simp add: occupied_runners_iff)
  have charged: "truthy (gs_runnerPitcherResponsibility s x)" if "gs_bases s b = Some x" for b x
    using runner_charged [OF wf named that] by auto
  have other: "gs_bases s c \<noteq> Some x" if "gs_bases s b = Some x" "b \<noteq> c" for b c x
    using u that by (auto simp: bases_unique_def)
  have "plate_errors s ?d (plate_loop s ?d) = []"
    by (rule default_errors_of [OF live outs refl batter(1) _ _ charged charged charged])
      (use runner_named [OF wf] nb other o' in \<open>auto simp: createPlateAppearanceDraft_def Let_def\<close>)
  then have "vw_errors (previewPlateAppearance s ?d) = []"
    by (simp add: previewPlateAppearance_def finish_preview_def Let_def)
  moreover have "defends s (pd_putoutFielderId ?d)" "defends s (pd_errorFielderId ?d)"
    by (simp_all add: createPlateAppearanceDraft_def Let_def defends_def)
  ultimately show ?thesis using plate_preview_shown [OF wf _ batter(2)] default_force_chain by blast
qed

section \<open>What the desk lets through\<close>

text \<open>
  A walk that sends only the runners on second and third: nobody is on first, so nobody is forced, but
  the desk marks the runner from third as forced.
\<close>

definition broken_chain :: "game_state \<Rightarrow> plate_draft \<Rightarrow> bool" where
  "broken_chain s d \<longleftrightarrow> pd_outcome d \<in> walk_outcomes \<and> gs_bases s FIRST = None \<and> on_base s SECOND \<and> on_base s THIRD \<and>
     pd_outcomes d = [SECOND \<mapsto> Moves (To_base THIRD), THIRD \<mapsto> Moves To_HOME]"

lemma broken_chain_errors:
  assumes "gs_status s = IN_PROGRESS" "gs_outs s \<le> 2" "currentBatterId s = bt" "bt \<noteq> ''''" and d: "broken_chain s d"
    and "gs_bases s SECOND = Some y" "gs_bases s THIRD = Some z" "y \<noteq> ''''" "z \<noteq> ''''" "y \<noteq> z" "bt \<noteq> y" "bt \<noteq> z"
    and "truthy (gs_runnerPitcherResponsibility s y)" "truthy (gs_runnerPitcherResponsibility s z)"
  shows "plate_errors s d (plate_loop s d) = []"
proof -
  from d consider "pd_outcome d = WALK" | "pd_outcome d = INTENTIONAL_WALK" | "pd_outcome d = HIT_BY_PITCH"
    by (auto simp: broken_chain_def walk_outcomes_def)
  then show ?thesis
    by cases (use assms in \<open>simp add: broken_chain_def desk_eval\<close>)+
qed

lemma broken_chain_refused:
  assumes "broken_chain s d" and "vw_body (previewPlateAppearance s d) = Some body"
  shows "applyBody s (Play body) \<noteq> Inr t"
proof
  assume *: "applyBody s (Play body) = Inr t"
  let ?v = "plate_loop s d"
  have body: "body = PlateAppearanceRecorded (plate_body s d (lp_movements ?v))" and err: "lp_errors ?v = []"
    using assms(2) plate_errors_Nil(1) [of s d ?v]
    by (auto simp: previewPlateAppearance_def finish_preview_def Let_def split: if_splits)
  note facts = loop_cleanD [OF plate_loop_facts(1) [OF err]]
  obtain n where w: "lp_movements ?v = lp_movements (plate_runners s d) @ [batter_movement s d n]"
    using plate_loop_facts(2) [OF err] by blast
  have acc: "play_accepted s (lp_movements ?v)"
    using plate_appearance_inversion(5) [of s "plate_body s d (lp_movements ?v)" t] * body by (simp add: plate_body_def)
  have "sent s (pd_outcomes d) THIRD = Some To_HOME" using assms(1) by (simp add: sent_def outcome_at_def broken_chain_def)
  from facts(2) [OF this] obtain m where m: "m \<in> set (lp_movements ?v)" "made (plate_movement s d) THIRD To_HOME m"
    by (auto simp: w)
  then have "mv_forced m" "mv_from m = From_base THIRD" "mv_to m = To_HOME"
    using assms(1) by (auto simp: made_def isForcedAdvance_def broken_chain_def)
  moreover have "check_forced (lp_movements ?v) m = Inr ()" using acc m(1) by (simp add: play_accepted_def)
  ultimately have "forcedSafeMovement (lp_movements ?v) (From_base SECOND) (To_base THIRD)"
    by (auto simp: check_forced_def validForcedAdvance_def result_simps)
  then obtain m' where m': "m' \<in> set (lp_movements (plate_runners s d))" "mv_from m' = From_base SECOND" "mv_forced m'"
    by (auto simp: forcedSafeMovement_def list_ex_iff w)
  from facts(1) [OF m'(1)] m'(2,3) have "\<exists>dst. isForcedAdvance d SECOND dst" by (auto simp: made_def)
  then show False using assms(1) by (auto simp: isForcedAdvance_def broken_chain_def)
qed

lemma broken_chain_slips_through:
  assumes wf: "game_wf s" and live: "gs_status s = IN_PROGRESS" and named: "pitchers_named s"
    and batter: "currentBatterId s \<noteq> ''''" "currentBatterId s \<notin> set (occupied_runners (gs_bases s))" and d: "broken_chain s d"
  shows "vw_errors (previewPlateAppearance s d) = [] \<and>
     (\<exists>body. vw_body (previewPlateAppearance s d) = Some body \<and> (\<forall>t. applyBody s (Play body) \<noteq> Inr t))"
proof -
  obtain y z where yz: "gs_bases s SECOND = Some y" "gs_bases s THIRD = Some z"
    using d on_base_iff [OF wf] by (auto simp: broken_chain_def)
  have "gs_outs s \<le> 2" and u: "bases_unique s"
    using wf by (simp_all add: game_wf_def counts_wf_def runners_wf_def)
  moreover have "y \<noteq> z" using u yz by (auto simp: bases_unique_def)
  moreover have "truthy (gs_runnerPitcherResponsibility s y)" "truthy (gs_runnerPitcherResponsibility s z)"
    using runner_charged [OF wf named] yz by fastforce+
  moreover have "currentBatterId s \<noteq> y" "currentBatterId s \<noteq> z" using batter(2) yz by (auto simp: occupied_runners_iff)
  ultimately have "plate_errors s d (plate_loop s d) = []"
    using broken_chain_errors [OF live _ refl batter(1) d yz runner_named [OF wf yz(1)] runner_named [OF wf yz(2)]] by blast
  then have "vw_errors (previewPlateAppearance s d) = [] \<and> vw_body (previewPlateAppearance s d) \<noteq> None"
    by (simp add: previewPlateAppearance_def finish_preview_def Let_def)
  then show ?thesis using broken_chain_refused [OF d] by blast
qed

text \<open>A play that sends the runner on first past the runner who stays on second.\<close>

definition overtaking :: "game_state \<Rightarrow> runner_draft \<Rightarrow> bool" where
  "overtaking s d \<longleftrightarrow> rd_playType d \<notin> insert Play_ERROR out_plays \<and> on_base s FIRST \<and> on_base s SECOND \<and>
     gs_bases s THIRD = None \<and> rd_outcomes d = [FIRST \<mapsto> Moves (To_base THIRD)]"

lemma overtaking_slips_through:
  assumes wf: "game_wf s" and named: "pitchers_named s" and d: "overtaking s d"
  shows "vw_errors (previewRunnerPlay s d) = [] \<and>
     (\<exists>body. vw_body (previewRunnerPlay s d) = Some body \<and> (\<forall>t. applyBody s (Play body) \<noteq> Inr t))"
proof -
  obtain x y where xy: "gs_bases s FIRST = Some x" "gs_bases s SECOND = Some y" and z: "gs_bases s THIRD = None"
    using d on_base_iff [OF wf] by (auto simp: overtaking_def)
  have outs: "gs_outs s \<le> 2" and u: "bases_unique s"
    using wf by (simp_all add: game_wf_def counts_wf_def runners_wf_def)
  have "x \<noteq> y" using u xy by (auto simp: bases_unique_def)
  obtain p where p: "gs_runnerPitcherResponsibility s x = Some p" "p \<noteq> ''''" using runner_charged [OF wf named xy(1)] by blast
  define m where "m = runner_play_movement s d x FIRST (To_base THIRD) p 0"
  have w: "runner_loop s d = \<lparr>lp_errors = [], lp_movements = [m], lp_destinations = [THIRD], lp_outs = 0\<rparr>"
    using d xy z p by (simp add: overtaking_def runner_loop_def m_def desk_eval)
  have play: "rd_playType d \<notin> {Play_ERROR, Play_CAUGHT_STEALING, Play_PICKOFF, Play_RUNNER_OUT}"
    using d by (simp add: overtaking_def out_plays_def)
  have m: "mv_from m = From_base FIRST" "mv_to m = To_base THIRD" "mv_runnerId m = x"
    by (simp_all add: m_def runner_play_movement_def Let_def)
  have errs: "runner_errors s d (runner_loop s d) = []"
    using play outs z unfolding w by (auto simp: runner_errors_def when_error_def stationary_collisions_def)
  have body: "vw_body (previewRunnerPlay s d) = Some (RunnerPlayRecorded (runner_body s d [m]))"
    by (simp add: previewRunnerPlay_def finish_preview_def Let_def errs) (simp add: w)
  have "\<not> play_accepted s [m]"
  proof
    assume acc: "play_accepted s [m]"
    have "batter_not_on_base s [m]" using m by (simp add: batter_not_on_base_def)
    from runners_keep_order [OF acc this u xy, of THIRD SECOND] show False
      using m acc xy \<open>x \<noteq> y\<close> move_runners_bases [of "[m]" s]
      by (simp add: play_accepted_def sent_to_def movement_origins_def)
  qed
  then have "apply_runner_play s (runner_body s d [m]) \<noteq> Inr t" for t
    by (auto simp: apply_runner_play_def result_simps runner_body_def)
  with body show ?thesis by (simp add: previewRunnerPlay_def finish_preview_def Let_def errs)
qed

end
