(* ===== verification/Scoring_Corrections.thy ===== *)
theory Scoring_Corrections
  imports Game_Statistics Scoring_Preview
begin

text \<open>
  Corrections at the scoring desk (\<open>src/features/scoring/scoring-corrections.ts\<close>): the history of recent
  plays with their correction state, the audit of corrections, the payload built from a correction draft, and
  the preview that replays the log with the proposed correction.  Identifiers are ordered by
  \<open>localeCompare\<close>; \<open>collate\<close> stands for the collation key of the runtime's locale.
\<close>

section \<open>Names and words\<close>

fun side_name :: "game_side \<Rightarrow> string" where
  "side_name HOME = ''HOME''" | "side_name AWAY = ''AWAY''"

fun base_name :: "base \<Rightarrow> string" where
  "base_name FIRST = ''FIRST''" | "base_name SECOND = ''SECOND''" | "base_name THIRD = ''THIRD''"

fun origin_name :: "runner_origin \<Rightarrow> string" where
  "origin_name BATTER = ''BATTER''" | "origin_name (From_base b) = base_name b"

fun destination_name :: "runner_destination \<Rightarrow> string" where
  "destination_name (To_base b) = base_name b" | "destination_name To_HOME = ''HOME''" | "destination_name To_OUT = ''OUT''"

fun position_name :: "position \<Rightarrow> string" where
  "position_name PITCHER = ''PITCHER''" | "position_name CATCHER = ''CATCHER''"
| "position_name FIRST_BASE = ''FIRST_BASE''" | "position_name SECOND_BASE = ''SECOND_BASE''"
| "position_name THIRD_BASE = ''THIRD_BASE''" | "position_name SHORTSTOP = ''SHORTSTOP''"
| "position_name LEFT_FIELD = ''LEFT_FIELD''" | "position_name CENTER_FIELD = ''CENTER_FIELD''"
| "position_name RIGHT_FIELD = ''RIGHT_FIELD''" | "position_name DESIGNATED_HITTER = ''DESIGNATED_HITTER''"
| "position_name EXTRA_HITTER = ''EXTRA_HITTER''"

fun plate_outcome_name :: "plate_outcome \<Rightarrow> string" where
  "plate_outcome_name WALK = ''WALK''" | "plate_outcome_name INTENTIONAL_WALK = ''INTENTIONAL_WALK''"
| "plate_outcome_name HIT_BY_PITCH = ''HIT_BY_PITCH''" | "plate_outcome_name STRIKEOUT_SWINGING = ''STRIKEOUT_SWINGING''"
| "plate_outcome_name STRIKEOUT_LOOKING = ''STRIKEOUT_LOOKING''" | "plate_outcome_name SINGLE = ''SINGLE''"
| "plate_outcome_name DOUBLE = ''DOUBLE''" | "plate_outcome_name TRIPLE = ''TRIPLE''"
| "plate_outcome_name HOME_RUN = ''HOME_RUN''" | "plate_outcome_name BATTER_OUT = ''BATTER_OUT''"
| "plate_outcome_name FIELDER_CHOICE = ''FIELDER_CHOICE''" | "plate_outcome_name REACHED_ON_ERROR = ''REACHED_ON_ERROR''"
| "plate_outcome_name SACRIFICE_BUNT = ''SACRIFICE_BUNT''" | "plate_outcome_name SACRIFICE_FLY = ''SACRIFICE_FLY''"
| "plate_outcome_name INTERFERENCE = ''INTERFERENCE''"

fun runner_play_name :: "play_type \<Rightarrow> string" where
  "runner_play_name Play_OPTIONAL_ADVANCE = ''OPTIONAL_ADVANCE''" | "runner_play_name Play_ERROR = ''ERROR''"
| "runner_play_name Play_STOLEN_BASE = ''STOLEN_BASE''" | "runner_play_name Play_CAUGHT_STEALING = ''CAUGHT_STEALING''"
| "runner_play_name Play_PICKOFF = ''PICKOFF''" | "runner_play_name Play_RUNNER_OUT = ''RUNNER_OUT''"
| "runner_play_name Play_WILD_PITCH = ''WILD_PITCH''" | "runner_play_name Play_PASSED_BALL = ''PASSED_BALL''"

fun runner_out_name :: "runner_out_cause \<Rightarrow> string" where
  "runner_out_name Out_CAUGHT_STEALING = ''CAUGHT_STEALING''" | "runner_out_name Out_PICKOFF = ''PICKOFF''"
| "runner_out_name Out_RUNNER_OUT = ''RUNNER_OUT''" | "runner_out_name Out_FIELDERS_CHOICE = ''FIELDERS_CHOICE''"
| "runner_out_name Out_OTHER = ''OTHER''"

fun steal_result_name :: "steal_result \<Rightarrow> string" where
  "steal_result_name Result_STOLEN_BASE = ''STOLEN_BASE''" | "steal_result_name Result_CAUGHT_STEALING = ''CAUGHT_STEALING''"

fun policy_name :: "correction_policy \<Rightarrow> string" where
  "policy_name REPLACE_PLAY = ''REPLACE_PLAY''" | "policy_name REPLACE_EVENT_RANGE = ''REPLACE_EVENT_RANGE''"
| "policy_name REPLACE_JUDGMENT = ''REPLACE_JUDGMENT''" | "policy_name REVERSE_EVENTS = ''REVERSE_EVENTS''"

fun actor_kind_name :: "actor_kind \<Rightarrow> string" where
  "actor_kind_name USER = ''USER''" | "actor_kind_name SERVICE = ''SERVICE''" | "actor_kind_name SYSTEM = ''SYSTEM''"

fun half_name :: "half_inning \<Rightarrow> string" where
  "half_name TOP = ''TOP''" | "half_name BOTTOM = ''BOTTOM''"

definition words :: "string \<Rightarrow> string" where
  "words value = to_lower (map (\<lambda>c. if c = CHR ''_'' then CHR '' '' else c) value)"

text \<open>The positions the desk lists (\<open>live-lineup-changes.ts\<close>) and how it shows one.\<close>

definition BASEBALL_POSITIONS :: "position list" where
  "BASEBALL_POSITIONS = [PITCHER, CATCHER, FIRST_BASE, SECOND_BASE, THIRD_BASE, SHORTSTOP, LEFT_FIELD, CENTER_FIELD,
     RIGHT_FIELD, DESIGNATED_HITTER, EXTRA_HITTER]"

definition positionLabel :: "position option \<Rightarrow> string" where
  "positionLabel p = (case p of None \<Rightarrow> ''no defensive position'' | Some q \<Rightarrow> words (position_name q))"

type_synonym names = "ident \<Rightarrow> string option"

definition named :: "ident \<Rightarrow> names \<Rightarrow> string" where
  "named x names = (case names x of None \<Rightarrow> x | Some n \<Rightarrow> n)"

text \<open>\<open>xs.join(sep)\<close> and the middle dot between two parts.\<close>

fun join :: "string \<Rightarrow> string list \<Rightarrow> string" where
  "join sep [] = ''''"
| "join sep [x] = x"
| "join sep (x # y # ys) = x @ sep @ join sep (y # ys)"

definition dot :: string where
  "dot = [CHR '' '', CHR 0xB7, CHR '' '']"

definition movementSummary :: "runner_movement list \<Rightarrow> names \<Rightarrow> string" where
  "movementSummary ms names =
     join ''; '' (map (\<lambda>m. named (mv_runnerId m) names @ '' '' @ words (origin_name (mv_from m)) @ '' to '' @
       words (destination_name (mv_to m))) ms)"

section \<open>Summaries\<close>

record play_summary =
  sy_identity :: string
  sy_outcome :: string

fun summarize_play :: "play_body \<Rightarrow> names \<Rightarrow> play_summary" where
  "summarize_play (PlateAppearanceRecorded p) ns =
     \<lparr>sy_identity = named (pa_batterId p) ns,
      sy_outcome = words (plate_outcome_name (pa_outcome p)) @ dot @ movementSummary (pa_movements p) ns\<rparr>"
| "summarize_play (RunnerPlayRecorded p) ns =
     \<lparr>sy_identity = join '', '' (map (\<lambda>m. named (mv_runnerId m) ns) (rp_movements p)),
      sy_outcome = words (runner_play_name (rp_playType p)) @ dot @ movementSummary (rp_movements p) ns\<rparr>"
| "summarize_play (RunnerAdvanceRecorded m) ns =
     \<lparr>sy_identity = named (mv_runnerId m) ns, sy_outcome = movementSummary [m] ns\<rparr>"
| "summarize_play (RunnerOutRecorded p) ns =
     \<lparr>sy_identity = named (ro_runnerId p) ns,
      sy_outcome = words (runner_out_name (ro_cause p)) @ dot @ words (base_name (ro_from p)) @ '' to out''\<rparr>"
| "summarize_play (StolenBaseAttemptRecorded p) ns =
     \<lparr>sy_identity = named (sb_runnerId p) ns,
      sy_outcome = words (steal_result_name (sb_result p)) @ dot @ words (base_name (sb_from p)) @ '' to '' @
        words (destination_name (steal_destination (sb_to p)))\<rparr>"
| "summarize_play (DefensiveSubstitutionMade p) ns =
     \<lparr>sy_identity = named (ds_incomingPlayerId p) ns,
      sy_outcome = named (ds_incomingPlayerId p) ns @ '' replaced '' @ named (ds_outgoingPlayerId p) ns @ '' at '' @
        words (position_name (ds_position p))\<rparr>"
| "summarize_play (DefensiveAlignmentChanged p) ns =
     \<lparr>sy_identity = words (side_name (da_side p)),
      sy_outcome = ''defensive alignment changed'' @ dot @
        join '', '' (map (\<lambda>a. named (as_playerId a) ns @ '' at '' @ words (position_name (as_position a))) (da_assignments p))\<rparr>"
| "summarize_play (PitchingChangeMade p) ns =
     \<lparr>sy_identity = named (pc_incomingPitcherId p) ns,
      sy_outcome = named (pc_incomingPitcherId p) ns @ '' replaced '' @ named (pc_outgoingPitcherId p) ns @ '' as pitcher''\<rparr>"

fun summarizeCorrectionBody :: "event_body \<Rightarrow> names \<Rightarrow> play_summary" where
  "summarizeCorrectionBody (Play p) ns = summarize_play p ns"
| "summarizeCorrectionBody (CorrectionApplied c) ns =
     \<lparr>sy_identity = ''Scoring correction'', sy_outcome = words (policy_name (co_policy c)) @ dot @ words (co_reasonCode c)\<rparr>"
| "summarizeCorrectionBody b ns = \<lparr>sy_identity = ''Game'', sy_outcome = words (event_type_name b)\<rparr>"

fun outEffect :: "event_body \<Rightarrow> nat" where
  "outEffect (Play (PlateAppearanceRecorded p)) = length (out_movements (pa_movements p))"
| "outEffect (Play (RunnerPlayRecorded p)) = length (out_movements (rp_movements p))"
| "outEffect (Play (RunnerOutRecorded p)) = 1"
| "outEffect (Play (StolenBaseAttemptRecorded p)) = (if sb_result p = Result_CAUGHT_STEALING then 1 else 0)"
| "outEffect _ = 0"

section \<open>Recent plays\<close>

text \<open>\<open>correctableEventTypes\<close> and the corrections themselves.\<close>

definition listed :: "accepted_event \<Rightarrow> bool" where
  "listed e \<longleftrightarrow> replaceable (ev_body e) \<or> is_correction (ev_body e)"

definition plateOutcomesByDestination :: "runner_destination \<Rightarrow> plate_outcome list" where
  "plateOutcomesByDestination d =
     (case d of
        To_base FIRST \<Rightarrow> [WALK, INTENTIONAL_WALK, HIT_BY_PITCH, SINGLE, FIELDER_CHOICE, REACHED_ON_ERROR, INTERFERENCE]
      | To_base SECOND \<Rightarrow> [DOUBLE]
      | To_base THIRD \<Rightarrow> [TRIPLE]
      | To_HOME \<Rightarrow> [HOME_RUN]
      | To_OUT \<Rightarrow> [STRIKEOUT_SWINGING, STRIKEOUT_LOOKING, BATTER_OUT, SACRIFICE_BUNT, SACRIFICE_FLY])"

definition batter_outcomes :: "runner_movement list \<Rightarrow> plate_outcome list" where
  "batter_outcomes ms =
     (case find (\<lambda>m. mv_from m = BATTER) ms of None \<Rightarrow> [] | Some m \<Rightarrow> plateOutcomesByDestination (mv_to m))"

fun replacementOutcomes :: "event_body \<Rightarrow> plate_outcome list" where
  "replacementOutcomes (Play (PlateAppearanceRecorded p)) = batter_outcomes (pa_movements p)"
| "replacementOutcomes _ = []"

datatype correction_state = Uncorrected | Corrected | Correction

datatype history_status = CURRENT | SUPERSEDED

record recent_play =
  hp_id :: ident
  hp_sequence :: int
  hp_eventType :: string
  hp_inning :: "int option"
  hp_half :: "half_inning option"
  hp_baseballIdentity :: string
  hp_outcome :: string
  hp_correctedOutcome :: "string option"
  hp_scoreEffect :: "game_side \<Rightarrow> int"
  hp_outEffect :: nat
  hp_correctionState :: correction_state
  hp_status :: history_status
  hp_actorReference :: string
  hp_acceptedAt :: string
  hp_canReplaceJudgment :: bool
  hp_replacementOutcomes :: "plate_outcome list"
  hp_eligibleFielderIds :: "ident list"

definition before_event :: "accepted_event list \<Rightarrow> accepted_event \<Rightarrow> accepted_event list" where
  "before_event events e = filter (\<lambda>x. ev_sequence x < ev_sequence e) events"

definition historicalStates ::
    "accepted_setup \<Rightarrow> accepted_event list \<Rightarrow> accepted_event \<Rightarrow> (game_state \<times> game_state) option" where
  "historicalStates setup events e =
     (case deriveEventStates setup (before_event events e) e of Inl _ \<Rightarrow> None | Inr states \<Rightarrow> Some states)"

text \<open>The effective corrections of the log, with their payloads, in the order of the log.\<close>

definition effective_corrections :: "ident set \<Rightarrow> accepted_event list \<Rightarrow> correction list" where
  "effective_corrections effective events =
     List.map_filter (\<lambda>e. case ev_body e of CorrectionApplied c \<Rightarrow> if ev_id e \<in> effective then Some c else None | _ \<Rightarrow> None) events"

definition active_targets :: "correction list \<Rightarrow> ident set" where
  "active_targets cs = set (concat (map co_targetEventIds cs))"

definition active_replacements :: "correction list \<Rightarrow> ident \<Rightarrow> play_body option" where
  "active_replacements cs = fold (\<lambda>r m. m(rep_targetEventId r \<mapsto> rep_body r)) (concat (map co_replacements cs)) Map.empty"

definition actor_reference :: "accepted_event \<Rightarrow> string" where
  "actor_reference e = to_lower (actor_kind_name (ac_kind (ev_actor e))) @ '' '' @ ac_id (ev_actor e)"

definition corrected_outcome :: "correction list \<Rightarrow> names \<Rightarrow> ident \<Rightarrow> string option" where
  "corrected_outcome cs ns i =
     (case active_replacements cs i of
        Some b \<Rightarrow> Some (sy_outcome (summarize_play b ns))
      | None \<Rightarrow> if i \<in> active_targets cs then Some ''event reversed without replacement'' else None)"

definition eligible_fielders :: "(game_state \<times> game_state) option \<Rightarrow> ident list" where
  "eligible_fielders states =
     (case states of
        None \<Rightarrow> []
      | Some (before, _) \<Rightarrow>
          (case gs_half before of
             None \<Rightarrow> []
           | Some h \<Rightarrow> sort (js_unique (filter (\<lambda>x. x \<noteq> '''')
               (defense_values (gs_defense before (if h = TOP then HOME else AWAY)))))))"

definition score_effect :: "(game_state \<times> game_state) option \<Rightarrow> game_side \<Rightarrow> int" where
  "score_effect states sd = (case states of None \<Rightarrow> 0 | Some (before, after) \<Rightarrow> gs_score after sd - gs_score before sd)"

definition history_status_of :: "ident set \<Rightarrow> accepted_event \<Rightarrow> history_status" where
  "history_status_of effective e = (if ev_id e \<in> effective then CURRENT else SUPERSEDED)"

definition recent_play_of ::
    "accepted_setup \<Rightarrow> accepted_event list \<Rightarrow> names \<Rightarrow> ident set \<Rightarrow> accepted_event \<Rightarrow> recent_play" where
  "recent_play_of setup events ns effective e =
     (let states = historicalStates setup events e; cs = effective_corrections effective events;
          summary = summarizeCorrectionBody (ev_body e) ns; corrected = corrected_outcome cs ns (ev_id e);
          outcomes = replacementOutcomes (ev_body e)
      in \<lparr>hp_id = ev_id e, hp_sequence = ev_sequence e, hp_eventType = event_type_name (ev_body e),
          hp_inning = (case states of None \<Rightarrow> None | Some (before, _) \<Rightarrow> gs_inning before),
          hp_half = (case states of None \<Rightarrow> None | Some (before, _) \<Rightarrow> gs_half before),
          hp_baseballIdentity = sy_identity summary, hp_outcome = sy_outcome summary, hp_correctedOutcome = corrected,
          hp_scoreEffect = score_effect states, hp_outEffect = outEffect (ev_body e),
          hp_correctionState = (if is_correction (ev_body e) then Correction else if truthy corrected then Corrected else Uncorrected),
          hp_status = history_status_of effective e, hp_actorReference = actor_reference e, hp_acceptedAt = ev_acceptedAt e,
          hp_canReplaceJudgment = (outcomes \<noteq> []), hp_replacementOutcomes = outcomes,
          hp_eligibleFielderIds = eligible_fielders states\<rparr>)"

text \<open>Latest first; ties, which an accepted log does not have, by the collation of the identifiers.\<close>

definition latest_first :: "(ident \<Rightarrow> string) \<Rightarrow> ('a \<Rightarrow> int) \<Rightarrow> ('a \<Rightarrow> ident) \<Rightarrow> 'a list \<Rightarrow> 'a list" where
  "latest_first collate sequence name xs = sort_key (\<lambda>x. - sequence x) (sort_key (\<lambda>x. collate (name x)) xs)"

definition page :: "int option \<Rightarrow> int option \<Rightarrow> 'a list \<Rightarrow> 'a list" where
  "page offset limit xs =
     (let rest = drop (nat (or_default offset 0)) xs in case limit of None \<Rightarrow> rest | Some n \<Rightarrow> take (nat n) rest)"

definition effective_ids :: "accepted_event list \<Rightarrow> event_error + ident set" where
  "effective_ids events = and_then (resolveEffectiveEvents events) (\<lambda>es. Inr (set (map ev_id es)))"

definition buildRecentPlayHistory ::
    "(ident \<Rightarrow> string) \<Rightarrow> accepted_setup \<Rightarrow> accepted_event list \<Rightarrow> names \<Rightarrow> int option \<Rightarrow> int option
     \<Rightarrow> event_error + recent_play list" where
  "buildRecentPlayHistory collate setup events ns offset limit =
     and_then (effective_ids events) (\<lambda>effective.
       Inr (map (recent_play_of setup events ns effective)
         (page offset limit (latest_first collate ev_sequence ev_id (filter listed events)))))"

definition countRecentPlayHistory :: "accepted_event list \<Rightarrow> nat" where
  "countRecentPlayHistory events = length (filter listed events)"

section \<open>The audit of corrections\<close>

datatype verification_effect = UNCHANGED_UNVERIFIED | REQUIRES_VERIFICATION | INVALIDATED_REQUIRES_REVERIFICATION

record audit_entry =
  ae_correctionEventId :: ident
  ae_sequence :: int
  ae_actorReference :: string
  ae_reasonCode :: string
  ae_occurredAt :: string
  ae_targetEventIds :: "ident list"
  ae_revisionBefore :: int
  ae_revisionAfter :: int
  ae_verificationEffect :: verification_effect
  ae_status :: history_status

definition verification_effect_of :: "game_state \<Rightarrow> accepted_event list \<Rightarrow> verification_effect" where
  "verification_effect_of before history =
     (if gs_status before = VERIFIED \<or> list_ex (\<lambda>x. ev_body x = GameVerified) history then INVALIDATED_REQUIRES_REVERIFICATION
      else if gs_status before = COMPLETED \<or> gs_status before = game_status.CORRECTED then REQUIRES_VERIFICATION
      else UNCHANGED_UNVERIFIED)"

definition audit_entry_of ::
    "(game_state \<Rightarrow> string) \<Rightarrow> accepted_setup \<Rightarrow> accepted_event list \<Rightarrow> ident set \<Rightarrow> accepted_event \<times> correction
     \<Rightarrow> event_error + audit_entry" where
  "audit_entry_of state_hash setup events effective ec =
     (let e = fst ec; history = before_event events e in
      and_then (replayGame state_hash False setup history) (\<lambda>(before, _).
        Inr \<lparr>ae_correctionEventId = ev_id e, ae_sequence = ev_sequence e, ae_actorReference = actor_reference e,
             ae_reasonCode = co_reasonCode (snd ec), ae_occurredAt = ev_acceptedAt e,
             ae_targetEventIds = co_targetEventIds (snd ec), ae_revisionBefore = ev_expectedRevision e,
             ae_revisionAfter = ev_acceptedRevision e, ae_verificationEffect = verification_effect_of before history,
             ae_status = history_status_of effective e\<rparr>))"

definition corrections_of :: "accepted_event list \<Rightarrow> (accepted_event \<times> correction) list" where
  "corrections_of events = List.map_filter (\<lambda>e. case ev_body e of CorrectionApplied c \<Rightarrow> Some (e, c) | _ \<Rightarrow> None) events"

definition buildCorrectionAudit ::
    "(game_state \<Rightarrow> string) \<Rightarrow> (ident \<Rightarrow> string) \<Rightarrow> accepted_setup \<Rightarrow> accepted_event list \<Rightarrow> event_error + audit_entry list" where
  "buildCorrectionAudit state_hash collate setup events =
     and_then (effective_ids events) (\<lambda>effective.
     and_then (map_res (audit_entry_of state_hash setup events effective) (corrections_of events)) (\<lambda>entries.
       Inr (latest_first collate ae_sequence ae_correctionEventId entries)))"

section \<open>The payload of a correction\<close>

datatype desk_error = INVALID_SELECTION | TARGET_UNAVAILABLE | UNSUPPORTED_REPLACEMENT | REOPEN_REQUIRED | INVALID_PREVIEW

text \<open>What the desk throws: an error of its own, of the event log or of the statistics.\<close>

datatype correction_error = Desk desk_error | Log event_error | Statistics statistic_error

datatype correction_action = REVERSE_EVENT | REPLACE_PLATE_JUDGMENT

record correction_draft =
  cd_targetEventId :: ident
  cd_action :: correction_action
  cd_replacementOutcome :: "string option"
  cd_errorFielderId :: "ident option"
  cd_reasonCode :: string
  cd_replacementId :: ident

definition correctionReasonCodes :: "string list" where
  "correctionReasonCodes = [''SCORER_REVIEW'', ''SCORING_JUDGMENT'', ''DATA_ENTRY_ERROR'', ''OFFICIAL_SCORER_UPDATE'']"

definition requireCurrentTarget ::
    "accepted_event list \<Rightarrow> ident \<Rightarrow> bool \<Rightarrow> correction_error + accepted_event" where
  "requireCurrentTarget events i allowSuperseded =
     (case by_id events i of
        None \<Rightarrow> Inl (Desk TARGET_UNAVAILABLE)
      | Some target \<Rightarrow>
          if \<not> listed target then Inl (Desk TARGET_UNAVAILABLE)
          else if allowSuperseded then Inr target
          else and_then (map_error Log (effective_ids events)) (\<lambda>effective.
            if ev_id target \<in> effective then Inr target else Inl (Desk TARGET_UNAVAILABLE)))"

definition replacement_batted_ball :: "plate_outcome \<Rightarrow> batted_ball option \<Rightarrow> batted_ball option" where
  "replacement_batted_ball o' recorded =
     (if o' = SACRIFICE_BUNT then Some BUNT
      else if o' = SACRIFICE_FLY then Some FLY_BALL
      else if o' \<in> {WALK, INTENTIONAL_WALK, HIT_BY_PITCH, INTERFERENCE} then None
      else Some (or_default recorded GROUND_BALL))"

definition recorded_out :: "plate_appearance \<Rightarrow> bool" where
  "recorded_out p \<longleftrightarrow> map_option mv_to (find (\<lambda>m. mv_from m = BATTER) (pa_movements p)) = Some To_OUT"

definition replacement_credits :: "plate_appearance \<Rightarrow> plate_outcome \<Rightarrow> ident option \<Rightarrow> fielding_credit list" where
  "replacement_credits p o' errorFielder =
     (if o' = REACHED_ON_ERROR then error_credit errorFielder
      else if recorded_out p then filter (\<lambda>c. fc_credit c \<noteq> ERROR) (pa_fieldingCredits p)
      else [])"

definition judged :: "plate_appearance \<Rightarrow> plate_outcome \<Rightarrow> ident option \<Rightarrow> plate_appearance" where
  "judged p o' errorFielder =
     p\<lparr>pa_outcome := o', pa_battedBall := replacement_batted_ball o' (pa_battedBall p),
       pa_movements := map (\<lambda>m. m\<lparr>mv_cause := Cause_CORRECTION\<rparr>) (pa_movements p),
       pa_fieldingCredits := replacement_credits p o' errorFielder\<rparr>"

definition chosen_outcome :: "plate_appearance \<Rightarrow> string option \<Rightarrow> plate_outcome option" where
  "chosen_outcome p choice =
     (case choice of None \<Rightarrow> None
      | Some c \<Rightarrow> find (\<lambda>o'. plate_outcome_name o' = c) (batter_outcomes (pa_movements p)))"

definition replacementPlateAppearance :: "plate_appearance \<Rightarrow> correction_draft \<Rightarrow> correction_error + plate_appearance" where
  "replacementPlateAppearance p d =
     (case chosen_outcome p (cd_replacementOutcome d) of
        None \<Rightarrow> Inl (Desk UNSUPPORTED_REPLACEMENT)
      | Some o' \<Rightarrow>
          if o' = REACHED_ON_ERROR \<and> \<not> truthy (cd_errorFielderId d) then Inl (Desk INVALID_SELECTION)
          else Inr (judged p o' (cd_errorFielderId d)))"

definition buildCorrectionPayload ::
    "accepted_event list \<Rightarrow> correction_draft \<Rightarrow> bool \<Rightarrow> correction_error + correction" where
  "buildCorrectionPayload events d allowSuperseded =
     and_then (requireCurrentTarget events (cd_targetEventId d) allowSuperseded) (\<lambda>target.
       if cd_reasonCode d \<notin> set correctionReasonCodes then Inl (Desk INVALID_SELECTION)
       else if cd_action d = REVERSE_EVENT then
         Inr \<lparr>co_policy = REVERSE_EVENTS, co_targetEventIds = [ev_id target], co_replacements = [],
              co_reasonCode = cd_reasonCode d\<rparr>
       else (case ev_body target of
           Play (PlateAppearanceRecorded p) \<Rightarrow>
             and_then (replacementPlateAppearance p d) (\<lambda>q.
               Inr \<lparr>co_policy = REPLACE_JUDGMENT, co_targetEventIds = [ev_id target],
                    co_replacements = [\<lparr>rep_id = cd_replacementId d, rep_order = 0, rep_targetEventId = ev_id target,
                                       rep_body = PlateAppearanceRecorded q\<rparr>],
                    co_reasonCode = cd_reasonCode d\<rparr>)
         | _ \<Rightarrow> Inl (Desk UNSUPPORTED_REPLACEMENT)))"

section \<open>The preview of a correction\<close>

definition situation :: "game_state \<Rightarrow> string" where
  "situation s =
     (let occupied = join '', '' (map (\<lambda>b. words (base_name b)) (filter (\<lambda>b. gs_bases s b \<noteq> None) all_bases)) in
      (case gs_half s of None \<Rightarrow> ''before start'' | Some h \<Rightarrow> to_lower (half_name h)) @ '' '' @
      (case gs_inning s of None \<Rightarrow> '''' | Some i \<Rightarrow> string_of_int i) @ dot @ string_of_int (gs_outs s) @ '' out'' @
      (if gs_outs s = 1 then '''' else ''s'') @ dot @ (if occupied = '''' then ''bases empty'' else occupied))"

definition counter_of :: "('k, 'r) player_line option \<Rightarrow> 'k \<Rightarrow> string" where
  "counter_of l k = string_of_int (case l of None \<Rightarrow> 0 | Some l' \<Rightarrow> pl_counters l' k)"

definition battingLine :: "batting_line option \<Rightarrow> string" where
  "battingLine l = counter_of l B_plateAppearances @ '' PA, '' @ counter_of l B_hits @ '' H, '' @
     counter_of l B_walks @ '' BB, '' @ counter_of l B_runsBattedIn @ '' RBI''"

definition pitchingLine :: "pitching_line option \<Rightarrow> string" where
  "pitchingLine l = counter_of l P_battersFaced @ '' BF, '' @ counter_of l P_hitsAllowed @ '' H, '' @
     counter_of l P_walks @ '' BB, '' @ counter_of l P_earnedRuns @ '' ER''"

definition fieldingLine :: "fielding_line option \<Rightarrow> string" where
  "fieldingLine l = counter_of l F_putouts @ '' PO, '' @ counter_of l F_assists @ '' A, '' @ counter_of l F_errors @ '' E''"

record changed_line =
  ch_playerId :: ident
  ch_before :: string
  ch_after :: string

definition changedLines ::
    "('k, 'r) player_line list \<Rightarrow> ('k, 'r) player_line list \<Rightarrow> (('k, 'r) player_line option \<Rightarrow> string) \<Rightarrow> changed_line list" where
  "changedLines before after format =
     (let line = (\<lambda>ls x. format (find (\<lambda>l. pl_playerId l = x) ls)); ids = sort (js_unique (map pl_playerId (before @ after))) in
      take 24 (map (\<lambda>x. \<lparr>ch_playerId = x, ch_before = line before x, ch_after = line after x\<rparr>)
        (filter (\<lambda>x. line before x \<noteq> line after x) ids)))"

record correction_preview =
  cv_sourceRevision :: int
  cv_scoreBefore :: "game_side \<Rightarrow> int"
  cv_scoreAfter :: "game_side \<Rightarrow> int"
  cv_situationBefore :: string
  cv_situationAfter :: string
  cv_verificationEffect :: verification_effect
  cv_changedBatting :: "changed_line list"
  cv_changedPitching :: "changed_line list"
  cv_changedFielding :: "changed_line list"

text \<open>\<open>new Date(0).toISOString()\<close>\<close>

definition epoch :: string where
  "epoch = ''1970-01-01T00:00:00.000Z''"

definition proposed_correction ::
    "(game_state \<Rightarrow> string) \<Rightarrow> accepted_setup \<Rightarrow> game_state \<Rightarrow> correction \<Rightarrow> raw_body event_envelope" where
  "proposed_correction state_hash setup s c =
     \<lparr>ev_id = ''correction-preview'', ev_accountId = su_accountId setup, ev_gameId = su_gameId setup,
      ev_setupSnapshotId = su_id setup, ev_setupRevision = su_setupRevision setup, ev_sequence = gs_lastSequence s + 1,
      ev_schemaVersion = event_schema_version, ev_rulesetVersionId = su_rulesetVersionId setup,
      ev_playTransactionId = Some ''correction-preview-transaction'', ev_componentOrder = Some 0,
      ev_clientSubmissionId = ''correction-preview-submission'', ev_expectedRevision = gs_sourceRevision s,
      ev_acceptedRevision = gs_sourceRevision s + 1,
      ev_actor = \<lparr>ac_kind = SYSTEM, ac_id = ''correction-preview'', ac_userId = None\<rparr>,
      ev_recordedAt = epoch, ev_acceptedAt = epoch, ev_body = Shaped (CorrectionApplied c),
      ev_preStateHash = state_hash s, ev_postStateHash = state_hash s\<rparr>"

definition previewCorrection ::
    "(game_state \<Rightarrow> string) \<Rightarrow> (string \<Rightarrow> bool) \<Rightarrow> accepted_setup \<Rightarrow> accepted_event list \<Rightarrow> correction
     \<Rightarrow> correction_error + correction_preview" where
  "previewCorrection state_hash iso_datetime setup events c =
     and_then (map_error Log (replayGame state_hash True setup events)) (\<lambda>(before, _).
     if gs_status before = VERIFIED then Inl (Desk REOPEN_REQUIRED)
     else if gs_status before \<notin> {IN_PROGRESS, COMPLETED, game_status.CORRECTED} then Inl (Desk INVALID_PREVIEW)
     else
       and_then (map_error Log (parseEvent iso_datetime (proposed_correction state_hash setup before c))) (\<lambda>proposed.
       and_then (map_error Log (replayGame state_hash False setup (events @ [proposed]))) (\<lambda>(after, _).
       and_then (map_error Statistics (deriveGameStatistics setup events None None)) (\<lambda>beforeStats.
       and_then (map_error Statistics (deriveGameStatistics setup (events @ [proposed]) None None)) (\<lambda>afterStats.
         Inr \<lparr>cv_sourceRevision = gs_sourceRevision before, cv_scoreBefore = gs_score before, cv_scoreAfter = gs_score after,
              cv_situationBefore = situation before, cv_situationAfter = situation after,
              cv_verificationEffect = (if gs_status before = IN_PROGRESS then UNCHANGED_UNVERIFIED else REQUIRES_VERIFICATION),
              cv_changedBatting = changedLines (gp_batting beforeStats) (gp_batting afterStats) battingLine,
              cv_changedPitching = changedLines (gp_pitching beforeStats) (gp_pitching afterStats) pitchingLine,
              cv_changedFielding = changedLines (gp_fielding beforeStats) (gp_fielding afterStats) fieldingLine\<rparr>)))))"

section \<open>A judgment changes nothing in the game\<close>

lemma move_runners_cause:
  "move_runners (map (\<lambda>m. m\<lparr>mv_cause := c\<rparr>) ms) s = move_runners ms s"
proof -
  have "movement_origins (map (\<lambda>m. m\<lparr>mv_cause := c\<rparr>) ms) = movement_origins ms"
    by (induction ms) (auto simp: movement_origins_def split: runner_origin.splits)
  moreover have "fold place_runner (map (\<lambda>m. m\<lparr>mv_cause := c\<rparr>) ms) s' = fold place_runner ms s'" for s'
  proof (induction ms arbitrary: s')
    case (Cons m ms)
    have "place_runner (m\<lparr>mv_cause := c\<rparr>) s' = place_runner m s'" by (cases "mv_to m") (simp_all add: place_runner_def)
    with Cons show ?case by simp
  qed simp
  ultimately show ?thesis by (simp add: move_runners_def free_origins_def)
qed

lemma play_outs_cause: "play_outs (map (\<lambda>m. m\<lparr>mv_cause := c\<rparr>) ms) = play_outs ms"
  by (induction ms) (auto simp: play_outs_def out_movements_def)

text \<open>Two plate appearances with the same movements, whatever their causes, lead to the same state.\<close>

lemma same_movements_same_state:
  assumes "apply_plate_appearance s p = Inr t" and "apply_plate_appearance s q = Inr t'"
    and "pa_movements q = map (\<lambda>m. m\<lparr>mv_cause := c\<rparr>) (pa_movements p)"
  shows "t = t'"
  using plate_appearance_inversion(6) [OF assms(1)] plate_appearance_inversion(6) [OF assms(2)] assms(3)
  by (simp add: move_runners_cause play_outs_cause)

lemma trim_movement_cause: "trim_movement (m\<lparr>mv_cause := c\<rparr>) = (trim_movement m)\<lparr>mv_cause := c\<rparr>"
  by (simp add: trim_movement_def)

lemma judged_same_effect:
  assumes "parseEventBody (Shaped (Play (PlateAppearanceRecorded p))) v = Inr b" and "applyBody s b = Inr u"
    and "applyBody s (Play (trim_play (PlateAppearanceRecorded (judged p o' f)))) = Inr u'"
  shows "u = u'"
proof -
  have b: "b = trim_body (Play (PlateAppearanceRecorded p))" using assms(1) by (auto simp: result_simps Let_def)
  show ?thesis
    using same_movements_same_state [of s _ u _ u' Cause_CORRECTION] assms(2,3)
    by (simp add: b judged_def comp_def trim_movement_cause)
qed

lemma payload_inversion:
  assumes "buildCorrectionPayload events d old_too = Inr c" and "cd_action d = REPLACE_PLATE_JUDGMENT"
  obtains target p o' where "by_id events (cd_targetEventId d) = Some target" "ev_id target = cd_targetEventId d"
    "ev_body target = Play (PlateAppearanceRecorded p)" "chosen_outcome p (cd_replacementOutcome d) = Some o'"
    "o' = REACHED_ON_ERROR \<Longrightarrow> truthy (cd_errorFielderId d)" "cd_reasonCode d \<in> set correctionReasonCodes"
    "c = \<lparr>co_policy = REPLACE_JUDGMENT, co_targetEventIds = [ev_id target],
          co_replacements = [\<lparr>rep_id = cd_replacementId d, rep_order = 0, rep_targetEventId = ev_id target,
                             rep_body = PlateAppearanceRecorded (judged p o' (cd_errorFielderId d))\<rparr>],
          co_reasonCode = cd_reasonCode d\<rparr>"
proof -
  obtain target where target: "requireCurrentTarget events (cd_targetEventId d) old_too = Inr target"
    using assms(1) by (auto simp: buildCorrectionPayload_def result_simps)
  then have id: "by_id events (cd_targetEventId d) = Some target"
    by (auto simp: requireCurrentTarget_def result_simps split: option.splits if_splits)
  from target assms obtain p where p: "ev_body target = Play (PlateAppearanceRecorded p)"
    by (auto simp: buildCorrectionPayload_def result_simps split: if_splits event_body.splits play_body.splits)
  from target assms p obtain q where q: "replacementPlateAppearance p d = Inr q" and c: "cd_reasonCode d \<in> set correctionReasonCodes"
    "c = \<lparr>co_policy = REPLACE_JUDGMENT, co_targetEventIds = [ev_id target],
          co_replacements = [\<lparr>rep_id = cd_replacementId d, rep_order = 0, rep_targetEventId = ev_id target,
                             rep_body = PlateAppearanceRecorded q\<rparr>], co_reasonCode = cd_reasonCode d\<rparr>"
    by (auto simp: buildCorrectionPayload_def result_simps split: if_splits)
  from q obtain o' where "chosen_outcome p (cd_replacementOutcome d) = Some o'" "q = judged p o' (cd_errorFielderId d)"
    "o' = REACHED_ON_ERROR \<Longrightarrow> truthy (cd_errorFielderId d)"
    by (auto simp: replacementPlateAppearance_def split: option.splits if_splits)
  with that id p c by_id_SomeD [OF id] show ?thesis by blast
qed

definition corrected :: "game_state \<Rightarrow> game_state" where
  "corrected s = s\<lparr>gs_status := (if gs_status s = IN_PROGRESS then IN_PROGRESS else game_status.CORRECTED)\<rparr>"

lemma judgment_replay:
  assumes payload: "buildCorrectionPayload events d old_too = Inr c" and action: "cd_action d = REPLACE_PLATE_JUDGMENT"
    and e: "ev_body e = CorrectionApplied c" "ev_id e \<noteq> ''''" and later: "\<And>x. x \<in> set events \<Longrightarrow> ev_sequence x < ev_sequence e"
    and trimmed: "trim (cd_targetEventId d) = cd_targetEventId d"
    and old: "replayEffective setup events = Inr s" and new: "replayEffective setup (events @ [e]) = Inr t"
  shows "t = advance_revision e (corrected s)"
proof -
  obtain target p o' where x: "by_id events (cd_targetEventId d) = Some target" "ev_id target = cd_targetEventId d"
    "ev_body target = Play (PlateAppearanceRecorded p)"
    and c: "c = \<lparr>co_policy = REPLACE_JUDGMENT, co_targetEventIds = [ev_id target],
          co_replacements = [\<lparr>rep_id = cd_replacementId d, rep_order = 0, rep_targetEventId = ev_id target,
                             rep_body = PlateAppearanceRecorded (judged p o' (cd_errorFielderId d))\<rparr>],
          co_reasonCode = cd_reasonCode d\<rparr>"
    using payload_inversion [OF payload action] by metis
  obtain steps steps0 where t: "replayEffectiveWithTimeline setup (events @ [e]) = Inr (t, steps)"
    "replayEffectiveWithTimeline setup events = Inr (s, steps0)"
    using old new by (auto simp: replayEffective_def result_simps)
  define r where "r = \<lparr>rep_id = trim (cd_replacementId d), rep_order = 0, rep_targetEventId = trim (ev_id target),
    rep_body = trim_play (PlateAppearanceRecorded (judged p o' (cd_errorFielderId d)))\<rparr>"
  have tc: "trim_correction c = \<lparr>co_policy = REPLACE_JUDGMENT, co_targetEventIds = [cd_targetEventId d],
      co_replacements = [r], co_reasonCode = trim (cd_reasonCode d)\<rparr>"
    using trimmed x(2) by (simp add: c trim_correction_def trim_replacement_def r_def)
  have corr: "is_correction (ev_body e)" by (simp add: e)
  have "by_sequence (events @ [e]) = by_sequence events @ [e]"
    using by_sequence_snoc [of events e] later by fastforce
  with t(1) obtain r1 where "resolve_event (by_sequence events @ [e]) empty_resolution e = Inr r1"
    by (auto simp: timeline_by_resolution result_simps)
  then have "\<exists>b. parseEventBody (Shaped (ev_body e)) (ev_schemaVersion e) = Inr b"
    by (cases rule: resolve_event_cases)
      (use corr in \<open>auto simp: empty_resolution_def correction_of_def split: sum.splits\<close>)
  then have "parseEventBody (Shaped (ev_body e)) (ev_schemaVersion e) = Inr (CorrectionApplied (trim_correction c))"
    by (auto simp: e result_simps Let_def)
  then have "rejudges e (cd_targetEventId d) r"
    by (simp add: rejudges_def correction_of_def tc)
  from timeline_rejudgment [OF t later corr this e(2) x(1)]
  obtain c' u where u: "applyBody s (CorrectionApplied c') = Inr u" "t = advance_revision e u"
    using x(3) judged_same_effect [of p _ _ _ _ o' "cd_errorFielderId d"] by (auto simp: r_def)
  then have "u = corrected s" by (auto simp: corrected_def split: if_splits)
  with u(2) show ?thesis by simp
qed

lemma situation_corrected [simp]: "situation (advance_revision e (corrected s)) = situation s"
  by (simp add: situation_def advance_revision_def corrected_def)

lemma parseEvent_with_body:
  assumes "parseEvent datetime raw = Inr e" and "ev_body raw = Shaped b"
  shows "e = with_body (trim_envelope raw) b"
proof -
  have "ev_body (trim_envelope raw) = Shaped b" using assms(2) by (simp add: trim_envelope_def)
  with assms(1) show ?thesis
    by (auto simp: parseEvent_def Let_def result_simps split: if_splits bool.splits)
qed

lemma previewCorrection_inversion:
  assumes "previewCorrection state_hash iso_datetime setup events c = Inr v"
  obtains s t e where "replayEffective setup events = Inr s" "replayEffective setup (events @ [e]) = Inr t"
    "ev_body e = CorrectionApplied c" "ev_id e = ''correction-preview''" "ev_sequence e = gs_lastSequence s + 1"
    "cv_scoreBefore v = gs_score s" "cv_scoreAfter v = gs_score t" "cv_situationBefore v = situation s"
    "cv_situationAfter v = situation t" "gs_status s \<in> {IN_PROGRESS, COMPLETED, game_status.CORRECTED}"
proof -
  obtain s m where s: "replayGame state_hash True setup events = Inr (s, m)" "gs_status s \<in> {IN_PROGRESS, COMPLETED, game_status.CORRECTED}"
    using assms by (auto simp: previewCorrection_def result_simps split: if_splits)
  let ?raw = "proposed_correction state_hash setup s c"
  obtain e where e: "parseEvent iso_datetime ?raw = Inr e"
    using assms s by (auto simp: previewCorrection_def result_simps split: if_splits)
  then have ev: "e = with_body (trim_envelope ?raw) (CorrectionApplied c)"
    by (rule parseEvent_with_body) (simp add: proposed_correction_def)
  obtain t m' where t: "replayGame state_hash False setup (events @ [e]) = Inr (t, m')" "cv_scoreBefore v = gs_score s"
    "cv_scoreAfter v = gs_score t" "cv_situationBefore v = situation s" "cv_situationAfter v = situation t"
    using assms s e by (auto simp: previewCorrection_def result_simps split: if_splits)
  have "trim ''correction-preview'' = ''correction-preview''" by code_simp
  then have "ev_id e = ''correction-preview''" "ev_sequence e = gs_lastSequence s + 1" "ev_body e = CorrectionApplied c"
    by (simp_all add: ev with_body_def trim_envelope_def proposed_correction_def)
  with that replayGame_inversion(1) [OF s(1)] replayGame_inversion(1) [OF t(1)] s(2) t(2-) show ?thesis by blast
qed

lemma replay_sequence_bound:
  assumes "replayEffective setup events = Inr s" and "x \<in> set events"
  shows "ev_sequence x \<le> gs_lastSequence s"
proof -
  obtain steps where t: "replayEffectiveWithTimeline setup events = Inr (s, steps)"
    using assms(1) by (auto simp: replayEffective_def result_simps)
  have "ev_sequence x \<in> set (map ev_sequence (by_sequence events))" using assms(2) by simp
  then show ?thesis unfolding replay_contiguous(1) [OF t] using replay_contiguous(4) [OF t] by auto
qed

lemma judgment_preview:
  assumes payload: "buildCorrectionPayload events d old_too = Inr c" and action: "cd_action d = REPLACE_PLATE_JUDGMENT"
    and trimmed: "trim (cd_targetEventId d) = cd_targetEventId d"
    and preview: "previewCorrection state_hash iso_datetime setup events c = Inr v"
  shows "cv_scoreAfter v = cv_scoreBefore v" and "cv_situationAfter v = cv_situationBefore v"
proof -
  obtain s t e where p: "replayEffective setup events = Inr s" "replayEffective setup (events @ [e]) = Inr t"
    "ev_body e = CorrectionApplied c" "ev_id e = ''correction-preview''" "ev_sequence e = gs_lastSequence s + 1"
    and v: "cv_scoreBefore v = gs_score s" "cv_scoreAfter v = gs_score t" "cv_situationBefore v = situation s"
      "cv_situationAfter v = situation t"
    using previewCorrection_inversion [OF preview] by metis
  have "ev_sequence x < ev_sequence e" if "x \<in> set events" for x
    using replay_sequence_bound [OF p(1) that] p(5) by simp
  from judgment_replay [OF payload action p(3) _ this trimmed p(1,2)] p(4)
  have "t = advance_revision e (corrected s)" by simp
  then show "cv_scoreAfter v = cv_scoreBefore v" "cv_situationAfter v = cv_situationBefore v"
    by (simp_all add: v) (simp add: advance_revision_def corrected_def)
qed

section \<open>What the schema makes of a judgment\<close>

text \<open>Every counting run of the play says whether it was earned.\<close>

definition runs_classified :: "plate_appearance \<Rightarrow> bool" where
  "runs_classified p \<longleftrightarrow> list_all (\<lambda>m. counting_run m \<longrightarrow> mv_earnedRun m \<noteq> None) (pa_movements p)"

lemma movement_ok_cause [simp]: "movement_ok (m\<lparr>mv_cause := c\<rparr>) = movement_ok m"
  by (cases "mv_to m") (simp_all add: movement_ok_def movement_shape_ok_def movement_judgments_ok_def)

definition desk_ids_ok :: "correction_draft \<Rightarrow> bool" where
  "desk_ids_ok d \<longleftrightarrow> id_ok (trim (cd_replacementId d)) \<and> id_ok (trim (cd_targetEventId d)) \<and>
     (case cd_errorFielderId d of None \<Rightarrow> True | Some f \<Rightarrow> id_ok (trim f))"

lemma judged_ok:
  assumes "play_ok (trim_play (PlateAppearanceRecorded p))" and "case f of None \<Rightarrow> True | Some x \<Rightarrow> id_ok (trim x)"
    and "o' = REACHED_ON_ERROR \<Longrightarrow> truthy f"
  shows "play_ok (trim_play (PlateAppearanceRecorded (judged p o' f)))"
proof -
  have errors: "id_ok (trim ''FIELDING'')" by code_simp
  have "map trim_movement (map (\<lambda>m. m\<lparr>mv_cause := Cause_CORRECTION\<rparr>) ms) =
      map (\<lambda>m. m\<lparr>mv_cause := Cause_CORRECTION\<rparr>) (map trim_movement ms)" for ms
    by (simp add: trim_movement_cause)
  then have movements: "list_all movement_ok (map trim_movement (pa_movements (judged p o' f)))" "pa_movements (judged p o' f) \<noteq> []"
    using assms(1) by (simp_all add: judged_def list_all_iff plate_appearance_ok_def)
  have "list_all credit_ok (map trim_credit cs) \<and> error_types_ok (map trim_credit cs) \<and>
      \<not> (o' = REACHED_ON_ERROR \<and> error_credits (map trim_credit cs) = [])" if "cs = replacement_credits p o' f" for cs
    using that assms errors
    by (cases f) (auto simp: replacement_credits_def error_credit_def plate_appearance_ok_def error_types_ok_def
        error_credits_def list_all_iff credit_ok_def trim_credit_def filter_empty_conv)
  with movements assms(1) show ?thesis
    by (simp add: plate_appearance_ok_def judged_def)
qed

lemma reason_codes_ok: "\<forall>r\<in>set correctionReasonCodes. id_ok (trim r)"
  by code_simp

lemma judgment_schema:
  assumes payload: "buildCorrectionPayload events d old_too = Inr c" and action: "cd_action d = REPLACE_PLATE_JUDGMENT"
    and p: "by_id events (cd_targetEventId d) = Some target" "ev_body target = Play (PlateAppearanceRecorded p)"
    and ok: "body_ok (trim_body (ev_body target))" "desk_ids_ok d"
  shows "is_ok (parseEventBody (Shaped (CorrectionApplied c)) event_schema_version) \<longleftrightarrow> runs_classified p"
proof (rule payload_inversion [OF payload action])
  fix target' p' o'
  assume p': "by_id events (cd_targetEventId d) = Some target'" "ev_id target' = cd_targetEventId d"
    "ev_body target' = Play (PlateAppearanceRecorded p')" "chosen_outcome p' (cd_replacementOutcome d) = Some o'"
    and c1: "o' = REACHED_ON_ERROR \<Longrightarrow> truthy (cd_errorFielderId d)" and c2: "cd_reasonCode d \<in> set correctionReasonCodes"
    and c0: "c = \<lparr>co_policy = REPLACE_JUDGMENT, co_targetEventIds = [ev_id target'],
          co_replacements = [\<lparr>rep_id = cd_replacementId d, rep_order = 0, rep_targetEventId = ev_id target',
                             rep_body = PlateAppearanceRecorded (judged p' o' (cd_errorFielderId d))\<rparr>],
          co_reasonCode = cd_reasonCode d\<rparr>"
  note c' = c0 c1 c2
  have "target' = target" "p' = p" using p p' by simp_all
  note c = c' [unfolded this p'(2) [unfolded \<open>target' = target\<close>]]
  have reason: "id_ok (trim (cd_reasonCode d))" using c(3) reason_codes_ok by blast
  have "play_ok (trim_play (PlateAppearanceRecorded (judged p o' (cd_errorFielderId d))))"
    by (rule judged_ok) (use ok c(2) p in \<open>auto simp: desk_ids_ok_def\<close>)
  then have body: "body_ok (trim_body (CorrectionApplied c))"
    using ok(2) reason by (simp add: c(1) trim_correction_def trim_replacement_def correction_ok_def replacement_ok_def Let_def
        desk_ids_ok_def safe_int_def max_safe_integer_def)
  have "run_classifications (trim_body (CorrectionApplied c)) = map mv_earnedRun (filter (\<lambda>m. counting_run m) (pa_movements p))"
    by (simp add: c(1) trim_correction_def trim_replacement_def run_classifications_def judged_def
        trim_movement_def filter_map comp_def) (simp add: counting_run_def)
  then have "list_ex (\<lambda>c. c = None) (run_classifications (trim_body (CorrectionApplied c))) \<longleftrightarrow> \<not> runs_classified p"
    by (auto simp: runs_classified_def list_ex_iff list_all_iff image_iff)
  with body show ?thesis
    by (simp add: result_simps Let_def validateVersionedRunClassifications_def event_schema_version_def)
qed

lemma looking_strikeout_is_a_ground_ball:
  assumes "pa_outcome p = STRIKEOUT_SWINGING" "pa_battedBall p = None"
  shows "pa_battedBall (judged p STRIKEOUT_LOOKING f) = Some GROUND_BALL" and "defaultBattedBall STRIKEOUT_LOOKING = None"
  using assms by (simp_all add: judged_def replacement_batted_ball_def or_default_def defaultBattedBall_def)

end
