(* ===== verification/Sample_Desk.thy ===== *)
theory Sample_Desk
  imports Sample_Game Preview_Refinement Scoring_Corrections
begin

text \<open>
  The sample game at the scoring desk: two runners on base and the third batter up, drafts of plays in that
  state, and a correction draft for the first single.
\<close>

definition desk_state :: "(base \<Rightarrow> ident option) \<Rightarrow> game_state" where
  "desk_state bs = runner_on_first\<lparr>gs_bases := bs, gs_runnerPitcherResponsibility := [''v1'' \<mapsto> ''h1'', ''v2'' \<mapsto> ''h1''],
     gs_battingOrderIndex := (gs_battingOrderIndex runner_on_first)(AWAY := 2)\<rparr>"

definition first_two :: game_state where
  "first_two = desk_state [FIRST \<mapsto> ''v2'', SECOND \<mapsto> ''v1'']"

definition last_two :: game_state where
  "last_two = desk_state [SECOND \<mapsto> ''v2'', THIRD \<mapsto> ''v1'']"

definition sample_draft :: "plate_outcome \<Rightarrow> (base \<Rightarrow> runner_outcome option) \<Rightarrow> plate_draft" where
  "sample_draft o' outcomes = (createPlateAppearanceDraft first_two o')\<lparr>pd_outcomes := outcomes, pd_putoutFielderId := Some ''h3''\<rparr>"

definition ground_out :: plate_draft where
  "ground_out = sample_draft BATTER_OUT [SECOND \<mapsto> Moves (To_base THIRD)]"

definition walk_of_two :: plate_draft where
  "walk_of_two = sample_draft WALK [SECOND \<mapsto> Moves (To_base THIRD), THIRD \<mapsto> Moves To_HOME]"

definition sample_runner_draft :: "play_type \<Rightarrow> (base \<Rightarrow> runner_outcome option) \<Rightarrow> runner_draft" where
  "sample_runner_draft kind outcomes = \<lparr>rd_playType = kind, rd_outcomes = outcomes, rd_earnedRuns = Map.empty,
     rd_outFielderIds = [], rd_errorFielderId = None\<rparr>"

definition steal_of_third :: runner_draft where
  "steal_of_third = sample_runner_draft Play_STOLEN_BASE [SECOND \<mapsto> Moves (To_base THIRD)]"

definition wild_pitch_past :: runner_draft where
  "wild_pitch_past = sample_runner_draft Play_WILD_PITCH [FIRST \<mapsto> Moves (To_base THIRD)]"

lemma runner_on_first_fields:
  "gs_bases runner_on_first = [FIRST \<mapsto> ''v1'']" "gs_half runner_on_first = Some TOP" "gs_status runner_on_first = IN_PROGRESS"
  "gs_outs runner_on_first = 0" "gs_lineups runner_on_first = by_side (ss_lineup (su_sides sample_setup HOME)) (ss_lineup (su_sides sample_setup AWAY))"
  "gs_defense runner_on_first = by_side [PITCHER \<mapsto> ''h1'', CATCHER \<mapsto> ''h2'', FIRST_BASE \<mapsto> ''h3''] [PITCHER \<mapsto> ''v1'', CATCHER \<mapsto> ''v2'', FIRST_BASE \<mapsto> ''v3'']"
  "gs_activePitcher runner_on_first HOME = ''h1''" "gs_battingOrderIndex runner_on_first AWAY = 1"
  by (simp_all add: eval cong: weak_congs)


lemma desk_state_fields [simp]:
  "gs_bases (desk_state bs) = bs" "gs_half (desk_state bs) = Some TOP" "gs_status (desk_state bs) = IN_PROGRESS"
  "gs_outs (desk_state bs) = 0" "gs_runnerPitcherResponsibility (desk_state bs) = [''v1'' \<mapsto> ''h1'', ''v2'' \<mapsto> ''h1'']"
  "gs_lineups (desk_state bs) = gs_lineups runner_on_first" "gs_battingOrderIndex (desk_state bs) AWAY = 2"
  "gs_defense (desk_state bs) = gs_defense runner_on_first" "battingSide (desk_state bs) = AWAY" "fieldingSide (desk_state bs) = HOME"
  by (simp_all add: desk_state_def runner_on_first_fields battingSide_def fieldingSide_def)

lemma desk_batter: "currentBatterId (desk_state bs) = ''v3''"
  by (simp add: currentBatterId_def batter_at_def activeBatters_def batters_in_order_def runner_on_first_fields sample_defs by_side_def Let_def)

lemma desk_state_wf:
  assumes "bs = [FIRST \<mapsto> ''v2'', SECOND \<mapsto> ''v1''] \<or> bs = [SECOND \<mapsto> ''v2'', THIRD \<mapsto> ''v1'']"
  shows "game_wf (desk_state bs)"
proof -
  have run: "counts_wf runner_on_first" "lineups_wf runner_on_first"
    using replay_run [OF replay_of_sample sample_named] by simp_all
  have "counts_wf (desk_state bs)" using run(1)
    by (cases "gs_inning runner_on_first") (simp_all add: counts_wf_def desk_state_def)
  moreover have "lineups_wf (desk_state bs)" using run(2) by (simp add: lineups_wf_def desk_state_def)
  moreover have "active_player (gs_lineups runner_on_first AWAY) ''v1''" "active_player (gs_lineups runner_on_first AWAY) ''v2''"
    by (simp_all add: active_player_def runner_on_first_fields sample_defs by_side_def)
  then have "runners_wf (desk_state bs)"
    using assms by (auto simp: runners_wf_def bases_unique_def responsibility_agrees_def split: if_splits)
  ultimately show ?thesis by (simp add: game_wf_def)
qed

lemma sample_desk_wf: "game_wf first_two" "game_wf last_two"
  by (simp_all add: first_two_def last_two_def desk_state_wf)

lemma sample_batter_free:
  "currentBatterId first_two \<notin> set (occupied_runners (gs_bases first_two))"
  "currentBatterId last_two \<notin> set (occupied_runners (gs_bases last_two))"
  by (auto simp: first_two_def last_two_def desk_batter occupied_runners_iff split: if_splits)

lemma sample_pitchers_named: "pitchers_named first_two" "pitchers_named last_two"
  by (auto simp: first_two_def last_two_def pitchers_named_def split: if_splits)

lemmas desk_defs = desk_eval plate_body_def batter_movement_def plate_movement_def runner_loop_def runner_errors_def
  runner_play_movement_def finish_preview_def previewPlateAppearance_def previewRunnerPlay_def sample_draft_def
  sample_runner_draft_def createPlateAppearanceDraft_def

lemma ground_out_errors: "vw_errors (previewPlateAppearance first_two ground_out) = []"
  by (simp add: first_two_def ground_out_def desk_defs desk_batter)

lemma steal_errors: "vw_errors (previewRunnerPlay first_two steal_of_third) = []"
  by (simp add: first_two_def steal_of_third_def desk_defs)

lemma steal_keeps_order: "keeps_order first_two steal_of_third"
  by (simp add: first_two_def steal_of_third_def desk_defs keeps_order_def no_passing_def original_ranks_def base_ranks_def
      ranked_runners_def)

lemma ground_out_shown:
  "vw_bases (previewPlateAppearance first_two ground_out) THIRD = Some ''v1''" "vw_outs (previewPlateAppearance first_two ground_out) = 1"
  by (simp_all add: first_two_def ground_out_def desk_defs desk_batter)

lemma steal_shown:
  "vw_bases (previewRunnerPlay first_two steal_of_third) THIRD = Some ''v1''"
  "vw_bases (previewRunnerPlay first_two steal_of_third) SECOND = None"
  by (simp_all add: first_two_def steal_of_third_def desk_defs)

lemma walk_shown:
  "vw_bases (previewPlateAppearance first_two (createPlateAppearanceDraft first_two WALK)) THIRD = Some ''v1''"
  "vw_bases (previewPlateAppearance first_two (createPlateAppearanceDraft first_two WALK)) FIRST = Some ''v3''"
  by (simp_all add: first_two_def desk_defs desk_batter)

section \<open>A judgment on the first single\<close>

definition sample_digest :: string where
  "sample_digest = ''sha256:v1:'' @ replicate 64 (CHR ''a'')"

definition judged_events :: "accepted_event list" where
  "judged_events = map (\<lambda>e. e\<lparr>ev_preStateHash := sample_digest, ev_postStateHash := sample_digest\<rparr>) (take 2 sample_events)"

definition judgment_draft :: correction_draft where
  "judgment_draft = \<lparr>cd_targetEventId = ''e2'', cd_action = REPLACE_PLATE_JUDGMENT, cd_replacementOutcome = Some ''WALK'',
     cd_errorFielderId = None, cd_reasonCode = ''SCORER_REVIEW'', cd_replacementId = ''r1''\<rparr>"

definition judgment_payload :: correction where
  "judgment_payload = \<lparr>co_policy = REPLACE_JUDGMENT, co_targetEventIds = [''e2''],
     co_replacements = [\<lparr>rep_id = ''r1'', rep_order = 0, rep_targetEventId = ''e2'',
       rep_body = PlateAppearanceRecorded (judged (sample_pa ''v1'' SINGLE [single_move]) WALK None)\<rparr>],
     co_reasonCode = ''SCORER_REVIEW''\<rparr>"

definition judgment_event :: accepted_event where
  "judgment_event = sample_event ''c1'' 3 (CorrectionApplied judgment_payload)"

lemmas correction_defs = judged_events_def judgment_draft_def judgment_payload_def judgment_event_def
  requireCurrentTarget_def effective_ids_def listed_def replacement_batted_ball_def recorded_out_def replacement_credits_def
  judged_def chosen_outcome_def batter_outcomes_def plateOutcomesByDestination_def replacementPlateAppearance_def
  buildCorrectionPayload_def correctionReasonCodes_def

lemma sample_payload: "buildCorrectionPayload judged_events judgment_draft False = Inr judgment_payload"
  by (simp add: correction_defs eval cong: weak_congs)

lemma judgment_replays: "\<exists>t. replayEffective sample_setup (take 2 sample_events @ [judgment_event]) = Inr t"
  by (cases "replayEffective sample_setup (take 2 sample_events @ [judgment_event])")
    (simp_all add: correction_defs eval cong: weak_congs)

lemma digest_ok: "hash_format_ok sample_digest"
  by code_simp

text \<open>The preview of the judgment, one computation at a time.\<close>

definition sample_proposal :: accepted_event where
  "sample_proposal = with_body (trim_envelope (proposed_correction (\<lambda>_. sample_digest) sample_setup runner_on_first judgment_payload))
     (CorrectionApplied judgment_payload)"

lemmas proposal_defs = sample_proposal_def proposed_correction_def with_body_def trim_envelope_def trim_actor_def

lemma judged_state: "gs_status runner_on_first = IN_PROGRESS" "gs_sourceRevision runner_on_first = 2" "gs_lastSequence runner_on_first = 2"
  by (simp_all add: eval cong: weak_congs)

lemma judged_replay: "\<exists>m. replayGame (\<lambda>_. sample_digest) True sample_setup judged_events = Inr (runner_on_first, m)"
  by (simp add: correction_defs eval cong: weak_congs)

lemma proposal_parsed:
  "parseEvent (\<lambda>_. True) (proposed_correction (\<lambda>_. sample_digest) sample_setup runner_on_first judgment_payload) = Inr sample_proposal"
  by (simp add: parseEvent_def envelope_ok_def opt_id_ok_def digest_ok proposal_defs judged_state correction_defs evaluation
      cong: weak_congs)

lemma proposal_replay: "is_ok (replayGame (\<lambda>_. sample_digest) False sample_setup (judged_events @ [sample_proposal]))"
  by (simp add: proposal_defs judged_state correction_defs evaluation cong: weak_congs)

lemma judged_statistics: "is_ok (deriveGameStatistics sample_setup judged_events None None)"
  by (simp add: correction_defs evaluation cong: weak_congs)

lemma proposal_statistics: "is_ok (deriveGameStatistics sample_setup (judged_events @ [sample_proposal]) None None)"
  by (simp add: proposal_defs judged_state correction_defs evaluation cong: weak_congs)

lemma sample_preview: "\<exists>v. previewCorrection (\<lambda>_. sample_digest) (\<lambda>_. True) sample_setup judged_events judgment_payload = Inr v"
  using judged_replay proposal_parsed proposal_replay judged_statistics proposal_statistics
  by (auto simp: previewCorrection_def is_ok_iff judged_state)

end
