(* ===== verification/Webhooks.thy ===== *)
theory Webhooks
  imports Timestamps
begin

text \<open>
  Webhook events (\<open>src/domain/webhooks.ts\<close>): the payload of each event and its schema, endpoints,
  signatures and the schedule of retries.  An instant is a number of milliseconds.  What the platform
  computes is a field of \<open>webhook_env\<close>: zod's check of a UUID, the HMAC digests, the length
  of a decoded key, \<open>isIP\<close> and the parser of URLs.
\<close>

section \<open>Events and payloads\<close>

datatype webhook_event = GAME_COMPLETED | GAME_VERIFIED | GAME_CORRECTED | REPORT_READY | SEASON_REPORT_UPDATED
  | FANTASY_TRANSACTION_UPDATED | FANTASY_SCORING_UPDATED | FANTASY_MATCHUP_FINAL | OPERATIONAL_FAILURE

definition webhookEventNames :: "webhook_event list" where
  "webhookEventNames = [GAME_COMPLETED, GAME_VERIFIED, GAME_CORRECTED, REPORT_READY, SEASON_REPORT_UPDATED,
     FANTASY_TRANSACTION_UPDATED, FANTASY_SCORING_UPDATED, FANTASY_MATCHUP_FINAL, OPERATIONAL_FAILURE]"

fun webhookPublicEventName :: "webhook_event \<Rightarrow> string" where
  "webhookPublicEventName GAME_COMPLETED = ''game.completed''"
| "webhookPublicEventName GAME_VERIFIED = ''game.verified''"
| "webhookPublicEventName GAME_CORRECTED = ''game.corrected''"
| "webhookPublicEventName REPORT_READY = ''report.ready''"
| "webhookPublicEventName SEASON_REPORT_UPDATED = ''season.report.updated''"
| "webhookPublicEventName FANTASY_TRANSACTION_UPDATED = ''fantasy.transaction.updated''"
| "webhookPublicEventName FANTASY_SCORING_UPDATED = ''fantasy.scoring.updated''"
| "webhookPublicEventName FANTASY_MATCHUP_FINAL = ''fantasy.matchup.final''"
| "webhookPublicEventName OPERATIONAL_FAILURE = ''operational.failure''"

definition webhook_payload_version :: int where "webhook_payload_version = 1"
definition webhook_signature_version :: string where "webhook_signature_version = ''v1''"
definition webhook_signature_tolerance_seconds :: int where "webhook_signature_tolerance_seconds = 300"
definition webhook_event_retention_days :: int where "webhook_event_retention_days = 90"
definition webhook_delivery_retention_days :: int where "webhook_delivery_retention_days = 30"
definition webhook_dead_letter_retention_days :: int where "webhook_dead_letter_retention_days = 90"
definition webhook_max_attempts :: int where "webhook_max_attempts = 8"
definition webhook_lease_seconds :: int where "webhook_lease_seconds = 60"

definition webhook_retry_delays_seconds :: "int list" where
  "webhook_retry_delays_seconds = [0, 30, 120, 600, 3600, 21600, 86400, 86400]"

text \<open>
  The raw payloads that have the shape of a schema; a field whose schema is a literal or an enumeration
  holds the string that was submitted, and an optional field that is absent is \<open>None\<close>.
\<close>

record game_payload =
  wg_gameId :: ident
  wg_seasonId :: ident
  wg_teamId :: ident
  wg_sourceRevision :: int
  wg_completionState :: "string option"
  wg_verificationState :: "string option"
  wg_correctionState :: "string option"

record report_payload =
  wr_scope :: string
  wr_targetId :: ident
  wr_sourceRevision :: int
  wr_derivationVersion :: int
  wr_privacyOverlayRevision :: int
  wr_freshness :: string

record season_payload =
  ws_seasonId :: ident
  ws_teamId :: ident
  ws_sourceGameId :: ident
  ws_sourceRevision :: int
  ws_reason :: string

record transaction_payload =
  wt_fantasyLeagueId :: ident
  wt_fantasyTeamId :: ident
  wt_operationId :: ident
  wt_action :: string
  wt_status :: string
  wt_revision :: int

record scoring_payload =
  wc_leagueId :: ident
  wc_teamId :: ident
  wc_resultId :: ident
  wc_resultRevision :: int
  wc_periodSequence :: int
  wc_scoringStatus :: string
  wc_totalMilliPoints :: int

record matchup_payload =
  wm_fantasyLeagueId :: ident
  wm_matchupId :: ident
  wm_periodSequence :: int
  wm_firstFantasyTeamId :: ident
  wm_secondFantasyTeamId :: ident
  wm_winnerFantasyTeamId :: "ident option"
  wm_outcome :: string
  wm_resultRevision :: int

record failure_payload =
  wf_service :: string
  wf_failureCode :: string
  wf_correlationId :: string
  wf_severity :: string
  wf_teamId :: "ident option"

datatype webhook_payload = Game_payload game_payload | Report_payload report_payload | Season_payload season_payload
  | Transaction_payload transaction_payload | Scoring_payload scoring_payload | Matchup_payload matchup_payload
  | Failure_payload failure_payload | Unshaped_payload

record webhook_url =
  wu_protocol :: string
  wu_username :: string
  wu_password :: string
  wu_search :: string
  wu_hash :: string
  wu_port :: string
  wu_hostname :: string
  wu_text :: string

record webhook_env =
  we_uuid :: "string \<Rightarrow> bool"
  we_hmac :: "string \<Rightarrow> string \<Rightarrow> string"
  we_key_length :: "string \<Rightarrow> int"
  we_derive_key :: "string \<Rightarrow> string \<Rightarrow> string"
  we_parse_url :: "string \<Rightarrow> webhook_url option"
  we_is_ip :: "string \<Rightarrow> int"

section \<open>The schemas\<close>

definition nonnegative_int :: "int \<Rightarrow> bool" where
  "nonnegative_int n \<longleftrightarrow> safe_int n \<and> 0 \<le> n"

definition positive_int :: "int \<Rightarrow> bool" where
  "positive_int n \<longleftrightarrow> safe_int n \<and> 0 < n"

definition base_game_ok :: "webhook_env \<Rightarrow> game_payload \<Rightarrow> bool" where
  "base_game_ok env p \<longleftrightarrow> we_uuid env (wg_gameId p) \<and> we_uuid env (wg_seasonId p) \<and> we_uuid env (wg_teamId p) \<and>
     nonnegative_int (wg_sourceRevision p)"

text \<open>A strict object refuses a state that its event does not have.\<close>

definition game_states_ok :: "webhook_event \<Rightarrow> game_payload \<Rightarrow> bool" where
  "game_states_ok n p \<longleftrightarrow> (wg_completionState p, wg_verificationState p, wg_correctionState p) =
     (case n of
        GAME_COMPLETED \<Rightarrow> (Some ''COMPLETED'', None, None)
      | GAME_VERIFIED \<Rightarrow> (None, Some ''VERIFIED'', None)
      | _ \<Rightarrow> (None, Some ''UNVERIFIED'', Some ''CORRECTED''))"

definition report_ok :: "webhook_env \<Rightarrow> report_payload \<Rightarrow> bool" where
  "report_ok env p \<longleftrightarrow> wr_scope p \<in> {''GAME'', ''SEASON''} \<and> we_uuid env (wr_targetId p) \<and>
     nonnegative_int (wr_sourceRevision p) \<and> positive_int (wr_derivationVersion p) \<and>
     nonnegative_int (wr_privacyOverlayRevision p) \<and> wr_freshness p = ''CURRENT''"

definition season_ok :: "webhook_env \<Rightarrow> season_payload \<Rightarrow> bool" where
  "season_ok env p \<longleftrightarrow> we_uuid env (ws_seasonId p) \<and> we_uuid env (ws_teamId p) \<and> we_uuid env (ws_sourceGameId p) \<and>
     nonnegative_int (ws_sourceRevision p) \<and> ws_reason p \<in> {''GAME_VERIFIED'', ''GAME_CORRECTED''}"

definition transaction_ok :: "webhook_env \<Rightarrow> transaction_payload \<Rightarrow> bool" where
  "transaction_ok env p \<longleftrightarrow> we_uuid env (wt_fantasyLeagueId p) \<and> we_uuid env (wt_fantasyTeamId p) \<and>
     we_uuid env (wt_operationId p) \<and>
     wt_action p \<in> {''ADD_PLAYER'', ''DROP_PLAYER'', ''TRADE'', ''LINEUP_CHANGE'', ''SUBMIT_WAIVER_CLAIM'',
       ''CANCEL_WAIVER_CLAIM'', ''PROCESS_WAIVERS''} \<and>
     wt_status p \<in> {''APPLIED'', ''QUEUED'', ''CANCELLED'', ''DENIED''} \<and> nonnegative_int (wt_revision p)"

definition scoring_ok :: "webhook_env \<Rightarrow> scoring_payload \<Rightarrow> bool" where
  "scoring_ok env p \<longleftrightarrow> we_uuid env (wc_leagueId p) \<and> we_uuid env (wc_teamId p) \<and> we_uuid env (wc_resultId p) \<and>
     nonnegative_int (wc_resultRevision p) \<and> positive_int (wc_periodSequence p) \<and>
     wc_scoringStatus p \<in> {''IN_PROGRESS'', ''AWAITING_FINAL_DATA'', ''READY'', ''FINAL''} \<and> safe_int (wc_totalMilliPoints p)"

definition matchup_ok :: "webhook_env \<Rightarrow> matchup_payload \<Rightarrow> bool" where
  "matchup_ok env p \<longleftrightarrow> we_uuid env (wm_fantasyLeagueId p) \<and> we_uuid env (wm_matchupId p) \<and>
     positive_int (wm_periodSequence p) \<and> we_uuid env (wm_firstFantasyTeamId p) \<and> we_uuid env (wm_secondFantasyTeamId p) \<and>
     (case wm_winnerFantasyTeamId p of None \<Rightarrow> True | Some t \<Rightarrow> we_uuid env t) \<and>
     wm_outcome p \<in> {''FIRST_WIN'', ''SECOND_WIN'', ''TIE''} \<and> nonnegative_int (wm_resultRevision p)"

definition lower_letter :: "char \<Rightarrow> bool" where
  "lower_letter c \<longleftrightarrow> c \<in> set ''abcdefghijklmnopqrstuvwxyz''"

definition upper_letter :: "char \<Rightarrow> bool" where
  "upper_letter c \<longleftrightarrow> c \<in> set ''ABCDEFGHIJKLMNOPQRSTUVWXYZ''"

definition digit :: "char \<Rightarrow> bool" where
  "digit c \<longleftrightarrow> c \<in> set ''0123456789''"

text \<open>The expressions of the form \<open>/^[first][rest]{low,high}$/u\<close>.\<close>

definition pattern :: "(char \<Rightarrow> bool) \<Rightarrow> (char \<Rightarrow> bool) \<Rightarrow> nat \<Rightarrow> nat \<Rightarrow> string \<Rightarrow> bool" where
  "pattern first rest low high s =
     (case s of [] \<Rightarrow> False | c # cs \<Rightarrow> first c \<and> list_all rest cs \<and> low \<le> length cs \<and> length cs \<le> high)"

definition trim_failure :: "failure_payload \<Rightarrow> failure_payload" where
  "trim_failure p = p\<lparr>wf_service := trim (wf_service p), wf_failureCode := trim (wf_failureCode p),
     wf_correlationId := trim (wf_correlationId p)\<rparr>"

definition failure_ok :: "webhook_env \<Rightarrow> failure_payload \<Rightarrow> bool" where
  "failure_ok env p \<longleftrightarrow>
     pattern lower_letter (\<lambda>c. lower_letter c \<or> digit c \<or> c \<in> set ''._-'') 2 63 (wf_service p) \<and>
     pattern upper_letter (\<lambda>c. upper_letter c \<or> digit c \<or> c = CHR ''_'') 2 63 (wf_failureCode p) \<and>
     pattern (\<lambda>c. lower_letter c \<or> upper_letter c \<or> digit c)
       (\<lambda>c. lower_letter c \<or> upper_letter c \<or> digit c \<or> c \<in> set ''._:-'') 7 127 (wf_correlationId p) \<and>
     wf_severity p \<in> {''WARNING'', ''CRITICAL''} \<and> (case wf_teamId p of None \<Rightarrow> True | Some t \<Rightarrow> we_uuid env t)"

definition payload_ok :: "webhook_env \<Rightarrow> webhook_event \<Rightarrow> webhook_payload \<Rightarrow> bool" where
  "payload_ok env n p =
     (case (n, p) of
        (GAME_COMPLETED, Game_payload g) \<Rightarrow> base_game_ok env g \<and> game_states_ok n g
      | (GAME_VERIFIED, Game_payload g) \<Rightarrow> base_game_ok env g \<and> game_states_ok n g
      | (GAME_CORRECTED, Game_payload g) \<Rightarrow> base_game_ok env g \<and> game_states_ok n g
      | (REPORT_READY, Report_payload r) \<Rightarrow> report_ok env r
      | (SEASON_REPORT_UPDATED, Season_payload s) \<Rightarrow> season_ok env s
      | (FANTASY_TRANSACTION_UPDATED, Transaction_payload t) \<Rightarrow> transaction_ok env t
      | (FANTASY_SCORING_UPDATED, Scoring_payload s) \<Rightarrow> scoring_ok env s
      | (FANTASY_MATCHUP_FINAL, Matchup_payload m) \<Rightarrow> matchup_ok env m
      | (OPERATIONAL_FAILURE, Failure_payload f) \<Rightarrow> failure_ok env f
      | _ \<Rightarrow> False)"

definition trim_payload :: "webhook_payload \<Rightarrow> webhook_payload" where
  "trim_payload p = (case p of Failure_payload f \<Rightarrow> Failure_payload (trim_failure f) | _ \<Rightarrow> p)"

text \<open>\<open>None\<close> is the error of the schema.\<close>

definition parseWebhookPayload :: "webhook_env \<Rightarrow> webhook_event \<Rightarrow> webhook_payload \<Rightarrow> webhook_payload option" where
  "parseWebhookPayload env n raw =
     (let p = trim_payload raw in if payload_ok env n p then Some p else None)"

section \<open>Signatures, endpoints and retries\<close>

definition createWebhookSecretDeriver :: "webhook_env \<Rightarrow> string \<Rightarrow> (ident \<Rightarrow> int \<Rightarrow> string option) option" where
  "createWebhookSecretDeriver env encodedMasterKey =
     (if we_key_length env encodedMasterKey < 32 then None
      else Some (\<lambda>endpointId secretVersion.
        if \<not> safe_int secretVersion \<or> secretVersion < 1 then None
        else Some (''whsec_'' @ we_derive_key env encodedMasterKey
               (''endpoint:'' @ endpointId @ '':secret:'' @ string_of_int secretVersion))))"

definition webhookSignature :: "webhook_env \<Rightarrow> string \<Rightarrow> int \<Rightarrow> string \<Rightarrow> string" where
  "webhookSignature env secret timestamp body =
     webhook_signature_version @ ''='' @ we_hmac env secret (string_of_int timestamp @ ''.'' @ body)"

definition verifyWebhookSignature :: "webhook_env \<Rightarrow> string \<Rightarrow> int \<Rightarrow> string \<Rightarrow> string \<Rightarrow> int \<Rightarrow> bool" where
  "verifyWebhookSignature env secret timestamp body signature now =
     (if \<not> safe_int timestamp \<or> \<bar>now - timestamp\<bar> > webhook_signature_tolerance_seconds then False
      else (let expected = webhookSignature env secret timestamp body in
        length signature = length expected \<and> signature = expected))"

definition parseWebhookEndpointUrl :: "webhook_env \<Rightarrow> string \<Rightarrow> string option" where
  "parseWebhookEndpointUrl env value =
     (case we_parse_url env value of
        None \<Rightarrow> None
      | Some url \<Rightarrow>
          if wu_protocol url \<noteq> ''https:'' \<or> wu_username url \<noteq> '''' \<or> wu_password url \<noteq> '''' \<or> wu_search url \<noteq> '''' \<or>
             wu_hash url \<noteq> '''' \<or> (wu_port url \<noteq> '''' \<and> wu_port url \<noteq> ''443'') \<or> wu_hostname url = ''localhost'' \<or>
             we_is_ip env (wu_hostname url) \<noteq> 0
          then None else Some (wu_text url))"

text \<open>An index outside the array reads \<open>undefined\<close>.\<close>

definition retry_delay :: "int list \<Rightarrow> int \<Rightarrow> int" where
  "retry_delay delays n = (if 0 \<le> n \<and> n < int (length delays) then delays ! nat n else 86400)"

definition webhookRetryAt :: "int \<Rightarrow> int \<Rightarrow> int option" where
  "webhookRetryAt attemptNumber completedAt =
     (if attemptNumber \<ge> webhook_max_attempts then None
      else Some (completedAt + retry_delay webhook_retry_delays_seconds attemptNumber * 1000))"

section \<open>What a parsed payload satisfies\<close>

lemma parse_payload_Some: "parseWebhookPayload env n raw = Some p \<longleftrightarrow> p = trim_payload raw \<and> payload_ok env n p"
  by (auto simp: parseWebhookPayload_def Let_def)

lemma trim_payload_idem [simp]: "trim_payload (trim_payload p) = trim_payload p"
  by (cases p) (simp_all add: trim_payload_def trim_failure_def)

lemma parse_payload_twice: "parseWebhookPayload env n raw = Some p \<Longrightarrow> parseWebhookPayload env n p = Some p"
  by (auto simp: parse_payload_Some)

lemma signature_verifies:
  "safe_int t \<Longrightarrow> \<bar>now - t\<bar> \<le> 300 \<Longrightarrow> verifyWebhookSignature env secret t body (webhookSignature env secret t body) now"
  by (simp add: verifyWebhookSignature_def webhook_signature_tolerance_seconds_def)

lemma verified_signature:
  "verifyWebhookSignature env secret t body sig now \<Longrightarrow> sig = webhookSignature env secret t body \<and> \<bar>now - t\<bar> \<le> 300"
  by (simp add: verifyWebhookSignature_def webhook_signature_tolerance_seconds_def Let_def split: if_splits)

lemma retry_delays_grow: "0 \<le> i \<Longrightarrow> i \<le> j \<Longrightarrow> retry_delay webhook_retry_delays_seconds i \<le> retry_delay webhook_retry_delays_seconds j"
proof -
  have s: "sorted webhook_retry_delays_seconds" "list_all (\<lambda>d. d \<le> 86400) webhook_retry_delays_seconds"
    by (simp_all add: webhook_retry_delays_seconds_def)
  show "0 \<le> i \<Longrightarrow> i \<le> j \<Longrightarrow> ?thesis"
    using s sorted_nth_mono [OF s(1), of "nat i" "nat j"] by (auto simp: retry_delay_def list_all_length)
qed

end
