(* ===== verification/Notifications.thy ===== *)
theory Notifications
  imports Webhooks
begin

text \<open>
  Notifications (\<open>src/domain/notifications.ts\<close>): the preferences of a recipient, the message of an event,
  and the time of its delivery under a digest and quiet hours.  \<open>Intl\<close> is the field of
  \<open>notification_env\<close> that gives the minute of the day in a time zone, or \<open>None\<close> for a zone that it refuses.
\<close>

datatype notification_channel = EMAIL | DISCORD
datatype digest_mode = IMMEDIATE | DAILY_DIGEST

definition notification_message_version :: int where "notification_message_version = 1"
definition notification_delivery_retention_days :: int where "notification_delivery_retention_days = 30"
definition notification_dead_letter_retention_days :: int where "notification_dead_letter_retention_days = 90"
definition notification_lease_seconds :: int where "notification_lease_seconds = 60"
definition notification_max_attempts :: int where "notification_max_attempts = 8"

definition notification_retry_delays_seconds :: "int list" where
  "notification_retry_delays_seconds = [0, 30, 120, 600, 3600, 21600, 86400, 86400]"

record notification_env =
  ne_valid_zone :: "string \<Rightarrow> bool"
  ne_local_minute :: "string \<Rightarrow> int \<Rightarrow> int"

section \<open>Preferences\<close>

record delivery_settings =
  nd_digestMode :: digest_mode
  nd_digestMinute :: int
  nd_timeZone :: string
  nd_quietHoursEnabled :: bool
  nd_quietStartMinute :: int
  nd_quietEndMinute :: int

record preference_input =
  pi_accountId :: ident
  pi_membershipId :: ident
  pi_teamId :: "ident option"
  pi_fantasyLeagueId :: "ident option"
  pi_channel :: notification_channel
  pi_destinationReference :: string
  pi_subscribedEvents :: "webhook_event list"
  pi_sensitiveContent :: "bool option"
  pi_recipientEnabled :: "bool option"
  pi_digestMode :: "digest_mode option"
  pi_digestMinute :: "int option"
  pi_timeZone :: "string option"
  pi_quietHoursEnabled :: "bool option"
  pi_quietStartMinute :: "int option"
  pi_quietEndMinute :: "int option"

record notification_preference =
  np_accountId :: ident
  np_membershipId :: ident
  np_teamId :: "ident option"
  np_fantasyLeagueId :: "ident option"
  np_channel :: notification_channel
  np_destinationReference :: string
  np_subscribedEvents :: "webhook_event list"
  np_sensitiveContent :: bool
  np_recipientEnabled :: bool
  np_settings :: delivery_settings

definition or_else :: "'a option \<Rightarrow> 'a \<Rightarrow> 'a" where
  "or_else x d = (case x of None \<Rightarrow> d | Some v \<Rightarrow> v)"

definition schema_id :: "string \<Rightarrow> bool" where
  "schema_id s \<longleftrightarrow> 1 \<le> length s \<and> length s \<le> 128"

definition minute_of_day :: "int \<Rightarrow> bool" where
  "minute_of_day m \<longleftrightarrow> 0 \<le> m \<and> m \<le> 1439"

text \<open>The defaults and transforms of the schema; a zone given as a default is not trimmed or checked.\<close>

definition read_preference :: "preference_input \<Rightarrow> notification_preference" where
  "read_preference i =
     \<lparr>np_accountId = trim (pi_accountId i), np_membershipId = trim (pi_membershipId i),
      np_teamId = map_option trim (pi_teamId i), np_fantasyLeagueId = map_option trim (pi_fantasyLeagueId i),
      np_channel = pi_channel i, np_destinationReference = trim (pi_destinationReference i),
      np_subscribedEvents = pi_subscribedEvents i, np_sensitiveContent = or_else (pi_sensitiveContent i) False,
      np_recipientEnabled = or_else (pi_recipientEnabled i) True,
      np_settings = \<lparr>nd_digestMode = or_else (pi_digestMode i) IMMEDIATE, nd_digestMinute = or_else (pi_digestMinute i) 540,
        nd_timeZone = or_else (map_option trim (pi_timeZone i)) ''UTC'',
        nd_quietHoursEnabled = or_else (pi_quietHoursEnabled i) False,
        nd_quietStartMinute = or_else (pi_quietStartMinute i) 1320, nd_quietEndMinute = or_else (pi_quietEndMinute i) 420\<rparr>\<rparr>"

definition reference_ok :: "string \<Rightarrow> bool" where
  "reference_ok s \<longleftrightarrow> pattern (\<lambda>c. lower_letter c \<or> upper_letter c \<or> digit c)
     (\<lambda>c. lower_letter c \<or> upper_letter c \<or> digit c \<or> c \<in> set ''._/-'') 0 127 s"

definition given_zone_ok :: "notification_env \<Rightarrow> string option \<Rightarrow> bool" where
  "given_zone_ok env z = (case z of None \<Rightarrow> True | Some s \<Rightarrow> schema_id s \<and> ne_valid_zone env s)"

definition preference_ok :: "notification_env \<Rightarrow> notification_preference \<Rightarrow> bool" where
  "preference_ok env p \<longleftrightarrow>
     schema_id (np_accountId p) \<and> schema_id (np_membershipId p) \<and>
     (case np_teamId p of None \<Rightarrow> True | Some t \<Rightarrow> schema_id t) \<and>
     (case np_fantasyLeagueId p of None \<Rightarrow> True | Some t \<Rightarrow> schema_id t) \<and> reference_ok (np_destinationReference p) \<and>
     1 \<le> length (np_subscribedEvents p) \<and> length (np_subscribedEvents p) \<le> length webhookEventNames \<and>
     minute_of_day (nd_digestMinute (np_settings p)) \<and> minute_of_day (nd_quietStartMinute (np_settings p)) \<and>
     minute_of_day (nd_quietEndMinute (np_settings p)) \<and>
     distinct (np_subscribedEvents p) \<and> \<not> np_sensitiveContent p \<and>
     \<not> (np_teamId p \<noteq> None \<and> np_fantasyLeagueId p \<noteq> None) \<and>
     nd_quietStartMinute (np_settings p) \<noteq> nd_quietEndMinute (np_settings p)"

definition parsePreference :: "notification_env \<Rightarrow> preference_input option \<Rightarrow> notification_preference option" where
  "parsePreference env raw =
     (case raw of
        None \<Rightarrow> None
      | Some i \<Rightarrow> (let p = read_preference i in
          if given_zone_ok env (map_option trim (pi_timeZone i)) \<and> preference_ok env p then Some p else None))"

section \<open>Messages\<close>

record notification_message =
  nm_version :: int
  nm_subject :: string
  nm_text :: string

definition spaced :: "string \<Rightarrow> string" where
  "spaced s = to_lower (map (\<lambda>c. if c = CHR ''_'' then CHR '' '' else c) s)"

definition message :: "string \<Rightarrow> string \<Rightarrow> notification_message" where
  "message subject body = \<lparr>nm_version = notification_message_version, nm_subject = subject, nm_text = body\<rparr>"

text \<open>The message of a payload that the schema of its event has accepted.\<close>

definition message_of :: "webhook_event \<Rightarrow> webhook_payload \<Rightarrow> notification_message option" where
  "message_of n p = (case (n, p) of
     (GAME_COMPLETED, Game_payload g) \<Rightarrow> Some (message ''Game completed''
     (''Game '' @ wg_gameId g @ '' completed at source revision '' @ string_of_int (wg_sourceRevision g) @
      ''. Verification may still be pending.''))
   | (GAME_VERIFIED, Game_payload g) \<Rightarrow> Some (message ''Game verified''
     (''Game '' @ wg_gameId g @ '' was verified at source revision '' @ string_of_int (wg_sourceRevision g) @ ''.''))
   | (GAME_CORRECTED, Game_payload g) \<Rightarrow> Some (message ''Game correction recorded''
     (''Game '' @ wg_gameId g @ '' was corrected at source revision '' @ string_of_int (wg_sourceRevision g) @
      '' and requires verification.''))
   | (REPORT_READY, Report_payload r) \<Rightarrow> Some (message ''Verified report ready''
     (to_lower (wr_scope r) @ '' report '' @ wr_targetId r @ '' is current at source revision '' @
      string_of_int (wr_sourceRevision r) @ ''. Open Baseball Stat Track to view authorized report content.''))
   | (SEASON_REPORT_UPDATED, Season_payload s) \<Rightarrow> Some (message ''Season report updated''
     (''Season report '' @ ws_seasonId s @
      '' was updated from a verified or corrected game. Open Baseball Stat Track to view authorized content.''))
   | (FANTASY_TRANSACTION_UPDATED, Transaction_payload t) \<Rightarrow> Some (message ''Fantasy transaction update''
     (''Your '' @ spaced (wt_action t) @ '' is '' @ to_lower (wt_status t) @ '' at league revision '' @
      string_of_int (wt_revision t) @ ''. Open Baseball Stat Track for the authorized roster view.''))
   | (FANTASY_SCORING_UPDATED, Scoring_payload s) \<Rightarrow> Some (message ''Fantasy scoring update''
     (''Fantasy period '' @ string_of_int (wc_periodSequence s) @ '' scoring is '' @ spaced (wc_scoringStatus s) @
      '' at result revision '' @ string_of_int (wc_resultRevision s) @
      ''. Uncertainty remains visible in Baseball Stat Track.''))
   | (FANTASY_MATCHUP_FINAL, Matchup_payload m) \<Rightarrow> Some (message ''Fantasy matchup final''
     (''Fantasy period '' @ string_of_int (wm_periodSequence m) @ '' is final with outcome '' @ spaced (wm_outcome m) @
      '' at result revision '' @ string_of_int (wm_resultRevision m) @
      ''. Open Baseball Stat Track for the authorized matchup details.''))
   | (OPERATIONAL_FAILURE, Failure_payload f) \<Rightarrow> Some (message ''Baseball Stat Track operational warning''
     (wf_service f @ '' reported '' @ wf_failureCode f @ ''. Correlation: '' @ wf_correlationId f @ ''.''))
   | _ \<Rightarrow> None)"

definition renderNotificationMessage :: "webhook_env \<Rightarrow> webhook_event \<Rightarrow> webhook_payload \<Rightarrow> notification_message option" where
  "renderNotificationMessage env n payloadInput = Option.bind (parseWebhookPayload env n payloadInput) (message_of n)"

section \<open>The time of a delivery\<close>

datatype schedule_error = SCHEDULE_INVALID | NO_SAFE_TIME | TIME_OUT_OF_RANGE

definition minuteInWindow :: "int \<Rightarrow> int \<Rightarrow> int \<Rightarrow> bool" where
  "minuteInWindow v start stop = (if start < stop then v \<ge> start \<and> v < stop else v \<ge> start \<or> v < stop)"

definition next_minute :: "int \<Rightarrow> int" where
  "next_minute t = ((t + 1 + 59999) div 60000) * 60000"

definition delivery_allowed :: "notification_env \<Rightarrow> delivery_settings \<Rightarrow> int \<Rightarrow> bool" where
  "delivery_allowed env s t =
     (let minute = ne_local_minute env (nd_timeZone s) t;
          quiet = nd_quietHoursEnabled s \<and> minuteInWindow minute (nd_quietStartMinute s) (nd_quietEndMinute s)
      in (nd_digestMode s \<noteq> DAILY_DIGEST \<or> minute = nd_digestMinute s) \<and> \<not> quiet)"

text \<open>The loop with the number of rounds it has left; formatting an invalid date throws.\<close>

fun delivery_loop :: "notification_env \<Rightarrow> delivery_settings \<Rightarrow> nat \<Rightarrow> int \<Rightarrow> schedule_error + int" where
  "delivery_loop env s 0 candidate = Inl NO_SAFE_TIME"
| "delivery_loop env s (Suc n) candidate =
     (if candidate > max_time then Inl TIME_OUT_OF_RANGE
      else if delivery_allowed env s candidate then Inr candidate
      else delivery_loop env s n (next_minute candidate))"

definition schedule_ok :: "notification_env \<Rightarrow> delivery_settings \<Rightarrow> bool" where
  "schedule_ok env s \<longleftrightarrow> \<not> (\<not> ne_valid_zone env (nd_timeZone s) \<or> nd_digestMinute s < 0 \<or> nd_digestMinute s > 1439 \<or>
     nd_quietStartMinute s = nd_quietEndMinute s)"

definition notificationDeliveryAt :: "notification_env \<Rightarrow> int \<Rightarrow> delivery_settings \<Rightarrow> schedule_error + int" where
  "notificationDeliveryAt env occurredAt s =
     and_then (require (schedule_ok env s) SCHEDULE_INVALID) (\<lambda>_. delivery_loop env s (8 * 24 * 60 + 1) occurredAt)"

definition notificationRetryAt :: "int \<Rightarrow> int \<Rightarrow> int option" where
  "notificationRetryAt attemptNumber completedAt =
     (if attemptNumber \<ge> notification_max_attempts then None
      else Some (completedAt + retry_delay notification_retry_delays_seconds attemptNumber * 1000))"

section \<open>When a delivery has a time\<close>

text \<open>A digest minute inside the quiet hours is never allowed, whatever the clock shows.\<close>

definition quiet_digest :: "delivery_settings \<Rightarrow> bool" where
  "quiet_digest s \<longleftrightarrow> nd_digestMode s = DAILY_DIGEST \<and> nd_quietHoursEnabled s \<and>
     minuteInWindow (nd_digestMinute s) (nd_quietStartMinute s) (nd_quietEndMinute s)"

lemma quiet_digest_never_allowed: "quiet_digest s \<Longrightarrow> \<not> delivery_allowed env s t"
  by (auto simp: quiet_digest_def delivery_allowed_def Let_def)

lemma quiet_digest_fails: "quiet_digest s \<Longrightarrow> \<exists>e. delivery_loop env s n t = Inl e"
  by (induction n arbitrary: t) (simp_all add: quiet_digest_never_allowed)

text \<open>A zone with a fixed distance from UTC.\<close>

definition fixed_zone :: "notification_env \<Rightarrow> string \<Rightarrow> int \<Rightarrow> bool" where
  "fixed_zone env z offset \<longleftrightarrow> (\<forall>t. ne_local_minute env z t = (t div 60000 + offset) mod 1440)"

lemma next_minute_div: "next_minute t div 60000 = t div 60000 + 1"
  by (simp add: next_minute_def)

lemma next_minute_bounds: "t < next_minute t" "next_minute t \<le> t + 60000"
proof -
  have "(t + 60000) div 60000 * 60000 + (t + 60000) mod 60000 = t + 60000" "(t + 60000) mod 60000 < 60000" "0 \<le> (t + 60000) mod 60000"
    by simp_all
  then show "t < next_minute t" "next_minute t \<le> t + 60000" unfolding next_minute_def by (simp_all add: algebra_simps)
qed

lemma loop_finds:
  assumes z: "fixed_zone env (nd_timeZone s) off" and "n = nat k + 1 + m" and "0 \<le> k"
    and ok: "\<And>u. u div 60000 = t div 60000 + k \<Longrightarrow> delivery_allowed env s u" and "t + 60000 * k \<le> max_time"
  shows "\<exists>u. delivery_loop env s n t = Inr u \<and> t \<le> u \<and> u \<le> t + 60000 * k \<and> delivery_allowed env s u"
  using assms(2-)
proof (induction n arbitrary: t k)
  case (Suc n)
  show ?case
  proof (cases "delivery_allowed env s t")
    case True
    then show ?thesis using Suc.prems by auto
  next
    case False
    then have k: "0 < k" using Suc.prems(3) [of t] Suc.prems(2) by (cases "k = 0") auto
    have "\<exists>u. delivery_loop env s n (next_minute t) = Inr u \<and> next_minute t \<le> u \<and>
        u \<le> next_minute t + 60000 * (k - 1) \<and> delivery_allowed env s u"
      by (rule Suc.IH [where k = "k - 1"])
        (use Suc.prems k next_minute_bounds [of t] in \<open>auto simp: next_minute_div nat_diff_distrib\<close>)
    then show ?thesis using False next_minute_bounds [of t] Suc.prems k by auto
  qed
qed simp

lemma window_end: "start \<noteq> stop \<Longrightarrow> \<not> minuteInWindow stop start stop"
  by (simp add: minuteInWindow_def)

text \<open>Some minute of the day is allowed unless the digest falls into the quiet hours.\<close>

lemma allowed_minute:
  assumes "\<not> quiet_digest s" and "nd_quietStartMinute s \<noteq> nd_quietEndMinute s"
    and "minute_of_day (nd_digestMinute s)" and "minute_of_day (nd_quietEndMinute s)"
  obtains d where "minute_of_day d" and "\<And>env t. ne_local_minute env (nd_timeZone s) t = d \<Longrightarrow> delivery_allowed env s t"
proof (cases "nd_digestMode s = DAILY_DIGEST")
  case True
  then show ?thesis using assms(1,3) that [of "nd_digestMinute s"] by (auto simp: delivery_allowed_def quiet_digest_def Let_def)
next
  case False
  then show ?thesis using assms(2,4) that [of "nd_quietEndMinute s"] window_end by (auto simp: delivery_allowed_def Let_def)
qed

lemma delivery_time:
  assumes z: "fixed_zone env (nd_timeZone s) off" and ok: "schedule_ok env s" and m: "minute_of_day (nd_quietEndMinute s)"
    and "\<not> quiet_digest s" and range: "t + 86400000 \<le> max_time"
  obtains u where "notificationDeliveryAt env t s = Inr u" and "t \<le> u" and "u < t + 86400000" and "delivery_allowed env s u"
proof -
  have s: "nd_quietStartMinute s \<noteq> nd_quietEndMinute s" "minute_of_day (nd_digestMinute s)"
    using ok by (auto simp: schedule_ok_def minute_of_day_def)
  obtain d where d: "minute_of_day d" and allowed: "\<And>env t. ne_local_minute env (nd_timeZone s) t = d \<Longrightarrow> delivery_allowed env s t"
    using allowed_minute [OF assms(4) s m] by metis
  define k where "k = (d - (t div 60000 + off)) mod 1440"
  have k: "0 \<le> k" "k < 1440" by (simp_all add: k_def)
  have hit: "delivery_allowed env s u" if "u div 60000 = t div 60000 + k" for u
  proof (rule allowed)
    have "(t div 60000 + k + off) mod 1440 = d mod 1440" 
      using mod_add_right_eq [of "t div 60000 + off" "d - (t div 60000 + off)" 1440] unfolding k_def by (simp add: algebra_simps)
    then show "ne_local_minute env (nd_timeZone s) u = d" using z that d by (simp add: fixed_zone_def minute_of_day_def)
  qed
  have n: "8 * 24 * 60 + 1 = nat k + 1 + (11520 - nat k)" using k by simp
  have r: "t + 60000 * k \<le> max_time" using k range by simp
  obtain u where u: "delivery_loop env s (8 * 24 * 60 + 1) t = Inr u" "t \<le> u" "u \<le> t + 60000 * k" "delivery_allowed env s u"
    using loop_finds [OF z n k(1) hit r] by blast
  show ?thesis by (rule that [of u]) (use u k ok in \<open>simp_all add: notificationDeliveryAt_def\<close>)
qed

lemma delivery_refused: "quiet_digest s \<Longrightarrow> \<exists>e. notificationDeliveryAt env t s = Inl e"
  using quiet_digest_fails [of s env] by (auto simp: notificationDeliveryAt_def require_def)

text \<open>A preference that its schema accepts has a valid schedule, except that a zone given by default is not checked.\<close>

lemma parsed_schedule:
  assumes "parsePreference env raw = Some p" and "ne_valid_zone env ''UTC''"
  shows "schedule_ok env (np_settings p) \<and> minute_of_day (nd_quietEndMinute (np_settings p)) \<and> minute_of_day (nd_quietStartMinute (np_settings p))"
proof -
  obtain i where i: "raw = Some i" "p = read_preference i" "given_zone_ok env (map_option trim (pi_timeZone i))" "preference_ok env p"
    using assms(1) by (auto simp: parsePreference_def Let_def split: option.splits if_splits)
  have "ne_valid_zone env (nd_timeZone (np_settings p))"
    using i(2,3) assms(2) by (auto simp: read_preference_def or_else_def given_zone_ok_def split: option.splits)
  with i(4) show ?thesis by (simp add: preference_ok_def schedule_ok_def minute_of_day_def)
qed

end
