(* ===== verification/Event_Tables.thy ===== *)
theory Event_Tables
  imports Game_Replay Game_Statistics Notifications
begin

text \<open>
  The tables that the repository of game events reads and writes, and how it loads the history of a
  game from them (the first part of \<open>src/server/data/game-event-repository.ts\<close>).  A table is the list of its
  rows in the order of their insertion; a row has the columns that the repository uses.  A \<open>Date\<close> is
  its number of milliseconds, and the status \<open>DRAFT\<close> of a game, which no event gives it, is \<open>None\<close>.
\<close>

section \<open>Rows\<close>

record team_snapshot_row =
  tsr_id :: ident
  tsr_side :: game_side

record lineup_slot_row =
  lsr_id :: ident
  lsr_gameTeamSnapshotId :: ident
  lsr_playerId :: "ident option"
  lsr_battingOrder :: "int option"
  lsr_defensivePosition :: "position option"
  lsr_isStartingPitcher :: bool

record setup_row =
  sur_id :: ident
  sur_accountId :: ident
  sur_gameId :: ident
  sur_setupRevision :: int
  sur_rulesetVersionId :: ident
  sur_scheduledInnings :: int
  sur_teamSnapshots :: "team_snapshot_row list"
  sur_lineupSlots :: "lineup_slot_row list"

record game_row =
  gmr_id :: ident
  gmr_externalId :: ident
  gmr_accountId :: ident
  gmr_seasonExternalId :: ident
  gmr_teamId :: ident
  gmr_teamExternalId :: ident
  gmr_status :: "game_status option"
  gmr_revision :: int
  gmr_setupRevision :: int
  gmr_readySetupSnapshotId :: "ident option"

record play_row =
  ptr_id :: ident
  ptr_accountId :: ident
  ptr_gameId :: ident
  ptr_setupSnapshotId :: ident
  ptr_acceptedRevision :: int
  ptr_expectedRevision :: int
  ptr_clientSubmissionId :: ident
  ptr_payloadHash :: string
  ptr_preStateHash :: string
  ptr_postStateHash :: string
  ptr_actor :: event_actor
  ptr_acceptedAt :: int

record event_row =
  ser_id :: ident
  ser_accountId :: ident
  ser_gameId :: ident
  ser_setupSnapshotId :: ident
  ser_playTransactionId :: "ident option"
  ser_sequence :: int
  ser_componentOrder :: "int option"
  ser_schemaVersion :: int
  ser_rulesetVersionId :: ident
  ser_clientSubmissionId :: ident
  ser_expectedRevision :: int
  ser_acceptedRevision :: int
  ser_payloadHash :: string
  ser_body :: raw_body
  ser_preStateHash :: "string option"
  ser_postStateHash :: "string option"
  ser_actor :: event_actor
  ser_recordedAt :: int

record correction_row =
  ecr_accountId :: ident
  ecr_gameId :: ident
  ecr_correctionEventId :: ident
  ecr_targetEventId :: ident
  ecr_replacementEventId :: "ident option"
  ecr_replacementPayloadId :: "ident option"
  ecr_policy :: correction_policy

datatype verification_impact = IMPACT_UNCHANGED_UNVERIFIED | IMPACT_REQUIRES_VERIFICATION | IMPACT_INVALIDATED_REQUIRES_REVERIFICATION

record correction_evidence =
  ce_gameId :: ident
  ce_membershipId :: "ident option"
  ce_targetEventIds :: "ident list"
  ce_correctionPolicy :: correction_policy
  ce_verificationImpact :: verification_impact
  ce_rulesetVersionId :: ident
  ce_reducerVersion :: int
  ce_statisticDerivationVersion :: int
  ce_statisticRulesVersion :: int
  ce_projectionFreshness :: string
  ce_generatedAt :: string

text \<open>The metadata of an audit record: the revisions around the event and what its kind adds.\<close>

datatype audit_details = Verification_status string | Correction_evidence correction_evidence

record audit_row =
  aur_id :: ident
  aur_accountId :: ident
  aur_actor :: event_actor
  aur_action :: string
  aur_capability :: string
  aur_targetType :: string
  aur_targetId :: ident
  aur_outcome :: string
  aur_reasonCode :: "string option"
  aur_correlationId :: "ident option"
  aur_revisions :: "int \<times> int"
  aur_details :: audit_details
  aur_createdAt :: int

datatype projection_scope = Scope_GAME | Scope_SEASON
datatype projection_status = PENDING_PROJECTION | BUILDING | CURRENT_PROJECTION | FAILED_PROJECTION | STALE

record checkpoint_row =
  pcr_accountId :: ident
  pcr_scope :: projection_scope
  pcr_gameId :: "ident option"
  pcr_seasonId :: "ident option"
  pcr_sourceRevision :: int
  pcr_privacyOverlayRevision :: int
  pcr_derivationVersion :: int
  pcr_status :: projection_status
  pcr_failureCode :: "string option"

text \<open>The outbox: events for other systems, where they are delivered, and who is notified.\<close>

record outbox_event_row =
  wer_id :: ident
  wer_accountId :: ident
  wer_eventName :: webhook_event
  wer_payloadVersion :: int
  wer_deduplicationKey :: string
  wer_payload :: webhook_payload
  wer_occurredAt :: int
  wer_retentionUntil :: int

datatype endpoint_status = Endpoint_PENDING | Endpoint_ACTIVE | Endpoint_REVOKED

record endpoint_row =
  wpr_id :: ident
  wpr_accountId :: ident
  wpr_status :: endpoint_status
  wpr_subscribedEvents :: "webhook_event list"
  wpr_secretVersion :: int

record delivery_row =
  wdr_accountId :: ident
  wdr_endpointId :: ident
  wdr_eventId :: ident
  wdr_replayNumber :: int
  wdr_secretVersion :: int
  wdr_retentionUntil :: int

datatype preference_status = Preference_ACTIVE | OPTED_OUT | DISABLED

record preference_row =
  npr_id :: ident
  npr_status :: preference_status
  npr_membershipActive :: bool
  npr_preference :: notification_preference

record notification_row =
  ndr_accountId :: ident
  ndr_preferenceId :: ident
  ndr_eventId :: ident
  ndr_channel :: notification_channel
  ndr_destinationReference :: string
  ndr_nextAttemptAt :: int
  ndr_messageVersion :: int
  ndr_retentionUntil :: int

record external_row =
  exr_id :: ident
  exr_accountId :: ident
  exr_externalId :: ident

record store =
  db_games :: "game_row list"
  db_setups :: "setup_row list"
  db_plays :: "play_row list"
  db_events :: "event_row list"
  db_corrections :: "correction_row list"
  db_audits :: "audit_row list"
  db_checkpoints :: "checkpoint_row list"
  db_overlays :: "(ident \<times> int) list"
  db_outbox :: "outbox_event_row list"
  db_endpoints :: "endpoint_row list"
  db_deliveries :: "delivery_row list"
  db_preferences :: "preference_row list"
  db_notifications :: "notification_row list"
  db_teams :: "external_row list"
  db_fantasyLeagues :: "external_row list"
  db_users :: "ident list"

section \<open>What the platform computes\<close>

datatype db_constraint = Play_id | Play_revision | Play_submission | Event_id | Event_sequence | Event_component
  | Correction_pair

text \<open>
  The digests of a state and of a command, the check of an ISO date, the collation of the
  database, the ids it generates for the rows of a table, and the text of the columns it reports for a
  violated constraint.
\<close>

record store_env =
  sv_stateHash :: "game_state \<Rightarrow> string"
  sv_digest :: "ident \<Rightarrow> int \<Rightarrow> event_body \<Rightarrow> string"
  sv_isoDatetime :: "string \<Rightarrow> bool"
  sv_collation :: "ident \<Rightarrow> string"
  sv_newId :: "nat \<Rightarrow> ident"
  sv_conflictTarget :: "db_constraint \<Rightarrow> string"
  sv_webhooks :: webhook_env
  sv_notifications :: notification_env

section \<open>Loading a setup\<close>

definition side_index_of :: "game_side \<Rightarrow> nat" where
  "side_index_of sd = (case sd of HOME \<Rightarrow> 0 | AWAY \<Rightarrow> 1)"

definition ordered_teams :: "store_env \<Rightarrow> setup_row \<Rightarrow> team_snapshot_row list" where
  "ordered_teams env r = 
     sort_key (\<lambda>t. side_index_of (tsr_side t)) (sort_key (\<lambda>t. sv_collation env (tsr_id t)) (sur_teamSnapshots r))"

text \<open>The database sorts \<open>NULL\<close> behind every number.\<close>

definition ordered_slots :: "store_env \<Rightarrow> setup_row \<Rightarrow> lineup_slot_row list" where
  "ordered_slots env r = 
     sort_key (\<lambda>l. lsr_battingOrder l = None) (sort_key (\<lambda>l. or_else (lsr_battingOrder l) 0)
       (sort_key (\<lambda>l. sv_collation env (lsr_id l)) (sur_lineupSlots r)))"

definition slot_player :: "lineup_slot_row \<Rightarrow> ident" where
  "slot_player l = or_else (lsr_playerId l) (lsr_id l)"

definition slot_entry :: "lineup_slot_row \<Rightarrow> lineup_entry" where
  "slot_entry l = \<lparr>le_playerId = slot_player l, le_battingOrder = lsr_battingOrder l, le_position = lsr_defensivePosition l,
     le_active = (lsr_battingOrder l \<noteq> None \<or> lsr_defensivePosition l \<noteq> None \<or> lsr_isStartingPitcher l)\<rparr>"

definition setup_side_of :: "store_env \<Rightarrow> setup_row \<Rightarrow> game_side \<Rightarrow> event_error + setup_side" where
  "setup_side_of env r name =
     (case find (\<lambda>t. tsr_side t = name) (ordered_teams env r) of
        None \<Rightarrow> Inl SETUP_NOT_READY
      | Some team \<Rightarrow>
          (let slots = filter (\<lambda>l. lsr_gameTeamSnapshotId l = tsr_id team) (ordered_slots env r) in
           case filter lsr_isStartingPitcher slots of
             [pitcher] \<Rightarrow> Inr \<lparr>ss_lineup = map slot_entry slots, ss_startingPitcherId = slot_player pitcher\<rparr>
           | _ \<Rightarrow> Inl INVALID_PITCHER))"

definition mapSetupSnapshot :: "store_env \<Rightarrow> setup_row \<Rightarrow> ident \<Rightarrow> ident \<Rightarrow> event_error + accepted_setup" where
  "mapSetupSnapshot env r accountId gameId =
     and_then (setup_side_of env r HOME) (\<lambda>home.
     and_then (setup_side_of env r AWAY) (\<lambda>away.
       Inr \<lparr>su_id = sur_id r, su_accountId = accountId, su_gameId = gameId, su_setupRevision = sur_setupRevision r,
            su_rulesetVersionId = sur_rulesetVersionId r, su_scheduledInnings = sur_scheduledInnings r,
            su_status = ''READY'', su_sides = by_side home away\<rparr>))"

definition setup_row_named :: "ident \<Rightarrow> ident \<Rightarrow> ident \<Rightarrow> setup_row \<Rightarrow> bool" where
  "setup_row_named accountId gameId setupSnapshotId r \<longleftrightarrow>
     sur_accountId r = accountId \<and> sur_gameId r = gameId \<and> sur_id r = setupSnapshotId"

definition loadSetup :: "store_env \<Rightarrow> store \<Rightarrow> ident \<Rightarrow> ident \<Rightarrow> ident \<Rightarrow> event_error + accepted_setup" where
  "loadSetup env st accountId gameId setupSnapshotId =
     (case find (setup_row_named accountId gameId setupSnapshotId) (db_setups st) of
        None \<Rightarrow> Inl SETUP_NOT_READY
      | Some r \<Rightarrow> mapSetupSnapshot env r accountId gameId)"

section \<open>Loading events\<close>

text \<open>The play transaction of an event row is joined by all four columns of the foreign key.\<close>

definition play_of :: "store \<Rightarrow> event_row \<Rightarrow> play_row option" where
  "play_of st r = find (\<lambda>p. ptr_accountId p = ser_accountId r \<and> ptr_gameId p = ser_gameId r \<and>
     ptr_setupSnapshotId p = ser_setupSnapshotId r \<and> Some (ptr_id p) = ser_playTransactionId r) (db_plays st)"

text \<open>A hash that is \<open>NULL\<close> fails the pattern of the schema as the empty string does.\<close>

definition source_envelope :: "store \<Rightarrow> event_row \<Rightarrow> int \<Rightarrow> raw_body event_envelope" where
  "source_envelope st r setupRevision =
     \<lparr>ev_id = ser_id r, ev_accountId = ser_accountId r, ev_gameId = ser_gameId r, ev_setupSnapshotId = ser_setupSnapshotId r,
      ev_setupRevision = setupRevision, ev_sequence = ser_sequence r, ev_schemaVersion = ser_schemaVersion r,
      ev_rulesetVersionId = ser_rulesetVersionId r, ev_playTransactionId = ser_playTransactionId r,
      ev_componentOrder = ser_componentOrder r, ev_clientSubmissionId = ser_clientSubmissionId r,
      ev_expectedRevision = ser_expectedRevision r, ev_acceptedRevision = ser_acceptedRevision r, ev_actor = ser_actor r,
      ev_recordedAt = iso_string (ser_recordedAt r),
      ev_acceptedAt = iso_string (case play_of st r of Some p \<Rightarrow> ptr_acceptedAt p | None \<Rightarrow> ser_recordedAt r),
      ev_body = ser_body r, ev_preStateHash = or_else (ser_preStateHash r) '''',
      ev_postStateHash = or_else (ser_postStateHash r) ''''\<rparr>"

definition mapSourceEvent :: "store_env \<Rightarrow> store \<Rightarrow> int \<Rightarrow> event_row \<Rightarrow> event_error + accepted_event" where
  "mapSourceEvent env st setupRevision r = parseEvent (sv_isoDatetime env) (source_envelope st r setupRevision)"

definition stored_rows :: "store \<Rightarrow> ident \<Rightarrow> ident \<Rightarrow> ident \<Rightarrow> event_row list" where
  "stored_rows st accountId gameId setupSnapshotId =
     sort_key ser_sequence (filter (\<lambda>r. ser_accountId r = accountId \<and> ser_gameId r = gameId \<and>
       ser_setupSnapshotId r = setupSnapshotId) (db_events st))"

definition game_corrections :: "store \<Rightarrow> ident \<Rightarrow> ident \<Rightarrow> correction_row list" where
  "game_corrections st accountId gameId =
     filter (\<lambda>r. ecr_accountId r = accountId \<and> ecr_gameId r = gameId) (db_corrections st)"

section \<open>The relationships of corrections\<close>

definition replacement_for :: "correction \<Rightarrow> ident \<Rightarrow> ident option" where
  "replacement_for c target = map_option rep_id (find (\<lambda>r. rep_targetEventId r = target) (co_replacements c))"

definition relationship_ok :: "correction \<Rightarrow> correction_row \<Rightarrow> bool" where
  "relationship_ok c r \<longleftrightarrow> \<not> (ecr_policy r \<noteq> co_policy c \<or> ecr_replacementEventId r \<noteq> None \<or>
     ecr_replacementPayloadId r \<noteq> replacement_for c (ecr_targetEventId r) \<or>
     ecr_targetEventId r \<notin> set (co_targetEventIds c))"

text \<open>The body is parsed with the default of \<open>parseEventBody\<close>, the current schema version.\<close>

definition check_relationships :: "correction_row list \<Rightarrow> accepted_event \<Rightarrow> event_error + unit" where
  "check_relationships rows e =
     and_then (parseEventBody (Shaped (ev_body e)) event_schema_version) (\<lambda>body.
       case body of
         CorrectionApplied c \<Rightarrow>
           (let persisted = filter (\<lambda>r. ecr_correctionEventId r = ev_id e) rows in
            require (\<not> (length persisted \<noteq> length (co_targetEventIds c) \<or> list_ex (\<lambda>r. \<not> relationship_ok c r) persisted))
              IMMUTABLE_HISTORY_VIOLATION)
       | _ \<Rightarrow> Inr ())"

definition assertCorrectionRelationships :: "accepted_event list \<Rightarrow> correction_row list \<Rightarrow> event_error + unit" where
  "assertCorrectionRelationships events rows =
     (let corrections = filter (\<lambda>e. is_correction (ev_body e)) events in
      and_then (check_all (check_relationships rows) corrections) (\<lambda>_.
        require (\<not> list_ex (\<lambda>r. \<not> list_ex (\<lambda>e. ev_id e = ecr_correctionEventId r) corrections) rows)
          IMMUTABLE_HISTORY_VIOLATION))"

section \<open>Loading a history\<close>

record game_history =
  gh_setup :: accepted_setup
  gh_events :: "accepted_event list"

definition loadAcceptedHistory :: "store_env \<Rightarrow> store \<Rightarrow> ident \<Rightarrow> ident \<Rightarrow> ident \<Rightarrow> event_error + game_history" where
  "loadAcceptedHistory env st accountId gameId setupSnapshotId =
     and_then (loadSetup env st accountId gameId setupSnapshotId) (\<lambda>setup.
     and_then (map_res (mapSourceEvent env st (su_setupRevision setup)) (stored_rows st accountId gameId setupSnapshotId))
       (\<lambda>events.
     and_then (assertCorrectionRelationships events (game_corrections st accountId gameId)) (\<lambda>_.
       Inr \<lparr>gh_setup = setup, gh_events = events\<rparr>)))"

definition load_verified :: "store_env \<Rightarrow> store \<Rightarrow> ident \<Rightarrow> ident \<Rightarrow> ident \<Rightarrow> event_error + game_history" where
  "load_verified env st accountId gameId setupSnapshotId =
     and_then (loadAcceptedHistory env st accountId gameId setupSnapshotId) (\<lambda>h.
     and_then (replayGame (sv_stateHash env) True (gh_setup h) (gh_events h)) (\<lambda>_. Inr h))"

definition replay_stored ::
    "store_env \<Rightarrow> store \<Rightarrow> ident \<Rightarrow> ident \<Rightarrow> ident \<Rightarrow> event_error + (game_state \<times> replay_metadata)" where
  "replay_stored env st accountId gameId setupSnapshotId =
     and_then (loadAcceptedHistory env st accountId gameId setupSnapshotId) (\<lambda>h.
       replayGame (sv_stateHash env) True (gh_setup h) (gh_events h))"

type_synonym history_source = "ident \<times> ident"

text \<open>The key of a source joins its two ids with a colon.\<close>

definition source_key :: "history_source \<Rightarrow> string" where
  "source_key s = fst s @ '':'' @ snd s"

definition loadAcceptedHistories ::
    "store_env \<Rightarrow> store \<Rightarrow> ident \<Rightarrow> history_source list \<Rightarrow> event_error + (history_source \<times> game_history) list" where
  "loadAcceptedHistories env st accountId sources =
     (if sources = [] then Inr []
      else if \<not> distinct (map source_key sources) then Inl DUPLICATE_ACCEPTED_EVENT
      else (let snapshots = filter (\<lambda>r. sur_accountId r = accountId \<and> (sur_gameId r, sur_id r) \<in> set sources) (db_setups st) in
        and_then (require (length snapshots = length sources) SETUP_NOT_READY) (\<lambda>_.
          map_res (\<lambda>source.
            case find (\<lambda>r. (sur_gameId r, sur_id r) = source) snapshots of
              None \<Rightarrow> Inl SETUP_NOT_READY
            | Some r \<Rightarrow>
                and_then (mapSetupSnapshot env r accountId (fst source)) (\<lambda>setup.
                and_then (map_res (mapSourceEvent env st (su_setupRevision setup))
                  (stored_rows st accountId (fst source) (snd source))) (\<lambda>events.
                and_then (assertCorrectionRelationships events (game_corrections st accountId (fst source))) (\<lambda>_.
                and_then (replayGame (sv_stateHash env) True setup events) (\<lambda>_.
                  Inr (source, \<lparr>gh_setup = setup, gh_events = events\<rparr>)))))) sources)))"

end
