(* ===== verification/Event_Outbox.thy ===== *)
theory Event_Outbox
  imports Event_Tables
begin

text \<open>
  The outbox (\<open>enqueueWebhookEvent\<close> of \<open>src/server/data/webhook-repository.ts\<close>): inside the transaction of its caller it
  stores an event once per deduplication key, a delivery for each active endpoint that
  subscribed to it, and a notification for each preference whose scope covers it.
\<close>

datatype tx_failure = Thrown event_error | Violates db_constraint | Other_failure

definition add_days :: "int \<Rightarrow> int \<Rightarrow> int" where
  "add_days t days = t + days * 24 * 60 * 60 * 1000"

record outbox_input =
  oi_accountId :: ident
  oi_eventName :: webhook_event
  oi_deduplicationKey :: string
  oi_payload :: webhook_payload
  oi_occurredAt :: int

definition new_outbox_event :: "store_env \<Rightarrow> store \<Rightarrow> outbox_input \<Rightarrow> webhook_payload \<Rightarrow> outbox_event_row" where
  "new_outbox_event env st i payload =
     \<lparr>wer_id = sv_newId env (length (db_outbox st)), wer_accountId = oi_accountId i, wer_eventName = oi_eventName i,
      wer_payloadVersion = webhook_payload_version, wer_deduplicationKey = oi_deduplicationKey i, wer_payload = payload,
      wer_occurredAt = oi_occurredAt i, wer_retentionUntil = add_days (oi_occurredAt i) webhook_event_retention_days\<rparr>"

text \<open>\<open>upsert\<close> with an empty update.\<close>

definition upsert_outbox :: "store_env \<Rightarrow> store \<Rightarrow> outbox_input \<Rightarrow> webhook_payload \<Rightarrow> outbox_event_row \<times> store" where
  "upsert_outbox env st i payload =
     (case find (\<lambda>e. wer_accountId e = oi_accountId i \<and> wer_deduplicationKey e = oi_deduplicationKey i) (db_outbox st) of
        Some e \<Rightarrow> (e, st)
      | None \<Rightarrow> (let e = new_outbox_event env st i payload in (e, st\<lparr>db_outbox := db_outbox st @ [e]\<rparr>)))"

definition subscribed_endpoints :: "store \<Rightarrow> outbox_input \<Rightarrow> endpoint_row list" where
  "subscribed_endpoints st i = filter (\<lambda>p. wpr_accountId p = oi_accountId i \<and> wpr_status p = Endpoint_ACTIVE \<and>
     oi_eventName i \<in> set (wpr_subscribedEvents p)) (db_endpoints st)"

text \<open>\<open>createMany\<close> with \<open>skipDuplicates\<close>: a row whose unique columns are taken is left out.\<close>

definition insert_new :: "('r \<Rightarrow> 'k) \<Rightarrow> 'r list \<Rightarrow> 'r \<Rightarrow> 'r list" where
  "insert_new key rows r = (if key r \<in> key ` set rows then rows else rows @ [r])"

definition delivery_for :: "outbox_input \<Rightarrow> ident \<Rightarrow> endpoint_row \<Rightarrow> delivery_row" where
  "delivery_for i eventId p =
     \<lparr>wdr_accountId = oi_accountId i, wdr_endpointId = wpr_id p, wdr_eventId = eventId, wdr_replayNumber = 0,
      wdr_secretVersion = wpr_secretVersion p,
      wdr_retentionUntil = add_days (oi_occurredAt i) webhook_delivery_retention_days\<rparr>"

definition delivery_key :: "delivery_row \<Rightarrow> ident \<times> ident \<times> int" where
  "delivery_key d = (wdr_endpointId d, wdr_eventId d, wdr_replayNumber d)"

section \<open>The scope of a notification\<close>

fun payload_team :: "webhook_payload \<Rightarrow> ident option" where
  "payload_team (Game_payload g) = Some (wg_teamId g)"
| "payload_team (Season_payload s) = Some (ws_teamId s)"
| "payload_team (Failure_payload f) = wf_teamId f"
| "payload_team _ = None"

fun payload_league :: "webhook_payload \<Rightarrow> ident option" where
  "payload_league (Transaction_payload t) = Some (wt_fantasyLeagueId t)"
| "payload_league (Scoring_payload s) = Some (wc_leagueId s)"
| "payload_league (Matchup_payload m) = Some (wm_fantasyLeagueId m)"
| "payload_league _ = None"

definition by_external :: "external_row list \<Rightarrow> ident \<Rightarrow> ident \<Rightarrow> ident option" where
  "by_external rows accountId externalId =
     map_option exr_id (find (\<lambda>r. exr_accountId r = accountId \<and> exr_externalId r = externalId) rows)"

definition report_game_team :: "store \<Rightarrow> ident \<Rightarrow> webhook_payload \<Rightarrow> ident option" where
  "report_game_team st accountId p =
     (case p of
        Report_payload r \<Rightarrow>
          if wr_scope r = ''GAME''
          then map_option gmr_teamId (find (\<lambda>g. gmr_accountId g = accountId \<and> gmr_externalId g = wr_targetId r) (db_games st))
          else None
      | _ \<Rightarrow> None)"

definition team_in_scope :: "store \<Rightarrow> outbox_input \<Rightarrow> webhook_payload \<Rightarrow> ident option" where
  "team_in_scope st i p =
     (if truthy (payload_team p) then by_external (db_teams st) (oi_accountId i) (or_else (payload_team p) '''')
      else if oi_eventName i = REPORT_READY then report_game_team st (oi_accountId i) p else None)"

definition league_in_scope :: "store \<Rightarrow> outbox_input \<Rightarrow> webhook_payload \<Rightarrow> ident option" where
  "league_in_scope st i p =
     (if truthy (payload_league p) then by_external (db_fantasyLeagues st) (oi_accountId i) (or_else (payload_league p) '''')
      else None)"

text \<open>The \<open>OR\<close> of the query: the whole account, the team or the fantasy league; an empty id adds no case.\<close>

definition scope_covers :: "ident option \<Rightarrow> ident option \<Rightarrow> notification_preference \<Rightarrow> bool" where
  "scope_covers team league p \<longleftrightarrow>
     (np_teamId p = None \<and> np_fantasyLeagueId p = None) \<or>
     (truthy team \<and> np_teamId p = team \<and> np_fantasyLeagueId p = None) \<or>
     (truthy league \<and> np_teamId p = None \<and> np_fantasyLeagueId p = league)"

definition notified :: "store \<Rightarrow> outbox_input \<Rightarrow> webhook_payload \<Rightarrow> preference_row \<Rightarrow> bool" where
  "notified st i payload r \<longleftrightarrow>
     np_accountId (npr_preference r) = oi_accountId i \<and> npr_status r = Preference_ACTIVE \<and>
     \<not> np_sensitiveContent (npr_preference r) \<and> np_recipientEnabled (npr_preference r) \<and>
     oi_eventName i \<in> set (np_subscribedEvents (npr_preference r)) \<and> npr_membershipActive r \<and>
     scope_covers (team_in_scope st i payload) (league_in_scope st i payload) (npr_preference r)"

definition notification_for ::
    "store_env \<Rightarrow> outbox_input \<Rightarrow> ident \<Rightarrow> preference_row \<Rightarrow> tx_failure + notification_row" where
  "notification_for env i eventId r =
     and_then (map_error (\<lambda>_. Other_failure)
         (notificationDeliveryAt (sv_notifications env) (oi_occurredAt i) (np_settings (npr_preference r)))) (\<lambda>at_time.
       Inr \<lparr>ndr_accountId = oi_accountId i, ndr_preferenceId = npr_id r, ndr_eventId = eventId,
            ndr_channel = np_channel (npr_preference r),
            ndr_destinationReference = np_destinationReference (npr_preference r), ndr_nextAttemptAt = at_time,
            ndr_messageVersion = notification_message_version,
            ndr_retentionUntil = add_days (oi_occurredAt i) notification_delivery_retention_days\<rparr>)"

definition notification_key :: "notification_row \<Rightarrow> ident \<times> ident" where
  "notification_key n = (ndr_preferenceId n, ndr_eventId n)"

definition enqueueWebhookEvent :: "store_env \<Rightarrow> store \<Rightarrow> outbox_input \<Rightarrow> tx_failure + store" where
  "enqueueWebhookEvent env st i =
     (case parseWebhookPayload (sv_webhooks env) (oi_eventName i) (oi_payload i) of
        None \<Rightarrow> Inl Other_failure
      | Some payload \<Rightarrow>
          (let (event, st1) = upsert_outbox env st i payload;
               st2 = st1\<lparr>db_deliveries := foldl (insert_new delivery_key) (db_deliveries st1)
                 (map (delivery_for i (wer_id event)) (subscribed_endpoints st1 i))\<rparr>
           in and_then (map_res (notification_for env i (wer_id event)) (filter (notified st2 i payload) (db_preferences st2)))
                (\<lambda>rows. Inr (st2\<lparr>db_notifications := foldl (insert_new notification_key) (db_notifications st2) rows\<rparr>))))"

section \<open>What an enqueued event leaves alone\<close>

text \<open>The outbox writes to its own tables only.\<close>

definition core :: "store \<Rightarrow> store" where
  "core st = st\<lparr>db_outbox := [], db_deliveries := [], db_notifications := []\<rparr>"

lemma coreD:
  assumes "core st' = core st"
  shows "db_games st' = db_games st" "db_setups st' = db_setups st" "db_plays st' = db_plays st" "db_events st' = db_events st"
    "db_corrections st' = db_corrections st" "db_audits st' = db_audits st" "db_checkpoints st' = db_checkpoints st"
    "db_overlays st' = db_overlays st" "db_users st' = db_users st" "db_preferences st' = db_preferences st"
    "db_endpoints st' = db_endpoints st" "db_teams st' = db_teams st" "db_fantasyLeagues st' = db_fantasyLeagues st"
  using assms unfolding core_def by (cases st; cases st'; simp)+

lemma core_outbox [simp]: "core (st\<lparr>db_outbox := x\<rparr>) = core st" "core (st\<lparr>db_deliveries := y\<rparr>) = core st"
  "core (st\<lparr>db_notifications := z\<rparr>) = core st"
  by (simp_all add: core_def)

lemma upsert_core: "upsert_outbox env st i p = (e, st') \<Longrightarrow> core st' = core st"
  by (auto simp: upsert_outbox_def Let_def split: option.splits)

lemma enqueue_core: "enqueueWebhookEvent env st i = Inr st' \<Longrightarrow> core st' = core st"
  by (auto simp: enqueueWebhookEvent_def result_simps Let_def split: option.splits prod.splits dest!: upsert_core)

text \<open>The store keeps the event under its key, and one more enqueuing of the key adds none.\<close>

lemma upsert_event:
  "upsert_outbox env st i p = (e, st') \<Longrightarrow> find (\<lambda>e. wer_accountId e = oi_accountId i \<and> wer_deduplicationKey e = oi_deduplicationKey i)
     (db_outbox st') = Some e"
  by (auto simp: upsert_outbox_def Let_def new_outbox_event_def find_append split: option.splits)

text \<open>A preference that can never be scheduled makes the whole event fail.\<close>

lemma quiet_digest_blocks:
  assumes "r \<in> set (db_preferences st)" and "quiet_digest (np_settings (npr_preference r))"
    and "\<And>st2 payload. core st2 = core st \<Longrightarrow> parseWebhookPayload (sv_webhooks env) (oi_eventName i) (oi_payload i) = Some payload \<Longrightarrow>
      notified st2 i payload r"
  shows "\<exists>e. enqueueWebhookEvent env st i = Inl e"
proof (rule ccontr)
  assume "\<not> ?thesis"
  then obtain st' where "enqueueWebhookEvent env st i = Inr st'" by (cases "enqueueWebhookEvent env st i") auto
  then obtain payload e st1 st2 rows where p: "parseWebhookPayload (sv_webhooks env) (oi_eventName i) (oi_payload i) = Some payload"
    and u: "upsert_outbox env st i payload = (e, st1)"
    and st2: "st2 = st1\<lparr>db_deliveries := foldl (insert_new delivery_key) (db_deliveries st1)
      (map (delivery_for i (wer_id e)) (subscribed_endpoints st1 i))\<rparr>"
    and rows: "map_res (notification_for env i (wer_id e)) (filter (notified st2 i payload) (db_preferences st2)) = Inr rows"
    by (auto simp: enqueueWebhookEvent_def result_simps Let_def split: option.splits prod.splits)
  have core: "core st2 = core st" using upsert_core [OF u] st2 by simp
  have "r \<in> set (filter (notified st2 i payload) (db_preferences st2))"
    using assms(1) assms(3) [OF core p] coreD(10) [OF core] by simp
  from list_all2_forth [OF rows [unfolded map_res_Inr_iff] this] obtain n where "notification_for env i (wer_id e) r = Inr n"
    by blast
  with delivery_refused [OF assms(2)] show False by (metis notification_for_def and_then_simps(1) map_error_simps(1) Inl_Inr_False)
qed

end
