(* ===== verification/Event_Store.thy ===== *)
theory Event_Store
  imports Event_Outbox
begin

text \<open>
  Accepting an event (\<open>PrismaGameEventRepository.accept\<close> and \<open>acceptCorrection\<close> of
  \<open>src/server/data/game-event-repository.ts\<close>).  The body of the serializable transaction is a function from the store at its
  beginning to a failure or to the store it commits.  The database may abort the transaction with
  a serialization conflict; the argument \<open>abort\<close> is then the store that other transactions have left.
\<close>

section \<open>Commands\<close>

record validated_actor =
  va_accountId :: ident
  va_actorId :: ident
  va_actorKind :: actor_kind
  va_actorUserId :: "ident option"
  va_capability :: string
  va_scopeKind :: string
  va_scopeGameId :: ident
  va_authorizedAt :: string

record accept_command =
  acm_accountId :: ident
  acm_gameId :: ident
  acm_setupSnapshotId :: ident
  acm_expectedRevision :: int
  acm_eventId :: ident
  acm_playTransactionId :: ident
  acm_clientSubmissionId :: ident
  acm_recordedAt :: string
  acm_actor :: validated_actor
  acm_body :: raw_body

record accepted_result =
  are_event :: accepted_event
  are_idempotentReplay :: bool

record correction_context =
  cc_correlationId :: ident
  cc_membershipId :: "ident option"

definition actor_of :: "validated_actor \<Rightarrow> event_actor" where
  "actor_of a = \<lparr>ac_kind = va_actorKind a, ac_id = va_actorId a, ac_userId = va_actorUserId a\<rparr>"

fun is_verification :: "event_body \<Rightarrow> bool" where
  "is_verification GameVerified = True"
| "is_verification _ = False"

fun permittedCapability :: "event_body \<Rightarrow> string \<Rightarrow> bool" where
  "permittedCapability GameVerified c = (c = ''game.verify'' \<or> c = ''game.reverify'')"
| "permittedCapability (CorrectionApplied _) c = (c = ''game.correct'')"
| "permittedCapability (GameReopened _) c = (c = ''game.reopen'')"
| "permittedCapability GameStarted c = (c = ''game.start'')"
| "permittedCapability _ c = (c = ''game.score'')"

definition verificationImpact :: "accepted_event list \<Rightarrow> game_status \<Rightarrow> verification_impact" where
  "verificationImpact history statusBefore =
     (if statusBefore = IN_PROGRESS then IMPACT_UNCHANGED_UNVERIFIED
      else if list_ex (\<lambda>e. is_verification (ev_body e)) history then IMPACT_INVALIDATED_REQUIRES_REVERIFICATION
      else IMPACT_REQUIRES_VERIFICATION)"

text \<open>The checks before the transaction.\<close>

definition check_command_actor :: "accept_command \<Rightarrow> event_error + unit" where
  "check_command_actor c =
     (let a = acm_actor c in
      and_then (require (\<not> (va_accountId a \<noteq> acm_accountId c \<or> va_scopeKind a \<noteq> ''GAME'' \<or>
                 va_scopeGameId a \<noteq> acm_gameId c)) ACCOUNT_MISMATCH) (\<lambda>_.
        require (\<not> ((va_actorKind a = USER \<and> va_actorUserId a = None) \<or>
                 (va_actorKind a \<noteq> USER \<and> va_actorUserId a \<noteq> None))) INVALID_PAYLOAD))"

definition check_command :: "accept_command \<Rightarrow> event_error + (event_body \<times> int)" where
  "check_command c =
     and_then (check_command_actor c) (\<lambda>_.
     and_then (parseEventBody (acm_body c) event_schema_version) (\<lambda>body.
     and_then (require (permittedCapability body (va_capability (acm_actor c))) INVALID_LIFECYCLE_TRANSITION) (\<lambda>_.
       case (date_parse (acm_recordedAt c), date_parse (va_authorizedAt (acm_actor c))) of
         (Some recordedAt, Some _) \<Rightarrow> Inr (body, recordedAt)
       | _ \<Rightarrow> Inl INVALID_PAYLOAD)))"

section \<open>A submission that was accepted before\<close>

definition submission_of :: "accept_command \<Rightarrow> play_row \<Rightarrow> bool" where
  "submission_of c p \<longleftrightarrow> ptr_accountId p = acm_accountId c \<and> ptr_gameId p = acm_gameId c \<and>
     ac_id (ptr_actor p) = va_actorId (acm_actor c) \<and> ptr_clientSubmissionId p = acm_clientSubmissionId c"

definition prior_play :: "store \<Rightarrow> accept_command \<Rightarrow> play_row option" where
  "prior_play st c = find (submission_of c) (db_plays st)"

text \<open>The first of the events that belong to a play transaction.\<close>

definition event_of_play :: "play_row \<Rightarrow> event_row \<Rightarrow> bool" where
  "event_of_play p r \<longleftrightarrow> ser_accountId r = ptr_accountId p \<and> ser_gameId r = ptr_gameId p \<and>
     ser_setupSnapshotId r = ptr_setupSnapshotId p \<and> ser_playTransactionId r = Some (ptr_id p)"

definition prior_event :: "store \<Rightarrow> play_row \<Rightarrow> event_error + event_row" where
  "prior_event st p = (case find (event_of_play p) (db_events st) of
     None \<Rightarrow> Inl INTERNAL_INVARIANT_FAILURE | Some r \<Rightarrow> Inr r)"

definition correction_audit_of :: "ident \<Rightarrow> ident \<Rightarrow> audit_row \<Rightarrow> bool" where
  "correction_audit_of accountId eventId a \<longleftrightarrow> aur_accountId a = accountId \<and> aur_action a = ''game.correction.apply'' \<and>
     aur_targetType a = ''Correction'' \<and> aur_targetId a = eventId \<and> aur_outcome a = ''SUCCEEDED''"

definition check_prior_audit ::
    "store \<Rightarrow> accept_command \<Rightarrow> correction_context option \<Rightarrow> event_row \<Rightarrow> event_error + unit" where
  "check_prior_audit st c correction r =
     (case correction of
        None \<Rightarrow> Inr ()
      | Some x \<Rightarrow>
          (case find (correction_audit_of (acm_accountId c) (ser_id r)) (db_audits st) of
             None \<Rightarrow> Inl INTERNAL_INVARIANT_FAILURE
           | Some a \<Rightarrow> require (aur_correlationId a = Some (cc_correlationId x)) DUPLICATE_IDEMPOTENCY_KEY))"

definition repeated :: "accepted_event \<Rightarrow> accepted_result" where
  "repeated e = \<lparr>are_event = e, are_idempotentReplay = True\<rparr>"

definition replay_prior ::
    "store_env \<Rightarrow> store \<Rightarrow> accept_command \<Rightarrow> correction_context option \<Rightarrow> string \<Rightarrow> play_row \<Rightarrow> event_error + accepted_result" where
  "replay_prior env st c correction digest p =
     and_then (require (ptr_payloadHash p = digest) DUPLICATE_IDEMPOTENCY_KEY) (\<lambda>_.
     and_then (loadSetup env st (acm_accountId c) (acm_gameId c) (ptr_setupSnapshotId p)) (\<lambda>setup.
     and_then (prior_event st p) (\<lambda>r.
     and_then (check_prior_audit st c correction r) (\<lambda>_.
     and_then (mapSourceEvent env st (su_setupRevision setup) r) (\<lambda>e. Inr (repeated e))))))"

text \<open>The same after a conflict, when the transaction is over.\<close>

definition recover_prior ::
    "store_env \<Rightarrow> store \<Rightarrow> accept_command \<Rightarrow> correction_context option \<Rightarrow> string \<Rightarrow> play_row \<Rightarrow> event_error + accepted_result" where
  "recover_prior env st c correction digest p =
     and_then (require (ptr_payloadHash p = digest) DUPLICATE_IDEMPOTENCY_KEY) (\<lambda>_.
     and_then (prior_event st p) (\<lambda>r.
     and_then (check_prior_audit st c correction r) (\<lambda>_.
       case find (setup_row_named (acm_accountId c) (acm_gameId c) (ptr_setupSnapshotId p)) (db_setups st) of
         None \<Rightarrow> Inl INTERNAL_INVARIANT_FAILURE
       | Some s \<Rightarrow> and_then (mapSourceEvent env st (sur_setupRevision s) r) (\<lambda>e. Inr (repeated e)))))"

fun contains :: "string \<Rightarrow> string \<Rightarrow> bool" where
  "contains [] part = (part = [])"
| "contains (c # cs) part = (take (length part) (c # cs) = part \<or> contains cs part)"

text \<open>\<open>target\<close> is what the database reports for a violated constraint, or none for a serialization conflict.\<close>

definition recover ::
    "store_env \<Rightarrow> store \<Rightarrow> accept_command \<Rightarrow> correction_context option \<Rightarrow> string \<Rightarrow> string option
     \<Rightarrow> event_error + accepted_result" where
  "recover env st c correction digest target =
     (case prior_play st c of
        Some p \<Rightarrow> recover_prior env st c correction digest p
      | None \<Rightarrow>
          if target \<noteq> None \<and> contains (or_else target '''') ''id'' then Inl DUPLICATE_ACCEPTED_EVENT
          else Inl PERSISTENCE_CONFLICT)"

section \<open>Judging a new event\<close>

record prepared =
  pp_game :: game_row
  pp_setup :: accepted_setup
  pp_history :: "accepted_event list"
  pp_current :: game_state
  pp_acceptedAt :: int
  pp_event :: accepted_event
  pp_after :: game_state

definition game_named :: "ident \<Rightarrow> ident \<Rightarrow> game_row \<Rightarrow> bool" where
  "game_named accountId gameId g \<longleftrightarrow> gmr_accountId g = accountId \<and> gmr_id g = gameId"

definition load_game :: "store \<Rightarrow> accept_command \<Rightarrow> event_error + game_row" where
  "load_game st c =
     (case find (game_named (acm_accountId c) (acm_gameId c)) (db_games st) of
        None \<Rightarrow> Inl GAME_MISMATCH
      | Some g \<Rightarrow>
          and_then (require (gmr_revision g = acm_expectedRevision c) STALE_SOURCE_REVISION) (\<lambda>_.
          and_then (require (gmr_readySetupSnapshotId g = Some (acm_setupSnapshotId c)) SETUP_NOT_READY) (\<lambda>_. Inr g)))"

definition zero_hash :: string where
  "zero_hash = ''sha256:v1:'' @ replicate 64 (CHR ''0'')"

definition partial_event ::
    "accept_command \<Rightarrow> event_body \<Rightarrow> accepted_setup \<Rightarrow> game_state \<Rightarrow> int \<Rightarrow> string \<Rightarrow> accepted_event" where
  "partial_event c body setup current acceptedAt preStateHash =
     \<lparr>ev_id = acm_eventId c, ev_accountId = acm_accountId c, ev_gameId = acm_gameId c,
      ev_setupSnapshotId = acm_setupSnapshotId c, ev_setupRevision = su_setupRevision setup,
      ev_sequence = gs_lastSequence current + 1, ev_schemaVersion = event_schema_version,
      ev_rulesetVersionId = su_rulesetVersionId setup, ev_playTransactionId = Some (acm_playTransactionId c),
      ev_componentOrder = Some 0, ev_clientSubmissionId = acm_clientSubmissionId c,
      ev_expectedRevision = acm_expectedRevision c, ev_acceptedRevision = acm_expectedRevision c + 1,
      ev_actor = actor_of (acm_actor c), ev_recordedAt = acm_recordedAt c, ev_acceptedAt = iso_string acceptedAt,
      ev_body = body, ev_preStateHash = preStateHash, ev_postStateHash = zero_hash\<rparr>"

text \<open>\<open>now\<close> is the time of the transaction that the database reports.\<close>

definition prepare :: "store_env \<Rightarrow> store \<Rightarrow> accept_command \<Rightarrow> event_body \<Rightarrow> int option \<Rightarrow> event_error + prepared" where
  "prepare env st c body now =
     and_then (load_game st c) (\<lambda>game.
     and_then (loadSetup env st (acm_accountId c) (acm_gameId c) (acm_setupSnapshotId c)) (\<lambda>setup.
     and_then (require (su_setupRevision setup = gmr_setupRevision game) IMMUTABLE_HISTORY_VIOLATION) (\<lambda>_.
     and_then (map_res (mapSourceEvent env st (su_setupRevision setup))
       (stored_rows st (acm_accountId c) (acm_gameId c) (acm_setupSnapshotId c))) (\<lambda>history.
     and_then (replayGame (sv_stateHash env) True setup history) (\<lambda>(current, _).
     and_then (require (\<not> (is_verification body \<and> va_capability (acm_actor c) \<noteq>
        (if list_ex (\<lambda>e. is_verification (ev_body e)) history then ''game.reverify'' else ''game.verify'')))
        INVALID_LIFECYCLE_TRANSITION) (\<lambda>_.
     and_then (require (\<not> (gs_sourceRevision current \<noteq> gmr_revision game \<or> Some (gs_status current) \<noteq> gmr_status game))
        IMMUTABLE_HISTORY_VIOLATION) (\<lambda>_.
       case now of
         None \<Rightarrow> Inl INTERNAL_INVARIANT_FAILURE
       | Some acceptedAt \<Rightarrow>
           (let proposed = partial_event c body setup current acceptedAt (sv_stateHash env current) in
            and_then (deriveEventStates setup history proposed) (\<lambda>(before, after).
              Inr \<lparr>pp_game = game, pp_setup = setup, pp_history = history, pp_current = current, pp_acceptedAt = acceptedAt,
                   pp_event = proposed\<lparr>ev_preStateHash := sv_stateHash env before, ev_postStateHash := sv_stateHash env after\<rparr>,
                   pp_after = after\<rparr>)))))))))"

section \<open>Writing a new event\<close>

definition int4_max :: int where
  "int4_max = 2147483647"

definition advance_game :: "accept_command \<Rightarrow> game_status \<Rightarrow> store \<Rightarrow> tx_failure + store" where
  "advance_game c status st =
     (let matches = (\<lambda>g. game_named (acm_accountId c) (acm_gameId c) g \<and> gmr_revision g = acm_expectedRevision c) in
      and_then (require (acm_expectedRevision c + 1 \<le> int4_max) Other_failure) (\<lambda>_.
      and_then (require (length (filter matches (db_games st)) = 1) (Thrown STALE_SOURCE_REVISION)) (\<lambda>_.
        Inr (st\<lparr>db_games := map (\<lambda>g. if matches g
          then g\<lparr>gmr_revision := acm_expectedRevision c + 1, gmr_status := Some status\<rparr> else g) (db_games st)\<rparr>))))"

definition new_play :: "accept_command \<Rightarrow> string \<Rightarrow> prepared \<Rightarrow> play_row" where
  "new_play c digest p =
     \<lparr>ptr_id = acm_playTransactionId c, ptr_accountId = acm_accountId c, ptr_gameId = acm_gameId c,
      ptr_setupSnapshotId = acm_setupSnapshotId c, ptr_acceptedRevision = acm_expectedRevision c + 1,
      ptr_expectedRevision = acm_expectedRevision c, ptr_clientSubmissionId = acm_clientSubmissionId c,
      ptr_payloadHash = digest, ptr_preStateHash = ev_preStateHash (pp_event p), ptr_postStateHash = ev_postStateHash (pp_event p),
      ptr_actor = actor_of (acm_actor c), ptr_acceptedAt = pp_acceptedAt p\<rparr>"

definition play_conflict :: "play_row list \<Rightarrow> play_row \<Rightarrow> db_constraint option" where
  "play_conflict rows p =
     (if list_ex (\<lambda>r. ptr_id r = ptr_id p) rows then Some Play_id
      else if list_ex (\<lambda>r. ptr_gameId r = ptr_gameId p \<and> ptr_acceptedRevision r = ptr_acceptedRevision p) rows then Some Play_revision
      else if list_ex (\<lambda>r. ptr_accountId r = ptr_accountId p \<and> ptr_gameId r = ptr_gameId p \<and>
        ac_id (ptr_actor r) = ac_id (ptr_actor p) \<and> ptr_clientSubmissionId r = ptr_clientSubmissionId p) rows
      then Some Play_submission else None)"

text \<open>An actor's user must exist (foreign key).\<close>

definition known_user :: "store \<Rightarrow> event_actor \<Rightarrow> bool" where
  "known_user st a = (case ac_userId a of None \<Rightarrow> True | Some u \<Rightarrow> u \<in> set (db_users st))"

definition insert_play :: "play_row \<Rightarrow> store \<Rightarrow> tx_failure + store" where
  "insert_play p st =
     (case play_conflict (db_plays st) p of
        Some k \<Rightarrow> Inl (Violates k)
      | None \<Rightarrow> and_then (require (known_user st (ptr_actor p)) Other_failure) (\<lambda>_.
          Inr (st\<lparr>db_plays := db_plays st @ [p]\<rparr>)))"

definition new_event :: "accept_command \<Rightarrow> string \<Rightarrow> int \<Rightarrow> event_body \<Rightarrow> prepared \<Rightarrow> event_row" where
  "new_event c digest recordedAt body p =
     \<lparr>ser_id = acm_eventId c, ser_accountId = acm_accountId c, ser_gameId = acm_gameId c,
      ser_setupSnapshotId = acm_setupSnapshotId c, ser_playTransactionId = Some (acm_playTransactionId c),
      ser_sequence = ev_sequence (pp_event p), ser_componentOrder = Some 0, ser_schemaVersion = event_schema_version,
      ser_rulesetVersionId = su_rulesetVersionId (pp_setup p), ser_clientSubmissionId = acm_clientSubmissionId c,
      ser_expectedRevision = acm_expectedRevision c, ser_acceptedRevision = acm_expectedRevision c + 1,
      ser_payloadHash = digest, ser_body = Shaped body, ser_preStateHash = Some (ev_preStateHash (pp_event p)),
      ser_postStateHash = Some (ev_postStateHash (pp_event p)), ser_actor = actor_of (acm_actor c), ser_recordedAt = recordedAt\<rparr>"

definition event_conflict :: "event_row list \<Rightarrow> event_row \<Rightarrow> db_constraint option" where
  "event_conflict rows e =
     (if list_ex (\<lambda>r. ser_id r = ser_id e) rows then Some Event_id
      else if list_ex (\<lambda>r. ser_gameId r = ser_gameId e \<and> ser_sequence r = ser_sequence e) rows then Some Event_sequence
      else if list_ex (\<lambda>r. ser_playTransactionId r \<noteq> None \<and> ser_playTransactionId r = ser_playTransactionId e \<and>
        ser_componentOrder r \<noteq> None \<and> ser_componentOrder r = ser_componentOrder e) rows then Some Event_component
      else None)"

definition insert_event :: "event_row \<Rightarrow> store \<Rightarrow> tx_failure + store" where
  "insert_event e st =
     (case event_conflict (db_events st) e of
        Some k \<Rightarrow> Inl (Violates k)
      | None \<Rightarrow> Inr (st\<lparr>db_events := db_events st @ [e]\<rparr>))"

text \<open>Current projections of the game become stale.\<close>

definition stale_checkpoints :: "accept_command \<Rightarrow> store \<Rightarrow> store" where
  "stale_checkpoints c st = st\<lparr>db_checkpoints := map (\<lambda>k.
     if pcr_accountId k = acm_accountId c \<and> pcr_gameId k = Some (acm_gameId c) \<and> pcr_scope k = Scope_GAME \<and>
        pcr_status k = CURRENT_PROJECTION then k\<lparr>pcr_status := STALE\<rparr> else k) (db_checkpoints st)\<rparr>"

definition add_audit ::
    "store_env \<Rightarrow> accept_command \<Rightarrow> prepared \<Rightarrow> string \<Rightarrow> string \<Rightarrow> string \<Rightarrow> ident \<Rightarrow> string option \<Rightarrow> ident option
     \<Rightarrow> audit_details \<Rightarrow> store \<Rightarrow> store" where
  "add_audit env c p action capability targetType targetId reasonCode correlationId details st =
     st\<lparr>db_audits := db_audits st @ [\<lparr>aur_id = sv_newId env (length (db_audits st)), aur_accountId = acm_accountId c,
       aur_actor = actor_of (acm_actor c), aur_action = action, aur_capability = capability, aur_targetType = targetType,
       aur_targetId = targetId, aur_outcome = ''SUCCEEDED'', aur_reasonCode = reasonCode, aur_correlationId = correlationId,
       aur_revisions = (acm_expectedRevision c, acm_expectedRevision c + 1), aur_details = details,
       aur_createdAt = pp_acceptedAt p\<rparr>]\<rparr>"

definition audit_lifecycle :: "store_env \<Rightarrow> accept_command \<Rightarrow> event_body \<Rightarrow> prepared \<Rightarrow> store \<Rightarrow> store" where
  "audit_lifecycle env c body p st =
     (case body of
        GameReopened reason \<Rightarrow>
          add_audit env c p ''game.reopen'' (va_capability (acm_actor c)) ''Game'' (acm_gameId c) (Some reason) None
            (Verification_status ''INVALIDATED'') st
      | GameVerified \<Rightarrow>
          add_audit env c p (if va_capability (acm_actor c) = ''game.reverify'' then ''game.reverify'' else ''game.verify'')
            (va_capability (acm_actor c)) ''Game'' (acm_gameId c) None None (Verification_status ''VERIFIED'') st
      | _ \<Rightarrow> st)"

section \<open>Corrections and the outbox\<close>

definition correction_targets :: "store \<Rightarrow> accept_command \<Rightarrow> int \<Rightarrow> correction \<Rightarrow> event_row list" where
  "correction_targets st c sequence x = filter (\<lambda>r. ser_accountId r = acm_accountId c \<and> ser_gameId r = acm_gameId c \<and>
     ser_id r \<in> set (co_targetEventIds x) \<and> ser_sequence r < sequence) (db_events st)"

definition correction_row_for :: "accept_command \<Rightarrow> correction \<Rightarrow> ident \<Rightarrow> correction_row" where
  "correction_row_for c x target =
     \<lparr>ecr_accountId = acm_accountId c, ecr_gameId = acm_gameId c, ecr_correctionEventId = acm_eventId c,
      ecr_targetEventId = target, ecr_replacementEventId = None, ecr_replacementPayloadId = replacement_for x target,
      ecr_policy = co_policy x\<rparr>"

definition correction_key :: "correction_row \<Rightarrow> ident \<times> ident \<times> ident \<times> ident" where
  "correction_key r = (ecr_accountId r, ecr_gameId r, ecr_correctionEventId r, ecr_targetEventId r)"

definition insert_correction :: "store \<Rightarrow> correction_row \<Rightarrow> tx_failure + store" where
  "insert_correction st r =
     and_then (require (correction_key r \<notin> correction_key ` set (db_corrections st)) (Violates Correction_pair)) (\<lambda>_.
       Inr (st\<lparr>db_corrections := db_corrections st @ [r]\<rparr>))"

definition privacy_revision :: "store \<Rightarrow> ident \<Rightarrow> int" where
  "privacy_revision st accountId =
     (case map snd (filter (\<lambda>v. fst v = accountId) (db_overlays st)) of [] \<Rightarrow> 0 | n # ns \<Rightarrow> fold max ns n)"

definition checkpoint_named :: "accept_command \<Rightarrow> int \<Rightarrow> checkpoint_row \<Rightarrow> bool" where
  "checkpoint_named c privacy k \<longleftrightarrow> pcr_accountId k = acm_accountId c \<and> pcr_gameId k = Some (acm_gameId c) \<and>
     pcr_sourceRevision k = acm_expectedRevision c + 1 \<and> pcr_privacyOverlayRevision k = privacy \<and>
     pcr_derivationVersion k = statistic_derivation_version"

definition current_checkpoint :: "accept_command \<Rightarrow> int \<Rightarrow> store \<Rightarrow> store" where
  "current_checkpoint c privacy st =
     st\<lparr>db_checkpoints :=
       (if list_ex (checkpoint_named c privacy) (db_checkpoints st)
        then map (\<lambda>k. if checkpoint_named c privacy k then k\<lparr>pcr_scope := Scope_GAME, pcr_seasonId := None,
               pcr_status := CURRENT_PROJECTION, pcr_failureCode := None\<rparr> else k) (db_checkpoints st)
        else db_checkpoints st @ [\<lparr>pcr_accountId = acm_accountId c, pcr_scope = Scope_GAME, pcr_gameId = Some (acm_gameId c),
               pcr_seasonId = None, pcr_sourceRevision = acm_expectedRevision c + 1, pcr_privacyOverlayRevision = privacy,
               pcr_derivationVersion = statistic_derivation_version, pcr_status = CURRENT_PROJECTION,
               pcr_failureCode = None\<rparr>])\<rparr>"

definition correction_evidence_of :: "accept_command \<Rightarrow> correction \<Rightarrow> prepared \<Rightarrow> correction_context \<Rightarrow> correction_evidence" where
  "correction_evidence_of c x p ctx =
     \<lparr>ce_gameId = acm_gameId c, ce_membershipId = cc_membershipId ctx, ce_targetEventIds = co_targetEventIds x,
      ce_correctionPolicy = co_policy x, ce_verificationImpact = verificationImpact (pp_history p) (gs_status (pp_current p)),
      ce_rulesetVersionId = su_rulesetVersionId (pp_setup p), ce_reducerVersion = reducer_version,
      ce_statisticDerivationVersion = statistic_derivation_version, ce_statisticRulesVersion = statistic_rules_version,
      ce_projectionFreshness = ''CURRENT'', ce_generatedAt = iso_string (pp_acceptedAt p)\<rparr>"

definition project_correction ::
    "store_env \<Rightarrow> accept_command \<Rightarrow> correction \<Rightarrow> prepared \<Rightarrow> correction_context \<Rightarrow> store \<Rightarrow> tx_failure + store" where
  "project_correction env c x p ctx st =
     (let privacy = privacy_revision st (acm_accountId c) in
      and_then (map_error (\<lambda>_. Other_failure)
          (deriveGameStatistics (pp_setup p) (pp_history p @ [pp_event p]) (Some privacy) None)) (\<lambda>projection.
      and_then (require (\<not> (sm_sourceRevision (gp_metadata projection) \<noteq> acm_expectedRevision c + 1 \<or>
          sm_lifecycleStatus (gp_metadata projection) \<noteq> gs_status (pp_after p))) (Thrown INTERNAL_INVARIANT_FAILURE)) (\<lambda>_.
        Inr (add_audit env c p ''game.correction.apply'' ''game.correct'' ''Correction'' (acm_eventId c)
          (Some (co_reasonCode x)) (Some (cc_correlationId ctx)) (Correction_evidence (correction_evidence_of c x p ctx))
          (current_checkpoint c privacy st)))))"

definition record_correction ::
    "store_env \<Rightarrow> accept_command \<Rightarrow> event_body \<Rightarrow> prepared \<Rightarrow> correction_context option \<Rightarrow> store \<Rightarrow> tx_failure + store" where
  "record_correction env c body p correction st =
     (case body of
        CorrectionApplied x \<Rightarrow>
          and_then (require (length (correction_targets st c (ev_sequence (pp_event p)) x) = length (co_targetEventIds x))
            (Thrown CORRECTION_TARGET_MISSING)) (\<lambda>_.
          and_then (fold_res insert_correction st (map (correction_row_for c x) (co_targetEventIds x))) (\<lambda>st'.
            case correction of
              None \<Rightarrow> Inr st'
            | Some ctx \<Rightarrow> project_correction env c x p ctx st'))
      | _ \<Rightarrow> Inr st)"

definition outbox_game_payload ::
    "accept_command \<Rightarrow> prepared \<Rightarrow> string option \<Rightarrow> string option \<Rightarrow> string option \<Rightarrow> webhook_payload" where
  "outbox_game_payload c p completion verification correction = Game_payload
     \<lparr>wg_gameId = gmr_externalId (pp_game p), wg_seasonId = gmr_seasonExternalId (pp_game p),
      wg_teamId = gmr_teamExternalId (pp_game p), wg_sourceRevision = acm_expectedRevision c + 1,
      wg_completionState = completion, wg_verificationState = verification, wg_correctionState = correction\<rparr>"

definition outbox_season_payload :: "accept_command \<Rightarrow> prepared \<Rightarrow> string \<Rightarrow> webhook_payload" where
  "outbox_season_payload c p reason = Season_payload
     \<lparr>ws_seasonId = gmr_seasonExternalId (pp_game p), ws_teamId = gmr_teamExternalId (pp_game p),
      ws_sourceGameId = gmr_externalId (pp_game p), ws_sourceRevision = acm_expectedRevision c + 1, ws_reason = reason\<rparr>"

definition outbox_report_payload :: "accept_command \<Rightarrow> prepared \<Rightarrow> int \<Rightarrow> webhook_payload" where
  "outbox_report_payload c p privacy = Report_payload
     \<lparr>wr_scope = ''GAME'', wr_targetId = gmr_externalId (pp_game p), wr_sourceRevision = acm_expectedRevision c + 1,
      wr_derivationVersion = statistic_derivation_version, wr_privacyOverlayRevision = privacy, wr_freshness = ''CURRENT''\<rparr>"

definition outbox_input_for :: "accept_command \<Rightarrow> prepared \<Rightarrow> webhook_event \<Rightarrow> string \<Rightarrow> webhook_payload \<Rightarrow> outbox_input" where
  "outbox_input_for c p name prefix payload =
     \<lparr>oi_accountId = acm_accountId c, oi_eventName = name, oi_deduplicationKey = prefix @ '':'' @ acm_eventId c,
      oi_payload = payload, oi_occurredAt = pp_acceptedAt p\<rparr>"

text \<open>The events for other systems, in the order in which they are enqueued.\<close>

definition outbox_inputs ::
    "store \<Rightarrow> accept_command \<Rightarrow> event_body \<Rightarrow> prepared \<Rightarrow> correction_context option \<Rightarrow> outbox_input list" where
  "outbox_inputs st c body p correction =
     (case body of
        GameCompleted _ _ \<Rightarrow>
          [outbox_input_for c p GAME_COMPLETED ''game.completed'' (outbox_game_payload c p (Some ''COMPLETED'') None None)]
      | GameVerified \<Rightarrow>
          [outbox_input_for c p GAME_VERIFIED ''game.verified'' (outbox_game_payload c p None (Some ''VERIFIED'') None),
           outbox_input_for c p SEASON_REPORT_UPDATED ''season.report.updated'' (outbox_season_payload c p ''GAME_VERIFIED'')]
      | CorrectionApplied _ \<Rightarrow>
          [outbox_input_for c p GAME_CORRECTED ''game.corrected''
             (outbox_game_payload c p None (Some ''UNVERIFIED'') (Some ''CORRECTED'')),
           outbox_input_for c p SEASON_REPORT_UPDATED ''season.report.updated'' (outbox_season_payload c p ''GAME_CORRECTED'')] @
          (if correction = None then []
           else [outbox_input_for c p REPORT_READY ''report.ready:correction''
                   (outbox_report_payload c p (privacy_revision st (acm_accountId c)))])
      | _ \<Rightarrow> [])"

definition write_event ::
    "store_env \<Rightarrow> store \<Rightarrow> accept_command \<Rightarrow> string \<Rightarrow> int \<Rightarrow> event_body \<Rightarrow> prepared \<Rightarrow> correction_context option
     \<Rightarrow> tx_failure + store" where
  "write_event env st c digest recordedAt body p correction =
     and_then (advance_game c (gs_status (pp_after p)) st) (\<lambda>st1.
     and_then (insert_play (new_play c digest p) st1) (\<lambda>st2.
     and_then (insert_event (new_event c digest recordedAt body p) st2) (\<lambda>st3.
     and_then (record_correction env c body p correction (audit_lifecycle env c body p (stale_checkpoints c st3))) (\<lambda>st4.
       fold_res (enqueueWebhookEvent env) st4 (outbox_inputs st4 c body p correction)))))"

section \<open>The transaction and its recovery\<close>

definition transaction ::
    "store_env \<Rightarrow> store \<Rightarrow> accept_command \<Rightarrow> event_body \<Rightarrow> int \<Rightarrow> string \<Rightarrow> correction_context option \<Rightarrow> int option
     \<Rightarrow> tx_failure + (accepted_result \<times> store)" where
  "transaction env st c body recordedAt digest correction now =
     (case prior_play st c of
        Some p \<Rightarrow> and_then (map_error Thrown (replay_prior env st c correction digest p)) (\<lambda>r. Inr (r, st))
      | None \<Rightarrow>
          and_then (map_error Thrown (prepare env st c body now)) (\<lambda>p.
          and_then (write_event env st c digest recordedAt body p correction) (\<lambda>st'.
            Inr (\<lparr>are_event = pp_event p, are_idempotentReplay = False\<rparr>, st'))))"

definition acceptInternal ::
    "store_env \<Rightarrow> store option \<Rightarrow> store \<Rightarrow> accept_command \<Rightarrow> correction_context option \<Rightarrow> int option
     \<Rightarrow> (event_error + accepted_result) \<times> store" where
  "acceptInternal env abort st c correction now =
     (case check_command c of
        Inl e \<Rightarrow> (Inl e, st)
      | Inr (body, recordedAt) \<Rightarrow>
          (let digest = sv_digest env (acm_setupSnapshotId c) (acm_expectedRevision c) body in
           case abort of
             Some st' \<Rightarrow> (recover env st' c correction digest None, st')
           | None \<Rightarrow>
               (case transaction env st c body recordedAt digest correction now of
                  Inr (r, st') \<Rightarrow> (Inr r, st')
                | Inl (Thrown e) \<Rightarrow> (Inl (if e = JS_TYPE_ERROR then PERSISTENCE_CONFLICT else e), st)
                | Inl (Violates k) \<Rightarrow> (recover env st c correction digest (Some (sv_conflictTarget env k)), st)
                | Inl Other_failure \<Rightarrow> (Inl PERSISTENCE_CONFLICT, st))))"

definition accept ::
    "store_env \<Rightarrow> store option \<Rightarrow> store \<Rightarrow> accept_command \<Rightarrow> int option \<Rightarrow> (event_error + accepted_result) \<times> store" where
  "accept env abort st c now = acceptInternal env abort st c None now"

end
