(* ===== verification/Correction_Store.thy ===== *)
theory Correction_Store
  imports Event_Store
begin

text \<open>
  Corrections of stored games: the commands and actors of
  \<open>src/domain/corrections/correction-audit-replay.ts\<close>, and \<open>acceptCorrection\<close> with the report it loads
  (\<open>src/server/data/game-event-repository.ts\<close>).  Raw input is its shape or \<open>None\<close>; the issues that a failed
  parse lists are not modelled.
\<close>

section \<open>Commands and actors\<close>

datatype workflow_error = WF_INVALID_INPUT | WF_AUTHORIZATION_REQUIRED | WF_ACCOUNT_MISMATCH | WF_NOT_FOUND_OR_INACCESSIBLE
  | WF_STALE_SOURCE_REVISION | WF_LIFECYCLE_CONFLICT | WF_INVALID_CORRECTION | WF_DUPLICATE_SUBMISSION
  | WF_PERSISTENCE_CONFLICT | WF_INTERNAL_INVARIANT_FAILURE

record correction_actor =
  ca_accountId :: ident
  ca_actorId :: ident
  ca_actorKind :: actor_kind
  ca_actorUserId :: "ident option"
  ca_membershipId :: "ident option"
  ca_capability :: string
  ca_scopeKind :: string
  ca_scopeGameId :: ident
  ca_authorizedAt :: string

record correction_command =
  cmd_action :: string
  cmd_accountId :: ident
  cmd_gameId :: ident
  cmd_setupSnapshotId :: ident
  cmd_expectedSourceRevision :: int
  cmd_eventId :: ident
  cmd_playTransactionId :: ident
  cmd_idempotencyKey :: ident
  cmd_correlationId :: ident
  cmd_recordedAt :: string
  cmd_correction :: correction

definition trim_correction_actor :: "correction_actor \<Rightarrow> correction_actor" where
  "trim_correction_actor a = a\<lparr>ca_accountId := trim (ca_accountId a), ca_actorId := trim (ca_actorId a),
     ca_actorUserId := map_option trim (ca_actorUserId a), ca_membershipId := map_option trim (ca_membershipId a),
     ca_scopeGameId := trim (ca_scopeGameId a)\<rparr>"

definition opt_schema_id :: "ident option \<Rightarrow> bool" where
  "opt_schema_id x = (case x of None \<Rightarrow> True | Some s \<Rightarrow> schema_id s)"

definition correction_actor_ok :: "(string \<Rightarrow> bool) \<Rightarrow> correction_actor \<Rightarrow> bool" where
  "correction_actor_ok iso_datetime a \<longleftrightarrow>
     schema_id (ca_accountId a) \<and> schema_id (ca_actorId a) \<and> opt_schema_id (ca_actorUserId a) \<and>
     opt_schema_id (ca_membershipId a) \<and> ca_capability a = ''game.correct'' \<and> ca_scopeKind a = ''GAME'' \<and>
     schema_id (ca_scopeGameId a) \<and> iso_datetime (ca_authorizedAt a) \<and>
     \<not> ((ca_actorKind a = USER \<and> (ca_actorUserId a = None \<or> ca_membershipId a = None)) \<or>
       (ca_actorKind a \<noteq> USER \<and> (ca_actorUserId a \<noteq> None \<or> ca_membershipId a \<noteq> None)))"

definition requireCorrectionActor ::
    "(string \<Rightarrow> bool) \<Rightarrow> correction_actor option \<Rightarrow> ident \<Rightarrow> ident \<Rightarrow> workflow_error + correction_actor" where
  "requireCorrectionActor iso_datetime raw accountId gameId =
     (case raw of
        None \<Rightarrow> Inl WF_AUTHORIZATION_REQUIRED
      | Some r \<Rightarrow>
          (let a = trim_correction_actor r in
           and_then (require (correction_actor_ok iso_datetime a) WF_AUTHORIZATION_REQUIRED) (\<lambda>_.
           and_then (require (ca_accountId a = accountId) WF_ACCOUNT_MISMATCH) (\<lambda>_.
           and_then (require (ca_scopeGameId a = gameId) WF_AUTHORIZATION_REQUIRED) (\<lambda>_. Inr a)))))"

definition trim_correction_command :: "correction_command \<Rightarrow> correction_command" where
  "trim_correction_command c = c\<lparr>cmd_accountId := trim (cmd_accountId c), cmd_gameId := trim (cmd_gameId c),
     cmd_setupSnapshotId := trim (cmd_setupSnapshotId c), cmd_eventId := trim (cmd_eventId c),
     cmd_playTransactionId := trim (cmd_playTransactionId c), cmd_idempotencyKey := trim (cmd_idempotencyKey c),
     cmd_correlationId := trim (cmd_correlationId c), cmd_correction := trim_correction (cmd_correction c)\<rparr>"

definition correction_command_ok :: "(string \<Rightarrow> bool) \<Rightarrow> correction_command \<Rightarrow> bool" where
  "correction_command_ok iso_datetime c \<longleftrightarrow>
     cmd_action c = ''APPLY_CORRECTION'' \<and> schema_id (cmd_accountId c) \<and> schema_id (cmd_gameId c) \<and>
     schema_id (cmd_setupSnapshotId c) \<and> nonnegative_int (cmd_expectedSourceRevision c) \<and> schema_id (cmd_eventId c) \<and>
     schema_id (cmd_playTransactionId c) \<and> schema_id (cmd_idempotencyKey c) \<and> schema_id (cmd_correlationId c) \<and>
     iso_datetime (cmd_recordedAt c) \<and> correction_ok (cmd_correction c)"

definition parseCorrectionCommand ::
    "(string \<Rightarrow> bool) \<Rightarrow> correction_command option \<Rightarrow> workflow_error + correction_command" where
  "parseCorrectionCommand iso_datetime raw =
     (case raw of
        None \<Rightarrow> Inl WF_INVALID_INPUT
      | Some r \<Rightarrow> (let c = trim_correction_command r in
          and_then (require (correction_command_ok iso_datetime c) WF_INVALID_INPUT) (\<lambda>_. Inr c)))"

definition correctionBody :: "correction_command \<Rightarrow> event_body" where
  "correctionBody c = CorrectionApplied (cmd_correction c)"

section \<open>The report of a correction\<close>

record safe_audit =
  sa_id :: ident
  sa_accountId :: ident
  sa_actor :: event_actor
  sa_membershipId :: "ident option"
  sa_correctionEventId :: ident
  sa_gameId :: ident
  sa_targetEventIds :: "ident list"
  sa_reasonCode :: string
  sa_occurredAt :: string
  sa_correlationId :: ident
  sa_sourceRevision :: "int \<times> int"
  sa_verificationImpact :: verification_impact

record batting_summary =
  bs_playerId :: ident
  bs_plateAppearances :: int
  bs_hits :: int
  bs_walks :: int

record pitching_summary =
  ps_playerId :: ident
  ps_battersFaced :: int
  ps_hitsAllowed :: int
  ps_walks :: int

record report_version =
  rv_sourceRevision :: int
  rv_correctionRevision :: int
  rv_setupRevision :: int
  rv_eventSchemaVersion :: int
  rv_reducerVersion :: int
  rv_statisticDerivationVersion :: int
  rv_statisticRulesVersion :: int
  rv_rulesetVersionId :: ident
  rv_verified :: bool
  rv_generatedAt :: string

record correction_result =
  cr_correction :: accepted_event
  cr_idempotentReplay :: bool
  cr_lifecycleStatus :: game_status
  cr_score :: "game_side \<Rightarrow> int"
  cr_effectiveEventCount :: nat
  cr_finalScore :: "game_side \<Rightarrow> int"
  cr_batting :: "batting_summary list"
  cr_pitching :: "pitching_summary list"
  cr_version :: report_version
  cr_audit :: safe_audit
  cr_auditHistory :: "safe_audit list"

text \<open>The membership that the metadata of an audit record names.\<close>

definition audit_membership :: "audit_row \<Rightarrow> ident option" where
  "audit_membership r = (case aur_details r of Correction_evidence e \<Rightarrow> ce_membershipId e | _ \<Rightarrow> None)"

definition event_named :: "accepted_event list \<Rightarrow> ident \<Rightarrow> accepted_event option" where
  "event_named events i = find (\<lambda>e. ev_id e = i) events"

definition correction_in :: "event_error \<Rightarrow> accepted_event list \<Rightarrow> ident \<Rightarrow> event_error + accepted_event" where
  "correction_in err events i =
     (case event_named events i of
        None \<Rightarrow> Inl err
      | Some e \<Rightarrow> if is_correction (ev_body e) then Inr e else Inl err)"

definition correction_body_of :: "accepted_event \<Rightarrow> event_error + correction" where
  "correction_body_of e =
     and_then (parseEventBody (Shaped (ev_body e)) (ev_schemaVersion e)) (\<lambda>body.
       case body of CorrectionApplied c \<Rightarrow> Inr c | _ \<Rightarrow> Inl IMMUTABLE_HISTORY_VIOLATION)"

definition attribution_ok :: "audit_row \<Rightarrow> accepted_event \<Rightarrow> bool" where
  "attribution_ok r e \<longleftrightarrow> \<not> (aur_correlationId r = None \<or> ac_kind (aur_actor r) \<noteq> ac_kind (ev_actor e) \<or>
     ac_id (aur_actor r) \<noteq> ac_id (ev_actor e) \<or> ac_userId (aur_actor r) \<noteq> ac_userId (ev_actor e) \<or>
     (ac_kind (aur_actor r) = USER \<and> audit_membership r = None))"

definition safeAudit ::
    "store_env \<Rightarrow> accepted_setup \<Rightarrow> accepted_event list \<Rightarrow> ident \<Rightarrow> ident \<Rightarrow> audit_row \<Rightarrow> event_error + safe_audit" where
  "safeAudit env setup events accountId gameId r =
     and_then (correction_in IMMUTABLE_HISTORY_VIOLATION events (aur_targetId r)) (\<lambda>e.
     and_then (correction_body_of e) (\<lambda>c.
     (let beforeHistory = filter (\<lambda>x. ev_sequence x < ev_sequence e) events in
      and_then (replayGame (sv_stateHash env) True setup beforeHistory) (\<lambda>(before, _).
      and_then (require (attribution_ok r e) IMMUTABLE_HISTORY_VIOLATION) (\<lambda>_.
        Inr \<lparr>sa_id = aur_id r, sa_accountId = accountId, sa_actor = aur_actor r, sa_membershipId = audit_membership r,
             sa_correctionEventId = ev_id e, sa_gameId = gameId, sa_targetEventIds = co_targetEventIds c,
             sa_reasonCode = co_reasonCode c, sa_occurredAt = iso_string (aur_createdAt r),
             sa_correlationId = or_else (aur_correlationId r) '''',
             sa_sourceRevision = (ev_expectedRevision e, ev_acceptedRevision e),
             sa_verificationImpact = verificationImpact beforeHistory (gs_status before)\<rparr>)))))"

definition checkpoint_current :: "ident \<Rightarrow> ident \<Rightarrow> int \<Rightarrow> int \<Rightarrow> checkpoint_row \<Rightarrow> bool" where
  "checkpoint_current accountId gameId revision privacy k \<longleftrightarrow>
     pcr_accountId k = accountId \<and> pcr_gameId k = Some gameId \<and> pcr_seasonId k = None \<and> pcr_scope k = Scope_GAME \<and>
     pcr_sourceRevision k = revision \<and> pcr_privacyOverlayRevision k = privacy \<and>
     pcr_derivationVersion k = statistic_derivation_version \<and> pcr_status k = CURRENT_PROJECTION"

definition correction_audits :: "store_env \<Rightarrow> store \<Rightarrow> ident \<Rightarrow> accepted_event list \<Rightarrow> audit_row list" where
  "correction_audits env st accountId events =
     (let ids = map ev_id (filter (\<lambda>e. is_correction (ev_body e)) events) in
      sort_key aur_createdAt (sort_key (\<lambda>r. sv_collation env (aur_id r))
        (filter (\<lambda>r. aur_targetId r \<in> set ids \<and> correction_audit_of accountId (aur_targetId r) r) (db_audits st))))"

definition batting_summary_of :: "batting_line \<Rightarrow> batting_summary" where
  "batting_summary_of l = \<lparr>bs_playerId = pl_playerId l, bs_plateAppearances = pl_counters l B_plateAppearances,
     bs_hits = pl_counters l B_hits, bs_walks = pl_counters l B_walks\<rparr>"

definition pitching_summary_of :: "pitching_line \<Rightarrow> pitching_summary" where
  "pitching_summary_of l = \<lparr>ps_playerId = pl_playerId l, ps_battersFaced = pl_counters l P_battersFaced,
     ps_hitsAllowed = pl_counters l P_hitsAllowed, ps_walks = pl_counters l P_walks\<rparr>"

definition result_of_correction ::
    "accepted_setup \<Rightarrow> accepted_event \<Rightarrow> game_row \<Rightarrow> bool \<Rightarrow> game_state \<Rightarrow> replay_metadata \<Rightarrow> game_projection \<Rightarrow> safe_audit
     \<Rightarrow> safe_audit list \<Rightarrow> correction_result" where
  "result_of_correction setup correction game idempotentReplay s metadata statistics audit history =
     \<lparr>cr_correction = correction, cr_idempotentReplay = idempotentReplay, cr_lifecycleStatus = gs_status s,
      cr_score = gs_score s, cr_effectiveEventCount = rm_effectiveEventCount metadata,
      cr_finalScore = gp_finalScore statistics, cr_batting = map batting_summary_of (gp_batting statistics),
      cr_pitching = map pitching_summary_of (gp_pitching statistics),
      cr_version = \<lparr>rv_sourceRevision = gmr_revision game, rv_correctionRevision = ev_acceptedRevision correction,
        rv_setupRevision = su_setupRevision setup, rv_eventSchemaVersion = ev_schemaVersion correction,
        rv_reducerVersion = reducer_version, rv_statisticDerivationVersion = statistic_derivation_version,
        rv_statisticRulesVersion = statistic_rules_version, rv_rulesetVersionId = su_rulesetVersionId setup,
        rv_verified = (gs_status s = VERIFIED), rv_generatedAt = ev_acceptedAt correction\<rparr>,
      cr_audit = audit, cr_auditHistory = history\<rparr>"

text \<open>An error that is not one of the game, such as that of a derivation, passes through: \<open>None\<close>.\<close>

definition loadCorrectionResult ::
    "store_env \<Rightarrow> store \<Rightarrow> ident \<Rightarrow> ident \<Rightarrow> ident \<Rightarrow> ident \<Rightarrow> ident \<Rightarrow> bool \<Rightarrow> event_error option + correction_result" where
  "loadCorrectionResult env st accountId gameId setupSnapshotId correctionEventId correlationId idempotentReplay =
     and_then (map_error Some (loadAcceptedHistory env st accountId gameId setupSnapshotId)) (\<lambda>h.
     and_then (map_error Some (correction_in CORRECTION_TARGET_MISSING (gh_events h) correctionEventId)) (\<lambda>correction.
     and_then (map_error Some (correction_body_of correction)) (\<lambda>_.
     (case find (game_named accountId gameId) (db_games st) of
        None \<Rightarrow> Inl (Some STALE_SOURCE_REVISION)
      | Some game \<Rightarrow>
          and_then (require (gmr_revision game = ev_acceptedRevision correction) (Some STALE_SOURCE_REVISION)) (\<lambda>_.
          (let privacy = privacy_revision st accountId;
               audits = correction_audits env st accountId (gh_events h) in
           case (find (checkpoint_current accountId gameId (gmr_revision game) privacy) (db_checkpoints st),
                 find (\<lambda>r. aur_targetId r = correctionEventId \<and> aur_correlationId r = Some correlationId) audits) of
             (Some _, Some audit) \<Rightarrow>
               and_then (map_error Some (replayGame (sv_stateHash env) True (gh_setup h) (gh_events h))) (\<lambda>(s, metadata).
               and_then (map_error (\<lambda>_. None) (deriveGameStatistics (gh_setup h) (gh_events h) (Some privacy) None)) (\<lambda>statistics.
               and_then (require (\<not> (gs_sourceRevision s \<noteq> gmr_revision game \<or> Some (gs_status s) \<noteq> gmr_status game \<or>
                   sm_sourceRevision (gp_metadata statistics) \<noteq> gmr_revision game)) (Some IMMUTABLE_HISTORY_VIOLATION)) (\<lambda>_.
               and_then (map_error Some (map_res (safeAudit env (gh_setup h) (gh_events h) accountId gameId) audits)) (\<lambda>history.
               and_then (map_error Some (safeAudit env (gh_setup h) (gh_events h) accountId gameId audit)) (\<lambda>own.
                 Inr (result_of_correction (gh_setup h) correction game idempotentReplay s metadata statistics own history))))))
           | _ \<Rightarrow> Inl (Some INTERNAL_INVARIANT_FAILURE)))))))"

definition correction_boundary :: "accept_command \<Rightarrow> correction_actor \<Rightarrow> bool" where
  "correction_boundary c a \<longleftrightarrow>
     (case acm_body c of Shaped b \<Rightarrow> is_correction b | _ \<Rightarrow> False) \<and>
     ca_accountId a = acm_accountId c \<and> ca_actorId a = va_actorId (acm_actor c) \<and> ca_actorKind a = va_actorKind (acm_actor c) \<and>
     ca_actorUserId a = va_actorUserId (acm_actor c) \<and> ca_scopeGameId a = acm_gameId c \<and> ca_capability a = ''game.correct''"

definition acceptCorrection ::
    "store_env \<Rightarrow> store option \<Rightarrow> store \<Rightarrow> accept_command \<Rightarrow> correction_context \<Rightarrow> correction_actor \<Rightarrow> int option
     \<Rightarrow> (event_error option + correction_result) \<times> store" where
  "acceptCorrection env abort st c ctx actor now =
     (if \<not> correction_boundary c actor then (Inl (Some ACCOUNT_MISMATCH), st)
      else (case acceptInternal env abort st c (Some ctx) now of
          (Inl e, st') \<Rightarrow> (Inl (Some e), st')
        | (Inr r, st') \<Rightarrow>
            (loadCorrectionResult env st' (acm_accountId c) (acm_gameId c) (acm_setupSnapshotId c) (ev_id (are_event r))
               (cc_correlationId ctx) (are_idempotentReplay r), st')))"

end
