(* ===== verification/Store_Replay.thy ===== *)
theory Store_Replay
  imports Correction_Store
begin

text \<open>
  Replay and statistics do not read the evidence of an event, so that the event a transaction proposes, the
  event it returns and the event loaded from its row replay alike; and a history that passes
  verification still does once the event derived from it is appended.
\<close>

section \<open>Evidence is not replayed\<close>

definition bare :: "accepted_event \<Rightarrow> accepted_event" where
  "bare e = e\<lparr>ev_recordedAt := '''', ev_preStateHash := '''', ev_postStateHash := ''''\<rparr>"

lemma bare_fields [simp]:
  "ev_id (bare e) = ev_id e" "ev_accountId (bare e) = ev_accountId e" "ev_gameId (bare e) = ev_gameId e"
  "ev_setupSnapshotId (bare e) = ev_setupSnapshotId e" "ev_setupRevision (bare e) = ev_setupRevision e"
  "ev_sequence (bare e) = ev_sequence e" "ev_schemaVersion (bare e) = ev_schemaVersion e"
  "ev_rulesetVersionId (bare e) = ev_rulesetVersionId e" "ev_expectedRevision (bare e) = ev_expectedRevision e"
  "ev_acceptedRevision (bare e) = ev_acceptedRevision e" "ev_body (bare e) = ev_body e"
  by (simp_all add: bare_def)

lemma sort_key_map: "sort_key k (map f xs) = map f (sort_key (\<lambda>x. k (f x)) xs)"
proof (induction xs)
  case (Cons a xs)
  have "insort_key k (f a) (map f ys) = map f (insort_key (\<lambda>x. k (f x)) a ys)" for ys
    by (induction ys) auto
  with Cons show ?case by simp
qed simp

lemma by_sequence_bare: "by_sequence (map bare es) = map bare (by_sequence es)"
  by (simp add: by_sequence_def sort_key_map)

lemma by_id_bare: "by_id (map bare es) i = map_option bare (by_id es i)"
  by (induction es) (simp_all add: by_id_def)

lemma claim_target_bare: "claim_target (map bare es) (bare e) policy r i = claim_target es e policy r i"
  by (simp add: claim_target_def by_id_bare split: option.split)

lemma place_replacements_bare: "place_replacements (map bare es) (bare e) c r = place_replacements es e c r"
proof -
  have "List.map_filter (by_id (map bare es)) is = map bare (List.map_filter (by_id es) is)" for "is"
    by (induction "is") (simp_all add: by_id_bare split: option.split)
  then have s: "sort_key ev_sequence (List.map_filter (by_id (map bare es)) is) =
      map bare (sort_key ev_sequence (List.map_filter (by_id es) is))" for "is"
    by (simp add: sort_key_map)
  have i: "claim_replacement_id (map bare es) = claim_replacement_id es"
    by (intro ext) (simp add: claim_replacement_id_def by_id_bare)
  show ?thesis by (simp add: place_replacements_def s i split: list.split)
qed

lemma resolve_event_bare: "resolve_event (map bare es) r (bare e) = resolve_event es r e"
proof -
  have "claim_target (map bare es) (bare e) = claim_target es e" by (intro ext) (rule claim_target_bare)
  moreover have "place_replacements (map bare es) (bare e) = place_replacements es e" by (intro ext) (rule place_replacements_bare)
  ultimately show ?thesis by (simp add: resolve_event_def)
qed

lemma fold_res_map: "fold_res f s (map g xs) = fold_res (\<lambda>s x. f s (g x)) s xs"
  by (induction xs arbitrary: s) simp_all

lemma resolveCorrections_bare: "resolveCorrections (map bare es) = resolveCorrections es"
proof -
  have d: "map ev_id (map bare xs) = map ev_id xs" for xs by simp
  have "(\<lambda>r e. resolve_event (map bare xs) r (bare e)) = resolve_event xs" for xs by (intro ext) (rule resolve_event_bare)
  then show ?thesis by (simp only: resolveCorrections_def Let_def by_sequence_bare d rev_map fold_res_map)
qed

lemma step_bare [simp]: "replacement_step (bare e) = replacement_step e" "event_step (bare e) = event_step e"
  "advance_revision (bare e) = advance_revision e" "validateNextEnvelope s (bare e) = validateNextEnvelope s e"
  by (auto simp: replacement_step_def event_step_def advance_revision_def validateNextEnvelope_def validateEventIdentity_def
      intro!: ext)

lemma replay_event_bare: "replay_event r rs (bare e) = replay_event r rs e"
  unfolding replay_event_def replay_replacements_def replay_own_body_def step_bare bare_fields by (rule refl)

lemma timeline_bare: "replayEffectiveWithTimeline setup (map bare es) = replayEffectiveWithTimeline setup es"
  by (simp only: replayEffectiveWithTimeline_def Let_def by_sequence_bare resolveCorrections_bare fold_res_map replay_event_bare)

lemma same_timeline: "map bare es = map bare es' \<Longrightarrow> replayEffectiveWithTimeline setup es = replayEffectiveWithTimeline setup es'"
  by (metis timeline_bare)

lemma same_effective: "map bare es = map bare es' \<Longrightarrow> replayEffective setup es = replayEffective setup es'"
  by (simp add: replayEffective_def same_timeline [of es es'])

lemma same_derived:
  assumes "bare e = bare e'"
  shows "deriveEventStates su h e = deriveEventStates su h e'"
proof -
  have "validateNextEnvelope s e = validateNextEnvelope s e'" for s using assms step_bare(4) by metis
  moreover have "replayEffective su (h @ [e]) = replayEffective su (h @ [e'])" by (rule same_effective) (simp add: assms)
  ultimately show ?thesis by (simp add: deriveEventStates_def)
qed

lemma same_statistics:
  assumes "map bare es = map bare es'"
  shows "deriveGameStatistics setup es privacy v = deriveGameStatistics setup es' privacy v"
proof -
  have "map ev_schemaVersion xs = map ev_schemaVersion (map bare xs)" for xs by simp
  then have "map ev_schemaVersion es = map ev_schemaVersion es'" using assms by metis
  then have "project setup es = project setup es'" by (intro ext) (simp add: project_def)
  then show ?thesis by (simp add: deriveGameStatistics_def same_timeline [OF assms])
qed

section \<open>Appending the event that was derived\<close>

lemma replay_state_position:
  assumes "replayEffective setup es = Inr s"
  shows "gs_sourceRevision s = int (length es)" "gs_lastSequence s = int (length es)"
    and "\<forall>e\<in>set es. 1 \<le> ev_sequence e \<and> ev_sequence e \<le> int (length es)"
proof -
  obtain rs where rs: "replayEffectiveWithTimeline setup es = Inr rs" "s = fst rs"
    using assms by (auto simp: replayEffective_def result_simps)
  note c = replay_contiguous [OF rs(1)]
  show "gs_sourceRevision s = int (length es)" "gs_lastSequence s = int (length es)" using c rs(2) by simp_all
  have "set (map ev_sequence (by_sequence es)) = ev_sequence ` set es" by simp
  then have "ev_sequence ` set es = (\<lambda>i. int i + 1) ` {0..<length es}" unfolding c(1) by simp
  then show "\<forall>e\<in>set es. 1 \<le> ev_sequence e \<and> ev_sequence e \<le> int (length es)" by force
qed

lemma append_verified:
  assumes h: "replayGame hash True setup h = Inr (s, m)" and sorted: "by_sequence h = h"
    and d: "deriveEventStates setup h e = Inr (before, after)"
    and e: "ev_preStateHash e = hash before" "ev_postStateHash e = hash after"
  shows "by_sequence (h @ [e]) = h @ [e]" and "\<exists>m'. replayGame hash True setup (h @ [e]) = Inr (after, m')" and "before = s"
    and "replayEffective setup (h @ [e]) = Inr after"
proof -
  have inv: "replayEffective setup h = Inr s" "\<forall>i<length h. check_evidence hash setup h i = Inr ()"
    using h sorted by (auto simp: replayGame_def Let_def result_simps)
  have b: "before = s" and v: "validateNextEnvelope s e = Inr ()" and after: "replayEffective setup (h @ [e]) = Inr after"
    using d inv(1) by (auto simp: deriveEventStates_def result_simps)
  then show "before = s" "replayEffective setup (h @ [e]) = Inr after" by blast+
  have "ev_sequence e = int (length h) + 1" using v replay_state_position [OF inv(1)]
    by (simp add: validateNextEnvelope_def result_simps)
  then show sq: "by_sequence (h @ [e]) = h @ [e]"
    using by_sequence_snoc [of h e] replay_state_position(3) [OF inv(1)] sorted by force
  have "check_evidence hash setup (h @ [e]) i = Inr ()" if "i < Suc (length h)" for i
  proof (cases "i < length h")
    case True
    then show ?thesis using inv(2) by (simp add: check_evidence_def nth_append)
  next
    case False
    then have "i = length h" using that by simp
    then show ?thesis using d e by (simp add: check_evidence_def)
  qed
  then have ev: "check_all (check_evidence hash setup (h @ [e])) [0..<length (h @ [e])] = Inr ()"
    by (simp add: check_all_Inr_iff)
  obtain r where "resolveCorrections (h @ [e]) = Inr r"
    using after sq by (auto simp: replayEffective_def result_simps elim!: timeline_inversion)
  then have "\<exists>x. resolveEffectiveEvents (h @ [e]) = Inr x" by (simp add: resolveEffectiveEvents_def)
  then show "\<exists>m'. replayGame hash True setup (h @ [e]) = Inr (after, m')"
    using ev after sq unfolding replayGame_def Let_def by (auto simp: result_simps)
qed

end
