(* ===== verification/Store_Invariants.thy ===== *)
theory Store_Invariants
  imports Store_Replay
begin

text \<open>
  What a committed event does to the store.  The transaction only appends rows and advances one game; the row
  of the event reads back as the event that was returned, and the history of the game verifies with it.
  The contract \<open>reducer\<close> then carries the soundness of a store along any sequence of commands.
\<close>

section \<open>What a transaction writes\<close>

lemma recover_replays: "recover env st c corr digest target = Inr r \<Longrightarrow> are_idempotentReplay r"
  by (auto simp: recover_def recover_prior_def repeated_def result_simps split: option.splits if_splits)

lemma prior_replays: "replay_prior env st c corr digest p = Inr r \<Longrightarrow> are_idempotentReplay r"
  by (auto simp: replay_prior_def repeated_def result_simps)

lemma commit_inversion:
  assumes "acceptInternal env abort st c corr now = (Inr r, st')" and "\<not> are_idempotentReplay r"
  obtains body t p where "check_command c = Inr (body, t)" and "prior_play st c = None" and "prepare env st c body now = Inr p"
    and "write_event env st c (sv_digest env (acm_setupSnapshotId c) (acm_expectedRevision c) body) t body p corr = Inr st'"
    and "are_event r = pp_event p" and "abort = None"
  using assms
  by (auto simp: acceptInternal_def transaction_def Let_def result_simps split: sum.splits prod.splits option.splits tx_failure.splits
      dest: recover_replays prior_replays)

lemma refused_keeps: "acceptInternal env None st c corr now = (Inl e, st') \<Longrightarrow> st' = st"
  by (auto simp: acceptInternal_def Let_def split: sum.splits prod.splits tx_failure.splits)

lemma prepare_inversion:
  assumes "prepare env st c body now = Inr p"
  obtains before m a where "load_game st c = Inr (pp_game p)"
    and "loadSetup env st (acm_accountId c) (acm_gameId c) (acm_setupSnapshotId c) = Inr (pp_setup p)"
    and "su_setupRevision (pp_setup p) = gmr_setupRevision (pp_game p)"
    and "map_res (mapSourceEvent env st (su_setupRevision (pp_setup p)))
      (stored_rows st (acm_accountId c) (acm_gameId c) (acm_setupSnapshotId c)) = Inr (pp_history p)"
    and "replayGame (sv_stateHash env) True (pp_setup p) (pp_history p) = Inr (pp_current p, m)"
    and "gs_sourceRevision (pp_current p) = gmr_revision (pp_game p)" and "Some (gs_status (pp_current p)) = gmr_status (pp_game p)"
    and "now = Some (pp_acceptedAt p)"
    and "a = partial_event c body (pp_setup p) (pp_current p) (pp_acceptedAt p) (sv_stateHash env (pp_current p))"
    and "deriveEventStates (pp_setup p) (pp_history p) a = Inr (before, pp_after p)"
    and "pp_event p = a\<lparr>ev_preStateHash := sv_stateHash env before, ev_postStateHash := sv_stateHash env (pp_after p)\<rparr>"
    and "is_verification body \<Longrightarrow> va_capability (acm_actor c) =
       (if list_ex (\<lambda>e. is_verification (ev_body e)) (pp_history p) then ''game.reverify'' else ''game.verify'')"
  using assms
  by (auto simp: prepare_def result_simps Let_def split: option.splits if_splits)

lemma load_game_iff:
  "load_game st c = Inr g \<longleftrightarrow> find (game_named (acm_accountId c) (acm_gameId c)) (db_games st) = Some g \<and>
     gmr_revision g = acm_expectedRevision c \<and> gmr_readySetupSnapshotId g = Some (acm_setupSnapshotId c)"
  by (auto simp: load_game_def result_simps split: option.splits)

lemma insert_correction_Inr: "insert_correction st r = Inr st' \<Longrightarrow> st' = st\<lparr>db_corrections := db_corrections st @ [r]\<rparr>"
  by (auto simp: insert_correction_def result_simps)

lemma insert_corrections:
  "fold_res insert_correction st rows = Inr st' \<Longrightarrow> st' = st\<lparr>db_corrections := db_corrections st @ rows\<rparr>"
proof (induction rows arbitrary: st)
  case (Cons a rows)
  then have "fold_res insert_correction (st\<lparr>db_corrections := db_corrections st @ [a]\<rparr>) rows = Inr st'"
    by (auto simp: result_simps dest!: insert_correction_Inr)
  from Cons.IH [OF this] show ?case by simp
qed simp

definition correction_rows :: "accept_command \<Rightarrow> event_body \<Rightarrow> correction_row list" where
  "correction_rows c body = (case body of CorrectionApplied x \<Rightarrow> map (correction_row_for c x) (co_targetEventIds x) | _ \<Rightarrow> [])"

text \<open>The tables that only grow by rows of their own are compared by what they hold.\<close>

definition audited :: "store_env \<Rightarrow> accept_command \<Rightarrow> event_body \<Rightarrow> prepared \<Rightarrow> correction_context option \<Rightarrow> store \<Rightarrow> store \<Rightarrow> bool" where
  "audited env c body p corr st st' \<longleftrightarrow>
     (\<exists>xs. db_audits st' = db_audits st @ xs \<and>
       (\<forall>a\<in>set xs. aur_action a = ''game.correction.apply'' \<longrightarrow> aur_targetId a = acm_eventId c) \<and>
       (case (body, corr) of
          (CorrectionApplied x, Some ctx) \<Rightarrow> \<exists>i. xs = [\<lparr>aur_id = i, aur_accountId = acm_accountId c, aur_actor = actor_of (acm_actor c),
            aur_action = ''game.correction.apply'', aur_capability = ''game.correct'', aur_targetType = ''Correction'',
            aur_targetId = acm_eventId c, aur_outcome = ''SUCCEEDED'', aur_reasonCode = Some (co_reasonCode x),
            aur_correlationId = Some (cc_correlationId ctx), aur_revisions = (acm_expectedRevision c, acm_expectedRevision c + 1),
            aur_details = Correction_evidence (correction_evidence_of c x p ctx), aur_createdAt = pp_acceptedAt p\<rparr>]
        | _ \<Rightarrow> True))"

lemma enqueue_all_core: "fold_res (enqueueWebhookEvent env) st is = Inr st' \<Longrightarrow> core st' = core st"
  by (induction "is" arbitrary: st) (auto simp: result_simps dest: enqueue_core)

lemma record_correction_effect:
  assumes "record_correction env c body p corr st = Inr st'"
  shows "db_games st' = db_games st" "db_setups st' = db_setups st" "db_plays st' = db_plays st" "db_events st' = db_events st"
    "db_corrections st' = db_corrections st @ correction_rows c body" "db_users st' = db_users st" "db_overlays st' = db_overlays st"
    "db_preferences st' = db_preferences st"
  using assms
  by (auto simp: record_correction_def correction_rows_def project_correction_def current_checkpoint_def add_audit_def result_simps Let_def
      split: event_body.splits option.splits dest!: insert_corrections)

lemma write_event_inversion:
  assumes "write_event env st c digest t body p corr = Inr st'"
  obtains st4 where "core st' = core st4" and "db_games st4 = map (\<lambda>g. if game_named (acm_accountId c) (acm_gameId c) g \<and>
        gmr_revision g = acm_expectedRevision c
      then g\<lparr>gmr_revision := acm_expectedRevision c + 1, gmr_status := Some (gs_status (pp_after p))\<rparr> else g) (db_games st)"
    and "db_plays st4 = db_plays st @ [new_play c digest p]" and "db_events st4 = db_events st @ [new_event c digest t body p]"
    and "db_corrections st4 = db_corrections st @ correction_rows c body"
    and "db_setups st4 = db_setups st" and "db_users st4 = db_users st" and "db_overlays st4 = db_overlays st"
    and "db_preferences st4 = db_preferences st"
    and "play_conflict (db_plays st) (new_play c digest p) = None" and "event_conflict (db_events st) (new_event c digest t body p) = None"
    and "acm_expectedRevision c + 1 \<le> int4_max" and "fold_res (enqueueWebhookEvent env) st4 (outbox_inputs st4 c body p corr) = Inr st'"
proof -
  obtain st1 st2 st3 st4 where s1: "advance_game c (gs_status (pp_after p)) st = Inr st1"
    and s2: "insert_play (new_play c digest p) st1 = Inr st2" and s3: "insert_event (new_event c digest t body p) st2 = Inr st3"
    and s4: "record_correction env c body p corr (audit_lifecycle env c body p (stale_checkpoints c st3)) = Inr st4"
    and s5: "fold_res (enqueueWebhookEvent env) st4 (outbox_inputs st4 c body p corr) = Inr st'"
    using assms by (auto simp: write_event_def result_simps)
  have a: "db_games (audit_lifecycle env c body p (stale_checkpoints c s)) = db_games s"
    "db_setups (audit_lifecycle env c body p (stale_checkpoints c s)) = db_setups s"
    "db_plays (audit_lifecycle env c body p (stale_checkpoints c s)) = db_plays s"
    "db_events (audit_lifecycle env c body p (stale_checkpoints c s)) = db_events s"
    "db_corrections (audit_lifecycle env c body p (stale_checkpoints c s)) = db_corrections s"
    "db_users (audit_lifecycle env c body p (stale_checkpoints c s)) = db_users s"
    "db_overlays (audit_lifecycle env c body p (stale_checkpoints c s)) = db_overlays s"
    "db_preferences (audit_lifecycle env c body p (stale_checkpoints c s)) = db_preferences s" for s
    by (simp_all add: audit_lifecycle_def add_audit_def stale_checkpoints_def split: event_body.split)
  note f = record_correction_effect [OF s4, unfolded a]
  show ?thesis
  proof (rule that [of st4])
    show "core st' = core st4" by (rule enqueue_all_core [OF s5])
  qed (use s1 s2 s3 s5 f in \<open>auto simp: advance_game_def insert_play_def insert_event_def result_simps Let_def split: option.splits\<close>)
qed

section \<open>The invariant of the tables\<close>

definition setup_ids_ok :: "setup_row \<Rightarrow> bool" where
  "setup_ids_ok s \<longleftrightarrow> trim (sur_rulesetVersionId s) = sur_rulesetVersionId s \<and> id_ok (sur_rulesetVersionId s) \<and>
     sur_setupRevision s \<le> int4_max"

text \<open>
  The primary keys, the foreign key from an event to its play transaction, and the audits of
  corrections, which name stored events.
\<close>

definition store_ok :: "store \<Rightarrow> bool" where
  "store_ok st \<longleftrightarrow>
     distinct (map gmr_id (db_games st)) \<and> distinct (map ptr_id (db_plays st)) \<and> distinct (map ser_id (db_events st)) \<and>
     list_all setup_ids_ok (db_setups st) \<and>
     list_all (\<lambda>r. ser_playTransactionId r = None \<or> list_ex (\<lambda>p. event_of_play p r) (db_plays st)) (db_events st) \<and>
     list_all (\<lambda>a. aur_action a = ''game.correction.apply'' \<longrightarrow> aur_targetId a \<in> ser_id ` set (db_events st)) (db_audits st)"

text \<open>What the platform is relied on for: the form of its digests and of the instants it prints.\<close>

definition four_digit_year :: "int \<Rightarrow> bool" where
  "four_digit_year t \<longleftrightarrow> - 62167219200000 \<le> t \<and> t < 253402300800000"

definition platform_ok :: "store_env \<Rightarrow> bool" where
  "platform_ok env \<longleftrightarrow> (\<forall>s. hash_format_ok (sv_stateHash env s)) \<and> (\<forall>t. four_digit_year t \<longrightarrow> sv_isoDatetime env (iso_string t))"

text \<open>The ids of a command as the schema of the service leaves them.\<close>

definition clean_id :: "ident \<Rightarrow> bool" where
  "clean_id i \<longleftrightarrow> trim i = i \<and> id_ok i"

definition command_ids_ok :: "accept_command \<Rightarrow> bool" where
  "command_ids_ok c \<longleftrightarrow> list_all clean_id [acm_eventId c, acm_accountId c, acm_gameId c, acm_setupSnapshotId c,
     acm_playTransactionId c, acm_clientSubmissionId c, va_actorId (acm_actor c)] \<and>
     (case va_actorUserId (acm_actor c) of None \<Rightarrow> True | Some u \<Rightarrow> clean_id u)"

section \<open>The rows of a history\<close>

lemma mapSourceEvent_Inr:
  assumes "mapSourceEvent env st sr r = Inr e"
  shows "ev_sequence e = ser_sequence r" and "ev_id e = trim (ser_id r)"
  using assms
  by (auto simp: mapSourceEvent_def parseEvent_def source_envelope_def trim_envelope_def with_body_def Let_def result_simps
      split: if_splits bool.splits raw_body.splits)

lemma history_rows:
  assumes m: "map_res (mapSourceEvent env st sr) (stored_rows st a g sid) = Inr h"
  shows "map ev_sequence h = map ser_sequence (stored_rows st a g sid)" and "by_sequence h = h" and "length h = length (stored_rows st a g sid)"
proof -
  have l: "list_all2 (\<lambda>r e. mapSourceEvent env st sr r = Inr e) (stored_rows st a g sid) h"
    using m by (simp add: map_res_Inr_iff)
  show s: "map ev_sequence h = map ser_sequence (stored_rows st a g sid)"
    using l by (induction rule: list_all2_induct) (auto dest: mapSourceEvent_Inr)
  have "sorted (map ev_sequence h)" unfolding s by (simp add: stored_rows_def)
  then show "by_sequence h = h" by (simp add: by_sequence_def sort_key_id_if_sorted)
  show "length h = length (stored_rows st a g sid)" using l by (simp add: list_all2_lengthD)
qed

lemma sort_key_snoc:
  assumes "\<forall>x\<in>set xs. k x \<le> k y"
  shows "sort_key k (xs @ [y]) = sort_key k xs @ [y]"
proof (rule properties_for_sort_key)
  show "filter (\<lambda>x. k z = k x) (sort_key k xs @ [y]) = filter (\<lambda>x. k z = k x) (xs @ [y])" for z
    using sort_key_stable [of k "k z" xs] by (simp add: eq_commute)
qed (use assms in \<open>auto simp: sorted_append\<close>)

text \<open>A row keeps the play transaction it was joined with.\<close>

lemma play_of_kept:
  assumes "store_ok st" and "r \<in> set (db_events st)" and "db_plays st' = db_plays st @ xs"
  shows "play_of st' r = play_of st r"
proof (cases "ser_playTransactionId r")
  case None
  then have "play_of s r = None" for s by (simp add: play_of_def find_None_iff)
  then show ?thesis by simp
next
  case (Some x)
  with assms(1,2) obtain p where "p \<in> set (db_plays st)" "event_of_play p r"
    by (auto simp: store_ok_def list_all_iff list_ex_iff)
  then have "play_of st r \<noteq> None" unfolding play_of_def find_None_iff by (auto simp: event_of_play_def)
  then show ?thesis using assms(3) by (auto simp: play_of_def find_append split: option.splits)
qed

lemma mapped_kept:
  assumes "store_ok st" and "r \<in> set (db_events st)" and "db_plays st' = db_plays st @ xs"
  shows "mapSourceEvent env st' sr r = mapSourceEvent env st sr r"
  using play_of_kept [OF assms] by (simp add: mapSourceEvent_def source_envelope_def)

lemma mapped_history_kept:
  assumes "store_ok st" and "set rows \<subseteq> set (db_events st)" and "db_plays st' = db_plays st @ xs"
  shows "map_res (mapSourceEvent env st' sr) rows = map_res (mapSourceEvent env st sr) rows"
  using assms(2) by (induction rows) (auto simp: mapped_kept [OF assms(1) _ assms(3)])

lemma set_stored_rows: "set (stored_rows st a g sid) \<subseteq> set (db_events st)"
  by (auto simp: stored_rows_def)

text \<open>The row that a transaction inserts reads back as the event it returns, with its time in the form of the database.\<close>

lemma parseEvent_clean:
  assumes "trim_envelope (with_body e (Shaped b)) = with_body e (Shaped b)"
    and "envelope_ok dt (with_body e (Shaped b))"
  shows "parseEvent dt (with_body e (Shaped b)) = Inr (with_body e b)"
proof -
  have "ev_schemaVersion (with_body e (Shaped b)) \<in> set supported_versions" using assms(2) by (simp add: envelope_ok_def)
  then show ?thesis using assms by (simp add: parseEvent_def Let_def with_body_def)
qed

lemma new_row_reads_back:
  assumes env: "platform_ok env" and ids: "command_ids_ok c" and sur: "setup_ids_ok su" "su_rulesetVersionId (pp_setup p) = sur_rulesetVersionId su"
      "sr = sur_setupRevision su" "1 \<le> sr" "su_setupRevision (pp_setup p) = sr"
    and body: "parseEventBody raw event_schema_version = Inr body"
    and ev: "pp_event p = (partial_event c body (pp_setup p) s a pre)\<lparr>ev_preStateHash := sv_stateHash env x, ev_postStateHash := sv_stateHash env y\<rparr>"
    and at_a: "pp_acceptedAt p = a"
    and pos: "gs_lastSequence s = acm_expectedRevision c" "0 \<le> acm_expectedRevision c" "acm_expectedRevision c + 1 \<le> int4_max"
    and times: "four_digit_year t" "four_digit_year a"
    and play: "play_of st (new_event c digest t body p) = Some q" "ptr_acceptedAt q = a"
  shows "mapSourceEvent env st sr (new_event c digest t body p) = Inr (pp_event p\<lparr>ev_recordedAt := iso_string t\<rparr>)"
proof -
  let ?e = "pp_event p\<lparr>ev_recordedAt := iso_string t\<rparr>"
  have src: "source_envelope st (new_event c digest t body p) sr = with_body ?e (Shaped body)"
    using play sur(2,5) by (simp add: source_envelope_def new_event_def with_body_def ev partial_event_def or_else_def)
  have tr: "trim_envelope (with_body ?e (Shaped body)) = with_body ?e (Shaped body)"
    using ids sur(1,2) by (auto simp: trim_envelope_def with_body_def ev partial_event_def trim_actor_def actor_of_def
        command_ids_ok_def clean_id_def setup_ids_ok_def split: option.splits)
  have "envelope_ok (sv_isoDatetime env) (with_body ?e (Shaped body))"
    using ids sur parse_twice [OF body] env times pos
    by (auto simp: envelope_ok_def with_body_def ev partial_event_def actor_of_def command_ids_ok_def clean_id_def setup_ids_ok_def
        platform_ok_def safe_int_def max_safe_integer_def int4_max_def supported_versions_def event_schema_version_def opt_id_ok_def
        simp del: parseEventBody.simps split: option.splits)
  from parseEvent_clean [OF tr this] src show ?thesis
    by (simp add: mapSourceEvent_def with_body_def ev partial_event_def)
qed

section \<open>A committed event\<close>

text \<open>What the next reader of a game relies on: its rows load, replay with their evidence, and end where the game stands.\<close>

definition check_stored_game :: "store_env \<Rightarrow> store \<Rightarrow> ident \<Rightarrow> ident \<Rightarrow> event_error + game_state" where
  "check_stored_game env st accountId gameId =
     (case find (game_named accountId gameId) (db_games st) of
        None \<Rightarrow> Inl GAME_MISMATCH
      | Some g \<Rightarrow>
          (case gmr_readySetupSnapshotId g of
             None \<Rightarrow> Inl SETUP_NOT_READY
           | Some sid \<Rightarrow>
               and_then (loadSetup env st accountId gameId sid) (\<lambda>su.
               and_then (map_res (mapSourceEvent env st (su_setupRevision su)) (stored_rows st accountId gameId sid)) (\<lambda>h.
               and_then (replayGame (sv_stateHash env) True su h) (\<lambda>(s, m).
               and_then (require (su_setupRevision su = gmr_setupRevision g \<and> gs_sourceRevision s = gmr_revision g \<and>
                 Some (gs_status s) = gmr_status g) IMMUTABLE_HISTORY_VIOLATION) (\<lambda>_. Inr s))))))"

lemma loadSetup_Inr:
  assumes "loadSetup env st a g sid = Inr su"
  obtains r where "find (setup_row_named a g sid) (db_setups st) = Some r" and "su_setupRevision su = sur_setupRevision r"
    and "su_rulesetVersionId su = sur_rulesetVersionId r" and "su_accountId su = a" and "su_gameId su = g" and "su_id su = sur_id r"
  using assms by (auto simp: loadSetup_def mapSetupSnapshot_def result_simps split: option.splits)

lemma loadSetup_kept: "db_setups st' = db_setups st \<Longrightarrow> loadSetup env st' = loadSetup env st"
  by (intro ext) (simp add: loadSetup_def)

lemma advanced_game:
  assumes f: "find (game_named a g) gs = Some x" and "gmr_revision x = n"
  shows "find (game_named a g) (map (\<lambda>y. if game_named a g y \<and> gmr_revision y = n then y\<lparr>gmr_revision := m, gmr_status := s\<rparr> else y) gs) =
    Some (x\<lparr>gmr_revision := m, gmr_status := s\<rparr>)"
  using f assms(2) by (induction gs) (auto simp: game_named_def split: if_splits)

lemma other_game:
  assumes "(a', g') \<noteq> (a, g)"
  shows "find (game_named a' g') (map (\<lambda>y. if game_named a g y \<and> gmr_revision y = n then y\<lparr>gmr_revision := m, gmr_status := s\<rparr> else y) gs) =
    find (game_named a' g') gs"
  using assms by (induction gs) (auto simp: game_named_def)

text \<open>Everything the proofs below need of a commit, with the rows it added.\<close>

lemma commit_tables:
  assumes "acceptInternal env abort st c corr now = (Inr r, st')" and "\<not> are_idempotentReplay r"
  obtains body t p where "check_command c = Inr (body, t)" and "prior_play st c = None" and "prepare env st c body now = Inr p"
    and "are_event r = pp_event p"
    and "db_plays st' = db_plays st @ [new_play c (sv_digest env (acm_setupSnapshotId c) (acm_expectedRevision c) body) p]"
    and "db_events st' = db_events st @ [new_event c (sv_digest env (acm_setupSnapshotId c) (acm_expectedRevision c) body) t body p]"
    and "db_corrections st' = db_corrections st @ correction_rows c body" and "db_setups st' = db_setups st"
    and "db_games st' = map (\<lambda>g. if game_named (acm_accountId c) (acm_gameId c) g \<and> gmr_revision g = acm_expectedRevision c
      then g\<lparr>gmr_revision := acm_expectedRevision c + 1, gmr_status := Some (gs_status (pp_after p))\<rparr> else g) (db_games st)"
    and "\<forall>q\<in>set (db_plays st). ptr_id q \<noteq> acm_playTransactionId c" and "\<forall>q\<in>set (db_events st). ser_id q \<noteq> acm_eventId c"
    and "acm_expectedRevision c + 1 \<le> int4_max"
proof -
  obtain body t p where b: "check_command c = Inr (body, t)" "prior_play st c = None" "prepare env st c body now = Inr p"
      "are_event r = pp_event p" and
    w: "write_event env st c (sv_digest env (acm_setupSnapshotId c) (acm_expectedRevision c) body) t body p corr = Inr st'"
    using commit_inversion [OF assms] by metis
  show ?thesis
  proof (rule write_event_inversion [OF w])
    fix st4
    assume core: "core st' = core st4" and g: "db_games st4 = map (\<lambda>g. if game_named (acm_accountId c) (acm_gameId c) g \<and>
        gmr_revision g = acm_expectedRevision c
      then g\<lparr>gmr_revision := acm_expectedRevision c + 1, gmr_status := Some (gs_status (pp_after p))\<rparr> else g) (db_games st)"
    and tables: "db_plays st4 = db_plays st @ [new_play c (sv_digest env (acm_setupSnapshotId c) (acm_expectedRevision c) body) p]"
      "db_events st4 = db_events st @ [new_event c (sv_digest env (acm_setupSnapshotId c) (acm_expectedRevision c) body) t body p]"
      "db_corrections st4 = db_corrections st @ correction_rows c body" "db_setups st4 = db_setups st"
    and free: "play_conflict (db_plays st) (new_play c (sv_digest env (acm_setupSnapshotId c) (acm_expectedRevision c) body) p) = None"
      "event_conflict (db_events st) (new_event c (sv_digest env (acm_setupSnapshotId c) (acm_expectedRevision c) body) t body p) = None"
    and n: "acm_expectedRevision c + 1 \<le> int4_max"
    have "\<forall>q\<in>set (db_plays st). ptr_id q \<noteq> acm_playTransactionId c" "\<forall>q\<in>set (db_events st). ser_id q \<noteq> acm_eventId c"
      using free by (auto simp: play_conflict_def event_conflict_def list_ex_iff new_play_def new_event_def split: if_splits)
    with b tables g n core show ?thesis by (intro that [of body t p]) (simp_all add: coreD [OF core])
  qed
qed

text \<open>The times of an acceptance have years of four digits.\<close>

definition ordinary_times :: "accept_command \<Rightarrow> int option \<Rightarrow> bool" where
  "ordinary_times c now \<longleftrightarrow> (case date_parse (acm_recordedAt c) of None \<Rightarrow> True | Some t \<Rightarrow> four_digit_year t) \<and>
     (case now of None \<Rightarrow> True | Some t \<Rightarrow> four_digit_year t)"

text \<open>The event as it is read back: its time is the instant that was given, in the form of the database.\<close>

definition stored_form :: "accepted_event \<Rightarrow> accepted_event" where
  "stored_form e = e\<lparr>ev_recordedAt := (case date_parse (ev_recordedAt e) of None \<Rightarrow> ev_recordedAt e | Some t \<Rightarrow> iso_string t)\<rparr>"

lemma bare_stored_form [simp]: "bare (stored_form e) = bare e"
  by (simp add: bare_def stored_form_def)

lemma check_command_Inr:
  assumes "check_command c = Inr (body, t)"
  shows "parseEventBody (acm_body c) event_schema_version = Inr body" and "date_parse (acm_recordedAt c) = Some t"
    and "permittedCapability body (va_capability (acm_actor c))" and "va_accountId (acm_actor c) = acm_accountId c"
    and "va_scopeGameId (acm_actor c) = acm_gameId c"
  using assms by (auto simp: check_command_def check_command_actor_def Let_def result_simps split: option.splits)

lemma committed_history:
  assumes ok: "store_ok st" and env: "platform_ok env" and ids: "command_ids_ok c" and times: "ordinary_times c now"
    and commit: "acceptInternal env abort st c corr now = (Inr r, st')" "\<not> are_idempotentReplay r"
  obtains su h s body p where "check_command c = Inr (body, the (date_parse (acm_recordedAt c)))" and "prepare env st c body now = Inr p"
    and "loadSetup env st' (acm_accountId c) (acm_gameId c) (acm_setupSnapshotId c) = Inr su"
    and "map_res (mapSourceEvent env st (su_setupRevision su)) (stored_rows st (acm_accountId c) (acm_gameId c) (acm_setupSnapshotId c)) = Inr h"
    and "map_res (mapSourceEvent env st' (su_setupRevision su)) (stored_rows st' (acm_accountId c) (acm_gameId c) (acm_setupSnapshotId c)) =
      Inr (h @ [stored_form (are_event r)])"
    and "\<exists>m. replayGame (sv_stateHash env) True su (h @ [stored_form (are_event r)]) = Inr (s, m)"
    and "gs_sourceRevision s = acm_expectedRevision c + 1" and "s = pp_after p" and "su = pp_setup p" and "h = pp_history p"
    and "check_stored_game env st' (acm_accountId c) (acm_gameId c) = Inr s"
    and "mapSourceEvent env st' (su_setupRevision su) (new_event c (sv_digest env (acm_setupSnapshotId c) (acm_expectedRevision c) body)
      (the (date_parse (acm_recordedAt c))) body p) = Inr (stored_form (are_event r))"
proof -
  let ?a = "acm_accountId c" and ?g = "acm_gameId c" and ?sid = "acm_setupSnapshotId c"
  obtain body t p where b: "check_command c = Inr (body, t)" and prep: "prepare env st c body now = Inr p" and ev: "are_event r = pp_event p"
    and plays: "db_plays st' = db_plays st @ [new_play c (sv_digest env ?sid (acm_expectedRevision c) body) p]"
    and events: "db_events st' = db_events st @ [new_event c (sv_digest env ?sid (acm_expectedRevision c) body) t body p]"
    and setups: "db_setups st' = db_setups st"
    and games: "db_games st' = map (\<lambda>y. if game_named ?a ?g y \<and> gmr_revision y = acm_expectedRevision c
      then y\<lparr>gmr_revision := acm_expectedRevision c + 1, gmr_status := Some (gs_status (pp_after p))\<rparr> else y) (db_games st)"
    and fresh: "\<forall>q\<in>set (db_plays st). ptr_id q \<noteq> acm_playTransactionId c" and n: "acm_expectedRevision c + 1 \<le> int4_max"
    by (rule commit_tables [OF commit]) blast
  let ?d = "sv_digest env ?sid (acm_expectedRevision c) body"
  note cmd = check_command_Inr [OF b]
  let ?new = "new_event c ?d t body p" and ?su = "pp_setup p"
  show ?thesis
  proof (rule prepare_inversion [OF prep])
    fix before m x
    assume game: "load_game st c = Inr (pp_game p)" and su: "loadSetup env st ?a ?g ?sid = Inr ?su"
      and srev: "su_setupRevision ?su = gmr_setupRevision (pp_game p)"
      and h: "map_res (mapSourceEvent env st (su_setupRevision ?su)) (stored_rows st ?a ?g ?sid) = Inr (pp_history p)"
      and replay: "replayGame (sv_stateHash env) True ?su (pp_history p) = Inr (pp_current p, m)"
      and rev: "gs_sourceRevision (pp_current p) = gmr_revision (pp_game p)" and now: "now = Some (pp_acceptedAt p)"
      and x: "x = partial_event c body ?su (pp_current p) (pp_acceptedAt p) (sv_stateHash env (pp_current p))"
      and d: "deriveEventStates ?su (pp_history p) x = Inr (before, pp_after p)"
      and e: "pp_event p = x\<lparr>ev_preStateHash := sv_stateHash env before, ev_postStateHash := sv_stateHash env (pp_after p)\<rparr>"
    have gf: "find (game_named ?a ?g) (db_games st) = Some (pp_game p)" "gmr_revision (pp_game p) = acm_expectedRevision c"
      "gmr_readySetupSnapshotId (pp_game p) = Some ?sid" using game by (simp_all add: load_game_iff)
    note hr = history_rows [OF h]
    have eff: "replayEffective ?su (pp_history p) = Inr (pp_current p)" using replayGame_inversion(1) [OF replay] .
    note pos = replay_state_position [OF eff]
    obtain su_row where row: "find (setup_row_named ?a ?g ?sid) (db_setups st) = Some su_row" "su_setupRevision ?su = sur_setupRevision su_row"
        "su_rulesetVersionId ?su = sur_rulesetVersionId su_row" by (rule loadSetup_Inr [OF su]) blast
    then have rowok: "setup_ids_ok su_row" using ok by (auto simp: store_ok_def list_all_iff find_Some_iff)
    have srev1: "1 \<le> su_setupRevision ?su"
      using eff by (auto simp: replayEffective_def createInitialState_def result_simps elim!: timeline_inversion)
    text \<open>the play transaction of the new row is the one inserted with it\<close>
    have play: "play_of st' ?new = Some (new_play c ?d p)"
    proof -
      have "find (\<lambda>q. ptr_accountId q = ser_accountId ?new \<and> ptr_gameId q = ser_gameId ?new \<and>
          ptr_setupSnapshotId q = ser_setupSnapshotId ?new \<and> Some (ptr_id q) = ser_playTransactionId ?new) (db_plays st) = None"
        using fresh by (auto simp: find_None_iff new_event_def)
      then show ?thesis unfolding play_of_def plays by (simp add: find_append new_event_def new_play_def)
    qed
    have read_back: "mapSourceEvent env st' (su_setupRevision ?su) ?new = Inr (stored_form (pp_event p))"
    proof -
      have "mapSourceEvent env st' (su_setupRevision ?su) ?new = Inr (pp_event p\<lparr>ev_recordedAt := iso_string t\<rparr>)"
      proof (rule new_row_reads_back [OF env ids rowok row(3,2) srev1 refl cmd(1) _ refl])
        show "pp_event p = partial_event c body ?su (pp_current p) (pp_acceptedAt p) (sv_stateHash env (pp_current p))
          \<lparr>ev_preStateHash := sv_stateHash env before, ev_postStateHash := sv_stateHash env (pp_after p)\<rparr>" using e x by simp
        show "gs_lastSequence (pp_current p) = acm_expectedRevision c" "0 \<le> acm_expectedRevision c" using pos(1,2) rev gf(2) by simp_all
        show "four_digit_year t" "four_digit_year (pp_acceptedAt p)" using times cmd(2) now by (simp_all add: ordinary_times_def)
        show "ptr_acceptedAt (new_play c ?d p) = pp_acceptedAt p" by (simp add: new_play_def)
      qed (use n play in simp_all)
      moreover have "stored_form (pp_event p) = pp_event p\<lparr>ev_recordedAt := iso_string t\<rparr>"
        using cmd(2) by (simp add: stored_form_def e x partial_event_def)
      ultimately show ?thesis by simp
    qed
    text \<open>the new row follows all others of the game\<close>
    have seq: "ser_sequence ?new = int (length (pp_history p)) + 1"
      using pos(2) by (simp add: new_event_def e x partial_event_def)
    have rows: "stored_rows st' ?a ?g ?sid = stored_rows st ?a ?g ?sid @ [?new]"
    proof -
      let ?own = "\<lambda>r. ser_accountId r = ?a \<and> ser_gameId r = ?g \<and> ser_setupSnapshotId r = ?sid"
      have own: "filter ?own (db_events st @ [?new]) = filter ?own (db_events st) @ [?new]" by (simp add: new_event_def)
      have "\<forall>r\<in>set (stored_rows st ?a ?g ?sid). ser_sequence r \<le> ser_sequence ?new"
      proof
        fix r assume "r \<in> set (stored_rows st ?a ?g ?sid)"
        then have "ser_sequence r \<in> set (map ev_sequence (pp_history p))" unfolding hr(1) by simp
        then show "ser_sequence r \<le> ser_sequence ?new" using pos(3) seq by auto
      qed
      then show ?thesis unfolding stored_rows_def events own by (intro sort_key_snoc) simp
    qed
    have load: "map_res (mapSourceEvent env st' (su_setupRevision ?su)) (stored_rows st' ?a ?g ?sid) = Inr (pp_history p @ [stored_form (pp_event p)])"
    proof -
      have "map_res (mapSourceEvent env st' (su_setupRevision ?su)) (stored_rows st ?a ?g ?sid) = Inr (pp_history p)"
        using mapped_history_kept [OF ok set_stored_rows plays] h by simp
      then show ?thesis using read_back unfolding rows map_res_Inr_iff by (simp add: list_all2_appendI)
    qed
    text \<open>the evidence of the new row holds\<close>
    have bare: "bare (stored_form (pp_event p)) = bare x" unfolding bare_stored_form e by (simp add: bare_def)
    have derived: "deriveEventStates ?su (pp_history p) (stored_form (pp_event p)) = Inr (before, pp_after p)"
      using same_derived [OF bare] d by simp
    have hash: "ev_preStateHash (stored_form (pp_event p)) = sv_stateHash env before"
      "ev_postStateHash (stored_form (pp_event p)) = sv_stateHash env (pp_after p)" by (simp_all add: stored_form_def e)
    note app = append_verified [OF replay hr(2) derived hash]
    have after: "gs_sourceRevision (pp_after p) = acm_expectedRevision c + 1"
      using replay_state_position(1) [OF app(4)] pos(1) rev gf(2) by simp
    have su': "loadSetup env st' ?a ?g ?sid = Inr ?su" using su loadSetup_kept [OF setups] by simp
    have g': "find (game_named ?a ?g) (db_games st') = Some (pp_game p\<lparr>gmr_revision := acm_expectedRevision c + 1,
        gmr_status := Some (gs_status (pp_after p))\<rparr>)"
      unfolding games by (rule advanced_game [OF gf(1,2)])
    obtain m' where m': "replayGame (sv_stateHash env) True ?su (pp_history p @ [stored_form (pp_event p)]) = Inr (pp_after p, m')"
      using app(2) by blast
    have check: "check_stored_game env st' ?a ?g = Inr (pp_after p)"
      using g' gf(3) su' load m' srev after by (simp add: check_stored_game_def)
    show ?thesis
      by (rule that [of body p ?su "pp_history p" "pp_after p"]) (use b cmd(2) prep su' h load m' after check ev read_back in auto)
  qed
qed

lemma write_event_audits:
  assumes w: "write_event env st c digest t body p corr = Inr st'"
  shows "audited env c body p corr st st'"
proof -
  obtain st1 st2 st3 st4 where s: "advance_game c (gs_status (pp_after p)) st = Inr st1"
    "insert_play (new_play c digest p) st1 = Inr st2" "insert_event (new_event c digest t body p) st2 = Inr st3"
    and s4: "record_correction env c body p corr (audit_lifecycle env c body p (stale_checkpoints c st3)) = Inr st4"
    and s5: "fold_res (enqueueWebhookEvent env) st4 (outbox_inputs st4 c body p corr) = Inr st'"
    using w by (auto simp: write_event_def result_simps)
  have old: "db_audits st3 = db_audits st"
    using s by (auto simp: advance_game_def insert_play_def insert_event_def result_simps Let_def split: option.splits)
  have last: "db_audits st' = db_audits st4" using coreD(6) [OF enqueue_all_core [OF s5]] .
  have new: "\<exists>xs. db_audits st4 = db_audits st3 @ xs \<and>
      (\<forall>a\<in>set xs. aur_action a = ''game.correction.apply'' \<longrightarrow> aur_targetId a = acm_eventId c)"
    using s4
    by (auto simp: record_correction_def project_correction_def current_checkpoint_def add_audit_def audit_lifecycle_def stale_checkpoints_def
        result_simps Let_def split: event_body.splits option.splits if_splits dest!: insert_corrections)
  show ?thesis
  proof (cases "\<exists>x ctx. body = CorrectionApplied x \<and> corr = Some ctx")
    case True
    then obtain x ctx where b: "body = CorrectionApplied x" "corr = Some ctx" by blast
    then have "\<exists>i. db_audits st4 = db_audits st3 @ [\<lparr>aur_id = i, aur_accountId = acm_accountId c, aur_actor = actor_of (acm_actor c),
            aur_action = ''game.correction.apply'', aur_capability = ''game.correct'', aur_targetType = ''Correction'',
            aur_targetId = acm_eventId c, aur_outcome = ''SUCCEEDED'', aur_reasonCode = Some (co_reasonCode x),
            aur_correlationId = Some (cc_correlationId ctx), aur_revisions = (acm_expectedRevision c, acm_expectedRevision c + 1),
            aur_details = Correction_evidence (correction_evidence_of c x p ctx), aur_createdAt = pp_acceptedAt p\<rparr>]"
      using s4 by (auto simp: record_correction_def project_correction_def current_checkpoint_def add_audit_def audit_lifecycle_def
          stale_checkpoints_def result_simps Let_def dest!: insert_corrections)
    with b last old show ?thesis by (auto simp: audited_def)
  next
    case False
    with new last old show ?thesis by (auto simp: audited_def split: event_body.split option.split)
  qed
qed

section \<open>Stores only grow\<close>

definition grows :: "store \<Rightarrow> store \<Rightarrow> bool" where
  "grows st st' \<longleftrightarrow> (\<exists>ps es as. db_plays st' = db_plays st @ ps \<and> db_events st' = db_events st @ es \<and> db_audits st' = db_audits st @ as) \<and>
     db_setups st' = db_setups st \<and> map gmr_id (db_games st') = map gmr_id (db_games st) \<and>
     (\<forall>a g x. find (game_named a g) (db_games st) = Some x \<longrightarrow>
       (\<exists>y. find (game_named a g) (db_games st') = Some y \<and> gmr_revision x \<le> gmr_revision y))"

lemma grows_refl [simp]: "grows st st"
  by (simp add: grows_def)

lemma grows_trans: "grows a b \<Longrightarrow> grows b c \<Longrightarrow> grows a c"
  unfolding grows_def by (elim conjE exE, intro conjI) (force, simp, simp, metis order_trans)

lemma commit_grows:
  assumes commit: "acceptInternal env abort st c corr now = (Inr r, st')" "\<not> are_idempotentReplay r"
  shows "grows st st'"
proof -
  obtain body t p where w: "write_event env st c (sv_digest env (acm_setupSnapshotId c) (acm_expectedRevision c) body) t body p corr = Inr st'"
    and prep: "prepare env st c body now = Inr p"
    by (rule commit_inversion [OF commit])
  obtain as where a: "db_audits st' = db_audits st @ as" using write_event_audits [OF w] by (auto simp: audited_def)
  have game: "find (game_named (acm_accountId c) (acm_gameId c)) (db_games st) = Some (pp_game p)" "gmr_revision (pp_game p) = acm_expectedRevision c"
    using prep by (auto simp: load_game_iff elim!: prepare_inversion)
  obtain body' t' p' where tables: "db_plays st' = db_plays st @ [new_play c (sv_digest env (acm_setupSnapshotId c) (acm_expectedRevision c) body') p']"
    "db_events st' = db_events st @ [new_event c (sv_digest env (acm_setupSnapshotId c) (acm_expectedRevision c) body') t' body' p']"
    "db_setups st' = db_setups st"
    and games: "db_games st' = map (\<lambda>g. if game_named (acm_accountId c) (acm_gameId c) g \<and> gmr_revision g = acm_expectedRevision c
      then g\<lparr>gmr_revision := acm_expectedRevision c + 1, gmr_status := Some (gs_status (pp_after p'))\<rparr> else g) (db_games st)"
    by (rule commit_tables [OF commit]) blast
  have "\<exists>y. find (game_named a g) (db_games st') = Some y \<and> gmr_revision x \<le> gmr_revision y"
    if x: "find (game_named a g) (db_games st) = Some x" for a g x
  proof (cases "(a, g) = (acm_accountId c, acm_gameId c)")
    case True
    with x game have "x = pp_game p" by simp
    with True advanced_game [OF game] game(2) show ?thesis unfolding games by simp
  next
    case False
    from other_game [OF False] x show ?thesis unfolding games by simp
  qed
  moreover have "map gmr_id (db_games st') = map gmr_id (db_games st)" unfolding games by (simp add: comp_def)
  ultimately show ?thesis using tables a by (auto simp: grows_def)
qed

lemma accept_cases:
  assumes "acceptInternal env None st c corr now = (res, st')"
  obtains "st' = st" | r where "res = Inr r" and "\<not> are_idempotentReplay r"
proof (cases res)
  case (Inr r)
  show ?thesis
  proof (cases "are_idempotentReplay r")
    case True
    have "st' = st"
      using assms Inr True by (auto simp: acceptInternal_def transaction_def Let_def result_simps
          split: sum.splits prod.splits option.splits tx_failure.splits)
    then show ?thesis using that by blast
  qed (use Inr that in blast)
qed (use assms refused_keeps that in blast)

lemma commit_store_ok:
  assumes ok: "store_ok st" and commit: "acceptInternal env abort st c corr now = (Inr r, st')" "\<not> are_idempotentReplay r"
  shows "store_ok st'"
proof -
  obtain body t p where tables: "db_plays st' = db_plays st @ [new_play c (sv_digest env (acm_setupSnapshotId c) (acm_expectedRevision c) body) p]"
      "db_events st' = db_events st @ [new_event c (sv_digest env (acm_setupSnapshotId c) (acm_expectedRevision c) body) t body p]"
      "db_setups st' = db_setups st"
    and fresh: "\<forall>q\<in>set (db_plays st). ptr_id q \<noteq> acm_playTransactionId c" "\<forall>q\<in>set (db_events st). ser_id q \<noteq> acm_eventId c"
    by (rule commit_tables [OF commit]) blast
  obtain b' t' p' where w: "write_event env st c (sv_digest env (acm_setupSnapshotId c) (acm_expectedRevision c) b') t' b' p' corr = Inr st'"
    by (rule commit_inversion [OF commit])
  obtain as where a: "db_audits st' = db_audits st @ as" "\<forall>a\<in>set as. aur_action a = ''game.correction.apply'' \<longrightarrow> aur_targetId a = acm_eventId c"
    using write_event_audits [OF w] by (auto simp: audited_def)
  have g: "map gmr_id (db_games st') = map gmr_id (db_games st)" using commit_grows [OF commit] by (simp add: grows_def)
  have j: "event_of_play (new_play c d p) (new_event c d t body p)" for d by (simp add: event_of_play_def new_play_def new_event_def)
  show ?thesis
    using ok tables fresh a g j unfolding store_ok_def
    by (auto simp: list_all_iff list_ex_iff new_play_def new_event_def)
qed

lemma other_game_kept:
  assumes ok: "store_ok st" and commit: "acceptInternal env abort st c corr now = (Inr r, st')" "\<not> are_idempotentReplay r"
    and other: "(a, g) \<noteq> (acm_accountId c, acm_gameId c)"
  shows "check_stored_game env st' a g = check_stored_game env st a g"
proof -
  obtain body t p where plays: "db_plays st' = db_plays st @ [new_play c (sv_digest env (acm_setupSnapshotId c) (acm_expectedRevision c) body) p]"
    and events: "db_events st' = db_events st @ [new_event c (sv_digest env (acm_setupSnapshotId c) (acm_expectedRevision c) body) t body p]"
    and setups: "db_setups st' = db_setups st"
    and games: "db_games st' = map (\<lambda>y. if game_named (acm_accountId c) (acm_gameId c) y \<and> gmr_revision y = acm_expectedRevision c
      then y\<lparr>gmr_revision := acm_expectedRevision c + 1, gmr_status := Some (gs_status (pp_after p))\<rparr> else y) (db_games st)"
    by (rule commit_tables [OF commit]) blast
  have g: "find (game_named a g) (db_games st') = find (game_named a g) (db_games st)" unfolding games by (rule other_game [OF other])
  have rows: "stored_rows st' a g sid = stored_rows st a g sid" for sid
    using other by (auto simp: stored_rows_def events new_event_def)
  have m: "map_res (mapSourceEvent env st' n) (stored_rows st a g sid) = map_res (mapSourceEvent env st n) (stored_rows st a g sid)" for n sid
    by (rule mapped_history_kept [OF ok set_stored_rows plays])
  show ?thesis unfolding check_stored_game_def g rows m loadSetup_kept [OF setups] by (rule refl)
qed

section \<open>Sequences of commands\<close>

type_synonym submission = "accept_command \<times> correction_context option \<times> int option"

definition accept_step :: "store_env \<Rightarrow> store \<Rightarrow> submission \<Rightarrow> event_error + store" where
  "accept_step env st x = (case x of (c, corr, now) \<Rightarrow> Inr (snd (acceptInternal env None st c corr now)))"

definition well_formed_submission :: "store \<Rightarrow> submission \<Rightarrow> bool" where
  "well_formed_submission st x = (case x of (c, corr, now) \<Rightarrow> command_ids_ok c \<and> ordinary_times c now)"

text \<open>A store whose games \<open>gs\<close> all load and verify.\<close>

definition sound_store :: "store_env \<Rightarrow> (ident \<times> ident) set \<Rightarrow> store \<Rightarrow> bool" where
  "sound_store env gs st \<longleftrightarrow> platform_ok env \<and> store_ok st \<and> (\<forall>(a, g)\<in>gs. is_ok (check_stored_game env st a g))"

lemma accept_sound:
  assumes inv: "sound_store env gs st" and "well_formed_submission st x" and step: "accept_step env st x = Inr st'"
  shows "sound_store env gs st'"
proof -
  obtain c corr now where x: "x = (c, corr, now)" by (cases x)
  obtain res where a: "acceptInternal env None st c corr now = (res, st')"
    using step x by (cases "acceptInternal env None st c corr now") (simp add: accept_step_def)
  have ok: "store_ok st" and env: "platform_ok env" using inv by (simp_all add: sound_store_def)
  show ?thesis
  proof (cases rule: accept_cases [OF a])
    case 1
    with inv show ?thesis by simp
  next
    case (2 r)
    have commit: "acceptInternal env None st c corr now = (Inr r, st')" using a 2 by simp
    have "is_ok (check_stored_game env st' (acm_accountId c) (acm_gameId c))"
      by (rule committed_history [OF ok env _ _ commit 2(2)])
        (use assms(2) x in \<open>auto simp: well_formed_submission_def\<close>)
    moreover have other: "check_stored_game env st' a g = check_stored_game env st a g" if "(a, g) \<noteq> (acm_accountId c, acm_gameId c)" for a g
      by (rule other_game_kept [OF ok commit 2(2) that])
    ultimately have "is_ok (check_stored_game env st' a g)" if "(a, g) \<in> gs" for a g
      using inv that other [of a g] by (cases "(a, g) = (acm_accountId c, acm_gameId c)") (auto simp: sound_store_def)
    then show ?thesis using env commit_store_ok [OF ok commit 2(2)] by (auto simp: sound_store_def)
  qed
qed

interpretation stores: reducer "accept_step env" well_formed_submission "sound_store env gs" for env gs
  by unfold_locales (rule accept_sound)

lemma accept_grows: "accept_step env st x = Inr st' \<Longrightarrow> grows st st'"
proof -
  assume step: "accept_step env st x = Inr st'"
  obtain c corr now where x: "x = (c, corr, now)" by (cases x)
  obtain res where a: "acceptInternal env None st c corr now = (res, st')"
    using step x by (cases "acceptInternal env None st c corr now") (simp add: accept_step_def)
  show "grows st st'"
    by (cases rule: accept_cases [OF a]) (use a commit_grows in \<open>auto\<close>)
qed

lemma run_grows: "run_to (accept_step env) ok st st' \<Longrightarrow> grows st st'"
  by (induction rule: run_to.induct) (auto intro: grows_trans accept_grows)

lemma run_store_ok:
  assumes "run_to (accept_step env) ok st st'" and "store_ok st"
  shows "store_ok st'"
  using assms
proof (induction rule: run_to.induct)
  case (run_step s t x u)
  obtain c corr now where x: "x = (c, corr, now)" by (cases x)
  obtain res where a: "acceptInternal env None t c corr now = (res, u)"
    using run_step x by (cases "acceptInternal env None t c corr now") (simp add: accept_step_def)
  show ?case by (cases rule: accept_cases [OF a]) (use a run_step commit_store_ok in auto)
qed

section \<open>A revision is given once\<close>

lemma revision_given_once:
  assumes c: "acceptInternal env None st c corr now = (Inr r, st1)" "\<not> are_idempotentReplay r"
    and run: "run_to (accept_step env) ok st1 st2"
    and d: "acceptInternal env None st2 d corr' now' = (Inr r', st3)" "\<not> are_idempotentReplay r'"
    and same: "acm_accountId d = acm_accountId c" "acm_gameId d = acm_gameId c"
  shows "acm_expectedRevision c < acm_expectedRevision d"
proof -
  obtain body t p where prep: "prepare env st c body now = Inr p" by (rule commit_inversion [OF c])
  obtain body' t' p' where prep': "prepare env st2 d body' now' = Inr p'" by (rule commit_inversion [OF d])
  have g: "find (game_named (acm_accountId c) (acm_gameId c)) (db_games st) = Some (pp_game p)" "gmr_revision (pp_game p) = acm_expectedRevision c"
    using prep by (auto simp: load_game_iff elim!: prepare_inversion)
  have g': "find (game_named (acm_accountId c) (acm_gameId c)) (db_games st2) = Some (pp_game p')" "gmr_revision (pp_game p') = acm_expectedRevision d"
    using prep' same by (auto simp: load_game_iff elim!: prepare_inversion)
  obtain q where games: "db_games st1 = map (\<lambda>y. if game_named (acm_accountId c) (acm_gameId c) y \<and> gmr_revision y = acm_expectedRevision c
      then y\<lparr>gmr_revision := acm_expectedRevision c + 1, gmr_status := q\<rparr> else y) (db_games st)"
    by (rule commit_tables [OF c]) blast
  have "find (game_named (acm_accountId c) (acm_gameId c)) (db_games st1) =
      Some (pp_game p\<lparr>gmr_revision := acm_expectedRevision c + 1, gmr_status := q\<rparr>)"
    unfolding games by (rule advanced_game [OF g])
  then have "acm_expectedRevision c + 1 \<le> gmr_revision (pp_game p')"
    using run_grows [OF run] g'(1) unfolding grows_def by fastforce
  with g'(2) show ?thesis by simp
qed

section \<open>A repeated submission\<close>

lemma repeated_parts:
  assumes ok: "store_ok st" and env: "platform_ok env" and ids: "command_ids_ok c" and times: "ordinary_times c now"
    and commit: "acceptInternal env None st c corr now = (Inr r, st1)" "\<not> are_idempotentReplay r"
    and audit: "corr \<noteq> None \<longrightarrow> (\<exists>x. acm_body c = Shaped (CorrectionApplied x))"
    and grow: "grows st1 st2"
  obtains body t p row su where "check_command c = Inr (body, t)" and "prior_play st2 c = Some p"
    and "ptr_payloadHash p = sv_digest env (acm_setupSnapshotId c) (acm_expectedRevision c) body"
    and "prior_event st2 p = Inr row" and "check_prior_audit st2 c corr row = Inr ()"
    and "loadSetup env st2 (acm_accountId c) (acm_gameId c) (ptr_setupSnapshotId p) = Inr su"
    and "mapSourceEvent env st2 (su_setupRevision su) row = Inr (stored_form (are_event r))"
proof -
  obtain body t p where b: "check_command c = Inr (body, t)" and none: "prior_play st c = None" and prep: "prepare env st c body now = Inr p"
    and plays: "db_plays st1 = db_plays st @ [new_play c (sv_digest env (acm_setupSnapshotId c) (acm_expectedRevision c) body) p]"
    and events: "db_events st1 = db_events st @ [new_event c (sv_digest env (acm_setupSnapshotId c) (acm_expectedRevision c) body) t body p]"
    and setups: "db_setups st1 = db_setups st"
    and fresh: "\<forall>q\<in>set (db_plays st). ptr_id q \<noteq> acm_playTransactionId c" "\<forall>q\<in>set (db_events st). ser_id q \<noteq> acm_eventId c"
    by (rule commit_tables [OF commit]) blast
  let ?d = "sv_digest env (acm_setupSnapshotId c) (acm_expectedRevision c) body"
  let ?play = "new_play c ?d p" and ?row = "new_event c ?d t body p"
  obtain ps es where more: "db_plays st2 = db_plays st1 @ ps" "db_events st2 = db_events st1 @ es" "db_setups st2 = db_setups st1"
    and "\<exists>as. db_audits st2 = db_audits st1 @ as"
    using grow by (auto simp: grows_def)
  then obtain as where more_audits: "db_audits st2 = db_audits st1 @ as" by blast
  obtain su body' p' where su: "loadSetup env st1 (acm_accountId c) (acm_gameId c) (acm_setupSnapshotId c) = Inr su"
    and same: "check_command c = Inr (body', the (date_parse (acm_recordedAt c)))" "prepare env st c body' now = Inr p'"
    and rd: "mapSourceEvent env st1 (su_setupRevision su) (new_event c (sv_digest env (acm_setupSnapshotId c) (acm_expectedRevision c) body')
      (the (date_parse (acm_recordedAt c))) body' p') = Inr (stored_form (are_event r))"
    by (rule committed_history [OF ok env ids times commit]) blast
  have eq: "body' = body" "t = the (date_parse (acm_recordedAt c))" "p' = p" using same b prep by auto
  have ok1: "store_ok st1" by (rule commit_store_ok [OF ok commit])
  have prior: "prior_play st2 c = Some ?play"
    using none unfolding prior_play_def more plays by (simp add: find_append submission_of_def new_play_def actor_of_def)
  have no_event: "find (event_of_play ?play) (db_events st) = None"
    using ok fresh(1) by (force simp: find_None_iff store_ok_def list_all_iff list_ex_iff event_of_play_def new_play_def)
  have ev: "prior_event st2 ?play = Inr ?row"
    unfolding prior_event_def more events
    by (simp add: find_append no_event) (simp add: event_of_play_def new_play_def new_event_def)
  have audit_ok: "check_prior_audit st2 c corr ?row = Inr ()"
  proof (cases corr)
    case (Some ctx)
    then obtain x where "acm_body c = Shaped (CorrectionApplied x)" using audit by blast
    then have body: "body = CorrectionApplied (trim_correction x)"
      using check_command_Inr(1) [OF b] by (auto simp: parseEventBody_Shaped_Inr_iff simp del: parseEventBody.simps)
    obtain b2 t2 p2 where w: "write_event env st c (sv_digest env (acm_setupSnapshotId c) (acm_expectedRevision c) b2) t2 b2 p2 corr = Inr st1"
      and c2: "check_command c = Inr (b2, t2)" by (rule commit_inversion [OF commit])
    have b2: "b2 = body" using c2 b by simp
    obtain i where i: "db_audits st1 = db_audits st @ [\<lparr>aur_id = i, aur_accountId = acm_accountId c, aur_actor = actor_of (acm_actor c),
            aur_action = ''game.correction.apply'', aur_capability = ''game.correct'', aur_targetType = ''Correction'',
            aur_targetId = acm_eventId c, aur_outcome = ''SUCCEEDED'', aur_reasonCode = Some (co_reasonCode (trim_correction x)),
            aur_correlationId = Some (cc_correlationId ctx), aur_revisions = (acm_expectedRevision c, acm_expectedRevision c + 1),
            aur_details = Correction_evidence (correction_evidence_of c (trim_correction x) p2 ctx), aur_createdAt = pp_acceptedAt p2\<rparr>]"
      using write_event_audits [OF w] Some body b2 by (auto simp: audited_def)
    have "find (correction_audit_of (acm_accountId c) (acm_eventId c)) (db_audits st) = None"
      using ok fresh(2) by (force simp: find_None_iff store_ok_def list_all_iff correction_audit_of_def)
    then show ?thesis using Some unfolding check_prior_audit_def more_audits i
      by (simp add: find_append new_event_def correction_audit_of_def)
  qed (simp add: check_prior_audit_def)
  have "loadSetup env st2 (acm_accountId c) (acm_gameId c) (ptr_setupSnapshotId ?play) = Inr su"
    using su loadSetup_kept [OF more(3)] by (simp add: new_play_def)
  moreover have "mapSourceEvent env st2 (su_setupRevision su) ?row = Inr (stored_form (are_event r))"
    using mapped_kept [OF ok1 _ more(1), of ?row] rd events eq by simp
  ultimately show ?thesis using that b prior ev audit_ok by (auto simp: new_play_def)
qed

lemma resubmission:
  assumes ok: "store_ok st" and env: "platform_ok env" and ids: "command_ids_ok c" and times: "ordinary_times c now"
    and commit: "acceptInternal env None st c corr now = (Inr r, st1)" "\<not> are_idempotentReplay r"
    and audit: "corr \<noteq> None \<longrightarrow> (\<exists>x. acm_body c = Shaped (CorrectionApplied x))"
    and run: "run_to (accept_step env) adm st1 st2"
  shows "acceptInternal env None st2 c corr now' = (Inr (repeated (stored_form (are_event r))), st2)"
    and "acceptInternal env (Some st2) st0 c corr now' = (Inr (repeated (stored_form (are_event r))), st2)"
proof -
  obtain body t p row su where b: "check_command c = Inr (body, t)" and prior: "prior_play st2 c = Some p"
    and d: "ptr_payloadHash p = sv_digest env (acm_setupSnapshotId c) (acm_expectedRevision c) body"
    and ev: "prior_event st2 p = Inr row" "check_prior_audit st2 c corr row = Inr ()"
    and su: "loadSetup env st2 (acm_accountId c) (acm_gameId c) (ptr_setupSnapshotId p) = Inr su"
    and m: "mapSourceEvent env st2 (su_setupRevision su) row = Inr (stored_form (are_event r))"
    by (rule repeated_parts [OF ok env ids times commit audit run_grows [OF run]])
  show "acceptInternal env None st2 c corr now' = (Inr (repeated (stored_form (are_event r))), st2)"
    using b prior d ev su m by (simp add: acceptInternal_def transaction_def replay_prior_def Let_def)
  obtain sr where "find (setup_row_named (acm_accountId c) (acm_gameId c) (ptr_setupSnapshotId p)) (db_setups st2) = Some sr"
    "su_setupRevision su = sur_setupRevision sr" by (rule loadSetup_Inr [OF su]) blast
  then show "acceptInternal env (Some st2) st0 c corr now' = (Inr (repeated (stored_form (are_event r))), st2)"
    using b prior d ev m by (simp add: acceptInternal_def recover_def recover_prior_def Let_def)
qed

text \<open>The same key with a command of another digest is refused.\<close>

lemma other_input_refused:
  assumes prior: "prior_play st c = Some p" and b: "check_command c = Inr (body, t)"
    and other: "ptr_payloadHash p \<noteq> sv_digest env (acm_setupSnapshotId c) (acm_expectedRevision c) body"
  shows "acceptInternal env None st c corr now = (Inl DUPLICATE_IDEMPOTENCY_KEY, st)"
  using assms by (simp add: acceptInternal_def transaction_def replay_prior_def Let_def)

section \<open>Preferences that block a game\<close>

text \<open>A notification preference of the account that no minute of the day can satisfy.\<close>

definition blocking_preference :: "ident \<Rightarrow> webhook_event \<Rightarrow> preference_row \<Rightarrow> bool" where
  "blocking_preference accountId n r \<longleftrightarrow>
     np_accountId (npr_preference r) = accountId \<and> npr_status r = Preference_ACTIVE \<and> npr_membershipActive r \<and>
     \<not> np_sensitiveContent (npr_preference r) \<and> np_recipientEnabled (npr_preference r) \<and>
     n \<in> set (np_subscribedEvents (npr_preference r)) \<and>
     np_teamId (npr_preference r) = None \<and> np_fantasyLeagueId (npr_preference r) = None \<and> quiet_digest (np_settings (npr_preference r))"

lemma blocked_outbox:
  assumes "r \<in> set (db_preferences st)" and "blocking_preference (oi_accountId i) (oi_eventName i) r"
  shows "\<exists>e. enqueueWebhookEvent env st i = Inl e"
  by (rule quiet_digest_blocks [OF assms(1)])
    (use assms(2) in \<open>auto simp: blocking_preference_def notified_def scope_covers_def\<close>)

fun announced :: "event_body \<Rightarrow> webhook_event option" where
  "announced (GameCompleted _ _) = Some GAME_COMPLETED"
| "announced GameVerified = Some GAME_VERIFIED"
| "announced (CorrectionApplied _) = Some GAME_CORRECTED"
| "announced _ = None"

lemma outbox_announces:
  assumes "announced body = Some n"
  obtains i rest where "outbox_inputs st c body p corr = i # rest" and "oi_accountId i = acm_accountId c" and "oi_eventName i = n"
  using assms by (cases body) (auto simp: outbox_inputs_def outbox_input_for_def)

lemma blocked_event:
  assumes pref: "r \<in> set (db_preferences st)" and block: "blocking_preference (acm_accountId c) n r"
    and body: "parseEventBody (acm_body c) event_schema_version = Inr body" "announced body = Some n"
    and res: "acceptInternal env None st c corr now = (Inr x, st')"
  shows "are_idempotentReplay x"
proof (rule ccontr)
  assume new: "\<not> are_idempotentReplay x"
  obtain b t p where b: "check_command c = Inr (b, t)"
    and w: "write_event env st c (sv_digest env (acm_setupSnapshotId c) (acm_expectedRevision c) b) t b p corr = Inr st'"
    by (rule commit_inversion [OF res new])
  have bb: "b = body" using check_command_Inr(1) [OF b] body(1) by simp
  obtain st4 where prefs: "db_preferences st4 = db_preferences st"
    and out: "fold_res (enqueueWebhookEvent env) st4 (outbox_inputs st4 c b p corr) = Inr st'"
    by (rule write_event_inversion [OF w]) blast
  obtain i rest where i: "outbox_inputs st4 c b p corr = i # rest" "oi_accountId i = acm_accountId c" "oi_eventName i = n"
    using outbox_announces [OF body(2)] bb by metis
  obtain e where "enqueueWebhookEvent env st4 i = Inl e" using blocked_outbox [of r st4 i env] pref block prefs i by auto
  with out i(1) show False by simp
qed

end
