(* ===== verification/Sample_Store.thy ===== *)
theory Sample_Store
  imports Sample_Desk Store_Invariants
begin

text \<open>
  The sample game in a store: its setup snapshot, one user and one subscribed endpoint, and the command that
  starts the game.
\<close>

definition sample_slot :: "ident \<Rightarrow> lineup_entry \<Rightarrow> bool \<Rightarrow> lineup_slot_row" where
  "sample_slot team e pitcher = \<lparr>lsr_id = ''slot-'' @ le_playerId e, lsr_gameTeamSnapshotId = team, lsr_playerId = Some (le_playerId e),
     lsr_battingOrder = le_battingOrder e, lsr_defensivePosition = le_position e, lsr_isStartingPitcher = pitcher\<rparr>"

definition sample_slot_rows :: "game_side \<Rightarrow> ident \<Rightarrow> lineup_slot_row list" where
  "sample_slot_rows sd team = map (\<lambda>e. sample_slot team e (le_playerId e = ss_startingPitcherId (su_sides sample_setup sd)))
     (ss_lineup (su_sides sample_setup sd))"

definition sample_setup_row :: setup_row where
  "sample_setup_row = \<lparr>sur_id = ''s'', sur_accountId = ''a'', sur_gameId = ''g'', sur_setupRevision = 1, sur_rulesetVersionId = ''r'',
     sur_scheduledInnings = 9, sur_teamSnapshots = [\<lparr>tsr_id = ''th'', tsr_side = HOME\<rparr>, \<lparr>tsr_id = ''ta'', tsr_side = AWAY\<rparr>],
     sur_lineupSlots = sample_slot_rows HOME ''th'' @ sample_slot_rows AWAY ''ta''\<rparr>"

definition sample_game_row :: game_row where
  "sample_game_row = \<lparr>gmr_id = ''g'', gmr_externalId = ''game'', gmr_accountId = ''a'', gmr_seasonExternalId = ''season'',
     gmr_teamId = ''t'', gmr_teamExternalId = ''team'', gmr_status = Some READY, gmr_revision = 0, gmr_setupRevision = 1,
     gmr_readySetupSnapshotId = Some ''s''\<rparr>"

definition sample_endpoint :: endpoint_row where
  "sample_endpoint = \<lparr>wpr_id = ''hook'', wpr_accountId = ''a'', wpr_status = Endpoint_ACTIVE,
     wpr_subscribedEvents = [GAME_COMPLETED, GAME_CORRECTED], wpr_secretVersion = 1\<rparr>"

definition sample_store :: store where
  "sample_store = \<lparr>db_games = [sample_game_row], db_setups = [sample_setup_row], db_plays = [], db_events = [], db_corrections = [],
     db_audits = [], db_checkpoints = [], db_overlays = [], db_outbox = [], db_endpoints = [sample_endpoint], db_deliveries = [],
     db_preferences = [], db_notifications = [], db_teams = [\<lparr>exr_id = ''t'', exr_accountId = ''a'', exr_externalId = ''team''\<rparr>],
     db_fantasyLeagues = [], db_users = [''u'']\<rparr>"

definition sample_webhook_env :: webhook_env where
  "sample_webhook_env = \<lparr>we_uuid = (\<lambda>_. True), we_hmac = (\<lambda>k m. k @ m), we_key_length = (\<lambda>k. int (length k)),
     we_derive_key = (\<lambda>k m. k @ m), we_parse_url = (\<lambda>_. None), we_is_ip = (\<lambda>_. 0)\<rparr>"

definition sample_clock :: notification_env where
  "sample_clock = \<lparr>ne_valid_zone = (\<lambda>_. True), ne_local_minute = (\<lambda>_ t. (t div 60000) mod 1440)\<rparr>"

definition sample_store_env :: store_env where
  "sample_store_env = \<lparr>sv_stateHash = (\<lambda>_. sample_digest), sv_digest = (\<lambda>s n b. s @ string_of_int n @ event_type_name b),
     sv_isoDatetime = (\<lambda>_. True), sv_collation = (\<lambda>i. i), sv_newId = (\<lambda>n. ''row'' @ string_of_int (int n)),
     sv_conflictTarget = (\<lambda>_. ''id''), sv_webhooks = sample_webhook_env, sv_notifications = sample_clock\<rparr>"

definition sample_validated :: "string \<Rightarrow> validated_actor" where
  "sample_validated capability = \<lparr>va_accountId = ''a'', va_actorId = ''u'', va_actorKind = USER, va_actorUserId = Some ''u'',
     va_capability = capability, va_scopeKind = ''GAME'', va_scopeGameId = ''g'', va_authorizedAt = ''2026-04-01T17:59:00.000Z''\<rparr>"

definition sample_submission :: "ident \<Rightarrow> int \<Rightarrow> string \<Rightarrow> event_body \<Rightarrow> accept_command" where
  "sample_submission i n capability body = \<lparr>acm_accountId = ''a'', acm_gameId = ''g'', acm_setupSnapshotId = ''s'',
     acm_expectedRevision = n, acm_eventId = i, acm_playTransactionId = ''play-'' @ i, acm_clientSubmissionId = ''key-'' @ i,
     acm_recordedAt = ''2026-04-01T18:00:00Z'', acm_actor = sample_validated capability, acm_body = Shaped body\<rparr>"

definition start_command :: accept_command where
  "start_command = sample_submission ''e1'' 0 ''game.start'' GameStarted"

text \<open>The store after the start, and a command that ends the game by forfeit.\<close>

definition accepted :: "(event_error + accepted_result) \<times> store \<Rightarrow> bool" where
  "accepted x = (case fst x of Inr r \<Rightarrow> \<not> are_idempotentReplay r | Inl _ \<Rightarrow> False)"

definition result_in :: "(event_error + accepted_result) \<times> store \<Rightarrow> accepted_result" where
  "result_in x = (case fst x of Inr r \<Rightarrow> r)"

lemma accepted_result: "accepted x \<Longrightarrow> x = (Inr (result_in x), snd x) \<and> \<not> are_idempotentReplay (result_in x)"
  by (cases x) (auto simp: accepted_def result_in_def split: sum.splits)

definition sample_accept :: "store \<Rightarrow> accept_command \<Rightarrow> (event_error + accepted_result) \<times> store" where
  "sample_accept st c = acceptInternal sample_store_env None st c None (Some 1775066400000)"

definition started_store :: store where
  "started_store = snd (sample_accept sample_store start_command)"

definition forfeit_command :: accept_command where
  "forfeit_command = sample_submission ''e2'' 1 ''game.score'' (GameCompleted ''RAIN'' FORFEIT)"

definition early_digest :: preference_row where
  "early_digest = \<lparr>npr_id = ''p'', npr_status = Preference_ACTIVE, npr_membershipActive = True, npr_preference =
     \<lparr>np_accountId = ''a'', np_membershipId = ''m'', np_teamId = None, np_fantasyLeagueId = None, np_channel = EMAIL,
      np_destinationReference = ''mail'', np_subscribedEvents = [GAME_COMPLETED], np_sensitiveContent = False,
      np_recipientEnabled = True, np_settings = \<lparr>nd_digestMode = DAILY_DIGEST, nd_digestMinute = 360, nd_timeZone = ''UTC'',
        nd_quietHoursEnabled = True, nd_quietStartMinute = 1320, nd_quietEndMinute = 420\<rparr>\<rparr>\<rparr>"

text \<open>The preference as it is given, with its digest in the evening.\<close>

definition night_digest :: preference_input where
  "night_digest = \<lparr>pi_accountId = ''a'', pi_membershipId = ''m'', pi_teamId = None, pi_fantasyLeagueId = None, pi_channel = EMAIL,
     pi_destinationReference = ''mail'', pi_subscribedEvents = [GAME_COMPLETED], pi_sensitiveContent = None, pi_recipientEnabled = None,
     pi_digestMode = Some DAILY_DIGEST, pi_digestMinute = Some 1200, pi_timeZone = None, pi_quietHoursEnabled = Some True,
     pi_quietStartMinute = None, pi_quietEndMinute = None\<rparr>"

lemma start_accepted: "accepted (sample_accept sample_store start_command)"
  by code_simp

lemma forfeit_accepted: "accepted (sample_accept started_store forfeit_command)"
  by code_simp

lemmas started = accepted_result [OF start_accepted, folded started_store_def, unfolded sample_accept_def]

lemma sample_platform: "platform_ok sample_store_env"
  by (simp add: platform_ok_def sample_store_env_def digest_ok)

lemma sample_store_ok: "store_ok sample_store"
  by code_simp

lemma sample_game_checks: "is_ok (check_stored_game sample_store_env sample_store ''a'' ''g'')"
  by code_simp

lemma sample_sound: "sound_store sample_store_env {(''a'', ''g'')} sample_store"
  by (simp add: sound_store_def sample_platform sample_store_ok sample_game_checks)

lemma start_well_formed: "command_ids_ok start_command" "ordinary_times start_command (Some 1775066400000)"
  by code_simp+

lemma started_run: "run_to (accept_step sample_store_env) well_formed_submission sample_store started_store"
  by (rule run_step [OF run_start, where i = "(start_command, None, Some 1775066400000)"])
    (simp_all add: well_formed_submission_def start_well_formed accept_step_def started_store_def sample_accept_def)

end
