(* ===== verification/Club_Tables.thy ===== *)
theory Club_Tables
  imports Event_Tables
begin

text \<open>
  The tables of an organisation: teams, seasons, the participation of a team in a season, players,
  the periods of a player on a roster, rulesets, games and their setup snapshots, as
  \<open>prisma/schema.prisma\<close> and its migrations declare them.  The repositories of
  the management of rosters and of the setup of games work on them.  The rows of sides and lineup slots extend those that
  the repository of game events reads.
\<close>

datatype team_status = Team_ACTIVE | Team_ARCHIVED
datatype season_status = Season_DRAFT | Season_ACTIVE | Season_COMPLETED | Season_ARCHIVED
datatype roster_status = Roster_ACTIVE | Roster_INACTIVE | Roster_ARCHIVED
datatype batting_side = Bats_LEFT | Bats_RIGHT | Bats_SWITCH
datatype throwing_hand = Throws_LEFT | Throws_RIGHT
datatype weather_condition = CLEAR | PARTLY_CLOUDY | CLOUDY | LIGHT_RAIN | RAIN | WINDY | INDOOR

record team_row =
  tmr_id :: ident
  tmr_accountId :: ident
  tmr_displayName :: string
  tmr_color :: "string option"
  tmr_status :: team_status
  tmr_revision :: int
  tmr_archivedAt :: "int option"

record season_row =
  snr_id :: ident
  snr_accountId :: ident
  snr_displayName :: string
  snr_startsOn :: "int option"
  snr_endsOn :: "int option"
  snr_status :: season_status
  snr_revision :: int
  snr_archivedAt :: "int option"

record participation_row =
  par_id :: ident
  par_accountId :: ident
  par_teamId :: ident
  par_seasonId :: ident
  par_revision :: int
  par_archivedAt :: "int option"

record player_row =
  plr_id :: ident
  plr_accountId :: ident
  plr_displayName :: string
  plr_battingSide :: "batting_side option"
  plr_throwingHand :: "throwing_hand option"
  plr_revision :: int
  plr_archivedAt :: "int option"

record roster_row =
  rer_id :: ident
  rer_accountId :: ident
  rer_playerId :: ident
  rer_teamSeasonId :: ident
  rer_jerseyNumber :: "string option"
  rer_primaryPosition :: "position option"
  rer_status :: roster_status
  rer_startsAt :: int
  rer_endsAt :: "int option"
  rer_revision :: int
  rer_archivedAt :: "int option"

text \<open>The configuration of a ruleset, where it has the shape that a setup reads.\<close>

record ruleset_configuration =
  rcf_scheduledInnings :: int
  rcf_maximumLineupSize :: "int option"
  rcf_allowDefensiveOnly :: "bool option"

record ruleset_row =
  rsr_id :: ident
  rsr_accountId :: ident
  rsr_active :: bool
  rsr_configuration :: "ruleset_configuration option"

record club_game_row =
  cgr_id :: ident
  cgr_accountId :: ident
  cgr_seasonId :: ident
  cgr_teamSeasonId :: ident
  cgr_status :: "game_status option"
  cgr_revision :: int
  cgr_setupRevision :: int
  cgr_readySetupSnapshotId :: "ident option"
  cgr_scheduledAt :: "int option"
  cgr_location :: "string option"
  cgr_weatherCondition :: "weather_condition option"
  cgr_temperatureF :: "int option"

record side_snapshot_row = team_snapshot_row +
  gts_teamId :: "ident option"
  gts_teamSeasonId :: "ident option"
  gts_displayName :: string
  gts_isAccountTeam :: bool

record slot_snapshot_row = lineup_slot_row +
  lss_rosterEntryId :: "ident option"
  lss_displayName :: string
  lss_jerseyNumber :: "string option"

record setup_snapshot_row =
  gsr_id :: ident
  gsr_accountId :: ident
  gsr_gameId :: ident
  gsr_setupRevision :: int
  gsr_rulesetVersionId :: ident
  gsr_scheduledAt :: "int option"
  gsr_location :: "string option"
  gsr_weatherCondition :: "weather_condition option"
  gsr_temperatureF :: "int option"
  gsr_scheduledInnings :: int
  gsr_createdByActorId :: "ident option"
  gsr_clientSubmissionId :: "ident option"
  gsr_payloadHash :: "string option"
  gsr_teamSnapshots :: "side_snapshot_row list"
  gsr_lineupSlots :: "slot_snapshot_row list"

datatype club_metadata = No_metadata | Meta_revisions int int | Meta_statuses season_status season_status
  | Meta_replaced ident int | Meta_setup ident int

record club_audit_row =
  cau_accountId :: ident
  cau_actor :: event_actor
  cau_action :: string
  cau_capability :: string
  cau_targetType :: string
  cau_targetId :: ident
  cau_metadata :: club_metadata

record club =
  cb_accounts :: "ident list"
  cb_users :: "ident list"
  cb_teams :: "team_row list"
  cb_seasons :: "season_row list"
  cb_participations :: "participation_row list"
  cb_players :: "player_row list"
  cb_rosters :: "roster_row list"
  cb_rulesets :: "ruleset_row list"
  cb_games :: "club_game_row list"
  cb_setups :: "setup_snapshot_row list"
  cb_audits :: "club_audit_row list"

text \<open>The time of a transaction and the ids that it generates.\<close>

record club_env =
  cv_now :: int
  cv_newId :: "nat \<Rightarrow> ident"
  cv_collation :: "string \<Rightarrow> string"

section \<open>Reading and writing rows\<close>

text \<open>\<open>findUnique\<close> by \<open>accountId_id\<close>\<close>

definition team_of :: "club \<Rightarrow> ident \<Rightarrow> ident \<Rightarrow> team_row option" where
  "team_of st a i = find (\<lambda>r. tmr_accountId r = a \<and> tmr_id r = i) (cb_teams st)"

definition season_of :: "club \<Rightarrow> ident \<Rightarrow> ident \<Rightarrow> season_row option" where
  "season_of st a i = find (\<lambda>r. snr_accountId r = a \<and> snr_id r = i) (cb_seasons st)"

definition participation_of :: "club \<Rightarrow> ident \<Rightarrow> ident \<Rightarrow> participation_row option" where
  "participation_of st a i = find (\<lambda>r. par_accountId r = a \<and> par_id r = i) (cb_participations st)"

definition player_of :: "club \<Rightarrow> ident \<Rightarrow> ident \<Rightarrow> player_row option" where
  "player_of st a i = find (\<lambda>r. plr_accountId r = a \<and> plr_id r = i) (cb_players st)"

definition roster_of :: "club \<Rightarrow> ident \<Rightarrow> ident \<Rightarrow> roster_row option" where
  "roster_of st a i = find (\<lambda>r. rer_accountId r = a \<and> rer_id r = i) (cb_rosters st)"

definition ruleset_of :: "club \<Rightarrow> ident \<Rightarrow> ident \<Rightarrow> ruleset_row option" where
  "ruleset_of st a i = find (\<lambda>r. rsr_accountId r = a \<and> rsr_id r = i) (cb_rulesets st)"

definition club_game_of :: "club \<Rightarrow> ident \<Rightarrow> ident \<Rightarrow> club_game_row option" where
  "club_game_of st a i = find (\<lambda>r. cgr_accountId r = a \<and> cgr_id r = i) (cb_games st)"

definition snapshot_of :: "club \<Rightarrow> ident \<Rightarrow> ident \<Rightarrow> ident \<Rightarrow> setup_snapshot_row option" where
  "snapshot_of st a g i = find (\<lambda>r. gsr_accountId r = a \<and> gsr_gameId r = g \<and> gsr_id r = i) (cb_setups st)"

text \<open>The team and the season of a participation are active and open.\<close>

definition open_season :: "season_status \<Rightarrow> bool" where
  "open_season s \<longleftrightarrow> s = Season_DRAFT \<or> s = Season_ACTIVE"

text \<open>The parents of a participation, joined by its foreign keys.\<close>

definition team_active :: "club \<Rightarrow> participation_row \<Rightarrow> bool" where
  "team_active st p \<longleftrightarrow> (case team_of st (par_accountId p) (par_teamId p) of Some t \<Rightarrow> tmr_status t = Team_ACTIVE | None \<Rightarrow> False)"

definition season_open :: "club \<Rightarrow> participation_row \<Rightarrow> bool" where
  "season_open st p \<longleftrightarrow>
     (case season_of st (par_accountId p) (par_seasonId p) of Some s \<Rightarrow> open_season (snr_status s) | None \<Rightarrow> False)"

text \<open>
  What ends a transaction: an error of the repository, a violated unique or exclusion constraint, a
  missing parent of a foreign key, a conflict of serialization, or any other failure of the database.
\<close>

datatype 'e club_failure = Refused 'e | Unique_key string | Overlapping_periods | Missing_parent | Serialization_conflict
  | Other_db_failure

text \<open>\<open>updateMany\<close>: the number of rows that match, and the table with those changed.\<close>

definition update_many :: "('r \<Rightarrow> bool) \<Rightarrow> ('r \<Rightarrow> 'r) \<Rightarrow> 'r list \<Rightarrow> nat \<times> 'r list" where
  "update_many P f rows = (length (filter P rows), map (\<lambda>r. if P r then f r else r) rows)"

text \<open>A new row with a primary key.\<close>

definition insert_row :: "string \<Rightarrow> ('r \<Rightarrow> ident) \<Rightarrow> 'r \<Rightarrow> 'r list \<Rightarrow> 'e club_failure + 'r list" where
  "insert_row table key r rows =
     and_then (require (key r \<notin> key ` set rows) (Unique_key table)) (\<lambda>_. Inr (rows @ [r]))"

definition user_known :: "club \<Rightarrow> event_actor \<Rightarrow> bool" where
  "user_known st a = (case ac_userId a of None \<Rightarrow> True | Some u \<Rightarrow> u \<in> set (cb_users st))"

definition write_club_audit ::
    "ident \<Rightarrow> event_actor \<Rightarrow> string \<Rightarrow> string \<Rightarrow> string \<Rightarrow> ident \<Rightarrow> club_metadata \<Rightarrow> club \<Rightarrow> 'e club_failure + club" where
  "write_club_audit accountId actor capability action targetType targetId metadata st =
     and_then (require (accountId \<in> set (cb_accounts st) \<and> user_known st actor) Missing_parent) (\<lambda>_.
       Inr (st\<lparr>cb_audits := cb_audits st @ [\<lparr>cau_accountId = accountId, cau_actor = actor, cau_action = action,
         cau_capability = capability, cau_targetType = targetType, cau_targetId = targetId, cau_metadata = metadata\<rparr>]\<rparr>))"

text \<open>A transaction commits its store or leaves the old one; a serialization conflict is decided by the database.\<close>

definition transact ::
    "('e club_failure \<Rightarrow> 'e) \<Rightarrow> bool \<Rightarrow> (club \<Rightarrow> 'e club_failure + ('a \<times> club)) \<Rightarrow> club \<Rightarrow> ('e + 'a) \<times> club" where
  "transact translate conflict body st =
     (if conflict then (Inl (translate Serialization_conflict), st)
      else case body st of Inl e \<Rightarrow> (Inl (translate e), st) | Inr (r, st') \<Rightarrow> (Inr r, st'))"

section \<open>Instants\<close>

text \<open>A comparison with an invalid date is false; a column does not take one.\<close>

definition instant_le :: "int option \<Rightarrow> int \<Rightarrow> bool" where
  "instant_le a b = (case a of Some x \<Rightarrow> x \<le> b | None \<Rightarrow> False)"

definition valid_instant :: "int option \<Rightarrow> 'e club_failure + int" where
  "valid_instant a = (case a of Some x \<Rightarrow> Inr x | None \<Rightarrow> Inl Other_db_failure)"

section \<open>Labels and numbers of the schemas\<close>

text \<open>\<open>replace(/\s+/g, " ")\<close>\<close>

fun squash_from :: "bool \<Rightarrow> string \<Rightarrow> string" where
  "squash_from after_space [] = []"
| "squash_from after_space (c # cs) =
     (if js_space c then (if after_space then squash_from True cs else CHR '' '' # squash_from True cs)
      else c # squash_from False cs)"

definition squash :: "string \<Rightarrow> string" where
  "squash s = squash_from False s"

definition label_length :: "nat \<Rightarrow> string \<Rightarrow> bool" where
  "label_length n s \<longleftrightarrow> 1 \<le> length s \<and> length s \<le> n"

definition jersey_ok :: "string \<Rightarrow> bool" where
  "jersey_ok s = (case s of
     [c] \<Rightarrow> digit c
   | [c, d] \<Rightarrow> (c = CHR ''0'' \<and> d = CHR ''0'') \<or> (digit c \<and> c \<noteq> CHR ''0'' \<and> digit d)
   | _ \<Rightarrow> False)"

definition optional :: "('a \<Rightarrow> bool) \<Rightarrow> 'a option \<Rightarrow> bool" where
  "optional P x = (case x of None \<Rightarrow> True | Some v \<Rightarrow> P v)"

text \<open>Reading an input: it is trimmed, checked, and then its labels are normalised; \<open>None\<close> is an input without the shape of the schema.\<close>

definition parse_input :: "'e \<Rightarrow> ('c \<Rightarrow> 'c) \<Rightarrow> ('c \<Rightarrow> bool) \<Rightarrow> ('c \<Rightarrow> 'c) \<Rightarrow> 'c option \<Rightarrow> 'e + 'c" where
  "parse_input err trims ok normal raw =
     (case raw of None \<Rightarrow> Inl err | Some r \<Rightarrow> (let c = trims r in and_then (require (ok c) err) (\<lambda>_. Inr (normal c))))"

lemma parse_input_Inr: "parse_input err trims ok normal raw = Inr c \<longleftrightarrow> (\<exists>r. raw = Some r \<and> ok (trims r) \<and> c = normal (trims r))"
  by (auto simp: parse_input_def Let_def result_simps split: option.splits)

end
