(* ===== verification/Club_Management.thy ===== *)
theory Club_Management
  imports Club_Tables
begin

text \<open>
  The management of teams, seasons, players and rosters: the schemas, the errors and the checks of the actor of
  \<open>src/domain/management/team-season-roster.ts\<close>, and the transactions of
  \<open>src/server/data/team-season-roster-repository.ts\<close>.
\<close>

datatype management_error = MG_NOT_FOUND_OR_INACCESSIBLE | MG_ACCOUNT_MISMATCH | MG_INVALID_INPUT | MG_LIFECYCLE_CONFLICT
  | MG_DUPLICATE_ACTIVE_RELATIONSHIP | MG_STALE_REVISION | MG_IMMUTABLE_HISTORY_CONFLICT | MG_AUTHORIZATION_REQUIRED
  | MG_PERSISTENCE_CONFLICT | MG_INTERNAL_INVARIANT_FAILURE

section \<open>Actors\<close>

datatype actor_scope = On_ACCOUNT | On_TEAM ident | On_SEASON ident | On_GAME ident

record scoped_actor =
  sac_accountId :: ident
  sac_actorId :: ident
  sac_actorKind :: actor_kind
  sac_actorUserId :: "ident option"
  sac_membershipId :: "ident option"
  sac_capability :: string
  sac_scope :: actor_scope
  sac_authorizedAt :: string

definition managementCapabilities :: "string list" where
  "managementCapabilities = [''team.view'', ''team.manage'', ''season.view'', ''season.manage'', ''roster.view'', ''roster.manage'']"

fun trim_actor_scope :: "actor_scope \<Rightarrow> actor_scope" where
  "trim_actor_scope On_ACCOUNT = On_ACCOUNT"
| "trim_actor_scope (On_TEAM i) = On_TEAM (trim i)"
| "trim_actor_scope (On_SEASON i) = On_SEASON (trim i)"
| "trim_actor_scope (On_GAME i) = On_GAME (trim i)"

fun scope_id_ok :: "actor_scope \<Rightarrow> bool" where
  "scope_id_ok On_ACCOUNT = True"
| "scope_id_ok (On_TEAM i) = schema_id i"
| "scope_id_ok (On_SEASON i) = schema_id i"
| "scope_id_ok (On_GAME i) = schema_id i"

fun game_scope :: "actor_scope \<Rightarrow> bool" where
  "game_scope (On_GAME _) = True"
| "game_scope _ = False"

definition trim_scoped_actor :: "scoped_actor \<Rightarrow> scoped_actor" where
  "trim_scoped_actor a = a\<lparr>sac_accountId := trim (sac_accountId a), sac_actorId := trim (sac_actorId a),
     sac_actorUserId := map_option trim (sac_actorUserId a), sac_membershipId := map_option trim (sac_membershipId a),
     sac_scope := trim_actor_scope (sac_scope a)\<rparr>"

text \<open>What the schemas of the actors of both repositories ask.\<close>

definition actor_ok :: "(string \<Rightarrow> bool) \<Rightarrow> string list \<Rightarrow> scoped_actor \<Rightarrow> bool" where
  "actor_ok isodt capabilities a \<longleftrightarrow>
     schema_id (sac_accountId a) \<and> schema_id (sac_actorId a) \<and> optional schema_id (sac_actorUserId a) \<and>
     optional schema_id (sac_membershipId a) \<and> sac_capability a \<in> set capabilities \<and> scope_id_ok (sac_scope a) \<and>
     isodt (sac_authorizedAt a) \<and> sac_actorKind a \<noteq> SYSTEM \<and>
     \<not> ((sac_actorKind a = USER \<and> (sac_actorUserId a = None \<or> sac_membershipId a = None)) \<or>
       (sac_actorKind a = SERVICE \<and> (sac_actorUserId a \<noteq> None \<or> sac_membershipId a \<noteq> None)))"

definition requireManagementActor ::
    "(string \<Rightarrow> bool) \<Rightarrow> scoped_actor option \<Rightarrow> ident \<Rightarrow> string \<Rightarrow> management_error + scoped_actor" where
  "requireManagementActor isodt raw accountId capability =
     (case raw of
        None \<Rightarrow> Inl MG_AUTHORIZATION_REQUIRED
      | Some r \<Rightarrow>
          (let a = trim_scoped_actor r in
           and_then (require (actor_ok isodt managementCapabilities a \<and> \<not> game_scope (sac_scope a)) MG_AUTHORIZATION_REQUIRED) (\<lambda>_.
           and_then (require (sac_accountId a = accountId) MG_ACCOUNT_MISMATCH) (\<lambda>_.
           and_then (require (sac_capability a = capability) MG_AUTHORIZATION_REQUIRED) (\<lambda>_. Inr a)))))"

text \<open>\<open>assertScope\<close>: the team and the season that an operation is about.\<close>

definition assertScope :: "actor_scope \<Rightarrow> ident option \<Rightarrow> ident option \<Rightarrow> management_error + unit" where
  "assertScope scope teamId seasonId =
     (case scope of
        On_TEAM t \<Rightarrow> require (teamId = Some t) MG_AUTHORIZATION_REQUIRED
      | On_SEASON s \<Rightarrow> require (seasonId = Some s) MG_AUTHORIZATION_REQUIRED
      | _ \<Rightarrow> Inr ())"

section \<open>Commands\<close>

text \<open>\<open>None\<close> in an optional field is a field that is not given, \<open>Some None\<close> is \<open>null\<close>.\<close>

record create_team =
  ctm_accountId :: ident
  ctm_displayName :: string
  ctm_color :: "string option"

record update_team =
  utm_accountId :: ident
  utm_teamId :: ident
  utm_expectedRevision :: int
  utm_displayName :: "string option"
  utm_color :: "string option option"

record set_archived =
  sar_accountId :: ident
  sar_id :: ident
  sar_expectedRevision :: int
  sar_archived :: bool

record create_season =
  csn_accountId :: ident
  csn_displayName :: string
  csn_startsOn :: "string option"
  csn_endsOn :: "string option"

record update_season =
  usn_accountId :: ident
  usn_seasonId :: ident
  usn_expectedRevision :: int
  usn_displayName :: "string option"
  usn_startsOn :: "string option option"
  usn_endsOn :: "string option option"

record transition_season =
  trn_accountId :: ident
  trn_seasonId :: ident
  trn_expectedRevision :: int
  trn_status :: season_status

record add_participation =
  apt_accountId :: ident
  apt_teamId :: ident
  apt_seasonId :: ident

record create_player =
  cpl_accountId :: ident
  cpl_displayName :: string
  cpl_battingSide :: "batting_side option"
  cpl_throwingHand :: "throwing_hand option"

record update_player =
  upl_accountId :: ident
  upl_playerId :: ident
  upl_expectedRevision :: int
  upl_displayName :: "string option"
  upl_battingSide :: "batting_side option option"
  upl_throwingHand :: "throwing_hand option option"

record add_period =
  arp_accountId :: ident
  arp_teamSeasonId :: ident
  arp_playerId :: ident
  arp_startsAt :: string
  arp_jerseyNumber :: "string option"
  arp_primaryPosition :: "position option"

record end_period =
  erp_accountId :: ident
  erp_rosterEntryId :: ident
  erp_expectedRevision :: int
  erp_endsAt :: string
  erp_archive :: bool

record change_jersey =
  cjr_accountId :: ident
  cjr_rosterEntryId :: ident
  cjr_expectedRevision :: int
  cjr_effectiveAt :: string
  cjr_jerseyNumber :: "string option"
  cjr_primaryPosition :: "position option option"

definition parseManagementInput ::
    "('c \<Rightarrow> 'c) \<Rightarrow> ('c \<Rightarrow> bool) \<Rightarrow> ('c \<Rightarrow> 'c) \<Rightarrow> 'c option \<Rightarrow> management_error + 'c" where
  "parseManagementInput = parse_input MG_INVALID_INPUT"

definition color_digit :: "char \<Rightarrow> bool" where
  "color_digit c \<longleftrightarrow> c \<in> set ''0123456789abcdefABCDEF''"

definition color_ok :: "string \<Rightarrow> bool" where
  "color_ok s \<longleftrightarrow> length s = 7 \<and> take 1 s = ''#'' \<and> list_all color_digit (drop 1 s)"

definition upper_hex :: "string \<Rightarrow> string" where
  "upper_hex s = map (\<lambda>c. if c \<in> set ''abcdef'' then char_of (of_char c - 32 :: nat) else c) s"

definition parse_create_team :: "create_team option \<Rightarrow> management_error + create_team" where
  "parse_create_team = parseManagementInput
     (\<lambda>c. c\<lparr>ctm_accountId := trim (ctm_accountId c), ctm_displayName := trim (ctm_displayName c),
        ctm_color := map_option trim (ctm_color c)\<rparr>)
     (\<lambda>c. schema_id (ctm_accountId c) \<and> label_length 100 (ctm_displayName c) \<and> optional color_ok (ctm_color c))
     (\<lambda>c. c\<lparr>ctm_displayName := squash (ctm_displayName c), ctm_color := map_option upper_hex (ctm_color c)\<rparr>)"

definition parse_update_team :: "update_team option \<Rightarrow> management_error + update_team" where
  "parse_update_team = parseManagementInput
     (\<lambda>c. c\<lparr>utm_accountId := trim (utm_accountId c), utm_teamId := trim (utm_teamId c),
        utm_displayName := map_option trim (utm_displayName c), utm_color := map_option (map_option trim) (utm_color c)\<rparr>)
     (\<lambda>c. schema_id (utm_accountId c) \<and> schema_id (utm_teamId c) \<and> nonnegative_int (utm_expectedRevision c) \<and>
        optional (label_length 100) (utm_displayName c) \<and> optional (optional color_ok) (utm_color c) \<and>
        (utm_displayName c \<noteq> None \<or> utm_color c \<noteq> None))
     (\<lambda>c. c\<lparr>utm_displayName := map_option squash (utm_displayName c), utm_color := map_option (map_option upper_hex) (utm_color c)\<rparr>)"

definition parse_set_archived :: "set_archived option \<Rightarrow> management_error + set_archived" where
  "parse_set_archived = parseManagementInput
     (\<lambda>c. c\<lparr>sar_accountId := trim (sar_accountId c), sar_id := trim (sar_id c)\<rparr>)
     (\<lambda>c. schema_id (sar_accountId c) \<and> schema_id (sar_id c) \<and> nonnegative_int (sar_expectedRevision c)) id"

text \<open>Dates of the form \<open>YYYY-MM-DD\<close> compare as strings.\<close>

fun string_less :: "string \<Rightarrow> string \<Rightarrow> bool" where
  "string_less [] t = (t \<noteq> [])"
| "string_less (c # s) [] = False"
| "string_less (c # s) (d # t) = ((of_char c :: nat) < of_char d \<or> (c = d \<and> string_less s t))"

definition parse_create_season :: "(string \<Rightarrow> bool) \<Rightarrow> create_season option \<Rightarrow> management_error + create_season" where
  "parse_create_season iso_date = parseManagementInput
     (\<lambda>c. c\<lparr>csn_accountId := trim (csn_accountId c), csn_displayName := trim (csn_displayName c)\<rparr>)
     (\<lambda>c. schema_id (csn_accountId c) \<and> label_length 100 (csn_displayName c) \<and> optional iso_date (csn_startsOn c) \<and>
        optional iso_date (csn_endsOn c) \<and>
        (case (csn_startsOn c, csn_endsOn c) of (Some s, Some e) \<Rightarrow> \<not> string_less e s | _ \<Rightarrow> True))
     (\<lambda>c. c\<lparr>csn_displayName := squash (csn_displayName c)\<rparr>)"

definition parse_update_season :: "(string \<Rightarrow> bool) \<Rightarrow> update_season option \<Rightarrow> management_error + update_season" where
  "parse_update_season iso_date = parseManagementInput
     (\<lambda>c. c\<lparr>usn_accountId := trim (usn_accountId c), usn_seasonId := trim (usn_seasonId c),
        usn_displayName := map_option trim (usn_displayName c)\<rparr>)
     (\<lambda>c. schema_id (usn_accountId c) \<and> schema_id (usn_seasonId c) \<and> nonnegative_int (usn_expectedRevision c) \<and>
        optional (label_length 100) (usn_displayName c) \<and> optional (optional iso_date) (usn_startsOn c) \<and>
        optional (optional iso_date) (usn_endsOn c) \<and>
        (usn_displayName c \<noteq> None \<or> usn_startsOn c \<noteq> None \<or> usn_endsOn c \<noteq> None))
     (\<lambda>c. c\<lparr>usn_displayName := map_option squash (usn_displayName c)\<rparr>)"

definition parse_transition_season :: "transition_season option \<Rightarrow> management_error + transition_season" where
  "parse_transition_season = parseManagementInput
     (\<lambda>c. c\<lparr>trn_accountId := trim (trn_accountId c), trn_seasonId := trim (trn_seasonId c)\<rparr>)
     (\<lambda>c. schema_id (trn_accountId c) \<and> schema_id (trn_seasonId c) \<and> nonnegative_int (trn_expectedRevision c)) id"

definition parse_add_participation :: "add_participation option \<Rightarrow> management_error + add_participation" where
  "parse_add_participation = parseManagementInput
     (\<lambda>c. c\<lparr>apt_accountId := trim (apt_accountId c), apt_teamId := trim (apt_teamId c), apt_seasonId := trim (apt_seasonId c)\<rparr>)
     (\<lambda>c. schema_id (apt_accountId c) \<and> schema_id (apt_teamId c) \<and> schema_id (apt_seasonId c)) id"

definition parse_create_player :: "create_player option \<Rightarrow> management_error + create_player" where
  "parse_create_player = parseManagementInput
     (\<lambda>c. c\<lparr>cpl_accountId := trim (cpl_accountId c), cpl_displayName := trim (cpl_displayName c)\<rparr>)
     (\<lambda>c. schema_id (cpl_accountId c) \<and> label_length 100 (cpl_displayName c))
     (\<lambda>c. c\<lparr>cpl_displayName := squash (cpl_displayName c)\<rparr>)"

definition parse_update_player :: "update_player option \<Rightarrow> management_error + update_player" where
  "parse_update_player = parseManagementInput
     (\<lambda>c. c\<lparr>upl_accountId := trim (upl_accountId c), upl_playerId := trim (upl_playerId c),
        upl_displayName := map_option trim (upl_displayName c)\<rparr>)
     (\<lambda>c. schema_id (upl_accountId c) \<and> schema_id (upl_playerId c) \<and> nonnegative_int (upl_expectedRevision c) \<and>
        optional (label_length 100) (upl_displayName c) \<and>
        (upl_displayName c \<noteq> None \<or> upl_battingSide c \<noteq> None \<or> upl_throwingHand c \<noteq> None))
     (\<lambda>c. c\<lparr>upl_displayName := map_option squash (upl_displayName c)\<rparr>)"

definition parse_add_period :: "(string \<Rightarrow> bool) \<Rightarrow> add_period option \<Rightarrow> management_error + add_period" where
  "parse_add_period isodt = parseManagementInput
     (\<lambda>c. c\<lparr>arp_accountId := trim (arp_accountId c), arp_teamSeasonId := trim (arp_teamSeasonId c),
        arp_playerId := trim (arp_playerId c), arp_jerseyNumber := map_option trim (arp_jerseyNumber c)\<rparr>)
     (\<lambda>c. schema_id (arp_accountId c) \<and> schema_id (arp_teamSeasonId c) \<and> schema_id (arp_playerId c) \<and>
        isodt (arp_startsAt c) \<and> optional jersey_ok (arp_jerseyNumber c)) id"

definition parse_end_period :: "(string \<Rightarrow> bool) \<Rightarrow> end_period option \<Rightarrow> management_error + end_period" where
  "parse_end_period isodt = parseManagementInput
     (\<lambda>c. c\<lparr>erp_accountId := trim (erp_accountId c), erp_rosterEntryId := trim (erp_rosterEntryId c)\<rparr>)
     (\<lambda>c. schema_id (erp_accountId c) \<and> schema_id (erp_rosterEntryId c) \<and> nonnegative_int (erp_expectedRevision c) \<and>
        isodt (erp_endsAt c)) id"

definition parse_change_jersey :: "(string \<Rightarrow> bool) \<Rightarrow> change_jersey option \<Rightarrow> management_error + change_jersey" where
  "parse_change_jersey isodt = parseManagementInput
     (\<lambda>c. c\<lparr>cjr_accountId := trim (cjr_accountId c), cjr_rosterEntryId := trim (cjr_rosterEntryId c),
        cjr_jerseyNumber := map_option trim (cjr_jerseyNumber c)\<rparr>)
     (\<lambda>c. schema_id (cjr_accountId c) \<and> schema_id (cjr_rosterEntryId c) \<and> nonnegative_int (cjr_expectedRevision c) \<and>
        isodt (cjr_effectiveAt c) \<and> optional jersey_ok (cjr_jerseyNumber c)) id"

end
