(* ===== verification/Setup_Commands.thy ===== *)
theory Setup_Commands
  imports Club_Management
begin

text \<open>
  The setup of a game: the schemas of its commands, its errors and the checks of its actors
  (\<open>src/domain/setup/game-setup.ts\<close>).
\<close>

datatype setup_error = GS_INVALID_INPUT | GS_AUTHORIZATION_REQUIRED | GS_ACCOUNT_MISMATCH | GS_NOT_FOUND_OR_INACCESSIBLE
  | GS_LIFECYCLE_CONFLICT | GS_STALE_SETUP_REVISION | GS_DUPLICATE_SUBMISSION | GS_INVALID_PARTICIPANT | GS_INVALID_LINEUP
  | GS_INVALID_PITCHER | GS_ROSTER_INELIGIBLE | GS_SETUP_INCOMPLETE | GS_IMMUTABLE_SETUP | GS_PERSISTENCE_CONFLICT
  | GS_INTERNAL_INVARIANT_FAILURE

section \<open>Lineups\<close>

record slot_assignment =
  sla_battingOrder :: "int option"
  sla_defensivePosition :: "position option"
  sla_isStartingPitcher :: bool

record managed_slot = slot_assignment +
  mns_playerId :: ident
  mns_rosterEntryId :: ident

record external_slot = slot_assignment +
  exs_displayName :: string
  exs_jerseyNumber :: "string option"

datatype side_input = Managed_side game_side ident "managed_slot list" | External_side game_side string "external_slot list"

fun input_side :: "side_input \<Rightarrow> game_side" where
  "input_side (Managed_side sd _ _) = sd"
| "input_side (External_side sd _ _) = sd"

fun input_assignments :: "side_input \<Rightarrow> slot_assignment list" where
  "input_assignments (Managed_side _ _ l) = map slot_assignment.truncate l"
| "input_assignments (External_side _ _ l) = map slot_assignment.truncate l"

definition assignment_ok :: "slot_assignment \<Rightarrow> bool" where
  "assignment_ok s \<longleftrightarrow> optional (\<lambda>n. 1 \<le> n \<and> n \<le> 30) (sla_battingOrder s) \<and>
     (sla_isStartingPitcher s \<longrightarrow> sla_defensivePosition s = Some PITCHER)"

definition batting_role :: "position \<Rightarrow> bool" where
  "batting_role p \<longleftrightarrow> p = DESIGNATED_HITTER \<or> p = EXTRA_HITTER"

text \<open>The checks on the batting orders and the positions of one side.\<close>

definition assignments_distinct :: "slot_assignment list \<Rightarrow> bool" where
  "assignments_distinct l \<longleftrightarrow> distinct (List.map_filter sla_battingOrder l) \<and>
     distinct (filter (\<lambda>p. \<not> batting_role p) (List.map_filter sla_defensivePosition l))"

fun trim_side :: "side_input \<Rightarrow> side_input" where
  "trim_side (Managed_side sd ts l) = Managed_side sd (trim ts)
     (map (\<lambda>s. s\<lparr>mns_playerId := trim (mns_playerId s), mns_rosterEntryId := trim (mns_rosterEntryId s)\<rparr>) l)"
| "trim_side (External_side sd name l) = External_side sd (trim name)
     (map (\<lambda>s. s\<lparr>exs_displayName := trim (exs_displayName s), exs_jerseyNumber := map_option trim (exs_jerseyNumber s)\<rparr>) l)"

fun normal_side :: "side_input \<Rightarrow> side_input" where
  "normal_side (Managed_side sd ts l) = Managed_side sd ts l"
| "normal_side (External_side sd name l) = External_side sd (squash name)
     (map (\<lambda>s. s\<lparr>exs_displayName := squash (exs_displayName s)\<rparr>) l)"

fun side_shape_ok :: "side_input \<Rightarrow> bool" where
  "side_shape_ok (Managed_side sd ts l) =
     (schema_id ts \<and> length l \<le> 30 \<and> list_all (\<lambda>s. schema_id (mns_playerId s) \<and> schema_id (mns_rosterEntryId s)) l)"
| "side_shape_ok (External_side sd name l) =
     (label_length 100 name \<and> length l \<le> 30 \<and>
      list_all (\<lambda>s. label_length 100 (exs_displayName s) \<and> optional jersey_ok (exs_jerseyNumber s)) l)"

fun managed_team_season :: "side_input \<Rightarrow> ident option" where
  "managed_team_season (Managed_side _ ts _) = Some ts"
| "managed_team_season (External_side _ _ _) = None"

fun managed_slots :: "side_input \<Rightarrow> managed_slot list" where
  "managed_slots (Managed_side _ _ l) = l"
| "managed_slots (External_side _ _ _) = []"

fun external_names :: "side_input \<Rightarrow> string list" where
  "external_names (Managed_side _ _ _) = []"
| "external_names (External_side _ _ l) = map (\<lambda>s. to_lower (squash (exs_displayName s))) l"

text \<open>The refinements over all sides: what may not be repeated on a side, and what not in the whole setup.\<close>

definition sides_ok :: "side_input list \<Rightarrow> bool" where
  "sides_ok sides \<longleftrightarrow> distinct (map input_side sides) \<and> distinct (List.map_filter managed_team_season sides) \<and>
     list_all (\<lambda>s. assignments_distinct (input_assignments s) \<and> distinct (external_names s)) sides \<and>
     distinct (map mns_playerId (concat (map managed_slots sides))) \<and>
     distinct (map mns_rosterEntryId (concat (map managed_slots sides)))"

section \<open>Commands\<close>

record create_draft =
  cdg_accountId :: ident
  cdg_seasonId :: ident
  cdg_managedTeamSeasonId :: ident
  cdg_scheduledAt :: string
  cdg_location :: "string option"
  cdg_weatherCondition :: "weather_condition option"
  cdg_temperatureF :: "int option"

record save_setup =
  ssr_accountId :: ident
  ssr_gameId :: ident
  ssr_expectedSetupRevision :: int
  ssr_clientSubmissionId :: ident
  ssr_rulesetVersionId :: ident
  ssr_scheduledAt :: string
  ssr_location :: "string option"
  ssr_weatherCondition :: "weather_condition option"
  ssr_temperatureF :: "int option"
  ssr_sides :: "side_input list"

record mark_ready =
  msr_accountId :: ident
  msr_gameId :: ident
  msr_setupSnapshotId :: ident
  msr_expectedSetupRevision :: int

record setup_query =
  gsq_accountId :: ident
  gsq_gameId :: ident

record candidate_page =
  cpg_accountId :: ident
  cpg_gameId :: ident
  cpg_teamSeasonId :: ident
  cpg_limit :: "int option"
  cpg_after :: "(string \<times> ident) option"

definition parseGameSetupInput :: "('c \<Rightarrow> 'c) \<Rightarrow> ('c \<Rightarrow> bool) \<Rightarrow> ('c \<Rightarrow> 'c) \<Rightarrow> 'c option \<Rightarrow> setup_error + 'c" where
  "parseGameSetupInput = parse_input GS_INVALID_INPUT"

definition metadata_ok :: "string option \<Rightarrow> int option \<Rightarrow> bool" where
  "metadata_ok location temperature \<longleftrightarrow> optional (label_length 120) location \<and> optional (\<lambda>t. -20 \<le> t \<and> t \<le> 130) temperature"

definition parse_create_draft :: "(string \<Rightarrow> bool) \<Rightarrow> create_draft option \<Rightarrow> setup_error + create_draft" where
  "parse_create_draft isodt = parseGameSetupInput
     (\<lambda>c. c\<lparr>cdg_accountId := trim (cdg_accountId c), cdg_seasonId := trim (cdg_seasonId c),
        cdg_managedTeamSeasonId := trim (cdg_managedTeamSeasonId c), cdg_location := map_option trim (cdg_location c)\<rparr>)
     (\<lambda>c. schema_id (cdg_accountId c) \<and> schema_id (cdg_seasonId c) \<and> schema_id (cdg_managedTeamSeasonId c) \<and>
        isodt (cdg_scheduledAt c) \<and> metadata_ok (cdg_location c) (cdg_temperatureF c))
     (\<lambda>c. c\<lparr>cdg_location := map_option squash (cdg_location c)\<rparr>)"

definition save_setup_ok :: "(string \<Rightarrow> bool) \<Rightarrow> save_setup \<Rightarrow> bool" where
  "save_setup_ok isodt c \<longleftrightarrow> schema_id (ssr_accountId c) \<and> schema_id (ssr_gameId c) \<and>
     nonnegative_int (ssr_expectedSetupRevision c) \<and> schema_id (ssr_clientSubmissionId c) \<and> schema_id (ssr_rulesetVersionId c) \<and>
     isodt (ssr_scheduledAt c) \<and> metadata_ok (ssr_location c) (ssr_temperatureF c) \<and>
     list_all (\<lambda>s. side_shape_ok s \<and> list_all assignment_ok (input_assignments s)) (ssr_sides c) \<and> sides_ok (ssr_sides c)"

definition parse_save_setup :: "(string \<Rightarrow> bool) \<Rightarrow> save_setup option \<Rightarrow> setup_error + save_setup" where
  "parse_save_setup isodt = parseGameSetupInput
     (\<lambda>c. c\<lparr>ssr_accountId := trim (ssr_accountId c), ssr_gameId := trim (ssr_gameId c),
        ssr_clientSubmissionId := trim (ssr_clientSubmissionId c), ssr_rulesetVersionId := trim (ssr_rulesetVersionId c),
        ssr_location := map_option trim (ssr_location c), ssr_sides := map trim_side (ssr_sides c)\<rparr>)
     (save_setup_ok isodt)
     (\<lambda>c. c\<lparr>ssr_location := map_option squash (ssr_location c), ssr_sides := map normal_side (ssr_sides c)\<rparr>)"

definition parse_mark_ready :: "mark_ready option \<Rightarrow> setup_error + mark_ready" where
  "parse_mark_ready = parseGameSetupInput
     (\<lambda>c. c\<lparr>msr_accountId := trim (msr_accountId c), msr_gameId := trim (msr_gameId c),
        msr_setupSnapshotId := trim (msr_setupSnapshotId c)\<rparr>)
     (\<lambda>c. schema_id (msr_accountId c) \<and> schema_id (msr_gameId c) \<and> schema_id (msr_setupSnapshotId c) \<and>
        1 \<le> msr_expectedSetupRevision c \<and> safe_int (msr_expectedSetupRevision c)) id"

definition parse_setup_query :: "setup_query option \<Rightarrow> setup_error + setup_query" where
  "parse_setup_query = parseGameSetupInput
     (\<lambda>q. q\<lparr>gsq_accountId := trim (gsq_accountId q), gsq_gameId := trim (gsq_gameId q)\<rparr>)
     (\<lambda>q. schema_id (gsq_accountId q) \<and> schema_id (gsq_gameId q)) id"

definition candidate_limit :: "candidate_page \<Rightarrow> int" where
  "candidate_limit p = or_else (cpg_limit p) 25"

definition parse_candidate_page :: "candidate_page option \<Rightarrow> setup_error + candidate_page" where
  "parse_candidate_page = parseGameSetupInput
     (\<lambda>p. p\<lparr>cpg_accountId := trim (cpg_accountId p), cpg_gameId := trim (cpg_gameId p),
        cpg_teamSeasonId := trim (cpg_teamSeasonId p), cpg_after := map_option (\<lambda>(n, i). (n, trim i)) (cpg_after p)\<rparr>)
     (\<lambda>p. schema_id (cpg_accountId p) \<and> schema_id (cpg_gameId p) \<and> schema_id (cpg_teamSeasonId p) \<and>
        1 \<le> candidate_limit p \<and> candidate_limit p \<le> 100 \<and> optional (\<lambda>(n, i). schema_id i) (cpg_after p)) id"

section \<open>Actors\<close>

definition setupCapabilities :: "string list" where
  "setupCapabilities = [''game.create'', ''game.setup'', ''game.view'']"

definition requireGameSetupActor ::
    "(string \<Rightarrow> bool) \<Rightarrow> scoped_actor option \<Rightarrow> ident \<Rightarrow> string \<Rightarrow> setup_error + scoped_actor" where
  "requireGameSetupActor isodt raw accountId capability =
     (case raw of
        None \<Rightarrow> Inl GS_AUTHORIZATION_REQUIRED
      | Some r \<Rightarrow>
          (let a = trim_scoped_actor r in
           and_then (require (actor_ok isodt setupCapabilities a) GS_AUTHORIZATION_REQUIRED) (\<lambda>_.
           and_then (require (sac_accountId a = accountId) GS_ACCOUNT_MISMATCH) (\<lambda>_.
           and_then (require (sac_capability a = capability) GS_AUTHORIZATION_REQUIRED) (\<lambda>_. Inr a)))))"

definition assertGameScope :: "scoped_actor \<Rightarrow> ident \<Rightarrow> setup_error + unit" where
  "assertGameScope a gameId = require (sac_scope a = On_GAME gameId) GS_AUTHORIZATION_REQUIRED"

definition assertGameCreateScope :: "scoped_actor \<Rightarrow> ident \<Rightarrow> ident \<Rightarrow> setup_error + unit" where
  "assertGameCreateScope a teamId seasonId =
     (case sac_scope a of
        On_GAME _ \<Rightarrow> Inl GS_AUTHORIZATION_REQUIRED
      | On_TEAM t \<Rightarrow> require (t = teamId) GS_AUTHORIZATION_REQUIRED
      | On_SEASON s \<Rightarrow> require (s = seasonId) GS_AUTHORIZATION_REQUIRED
      | On_ACCOUNT \<Rightarrow> Inr ())"

end
