(* ===== verification/Authorization.thy ===== *)
theory Authorization
  imports Setup_Commands
begin

text \<open>
  Who may do what: the capabilities of the roles and the grants (\<open>src/server/auth/capability-policy.ts\<close>),
  the authority that is loaded from the database (\<open>store.ts\<close>), the decision (\<open>authorization-service.ts\<close>) and
  the actor that the services receive from it (\<open>types.ts\<close>, \<open>trusted-actor-adapters.ts\<close>).
\<close>

section \<open>Errors\<close>

datatype auth_error = AU_AUTHENTICATION_REQUIRED | AU_INVALID_SESSION | AU_SESSION_EXPIRED | AU_INVALID_OAUTH_CALLBACK
  | AU_INVALID_LOCAL_CREDENTIALS | AU_IDENTITY_ALREADY_LINKED | AU_PROVIDER_FAILURE | AU_USER_PROVISIONING_FAILURE
  | AU_USER_DISABLED | AU_NO_ACTIVE_MEMBERSHIP | AU_INSUFFICIENT_CAPABILITY | AU_INVALID_SCOPE | AU_ACCOUNT_UNAVAILABLE
  | AU_RESOURCE_UNAVAILABLE | AU_STALE_AUTHORITY | AU_AUTHORIZATION_REQUIRED | AU_CONFIGURATION_ERROR | AU_AUDIT_FAILURE

text \<open>\<open>None\<close> is an error that is not an \<open>AuthorizationError\<close>.\<close>

definition safeAuthorizationStatus :: "auth_error option \<Rightarrow> int" where
  "safeAuthorizationStatus e =
     (case e of
        None \<Rightarrow> 500
      | Some c \<Rightarrow>
          if c \<in> set [AU_AUTHENTICATION_REQUIRED, AU_INVALID_SESSION, AU_SESSION_EXPIRED, AU_INVALID_OAUTH_CALLBACK,
                     AU_INVALID_LOCAL_CREDENTIALS] then 401
          else if c \<in> set [AU_CONFIGURATION_ERROR, AU_PROVIDER_FAILURE, AU_USER_PROVISIONING_FAILURE, AU_AUDIT_FAILURE] then 500
          else 403)"

definition safeAuthorizationMessage :: "auth_error option \<Rightarrow> string" where
  "safeAuthorizationMessage e =
     (let status = safeAuthorizationStatus e in
      if status = 401 then ''Authentication is required.''
      else if status = 403 then ''The requested operation is unavailable.''
      else ''Authentication is temporarily unavailable.'')"

section \<open>Capabilities\<close>

definition capabilities :: "string list" where
  "capabilities =
     [''account.view'', ''account.manage'', ''account.archive'', ''account.delete_request'', ''membership.view'',
      ''membership.invite'', ''membership.update'', ''membership.remove'', ''membership.role_assign'',
      ''membership.grant_manage'', ''ownership.transfer'', ''ownership.promote'', ''ownership.demote'', ''team.view'',
      ''team.manage'', ''season.view'', ''season.manage'', ''roster.view'', ''roster.manage'', ''player.private_view'',
      ''game.create'', ''game.setup'', ''game.view'', ''game.start'', ''game.score'', ''game.suspend'', ''game.resume'',
      ''game.complete'', ''game.correct'', ''game.reopen'', ''game.abandon'', ''game.cancel'', ''game.archive'',
      ''game.verify'', ''game.reverify'', ''report.view'', ''report.export'', ''report.publish'', ''audit.view'',
      ''configuration.view'', ''configuration.manage'', ''discord.settings.view'', ''discord.settings.configure'',
      ''discord.settings.preview'', ''discord.settings.operate'', ''privacy.request'', ''privacy.manage'', ''ruleset.view'',
      ''ruleset.manage'', ''fantasy.league.view'', ''fantasy.league.manage'', ''fantasy.league.activate'',
      ''fantasy.team.manage'', ''fantasy.roster.manage'', ''fantasy.scoring.calculate'', ''fantasy.scoring.view'']"

definition isKnownCapability :: "string \<Rightarrow> bool" where
  "isKnownCapability c \<longleftrightarrow> c \<in> set capabilities"

datatype membership_role = OWNER | ADMINISTRATOR | COACH_MANAGER | SCOREKEEPER | VIEWER
datatype assignment_scope = At_ACCOUNT | At_TEAM | At_SEASON | At_GAME
datatype assignment_source = From_ROLE | From_GRANT

definition viewer :: "string list" where
  "viewer = [''account.view'', ''team.view'', ''season.view'', ''roster.view'', ''game.view'', ''report.view'',
     ''fantasy.league.view'', ''fantasy.roster.manage'', ''fantasy.scoring.view'']"

definition scorekeeper :: "string list" where
  "scorekeeper = viewer @ [''game.create'', ''game.setup'', ''game.start'', ''game.score'', ''game.suspend'', ''game.resume'',
     ''game.complete'']"

definition coachManager :: "string list" where
  "coachManager = scorekeeper @ [''team.manage'', ''season.manage'', ''roster.manage'', ''report.export'',
     ''discord.settings.view'', ''discord.settings.preview'']"

definition administrator :: "string list" where
  "administrator = coachManager @
     [''account.manage'', ''membership.view'', ''membership.invite'', ''membership.update'', ''membership.remove'',
      ''membership.role_assign'', ''membership.grant_manage'', ''player.private_view'', ''game.correct'', ''game.reopen'',
      ''game.abandon'', ''game.cancel'', ''game.archive'', ''game.verify'', ''game.reverify'', ''audit.view'',
      ''configuration.view'', ''configuration.manage'', ''discord.settings.configure'', ''discord.settings.operate'',
      ''privacy.request'', ''ruleset.view'', ''ruleset.manage'', ''fantasy.league.manage'', ''fantasy.league.activate'',
      ''fantasy.team.manage'', ''fantasy.scoring.calculate'']"

definition owner_capabilities :: "string list" where
  "owner_capabilities = administrator @ [''account.archive'', ''account.delete_request'', ''ownership.transfer'',
     ''ownership.promote'', ''ownership.demote'', ''privacy.manage'']"

fun roleCapabilities :: "membership_role \<Rightarrow> string list" where
  "roleCapabilities OWNER = owner_capabilities"
| "roleCapabilities ADMINISTRATOR = administrator"
| "roleCapabilities COACH_MANAGER = coachManager"
| "roleCapabilities SCOREKEEPER = scorekeeper"
| "roleCapabilities VIEWER = viewer"

definition any_scope :: "assignment_scope list" where
  "any_scope = [At_ACCOUNT, At_TEAM, At_SEASON, At_GAME]"

definition exactGrantScopes :: "(string \<times> assignment_scope list) list" where
  "exactGrantScopes =
     map (\<lambda>c. (c, [At_ACCOUNT]))
       [''account.view'', ''account.manage'', ''account.archive'', ''account.delete_request'', ''membership.view'',
        ''membership.invite'', ''membership.update'', ''membership.remove'', ''membership.role_assign'',
        ''membership.grant_manage'', ''ownership.transfer'', ''ownership.promote'', ''ownership.demote''] @
     [(''team.view'', [At_ACCOUNT, At_TEAM]), (''team.manage'', [At_ACCOUNT, At_TEAM]),
      (''season.view'', [At_ACCOUNT, At_SEASON]), (''season.manage'', [At_ACCOUNT, At_TEAM, At_SEASON]),
      (''roster.view'', [At_ACCOUNT, At_TEAM, At_SEASON]), (''roster.manage'', [At_ACCOUNT, At_TEAM, At_SEASON]),
      (''player.private_view'', any_scope), (''game.create'', [At_ACCOUNT, At_TEAM, At_SEASON])] @
     map (\<lambda>c. (c, any_scope))
       [''game.setup'', ''game.view'', ''game.start'', ''game.score'', ''game.suspend'', ''game.resume'', ''game.complete'',
        ''game.correct'', ''game.reopen'', ''game.abandon'', ''game.cancel'', ''game.archive'', ''game.verify'', ''game.reverify'',
        ''report.view'', ''report.export''] @
     [(''report.publish'', []), (''audit.view'', [At_ACCOUNT]), (''configuration.view'', [At_ACCOUNT]),
      (''configuration.manage'', [At_ACCOUNT]), (''discord.settings.view'', [At_ACCOUNT, At_TEAM]),
      (''discord.settings.configure'', [At_ACCOUNT, At_TEAM]), (''discord.settings.preview'', [At_ACCOUNT, At_TEAM])] @
     map (\<lambda>c. (c, [At_ACCOUNT]))
       [''discord.settings.operate'', ''privacy.request'', ''privacy.manage'', ''ruleset.view'', ''ruleset.manage'',
        ''fantasy.league.view'', ''fantasy.league.manage'', ''fantasy.league.activate'', ''fantasy.team.manage'',
        ''fantasy.roster.manage'', ''fantasy.scoring.calculate'', ''fantasy.scoring.view'']"

section \<open>Authority and targets\<close>

record authority_assignment =
  aas_id :: ident
  aas_source :: assignment_source
  aas_role :: "membership_role option"
  aas_capability :: "string option"
  aas_scope :: assignment_scope
  aas_teamId :: "ident option"
  aas_seasonId :: "ident option"
  aas_gameId :: "ident option"

record active_authority =
  aut_appUserId :: ident
  aut_membershipId :: ident
  aut_accountId :: ident
  aut_assignments :: "authority_assignment list"

datatype resource_target = Account_target ident | Team_target ident ident | Season_target ident ident | Game_target ident ident

record resolved_target =
  rtg_kind :: assignment_scope
  rtg_accountId :: ident
  rtg_teamIds :: "ident list"
  rtg_seasonId :: "ident option"
  rtg_gameId :: "ident option"

definition scope_matches :: "authority_assignment \<Rightarrow> resolved_target \<Rightarrow> bool" where
  "scope_matches a t =
     (case aas_scope a of
        At_ACCOUNT \<Rightarrow> True
      | At_TEAM \<Rightarrow> (case aas_teamId a of Some i \<Rightarrow> i \<in> set (rtg_teamIds t) | None \<Rightarrow> False)
      | At_SEASON \<Rightarrow> aas_seasonId a \<noteq> None \<and> aas_seasonId a = rtg_seasonId t
      | At_GAME \<Rightarrow> aas_gameId a \<noteq> None \<and> aas_gameId a = rtg_gameId t)"

definition assignmentPermits :: "authority_assignment \<Rightarrow> string \<Rightarrow> resolved_target \<Rightarrow> bool" where
  "assignmentPermits a capability t \<longleftrightarrow> scope_matches a t \<and>
     (case aas_source a of
        From_ROLE \<Rightarrow> (case aas_role a of Some r \<Rightarrow> capability \<in> set (roleCapabilities r) | None \<Rightarrow> False)
      | From_GRANT \<Rightarrow> aas_capability a = Some capability \<and>
          (case map_of exactGrantScopes capability of Some l \<Rightarrow> aas_scope a \<in> set l | None \<Rightarrow> False))"

record capability_decision =
  cpd_allowed :: bool
  cpd_resolvedScope :: resolved_target
  cpd_contributingAuthority :: "authority_assignment list"

definition resolveCapabilityDecision :: "active_authority \<Rightarrow> string \<Rightarrow> resolved_target \<Rightarrow> capability_decision" where
  "resolveCapabilityDecision a capability t =
     (let l = filter (\<lambda>x. assignmentPermits x capability t) (aut_assignments a)
      in \<lparr>cpd_allowed = (l \<noteq> []), cpd_resolvedScope = t, cpd_contributingAuthority = l\<rparr>)"

definition authorityPermits :: "active_authority \<Rightarrow> string \<Rightarrow> resolved_target \<Rightarrow> bool" where
  "authorityPermits a capability t = cpd_allowed (resolveCapabilityDecision a capability t)"

section \<open>The store of authority\<close>

record account_row =
  acr_id :: ident
  acr_externalId :: string
  acr_slug :: string
  acr_displayName :: string
  acr_active :: bool

record user_row =
  usr_id :: ident
  usr_active :: bool

record identity_row =
  idr_provider :: string
  idr_providerSubject :: string
  idr_userId :: ident

record membership_row =
  mbr_id :: ident
  mbr_accountId :: ident
  mbr_userId :: ident
  mbr_active :: bool

record role_row =
  rlr_id :: ident
  rlr_accountId :: ident
  rlr_membershipId :: ident
  rlr_role :: membership_role
  rlr_scope :: assignment_scope
  rlr_teamId :: "ident option"
  rlr_seasonId :: "ident option"
  rlr_gameId :: "ident option"
  rlr_revokedAt :: "int option"

record grant_row =
  gtr_id :: ident
  gtr_accountId :: ident
  gtr_membershipId :: ident
  gtr_capability :: string
  gtr_scope :: assignment_scope
  gtr_teamId :: "ident option"
  gtr_seasonId :: "ident option"
  gtr_gameId :: "ident option"
  gtr_revokedAt :: "int option"

record directory =
  dr_accounts :: "account_row list"
  dr_users :: "user_row list"
  dr_identities :: "identity_row list"
  dr_memberships :: "membership_row list"
  dr_roles :: "role_row list"
  dr_grants :: "grant_row list"

definition account_active :: "directory \<Rightarrow> ident \<Rightarrow> bool" where
  "account_active d a \<longleftrightarrow> list_ex (\<lambda>r. acr_id r = a \<and> acr_active r) (dr_accounts d)"

definition user_active :: "directory \<Rightarrow> ident \<Rightarrow> bool" where
  "user_active d u \<longleftrightarrow> list_ex (\<lambda>r. usr_id r = u \<and> usr_active r) (dr_users d)"

text \<open>The user of an identity with the answer whether he is active.\<close>

definition resolveUser :: "directory \<Rightarrow> string \<Rightarrow> string \<Rightarrow> auth_error + (ident \<times> bool)" where
  "resolveUser d provider subject =
     (case find (\<lambda>r. idr_provider r = provider \<and> idr_providerSubject r = subject) (dr_identities d) of
        None \<Rightarrow> Inl AU_USER_PROVISIONING_FAILURE
      | Some r \<Rightarrow> Inr (idr_userId r, user_active d (idr_userId r)))"

definition listAvailableAccounts :: "(string \<Rightarrow> string) \<Rightarrow> directory \<Rightarrow> ident \<Rightarrow> account_row list" where
  "listAvailableAccounts collation d u =
     sort_key (\<lambda>r. collation (acr_displayName r))
       (concat (map (\<lambda>m. filter (\<lambda>r. acr_id r = mbr_accountId m \<and> acr_active r) (dr_accounts d))
         (filter (\<lambda>m. mbr_userId m = u \<and> mbr_active m) (dr_memberships d))))"

definition role_assignment :: "role_row \<Rightarrow> authority_assignment" where
  "role_assignment r = \<lparr>aas_id = rlr_id r, aas_source = From_ROLE, aas_role = Some (rlr_role r), aas_capability = None,
     aas_scope = rlr_scope r, aas_teamId = rlr_teamId r, aas_seasonId = rlr_seasonId r, aas_gameId = rlr_gameId r\<rparr>"

definition grant_assignment :: "grant_row \<Rightarrow> authority_assignment" where
  "grant_assignment g = \<lparr>aas_id = gtr_id g, aas_source = From_GRANT, aas_role = None, aas_capability = Some (gtr_capability g),
     aas_scope = gtr_scope g, aas_teamId = gtr_teamId g, aas_seasonId = gtr_seasonId g, aas_gameId = gtr_gameId g\<rparr>"

definition membership_assignments :: "directory \<Rightarrow> membership_row \<Rightarrow> authority_assignment list" where
  "membership_assignments d m =
     map role_assignment (filter (\<lambda>r. rlr_accountId r = mbr_accountId m \<and> rlr_membershipId r = mbr_id m \<and> rlr_revokedAt r = None) (dr_roles d)) @
     map grant_assignment (filter (\<lambda>g. gtr_accountId g = mbr_accountId m \<and> gtr_membershipId g = mbr_id m \<and> gtr_revokedAt g = None) (dr_grants d))"

definition loadActiveAuthority :: "directory \<Rightarrow> ident \<Rightarrow> ident \<Rightarrow> active_authority option" where
  "loadActiveAuthority d u a =
     map_option (\<lambda>m. \<lparr>aut_appUserId = u, aut_membershipId = mbr_id m, aut_accountId = a, aut_assignments = membership_assignments d m\<rparr>)
       (find (\<lambda>m. mbr_accountId m = a \<and> mbr_userId m = u \<and> mbr_active m \<and> account_active d a \<and> user_active d u) (dr_memberships d))"

definition game_teams :: "club \<Rightarrow> club_game_row \<Rightarrow> ident list" where
  "game_teams st g =
     js_unique ((case participation_of st (cgr_accountId g) (cgr_teamSeasonId g) of Some p \<Rightarrow> [par_teamId p] | None \<Rightarrow> []) @
       List.map_filter gts_teamId (concat (map gsr_teamSnapshots
         (filter (\<lambda>s. gsr_accountId s = cgr_accountId g \<and> gsr_gameId s = cgr_id g) (cb_setups st)))))"

definition resolveTarget :: "directory \<Rightarrow> club \<Rightarrow> resource_target \<Rightarrow> resolved_target option" where
  "resolveTarget d st target =
     (case target of
        Account_target a \<Rightarrow>
          if account_active d a
          then Some \<lparr>rtg_kind = At_ACCOUNT, rtg_accountId = a, rtg_teamIds = [], rtg_seasonId = None, rtg_gameId = None\<rparr> else None
      | Team_target a i \<Rightarrow>
          map_option (\<lambda>r. \<lparr>rtg_kind = At_TEAM, rtg_accountId = tmr_accountId r, rtg_teamIds = [tmr_id r], rtg_seasonId = None,
            rtg_gameId = None\<rparr>) (team_of st a i)
      | Season_target a i \<Rightarrow>
          map_option (\<lambda>r. \<lparr>rtg_kind = At_SEASON, rtg_accountId = snr_accountId r, rtg_teamIds = [], rtg_seasonId = Some (snr_id r),
            rtg_gameId = None\<rparr>) (season_of st a i)
      | Game_target a i \<Rightarrow>
          map_option (\<lambda>g. \<lparr>rtg_kind = At_GAME, rtg_accountId = cgr_accountId g, rtg_teamIds = game_teams st g,
            rtg_seasonId = Some (cgr_seasonId g), rtg_gameId = Some (cgr_id g)\<rparr>) (club_game_of st a i))"

section \<open>The decision\<close>

record trusted_actor =
  tra_accountId :: ident
  tra_appUserId :: ident
  tra_membershipId :: "ident option"
  tra_actorKind :: actor_kind
  tra_actorId :: ident
  tra_actorUserId :: "ident option"
  tra_capability :: string
  tra_authorityReferenceIds :: "ident list"
  tra_target :: resolved_target
  tra_authorizedAt :: string

fun target_account :: "resource_target \<Rightarrow> ident" where
  "target_account (Account_target a) = a"
| "target_account (Team_target a _) = a"
| "target_account (Season_target a _) = a"
| "target_account (Game_target a _) = a"

fun account_target :: "resource_target \<Rightarrow> bool" where
  "account_target (Account_target _) = True"
| "account_target _ = False"

definition user_actor :: "active_authority \<Rightarrow> resolved_target \<Rightarrow> string \<Rightarrow> ident list \<Rightarrow> int \<Rightarrow> trusted_actor" where
  "user_actor authority t capability ids now =
     \<lparr>tra_accountId = aut_accountId authority, tra_appUserId = aut_appUserId authority,
      tra_membershipId = Some (aut_membershipId authority), tra_actorKind = USER, tra_actorId = aut_appUserId authority,
      tra_actorUserId = Some (aut_appUserId authority), tra_capability = capability, tra_authorityReferenceIds = ids,
      tra_target = t, tra_authorizedAt = iso_string now\<rparr>"

definition authorizeTarget ::
    "int \<Rightarrow> directory \<Rightarrow> club \<Rightarrow> string \<Rightarrow> string \<Rightarrow> resource_target \<Rightarrow> string \<Rightarrow> auth_error + trusted_actor" where
  "authorizeTarget now d st provider subject target capability =
     and_then (resolveUser d provider subject) (\<lambda>(u, active).
     and_then (require active AU_USER_DISABLED) (\<lambda>_.
     (case loadActiveAuthority d u (target_account target) of
        None \<Rightarrow> Inl AU_NO_ACTIVE_MEMBERSHIP
      | Some authority \<Rightarrow>
          (case resolveTarget d st target of
             None \<Rightarrow> Inl (if account_target target then AU_ACCOUNT_UNAVAILABLE else AU_RESOURCE_UNAVAILABLE)
           | Some t \<Rightarrow>
               and_then (require (rtg_accountId t = target_account target)
                 (if account_target target then AU_ACCOUNT_UNAVAILABLE else AU_RESOURCE_UNAVAILABLE)) (\<lambda>_.
               (let decision = resolveCapabilityDecision authority capability t in
                and_then (require (cpd_allowed decision) AU_INSUFFICIENT_CAPABILITY) (\<lambda>_.
                  Inr (user_actor authority t capability (map aas_id (cpd_contributingAuthority decision)) now))))))))"

section \<open>The actors of the services\<close>

text \<open>An actor of this type carries the marker of a trusted actor; \<open>None\<close> is a value without it.\<close>

definition requireTrustedActor :: "trusted_actor option \<Rightarrow> ident \<Rightarrow> string \<Rightarrow> auth_error + trusted_actor" where
  "requireTrustedActor raw accountId capability =
     (case raw of
        None \<Rightarrow> Inl AU_AUTHORIZATION_REQUIRED
      | Some a \<Rightarrow> and_then (require (\<not> (
            (tra_actorKind a = USER \<and> (tra_actorUserId a \<noteq> Some (tra_appUserId a) \<or> tra_actorId a \<noteq> tra_appUserId a \<or>
              tra_membershipId a = None)) \<or>
            (tra_actorKind a = SERVICE \<and> (tra_actorUserId a \<noteq> None \<or> tra_membershipId a \<noteq> None)) \<or>
            tra_accountId a \<noteq> accountId \<or> rtg_accountId (tra_target a) \<noteq> accountId \<or> tra_capability a \<noteq> capability))
          AU_AUTHORIZATION_REQUIRED) (\<lambda>_. Inr a))"

text \<open>An empty identifier counts as a missing one.\<close>

definition scopeFor :: "trusted_actor \<Rightarrow> auth_error + actor_scope" where
  "scopeFor a =
     (let t = tra_target a in
      case rtg_kind t of
        At_ACCOUNT \<Rightarrow> Inr On_ACCOUNT
      | At_TEAM \<Rightarrow> (case rtg_teamIds t of
            i # _ \<Rightarrow> and_then (require (i \<noteq> []) AU_AUTHORIZATION_REQUIRED) (\<lambda>_. Inr (On_TEAM i))
          | [] \<Rightarrow> Inl AU_AUTHORIZATION_REQUIRED)
      | At_SEASON \<Rightarrow> (case rtg_seasonId t of
            Some i \<Rightarrow> and_then (require (i \<noteq> []) AU_AUTHORIZATION_REQUIRED) (\<lambda>_. Inr (On_SEASON i))
          | None \<Rightarrow> Inl AU_AUTHORIZATION_REQUIRED)
      | At_GAME \<Rightarrow> (case rtg_gameId t of
            Some i \<Rightarrow> and_then (require (i \<noteq> []) AU_AUTHORIZATION_REQUIRED) (\<lambda>_. Inr (On_GAME i))
          | None \<Rightarrow> Inl AU_AUTHORIZATION_REQUIRED))"

definition scoped_actor_of :: "trusted_actor \<Rightarrow> string \<Rightarrow> actor_scope \<Rightarrow> scoped_actor" where
  "scoped_actor_of a capability scope =
     \<lparr>sac_accountId = tra_accountId a, sac_actorId = tra_actorId a, sac_actorKind = tra_actorKind a,
      sac_actorUserId = tra_actorUserId a, sac_membershipId = tra_membershipId a, sac_capability = capability,
      sac_scope = scope, sac_authorizedAt = tra_authorizedAt a\<rparr>"

definition toManagementActor :: "trusted_actor option \<Rightarrow> ident \<Rightarrow> string \<Rightarrow> auth_error + scoped_actor" where
  "toManagementActor raw accountId capability =
     and_then (requireTrustedActor raw accountId capability) (\<lambda>a.
     and_then (scopeFor a) (\<lambda>scope. Inr (scoped_actor_of a capability scope)))"

definition toGameSetupActor :: "trusted_actor option \<Rightarrow> ident \<Rightarrow> string \<Rightarrow> auth_error + scoped_actor" where
  "toGameSetupActor raw accountId capability =
     and_then (requireTrustedActor raw accountId capability) (\<lambda>a.
     and_then (scopeFor a) (\<lambda>scope. Inr (scoped_actor_of a capability scope)))"

definition toCorrectionActor :: "trusted_actor option \<Rightarrow> ident \<Rightarrow> ident \<Rightarrow> auth_error + scoped_actor" where
  "toCorrectionActor raw accountId gameId =
     and_then (requireTrustedActor raw accountId ''game.correct'') (\<lambda>a.
     and_then (require (rtg_kind (tra_target a) = At_GAME \<and> rtg_gameId (tra_target a) = Some gameId) AU_AUTHORIZATION_REQUIRED) (\<lambda>_.
       Inr (scoped_actor_of a ''game.correct'' (On_GAME gameId))))"

end
