(* ===== verification/Club_Roster.thy ===== *)
theory Club_Roster
  imports Club_Management
begin

text \<open>
  The transactions of \<open>PrismaTeamSeasonRosterRepository\<close>.  Each takes the time and the ids of its
  transaction, a command that the schemas have accepted and an actor, and is a step on the tables.  The unique and
  exclusion constraints of the migrations stand where a row is written.
\<close>

section \<open>Errors, audits and versions\<close>

fun translate_management :: "management_error club_failure \<Rightarrow> management_error" where
  "translate_management (Refused e) = e"
| "translate_management (Unique_key table) =
     (if table = ''RosterEntry'' then MG_DUPLICATE_ACTIVE_RELATIONSHIP else MG_LIFECYCLE_CONFLICT)"
| "translate_management Overlapping_periods = MG_LIFECYCLE_CONFLICT"
| "translate_management Missing_parent = MG_ACCOUNT_MISMATCH"
| "translate_management Serialization_conflict = MG_PERSISTENCE_CONFLICT"
| "translate_management Other_db_failure = MG_PERSISTENCE_CONFLICT"

type_synonym management_failure = "management_error club_failure"

definition event_actor_of :: "scoped_actor \<Rightarrow> event_actor" where
  "event_actor_of a = \<lparr>ac_kind = (if sac_actorKind a = USER then USER else SERVICE), ac_id = sac_actorId a,
     ac_userId = sac_actorUserId a\<rparr>"

definition audit_by :: "scoped_actor \<Rightarrow> string \<Rightarrow> string \<Rightarrow> ident \<Rightarrow> club_metadata \<Rightarrow> club \<Rightarrow> 'e club_failure + club" where
  "audit_by a action targetType targetId metadata =
     write_club_audit (sac_accountId a) (event_actor_of a) (sac_capability a) action targetType targetId metadata"

text \<open>An update of the row at its expected revision, and \<open>requireCurrentRevision\<close> when it changed none.\<close>

definition update_current ::
    "('r \<Rightarrow> bool) \<Rightarrow> ('r \<Rightarrow> 'r) \<Rightarrow> ('r \<Rightarrow> bool) \<Rightarrow> ('r \<Rightarrow> int) \<Rightarrow> int \<Rightarrow> 'r list \<Rightarrow> management_failure + 'r list" where
  "update_current P f named revision expected rows =
     (let (n, rows') = update_many P f rows in
      if n = 1 then Inr rows'
      else (case find named rows' of
              None \<Rightarrow> Inl (Refused MG_NOT_FOUND_OR_INACCESSIBLE)
            | Some r \<Rightarrow> Inl (Refused (if revision r \<noteq> expected then MG_STALE_REVISION else MG_PERSISTENCE_CONFLICT))))"

definition found :: "'r option \<Rightarrow> management_failure + 'r" where
  "found x = (case x of None \<Rightarrow> Inl (Refused MG_NOT_FOUND_OR_INACCESSIBLE) | Some r \<Rightarrow> Inr r)"

text \<open>\<open>findUniqueOrThrow\<close>\<close>

definition read_back :: "'r option \<Rightarrow> 'e club_failure + 'r" where
  "read_back x = (case x of None \<Rightarrow> Inl Other_db_failure | Some r \<Rightarrow> Inr r)"

definition at_revision :: "int \<Rightarrow> int \<Rightarrow> management_failure + unit" where
  "at_revision revision expected = require (revision = expected) (Refused MG_STALE_REVISION)"

definition lifecycle_guard :: "bool \<Rightarrow> management_failure + unit" where
  "lifecycle_guard c = require c (Refused MG_LIFECYCLE_CONFLICT)"

datatype management_result = Team_result team_row | Season_result season_row | Participation_result participation_row
  | Player_result player_row | Roster_result roster_row | Jersey_result ident roster_row

section \<open>Teams\<close>

text \<open>The partial unique index on the names of the active teams.\<close>

definition team_names_unique :: "team_row list \<Rightarrow> bool" where
  "team_names_unique rows \<longleftrightarrow>
     distinct (map (\<lambda>t. (tmr_accountId t, tmr_displayName t)) (filter (\<lambda>t. tmr_status t = Team_ACTIVE) rows))"

definition with_teams :: "team_row list \<Rightarrow> club \<Rightarrow> 'e club_failure + club" where
  "with_teams rows st = and_then (require (team_names_unique rows) (Unique_key ''Team'')) (\<lambda>_. Inr (st\<lparr>cb_teams := rows\<rparr>))"

definition createTeam :: "club_env \<Rightarrow> create_team \<Rightarrow> scoped_actor \<Rightarrow> club \<Rightarrow> management_failure + (management_result \<times> club)" where
  "createTeam env c a st =
     (let t = \<lparr>tmr_id = cv_newId env 0, tmr_accountId = ctm_accountId c, tmr_displayName = ctm_displayName c,
          tmr_color = ctm_color c, tmr_status = Team_ACTIVE, tmr_revision = 0, tmr_archivedAt = None\<rparr> in
      and_then (insert_row ''Team'' tmr_id t (cb_teams st)) (\<lambda>rows.
      and_then (with_teams rows st) (\<lambda>st1.
      and_then (require (ctm_accountId c \<in> set (cb_accounts st)) Missing_parent) (\<lambda>_.
      and_then (audit_by a ''team.create'' ''Team'' (tmr_id t) No_metadata st1) (\<lambda>st2. Inr (Team_result t, st2))))))"

definition team_named :: "ident \<Rightarrow> ident \<Rightarrow> team_row \<Rightarrow> bool" where
  "team_named a i r \<longleftrightarrow> tmr_accountId r = a \<and> tmr_id r = i"

definition updateTeam :: "update_team \<Rightarrow> scoped_actor \<Rightarrow> club \<Rightarrow> management_failure + (management_result \<times> club)" where
  "updateTeam c a st =
     and_then (found (team_of st (utm_accountId c) (utm_teamId c))) (\<lambda>t.
     and_then (at_revision (tmr_revision t) (utm_expectedRevision c)) (\<lambda>_.
     and_then (lifecycle_guard (tmr_status t = Team_ACTIVE)) (\<lambda>_.
     and_then (update_current
         (\<lambda>r. team_named (utm_accountId c) (utm_teamId c) r \<and> tmr_revision r = utm_expectedRevision c \<and> tmr_status r = Team_ACTIVE)
         (\<lambda>r. r\<lparr>tmr_displayName := or_else (utm_displayName c) (tmr_displayName r), tmr_color := or_else (utm_color c) (tmr_color r),
            tmr_revision := tmr_revision r + 1\<rparr>)
         (team_named (utm_accountId c) (utm_teamId c)) tmr_revision (utm_expectedRevision c) (cb_teams st)) (\<lambda>rows.
     and_then (with_teams rows st) (\<lambda>st1.
     and_then (audit_by a ''team.update'' ''Team'' (utm_teamId c)
         (Meta_revisions (utm_expectedRevision c) (utm_expectedRevision c + 1)) st1) (\<lambda>st2.
     and_then (read_back (find (\<lambda>r. tmr_id r = utm_teamId c) (cb_teams st2))) (\<lambda>t'. Inr (Team_result t', st2))))))))"

definition live_participation :: "ident \<Rightarrow> ident \<Rightarrow> participation_row \<Rightarrow> bool" where
  "live_participation a teamId p \<longleftrightarrow> par_accountId p = a \<and> par_teamId p = teamId \<and> par_archivedAt p = None"

definition setTeamArchived :: "club_env \<Rightarrow> set_archived \<Rightarrow> scoped_actor \<Rightarrow> club \<Rightarrow> management_failure + (management_result \<times> club)" where
  "setTeamArchived env c a st =
     and_then (found (team_of st (sar_accountId c) (sar_id c))) (\<lambda>t.
     and_then (at_revision (tmr_revision t) (sar_expectedRevision c)) (\<lambda>_.
     and_then (lifecycle_guard (\<not> (sar_archived c \<and> list_ex (live_participation (sar_accountId c) (sar_id c)) (cb_participations st)))) (\<lambda>_.
     and_then (update_current
         (\<lambda>r. team_named (sar_accountId c) (sar_id c) r \<and> tmr_revision r = sar_expectedRevision c)
         (\<lambda>r. r\<lparr>tmr_status := (if sar_archived c then Team_ARCHIVED else Team_ACTIVE),
            tmr_archivedAt := (if sar_archived c then Some (cv_now env) else None), tmr_revision := tmr_revision r + 1\<rparr>)
         (team_named (sar_accountId c) (sar_id c)) tmr_revision (sar_expectedRevision c) (cb_teams st)) (\<lambda>rows.
     and_then (with_teams rows st) (\<lambda>st1.
     and_then (audit_by a (if sar_archived c then ''team.archive'' else ''team.restore'') ''Team'' (sar_id c) No_metadata st1) (\<lambda>st2.
     and_then (read_back (find (\<lambda>r. tmr_id r = sar_id c) (cb_teams st2))) (\<lambda>t'. Inr (Team_result t', st2))))))))"

section \<open>Seasons\<close>

text \<open>\<open>toDate\<close>; a date that does not exist is refused where it would be written.\<close>

definition toDate :: "string option \<Rightarrow> 'e club_failure + int option" where
  "toDate v = (case v of
     None \<Rightarrow> Inr None
   | Some s \<Rightarrow> and_then (valid_instant (date_parse (s @ ''T00:00:00.000Z''))) (\<lambda>t. Inr (Some t)))"

definition season_named :: "ident \<Rightarrow> ident \<Rightarrow> season_row \<Rightarrow> bool" where
  "season_named a i r \<longleftrightarrow> snr_accountId r = a \<and> snr_id r = i"

definition createSeason :: "club_env \<Rightarrow> create_season \<Rightarrow> scoped_actor \<Rightarrow> club \<Rightarrow> management_failure + (management_result \<times> club)" where
  "createSeason env c a st =
     and_then (toDate (csn_startsOn c)) (\<lambda>startsOn.
     and_then (toDate (csn_endsOn c)) (\<lambda>endsOn.
     (let s = \<lparr>snr_id = cv_newId env 0, snr_accountId = csn_accountId c, snr_displayName = csn_displayName c,
          snr_startsOn = startsOn, snr_endsOn = endsOn, snr_status = Season_DRAFT, snr_revision = 0, snr_archivedAt = None\<rparr> in
      and_then (insert_row ''Season'' snr_id s (cb_seasons st)) (\<lambda>rows.
      and_then (require (csn_accountId c \<in> set (cb_accounts st)) Missing_parent) (\<lambda>_.
      and_then (audit_by a ''season.create'' ''Season'' (snr_id s) No_metadata (st\<lparr>cb_seasons := rows\<rparr>)) (\<lambda>st'.
        Inr (Season_result s, st')))))))"

definition chosen_date :: "string option option \<Rightarrow> int option \<Rightarrow> 'e club_failure + int option" where
  "chosen_date given old = (case given of None \<Rightarrow> Inr old | Some v \<Rightarrow> toDate v)"

definition dates_ordered :: "int option \<Rightarrow> int option \<Rightarrow> bool" where
  "dates_ordered startsOn endsOn \<longleftrightarrow> (case (startsOn, endsOn) of (Some s, Some e) \<Rightarrow> \<not> e < s | _ \<Rightarrow> True)"

definition updateSeason :: "update_season \<Rightarrow> scoped_actor \<Rightarrow> club \<Rightarrow> management_failure + (management_result \<times> club)" where
  "updateSeason c a st =
     and_then (found (season_of st (usn_accountId c) (usn_seasonId c))) (\<lambda>s.
     and_then (at_revision (snr_revision s) (usn_expectedRevision c)) (\<lambda>_.
     and_then (lifecycle_guard (\<not> (snr_status s = Season_COMPLETED \<or> snr_status s = Season_ARCHIVED))) (\<lambda>_.
     and_then (chosen_date (usn_startsOn c) (snr_startsOn s)) (\<lambda>startsOn.
     and_then (chosen_date (usn_endsOn c) (snr_endsOn s)) (\<lambda>endsOn.
     and_then (require (dates_ordered startsOn endsOn) (Refused MG_INVALID_INPUT)) (\<lambda>_.
     and_then (update_current
         (\<lambda>r. season_named (usn_accountId c) (usn_seasonId c) r \<and> snr_revision r = usn_expectedRevision c \<and> open_season (snr_status r))
         (\<lambda>r. r\<lparr>snr_displayName := or_else (usn_displayName c) (snr_displayName r), snr_startsOn := startsOn, snr_endsOn := endsOn,
            snr_revision := snr_revision r + 1\<rparr>)
         (season_named (usn_accountId c) (usn_seasonId c)) snr_revision (usn_expectedRevision c) (cb_seasons st)) (\<lambda>rows.
     and_then (audit_by a ''season.update'' ''Season'' (usn_seasonId c) No_metadata (st\<lparr>cb_seasons := rows\<rparr>)) (\<lambda>st2.
     and_then (read_back (find (\<lambda>r. snr_id r = usn_seasonId c) (cb_seasons st2))) (\<lambda>s'. Inr (Season_result s', st2))))))))))"

fun season_successors :: "season_status \<Rightarrow> season_status list" where
  "season_successors Season_DRAFT = [Season_ACTIVE, Season_ARCHIVED]"
| "season_successors Season_ACTIVE = [Season_COMPLETED]"
| "season_successors Season_COMPLETED = [Season_ARCHIVED]"
| "season_successors Season_ARCHIVED = []"

definition in_season :: "club \<Rightarrow> ident \<Rightarrow> roster_row \<Rightarrow> bool" where
  "in_season st seasonId r \<longleftrightarrow>
     (case participation_of st (rer_accountId r) (rer_teamSeasonId r) of Some p \<Rightarrow> par_seasonId p = seasonId | None \<Rightarrow> False)"

text \<open>\<open>DRAFT\<close>, \<open>READY\<close>, \<open>IN_PROGRESS\<close>, \<open>SUSPENDED\<close> and \<open>CORRECTED\<close>.\<close>

definition operational :: "game_status option \<Rightarrow> bool" where
  "operational s \<longleftrightarrow> s \<in> set [None, Some READY, Some IN_PROGRESS, Some SUSPENDED, Some CORRECTED]"

definition season_has_rosters :: "club \<Rightarrow> ident \<Rightarrow> ident \<Rightarrow> bool" where
  "season_has_rosters st a i \<longleftrightarrow>
     list_ex (\<lambda>r. rer_accountId r = a \<and> in_season st i r \<and> rer_status r = Roster_ACTIVE) (cb_rosters st)"

definition season_has_games :: "club \<Rightarrow> ident \<Rightarrow> ident \<Rightarrow> bool" where
  "season_has_games st a i \<longleftrightarrow> list_ex (\<lambda>g. cgr_accountId g = a \<and> cgr_seasonId g = i \<and> operational (cgr_status g)) (cb_games st)"

definition transitionSeason :: "club_env \<Rightarrow> transition_season \<Rightarrow> scoped_actor \<Rightarrow> club \<Rightarrow> management_failure + (management_result \<times> club)" where
  "transitionSeason env c a st =
     and_then (found (season_of st (trn_accountId c) (trn_seasonId c))) (\<lambda>s.
     and_then (at_revision (snr_revision s) (trn_expectedRevision c)) (\<lambda>_.
     and_then (lifecycle_guard (trn_status c \<in> set (season_successors (snr_status s)))) (\<lambda>_.
     and_then (lifecycle_guard (\<not> (trn_status c = Season_ARCHIVED \<and> season_has_rosters st (trn_accountId c) (trn_seasonId c)))) (\<lambda>_.
     and_then (lifecycle_guard (\<not> ((trn_status c = Season_COMPLETED \<or> trn_status c = Season_ARCHIVED) \<and>
         season_has_games st (trn_accountId c) (trn_seasonId c)))) (\<lambda>_.
     and_then (update_current
         (\<lambda>r. season_named (trn_accountId c) (trn_seasonId c) r \<and> snr_revision r = trn_expectedRevision c)
         (\<lambda>r. r\<lparr>snr_status := trn_status c, snr_archivedAt := (if trn_status c = Season_ARCHIVED then Some (cv_now env) else None),
            snr_revision := snr_revision r + 1\<rparr>)
         (season_named (trn_accountId c) (trn_seasonId c)) snr_revision (trn_expectedRevision c) (cb_seasons st)) (\<lambda>rows.
     and_then (audit_by a ''season.transition'' ''Season'' (trn_seasonId c) (Meta_statuses (snr_status s) (trn_status c))
         (st\<lparr>cb_seasons := rows\<rparr>)) (\<lambda>st2.
     and_then (read_back (find (\<lambda>r. snr_id r = trn_seasonId c) (cb_seasons st2))) (\<lambda>s'. Inr (Season_result s', st2)))))))))"

end
