(* ===== verification/Club_Periods.thy ===== *)
theory Club_Periods
  imports Club_Roster "HOL-Library.Product_Lexorder"
begin

text \<open>
  The transactions of \<open>PrismaTeamSeasonRosterRepository\<close> on participations, players and roster
  periods, its paged lists, and the step that a command of the management takes.
\<close>

section \<open>Participations\<close>

definition participation_named :: "ident \<Rightarrow> ident \<Rightarrow> participation_row \<Rightarrow> bool" where
  "participation_named a i r \<longleftrightarrow> par_accountId r = a \<and> par_id r = i"

definition participation_key :: "participation_row \<Rightarrow> ident \<times> ident \<times> ident" where
  "participation_key r = (par_accountId r, par_teamId r, par_seasonId r)"

definition addTeamSeason :: "club_env \<Rightarrow> add_participation \<Rightarrow> scoped_actor \<Rightarrow> club \<Rightarrow> management_failure + (management_result \<times> club)" where
  "addTeamSeason env c a st =
     (case (team_of st (apt_accountId c) (apt_teamId c), season_of st (apt_accountId c) (apt_seasonId c)) of
        (Some t, Some s) \<Rightarrow>
          and_then (lifecycle_guard (\<not> (tmr_status t \<noteq> Team_ACTIVE \<or> \<not> open_season (snr_status s)))) (\<lambda>_.
          (let p = \<lparr>par_id = cv_newId env 0, par_accountId = apt_accountId c, par_teamId = apt_teamId c,
               par_seasonId = apt_seasonId c, par_revision = 0, par_archivedAt = None\<rparr> in
           and_then (insert_row ''TeamSeason'' par_id p (cb_participations st)) (\<lambda>rows.
           and_then (require (participation_key p \<notin> participation_key ` set (cb_participations st)) (Unique_key ''TeamSeason'')) (\<lambda>_.
           and_then (audit_by a ''team_season.create'' ''TeamSeason'' (par_id p) No_metadata (st\<lparr>cb_participations := rows\<rparr>)) (\<lambda>st'.
             Inr (Participation_result p, st'))))))
      | _ \<Rightarrow> Inl (Refused MG_NOT_FOUND_OR_INACCESSIBLE))"

definition active_period_in :: "ident \<Rightarrow> ident \<Rightarrow> roster_row \<Rightarrow> bool" where
  "active_period_in a i r \<longleftrightarrow> rer_accountId r = a \<and> rer_teamSeasonId r = i \<and> rer_status r = Roster_ACTIVE"

definition operational_game_of :: "ident \<Rightarrow> ident \<Rightarrow> club_game_row \<Rightarrow> bool" where
  "operational_game_of a i g \<longleftrightarrow> cgr_accountId g = a \<and> cgr_teamSeasonId g = i \<and> operational (cgr_status g)"

definition setTeamSeasonArchived ::
    "club_env \<Rightarrow> set_archived \<Rightarrow> scoped_actor \<Rightarrow> club \<Rightarrow> management_failure + (management_result \<times> club)" where
  "setTeamSeasonArchived env c a st =
     and_then (found (participation_of st (sar_accountId c) (sar_id c))) (\<lambda>p.
     and_then (at_revision (par_revision p) (sar_expectedRevision c)) (\<lambda>_.
     and_then (lifecycle_guard (\<not> (\<not> sar_archived c \<and> (\<not> team_active st p \<or> \<not> season_open st p)))) (\<lambda>_.
     and_then (lifecycle_guard (\<not> (sar_archived c \<and> (list_ex (active_period_in (sar_accountId c) (sar_id c)) (cb_rosters st) \<or>
         list_ex (operational_game_of (sar_accountId c) (sar_id c)) (cb_games st))))) (\<lambda>_.
     and_then (update_current
         (\<lambda>r. participation_named (sar_accountId c) (sar_id c) r \<and> par_revision r = sar_expectedRevision c)
         (\<lambda>r. r\<lparr>par_archivedAt := (if sar_archived c then Some (cv_now env) else None), par_revision := par_revision r + 1\<rparr>)
         (participation_named (sar_accountId c) (sar_id c)) par_revision (sar_expectedRevision c) (cb_participations st)) (\<lambda>rows.
     and_then (audit_by a (if sar_archived c then ''team_season.archive'' else ''team_season.restore'') ''TeamSeason'' (sar_id c)
         No_metadata (st\<lparr>cb_participations := rows\<rparr>)) (\<lambda>st2.
     and_then (read_back (find (\<lambda>r. par_id r = sar_id c) (cb_participations st2))) (\<lambda>p'. Inr (Participation_result p', st2))))))))"

section \<open>Players\<close>

definition player_named :: "ident \<Rightarrow> ident \<Rightarrow> player_row \<Rightarrow> bool" where
  "player_named a i r \<longleftrightarrow> plr_accountId r = a \<and> plr_id r = i"

definition createPlayer :: "club_env \<Rightarrow> create_player \<Rightarrow> scoped_actor \<Rightarrow> club \<Rightarrow> management_failure + (management_result \<times> club)" where
  "createPlayer env c a st =
     (let p = \<lparr>plr_id = cv_newId env 0, plr_accountId = cpl_accountId c, plr_displayName = cpl_displayName c,
          plr_battingSide = cpl_battingSide c, plr_throwingHand = cpl_throwingHand c, plr_revision = 0, plr_archivedAt = None\<rparr> in
      and_then (insert_row ''Player'' plr_id p (cb_players st)) (\<lambda>rows.
      and_then (require (cpl_accountId c \<in> set (cb_accounts st)) Missing_parent) (\<lambda>_.
      and_then (audit_by a ''player.create'' ''Player'' (plr_id p) No_metadata (st\<lparr>cb_players := rows\<rparr>)) (\<lambda>st'.
        Inr (Player_result p, st')))))"

definition updatePlayer :: "update_player \<Rightarrow> scoped_actor \<Rightarrow> club \<Rightarrow> management_failure + (management_result \<times> club)" where
  "updatePlayer c a st =
     and_then (found (player_of st (upl_accountId c) (upl_playerId c))) (\<lambda>p.
     and_then (at_revision (plr_revision p) (upl_expectedRevision c)) (\<lambda>_.
     and_then (lifecycle_guard (plr_archivedAt p = None)) (\<lambda>_.
     and_then (update_current
         (\<lambda>r. player_named (upl_accountId c) (upl_playerId c) r \<and> plr_revision r = upl_expectedRevision c \<and> plr_archivedAt r = None)
         (\<lambda>r. r\<lparr>plr_displayName := or_else (upl_displayName c) (plr_displayName r),
            plr_battingSide := or_else (upl_battingSide c) (plr_battingSide r),
            plr_throwingHand := or_else (upl_throwingHand c) (plr_throwingHand r), plr_revision := plr_revision r + 1\<rparr>)
         (player_named (upl_accountId c) (upl_playerId c)) plr_revision (upl_expectedRevision c) (cb_players st)) (\<lambda>rows.
     and_then (audit_by a ''player.update'' ''Player'' (upl_playerId c) No_metadata (st\<lparr>cb_players := rows\<rparr>)) (\<lambda>st2.
     and_then (read_back (find (\<lambda>r. plr_id r = upl_playerId c) (cb_players st2))) (\<lambda>p'. Inr (Player_result p', st2)))))))"

definition active_period_of :: "ident \<Rightarrow> ident \<Rightarrow> roster_row \<Rightarrow> bool" where
  "active_period_of a i r \<longleftrightarrow> rer_accountId r = a \<and> rer_playerId r = i \<and> rer_status r = Roster_ACTIVE"

definition setPlayerArchived ::
    "club_env \<Rightarrow> set_archived \<Rightarrow> scoped_actor \<Rightarrow> club \<Rightarrow> management_failure + (management_result \<times> club)" where
  "setPlayerArchived env c a st =
     and_then (found (player_of st (sar_accountId c) (sar_id c))) (\<lambda>p.
     and_then (at_revision (plr_revision p) (sar_expectedRevision c)) (\<lambda>_.
     and_then (lifecycle_guard (\<not> (sar_archived c \<and> list_ex (active_period_of (sar_accountId c) (sar_id c)) (cb_rosters st)))) (\<lambda>_.
     and_then (update_current
         (\<lambda>r. player_named (sar_accountId c) (sar_id c) r \<and> plr_revision r = sar_expectedRevision c)
         (\<lambda>r. r\<lparr>plr_archivedAt := (if sar_archived c then Some (cv_now env) else None), plr_revision := plr_revision r + 1\<rparr>)
         (player_named (sar_accountId c) (sar_id c)) plr_revision (sar_expectedRevision c) (cb_players st)) (\<lambda>rows.
     and_then (audit_by a (if sar_archived c then ''player.archive'' else ''player.restore'') ''Player'' (sar_id c) No_metadata
         (st\<lparr>cb_players := rows\<rparr>)) (\<lambda>st2.
     and_then (read_back (find (\<lambda>r. plr_id r = sar_id c) (cb_players st2))) (\<lambda>p'. Inr (Player_result p', st2)))))))"

section \<open>Roster periods\<close>

text \<open>Half-open periods; one that has no end is unbounded.\<close>

definition before_end :: "int \<Rightarrow> int option \<Rightarrow> bool" where
  "before_end t e = (case e of None \<Rightarrow> True | Some x \<Rightarrow> t < x)"

definition same_membership :: "roster_row \<Rightarrow> roster_row \<Rightarrow> bool" where
  "same_membership r s \<longleftrightarrow> rer_accountId r = rer_accountId s \<and> rer_teamSeasonId r = rer_teamSeasonId s \<and>
     rer_playerId r = rer_playerId s"

definition periods_overlap :: "roster_row \<Rightarrow> roster_row \<Rightarrow> bool" where
  "periods_overlap r s \<longleftrightarrow> before_end (rer_startsAt r) (rer_endsAt s) \<and> before_end (rer_startsAt s) (rer_endsAt r)"

definition insert_period :: "roster_row \<Rightarrow> club \<Rightarrow> 'e club_failure + club" where
  "insert_period r st =
     and_then (insert_row ''RosterEntry'' rer_id r (cb_rosters st)) (\<lambda>rows.
     and_then (require (\<not> (rer_status r = Roster_ACTIVE \<and>
         list_ex (\<lambda>s. same_membership r s \<and> rer_status s = Roster_ACTIVE) (cb_rosters st))) (Unique_key ''RosterEntry'')) (\<lambda>_.
     and_then (require (\<not> list_ex (\<lambda>s. same_membership r s \<and> periods_overlap r s) (cb_rosters st)) Overlapping_periods) (\<lambda>_.
       Inr (st\<lparr>cb_rosters := rows\<rparr>))))"

definition new_period :: "club_env \<Rightarrow> ident \<Rightarrow> ident \<Rightarrow> ident \<Rightarrow> int \<Rightarrow> string option \<Rightarrow> position option \<Rightarrow> roster_row" where
  "new_period env accountId teamSeasonId playerId startsAt jersey pos =
     \<lparr>rer_id = cv_newId env 0, rer_accountId = accountId, rer_playerId = playerId, rer_teamSeasonId = teamSeasonId,
      rer_jerseyNumber = jersey, rer_primaryPosition = pos, rer_status = Roster_ACTIVE, rer_startsAt = startsAt,
      rer_endsAt = None, rer_revision = 0, rer_archivedAt = None\<rparr>"

definition addRosterPeriod :: "club_env \<Rightarrow> add_period \<Rightarrow> scoped_actor \<Rightarrow> club \<Rightarrow> management_failure + (management_result \<times> club)" where
  "addRosterPeriod env c a st =
     (case (participation_of st (arp_accountId c) (arp_teamSeasonId c), player_of st (arp_accountId c) (arp_playerId c)) of
        (Some p, Some q) \<Rightarrow>
          and_then (lifecycle_guard (\<not> (par_archivedAt p \<noteq> None \<or> \<not> team_active st p \<or> \<not> season_open st p \<or> plr_archivedAt q \<noteq> None))) (\<lambda>_.
          and_then (valid_instant (date_parse (arp_startsAt c))) (\<lambda>startsAt.
          (let r = new_period env (arp_accountId c) (arp_teamSeasonId c) (arp_playerId c) startsAt (arp_jerseyNumber c)
                 (arp_primaryPosition c) in
           and_then (insert_period r st) (\<lambda>st1.
           and_then (audit_by a ''roster_period.start'' ''RosterEntry'' (rer_id r) No_metadata st1) (\<lambda>st2.
             Inr (Roster_result r, st2))))))
      | _ \<Rightarrow> Inl (Refused MG_NOT_FOUND_OR_INACCESSIBLE))"

definition roster_named :: "ident \<Rightarrow> ident \<Rightarrow> roster_row \<Rightarrow> bool" where
  "roster_named a i r \<longleftrightarrow> rer_accountId r = a \<and> rer_id r = i"

text \<open>A slot of the setup of a game that is ready names the roster entry.\<close>

definition ready_for_game :: "club \<Rightarrow> setup_snapshot_row \<Rightarrow> bool" where
  "ready_for_game st s \<longleftrightarrow> list_ex (\<lambda>g. cgr_accountId g = gsr_accountId s \<and> cgr_id g = gsr_gameId s \<and>
     cgr_readySetupSnapshotId g = Some (gsr_id s) \<and> cgr_status g = Some READY) (cb_games st)"

definition ready_depends :: "club \<Rightarrow> ident \<Rightarrow> ident \<Rightarrow> bool" where
  "ready_depends st a i \<longleftrightarrow> list_ex (\<lambda>s. gsr_accountId s = a \<and> ready_for_game st s \<and>
     list_ex (\<lambda>l. lss_rosterEntryId l = Some i) (gsr_lineupSlots s)) (cb_setups st)"

text \<open>The period that is ended: only the row that is active and has no end yet.\<close>

definition end_of_period ::
    "ident \<Rightarrow> ident \<Rightarrow> int \<Rightarrow> roster_status \<Rightarrow> int \<Rightarrow> int option \<Rightarrow> club \<Rightarrow> management_failure + club" where
  "end_of_period accountId i expected status endsAt archivedAt st =
     and_then (update_current
         (\<lambda>r. roster_named accountId i r \<and> rer_revision r = expected \<and> rer_status r = Roster_ACTIVE \<and> rer_endsAt r = None)
         (\<lambda>r. r\<lparr>rer_status := status, rer_endsAt := Some endsAt, rer_archivedAt := archivedAt, rer_revision := rer_revision r + 1\<rparr>)
         (roster_named accountId i) rer_revision expected (cb_rosters st)) (\<lambda>rows. Inr (st\<lparr>cb_rosters := rows\<rparr>))"

definition endRosterPeriod :: "club_env \<Rightarrow> end_period \<Rightarrow> scoped_actor \<Rightarrow> club \<Rightarrow> management_failure + (management_result \<times> club)" where
  "endRosterPeriod env c a st =
     and_then (found (roster_of st (erp_accountId c) (erp_rosterEntryId c))) (\<lambda>r.
     and_then (at_revision (rer_revision r) (erp_expectedRevision c)) (\<lambda>_.
     and_then (lifecycle_guard (\<not> ready_depends st (erp_accountId c) (erp_rosterEntryId c))) (\<lambda>_.
     and_then (lifecycle_guard (\<not> (rer_status r \<noteq> Roster_ACTIVE \<or> instant_le (date_parse (erp_endsAt c)) (rer_startsAt r)))) (\<lambda>_.
     and_then (valid_instant (date_parse (erp_endsAt c))) (\<lambda>endsAt.
     and_then (end_of_period (erp_accountId c) (erp_rosterEntryId c) (erp_expectedRevision c)
         (if erp_archive c then Roster_ARCHIVED else Roster_INACTIVE) endsAt
         (if erp_archive c then Some (cv_now env) else rer_archivedAt r) st) (\<lambda>st1.
     and_then (audit_by a ''roster_period.end'' ''RosterEntry'' (erp_rosterEntryId c) No_metadata st1) (\<lambda>st2.
     and_then (read_back (find (\<lambda>r. rer_id r = erp_rosterEntryId c) (cb_rosters st2))) (\<lambda>r'. Inr (Roster_result r', st2)))))))))"

definition changeJersey :: "club_env \<Rightarrow> change_jersey \<Rightarrow> scoped_actor \<Rightarrow> club \<Rightarrow> management_failure + (management_result \<times> club)" where
  "changeJersey env c a st =
     and_then (found (roster_of st (cjr_accountId c) (cjr_rosterEntryId c))) (\<lambda>r.
     and_then (at_revision (rer_revision r) (cjr_expectedRevision c)) (\<lambda>_.
     and_then (lifecycle_guard (\<not> ready_depends st (cjr_accountId c) (cjr_rosterEntryId c))) (\<lambda>_.
     and_then (read_back (player_of st (rer_accountId r) (rer_playerId r))) (\<lambda>q.
     and_then (read_back (participation_of st (rer_accountId r) (rer_teamSeasonId r))) (\<lambda>p.
     and_then (lifecycle_guard (\<not> (rer_status r \<noteq> Roster_ACTIVE \<or> instant_le (date_parse (cjr_effectiveAt c)) (rer_startsAt r) \<or>
         plr_archivedAt q \<noteq> None \<or> par_archivedAt p \<noteq> None \<or> \<not> team_active st p \<or> \<not> season_open st p))) (\<lambda>_.
     and_then (valid_instant (date_parse (cjr_effectiveAt c))) (\<lambda>effectiveAt.
     and_then (end_of_period (cjr_accountId c) (cjr_rosterEntryId c) (cjr_expectedRevision c) Roster_INACTIVE effectiveAt
         (rer_archivedAt r) st) (\<lambda>st1.
     (let new = new_period env (cjr_accountId c) (rer_teamSeasonId r) (rer_playerId r) effectiveAt (cjr_jerseyNumber c)
            (or_else (cjr_primaryPosition c) (rer_primaryPosition r)) in
      and_then (insert_period new st1) (\<lambda>st2.
      and_then (audit_by a ''roster_period.jersey_change'' ''RosterEntry'' (rer_id new)
         (Meta_replaced (rer_id r) (cjr_expectedRevision c)) st2) (\<lambda>st3.
        Inr (Jersey_result (rer_id r) new, st3))))))))))))"

section \<open>Paged lists\<close>

text \<open>A page starts behind its cursor and holds at most \<open>limit\<close> rows; the next page starts behind its last row.\<close>

definition page_of :: "('r \<Rightarrow> 'k::linorder) \<Rightarrow> nat \<Rightarrow> 'k option \<Rightarrow> 'r list \<Rightarrow> 'r list \<times> 'r option" where
  "page_of key limit after rows =
     (let items = take (limit + 1) (sort_key key (filter (\<lambda>r. case after of None \<Rightarrow> True | Some k \<Rightarrow> k < key r) rows));
          visible = take limit items
      in (visible, if length items > limit \<and> visible \<noteq> [] then Some (last visible) else None))"

record name_page =
  npg_accountId :: ident
  npg_limit :: "int option"
  npg_after :: "(string \<times> ident) option"

definition page_limit :: "int option \<Rightarrow> int" where
  "page_limit l = or_else l 25"

definition limit_ok :: "int option \<Rightarrow> bool" where
  "limit_ok l \<longleftrightarrow> 1 \<le> page_limit l \<and> page_limit l \<le> 100"

definition parse_name_page :: "name_page option \<Rightarrow> management_error + name_page" where
  "parse_name_page = parseManagementInput
     (\<lambda>p. p\<lparr>npg_accountId := trim (npg_accountId p), npg_after := map_option (\<lambda>(n, i). (n, trim i)) (npg_after p)\<rparr>)
     (\<lambda>p. schema_id (npg_accountId p) \<and> limit_ok (npg_limit p) \<and> optional (\<lambda>(n, i). schema_id i) (npg_after p)) id"

definition name_key :: "club_env \<Rightarrow> string \<Rightarrow> ident \<Rightarrow> string \<times> string" where
  "name_key env name i = (cv_collation env name, cv_collation env i)"

definition name_page_of :: "club_env \<Rightarrow> ('r \<Rightarrow> string) \<Rightarrow> ('r \<Rightarrow> ident) \<Rightarrow> name_page \<Rightarrow> 'r list \<Rightarrow> 'r list \<times> (string \<times> ident) option" where
  "name_page_of env name i p rows =
     (let (visible, next) = page_of (\<lambda>r. name_key env (name r) (i r)) (nat (page_limit (npg_limit p)))
          (map_option (\<lambda>(n, j). name_key env n j) (npg_after p)) rows
      in (visible, map_option (\<lambda>r. (name r, i r)) next))"

definition team_in_view :: "club \<Rightarrow> scoped_actor \<Rightarrow> ident \<Rightarrow> team_row \<Rightarrow> bool" where
  "team_in_view st a accountId t \<longleftrightarrow> tmr_accountId t = accountId \<and>
     (case sac_scope a of
        On_TEAM i \<Rightarrow> tmr_id t = i
      | On_SEASON i \<Rightarrow> list_ex (\<lambda>p. par_accountId p = tmr_accountId t \<and> par_teamId p = tmr_id t \<and> par_seasonId p = i) (cb_participations st)
      | _ \<Rightarrow> True)"

definition season_in_view :: "club \<Rightarrow> scoped_actor \<Rightarrow> ident \<Rightarrow> season_row \<Rightarrow> bool" where
  "season_in_view st a accountId s \<longleftrightarrow> snr_accountId s = accountId \<and>
     (case sac_scope a of
        On_SEASON i \<Rightarrow> snr_id s = i
      | On_TEAM i \<Rightarrow> list_ex (\<lambda>p. par_accountId p = snr_accountId s \<and> par_seasonId p = snr_id s \<and> par_teamId p = i) (cb_participations st)
      | _ \<Rightarrow> True)"

definition roster_in_view :: "club \<Rightarrow> scoped_actor \<Rightarrow> roster_row \<Rightarrow> bool" where
  "roster_in_view st a r \<longleftrightarrow>
     (case participation_of st (rer_accountId r) (rer_teamSeasonId r) of
        None \<Rightarrow> (case sac_scope a of On_TEAM _ \<Rightarrow> False | On_SEASON _ \<Rightarrow> False | _ \<Rightarrow> True)
      | Some p \<Rightarrow> (case sac_scope a of On_TEAM i \<Rightarrow> par_teamId p = i | On_SEASON i \<Rightarrow> par_seasonId p = i | _ \<Rightarrow> True))"

definition player_in_view :: "club \<Rightarrow> scoped_actor \<Rightarrow> ident \<Rightarrow> player_row \<Rightarrow> bool" where
  "player_in_view st a accountId q \<longleftrightarrow> plr_accountId q = accountId \<and>
     (case sac_scope a of
        On_TEAM _ \<Rightarrow> list_ex (\<lambda>r. rer_accountId r = plr_accountId q \<and> rer_playerId r = plr_id q \<and> roster_in_view st a r) (cb_rosters st)
      | On_SEASON _ \<Rightarrow> list_ex (\<lambda>r. rer_accountId r = plr_accountId q \<and> rer_playerId r = plr_id q \<and> roster_in_view st a r) (cb_rosters st)
      | _ \<Rightarrow> True)"

definition listTeams :: "club_env \<Rightarrow> name_page \<Rightarrow> scoped_actor \<Rightarrow> club \<Rightarrow> team_row list \<times> (string \<times> ident) option" where
  "listTeams env p a st = name_page_of env tmr_displayName tmr_id p (filter (team_in_view st a (npg_accountId p)) (cb_teams st))"

definition listSeasons :: "club_env \<Rightarrow> name_page \<Rightarrow> scoped_actor \<Rightarrow> club \<Rightarrow> season_row list \<times> (string \<times> ident) option" where
  "listSeasons env p a st = name_page_of env snr_displayName snr_id p (filter (season_in_view st a (npg_accountId p)) (cb_seasons st))"

definition listPlayers :: "club_env \<Rightarrow> name_page \<Rightarrow> scoped_actor \<Rightarrow> club \<Rightarrow> player_row list \<times> (string \<times> ident) option" where
  "listPlayers env p a st = name_page_of env plr_displayName plr_id p (filter (player_in_view st a (npg_accountId p)) (cb_players st))"

record history_page =
  hpg_accountId :: ident
  hpg_teamSeasonId :: "ident option"
  hpg_playerId :: "ident option"
  hpg_limit :: "int option"
  hpg_after :: "(string \<times> ident) option"

definition parse_history_page :: "(string \<Rightarrow> bool) \<Rightarrow> history_page option \<Rightarrow> management_error + history_page" where
  "parse_history_page isodt = parseManagementInput
     (\<lambda>p. p\<lparr>hpg_accountId := trim (hpg_accountId p), hpg_teamSeasonId := map_option trim (hpg_teamSeasonId p),
        hpg_playerId := map_option trim (hpg_playerId p), hpg_after := map_option (\<lambda>(n, i). (n, trim i)) (hpg_after p)\<rparr>)
     (\<lambda>p. schema_id (hpg_accountId p) \<and> optional schema_id (hpg_teamSeasonId p) \<and> optional schema_id (hpg_playerId p) \<and>
        limit_ok (hpg_limit p) \<and> optional (\<lambda>(t, i). isodt t \<and> schema_id i) (hpg_after p) \<and>
        (hpg_teamSeasonId p \<noteq> None \<or> hpg_playerId p \<noteq> None)) id"

text \<open>The latest period first; a cursor that is no date fails the query.\<close>

definition history_key :: "club_env \<Rightarrow> int \<Rightarrow> ident \<Rightarrow> int \<times> string" where
  "history_key env startsAt i = (- startsAt, cv_collation env i)"

definition history_rows :: "history_page \<Rightarrow> scoped_actor \<Rightarrow> club \<Rightarrow> roster_row list" where
  "history_rows p a st = filter (\<lambda>r. rer_accountId r = hpg_accountId p \<and> roster_in_view st a r \<and>
     optional (\<lambda>t. rer_teamSeasonId r = t) (hpg_teamSeasonId p) \<and> optional (\<lambda>q. rer_playerId r = q) (hpg_playerId p)) (cb_rosters st)"

definition listRosterHistory ::
    "club_env \<Rightarrow> history_page \<Rightarrow> scoped_actor \<Rightarrow> club \<Rightarrow> (roster_row list \<times> (string \<times> ident) option) option" where
  "listRosterHistory env p a st =
     (if (case hpg_after p of Some (t, _) \<Rightarrow> date_parse t = None | None \<Rightarrow> False) then None
      else (let (visible, next) = page_of (\<lambda>r. history_key env (rer_startsAt r) (rer_id r)) (nat (page_limit (hpg_limit p)))
              (map_option (\<lambda>(t, i). history_key env (or_else (date_parse t) 0) i) (hpg_after p)) (history_rows p a st)
            in Some (visible, map_option (\<lambda>r. (iso_string (rer_startsAt r), rer_id r)) next)))"

section \<open>The commands of the management\<close>

datatype management_command = Create_team create_team | Update_team update_team | Set_team_archived set_archived
  | Create_season create_season | Update_season update_season | Transition_season transition_season
  | Add_team_season add_participation | Set_team_season_archived set_archived
  | Create_player create_player | Update_player update_player | Set_player_archived set_archived
  | Add_roster_period add_period | End_roster_period end_period | Change_jersey change_jersey

definition management_body ::
    "club_env \<Rightarrow> scoped_actor \<Rightarrow> management_command \<Rightarrow> club \<Rightarrow> management_failure + (management_result \<times> club)" where
  "management_body env a cmd =
     (case cmd of
        Create_team c \<Rightarrow> createTeam env c a | Update_team c \<Rightarrow> updateTeam c a | Set_team_archived c \<Rightarrow> setTeamArchived env c a
      | Create_season c \<Rightarrow> createSeason env c a | Update_season c \<Rightarrow> updateSeason c a
      | Transition_season c \<Rightarrow> transitionSeason env c a
      | Add_team_season c \<Rightarrow> addTeamSeason env c a | Set_team_season_archived c \<Rightarrow> setTeamSeasonArchived env c a
      | Create_player c \<Rightarrow> createPlayer env c a | Update_player c \<Rightarrow> updatePlayer c a
      | Set_player_archived c \<Rightarrow> setPlayerArchived env c a
      | Add_roster_period c \<Rightarrow> addRosterPeriod env c a | End_roster_period c \<Rightarrow> endRosterPeriod env c a
      | Change_jersey c \<Rightarrow> changeJersey env c a)"

definition manage ::
    "club_env \<Rightarrow> bool \<Rightarrow> scoped_actor \<Rightarrow> management_command \<Rightarrow> club \<Rightarrow> (management_error + management_result) \<times> club" where
  "manage env conflict a cmd st = transact translate_management conflict (management_body env a cmd) st"

end
