(* ===== verification/Setup_Store.thy ===== *)
theory Setup_Store
  imports Setup_Commands Club_Periods
begin

text \<open>
  The transactions of \<open>PrismaGameSetupRepository\<close> in \<open>src/server/data/game-setup-repository.ts\<close>: a draft game, a new
  revision of its setup, the mark that the setup is ready, and its queries.  As in the event store, the argument
  \<open>abort\<close> is the store that other transactions have left when the database aborts one.  The constraints on the sides and
  the slots of a snapshot follow from the checks of the command.
\<close>

section \<open>Errors and rulesets\<close>

fun translate_setup :: "setup_error club_failure \<Rightarrow> setup_error" where
  "translate_setup (Refused e) = e"
| "translate_setup (Unique_key table) =
     (if table = ''LineupSlotSnapshot'' \<or> table = ''GameTeamSnapshot'' then GS_INVALID_LINEUP else GS_DUPLICATE_SUBMISSION)"
| "translate_setup Missing_parent = GS_ACCOUNT_MISMATCH"
| "translate_setup Overlapping_periods = GS_PERSISTENCE_CONFLICT"
| "translate_setup Serialization_conflict = GS_PERSISTENCE_CONFLICT"
| "translate_setup Other_db_failure = GS_PERSISTENCE_CONFLICT"

type_synonym setup_failure = "setup_error club_failure"

record setup_rules =
  sru_scheduledInnings :: int
  sru_maximumLineupSize :: int
  sru_allowDefensiveOnly :: bool

definition parseRuleset :: "ruleset_configuration option \<Rightarrow> setup_failure + setup_rules" where
  "parseRuleset raw =
     (case raw of
        None \<Rightarrow> Inl (Refused GS_INVALID_INPUT)
      | Some r \<Rightarrow>
          (let size = or_else (rcf_maximumLineupSize r) 30 in
           and_then (require (1 \<le> rcf_scheduledInnings r \<and> rcf_scheduledInnings r \<le> 20 \<and> 1 \<le> size \<and> size \<le> 30)
             (Refused GS_INVALID_INPUT)) (\<lambda>_.
             Inr \<lparr>sru_scheduledInnings = rcf_scheduledInnings r, sru_maximumLineupSize = size,
                  sru_allowDefensiveOnly = or_else (rcf_allowDefensiveOnly r) True\<rparr>)))"

definition refuse_unless :: "bool \<Rightarrow> setup_error \<Rightarrow> setup_failure + unit" where
  "refuse_unless c e = require c (Refused e)"

definition found_or :: "setup_error \<Rightarrow> 'r option \<Rightarrow> setup_failure + 'r" where
  "found_or e x = (case x of None \<Rightarrow> Inl (Refused e) | Some r \<Rightarrow> Inr r)"

section \<open>Snapshots\<close>

text \<open>The order in which the sides and the slots of a snapshot are read.\<close>

definition ordered_snapshot :: "club_env \<Rightarrow> setup_snapshot_row \<Rightarrow> setup_snapshot_row" where
  "ordered_snapshot env r = r\<lparr>
     gsr_teamSnapshots := sort_key (\<lambda>t. side_index_of (tsr_side t)) (sort_key (\<lambda>t. cv_collation env (tsr_id t)) (gsr_teamSnapshots r)),
     gsr_lineupSlots := sort_key (\<lambda>l. lsr_battingOrder l = None) (sort_key (\<lambda>l. or_else (lsr_battingOrder l) 0)
       (sort_key (\<lambda>l. cv_collation env (lsr_id l)) (gsr_lineupSlots r)))\<rparr>"

definition accepted_side :: "setup_snapshot_row \<Rightarrow> game_side \<Rightarrow> setup_error + setup_side" where
  "accepted_side r name =
     (case find (\<lambda>t. tsr_side t = name) (gsr_teamSnapshots r) of
        None \<Rightarrow> Inl GS_SETUP_INCOMPLETE
      | Some team \<Rightarrow>
          (let slots = filter (\<lambda>l. lsr_gameTeamSnapshotId l = tsr_id team) (gsr_lineupSlots r) in
           case filter lsr_isStartingPitcher slots of
             [pitcher] \<Rightarrow> Inr \<lparr>
               ss_lineup = map (\<lambda>l. \<lparr>le_playerId = or_else (lsr_playerId l) (lsr_id l), le_battingOrder = lsr_battingOrder l,
                 le_position = lsr_defensivePosition l,
                 le_active = (lsr_battingOrder l \<noteq> None \<or> lsr_defensivePosition l \<noteq> None \<or> lsr_isStartingPitcher l)\<rparr>) slots,
               ss_startingPitcherId = or_else (lsr_playerId pitcher) (lsr_id pitcher)\<rparr>
           | _ \<Rightarrow> Inl GS_INVALID_PITCHER))"

definition mapAcceptedSetup :: "setup_snapshot_row \<Rightarrow> setup_error + accepted_setup" where
  "mapAcceptedSetup r =
     and_then (accepted_side r HOME) (\<lambda>home.
     and_then (accepted_side r AWAY) (\<lambda>away.
       Inr \<lparr>su_id = gsr_id r, su_accountId = gsr_accountId r, su_gameId = gsr_gameId r, su_setupRevision = gsr_setupRevision r,
            su_rulesetVersionId = gsr_rulesetVersionId r, su_scheduledInnings = gsr_scheduledInnings r,
            su_status = ''READY'', su_sides = by_side home away\<rparr>))"

section \<open>Draft games\<close>

definition eligible_for :: "club \<Rightarrow> ident \<Rightarrow> participation_row \<Rightarrow> bool" where
  "eligible_for st seasonId p \<longleftrightarrow> \<not> (par_seasonId p \<noteq> seasonId \<or> par_archivedAt p \<noteq> None \<or> \<not> team_active st p \<or> \<not> season_open st p)"

definition draft_game :: "club_env \<Rightarrow> create_draft \<Rightarrow> int \<Rightarrow> club_game_row" where
  "draft_game env c scheduledAt = \<lparr>cgr_id = cv_newId env 0, cgr_accountId = cdg_accountId c, cgr_seasonId = cdg_seasonId c,
     cgr_teamSeasonId = cdg_managedTeamSeasonId c, cgr_status = None, cgr_revision = 0, cgr_setupRevision = 0,
     cgr_readySetupSnapshotId = None, cgr_scheduledAt = Some scheduledAt, cgr_location = cdg_location c,
     cgr_weatherCondition = cdg_weatherCondition c, cgr_temperatureF = cdg_temperatureF c\<rparr>"

definition createDraftGame :: "club_env \<Rightarrow> create_draft \<Rightarrow> scoped_actor \<Rightarrow> club \<Rightarrow> setup_failure + (club_game_row \<times> club)" where
  "createDraftGame env c a st =
     and_then (found_or GS_NOT_FOUND_OR_INACCESSIBLE (participation_of st (cdg_accountId c) (cdg_managedTeamSeasonId c))) (\<lambda>p.
     and_then (map_error Refused (assertGameCreateScope a (par_teamId p) (par_seasonId p))) (\<lambda>_.
     and_then (refuse_unless (eligible_for st (cdg_seasonId c) p) GS_LIFECYCLE_CONFLICT) (\<lambda>_.
     and_then (valid_instant (date_parse (cdg_scheduledAt c))) (\<lambda>scheduledAt.
     (let g = draft_game env c scheduledAt in
      and_then (insert_row ''Game'' cgr_id g (cb_games st)) (\<lambda>rows.
      and_then (audit_by a ''game.create_draft'' ''Game'' (cgr_id g) No_metadata (st\<lparr>cb_games := rows\<rparr>)) (\<lambda>st'. Inr (g, st'))))))))"

section \<open>A new revision of the setup\<close>

record saved_setup =
  svs_setup :: setup_snapshot_row
  svs_idempotentReplay :: bool

definition setup_submission :: "save_setup \<Rightarrow> scoped_actor \<Rightarrow> setup_snapshot_row \<Rightarrow> bool" where
  "setup_submission c a r \<longleftrightarrow> gsr_accountId r = ssr_accountId c \<and> gsr_gameId r = ssr_gameId c \<and>
     gsr_createdByActorId r = Some (sac_actorId a) \<and> gsr_clientSubmissionId r = Some (ssr_clientSubmissionId c)"

definition replay_setup :: "club_env \<Rightarrow> string \<Rightarrow> setup_snapshot_row \<Rightarrow> setup_error + saved_setup" where
  "replay_setup env digest r =
     and_then (require (gsr_payloadHash r = Some digest) GS_DUPLICATE_SUBMISSION) (\<lambda>_.
       Inr \<lparr>svs_setup = ordered_snapshot env r, svs_idempotentReplay = True\<rparr>)"

definition editable :: "club_game_row \<Rightarrow> bool" where
  "editable g \<longleftrightarrow> \<not> (cgr_revision g \<noteq> 0 \<or> (cgr_status g \<noteq> None \<and> cgr_status g \<noteq> Some READY))"

definition player_live :: "club \<Rightarrow> roster_row \<Rightarrow> bool" where
  "player_live st r \<longleftrightarrow> (case player_of st (rer_accountId r) (rer_playerId r) of Some q \<Rightarrow> plr_archivedAt q = None | None \<Rightarrow> False)"

text \<open>A slot of a managed side against its roster entry.\<close>

definition slot_eligible :: "club \<Rightarrow> (ident \<Rightarrow> roster_row option) \<Rightarrow> ident \<Rightarrow> int option \<Rightarrow> managed_slot \<Rightarrow> bool" where
  "slot_eligible st rosterById teamSeasonId scheduledAt s \<longleftrightarrow>
     (case rosterById (mns_rosterEntryId s) of
        None \<Rightarrow> False
      | Some r \<Rightarrow> \<not> (rer_playerId r \<noteq> mns_playerId s \<or> rer_teamSeasonId r \<noteq> teamSeasonId \<or> rer_status r \<noteq> Roster_ACTIVE \<or>
          rer_endsAt r \<noteq> None \<or> (case scheduledAt of Some t \<Rightarrow> rer_startsAt r > t | None \<Rightarrow> False) \<or> \<not> player_live st r))"

fun side_eligible :: "club \<Rightarrow> (ident \<Rightarrow> roster_row option) \<Rightarrow> int option \<Rightarrow> side_input \<Rightarrow> bool" where
  "side_eligible st rosterById scheduledAt (Managed_side _ ts l) = list_all (slot_eligible st rosterById ts scheduledAt) l"
| "side_eligible st rosterById scheduledAt (External_side _ _ _) = True"

definition team_label :: "club \<Rightarrow> participation_row option \<Rightarrow> string" where
  "team_label st p = (case p of
     None \<Rightarrow> '''' | Some q \<Rightarrow> (case team_of st (par_accountId q) (par_teamId q) of Some t \<Rightarrow> tmr_displayName t | None \<Rightarrow> ''''))"

fun side_label :: "club \<Rightarrow> (ident \<Rightarrow> participation_row option) \<Rightarrow> side_input \<Rightarrow> string" where
  "side_label st participationById (Managed_side _ ts _) = team_label st (participationById ts)"
| "side_label st participationById (External_side _ name _) = name"

definition player_label :: "club \<Rightarrow> roster_row option \<Rightarrow> string" where
  "player_label st r = (case r of
     None \<Rightarrow> '''' | Some e \<Rightarrow> (case player_of st (rer_accountId e) (rer_playerId e) of Some q \<Rightarrow> plr_displayName q | None \<Rightarrow> ''''))"

definition slot_row ::
    "ident \<Rightarrow> ident \<Rightarrow> slot_assignment \<Rightarrow> ident option \<Rightarrow> ident option \<Rightarrow> string \<Rightarrow> string option \<Rightarrow> slot_snapshot_row" where
  "slot_row i teamSnapshotId s playerId rosterEntryId name jersey =
     \<lparr>lsr_id = i, lsr_gameTeamSnapshotId = teamSnapshotId, lsr_playerId = playerId, lsr_battingOrder = sla_battingOrder s,
      lsr_defensivePosition = sla_defensivePosition s, lsr_isStartingPitcher = sla_isStartingPitcher s,
      lss_rosterEntryId = rosterEntryId, lss_displayName = name, lss_jerseyNumber = jersey\<rparr>"

definition managed_slot_row :: "club \<Rightarrow> (ident \<Rightarrow> roster_row option) \<Rightarrow> ident \<Rightarrow> ident \<Rightarrow> managed_slot \<Rightarrow> slot_snapshot_row" where
  "managed_slot_row st rosterById i teamSnapshotId s =
     (let entry = rosterById (mns_rosterEntryId s) in
      slot_row i teamSnapshotId (slot_assignment.truncate s) (Some (mns_playerId s)) (Some (mns_rosterEntryId s))
        (player_label st entry) (Option.bind entry rer_jerseyNumber))"

definition external_slot_row :: "ident \<Rightarrow> ident \<Rightarrow> external_slot \<Rightarrow> slot_snapshot_row" where
  "external_slot_row i teamSnapshotId s =
     slot_row i teamSnapshotId (slot_assignment.truncate s) None None (exs_displayName s) (exs_jerseyNumber s)"

text \<open>The rows of a side; its id and those of its slots are numbered from \<open>n\<close> on.\<close>

fun side_size :: "side_input \<Rightarrow> nat" where
  "side_size (Managed_side _ _ l) = Suc (length l)"
| "side_size (External_side _ _ l) = Suc (length l)"

fun side_row ::
    "club_env \<Rightarrow> club \<Rightarrow> (ident \<Rightarrow> participation_row option) \<Rightarrow> nat \<Rightarrow> side_input \<Rightarrow> side_snapshot_row" where
  "side_row env st participationById n (Managed_side sd ts _) =
     \<lparr>tsr_id = cv_newId env n, tsr_side = sd, gts_teamId = map_option par_teamId (participationById ts),
      gts_teamSeasonId = map_option par_id (participationById ts), gts_displayName = team_label st (participationById ts),
      gts_isAccountTeam = True\<rparr>"
| "side_row env st participationById n (External_side sd name _) =
     \<lparr>tsr_id = cv_newId env n, tsr_side = sd, gts_teamId = None, gts_teamSeasonId = None, gts_displayName = name,
      gts_isAccountTeam = False\<rparr>"

fun side_slots :: "club_env \<Rightarrow> club \<Rightarrow> (ident \<Rightarrow> roster_row option) \<Rightarrow> nat \<Rightarrow> side_input \<Rightarrow> slot_snapshot_row list" where
  "side_slots env st rosterById n (Managed_side _ _ l) =
     map (\<lambda>(k, s). managed_slot_row st rosterById (cv_newId env k) (cv_newId env n) s) (zip [Suc n..<Suc n + length l] l)"
| "side_slots env st rosterById n (External_side _ _ l) =
     map (\<lambda>(k, s). external_slot_row (cv_newId env k) (cv_newId env n) s) (zip [Suc n..<Suc n + length l] l)"

fun side_rows ::
    "club_env \<Rightarrow> club \<Rightarrow> (ident \<Rightarrow> participation_row option) \<Rightarrow> (ident \<Rightarrow> roster_row option) \<Rightarrow> nat \<Rightarrow> side_input list
     \<Rightarrow> side_snapshot_row list \<times> slot_snapshot_row list" where
  "side_rows env st ps rs n [] = ([], [])"
| "side_rows env st ps rs n (s # ss) =
     (let (teams, slots) = side_rows env st ps rs (n + side_size s) ss
      in (side_row env st ps n s # teams, side_slots env st rs n s @ slots))"

definition new_snapshot ::
    "club_env \<Rightarrow> save_setup \<Rightarrow> scoped_actor \<Rightarrow> string \<Rightarrow> setup_rules \<Rightarrow> int \<Rightarrow> side_snapshot_row list \<times> slot_snapshot_row list
     \<Rightarrow> setup_snapshot_row" where
  "new_snapshot env c a digest rules scheduledAt rows =
     \<lparr>gsr_id = cv_newId env 0, gsr_accountId = ssr_accountId c, gsr_gameId = ssr_gameId c,
      gsr_setupRevision = ssr_expectedSetupRevision c + 1, gsr_rulesetVersionId = ssr_rulesetVersionId c,
      gsr_scheduledAt = Some scheduledAt, gsr_location = ssr_location c, gsr_weatherCondition = ssr_weatherCondition c,
      gsr_temperatureF = ssr_temperatureF c, gsr_scheduledInnings = sru_scheduledInnings rules,
      gsr_createdByActorId = Some (sac_actorId a), gsr_clientSubmissionId = Some (ssr_clientSubmissionId c),
      gsr_payloadHash = Some digest, gsr_teamSnapshots = fst rows, gsr_lineupSlots = snd rows\<rparr>"

text \<open>The unique keys of a snapshot, its sides and its slots.\<close>

definition snapshot_conflict :: "setup_snapshot_row list \<Rightarrow> setup_snapshot_row \<Rightarrow> bool" where
  "snapshot_conflict rows r \<longleftrightarrow>
     list_ex (\<lambda>s. gsr_id s = gsr_id r \<or> (gsr_gameId s = gsr_gameId r \<and> gsr_setupRevision s = gsr_setupRevision r) \<or>
       (gsr_accountId s = gsr_accountId r \<and> gsr_gameId s = gsr_gameId r \<and> gsr_createdByActorId s = gsr_createdByActorId r \<and>
        gsr_clientSubmissionId s = gsr_clientSubmissionId r)) rows"

definition fresh_keys :: "('r \<Rightarrow> ident) \<Rightarrow> 'r list \<Rightarrow> 'r list \<Rightarrow> bool" where
  "fresh_keys key new rows \<longleftrightarrow> distinct (map key new) \<and> set (map key new) \<inter> set (map key rows) = {}"

definition insert_snapshot :: "setup_snapshot_row \<Rightarrow> club \<Rightarrow> setup_failure + club" where
  "insert_snapshot r st =
     and_then (require (\<not> snapshot_conflict (cb_setups st) r) (Unique_key ''GameSetupSnapshot'')) (\<lambda>_.
     and_then (require (fresh_keys tsr_id (gsr_teamSnapshots r) (concat (map gsr_teamSnapshots (cb_setups st))))
       (Unique_key ''GameTeamSnapshot'')) (\<lambda>_.
     and_then (require (fresh_keys lsr_id (gsr_lineupSlots r) (concat (map gsr_lineupSlots (cb_setups st))))
       (Unique_key ''LineupSlotSnapshot'')) (\<lambda>_.
       Inr (st\<lparr>cb_setups := cb_setups st @ [r]\<rparr>))))"

definition game_row_named :: "ident \<Rightarrow> ident \<Rightarrow> club_game_row \<Rightarrow> bool" where
  "game_row_named a i g \<longleftrightarrow> cgr_accountId g = a \<and> cgr_id g = i"

definition supersede_setup :: "save_setup \<Rightarrow> int \<Rightarrow> club \<Rightarrow> setup_failure + club" where
  "supersede_setup c scheduledAt st =
     (let (n, rows) = update_many
         (\<lambda>g. game_row_named (ssr_accountId c) (ssr_gameId c) g \<and> cgr_setupRevision g = ssr_expectedSetupRevision c \<and> editable g)
         (\<lambda>g. g\<lparr>cgr_setupRevision := ssr_expectedSetupRevision c + 1, cgr_readySetupSnapshotId := None, cgr_status := None,
            cgr_scheduledAt := Some scheduledAt, cgr_location := ssr_location c, cgr_weatherCondition := ssr_weatherCondition c,
            cgr_temperatureF := ssr_temperatureF c\<rparr>) (cb_games st)
      in and_then (refuse_unless (n = 1) GS_STALE_SETUP_REVISION) (\<lambda>_. Inr (st\<lparr>cb_games := rows\<rparr>)))"

text \<open>The checks of a new revision, with the rules, the participations and the roster entries it refers to.\<close>

definition check_setup ::
    "save_setup \<Rightarrow> club
     \<Rightarrow> setup_failure + (setup_rules \<times> (ident \<Rightarrow> participation_row option) \<times> (ident \<Rightarrow> roster_row option))" where
  "check_setup c st =
     and_then (found_or GS_NOT_FOUND_OR_INACCESSIBLE (club_game_of st (ssr_accountId c) (ssr_gameId c))) (\<lambda>game.
     and_then (refuse_unless (editable game) GS_IMMUTABLE_SETUP) (\<lambda>_.
     and_then (refuse_unless (cgr_setupRevision game = ssr_expectedSetupRevision c) GS_STALE_SETUP_REVISION) (\<lambda>_.
     and_then (found_or GS_NOT_FOUND_OR_INACCESSIBLE (ruleset_of st (ssr_accountId c) (ssr_rulesetVersionId c))) (\<lambda>ruleset.
     and_then (refuse_unless (rsr_active ruleset) GS_NOT_FOUND_OR_INACCESSIBLE) (\<lambda>_.
     and_then (parseRuleset (rsr_configuration ruleset)) (\<lambda>rules.
     (let teamSeasonIds = List.map_filter managed_team_season (ssr_sides c);
          participations = filter (\<lambda>p. par_accountId p = ssr_accountId c \<and> par_id p \<in> set teamSeasonIds) (cb_participations st);
          rosterIds = map mns_rosterEntryId (concat (map managed_slots (ssr_sides c)));
          rosters = filter (\<lambda>r. rer_accountId r = ssr_accountId c \<and> rer_id r \<in> set rosterIds) (cb_rosters st) in
      and_then (refuse_unless (length participations = length teamSeasonIds) GS_INVALID_PARTICIPANT) (\<lambda>_.
      and_then (refuse_unless (list_all (eligible_for st (cgr_seasonId game)) participations) GS_INVALID_PARTICIPANT) (\<lambda>_.
      and_then (refuse_unless (length rosters = length rosterIds) GS_ROSTER_INELIGIBLE) (\<lambda>_.
      and_then (refuse_unless (list_all (side_eligible st (js_map_of rer_id rosters) (date_parse (ssr_scheduledAt c))) (ssr_sides c))
        GS_ROSTER_INELIGIBLE) (\<lambda>_.
      and_then (refuse_unless (distinct (map (\<lambda>s. to_lower (side_label st (js_map_of par_id participations) s)) (ssr_sides c)))
        GS_INVALID_PARTICIPANT) (\<lambda>_.
        Inr (rules, js_map_of par_id participations, js_map_of rer_id rosters)))))))))))))"

definition saveSetupRevision ::
    "club_env \<Rightarrow> string \<Rightarrow> save_setup \<Rightarrow> scoped_actor \<Rightarrow> club \<Rightarrow> setup_failure + (saved_setup \<times> club)" where
  "saveSetupRevision env digest c a st =
     (case find (setup_submission c a) (cb_setups st) of
        Some r \<Rightarrow> and_then (map_error Refused (replay_setup env digest r)) (\<lambda>x. Inr (x, st))
      | None \<Rightarrow>
          and_then (check_setup c st) (\<lambda>(rules, ps, rs).
          and_then (valid_instant (date_parse (ssr_scheduledAt c))) (\<lambda>scheduledAt.
          (let r = new_snapshot env c a digest rules scheduledAt (side_rows env st ps rs 1 (ssr_sides c)) in
           and_then (insert_snapshot r st) (\<lambda>st1.
           and_then (supersede_setup c scheduledAt st1) (\<lambda>st2.
           and_then (audit_by a ''game.setup_revision.create'' ''Game'' (ssr_gameId c)
             (Meta_setup (gsr_id r) (gsr_setupRevision r)) st2) (\<lambda>st3.
             Inr (\<lparr>svs_setup = ordered_snapshot env r, svs_idempotentReplay = False\<rparr>, st3))))))))"

definition save_setup_transaction ::
    "club_env \<Rightarrow> (save_setup \<Rightarrow> string) \<Rightarrow> club option \<Rightarrow> save_setup \<Rightarrow> scoped_actor \<Rightarrow> club \<Rightarrow> (setup_error + saved_setup) \<times> club" where
  "save_setup_transaction env hash abort c a st =
     (let recover = (\<lambda>f st'. case find (setup_submission c a) (cb_setups st') of
            Some r \<Rightarrow> replay_setup env (hash c) r | None \<Rightarrow> Inl (translate_setup f)) in
      case abort of
        Some st' \<Rightarrow> (recover Serialization_conflict st', st')
      | None \<Rightarrow>
          (case saveSetupRevision env (hash c) c a st of
             Inr (r, st') \<Rightarrow> (Inr r, st')
           | Inl (Unique_key k) \<Rightarrow> (recover (Unique_key k) st, st)
           | Inl f \<Rightarrow> (Inl (translate_setup f), st)))"

end
