(* ===== verification/Setup_Ready.thy ===== *)
theory Setup_Ready
  imports Setup_Store
begin

text \<open>
  The mark that a setup is ready, the queries of \<open>PrismaGameSetupRepository\<close>, and the steps that the
  commands of both repositories of an organisation take on its tables.
\<close>

section \<open>The mark that a setup is ready\<close>

record ready_mark =
  rdm_game :: club_game_row
  rdm_setupSnapshotId :: ident
  rdm_setupRevision :: int
  rdm_idempotentReplay :: bool

definition marked :: "mark_ready \<Rightarrow> club_game_row \<Rightarrow> bool" where
  "marked c g \<longleftrightarrow> cgr_status g = Some READY \<and> cgr_readySetupSnapshotId g = Some (msr_setupSnapshotId c) \<and>
     cgr_setupRevision g = msr_expectedSetupRevision c"

definition mark_of :: "mark_ready \<Rightarrow> bool \<Rightarrow> club_game_row \<Rightarrow> ready_mark" where
  "mark_of c replay g = \<lparr>rdm_game = g, rdm_setupSnapshotId = msr_setupSnapshotId c, rdm_setupRevision = msr_expectedSetupRevision c,
     rdm_idempotentReplay = replay\<rparr>"

definition managed_participations :: "setup_snapshot_row \<Rightarrow> ident list" where
  "managed_participations r = List.map_filter gts_teamSeasonId (gsr_teamSnapshots r)"

text \<open>A slot of a player of the organisation; its rows are joined by the foreign keys.\<close>

definition slot_still_eligible :: "club \<Rightarrow> setup_snapshot_row \<Rightarrow> int \<Rightarrow> slot_snapshot_row \<Rightarrow> bool" where
  "slot_still_eligible st r scheduledAt l \<longleftrightarrow>
     (lsr_playerId l = None \<and> lss_rosterEntryId l = None) \<or>
     (case (Option.bind (lsr_playerId l) (player_of st (gsr_accountId r)),
            Option.bind (lss_rosterEntryId l) (roster_of st (gsr_accountId r))) of
        (Some q, Some e) \<Rightarrow> \<not> (plr_archivedAt q \<noteq> None \<or> rer_status e \<noteq> Roster_ACTIVE \<or> rer_endsAt e \<noteq> None \<or>
          rer_startsAt e > scheduledAt)
      | _ \<Rightarrow> False)"

definition slots_of :: "setup_snapshot_row \<Rightarrow> side_snapshot_row \<Rightarrow> slot_snapshot_row list" where
  "slots_of r t = filter (\<lambda>l. lsr_gameTeamSnapshotId l = tsr_id t) (gsr_lineupSlots r)"

definition defensive_only :: "slot_snapshot_row \<Rightarrow> bool" where
  "defensive_only l \<longleftrightarrow> lsr_battingOrder l = None \<and> (lsr_defensivePosition l \<noteq> None \<or> lsr_isStartingPitcher l)"

definition within_rules :: "setup_rules \<Rightarrow> setup_snapshot_row \<Rightarrow> side_snapshot_row \<Rightarrow> bool" where
  "within_rules rules r t \<longleftrightarrow> \<not> int (length (slots_of r t)) > sru_maximumLineupSize rules \<and>
     \<not> (\<not> sru_allowDefensiveOnly rules \<and> list_ex defensive_only (slots_of r t))"

fun setup_error_of :: "event_error \<Rightarrow> setup_error" where
  "setup_error_of INVALID_PITCHER = GS_INVALID_PITCHER"
| "setup_error_of _ = GS_INVALID_LINEUP"

definition replayable :: "setup_snapshot_row \<Rightarrow> setup_error + game_state" where
  "replayable r = and_then (mapAcceptedSetup r) (\<lambda>setup. map_error setup_error_of (createInitialState setup))"

text \<open>The checks on the snapshot and what it refers to; the snapshot as it was read.\<close>

definition check_ready :: "club_env \<Rightarrow> mark_ready \<Rightarrow> club_game_row \<Rightarrow> club \<Rightarrow> setup_failure + setup_snapshot_row" where
  "check_ready env c game st =
     and_then (refuse_unless (cgr_revision game = 0 \<and> cgr_status game = None) GS_IMMUTABLE_SETUP) (\<lambda>_.
     and_then (refuse_unless (cgr_setupRevision game = msr_expectedSetupRevision c) GS_STALE_SETUP_REVISION) (\<lambda>_.
     and_then (found_or GS_STALE_SETUP_REVISION
       (map_option (ordered_snapshot env) (snapshot_of st (msr_accountId c) (msr_gameId c) (msr_setupSnapshotId c)))) (\<lambda>r.
     and_then (refuse_unless (gsr_setupRevision r = msr_expectedSetupRevision c) GS_STALE_SETUP_REVISION) (\<lambda>_.
     and_then (refuse_unless (length (gsr_teamSnapshots r) = 2) GS_SETUP_INCOMPLETE) (\<lambda>_.
     and_then (refuse_unless (list_ex (\<lambda>t. gts_teamSeasonId t = Some (cgr_teamSeasonId game)) (gsr_teamSnapshots r))
       GS_INVALID_PARTICIPANT) (\<lambda>_.
     and_then (found_or GS_SETUP_INCOMPLETE (case gsr_scheduledAt r of None \<Rightarrow> cgr_scheduledAt game | Some t \<Rightarrow> Some t)) (\<lambda>scheduledAt.
     (let ids = managed_participations r;
          participations = filter (\<lambda>p. par_accountId p = msr_accountId c \<and> par_id p \<in> set ids) (cb_participations st) in
      and_then (refuse_unless (length participations = length ids \<and> list_all (eligible_for st (cgr_seasonId game)) participations)
        GS_INVALID_PARTICIPANT) (\<lambda>_.
      and_then (refuse_unless (list_all (slot_still_eligible st r scheduledAt) (gsr_lineupSlots r)) GS_ROSTER_INELIGIBLE) (\<lambda>_.
      and_then (found_or GS_SETUP_INCOMPLETE (ruleset_of st (msr_accountId c) (gsr_rulesetVersionId r))) (\<lambda>ruleset.
      and_then (refuse_unless (rsr_active ruleset) GS_SETUP_INCOMPLETE) (\<lambda>_.
      and_then (parseRuleset (rsr_configuration ruleset)) (\<lambda>rules.
      and_then (refuse_unless (list_all (within_rules rules r) (gsr_teamSnapshots r)) GS_INVALID_LINEUP) (\<lambda>_.
      and_then (map_error Refused (replayable r)) (\<lambda>_. Inr r)))))))))))))))"

definition set_ready :: "mark_ready \<Rightarrow> club \<Rightarrow> setup_failure + club" where
  "set_ready c st =
     (let (n, rows) = update_many
         (\<lambda>g. game_row_named (msr_accountId c) (msr_gameId c) g \<and> cgr_status g = None \<and> cgr_revision g = 0 \<and>
            cgr_setupRevision g = msr_expectedSetupRevision c \<and> cgr_readySetupSnapshotId g = None)
         (\<lambda>g. g\<lparr>cgr_status := Some READY, cgr_readySetupSnapshotId := Some (msr_setupSnapshotId c)\<rparr>) (cb_games st)
      in and_then (refuse_unless (n = 1) GS_PERSISTENCE_CONFLICT) (\<lambda>_. Inr (st\<lparr>cb_games := rows\<rparr>)))"

definition markSetupReady :: "club_env \<Rightarrow> mark_ready \<Rightarrow> scoped_actor \<Rightarrow> club \<Rightarrow> setup_failure + (ready_mark \<times> club)" where
  "markSetupReady env c a st =
     and_then (found_or GS_NOT_FOUND_OR_INACCESSIBLE (club_game_of st (msr_accountId c) (msr_gameId c))) (\<lambda>game.
     if marked c game then Inr (mark_of c True game, st)
     else and_then (check_ready env c game st) (\<lambda>_.
          and_then (set_ready c st) (\<lambda>st1.
          and_then (audit_by a ''game.setup_ready'' ''Game'' (msr_gameId c)
            (Meta_setup (msr_setupSnapshotId c) (msr_expectedSetupRevision c)) st1) (\<lambda>st2.
          and_then (read_back (find (\<lambda>g. cgr_id g = msr_gameId c) (cb_games st2))) (\<lambda>g.
            Inr (mark_of c False g, st2))))))"

definition mark_ready_transaction ::
    "club_env \<Rightarrow> club option \<Rightarrow> mark_ready \<Rightarrow> scoped_actor \<Rightarrow> club \<Rightarrow> (setup_error + ready_mark) \<times> club" where
  "mark_ready_transaction env abort c a st =
     (let recover = (\<lambda>f st'. case club_game_of st' (msr_accountId c) (msr_gameId c) of
            Some g \<Rightarrow> if marked c g then Inr (mark_of c True g) else Inl (translate_setup f)
          | None \<Rightarrow> Inl (translate_setup f)) in
      case abort of
        Some st' \<Rightarrow> (recover Serialization_conflict st', st')
      | None \<Rightarrow>
          (case markSetupReady env c a st of
             Inr (r, st') \<Rightarrow> (Inr r, st')
           | Inl (Unique_key k) \<Rightarrow> (recover (Unique_key k) st, st)
           | Inl f \<Rightarrow> (Inl (translate_setup f), st)))"

section \<open>Queries\<close>

definition loadCurrentSetup :: "club_env \<Rightarrow> setup_query \<Rightarrow> club \<Rightarrow> setup_error + (club_game_row \<times> setup_snapshot_row option)" where
  "loadCurrentSetup env q st =
     (case club_game_of st (gsq_accountId q) (gsq_gameId q) of
        None \<Rightarrow> Inl GS_NOT_FOUND_OR_INACCESSIBLE
      | Some g \<Rightarrow> Inr (g, if cgr_setupRevision g = 0 then None
          else map_option (ordered_snapshot env)
            (find (\<lambda>r. gsr_gameId r = gsq_gameId q \<and> gsr_setupRevision r = cgr_setupRevision g) (cb_setups st))))"

definition candidate_period :: "candidate_page \<Rightarrow> int \<Rightarrow> ident \<Rightarrow> roster_row \<Rightarrow> bool" where
  "candidate_period p scheduledAt playerId r \<longleftrightarrow> rer_accountId r = cpg_accountId p \<and> rer_playerId r = playerId \<and>
     rer_teamSeasonId r = cpg_teamSeasonId p \<and> rer_status r = Roster_ACTIVE \<and> rer_endsAt r = None \<and> rer_startsAt r \<le> scheduledAt"

definition candidates :: "candidate_page \<Rightarrow> int \<Rightarrow> club \<Rightarrow> (player_row \<times> roster_row) list" where
  "candidates p scheduledAt st = List.map_filter (\<lambda>q.
     if plr_accountId q = cpg_accountId p \<and> plr_archivedAt q = None
     then map_option (Pair q) (find (candidate_period p scheduledAt (plr_id q)) (cb_rosters st)) else None) (cb_players st)"

definition listRosterCandidates ::
    "club_env \<Rightarrow> candidate_page \<Rightarrow> club \<Rightarrow> setup_error + ((player_row \<times> roster_row) list \<times> (string \<times> ident) option)" where
  "listRosterCandidates env p st =
     (case (club_game_of st (cpg_accountId p) (cpg_gameId p), participation_of st (cpg_accountId p) (cpg_teamSeasonId p)) of
        (Some g, Some t) \<Rightarrow>
          (case cgr_scheduledAt g of
             None \<Rightarrow> Inl GS_INVALID_PARTICIPANT
           | Some scheduledAt \<Rightarrow>
               and_then (require (par_seasonId t = cgr_seasonId g \<and> par_archivedAt t = None) GS_INVALID_PARTICIPANT) (\<lambda>_.
               (let (visible, next) = page_of (\<lambda>(q, _). name_key env (plr_displayName q) (plr_id q)) (nat (candidate_limit p))
                    (map_option (\<lambda>(n, i). name_key env n i) (cpg_after p)) (candidates p scheduledAt st)
                in Inr (visible, map_option (\<lambda>(q, _). (plr_displayName q, plr_id q)) next))))
      | _ \<Rightarrow> Inl GS_INVALID_PARTICIPANT)"

section \<open>The commands of an organisation\<close>

datatype club_command = Manage management_command | Create_draft create_draft | Save_setup save_setup | Mark_ready mark_ready

text \<open>A command, its actor, the time and the ids of its transaction and the digest of a setup.\<close>

record club_input =
  cin_env :: club_env
  cin_actor :: scoped_actor
  cin_hash :: "save_setup \<Rightarrow> string"
  cin_command :: club_command

text \<open>The transaction of a command commits a store or fails.\<close>

definition club_step :: "club \<Rightarrow> club_input \<Rightarrow> unit + club" where
  "club_step st i =
     (let env = cin_env i; a = cin_actor i in
      case cin_command i of
        Manage c \<Rightarrow> map_error (\<lambda>_. ()) (and_then (management_body env a c st) (\<lambda>(_, st'). Inr st'))
      | Create_draft c \<Rightarrow> map_error (\<lambda>_. ()) (and_then (createDraftGame env c a st) (\<lambda>(_, st'). Inr st'))
      | Save_setup c \<Rightarrow> map_error (\<lambda>_. ()) (and_then (saveSetupRevision env (cin_hash i c) c a st) (\<lambda>(_, st'). Inr st'))
      | Mark_ready c \<Rightarrow> map_error (\<lambda>_. ()) (and_then (markSetupReady env c a st) (\<lambda>(_, st'). Inr st')))"

end
