(* ===== verification/Club_Changes.thy ===== *)
theory Club_Changes
  imports Setup_Ready
begin

text \<open>
  What the transactions of an organisation may do to its tables, stated without their commands, and the refinement of
  every command to such changes.  A change carries only what the invariants of the tables need: the row that is new or
  the rows that are replaced, and what was checked before.
\<close>

definition keeps :: "('r \<Rightarrow> 'k) \<Rightarrow> ('r \<Rightarrow> 'r) \<Rightarrow> bool" where
  "keeps key f \<longleftrightarrow> (\<forall>r. key (f r) = key r)"

definition replaced :: "('r \<Rightarrow> bool) \<Rightarrow> ('r \<Rightarrow> 'r) \<Rightarrow> 'r list \<Rightarrow> 'r list" where
  "replaced P f rows = map (\<lambda>r. if P r then f r else r) rows"

definition team_static :: "team_row \<Rightarrow> ident \<times> ident" where "team_static r = (tmr_accountId r, tmr_id r)"
definition season_static :: "season_row \<Rightarrow> ident \<times> ident" where "season_static r = (snr_accountId r, snr_id r)"
definition participation_static :: "participation_row \<Rightarrow> ident \<times> ident \<times> ident \<times> ident" where
  "participation_static r = (par_accountId r, par_id r, par_teamId r, par_seasonId r)"
definition player_static :: "player_row \<Rightarrow> ident \<times> ident" where "player_static r = (plr_accountId r, plr_id r)"
definition roster_static :: "roster_row \<Rightarrow> ident \<times> ident \<times> ident \<times> ident \<times> int" where
  "roster_static r = (rer_accountId r, rer_id r, rer_playerId r, rer_teamSeasonId r, rer_startsAt r)"
definition game_static :: "club_game_row \<Rightarrow> ident \<times> ident \<times> ident \<times> ident \<times> int" where
  "game_static r = (cgr_accountId r, cgr_id r, cgr_seasonId r, cgr_teamSeasonId r, cgr_revision r)"

lemmas static_defs = keeps_def team_static_def season_static_def participation_static_def player_static_def
  roster_static_def game_static_def

text \<open>The rows that a snapshot refers to.\<close>

definition slot_linked :: "club \<Rightarrow> setup_snapshot_row \<Rightarrow> slot_snapshot_row \<Rightarrow> bool" where
  "slot_linked st r l \<longleftrightarrow>
     (\<exists>t\<in>set (gsr_teamSnapshots r). tsr_id t = lsr_gameTeamSnapshotId l \<and>
        (case gts_teamSeasonId t of
           None \<Rightarrow> lsr_playerId l = None \<and> lss_rosterEntryId l = None
         | Some ts \<Rightarrow> (\<exists>e\<in>set (cb_rosters st). rer_accountId e = gsr_accountId r \<and> lss_rosterEntryId l = Some (rer_id e) \<and>
             lsr_playerId l = Some (rer_playerId e) \<and> rer_teamSeasonId e = ts)))"

definition snapshot_linked :: "club \<Rightarrow> setup_snapshot_row \<Rightarrow> bool" where
  "snapshot_linked st r \<longleftrightarrow> (\<forall>l\<in>set (gsr_lineupSlots r). slot_linked st r l) \<and> gsr_scheduledAt r \<noteq> None \<and>
     distinct (map tsr_id (gsr_teamSnapshots r)) \<and> distinct (map tsr_side (gsr_teamSnapshots r)) \<and>
     distinct (map lsr_id (gsr_lineupSlots r))"

inductive club_change :: "club \<Rightarrow> club \<Rightarrow> bool" for st where
  audited: "club_change st (st\<lparr>cb_audits := rows\<rparr>)"
| team_added: "tmr_id t \<notin> tmr_id ` set (cb_teams st) \<Longrightarrow> tmr_status t = Team_ACTIVE
    \<Longrightarrow> team_names_unique (cb_teams st @ [t]) \<Longrightarrow> club_change st (st\<lparr>cb_teams := cb_teams st @ [t]\<rparr>)"
| team_changed: "keeps team_static f \<Longrightarrow> \<forall>r. P r \<longrightarrow> team_named a i r \<Longrightarrow> team_names_unique (replaced P f (cb_teams st))
    \<Longrightarrow> \<forall>r. P r \<and> tmr_status (f r) = Team_ARCHIVED \<longrightarrow> \<not> list_ex (live_participation a i) (cb_participations st)
    \<Longrightarrow> club_change st (st\<lparr>cb_teams := replaced P f (cb_teams st)\<rparr>)"
| season_added: "snr_id s \<notin> snr_id ` set (cb_seasons st) \<Longrightarrow> snr_status s = Season_DRAFT
    \<Longrightarrow> club_change st (st\<lparr>cb_seasons := cb_seasons st @ [s]\<rparr>)"
| season_changed: "keeps season_static f \<Longrightarrow> \<forall>r. P r \<longrightarrow> season_named a i r
    \<Longrightarrow> \<forall>r. P r \<and> snr_status (f r) = Season_ARCHIVED \<longrightarrow> \<not> season_has_rosters st a i
    \<Longrightarrow> \<forall>r. P r \<and> \<not> open_season (snr_status (f r)) \<longrightarrow> \<not> season_has_games st a i
    \<Longrightarrow> club_change st (st\<lparr>cb_seasons := replaced P f (cb_seasons st)\<rparr>)"
| participation_added: "par_id p \<notin> par_id ` set (cb_participations st) \<Longrightarrow> par_archivedAt p = None
    \<Longrightarrow> team_active st p \<Longrightarrow> season_open st p \<Longrightarrow> participation_key p \<notin> participation_key ` set (cb_participations st)
    \<Longrightarrow> club_change st (st\<lparr>cb_participations := cb_participations st @ [p]\<rparr>)"
| participation_changed: "keeps participation_static f \<Longrightarrow> \<forall>r. P r \<longrightarrow> participation_named a i r
    \<Longrightarrow> participation_of st a i = Some p \<Longrightarrow> par_archivedAt (f p) = None \<longrightarrow> team_active st p \<and> season_open st p
    \<Longrightarrow> \<forall>r. P r \<and> par_archivedAt (f r) \<noteq> None \<longrightarrow>
          \<not> list_ex (active_period_in a i) (cb_rosters st) \<and> \<not> list_ex (operational_game_of a i) (cb_games st)
    \<Longrightarrow> club_change st (st\<lparr>cb_participations := replaced P f (cb_participations st)\<rparr>)"
| player_added: "plr_id q \<notin> plr_id ` set (cb_players st) \<Longrightarrow> plr_archivedAt q = None
    \<Longrightarrow> club_change st (st\<lparr>cb_players := cb_players st @ [q]\<rparr>)"
| player_changed: "keeps player_static f \<Longrightarrow> \<forall>r. P r \<longrightarrow> player_named a i r
    \<Longrightarrow> \<forall>r. P r \<and> plr_archivedAt (f r) \<noteq> None \<longrightarrow> \<not> list_ex (active_period_of a i) (cb_rosters st)
    \<Longrightarrow> club_change st (st\<lparr>cb_players := replaced P f (cb_players st)\<rparr>)"
| period_added: "rer_id r \<notin> rer_id ` set (cb_rosters st) \<Longrightarrow> rer_status r = Roster_ACTIVE \<Longrightarrow> rer_endsAt r = None
    \<Longrightarrow> \<not> list_ex (\<lambda>s. same_membership r s \<and> periods_overlap r s) (cb_rosters st)
    \<Longrightarrow> participation_of st (rer_accountId r) (rer_teamSeasonId r) = Some p \<Longrightarrow> par_archivedAt p = None
    \<Longrightarrow> team_active st p \<Longrightarrow> season_open st p
    \<Longrightarrow> player_of st (rer_accountId r) (rer_playerId r) = Some q \<Longrightarrow> plr_archivedAt q = None
    \<Longrightarrow> club_change st (st\<lparr>cb_rosters := cb_rosters st @ [r]\<rparr>)"
| period_ended: "keeps roster_static f \<Longrightarrow> \<forall>r. P r \<longrightarrow> roster_named a i r \<and> rer_endsAt r = None
    \<Longrightarrow> \<forall>r. rer_status (f r) \<noteq> Roster_ACTIVE \<and> rer_endsAt (f r) = Some endsAt
    \<Longrightarrow> roster_of st a i = Some e \<Longrightarrow> rer_startsAt e < endsAt \<Longrightarrow> \<not> ready_depends st a i
    \<Longrightarrow> club_change st (st\<lparr>cb_rosters := replaced P f (cb_rosters st)\<rparr>)"
| game_added: "cgr_id g \<notin> cgr_id ` set (cb_games st) \<Longrightarrow> cgr_status g = None \<Longrightarrow> cgr_revision g = 0
    \<Longrightarrow> participation_of st (cgr_accountId g) (cgr_teamSeasonId g) = Some p \<Longrightarrow> par_seasonId p = cgr_seasonId g
    \<Longrightarrow> par_archivedAt p = None \<Longrightarrow> season_open st p \<Longrightarrow> club_change st (st\<lparr>cb_games := cb_games st @ [g]\<rparr>)"
| setup_added: "\<not> snapshot_conflict (cb_setups st) r \<Longrightarrow> snapshot_linked st r
    \<Longrightarrow> club_change st (st\<lparr>cb_setups := cb_setups st @ [r]\<rparr>)"
| game_reopened: "keeps game_static f \<Longrightarrow> \<forall>g. P g \<longrightarrow> game_row_named a i g \<and> editable g \<Longrightarrow> \<forall>g. cgr_status (f g) = None
    \<Longrightarrow> club_change st (st\<lparr>cb_games := replaced P f (cb_games st)\<rparr>)"
| game_readied: "check_ready env c game st = Inr r \<Longrightarrow> club_game_of st (msr_accountId c) (msr_gameId c) = Some game
    \<Longrightarrow> \<forall>g. P g \<longrightarrow> game_row_named (msr_accountId c) (msr_gameId c) g \<and> cgr_status g = None
    \<Longrightarrow> club_change st (st\<lparr>cb_games := replaced P
          (\<lambda>g. g\<lparr>cgr_status := Some READY, cgr_readySetupSnapshotId := Some (msr_setupSnapshotId c)\<rparr>) (cb_games st)\<rparr>)"

abbreviation club_changes :: "club \<Rightarrow> club \<Rightarrow> bool" where
  "club_changes \<equiv> club_change\<^sup>*\<^sup>*"

lemma one_change: "club_change st st' \<Longrightarrow> club_changes st st'"
  by (rule r_into_rtranclp)

lemma two_changes: "club_change st st1 \<Longrightarrow> club_change st1 st2 \<Longrightarrow> club_changes st st2"
  by (meson converse_rtranclp_into_rtranclp r_into_rtranclp)

lemma then_change: "club_changes st st1 \<Longrightarrow> club_change st1 st2 \<Longrightarrow> club_changes st st2"
  by (rule rtranclp.rtrancl_into_rtrancl)

section \<open>What the tables that are not written do not change\<close>

lemma team_of_frame [simp]:
  "team_of (st\<lparr>cb_seasons := xseasons\<rparr>) = team_of st"
  "team_of (st\<lparr>cb_participations := xparticipations\<rparr>) = team_of st"
  "team_of (st\<lparr>cb_players := xplayers\<rparr>) = team_of st"
  "team_of (st\<lparr>cb_rosters := xrosters\<rparr>) = team_of st"
  "team_of (st\<lparr>cb_games := xgames\<rparr>) = team_of st"
  "team_of (st\<lparr>cb_setups := xsetups\<rparr>) = team_of st"
  "team_of (st\<lparr>cb_audits := xaudits\<rparr>) = team_of st"
  by (simp_all add: team_of_def fun_eq_iff)

lemma season_of_frame [simp]:
  "season_of (st\<lparr>cb_teams := xteams\<rparr>) = season_of st"
  "season_of (st\<lparr>cb_participations := xparticipations\<rparr>) = season_of st"
  "season_of (st\<lparr>cb_players := xplayers\<rparr>) = season_of st"
  "season_of (st\<lparr>cb_rosters := xrosters\<rparr>) = season_of st"
  "season_of (st\<lparr>cb_games := xgames\<rparr>) = season_of st"
  "season_of (st\<lparr>cb_setups := xsetups\<rparr>) = season_of st"
  "season_of (st\<lparr>cb_audits := xaudits\<rparr>) = season_of st"
  by (simp_all add: season_of_def fun_eq_iff)

lemma participation_of_frame [simp]:
  "participation_of (st\<lparr>cb_teams := xteams\<rparr>) = participation_of st"
  "participation_of (st\<lparr>cb_seasons := xseasons\<rparr>) = participation_of st"
  "participation_of (st\<lparr>cb_players := xplayers\<rparr>) = participation_of st"
  "participation_of (st\<lparr>cb_rosters := xrosters\<rparr>) = participation_of st"
  "participation_of (st\<lparr>cb_games := xgames\<rparr>) = participation_of st"
  "participation_of (st\<lparr>cb_setups := xsetups\<rparr>) = participation_of st"
  "participation_of (st\<lparr>cb_audits := xaudits\<rparr>) = participation_of st"
  by (simp_all add: participation_of_def fun_eq_iff)

lemma player_of_frame [simp]:
  "player_of (st\<lparr>cb_teams := xteams\<rparr>) = player_of st"
  "player_of (st\<lparr>cb_seasons := xseasons\<rparr>) = player_of st"
  "player_of (st\<lparr>cb_participations := xparticipations\<rparr>) = player_of st"
  "player_of (st\<lparr>cb_rosters := xrosters\<rparr>) = player_of st"
  "player_of (st\<lparr>cb_games := xgames\<rparr>) = player_of st"
  "player_of (st\<lparr>cb_setups := xsetups\<rparr>) = player_of st"
  "player_of (st\<lparr>cb_audits := xaudits\<rparr>) = player_of st"
  by (simp_all add: player_of_def fun_eq_iff)

lemma roster_of_frame [simp]:
  "roster_of (st\<lparr>cb_teams := xteams\<rparr>) = roster_of st"
  "roster_of (st\<lparr>cb_seasons := xseasons\<rparr>) = roster_of st"
  "roster_of (st\<lparr>cb_participations := xparticipations\<rparr>) = roster_of st"
  "roster_of (st\<lparr>cb_players := xplayers\<rparr>) = roster_of st"
  "roster_of (st\<lparr>cb_games := xgames\<rparr>) = roster_of st"
  "roster_of (st\<lparr>cb_setups := xsetups\<rparr>) = roster_of st"
  "roster_of (st\<lparr>cb_audits := xaudits\<rparr>) = roster_of st"
  by (simp_all add: roster_of_def fun_eq_iff)

lemma ruleset_of_frame [simp]:
  "ruleset_of (st\<lparr>cb_teams := xteams\<rparr>) = ruleset_of st"
  "ruleset_of (st\<lparr>cb_seasons := xseasons\<rparr>) = ruleset_of st"
  "ruleset_of (st\<lparr>cb_participations := xparticipations\<rparr>) = ruleset_of st"
  "ruleset_of (st\<lparr>cb_players := xplayers\<rparr>) = ruleset_of st"
  "ruleset_of (st\<lparr>cb_rosters := xrosters\<rparr>) = ruleset_of st"
  "ruleset_of (st\<lparr>cb_games := xgames\<rparr>) = ruleset_of st"
  "ruleset_of (st\<lparr>cb_setups := xsetups\<rparr>) = ruleset_of st"
  "ruleset_of (st\<lparr>cb_audits := xaudits\<rparr>) = ruleset_of st"
  by (simp_all add: ruleset_of_def fun_eq_iff)

lemma club_game_of_frame [simp]:
  "club_game_of (st\<lparr>cb_teams := xteams\<rparr>) = club_game_of st"
  "club_game_of (st\<lparr>cb_seasons := xseasons\<rparr>) = club_game_of st"
  "club_game_of (st\<lparr>cb_participations := xparticipations\<rparr>) = club_game_of st"
  "club_game_of (st\<lparr>cb_players := xplayers\<rparr>) = club_game_of st"
  "club_game_of (st\<lparr>cb_rosters := xrosters\<rparr>) = club_game_of st"
  "club_game_of (st\<lparr>cb_setups := xsetups\<rparr>) = club_game_of st"
  "club_game_of (st\<lparr>cb_audits := xaudits\<rparr>) = club_game_of st"
  by (simp_all add: club_game_of_def fun_eq_iff)

lemma snapshot_of_frame [simp]:
  "snapshot_of (st\<lparr>cb_teams := xteams\<rparr>) = snapshot_of st"
  "snapshot_of (st\<lparr>cb_seasons := xseasons\<rparr>) = snapshot_of st"
  "snapshot_of (st\<lparr>cb_participations := xparticipations\<rparr>) = snapshot_of st"
  "snapshot_of (st\<lparr>cb_players := xplayers\<rparr>) = snapshot_of st"
  "snapshot_of (st\<lparr>cb_rosters := xrosters\<rparr>) = snapshot_of st"
  "snapshot_of (st\<lparr>cb_games := xgames\<rparr>) = snapshot_of st"
  "snapshot_of (st\<lparr>cb_audits := xaudits\<rparr>) = snapshot_of st"
  by (simp_all add: snapshot_of_def fun_eq_iff)

lemma team_active_frame [simp]:
  "team_active (st\<lparr>cb_seasons := xseasons\<rparr>) = team_active st"
  "team_active (st\<lparr>cb_participations := xparticipations\<rparr>) = team_active st"
  "team_active (st\<lparr>cb_players := xplayers\<rparr>) = team_active st"
  "team_active (st\<lparr>cb_rosters := xrosters\<rparr>) = team_active st"
  "team_active (st\<lparr>cb_games := xgames\<rparr>) = team_active st"
  "team_active (st\<lparr>cb_setups := xsetups\<rparr>) = team_active st"
  "team_active (st\<lparr>cb_audits := xaudits\<rparr>) = team_active st"
  by (simp_all add: team_active_def team_of_def fun_eq_iff)

lemma season_open_frame [simp]:
  "season_open (st\<lparr>cb_teams := xteams\<rparr>) = season_open st"
  "season_open (st\<lparr>cb_participations := xparticipations\<rparr>) = season_open st"
  "season_open (st\<lparr>cb_players := xplayers\<rparr>) = season_open st"
  "season_open (st\<lparr>cb_rosters := xrosters\<rparr>) = season_open st"
  "season_open (st\<lparr>cb_games := xgames\<rparr>) = season_open st"
  "season_open (st\<lparr>cb_setups := xsetups\<rparr>) = season_open st"
  "season_open (st\<lparr>cb_audits := xaudits\<rparr>) = season_open st"
  by (simp_all add: season_open_def season_of_def fun_eq_iff)

lemma in_season_frame [simp]:
  "in_season (st\<lparr>cb_teams := xteams\<rparr>) = in_season st"
  "in_season (st\<lparr>cb_seasons := xseasons\<rparr>) = in_season st"
  "in_season (st\<lparr>cb_players := xplayers\<rparr>) = in_season st"
  "in_season (st\<lparr>cb_rosters := xrosters\<rparr>) = in_season st"
  "in_season (st\<lparr>cb_games := xgames\<rparr>) = in_season st"
  "in_season (st\<lparr>cb_setups := xsetups\<rparr>) = in_season st"
  "in_season (st\<lparr>cb_audits := xaudits\<rparr>) = in_season st"
  by (simp_all add: in_season_def participation_of_def fun_eq_iff)

lemma season_has_rosters_frame [simp]:
  "season_has_rosters (st\<lparr>cb_teams := xteams\<rparr>) = season_has_rosters st"
  "season_has_rosters (st\<lparr>cb_seasons := xseasons\<rparr>) = season_has_rosters st"
  "season_has_rosters (st\<lparr>cb_players := xplayers\<rparr>) = season_has_rosters st"
  "season_has_rosters (st\<lparr>cb_games := xgames\<rparr>) = season_has_rosters st"
  "season_has_rosters (st\<lparr>cb_setups := xsetups\<rparr>) = season_has_rosters st"
  "season_has_rosters (st\<lparr>cb_audits := xaudits\<rparr>) = season_has_rosters st"
  by (simp_all add: season_has_rosters_def in_season_def participation_of_def fun_eq_iff)

lemma season_has_games_frame [simp]:
  "season_has_games (st\<lparr>cb_teams := xteams\<rparr>) = season_has_games st"
  "season_has_games (st\<lparr>cb_seasons := xseasons\<rparr>) = season_has_games st"
  "season_has_games (st\<lparr>cb_participations := xparticipations\<rparr>) = season_has_games st"
  "season_has_games (st\<lparr>cb_players := xplayers\<rparr>) = season_has_games st"
  "season_has_games (st\<lparr>cb_rosters := xrosters\<rparr>) = season_has_games st"
  "season_has_games (st\<lparr>cb_setups := xsetups\<rparr>) = season_has_games st"
  "season_has_games (st\<lparr>cb_audits := xaudits\<rparr>) = season_has_games st"
  by (simp_all add: season_has_games_def fun_eq_iff)

lemma ready_depends_frame [simp]:
  "ready_depends (st\<lparr>cb_teams := xteams\<rparr>) = ready_depends st"
  "ready_depends (st\<lparr>cb_seasons := xseasons\<rparr>) = ready_depends st"
  "ready_depends (st\<lparr>cb_participations := xparticipations\<rparr>) = ready_depends st"
  "ready_depends (st\<lparr>cb_players := xplayers\<rparr>) = ready_depends st"
  "ready_depends (st\<lparr>cb_rosters := xrosters\<rparr>) = ready_depends st"
  "ready_depends (st\<lparr>cb_audits := xaudits\<rparr>) = ready_depends st"
  by (simp_all add: ready_depends_def ready_for_game_def fun_eq_iff)

lemma eligible_for_frame [simp]:
  "eligible_for (st\<lparr>cb_participations := xparticipations\<rparr>) = eligible_for st"
  "eligible_for (st\<lparr>cb_players := xplayers\<rparr>) = eligible_for st"
  "eligible_for (st\<lparr>cb_rosters := xrosters\<rparr>) = eligible_for st"
  "eligible_for (st\<lparr>cb_games := xgames\<rparr>) = eligible_for st"
  "eligible_for (st\<lparr>cb_setups := xsetups\<rparr>) = eligible_for st"
  "eligible_for (st\<lparr>cb_audits := xaudits\<rparr>) = eligible_for st"
  by (simp_all add: eligible_for_def team_active_def season_open_def team_of_def season_of_def fun_eq_iff)

lemma slot_still_eligible_frame [simp]:
  "slot_still_eligible (st\<lparr>cb_teams := xteams\<rparr>) = slot_still_eligible st"
  "slot_still_eligible (st\<lparr>cb_seasons := xseasons\<rparr>) = slot_still_eligible st"
  "slot_still_eligible (st\<lparr>cb_participations := xparticipations\<rparr>) = slot_still_eligible st"
  "slot_still_eligible (st\<lparr>cb_games := xgames\<rparr>) = slot_still_eligible st"
  "slot_still_eligible (st\<lparr>cb_setups := xsetups\<rparr>) = slot_still_eligible st"
  "slot_still_eligible (st\<lparr>cb_audits := xaudits\<rparr>) = slot_still_eligible st"
  by (simp_all add: slot_still_eligible_def player_of_def roster_of_def fun_eq_iff)

lemma slot_linked_frame [simp]:
  "slot_linked (st\<lparr>cb_teams := xteams\<rparr>) = slot_linked st"
  "slot_linked (st\<lparr>cb_seasons := xseasons\<rparr>) = slot_linked st"
  "slot_linked (st\<lparr>cb_participations := xparticipations\<rparr>) = slot_linked st"
  "slot_linked (st\<lparr>cb_players := xplayers\<rparr>) = slot_linked st"
  "slot_linked (st\<lparr>cb_games := xgames\<rparr>) = slot_linked st"
  "slot_linked (st\<lparr>cb_setups := xsetups\<rparr>) = slot_linked st"
  "slot_linked (st\<lparr>cb_audits := xaudits\<rparr>) = slot_linked st"
  by (simp_all add: slot_linked_def fun_eq_iff cong: option.case_cong)

lemma snapshot_linked_frame [simp]:
  "snapshot_linked (st\<lparr>cb_teams := xteams\<rparr>) = snapshot_linked st"
  "snapshot_linked (st\<lparr>cb_seasons := xseasons\<rparr>) = snapshot_linked st"
  "snapshot_linked (st\<lparr>cb_participations := xparticipations\<rparr>) = snapshot_linked st"
  "snapshot_linked (st\<lparr>cb_players := xplayers\<rparr>) = snapshot_linked st"
  "snapshot_linked (st\<lparr>cb_games := xgames\<rparr>) = snapshot_linked st"
  "snapshot_linked (st\<lparr>cb_setups := xsetups\<rparr>) = snapshot_linked st"
  "snapshot_linked (st\<lparr>cb_audits := xaudits\<rparr>) = snapshot_linked st"
  by (simp_all add: snapshot_linked_def fun_eq_iff)

section \<open>What the parts of a transaction do\<close>

lemma write_club_audit_Inr:
  "write_club_audit a act cap what ty i m st = Inr st' \<Longrightarrow> \<exists>rows. st' = st\<lparr>cb_audits := rows\<rparr>"
  by (auto simp: write_club_audit_def result_simps)

lemma audit_change: "audit_by a what ty i m st = Inr st' \<Longrightarrow> club_change st st'"
  unfolding audit_by_def by (drule write_club_audit_Inr) (auto intro: audited)

lemma by_audit: "audit_by a what ty i m st1 = Inr st2 \<Longrightarrow> club_change st st1 \<Longrightarrow> club_changes st st2"
  by (rule two_changes [OF _ audit_change])

lemma update_current_Inr: "update_current P f named revision expected rows = Inr rows' \<longleftrightarrow>
    length (filter P rows) = 1 \<and> rows' = replaced P f rows"
  by (auto simp: update_current_def update_many_def replaced_def split: option.splits)

lemma found_Inr [simp]: "found x = Inr r \<longleftrightarrow> x = Some r"
  by (auto simp: found_def split: option.splits)

lemma read_back_Inr [simp]: "read_back x = Inr r \<longleftrightarrow> x = Some r"
  by (auto simp: read_back_def split: option.splits)

lemma at_revision_Inr [simp]: "at_revision v e = Inr u \<longleftrightarrow> v = e"
  by (auto simp: at_revision_def result_simps)

lemma lifecycle_guard_Inr [simp]: "lifecycle_guard c = Inr u \<longleftrightarrow> c"
  by (auto simp: lifecycle_guard_def result_simps)

lemma valid_instant_Inr [simp]: "valid_instant x = Inr t \<longleftrightarrow> x = Some t"
  by (auto simp: valid_instant_def split: option.splits)

lemma with_teams_Inr: "with_teams rows st = Inr st' \<longleftrightarrow> team_names_unique rows \<and> st' = st\<lparr>cb_teams := rows\<rparr>"
  by (auto simp: with_teams_def result_simps)

lemma insert_row_Inr: "insert_row t key r rows = Inr rows' \<longleftrightarrow> key r \<notin> key ` set rows \<and> rows' = rows @ [r]"
  by (auto simp: insert_row_def result_simps)

lemma refuse_unless_Inr [simp]: "refuse_unless c e = Inr u \<longleftrightarrow> c"
  by (auto simp: refuse_unless_def result_simps)

lemma found_or_Inr [simp]: "found_or e x = Inr r \<longleftrightarrow> x = Some r"
  by (auto simp: found_or_def split: option.splits)

lemmas transaction_simps = result_simps update_current_Inr with_teams_Inr insert_row_Inr Let_def

section \<open>Teams and seasons\<close>

lemma createTeam_change: "createTeam env c a st = Inr (x, st') \<Longrightarrow> club_changes st st'"
  by (auto simp: createTeam_def transaction_simps elim!: by_audit intro!: team_added)

lemma updateTeam_change: "updateTeam c a st = Inr (x, st') \<Longrightarrow> club_changes st st'"
  by (auto simp: updateTeam_def transaction_simps static_defs team_named_def
      elim!: by_audit intro!: team_changed [where a = "utm_accountId c" and i = "utm_teamId c"])

lemma setTeamArchived_change: "setTeamArchived env c a st = Inr (x, st') \<Longrightarrow> club_changes st st'"
  by (auto simp: setTeamArchived_def transaction_simps static_defs
      elim!: by_audit intro!: team_changed [where a = "sar_accountId c" and i = "sar_id c"])

lemma createSeason_change: "createSeason env c a st = Inr (x, st') \<Longrightarrow> club_changes st st'"
  by (auto simp: createSeason_def transaction_simps elim!: by_audit intro!: season_added)

lemma updateSeason_change: "updateSeason c a st = Inr (x, st') \<Longrightarrow> club_changes st st'"
  by (auto simp: updateSeason_def transaction_simps static_defs open_season_def
      elim!: by_audit intro!: season_changed [where a = "usn_accountId c" and i = "usn_seasonId c"])

lemma transitionSeason_change: "transitionSeason env c a st = Inr (x, st') \<Longrightarrow> club_changes st st'"
  apply (cases "trn_status c")
  by (auto simp: transitionSeason_def transaction_simps static_defs open_season_def
      elim!: by_audit intro!: season_changed [where a = "trn_accountId c" and i = "trn_seasonId c"])

section \<open>Participations, players and periods\<close>

lemma addTeamSeason_change: "addTeamSeason env c a st = Inr (x, st') \<Longrightarrow> club_changes st st'"
  by (auto simp: addTeamSeason_def transaction_simps team_active_def season_open_def split: option.splits
      elim!: by_audit intro!: participation_added)

lemma setTeamSeasonArchived_change: "setTeamSeasonArchived env c a st = Inr (x, st') \<Longrightarrow> club_changes st st'"
  by (auto simp: setTeamSeasonArchived_def transaction_simps static_defs
      elim!: by_audit intro!: participation_changed [where a = "sar_accountId c" and i = "sar_id c"])

lemma createPlayer_change: "createPlayer env c a st = Inr (x, st') \<Longrightarrow> club_changes st st'"
  by (auto simp: createPlayer_def transaction_simps elim!: by_audit intro!: player_added)

lemma updatePlayer_change: "updatePlayer c a st = Inr (x, st') \<Longrightarrow> club_changes st st'"
  by (auto simp: updatePlayer_def transaction_simps static_defs
      elim!: by_audit intro!: player_changed [where a = "upl_accountId c" and i = "upl_playerId c"])

lemma setPlayerArchived_change: "setPlayerArchived env c a st = Inr (x, st') \<Longrightarrow> club_changes st st'"
  by (auto simp: setPlayerArchived_def transaction_simps static_defs
      elim!: by_audit intro!: player_changed [where a = "sar_accountId c" and i = "sar_id c"])

lemma insert_period_Inr: "insert_period r st = Inr st' \<longleftrightarrow>
    rer_id r \<notin> rer_id ` set (cb_rosters st) \<and>
    \<not> (rer_status r = Roster_ACTIVE \<and> list_ex (\<lambda>s. same_membership r s \<and> rer_status s = Roster_ACTIVE) (cb_rosters st)) \<and>
    \<not> list_ex (\<lambda>s. same_membership r s \<and> periods_overlap r s) (cb_rosters st) \<and>
    st' = st\<lparr>cb_rosters := cb_rosters st @ [r]\<rparr>"
  by (auto simp: insert_period_def transaction_simps)

lemma new_period_simps [simp]:
  "rer_id (new_period env a ts q t j p) = cv_newId env 0" "rer_accountId (new_period env a ts q t j p) = a"
  "rer_playerId (new_period env a ts q t j p) = q" "rer_teamSeasonId (new_period env a ts q t j p) = ts"
  "rer_status (new_period env a ts q t j p) = Roster_ACTIVE" "rer_startsAt (new_period env a ts q t j p) = t"
  "rer_endsAt (new_period env a ts q t j p) = None"
  by (simp_all add: new_period_def)

lemma addRosterPeriod_change: "addRosterPeriod env c a st = Inr (x, st') \<Longrightarrow> club_changes st st'"
  by (auto simp: addRosterPeriod_def transaction_simps insert_period_Inr split: option.splits elim!: by_audit intro!: period_added)

lemma end_of_period_change:
  assumes "end_of_period a i expected status endsAt archivedAt st = Inr st1" and "status \<noteq> Roster_ACTIVE"
    and "roster_of st a i = Some e" and "rer_startsAt e < endsAt" and "\<not> ready_depends st a i"
  shows "club_change st st1"
  using assms by (auto simp: end_of_period_def transaction_simps static_defs
      intro!: period_ended [where a = a and i = i and e = e and endsAt = endsAt])

lemma end_of_period_frame: "end_of_period a i expected status endsAt archivedAt st = Inr st1 \<Longrightarrow> \<exists>rows. st1 = st\<lparr>cb_rosters := rows\<rparr>"
  by (auto simp: end_of_period_def transaction_simps)

lemma endRosterPeriod_change:
  assumes "endRosterPeriod env c a st = Inr (x, st')"
  shows "club_changes st st'"
proof -
  have status: "(if erp_archive c then Roster_ARCHIVED else Roster_INACTIVE) \<noteq> Roster_ACTIVE" by simp
  obtain r endsAt st1 arch where "roster_of st (erp_accountId c) (erp_rosterEntryId c) = Some r"
    and "\<not> ready_depends st (erp_accountId c) (erp_rosterEntryId c)"
    and "\<not> instant_le (Some endsAt) (rer_startsAt r)"
    and "date_parse (erp_endsAt c) = Some endsAt"
    and "end_of_period (erp_accountId c) (erp_rosterEntryId c) (erp_expectedRevision c)
      (if erp_archive c then Roster_ARCHIVED else Roster_INACTIVE) endsAt arch st = Inr st1"
    and log: "(audit_by a ''roster_period.end'' ''RosterEntry'' (erp_rosterEntryId c) No_metadata st1 :: management_failure + club) = Inr st'"
    using assms unfolding endRosterPeriod_def by (clarsimp simp: transaction_simps)
  then have "club_change st st1"
    by (intro end_of_period_change [OF _ status]) (auto simp: instant_le_def)
  then show ?thesis by (rule by_audit [OF log])
qed

lemma changeJersey_change:
  assumes "changeJersey env c a st = Inr (x, st')"
  shows "club_changes st st'"
proof -
  obtain r endsAt st1 st2 p q where facts: "roster_of st (cjr_accountId c) (cjr_rosterEntryId c) = Some r"
      "\<not> ready_depends st (cjr_accountId c) (cjr_rosterEntryId c)" "\<not> instant_le (Some endsAt) (rer_startsAt r)"
      "player_of st (rer_accountId r) (rer_playerId r) = Some q" "participation_of st (rer_accountId r) (rer_teamSeasonId r) = Some p"
      "plr_archivedAt q = None" "par_archivedAt p = None" "team_active st p" "season_open st p"
    and st1: "end_of_period (cjr_accountId c) (cjr_rosterEntryId c) (cjr_expectedRevision c) Roster_INACTIVE endsAt
      (rer_archivedAt r) st = Inr st1"
    and st2: "(insert_period (new_period env (cjr_accountId c) (rer_teamSeasonId r) (rer_playerId r) endsAt (cjr_jerseyNumber c)
            (or_else (cjr_primaryPosition c) (rer_primaryPosition r))) st1 :: management_failure + club) = Inr st2"
    and log: "(audit_by a ''roster_period.jersey_change'' ''RosterEntry'' (cv_newId env 0)
         (Meta_replaced (rer_id r) (cjr_expectedRevision c)) st2 :: management_failure + club) = Inr st'"
    using assms unfolding changeJersey_def by (clarsimp simp: transaction_simps)
  define new where "new = new_period env (cjr_accountId c) (rer_teamSeasonId r) (rer_playerId r) endsAt (cjr_jerseyNumber c)
            (or_else (cjr_primaryPosition c) (rer_primaryPosition r))"
  have account: "rer_accountId r = cjr_accountId c"
    using facts(1) by (auto simp: roster_of_def find_Some_iff)
  obtain rows where rows: "st1 = st\<lparr>cb_rosters := rows\<rparr>" using end_of_period_frame [OF st1] by blast
  have first: "club_change st st1"
    using facts(2,3) by (intro end_of_period_change [OF st1 _ facts(1)]) (simp_all add: instant_le_def)
  have new_row: "rer_id new \<notin> rer_id ` set (cb_rosters st1)" "rer_status new = Roster_ACTIVE" "rer_endsAt new = None"
      "\<not> list_ex (\<lambda>s. same_membership new s \<and> periods_overlap new s) (cb_rosters st1)"
    and st2': "st2 = st1\<lparr>cb_rosters := cb_rosters st1 @ [new]\<rparr>"
    using st2 by (simp_all add: insert_period_Inr new_def)
  have parents: "participation_of st1 (rer_accountId new) (rer_teamSeasonId new) = Some p" "team_active st1 p" "season_open st1 p"
    "player_of st1 (rer_accountId new) (rer_playerId new) = Some q"
    using facts(4,5,8,9) account by (simp_all add: rows new_def)
  have "club_change st1 st2"
    unfolding st2' by (rule period_added [OF new_row parents(1) facts(7) parents(2,3,4) facts(6)])
  then show ?thesis using first by_audit [OF log] by (meson converse_rtranclp_into_rtranclp)
qed

section \<open>Games and setups\<close>

lemma createDraftGame_change: "createDraftGame env c a st = Inr (x, st') \<Longrightarrow> club_changes st st'"
  by (auto simp: createDraftGame_def draft_game_def transaction_simps eligible_for_def elim!: by_audit intro!: game_added)

definition ready_target :: "mark_ready \<Rightarrow> club_game_row \<Rightarrow> bool" where
  "ready_target c g \<longleftrightarrow> game_row_named (msr_accountId c) (msr_gameId c) g \<and> cgr_status g = None \<and> cgr_revision g = 0 \<and>
     cgr_setupRevision g = msr_expectedSetupRevision c \<and> cgr_readySetupSnapshotId g = None"

lemma set_ready_Inr: "set_ready c st = Inr st' \<longleftrightarrow> length (filter (ready_target c) (cb_games st)) = 1 \<and>
    st' = st\<lparr>cb_games := replaced (ready_target c)
      (\<lambda>g. g\<lparr>cgr_status := Some READY, cgr_readySetupSnapshotId := Some (msr_setupSnapshotId c)\<rparr>) (cb_games st)\<rparr>"
  by (auto simp: set_ready_def update_many_def replaced_def ready_target_def [abs_def] result_simps)

lemma markSetupReady_change:
  assumes "markSetupReady env c a st = Inr (x, st')"
  shows "club_changes st st'"
proof -
  obtain game where game: "club_game_of st (msr_accountId c) (msr_gameId c) = Some game"
    and rest: "(if marked c game then Inr (mark_of c True game, st)
     else and_then (check_ready env c game st) (\<lambda>_.
          and_then (set_ready c st) (\<lambda>st1.
          and_then (audit_by a ''game.setup_ready'' ''Game'' (msr_gameId c)
            (Meta_setup (msr_setupSnapshotId c) (msr_expectedSetupRevision c)) st1) (\<lambda>st2.
          and_then (read_back (find (\<lambda>g. cgr_id g = msr_gameId c) (cb_games st2))) (\<lambda>g.
            Inr (mark_of c False g, st2)))))) = Inr (x, st')"
    using assms by (auto simp: markSetupReady_def result_simps)
  show ?thesis
  proof (cases "marked c game")
    case True
    then show ?thesis using rest by simp
  next
    case False
    have "\<exists>r st1. check_ready env c game st = Inr r \<and> set_ready c st = Inr st1 \<and>
        (audit_by a ''game.setup_ready'' ''Game'' (msr_gameId c)
            (Meta_setup (msr_setupSnapshotId c) (msr_expectedSetupRevision c)) st1 :: setup_failure + club) = Inr st'"
      using rest False by (auto simp: result_simps)
    then obtain r st1 where r: "check_ready env c game st = Inr r" and st1: "set_ready c st = Inr st1"
      and "(audit_by a ''game.setup_ready'' ''Game'' (msr_gameId c)
            (Meta_setup (msr_setupSnapshotId c) (msr_expectedSetupRevision c)) st1 :: setup_failure + club) = Inr st'"
      by blast
    moreover have "club_change st st1"
      using st1 game_readied [OF r game, of "ready_target c"] by (simp add: set_ready_Inr ready_target_def)
    ultimately show ?thesis by (blast intro: by_audit)
  qed
qed

section \<open>A new revision of a setup\<close>

text \<open>A query by a list of ids returns as many rows as there are ids: the ids are distinct and each has its row.\<close>

lemma all_found:
  assumes "distinct (map k rows)"
  shows "length (filter (\<lambda>r. P r \<and> k r \<in> set ids) rows) = length ids \<longleftrightarrow>
    distinct ids \<and> (\<forall>i\<in>set ids. \<exists>r\<in>set rows. P r \<and> k r = i)"
proof -
  let ?hits = "filter (\<lambda>r. P r \<and> k r \<in> set ids) rows"
  have d: "distinct (map k ?hits)" using assms by (rule distinct_map_filter)
  have sub: "set (map k ?hits) \<subseteq> set ids" by auto
  have len: "length ?hits = card (set (map k ?hits))" using distinct_card [OF d] by simp
  have le: "length ?hits \<le> card (set ids)" unfolding len by (rule card_mono [OF _ sub]) simp
  show ?thesis
  proof
    assume eq: "length ?hits = length ids"
    then have "card (set ids) = length ids" using le card_length [of ids] by linarith
    then have "distinct ids" by (rule card_distinct)
    have "set (map k ?hits) = set ids"
      using eq len \<open>card (set ids) = length ids\<close> by (intro card_subset_eq [OF _ sub]) simp_all
    then have "\<exists>r\<in>set ?hits. k r = i" if "i \<in> set ids" for i
      using that by (metis (no_types, lifting) imageE set_map)
    then have "\<exists>r\<in>set rows. P r \<and> k r = i" if "i \<in> set ids" for i
      using that by fastforce
    then show "distinct ids \<and> (\<forall>i\<in>set ids. \<exists>r\<in>set rows. P r \<and> k r = i)"
      using \<open>distinct ids\<close> by blast
  next
    assume r: "distinct ids \<and> (\<forall>i\<in>set ids. \<exists>r\<in>set rows. P r \<and> k r = i)"
    have "set ids \<subseteq> set (map k ?hits)"
    proof
      fix i assume i: "i \<in> set ids"
      then obtain x where "x \<in> set rows" "P x" "k x = i" using r by blast
      then have "x \<in> set ?hits" using i by simp
      then show "i \<in> set (map k ?hits)" using \<open>k x = i\<close> by (metis image_eqI set_map)
    qed
    then have "set (map k ?hits) = set ids" using sub by (rule subset_antisym [rotated])
    then show "length ?hits = length ids" using len r distinct_card [of ids] by simp
  qed
qed

definition rows_agree :: "club \<Rightarrow> ident \<Rightarrow> (ident \<Rightarrow> participation_row option) \<Rightarrow> (ident \<Rightarrow> roster_row option) \<Rightarrow> bool" where
  "rows_agree st a ps rs \<longleftrightarrow> (\<forall>i p. ps i = Some p \<longrightarrow> par_id p = i) \<and>
     (\<forall>i e. rs i = Some e \<longrightarrow> rer_id e = i \<and> rer_accountId e = a \<and> e \<in> set (cb_rosters st))"

lemma side_slots_linked:
  assumes "rows_agree st a ps rs" and "side_eligible st rs t s" and "\<forall>ts\<in>set_option (managed_team_season s). ps ts \<noteq> None"
    and "l \<in> set (side_slots env st rs n s)" and "gsr_accountId r = a" and "side_row env st ps n s \<in> set (gsr_teamSnapshots r)"
  shows "slot_linked st r l"
proof (cases s)
  case (Managed_side sd ts ms)
  then obtain k m where l: "l = managed_slot_row st rs (cv_newId env k) (cv_newId env n) m" and m: "m \<in> set ms"
    using assms(4) by (auto dest: set_zip_rightD)
  obtain p where p: "ps ts = Some p" using assms(3) Managed_side by auto
  have "slot_eligible st rs ts t m" using assms(2) m Managed_side by (simp add: list_all_iff)
  then obtain e where e: "rs (mns_rosterEntryId m) = Some e" "rer_playerId e = mns_playerId m" "rer_teamSeasonId e = ts"
    by (auto simp: slot_eligible_def split: option.splits)
  show ?thesis
    unfolding slot_linked_def using assms(1,5,6) e p
    by (intro bexI [of _ "side_row env st ps n s"])
      (auto simp: l Managed_side managed_slot_row_def slot_row_def rows_agree_def Let_def intro!: bexI [of _ e])
next
  case (External_side sd name es)
  then obtain k x where l: "l = external_slot_row (cv_newId env k) (cv_newId env n) x"
    using assms(4) by auto
  show ?thesis
    unfolding slot_linked_def using assms(6)
    by (intro bexI [of _ "side_row env st ps n s"]) (auto simp: l External_side external_slot_row_def slot_row_def)
qed

lemma side_rows_slots: "l \<in> set (snd (side_rows env st ps rs n ss)) \<Longrightarrow>
    \<exists>m s. s \<in> set ss \<and> l \<in> set (side_slots env st rs m s) \<and> side_row env st ps m s \<in> set (fst (side_rows env st ps rs n ss))"
proof (induction ss arbitrary: n)
  case (Cons s ss)
  then show ?case by (auto simp: split_beta Let_def) blast
qed simp

lemma side_rows_sides: "map tsr_side (fst (side_rows env st ps rs n ss)) = map input_side ss"
proof (induction ss arbitrary: n)
  case (Cons s ss)
  then show ?case by (cases s) (auto simp: split_beta Let_def)
qed simp

lemma check_setup_Inr:
  assumes "check_setup c st = Inr (rules, ps, rs)" and "distinct (map par_id (cb_participations st))"
  shows "rows_agree st (ssr_accountId c) ps rs"
    and "\<forall>s\<in>set (ssr_sides c). side_eligible st rs (date_parse (ssr_scheduledAt c)) s"
    and "\<forall>s\<in>set (ssr_sides c). \<forall>ts\<in>set_option (managed_team_season s). ps ts \<noteq> None"
proof -
  let ?ids = "List.map_filter managed_team_season (ssr_sides c)"
  let ?found = "filter (\<lambda>p. par_accountId p = ssr_accountId c \<and> par_id p \<in> set ?ids) (cb_participations st)"
  have ps: "ps = js_map_of par_id ?found" and len: "length ?found = length ?ids"
    and side: "list_all (side_eligible st rs (date_parse (ssr_scheduledAt c))) (ssr_sides c)"
    and rs: "rs = js_map_of rer_id (filter (\<lambda>r. rer_accountId r = ssr_accountId c \<and>
      rer_id r \<in> set (map mns_rosterEntryId (concat (map managed_slots (ssr_sides c))))) (cb_rosters st))"
    using assms(1) unfolding check_setup_def Let_def by (auto simp: result_simps)
  show "rows_agree st (ssr_accountId c) ps rs"
    unfolding rows_agree_def ps rs by (auto dest!: js_map_of_SomeD)
  show "\<forall>s\<in>set (ssr_sides c). side_eligible st rs (date_parse (ssr_scheduledAt c)) s" using side by (simp add: list_all_iff)
  have d: "distinct (map par_id ?found)" using assms(2) by (rule distinct_map_filter)
  have all: "\<forall>i\<in>set ?ids. \<exists>p\<in>set (cb_participations st). par_accountId p = ssr_accountId c \<and> par_id p = i"
    using len unfolding all_found [OF assms(2)] by blast
  show "\<forall>s\<in>set (ssr_sides c). \<forall>ts\<in>set_option (managed_team_season s). ps ts \<noteq> None"
  proof (intro ballI)
    fix s ts assume "s \<in> set (ssr_sides c)" and "ts \<in> set_option (managed_team_season s)"
    then have "ts \<in> set ?ids" by (auto simp: set_map_filter)
    then show "ps ts \<noteq> None" using all unfolding ps js_map_of_distinct [OF d] by (auto simp: find_None_iff)
  qed
qed

lemma insert_snapshot_Inr: "insert_snapshot r st = Inr st' \<longleftrightarrow> \<not> snapshot_conflict (cb_setups st) r \<and>
    fresh_keys tsr_id (gsr_teamSnapshots r) (concat (map gsr_teamSnapshots (cb_setups st))) \<and>
    fresh_keys lsr_id (gsr_lineupSlots r) (concat (map gsr_lineupSlots (cb_setups st))) \<and>
    st' = st\<lparr>cb_setups := cb_setups st @ [r]\<rparr>"
  by (auto simp: insert_snapshot_def result_simps)

lemma supersede_setup_change:
  assumes "supersede_setup c t st = Inr st'"
  shows "club_change st st'"
proof -
  let ?f = "\<lambda>g. g\<lparr>cgr_setupRevision := ssr_expectedSetupRevision c + 1, cgr_readySetupSnapshotId := None, cgr_status := None,
            cgr_scheduledAt := Some t, cgr_location := ssr_location c, cgr_weatherCondition := ssr_weatherCondition c,
            cgr_temperatureF := ssr_temperatureF c\<rparr>"
  let ?P = "\<lambda>g. game_row_named (ssr_accountId c) (ssr_gameId c) g \<and> cgr_setupRevision g = ssr_expectedSetupRevision c \<and> editable g"
  have "st' = st\<lparr>cb_games := replaced ?P ?f (cb_games st)\<rparr>"
    using assms by (auto simp: supersede_setup_def update_many_def replaced_def result_simps)
  then show ?thesis
    by (auto simp: static_defs intro!: game_reopened [where a = "ssr_accountId c" and i = "ssr_gameId c"])
qed

lemma new_snapshot_linked:
  assumes "check_setup c st = Inr (rules, ps, rs)" and "distinct (map par_id (cb_participations st))"
    and "distinct (map input_side (ssr_sides c))"
    and "r = new_snapshot env c a digest rules t (side_rows env st ps rs 1 (ssr_sides c))"
    and "distinct (map tsr_id (gsr_teamSnapshots r))" and "distinct (map lsr_id (gsr_lineupSlots r))"
  shows "snapshot_linked st r"
proof -
  note checked = check_setup_Inr [OF assms(1,2)]
  have rows: "gsr_teamSnapshots r = fst (side_rows env st ps rs 1 (ssr_sides c))"
    "gsr_lineupSlots r = snd (side_rows env st ps rs 1 (ssr_sides c))" "gsr_accountId r = ssr_accountId c" "gsr_scheduledAt r = Some t"
    by (simp_all add: assms(4) new_snapshot_def)
  have "slot_linked st r l" if "l \<in> set (gsr_lineupSlots r)" for l
  proof -
    from that [unfolded rows] obtain m s where "s \<in> set (ssr_sides c)" "l \<in> set (side_slots env st rs m s)"
      "side_row env st ps m s \<in> set (fst (side_rows env st ps rs 1 (ssr_sides c)))" using side_rows_slots by blast
    then show ?thesis
      using checked rows by (intro side_slots_linked [OF checked(1)]) auto
  qed
  then show ?thesis
    using assms(3,5,6) rows(1,4) by (simp add: snapshot_linked_def side_rows_sides)
qed

lemma saveSetupRevision_change:
  assumes "saveSetupRevision env digest c a st = Inr (x, st')" and "distinct (map par_id (cb_participations st))"
    and "distinct (map input_side (ssr_sides c))"
  shows "club_changes st st'"
proof (cases "find (setup_submission c a) (cb_setups st)")
  case None
  obtain rules ps rs t st1 st2 where checked: "check_setup c st = Inr (rules, ps, rs)"
    and st1: "(insert_snapshot (new_snapshot env c a digest rules t (side_rows env st ps rs 1 (ssr_sides c))) st :: setup_failure + club) = Inr st1"
    and st2: "supersede_setup c t st1 = Inr st2"
    and log: "(audit_by a ''game.setup_revision.create'' ''Game'' (ssr_gameId c)
      (Meta_setup (cv_newId env 0) (ssr_expectedSetupRevision c + 1)) st2 :: setup_failure + club) = Inr st'"
    using assms(1) None unfolding saveSetupRevision_def
    by (clarsimp simp: transaction_simps new_snapshot_def split: prod.splits)
  define r where "r = new_snapshot env c a digest rules t (side_rows env st ps rs 1 (ssr_sides c))"
  have "club_change st st1"
    using st1 new_snapshot_linked [OF checked assms(2,3) r_def]
    unfolding insert_snapshot_Inr r_def [symmetric] fresh_keys_def by (auto intro: setup_added)
  then have "club_changes st st2" by (rule two_changes [OF _ supersede_setup_change [OF st2]])
  then show ?thesis by (rule then_change [OF _ audit_change [OF log]])
qed (use assms(1) in \<open>auto simp: saveSetupRevision_def result_simps\<close>)

text \<open>The commands that the schemas have accepted; the actor is any.\<close>

definition sides_distinct :: "club_input \<Rightarrow> bool" where
  "sides_distinct i = (case cin_command i of Save_setup c \<Rightarrow> distinct (map input_side (ssr_sides c)) | _ \<Rightarrow> True)"

lemma management_change:
  assumes "management_body env a c st = Inr (x, st')"
  shows "club_changes st st'"
  using assms unfolding management_body_def
  by (cases c) (auto dest: createTeam_change updateTeam_change setTeamArchived_change createSeason_change updateSeason_change
      transitionSeason_change addTeamSeason_change setTeamSeasonArchived_change createPlayer_change updatePlayer_change
      setPlayerArchived_change addRosterPeriod_change endRosterPeriod_change changeJersey_change)

lemma club_step_changes:
  assumes "club_step st i = Inr st'" and "sides_distinct i" and "distinct (map par_id (cb_participations st))"
  shows "club_changes st st'"
proof (cases "cin_command i")
  case (Save_setup c)
  then show ?thesis
    using assms by (auto simp: club_step_def Let_def result_simps sides_distinct_def intro: saveSetupRevision_change)
qed (use assms(1) in \<open>auto simp: club_step_def Let_def result_simps
      dest: management_change createDraftGame_change markSetupReady_change\<close>)

end
