(* ===== verification/Club_Invariants.thy ===== *)
theory Club_Invariants
  imports Club_Changes
begin

text \<open>
  The invariants of the tables of an organisation: what is archived or closed has no live dependants,
  the periods of a player on a team do not overlap, and a game that is ready keeps the setup, the
  participants and the players that it was made ready with.
\<close>

section \<open>The invariants\<close>

definition keys_ok :: "club \<Rightarrow> bool" where
  "keys_ok st \<longleftrightarrow> distinct (map tmr_id (cb_teams st)) \<and> distinct (map snr_id (cb_seasons st)) \<and>
     distinct (map par_id (cb_participations st)) \<and> distinct (map plr_id (cb_players st)) \<and>
     distinct (map rer_id (cb_rosters st)) \<and> distinct (map cgr_id (cb_games st)) \<and> distinct (map gsr_id (cb_setups st))"

text \<open>The rows that foreign keys refer to.\<close>

definition participation_parents :: "club \<Rightarrow> bool" where
  "participation_parents st \<longleftrightarrow> (\<forall>p\<in>set (cb_participations st).
     team_of st (par_accountId p) (par_teamId p) \<noteq> None \<and> season_of st (par_accountId p) (par_seasonId p) \<noteq> None)"

definition roster_parents :: "club \<Rightarrow> bool" where
  "roster_parents st \<longleftrightarrow> (\<forall>r\<in>set (cb_rosters st).
     participation_of st (rer_accountId r) (rer_teamSeasonId r) \<noteq> None \<and> player_of st (rer_accountId r) (rer_playerId r) \<noteq> None)"

definition game_parents :: "club \<Rightarrow> bool" where
  "game_parents st \<longleftrightarrow> (\<forall>g\<in>set (cb_games st).
     map_option par_seasonId (participation_of st (cgr_accountId g) (cgr_teamSeasonId g)) = Some (cgr_seasonId g))"

definition team_closed :: "club \<Rightarrow> bool" where
  "team_closed st \<longleftrightarrow> (\<forall>t\<in>set (cb_teams st). tmr_status t = Team_ARCHIVED \<longrightarrow>
     (\<forall>p\<in>set (cb_participations st). \<not> live_participation (tmr_accountId t) (tmr_id t) p))"

definition participation_closed :: "club \<Rightarrow> bool" where
  "participation_closed st \<longleftrightarrow> (\<forall>p\<in>set (cb_participations st). par_archivedAt p \<noteq> None \<longrightarrow>
     (\<forall>r\<in>set (cb_rosters st). \<not> active_period_in (par_accountId p) (par_id p) r) \<and>
     (\<forall>g\<in>set (cb_games st). \<not> operational_game_of (par_accountId p) (par_id p) g))"

definition season_closed :: "club \<Rightarrow> bool" where
  "season_closed st \<longleftrightarrow> (\<forall>s\<in>set (cb_seasons st).
     (snr_status s = Season_ARCHIVED \<longrightarrow> \<not> season_has_rosters st (snr_accountId s) (snr_id s)) \<and>
     (\<not> open_season (snr_status s) \<longrightarrow> \<not> season_has_games st (snr_accountId s) (snr_id s)))"

definition player_closed :: "club \<Rightarrow> bool" where
  "player_closed st \<longleftrightarrow> (\<forall>q\<in>set (cb_players st). plr_archivedAt q \<noteq> None \<longrightarrow>
     (\<forall>r\<in>set (cb_rosters st). \<not> active_period_of (plr_accountId q) (plr_id q) r))"

definition period_ok :: "roster_row \<Rightarrow> bool" where
  "period_ok r \<longleftrightarrow> (rer_status r = Roster_ACTIVE \<longleftrightarrow> rer_endsAt r = None) \<and> before_end (rer_startsAt r) (rer_endsAt r)"

definition periods_ok :: "club \<Rightarrow> bool" where
  "periods_ok st \<longleftrightarrow> (\<forall>r\<in>set (cb_rosters st). period_ok r) \<and>
     (\<forall>r\<in>set (cb_rosters st). \<forall>s\<in>set (cb_rosters st). r \<noteq> s \<longrightarrow> same_membership r s \<longrightarrow> \<not> periods_overlap r s)"

definition rules_ok :: "club \<Rightarrow> setup_snapshot_row \<Rightarrow> bool" where
  "rules_ok st s \<longleftrightarrow> (\<exists>ruleset rules. ruleset_of st (gsr_accountId s) (gsr_rulesetVersionId s) = Some ruleset \<and> rsr_active ruleset \<and>
     parseRuleset (rsr_configuration ruleset) = Inr rules \<and> (\<forall>t\<in>set (gsr_teamSnapshots s). within_rules rules s t))"

definition slot_held :: "club \<Rightarrow> setup_snapshot_row \<Rightarrow> slot_snapshot_row \<Rightarrow> bool" where
  "slot_held st s l \<longleftrightarrow> (\<forall>i. lss_rosterEntryId l = Some i \<longrightarrow> (\<exists>e. roster_of st (gsr_accountId s) i = Some e \<and>
     rer_status e = Roster_ACTIVE \<and> \<not> rer_startsAt e > the (gsr_scheduledAt s)))"

definition ready_setup :: "club \<Rightarrow> club_game_row \<Rightarrow> setup_snapshot_row \<Rightarrow> bool" where
  "ready_setup st g s \<longleftrightarrow> cgr_readySetupSnapshotId g = Some (gsr_id s) \<and>
     snapshot_of st (cgr_accountId g) (cgr_id g) (gsr_id s) = Some s \<and> gsr_setupRevision s = cgr_setupRevision g \<and>
     length (gsr_teamSnapshots s) = 2 \<and> (\<exists>t\<in>set (gsr_teamSnapshots s). gts_teamSeasonId t = Some (cgr_teamSeasonId g)) \<and>
     distinct (managed_participations s) \<and>
     (\<forall>i\<in>set (managed_participations s). map_option par_seasonId (participation_of st (cgr_accountId g) i) = Some (cgr_seasonId g)) \<and>
     (\<forall>l\<in>set (gsr_lineupSlots s). slot_held st s l) \<and> rules_ok st s \<and> (\<exists>env. is_ok (replayable (ordered_snapshot env s)))"

definition games_ok :: "club \<Rightarrow> bool" where
  "games_ok st \<longleftrightarrow> (\<forall>g\<in>set (cb_games st). cgr_revision g = 0 \<and> (cgr_status g = None \<or> cgr_status g = Some READY) \<and>
     (cgr_status g = Some READY \<longrightarrow> (\<exists>s. ready_setup st g s)))"

definition setups_ok :: "club \<Rightarrow> bool" where
  "setups_ok st \<longleftrightarrow> (\<forall>s\<in>set (cb_setups st). snapshot_linked st s)"

definition club_ok :: "club \<Rightarrow> bool" where
  "club_ok st \<longleftrightarrow> keys_ok st \<and> participation_parents st \<and> roster_parents st \<and> game_parents st \<and> team_closed st \<and>
     participation_closed st \<and> season_closed st \<and> player_closed st \<and> periods_ok st \<and> games_ok st \<and> setups_ok st"

lemma club_okD:
  assumes "club_ok st"
  shows "keys_ok st" "participation_parents st" "roster_parents st" "game_parents st" "team_closed st" "participation_closed st"
    "season_closed st" "player_closed st" "periods_ok st" "games_ok st" "setups_ok st"
  using assms by (simp_all add: club_ok_def)

section \<open>Rows that are looked up\<close>

lemma set_replaced: "set (replaced P f rows) = (\<lambda>r. if P r then f r else r) ` set rows"
  by (auto simp: replaced_def)

lemma map_replaced: "keeps key f \<Longrightarrow> map key (replaced P f rows) = map key rows"
  by (simp add: replaced_def keeps_def)

lemma keeps_comp: "keeps key f \<Longrightarrow> keeps (g \<circ> key) f"
  by (simp add: keeps_def)

lemma find_replaced: "keeps key f \<Longrightarrow> (\<And>r. Q r = R (key r)) \<Longrightarrow>
    find Q (replaced P f rows) = map_option (\<lambda>r. if P r then f r else r) (find Q rows)"
  by (induction rows) (auto simp: replaced_def keeps_def)

lemma team_of_replaced: "keeps team_static f \<Longrightarrow>
    team_of (st\<lparr>cb_teams := replaced P f (cb_teams st)\<rparr>) a i = map_option (\<lambda>r. if P r then f r else r) (team_of st a i)"
  unfolding team_of_def by (simp, rule find_replaced [where key = team_static and R = "\<lambda>k. k = (a, i)"]) (auto simp: team_static_def)

lemma season_of_replaced: "keeps season_static f \<Longrightarrow>
    season_of (st\<lparr>cb_seasons := replaced P f (cb_seasons st)\<rparr>) a i = map_option (\<lambda>r. if P r then f r else r) (season_of st a i)"
  unfolding season_of_def by (simp, rule find_replaced [where key = season_static and R = "\<lambda>k. k = (a, i)"]) (auto simp: season_static_def)

lemma participation_of_replaced: "keeps participation_static f \<Longrightarrow>
    participation_of (st\<lparr>cb_participations := replaced P f (cb_participations st)\<rparr>) a i =
    map_option (\<lambda>r. if P r then f r else r) (participation_of st a i)"
  unfolding participation_of_def
  by (simp, rule find_replaced [where key = participation_static and R = "\<lambda>k. fst k = a \<and> fst (snd k) = i"]) (auto simp: participation_static_def)

lemma player_of_replaced: "keeps player_static f \<Longrightarrow>
    player_of (st\<lparr>cb_players := replaced P f (cb_players st)\<rparr>) a i = map_option (\<lambda>r. if P r then f r else r) (player_of st a i)"
  unfolding player_of_def by (simp, rule find_replaced [where key = player_static and R = "\<lambda>k. k = (a, i)"]) (auto simp: player_static_def)

lemma roster_of_replaced: "keeps roster_static f \<Longrightarrow>
    roster_of (st\<lparr>cb_rosters := replaced P f (cb_rosters st)\<rparr>) a i = map_option (\<lambda>r. if P r then f r else r) (roster_of st a i)"
  unfolding roster_of_def
  by (simp, rule find_replaced [where key = roster_static and R = "\<lambda>k. fst k = a \<and> fst (snd k) = i"]) (auto simp: roster_static_def)

text \<open>A new row behind the others does not change what was found.\<close>

lemma find_grows: "find P xs = Some x \<Longrightarrow> find P (xs @ ys) = Some x"
  by (simp add: find_append)

lemma lookup_grows:
  "team_of st a i = Some t \<Longrightarrow> team_of (st\<lparr>cb_teams := cb_teams st @ [t']\<rparr>) a i = Some t"
  "season_of st a i = Some s \<Longrightarrow> season_of (st\<lparr>cb_seasons := cb_seasons st @ [s']\<rparr>) a i = Some s"
  "participation_of st a i = Some p \<Longrightarrow> participation_of (st\<lparr>cb_participations := cb_participations st @ [p']\<rparr>) a i = Some p"
  "player_of st a i = Some q \<Longrightarrow> player_of (st\<lparr>cb_players := cb_players st @ [q']\<rparr>) a i = Some q"
  "roster_of st a i = Some r \<Longrightarrow> roster_of (st\<lparr>cb_rosters := cb_rosters st @ [r']\<rparr>) a i = Some r"
  "snapshot_of st a g i = Some x \<Longrightarrow> snapshot_of (st\<lparr>cb_setups := cb_setups st @ [x']\<rparr>) a g i = Some x"
  by (simp_all add: team_of_def season_of_def participation_of_def player_of_def roster_of_def snapshot_of_def find_append)

lemma find_key_iff:
  assumes "distinct (map k rows)" and "\<And>r. Q r \<Longrightarrow> k r = i"
  shows "find Q rows = Some r \<longleftrightarrow> r \<in> set rows \<and> Q r"
proof
  assume "find Q rows = Some r"
  then show "r \<in> set rows \<and> Q r" by (auto simp: find_Some_iff)
next
  assume r: "r \<in> set rows \<and> Q r"
  then obtain s where s: "find Q rows = Some s" by (cases "find Q rows") (auto simp: find_None_iff)
  then have "s \<in> set rows" "Q s" by (auto simp: find_Some_iff)
  then have "s = r" using r assms by (metis distinct_key_eqD)
  then show "find Q rows = Some r" using s by simp
qed

lemma lookup_iff:
  assumes "keys_ok st"
  shows "team_of st a i = Some t \<longleftrightarrow> t \<in> set (cb_teams st) \<and> tmr_accountId t = a \<and> tmr_id t = i"
    "season_of st a i = Some s \<longleftrightarrow> s \<in> set (cb_seasons st) \<and> snr_accountId s = a \<and> snr_id s = i"
    "participation_of st a i = Some p \<longleftrightarrow> p \<in> set (cb_participations st) \<and> par_accountId p = a \<and> par_id p = i"
    "player_of st a i = Some q \<longleftrightarrow> q \<in> set (cb_players st) \<and> plr_accountId q = a \<and> plr_id q = i"
    "roster_of st a i = Some r \<longleftrightarrow> r \<in> set (cb_rosters st) \<and> rer_accountId r = a \<and> rer_id r = i"
    "club_game_of st a i = Some g \<longleftrightarrow> g \<in> set (cb_games st) \<and> cgr_accountId g = a \<and> cgr_id g = i"
    "snapshot_of st a gid i = Some x \<longleftrightarrow> x \<in> set (cb_setups st) \<and> gsr_accountId x = a \<and> gsr_gameId x = gid \<and> gsr_id x = i"
proof -
  note d = assms [unfolded keys_ok_def]
  show "team_of st a i = Some t \<longleftrightarrow> t \<in> set (cb_teams st) \<and> tmr_accountId t = a \<and> tmr_id t = i"
    unfolding team_of_def using d by (intro find_key_iff [where k = tmr_id]) auto
  show "season_of st a i = Some s \<longleftrightarrow> s \<in> set (cb_seasons st) \<and> snr_accountId s = a \<and> snr_id s = i"
    unfolding season_of_def using d by (intro find_key_iff [where k = snr_id]) auto
  show "participation_of st a i = Some p \<longleftrightarrow> p \<in> set (cb_participations st) \<and> par_accountId p = a \<and> par_id p = i"
    unfolding participation_of_def using d by (intro find_key_iff [where k = par_id]) auto
  show "player_of st a i = Some q \<longleftrightarrow> q \<in> set (cb_players st) \<and> plr_accountId q = a \<and> plr_id q = i"
    unfolding player_of_def using d by (intro find_key_iff [where k = plr_id]) auto
  show "roster_of st a i = Some r \<longleftrightarrow> r \<in> set (cb_rosters st) \<and> rer_accountId r = a \<and> rer_id r = i"
    unfolding roster_of_def using d by (intro find_key_iff [where k = rer_id]) auto
  show "club_game_of st a i = Some g \<longleftrightarrow> g \<in> set (cb_games st) \<and> cgr_accountId g = a \<and> cgr_id g = i"
    unfolding club_game_of_def using d by (intro find_key_iff [where k = cgr_id]) auto
  show "snapshot_of st a gid i = Some x \<longleftrightarrow> x \<in> set (cb_setups st) \<and> gsr_accountId x = a \<and> gsr_gameId x = gid \<and> gsr_id x = i"
    unfolding snapshot_of_def using d by (intro find_key_iff [where k = gsr_id]) auto
qed

section \<open>Keys and parents\<close>

lemma keys_change:
  assumes "club_change st st'" and "keys_ok st"
  shows "keys_ok st'"
  using assms
proof (cases rule: club_change.cases)
  case (setup_added r)
  then have "gsr_id r \<notin> gsr_id ` set (cb_setups st)" by (auto simp: snapshot_conflict_def list_ex_iff)
  then show ?thesis using setup_added assms(2) by (simp add: keys_ok_def)
qed (auto simp: keys_ok_def replaced_def static_defs comp_def if_distrib [of tmr_id] if_distrib [of snr_id] if_distrib [of par_id]
    if_distrib [of plr_id] if_distrib [of rer_id] if_distrib [of cgr_id] cong: if_cong)

lemmas replaced_lookups = team_of_replaced season_of_replaced participation_of_replaced player_of_replaced roster_of_replaced

text \<open>No row is deleted, and its keys and its parents stay.\<close>

definition club_grows :: "club \<Rightarrow> club \<Rightarrow> bool" where
  "club_grows st st' \<longleftrightarrow> (\<forall>a i. team_of st a i \<noteq> None \<longrightarrow> team_of st' a i \<noteq> None) \<and>
     (\<forall>a i. season_of st a i \<noteq> None \<longrightarrow> season_of st' a i \<noteq> None) \<and>
     (\<forall>a i. player_of st a i \<noteq> None \<longrightarrow> player_of st' a i \<noteq> None) \<and>
     (\<forall>a i p. participation_of st a i = Some p \<longrightarrow> map_option participation_static (participation_of st' a i) = Some (participation_static p)) \<and>
     (\<forall>a i r. roster_of st a i = Some r \<longrightarrow> map_option roster_static (roster_of st' a i) = Some (roster_static r)) \<and>
     (\<forall>a g i s. snapshot_of st a g i = Some s \<longrightarrow> snapshot_of st' a g i = Some s) \<and> ruleset_of st' = ruleset_of st"

lemma club_grows_refl [simp]: "club_grows st st"
  by (simp add: club_grows_def)

lemma club_grows_change:
  assumes "club_change st st'"
  shows "club_grows st st'"
  using assms
proof (cases rule: club_change.cases)
  case (participation_changed f P a i p)
  then show ?thesis by (simp add: club_grows_def participation_of_replaced keeps_def)
next
  case (period_ended f P a i endsAt e)
  then show ?thesis by (simp add: club_grows_def roster_of_replaced keeps_def)
next
  case (team_added t)
  then show ?thesis by (auto simp: club_grows_def dest: lookup_grows)
next
  case (season_added s)
  then show ?thesis by (auto simp: club_grows_def dest: lookup_grows)
next
  case (player_added q)
  then show ?thesis by (auto simp: club_grows_def dest: lookup_grows)
qed (auto simp: club_grows_def team_of_replaced season_of_replaced player_of_replaced lookup_grows)

lemma grows_participation:
  assumes "club_grows st st'" and "map_option par_seasonId (participation_of st a i) = Some s"
  shows "map_option par_seasonId (participation_of st' a i) = Some s"
  using assms by (auto simp: club_grows_def participation_static_def) (metis prod.inject)

text \<open>The rows of a table after a change: those that were there, with the same keys and parents, or one that is new.\<close>

lemma old_or_new:
  "x \<in> set (replaced P f rows) \<Longrightarrow> keeps static f \<Longrightarrow> static x \<in> static ` set rows"
  by (auto simp: set_replaced keeps_def)

lemma participation_parents_change:
  assumes "club_change st st'" and "participation_parents st"
  shows "participation_parents st'"
proof -
  have old: "team_of st' (par_accountId p') (par_teamId p') \<noteq> None \<and> season_of st' (par_accountId p') (par_seasonId p') \<noteq> None"
    if "participation_static p' \<in> participation_static ` set (cb_participations st)" for p'
    using that assms(2) club_grows_change [OF assms(1)] by (auto simp: participation_parents_def club_grows_def participation_static_def)
  have "participation_static p' \<in> participation_static ` set (cb_participations st) \<or> (team_active st p' \<and> season_open st p')"
    if "p' \<in> set (cb_participations st')" for p'
    using assms(1) that by (cases rule: club_change.cases) (auto dest: old_or_new)
  moreover have "team_of st' (par_accountId p') (par_teamId p') \<noteq> None \<and> season_of st' (par_accountId p') (par_seasonId p') \<noteq> None"
    if "team_active st p'" and "season_open st p'" for p'
    using that club_grows_change [OF assms(1)] by (auto simp: team_active_def season_open_def club_grows_def split: option.splits)
  ultimately show ?thesis using old unfolding participation_parents_def by blast
qed

lemma roster_parents_change:
  assumes "club_change st st'" and "roster_parents st"
  shows "roster_parents st'"
proof -
  have mono: "participation_of st' a i \<noteq> None" if known: "participation_of st a i \<noteq> None" for a i
  proof -
    obtain p where "participation_of st a i = Some p" using known by auto
    then have "map_option participation_static (participation_of st' a i) = Some (participation_static p)"
      using club_grows_change [OF assms(1)] unfolding club_grows_def by blast
    then show ?thesis by auto
  qed
  have mono': "player_of st' a i \<noteq> None" if "player_of st a i \<noteq> None" for a i
    using that club_grows_change [OF assms(1)] by (simp add: club_grows_def)
  have old: "participation_of st (rer_accountId r') (rer_teamSeasonId r') \<noteq> None \<and> player_of st (rer_accountId r') (rer_playerId r') \<noteq> None"
    if "roster_static r' \<in> roster_static ` set (cb_rosters st)" for r'
    using that assms(2) by (auto simp: roster_parents_def roster_static_def)
  have "roster_static r' \<in> roster_static ` set (cb_rosters st) \<or>
      (participation_of st (rer_accountId r') (rer_teamSeasonId r') \<noteq> None \<and> player_of st (rer_accountId r') (rer_playerId r') \<noteq> None)"
    if "r' \<in> set (cb_rosters st')" for r'
    using assms(1) that by (cases rule: club_change.cases) (auto dest: old_or_new)
  then show ?thesis
    using old mono mono' unfolding roster_parents_def by blast
qed

lemma game_parents_change:
  assumes "club_change st st'" and "game_parents st"
  shows "game_parents st'"
proof -
  have old: "map_option par_seasonId (participation_of st (cgr_accountId g') (cgr_teamSeasonId g')) = Some (cgr_seasonId g')"
    if "game_static g' \<in> game_static ` set (cb_games st)" for g'
    using that assms(2) by (auto simp: game_parents_def game_static_def)
  have "game_static g' \<in> game_static ` set (cb_games st) \<or>
      map_option par_seasonId (participation_of st (cgr_accountId g') (cgr_teamSeasonId g')) = Some (cgr_seasonId g')"
    if "g' \<in> set (cb_games st')" for g'
    using assms(1) that
    by (cases rule: club_change.cases) (auto simp: static_defs set_replaced dest: old_or_new)
  then show ?thesis
    using old grows_participation [OF club_grows_change [OF assms(1)]] unfolding game_parents_def by blast
qed

section \<open>What is archived or closed\<close>

lemma team_closed_change:
  assumes "club_change st st'" and "keys_ok st" and "team_closed st"
  shows "team_closed st'"
  using assms(1)
proof (cases rule: club_change.cases)
  case (team_added t)
  then show ?thesis using assms(3) by (auto simp: team_closed_def)
next
  case (team_changed f P a i)
  then show ?thesis
    using assms(3) by (auto simp: team_closed_def set_replaced static_defs list_ex_iff team_named_def)
next
  case (participation_added p)
  have "tmr_status t = Team_ACTIVE" if "t \<in> set (cb_teams st)" "par_accountId p = tmr_accountId t" "par_teamId p = tmr_id t" for t
    using participation_added(4) that lookup_iff(1) [OF assms(2), of "tmr_accountId t" "tmr_id t" t]
    by (simp add: team_active_def)
  then show ?thesis using assms(3) participation_added(1) by (fastforce simp: team_closed_def live_participation_def)
next
  case (participation_changed f P a i p)
  have "\<not> live_participation (tmr_accountId t) (tmr_id t) (if P q then f q else q)"
    if t: "t \<in> set (cb_teams st)" "tmr_status t = Team_ARCHIVED" and q: "q \<in> set (cb_participations st)" for t q
  proof (cases "P q")
    case True
    then have "p = q"
      using participation_changed(3,4) q unfolding lookup_iff(3) [OF assms(2)] participation_named_def
      by (metis assms(2) distinct_key_eqD keys_ok_def)
    moreover have "tmr_status t = Team_ACTIVE" if "team_active st q" "par_accountId q = tmr_accountId t" "par_teamId q = tmr_id t"
      using that t(1) lookup_iff(1) [OF assms(2), of "tmr_accountId t" "tmr_id t" t] by (simp add: team_active_def)
    ultimately show ?thesis
      using True t participation_changed(2,5) by (auto simp: live_participation_def static_defs)
  qed (use that assms(3) in \<open>simp add: team_closed_def\<close>)
  then show ?thesis unfolding participation_changed(1) team_closed_def by (simp add: set_replaced del: if_image_distrib)
qed (use assms(3) in \<open>auto simp: team_closed_def\<close>)

lemma player_closed_change:
  assumes "club_change st st'" and "keys_ok st" and "player_closed st"
  shows "player_closed st'"
  using assms(1)
proof (cases rule: club_change.cases)
  case (player_added q)
  then show ?thesis using assms(3) by (auto simp: player_closed_def)
next
  case (player_changed f P a i)
  then show ?thesis using assms(3) by (auto simp: player_closed_def set_replaced static_defs list_ex_iff player_named_def)
next
  case (period_added r p q)
  have "plr_archivedAt x = None" if "x \<in> set (cb_players st)" "rer_accountId r = plr_accountId x" "rer_playerId r = plr_id x" for x
    using period_added(10,11) that lookup_iff(4) [OF assms(2), of "plr_accountId x" "plr_id x" x] by simp
  then show ?thesis using assms(3) period_added(1) by (fastforce simp: player_closed_def active_period_of_def)
next
  case (period_ended f P a i endsAt e)
  then show ?thesis using assms(3) by (auto simp: player_closed_def set_replaced active_period_of_def)
qed (use assms(3) in \<open>auto simp: player_closed_def\<close>)

text \<open>A game that is operational was so before its status was set.\<close>

lemma editable_operational: "editable g \<Longrightarrow> operational (cgr_status g)"
  by (auto simp: editable_def operational_def)

lemma operational_before:
  assumes "keeps game_static f" and "\<forall>g. P g \<longrightarrow> operational (cgr_status g)" and "g' \<in> set (replaced P f rows)"
    and "operational (cgr_status g')"
  shows "\<exists>g\<in>set rows. game_static g = game_static g' \<and> operational (cgr_status g)"
  using assms by (auto simp: set_replaced keeps_def)

lemma operational_games_back:
  assumes "club_change st st'" and "g' \<in> set (cb_games st')" and "operational (cgr_status g')"
  shows "(\<exists>g\<in>set (cb_games st). game_static g = game_static g' \<and> operational (cgr_status g)) \<or>
    (\<exists>p. participation_of st (cgr_accountId g') (cgr_teamSeasonId g') = Some p \<and> par_seasonId p = cgr_seasonId g' \<and>
       par_archivedAt p = None \<and> season_open st p)"
  using assms(1)
proof (cases rule: club_change.cases)
  case (game_reopened f P a i)
  then show ?thesis
    using operational_before [of f P g' "cb_games st"] assms(2,3) by (simp add: editable_operational)
next
  case (game_readied env c game r P)
  let ?f = "\<lambda>g. g\<lparr>cgr_status := Some READY, cgr_readySetupSnapshotId := Some (msr_setupSnapshotId c)\<rparr>"
  have "keeps game_static ?f" by (simp add: static_defs)
  then show ?thesis
    using operational_before [of ?f P g' "cb_games st"] assms(2,3) game_readied(1,4) by (simp add: operational_def)
qed (use assms(2,3) in auto)

lemma participation_closed_change:
  assumes "club_change st st'" and "keys_ok st" and "participation_closed st"
  shows "participation_closed st'"
proof -
  have games: "\<not> operational_game_of (par_accountId p) (par_id p) g'"
    if "p \<in> set (cb_participations st)" "par_archivedAt p \<noteq> None" "g' \<in> set (cb_games st')" for p g'
  proof
    assume g': "operational_game_of (par_accountId p) (par_id p) g'"
    show False
      using operational_games_back [OF assms(1) that(3)] g' that(1,2) assms(3) lookup_iff(3) [OF assms(2), of "par_accountId p" "par_id p" p]
      by (auto simp: operational_game_of_def participation_closed_def game_static_def)
  qed
  show ?thesis
    using assms(1)
  proof (cases rule: club_change.cases)
    case (participation_added p)
    then show ?thesis using assms(3) by (auto simp: participation_closed_def)
  next
    case (participation_changed f P a i p)
    then show ?thesis
      using assms(3) by (auto simp: participation_closed_def set_replaced static_defs list_ex_iff participation_named_def)
  next
    case (period_added r p q)
    have "par_archivedAt x = None"
      if "x \<in> set (cb_participations st)" "rer_accountId r = par_accountId x" "rer_teamSeasonId r = par_id x" for x
      using period_added(6,7) that lookup_iff(3) [OF assms(2), of "par_accountId x" "par_id x" x] by simp
    then show ?thesis using assms(3) period_added(1) by (fastforce simp: participation_closed_def active_period_in_def)
  next
    case (period_ended f P a i endsAt e)
    then show ?thesis using assms(3) by (auto simp: participation_closed_def set_replaced active_period_in_def)
  qed (use assms(3) games in \<open>auto simp: participation_closed_def\<close>)
qed

text \<open>A period that is active was so before, or it is new.\<close>

lemma active_rosters_back:
  assumes "club_change st st'" and "r' \<in> set (cb_rosters st')" and "rer_status r' = Roster_ACTIVE"
  shows "r' \<in> set (cb_rosters st) \<or>
    (\<exists>p. participation_of st (rer_accountId r') (rer_teamSeasonId r') = Some p \<and> par_archivedAt p = None \<and> season_open st p)"
  using assms(1)
proof (cases rule: club_change.cases)
  case (period_ended f P a i endsAt e)
  then show ?thesis using assms(2,3) by (auto simp: set_replaced)
qed (use assms(2,3) in auto)

lemma in_season_back:
  assumes "club_grows st st'" and "in_season st' i r" and "participation_of st (rer_accountId r) (rer_teamSeasonId r) \<noteq> None"
  shows "in_season st i r"
proof -
  obtain p where p: "participation_of st (rer_accountId r) (rer_teamSeasonId r) = Some p" using assms(3) by auto
  then have "map_option participation_static (participation_of st' (rer_accountId r) (rer_teamSeasonId r)) = Some (participation_static p)"
    using assms(1) unfolding club_grows_def by blast
  then show ?thesis using assms(2) p by (auto simp: in_season_def participation_static_def)
qed

lemma season_open_of:
  assumes "season_open st p" and "participation_of st a j = Some p"
  shows "\<exists>s. season_of st a (par_seasonId p) = Some s \<and> open_season (snr_status s)"
proof -
  have "par_accountId p = a" using assms(2) by (auto simp: participation_of_def find_Some_iff)
  then show ?thesis using assms(1) by (auto simp: season_open_def split: option.splits)
qed

lemma season_dependants_back:
  assumes "club_change st st'" and "roster_parents st"
  shows "season_has_rosters st' a i \<Longrightarrow> season_has_rosters st a i \<or> (\<exists>s. season_of st a i = Some s \<and> open_season (snr_status s))"
    and "season_has_games st' a i \<Longrightarrow> season_has_games st a i \<or> (\<exists>s. season_of st a i = Some s \<and> open_season (snr_status s))"
proof -
  assume "season_has_rosters st' a i"
  then obtain r where r: "r \<in> set (cb_rosters st')" "rer_accountId r = a" "in_season st' i r" "rer_status r = Roster_ACTIVE"
    by (auto simp: season_has_rosters_def list_ex_iff)
  note inside = in_season_back [OF club_grows_change [OF assms(1)] r(3)]
  show "season_has_rosters st a i \<or> (\<exists>s. season_of st a i = Some s \<and> open_season (snr_status s))"
    using active_rosters_back [OF assms(1) r(1,4)]
  proof
    assume old: "r \<in> set (cb_rosters st)"
    then have "in_season st i r" using assms(2) by (intro inside) (simp add: roster_parents_def)
    then show ?thesis using old r(2,4) by (auto simp: season_has_rosters_def list_ex_iff)
  next
    assume "\<exists>p. participation_of st (rer_accountId r) (rer_teamSeasonId r) = Some p \<and> par_archivedAt p = None \<and> season_open st p"
    then obtain p where p: "participation_of st a (rer_teamSeasonId r) = Some p" "season_open st p" using r(2) by auto
    then have "par_seasonId p = i" using inside r(2) by (simp add: in_season_def)
    then show ?thesis using season_open_of [OF p(2,1)] by simp
  qed
next
  assume "season_has_games st' a i"
  then obtain g where g: "g \<in> set (cb_games st')" "cgr_accountId g = a" "cgr_seasonId g = i" "operational (cgr_status g)"
    by (auto simp: season_has_games_def list_ex_iff)
  show "season_has_games st a i \<or> (\<exists>s. season_of st a i = Some s \<and> open_season (snr_status s))"
    using operational_games_back [OF assms(1) g(1,4)]
  proof
    assume "\<exists>x\<in>set (cb_games st). game_static x = game_static g \<and> operational (cgr_status x)"
    then show ?thesis using g(2,3) by (auto simp: season_has_games_def list_ex_iff game_static_def)
  next
    assume "\<exists>p. participation_of st (cgr_accountId g) (cgr_teamSeasonId g) = Some p \<and> par_seasonId p = cgr_seasonId g \<and>
      par_archivedAt p = None \<and> season_open st p"
    then show ?thesis using season_open_of g(2,3) by metis
  qed
qed

lemma season_closed_change:
  assumes "club_change st st'" and "keys_ok st" and "roster_parents st" and "season_closed st"
  shows "season_closed st'"
proof -
  have old: "(snr_status s = Season_ARCHIVED \<longrightarrow> \<not> season_has_rosters st' (snr_accountId s) (snr_id s)) \<and>
      (\<not> open_season (snr_status s) \<longrightarrow> \<not> season_has_games st' (snr_accountId s) (snr_id s))" if s: "s \<in> set (cb_seasons st)" for s
  proof -
    have "season_of st (snr_accountId s) (snr_id s) = Some s" using s lookup_iff(2) [OF assms(2)] by simp
    then show ?thesis
      using season_dependants_back [OF assms(1,3), of "snr_accountId s" "snr_id s"] s assms(4)
      by (auto simp: season_closed_def open_season_def)
  qed
  show ?thesis
    using assms(1)
  proof (cases rule: club_change.cases)
    case (season_added s)
    then show ?thesis using assms(4) by (auto simp: season_closed_def open_season_def)
  next
    case (season_changed f P a i)
    then show ?thesis using assms(4) by (auto simp: season_closed_def set_replaced static_defs season_named_def)
  qed (use old in \<open>auto simp: season_closed_def\<close>)
qed

section \<open>Roster periods\<close>

lemma before_end_unbounded: "before_end t None"
  by (simp add: before_end_def)

lemma periods_change:
  assumes "club_change st st'" and "keys_ok st" and "periods_ok st"
  shows "periods_ok st'"
  using assms(1)
proof (cases rule: club_change.cases)
  case (period_added r p q)
  have new: "period_ok r" using period_added(3,4) by (simp add: period_ok_def before_end_def)
  have apart: "\<not> periods_overlap r s \<and> \<not> periods_overlap s r"
    if "s \<in> set (cb_rosters st)" and "same_membership r s \<or> same_membership s r" for s
    using period_added(5) that by (auto simp: list_ex_iff periods_overlap_def same_membership_def)
  show ?thesis
    unfolding period_added(1) periods_ok_def using new apart assms(3) by (auto simp: periods_ok_def)
next
  case (period_ended f P a i endsAt e)
  let ?g = "\<lambda>r. if P r then f r else r"
  have ended: "r = e" if "r \<in> set (cb_rosters st)" and "P r" for r
    using that period_ended(3,5) unfolding lookup_iff(5) [OF assms(2)] roster_named_def
    by (metis assms(2) distinct_key_eqD keys_ok_def)
  have ok: "period_ok (?g r)" if "r \<in> set (cb_rosters st)" for r
    using that ended [OF that] period_ended(2,4,6) assms(3)
    by (auto simp: periods_ok_def period_ok_def before_end_def static_defs)
  have static: "roster_static (?g r) = roster_static r" for r
    using period_ended(2) by (simp add: keeps_def)
  have shrinks: "before_end t (rer_endsAt (?g r)) \<Longrightarrow> before_end t (rer_endsAt r)" for t r
    using period_ended(3) by (auto simp: before_end_def split: if_splits)
  have apart: "\<not> periods_overlap (?g r) (?g s)"
    if "r \<in> set (cb_rosters st)" "s \<in> set (cb_rosters st)" "?g r \<noteq> ?g s" "same_membership (?g r) (?g s)" for r s
  proof -
    have "same_membership r s" using that(4) static [of r] static [of s] by (simp add: same_membership_def roster_static_def)
    moreover have "r \<noteq> s" using that(3) by blast
    ultimately have "\<not> periods_overlap r s" using that(1,2) assms(3) by (simp add: periods_ok_def)
    moreover have "rer_startsAt (?g r) = rer_startsAt r" "rer_startsAt (?g s) = rer_startsAt s"
      using static [of r] static [of s] by (simp_all add: roster_static_def)
    ultimately show ?thesis using shrinks [of "rer_startsAt r" s] shrinks [of "rer_startsAt s" r] unfolding periods_overlap_def by argo
  qed
  show ?thesis
    unfolding period_ended(1) periods_ok_def using ok apart by (simp add: set_replaced del: if_image_distrib)
qed (use assms(3) in \<open>simp_all add: periods_ok_def\<close>)

section \<open>Setups\<close>

lemma slot_linked_mono:
  assumes "slot_linked st r l" and "\<And>e. e \<in> set (cb_rosters st) \<Longrightarrow> \<exists>e'\<in>set (cb_rosters st'). roster_static e' = roster_static e"
  shows "slot_linked st' r l"
proof -
  obtain t where t: "t \<in> set (gsr_teamSnapshots r)" "tsr_id t = lsr_gameTeamSnapshotId l"
    and l: "case gts_teamSeasonId t of
           None \<Rightarrow> lsr_playerId l = None \<and> lss_rosterEntryId l = None
         | Some ts \<Rightarrow> (\<exists>e\<in>set (cb_rosters st). rer_accountId e = gsr_accountId r \<and> lss_rosterEntryId l = Some (rer_id e) \<and>
             lsr_playerId l = Some (rer_playerId e) \<and> rer_teamSeasonId e = ts)"
    using assms(1) unfolding slot_linked_def by blast
  have "case gts_teamSeasonId t of
           None \<Rightarrow> lsr_playerId l = None \<and> lss_rosterEntryId l = None
         | Some ts \<Rightarrow> (\<exists>e\<in>set (cb_rosters st'). rer_accountId e = gsr_accountId r \<and> lss_rosterEntryId l = Some (rer_id e) \<and>
             lsr_playerId l = Some (rer_playerId e) \<and> rer_teamSeasonId e = ts)"
  proof (cases "gts_teamSeasonId t")
    case (Some ts)
    then obtain e where e: "e \<in> set (cb_rosters st)" "rer_accountId e = gsr_accountId r" "lss_rosterEntryId l = Some (rer_id e)"
      "lsr_playerId l = Some (rer_playerId e)" "rer_teamSeasonId e = ts" using l by auto
    then obtain e' where "e' \<in> set (cb_rosters st')" "roster_static e' = roster_static e" using assms(2) by blast
    then show ?thesis using Some e(2-) by (auto simp: roster_static_def)
  qed (use l in simp)
  then show ?thesis using t unfolding slot_linked_def by blast
qed

lemma setups_change:
  assumes "club_change st st'" and "setups_ok st"
  shows "setups_ok st'"
proof -
  have "\<exists>e'\<in>set (cb_rosters st'). roster_static e' = roster_static e" if e: "e \<in> set (cb_rosters st)" for e
    using assms(1)
  proof (cases rule: club_change.cases)
    case (period_ended f P a i endsAt e')
    then show ?thesis
      using e by (intro bexI [of _ "if P e then f e else e"]) (auto simp: keeps_def set_replaced simp del: if_image_distrib)
  qed (use e in auto)
  then have "snapshot_linked st' r" if "snapshot_linked st r" for r
    using that by (auto simp: snapshot_linked_def intro: slot_linked_mono)
  moreover have "r \<in> set (cb_setups st) \<or> snapshot_linked st r" if "r \<in> set (cb_setups st')" for r
    using assms(1) that by (cases rule: club_change.cases) auto
  ultimately show ?thesis using assms(2) by (auto simp: setups_ok_def)
qed

end
