(* ===== verification/Setup_Invariants.thy ===== *)
theory Setup_Invariants
  imports Club_Invariants
begin

text \<open>
  Games that are ready: what the check of the mark asks of the rows, whatever the order in which they
  are read, and that a game keeps it; the invariants of all commands of an organisation, by the
  reducer of its steps.
\<close>

section \<open>Games that are ready\<close>

lemma ordered_snapshot_simps [simp]:
  "gsr_id (ordered_snapshot env s) = gsr_id s" "gsr_accountId (ordered_snapshot env s) = gsr_accountId s"
  "gsr_gameId (ordered_snapshot env s) = gsr_gameId s" "gsr_setupRevision (ordered_snapshot env s) = gsr_setupRevision s"
  "gsr_rulesetVersionId (ordered_snapshot env s) = gsr_rulesetVersionId s"
  "gsr_scheduledAt (ordered_snapshot env s) = gsr_scheduledAt s"
  "gsr_scheduledInnings (ordered_snapshot env s) = gsr_scheduledInnings s"
  "mset (gsr_teamSnapshots (ordered_snapshot env s)) = mset (gsr_teamSnapshots s)"
  "mset (gsr_lineupSlots (ordered_snapshot env s)) = mset (gsr_lineupSlots s)"
  "length (gsr_teamSnapshots (ordered_snapshot env s)) = length (gsr_teamSnapshots s)"
  "set (gsr_teamSnapshots (ordered_snapshot env s)) = set (gsr_teamSnapshots s)"
  "set (gsr_lineupSlots (ordered_snapshot env s)) = set (gsr_lineupSlots s)"
  by (simp_all add: ordered_snapshot_def)

lemma ordered_managed: "mset (managed_participations (ordered_snapshot env s)) = mset (managed_participations s)"
  unfolding managed_participations_def by (rule mset_map_filter) simp

lemma ordered_slots_of: "mset (slots_of (ordered_snapshot env s) t) = mset (slots_of s t)"
  by (simp add: slots_of_def mset_filter)

lemma ordered_within_rules: "within_rules rules (ordered_snapshot env s) t = within_rules rules s t"
  using mset_eq_setD [OF ordered_slots_of [of env s t]] mset_eq_length [OF ordered_slots_of [of env s t]]
  by (simp add: within_rules_def list_ex_iff)

lemma ordered_slot: "slot_still_eligible st (ordered_snapshot env s) t l = slot_still_eligible st s t l"
  by (simp add: slot_still_eligible_def)

definition ready_checks :: "club \<Rightarrow> club_game_row \<Rightarrow> setup_snapshot_row \<Rightarrow> bool" where
  "ready_checks st game s \<longleftrightarrow> gsr_setupRevision s = cgr_setupRevision game \<and> length (gsr_teamSnapshots s) = 2 \<and>
     (\<exists>t\<in>set (gsr_teamSnapshots s). gts_teamSeasonId t = Some (cgr_teamSeasonId game)) \<and> distinct (managed_participations s) \<and>
     (\<forall>i\<in>set (managed_participations s). \<exists>p. participation_of st (gsr_accountId s) i = Some p \<and> eligible_for st (cgr_seasonId game) p) \<and>
     (\<forall>l\<in>set (gsr_lineupSlots s). slot_still_eligible st s (the (gsr_scheduledAt s)) l) \<and> rules_ok st s"

lemma rules_ok_ordered: "rules_ok st (ordered_snapshot env s) = rules_ok st s"
  by (simp add: rules_ok_def ordered_within_rules)

lemma check_ready_iff:
  assumes "keys_ok st" and "setups_ok st"
  shows "check_ready env c game st = Inr r \<longleftrightarrow>
    (\<exists>s. snapshot_of st (msr_accountId c) (msr_gameId c) (msr_setupSnapshotId c) = Some s \<and> r = ordered_snapshot env s \<and>
       cgr_revision game = 0 \<and> cgr_status game = None \<and> cgr_setupRevision game = msr_expectedSetupRevision c \<and>
       ready_checks st game s \<and> is_ok (replayable r))"
  (is "_ \<longleftrightarrow> ?R")
proof (cases "snapshot_of st (msr_accountId c) (msr_gameId c) (msr_setupSnapshotId c)")
  case (Some s)
  have s: "s \<in> set (cb_setups st)" "gsr_accountId s = msr_accountId c"
    using Some lookup_iff(7) [OF assms(1)] by simp_all
  then obtain t where t: "gsr_scheduledAt s = Some t" using assms(2) by (auto simp: setups_ok_def snapshot_linked_def)
  let ?o = "ordered_snapshot env s"
  let ?ids = "managed_participations ?o"
  let ?ps = "filter (\<lambda>p. par_accountId p = msr_accountId c \<and> par_id p \<in> set ?ids) (cb_participations st)"
  have d: "distinct (map par_id (cb_participations st))" using assms(1) by (simp add: keys_ok_def)
  have ids: "set ?ids = set (managed_participations s)" "distinct ?ids = distinct (managed_participations s)"
    using ordered_managed [of env s] by (metis mset_eq_setD, metis mset_eq_imp_distinct_iff)
  have af: "length ?ps = length ?ids \<longleftrightarrow> distinct (managed_participations s) \<and>
      (\<forall>i\<in>set (managed_participations s). \<exists>p\<in>set (cb_participations st). par_accountId p = msr_accountId c \<and> par_id p = i)"
    using all_found [OF d, of "\<lambda>p. par_accountId p = msr_accountId c" ?ids] unfolding ids .
  have parts: "length ?ps = length ?ids \<and> list_all (eligible_for st (cgr_seasonId game)) ?ps \<longleftrightarrow>
      distinct (managed_participations s) \<and> (\<forall>i\<in>set (managed_participations s).
        \<exists>p. participation_of st (gsr_accountId s) i = Some p \<and> eligible_for st (cgr_seasonId game) p)"
    (is "?A \<longleftrightarrow> ?B")
  proof
    assume ?A
    then have all: "\<forall>i\<in>set (managed_participations s). \<exists>p\<in>set (cb_participations st). par_accountId p = msr_accountId c \<and> par_id p = i"
      and di: "distinct (managed_participations s)" and el: "\<And>p. p \<in> set ?ps \<Longrightarrow> eligible_for st (cgr_seasonId game) p"
      unfolding af list_all_iff by blast+
    have "\<exists>p. participation_of st (gsr_accountId s) i = Some p \<and> eligible_for st (cgr_seasonId game) p"
      if i: "i \<in> set (managed_participations s)" for i
    proof -
      obtain p where p: "p \<in> set (cb_participations st)" "par_accountId p = msr_accountId c" "par_id p = i" using all i by blast
      then have "p \<in> set ?ps" using i by (simp add: ids)
      then have "eligible_for st (cgr_seasonId game) p" by (rule el)
      moreover have "participation_of st (gsr_accountId s) i = Some p" using p s(2) by (simp add: lookup_iff(3) [OF assms(1)])
      ultimately show ?thesis by blast
    qed
    then show ?B using di by blast
  next
    assume b: ?B
    have "eligible_for st (cgr_seasonId game) p" if "p \<in> set ?ps" for p
    proof -
      have "participation_of st (gsr_accountId s) (par_id p) = Some p" "par_id p \<in> set (managed_participations s)"
        using that s(2) by (simp_all add: lookup_iff(3) [OF assms(1)] ids)
      then show ?thesis using b by fastforce
    qed
    moreover have "\<exists>p\<in>set (cb_participations st). par_accountId p = msr_accountId c \<and> par_id p = i"
      if i: "i \<in> set (managed_participations s)" for i
    proof -
      obtain p where "participation_of st (gsr_accountId s) i = Some p" using b i by blast
      then show ?thesis using s(2) by (auto simp: lookup_iff(3) [OF assms(1)])
    qed
    ultimately show ?A using b unfolding af list_all_iff by blast
  qed
  have rules: "(\<exists>ruleset. ruleset_of st (msr_accountId c) (gsr_rulesetVersionId ?o) = Some ruleset \<and> rsr_active ruleset \<and>
      (\<exists>rules. parseRuleset (rsr_configuration ruleset) = Inr rules \<and> list_all (within_rules rules ?o) (gsr_teamSnapshots ?o))) = rules_ok st s"
    unfolding rules_ok_ordered [of st env s, symmetric] rules_ok_def by (auto simp: list_all_iff s(2) ordered_within_rules)
  have "check_ready env c game st = Inr r \<longleftrightarrow> cgr_revision game = 0 \<and> cgr_status game = None \<and>
      cgr_setupRevision game = msr_expectedSetupRevision c \<and> gsr_setupRevision ?o = msr_expectedSetupRevision c \<and>
      length (gsr_teamSnapshots ?o) = 2 \<and> list_ex (\<lambda>t. gts_teamSeasonId t = Some (cgr_teamSeasonId game)) (gsr_teamSnapshots ?o) \<and>
      (length ?ps = length ?ids \<and> list_all (eligible_for st (cgr_seasonId game)) ?ps) \<and>
      list_all (slot_still_eligible st ?o t) (gsr_lineupSlots ?o) \<and>
      (\<exists>ruleset. ruleset_of st (msr_accountId c) (gsr_rulesetVersionId ?o) = Some ruleset \<and> rsr_active ruleset \<and>
        (\<exists>rules. parseRuleset (rsr_configuration ruleset) = Inr rules \<and> list_all (within_rules rules ?o) (gsr_teamSnapshots ?o))) \<and>
      is_ok (replayable ?o) \<and> r = ?o"
    apply (simp add: check_ready_def Some Let_def result_simps t)
    by blast
  then show ?thesis
    unfolding parts rules using t Some by (auto simp: ready_checks_def list_all_iff list_ex_iff ordered_slot)
qed (simp add: check_ready_def result_simps)

lemma ready_setup_grows:
  assumes "club_grows st st'" and "ready_setup st g s" and "\<And>l. l \<in> set (gsr_lineupSlots s) \<Longrightarrow> slot_held st s l \<Longrightarrow> slot_held st' s l"
  shows "ready_setup st' g s"
proof -
  have "snapshot_of st' (cgr_accountId g) (cgr_id g) (gsr_id s) = Some s" "ruleset_of st' = ruleset_of st"
    using assms(1,2) by (simp_all add: club_grows_def ready_setup_def)
  then show ?thesis
    using assms(2,3) grows_participation [OF assms(1)] by (simp add: ready_setup_def rules_ok_def)
qed

lemma ready_slot_depends:
  assumes "keys_ok st" and "g \<in> set (cb_games st)" and "cgr_status g = Some READY" and "ready_setup st g s"
    and "l \<in> set (gsr_lineupSlots s)" and "lss_rosterEntryId l = Some i"
  shows "ready_depends st (gsr_accountId s) i"
proof -
  have "s \<in> set (cb_setups st)" "gsr_accountId s = cgr_accountId g" "gsr_gameId s = cgr_id g"
    using assms(4) lookup_iff(7) [OF assms(1)] by (simp_all add: ready_setup_def)
  then show ?thesis
    using assms by (auto simp: ready_depends_def ready_for_game_def list_ex_iff ready_setup_def intro!: bexI [of _ s])
qed

lemma slot_held_change:
  assumes "club_change st st'" and "slot_held st s l" and "\<And>i. lss_rosterEntryId l = Some i \<Longrightarrow> ready_depends st (gsr_accountId s) i"
  shows "slot_held st' s l"
  using assms(1)
proof (cases rule: club_change.cases)
  case (period_added r p q)
  then show ?thesis using assms(2) by (auto simp: slot_held_def lookup_grows)
next
  case (period_ended f P a i endsAt e)
  have other: "\<not> P x" if "roster_of st (gsr_accountId s) j = Some x" and "lss_rosterEntryId l = Some j" for x j
  proof
    assume "P x"
    then have "a = gsr_accountId s" "i = j"
      using that(1) period_ended(3) by (auto simp: roster_of_def find_Some_iff roster_named_def)
    then show False using assms(3) [OF that(2)] period_ended(7) by simp
  qed
  have "roster_of st' (gsr_accountId s) j = Some x" if "roster_of st (gsr_accountId s) j = Some x" and "lss_rosterEntryId l = Some j" for x j
    using that other [OF that] by (simp add: period_ended(1) roster_of_replaced [OF period_ended(2)])
  then show ?thesis using assms(2) unfolding slot_held_def by blast
qed (use assms(2) in \<open>simp_all add: slot_held_def\<close>)

lemma slot_eligible_held: "slot_still_eligible st s (the (gsr_scheduledAt s)) l \<Longrightarrow> slot_held st s l"
  by (auto simp: slot_still_eligible_def slot_held_def split: option.splits)

lemma checked_setup:
  assumes "ready_checks st game s" and "snapshot_of st (cgr_accountId game) (cgr_id game) (gsr_id s) = Some s"
    and "is_ok (replayable (ordered_snapshot env s))" and "gsr_accountId s = cgr_accountId game"
  shows "ready_setup st (game\<lparr>cgr_status := Some READY, cgr_readySetupSnapshotId := Some (gsr_id s)\<rparr>) s"
  using assms by (fastforce simp: ready_checks_def ready_setup_def eligible_for_def slot_eligible_held)

lemma games_change:
  assumes "club_change st st'" and "keys_ok st" and "setups_ok st" and "games_ok st"
  shows "games_ok st'"
proof -
  have kept: "ready_setup st' g s" if g: "g \<in> set (cb_games st)" "cgr_status g = Some READY" and s: "ready_setup st g s" for g s
    using ready_slot_depends [OF assms(2) g s]
    by (intro ready_setup_grows [OF club_grows_change [OF assms(1)] s] slot_held_change [OF assms(1)])
  have old: "cgr_revision g = 0 \<and> (cgr_status g = None \<or> cgr_status g = Some READY) \<and>
      (cgr_status g = Some READY \<longrightarrow> (\<exists>s. ready_setup st' g s))" if "g \<in> set (cb_games st)" for g
    using that assms(4) kept by (fastforce simp: games_ok_def)
  show ?thesis
    using assms(1)
  proof (cases rule: club_change.cases)
    case (game_added g p)
    then show ?thesis using old by (auto simp: games_ok_def)
  next
    case (game_reopened f P a i)
    then show ?thesis using old by (auto simp: games_ok_def set_replaced static_defs)
  next
    case (game_readied env c game r P)
    obtain s where s: "snapshot_of st (msr_accountId c) (msr_gameId c) (msr_setupSnapshotId c) = Some s" "r = ordered_snapshot env s"
      "cgr_revision game = 0" "ready_checks st game s" "is_ok (replayable r)"
      using game_readied(2) unfolding check_ready_iff [OF assms(2,3)] by blast
    have game: "game \<in> set (cb_games st)" "cgr_accountId game = msr_accountId c" "cgr_id game = msr_gameId c"
      using game_readied(3) by (simp_all add: lookup_iff(6) [OF assms(2)])
    have found: "gsr_accountId s = cgr_accountId game" "gsr_id s = msr_setupSnapshotId c"
      using s(1) game by (simp_all add: lookup_iff(7) [OF assms(2)])
    let ?f = "\<lambda>g. g\<lparr>cgr_status := Some READY, cgr_readySetupSnapshotId := Some (msr_setupSnapshotId c)\<rparr>"
    have "ready_setup st (?f game) s"
      using checked_setup [OF s(4) _ s(5) [unfolded s(2)]] s(1) game found by simp
    then have "ready_setup st' (?f game) s"
      by (rule ready_setup_grows [OF club_grows_change [OF assms(1)]]) (simp add: slot_held_def game_readied(1))
    moreover have "g = game" if "g \<in> set (cb_games st)" "P g" for g
      using that game game_readied(4) assms(2) unfolding game_row_named_def keys_ok_def by (metis distinct_key_eqD)
    ultimately have "\<exists>s. ready_setup st' (?f g) s" if "g \<in> set (cb_games st)" "P g" for g
      using that by blast
    then show ?thesis using old game_readied(1) by (auto simp: games_ok_def set_replaced)
  qed (use old in \<open>auto simp: games_ok_def\<close>)
qed

section \<open>All invariants\<close>

lemma club_change_ok:
  assumes "club_change st st'" and "club_ok st"
  shows "club_ok st'"
  using assms(1) club_okD [OF assms(2)] unfolding club_ok_def
  by (blast intro: keys_change participation_parents_change roster_parents_change game_parents_change team_closed_change
      participation_closed_change season_closed_change player_closed_change periods_change games_change setups_change)

lemma club_changes_ok: "club_changes st st' \<Longrightarrow> club_ok st \<Longrightarrow> club_ok st'"
  by (induction rule: rtranclp_induct) (blast intro: club_change_ok)+

interpretation organisation: reducer club_step "\<lambda>st i. sides_distinct i" club_ok
proof unfold_locales
  fix st i st'
  assume "club_ok st" and "sides_distinct i" and "club_step st i = Inr st'"
  moreover from this have "distinct (map par_id (cb_participations st))" by (simp add: club_ok_def keys_ok_def)
  ultimately show "club_ok st'" using club_step_changes club_changes_ok by blast
qed

text \<open>An organisation that has only its accounts, users and rulesets.\<close>

definition new_club :: "club \<Rightarrow> bool" where
  "new_club st \<longleftrightarrow> cb_teams st = [] \<and> cb_seasons st = [] \<and> cb_participations st = [] \<and> cb_players st = [] \<and> cb_rosters st = [] \<and>
     cb_games st = [] \<and> cb_setups st = []"

lemma new_club_ok: "new_club st \<Longrightarrow> club_ok st"
  by (simp add: new_club_def club_ok_def keys_ok_def participation_parents_def roster_parents_def game_parents_def team_closed_def
      participation_closed_def season_closed_def player_closed_def periods_ok_def games_ok_def setups_ok_def)

abbreviation club_reaches :: "club \<Rightarrow> club \<Rightarrow> bool" where
  "club_reaches \<equiv> run_to club_step (\<lambda>st i. sides_distinct i)"

lemma reached_ok: "new_club st0 \<Longrightarrow> club_reaches st0 st \<Longrightarrow> club_ok st"
  by (rule organisation.run_inv [OF _ new_club_ok])

end
