(* ===== verification/Setup_Replay.thy ===== *)
theory Setup_Replay
  imports Setup_Invariants
begin

text \<open>
  A game that is ready can be played: the order in which the rows of a setup are read does not decide whether
  the engine accepts it, so what the mark has checked holds for the setup that the repository of game events loads.
\<close>

section \<open>The order of the rows\<close>

lemma map_sort_key: "map k (sort_key k xs) = sort (map k xs)"
  by (rule properties_for_sort [symmetric]) simp_all

lemma sort_mset_eq: "mset xs = mset ys \<Longrightarrow> sort xs = sort ys"
  by (rule properties_for_sort) simp_all

lemma setup_lineup_ok_mset:
  assumes "mset l = mset l'"
  shows "setup_lineup_ok l p = setup_lineup_ok l' p"
proof -
  have active: "mset (active_entries l) = mset (active_entries l')" using assms by (simp add: active_entries_def mset_filter)
  let ?b = "\<lambda>l. filter (\<lambda>e. le_active e \<and> le_battingOrder e \<noteq> None) l"
  have "mset (map (\<lambda>e. the (le_battingOrder e)) (?b l)) = mset (map (\<lambda>e. the (le_battingOrder e)) (?b l'))"
    using assms by (simp add: mset_filter)
  then have orders: "map (\<lambda>e. the (le_battingOrder e)) (batters_in_order l) = map (\<lambda>e. the (le_battingOrder e)) (batters_in_order l')"
    unfolding batters_in_order_def map_sort_key by (rule sort_mset_eq)
  have "length (batters_in_order l) = length (batters_in_order l')" using orders by (metis length_map)
  moreover have "distinct (map le_playerId l) = distinct (map le_playerId l')"
    using assms by (intro mset_eq_imp_distinct_iff) simp
  moreover have "distinct (List.map_filter le_position (active_entries l)) = distinct (List.map_filter le_position (active_entries l'))"
    using active by (intro mset_eq_imp_distinct_iff mset_map_filter)
  moreover have "(active_entries l = []) = (active_entries l' = [])" using active by (metis mset_zero_iff)
  ultimately show ?thesis
    using orders mset_eq_setD [OF active] by (simp add: setup_lineup_ok_def list_ex_iff)
qed

lemma createInitialState_ok:
  "is_ok (createInitialState su) \<longleftrightarrow> su_status su = ''READY'' \<and> 1 \<le> su_setupRevision su \<and> 1 \<le> su_scheduledInnings su \<and>
    (\<forall>sd. setup_lineup_ok (ss_lineup (su_sides su sd)) (ss_startingPitcherId (su_sides su sd))) \<and>
    distinct (map le_playerId (ss_lineup (su_sides su HOME) @ ss_lineup (su_sides su AWAY)))"
proof -
  have sides: "(\<forall>sd. Q sd) \<longleftrightarrow> Q HOME \<and> Q AWAY" for Q by (metis game_side.exhaust)
  show ?thesis
    unfolding sides by (auto simp: createInitialState_def validateSetupSide_def Let_def result_simps split: if_splits)
qed

definition same_side :: "setup_side \<Rightarrow> setup_side \<Rightarrow> bool" where
  "same_side a b \<longleftrightarrow> mset (ss_lineup a) = mset (ss_lineup b) \<and> ss_startingPitcherId a = ss_startingPitcherId b"

lemma createInitialState_same:
  assumes "is_ok (createInitialState a)" and "su_status b = su_status a" and "su_setupRevision b = su_setupRevision a"
    and "su_scheduledInnings b = su_scheduledInnings a" and "\<And>sd. same_side (su_sides a sd) (su_sides b sd)"
  shows "is_ok (createInitialState b)"
proof -
  have m: "mset (ss_lineup (su_sides b sd)) = mset (ss_lineup (su_sides a sd))"
    and p: "ss_startingPitcherId (su_sides b sd) = ss_startingPitcherId (su_sides a sd)" for sd
    using assms(5) [of sd] by (simp_all add: same_side_def)
  have "mset (map le_playerId (ss_lineup (su_sides b HOME) @ ss_lineup (su_sides b AWAY))) =
      mset (map le_playerId (ss_lineup (su_sides a HOME) @ ss_lineup (su_sides a AWAY)))" by (simp add: m)
  then have "distinct (map le_playerId (ss_lineup (su_sides b HOME) @ ss_lineup (su_sides b AWAY))) =
      distinct (map le_playerId (ss_lineup (su_sides a HOME) @ ss_lineup (su_sides a AWAY)))" by (rule mset_eq_imp_distinct_iff)
  then show ?thesis
    using assms(1-4) setup_lineup_ok_mset [OF m] unfolding createInitialState_ok p by simp
qed

section \<open>The sides of a setup\<close>

definition play_side :: "team_snapshot_row list \<Rightarrow> lineup_slot_row list \<Rightarrow> game_side \<Rightarrow> setup_side option" where
  "play_side teams slots name =
     Option.bind (find (\<lambda>t. tsr_side t = name) teams) (\<lambda>t.
       let mine = filter (\<lambda>l. lsr_gameTeamSnapshotId l = tsr_id t) slots in
       case filter lsr_isStartingPitcher mine of
         [p] \<Rightarrow> Some \<lparr>ss_lineup = map slot_entry mine, ss_startingPitcherId = slot_player p\<rparr>
       | _ \<Rightarrow> None)"

lemma single_case: "(case xs of [p] \<Rightarrow> Some (f p) | _ \<Rightarrow> None) = Some y \<longleftrightarrow> (\<exists>p. xs = [p] \<and> f p = y)"
  by (auto split: list.splits)

lemma setup_side_of_play:
  "setup_side_of env r name = Inr x \<longleftrightarrow> play_side (ordered_teams env r) (ordered_slots env r) name = Some x"
  by (auto simp: setup_side_of_def play_side_def Let_def split: option.splits list.splits)

lemma find_map_base: "find P (map f xs) = map_option f (find (\<lambda>x. P (f x)) xs)"
  by (induction xs) auto

lemma truncate_team [simp]: "tsr_id (team_snapshot_row.truncate t) = tsr_id t" "tsr_side (team_snapshot_row.truncate t) = tsr_side t"
  by (simp_all add: team_snapshot_row.truncate_def)

lemma truncate_slot [simp]:
  "lsr_id (lineup_slot_row.truncate l) = lsr_id l" "lsr_gameTeamSnapshotId (lineup_slot_row.truncate l) = lsr_gameTeamSnapshotId l"
  "lsr_playerId (lineup_slot_row.truncate l) = lsr_playerId l" "lsr_battingOrder (lineup_slot_row.truncate l) = lsr_battingOrder l"
  "lsr_defensivePosition (lineup_slot_row.truncate l) = lsr_defensivePosition l"
  "lsr_isStartingPitcher (lineup_slot_row.truncate l) = lsr_isStartingPitcher l"
  by (simp_all add: lineup_slot_row.truncate_def)

lemma accepted_side_play: "accepted_side r name = Inr x \<longleftrightarrow>
    play_side (map team_snapshot_row.truncate (gsr_teamSnapshots r)) (map lineup_slot_row.truncate (gsr_lineupSlots r)) name = Some x"
proof (cases "find (\<lambda>t. tsr_side t = name) (gsr_teamSnapshots r)")
  case None
  then show ?thesis by (simp add: accepted_side_def play_side_def find_map_base)
next
  case (Some t)
  let ?mine = "filter (\<lambda>l. lsr_gameTeamSnapshotId l = tsr_id t) (gsr_lineupSlots r)"
  have mine: "filter (\<lambda>l. lsr_gameTeamSnapshotId l = tsr_id t) (map lineup_slot_row.truncate (gsr_lineupSlots r)) = map lineup_slot_row.truncate ?mine"
    by (simp add: filter_map comp_def)
  have pitchers: "filter lsr_isStartingPitcher (map lineup_slot_row.truncate ?mine) = map lineup_slot_row.truncate (filter lsr_isStartingPitcher ?mine)"
    by (simp add: filter_map comp_def)
  show ?thesis
    using Some by (auto simp: accepted_side_def play_side_def find_map_base mine pitchers Let_def slot_entry_def slot_player_def
        simp del: filter_filter split: list.splits)
qed

lemma play_side_mset:
  assumes "mset ts = mset ts'" and "mset sl = mset sl'" and "distinct (map tsr_side ts)" and "play_side ts sl name = Some x"
  shows "\<exists>x'. play_side ts' sl' name = Some x' \<and> same_side x x'"
proof -
  let ?mine = "\<lambda>t. filter (\<lambda>l. lsr_gameTeamSnapshotId l = tsr_id t)"
  obtain t p where t: "find (\<lambda>t. tsr_side t = name) ts = Some t" and p: "filter lsr_isStartingPitcher (?mine t sl) = [p]"
    and x: "x = \<lparr>ss_lineup = map slot_entry (?mine t sl), ss_startingPitcherId = slot_player p\<rparr>"
    using assms(4) by (auto simp: play_side_def Let_def bind_eq_Some_conv single_case simp del: filter_filter)
  have t': "find (\<lambda>t. tsr_side t = name) ts' = Some t" using t find_unique_mset [OF assms(1,3)] by simp
  have "mset (filter lsr_isStartingPitcher (?mine t sl')) = mset (filter lsr_isStartingPitcher (?mine t sl))"
    using assms(2) by (simp add: mset_filter)
  then have p': "filter lsr_isStartingPitcher (?mine t sl') = [p]"
    unfolding p by (metis mset_single_iff_right mset.simps)
  show ?thesis
    using t' p' x assms(2) by (simp add: play_side_def same_side_def mset_filter del: filter_filter)
qed

section \<open>The setup that the event log loads\<close>

definition stored_setup :: "setup_snapshot_row \<Rightarrow> setup_row" where
  "stored_setup s = \<lparr>sur_id = gsr_id s, sur_accountId = gsr_accountId s, sur_gameId = gsr_gameId s,
     sur_setupRevision = gsr_setupRevision s, sur_rulesetVersionId = gsr_rulesetVersionId s,
     sur_scheduledInnings = gsr_scheduledInnings s, sur_teamSnapshots = map team_snapshot_row.truncate (gsr_teamSnapshots s),
     sur_lineupSlots = map lineup_slot_row.truncate (gsr_lineupSlots s)\<rparr>"

lemma ordered_rows:
  "mset (ordered_teams env (stored_setup s)) = mset (map team_snapshot_row.truncate (gsr_teamSnapshots s))"
  "mset (ordered_slots env (stored_setup s)) = mset (map lineup_slot_row.truncate (gsr_lineupSlots s))"
  by (simp_all add: ordered_teams_def ordered_slots_def stored_setup_def)

lemma truncated_rows:
  "mset (map team_snapshot_row.truncate (gsr_teamSnapshots (ordered_snapshot env s))) = mset (map team_snapshot_row.truncate (gsr_teamSnapshots s))"
  "mset (map lineup_slot_row.truncate (gsr_lineupSlots (ordered_snapshot env s))) = mset (map lineup_slot_row.truncate (gsr_lineupSlots s))"
  by simp_all

lemma by_side_same: "same_side a c \<Longrightarrow> same_side b d \<Longrightarrow> same_side (by_side a b sd) (by_side c d sd)"
  by (cases sd) (simp_all add: by_side_def)

definition setup_with :: "setup_snapshot_row \<Rightarrow> setup_side \<Rightarrow> setup_side \<Rightarrow> accepted_setup" where
  "setup_with s home away = \<lparr>su_id = gsr_id s, su_accountId = gsr_accountId s, su_gameId = gsr_gameId s,
     su_setupRevision = gsr_setupRevision s, su_rulesetVersionId = gsr_rulesetVersionId s,
     su_scheduledInnings = gsr_scheduledInnings s, su_status = ''READY'', su_sides = by_side home away\<rparr>"

lemma setup_with_ordered [simp]: "setup_with (ordered_snapshot env s) = setup_with s"
  by (simp add: setup_with_def fun_eq_iff)

lemma replayable_Inr: "is_ok (replayable s) \<longleftrightarrow>
    (\<exists>home away. accepted_side s HOME = Inr home \<and> accepted_side s AWAY = Inr away \<and> is_ok (createInitialState (setup_with s home away)))"
  by (auto simp: replayable_def mapAcceptedSetup_def setup_with_def result_simps)

text \<open>The sides of a setup that the engine accepts, from its rows in any order.\<close>

lemma replayable_rows:
  assumes "is_ok (replayable (ordered_snapshot env s))" and "distinct (map tsr_side (gsr_teamSnapshots s))"
    and "mset ts = mset (map team_snapshot_row.truncate (gsr_teamSnapshots s))"
    and "mset sl = mset (map lineup_slot_row.truncate (gsr_lineupSlots s))"
  obtains home away where "play_side ts sl HOME = Some home" "play_side ts sl AWAY = Some away"
    "is_ok (createInitialState (setup_with s home away))"
proof -
  let ?o = "ordered_snapshot env s"
  obtain home away where h: "accepted_side ?o HOME = Inr home" and a: "accepted_side ?o AWAY = Inr away"
    and ok: "is_ok (createInitialState (setup_with s home away))"
    using assms(1) unfolding replayable_Inr by auto
  have "mset (map tsr_side (map team_snapshot_row.truncate (gsr_teamSnapshots ?o))) = mset (map tsr_side (gsr_teamSnapshots s))"
    by (simp add: comp_def image_mset.compositionality)
  then have d: "distinct (map tsr_side (map team_snapshot_row.truncate (gsr_teamSnapshots ?o)))"
    using assms(2) by (metis mset_eq_imp_distinct_iff)
  have rows: "mset (map team_snapshot_row.truncate (gsr_teamSnapshots ?o)) = mset ts"
    "mset (map lineup_slot_row.truncate (gsr_lineupSlots ?o)) = mset sl"
    unfolding truncated_rows assms(3,4) by (rule refl)+
  obtain h' where h': "play_side ts sl HOME = Some h'" "same_side home h'"
    using play_side_mset [OF rows d h [unfolded accepted_side_play]] by blast
  obtain a' where a': "play_side ts sl AWAY = Some a'" "same_side away a'"
    using play_side_mset [OF rows d a [unfolded accepted_side_play]] by blast
  have "is_ok (createInitialState (setup_with s h' a'))"
    using by_side_same [OF h'(2) a'(2)] by (intro createInitialState_same [OF ok]) (simp_all add: setup_with_def)
  then show ?thesis using that h'(1) a'(1) by blast
qed

lemma replayable_any_order:
  assumes "is_ok (replayable (ordered_snapshot env s))" and "distinct (map tsr_side (gsr_teamSnapshots s))"
  shows "is_ok (replayable (ordered_snapshot env' s))"
  unfolding replayable_Inr accepted_side_play
  by (rule replayable_rows [OF assms truncated_rows [of env' s]]) auto

lemma replayable_loads:
  assumes "is_ok (replayable (ordered_snapshot env s))" and "distinct (map tsr_side (gsr_teamSnapshots s))"
  shows "\<exists>home away. mapSetupSnapshot senv (stored_setup s) (gsr_accountId s) (gsr_gameId s) = Inr (setup_with s home away) \<and>
    is_ok (createInitialState (setup_with s home away))"
proof -
  obtain home away where "setup_side_of senv (stored_setup s) HOME = Inr home" "setup_side_of senv (stored_setup s) AWAY = Inr away"
    "is_ok (createInitialState (setup_with s home away))"
    unfolding setup_side_of_play by (rule replayable_rows [OF assms ordered_rows [of senv s]])
  then show ?thesis by (auto simp: mapSetupSnapshot_def setup_with_def stored_setup_def)
qed

section \<open>A game stays ready\<close>

lemma side_has_pitcher:
  assumes "accepted_side r (tsr_side t) = Inr x" and "t \<in> set (gsr_teamSnapshots r)" and "distinct (map tsr_side (gsr_teamSnapshots r))"
  shows "\<exists>l\<in>set (gsr_lineupSlots r). lsr_gameTeamSnapshotId l = tsr_id t"
proof -
  have "find (\<lambda>u. tsr_side u = tsr_side t) (gsr_teamSnapshots r) = Some t"
    using find_Some_distinct_key [OF assms(3,2)] .
  then obtain p where "filter lsr_isStartingPitcher (filter (\<lambda>l. lsr_gameTeamSnapshotId l = tsr_id t) (gsr_lineupSlots r)) = [p]"
    using assms(1) by (auto simp: accepted_side_def Let_def simp del: filter_filter split: list.splits)
  then have "p \<in> set (filter lsr_isStartingPitcher (filter (\<lambda>l. lsr_gameTeamSnapshotId l = tsr_id t) (gsr_lineupSlots r)))" by simp
  then show ?thesis by auto
qed

lemma managed_slot_held:
  assumes "club_ok st" and "ready_setup st g s" and "t \<in> set (gsr_teamSnapshots s)" and "gts_teamSeasonId t = Some i"
  obtains e where "e \<in> set (cb_rosters st)" "rer_accountId e = gsr_accountId s" "rer_teamSeasonId e = i" "rer_status e = Roster_ACTIVE"
proof -
  note k = club_okD(1) [OF assms(1)]
  have "s \<in> set (cb_setups st)" using assms(2) by (simp add: ready_setup_def lookup_iff(7) [OF k])
  then have linked: "snapshot_linked st s" using club_okD(11) [OF assms(1)] by (simp add: setups_ok_def)
  obtain env where ok: "is_ok (replayable (ordered_snapshot env s))" using assms(2) by (auto simp: ready_setup_def)
  have "mset (map tsr_side (gsr_teamSnapshots (ordered_snapshot env s))) = mset (map tsr_side (gsr_teamSnapshots s))" by simp
  then have d: "distinct (map tsr_side (gsr_teamSnapshots (ordered_snapshot env s)))"
    using linked unfolding snapshot_linked_def by (metis mset_eq_imp_distinct_iff)
  obtain x where x: "accepted_side (ordered_snapshot env s) (tsr_side t) = Inr x"
    using ok unfolding replayable_Inr by (cases "tsr_side t") auto
  obtain l where l: "l \<in> set (gsr_lineupSlots s)" "lsr_gameTeamSnapshotId l = tsr_id t"
    using side_has_pitcher [OF x _ d] assms(3) by auto
  obtain t' where t': "t' \<in> set (gsr_teamSnapshots s)" "tsr_id t' = tsr_id t"
    and e: "case gts_teamSeasonId t' of None \<Rightarrow> lsr_playerId l = None \<and> lss_rosterEntryId l = None
         | Some ts \<Rightarrow> (\<exists>e\<in>set (cb_rosters st). rer_accountId e = gsr_accountId s \<and> lss_rosterEntryId l = Some (rer_id e) \<and>
             lsr_playerId l = Some (rer_playerId e) \<and> rer_teamSeasonId e = ts)"
    using linked l unfolding snapshot_linked_def slot_linked_def by (metis (no_types, lifting))
  have "t' = t" using t' assms(3) linked unfolding snapshot_linked_def by (metis distinct_key_eqD)
  then obtain e where e: "e \<in> set (cb_rosters st)" "rer_accountId e = gsr_accountId s" "lss_rosterEntryId l = Some (rer_id e)"
    "rer_teamSeasonId e = i" using e assms(4) by auto
  have "slot_held st s l" using assms(2) l(1) by (simp add: ready_setup_def)
  moreover have "roster_of st (gsr_accountId s) (rer_id e) = Some e" using e by (simp add: lookup_iff(5) [OF k])
  ultimately have "rer_status e = Roster_ACTIVE" using e(3) by (auto simp: slot_held_def)
  then show ?thesis using that e by blast
qed

lemma managed_still_eligible:
  assumes "club_ok st" and "g \<in> set (cb_games st)" and "cgr_status g = Some READY" and "ready_setup st g s"
    and "i \<in> set (managed_participations s)"
  shows "\<exists>p. participation_of st (gsr_accountId s) i = Some p \<and> eligible_for st (cgr_seasonId g) p"
proof -
  note k = club_okD(1) [OF assms(1)]
  have account: "gsr_accountId s = cgr_accountId g" using assms(4) by (simp add: ready_setup_def lookup_iff(7) [OF k])
  obtain p where p: "participation_of st (gsr_accountId s) i = Some p" "par_seasonId p = cgr_seasonId g"
    using assms(4,5) account by (auto simp: ready_setup_def)
  have row: "p \<in> set (cb_participations st)" "par_accountId p = gsr_accountId s" "par_id p = i"
    using p(1) by (simp_all add: lookup_iff(3) [OF k])
  obtain t where t: "t \<in> set (gsr_teamSnapshots s)" "gts_teamSeasonId t = Some i"
    using assms(5) by (auto simp: managed_participations_def set_map_filter)
  obtain e where "e \<in> set (cb_rosters st)" "active_period_in (par_accountId p) (par_id p) e"
    by (rule managed_slot_held [OF assms(1,4) t]) (simp add: active_period_in_def row)
  then have open_p: "par_archivedAt p = None" using club_okD(6) [OF assms(1)] row(1) by (auto simp: participation_closed_def)
  obtain tm sn where tm: "team_of st (par_accountId p) (par_teamId p) = Some tm" and sn: "season_of st (par_accountId p) (par_seasonId p) = Some sn"
    using club_okD(2) [OF assms(1)] row(1) by (auto simp: participation_parents_def)
  have "live_participation (tmr_accountId tm) (tmr_id tm) p"
    using tm open_p by (simp add: lookup_iff(1) [OF k] live_participation_def)
  then have "tmr_status tm \<noteq> Team_ARCHIVED"
    using tm club_okD(5) [OF assms(1)] row(1) by (auto simp: lookup_iff(1) [OF k] team_closed_def)
  then have "tmr_status tm = Team_ACTIVE" by (cases "tmr_status tm") simp_all
  moreover have "season_has_games st (snr_accountId sn) (snr_id sn)"
    using sn assms(2,3) p(2) account row(2)
    by (auto simp: lookup_iff(2) [OF k] season_has_games_def list_ex_iff operational_def intro!: bexI [of _ g])
  then have "open_season (snr_status sn)" using sn club_okD(7) [OF assms(1)] by (auto simp: lookup_iff(2) [OF k] season_closed_def)
  ultimately show ?thesis
    using p open_p tm sn by (simp add: eligible_for_def team_active_def season_open_def)
qed

lemma slot_stays_eligible:
  assumes "club_ok st" and "s \<in> set (cb_setups st)" and "l \<in> set (gsr_lineupSlots s)" and "slot_held st s l"
  shows "slot_still_eligible st s (the (gsr_scheduledAt s)) l"
proof (cases "lss_rosterEntryId l")
  case None
  have "slot_linked st s l" using assms(2,3) club_okD(11) [OF assms(1)] by (simp add: setups_ok_def snapshot_linked_def)
  then have "lsr_playerId l = None" using None by (auto simp: slot_linked_def split: option.splits)
  then show ?thesis using None by (simp add: slot_still_eligible_def)
next
  case (Some i)
  note k = club_okD(1) [OF assms(1)]
  obtain e where e: "roster_of st (gsr_accountId s) i = Some e" "rer_status e = Roster_ACTIVE" "\<not> rer_startsAt e > the (gsr_scheduledAt s)"
    using assms(4) Some by (auto simp: slot_held_def)
  have row: "e \<in> set (cb_rosters st)" "rer_accountId e = gsr_accountId s" using e(1) by (simp_all add: lookup_iff(5) [OF k])
  have "slot_linked st s l" using assms(2,3) club_okD(11) [OF assms(1)] by (simp add: setups_ok_def snapshot_linked_def)
  then obtain e' where e': "e' \<in> set (cb_rosters st)" "rer_accountId e' = gsr_accountId s" "i = rer_id e'" "lsr_playerId l = Some (rer_playerId e')"
    using Some by (auto simp: slot_linked_def split: option.splits)
  moreover have "roster_of st (gsr_accountId s) i = Some e'" using e' by (simp add: lookup_iff(5) [OF k])
  ultimately have player: "lsr_playerId l = Some (rer_playerId e)" using e(1) by simp
  obtain q where q: "player_of st (gsr_accountId s) (rer_playerId e) = Some q"
    using club_okD(3) [OF assms(1)] row by (auto simp: roster_parents_def)
  have "plr_archivedAt q = None"
    using q club_okD(8) [OF assms(1)] row e(2) by (auto simp: lookup_iff(4) [OF k] player_closed_def active_period_of_def)
  moreover have "rer_endsAt e = None" using club_okD(9) [OF assms(1)] row(1) e(2) by (auto simp: periods_ok_def period_ok_def)
  ultimately show ?thesis using Some player q e by (simp add: slot_still_eligible_def)
qed

lemma ready_again:
  assumes "club_ok st" and "g \<in> set (cb_games st)" and "cgr_status g = Some READY"
  obtains s where "snapshot_of st (cgr_accountId g) (cgr_id g) (gsr_id s) = Some s" "cgr_readySetupSnapshotId g = Some (gsr_id s)"
    "snapshot_linked st s" "\<And>env. is_ok (replayable (ordered_snapshot env s))"
    "\<And>env. check_ready env \<lparr>msr_accountId = cgr_accountId g, msr_gameId = cgr_id g, msr_setupSnapshotId = gsr_id s,
       msr_expectedSetupRevision = cgr_setupRevision g\<rparr> (g\<lparr>cgr_status := None\<rparr>) st = Inr (ordered_snapshot env s)"
proof -
  note k = club_okD(1) [OF assms(1)]
  obtain s where s: "ready_setup st g s" using assms club_okD(10) by (auto simp: games_ok_def)
  have snap: "snapshot_of st (cgr_accountId g) (cgr_id g) (gsr_id s) = Some s" "cgr_readySetupSnapshotId g = Some (gsr_id s)"
    using s by (simp_all add: ready_setup_def)
  have row: "s \<in> set (cb_setups st)" using snap(1) by (simp add: lookup_iff(7) [OF k])
  then have linked: "snapshot_linked st s" using club_okD(11) [OF assms(1)] by (simp add: setups_ok_def)
  then have d: "distinct (map tsr_side (gsr_teamSnapshots s))" by (simp add: snapshot_linked_def)
  have play: "is_ok (replayable (ordered_snapshot env s))" for env
    using s replayable_any_order [OF _ d] by (auto simp: ready_setup_def)
  have "ready_checks st (g\<lparr>cgr_status := None\<rparr>) s"
    using s managed_still_eligible [OF assms s] slot_stays_eligible [OF assms(1) row]
    by (simp add: ready_checks_def ready_setup_def)
  moreover have "cgr_revision g = 0" using assms club_okD(10) by (auto simp: games_ok_def)
  ultimately have "check_ready env \<lparr>msr_accountId = cgr_accountId g, msr_gameId = cgr_id g, msr_setupSnapshotId = gsr_id s,
       msr_expectedSetupRevision = cgr_setupRevision g\<rparr> (g\<lparr>cgr_status := None\<rparr>) st = Inr (ordered_snapshot env s)" for env
    using snap(1) play by (simp add: check_ready_iff [OF k club_okD(11) [OF assms(1)]])
  then show ?thesis using that snap linked play by blast
qed

end
