(* ===== verification/Club_Contracts.thy ===== *)
theory Club_Contracts
  imports Setup_Replay
begin

text \<open>
  What the operations of an organisation promise: the pages of a list show every row once, a change of a jersey keeps
  the time of a player on a team, and the positions that the engine refuses in a setup that may be saved.
\<close>

section \<open>Reading all pages\<close>

fun read_pages :: "nat \<Rightarrow> ('r \<Rightarrow> 'k::linorder) \<Rightarrow> nat \<Rightarrow> 'k option \<Rightarrow> 'r list \<Rightarrow> 'r list" where
  "read_pages 0 key limit after rows = []"
| "read_pages (Suc n) key limit after rows =
     (let (visible, next) = page_of key limit after rows
      in visible @ (case next of None \<Rightarrow> [] | Some r \<Rightarrow> read_pages n key limit (Some (key r)) rows))"

lemma strict_sorted_map: "sorted (map (key :: 'r \<Rightarrow> 'k::linorder) xs) \<Longrightarrow> distinct (map key xs) \<Longrightarrow> sorted_wrt (<) (map key xs)"
  by (simp add: strict_sorted_iff)

lemma after_last_of_page:
  fixes key :: "'r \<Rightarrow> 'k::linorder"
  assumes "sorted_wrt (<) (map key xs)" and "1 \<le> m" and "m \<le> length xs"
  shows "filter (\<lambda>r. key (last (take m xs)) < key r) xs = drop m xs"
proof -
  let ?l = "last (take m xs)"
  have split: "map key xs = map key (take m xs) @ map key (drop m xs)" by (metis append_take_drop_id map_append)
  have s: "sorted_wrt (<) (map key (take m xs))" "\<And>x y. x \<in> set (take m xs) \<Longrightarrow> y \<in> set (drop m xs) \<Longrightarrow> key x < key y"
    using assms(1) unfolding split sorted_wrt_append by auto
  have ne: "take m xs \<noteq> []" using assms(2,3) by auto
  have "key x \<le> key ?l" if "x \<in> set (take m xs)" for x
  proof -
    have "sorted_wrt (<) (map key (butlast (take m xs) @ [?l]))" using s(1) ne by simp
    moreover have "x \<in> set (butlast (take m xs)) \<or> x = ?l"
      using that ne by (metis append_butlast_last_id in_set_butlastD Un_iff set_append set_ConsD empty_iff empty_set)
    ultimately show ?thesis by (auto simp: sorted_wrt_append intro: less_imp_le)
  qed
  then have "filter (\<lambda>r. key ?l < key r) (take m xs) = []" by (auto simp: filter_empty_conv not_less)
  moreover have "filter (\<lambda>r. key ?l < key r) (drop m xs) = drop m xs"
    using s(2) ne last_in_set by (intro filter_True ballI) blast
  ultimately show ?thesis by (metis append_Nil append_take_drop_id filter_append)
qed

definition behind :: "'k::linorder option \<Rightarrow> 'k \<Rightarrow> bool" where
  "behind after k = (case after of None \<Rightarrow> True | Some a \<Rightarrow> a < k)"

lemma read_pages_from:
  assumes "distinct (map key rows)" and "1 \<le> limit" and "length (filter (\<lambda>r. behind after (key r)) rows) \<le> n * limit" and "1 \<le> n"
  shows "read_pages n key limit after rows = sort_key key (filter (\<lambda>r. behind after (key r)) rows)"
  using assms(3,4)
proof (induction n arbitrary: after)
  case (Suc n)
  let ?xs = "sort_key key (filter (\<lambda>r. behind after (key r)) rows)"
  have page: "page_of key limit after rows = (take limit (take (limit + 1) ?xs),
      if length (take (limit + 1) ?xs) > limit \<and> take limit (take (limit + 1) ?xs) \<noteq> [] then Some (last (take limit (take (limit + 1) ?xs))) else None)"
    by (simp add: page_of_def behind_def Let_def cong: option.case_cong)
  show ?case
  proof (cases "length ?xs \<le> limit")
    case True
    then show ?thesis by (simp add: page)
  next
    case False
    let ?l = "last (take limit ?xs)"
    have "distinct (map key (filter (\<lambda>r. behind after (key r)) rows))" using assms(1) by (rule distinct_map_filter)
    moreover have "mset (map key ?xs) = mset (map key (filter (\<lambda>r. behind after (key r)) rows))" by simp
    ultimately have "distinct (map key ?xs)" by (metis mset_eq_imp_distinct_iff)
    then have strict: "sorted_wrt (<) (map key ?xs)" by (intro strict_sorted_map sorted_sort_key)
    have ne: "take limit ?xs \<noteq> []" using False assms(2) by (metis One_nat_def le_zero_eq list.size(3) nat_le_linear not_one_le_zero take_eq_Nil)
    have "?l \<in> set ?xs" using ne by (metis in_set_takeD last_in_set)
    then have l: "behind after (key ?l)" by simp
    have sub: "filter (\<lambda>r. behind (Some (key ?l)) (key r)) rows = filter (\<lambda>r. key ?l < key r) (filter (\<lambda>r. behind after (key r)) rows)"
      using l by (auto simp: behind_def intro!: filter_cong split: option.splits)
    have rest: "sort_key key (filter (\<lambda>r. behind (Some (key ?l)) (key r)) rows) = drop limit ?xs"
    proof -
      have "sort_key key (filter (\<lambda>r. key ?l < key r) (filter (\<lambda>r. behind after (key r)) rows)) = filter (\<lambda>r. key ?l < key r) ?xs"
        by (simp only: filter_sort)
      also have "\<dots> = drop limit ?xs" using False assms(2) by (intro after_last_of_page [OF strict]) auto
      finally show ?thesis unfolding sub .
    qed
    have "length (filter (\<lambda>r. behind (Some (key ?l)) (key r)) rows) = length (drop limit ?xs)"
      by (metis rest length_sort)
    also have "\<dots> \<le> n * limit" using Suc.prems(1) by simp
    finally have fits: "length (filter (\<lambda>r. behind (Some (key ?l)) (key r)) rows) \<le> n * limit" .
    have "1 \<le> n" using Suc.prems(1) False by (cases n) simp_all
    then have "read_pages n key limit (Some (key ?l)) rows = drop limit ?xs" using Suc.IH [OF fits] rest by simp
    then show ?thesis using False ne by (simp add: page min_def)
  qed
qed simp

lemma read_pages_all:
  assumes "distinct (map key rows)" and "1 \<le> limit" and "length rows \<le> n * limit" and "1 \<le> n"
  shows "read_pages n key limit None rows = sort_key key rows"
  using read_pages_from [OF assms(1,2), of None n] assms(3,4) by (simp add: behind_def)

text \<open>Following the cursors of the list of teams.\<close>

fun all_teams :: "nat \<Rightarrow> club_env \<Rightarrow> name_page \<Rightarrow> scoped_actor \<Rightarrow> club \<Rightarrow> team_row list" where
  "all_teams 0 env p a st = []"
| "all_teams (Suc n) env p a st =
     (let (visible, next) = listTeams env p a st
      in visible @ (case next of None \<Rightarrow> [] | Some k \<Rightarrow> all_teams n env (p\<lparr>npg_after := Some k\<rparr>) a st))"

lemma all_teams_read: "all_teams n env p a st = read_pages n (\<lambda>r. name_key env (tmr_displayName r) (tmr_id r))
    (nat (page_limit (npg_limit p))) (map_option (\<lambda>(x, j). name_key env x j) (npg_after p))
    (filter (team_in_view st a (npg_accountId p)) (cb_teams st))"
proof (induction n arbitrary: p)
  case (Suc n)
  show ?case
    by (cases "npg_after p") (auto simp: listTeams_def name_page_of_def Let_def split_beta Suc.IH split: option.splits)
qed simp

lemma all_teams_shown:
  assumes "keys_ok st" and "inj (cv_collation env)" and "limit_ok (npg_limit p)" and "npg_after p = None"
    and "length (filter (team_in_view st a (npg_accountId p)) (cb_teams st)) \<le> n * nat (page_limit (npg_limit p))" and "1 \<le> n"
  shows "all_teams n env p a st = sort_key (\<lambda>r. name_key env (tmr_displayName r) (tmr_id r))
    (filter (team_in_view st a (npg_accountId p)) (cb_teams st))"
proof -
  let ?rows = "filter (team_in_view st a (npg_accountId p)) (cb_teams st)"
  have "distinct (map tmr_id ?rows)" using assms(1) by (intro distinct_map_filter) (simp add: keys_ok_def)
  then have "distinct (map (\<lambda>r. name_key env (tmr_displayName r) (tmr_id r)) ?rows)"
    using assms(2) by (auto simp: distinct_map inj_on_def name_key_def)
  moreover have "1 \<le> nat (page_limit (npg_limit p))" using assms(3) unfolding limit_ok_def by linarith
  ultimately show ?thesis unfolding all_teams_read assms(4) using assms(5,6) by (simp add: read_pages_all)
qed

section \<open>The time of a player on a team\<close>

definition covers :: "roster_row \<Rightarrow> int \<Rightarrow> bool" where
  "covers r t \<longleftrightarrow> rer_startsAt r \<le> t \<and> before_end t (rer_endsAt r)"

definition on_team :: "club \<Rightarrow> ident \<Rightarrow> ident \<Rightarrow> ident \<Rightarrow> int \<Rightarrow> bool" where
  "on_team st accountId teamSeasonId playerId t \<longleftrightarrow> list_ex (\<lambda>r. rer_accountId r = accountId \<and> rer_teamSeasonId r = teamSeasonId \<and>
     rer_playerId r = playerId \<and> covers r t) (cb_rosters st)"

lemma one_period_at_a_time:
  assumes "periods_ok st" and "r \<in> set (cb_rosters st)" and "s \<in> set (cb_rosters st)" and "same_membership r s"
    and "covers r t" and "covers s t"
  shows "r = s"
proof (rule ccontr)
  assume "r \<noteq> s"
  then have "\<not> periods_overlap r s" using assms by (simp add: periods_ok_def)
  then show False using assms(5,6) by (auto simp: periods_overlap_def covers_def before_end_def split: option.splits)
qed

lemma bex_replaced: "(\<exists>q\<in>set (replaced P f rows). Q q) \<longleftrightarrow> (\<exists>q\<in>set rows. P q \<and> Q (f q)) \<or> (\<exists>q\<in>set rows. \<not> P q \<and> Q q)"
  by (auto simp: set_replaced)

lemma jersey_keeps_team:
  assumes "keys_ok st" and "changeJersey env c a st = Inr (x, st')"
  shows "on_team st' accountId teamSeasonId playerId t = on_team st accountId teamSeasonId playerId t"
proof -
  obtain r effectiveAt st1 st2 where r: "roster_of st (cjr_accountId c) (cjr_rosterEntryId c) = Some r"
      "\<not> instant_le (Some effectiveAt) (rer_startsAt r)"
    and st1: "end_of_period (cjr_accountId c) (cjr_rosterEntryId c) (cjr_expectedRevision c) Roster_INACTIVE effectiveAt
      (rer_archivedAt r) st = Inr st1"
    and st2: "(insert_period (new_period env (cjr_accountId c) (rer_teamSeasonId r) (rer_playerId r) effectiveAt (cjr_jerseyNumber c)
            (or_else (cjr_primaryPosition c) (rer_primaryPosition r))) st1 :: management_failure + club) = Inr st2"
    and log: "(audit_by a ''roster_period.jersey_change'' ''RosterEntry'' (cv_newId env 0)
         (Meta_replaced (rer_id r) (cjr_expectedRevision c)) st2 :: management_failure + club) = Inr st'"
    using assms(2) unfolding changeJersey_def by (clarsimp simp: transaction_simps)
  define new where "new = new_period env (cjr_accountId c) (rer_teamSeasonId r) (rer_playerId r) effectiveAt (cjr_jerseyNumber c)
            (or_else (cjr_primaryPosition c) (rer_primaryPosition r))"
  let ?P = "\<lambda>r. roster_named (cjr_accountId c) (cjr_rosterEntryId c) r \<and> rer_revision r = cjr_expectedRevision c \<and>
      rer_status r = Roster_ACTIVE \<and> rer_endsAt r = None"
  let ?f = "\<lambda>q. q\<lparr>rer_status := Roster_INACTIVE, rer_endsAt := Some effectiveAt, rer_archivedAt := rer_archivedAt r,
      rer_revision := rer_revision q + 1\<rparr>"
  have one: "length (filter ?P (cb_rosters st)) = 1" and rows1: "cb_rosters st1 = replaced ?P ?f (cb_rosters st)"
    using st1 by (auto simp: end_of_period_def transaction_simps)
  have rows2: "cb_rosters st' = cb_rosters st1 @ [new]"
    using st2 write_club_audit_Inr [OF log [unfolded audit_by_def]] by (auto simp: insert_period_Inr new_def)
  have mem: "r \<in> set (cb_rosters st)" and named: "rer_accountId r = cjr_accountId c" "rer_id r = cjr_rosterEntryId c"
    using r(1) by (simp_all add: lookup_iff(5) [OF assms(1)])
  obtain r' where "r' \<in> set (filter ?P (cb_rosters st))" using one by (cases "filter ?P (cb_rosters st)") auto
  then have r': "r' \<in> set (cb_rosters st)" "?P r'" by auto
  then have "r' = r" using mem named assms(1) unfolding roster_named_def keys_ok_def by (metis distinct_key_eqD)
  then have P: "?P r" and only: "\<And>q. q \<in> set (cb_rosters st) \<Longrightarrow> ?P q \<Longrightarrow> q = r"
    using r' mem named assms(1) unfolding roster_named_def keys_ok_def by (blast, metis distinct_key_eqD)
  have later: "rer_startsAt r < effectiveAt" using r(2) by (simp add: instant_le_def)
  let ?in = "\<lambda>q. rer_accountId q = accountId \<and> rer_teamSeasonId q = teamSeasonId \<and> rer_playerId q = playerId"
  have cover: "covers r t \<longleftrightarrow> covers (?f r) t \<or> covers new t"
    using P later by (auto simp: covers_def before_end_def new_def)
  have same: "?in (?f r) = ?in r" "?in new = ?in r" using named by (auto simp: new_def)
  have changed: "(\<exists>q\<in>set (cb_rosters st). ?P q \<and> ?in (?f q) \<and> covers (?f q) t) \<longleftrightarrow> ?in (?f r) \<and> covers (?f r) t"
    using P only mem by blast
  have "on_team st' accountId teamSeasonId playerId t \<longleftrightarrow>
      (\<exists>q\<in>set (replaced ?P ?f (cb_rosters st)). ?in q \<and> covers q t) \<or> (?in new \<and> covers new t)"
    unfolding on_team_def rows2 rows1 by (simp add: list_ex_iff conj_assoc disj_comms)
  also have "\<dots> \<longleftrightarrow> (\<exists>q\<in>set (cb_rosters st). \<not> ?P q \<and> ?in q \<and> covers q t) \<or> (?in (?f r) \<and> covers (?f r) t) \<or> (?in new \<and> covers new t)"
    unfolding bex_replaced changed by blast
  also have "\<dots> \<longleftrightarrow> (\<exists>q\<in>set (cb_rosters st). \<not> ?P q \<and> ?in q \<and> covers q t) \<or> (?in r \<and> covers r t)"
    unfolding same cover by blast
  also have "\<dots> \<longleftrightarrow> on_team st accountId teamSeasonId playerId t"
    using only mem unfolding on_team_def list_ex_iff by blast
  finally show ?thesis .
qed

section \<open>Positions that repeat\<close>

lemma same_position_refused:
  assumes "l1 \<in> set slots" and "l2 \<in> set slots" and "lsr_id l1 \<noteq> lsr_id l2" and "lsr_gameTeamSnapshotId l1 = tsr_id t"
    and "lsr_gameTeamSnapshotId l2 = tsr_id t" and "lsr_defensivePosition l1 = Some p" and "lsr_defensivePosition l2 = Some p"
    and "play_side teams slots (tsr_side t) = Some x" and "find (\<lambda>u. tsr_side u = tsr_side t) teams = Some t"
    and "distinct (map lsr_id slots)"
  shows "\<not> setup_lineup_ok (ss_lineup x) (ss_startingPitcherId x)"
proof -
  let ?mine = "filter (\<lambda>l. lsr_gameTeamSnapshotId l = tsr_id t) slots"
  have x: "ss_lineup x = map slot_entry ?mine"
    using assms(8,9) by (auto simp: play_side_def Let_def single_case simp del: filter_filter)
  let ?on = "filter (\<lambda>l. le_active (slot_entry l)) ?mine"
  have positions: "List.map_filter le_position (active_entries (ss_lineup x)) = List.map_filter lsr_defensivePosition ?on"
    unfolding x active_entries_def by (simp add: List.map_filter_def filter_map comp_def slot_entry_def conj_ac)
  have "l1 \<in> set ?on" "l2 \<in> set ?on" using assms(1,2,4-7) by (simp_all add: slot_entry_def)
  moreover have "l1 \<noteq> l2" using assms(3) by blast
  moreover have "distinct ?on" using assms(10) by (simp add: distinct_map)
  ultimately have "\<not> distinct (List.map_filter lsr_defensivePosition ?on)"
    using assms(6,7) by (auto dest: distinct_map_filterD)
  then show ?thesis unfolding positions [symmetric] by (simp add: setup_lineup_ok_def)
qed

lemma repeated_position_never_replays:
  assumes "snapshot_linked st s" and "l1 \<in> set (gsr_lineupSlots s)" and "l2 \<in> set (gsr_lineupSlots s)" and "lsr_id l1 \<noteq> lsr_id l2"
    and "lsr_gameTeamSnapshotId l1 = lsr_gameTeamSnapshotId l2" and "lsr_defensivePosition l1 = Some p" and "lsr_defensivePosition l2 = Some p"
  shows "\<not> is_ok (replayable (ordered_snapshot env s))"
proof
  let ?teams = "map team_snapshot_row.truncate (gsr_teamSnapshots s)"
  let ?slots = "map lineup_slot_row.truncate (gsr_lineupSlots s)"
  assume "is_ok (replayable (ordered_snapshot env s))"
  moreover have "distinct (map tsr_side (gsr_teamSnapshots s))" using assms(1) by (simp add: snapshot_linked_def)
  ultimately obtain home away where h: "play_side ?teams ?slots HOME = Some home" and a: "play_side ?teams ?slots AWAY = Some away"
    and ok: "is_ok (createInitialState (setup_with s home away))" by (rule replayable_rows [OF _ _ refl refl])
  obtain t where t: "t \<in> set (gsr_teamSnapshots s)" "tsr_id t = lsr_gameTeamSnapshotId l1"
    using assms(1,2) by (auto simp: snapshot_linked_def slot_linked_def)
  have sides: "distinct (map tsr_side ?teams)" and ids: "distinct (map lsr_id ?slots)"
    using assms(1) by (simp_all add: snapshot_linked_def comp_def)
  have "find (\<lambda>u. tsr_side u = tsr_side (team_snapshot_row.truncate t)) ?teams = Some (team_snapshot_row.truncate t)"
    using t(1) by (intro find_Some_distinct_key [OF sides]) simp
  then have "\<not> setup_lineup_ok (ss_lineup x) (ss_startingPitcherId x)" if "play_side ?teams ?slots (tsr_side t) = Some x" for x
    using assms(2-7) t(2) that ids
    by (intro same_position_refused [of "lineup_slot_row.truncate l1" ?slots "lineup_slot_row.truncate l2" "team_snapshot_row.truncate t" p ?teams x])
      simp_all
  moreover have "play_side ?teams ?slots (tsr_side t) = Some (su_sides (setup_with s home away) (tsr_side t))"
    using h a by (cases "tsr_side t") (simp_all add: setup_with_def by_side_def)
  ultimately show False using ok unfolding createInitialState_ok by blast
qed

end
