(* ===== verification/Club_Service.thy ===== *)
theory Club_Service
  imports Authorization Club_Contracts
begin

text \<open>
  The services in front of the repositories of an organisation (\<open>src/server/app/team-season-roster-service.ts\<close> and
  \<open>game-setup-service.ts\<close>): they parse a command, make its actor from the decision of the authorization, check
  the scope of the actor and call the repository.
\<close>

datatype service_error = Auth_failure auth_error | Management_failure management_error | Setup_failure setup_error

section \<open>Teams, seasons and rosters\<close>

record schema_env =
  sch_isoDatetime :: "string \<Rightarrow> bool"
  sch_isoDate :: "string \<Rightarrow> bool"

text \<open>The parser of each command.\<close>

definition parse_management :: "schema_env \<Rightarrow> management_command \<Rightarrow> management_error + management_command" where
  "parse_management sch raw =
     (let dt = sch_isoDatetime sch; day = sch_isoDate sch in
      case raw of
        Create_team c \<Rightarrow> and_then (parse_create_team (Some c)) (\<lambda>c. Inr (Create_team c))
      | Update_team c \<Rightarrow> and_then (parse_update_team (Some c)) (\<lambda>c. Inr (Update_team c))
      | Set_team_archived c \<Rightarrow> and_then (parse_set_archived (Some c)) (\<lambda>c. Inr (Set_team_archived c))
      | Create_season c \<Rightarrow> and_then (parse_create_season day (Some c)) (\<lambda>c. Inr (Create_season c))
      | Update_season c \<Rightarrow> and_then (parse_update_season day (Some c)) (\<lambda>c. Inr (Update_season c))
      | Transition_season c \<Rightarrow> and_then (parse_transition_season (Some c)) (\<lambda>c. Inr (Transition_season c))
      | Add_team_season c \<Rightarrow> and_then (parse_add_participation (Some c)) (\<lambda>c. Inr (Add_team_season c))
      | Set_team_season_archived c \<Rightarrow> and_then (parse_set_archived (Some c)) (\<lambda>c. Inr (Set_team_season_archived c))
      | Create_player c \<Rightarrow> and_then (parse_create_player (Some c)) (\<lambda>c. Inr (Create_player c))
      | Update_player c \<Rightarrow> and_then (parse_update_player (Some c)) (\<lambda>c. Inr (Update_player c))
      | Set_player_archived c \<Rightarrow> and_then (parse_set_archived (Some c)) (\<lambda>c. Inr (Set_player_archived c))
      | Add_roster_period c \<Rightarrow> and_then (parse_add_period dt (Some c)) (\<lambda>c. Inr (Add_roster_period c))
      | End_roster_period c \<Rightarrow> and_then (parse_end_period dt (Some c)) (\<lambda>c. Inr (End_roster_period c))
      | Change_jersey c \<Rightarrow> and_then (parse_change_jersey dt (Some c)) (\<lambda>c. Inr (Change_jersey c)))"

fun command_account :: "management_command \<Rightarrow> ident" where
  "command_account (Create_team c) = ctm_accountId c"
| "command_account (Update_team c) = utm_accountId c"
| "command_account (Set_team_archived c) = sar_accountId c"
| "command_account (Create_season c) = csn_accountId c"
| "command_account (Update_season c) = usn_accountId c"
| "command_account (Transition_season c) = trn_accountId c"
| "command_account (Add_team_season c) = apt_accountId c"
| "command_account (Set_team_season_archived c) = sar_accountId c"
| "command_account (Create_player c) = cpl_accountId c"
| "command_account (Update_player c) = upl_accountId c"
| "command_account (Set_player_archived c) = sar_accountId c"
| "command_account (Add_roster_period c) = arp_accountId c"
| "command_account (End_roster_period c) = erp_accountId c"
| "command_account (Change_jersey c) = cjr_accountId c"

fun command_capability :: "management_command \<Rightarrow> string" where
  "command_capability (Create_team _) = ''team.manage''"
| "command_capability (Update_team _) = ''team.manage''"
| "command_capability (Set_team_archived _) = ''team.manage''"
| "command_capability (Create_season _) = ''season.manage''"
| "command_capability (Update_season _) = ''season.manage''"
| "command_capability (Transition_season _) = ''season.manage''"
| "command_capability (Add_team_season _) = ''season.manage''"
| "command_capability (Set_team_season_archived _) = ''season.manage''"
| "command_capability _ = ''roster.manage''"

definition requireAccountScope :: "scoped_actor \<Rightarrow> management_error + unit" where
  "requireAccountScope a = require (sac_scope a = On_ACCOUNT) MG_AUTHORIZATION_REQUIRED"

text \<open>\<open>getTeamSeasonScope\<close> and \<open>getRosterEntryScope\<close>, with \<open>requireTarget\<close>\<close>

definition getTeamSeasonScope :: "club \<Rightarrow> ident \<Rightarrow> ident \<Rightarrow> (ident \<times> ident) option" where
  "getTeamSeasonScope st accountId i = map_option (\<lambda>p. (par_teamId p, par_seasonId p)) (participation_of st accountId i)"

definition getRosterEntryScope :: "club \<Rightarrow> ident \<Rightarrow> ident \<Rightarrow> (ident \<times> ident) option" where
  "getRosterEntryScope st accountId i =
     Option.bind (roster_of st accountId i) (\<lambda>r. getTeamSeasonScope st (rer_accountId r) (rer_teamSeasonId r))"

definition assert_target :: "scoped_actor \<Rightarrow> (ident \<times> ident) option \<Rightarrow> management_error + unit" where
  "assert_target a target =
     (case target of
        None \<Rightarrow> Inl MG_NOT_FOUND_OR_INACCESSIBLE
      | Some (teamId, seasonId) \<Rightarrow> assertScope (sac_scope a) (Some teamId) (Some seasonId))"

fun check_scope :: "club \<Rightarrow> scoped_actor \<Rightarrow> management_command \<Rightarrow> management_error + unit" where
  "check_scope st a (Create_team _) = requireAccountScope a"
| "check_scope st a (Update_team c) = assertScope (sac_scope a) (Some (utm_teamId c)) None"
| "check_scope st a (Set_team_archived c) = assertScope (sac_scope a) (Some (sar_id c)) None"
| "check_scope st a (Create_season _) = requireAccountScope a"
| "check_scope st a (Update_season c) = assertScope (sac_scope a) None (Some (usn_seasonId c))"
| "check_scope st a (Transition_season c) = assertScope (sac_scope a) None (Some (trn_seasonId c))"
| "check_scope st a (Add_team_season c) = assertScope (sac_scope a) (Some (apt_teamId c)) (Some (apt_seasonId c))"
| "check_scope st a (Set_team_season_archived c) = assert_target a (getTeamSeasonScope st (sar_accountId c) (sar_id c))"
| "check_scope st a (Create_player _) = requireAccountScope a"
| "check_scope st a (Update_player _) = requireAccountScope a"
| "check_scope st a (Set_player_archived _) = requireAccountScope a"
| "check_scope st a (Add_roster_period c) = assert_target a (getTeamSeasonScope st (arp_accountId c) (arp_teamSeasonId c))"
| "check_scope st a (End_roster_period c) = assert_target a (getRosterEntryScope st (erp_accountId c) (erp_rosterEntryId c))"
| "check_scope st a (Change_jersey c) = assert_target a (getRosterEntryScope st (cjr_accountId c) (cjr_rosterEntryId c))"

definition admit_management ::
    "schema_env \<Rightarrow> club \<Rightarrow> management_command \<Rightarrow> trusted_actor option \<Rightarrow> service_error + (management_command \<times> scoped_actor)" where
  "admit_management sch st raw actorInput =
     and_then (map_error Management_failure (parse_management sch raw)) (\<lambda>cmd.
     and_then (map_error Auth_failure (toManagementActor actorInput (command_account cmd) (command_capability cmd))) (\<lambda>a.
     and_then (map_error Management_failure (check_scope st a cmd)) (\<lambda>_. Inr (cmd, a))))"

definition serve_management ::
    "schema_env \<Rightarrow> club_env \<Rightarrow> bool \<Rightarrow> club \<Rightarrow> management_command \<Rightarrow> trusted_actor option \<Rightarrow> (service_error + management_result) \<times> club" where
  "serve_management sch env conflict st raw actorInput =
     (case admit_management sch st raw actorInput of
        Inl e \<Rightarrow> (Inl e, st)
      | Inr (cmd, a) \<Rightarrow> (let (r, st') = manage env conflict a cmd st in (map_error Management_failure r, st')))"

section \<open>The setup of a game\<close>

definition admit_draft ::
    "schema_env \<Rightarrow> club \<Rightarrow> create_draft \<Rightarrow> trusted_actor option \<Rightarrow> service_error + (create_draft \<times> scoped_actor)" where
  "admit_draft sch st raw actorInput =
     and_then (map_error Setup_failure (parse_create_draft (sch_isoDatetime sch) (Some raw))) (\<lambda>c.
     and_then (map_error Auth_failure (toGameSetupActor actorInput (cdg_accountId c) ''game.create'')) (\<lambda>a.
     (case getTeamSeasonScope st (cdg_accountId c) (cdg_managedTeamSeasonId c) of
        None \<Rightarrow> Inl (Setup_failure GS_NOT_FOUND_OR_INACCESSIBLE)
      | Some (teamId, seasonId) \<Rightarrow>
          and_then (require (seasonId = cdg_seasonId c) (Setup_failure GS_NOT_FOUND_OR_INACCESSIBLE)) (\<lambda>_.
          and_then (map_error Setup_failure (assertGameCreateScope a teamId seasonId)) (\<lambda>_. Inr (c, a))))))"

definition admit_setup ::
    "('c option \<Rightarrow> setup_error + 'c) \<Rightarrow> ('c \<Rightarrow> ident) \<Rightarrow> ('c \<Rightarrow> ident) \<Rightarrow> string \<Rightarrow> 'c \<Rightarrow> trusted_actor option
     \<Rightarrow> service_error + ('c \<times> scoped_actor)" where
  "admit_setup parser account game capability raw actorInput =
     and_then (map_error Setup_failure (parser (Some raw))) (\<lambda>c.
     and_then (map_error Auth_failure (toGameSetupActor actorInput (account c) capability)) (\<lambda>a.
     and_then (map_error Setup_failure (assertGameScope a (game c))) (\<lambda>_. Inr (c, a))))"

definition admit_save :: "schema_env \<Rightarrow> save_setup \<Rightarrow> trusted_actor option \<Rightarrow> service_error + (save_setup \<times> scoped_actor)" where
  "admit_save sch = admit_setup (parse_save_setup (sch_isoDatetime sch)) ssr_accountId ssr_gameId ''game.setup''"

definition admit_mark :: "mark_ready \<Rightarrow> trusted_actor option \<Rightarrow> service_error + (mark_ready \<times> scoped_actor)" where
  "admit_mark = admit_setup parse_mark_ready msr_accountId msr_gameId ''game.setup''"

definition serve_draft ::
    "schema_env \<Rightarrow> club_env \<Rightarrow> bool \<Rightarrow> club \<Rightarrow> create_draft \<Rightarrow> trusted_actor option \<Rightarrow> (service_error + club_game_row) \<times> club" where
  "serve_draft sch env conflict st raw actorInput =
     (case admit_draft sch st raw actorInput of
        Inl e \<Rightarrow> (Inl e, st)
      | Inr (c, a) \<Rightarrow> (let (r, st') = transact translate_setup conflict (createDraftGame env c a) st in (map_error Setup_failure r, st')))"

definition serve_save ::
    "schema_env \<Rightarrow> club_env \<Rightarrow> (save_setup \<Rightarrow> string) \<Rightarrow> club option \<Rightarrow> club \<Rightarrow> save_setup \<Rightarrow> trusted_actor option
     \<Rightarrow> (service_error + saved_setup) \<times> club" where
  "serve_save sch env hash abort st raw actorInput =
     (case admit_save sch raw actorInput of
        Inl e \<Rightarrow> (Inl e, st)
      | Inr (c, a) \<Rightarrow> (let (r, st') = save_setup_transaction env hash abort c a st in (map_error Setup_failure r, st')))"

definition serve_mark ::
    "club_env \<Rightarrow> club option \<Rightarrow> club \<Rightarrow> mark_ready \<Rightarrow> trusted_actor option \<Rightarrow> (service_error + ready_mark) \<times> club" where
  "serve_mark env abort st raw actorInput =
     (case admit_mark raw actorInput of
        Inl e \<Rightarrow> (Inl e, st)
      | Inr (c, a) \<Rightarrow> (let (r, st') = mark_ready_transaction env abort c a st in (map_error Setup_failure r, st')))"

definition serve_current ::
    "club_env \<Rightarrow> club \<Rightarrow> setup_query \<Rightarrow> trusted_actor option \<Rightarrow> service_error + (club_game_row \<times> setup_snapshot_row option)" where
  "serve_current env st raw actorInput =
     and_then (admit_setup parse_setup_query gsq_accountId gsq_gameId ''game.view'' raw actorInput) (\<lambda>(q, _).
       map_error Setup_failure (loadCurrentSetup env q st))"

definition serve_candidates ::
    "club_env \<Rightarrow> club \<Rightarrow> candidate_page \<Rightarrow> trusted_actor option
     \<Rightarrow> service_error + ((player_row \<times> roster_row) list \<times> (string \<times> ident) option)" where
  "serve_candidates env st raw actorInput =
     and_then (admit_setup parse_candidate_page cpg_accountId cpg_gameId ''game.setup'' raw actorInput) (\<lambda>(p, _).
       map_error Setup_failure (listRosterCandidates env p st))"

end
