(* ===== verification/Club_Authority.thy ===== *)
theory Club_Authority
  imports Club_Service
begin

text \<open>
  What an authority can do: the decision rests on a live membership and on assignments that
  match the target, and the commands of an actor whose target is a team leave all other teams alone: he
  manages his team and drafts games for it.
\<close>

section \<open>Decisions\<close>

lemma loadActiveAuthority_Some: "loadActiveAuthority d u a = Some x \<Longrightarrow>
    \<exists>m\<in>set (dr_memberships d). mbr_accountId m = a \<and> mbr_userId m = u \<and> mbr_active m \<and> account_active d a \<and> user_active d u \<and>
      x = \<lparr>aut_appUserId = u, aut_membershipId = mbr_id m, aut_accountId = a, aut_assignments = membership_assignments d m\<rparr>"
  by (auto simp: loadActiveAuthority_def find_Some_iff)

lemma authorizeTarget_Inr:
  assumes "authorizeTarget now d st provider subject target capability = Inr actor"
  obtains u authority t where "resolveUser d provider subject = Inr (u, True)" "loadActiveAuthority d u (target_account target) = Some authority"
    "resolveTarget d st target = Some t" "rtg_accountId t = target_account target"
    "filter (\<lambda>x. assignmentPermits x capability t) (aut_assignments authority) \<noteq> []"
    "actor = user_actor authority t capability (map aas_id (filter (\<lambda>x. assignmentPermits x capability t) (aut_assignments authority))) now"
  using assms
  by (auto simp: authorizeTarget_def result_simps resolveCapabilityDecision_def Let_def split: option.splits)

lemma decision_sound:
  assumes "authorizeTarget now d st provider subject target capability = Inr actor"
  shows "\<exists>m\<in>set (dr_memberships d). mbr_active m \<and> mbr_userId m = tra_appUserId actor \<and> mbr_accountId m = target_account target \<and>
      user_active d (tra_appUserId actor) \<and> account_active d (target_account target) \<and> tra_membershipId actor = Some (mbr_id m) \<and>
      tra_authorityReferenceIds actor \<noteq> [] \<and>
      (\<forall>i\<in>set (tra_authorityReferenceIds actor). \<exists>x\<in>set (membership_assignments d m). aas_id x = i \<and>
        assignmentPermits x capability (tra_target actor))"
proof -
  obtain u authority t where "resolveUser d provider subject = Inr (u, True)"
    and a: "loadActiveAuthority d u (target_account target) = Some authority"
    and ne: "filter (\<lambda>x. assignmentPermits x capability t) (aut_assignments authority) \<noteq> []"
    and actor: "actor = user_actor authority t capability (map aas_id (filter (\<lambda>x. assignmentPermits x capability t) (aut_assignments authority))) now"
    by (rule authorizeTarget_Inr [OF assms]) blast
  obtain m where m: "m \<in> set (dr_memberships d)" "mbr_accountId m = target_account target" "mbr_userId m = u" "mbr_active m"
    "account_active d (target_account target)" "user_active d u"
    "authority = \<lparr>aut_appUserId = u, aut_membershipId = mbr_id m, aut_accountId = target_account target, aut_assignments = membership_assignments d m\<rparr>"
    using loadActiveAuthority_Some [OF a] by blast
  show ?thesis
    using m ne actor by (intro bexI [of _ m]) (auto simp: user_actor_def)
qed

section \<open>Scopes\<close>

lemma team_actor:
  assumes "authorizeTarget now d st provider subject (Team_target accountId teamId) capability = Inr actor"
    and "toManagementActor (Some actor) a c = Inr sa"
  shows "sac_scope sa = On_TEAM teamId"
proof (rule authorizeTarget_Inr [OF assms(1)])
  fix u authority t
  assume "resolveTarget d st (Team_target accountId teamId) = Some t" and "actor = user_actor authority t capability
      (map aas_id (filter (\<lambda>x. assignmentPermits x capability t) (aut_assignments authority))) now"
  then show ?thesis
    using assms(2) by (auto simp: resolveTarget_def team_of_def find_Some_iff user_actor_def toManagementActor_def requireTrustedActor_def
        scopeFor_def scoped_actor_of_def result_simps)
qed

lemma game_actor:
  assumes "authorizeTarget now d st provider subject (Game_target accountId gameId) capability = Inr actor"
    and "gameId \<noteq> []"
  shows "\<exists>sa. toManagementActor (Some actor) accountId capability = Inr sa \<and> sac_scope sa = On_GAME gameId"
proof (rule authorizeTarget_Inr [OF assms(1)])
  fix u authority t
  assume "loadActiveAuthority d u (target_account (Game_target accountId gameId)) = Some authority"
    and "resolveTarget d st (Game_target accountId gameId) = Some t" and "rtg_accountId t = target_account (Game_target accountId gameId)"
    and "actor = user_actor authority t capability
      (map aas_id (filter (\<lambda>x. assignmentPermits x capability t) (aut_assignments authority))) now"
  then show ?thesis
    using assms(2) by (auto simp: resolveTarget_def club_game_of_def find_Some_iff user_actor_def toManagementActor_def requireTrustedActor_def
        scopeFor_def scoped_actor_of_def result_simps loadActiveAuthority_def)
qed

section \<open>A team and the others\<close>

definition roster_team :: "club \<Rightarrow> roster_row \<Rightarrow> ident option" where
  "roster_team st r = map_option par_teamId (participation_of st (rer_accountId r) (rer_teamSeasonId r))"

definition other_teams_alone :: "ident \<Rightarrow> club \<Rightarrow> club \<Rightarrow> bool" where
  "other_teams_alone t st st' \<longleftrightarrow> cb_seasons st' = cb_seasons st \<and> cb_players st' = cb_players st \<and> cb_games st' = cb_games st \<and>
     cb_setups st' = cb_setups st \<and> cb_rulesets st' = cb_rulesets st \<and>
     filter (\<lambda>r. tmr_id r \<noteq> t) (cb_teams st') = filter (\<lambda>r. tmr_id r \<noteq> t) (cb_teams st) \<and>
     filter (\<lambda>p. par_teamId p \<noteq> t) (cb_participations st') = filter (\<lambda>p. par_teamId p \<noteq> t) (cb_participations st) \<and>
     filter (\<lambda>r. roster_team st' r \<noteq> Some t) (cb_rosters st') = filter (\<lambda>r. roster_team st r \<noteq> Some t) (cb_rosters st)"

lemma other_teams_refl: "other_teams_alone t st st"
  by (simp add: other_teams_alone_def)

lemma roster_team_frame [simp]:
  "roster_team (st\<lparr>cb_teams := x1\<rparr>) = roster_team st" "roster_team (st\<lparr>cb_rosters := x2\<rparr>) = roster_team st"
  "roster_team (st\<lparr>cb_audits := x3\<rparr>) = roster_team st"
  by (simp_all add: roster_team_def fun_eq_iff)

lemma filter_replaced: "(\<And>r. r \<in> set rows \<Longrightarrow> P r \<Longrightarrow> \<not> Q r \<and> \<not> Q (f r)) \<Longrightarrow> filter Q (replaced P f rows) = filter Q rows"
  by (induction rows) (auto simp: replaced_def)

text \<open>Changes of the rows of one team.\<close>

lemma alone_teams: "(\<And>r. P r \<Longrightarrow> tmr_id r = t \<and> tmr_id (f r) = t) \<Longrightarrow>
    other_teams_alone t st (st\<lparr>cb_teams := replaced P f (cb_teams st)\<rparr>)"
  by (simp add: other_teams_alone_def filter_replaced)

lemma alone_audits: "other_teams_alone t st st1 \<Longrightarrow> audit_by a what ty i m st1 = Inr st2 \<Longrightarrow> other_teams_alone t st st2"
  unfolding audit_by_def by (drule write_club_audit_Inr) (auto simp: other_teams_alone_def)

lemma alone_rosters:
  assumes "\<And>r. r \<in> set (cb_rosters st) \<Longrightarrow> P r \<Longrightarrow> roster_team st r = Some t" and "keeps roster_static f"
  shows "other_teams_alone t st (st\<lparr>cb_rosters := replaced P f (cb_rosters st)\<rparr>)"
proof -
  have "roster_team st (f r) = roster_team st r" for r using assms(2) by (simp add: static_defs roster_team_def)
  then show ?thesis using assms(1) by (simp add: other_teams_alone_def filter_replaced)
qed

lemma alone_new_roster:
  assumes "other_teams_alone t st st1" and "roster_team st1 r = Some t"
  shows "other_teams_alone t st (st1\<lparr>cb_rosters := cb_rosters st1 @ [r]\<rparr>)"
  using assms by (simp add: other_teams_alone_def)

lemma alone_participations:
  assumes "\<And>r. r \<in> set (cb_participations st) \<Longrightarrow> P r \<Longrightarrow> par_teamId r = t" and "keeps participation_static f"
  shows "other_teams_alone t st (st\<lparr>cb_participations := replaced P f (cb_participations st)\<rparr>)"
proof -
  have team: "par_teamId (f r) = par_teamId r" for r using assms(2) by (simp add: static_defs)
  have "map_option par_teamId (map_option (\<lambda>r. if P r then f r else r) x) = map_option par_teamId x" for x
    using team by (cases x) simp_all
  then have "roster_team (st\<lparr>cb_participations := replaced P f (cb_participations st)\<rparr>) = roster_team st"
    by (simp add: roster_team_def fun_eq_iff participation_of_replaced [OF assms(2)])
  then show ?thesis using assms(1) team by (simp add: other_teams_alone_def filter_replaced)
qed

lemma alone_new_participation:
  assumes "roster_parents st" and "par_teamId p = t"
  shows "other_teams_alone t st (st\<lparr>cb_participations := cb_participations st @ [p]\<rparr>)"
proof -
  have "roster_team (st\<lparr>cb_participations := cb_participations st @ [p]\<rparr>) r = roster_team st r" if "r \<in> set (cb_rosters st)" for r
    using assms(1) that lookup_grows(3) [of st "rer_accountId r" "rer_teamSeasonId r"] by (auto simp: roster_team_def roster_parents_def)
  then have "filter (\<lambda>r. roster_team (st\<lparr>cb_participations := cb_participations st @ [p]\<rparr>) r \<noteq> Some t) (cb_rosters st) =
      filter (\<lambda>r. roster_team st r \<noteq> Some t) (cb_rosters st)" by (intro filter_cong) auto
  then show ?thesis using assms(2) by (simp add: other_teams_alone_def)
qed

section \<open>The commands of a team\<close>

lemma scope_target: "assert_target a target = Inr u \<Longrightarrow> sac_scope a = On_TEAM t \<Longrightarrow> map_option fst target = Some t"
  by (auto simp: assert_target_def assertScope_def result_simps split: option.splits)

lemma roster_scope:
  assumes "assert_target a (getRosterEntryScope st x i) = Inr u" and "sac_scope a = On_TEAM t" and "keys_ok st"
    and "r \<in> set (cb_rosters st)" and "roster_named x i r"
  shows "roster_team st r = Some t"
proof -
  have "roster_of st x i = Some r" using assms(4,5) by (simp add: lookup_iff(5) [OF assms(3)] roster_named_def)
  then show ?thesis
    using scope_target [OF assms(1,2)] by (auto simp: getRosterEntryScope_def getTeamSeasonScope_def roster_team_def)
qed

lemma end_of_period_alone:
  assumes "end_of_period a i expected status endsAt archivedAt st = Inr st1"
    and "\<And>r. r \<in> set (cb_rosters st) \<Longrightarrow> roster_named a i r \<Longrightarrow> roster_team st r = Some t"
  shows "other_teams_alone t st st1"
  using assms by (auto simp: end_of_period_def transaction_simps static_defs intro!: alone_rosters)

lemma endRosterPeriod_alone:
  assumes "endRosterPeriod env c a st = Inr (x, st')"
    and "\<And>r. r \<in> set (cb_rosters st) \<Longrightarrow> roster_named (erp_accountId c) (erp_rosterEntryId c) r \<Longrightarrow> roster_team st r = Some t"
  shows "other_teams_alone t st st'"
  using assms by (auto simp: endRosterPeriod_def transaction_simps elim!: alone_audits [rotated] intro!: end_of_period_alone)

lemma changeJersey_alone:
  assumes "changeJersey env c a st = Inr (x, st')"
    and "\<And>r. r \<in> set (cb_rosters st) \<Longrightarrow> roster_named (cjr_accountId c) (cjr_rosterEntryId c) r \<Longrightarrow> roster_team st r = Some t"
  shows "other_teams_alone t st st'"
proof -
  obtain r effectiveAt st1 st2 where r: "roster_of st (cjr_accountId c) (cjr_rosterEntryId c) = Some r"
    and st1: "end_of_period (cjr_accountId c) (cjr_rosterEntryId c) (cjr_expectedRevision c) Roster_INACTIVE effectiveAt
      (rer_archivedAt r) st = Inr st1"
    and st2: "(insert_period (new_period env (cjr_accountId c) (rer_teamSeasonId r) (rer_playerId r) effectiveAt (cjr_jerseyNumber c)
            (or_else (cjr_primaryPosition c) (rer_primaryPosition r))) st1 :: management_failure + club) = Inr st2"
    and log: "(audit_by a ''roster_period.jersey_change'' ''RosterEntry'' (cv_newId env 0)
         (Meta_replaced (rer_id r) (cjr_expectedRevision c)) st2 :: management_failure + club) = Inr st'"
    using assms(1) unfolding changeJersey_def by (clarsimp simp: transaction_simps)
  have "r \<in> set (cb_rosters st)" "roster_named (cjr_accountId c) (cjr_rosterEntryId c) r"
    using r by (auto simp: roster_of_def find_Some_iff roster_named_def)
  then have team: "map_option par_teamId (participation_of st (cjr_accountId c) (rer_teamSeasonId r)) = Some t"
    using assms(2) [of r] by (simp add: roster_team_def roster_named_def)
  obtain rows where rows: "st1 = st\<lparr>cb_rosters := rows\<rparr>" using end_of_period_frame [OF st1] by blast
  have "other_teams_alone t st st1" by (rule end_of_period_alone [OF st1 assms(2)])
  moreover define new where "new = new_period env (cjr_accountId c) (rer_teamSeasonId r) (rer_playerId r) effectiveAt (cjr_jerseyNumber c)
            (or_else (cjr_primaryPosition c) (rer_primaryPosition r))"
  moreover have "roster_team st1 new = Some t" using team by (simp add: rows new_def) (simp add: roster_team_def)
  ultimately have "other_teams_alone t st (st1\<lparr>cb_rosters := cb_rosters st1 @ [new]\<rparr>)" by (intro alone_new_roster)
  then have "other_teams_alone t st st2" using st2 by (simp add: insert_period_Inr new_def)
  then show ?thesis by (rule alone_audits [OF _ log])
qed

lemma team_command_alone:
  assumes "management_body env a c st = Inr (x, st')" and "check_scope st a c = Inr u" and "sac_scope a = On_TEAM t"
    and "keys_ok st" and "roster_parents st"
  shows "other_teams_alone t st st'"
proof (cases c)
  case (Update_team c)
  then show ?thesis
    using assms(1-3) by (auto simp: management_body_def updateTeam_def transaction_simps assertScope_def team_named_def
        elim!: alone_audits [rotated] intro!: alone_teams)
next
  case (Set_team_archived c)
  then show ?thesis
    using assms(1-3) by (auto simp: management_body_def setTeamArchived_def transaction_simps assertScope_def team_named_def
        elim!: alone_audits [rotated] intro!: alone_teams)
next
  case (Add_team_season c)
  then show ?thesis
    using assms(1-3) by (auto simp: management_body_def addTeamSeason_def transaction_simps assertScope_def
        elim!: alone_audits [rotated] intro!: alone_new_participation [OF assms(5)] split: option.splits)
next
  case (Set_team_season_archived c)
  have "par_teamId r = t" if "r \<in> set (cb_participations st)" "participation_named (sar_accountId c) (sar_id c) r" for r
  proof -
    have "participation_of st (sar_accountId c) (sar_id c) = Some r"
      using that by (simp add: lookup_iff(3) [OF assms(4)] participation_named_def)
    then show ?thesis
      using scope_target [OF _ assms(3)] assms(2) Set_team_season_archived by (fastforce simp: getTeamSeasonScope_def)
  qed
  then show ?thesis
    using assms(1) Set_team_season_archived
    by (auto simp: management_body_def setTeamSeasonArchived_def transaction_simps static_defs
        elim!: alone_audits [rotated] intro!: alone_participations)
next
  case (Add_roster_period c)
  then show ?thesis
    using assms(1) scope_target [OF _ assms(3)] assms(2)
    by (fastforce simp: management_body_def addRosterPeriod_def transaction_simps insert_period_Inr roster_team_def getTeamSeasonScope_def
        elim!: alone_audits [rotated] intro!: alone_new_roster other_teams_refl split: option.splits)
next
  case (End_roster_period c)
  then show ?thesis
    using assms(1,2) roster_scope [OF _ assms(3,4)] by (auto simp: management_body_def intro!: endRosterPeriod_alone)
next
  case (Change_jersey c)
  then show ?thesis
    using assms(1,2) roster_scope [OF _ assms(3,4)] by (auto simp: management_body_def intro!: changeJersey_alone)
qed (use assms(2,3) in \<open>auto simp: requireAccountScope_def assertScope_def result_simps\<close>)

lemma serve_management_Inr:
  assumes "serve_management sch env conflict st raw actorInput = (r, st')"
  shows "st' = st \<or> (\<exists>cmd a x. admit_management sch st raw actorInput = Inr (cmd, a) \<and> management_body env a cmd st = Inr (x, st'))"
  using assms by (auto simp: serve_management_def manage_def transact_def Let_def split: sum.splits if_splits)

lemma team_service_alone:
  assumes "authorizeTarget now d st provider subject (Team_target accountId teamId) capability = Inr actor"
    and "serve_management sch env conflict st raw (Some actor) = (r, st')" and "keys_ok st" and "roster_parents st"
  shows "other_teams_alone teamId st st'"
  using serve_management_Inr [OF assms(2)]
proof
  assume "\<exists>cmd a x. admit_management sch st raw (Some actor) = Inr (cmd, a) \<and> management_body env a cmd st = Inr (x, st')"
  then obtain cmd a x where m: "admit_management sch st raw (Some actor) = Inr (cmd, a)" "management_body env a cmd st = Inr (x, st')"
    by blast
  have "toManagementActor (Some actor) (command_account cmd) (command_capability cmd) = Inr a" "check_scope st a cmd = Inr ()"
    using m(1) by (auto simp: admit_management_def result_simps)
  then show ?thesis using team_command_alone [OF m(2)] team_actor [OF assms(1)] assms(3,4) by blast
qed (simp add: other_teams_refl)

section \<open>The games of a team\<close>

definition game_team :: "club \<Rightarrow> club_game_row \<Rightarrow> ident option" where
  "game_team st g = map_option par_teamId (participation_of st (cgr_accountId g) (cgr_teamSeasonId g))"

lemma team_setup_actor:
  assumes "authorizeTarget now d st provider subject (Team_target accountId teamId) capability = Inr actor"
    and "toGameSetupActor (Some actor) a c = Inr sa"
  shows "sac_scope sa = On_TEAM teamId"
  using team_actor [OF assms(1), of a c sa] assms(2) by (simp add: toGameSetupActor_def toManagementActor_def)

lemma team_draft_alone:
  assumes "authorizeTarget now d st provider subject (Team_target accountId teamId) capability = Inr actor"
    and "serve_draft sch env conflict st raw (Some actor) = (r, st')"
  shows "case r of Inl e \<Rightarrow> st' = st
    | Inr g \<Rightarrow> cb_games st' = cb_games st @ [g] \<and> game_team st g = Some teamId \<and>
        other_teams_alone teamId st (st'\<lparr>cb_games := cb_games st\<rparr>)"
proof (cases r)
  case (Inl e)
  then show ?thesis using assms(2) by (auto simp: serve_draft_def transact_def Let_def split: sum.splits if_splits)
next
  case (Inr g)
  then obtain c a where admit: "admit_draft sch st raw (Some actor) = Inr (c, a)" and made: "createDraftGame env c a st = Inr (g, st')"
    using assms(2) by (auto simp: serve_draft_def transact_def Let_def split: sum.splits if_splits)
  have scope: "sac_scope a = On_TEAM teamId"
    using admit team_setup_actor [OF assms(1)] by (auto simp: admit_draft_def result_simps split: option.splits)
  obtain p scheduledAt audits where "participation_of st (cdg_accountId c) (cdg_managedTeamSeasonId c) = Some p" "par_teamId p = teamId"
    and g: "g = draft_game env c scheduledAt" and st': "st' = st\<lparr>cb_games := cb_games st @ [g], cb_audits := audits\<rparr>"
    using made scope by (auto simp: createDraftGame_def transaction_simps assertGameCreateScope_def Let_def audit_by_def dest!: write_club_audit_Inr)
  then have "game_team st g = Some teamId" by (simp add: game_team_def draft_game_def)
  then show ?thesis using Inr st' by (simp add: other_teams_alone_def roster_team_def)
qed

lemma team_setup_refused:
  assumes "authorizeTarget now d st provider subject (Team_target accountId teamId) capability = Inr actor"
  shows "snd (serve_save sch env hash abort st save (Some actor)) = st" and "snd (serve_mark env abort st mark (Some actor)) = st"
  using team_setup_actor [OF assms]
  by (auto simp: serve_save_def serve_mark_def admit_save_def admit_mark_def admit_setup_def assertGameScope_def result_simps split: sum.splits)

section \<open>The authority of a game\<close>

lemma game_scope_passes: "assertScope (On_GAME g) t s = Inr ()"
  by (simp add: assertScope_def)

text \<open>A coach of one game is a manager of every team of the account.\<close>

lemma game_coach_permitted:
  "aas_source x = From_ROLE \<Longrightarrow> aas_role x = Some COACH_MANAGER \<Longrightarrow> aas_scope x = At_GAME \<Longrightarrow> aas_gameId x = Some g \<Longrightarrow>
    rtg_gameId t = Some g \<Longrightarrow> assignmentPermits x ''team.manage'' t"
  by (simp add: assignmentPermits_def scope_matches_def coachManager_def)

lemma game_coach_renames:
  assumes "authorizeTarget now d st provider subject (Game_target accountId gameId) ''team.manage'' = Inr actor" and "gameId \<noteq> []"
    and "parse_update_team (Some c) = Inr c'" and "utm_accountId c' = accountId"
  shows "\<exists>a. sac_scope a = On_GAME gameId \<and> serve_management sch env conflict st (Update_team c) (Some actor) =
    (map_error Management_failure (fst (manage env conflict a (Update_team c') st)), snd (manage env conflict a (Update_team c') st))"
proof -
  obtain a where "toManagementActor (Some actor) accountId ''team.manage'' = Inr a" "sac_scope a = On_GAME gameId"
    using game_actor [OF assms(1,2)] by blast
  then have "admit_management sch st (Update_team c) (Some actor) = Inr (Update_team c', a)"
    using assms(3,4) by (simp add: admit_management_def parse_management_def Let_def game_scope_passes)
  then show ?thesis
    using \<open>sac_scope a = On_GAME gameId\<close> by (auto simp: serve_management_def split_beta Let_def)
qed

end
