(* ===== verification/Sample_Club.thy ===== *)
theory Sample_Club
  imports Club_Authority
begin

text \<open>
  An organisation whose commands, from an empty account on, make a game ready: one managed team with
  one player against an external one.
\<close>

definition club_actor_of :: "string \<Rightarrow> actor_scope \<Rightarrow> scoped_actor" where
  "club_actor_of capability scope = \<lparr>sac_accountId = ''a'', sac_actorId = ''u'', sac_actorKind = USER, sac_actorUserId = Some ''u'',
     sac_membershipId = Some ''m'', sac_capability = capability, sac_scope = scope, sac_authorizedAt = ''2026-03-01T12:00:00.000Z''\<rparr>"

definition club_env_of :: "string \<Rightarrow> club_env" where
  "club_env_of tag = \<lparr>cv_now = 1772366400000, cv_newId = (\<lambda>n. tag @ replicate n (CHR ''x'')), cv_collation = (\<lambda>s. s)\<rparr>"

definition club_input_of :: "string \<Rightarrow> string \<Rightarrow> actor_scope \<Rightarrow> club_command \<Rightarrow> club_input" where
  "club_input_of tag capability scope c =
     \<lparr>cin_env = club_env_of tag, cin_actor = club_actor_of capability scope, cin_hash = (\<lambda>_. ''digest''), cin_command = c\<rparr>"

definition empty_club :: club where
  "empty_club = \<lparr>cb_accounts = [''a''], cb_users = [''u''], cb_teams = [], cb_seasons = [], cb_participations = [], cb_players = [],
     cb_rosters = [], cb_rulesets = [\<lparr>rsr_id = ''rules'', rsr_accountId = ''a'', rsr_active = True, rsr_configuration =
       Some \<lparr>rcf_scheduledInnings = 7, rcf_maximumLineupSize = None, rcf_allowDefensiveOnly = None\<rparr>\<rparr>],
     cb_games = [], cb_setups = [], cb_audits = []\<rparr>"

definition sample_lineup :: "managed_slot list" where
  "sample_lineup = [\<lparr>sla_battingOrder = Some 1, sla_defensivePosition = Some PITCHER, sla_isStartingPitcher = True,
     mns_playerId = ''p'', mns_rosterEntryId = ''r''\<rparr>]"

definition sample_opponents :: "external_slot list" where
  "sample_opponents = [\<lparr>sla_battingOrder = Some 1, sla_defensivePosition = Some PITCHER, sla_isStartingPitcher = True,
     exs_displayName = ''Guest'', exs_jerseyNumber = Some ''7''\<rparr>]"

definition sample_save :: "managed_slot list \<Rightarrow> save_setup" where
  "sample_save lineup = \<lparr>ssr_accountId = ''a'', ssr_gameId = ''g'', ssr_expectedSetupRevision = 0, ssr_clientSubmissionId = ''k'',
     ssr_rulesetVersionId = ''rules'', ssr_scheduledAt = ''2026-04-01T18:00:00.000Z'', ssr_location = None, ssr_weatherCondition = None,
     ssr_temperatureF = Some 65, ssr_sides = [Managed_side HOME ''ts'' lineup, External_side AWAY ''Visitors'' sample_opponents]\<rparr>"

definition sample_mark :: mark_ready where
  "sample_mark = \<lparr>msr_accountId = ''a'', msr_gameId = ''g'', msr_setupSnapshotId = ''s'', msr_expectedSetupRevision = 1\<rparr>"

definition club_inputs :: "club_input list" where
  "club_inputs =
     [club_input_of ''t'' ''team.manage'' On_ACCOUNT (Manage (Create_team \<lparr>ctm_accountId = ''a'', ctm_displayName = ''Owls'', ctm_color = None\<rparr>)),
      club_input_of ''n'' ''season.manage'' On_ACCOUNT (Manage (Create_season \<lparr>csn_accountId = ''a'', csn_displayName = ''Spring'',
        csn_startsOn = Some ''2026-03-01'', csn_endsOn = None\<rparr>)),
      club_input_of ''ts'' ''season.manage'' On_ACCOUNT (Manage (Add_team_season \<lparr>apt_accountId = ''a'', apt_teamId = ''t'', apt_seasonId = ''n''\<rparr>)),
      club_input_of ''p'' ''roster.manage'' On_ACCOUNT (Manage (Create_player \<lparr>cpl_accountId = ''a'', cpl_displayName = ''Ada'',
        cpl_battingSide = None, cpl_throwingHand = None\<rparr>)),
      club_input_of ''r'' ''roster.manage'' On_ACCOUNT (Manage (Add_roster_period \<lparr>arp_accountId = ''a'', arp_teamSeasonId = ''ts'',
        arp_playerId = ''p'', arp_startsAt = ''2026-03-01T00:00:00.000Z'', arp_jerseyNumber = Some ''1'', arp_primaryPosition = None\<rparr>)),
      club_input_of ''g'' ''game.create'' On_ACCOUNT (Create_draft \<lparr>cdg_accountId = ''a'', cdg_seasonId = ''n'',
        cdg_managedTeamSeasonId = ''ts'', cdg_scheduledAt = ''2026-04-01T18:00:00.000Z'', cdg_location = None,
        cdg_weatherCondition = None, cdg_temperatureF = None\<rparr>)]"

text \<open>The rows that these commands write, so that a state is not computed again where it is used.\<close>

definition logged :: "string \<Rightarrow> string \<Rightarrow> string \<Rightarrow> ident \<Rightarrow> club_metadata \<Rightarrow> club_audit_row" where
  "logged action capability type i metadata = \<lparr>cau_accountId = ''a'', cau_actor = \<lparr>ac_kind = USER, ac_id = ''u'', ac_userId = Some ''u''\<rparr>,
     cau_action = action, cau_capability = capability, cau_targetType = type, cau_targetId = i, cau_metadata = metadata\<rparr>"

definition active_team :: "ident \<Rightarrow> string \<Rightarrow> team_row" where
  "active_team i name = \<lparr>tmr_id = i, tmr_accountId = ''a'', tmr_displayName = name, tmr_color = None, tmr_status = Team_ACTIVE,
     tmr_revision = 0, tmr_archivedAt = None\<rparr>"

definition drafted_game :: club_game_row where
  "drafted_game = \<lparr>cgr_id = ''g'', cgr_accountId = ''a'', cgr_seasonId = ''n'', cgr_teamSeasonId = ''ts'', cgr_status = None,
     cgr_revision = 0, cgr_setupRevision = 0, cgr_readySetupSnapshotId = None, cgr_scheduledAt = Some 1775066400000,
     cgr_location = None, cgr_weatherCondition = None, cgr_temperatureF = None\<rparr>"

definition guest_slot :: "ident \<Rightarrow> int \<Rightarrow> position \<Rightarrow> string \<Rightarrow> string option \<Rightarrow> slot_snapshot_row" where
  "guest_slot i n p name jersey = \<lparr>lsr_id = i, lsr_gameTeamSnapshotId = ''sxxx'', lsr_playerId = None, lsr_battingOrder = Some n,
     lsr_defensivePosition = Some p, lsr_isStartingPitcher = (p = PITCHER), lss_rosterEntryId = None, lss_displayName = name,
     lss_jerseyNumber = jersey\<rparr>"

definition setup_row :: "slot_snapshot_row list \<Rightarrow> setup_snapshot_row" where
  "setup_row guests = \<lparr>gsr_id = ''s'', gsr_accountId = ''a'', gsr_gameId = ''g'', gsr_setupRevision = 1,
     gsr_rulesetVersionId = ''rules'', gsr_scheduledAt = Some 1775066400000, gsr_location = None, gsr_weatherCondition = None,
     gsr_temperatureF = Some 65, gsr_scheduledInnings = 7, gsr_createdByActorId = Some ''u'', gsr_clientSubmissionId = Some ''k'',
     gsr_payloadHash = Some ''digest'', gsr_teamSnapshots =
       [\<lparr>tsr_id = ''sx'', tsr_side = HOME, gts_teamId = Some ''t'', gts_teamSeasonId = Some ''ts'', gts_displayName = ''Owls'',
          gts_isAccountTeam = True\<rparr>,
        \<lparr>tsr_id = ''sxxx'', tsr_side = AWAY, gts_teamId = None, gts_teamSeasonId = None, gts_displayName = ''Visitors'',
          gts_isAccountTeam = False\<rparr>],
     gsr_lineupSlots = \<lparr>lsr_id = ''sxx'', lsr_gameTeamSnapshotId = ''sx'', lsr_playerId = Some ''p'', lsr_battingOrder = Some 1,
       lsr_defensivePosition = Some PITCHER, lsr_isStartingPitcher = True, lss_rosterEntryId = Some ''r'', lss_displayName = ''Ada'',
       lss_jerseyNumber = Some ''1''\<rparr> # guests\<rparr>"

definition draft_club :: club where
  "draft_club = empty_club\<lparr>cb_teams := [active_team ''t'' ''Owls''],
     cb_seasons := [\<lparr>snr_id = ''n'', snr_accountId = ''a'', snr_displayName = ''Spring'', snr_startsOn = Some 1772323200000,
       snr_endsOn = None, snr_status = Season_DRAFT, snr_revision = 0, snr_archivedAt = None\<rparr>],
     cb_participations := [\<lparr>par_id = ''ts'', par_accountId = ''a'', par_teamId = ''t'', par_seasonId = ''n'', par_revision = 0,
       par_archivedAt = None\<rparr>],
     cb_players := [\<lparr>plr_id = ''p'', plr_accountId = ''a'', plr_displayName = ''Ada'', plr_battingSide = None,
       plr_throwingHand = None, plr_revision = 0, plr_archivedAt = None\<rparr>],
     cb_rosters := [\<lparr>rer_id = ''r'', rer_accountId = ''a'', rer_playerId = ''p'', rer_teamSeasonId = ''ts'',
       rer_jerseyNumber = Some ''1'', rer_primaryPosition = None, rer_status = Roster_ACTIVE, rer_startsAt = 1772323200000,
       rer_endsAt = None, rer_revision = 0, rer_archivedAt = None\<rparr>],
     cb_games := [drafted_game],
     cb_audits := [logged ''team.create'' ''team.manage'' ''Team'' ''t'' No_metadata,
       logged ''season.create'' ''season.manage'' ''Season'' ''n'' No_metadata,
       logged ''team_season.create'' ''season.manage'' ''TeamSeason'' ''ts'' No_metadata,
       logged ''player.create'' ''roster.manage'' ''Player'' ''p'' No_metadata,
       logged ''roster_period.start'' ''roster.manage'' ''RosterEntry'' ''r'' No_metadata,
       logged ''game.create_draft'' ''game.create'' ''Game'' ''g'' No_metadata]\<rparr>"

definition save_input :: club_input where
  "save_input = club_input_of ''s'' ''game.setup'' (On_GAME ''g'') (Save_setup (sample_save sample_lineup))"

definition mark_input :: club_input where
  "mark_input = club_input_of ''m'' ''game.setup'' (On_GAME ''g'') (Mark_ready sample_mark)"

definition ready_game :: club_game_row where
  "ready_game = drafted_game\<lparr>cgr_status := Some READY, cgr_setupRevision := 1, cgr_readySetupSnapshotId := Some ''s'',
     cgr_temperatureF := Some 65\<rparr>"

definition ready_club :: club where
  "ready_club = draft_club\<lparr>cb_games := [ready_game], cb_setups := [setup_row [guest_slot ''sxxxx'' 1 PITCHER ''Guest'' (Some ''7'')]],
     cb_audits := cb_audits draft_club @ [logged ''game.setup_revision.create'' ''game.setup'' ''Game'' ''g'' (Meta_setup ''s'' 1),
       logged ''game.setup_ready'' ''game.setup'' ''Game'' ''g'' (Meta_setup ''s'' 1)]\<rparr>"

lemma draft_steps: "fold_res club_step empty_club club_inputs = Inr draft_club"
  by code_simp

lemma ready_steps: "fold_res club_step draft_club [save_input, mark_input] = Inr ready_club"
  by code_simp

lemma inputs_distinct: "i \<in> set (club_inputs @ [save_input, mark_input]) \<Longrightarrow> sides_distinct i"
  by (auto simp: club_inputs_def save_input_def mark_input_def club_input_of_def sides_distinct_def sample_save_def)

lemma sample_new: "new_club empty_club"
  by (simp add: new_club_def empty_club_def)

lemma reaches_draft: "club_reaches empty_club draft_club"
  by (rule run_to_fold [OF draft_steps]) (simp add: inputs_distinct)

lemma reaches_ready: "club_reaches empty_club ready_club"
proof -
  have "club_reaches draft_club ready_club" by (rule run_to_fold [OF ready_steps]) (auto intro: inputs_distinct)
  then show ?thesis by (rule run_to_trans [OF reaches_draft])
qed

lemma ready_game_row: "ready_game \<in> set (cb_games ready_club)" "cgr_status ready_game = Some READY"
  by (simp_all add: ready_club_def ready_game_def)

text \<open>Other commands on the draft and on the game that is ready.\<close>

lemma further_reaches:
  assumes "club_reaches empty_club st" and "fold_res club_step st is = Inr st'" and "list_all sides_distinct is"
  shows "club_reaches empty_club st'"
proof -
  have "club_reaches st st'" by (rule run_to_fold [OF assms(2)]) (use assms(3) in \<open>simp add: list_all_iff\<close>)
  then show ?thesis by (rule run_to_trans [OF assms(1)])
qed

definition archive_inputs :: "club_input list" where
  "archive_inputs =
     [club_input_of ''o'' ''team.manage'' On_ACCOUNT (Manage (Create_team \<lparr>ctm_accountId = ''a'', ctm_displayName = ''Bats'', ctm_color = None\<rparr>)),
      club_input_of ''z'' ''team.manage'' On_ACCOUNT (Manage (Set_team_archived \<lparr>sar_accountId = ''a'', sar_id = ''o'', sar_expectedRevision = 0,
        sar_archived = True\<rparr>))]"

definition archived_club :: club where
  "archived_club = ready_club\<lparr>cb_teams := cb_teams ready_club @ [(active_team ''o'' ''Bats'')\<lparr>tmr_status := Team_ARCHIVED,
       tmr_revision := 1, tmr_archivedAt := Some 1772366400000\<rparr>],
     cb_audits := cb_audits ready_club @ [logged ''team.create'' ''team.manage'' ''Team'' ''o'' No_metadata,
       logged ''team.archive'' ''team.manage'' ''Team'' ''o'' No_metadata]\<rparr>"

definition jersey_command :: change_jersey where
  "jersey_command = \<lparr>cjr_accountId = ''a'', cjr_rosterEntryId = ''r'', cjr_expectedRevision = 0, cjr_effectiveAt = ''2026-03-15T00:00:00.000Z'',
     cjr_jerseyNumber = Some ''22'', cjr_primaryPosition = None\<rparr>"

definition jersey_result :: "management_failure + (management_result \<times> club)" where
  "jersey_result = changeJersey (club_env_of ''r2'') jersey_command (club_actor_of ''roster.manage'' On_ACCOUNT) draft_club"

text \<open>The visitors with two extra hitters, as the schema of a setup accepts them.\<close>

definition extra_hitter :: "int \<Rightarrow> string \<Rightarrow> external_slot" where
  "extra_hitter n name = \<lparr>sla_battingOrder = Some n, sla_defensivePosition = Some EXTRA_HITTER, sla_isStartingPitcher = False,
     exs_displayName = name, exs_jerseyNumber = None\<rparr>"

definition extra_save :: save_setup where
  "extra_save = (sample_save sample_lineup)\<lparr>ssr_sides := [Managed_side HOME ''ts'' sample_lineup,
     External_side AWAY ''Visitors'' (sample_opponents @ [extra_hitter 2 ''Bo'', extra_hitter 3 ''Cy''])]\<rparr>"

definition extra_input :: club_input where
  "extra_input = club_input_of ''s'' ''game.setup'' (On_GAME ''g'') (Save_setup extra_save)"

definition extra_setup :: setup_snapshot_row where
  "extra_setup = setup_row [guest_slot ''sxxxx'' 1 PITCHER ''Guest'' (Some ''7''), guest_slot ''sxxxxx'' 2 EXTRA_HITTER ''Bo'' None,
     guest_slot ''sxxxxxx'' 3 EXTRA_HITTER ''Cy'' None]"

definition extra_club :: club where
  "extra_club = draft_club\<lparr>cb_games := [drafted_game\<lparr>cgr_setupRevision := 1, cgr_temperatureF := Some 65\<rparr>], cb_setups := [extra_setup],
     cb_audits := cb_audits draft_club @ [logged ''game.setup_revision.create'' ''game.setup'' ''Game'' ''g'' (Meta_setup ''s'' 1)]\<rparr>"

lemma reaches_archived: "club_reaches empty_club archived_club"
  by (rule further_reaches [OF reaches_ready, of archive_inputs]) code_simp+

lemma reaches_extra: "club_reaches empty_club extra_club"
  by (rule further_reaches [OF reaches_draft, of "[extra_input]"]) code_simp+

lemma extra_accepted: "save_setup_ok (\<lambda>_. True) extra_save"
  by code_simp

lemma jersey_changed: "jersey_result = Inr (projr jersey_result)"
proof -
  have "is_ok jersey_result" by code_simp
  then show ?thesis by (metis is_ok_iff sum.sel(2))
qed

text \<open>A user whose only role is that of a coach, at one game, and another who manages a team.\<close>

definition sample_membership :: "ident \<Rightarrow> ident \<Rightarrow> membership_row" where
  "sample_membership m u = \<lparr>mbr_id = m, mbr_accountId = ''a'', mbr_userId = u, mbr_active = True\<rparr>"

definition sample_role :: "ident \<Rightarrow> ident \<Rightarrow> assignment_scope \<Rightarrow> ident option \<Rightarrow> ident option \<Rightarrow> role_row" where
  "sample_role i m sc team game = \<lparr>rlr_id = i, rlr_accountId = ''a'', rlr_membershipId = m, rlr_role = COACH_MANAGER, rlr_scope = sc,
     rlr_teamId = team, rlr_seasonId = None, rlr_gameId = game, rlr_revokedAt = None\<rparr>"

definition sample_directory :: directory where
  "sample_directory = \<lparr>dr_accounts = [\<lparr>acr_id = ''a'', acr_externalId = ''ext'', acr_slug = ''club'', acr_displayName = ''Club'', acr_active = True\<rparr>],
     dr_users = [\<lparr>usr_id = ''u'', usr_active = True\<rparr>, \<lparr>usr_id = ''v'', usr_active = True\<rparr>],
     dr_identities = [\<lparr>idr_provider = ''GITHUB'', idr_providerSubject = ''1'', idr_userId = ''u''\<rparr>,
       \<lparr>idr_provider = ''GITHUB'', idr_providerSubject = ''2'', idr_userId = ''v''\<rparr>],
     dr_memberships = [sample_membership ''m'' ''u'', sample_membership ''mv'' ''v''],
     dr_roles = [sample_role ''r1'' ''m'' At_GAME None (Some ''g''), sample_role ''r2'' ''mv'' At_TEAM (Some ''t'') None],
     dr_grants = []\<rparr>"

definition other_club :: club where
  "other_club = ready_club\<lparr>cb_teams := cb_teams ready_club @ [active_team ''o'' ''Bats''],
     cb_audits := cb_audits ready_club @ [logged ''team.create'' ''team.manage'' ''Team'' ''o'' No_metadata]\<rparr>"

lemma reaches_other: "club_reaches empty_club other_club"
  by (rule further_reaches [OF reaches_ready, of "take 1 archive_inputs"]) code_simp+

definition sample_schema :: schema_env where
  "sample_schema = \<lparr>sch_isoDatetime = (\<lambda>_. True), sch_isoDate = (\<lambda>_. True)\<rparr>"

definition rename_team :: "ident \<Rightarrow> update_team" where
  "rename_team i = \<lparr>utm_accountId = ''a'', utm_teamId = i, utm_expectedRevision = 0, utm_displayName = Some ''Mine'', utm_color = None\<rparr>"

definition game_coach :: "auth_error + trusted_actor" where
  "game_coach = authorizeTarget 0 sample_directory other_club ''GITHUB'' ''1'' (Game_target ''a'' ''g'') ''team.manage''"

definition team_coach :: "auth_error + trusted_actor" where
  "team_coach = authorizeTarget 0 sample_directory other_club ''GITHUB'' ''2'' (Team_target ''a'' ''t'') ''team.manage''"

lemma projr_ok: "is_ok x \<Longrightarrow> x = Inr (projr x)"
  unfolding is_ok_iff by (metis sum.sel(2))

lemma game_coach_ok: "game_coach = Inr (projr game_coach)"
  by (rule projr_ok) code_simp

lemma team_coach_ok: "team_coach = Inr (projr team_coach)"
  by (rule projr_ok) code_simp

end
