(* ===== verification/Spec2Isabelle.thy ===== *)
theory Spec2Isabelle
  imports Sample_Game Sample_League Sample_Store Sample_Club
begin

text \<open>
  A baseball statistics tracker and its fantasy leagues: the domain layer of the application under
  \<open>src/domain\<close>, the scoring desk under \<open>src/features/scoring\<close>, the repositories under \<open>src/server/data\<close> that
  store the games, the teams, the rosters and the setups, and the services and the authorization in front of the latter under
  \<open>src/server/app\<close> and \<open>src/server/auth\<close> (paths below \<open>src/\<close> of the application).  The first two are pure TypeScript; a
  repository is a function on the tables of the database.  A scored game is a log of events; an engine replays the
  log into game states, corrections rewrite the log by suppressing earlier events, and statistics
  are derived from the replayed states.  A fantasy league is a rules model, teams that own players,
  a log of transactions on that ownership, and the scores and standings that the statistics give.
  An accepted event is stored with its play, its audit and the events for other systems, in one transaction.
  An organisation has teams, seasons, players and periods on rosters; a game is drafted for a team in a season,
  gets a setup with two lineups, and is marked as ready, from where the engine takes over.

  How the code is modelled.  A function that may throw returns a sum, \<open>Inl\<close> the error that is thrown
  and \<open>Inr\<close> the value (\<open>and_then\<close>, \<open>require\<close>, \<open>fold_res\<close>, \<open>check_all\<close> of Prelude); the order of the
  guards is the order of the code, so that the error is that of the first guard that fails.  Objects
  are records, unions are datatypes, \<open>null\<close> is \<open>None\<close>, a \<open>Map\<close> or \<open>Record\<close> is a function or an association
  list where its order shows, and arrays are lists.  Numbers are integers; where the code asks
  \<open>Number.isSafeInteger\<close> the model asks \<open>safe_int\<close>, with the same error when it fails.  \<open>Object.freeze\<close> and
  copies have no counterpart in a language of values.  Strings are lists of 8-bit characters.  No function
  needs fuel: a loop runs over a list or, like the search for a time of delivery, for the number of rounds in the code, and \<open>greatestCommonDivisor\<close> and the digits of a number have
  a termination proof of their own (\<open>euclid_step\<close> counts the rounds of the former, at most 106 on safe integers).  An operation on raw input takes the parsed shape, or \<open>None\<close> (for
  events a constructor of its own) when the raw value does not have the shape of its schema; what the
  schemas demand beyond the shape is modelled.

  Code outside the repository is a parameter: the SHA-256 digests, each a function of the value whose
  canonical JSON is digested (\<open>fantasy_env\<close>, \<open>tx_env\<close>, \<open>scoring_env\<close>, \<open>store_env\<close>), zod's instant format (\<open>fe_instant\<close>), the clock of a time
  zone and what the database computes.  Where a theorem assumes something of them it is a hypothesis: \<open>platform_ok\<close> says that
  a digest has the form of a digest and that a printed instant is one, \<open>fixed_zone\<close> that a zone has no daylight saving time.  \<open>Date.parse\<close> and
  \<open>toISOString\<close> are modelled in Timestamps, on the ISO 8601 part of their grammar.

  Games.
    \<^item> Game_Events: \<open>events/game-events.ts\<close>, the bodies and envelopes with their refinements and the three
      schema versions.
    \<^item> Game_Engine: \<open>events/game-engine.ts\<close>, the initial state, movements of runners, outs and half
      innings, the lifecycle and \<open>applyBody\<close>.  Runner_Motion gives the movements in closed form and
      Game_Invariants what every body keeps.
    \<^item> Game_Replay: the resolution of corrections, the replay with its timeline, the evidence of the hashes
      and \<open>events/event-log.ts\<close>.
    \<^item> Statistic_Values, Game_Statistics, Season_Statistics: the three files of \<open>statistics/\<close>.
      Statistics_Ledger holds the books of a game against its replayed score.
    \<^item> Properties: reachable states are well formed and runners are conserved, forced and ordered as
      the rules of the game ask; the lifecycle refines an automaton; replay is independent of the
      order of its input, and a correction is undone by its reversal; the books balance and season totals are sums.

  The event store, which accepts events into the database.
    \<^item> Webhooks and Notifications: \<open>webhooks.ts\<close> and \<open>notifications.ts\<close>, payloads, signatures, preferences, messages, retries
      and the time of a delivery.
    \<^item> Event_Tables, Event_Outbox and Event_Store: \<open>game-event-repository.ts\<close> with \<open>enqueueWebhookEvent\<close> of
      \<open>webhook-repository.ts\<close>, the rows, the loading of setups and histories, the transaction that accepts an event and
      its recovery.  Correction_Store: \<open>correction-audit-replay.ts\<close> and the report of a correction.
    \<^item> Store_Replay and Store_Invariants: a history with a committed event verifies again (\<open>append_verified\<close>), the
      invariant of the tables (\<open>store_ok\<close>), what only grows (\<open>grows\<close>), and the soundness of every game (\<open>sound_store\<close>).
    \<^item> Properties: stored games stay verifiable, committed events read back, a revision is given once, a
      repeated submission is answered with its first event, and a preference that blocks its account.

  Organisations and the setup of games.
    \<^item> Club_Tables: the rows of \<open>schema.prisma\<close> and its migrations, what a transaction may do to them
      (\<open>insert_row\<close>) and how it ends (\<open>transact\<close>).
    \<^item> Club_Management, Club_Roster and Club_Periods: \<open>domain/management/team-season-roster.ts\<close> and
      \<open>team-season-roster-repository.ts\<close>, the fourteen commands on teams, seasons, participations, players and periods
      on rosters, and the paged lists.
    \<^item> Setup_Commands, Setup_Store and Setup_Ready: \<open>domain/setup/game-setup.ts\<close> and \<open>game-setup-repository.ts\<close>, drafts,
      revisions of a setup, the mark of readiness (\<open>check_ready\<close>) and the queries; \<open>club_step\<close> is the step of all commands.
    \<^item> Club_Changes: \<open>club_change\<close>, what a command may do to the tables, stated without the commands, and
      the refinement of every command to a sequence of such changes.  Club_Invariants and Setup_Invariants: the
      invariant \<open>club_ok\<close>, kept by the changes, and with it by the commands (\<open>club_reaches\<close>, interpretation \<open>organisation\<close>).
      Setup_Replay: a setup is accepted by the engine whatever the order in which its rows are read.
    \<^item> Club_Contracts: reading all pages (\<open>all_teams\<close>), membership of a team over time (\<open>on_team\<close>), and repeated positions.
    \<^item> Authorization: \<open>src/server/auth\<close>, roles, grants, targets, the decision \<open>authorizeTarget\<close> and the actors made of it.
      Club_Service: \<open>team-season-roster-service.ts\<close> and \<open>game-setup-service.ts\<close>, which parse a command, make its actor,
      check its scope and call the repository.  Club_Authority: what a decision rests on and what an
      actor of one team can change.
    \<^item> Properties: ready games stay eligible and can be played, closing respects dependants, periods on rosters are disjoint, a
      change of jersey keeps membership, pages show every team once, authority is live and fits,
      a team authority leaves the other teams alone, and two defects, of repeated positions and of the authority of a game.

  The scoring desk, which shows a scorer what a draft of a play will do before the engine judges it.
    \<^item> Scoring_Preview: \<open>plate-appearance.ts\<close>, \<open>runner-interactions.ts\<close> and \<open>live-lineup-changes.ts\<close>, the drafts
      with their defaults and the previews with their errors.  Preview_Refinement compares the previews with the
      engine; its locale \<open>desk\<close> says what a preview has to share with a body of the engine for the state it shows
      to be the state the engine reaches, and is interpreted on plate appearances (\<open>plate\<close>) and runner plays (\<open>play\<close>).
    \<^item> Scoring_Corrections: \<open>scoring-corrections.ts\<close>, the list of recent plays, the audit of corrections, the body of a
      correction and its preview.
    \<^item> Properties: an accepted preview is the state of the engine, the drafts the desk proposes are
      accepted, the replacement of a judgment keeps every later state, and two drafts that the
      desk lets pass and the engine refuses.

  Fantasy leagues.
    \<^item> Fantasy_Rules: \<open>fantasy-rules.ts\<close>, scoring models, their digest and lifecycle, and scores.
    \<^item> League_Delegation: \<open>league-delegation.ts\<close>, the decision whether a member of an organisation may act on
      an account.
    \<^item> Fantasy_Domain: \<open>fantasy-domain.ts\<close>, authority, leagues, teams, player entries, roster snapshots.
    \<^item> Fantasy_Transactions: \<open>fantasy-transactions.ts\<close>, the seven commands on a league's state, the batch of
      waiver claims and \<open>applyFantasyTransaction\<close>.  Transaction_Invariants keeps the rosters and the ownership in
      agreement and refines the commands to moves on a ledger (\<open>ledger_step\<close>) that maps a player to his
      owner; Transaction_History follows the records, the audits and the states a league reaches.
    \<^item> Fantasy_Scoring: \<open>fantasy-scoring.ts\<close>, the results of a period, matchups and standings.
    \<^item> Properties: the reachable states of a league are consistent, commands refine the ledger, a
      repeated command is answered with its first outcome, a denial changes no holdings, a batch
      settles every due claim, and results and tables add up.

  Contracts.  The locale \<open>reducer\<close> of Prelude is the contract of a state machine whose step may fail: a
  step from a state of the invariant ends in one.  It is interpreted on the game engine
  (\<open>counts\<close>, \<open>lineups\<close>, \<open>game\<close>, \<open>retirement\<close>), on replay (\<open>replayed\<close>, \<open>scored\<close>), on the versions of a scoring
  model (\<open>model_history\<close>), on the transactions of a league (\<open>transactions\<close>), on the submissions to a store (\<open>stores\<close>) and on the
  commands of an organisation (\<open>organisation\<close>); \<open>stat_invariant\<close> is the contract of a property of the counters.  The sample
  theories (Sample_Game, Sample_Desk, Sample_League, Sample_Store, Sample_Club) hold the games, leagues, stores and organisations
  on which the properties are exercised.

  What the invariants speak of.  The invariants of the engine hold along one run of \<open>applyBody\<close>, or of a replay, which applies
  the events that no correction suppresses; an accepted correction replays the log without its targets.  The
  invariants of an organisation hold along the commands of its two repositories, where a game is a draft or ready; the
  later statuses of a game, which the event store writes, are not combined with them.  The number \<open>n\<close> of \<open>all_teams\<close> is the
  number of pages that are read at most.

  Bounds of the model.  The comparison of submission times in a waiver batch reads canonical instants,
  which the schemas have required, so that a time that does not parse does not arise; a
  \<open>RangeError\<close> of \<open>toISOString\<close> on an instant outside the range of dates counts as an input its
  schema refuses.  The JSON that the digests digest is not modelled: the parameters are
  applied to the values themselves.

  The tables of the store are lists of rows with the unique constraints of \<open>schema.prisma\<close>; of the foreign keys, that
  of the user of an actor.  A serializable transaction runs alone on the store it finds, or is aborted, in which case the store
  is what others have left (argument \<open>abort\<close>; an aborted command of management only reports the conflict, argument \<open>conflict\<close>); the report of a correction is loaded right after its commit.  A revision
  must fit 32 bits.  The local minute of a time zone is asked of whole milliseconds, and dates that are printed
  and read back have years of four digits (\<open>ordinary_times\<close>).

  An organisation is the value \<open>club\<close> of its tables, with the keys, foreign keys and exclusion constraints that its commands rely on.  The
  clock, new ids and the collation of the database are \<open>club_env\<close>.

  Not modelled: the React components, the HTTP routes, the other repositories and adapters, which are input and
  output around the layer, and the other files of the domain layer, which the manifest lists with
  the reason of each.
\<close>

section \<open>The engine\<close>



text \<open>
  An accepted play that forces a runner forces him one base ahead, and every base behind him down to the
  batter is vacated by a forced movement too.
\<close>

theorem force_chain_is_complete:
  assumes "applyMovements s ms = Inr r" and "m \<in> set ms" and "mv_forced m" and "mv_from m = From_base b" and "mv_to m \<noteq> To_OUT"
  shows "destination_rank (mv_to m) = Some (Suc (base_rank b)) \<and>
    (\<forall>k<base_rank b. \<exists>m'\<in>set ms. mv_forced m' \<and> origin_rank (mv_from m') = k \<and> destination_rank (mv_to m') = Some (Suc k))"
  using assms forced_from_third [of s ms m b] by (auto simp: applyMovements_Inr_iff)

theorem force_chain_is_complete_witness:
  "\<exists>r. applyMovements runner_on_first walk_moves = Inr r \<and> (\<exists>m'\<in>set walk_moves. mv_forced m' \<and> origin_rank (mv_from m') = 0)"
proof -
  let ?m = "safe_move ''v1'' (From_base FIRST) (To_base SECOND) True ''h1''"
  obtain r where r: "applyMovements runner_on_first walk_moves = Inr r"
    by (cases "applyMovements runner_on_first walk_moves") (simp_all add: eval walk_moves_def cong: weak_congs)
  have "?m \<in> set walk_moves" "mv_forced ?m" "mv_from ?m = From_base FIRST" "mv_to ?m \<noteq> To_OUT"
    by (simp_all add: walk_moves_def safe_move_def)
  from force_chain_is_complete [OF r this] r show ?thesis by (auto simp del: origin_rank.simps)
qed

text \<open>
  C2: When no player is on two bases and no movement from the plate is of a player who already stands on a base, two runners
  who are both on base before and after the accepted play keep their order.
\<close>

theorem runners_never_pass:
  assumes "applyMovements s ms = Inr (s', outs)" and "batter_not_on_base s ms" and "bases_unique s"
    and "gs_bases s b = Some x" and "gs_bases s b' = Some y" and "base_rank b < base_rank b'"
    and "gs_bases s' c = Some x" and "gs_bases s' c' = Some y"
  shows "base_rank c < base_rank c'"
  using assms runners_keep_order [of s ms b x b' y c c'] by (auto simp: applyMovements_Inr_iff)

theorem runners_never_pass_witness:
  "\<exists>s' outs. applyMovements first_and_second [safe_move ''v1'' (From_base SECOND) (To_base THIRD) False ''h1''] = Inr (s', outs) \<and>
     base_rank FIRST < base_rank THIRD"
proof -
  let ?ms = "[safe_move ''v1'' (From_base SECOND) (To_base THIRD) False ''h1'']"
  obtain r where r: "applyMovements first_and_second ?ms = Inr r"
    by (cases "applyMovements first_and_second ?ms") (simp_all add: eval first_and_second_def cong: weak_congs)
  obtain s' outs where rs: "r = (s', outs)" by fastforce
  have "s' = move_runners ?ms first_and_second" using r rs by (simp add: applyMovements_Inr_iff)
  then have after: "gs_bases s' FIRST = Some ''v2''" "gs_bases s' THIRD = Some ''v1''"
    by (simp_all add: eval first_and_second_def cong: weak_congs)
  have "base_rank FIRST < base_rank THIRD"
    by (rule runners_never_pass [OF r [unfolded rs] _ _ _ _ _ after, where b = FIRST and b' = SECOND])
      (auto simp: batter_not_on_base_def bases_unique_def first_and_second_def safe_move_def split: if_splits)
  with r rs show ?thesis by blast
qed

text \<open>
  C3: Runners are neither lost, invented nor exchanged by a play, when no player is on two bases before it and no movement
  from the plate is of a player who stands on a base.  A player is on a base after the play exactly if his movement
  names this base, or if he stood there and has no movement; nobody has two movements, and a movement
  from a base is of the runner who stood there.  Those on base before and those who moved from the plate
  are, in number, those on base after, the outs, and those who reached home.
\<close>

theorem runners_are_conserved:
  assumes "applyMovements s ms = Inr (s', outs)" and "batter_not_on_base s ms" and "bases_unique s"
  shows "(gs_bases s' b = Some x \<longleftrightarrow>
      (\<exists>m\<in>set ms. mv_runnerId m = x \<and> mv_to m = To_base b) \<or> (gs_bases s b = Some x \<and> (\<forall>m\<in>set ms. mv_runnerId m \<noteq> x))) \<and>
    distinct (map mv_runnerId ms) \<and>
    (\<forall>m\<in>set ms. \<forall>b. mv_from m = From_base b \<longrightarrow> gs_bases s b = Some (mv_runnerId m)) \<and>
    int (length (occupied_runners (gs_bases s))) + int (length (batter_movements ms)) =
      int (length (occupied_runners (gs_bases s'))) + outs + int (length (home_movements ms))"
proof -
  have acc: "play_accepted s ms" and s': "s' = move_runners ms s" using assms(1) by (auto simp: applyMovements_Inr_iff)
  have "distinct (map mv_runnerId ms)" using acc by (simp add: play_accepted_def movements_unique_def)
  then show ?thesis
    using base_after_play [OF acc assms(2,3), of b x] play_accepted_origin [OF acc] runner_conservation [OF assms(1)] s'
    by blast
qed

theorem runners_are_conserved_witness:
  "\<exists>s' outs. applyMovements runner_on_first homer_moves = Inr (s', outs) \<and> gs_bases s' FIRST \<noteq> Some ''v1'' \<and>
    int (length (occupied_runners (gs_bases runner_on_first))) + 1 =
    int (length (occupied_runners (gs_bases s'))) + outs + 2"
proof -
  obtain r where r: "applyMovements runner_on_first homer_moves = Inr r"
    by (cases "applyMovements runner_on_first homer_moves") (simp_all add: eval cong: weak_congs)
  obtain s' outs where rs: "r = (s', outs)" by fastforce
  have "batter_not_on_base runner_on_first homer_moves" "bases_unique runner_on_first"
    by (auto simp: batter_not_on_base_def bases_unique_def eval split: if_splits cong: weak_congs)
  note ok = runners_are_conserved [OF r [unfolded rs] this]
  have l: "length (batter_movements homer_moves) = 1" "length (home_movements homer_moves) = 2"
    by (simp_all add: eval home_movements_def)
  have "(\<exists>m\<in>set homer_moves. mv_runnerId m = ''v1'') \<and> (\<forall>m\<in>set homer_moves. mv_to m = To_HOME)"
    by (simp add: eval)
  with ok [of FIRST "''v1''"] l r rs show ?thesis by auto
qed

text \<open>
  C4: No run scores on a play whose third out is a force out, whatever its movements say.
\<close>

theorem forced_third_out_scores_no_run:
  assumes "apply_play s p = Inr t" and "play_movements s p = Some ms"
    and "m \<in> set ms" and "mv_to m = To_OUT" and "mv_out m = Some o'" and "out_outNumber o' = 3" and "out_force o'"
  shows "gs_score t = gs_score s"
  using motion_score [OF assms(1,2)] forced_third_out_scoreless [OF motion_inversion(2) [OF assms(1,2)] assms(3-7)] by simp

theorem forced_third_out_scores_no_run_witness:
  "\<exists>t. apply_play two_outs force_out = Inr t \<and> gs_score t = gs_score two_outs"
proof -
  obtain t where t: "apply_play two_outs force_out = Inr t"
    by (cases "apply_play two_outs force_out") (simp_all add: eval two_outs_def force_out_def cong: weak_congs)
  from forced_third_out_scores_no_run [OF t, of _ "out_move ''v1'' (From_base FIRST) 3 True ''h1''"] t
  show ?thesis by (auto simp: force_out_def sample_pa_def out_move_def)
qed

text \<open>
  A play is judged by its set of movements: accepted in one order, it is accepted in every other with
  the same resulting state and outs.
\<close>

theorem movement_order_is_irrelevant:
  assumes "mset ms = mset ms'" and "applyMovements s ms = Inr r"
  shows "applyMovements s ms' = Inr r"
  using assms by (rule applyMovements_order_irrelevant)

theorem movement_order_is_irrelevant_witness:
  "\<exists>r. applyMovements runner_on_first homer_moves = Inr r \<and> applyMovements runner_on_first (rev homer_moves) = Inr r"
proof -
  obtain r where r: "applyMovements runner_on_first homer_moves = Inr r"
    by (cases "applyMovements runner_on_first homer_moves") (simp_all add: eval cong: weak_congs)
  then show ?thesis using movement_order_is_irrelevant [of homer_moves "rev homer_moves" runner_on_first r] by simp
qed

text \<open>
  C5: A player who has taken part in the game and has left the lineup does not return in any run of the engine from there on,
  whatever bodies it applies (\<open>applyBody\<close>).  The body of a correction is one of them and changes no more than the status;
  the correction itself takes effect in another run, the replay of the log without its targets, and a player
  whose substitution it suppresses has not left the lineup in that run.
\<close>

theorem players_never_return:
  assumes "lineups_wf s" and "x \<in> set (gs_participatedPlayers s sd)" and "\<not> active_player (gs_lineups s sd) x"
    and "run_to applyBody (\<lambda>_ _. True) s t"
  shows "\<not> active_player (gs_lineups t sd) x"
  using retirement.run_inv [OF assms(4), of sd x] assms(1-3) by (simp add: retired_def)

theorem players_never_return_witness:
  "\<exists>t. applyBody substituted (GameSuspended ''RAIN'') = Inr t \<and>
     \<not> active_player (gs_lineups t HOME) ''h3''"
proof -
  have sub: "applyBody runner_on_first pinch = Inr substituted"
    unfolding substituted_def by (cases "applyBody runner_on_first pinch") (simp_all add: eval pinch_def cong: weak_congs)
  have wf: "lineups_wf substituted"
    using body_lineups_wf [OF sub] replay_run [OF replay_of_sample sample_named] by simp
  obtain t where t: "applyBody substituted (GameSuspended ''RAIN'') = Inr t"
    by (cases "applyBody substituted (GameSuspended ''RAIN'')") (simp_all add: substituted_def pinch_def eval cong: weak_congs)
  have "run_to applyBody (\<lambda>_ _. True) substituted t"
    using run_step [of applyBody "\<lambda>_ _. True" substituted substituted "GameSuspended ''RAIN''" t] t by (simp add: run_start)
  from players_never_return [OF wf _ _ this, of "''h3''" HOME] t show ?thesis
    by (simp add: substituted_def pinch_def eval active_player_def cong: weak_congs)
qed

text \<open>
  C6: The engine takes back no run and no half inning when it applies the body of an event; a single body advances play
  by at most one half inning and leaves at most two out.  This is a statement on one run: the body of a correction changes the status,
  and the runs and half innings of its targets go because the log is replayed without them.
\<close>

theorem score_and_clock_never_go_back:
  assumes "counts_wf s" and "applyBody s b = Inr t"
  shows "gs_score s sd \<le> gs_score t sd \<and> half_inning_clock s \<le> half_inning_clock t \<and>
    half_inning_clock t \<le> half_inning_clock s + 1 \<and> 0 \<le> gs_outs t \<and> gs_outs t \<le> 2"
  using body_score_and_clock [OF assms(2,1)] body_counts_wf [OF assms(2,1)] by (simp add: counts_wf_def)

theorem score_and_clock_never_go_back_witness:
  "\<exists>t. applyBody runner_on_first (sample_play ''v2'' HOME_RUN homer_moves) = Inr t \<and> gs_score runner_on_first AWAY \<le> gs_score t AWAY"
proof -
  let ?b = "sample_play ''v2'' HOME_RUN homer_moves"
  obtain t where t: "applyBody runner_on_first ?b = Inr t"
    by (cases "applyBody runner_on_first ?b") (simp_all add: eval cong: weak_congs)
  from score_and_clock_never_go_back [OF _ t, of AWAY] replay_run [OF replay_of_sample sample_named] t show ?thesis by blast
qed


text \<open>
  No event is accepted in a game that was abandoned or cancelled.
\<close>

theorem abandoned_and_cancelled_are_final:
  "\<not> (gs_status s \<in> {ABANDONED, game_status.CANCELLED} \<and> is_ok (applyBody s b))"
  using body_lifecycle [of s b] by (auto simp: is_ok_iff)

text \<open>
  A body of the schemas is refused with one of the errors of the domain and never by an exception of
  the language; the internal error arises only when the batting side has no active batter.
\<close>

theorem schema_valid_bodies_fail_with_domain_errors:
  assumes "body_ok b" and "applyBody s b = Inl e"
  shows "e \<in> {INVALID_LIFECYCLE_TRANSITION, INVALID_BASEBALL_TRANSITION, INVALID_LINEUP, INVALID_RUNNER_MOVEMENT,
      INVALID_PITCHER} \<or> (e = INTERNAL_INVARIANT_FAILURE \<and> activeBatters s (battingSide s) = [])"
  using body_errors [OF assms(2,1)] by (simp add: play_errors_def)

theorem schema_valid_bodies_fail_with_domain_errors_witness:
  "applyBody sample_initial GameVerified = Inl INVALID_LIFECYCLE_TRANSITION \<and> INVALID_LIFECYCLE_TRANSITION \<noteq> JS_TYPE_ERROR"
proof -
  have e: "applyBody sample_initial GameVerified = Inl INVALID_LIFECYCLE_TRANSITION"
    by (simp add: eval cong: weak_congs)
  from schema_valid_bodies_fail_with_domain_errors [OF _ e] e show ?thesis by simp
qed

text \<open>
  A side may be set up with a single active batter, and then a single followed by a double puts this
  player on first and on second base at once.
\<close>

theorem a_short_batting_order_puts_one_player_on_two_bases:
  "\<exists>s. replayEffective short_order (take 2 sample_events @ [sample_event ''e3'' 3 (sample_play ''v1'' DOUBLE [double_move])]) = Inr s \<and>
     gs_bases s FIRST = Some ''v1'' \<and> gs_bases s SECOND = Some ''v1''"
  by (cases "replayEffective short_order (take 2 sample_events @ [sample_event ''e3'' 3 (sample_play ''v1'' DOUBLE [double_move])])")
    (simp_all add: short_order_def double_move_def eval cong: weak_congs)

section \<open>The event log\<close>

text \<open>
  C8: Replaying a log gives the same states whatever the order in which its events are supplied.
\<close>

theorem replay_ignores_input_order:
  assumes "replayEffectiveWithTimeline setup es = Inr rs" and "mset es = mset es'"
  shows "replayEffectiveWithTimeline setup es' = Inr rs"
  using assms by (rule timeline_order_irrelevant)

theorem replay_ignores_input_order_witness:
  "\<exists>rs. replayEffectiveWithTimeline sample_setup sample_events = Inr rs \<and>
     replayEffectiveWithTimeline sample_setup (rev sample_events) = Inr rs"
proof -
  obtain rs where rs: "replayEffectiveWithTimeline sample_setup sample_events = Inr rs"
    by (cases "replayEffectiveWithTimeline sample_setup sample_events") (simp_all add: eval cong: weak_congs)
  then show ?thesis using replay_ignores_input_order [OF rs, of "rev sample_events"] by simp
qed

text \<open>
  C9: A log that replays numbers its events and their accepted revisions from 1 without a gap, all for the
  game, account and setup revision of the snapshot; the final state carries the last of them.
\<close>

theorem replayed_history_is_contiguous:
  assumes "replayEffective setup es = Inr s"
  shows "map ev_sequence (by_sequence es) = map (\<lambda>i. int i + 1) [0..<length es] \<and>
    map ev_acceptedRevision (by_sequence es) = map (\<lambda>i. int i + 1) [0..<length es] \<and>
    gs_sourceRevision s = int (length es) \<and> gs_lastSequence s = int (length es) \<and>
    (\<forall>e\<in>set es. ev_gameId e = su_gameId setup \<and> ev_accountId e = su_accountId setup \<and> ev_setupRevision e = su_setupRevision setup)"
proof -
  obtain rs where "replayEffectiveWithTimeline setup es = Inr rs" "s = fst rs"
    using assms by (auto simp: replayEffective_def result_simps)
  from replay_contiguous [OF this(1)] this(2) show ?thesis by (auto simp: event_identity_def)
qed

theorem replayed_history_is_contiguous_witness:
  "gs_sourceRevision runner_on_first = 2 \<and> map ev_sequence (by_sequence (take 2 sample_events)) = [1, 2]"
  using replayed_history_is_contiguous [OF replay_of_sample] by (simp add: sample_events_def upt_rec)

text \<open>
  C10: Replaying a log with one more event that is not a correction is replaying the log and applying this
  event to the result: what the server stores on acceptance and what a replay finds agree.
\<close>

theorem appending_an_event_applies_it:
  assumes "replayEffectiveWithTimeline setup (es @ [e]) = Inr (t, steps)"
    and "\<forall>x\<in>set es. ev_sequence x < ev_sequence e" and "\<not> is_correction (ev_body e)"
  shows "\<exists>s. replayEffectiveWithTimeline setup es = Inr (s, butlast steps) \<and> applyEvent h False s e = Inr t"
  using timeline_snoc [OF assms(1) _ assms(3), of h] assms(2) by blast

theorem appending_an_event_applies_it_witness:
  "\<exists>t steps s. replayEffectiveWithTimeline sample_setup sample_events = Inr (t, steps) \<and>
     replayEffectiveWithTimeline sample_setup (take 2 sample_events) = Inr (s, butlast steps) \<and>
     applyEvent sample_hash False s (last sample_events) = Inr t"
proof -
  obtain t steps where ts: "replayEffectiveWithTimeline sample_setup sample_events = Inr (t, steps)"
    by (cases "replayEffectiveWithTimeline sample_setup sample_events") (auto simp: eval cong: weak_congs)
  have split: "sample_events = take 2 sample_events @ [last sample_events]" by (simp add: sample_events_def)
  have "\<exists>s. replayEffectiveWithTimeline sample_setup (take 2 sample_events) = Inr (s, butlast steps) \<and>
     applyEvent sample_hash False s (last sample_events) = Inr t"
    by (rule appending_an_event_applies_it) (use ts split in \<open>simp_all add: sample_events_def sample_event_def sample_play_def\<close>)
  with ts show ?thesis by blast
qed

text \<open>
  C11: A correction that reverses the correction just before it restores the replay without either: the
  states of the older events are the same ones, and the final state differs in the revision and, when the
  game had ended, in being marked corrected.
\<close>

theorem reversing_a_correction_restores_the_history:
  assumes "replayEffectiveWithTimeline setup (es @ [c1, c2]) = Inr (t, steps)"
    and "\<forall>x\<in>set es. ev_sequence x < ev_sequence c1" and "ev_sequence c1 < ev_sequence c2"
    and "is_correction (ev_body c1)" and "is_correction (ev_body c2)" and "reverses c2 c1"
  shows "\<exists>s. replayEffectiveWithTimeline setup es = Inr (s, butlast steps) \<and>
    t = advance_revision c2 (if gs_status s = IN_PROGRESS then s else s\<lparr>gs_status := CORRECTED\<rparr>)"
proof -
  obtain s body u where s: "replayEffectiveWithTimeline setup es = Inr (s, butlast steps)"
    and body: "parseEventBody (Shaped (ev_body c2)) (ev_schemaVersion c2) = Inr body"
    and u: "applyBody (advance_revision c1 s) body = Inr u" "t = advance_revision c2 u"
    using timeline_reversal [OF assms(1) _ assms(3-6)] assms(2) by blast
  have "is_correction body" using parseEventBody_Inr(2) [OF body] assms(5) by simp
  then obtain c where "body = CorrectionApplied c" by (cases body) auto
  with s u show ?thesis by (auto simp: advance_revision_def split: if_splits)
qed

theorem reversing_a_correction_restores_the_history_witness:
  "\<exists>t steps s. replayEffectiveWithTimeline sample_setup (take 2 sample_events @ [correction_event, reversal_event]) = Inr (t, steps) \<and>
     replayEffectiveWithTimeline sample_setup (take 2 sample_events) = Inr (s, butlast steps)"
proof -
  let ?es = "take 2 sample_events @ [correction_event, reversal_event]"
  obtain t steps where ts: "replayEffectiveWithTimeline sample_setup ?es = Inr (t, steps)"
    by (cases "replayEffectiveWithTimeline sample_setup ?es") (auto simp: eval cong: weak_congs)
  have "reverses reversal_event correction_event"
    by (simp add: reverses_def correction_of_def eval cong: weak_congs)
  with reversing_a_correction_restores_the_history [OF ts] ts show ?thesis
    by (fastforce simp: sample_events_def correction_event_def reversal_event_def sample_event_def)
qed

text \<open>
  C12: An event is suppressed if and only if a correction that is itself not suppressed targets it.
\<close>

theorem suppressed_events_form_a_kernel:
  assumes "resolveCorrections es = Inr r"
  shows "i \<in> rn_suppressed r \<longleftrightarrow>
    (\<exists>c\<in>set es. is_correction (ev_body c) \<and> ev_id c \<notin> rn_suppressed r \<and> i \<in> set (targets_of c))"
  using resolution_kernel(1) [OF assms] by (rule kernelD)

theorem suppressed_events_form_a_kernel_witness:
  "\<exists>r. resolveCorrections (take 2 sample_events @ [correction_event, reversal_event]) = Inr r \<and>
     ''c1'' \<in> rn_suppressed r \<and> ''e2'' \<notin> rn_suppressed r"
proof -
  let ?es = "take 2 sample_events @ [correction_event, reversal_event]"
  obtain r where r: "resolveCorrections ?es = Inr r"
    by (cases "resolveCorrections ?es") (simp_all add: eval cong: weak_congs)
  have ev: "set ?es = {sample_event ''e1'' 1 GameStarted, sample_event ''e2'' 2 (sample_play ''v1'' SINGLE [single_move]),
      correction_event, reversal_event}" by (simp add: sample_events_def insert_commute)
  have t: "targets_of correction_event = [''e2'']" "targets_of reversal_event = [''c1'']"
    by (simp_all add: targets_of_def correction_of_def eval cong: weak_congs)
  have ids: "ev_id correction_event = ''c1''" "ev_id reversal_event = ''c2''" "is_correction (ev_body correction_event)"
    "is_correction (ev_body reversal_event)" "\<not> is_correction (ev_body (sample_event i n GameStarted))"
    "\<not> is_correction (ev_body (sample_event i n (sample_play ''v1'' SINGLE [single_move])))" for i n
    by (simp_all add: correction_event_def reversal_event_def sample_event_def sample_play_def)
  note K = suppressed_events_form_a_kernel [OF r]
  have c2: "''c2'' \<notin> rn_suppressed r" unfolding K [of "''c2''"] ev by (simp add: t ids)
  have c1: "''c1'' \<in> rn_suppressed r" unfolding K [of "''c1''"] ev by (simp add: t ids c2)
  have "''e2'' \<notin> rn_suppressed r" unfolding K [of "''e2''"] ev by (simp add: t ids c1)
  with r c1 show ?thesis by blast
qed

text \<open>
  What an effective correction targets is an event of the same game with a smaller sequence number.
\<close>

theorem corrections_reach_back_only:
  assumes "resolveCorrections es = Inr r" and "c \<in> set es" and "is_correction (ev_body c)" and "ev_id c \<notin> rn_suppressed r"
    and "i \<in> set (targets_of c)"
  shows "\<exists>x\<in>set es. ev_id x = i \<and> ev_sequence x < ev_sequence c \<and> ev_gameId x = ev_gameId c"
  using resolution_kernel(2) [OF assms(1)] assms(2-5) unfolding prior_only_def prior_target_def by (metis by_id_SomeD)

theorem corrections_reach_back_only_witness:
  "\<exists>r. resolveCorrections (take 2 sample_events @ [correction_event]) = Inr r \<and>
     (\<exists>x\<in>set (take 2 sample_events @ [correction_event]). ev_id x = ''e2'' \<and> ev_sequence x < 3)"
proof -
  let ?es = "take 2 sample_events @ [correction_event]"
  obtain r where r: "resolveCorrections ?es = Inr r" and c: "ev_id correction_event \<notin> rn_suppressed r"
    by (cases "resolveCorrections ?es") (simp_all add: eval cong: weak_congs)
  have t: "targets_of correction_event = [''e2'']"
    by (simp add: targets_of_def correction_of_def eval cong: weak_congs)
  have s: "is_correction (ev_body correction_event)" "ev_sequence correction_event = 3"
    by (simp_all add: correction_event_def sample_event_def)
  from corrections_reach_back_only [OF r _ s(1) c, of "''e2''"] r t s show ?thesis by auto
qed

text \<open>
  C13: A log that replays with its evidence verified is a hash chain: each event starts from the state hash
  the preceding one recorded, and the last one records the hash of the final state.
\<close>

theorem verified_replay_is_a_hash_chain:
  assumes "replayGame h True setup es = Inr (s, m)" and "es \<noteq> []"
  shows "(\<forall>i. Suc i < length es \<longrightarrow> ev_postStateHash (by_sequence es ! i) = ev_preStateHash (by_sequence es ! Suc i)) \<and>
    ev_postStateHash (last (by_sequence es)) = h s \<and> rm_finalSourceRevision m = gs_sourceRevision s"
  using evidence_chain [OF assms(1)] replayGame_inversion(3) [OF assms(1)] assms(2) by blast

theorem verified_replay_is_a_hash_chain_witness:
  "\<exists>s m. replayGame sample_hash True sample_setup sample_events = Inr (s, m) \<and>
     ev_postStateHash (last (by_sequence sample_events)) = sample_hash s"
proof -
  obtain s m where r: "replayGame sample_hash True sample_setup sample_events = Inr (s, m)"
    by (cases "replayGame sample_hash True sample_setup sample_events") (auto simp: eval upt_rec cong: weak_congs)
  from verified_replay_is_a_hash_chain [OF r] r show ?thesis by (auto simp: sample_events_def)
qed

text \<open>
  Parsing is a normal form: what a schema accepts it accepts again, unchanged.
\<close>

theorem parsing_is_idempotent:
  assumes "parseEventBody raw v = Inr b"
  shows "parseEventBody (Shaped b) v = Inr b"
  using assms by (rule parse_twice)

theorem parsing_is_idempotent_witness:
  "parseEventBody (Shaped (GameSuspended '' RAIN '')) 3 = Inr (GameSuspended ''RAIN'') \<and>
   parseEventBody (Shaped (GameSuspended ''RAIN'')) 3 = Inr (GameSuspended ''RAIN'')"
proof -
  have p: "parseEventBody (Shaped (GameSuspended '' RAIN '')) 3 = Inr (GameSuspended ''RAIN'')" by code_simp
  from p parsing_is_idempotent [OF p] show ?thesis by blast
qed

text \<open>
  The schema versions differ only in the judgment of runs: under version 1 no run is classified, under
  2 and 3 every run is, and what version 2 accepts version 3 accepts alike.
\<close>

theorem schema_versions_judge_runs_consistently:
  assumes "parseEventBody raw v = Inr b" and "v \<in> set supported_versions"
  shows "list_all (\<lambda>c. (c = None) = (v = 1)) (run_classifications b) \<and> (v = 2 \<longrightarrow> parseEventBody raw 3 = Inr b)"
  using parse_classifications [OF assms] parse_version_2_3 [of raw b] assms(1) by (auto simp: event_schema_version_def)

theorem schema_versions_judge_runs_consistently_witness:
  "parseEventBody (Shaped (sample_play ''v2'' HOME_RUN homer_moves)) 3 = Inr (sample_play ''v2'' HOME_RUN homer_moves) \<and>
   list_all (\<lambda>c. c \<noteq> None) (run_classifications (sample_play ''v2'' HOME_RUN homer_moves))"
proof -
  let ?b = "sample_play ''v2'' HOME_RUN homer_moves"
  have p: "parseEventBody (Shaped (sample_play ''v2'' HOME_RUN homer_moves)) 2 = Inr ?b" by code_simp
  from schema_versions_judge_runs_consistently [OF p] show ?thesis
    by (simp add: supported_versions_def)
qed

section \<open>The event store\<close>

text \<open>
  C14: However many commands are accepted, every game of a sound store goes on to load, replay with the hashes of
  all its events, and end at the revision and the status that its row shows.
\<close>

theorem stored_games_stay_verifiable:
  assumes "sound_store env gs st" and "run_to (accept_step env) well_formed_submission st st'"
  shows "sound_store env gs st'"
  by (rule stores.run_inv [OF assms(2,1)])

theorem stored_games_stay_verifiable_witness: "is_ok (check_stored_game sample_store_env started_store ''a'' ''g'')"
  using stored_games_stay_verifiable [OF sample_sound started_run] by (simp add: sound_store_def)

text \<open>
  C15: The row of a committed event reads back as the event that was returned, its time in the form of the
  database; it is the last event of its game, whose history verifies with it, one revision on.
\<close>

theorem committed_events_read_back:
  assumes "store_ok st" and "platform_ok env" and "command_ids_ok c" and "ordinary_times c now"
    and "acceptInternal env abort st c corr now = (Inr r, st')" and "\<not> are_idempotentReplay r"
  shows "\<exists>su h s m. loadSetup env st' (acm_accountId c) (acm_gameId c) (acm_setupSnapshotId c) = Inr su \<and>
    map_res (mapSourceEvent env st (su_setupRevision su))
      (stored_rows st (acm_accountId c) (acm_gameId c) (acm_setupSnapshotId c)) = Inr h \<and>
    map_res (mapSourceEvent env st' (su_setupRevision su))
      (stored_rows st' (acm_accountId c) (acm_gameId c) (acm_setupSnapshotId c)) = Inr (h @ [stored_form (are_event r)]) \<and>
    replayGame (sv_stateHash env) True su (h @ [stored_form (are_event r)]) = Inr (s, m) \<and>
    check_stored_game env st' (acm_accountId c) (acm_gameId c) = Inr s \<and> gs_sourceRevision s = acm_expectedRevision c + 1"
  by (rule committed_history [OF assms]) blast

theorem committed_events_read_back_witness:
  "\<exists>(su :: accepted_setup) h. map_res (mapSourceEvent sample_store_env started_store (su_setupRevision su)) (stored_rows started_store ''a'' ''g'' ''s'') =
     Inr (h @ [stored_form (are_event (result_in (sample_accept sample_store start_command)))])"
proof -
  have ids: "acm_accountId start_command = ''a''" "acm_gameId start_command = ''g''" "acm_setupSnapshotId start_command = ''s''"
    by code_simp+
  show ?thesis
    using committed_events_read_back [OF sample_store_ok sample_platform start_well_formed started [THEN conjunct1] started [THEN conjunct2]]
    unfolding ids sample_accept_def by blast
qed

text \<open>
  C16: No update is lost: once a command for a game is committed, whatever is accepted afterwards for that game
  expected a later revision.
\<close>

theorem a_revision_is_given_once:
  assumes "acceptInternal env None st c corr now = (Inr r, st1)" and "\<not> are_idempotentReplay r"
    and "run_to (accept_step env) adm st1 st2"
    and "acceptInternal env None st2 d corr' now' = (Inr r', st3)" and "\<not> are_idempotentReplay r'"
    and "acm_accountId d = acm_accountId c" and "acm_gameId d = acm_gameId c"
  shows "acm_expectedRevision c < acm_expectedRevision d"
  by (rule revision_given_once [OF assms])

theorem a_revision_is_given_once_witness: "acm_expectedRevision start_command < acm_expectedRevision forfeit_command"
proof -
  have f: "acceptInternal sample_store_env None started_store forfeit_command None (Some 1775066400000) =
      (Inr (result_in (sample_accept started_store forfeit_command)), snd (sample_accept started_store forfeit_command))"
    "\<not> are_idempotentReplay (result_in (sample_accept started_store forfeit_command))"
    using accepted_result [OF forfeit_accepted] by (simp_all add: sample_accept_def)
  show ?thesis
    by (rule a_revision_is_given_once [OF started [THEN conjunct1] started [THEN conjunct2] run_start f])
      (simp_all add: start_command_def forfeit_command_def sample_submission_def)
qed

text \<open>
  A submission that is sent again, at any later time or after a conflict with others, is answered with
  the event it was given the first time, and changes nothing.
\<close>

theorem resubmissions_return_the_first_event:
  assumes "store_ok st" and "platform_ok env" and "command_ids_ok c" and "ordinary_times c now"
    and "acceptInternal env None st c corr now = (Inr r, st1)" and "\<not> are_idempotentReplay r"
    and "corr \<noteq> None \<longrightarrow> (\<exists>x. acm_body c = Shaped (CorrectionApplied x))" and "run_to (accept_step env) adm st1 st2"
  shows "acceptInternal env None st2 c corr now' = (Inr (repeated (stored_form (are_event r))), st2) \<and>
    acceptInternal env (Some st2) st0 c corr now' = (Inr (repeated (stored_form (are_event r))), st2)"
  using resubmission [OF assms] by blast

theorem resubmissions_return_the_first_event_witness:
  "\<exists>e. acceptInternal sample_store_env None started_store start_command None None = (Inr (repeated e), started_store)"
  using resubmissions_return_the_first_event [OF sample_store_ok sample_platform start_well_formed
    started [THEN conjunct1] started [THEN conjunct2] _ run_start] by blast

text \<open>
  A notification preference of the account with a daily digest inside its quiet hours, which its schema accepts, keeps
  every game of the account from being completed, verified or corrected: the transaction fails with the
  notification and leaves the store as it was.
\<close>

theorem a_quiet_digest_blocks_the_account:
  assumes "p \<in> set (db_preferences st)" and "blocking_preference (acm_accountId c) n p"
    and "parseEventBody (acm_body c) event_schema_version = Inr body" and "announced body = Some n"
    and "acceptInternal env None st c corr now = (res, st')"
  shows "st' = st \<and> (\<forall>r. res = Inr r \<longrightarrow> are_idempotentReplay r)"
proof (cases rule: accept_cases [OF assms(5)])
  case 1
  then show ?thesis using blocked_event [OF assms(1-4)] assms(5) by blast
next
  case (2 r)
  then show ?thesis using blocked_event [OF assms(1-4)] assms(5) by blast
qed

theorem a_quiet_digest_blocks_the_account_witness:
  "accepted (sample_accept started_store forfeit_command) \<and>
   snd (sample_accept (started_store\<lparr>db_preferences := [early_digest]\<rparr>) forfeit_command) =
     started_store\<lparr>db_preferences := [early_digest]\<rparr>"
proof -
  let ?st = "started_store\<lparr>db_preferences := [early_digest]\<rparr>"
  obtain res st' where res: "sample_accept ?st forfeit_command = (res, st')" by fastforce
  have b: "blocking_preference (acm_accountId forfeit_command) GAME_COMPLETED early_digest" by code_simp
  have p: "parseEventBody (acm_body forfeit_command) event_schema_version = Inr (GameCompleted ''RAIN'' FORFEIT)" by code_simp
  have "st' = ?st"
    using a_quiet_digest_blocks_the_account [OF _ b p _ res [unfolded sample_accept_def]] by simp
  with res forfeit_accepted show ?thesis by simp
qed

text \<open>
  In a time zone of a fixed offset, a preference that its schema accepts has a time of delivery exactly when
  its digest is not inside its quiet hours; the time is allowed and less than a day after the event.
\<close>

theorem deliveries_have_a_time_within_a_day:
  assumes "parsePreference env raw = Some p" and "ne_valid_zone env ''UTC''" and "fixed_zone env (nd_timeZone (np_settings p)) offset"
    and "t + 86400000 \<le> max_time"
  shows "(\<exists>u. notificationDeliveryAt env t (np_settings p) = Inr u \<and> t \<le> u \<and> u < t + 86400000 \<and>
      delivery_allowed env (np_settings p) u) \<longleftrightarrow> \<not> quiet_digest (np_settings p)"
proof
  assume "\<exists>u. notificationDeliveryAt env t (np_settings p) = Inr u \<and> t \<le> u \<and> u < t + 86400000 \<and> delivery_allowed env (np_settings p) u"
  then show "\<not> quiet_digest (np_settings p)" using quiet_digest_never_allowed by blast
next
  note s = parsed_schedule [OF assms(1,2)]
  assume "\<not> quiet_digest (np_settings p)"
  from delivery_time [OF assms(3) _ _ this assms(4)] s
  show "\<exists>u. notificationDeliveryAt env t (np_settings p) = Inr u \<and> t \<le> u \<and> u < t + 86400000 \<and> delivery_allowed env (np_settings p) u"
    by metis
qed

theorem deliveries_have_a_time_within_a_day_witness:
  "\<exists>u. notificationDeliveryAt sample_clock 0 (np_settings (read_preference night_digest)) = Inr u \<and> u < 86400000"
proof -
  have p: "parsePreference sample_clock (Some night_digest) = Some (read_preference night_digest)"
  proof -
    have "given_zone_ok sample_clock (map_option trim (pi_timeZone night_digest))"
      "preference_ok sample_clock (read_preference night_digest)" by code_simp+
    then show ?thesis by (simp add: parsePreference_def Let_def)
  qed
  have z: "ne_valid_zone sample_clock ''UTC''" "fixed_zone sample_clock (nd_timeZone (np_settings (read_preference night_digest))) 0"
    by (simp_all add: sample_clock_def fixed_zone_def)
  have "\<not> quiet_digest (np_settings (read_preference night_digest))" by code_simp
  then show ?thesis
    using deliveries_have_a_time_within_a_day [OF p z, of 0] by (auto simp: max_time_def)
qed

section \<open>The organisation\<close>

text \<open>
  C17: A game that is ready stays ready in fact, whatever commands follow: the team, the season, the players, their
  periods on the roster and the ruleset of its setup pass every check of the mark again, in any order of the rows.
\<close>
theorem ready_games_stay_eligible:
  assumes "new_club st0" and "club_reaches st0 st" and "g \<in> set (cb_games st)" and "cgr_status g = Some READY"
  shows "\<exists>s. cgr_readySetupSnapshotId g = Some (gsr_id s) \<and> snapshot_of st (cgr_accountId g) (cgr_id g) (gsr_id s) = Some s \<and>
    (\<forall>env. check_ready env \<lparr>msr_accountId = cgr_accountId g, msr_gameId = cgr_id g, msr_setupSnapshotId = gsr_id s,
       msr_expectedSetupRevision = cgr_setupRevision g\<rparr> (g\<lparr>cgr_status := None\<rparr>) st = Inr (ordered_snapshot env s))"
  by (rule ready_again [OF reached_ok [OF assms(1,2)] assms(3,4)]) blast

theorem ready_games_stay_eligible_witness: "\<exists>s :: setup_snapshot_row. cgr_readySetupSnapshotId ready_game = Some (gsr_id s)"
  using ready_games_stay_eligible [OF sample_new reaches_ready ready_game_row] by blast

text \<open>
  C18: A game that is ready can be played: the setup that the event log loads for it is the setup that was marked, and the
  engine accepts it, in whatever order the database sorts the identifiers.
\<close>
theorem ready_games_can_be_played:
  assumes "new_club st0" and "club_reaches st0 st" and "g \<in> set (cb_games st)" and "cgr_status g = Some READY"
  shows "\<exists>s home away state. s \<in> set (cb_setups st) \<and> cgr_readySetupSnapshotId g = Some (gsr_id s) \<and>
    mapSetupSnapshot senv (stored_setup s) (cgr_accountId g) (cgr_id g) = Inr (setup_with s home away) \<and>
    createInitialState (setup_with s home away) = Inr state"
proof -
  have ok: "club_ok st" by (rule reached_ok [OF assms(1,2)])
  obtain s where s: "snapshot_of st (cgr_accountId g) (cgr_id g) (gsr_id s) = Some s" "cgr_readySetupSnapshotId g = Some (gsr_id s)"
    "snapshot_linked st s" "\<And>env. is_ok (replayable (ordered_snapshot env s))"
    using ready_again [OF ok assms(3,4)] by metis
  have row: "s \<in> set (cb_setups st)" "gsr_accountId s = cgr_accountId g" "gsr_gameId s = cgr_id g"
    using s(1) by (simp_all add: lookup_iff(7) [OF club_okD(1) [OF ok]])
  have "distinct (map tsr_side (gsr_teamSnapshots s))" using s(3) by (simp add: snapshot_linked_def)
  then show ?thesis
    using replayable_loads [OF s(4), of senv] row s(2) by (auto simp: is_ok_iff)
qed

theorem ready_games_can_be_played_witness:
  "\<exists>s home away. mapSetupSnapshot sample_store_env (stored_setup s) ''a'' ''g'' = Inr (setup_with s home away)"
proof -
  have "cgr_accountId ready_game = ''a''" "cgr_id ready_game = ''g''" unfolding ready_game_def by code_simp+
  then show ?thesis
    using ready_games_can_be_played [OF sample_new reaches_ready ready_game_row, of sample_store_env] by metis
qed

text \<open>
  C19: As long as only the commands of management and setup write the tables, so that every game is a draft or ready to be played,
  nothing is archived or closed over the head of what depends on it: an archived team has no live participation, an archived
  participation no active period and no draft or ready game, an archived player no active period, an archived season no
  active period, and a season that is not open (completed or archived) no draft or ready game.
\<close>
theorem closing_respects_dependants:
  assumes "new_club st0" and "club_reaches st0 st"
  shows "(\<forall>t\<in>set (cb_teams st). tmr_status t = Team_ARCHIVED \<longrightarrow>
      (\<forall>p\<in>set (cb_participations st). \<not> live_participation (tmr_accountId t) (tmr_id t) p)) \<and>
    (\<forall>p\<in>set (cb_participations st). par_archivedAt p \<noteq> None \<longrightarrow>
      (\<forall>r\<in>set (cb_rosters st). \<not> active_period_in (par_accountId p) (par_id p) r) \<and>
      (\<forall>g\<in>set (cb_games st). \<not> operational_game_of (par_accountId p) (par_id p) g)) \<and>
    (\<forall>q\<in>set (cb_players st). plr_archivedAt q \<noteq> None \<longrightarrow>
      (\<forall>r\<in>set (cb_rosters st). \<not> active_period_of (plr_accountId q) (plr_id q) r)) \<and>
    (\<forall>s\<in>set (cb_seasons st). (snr_status s = Season_ARCHIVED \<longrightarrow> \<not> season_has_rosters st (snr_accountId s) (snr_id s)) \<and>
      (\<not> open_season (snr_status s) \<longrightarrow> \<not> season_has_games st (snr_accountId s) (snr_id s)))"
  using club_okD(5-8) [OF reached_ok [OF assms]]
  by (simp add: team_closed_def participation_closed_def player_closed_def season_closed_def)

theorem closing_respects_dependants_witness:
  "list_ex (\<lambda>t. tmr_id t = ''o'' \<and> tmr_status t = Team_ARCHIVED) (cb_teams archived_club) \<and>
   list_all (\<lambda>p. \<not> live_participation ''a'' ''o'' p) (cb_participations archived_club)"
proof -
  have row: "list_ex (\<lambda>t. tmr_id t = ''o'' \<and> tmr_accountId t = ''a'' \<and> tmr_status t = Team_ARCHIVED) (cb_teams archived_club)" by code_simp
  then obtain t where "t \<in> set (cb_teams archived_club)" "tmr_id t = ''o''" "tmr_accountId t = ''a''" "tmr_status t = Team_ARCHIVED"
    by (auto simp: list_ex_iff)
  then show ?thesis using closing_respects_dependants [OF sample_new reaches_archived] by (auto simp: list_ex_iff list_all_iff)
qed

text \<open>
  C20: A player is on the roster of a team in a season at most once at any instant, whatever periods were added, ended
  or split; only a period without an end is active, and every period has a positive length.
\<close>
theorem roster_periods_are_disjoint:
  assumes "new_club st0" and "club_reaches st0 st" and "r \<in> set (cb_rosters st)"
  shows "(rer_status r = Roster_ACTIVE \<longleftrightarrow> rer_endsAt r = None) \<and> before_end (rer_startsAt r) (rer_endsAt r) \<and>
    (\<forall>s\<in>set (cb_rosters st). \<forall>t. same_membership r s \<longrightarrow> covers r t \<longrightarrow> covers s t \<longrightarrow> r = s)"
  using club_okD(9) [OF reached_ok [OF assms(1,2)]] assms(3) one_period_at_a_time
  by (auto simp: periods_ok_def period_ok_def)

theorem roster_periods_are_disjoint_witness:
  "list_all (\<lambda>r. rer_status r = Roster_ACTIVE \<longleftrightarrow> rer_endsAt r = None) (cb_rosters ready_club)"
  using roster_periods_are_disjoint [OF sample_new reaches_ready] by (auto simp: list_all_iff)

text \<open>
  C21: A change of the jersey does not change when anybody is on a team: it splits a period at the effective time and
  leaves no gap and no overlap.
\<close>
theorem jersey_changes_keep_membership:
  assumes "new_club st0" and "club_reaches st0 st" and "changeJersey env c a st = Inr (x, st')"
  shows "on_team st' accountId teamSeasonId playerId t = on_team st accountId teamSeasonId playerId t"
  by (rule jersey_keeps_team [OF club_okD(1) [OF reached_ok [OF assms(1,2)]] assms(3)])

theorem jersey_changes_keep_membership_witness:
  "on_team (snd (projr jersey_result)) ''a'' ''ts'' ''p'' 1773532800000 \<and> \<not> on_team (snd (projr jersey_result)) ''a'' ''ts'' ''p'' 0"
proof -
  have "changeJersey (club_env_of ''r2'') jersey_command (club_actor_of ''roster.manage'' On_ACCOUNT) draft_club =
      Inr (fst (projr jersey_result), snd (projr jersey_result))" using jersey_changed by (simp add: jersey_result_def)
  note same = jersey_changes_keep_membership [OF sample_new reaches_draft this]
  have "on_team draft_club ''a'' ''ts'' ''p'' 1773532800000" "\<not> on_team draft_club ''a'' ''ts'' ''p'' 0" by code_simp+
  then show ?thesis unfolding same by simp
qed

text \<open>
  C22: Reading the teams page by page from the first page on, with a limit that the schema accepts and the cursor of
  each page for the next, shows every team in the view of the actor once, in the order of their names, when the
  collation of the database gives different keys to different names.  It takes no more pages than
  hold the teams in view, and one page if there are none.
\<close>
theorem pages_show_every_team_once:
  assumes "new_club st0" and "club_reaches st0 st" and "inj (cv_collation env)" and "limit_ok (npg_limit p)" and "npg_after p = None"
    and "length (filter (team_in_view st a (npg_accountId p)) (cb_teams st)) \<le> n * nat (page_limit (npg_limit p))" and "1 \<le> n"
  shows "all_teams n env p a st = sort_key (\<lambda>r. name_key env (tmr_displayName r) (tmr_id r))
      (filter (team_in_view st a (npg_accountId p)) (cb_teams st)) \<and>
    distinct (all_teams n env p a st)"
proof -
  have k: "keys_ok st" by (rule club_okD(1) [OF reached_ok [OF assms(1,2)]])
  have "distinct (cb_teams st)" using k by (auto simp: keys_ok_def distinct_map)
  then show ?thesis using all_teams_shown [OF k assms(3-7)] by simp
qed

theorem pages_show_every_team_once_witness:
  "map tmr_displayName (all_teams 2 (club_env_of ''q'') \<lparr>npg_accountId = ''a'', npg_limit = Some 1, npg_after = None\<rparr>
     (club_actor_of ''team.view'' On_ACCOUNT) archived_club) = [''Bats'', ''Owls'']"
proof -
  let ?p = "\<lparr>npg_accountId = ''a'', npg_limit = Some 1, npg_after = None\<rparr>"
  let ?a = "club_actor_of ''team.view'' On_ACCOUNT"
  have "length (filter (team_in_view archived_club ?a (npg_accountId ?p)) (cb_teams archived_club)) = 2" by code_simp
  moreover have "inj (cv_collation (club_env_of ''q''))" "limit_ok (npg_limit ?p)" "npg_after ?p = None" "page_limit (npg_limit ?p) = 1"
    by (simp_all add: club_env_of_def limit_ok_def page_limit_def or_else_def)
  ultimately have shown: "all_teams 2 (club_env_of ''q'') ?p ?a archived_club =
      sort_key (\<lambda>r. name_key (club_env_of ''q'') (tmr_displayName r) (tmr_id r))
        (filter (team_in_view archived_club ?a (npg_accountId ?p)) (cb_teams archived_club))"
    using pages_show_every_team_once [OF sample_new reaches_archived, of "club_env_of ''q''" ?p ?a 2]
    by (simp del: all_teams.simps)
  show ?thesis unfolding shown by code_simp
qed

text \<open>
  C23: A setup with two batters of one side in the same position, also the two extra hitters that the schema of a setup accepts,
  is stored but never marked as ready.
\<close>
theorem repeated_positions_are_never_ready:
  assumes "new_club st0" and "club_reaches st0 st" and "s \<in> set (cb_setups st)" and "l1 \<in> set (gsr_lineupSlots s)"
    and "l2 \<in> set (gsr_lineupSlots s)" and "lsr_id l1 \<noteq> lsr_id l2" and "lsr_gameTeamSnapshotId l1 = lsr_gameTeamSnapshotId l2"
    and "lsr_defensivePosition l1 = Some p" and "lsr_defensivePosition l2 = Some p" and "msr_setupSnapshotId c = gsr_id s"
  shows "\<not> is_ok (check_ready env c game st)"
proof
  have ok: "club_ok st" by (rule reached_ok [OF assms(1,2)])
  assume "is_ok (check_ready env c game st)"
  then obtain s' where "snapshot_of st (msr_accountId c) (msr_gameId c) (msr_setupSnapshotId c) = Some s'"
    and "is_ok (replayable (ordered_snapshot env s'))"
    unfolding is_ok_iff check_ready_iff [OF club_okD(1,11) [OF ok]] by (auto simp: is_ok_iff)
  moreover from this have "s' = s"
    using assms(3,10) club_okD(1) [OF ok] by (auto simp: lookup_iff(7) [OF club_okD(1) [OF ok]] keys_ok_def dest: distinct_key_eqD)
  ultimately show False
    using repeated_position_never_replays [OF _ assms(4-9)] assms(3) club_okD(11) [OF ok] by (auto simp: setups_ok_def)
qed

theorem repeated_positions_are_never_ready_witness:
  "save_setup_ok (\<lambda>_. True) extra_save \<and> \<not> is_ok (check_ready (club_env_of ''m'') sample_mark (hd (cb_games extra_club)) extra_club)"
proof -
  define l where "l = gsr_lineupSlots extra_setup"
  have s: "extra_setup \<in> set (cb_setups extra_club)" unfolding extra_setup_def by code_simp
  have len: "length l = 4" unfolding l_def extra_setup_def by code_simp
  have mem: "l ! 2 \<in> set (gsr_lineupSlots extra_setup)" "l ! 3 \<in> set (gsr_lineupSlots extra_setup)"
    using len nth_mem [of 2 l] nth_mem [of 3 l] by (simp_all add: l_def)
  have ids: "lsr_id (l ! 2) \<noteq> lsr_id (l ! 3)" unfolding l_def extra_setup_def by code_simp
  have team: "lsr_gameTeamSnapshotId (l ! 2) = lsr_gameTeamSnapshotId (l ! 3)" unfolding l_def extra_setup_def by code_simp
  have pos: "lsr_defensivePosition (l ! 2) = Some EXTRA_HITTER" "lsr_defensivePosition (l ! 3) = Some EXTRA_HITTER"
    unfolding l_def extra_setup_def by code_simp+
  have c: "msr_setupSnapshotId sample_mark = gsr_id extra_setup" unfolding extra_setup_def by code_simp
  show ?thesis
    using repeated_positions_are_never_ready [OF sample_new reaches_extra s mem ids team pos c] extra_accepted by blast
qed

text \<open>
  C24: An authority that is granted is live and fits: the user and the account are active, the membership is active, and every
  assignment that the actor refers to is one of this membership, not revoked, which permits the capability at the target.
\<close>
theorem granted_authority_is_live_and_fits:
  assumes "authorizeTarget now d st provider subject target capability = Inr actor"
  shows "\<exists>m\<in>set (dr_memberships d). mbr_active m \<and> mbr_userId m = tra_appUserId actor \<and> mbr_accountId m = target_account target \<and>
      user_active d (tra_appUserId actor) \<and> account_active d (target_account target) \<and> tra_membershipId actor = Some (mbr_id m) \<and>
      tra_authorityReferenceIds actor \<noteq> [] \<and>
      (\<forall>i\<in>set (tra_authorityReferenceIds actor). \<exists>x\<in>set (membership_assignments d m). aas_id x = i \<and>
        assignmentPermits x capability (tra_target actor))"
  by (rule decision_sound [OF assms])

theorem granted_authority_is_live_and_fits_witness:
  "\<exists>m\<in>set (dr_memberships sample_directory). mbr_active m \<and> tra_membershipId (projr team_coach) = Some (mbr_id m)"
  using granted_authority_is_live_and_fits [OF team_coach_ok [unfolded team_coach_def]] unfolding team_coach_def by blast

text \<open>
  C25: Whatever an actor sends whose authority was decided for one team: the commands of management leave the other teams, their
  participations and their rosters, the seasons, the players, the games and the setups as they were; a draft of a game is made
  for a participation of this team or not at all, and changes nothing else of these; a setup of a game is
  neither saved nor marked as ready.
\<close>
theorem a_team_authority_leaves_other_teams_alone:
  assumes "new_club st0" and "club_reaches st0 st"
    and "authorizeTarget now d st provider subject (Team_target accountId teamId) capability = Inr actor"
  shows "other_teams_alone teamId st (snd (serve_management sch env conflict st command (Some actor))) \<and>
    (case serve_draft sch env conflict st draft (Some actor) of
       (Inl e, st') \<Rightarrow> st' = st
     | (Inr g, st') \<Rightarrow> cb_games st' = cb_games st @ [g] \<and> game_team st g = Some teamId \<and>
         other_teams_alone teamId st (st'\<lparr>cb_games := cb_games st\<rparr>)) \<and>
    snd (serve_save sch env hash abort st save (Some actor)) = st \<and> snd (serve_mark env abort st mark (Some actor)) = st"
proof -
  obtain r st' where d: "serve_draft sch env conflict st draft (Some actor) = (r, st')" by fastforce
  show ?thesis
    using team_service_alone [OF assms(3) prod.collapse [symmetric]] club_okD(1,3) [OF reached_ok [OF assms(1,2)]]
      team_draft_alone [OF assms(3) d] team_setup_refused [OF assms(3)]
    unfolding d by (simp split: sum.splits)
qed

theorem a_team_authority_leaves_other_teams_alone_witness:
  "other_teams_alone ''t'' other_club (snd (serve_management sample_schema (club_env_of ''q'') False other_club
     (Update_team (rename_team ''t'')) (Some (projr team_coach))))"
  unfolding team_coach_def
  by (rule conjunct1 [OF a_team_authority_leaves_other_teams_alone [OF sample_new reaches_other team_coach_ok [unfolded team_coach_def]]])

text \<open>
  C26: The authority for one game is not confined to it: an actor whose only role is that of a coach at one game passes the checks of the
  service for every team of the account, so that his command to change any team is carried out as if he had no narrower scope.
\<close>
theorem a_game_authority_manages_every_team:
  assumes "authorizeTarget now d st provider subject (Game_target accountId gameId) ''team.manage'' = Inr actor" and "gameId \<noteq> []"
    and "parse_update_team (Some c) = Inr c'" and "utm_accountId c' = accountId"
  shows "\<exists>a. sac_scope a = On_GAME gameId \<and> serve_management sch env conflict st (Update_team c) (Some actor) =
    (map_error Management_failure (fst (manage env conflict a (Update_team c') st)), snd (manage env conflict a (Update_team c') st))"
  by (rule game_coach_renames [OF assms])

theorem a_game_authority_manages_every_team_witness:
  "list_ex (\<lambda>t. tmr_id t = ''o'' \<and> tmr_displayName t = ''Mine'') (cb_teams (snd (serve_management sample_schema (club_env_of ''q'') False
     other_club (Update_team (rename_team ''o'')) (Some (projr game_coach))))) \<and>
   (\<exists>a c. sac_scope a = On_GAME ''g'' \<and> snd (serve_management sample_schema (club_env_of ''q'') False
     other_club (Update_team (rename_team ''o'')) (Some (projr game_coach))) =
     snd (manage (club_env_of ''q'') False a (Update_team c) other_club))"
proof -
  let ?c = "projr (parse_update_team (Some (rename_team ''o'')))"
  have "is_ok (parse_update_team (Some (rename_team ''o'')))" by code_simp
  then have "parse_update_team (Some (rename_team ''o'')) = Inr ?c" by (rule projr_ok)
  moreover have "utm_accountId ?c = ''a''" by code_simp
  ultimately have "\<exists>a. sac_scope a = On_GAME ''g'' \<and> snd (serve_management sample_schema (club_env_of ''q'') False
     other_club (Update_team (rename_team ''o'')) (Some (projr game_coach))) =
     snd (manage (club_env_of ''q'') False a (Update_team ?c) other_club)"
    using a_game_authority_manages_every_team [OF game_coach_ok [unfolded game_coach_def], where c = "rename_team ''o''" and c' = ?c
      and sch = sample_schema and env = "club_env_of ''q''" and conflict = False]
    unfolding game_coach_def by (metis list.distinct(1) snd_conv)
  moreover have "list_ex (\<lambda>t. tmr_id t = ''o'' \<and> tmr_displayName t = ''Mine'') (cb_teams (snd (serve_management sample_schema (club_env_of ''q'') False
     other_club (Update_team (rename_team ''o'')) (Some (projr game_coach)))))" by code_simp
  ultimately show ?thesis by blast
qed

section \<open>The scoring desk\<close>

text \<open>
  C27: What the desk previews for a plate appearance is what the engine does: when the game is well formed, the preview shows no error,
  the batter is not on base, the fielders named play, and a walk that brings the runner from third home also
  forces the runner from first, the engine accepts the event and reaches the bases, the outs, the score and
  the half inning that were shown.
\<close>

theorem plate_preview_is_what_the_engine_does:
  assumes "game_wf s" and "vw_errors (previewPlateAppearance s d) = []"
    and "currentBatterId s \<notin> set (occupied_runners (gs_bases s))"
    and "defends s (pd_putoutFielderId d)" and "defends s (pd_errorFielderId d)" and "force_chain d"
  shows "\<exists>body t. vw_body (previewPlateAppearance s d) = Some body \<and> applyBody s (Play body) = Inr t \<and>
     gs_bases t = vw_bases (previewPlateAppearance s d) \<and> gs_outs t = vw_outs (previewPlateAppearance s d) \<and>
     gs_score t = (gs_score s)(battingSide s := gs_score s (battingSide s) + vw_runs (previewPlateAppearance s d)) \<and>
     gs_half t = (if \<not> vw_inningEnded (previewPlateAppearance s d) then gs_half s else if gs_half s = Some TOP then Some BOTTOM else Some TOP)"
  using plate_preview_shown [OF assms] by (auto simp: shown_def)

theorem plate_preview_is_what_the_engine_does_witness:
  "\<exists>body t. applyBody first_two (Play body) = Inr t \<and> gs_bases t THIRD = Some ''v1'' \<and> gs_outs t = 1"
proof -
  have "defends first_two (pd_putoutFielderId ground_out)" "defends first_two (pd_errorFielderId ground_out)" "force_chain ground_out"
    by (simp_all add: defends_def first_two_def ground_out_def sample_draft_def createPlateAppearanceDraft_def Let_def
        force_chain_def walk_outcomes_def runner_on_first_fields by_side_def defense_values_def all_positions_def)
  from plate_preview_is_what_the_engine_does [OF sample_desk_wf(1) ground_out_errors sample_batter_free(1) this]
  show ?thesis using ground_out_shown by metis
qed

text \<open>
  C28: What the desk previews for a play of the runners in a well-formed game in progress is what the engine does: without an
  error shown, with fielders who play and unless a runner overtakes another, the engine accepts the event and reaches the
  bases, the outs, the score and the half inning that were shown.
\<close>

theorem runner_preview_is_what_the_engine_does:
  assumes "game_wf s" and "gs_status s = IN_PROGRESS" and "vw_errors (previewRunnerPlay s d) = []"
    and "list_all (\<lambda>f. defends s (Some f)) (rd_outFielderIds d)" and "defends s (rd_errorFielderId d)" and "keeps_order s d"
  shows "\<exists>body t. vw_body (previewRunnerPlay s d) = Some body \<and> applyBody s (Play body) = Inr t \<and>
     gs_bases t = vw_bases (previewRunnerPlay s d) \<and> gs_outs t = vw_outs (previewRunnerPlay s d) \<and>
     gs_score t = (gs_score s)(battingSide s := gs_score s (battingSide s) + vw_runs (previewRunnerPlay s d)) \<and>
     gs_half t = (if \<not> vw_inningEnded (previewRunnerPlay s d) then gs_half s else if gs_half s = Some TOP then Some BOTTOM else Some TOP)"
  using runner_preview_shown [OF assms] by (auto simp: shown_def)

theorem runner_preview_is_what_the_engine_does_witness:
  "\<exists>body t. applyBody first_two (Play body) = Inr t \<and> gs_bases t THIRD = Some ''v1'' \<and> gs_bases t SECOND = None"
proof -
  have "list_all (\<lambda>f. defends first_two (Some f)) (rd_outFielderIds steal_of_third)" "defends first_two (rd_errorFielderId steal_of_third)"
    "gs_status first_two = IN_PROGRESS"
    by (simp_all add: steal_of_third_def sample_runner_draft_def defends_def first_two_def)
  from runner_preview_is_what_the_engine_does [OF sample_desk_wf(1) this(3) steal_errors this(1,2) steal_keeps_order]
  show ?thesis using steal_shown by metis
qed

text \<open>
  A hit or a walk needs no choice at the desk: in every well-formed live state whose batter is not on
  base, the draft the desk starts with is accepted by the engine, with the effect that was shown.
\<close>

theorem default_drafts_are_accepted:
  assumes "game_wf s" and "gs_status s = IN_PROGRESS" and "pitchers_named s" and "currentBatterId s \<noteq> ''''"
    and "currentBatterId s \<notin> set (occupied_runners (gs_bases s))" and "o' \<in> set safe_outcomes"
  shows "\<exists>body t. vw_body (previewPlateAppearance s (createPlateAppearanceDraft s o')) = Some body \<and>
     applyBody s (Play body) = Inr t \<and> gs_bases t = vw_bases (previewPlateAppearance s (createPlateAppearanceDraft s o'))"
  using default_accepted [OF assms] by (auto simp: shown_def)

theorem default_drafts_are_accepted_witness:
  "\<exists>body t. applyBody first_two (Play body) = Inr t \<and> gs_bases t THIRD = Some ''v1'' \<and> gs_bases t FIRST = Some ''v3''"
proof -
  have "currentBatterId first_two \<noteq> ''''" "gs_status first_two = IN_PROGRESS" "WALK \<in> set safe_outcomes"
    by (simp_all add: first_two_def desk_batter safe_outcomes_def)
  from default_drafts_are_accepted [OF sample_desk_wf(1) this(2) sample_pitchers_named(1) this(1) sample_batter_free(1) this(3)]
  show ?thesis using walk_shown by metis
qed

text \<open>
  C29: On a walk the desk marks the runner from third as forced when the runner from second moves, although
  nobody is on first: such a draft is previewed without an error and its event is refused by the engine.
\<close>

theorem a_walk_without_a_runner_on_first_is_previewed_and_refused:
  assumes "game_wf s" and "gs_status s = IN_PROGRESS" and "pitchers_named s" and "currentBatterId s \<noteq> ''''"
    and "currentBatterId s \<notin> set (occupied_runners (gs_bases s))" and "broken_chain s d"
  shows "vw_errors (previewPlateAppearance s d) = [] \<and>
     (\<exists>body. vw_body (previewPlateAppearance s d) = Some body \<and> \<not> is_ok (applyBody s (Play body)))"
  using broken_chain_slips_through [OF assms] by (auto simp: is_ok_iff)

theorem a_walk_without_a_runner_on_first_is_previewed_and_refused_witness:
  "\<exists>body. vw_body (previewPlateAppearance last_two walk_of_two) = Some body \<and> \<not> is_ok (applyBody last_two (Play body))"
proof -
  have "currentBatterId last_two \<noteq> ''''" "gs_status last_two = IN_PROGRESS" "broken_chain last_two walk_of_two"
    by (simp_all add: last_two_def desk_batter broken_chain_def walk_of_two_def sample_draft_def createPlateAppearanceDraft_def
        Let_def walk_outcomes_def on_base_def)
  from a_walk_without_a_runner_on_first_is_previewed_and_refused [OF sample_desk_wf(2) this(2) sample_pitchers_named(2) this(1)
      sample_batter_free(2) this(3)] show ?thesis by blast
qed

text \<open>
  The desk does not look at the order of the runners in their own plays: a runner sent from first to third
  past the one who stays on second is previewed without an error and refused by the engine.
\<close>

theorem an_overtaking_runner_is_previewed_and_refused:
  assumes "game_wf s" and "pitchers_named s" and "overtaking s d"
  shows "vw_errors (previewRunnerPlay s d) = [] \<and>
     (\<exists>body. vw_body (previewRunnerPlay s d) = Some body \<and> \<not> is_ok (applyBody s (Play body)))"
  using overtaking_slips_through [OF assms] by (auto simp: is_ok_iff)

theorem an_overtaking_runner_is_previewed_and_refused_witness:
  "\<exists>body. vw_body (previewRunnerPlay first_two wild_pitch_past) = Some body \<and> \<not> is_ok (applyBody first_two (Play body))"
proof -
  have "overtaking first_two wild_pitch_past"
    by (simp add: overtaking_def wild_pitch_past_def sample_runner_draft_def out_plays_def first_two_def on_base_def)
  from an_overtaking_runner_is_previewed_and_refused [OF sample_desk_wf(1) sample_pitchers_named(1) this] show ?thesis by blast
qed

text \<open>
  A judgment replacement built at the desk changes nothing in the game: when the log replays with the
  correction appended, the state is the one before it, but for the revision, the sequence number and
  the status of a finished game, which becomes corrected.
\<close>

theorem judgments_keep_the_game:
  assumes "buildCorrectionPayload events d old_too = Inr c" and "cd_action d = REPLACE_PLATE_JUDGMENT"
    and "ev_body e = CorrectionApplied c" and "ev_id e \<noteq> ''''" and "\<And>x. x \<in> set events \<Longrightarrow> ev_sequence x < ev_sequence e"
    and "trim (cd_targetEventId d) = cd_targetEventId d"
    and "replayEffective setup events = Inr s" and "replayEffective setup (events @ [e]) = Inr t"
  shows "t = s\<lparr>gs_status := (if gs_status s = IN_PROGRESS then IN_PROGRESS else game_status.CORRECTED),
     gs_sourceRevision := ev_acceptedRevision e, gs_lastSequence := ev_sequence e\<rparr>"
  using judgment_replay [OF assms] by (simp add: advance_revision_def corrected_def)

theorem judgments_keep_the_game_witness:
  "\<exists>t. replayEffective sample_setup (take 2 sample_events @ [judgment_event]) = Inr t \<and> gs_bases t FIRST = Some ''v1''"
proof -
  obtain t where t: "replayEffective sample_setup (take 2 sample_events @ [judgment_event]) = Inr t"
    using judgment_replays by blast
  have payload: "buildCorrectionPayload (take 2 sample_events) judgment_draft False = Inr judgment_payload"
    by (simp add: correction_defs eval cong: weak_congs)
  have "trim (cd_targetEventId judgment_draft) = cd_targetEventId judgment_draft" by code_simp
  moreover have "\<And>x. x \<in> set (take 2 sample_events) \<Longrightarrow> ev_sequence x < ev_sequence judgment_event"
    by (auto simp: judgment_event_def sample_event_def sample_events_def)
  moreover have "cd_action judgment_draft = REPLACE_PLATE_JUDGMENT" "ev_body judgment_event = CorrectionApplied judgment_payload"
    "ev_id judgment_event \<noteq> ''''"
    by (simp_all add: judgment_draft_def judgment_event_def sample_event_def)
  ultimately have "gs_bases t = gs_bases runner_on_first"
    using judgments_keep_the_game [OF payload _ _ _ _ _ replay_of_sample t] by simp
  with t show ?thesis by (simp add: runner_on_first_fields)
qed

text \<open>
  The preview of a judgment replacement shows the same score and the same situation before and after it.
\<close>

theorem previews_of_judgments_stand_still:
  assumes "buildCorrectionPayload events d old_too = Inr c" and "cd_action d = REPLACE_PLATE_JUDGMENT"
    and "trim (cd_targetEventId d) = cd_targetEventId d"
    and "previewCorrection state_hash iso_datetime setup events c = Inr v"
  shows "cv_scoreAfter v = cv_scoreBefore v \<and> cv_situationAfter v = cv_situationBefore v"
  using judgment_preview [OF assms] by simp

theorem previews_of_judgments_stand_still_witness:
  "\<exists>v. previewCorrection (\<lambda>_. sample_digest) (\<lambda>_. True) sample_setup judged_events judgment_payload = Inr v \<and>
     cv_situationAfter v = cv_situationBefore v"
proof -
  obtain v where v: "previewCorrection (\<lambda>_. sample_digest) (\<lambda>_. True) sample_setup judged_events judgment_payload = Inr v"
    using sample_preview by blast
  have "trim (cd_targetEventId judgment_draft) = cd_targetEventId judgment_draft" by code_simp
  from previews_of_judgments_stand_still [OF sample_payload _ this v] v show ?thesis by (auto simp: judgment_draft_def)
qed

text \<open>
  The schema of the current version accepts the payload of a judgment on a recorded plate appearance if and only
  if every counting run of the recorded play is classified: a play recorded under the first version, which has no
  classification, can never be judged again, though the desk offers it.
\<close>

theorem only_classified_plays_can_be_rejudged:
  assumes "buildCorrectionPayload events d old_too = Inr c" and "cd_action d = REPLACE_PLATE_JUDGMENT"
    and "by_id events (cd_targetEventId d) = Some target" and "ev_body target = Play (PlateAppearanceRecorded p)"
    and "body_ok (trim_body (ev_body target))" and "desk_ids_ok d"
  shows "is_ok (parseEventBody (Shaped (CorrectionApplied c)) event_schema_version) \<longleftrightarrow> runs_classified p"
  using assms by (rule judgment_schema)

theorem only_classified_plays_can_be_rejudged_witness:
  "is_ok (parseEventBody (Shaped (CorrectionApplied judgment_payload)) event_schema_version)"
proof -
  let ?p = "sample_pa ''v1'' SINGLE [single_move]"
  obtain target where target: "by_id judged_events (cd_targetEventId judgment_draft) = Some target"
    "ev_body target = Play (PlateAppearanceRecorded ?p)"
    by (simp add: correction_defs eval)
  have "body_ok (trim_body (ev_body target))" by (simp add: target(2)) (simp add: eval)
  moreover have "desk_ids_ok judgment_draft" by code_simp
  moreover have "runs_classified ?p" by (simp add: runs_classified_def counting_run_def sample_pa_def single_move_def safe_move_def)
  ultimately show ?thesis
    using only_classified_plays_can_be_rejudged [OF sample_payload _ target] by (simp add: judgment_draft_def)
qed

section \<open>Statistics\<close>

text \<open>
  C30: In the statistics of a replayed game the runs of a side agree across its batters, the pitchers who
  allowed them, its innings and its score, and its hits with those the pitchers allowed.
\<close>

theorem books_of_a_game_balance:
  assumes "replayEffectiveWithTimeline setup es = Inr (s, steps)"
    and "fold_res (stat_step ix setup) empty_stats steps = Inr st"
  shows "table_total ix (st_batting st) sd B_runs = gs_score s sd \<and>
    table_total ix (st_pitching st) (opposite sd) P_runsAllowed = gs_score s sd \<and>
    inning_total (st_innings st) sd = gs_score s sd \<and>
    table_total ix (st_pitching st) (opposite sd) P_hitsAllowed = table_total ix (st_batting st) sd B_hits"
  using books_balance [OF assms, of sd] by (simp add: bat_total_def pit_total_def)

theorem books_of_a_game_balance_witness:
  "\<exists>s steps st. replayEffectiveWithTimeline sample_setup sample_events = Inr (s, steps) \<and>
     fold_res (stat_step sample_index sample_setup) empty_stats steps = Inr st \<and>
     gs_score s AWAY = 2 \<and> table_total sample_index (st_batting st) AWAY B_runs = 2"
proof -
  obtain s steps st where r: "replayEffectiveWithTimeline sample_setup sample_events = Inr (s, steps)"
    and st: "fold_res (stat_step sample_index sample_setup) empty_stats steps = Inr st" and "gs_score s AWAY = 2"
    by (cases "replayEffectiveWithTimeline sample_setup sample_events") (auto simp: sample_index_def eval cong: weak_congs)
  with books_of_a_game_balance [OF r st, of AWAY] show ?thesis by auto
qed

text \<open>
  The reconciliation at the end of the derivation can fail only by the outs: when it does, the putouts
  of a side differ from the outs its pitchers recorded.
\<close>

theorem only_putouts_can_fail_to_reconcile:
  assumes "deriveGameStatistics setup es privacy version = Inl RECONCILIATION_FAILURE"
  shows "\<exists>s steps ix st sd. replayEffectiveWithTimeline setup es = Inr (s, steps) \<and> playerSideIndex setup = Inr ix \<and>
    fold_res (stat_step ix setup) empty_stats steps = Inr st \<and>
    table_total ix (st_pitching st) sd P_outsRecorded \<noteq> table_total ix (st_fielding st) sd F_putouts"
  using derived_reconciliation [OF assms] by (simp add: pit_total_def)

theorem only_putouts_can_fail_to_reconcile_witness:
  "deriveGameStatistics sample_setup uncredited_out None None = Inl RECONCILIATION_FAILURE \<and>
   (\<exists>ix. playerSideIndex sample_setup = Inr ix)"
proof -
  have f: "deriveGameStatistics sample_setup uncredited_out None None = Inl RECONCILIATION_FAILURE"
    by (simp add: uncredited_out_def eval cong: weak_congs)
  from only_putouts_can_fail_to_reconcile [OF f] f show ?thesis by blast
qed

text \<open>
  C31: The totals of a season are the sums of the totals of the games it includes.
\<close>

theorem season_totals_are_sums_of_included_games:
  assumes "deriveSeasonStatistics a s t games inc = Inr p"
  shows "ts_batting (sp_team p) k = sum_list (map (\<lambda>g. side_counters (se_side g) (gp_batting (se_projection g)) k) (filter (is_included inc) games)) \<and>
    ts_pitching (sp_team p) k' = sum_list (map (\<lambda>g. side_counters (se_side g) (gp_pitching (se_projection g)) k') (filter (is_included inc) games)) \<and>
    ts_fielding (sp_team p) k'' = sum_list (map (\<lambda>g. side_counters (se_side g) (gp_fielding (se_projection g)) k'') (filter (is_included inc) games))"
  using season_totals [OF assms] by blast

theorem season_totals_are_sums_of_included_games_witness:
  "\<exists>p. deriveSeasonStatistics ''a'' ''y'' ''t'' [sample_selection] (Some True) = Inr p \<and>
     ts_batting (sp_team p) B_homeRuns = side_counters AWAY (gp_batting sample_projection) B_homeRuns"
proof -
  obtain p where p: "deriveSeasonStatistics ''a'' ''y'' ''t'' [sample_selection] (Some True) = Inr p"
    by (cases "deriveSeasonStatistics ''a'' ''y'' ''t'' [sample_selection] (Some True)")
      (simp_all add: sample_selection_def sample_projection_def season_defs eval cong: weak_congs)
  from season_totals_are_sums_of_included_games [OF p, of B_homeRuns] p show ?thesis
    by (auto simp: is_included_def sample_selection_def)
qed

text \<open>
  The projection of a season does not depend on the order in which its games are supplied.
\<close>

theorem season_ignores_game_order:
  assumes "deriveSeasonStatistics a s t games inc = Inr p" and "mset games = mset games'"
  shows "deriveSeasonStatistics a s t games' inc = Inr p"
  using assms by (rule season_order_irrelevant)

theorem season_ignores_game_order_witness:
  "\<exists>p. deriveSeasonStatistics ''a'' ''y'' ''t'' [sample_selection, second_selection] (Some True) = Inr p \<and>
       deriveSeasonStatistics ''a'' ''y'' ''t'' [second_selection, sample_selection] (Some True) = Inr p"
proof -
  obtain p where p: "deriveSeasonStatistics ''a'' ''y'' ''t'' [sample_selection, second_selection] (Some True) = Inr p"
    by (cases "deriveSeasonStatistics ''a'' ''y'' ''t'' [sample_selection, second_selection] (Some True)")
      (simp_all add: second_selection_def sample_selection_def sample_projection_def season_defs eval cong: weak_congs)
  from season_ignores_game_order [OF p, of "[second_selection, sample_selection]"] p show ?thesis by (auto simp: add_mset_commute)
qed

text \<open>
  The batting rates of every line a game derives can be computed, as long as its counters stay within
  the safe integers and ten million plate appearances.
\<close>

theorem batting_rates_are_defined:
  assumes "fold_res (stat_step ix setup) empty_stats steps = Inr st" and "(x, c) \<in> set (st_batting st)"
    and "c B_plateAppearances \<le> 10000000" and "\<forall>k. c k \<le> max_safe_integer"
  shows "is_ok (deriveBattingRates c)"
proof -
  have "batting_wf c" using steps_stats_wf [OF assms(1)] assms(2) by (auto simp: stats_wf_def)
  from deriveBattingRates_defined [OF this _ assms(4)] assms(3) show ?thesis by (simp add: batting_limit_def)
qed

theorem batting_rates_are_defined_witness:
  "\<exists>s steps st c. replayEffectiveWithTimeline sample_setup sample_events = Inr (s, steps) \<and>
     fold_res (stat_step sample_index sample_setup) empty_stats steps = Inr st \<and>
     (''v2'', c) \<in> set (st_batting st) \<and> c B_homeRuns = 1 \<and> is_ok (deriveBattingRates c)"
proof -
  obtain s steps st c where r: "replayEffectiveWithTimeline sample_setup sample_events = Inr (s, steps)"
    and st: "fold_res (stat_step sample_index sample_setup) empty_stats steps = Inr st"
    and c: "(''v2'', c) \<in> set (st_batting st)" "c B_homeRuns = 1" "c B_plateAppearances \<le> 10000000" "\<forall>k. c k \<le> max_safe_integer"
    by (cases "replayEffectiveWithTimeline sample_setup sample_events")
      (auto simp: sample_index_def bump_def all_batting eval cong: weak_congs)
  with batting_rates_are_defined [OF st] show ?thesis by blast
qed

text \<open>
  C32: The loop of \<open>greatestCommonDivisor\<close> always ends on the numbers that the guard of \<open>exactRate\<close> lets pass:
  after at most 106 rounds its second variable is zero and the first is the greatest common divisor.
\<close>

theorem the_loop_of_a_rate_ends:
  assumes "is_ok (assertSafeNonnegativeInteger n)" and "is_ok (assertSafeNonnegativeInteger d)"
  shows "(euclid_step ^^ 106) (n, d) = (gcd n d, 0)"
proof -
  have b: "0 \<le> n" "0 \<le> d" "d < 2 ^ 53"
    using assms by (simp_all add: assertSafeNonnegativeInteger_def safe_int_def max_safe_integer_def require_def split: if_splits)
  then show ?thesis using euclid_result [OF b(2,3), of n] by (simp add: greatestCommonDivisor_gcd)
qed

theorem the_loop_of_a_rate_ends_witness: "(euclid_step ^^ 106) (12, 18) = (6, 0)"
proof -
  have "(euclid_step ^^ 106) (12, 18) = (gcd 12 18, 0)"
    by (rule the_loop_of_a_rate_ends) code_simp+
  also have "gcd (12::int) 18 = 6" by code_simp
  finally show ?thesis .
qed

text \<open>
  An exact rate is in lowest terms, and two ratios are equal as rationals exactly when their exact
  rates are equal as records.
\<close>

theorem exact_rates_are_canonical:
  assumes "exactRate n d = Inr (Some r)" and "exactRate n' d' = Inr (Some r')"
  shows "reduced r \<and> (r = r' \<longleftrightarrow> n * d' = n' * d)"
proof -
  note a = exactRate_reduced [OF assms(1)] rate_value_exact [OF assms(1)]
  note b = exactRate_reduced [OF assms(2)] rate_value_exact [OF assms(2)]
  have pos: "0 < d" "0 < d'" using assms by (auto simp: exactRate_Inr_iff split: if_splits)
  have "r = r' \<longleftrightarrow> rate_value r = rate_value r'"
    using reduced_unique [OF a(1) b(1)] a(1) b(1) by (auto simp: rate_value_def reduced_def field_simps of_int_mult [symmetric] simp del: of_int_mult)
  also have "\<dots> \<longleftrightarrow> n * d' = n' * d"
    using pos unfolding a(3) b(3) by (simp add: field_simps of_int_mult [symmetric] del: of_int_mult)
  finally show ?thesis using a(1) by blast
qed

theorem exact_rates_are_canonical_witness: "exactRate 2 4 = exactRate 3 6 \<and> exactRate 2 4 = Inr (Some \<lparr>xr_numerator = 1, xr_denominator = 2\<rparr>)"
proof -
  have a: "exactRate 2 4 = Inr (Some \<lparr>xr_numerator = 1, xr_denominator = 2\<rparr>)" by code_simp
  have b: "\<exists>r. exactRate 3 6 = Inr (Some r)" by (simp add: exactRate_Inr_iff safe_int_def max_safe_integer_def)
  then obtain r where r: "exactRate 3 6 = Inr (Some r)" by blast
  from exact_rates_are_canonical [OF a r] a r show ?thesis by auto
qed

text \<open>
  Adding two reduced rates gives the reduced rate of their sum.
\<close>

theorem on_base_plus_slugging_is_the_sum:
  assumes "addExactRates (Some l) (Some r) = Inr x" and "reduced l" and "reduced r"
  shows "\<exists>s. x = Some s \<and> reduced s \<and> rate_value s = rate_value l + rate_value r"
  using addExactRates_value [OF assms] by blast

theorem on_base_plus_slugging_is_the_sum_witness:
  "addExactRates (Some \<lparr>xr_numerator = 1, xr_denominator = 3\<rparr>) (Some \<lparr>xr_numerator = 1, xr_denominator = 6\<rparr>) =
     Inr (Some \<lparr>xr_numerator = 1, xr_denominator = 2\<rparr>) \<and> reduced \<lparr>xr_numerator = 1, xr_denominator = 2\<rparr>"
proof -
  have a: "addExactRates (Some \<lparr>xr_numerator = 1, xr_denominator = 3\<rparr>) (Some \<lparr>xr_numerator = 1, xr_denominator = 6\<rparr>) =
     Inr (Some \<lparr>xr_numerator = 1, xr_denominator = 2\<rparr>)" by code_simp
  from on_base_plus_slugging_is_the_sum [OF a] a show ?thesis by (auto simp: reduced_def)
qed

text \<open>
  A rate is printed with as many digits after the point as asked for, and the number printed is the
  rate rounded half up.
\<close>

theorem rates_print_rounded_half_up:
  assumes "reduced r" and "0 < p" and "p \<le> 6"
  shows "\<exists>whole fraction. formatExactRate (Some r) (Some p) None = Inr (Some (string_of_int whole @ CHR ''.'' # fraction)) \<and>
    length fraction = nat p \<and> read_digits 0 fraction = Some (nat (rounded_scaled r (nat p) mod 10 ^ nat p)) \<and>
    whole = rounded_scaled r (nat p) div 10 ^ nat p \<and>
    2 * xr_numerator r * 10 ^ nat p - xr_denominator r < 2 * xr_denominator r * rounded_scaled r (nat p) \<and>
    2 * xr_denominator r * rounded_scaled r (nat p) \<le> 2 * xr_numerator r * 10 ^ nat p + xr_denominator r"
proof -
  let ?k = "rounded_scaled r (nat p) mod 10 ^ nat p"
  have "0 \<le> ?k" "?k < 10 ^ nat p" "0 < nat p" using assms(2) by simp_all
  note frac = padded_fraction [OF this]
  have "safe_int p" using assms(2,3) by (simp add: safe_int_def max_safe_integer_def)
  then show ?thesis
    using assms(2,3) frac rounded_scaled_nearest [OF assms(1), of "nat p"]
    by (intro exI [of _ "rounded_scaled r (nat p) div 10 ^ nat p"] exI [of _ "pad_zero (nat p) (string_of_int ?k)"])
      (simp add: formatExactRate_def Let_def)
qed

theorem rates_print_rounded_half_up_witness:
  "formatExactRate (Some \<lparr>xr_numerator = 1, xr_denominator = 3\<rparr>) (Some 3) None = Inr (Some ''0.333'') \<and>
   (\<exists>w f. ''0.333'' = string_of_int w @ CHR ''.'' # f \<and> length f = 3)"
proof -
  have f: "formatExactRate (Some \<lparr>xr_numerator = 1, xr_denominator = 3\<rparr>) (Some 3) None = Inr (Some ''0.333'')" by code_simp
  have "reduced \<lparr>xr_numerator = 1, xr_denominator = 3\<rparr>" by (simp add: reduced_def)
  from rates_print_rounded_half_up [OF this, of 3] f show ?thesis by auto
qed

text \<open>
  Innings pitched, printed as whole innings and a third digit, read back to the outs recorded.
\<close>

theorem innings_read_back_to_outs:
  assumes "formatInningsPitched outs = Inr s"
  shows "outs_of_innings s = Some (nat outs)"
  using assms by (rule outs_of_formatted)

theorem innings_read_back_to_outs_witness: "formatInningsPitched 20 = Inr ''6.2'' \<and> outs_of_innings ''6.2'' = Some 20"
proof -
  have f: "formatInningsPitched 20 = Inr ''6.2''" by code_simp
  from innings_read_back_to_outs [OF f] f show ?thesis by simp
qed

section \<open>Fantasy leagues\<close>

text \<open>
  C33: In every state a league reaches, the rosters and the ownership of the players agree, no
  player is listed twice, the waiver priority names every team once, no operation is recorded twice
  and the revision counts the commands that were not denied.
\<close>

theorem reachable_leagues_are_consistent:
  assumes "reachable_league env st"
  shows "assertOwnershipProjection (ts_playerEntries st) (ts_currentRosters st) = Inr () \<and>
    distinct (map pe_id (ts_playerEntries st)) \<and> distinct (map pe_baseballPlayerId (ts_playerEntries st)) \<and>
    mset (ts_waiverPriority st) = mset (map ro_fantasyTeamId (ts_currentRosters st)) \<and>
    distinct (map tr_operationId (ts_transactions st)) \<and>
    ts_revision st = int (length (filter (\<lambda>r. tr_status r \<noteq> DENIED) (ts_transactions st)))"
proof -
  have inv: "board (ts_playerEntries st) (ts_currentRosters st)" "priority_covers (ts_waiverPriority st) (ts_currentRosters st)"
    "history_ok st"
    using reachable_inv [OF assms] by (simp_all add: tx_inv_def tx_ready_def)
  then have "mset (ts_waiverPriority st) = mset (map ro_fantasyTeamId (ts_currentRosters st))"
    by (intro set_eq_iff_mset_eq_distinct [THEN iffD1]) (simp_all add: priority_covers_def board_def)
  with inv show ?thesis
    by (simp add: board_def history_ok_def assertOwnershipProjection_iff)
qed

theorem reachable_leagues_are_consistent_witness:
  "assertOwnershipProjection (ts_playerEntries sample_state) (ts_currentRosters sample_state) = Inr ()"
  using reachable_leagues_are_consistent [OF sample_reachable] by blast

text \<open>
  C34: On the ledger of owners a committed command is a sequence of legal moves: a player is taken
  only when nobody owns him, and released or passed on only by the team that owns him; nobody else
  changes hands.
\<close>

theorem committed_commands_refine_the_ledger:
  assumes "reachable_league env st" and "applyFantasyTransaction env st raw cx = Inr res"
    and "\<not> to_duplicate res" and "tr_status (to_record res) \<noteq> DENIED"
  shows "\<exists>c. parseCommand env raw = Inr c \<and>
    ledger_run (owner_map (ts_playerEntries st)) (command_moves st (ts_waiverClaims (to_state res)) c) =
      Inr (owner_map (ts_playerEntries (to_state res)))"
  using committed_moves [OF reachable_inv [OF assms(1)] assms(2-4)] by metis

theorem committed_commands_refine_the_ledger_witness:
  "\<exists>c. parseCommand sample_tx_env (Some sample_add) = Inr c \<and>
    ledger_run (owner_map (ts_playerEntries sample_state)) (command_moves sample_state (ts_waiverClaims (to_state sample_added)) c) =
      Inr (owner_map (ts_playerEntries (to_state sample_added)))"
  by (rule committed_commands_refine_the_ledger [OF sample_reachable added_outcome(1)]) (simp_all add: added_outcome)

text \<open>
  The check of rosters against owners after a command can refuse nothing but a change of
  lineup; every other command keeps the two in agreement by itself.
\<close>

theorem final_check_concerns_lineups_only:
  assumes "reachable_league env st" and "parseCommand env raw = Inr c" and "action_of c \<noteq> ACT_LINEUP_CHANGE"
  shows "checked_mutation env st c cx =
    and_then (map_error Lower (verify_model (te_domain env) (cx_model cx))) (\<lambda>_. mutate env st c cx)"
proof -
  have "tx_ready st" "ids_trimmed c"
    using reachable_inv [OF assms(1)] parseCommand_Inr [OF assms(2)] by (simp_all add: tx_inv_def)
  note check = final_check_redundant [OF this _ assms(3)]
  show ?thesis
    unfolding checked_mutation_def by (cases "mutate env st c cx") (simp_all add: check)
qed

theorem final_check_concerns_lineups_only_witness:
  "checked_mutation sample_tx_env sample_state sample_add sample_context =
    and_then (map_error Lower (verify_model (te_domain sample_tx_env) (cx_model sample_context)))
      (\<lambda>_. mutate sample_tx_env sample_state sample_add sample_context)"
proof (rule final_check_concerns_lineups_only [OF sample_reachable])
  show "parseCommand sample_tx_env (Some sample_add) = Inr sample_add" by code_simp
qed (simp add: sample_add_def)

text \<open>
  C35: A command that was recorded, other than as a conflict of its id, and whose operation id has no colon is applied
  once: whatever has happened since, submitting it again returns its first record and audit and leaves the state as it is.
\<close>

theorem repeated_commands_return_the_first_outcome:
  assumes "reachable_league env st" and "applyFantasyTransaction env st raw cx = Inr res" and "\<not> to_duplicate res"
    and "tr_resultCode (to_record res) \<noteq> Some TX_IDEMPOTENCY_CONFLICT"
    and "CHR '':'' \<notin> set (tr_operationId (to_record res))"
    and "run_to (tx_step env) (\<lambda>_ _. True) (to_state res) st'"
  shows "applyFantasyTransaction env st' raw cx' =
    Inr \<lparr>to_state = st', to_record = to_record res, to_audit = to_audit res, to_duplicate = True\<rparr>"
  by (rule repeated_command [OF reachable_inv [OF assms(1)] assms(2-6)])

theorem repeated_commands_return_the_first_outcome_witness:
  "applyFantasyTransaction sample_tx_env (to_state sample_added) (Some sample_add) sample_context =
    Inr \<lparr>to_state = to_state sample_added, to_record = to_record sample_added, to_audit = to_audit sample_added, to_duplicate = True\<rparr>"
  by (rule repeated_commands_return_the_first_outcome [OF sample_reachable added_outcome(1)])
    (simp_all add: added_outcome run_start)

text \<open>
  C36: A denied command changes no holdings: the entries, the rosters, the claims, the priority and
  the revision stay, and the denial is recorded with its code unless it reuses the id of another.
\<close>

theorem denied_commands_change_no_holdings:
  assumes "reachable_league env st" and "applyFantasyTransaction env st raw cx = Inr res"
    and "\<not> to_duplicate res" and "tr_status (to_record res) = DENIED"
  shows "to_state res = st\<lparr>ts_transactions := ts_transactions (to_state res), ts_audits := ts_audits st @ [to_audit res]\<rparr> \<and>
    (\<exists>code. tr_resultCode (to_record res) = Some code \<and>
      ts_transactions (to_state res) = ts_transactions st @ (if code = TX_IDEMPOTENCY_CONFLICT then [] else [to_record res]))"
  by (rule denied_keeps [OF assms(2,3) reachable_inv [OF assms(1)] assms(4)])

theorem denied_commands_change_no_holdings_witness:
  "ts_playerEntries (to_state sample_denied) = ts_playerEntries sample_state"
proof -
  have "to_state sample_denied = sample_state\<lparr>ts_transactions := ts_transactions (to_state sample_denied),
      ts_audits := ts_audits sample_state @ [to_audit sample_denied]\<rparr>"
    using denied_commands_change_no_holdings [OF sample_reachable denied_outcome] by (rule conjunct1)
  then have "ts_playerEntries (to_state sample_denied) = ts_playerEntries (sample_state\<lparr>ts_transactions :=
      ts_transactions (to_state sample_denied), ts_audits := ts_audits sample_state @ [to_audit sample_denied]\<rparr>)"
    by (rule arg_cong)
  then show ?thesis by simp
qed

text \<open>
  C37: A waiver batch that is processed settles every claim due at its instant, as applied or as
  rejected with a reason, and touches no other claim; it awards each team at most one player, and
  the teams it awards move to the end of the priority in the order of their awards.
\<close>

theorem waiver_batches_settle_every_due_claim:
  assumes "reachable_league env st" and "applyFantasyTransaction env st (Some (PROCESS_WAIVERS c)) cx = Inr res"
    and "\<not> to_duplicate res" and "tr_status (to_record res) \<noteq> DENIED"
  shows "list_all2 (\<lambda>w x. if due_at (pw_processingAt c) w then settles (pw_processingAt c) w x else x = w)
      (ts_waiverClaims st) (ts_waiverClaims (to_state res)) \<and>
    \<not> list_ex (due_at (pw_processingAt c)) (ts_waiverClaims (to_state res)) \<and>
    distinct (map wc_fantasyTeamId (awards st c (to_state res))) \<and>
    ts_waiverPriority (to_state res) =
      foldl rotate_priority (ts_waiverPriority st) (map wc_fantasyTeamId (awards st c (to_state res)))"
proof -
  obtain b where b: "PROCESS_WAIVERS b = trim_command (PROCESS_WAIVERS c)"
    and claims: "list_all2 (\<lambda>w x. if due_at (pw_processingAt b) w then settles (pw_processingAt b) w x else x = w)
      (ts_waiverClaims st) (ts_waiverClaims (to_state res))"
    and rest: "distinct (map wc_fantasyTeamId (awards st b (to_state res)))" "ts_waiverPriority (to_state res) =
      foldl rotate_priority (ts_waiverPriority st) (map wc_fantasyTeamId (awards st b (to_state res)))"
    by (rule batch_settled [OF reachable_inv [OF assms(1)] assms(2-4)])
  have same: "pw_processingAt b = pw_processingAt c" using b by (simp add: trim_base_def)
  then have "awards st b (to_state res) = awards st c (to_state res)" by (simp add: awards_def due_claims_def)
  moreover have "\<not> due_at (pw_processingAt c) x" if mem: "x \<in> set (ts_waiverClaims (to_state res))" for x
  proof -
    obtain w where "if due_at (pw_processingAt b) w then settles (pw_processingAt b) w x else x = w"
      using list_all2_back [OF claims mem] by (elim bexE)
    then show ?thesis by (cases "due_at (pw_processingAt b) w") (simp_all add: same settles_not_due)
  qed
  ultimately show ?thesis using claims [unfolded same] rest by (simp add: list_ex_iff del: if_split)
qed

theorem waiver_batches_settle_every_due_claim_witness:
  "\<not> list_ex (due_at ''2026-04-10T00:00:00.000Z'') (ts_waiverClaims (to_state sample_batched))"
proof -
  have "pw_processingAt sample_batch_command = ''2026-04-10T00:00:00.000Z''" by (simp add: sample_batch_command_def)
  with waiver_batches_settle_every_due_claim [OF claimed_reachable batched_outcome] show ?thesis by simp
qed

text \<open>
  C38: A roster snapshot that is created belongs to the team it was created for and is well formed:
  no slot, entry or baseball player occurs twice, every filled slot holds an entry the team owns
  under the league's rules and that may stand there, and the numbers of active, bench and all
  players keep to the limits of the scoring model.
\<close>

theorem roster_snapshots_are_well_formed:
  assumes "createFantasyRosterSnapshot env (Some inp) league team model entries authority previous = Inr r"
  shows "roster_wf r league model entries \<and> ro_fantasyTeamId r = ft_id team \<and> ro_fantasyLeagueId r = fl_id league \<and>
    ro_accountId r = fl_accountId league \<and> list_all slot_ok (ro_slots r) \<and>
    (case previous of None \<Rightarrow> ro_revision r = 0
     | Some p \<Rightarrow> ro_revision r = ro_revision p + 1 \<and> ro_previousSnapshotId r = Some (ro_id p) \<and> ro_fantasyTeamId p = ft_id team)"
proof -
  note facts = roster_snapshot_Inr [OF assms]
  then have same: "roster_input.truncate r = trim_roster_input inp" by blast
  have fields: "ro_slots r = ro_slots (trim_roster_input inp)" "ro_revision r = ro_revision (trim_roster_input inp)"
    "ro_previousSnapshotId r = ro_previousSnapshotId (trim_roster_input inp)"
    "ro_fantasyTeamId r = ro_fantasyTeamId (trim_roster_input inp)"
    unfolding same [symmetric] by (simp_all add: roster_input.defs)
  show ?thesis
    using facts by (auto simp: fields roster_input_ok_def roster_succeeds_def split: option.splits)
qed

theorem roster_snapshots_are_well_formed_witness:
  "roster_wf (domain_result (createFantasyRosterSnapshot sample_fantasy_env (Some sample_roster_input) sample_league
     (sample_team ''t1'') sample_model [sample_player ''e1'' ROSTERED (Some ''t1'')] (sample_authority FANTASY_ROSTER_MANAGE) None))
     sample_league sample_model [sample_player ''e1'' ROSTERED (Some ''t1'')]"
  using roster_snapshots_are_well_formed [OF domain_result [OF roster_sample]] by (rule conjunct1)

text \<open>
  An authority that comes from a delegation is accepted only for the account that delegated,
  for the capability that was granted, and while the grant and the delegation of this account are in
  force; the activation of a league also needs an approval in force.
\<close>

theorem delegated_authority_rests_on_the_account:
  assumes "fantasyAuthorityFromDelegation env (evaluateLeagueDelegation e capability t now) r = Inr a"
    and "assertFantasyAuthority env a account c league team = Inr ()"
  shows "\<exists>time g d. now = Some time \<and> dv_grant e = Some g \<and> dv_delegation e = Some d \<and>
    gr_accountId g = Some (dr_accountId r) \<and> de_accountId d = dr_accountId r \<and> account = trim (dr_accountId r) \<and>
    gr_capability g = capability_name c \<and> {trim (gr_id g), trim (de_id d)} \<subseteq> set (fa_authorityReferenceIds a) \<and>
    in_force (gr_validFrom g) (gr_expiresAt g) (gr_revokedAt g) time \<and>
    in_force (de_validFrom d) (de_expiresAt d) (de_revokedAt d) time \<and>
    (c = FANTASY_LEAGUE_ACTIVATE \<longrightarrow> (\<exists>x. dv_approval e = Some x \<and> in_force (ap_validFrom x) (ap_expiresAt x) (ap_revokedAt x) time))"
proof -
  from delegation_authority_Inr [OF assms(1)] obtain refs where refs: "authorize e capability t now = Inr refs"
    and cap: "capability = capability_name (dr_capability r)" and acc: "dt_accountId t = Some (dr_accountId r)"
    and a: "a = trim_authority \<lparr>fa_accountId = dr_accountId r, fa_actorId = dr_actorId r, fa_source = LEAGUE_DELEGATION,
                     fa_capability = dr_capability r, fa_scope = dr_scope r, fa_authorityReferenceIds = refs,
                     fa_authorizedAt = dr_authorizedAt r\<rparr>" .
  have same: "account = trim (dr_accountId r)" "c = dr_capability r"
    using assms(2) unfolding delegation_authority_accepted [OF assms(1)] by (simp_all add: a trim_authority_def)
  obtain time pol g where g: "now = Some time" "map_of capabilityPolicies capability = Some pol"
      "check_grant e capability time = Inr g" "check_approval e capability pol g time = Inr ()"
    using authorizeE [OF refs] by metis
  obtain time' g' d where d: "now = Some time'" "dv_grant e = Some g'" "dv_delegation e = Some d" "de_accountId d = dr_accountId r"
      "gr_accountId g' = Some (dr_accountId r)" "in_force (gr_validFrom g') (gr_expiresAt g') (gr_revokedAt g') time'"
      "in_force (de_validFrom d) (de_expiresAt d) (de_revokedAt d) time'" "{me_id (dv_membership e), gr_id g', de_id d} \<subseteq> set refs"
    by (rule account_authority [OF refs acc])
  have "g' = g" "time' = time" using d(1,2) g(1) check_grantE(1) [OF g(3)] by simp_all
  moreover have "\<exists>x. dv_approval e = Some x \<and> in_force (ap_validFrom x) (ap_expiresAt x) (ap_revokedAt x) time"
    if "c = FANTASY_LEAGUE_ACTIVATE"
  proof -
    have "cp_approvalRequired pol" using g(2) by (auto simp: cap same(2) [symmetric] that capabilityPolicies_def policy_def)
    from check_approvalE [OF g(4) this] show ?thesis by metis
  qed
  ultimately show ?thesis
    using d g(1) same check_grantE(2) [OF g(3)] by (auto simp: cap a trim_authority_def)
qed

theorem delegated_authority_rests_on_the_account_witness:
  "\<exists>g. dv_grant sample_evidence = Some g \<and> gr_accountId g = Some ''account''"
  using delegated_authority_rests_on_the_account [OF sample_delegated(1,2)] by (auto simp: sample_request_def)

text \<open>
  C39: The result of a team for a period adds up: its total is the sum of its categories and the sum
  of the scores of its players, within the safe integers; every active slot is accounted for once,
  by a score or by an uncertainty; and the result is final exactly when finalisation was asked for.
\<close>

theorem team_results_add_up:
  assumes "calculateFantasyTeamPeriodResult env i league team roster m authority previous = Inr r"
  shows "tp_totalMilliPoints r = sum_list (map cs_milliPoints (tp_categoryTotals r)) \<and>
    tp_totalMilliPoints r = sum_list (map fs_totalMilliPoints (List.map_filter so_score (tp_sources r))) \<and>
    \<bar>tp_totalMilliPoints r\<bar> \<le> max_safe_integer \<and>
    map cs_categoryId (tp_categoryTotals r) = map ca_id (fm_categories m) \<and>
    mset (map rs_id (active_slots roster)) =
      mset (map un_rosterSlotId (tp_uncertainties r)) + mset (map so_rosterSlotId (filter scored (tp_sources r))) \<and>
    0 \<le> tp_completedSourceCount r \<and> tp_completedSourceCount r \<le> int (length (active_slots roster)) \<and>
    (rs_status r = FINAL_RESULT \<longleftrightarrow> ti_finalize i)"
proof -
  obtain v sources status revision audit where fold: "fold_res (score_slot env m sources) (start_tally m) (active_slots roster) = Inr v"
    and status: "period_status i (all_resolved (pt_uncertainties v)) = Inr status"
    and body: "team_result_body.truncate r = team_result_body_of i roster v
      (result_base_of i status (team_lineage m (pt_sources v)) (sg_teamSource env (team_sources i roster m)) revision audit)"
    and wf: "model_wf m"
    by (rule team_result_Inr [OF assms])
  have inv: "tally_inv m (active_slots roster) v"
    using tally_slots [OF fold tally_start] wf by (simp add: model_wf_def)
  have fields: "tp_totalMilliPoints r = pt_totalMilliPoints v" "tp_categoryTotals r = pt_categoryTotals v" "tp_sources r = pt_sources v"
    "tp_uncertainties r = pt_uncertainties v" "tp_completedSourceCount r = pt_completedSourceCount v" "rs_status r = status"
    using arg_cong [OF body, of tp_totalMilliPoints] arg_cong [OF body, of tp_categoryTotals] arg_cong [OF body, of tp_sources]
      arg_cong [OF body, of tp_uncertainties] arg_cong [OF body, of tp_completedSourceCount] arg_cong [OF body, of rs_status]
    by (simp_all add: team_result_body.defs team_result_body_of_def result_base.defs result_base_of_def)
  have "length (filter scored (pt_sources v)) \<le> length (active_slots roster)"
  proof -
    have "mset (map rs_id (active_slots roster)) =
        mset (map un_rosterSlotId (pt_uncertainties v)) + mset (map so_rosterSlotId (filter scored (pt_sources v)))"
      using inv by (simp only: tally_inv_def)
    from arg_cong [OF this, of size] show ?thesis by (simp del: mset_filter)
  qed
  moreover have "status = FINAL_RESULT \<longleftrightarrow> ti_finalize i"
    using status by (auto simp: period_status_def Let_def result_simps split: if_splits)
  ultimately show ?thesis using inv by (simp add: fields tally_inv_def safe_int_def abs_le_iff)
qed

theorem team_results_add_up_witness:
  "\<bar>tp_totalMilliPoints (result_of (week_of ''t1'' [sample_statistics] ''e1''))\<bar> \<le> max_safe_integer"
  using team_results_add_up [OF result_of [OF week_ok, unfolded week_of_def]] unfolding week_of_def by (elim conjE)

text \<open>
  C40: A table is a ranking of exactly the teams of the season: as many wins as losses, two games for
  every completed matchup, as many points for as against; each record adds up, the records are ordered
  by standing points, differential, points, seed and id.  The first ranks, as many as the playoffs take, qualify
  when the regular season is complete and no matchup is pending; before that they are the current cutoff, and the other ranks do not
  qualify.
\<close>

theorem standings_rank_and_balance:
  assumes "calculateFantasyStandings env i ms authority previous = Inr r"
  shows "mset (map sr_fantasyTeamId (sd_records r)) = mset (map st_fantasyTeamId (si_teams i)) \<and>
    map sr_rank (sd_records r) = map (\<lambda>k. int k + 1) [0..<length (si_teams i)] \<and>
    list_all (\<lambda>s. sr_gamesPlayed s = sr_wins s + sr_losses s + sr_ties s \<and> sr_standingPoints s = 2 * sr_wins s + sr_ties s \<and>
      sr_pointsDifferentialMilli s = sr_pointsForMilli s - sr_pointsAgainstMilli s) (sd_records r) \<and>
    sum_list (map sr_wins (sd_records r)) = sum_list (map sr_losses (sd_records r)) \<and>
    sum_list (map sr_gamesPlayed (sd_records r)) = 2 * sd_completedMatchupCount r \<and>
    sum_list (map sr_pointsForMilli (sd_records r)) = sum_list (map sr_pointsAgainstMilli (sd_records r)) \<and>
    sorted (map (\<lambda>s. (- sr_standingPoints s, - sr_pointsDifferentialMilli s, - sr_pointsForMilli s,
      sr_predeclaredSeed s, sr_fantasyTeamId s)) (sd_records r)) \<and>
    map sr_playoffQualification (sd_records r) = map (\<lambda>k. if int k < si_playoffTeamCount i
      then (if si_regularSeasonComplete i \<and> sd_pendingMatchupCount r = 0 then QUALIFIED else CURRENT_CUTOFF)
      else NOT_QUALIFIED) [0..<length (si_teams i)]"
proof -
  obtain v where inv: "table_inv i v"
    and recs: "sd_records r = records_from (si_playoffTeamCount i) (rs_status r) 0 (sort_key standing_key (sl_standings v))"
    and status: "rs_status r = (if si_regularSeasonComplete i \<and> sl_pending v = 0 then FINAL_RESULT else IN_PROGRESS_RESULT)"
    and count: "sd_completedMatchupCount r = sl_completed v" "sd_pendingMatchupCount r = sl_pending v"
    by (rule standings_Inr [OF assms])
  let ?ss = "sort_key standing_key (sl_standings v)"
  have ids: "map st_fantasyTeamId (sl_standings v) = map st_fantasyTeamId (si_teams i)"
  proof -
    have "map fst (map (\<lambda>s. (st_fantasyTeamId s, st_predeclaredSeed s)) (sl_standings v)) =
      map fst (map (\<lambda>t. (st_fantasyTeamId t, st_predeclaredSeed t)) (si_teams i))"
      using inv by (simp only: table_inv_def)
    then show ?thesis by (simp add: comp_def)
  qed
  have fields: "map sr_fantasyTeamId (sd_records r) = map st_fantasyTeamId ?ss" "map sr_wins (sd_records r) = map sg_wins ?ss"
    "map sr_losses (sd_records r) = map sg_losses ?ss" "map sr_gamesPlayed (sd_records r) = map sg_gamesPlayed ?ss"
    "map sr_pointsForMilli (sd_records r) = map sg_pointsForMilli ?ss"
    "map sr_pointsAgainstMilli (sd_records r) = map sg_pointsAgainstMilli ?ss"
    "map (\<lambda>s. (- sr_standingPoints s, - sr_pointsDifferentialMilli s, - sr_pointsForMilli s,
      sr_predeclaredSeed s, sr_fantasyTeamId s)) (sd_records r) = map standing_key ?ss"
    unfolding recs by (rule map_records_from; simp add: standing_record_of_def Let_def standing_key_def)+
  have sums: "sum_list (map h ?ss) = sum_list (map h (sl_standings v))" for h :: "standing \<Rightarrow> int"
    using sum_mset_sum_list [of "map h ?ss"] sum_mset_sum_list [of "map h (sl_standings v)"] by simp
  have "mset (map st_fantasyTeamId ?ss) = mset (map st_fantasyTeamId (sl_standings v))" by simp
  moreover have "map sr_rank (sd_records r) = map (\<lambda>k. int k + 1) [0..<length (si_teams i)]"
    using arg_cong [OF ids, of length]
    by (intro nth_equalityI) (simp_all add: recs nth_records_from standing_record_of_def Let_def)
  moreover have "map sr_playoffQualification (sd_records r) = map (\<lambda>k. if int k < si_playoffTeamCount i
      then (if si_regularSeasonComplete i \<and> sd_pendingMatchupCount r = 0 then QUALIFIED else CURRENT_CUTOFF)
      else NOT_QUALIFIED) [0..<length (si_teams i)]"
    using arg_cong [OF ids, of length]
    by (intro nth_equalityI) (simp_all add: recs status count nth_records_from standing_record_of_def Let_def)
  moreover have "list_all (\<lambda>s. sr_gamesPlayed s = sr_wins s + sr_losses s + sr_ties s \<and> sr_standingPoints s = 2 * sr_wins s + sr_ties s \<and>
      sr_pointsDifferentialMilli s = sr_pointsForMilli s - sr_pointsAgainstMilli s) (sd_records r)"
  proof -
    have "standing_ok s" if "s \<in> set ?ss" for s using inv that by (simp add: table_inv_def)
    then show ?thesis
      by (auto simp: list_all_length recs nth_records_from standing_record_of_def Let_def standing_points_def differential_def
          standing_ok_def simp del: set_sort)
  qed
  ultimately show ?thesis using inv ids by (simp add: fields sums count table_inv_def)
qed

theorem standings_rank_and_balance_witness:
  "mset (map sr_fantasyTeamId (sd_records (result_of (calculateFantasyStandings sample_scoring_env sample_standings_input [sample_matchup]
    (sample_authority FANTASY_SCORING_CALCULATE) None)))) = {#''t1'', ''t2''#}"
  using standings_rank_and_balance [OF result_of [OF standings_ok]] by (simp add: sample_standings_input_def)

end
